(* ===== verification/Prelude.thy ===== *)
theory Prelude
  imports Main "HOL-Library.Word"
begin

text \<open>
  What every component of the development shares: the machine integers of the program, the
  fact collections the component proofs pass to the simplifier, and lemmas on lists, maps and
  words that several components use.

  Unsigned machine integers are words. A signed machine integer (\<open>i32\<close>, \<open>i64\<close>) is an
  \<open>int\<close> in its range; the casts that produce one (\<open>x as i32\<close>) are written with
  \<open>sint\<close>. \<open>usize\<close> is the 64-bit type of the only target (x86-64 Linux), and is a
  \<open>nat\<close> where the code counts or indexes with it.
\<close>

unbundle bit_operations_syntax

type_synonym u8 = "8 word"
type_synonym u16 = "16 word"
type_synonym u32 = "32 word"
type_synonym u64 = "64 word"
type_synonym i16 = int
type_synonym i32 = int
type_synonym i64 = int
type_synonym usize = nat
type_synonym pid_t = int
type_synonym rfd = int

named_theorems rust_simps "models of the standard library, unfolded together"
named_theorems json_intros "introduction rules for well-formed JSON text"
named_theorems step_simps "the handlers of the state machines, unfolded together"

subsection \<open>Casts between machine integers\<close>

definition u64_as_i32 :: "u64 \<Rightarrow> i32" where
  "u64_as_i32 x = sint (ucast x :: 32 word)"

definition u64_as_i64 :: "u64 \<Rightarrow> i64" where
  "u64_as_i64 x = sint x"

definition i64_as_i32 :: "i64 \<Rightarrow> i32" where
  "i64_as_i32 x = sint (word_of_int x :: 32 word)"

definition i64_as_u64 :: "i64 \<Rightarrow> u64" where
  "i64_as_u64 x = word_of_int x"

definition u32_max :: nat where
  "u32_max = 4294967295"

definition usize_max :: nat where
  "usize_max = 18446744073709551615"

text \<open>\<open>saturating_add\<close> on a type with the given greatest value; \<open>saturating_sub\<close> is the
  subtraction of \<open>nat\<close>.\<close>

definition saturating_add :: "nat \<Rightarrow> nat \<Rightarrow> nat \<Rightarrow> nat" where
  "saturating_add limit a b = min limit (a + b)"

lemma i64_as_i32_small: "- (2 ^ 31) \<le> x \<Longrightarrow> x < 2 ^ 31 \<Longrightarrow> i64_as_i32 x = x"
  by (simp add: i64_as_i32_def sint_sbintrunc' signed_take_bit_int_eq_self)

lemma u64_as_i32_range: "- (2 ^ 31) \<le> u64_as_i32 x \<and> u64_as_i32 x < 2 ^ 31"
  using sint_greater_eq [of "ucast x :: 32 word"] sint_less [of "ucast x :: 32 word"]
  by (simp add: u64_as_i32_def)

lemma saturating_add_le: "a \<le> limit \<Longrightarrow> saturating_add limit a b \<le> limit"
  by (simp add: saturating_add_def)

lemma saturating_add_exact: "a + b \<le> limit \<Longrightarrow> saturating_add limit a b = a + b"
  by (simp add: saturating_add_def)

lemma saturating_add_restore: "a < limit \<Longrightarrow> saturating_add limit a 1 - 1 = a"
  by (simp add: saturating_add_def)

subsection \<open>Lists and maps\<close>

definition last_opt :: "'a list \<Rightarrow> 'a option" where
  "last_opt xs = (if xs = [] then None else Some (last xs))"

lemma last_opt_simps [simp]:
  "last_opt [] = None" "last_opt (xs @ [x]) = Some x"
  by (simp_all add: last_opt_def)

text \<open>\<open>get(i)\<close> of a slice.\<close>

definition nth_opt :: "'a list \<Rightarrow> nat \<Rightarrow> 'a option" where
  "nth_opt xs i = (if i < length xs then Some (xs ! i) else None)"

definition map_default :: "'v \<Rightarrow> ('k \<Rightarrow> 'v option) \<Rightarrow> 'k \<Rightarrow> 'v" where
  "map_default d m k = (case m k of None \<Rightarrow> d | Some v \<Rightarrow> v)"

lemma map_default_simps [simp]:
  "m k = None \<Longrightarrow> map_default d m k = d"
  "m k = Some v \<Longrightarrow> map_default d m k = v"
  by (simp_all add: map_default_def)

lemma map_default_upd [simp]:
  "map_default d (m(k \<mapsto> v)) k = v"
  "k' \<noteq> k \<Longrightarrow> map_default d (m(k \<mapsto> v)) k' = map_default d m k'"
  by (simp_all add: map_default_def)

end
