(* ===== verification/Rust_Std.thy ===== *)
theory Rust_Std
  imports Prelude
begin

text \<open>
  The parts of Rust's standard library the program uses, as HOL functions on \<open>string\<close>.

  A Rust \<open>String\<close> is a vector of bytes that is valid UTF-8, and is modelled as the
  \<open>char list\<close> of those bytes. Operations that look at ASCII characters only
  (\<open>split(',')\<close>, \<open>to_ascii_lowercase\<close>, \<open>starts_with\<close> of a literal) work on the
  bytes; operations that iterate over Unicode scalar values (\<open>chars()\<close>, \<open>trim()\<close>) go
  through \<open>chunks\<close>, the decoder that \<open>String::from_utf8_lossy\<close> uses too.
\<close>

subsection \<open>Bytes and characters\<close>

abbreviation ord :: "char \<Rightarrow> nat" where
  "ord c \<equiv> of_char c"

abbreviation dquote :: char where "dquote \<equiv> CHR 0x22"
abbreviation bslash :: char where "bslash \<equiv> CHR 0x5C"
abbreviation newline :: char where "newline \<equiv> CHR 0x0A"
abbreviation creturn :: char where "creturn \<equiv> CHR 0x0D"
abbreviation tab :: char where "tab \<equiv> CHR 0x09"

definition byte_char :: "u8 \<Rightarrow> char" where
  "byte_char b = char_of (unat b)"

definition char_byte :: "char \<Rightarrow> u8" where
  "char_byte c = of_nat (of_char c)"

definition bytes_string :: "u8 list \<Rightarrow> string" where
  "bytes_string bs = map byte_char bs"

definition string_bytes :: "string \<Rightarrow> u8 list" where
  "string_bytes s = map char_byte s"

lemma unat_less_256 [simp]: "unat (b :: u8) < 256"
  using unsigned_less [of b, where 'a = nat] by simp

lemma ord_byte_char [simp]: "ord (byte_char b) = unat b"
  by (simp add: byte_char_def)

lemma char_byte_char [simp]: "char_byte (byte_char b) = b"
  by (simp add: byte_char_def char_byte_def)

lemma unat_char_byte [simp]: "unat (char_byte c) = ord c"
  by (simp add: char_byte_def unat_of_nat)

lemma byte_char_byte [simp]: "byte_char (char_byte c) = c"
  by (simp add: byte_char_def)

lemma bytes_string_inverse [simp]:
  "string_bytes (bytes_string bs) = bs"
  "bytes_string (string_bytes s) = s"
  by (simp_all add: bytes_string_def string_bytes_def comp_def)

lemma length_string_bytes [simp]:
  "length (string_bytes s) = length s"
  "length (bytes_string bs) = length bs"
  by (simp_all add: bytes_string_def string_bytes_def)

subsection \<open>UTF-8\<close>

text \<open>
  One step of \<open>core::str::lossy::Utf8Chunks\<close>: whether the bytes at the front are a
  well-formed scalar value, and how many bytes the step consumes. \<open>byte_at\<close> is its
  \<open>safe_get\<close>, which reads a zero past the end.
\<close>

definition byte_at :: "string \<Rightarrow> nat \<Rightarrow> nat" where
  "byte_at s i = (if i < length s then ord (s ! i) else 0)"

definition is_cont :: "nat \<Rightarrow> bool" where
  "is_cont b \<longleftrightarrow> 128 \<le> b \<and> b \<le> 191"

definition second_of_three :: "nat \<Rightarrow> nat \<Rightarrow> bool" where
  "second_of_three b n =
     (if b = 224 then 160 \<le> n \<and> n \<le> 191
      else if b = 237 then 128 \<le> n \<and> n \<le> 159
      else is_cont n)"

definition second_of_four :: "nat \<Rightarrow> nat \<Rightarrow> bool" where
  "second_of_four b n =
     (if b = 240 then 144 \<le> n \<and> n \<le> 191
      else if b = 244 then 128 \<le> n \<and> n \<le> 143
      else is_cont n)"

definition utf8_step :: "string \<Rightarrow> bool \<times> nat" where
  "utf8_step s =
     (let b = byte_at s 0; n1 = byte_at s 1; n2 = byte_at s 2; n3 = byte_at s 3 in
      if b < 128 then (True, 1)
      else if 194 \<le> b \<and> b \<le> 223 then (if is_cont n1 then (True, 2) else (False, 1))
      else if 224 \<le> b \<and> b \<le> 239 then
        (if \<not> second_of_three b n1 then (False, 1)
         else if \<not> is_cont n2 then (False, 2) else (True, 3))
      else if 240 \<le> b \<and> b \<le> 244 then
        (if \<not> second_of_four b n1 then (False, 1)
         else if \<not> is_cont n2 then (False, 2)
         else if \<not> is_cont n3 then (False, 3) else (True, 4))
      else (False, 1))"

lemma byte_at_pos: "0 < byte_at s i \<Longrightarrow> i < length s"
  by (auto simp: byte_at_def split: if_splits)

lemma is_cont_pos: "is_cont (byte_at s i) \<Longrightarrow> i < length s"
  by (rule byte_at_pos) (simp add: is_cont_def)

lemma second_is_cont:
  "second_of_three b n \<Longrightarrow> is_cont n"
  "second_of_four b n \<Longrightarrow> is_cont n"
  by (auto simp: second_of_three_def second_of_four_def is_cont_def split: if_splits)

lemma utf8_step_bounds:
  assumes "s \<noteq> []" and "utf8_step s = (v, n)"
  shows "1 \<le> n \<and> n \<le> length s"
proof -
  have c: "second_of_three (byte_at s 0) (byte_at s 1) \<Longrightarrow> 1 < length s"
    "second_of_four (byte_at s 0) (byte_at s 1) \<Longrightarrow> 1 < length s"
    using second_is_cont is_cont_pos by blast+
  show ?thesis
    using assms c is_cont_pos [of s 1] is_cont_pos [of s 2] is_cont_pos [of s 3]
    by (auto simp: utf8_step_def Let_def Suc_le_eq split: if_splits)
qed

lemma byte_at_take [simp]: "i < n \<Longrightarrow> n \<le> length s \<Longrightarrow> byte_at (take n s @ t) i = byte_at s i"
  by (auto simp: byte_at_def nth_append)

lemma utf8_step_prefix:
  assumes "s \<noteq> []" and "utf8_step s = (True, n)"
  shows "utf8_step (take n s @ t) = (True, n)"
proof -
  have n: "n \<le> length s" using utf8_step_bounds [OF assms] by simp
  show ?thesis
    using assms(2) n by (auto simp: utf8_step_def Let_def split: if_splits)
qed

function chunks :: "string \<Rightarrow> (bool \<times> string) list" where
  "chunks s =
     (if s = [] then []
      else (fst (utf8_step s), take (snd (utf8_step s)) s) # chunks (drop (snd (utf8_step s)) s))"
  by pat_completeness auto
termination
  by (relation "measure length")
    (auto dest: utf8_step_bounds [OF _ prod.collapse [symmetric]])

declare chunks.simps [simp del]

lemma chunks_Nil [simp]: "chunks [] = []"
  by (simp add: chunks.simps)

text \<open>\<open>chars()\<close> of a \<open>str\<close>, each scalar value given by its UTF-8 bytes.\<close>

definition rust_chars :: "string \<Rightarrow> string list" where
  "rust_chars s = map snd (chunks s)"

text \<open>The validity every \<open>String\<close> has by construction.\<close>

definition utf8 :: "string \<Rightarrow> bool" where
  "utf8 s \<longleftrightarrow> list_all fst (chunks s)"

definition replacement :: string where
  "replacement = map char_of [239, 191, 189 :: nat]"

definition from_utf8_lossy :: "string \<Rightarrow> string" where
  "from_utf8_lossy s = concat (map (\<lambda>(v, c). if v then c else replacement) (chunks s))"

lemma concat_chunks: "concat (map snd (chunks s)) = s"
proof (induction s rule: chunks.induct)
  case (1 s)
  show ?case
  proof (cases "s = []")
    case False
    with "1.IH" show ?thesis by (simp add: chunks.simps [of s])
  qed simp
qed

lemma concat_rust_chars [simp]: "concat (rust_chars s) = s"
  by (simp add: rust_chars_def concat_chunks)

lemma utf8_Nil [simp]: "utf8 []"
  by (simp add: utf8_def)

lemma chunks_valid_append:
  assumes "s \<noteq> []" and "utf8_step s = (True, n)"
  shows "chunks (take n s @ t) = (True, take n s) # chunks t"
proof -
  have n: "1 \<le> n" "n \<le> length s" using utf8_step_bounds [OF assms] by simp_all
  then have "take n s @ t \<noteq> []" using assms(1) by auto
  then show ?thesis
    using n by (simp add: chunks.simps [of "take n s @ t"] utf8_step_prefix [OF assms])
qed

lemma utf8_chunks_append:
  "utf8 s \<Longrightarrow> chunks (s @ t) = chunks s @ chunks t"
proof (induction s rule: chunks.induct)
  case (1 s)
  show ?case
  proof (cases "s = []")
    case False
    obtain v n where st: "utf8_step s = (v, n)" by fastforce
    with False "1.prems" have v: "v" and u: "utf8 (drop n s)"
      by (simp_all add: utf8_def chunks.simps [of s])
    have "chunks (s @ t) = chunks (take n s @ (drop n s @ t))"
      by (simp flip: append_assoc)
    also have "\<dots> = (True, take n s) # chunks (drop n s @ t)"
      using chunks_valid_append [OF False] st v by simp
    also have "\<dots> = chunks s @ chunks t"
      using "1.IH" [OF False] u v st by (simp add: chunks.simps [of s] False)
    finally show ?thesis .
  qed simp
qed

lemma utf8_append [intro]: "utf8 s \<Longrightarrow> utf8 t \<Longrightarrow> utf8 (s @ t)"
  using utf8_chunks_append [of s t] by (simp add: utf8_def)

lemma rust_chars_append: "utf8 s \<Longrightarrow> rust_chars (s @ t) = rust_chars s @ rust_chars t"
  by (simp add: rust_chars_def utf8_chunks_append)

lemma utf8_concat: "list_all utf8 xs \<Longrightarrow> utf8 (concat xs)"
  by (induction xs) auto

lemma chunks_ascii_Cons: "ord c < 128 \<Longrightarrow> chunks (c # s) = (True, [c]) # chunks s"
  by (simp add: chunks.simps [of "c # s"] utf8_step_def byte_at_def Let_def)

lemma rust_chars_ascii_Cons [simp]: "ord c < 128 \<Longrightarrow> rust_chars (c # s) = [c] # rust_chars s"
  by (simp add: rust_chars_def chunks_ascii_Cons)

lemma rust_chars_Nil [simp]: "rust_chars [] = []"
  by (simp add: rust_chars_def)

lemma utf8_ascii_Cons [simp]: "ord c < 128 \<Longrightarrow> utf8 (c # s) = utf8 s"
  by (simp add: utf8_def chunks_ascii_Cons)

definition ascii :: "string \<Rightarrow> bool" where
  "ascii s \<longleftrightarrow> list_all (\<lambda>c. ord c < 128) s"

lemma ascii_simps [simp]:
  "ascii []" "ascii (c # s) = (ord c < 128 \<and> ascii s)" "ascii (s @ t) = (ascii s \<and> ascii t)"
  by (simp_all add: ascii_def)

lemma ascii_utf8: "ascii s \<Longrightarrow> utf8 s"
  by (induction s) simp_all

lemma utf8_replacement: "utf8 replacement"
  by (simp add: utf8_def replacement_def chunks.simps utf8_step_def byte_at_def Let_def
      second_of_three_def is_cont_def)

lemma utf8_chunk:
  assumes "s \<noteq> []" and "utf8_step s = (True, n)"
  shows "utf8 (take n s)"
  using chunks_valid_append [OF assms, of "[]"] by (simp add: utf8_def)

lemma utf8_from_utf8_lossy: "utf8 (from_utf8_lossy s)"
proof (induction s rule: chunks.induct)
  case (1 s)
  show ?case
  proof (cases "s = []")
    case True
    then show ?thesis by (simp add: from_utf8_lossy_def)
  next
    case False
    obtain v n where st: "utf8_step s = (v, n)" by fastforce
    have "from_utf8_lossy s = (if v then take n s else replacement) @ from_utf8_lossy (drop n s)"
      using False st by (simp add: from_utf8_lossy_def chunks.simps [of s])
    with "1.IH" [OF False] st show ?thesis
      using utf8_chunk [OF False] utf8_replacement by auto
  qed
qed

lemma from_utf8_lossy_id: "utf8 s \<Longrightarrow> from_utf8_lossy s = s"
proof -
  assume "utf8 s"
  then have "map (\<lambda>(v, c). if v then c else replacement) (chunks s) = map snd (chunks s)"
    by (auto simp: utf8_def list_all_iff split_beta)
  then have "from_utf8_lossy s = concat (map snd (chunks s))"
    by (simp only: from_utf8_lossy_def)
  then show ?thesis by (simp add: concat_chunks)
qed

text \<open>The UTF-8 encoding of a scalar value, and \<open>from_utf16_lossy\<close>: a surrogate without its partner
  becomes the replacement character.\<close>

definition encode_utf8 :: "nat \<Rightarrow> string" where
  "encode_utf8 n = map char_of
     (if n < 128 then [n]
      else if n < 2048 then [192 + n div 64, 128 + n mod 64]
      else if n < 65536 then [224 + n div 4096, 128 + n div 64 mod 64, 128 + n mod 64]
      else [240 + n div 262144, 128 + n div 4096 mod 64, 128 + n div 64 mod 64, 128 + n mod 64])"

fun utf16_scalars :: "u16 list \<Rightarrow> nat list" where
  "utf16_scalars [] = []"
| "utf16_scalars [u] = [if 0xd800 \<le> u \<and> u \<le> 0xdfff then 0xfffd else unat u]"
| "utf16_scalars (u # v # us) =
     (if \<not> (0xd800 \<le> u \<and> u \<le> 0xdfff) then unat u # utf16_scalars (v # us)
      else if u < 0xdc00 \<and> 0xdc00 \<le> v \<and> v \<le> 0xdfff then
        (0x10000 + (unat u - 0xd800) * 0x400 + (unat v - 0xdc00)) # utf16_scalars us
      else 0xfffd # utf16_scalars (v # us))"

definition from_utf16_lossy :: "u16 list \<Rightarrow> string" where
  "from_utf16_lossy us = concat (map encode_utf8 (utf16_scalars us))"

definition is_scalar :: "nat \<Rightarrow> bool" where
  "is_scalar n \<longleftrightarrow> n < 55296 \<or> (57344 \<le> n \<and> n < 1114112)"

lemma utf8_valid_step: "s \<noteq> [] \<Longrightarrow> utf8_step s = (True, length s) \<Longrightarrow> utf8 s"
  using utf8_chunk [of s "length s"] by simp

lemma mod_64_le [simp]: "n mod 64 \<le> (63 :: nat)"
  using mod_less_divisor [of 64 n] by linarith

lemma utf8_encode_scalar:
  assumes "is_scalar n"
  shows "utf8 (encode_utf8 n)"
proof -
  consider "n < 128" | "128 \<le> n" "n < 2048" | "2048 \<le> n" "n < 65536" | "65536 \<le> n" "n < 1114112"
    using assms unfolding is_scalar_def by linarith
  then show ?thesis
  proof cases
    case 1
    then show ?thesis by (simp add: encode_utf8_def)
  next
    case 2
    then have "2 \<le> n div 64" "n div 64 < 32" by (simp_all add: less_mult_imp_div_less div_le_mono [of 128 n 64, simplified])
    with 2 show ?thesis
      by (intro utf8_valid_step) (simp_all add: encode_utf8_def utf8_step_def byte_at_def is_cont_def Let_def)
  next
    case 3
    let ?a = "n div 4096" and ?b = "n div 64 mod 64"
    have a: "?a < 16" using 3 by (simp add: less_mult_imp_div_less)
    have "n div 64 div 64 = ?a" by (simp flip: div_mult2_eq)
    with div_mult_mod_eq [of "n div 64" 64] have n: "n div 64 = ?a * 64 + ?b" by simp
    have "?a = 0 \<Longrightarrow> 32 \<le> ?b" using 3 n div_le_mono [of 2048 n 64] by simp
    moreover have "?a = 13 \<Longrightarrow> ?b < 32"
    proof (rule ccontr)
      assume "?a = 13" "\<not> ?b < 32"
      with n have "864 \<le> n div 64" "n div 64 < 896" by simp_all
      then have "55296 \<le> n" "n < 57344" by (simp_all add: less_eq_div_iff_mult_less_eq div_less_iff_less_mult)
      with assms show False by (simp add: is_scalar_def)
    qed
    ultimately have "second_of_three (224 + ?a) (128 + ?b)"
      by (auto simp: second_of_three_def is_cont_def)
    with 3 a show ?thesis
      by (intro utf8_valid_step) (simp_all add: encode_utf8_def utf8_step_def byte_at_def is_cont_def Let_def)
  next
    case 4
    let ?a = "n div 262144" and ?b = "n div 4096 mod 64"
    have a: "?a < 5" using 4 by (simp add: less_mult_imp_div_less)
    have "n div 4096 div 64 = ?a" by (simp flip: div_mult2_eq)
    with div_mult_mod_eq [of "n div 4096" 64] have n: "n div 4096 = ?a * 64 + ?b" by simp
    have "?a = 0 \<Longrightarrow> 16 \<le> ?b" using 4 n div_le_mono [of 65536 n 4096] by simp
    moreover have "?a = 4 \<Longrightarrow> ?b < 16"
    proof -
      have "n div 4096 < 272" using 4 by (simp add: less_mult_imp_div_less)
      with n show "?a = 4 \<Longrightarrow> ?b < 16" by simp
    qed
    ultimately have "second_of_four (240 + ?a) (128 + ?b)"
      by (auto simp: second_of_four_def is_cont_def)
    with 4 a show ?thesis
      by (intro utf8_valid_step) (simp_all add: encode_utf8_def utf8_step_def byte_at_def is_cont_def Let_def)
  qed
qed

lemma utf16_scalars_valid: "list_all is_scalar (utf16_scalars us)"
proof (induction us rule: utf16_scalars.induct)
  case (2 u)
  then show ?case using unsigned_less [of u, where 'a = nat] by (auto simp: is_scalar_def word_le_nat_alt)
next
  case (3 u v us)
  then show ?case
    using unsigned_less [of u, where 'a = nat] by (auto simp: is_scalar_def word_le_nat_alt word_less_nat_alt)
qed simp

lemma utf8_from_utf16_lossy: "utf8 (from_utf16_lossy us)"
  unfolding from_utf16_lossy_def
  using utf16_scalars_valid [of us] by (intro utf8_concat) (auto simp: list_all_iff utf8_encode_scalar)

text \<open>The code point of one scalar value given by its bytes.\<close>

fun code_point :: "string \<Rightarrow> nat" where
  "code_point [a] = ord a"
| "code_point [a, b] = (ord a mod 32) * 64 + ord b mod 64"
| "code_point [a, b, c] = (ord a mod 16) * 4096 + (ord b mod 64) * 64 + ord c mod 64"
| "code_point [a, b, c, d] =
     (ord a mod 8) * 262144 + (ord b mod 64) * 4096 + (ord c mod 64) * 64 + ord d mod 64"
| "code_point _ = 0"

end
