(* ===== verification/Rust_Fmt.thy ===== *)
theory Rust_Fmt
  imports Rust_Std
begin

text \<open>
  Formatting, parsing and searching of strings: the \<open>{}\<close>, \<open>{:x}\<close> and \<open>{:o}\<close>
  of \<open>format!\<close>, \<open>parse::<usize>()\<close> and \<open>from_str_radix\<close>, and the \<open>str\<close> methods the
  program calls. The lemmas say that printing and parsing are inverse to each other and that
  printed numbers are ASCII without JSON's special characters.
\<close>

subsection \<open>Printing numbers\<close>

definition digit_char :: "nat \<Rightarrow> char" where
  "digit_char d = char_of (if d < 10 then 48 + d else 87 + d)"

function digits :: "nat \<Rightarrow> nat \<Rightarrow> nat list" where
  "digits b n = (if b < 2 \<or> n < b then [n] else digits b (n div b) @ [n mod b])"
  by pat_completeness auto
termination
  by (relation "measure snd") auto

declare digits.simps [simp del]

definition radix :: "nat \<Rightarrow> nat \<Rightarrow> string" where
  "radix b n = map digit_char (digits b n)"

abbreviation dec :: "nat \<Rightarrow> string" where "dec n \<equiv> radix 10 n"
abbreviation hex :: "nat \<Rightarrow> string" where "hex n \<equiv> radix 16 n"
abbreviation oct :: "nat \<Rightarrow> string" where "oct n \<equiv> radix 8 n"

definition dec_int :: "int \<Rightarrow> string" where
  "dec_int i = (if i < 0 then CHR ''-'' # dec (nat (- i)) else dec (nat i))"

text \<open>\<open>0x{:x}\<close>, the form most addresses and flags are printed in.\<close>

definition hex0x :: "nat \<Rightarrow> string" where
  "hex0x n = ''0x'' @ hex n"

text \<open>\<open>{:0w x}\<close>: padded with zeroes on the left.\<close>

definition hex_pad :: "nat \<Rightarrow> nat \<Rightarrow> string" where
  "hex_pad w n = replicate (w - length (hex n)) CHR ''0'' @ hex n"

subsection \<open>Parsing numbers\<close>

definition digit_val :: "nat \<Rightarrow> char \<Rightarrow> nat option" where
  "digit_val b c =
     (let n = ord c;
          d = (if 48 \<le> n \<and> n \<le> 57 then n - 48
               else if 97 \<le> n \<and> n \<le> 122 then n - 87
               else if 65 \<le> n \<and> n \<le> 90 then n - 55 else b)
      in if d < b then Some d else None)"

fun parse_digits_acc :: "nat \<Rightarrow> nat \<Rightarrow> string \<Rightarrow> nat option" where
  "parse_digits_acc b acc [] = Some acc"
| "parse_digits_acc b acc (c # s) =
     (case digit_val b c of None \<Rightarrow> None | Some d \<Rightarrow> parse_digits_acc b (acc * b + d) s)"

definition parse_digits :: "nat \<Rightarrow> string \<Rightarrow> nat option" where
  "parse_digits b s = (if s = [] then None else parse_digits_acc b 0 s)"

text \<open>\<open>from_str_radix\<close> of an unsigned type with \<open>bits\<close> bits: one leading plus sign is
  accepted, an empty digit string and an overflow are errors.\<close>

definition parse_unsigned :: "nat \<Rightarrow> nat \<Rightarrow> string \<Rightarrow> nat option" where
  "parse_unsigned bits b s =
     (case parse_digits b (case s of c # r \<Rightarrow> if c = CHR ''+'' then r else s | [] \<Rightarrow> []) of
        None \<Rightarrow> None
      | Some n \<Rightarrow> if n < 2 ^ bits then Some n else None)"

text \<open>\<open>parse\<close> of a signed type with \<open>bits\<close> bits.\<close>

definition parse_signed :: "nat \<Rightarrow> string \<Rightarrow> int option" where
  "parse_signed bits s =
     (case s of
        [] \<Rightarrow> None
      | c # r \<Rightarrow>
          (if c = CHR ''-'' then
             (case parse_digits 10 r of None \<Rightarrow> None
              | Some n \<Rightarrow> if n \<le> 2 ^ (bits - 1) then Some (- int n) else None)
           else
             (case parse_digits 10 (if c = CHR ''+'' then r else s) of None \<Rightarrow> None
              | Some n \<Rightarrow> if n < 2 ^ (bits - 1) then Some (int n) else None)))"

lemma digits_less: "2 \<le> b \<Longrightarrow> \<forall>d \<in> set (digits b n). d < b"
proof (induction b n rule: digits.induct)
  case (1 b n)
  show ?case
  proof (cases "n < b")
    case True
    then show ?thesis by (simp add: digits.simps [of b n])
  next
    case False
    with "1.IH" "1.prems" have "\<forall>d \<in> set (digits b (n div b)). d < b" by simp
    with False "1.prems" show ?thesis by (simp add: digits.simps [of b n])
  qed
qed

lemma digits_nonempty [simp]: "digits b n \<noteq> []"
  by (subst digits.simps) simp

lemma radix_nonempty [simp]: "radix b n \<noteq> []"
  by (simp add: radix_def)

lemma digit_val_char: "d < b \<Longrightarrow> b \<le> 36 \<Longrightarrow> digit_val b (digit_char d) = Some d"
  by (auto simp: digit_val_def digit_char_def Let_def)

lemma parse_digits_acc_append:
  "parse_digits_acc b a (s @ t) =
     (case parse_digits_acc b a s of None \<Rightarrow> None | Some a' \<Rightarrow> parse_digits_acc b a' t)"
  by (induction b a s rule: parse_digits_acc.induct) (auto split: option.splits)

lemma parse_digits_acc_radix:
  assumes "2 \<le> b" "b \<le> 36"
  shows "parse_digits_acc b 0 (radix b n) = Some n"
  using assms
proof (induction b n rule: digits.induct)
  case (1 b n)
  show ?case
  proof (cases "n < b")
    case True
    with "1.prems" show ?thesis
      by (simp add: radix_def digits.simps [of b n] digit_val_char)
  next
    case False
    with 1 have ih: "parse_digits_acc b 0 (radix b (n div b)) = Some (n div b)" by simp
    have m: "n mod b < b" using "1.prems" by simp
    from False "1.prems" have "radix b n = radix b (n div b) @ [digit_char (n mod b)]"
      by (simp add: radix_def digits.simps [of b n])
    with ih m "1.prems" show ?thesis
      by (simp add: parse_digits_acc_append digit_val_char)
  qed
qed

lemma parse_digits_radix: "2 \<le> b \<Longrightarrow> b \<le> 36 \<Longrightarrow> parse_digits b (radix b n) = Some n"
  by (simp add: parse_digits_def parse_digits_acc_radix)

lemma radix_inj: "2 \<le> b \<Longrightarrow> b \<le> 36 \<Longrightarrow> radix b m = radix b n \<Longrightarrow> m = n"
  by (metis option.inject parse_digits_radix)

definition is_hex_digit :: "char \<Rightarrow> bool" where
  "is_hex_digit c \<longleftrightarrow> (48 \<le> ord c \<and> ord c \<le> 57) \<or> (97 \<le> ord c \<and> ord c \<le> 102)"

lemma digit_char_hex: "d < 16 \<Longrightarrow> is_hex_digit (digit_char d)"
  by (auto simp: is_hex_digit_def digit_char_def)

lemma radix_chars:
  assumes "2 \<le> b" "b \<le> 16"
  shows "list_all is_hex_digit (radix b n)"
proof -
  have "is_hex_digit (digit_char d)" if "d \<in> set (digits b n)" for d
  proof (rule digit_char_hex)
    from digits_less [OF assms(1)] that have "d < b" by blast
    with assms(2) show "d < 16" by simp
  qed
  then show ?thesis by (simp add: radix_def list_all_iff)
qed

lemma is_hex_digit_ascii: "is_hex_digit c \<Longrightarrow> ord c < 128"
  by (auto simp: is_hex_digit_def)

lemma ascii_radix [simp]: "2 \<le> b \<Longrightarrow> b \<le> 16 \<Longrightarrow> ascii (radix b n)"
  unfolding ascii_def by (rule list.pred_mono_strong [OF radix_chars]) (simp_all add: is_hex_digit_ascii)

lemma ascii_hex0x [simp]: "ascii (hex0x n)"
  by (simp add: hex0x_def)

lemma ascii_dec_int [simp]: "ascii (dec_int i)"
  by (simp add: dec_int_def)

lemma radix_hd_not_sign:
  assumes "2 \<le> b" "b \<le> 16"
  shows "\<exists>c r. radix b n = c # r \<and> c \<noteq> CHR ''+'' \<and> c \<noteq> CHR ''-''"
proof -
  obtain c r where cr: "radix b n = c # r" by (cases "radix b n") simp_all
  with radix_chars [OF assms, of n] have "is_hex_digit c" by simp
  with cr show ?thesis by (auto simp: is_hex_digit_def)
qed

lemma parse_unsigned_radix:
  assumes "2 \<le> b" "b \<le> 16" "n < 2 ^ bits"
  shows "parse_unsigned bits b (radix b n) = Some n"
proof -
  obtain c r where "radix b n = c # r" "c \<noteq> CHR ''+''"
    using radix_hd_not_sign [OF assms(1,2)] by blast
  then show ?thesis
    using parse_digits_radix [of b n] assms by (simp add: parse_unsigned_def)
qed

lemma parse_unsigned_less: "parse_unsigned bits b s = Some n \<Longrightarrow> n < 2 ^ bits"
  by (auto simp: parse_unsigned_def split: option.splits if_splits)

lemma parse_signed_dec_int:
  assumes "- (2 ^ (bits - 1)) \<le> i" "i < 2 ^ (bits - 1)"
  shows "parse_signed bits (dec_int i) = Some i"
proof (cases "i < 0")
  case True
  moreover from assms(1) True have "nat (- i) \<le> 2 ^ (bits - 1)"
    by (simp add: nat_le_iff)
  ultimately show ?thesis
    by (simp add: parse_signed_def dec_int_def parse_digits_radix)
next
  case False
  obtain c r where cr: "dec (nat i) = c # r" "c \<noteq> CHR ''+''" "c \<noteq> CHR ''-''"
    using radix_hd_not_sign [of 10 "nat i"] by auto
  from assms(2) False have "nat i < 2 ^ (bits - 1)" by (simp add: nat_less_iff)
  with cr False show ?thesis
    using parse_digits_radix [of 10 "nat i"] by (simp add: parse_signed_def dec_int_def)
qed

lemma dec_int_inj: "dec_int i = dec_int j \<Longrightarrow> i = j"
  using radix_hd_not_sign [of 10 "nat i"] radix_hd_not_sign [of 10 "nat j"]
    radix_inj [of 10 "nat i" "nat j"] radix_inj [of 10 "nat (- i)" "nat (- j)"]
  by (auto simp: dec_int_def split: if_splits)

lemma hex_length_byte:
  assumes "n < 256"
  shows "length (hex n) \<le> 2"
proof (cases "n < 16")
  case True
  then show ?thesis by (simp add: radix_def digits.simps [of 16 n])
next
  case False
  moreover from assms have "n div 16 < 16" by simp
  ultimately show ?thesis
    by (simp add: radix_def digits.simps [of 16 n] digits.simps [of 16 "n div 16"])
qed

lemma hex_pad_parse:
  assumes "length (hex n) \<le> w"
  shows "length (hex_pad w n) = w \<and> parse_digits 16 (hex_pad w n) = Some n"
proof -
  have z: "digit_val 16 CHR ''0'' = Some 0" by (simp add: digit_val_def Let_def)
  have "parse_digits_acc 16 0 (replicate k CHR ''0'' @ s) = parse_digits_acc 16 0 s" for k s
    by (induction k) (simp_all add: z)
  then have "parse_digits_acc 16 0 (hex_pad w n) = Some n"
    by (simp add: hex_pad_def parse_digits_acc_radix)
  with assms show ?thesis by (simp add: parse_digits_def hex_pad_def)
qed

lemma hex_pad_chars: "list_all is_hex_digit (hex_pad w n)"
  using radix_chars [of 16 n] by (auto simp: hex_pad_def is_hex_digit_def list_all_iff)

subsection \<open>String methods\<close>

definition starts_with :: "string \<Rightarrow> string \<Rightarrow> bool" where
  "starts_with s p \<longleftrightarrow> take (length p) s = p"

definition ends_with :: "string \<Rightarrow> string \<Rightarrow> bool" where
  "ends_with s p \<longleftrightarrow> length p \<le> length s \<and> drop (length s - length p) s = p"

definition strip_prefix :: "string \<Rightarrow> string \<Rightarrow> string option" where
  "strip_prefix p s = (if starts_with s p then Some (drop (length p) s) else None)"

fun str_contains :: "string \<Rightarrow> string \<Rightarrow> bool" where
  "str_contains [] p = (p = [])"
| "str_contains (c # s) p = (starts_with (c # s) p \<or> str_contains s p)"

fun split_on :: "(char \<Rightarrow> bool) \<Rightarrow> string \<Rightarrow> string list" where
  "split_on p [] = [[]]"
| "split_on p (c # s) =
     (if p c then [] # split_on p s
      else (case split_on p s of [] \<Rightarrow> [[c]] | t # ts \<Rightarrow> (c # t) # ts))"

text \<open>\<open>split_once(c)\<close>.\<close>

definition split_once :: "char \<Rightarrow> string \<Rightarrow> (string \<times> string) option" where
  "split_once c s =
     (if c \<in> set s then Some (takeWhile (\<lambda>x. x \<noteq> c) s, tl (dropWhile (\<lambda>x. x \<noteq> c) s)) else None)"

text \<open>\<open>split_once(pat)\<close> for a text.\<close>

fun split_once_str :: "string \<Rightarrow> string \<Rightarrow> (string \<times> string) option" where
  "split_once_str pat [] = (if pat = [] then Some ([], []) else None)"
| "split_once_str pat (c # s) =
     (if starts_with (c # s) pat then Some ([], drop (length pat) (c # s))
      else map_option (\<lambda>(a, b). (c # a, b)) (split_once_str pat s))"

text \<open>\<open>trim_matches(char::from(0))\<close>.\<close>

definition trim_nuls :: "string \<Rightarrow> string" where
  "trim_nuls s = concat (rev (dropWhile (\<lambda>c. c = [CHR 0x00]) (rev (dropWhile (\<lambda>c. c = [CHR 0x00]) (rust_chars s)))))"

lemma rust_chars_utf8: "utf8 s \<Longrightarrow> list_all utf8 (rust_chars s)"
proof (induction s rule: chunks.induct)
  case (1 s)
  show ?case
  proof (cases "s = []")
    case False
    obtain v n where vn: "utf8_step s = (v, n)" by (cases "utf8_step s")
    with "1.prems" False have v: "v" "list_all fst (chunks (drop n s))"
      by (simp_all add: utf8_def chunks.simps [of s])
    then have "utf8 (take n s)" "utf8 (drop n s)"
      using utf8_chunk [OF False] vn by (simp_all add: utf8_def)
    with "1.IH" [OF False] vn False show ?thesis by (simp add: rust_chars_def chunks.simps [of s])
  qed simp
qed

lemma utf8_trim_nuls: "utf8 s \<Longrightarrow> utf8 (trim_nuls s)"
  unfolding trim_nuls_def
  by (rule utf8_concat) (auto simp: list_all_iff dest!: rust_chars_utf8 set_dropWhileD)

text \<open>\<open>lines()\<close>: a terminated line loses its newline and one carriage return before it; what
  follows the last newline is a line when it is not empty.\<close>

definition strip_cr :: "string \<Rightarrow> string" where
  "strip_cr s = (if s \<noteq> [] \<and> last s = creturn then butlast s else s)"

definition lines :: "string \<Rightarrow> string list" where
  "lines s =
     (let ps = split_on (\<lambda>c. c = newline) s
      in map strip_cr (butlast ps) @ (if last ps = [] then [] else [last ps]))"

text \<open>The code points with Unicode's \<open>White_Space\<close> property, as \<open>char::is_whitespace\<close>.\<close>

definition is_white :: "string \<Rightarrow> bool" where
  "is_white c =
     (let n = code_point c in
      (9 \<le> n \<and> n \<le> 13) \<or> n = 32 \<or> n = 133 \<or> n = 160 \<or> n = 5760 \<or> (8192 \<le> n \<and> n \<le> 8202)
      \<or> n = 8232 \<or> n = 8233 \<or> n = 8239 \<or> n = 8287 \<or> n = 12288)"

definition trim_start :: "string \<Rightarrow> string" where
  "trim_start s = concat (dropWhile is_white (rust_chars s))"

definition trim_end_chars :: "string list \<Rightarrow> string list" where
  "trim_end_chars cs = rev (dropWhile is_white (rev cs))"

definition trim :: "string \<Rightarrow> string" where
  "trim s = concat (trim_end_chars (dropWhile is_white (rust_chars s)))"

fun split_white :: "string list \<Rightarrow> string \<Rightarrow> string list" where
  "split_white [] acc = (if acc = [] then [] else [acc])"
| "split_white (c # cs) acc =
     (if is_white c then (if acc = [] then split_white cs [] else acc # split_white cs [])
      else split_white cs (acc @ c))"

definition split_whitespace :: "string \<Rightarrow> string list" where
  "split_whitespace s = split_white (rust_chars s) []"

definition ascii_lower :: "char \<Rightarrow> char" where
  "ascii_lower c = (if 65 \<le> ord c \<and> ord c \<le> 90 then char_of (ord c + 32) else c)"

definition to_ascii_lowercase :: "string \<Rightarrow> string" where
  "to_ascii_lowercase s = map ascii_lower s"

fun join :: "string \<Rightarrow> string list \<Rightarrow> string" where
  "join sep [] = []"
| "join sep [x] = x"
| "join sep (x # y # xs) = x @ sep @ join sep (y # xs)"

text \<open>\<open>"\t".repeat(n)\<close>.\<close>

definition tabs :: "nat \<Rightarrow> string" where
  "tabs n = replicate n tab"

text \<open>\<open>Option<&str>::unwrap_or\<close> and friends.\<close>

definition unwrap_or :: "'a \<Rightarrow> 'a option \<Rightarrow> 'a" where
  "unwrap_or d x = (case x of None \<Rightarrow> d | Some v \<Rightarrow> v)"

definition opt_or :: "'a option \<Rightarrow> 'a option \<Rightarrow> 'a option" where
  "opt_or x y = (case x of None \<Rightarrow> y | Some v \<Rightarrow> Some v)"

lemma unwrap_or_simps [simp]: "unwrap_or d None = d" "unwrap_or d (Some v) = v"
  by (simp_all add: unwrap_or_def)

lemma opt_or_simps [simp]: "opt_or None y = y" "opt_or (Some v) y = Some v"
  by (simp_all add: opt_or_def)

lemma starts_with_append [simp]: "starts_with (p @ s) p"
  by (simp add: starts_with_def)

lemma starts_with_prefix: "starts_with s p \<longleftrightarrow> (\<exists>t. s = p @ t)"
  by (metis append_take_drop_id starts_with_append starts_with_def)

lemma str_contains_iff: "str_contains s p \<longleftrightarrow> (\<exists>a b. s = a @ p @ b)"
proof (induction s)
  case Nil
  then show ?case by auto
next
  case (Cons c s)
  have "(\<exists>a b. c # s = a @ p @ b) \<longleftrightarrow> starts_with (c # s) p \<or> (\<exists>a b. s = a @ p @ b)"
    (is "?l \<longleftrightarrow> ?r")
  proof
    assume ?l
    then obtain a b where ab: "c # s = a @ p @ b" by blast
    then show ?r by (cases a) (auto simp: starts_with_def)
  next
    assume ?r
    then show ?l
    proof
      assume "starts_with (c # s) p"
      then show ?l by (metis append_Nil starts_with_prefix)
    next
      assume "\<exists>a b. s = a @ p @ b"
      then show ?l by (metis append_Cons)
    qed
  qed
  with Cons show ?case by simp
qed

lemma split_on_nonempty [simp]: "split_on p s \<noteq> []"
  by (induction s) (auto split: list.splits)

lemma ascii_tabs [simp]: "ascii (tabs n)"
  by (induction n) (simp_all add: tabs_def)

subsection \<open>Strings of ASCII characters\<close>

lemma is_white_ascii: "ord c < 128 \<Longrightarrow> is_white [c] \<longleftrightarrow> (9 \<le> ord c \<and> ord c \<le> 13) \<or> ord c = 32"
  by (auto simp: is_white_def Let_def)

lemma rust_chars_ascii: "ascii s \<Longrightarrow> rust_chars s = map (\<lambda>c. [c]) s"
  by (induction s) simp_all

lemma trim_no_white:
  assumes "ascii s" and "list_all (\<lambda>c. \<not> is_white [c]) s"
  shows "trim s = s"
proof -
  have d: "dropWhile is_white cs = cs" if "list_all (\<lambda>c. \<not> is_white c) cs" for cs
    using that by (cases cs) simp_all
  have a: "list_all (\<lambda>c. \<not> is_white c) (rust_chars s)"
    using assms by (simp add: rust_chars_ascii list_all_iff)
  then have "list_all (\<lambda>c. \<not> is_white c) (rev (rust_chars s))" by (simp add: list_all_iff)
  with a show ?thesis by (simp add: trim_def trim_end_chars_def d)
qed

lemma rust_chars_ascii_append: "ascii a \<Longrightarrow> rust_chars (a @ t) = map (\<lambda>c. [c]) a @ rust_chars t"
  by (induction a) simp_all

lemma split_white_token:
  assumes "list_all (\<lambda>c. \<not> is_white [c]) a" and "acc @ a \<noteq> []"
  shows "split_white (map (\<lambda>c. [c]) a @ [CHR '' ''] # cs) acc = (acc @ a) # split_white cs []"
  using assms
proof (induction a arbitrary: acc)
  case Nil
  then show ?case by (simp add: is_white_def)
next
  case (Cons c a)
  from Cons.IH [of "acc @ [c]"] Cons.prems show ?case by simp
qed

lemma split_whitespace_first:
  assumes "ascii a" and "list_all (\<lambda>c. \<not> is_white [c]) a" and "a \<noteq> []"
  shows "\<exists>ws. split_whitespace (a @ CHR '' '' # t) = a # ws"
  using split_white_token [OF assms(2), of "[]" "rust_chars t"] assms(1,3)
  by (simp add: split_whitespace_def rust_chars_ascii_append)

lemma lines_concat:
  assumes "list_all (\<lambda>l. newline \<notin> set l \<and> (l = [] \<or> last l \<noteq> creturn)) ls"
  shows "lines (concat (map (\<lambda>l. l @ [newline]) ls)) = ls"
proof -
  have one: "split_on (\<lambda>c. c = newline) (l @ newline # s) = l # split_on (\<lambda>c. c = newline) s"
    if "newline \<notin> set l" for l s
    using that by (induction l) auto
  have "split_on (\<lambda>c. c = newline) (concat (map (\<lambda>l. l @ [newline]) ls)) = ls @ [[]]"
    using assms by (induction ls) (auto simp: one)
  moreover have "map strip_cr ls = ls"
    using assms by (induction ls) (auto simp: strip_cr_def)
  ultimately show ?thesis by (simp add: lines_def Let_def)
qed

lemma concat_singletons [simp]: "concat (map (\<lambda>c. [c]) s) = s"
  by (induction s) simp_all

lemma trim_clean:
  assumes "ascii t" "t \<noteq> []" "\<not> is_white [hd t]" "\<not> is_white [last t]"
  shows "trim t = t" "trim (CHR '' '' # t) = t" "trim (t @ '' '') = t"
proof -
  have w: "is_white [CHR '' '']" by (simp add: is_white_def Let_def)
  have r: "rust_chars (t @ u) = map (\<lambda>c. [c]) t @ rust_chars u" for u
    using assms(1) by (rule rust_chars_ascii_append)
  have "dropWhile is_white (map (\<lambda>c. [c]) t) = map (\<lambda>c. [c]) t"
    "dropWhile is_white (map (\<lambda>c. [c]) t @ u) = map (\<lambda>c. [c]) t @ u" for u
    using assms(2,3) by (cases t; simp)+
  moreover have "trim_end_chars (map (\<lambda>c. [c]) t) = map (\<lambda>c. [c]) t"
    "trim_end_chars (map (\<lambda>c. [c]) t @ [[CHR '' '']]) = map (\<lambda>c. [c]) t"
    using assms(2,4) w by (cases t rule: rev_cases; simp add: trim_end_chars_def)+
  moreover have "concat (map (\<lambda>c. [c]) t) = t" by (induction t) simp_all
  ultimately show "trim t = t" "trim (CHR '' '' # t) = t" "trim (t @ '' '') = t"
    using r [of "[]"] r [of "'' ''"] w by (simp_all add: trim_def)
qed

end
