(* ===== verification/Layout.thy ===== *)
theory Layout
  imports Rust_Std
begin

text \<open>
  The memory layout of \<open>#[repr(C)]\<close> structures on x86-64, which the ioctl decoders rely on
  when they copy a structure out of the traced process: sizes, alignments, field offsets, and
  little-endian reads. \<open>read_pod::<T>\<close> needs the size of \<open>T\<close> and the value its bytes
  stand for; a \<open>pod\<close> packs the two.
\<close>

subsection \<open>Types, sizes and offsets\<close>

datatype fty = FU8 | FU16 | FU32 | FU64 | FI16 | FI32 | FArr nat fty | FStruct "fty list"

definition round_up :: "nat \<Rightarrow> nat \<Rightarrow> nat" where
  "round_up n a = (n + (a - 1)) div a * a"

primrec align_of :: "fty \<Rightarrow> nat" where
  "align_of FU8 = 1"
| "align_of FU16 = 2"
| "align_of FU32 = 4"
| "align_of FU64 = 8"
| "align_of FI16 = 2"
| "align_of FI32 = 4"
| "align_of (FArr n t) = align_of t"
| "align_of (FStruct ts) = fold max (map align_of ts) 1"

text \<open>The offsets of consecutive fields given by size and alignment, from an offset on, and
  where the last one ends.\<close>

fun offsets :: "nat \<Rightarrow> (nat \<times> nat) list \<Rightarrow> nat list" where
  "offsets n [] = []"
| "offsets n ((s, a) # fs) = round_up n a # offsets (round_up n a + s) fs"

fun end_offset :: "nat \<Rightarrow> (nat \<times> nat) list \<Rightarrow> nat" where
  "end_offset n [] = n"
| "end_offset n ((s, a) # fs) = end_offset (round_up n a + s) fs"

primrec size_of :: "fty \<Rightarrow> nat" where
  "size_of FU8 = 1"
| "size_of FU16 = 2"
| "size_of FU32 = 4"
| "size_of FU64 = 8"
| "size_of FI16 = 2"
| "size_of FI32 = 4"
| "size_of (FArr n t) = n * size_of t"
| "size_of (FStruct ts) =
     round_up (end_offset 0 (zip (map size_of ts) (map align_of ts))) (fold max (map align_of ts) 1)"

definition field_offset :: "fty list \<Rightarrow> nat \<Rightarrow> nat" where
  "field_offset ts i = offsets 0 (map (\<lambda>t. (size_of t, align_of t)) ts) ! i"

lemma round_up_dvd [simp]: "a dvd round_up n a"
  by (simp add: round_up_def)

lemma round_up_ge:
  assumes "0 < a"
  shows "n \<le> round_up n a"
proof -
  let ?m = "n + (a - 1)"
  have "?m mod a \<le> a - 1" using mod_less_divisor [OF assms, of ?m] by linarith
  moreover have "?m div a * a + ?m mod a = ?m" by (rule div_mult_mod_eq)
  ultimately have "n \<le> ?m div a * a" by linarith
  then show ?thesis by (simp only: round_up_def)
qed

lemma fold_max_ge: "(m :: nat) \<le> fold max xs m" "x \<in> set xs \<Longrightarrow> x \<le> fold max xs m"
proof -
  have ge: "m \<le> fold max xs m" for m :: nat and xs
    by (induction xs arbitrary: m) (simp_all, meson max.bounded_iff order_trans max.cobounded2)
  show "m \<le> fold max xs m" by (rule ge)
  show "x \<in> set xs \<Longrightarrow> x \<le> fold max xs m"
  proof (induction xs arbitrary: m)
    case (Cons y ys)
    have "x \<le> max y m \<or> x \<in> set ys" using Cons.prems by auto
    then show ?case using Cons.IH ge [of "max y m" ys] by auto
  qed simp
qed

lemma align_pos [simp]: "0 < align_of t"
proof (induction t)
  case (FStruct ts)
  show ?case using fold_max_ge(1) [of 1 "map align_of ts"] by simp
qed simp_all

lemma end_offset_ge:
  "list_all (\<lambda>(s, a). 0 < a) fs \<Longrightarrow> n \<le> end_offset n fs"
proof (induction n fs rule: end_offset.induct)
  case (2 n s a fs)
  then show ?case using round_up_ge [of a n] by simp
qed simp

lemma length_offsets [simp]: "length (offsets n fs) = length fs"
  by (induction n fs rule: offsets.induct) simp_all

lemma offsets_ge:
  assumes "list_all (\<lambda>(s, a). 0 < a) fs" "i < length fs"
  shows "n \<le> offsets n fs ! i"
  using assms
proof (induction n fs arbitrary: i rule: offsets.induct)
  case (2 n s a fs)
  show ?case
  proof (cases i)
    case 0
    with 2 show ?thesis by (simp add: round_up_ge)
  next
    case (Suc k)
    with 2 have "round_up n a + s \<le> offsets (round_up n a + s) fs ! k" by simp
    moreover have "n \<le> round_up n a" using 2 by (simp add: round_up_ge)
    ultimately show ?thesis by (simp add: Suc)
  qed
qed simp

text \<open>Fields are aligned, follow each other without overlap, and end inside the structure.\<close>

lemma offsets_sound:
  assumes "list_all (\<lambda>(s, a). 0 < a) fs" "i < length fs"
  shows "snd (fs ! i) dvd offsets n fs ! i \<and>
    offsets n fs ! i + fst (fs ! i) \<le> end_offset n fs \<and>
    (\<forall>j. i < j \<longrightarrow> j < length fs \<longrightarrow> offsets n fs ! i + fst (fs ! i) \<le> offsets n fs ! j)"
  using assms
proof (induction n fs arbitrary: i rule: offsets.induct)
  case (2 n s a fs)
  show ?case
  proof (cases i)
    case 0
    have "round_up n a + s \<le> offsets (round_up n a + s) fs ! k" if "k < length fs" for k
      using "2.prems" that offsets_ge [of fs k] by simp
    with 0 "2.prems" end_offset_ge [of fs] show ?thesis by (auto simp: nth_Cons split: nat.split)
  next
    case (Suc k)
    with 2 show ?thesis by (auto simp: nth_Cons split: nat.split)
  qed
qed simp

lemma struct_fields:
  assumes "i < length ts"
  shows "align_of (ts ! i) dvd field_offset ts i"
    and "field_offset ts i + size_of (ts ! i) \<le> size_of (FStruct ts)"
    and "i < j \<Longrightarrow> j < length ts \<Longrightarrow> field_offset ts i + size_of (ts ! i) \<le> field_offset ts j"
proof -
  let ?fs = "map (\<lambda>t. (size_of t, align_of t)) ts"
  have l: "list_all (\<lambda>(s, a). 0 < a) ?fs" by (simp add: list_all_iff)
  have z: "zip (map size_of ts) (map align_of ts) = ?fs" by (simp add: zip_map_map map_zip_map2 zip_same_conv_map)
  have a: "0 < fold max (map align_of ts) 1" using align_pos [of "FStruct ts"] by simp
  note s = offsets_sound [OF l, of i 0]
  show "align_of (ts ! i) dvd field_offset ts i"
    using s assms by (simp add: field_offset_def)
  show "field_offset ts i + size_of (ts ! i) \<le> size_of (FStruct ts)"
    using s assms round_up_ge [OF a] by (fastforce simp: field_offset_def z intro: order_trans)
  show "i < j \<Longrightarrow> j < length ts \<Longrightarrow> field_offset ts i + size_of (ts ! i) \<le> field_offset ts j"
    using s assms by (simp add: field_offset_def)
qed

subsection \<open>Little-endian values\<close>

primrec le_nat :: "u8 list \<Rightarrow> nat" where
  "le_nat [] = 0"
| "le_nat (b # bs) = unat b + 256 * le_nat bs"

definition get_u8 :: "u8 list \<Rightarrow> u8" where
  "get_u8 bs = of_nat (le_nat (take 1 bs))"

definition get_u16 :: "u8 list \<Rightarrow> u16" where
  "get_u16 bs = of_nat (le_nat (take 2 bs))"

definition get_u32 :: "u8 list \<Rightarrow> u32" where
  "get_u32 bs = of_nat (le_nat (take 4 bs))"

definition get_u64 :: "u8 list \<Rightarrow> u64" where
  "get_u64 bs = of_nat (le_nat (take 8 bs))"

definition get_i16 :: "u8 list \<Rightarrow> i16" where
  "get_i16 bs = sint (get_u16 bs)"

definition get_i32 :: "u8 list \<Rightarrow> i32" where
  "get_i32 bs = sint (get_u32 bs)"

definition get_array :: "nat \<Rightarrow> nat \<Rightarrow> (u8 list \<Rightarrow> 'a) \<Rightarrow> u8 list \<Rightarrow> 'a list" where
  "get_array n sz rd bs = map (\<lambda>i. rd (drop (i * sz) bs)) [0..<n]"

definition field_at :: "fty list \<Rightarrow> u8 list \<Rightarrow> nat \<Rightarrow> u8 list" where
  "field_at ts bs i = drop (field_offset ts i) bs"

record 'a pod =
  pod_size :: nat
  pod_read :: "u8 list \<Rightarrow> 'a"

definition u32_pod :: "u32 pod" where
  "u32_pod = \<lparr>pod_size = size_of FU32, pod_read = get_u32\<rparr>"

definition u64_pod :: "u64 pod" where
  "u64_pod = \<lparr>pod_size = size_of FU64, pod_read = get_u64\<rparr>"

text \<open>\<open>chunks_exact(n)\<close>: what does not fill a chunk is left out.\<close>

definition chunks_exact :: "nat \<Rightarrow> 'a list \<Rightarrow> 'a list list" where
  "chunks_exact n xs = map (\<lambda>i. take n (drop (i * n) xs)) [0..<length xs div n]"

text \<open>The bytes of a value, for statements about what a reader sees.\<close>

definition le_bytes :: "nat \<Rightarrow> nat \<Rightarrow> u8 list" where
  "le_bytes n x = map (\<lambda>i. of_nat (x div 256 ^ i mod 256)) [0..<n]"

lemma length_le_bytes [simp]: "length (le_bytes n x) = n"
  by (simp add: le_bytes_def)

lemma le_bytes_Suc: "le_bytes (Suc n) x = of_nat (x mod 256) # le_bytes n (x div 256)"
  by (simp add: le_bytes_def upt_conv_Cons map_Suc_upt [symmetric] div_mult2_eq del: upt_Suc)

lemma le_nat_le_bytes: "le_nat (le_bytes n x) = x mod 256 ^ n"
proof (induction n arbitrary: x)
  case 0
  then show ?case by (simp add: le_bytes_def)
next
  case (Suc n)
  have "unat (of_nat (x mod 256) :: u8) = x mod 256"
    by (simp add: unat_of_nat)
  with Suc show ?case
    using mod_mult2_eq [of x 256 "256 ^ n"] by (simp add: le_bytes_Suc)
qed

lemma get_u64_le_bytes: "get_u64 (le_bytes 8 (unat w) @ r) = w"
proof -
  have "unat w < 256 ^ 8" using unsigned_less [of w, where 'a = nat] by simp
  then show ?thesis by (simp add: get_u64_def le_nat_le_bytes)
qed

lemma get_u32_le_bytes: "get_u32 (le_bytes 4 (unat w) @ r) = w"
proof -
  have "unat w < 256 ^ 4" using unsigned_less [of w, where 'a = nat] by simp
  then show ?thesis by (simp add: get_u32_def le_nat_le_bytes)
qed

lemma length_get_array [simp]: "length (get_array n sz rd bs) = n"
  by (simp add: get_array_def)

end
