(* ===== verification/Ioctl_Meta.thy ===== *)
theory Ioctl_Meta
  imports Rust_Fmt Layout
begin

text \<open>
  The lower half of \<open>src/decode/ioctl.rs\<close>: the fields of an ioctl command number, the printing
  of bytes, and reading the memory of the traced process. \<open>process_vm_readv\<close> is a parameter
  of type \<open>vm\<close>: the process, the remote address and the requested length give the bytes it
  copied, or \<open>None\<close> when it returned an error. The thread-local \<open>REMOTE_PID_OVERRIDE\<close> is
  an argument of the functions that read it.
\<close>

subsection \<open>Command numbers\<close>

definition IOC_NRSHIFT :: nat where "IOC_NRSHIFT = 0"
definition IOC_TYPESHIFT :: nat where "IOC_TYPESHIFT = 8"
definition IOC_SIZESHIFT :: nat where "IOC_SIZESHIFT = 16"
definition IOC_DIRSHIFT :: nat where "IOC_DIRSHIFT = 30"

lemmas ioc_shifts = IOC_NRSHIFT_def IOC_TYPESHIFT_def IOC_SIZESHIFT_def IOC_DIRSHIFT_def

record IoctlMeta =
  meta_raw :: u64
  meta_dir :: u8
  meta_ioc_type :: u8
  meta_nr :: u8
  meta_size :: u16

definition direction_name :: "IoctlMeta \<Rightarrow> string" where
  "direction_name self =
     (if meta_dir self = 0 then ''none''
      else if meta_dir self = 1 then ''write''
      else if meta_dir self = 2 then ''read''
      else if meta_dir self = 3 then ''read|write''
      else ''invalid'')"

definition decode_ioctl_cmd :: "u64 \<Rightarrow> IoctlMeta" where
  "decode_ioctl_cmd cmd =
     \<lparr>meta_raw = cmd,
      meta_dir = ucast (drop_bit IOC_DIRSHIFT cmd AND 0x3),
      meta_ioc_type = ucast (drop_bit IOC_TYPESHIFT cmd AND 0xff),
      meta_nr = ucast (drop_bit IOC_NRSHIFT cmd AND 0xff),
      meta_size = ucast (drop_bit IOC_SIZESHIFT cmd AND 0x3fff)\<rparr>"

definition format_ioc_type :: "u8 \<Rightarrow> string" where
  "format_ioc_type t =
     (if 33 \<le> t \<and> t \<le> 126 then [CHR 0x27, byte_char t, CHR 0x27] else hex0x (unat t))"

subsection \<open>Bytes as text\<close>

definition hex_nibble :: "u8 \<Rightarrow> char" where
  "hex_nibble nibble =
     (if nibble \<le> 9 then byte_char (48 + nibble)
      else if nibble \<le> 15 then byte_char (97 + (nibble - 10))
      else CHR ''?'')"

definition hex_bytes :: "u8 list \<Rightarrow> string" where
  "hex_bytes bytes = concat (map (\<lambda>b. [hex_nibble (drop_bit 4 b), hex_nibble (b AND 0x0f)]) bytes)"

subsection \<open>Memory of the traced process\<close>

type_synonym vm = "pid_t \<Rightarrow> u64 \<Rightarrow> nat \<Rightarrow> u8 list option"
type_synonym remote = "u64 \<Rightarrow> nat \<Rightarrow> u8 list option"

definition decode_target_pid :: "pid_t option \<Rightarrow> pid_t \<Rightarrow> pid_t" where
  "decode_target_pid override_pid self_pid = unwrap_or self_pid override_pid"

text \<open>\<open>rd\<close> is \<open>process_vm_readv\<close> of the decode target. A short copy is a failure.\<close>

definition read_bytes :: "remote \<Rightarrow> u64 \<Rightarrow> nat \<Rightarrow> u8 list option" where
  "read_bytes rd remote_addr len =
     (case rd remote_addr len of
        None \<Rightarrow> None
      | Some out \<Rightarrow> if length out = len then Some out else None)"

definition read_pod :: "remote \<Rightarrow> 'a pod \<Rightarrow> u64 \<Rightarrow> 'a option" where
  "read_pod rd T remote_addr =
     (case rd remote_addr (pod_size T) of
        None \<Rightarrow> None
      | Some out \<Rightarrow> if length out = pod_size T then Some (pod_read T out) else None)"

definition is_nvidia_rm_path :: "string option \<Rightarrow> bool" where
  "is_nvidia_rm_path path =
     (case path of
        None \<Rightarrow> False
      | Some p \<Rightarrow> starts_with p ''/dev/nvidia'' \<and> \<not> starts_with p ''/dev/nvidia-uvm'')"

definition is_uvm_path :: "string option \<Rightarrow> bool" where
  "is_uvm_path path = (case path of None \<Rightarrow> False | Some p \<Rightarrow> starts_with p ''/dev/nvidia-uvm'')"

subsection \<open>Lemmas\<close>

lemma hex_nibble_digit:
  assumes "n < 16"
  shows "hex_nibble (of_nat n) = digit_char n"
proof -
  have u: "unat (of_nat n :: u8) = n" using assms by (simp add: unat_of_nat)
  show ?thesis
  proof (cases "n < 10")
    case True
    with assms u show ?thesis
      by (simp add: hex_nibble_def digit_char_def byte_char_def word_le_nat_alt unat_word_ariths)
  next
    case False
    with assms u show ?thesis
      by (simp add: hex_nibble_def digit_char_def byte_char_def word_le_nat_alt unat_word_ariths
          unat_sub)
  qed
qed

lemma nibbles:
  fixes b :: u8
  shows "hex_nibble (drop_bit 4 b) = digit_char (unat b div 16)"
    and "hex_nibble (b AND 0x0f) = digit_char (unat b mod 16)"
proof -
  have "unat b div 16 < 256"
    by (rule order.strict_trans1 [OF div_le_dividend unat_less_256])
  then have "drop_bit 4 b = of_nat (unat b div 16)"
    by (simp add: drop_bit_eq_div word_unat_eq_iff unat_div unat_of_nat)
  moreover have "unat b div 16 < 16"
    using unat_less_256 [of b] by (simp add: less_mult_imp_div_less)
  ultimately show "hex_nibble (drop_bit 4 b) = digit_char (unat b div 16)"
    by (simp add: hex_nibble_digit)
  have m: "b AND 0x0f = take_bit 4 b"
    by (simp add: take_bit_eq_mask mask_eq_exp_minus_1)
  have "b AND 0x0f = of_nat (unat b mod 16)"
    unfolding m by (simp add: word_unat_eq_iff unat_of_nat unsigned_take_bit_eq take_bit_nat_def)
  then show "hex_nibble (b AND 0x0f) = digit_char (unat b mod 16)"
    by (simp add: hex_nibble_digit)
qed

lemma hex_bytes_Cons:
  "hex_bytes (b # bs) = digit_char (unat b div 16) # digit_char (unat b mod 16) # hex_bytes bs"
  by (simp add: hex_bytes_def nibbles)

lemma ascii_digit_char: "d < 16 \<Longrightarrow> ord (digit_char d) < 128"
  using digit_char_hex is_hex_digit_ascii by blast

lemma nibble_bounds: "unat (b :: u8) div 16 < 16" "unat (b :: u8) mod 16 < 16"
  using unat_less_256 [of b] by (simp_all add: less_mult_imp_div_less)

lemma ascii_hex_bytes [simp]: "ascii (hex_bytes bs)"
  by (induction bs) (simp_all add: hex_bytes_Cons ascii_digit_char nibble_bounds,
      simp add: hex_bytes_def)

text \<open>The inverse of \<open>hex_bytes\<close>, for the statement that it loses nothing.\<close>

fun unhex :: "string \<Rightarrow> u8 list option" where
  "unhex [] = Some []"
| "unhex (h # l # s) =
     (case (digit_val 16 h, digit_val 16 l, unhex s) of
        (Some a, Some b, Some bs) \<Rightarrow> Some (of_nat (16 * a + b) # bs)
      | _ \<Rightarrow> None)"
| "unhex [_] = None"

text \<open>The blob of an undecoded ioctl is printed without loss: two lower-case hex digits per
  byte, from which the bytes can be read back.\<close>

theorem hex_bytes_roundtrip: "unhex (hex_bytes bs) = Some bs \<and> length (hex_bytes bs) = 2 * length bs"
proof (induction bs)
  case Nil
  then show ?case by (simp add: hex_bytes_def)
next
  case (Cons b bs)
  have "16 * (unat b div 16) + unat b mod 16 = unat b" by simp
  with Cons show ?case
    by (simp add: hex_bytes_Cons digit_val_char nibble_bounds)
qed

text \<open>The kernel's \<open>_IOC\<close> macro, as the unit tests of the source write it.\<close>

definition encode_ioctl :: "u8 \<Rightarrow> u8 \<Rightarrow> u8 \<Rightarrow> u16 \<Rightarrow> u64" where
  "encode_ioctl dir ioc_type nr sz =
     push_bit 30 (ucast dir) OR push_bit 8 (ucast ioc_type) OR ucast nr OR push_bit 16 (ucast sz)"

lemma word_bit_above:
  assumes "unat w < 2 ^ k" and "k \<le> n"
  shows "\<not> bit w n"
proof -
  have "take_bit k (unat w) = unat w" using assms(1) by (simp add: take_bit_nat_eq_self)
  then have "bit (unat w) n = bit (take_bit k (unat w)) n" by simp
  with assms(2) show ?thesis by (simp add: bit_take_bit_iff bit_unsigned_iff)
qed

lemma decode_take_bit:
  "decode_ioctl_cmd cmd =
     \<lparr>meta_raw = cmd, meta_dir = ucast (take_bit 2 (drop_bit 30 cmd)),
      meta_ioc_type = ucast (take_bit 8 (drop_bit 8 cmd)), meta_nr = ucast (take_bit 8 cmd),
      meta_size = ucast (take_bit 14 (drop_bit 16 cmd))\<rparr>"
  by (simp add: decode_ioctl_cmd_def ioc_shifts take_bit_eq_mask mask_eq_exp_minus_1)

text \<open>The four fields of a command are the ones the kernel's \<open>_IOC\<close> macro packed, when
  direction and size fit their two and fourteen bits.\<close>

theorem decode_encode_ioctl:
  assumes "dir < 4" and "sz < 0x4000"
  shows "decode_ioctl_cmd (encode_ioctl dir ioc_type nr sz) =
    \<lparr>meta_raw = encode_ioctl dir ioc_type nr sz, meta_dir = dir, meta_ioc_type = ioc_type,
     meta_nr = nr, meta_size = sz\<rparr>"
proof -
  have d: "\<not> bit dir n" if "2 \<le> n" for n
    using word_bit_above [OF _ that, of dir] assms(1) by (simp add: word_less_nat_alt)
  have s: "\<not> bit sz n" if "14 \<le> n" for n
    using word_bit_above [OF _ that, of sz] assms(2) by (simp add: word_less_nat_alt)
  have "ucast (take_bit 2 (drop_bit 30 (encode_ioctl dir ioc_type nr sz))) = dir"
    by (rule bit_word_eqI) (auto simp: encode_ioctl_def bit_simps d s dest: bit_imp_le_length)
  moreover have "ucast (take_bit 8 (drop_bit 8 (encode_ioctl dir ioc_type nr sz))) = ioc_type"
    by (rule bit_word_eqI) (auto simp: encode_ioctl_def bit_simps d s dest: bit_imp_le_length)
  moreover have "ucast (take_bit 8 (encode_ioctl dir ioc_type nr sz)) = nr"
    by (rule bit_word_eqI) (auto simp: encode_ioctl_def bit_simps d s dest: bit_imp_le_length)
  moreover have "ucast (take_bit 14 (drop_bit 16 (encode_ioctl dir ioc_type nr sz))) = sz"
    by (rule bit_word_eqI) (auto simp: encode_ioctl_def bit_simps d s dest: bit_imp_le_length)
  ultimately show ?thesis by (simp add: decode_take_bit)
qed

theorem decode_encode_ioctl_witness:
  "decode_ioctl_cmd (encode_ioctl 3 0x46 211 16) =
    \<lparr>meta_raw = encode_ioctl 3 0x46 211 16, meta_dir = 3, meta_ioc_type = 0x46,
     meta_nr = 211, meta_size = 16\<rparr>"
  by (rule decode_encode_ioctl) simp_all

text \<open>Nothing of a command is lost either: packing the decoded fields again gives its low 32
  bits, and the direction is one of the four names the printer knows.\<close>

theorem encode_decode_ioctl:
  "(let m = decode_ioctl_cmd cmd in
    encode_ioctl (meta_dir m) (meta_ioc_type m) (meta_nr m) (meta_size m) = take_bit 32 cmd \<and>
    direction_name m \<noteq> ''invalid'')"
proof -
  have "unat (meta_dir (decode_ioctl_cmd cmd)) < 4"
    using take_bit_nat_less_exp [of 2 "unat (drop_bit 30 cmd)"]
    by (simp add: decode_take_bit unsigned_ucast_eq unsigned_take_bit_eq)
  then have "unat (meta_dir (decode_ioctl_cmd cmd)) \<in> {0, 1, 2, 3}" by auto
  then have "meta_dir (decode_ioctl_cmd cmd) \<in> {0, 1, 2, 3}"
    by (simp add: word_unat_eq_iff)
  moreover have "encode_ioctl (meta_dir (decode_ioctl_cmd cmd)) (meta_ioc_type (decode_ioctl_cmd cmd))
      (meta_nr (decode_ioctl_cmd cmd)) (meta_size (decode_ioctl_cmd cmd)) = take_bit 32 cmd"
    (is "?l = ?r")
  proof (rule bit_word_eqI)
    fix n :: nat
    consider "n < 8" | "8 \<le> n" "n < 16" | "16 \<le> n" "n < 30" | "30 \<le> n" by linarith
    then show "bit ?l n = bit ?r n"
      by cases (auto simp: encode_ioctl_def decode_take_bit bit_simps)
  qed
  ultimately show ?thesis by (auto simp: Let_def direction_name_def)
qed

end
