(* ===== verification/Uvm_Structs.thy ===== *)
theory Uvm_Structs
  imports Ioctl_Meta
begin

text \<open>
  The \<open>#[repr(C)]\<close> parameter structures of \<open>src/decode/ioctl_uvm.rs\<close>. For each structure:
  the record with the source's fields (prefixed with \<open>p_\<close>), its layout, and the \<open>pod\<close> with
  which \<open>read_pod\<close> reads it out of the traced process. A byte array is a list; an array has
  the length its type gives.
\<close>

definition UVM_MAX_STREAMS_PER_IOCTL_CALL :: usize where
  "UVM_MAX_STREAMS_PER_IOCTL_CALL = 32"

definition UVM_MAX_COUNTERS_PER_IOCTL_CALL :: usize where
  "UVM_MAX_COUNTERS_PER_IOCTL_CALL = 32"

definition UVM_MAX_RANGE_GROUPS_PER_IOCTL_CALL :: usize where
  "UVM_MAX_RANGE_GROUPS_PER_IOCTL_CALL = 32"

definition UVM_MAX_GPUS_V1 :: usize where
  "UVM_MAX_GPUS_V1 = 32"

definition UVM_MAX_GPUS :: usize where
  "UVM_MAX_GPUS = 256"

record UvmInitializeParams =
  p_flags :: u64
  p_rm_status :: i32

definition UvmInitializeParams_layout :: "fty list" where
  "UvmInitializeParams_layout = [FU64, FI32]"

definition UvmInitializeParams_pod :: "UvmInitializeParams pod" where
  "UvmInitializeParams_pod =
     \<lparr>pod_size = size_of (FStruct UvmInitializeParams_layout),
      pod_read = (\<lambda>bs. \<lparr>p_flags = get_u64 (field_at UvmInitializeParams_layout bs 0),
      p_rm_status = get_i32 (field_at UvmInitializeParams_layout bs 1)\<rparr>)\<rparr>"

record UvmReserveVaParams =
  p_requested_base :: u64
  p_length :: u64
  p_rm_status :: i32

definition UvmReserveVaParams_layout :: "fty list" where
  "UvmReserveVaParams_layout = [FU64, FU64, FI32]"

definition UvmReserveVaParams_pod :: "UvmReserveVaParams pod" where
  "UvmReserveVaParams_pod =
     \<lparr>pod_size = size_of (FStruct UvmReserveVaParams_layout),
      pod_read = (\<lambda>bs. \<lparr>p_requested_base = get_u64 (field_at UvmReserveVaParams_layout bs 0),
      p_length = get_u64 (field_at UvmReserveVaParams_layout bs 1),
      p_rm_status = get_i32 (field_at UvmReserveVaParams_layout bs 2)\<rparr>)\<rparr>"

record UvmRegionCommitParams =
  p_requested_base :: u64
  p_length :: u64
  p_stream_id :: u64
  p_gpu_uuid :: "u8 list"
  p_rm_status :: i32

definition UvmRegionCommitParams_layout :: "fty list" where
  "UvmRegionCommitParams_layout = [FU64, FU64, FU64, FArr 16 FU8, FI32]"

definition UvmRegionCommitParams_pod :: "UvmRegionCommitParams pod" where
  "UvmRegionCommitParams_pod =
     \<lparr>pod_size = size_of (FStruct UvmRegionCommitParams_layout),
      pod_read = (\<lambda>bs. \<lparr>p_requested_base = get_u64 (field_at UvmRegionCommitParams_layout bs 0),
      p_length = get_u64 (field_at UvmRegionCommitParams_layout bs 1),
      p_stream_id = get_u64 (field_at UvmRegionCommitParams_layout bs 2),
      p_gpu_uuid = take 16 (field_at UvmRegionCommitParams_layout bs 3),
      p_rm_status = get_i32 (field_at UvmRegionCommitParams_layout bs 4)\<rparr>)\<rparr>"

record UvmRegionSetStreamParams =
  p_requested_base :: u64
  p_length :: u64
  p_new_stream_id :: u64
  p_gpu_uuid :: "u8 list"
  p_rm_status :: i32

definition UvmRegionSetStreamParams_layout :: "fty list" where
  "UvmRegionSetStreamParams_layout = [FU64, FU64, FU64, FArr 16 FU8, FI32]"

definition UvmRegionSetStreamParams_pod :: "UvmRegionSetStreamParams pod" where
  "UvmRegionSetStreamParams_pod =
     \<lparr>pod_size = size_of (FStruct UvmRegionSetStreamParams_layout),
      pod_read = (\<lambda>bs. \<lparr>p_requested_base = get_u64 (field_at UvmRegionSetStreamParams_layout bs 0),
      p_length = get_u64 (field_at UvmRegionSetStreamParams_layout bs 1),
      p_new_stream_id = get_u64 (field_at UvmRegionSetStreamParams_layout bs 2),
      p_gpu_uuid = take 16 (field_at UvmRegionSetStreamParams_layout bs 3),
      p_rm_status = get_i32 (field_at UvmRegionSetStreamParams_layout bs 4)\<rparr>)\<rparr>"

record UvmSetStreamRunningParams =
  p_stream_id :: u64
  p_rm_status :: i32

definition UvmSetStreamRunningParams_layout :: "fty list" where
  "UvmSetStreamRunningParams_layout = [FU64, FI32]"

definition UvmSetStreamRunningParams_pod :: "UvmSetStreamRunningParams pod" where
  "UvmSetStreamRunningParams_pod =
     \<lparr>pod_size = size_of (FStruct UvmSetStreamRunningParams_layout),
      pod_read = (\<lambda>bs. \<lparr>p_stream_id = get_u64 (field_at UvmSetStreamRunningParams_layout bs 0),
      p_rm_status = get_i32 (field_at UvmSetStreamRunningParams_layout bs 1)\<rparr>)\<rparr>"

record UvmSetStreamStoppedParams =
  p_stream_id_array :: "u64 list"
  p_n_streams :: u64
  p_rm_status :: i32

definition UvmSetStreamStoppedParams_layout :: "fty list" where
  "UvmSetStreamStoppedParams_layout = [FArr UVM_MAX_STREAMS_PER_IOCTL_CALL FU64, FU64, FI32]"

definition UvmSetStreamStoppedParams_pod :: "UvmSetStreamStoppedParams pod" where
  "UvmSetStreamStoppedParams_pod =
     \<lparr>pod_size = size_of (FStruct UvmSetStreamStoppedParams_layout),
      pod_read = (\<lambda>bs. \<lparr>p_stream_id_array = get_array UVM_MAX_STREAMS_PER_IOCTL_CALL (size_of FU64) get_u64 (field_at UvmSetStreamStoppedParams_layout bs 0),
      p_n_streams = get_u64 (field_at UvmSetStreamStoppedParams_layout bs 1),
      p_rm_status = get_i32 (field_at UvmSetStreamStoppedParams_layout bs 2)\<rparr>)\<rparr>"

record UvmAddSessionParams =
  p_pid_target :: u32
  p_rm_status :: i32

definition UvmAddSessionParams_layout :: "fty list" where
  "UvmAddSessionParams_layout = [FU32, FI32]"

definition UvmAddSessionParams_pod :: "UvmAddSessionParams pod" where
  "UvmAddSessionParams_pod =
     \<lparr>pod_size = size_of (FStruct UvmAddSessionParams_layout),
      pod_read = (\<lambda>bs. \<lparr>p_pid_target = get_u32 (field_at UvmAddSessionParams_layout bs 0),
      p_rm_status = get_i32 (field_at UvmAddSessionParams_layout bs 1)\<rparr>)\<rparr>"

record UvmCounterConfig =
  p_scope :: u32
  p_name :: u32
  p_gpu_uuid :: "u8 list"
  p_state :: u32

definition UvmCounterConfig_layout :: "fty list" where
  "UvmCounterConfig_layout = [FU32, FU32, FArr 16 FU8, FU32]"

definition UvmCounterConfig_pod :: "UvmCounterConfig pod" where
  "UvmCounterConfig_pod =
     \<lparr>pod_size = size_of (FStruct UvmCounterConfig_layout),
      pod_read = (\<lambda>bs. \<lparr>p_scope = get_u32 (field_at UvmCounterConfig_layout bs 0),
      p_name = get_u32 (field_at UvmCounterConfig_layout bs 1),
      p_gpu_uuid = take 16 (field_at UvmCounterConfig_layout bs 2),
      p_state = get_u32 (field_at UvmCounterConfig_layout bs 3)\<rparr>)\<rparr>"

record UvmEnableCountersParams =
  p_config :: "UvmCounterConfig list"
  p_count :: u32
  p_rm_status :: i32

definition UvmEnableCountersParams_layout :: "fty list" where
  "UvmEnableCountersParams_layout = [FArr UVM_MAX_COUNTERS_PER_IOCTL_CALL (FStruct UvmCounterConfig_layout), FU32, FI32]"

definition UvmEnableCountersParams_pod :: "UvmEnableCountersParams pod" where
  "UvmEnableCountersParams_pod =
     \<lparr>pod_size = size_of (FStruct UvmEnableCountersParams_layout),
      pod_read = (\<lambda>bs. \<lparr>p_config = get_array UVM_MAX_COUNTERS_PER_IOCTL_CALL (pod_size UvmCounterConfig_pod) ((pod_read UvmCounterConfig_pod)) (field_at UvmEnableCountersParams_layout bs 0),
      p_count = get_u32 (field_at UvmEnableCountersParams_layout bs 1),
      p_rm_status = get_i32 (field_at UvmEnableCountersParams_layout bs 2)\<rparr>)\<rparr>"

record UvmMapCounterParams =
  p_scope :: u32
  p_counter_name :: u32
  p_gpu_uuid :: "u8 list"
  p_addr :: u64
  p_rm_status :: i32

definition UvmMapCounterParams_layout :: "fty list" where
  "UvmMapCounterParams_layout = [FU32, FU32, FArr 16 FU8, FU64, FI32]"

definition UvmMapCounterParams_pod :: "UvmMapCounterParams pod" where
  "UvmMapCounterParams_pod =
     \<lparr>pod_size = size_of (FStruct UvmMapCounterParams_layout),
      pod_read = (\<lambda>bs. \<lparr>p_scope = get_u32 (field_at UvmMapCounterParams_layout bs 0),
      p_counter_name = get_u32 (field_at UvmMapCounterParams_layout bs 1),
      p_gpu_uuid = take 16 (field_at UvmMapCounterParams_layout bs 2),
      p_addr = get_u64 (field_at UvmMapCounterParams_layout bs 3),
      p_rm_status = get_i32 (field_at UvmMapCounterParams_layout bs 4)\<rparr>)\<rparr>"

record UvmCreateEventQueueParams =
  p_event_queue_index :: u32
  p_queue_size :: u64
  p_notification_count :: u64
  p_notification_handle :: u64
  p_timestamp_type :: u32
  p_rm_status :: i32

definition UvmCreateEventQueueParams_layout :: "fty list" where
  "UvmCreateEventQueueParams_layout = [FU32, FU64, FU64, FU64, FU32, FI32]"

definition UvmCreateEventQueueParams_pod :: "UvmCreateEventQueueParams pod" where
  "UvmCreateEventQueueParams_pod =
     \<lparr>pod_size = size_of (FStruct UvmCreateEventQueueParams_layout),
      pod_read = (\<lambda>bs. \<lparr>p_event_queue_index = get_u32 (field_at UvmCreateEventQueueParams_layout bs 0),
      p_queue_size = get_u64 (field_at UvmCreateEventQueueParams_layout bs 1),
      p_notification_count = get_u64 (field_at UvmCreateEventQueueParams_layout bs 2),
      p_notification_handle = get_u64 (field_at UvmCreateEventQueueParams_layout bs 3),
      p_timestamp_type = get_u32 (field_at UvmCreateEventQueueParams_layout bs 4),
      p_rm_status = get_i32 (field_at UvmCreateEventQueueParams_layout bs 5)\<rparr>)\<rparr>"

record UvmRemoveEventQueueParams =
  p_event_queue_index :: u32
  p_rm_status :: i32

definition UvmRemoveEventQueueParams_layout :: "fty list" where
  "UvmRemoveEventQueueParams_layout = [FU32, FI32]"

definition UvmRemoveEventQueueParams_pod :: "UvmRemoveEventQueueParams pod" where
  "UvmRemoveEventQueueParams_pod =
     \<lparr>pod_size = size_of (FStruct UvmRemoveEventQueueParams_layout),
      pod_read = (\<lambda>bs. \<lparr>p_event_queue_index = get_u32 (field_at UvmRemoveEventQueueParams_layout bs 0),
      p_rm_status = get_i32 (field_at UvmRemoveEventQueueParams_layout bs 1)\<rparr>)\<rparr>"

record UvmMapEventQueueParams =
  p_event_queue_index :: u32
  p_user_ro_data_addr :: u64
  p_user_rw_data_addr :: u64
  p_read_index_addr :: u64
  p_write_index_addr :: u64
  p_queue_buffer_addr :: u64
  p_rm_status :: i32

definition UvmMapEventQueueParams_layout :: "fty list" where
  "UvmMapEventQueueParams_layout = [FU32, FU64, FU64, FU64, FU64, FU64, FI32]"

definition UvmMapEventQueueParams_pod :: "UvmMapEventQueueParams pod" where
  "UvmMapEventQueueParams_pod =
     \<lparr>pod_size = size_of (FStruct UvmMapEventQueueParams_layout),
      pod_read = (\<lambda>bs. \<lparr>p_event_queue_index = get_u32 (field_at UvmMapEventQueueParams_layout bs 0),
      p_user_ro_data_addr = get_u64 (field_at UvmMapEventQueueParams_layout bs 1),
      p_user_rw_data_addr = get_u64 (field_at UvmMapEventQueueParams_layout bs 2),
      p_read_index_addr = get_u64 (field_at UvmMapEventQueueParams_layout bs 3),
      p_write_index_addr = get_u64 (field_at UvmMapEventQueueParams_layout bs 4),
      p_queue_buffer_addr = get_u64 (field_at UvmMapEventQueueParams_layout bs 5),
      p_rm_status = get_i32 (field_at UvmMapEventQueueParams_layout bs 6)\<rparr>)\<rparr>"

record UvmEventCtrlParams =
  p_event_queue_index :: u32
  p_event_type :: i32
  p_enable :: u32
  p_rm_status :: i32

definition UvmEventCtrlParams_layout :: "fty list" where
  "UvmEventCtrlParams_layout = [FU32, FI32, FU32, FI32]"

definition UvmEventCtrlParams_pod :: "UvmEventCtrlParams pod" where
  "UvmEventCtrlParams_pod =
     \<lparr>pod_size = size_of (FStruct UvmEventCtrlParams_layout),
      pod_read = (\<lambda>bs. \<lparr>p_event_queue_index = get_u32 (field_at UvmEventCtrlParams_layout bs 0),
      p_event_type = get_i32 (field_at UvmEventCtrlParams_layout bs 1),
      p_enable = get_u32 (field_at UvmEventCtrlParams_layout bs 2),
      p_rm_status = get_i32 (field_at UvmEventCtrlParams_layout bs 3)\<rparr>)\<rparr>"

record UvmGetGpuUuidTableParams =
  p_gpu_uuid_array :: "u8 list list"
  p_valid_count :: u32
  p_rm_status :: i32

definition UvmGetGpuUuidTableParams_layout :: "fty list" where
  "UvmGetGpuUuidTableParams_layout = [FArr UVM_MAX_GPUS_V1 (FArr 16 FU8), FU32, FI32]"

definition UvmGetGpuUuidTableParams_pod :: "UvmGetGpuUuidTableParams pod" where
  "UvmGetGpuUuidTableParams_pod =
     \<lparr>pod_size = size_of (FStruct UvmGetGpuUuidTableParams_layout),
      pod_read = (\<lambda>bs. \<lparr>p_gpu_uuid_array = get_array UVM_MAX_GPUS_V1 (size_of (FArr 16 FU8)) (take 16) (field_at UvmGetGpuUuidTableParams_layout bs 0),
      p_valid_count = get_u32 (field_at UvmGetGpuUuidTableParams_layout bs 1),
      p_rm_status = get_i32 (field_at UvmGetGpuUuidTableParams_layout bs 2)\<rparr>)\<rparr>"

record UvmRegionSetBackingParams =
  p_gpu_uuid :: "u8 list"
  p_h_allocation :: u32
  p_va_addr :: u64
  p_region_length :: u64
  p_rm_status :: i32

definition UvmRegionSetBackingParams_layout :: "fty list" where
  "UvmRegionSetBackingParams_layout = [FArr 16 FU8, FU32, FU64, FU64, FI32]"

definition UvmRegionSetBackingParams_pod :: "UvmRegionSetBackingParams pod" where
  "UvmRegionSetBackingParams_pod =
     \<lparr>pod_size = size_of (FStruct UvmRegionSetBackingParams_layout),
      pod_read = (\<lambda>bs. \<lparr>p_gpu_uuid = take 16 (field_at UvmRegionSetBackingParams_layout bs 0),
      p_h_allocation = get_u32 (field_at UvmRegionSetBackingParams_layout bs 1),
      p_va_addr = get_u64 (field_at UvmRegionSetBackingParams_layout bs 2),
      p_region_length = get_u64 (field_at UvmRegionSetBackingParams_layout bs 3),
      p_rm_status = get_i32 (field_at UvmRegionSetBackingParams_layout bs 4)\<rparr>)\<rparr>"

record UvmRegionUnsetBackingParams =
  p_va_addr :: u64
  p_region_length :: u64
  p_rm_status :: i32

definition UvmRegionUnsetBackingParams_layout :: "fty list" where
  "UvmRegionUnsetBackingParams_layout = [FU64, FU64, FI32]"

definition UvmRegionUnsetBackingParams_pod :: "UvmRegionUnsetBackingParams pod" where
  "UvmRegionUnsetBackingParams_pod =
     \<lparr>pod_size = size_of (FStruct UvmRegionUnsetBackingParams_layout),
      pod_read = (\<lambda>bs. \<lparr>p_va_addr = get_u64 (field_at UvmRegionUnsetBackingParams_layout bs 0),
      p_region_length = get_u64 (field_at UvmRegionUnsetBackingParams_layout bs 1),
      p_rm_status = get_i32 (field_at UvmRegionUnsetBackingParams_layout bs 2)\<rparr>)\<rparr>"

record UvmCreateRangeGroupParams =
  p_range_group_id :: u64
  p_rm_status :: i32

definition UvmCreateRangeGroupParams_layout :: "fty list" where
  "UvmCreateRangeGroupParams_layout = [FU64, FI32]"

definition UvmCreateRangeGroupParams_pod :: "UvmCreateRangeGroupParams pod" where
  "UvmCreateRangeGroupParams_pod =
     \<lparr>pod_size = size_of (FStruct UvmCreateRangeGroupParams_layout),
      pod_read = (\<lambda>bs. \<lparr>p_range_group_id = get_u64 (field_at UvmCreateRangeGroupParams_layout bs 0),
      p_rm_status = get_i32 (field_at UvmCreateRangeGroupParams_layout bs 1)\<rparr>)\<rparr>"

record UvmDestroyRangeGroupParams =
  p_range_group_id :: u64
  p_rm_status :: i32

definition UvmDestroyRangeGroupParams_layout :: "fty list" where
  "UvmDestroyRangeGroupParams_layout = [FU64, FI32]"

definition UvmDestroyRangeGroupParams_pod :: "UvmDestroyRangeGroupParams pod" where
  "UvmDestroyRangeGroupParams_pod =
     \<lparr>pod_size = size_of (FStruct UvmDestroyRangeGroupParams_layout),
      pod_read = (\<lambda>bs. \<lparr>p_range_group_id = get_u64 (field_at UvmDestroyRangeGroupParams_layout bs 0),
      p_rm_status = get_i32 (field_at UvmDestroyRangeGroupParams_layout bs 1)\<rparr>)\<rparr>"

record UvmRegisterGpuVaspaceParams =
  p_gpu_uuid :: "u8 list"
  p_rm_ctrl_fd :: i32
  p_h_client :: u32
  p_h_vaspace :: u32
  p_rm_status :: i32

definition UvmRegisterGpuVaspaceParams_layout :: "fty list" where
  "UvmRegisterGpuVaspaceParams_layout = [FArr 16 FU8, FI32, FU32, FU32, FI32]"

definition UvmRegisterGpuVaspaceParams_pod :: "UvmRegisterGpuVaspaceParams pod" where
  "UvmRegisterGpuVaspaceParams_pod =
     \<lparr>pod_size = size_of (FStruct UvmRegisterGpuVaspaceParams_layout),
      pod_read = (\<lambda>bs. \<lparr>p_gpu_uuid = take 16 (field_at UvmRegisterGpuVaspaceParams_layout bs 0),
      p_rm_ctrl_fd = get_i32 (field_at UvmRegisterGpuVaspaceParams_layout bs 1),
      p_h_client = get_u32 (field_at UvmRegisterGpuVaspaceParams_layout bs 2),
      p_h_vaspace = get_u32 (field_at UvmRegisterGpuVaspaceParams_layout bs 3),
      p_rm_status = get_i32 (field_at UvmRegisterGpuVaspaceParams_layout bs 4)\<rparr>)\<rparr>"

record UvmUnregisterGpuVaspaceParams =
  p_gpu_uuid :: "u8 list"
  p_rm_status :: i32

definition UvmUnregisterGpuVaspaceParams_layout :: "fty list" where
  "UvmUnregisterGpuVaspaceParams_layout = [FArr 16 FU8, FI32]"

definition UvmUnregisterGpuVaspaceParams_pod :: "UvmUnregisterGpuVaspaceParams pod" where
  "UvmUnregisterGpuVaspaceParams_pod =
     \<lparr>pod_size = size_of (FStruct UvmUnregisterGpuVaspaceParams_layout),
      pod_read = (\<lambda>bs. \<lparr>p_gpu_uuid = take 16 (field_at UvmUnregisterGpuVaspaceParams_layout bs 0),
      p_rm_status = get_i32 (field_at UvmUnregisterGpuVaspaceParams_layout bs 1)\<rparr>)\<rparr>"

record UvmRegisterChannelParams =
  p_gpu_uuid :: "u8 list"
  p_rm_ctrl_fd :: i32
  p_h_client :: u32
  p_h_channel :: u32
  p_base :: u64
  p_length :: u64
  p_rm_status :: i32

definition UvmRegisterChannelParams_layout :: "fty list" where
  "UvmRegisterChannelParams_layout = [FArr 16 FU8, FI32, FU32, FU32, FU64, FU64, FI32]"

definition UvmRegisterChannelParams_pod :: "UvmRegisterChannelParams pod" where
  "UvmRegisterChannelParams_pod =
     \<lparr>pod_size = size_of (FStruct UvmRegisterChannelParams_layout),
      pod_read = (\<lambda>bs. \<lparr>p_gpu_uuid = take 16 (field_at UvmRegisterChannelParams_layout bs 0),
      p_rm_ctrl_fd = get_i32 (field_at UvmRegisterChannelParams_layout bs 1),
      p_h_client = get_u32 (field_at UvmRegisterChannelParams_layout bs 2),
      p_h_channel = get_u32 (field_at UvmRegisterChannelParams_layout bs 3),
      p_base = get_u64 (field_at UvmRegisterChannelParams_layout bs 4),
      p_length = get_u64 (field_at UvmRegisterChannelParams_layout bs 5),
      p_rm_status = get_i32 (field_at UvmRegisterChannelParams_layout bs 6)\<rparr>)\<rparr>"

record UvmUnregisterChannelParams =
  p_h_client :: u32
  p_h_channel :: u32
  p_rm_status :: i32

definition UvmUnregisterChannelParams_layout :: "fty list" where
  "UvmUnregisterChannelParams_layout = [FU32, FU32, FI32]"

definition UvmUnregisterChannelParams_pod :: "UvmUnregisterChannelParams pod" where
  "UvmUnregisterChannelParams_pod =
     \<lparr>pod_size = size_of (FStruct UvmUnregisterChannelParams_layout),
      pod_read = (\<lambda>bs. \<lparr>p_h_client = get_u32 (field_at UvmUnregisterChannelParams_layout bs 0),
      p_h_channel = get_u32 (field_at UvmUnregisterChannelParams_layout bs 1),
      p_rm_status = get_i32 (field_at UvmUnregisterChannelParams_layout bs 2)\<rparr>)\<rparr>"

record UvmPeerAccessParams =
  p_gpu_uuid_a :: "u8 list"
  p_gpu_uuid_b :: "u8 list"
  p_rm_status :: i32

definition UvmPeerAccessParams_layout :: "fty list" where
  "UvmPeerAccessParams_layout = [FArr 16 FU8, FArr 16 FU8, FI32]"

definition UvmPeerAccessParams_pod :: "UvmPeerAccessParams pod" where
  "UvmPeerAccessParams_pod =
     \<lparr>pod_size = size_of (FStruct UvmPeerAccessParams_layout),
      pod_read = (\<lambda>bs. \<lparr>p_gpu_uuid_a = take 16 (field_at UvmPeerAccessParams_layout bs 0),
      p_gpu_uuid_b = take 16 (field_at UvmPeerAccessParams_layout bs 1),
      p_rm_status = get_i32 (field_at UvmPeerAccessParams_layout bs 2)\<rparr>)\<rparr>"

record UvmSetRangeGroupParams =
  p_range_group_id :: u64
  p_requested_base :: u64
  p_length :: u64
  p_rm_status :: i32

definition UvmSetRangeGroupParams_layout :: "fty list" where
  "UvmSetRangeGroupParams_layout = [FU64, FU64, FU64, FI32]"

definition UvmSetRangeGroupParams_pod :: "UvmSetRangeGroupParams pod" where
  "UvmSetRangeGroupParams_pod =
     \<lparr>pod_size = size_of (FStruct UvmSetRangeGroupParams_layout),
      pod_read = (\<lambda>bs. \<lparr>p_range_group_id = get_u64 (field_at UvmSetRangeGroupParams_layout bs 0),
      p_requested_base = get_u64 (field_at UvmSetRangeGroupParams_layout bs 1),
      p_length = get_u64 (field_at UvmSetRangeGroupParams_layout bs 2),
      p_rm_status = get_i32 (field_at UvmSetRangeGroupParams_layout bs 3)\<rparr>)\<rparr>"

record UvmGpuMappingAttributes =
  p_gpu_uuid :: "u8 list"
  p_gpu_mapping_type :: u32
  p_gpu_caching_type :: u32
  p_gpu_format_type :: u32
  p_gpu_element_bits :: u32
  p_gpu_compression_type :: u32

definition UvmGpuMappingAttributes_layout :: "fty list" where
  "UvmGpuMappingAttributes_layout = [FArr 16 FU8, FU32, FU32, FU32, FU32, FU32]"

definition UvmGpuMappingAttributes_pod :: "UvmGpuMappingAttributes pod" where
  "UvmGpuMappingAttributes_pod =
     \<lparr>pod_size = size_of (FStruct UvmGpuMappingAttributes_layout),
      pod_read = (\<lambda>bs. \<lparr>p_gpu_uuid = take 16 (field_at UvmGpuMappingAttributes_layout bs 0),
      p_gpu_mapping_type = get_u32 (field_at UvmGpuMappingAttributes_layout bs 1),
      p_gpu_caching_type = get_u32 (field_at UvmGpuMappingAttributes_layout bs 2),
      p_gpu_format_type = get_u32 (field_at UvmGpuMappingAttributes_layout bs 3),
      p_gpu_element_bits = get_u32 (field_at UvmGpuMappingAttributes_layout bs 4),
      p_gpu_compression_type = get_u32 (field_at UvmGpuMappingAttributes_layout bs 5)\<rparr>)\<rparr>"

record UvmMapExternalAllocationParams =
  p_base :: u64
  p_length :: u64
  p_offset :: u64
  p_per_gpu_attributes :: "UvmGpuMappingAttributes list"
  p_gpu_attributes_count :: u64
  p_rm_ctrl_fd :: i32
  p_h_client :: u32
  p_h_memory :: u32
  p_rm_status :: i32

definition UvmMapExternalAllocationParams_layout :: "fty list" where
  "UvmMapExternalAllocationParams_layout = [FU64, FU64, FU64, FArr UVM_MAX_GPUS (FStruct UvmGpuMappingAttributes_layout), FU64, FI32, FU32, FU32, FI32]"

definition UvmMapExternalAllocationParams_pod :: "UvmMapExternalAllocationParams pod" where
  "UvmMapExternalAllocationParams_pod =
     \<lparr>pod_size = size_of (FStruct UvmMapExternalAllocationParams_layout),
      pod_read = (\<lambda>bs. \<lparr>p_base = get_u64 (field_at UvmMapExternalAllocationParams_layout bs 0),
      p_length = get_u64 (field_at UvmMapExternalAllocationParams_layout bs 1),
      p_offset = get_u64 (field_at UvmMapExternalAllocationParams_layout bs 2),
      p_per_gpu_attributes = get_array UVM_MAX_GPUS (pod_size UvmGpuMappingAttributes_pod) ((pod_read UvmGpuMappingAttributes_pod)) (field_at UvmMapExternalAllocationParams_layout bs 3),
      p_gpu_attributes_count = get_u64 (field_at UvmMapExternalAllocationParams_layout bs 4),
      p_rm_ctrl_fd = get_i32 (field_at UvmMapExternalAllocationParams_layout bs 5),
      p_h_client = get_u32 (field_at UvmMapExternalAllocationParams_layout bs 6),
      p_h_memory = get_u32 (field_at UvmMapExternalAllocationParams_layout bs 7),
      p_rm_status = get_i32 (field_at UvmMapExternalAllocationParams_layout bs 8)\<rparr>)\<rparr>"

record UvmFreeParams =
  p_base :: u64
  p_rm_status :: i32

definition UvmFreeParams_layout :: "fty list" where
  "UvmFreeParams_layout = [FU64, FI32]"

definition UvmFreeParams_pod :: "UvmFreeParams pod" where
  "UvmFreeParams_pod =
     \<lparr>pod_size = size_of (FStruct UvmFreeParams_layout),
      pod_read = (\<lambda>bs. \<lparr>p_base = get_u64 (field_at UvmFreeParams_layout bs 0),
      p_rm_status = get_i32 (field_at UvmFreeParams_layout bs 1)\<rparr>)\<rparr>"

record UvmMemMapParams =
  p_region_base :: u64
  p_region_length :: u64
  p_rm_status :: i32

definition UvmMemMapParams_layout :: "fty list" where
  "UvmMemMapParams_layout = [FU64, FU64, FI32]"

definition UvmMemMapParams_pod :: "UvmMemMapParams pod" where
  "UvmMemMapParams_pod =
     \<lparr>pod_size = size_of (FStruct UvmMemMapParams_layout),
      pod_read = (\<lambda>bs. \<lparr>p_region_base = get_u64 (field_at UvmMemMapParams_layout bs 0),
      p_region_length = get_u64 (field_at UvmMemMapParams_layout bs 1),
      p_rm_status = get_i32 (field_at UvmMemMapParams_layout bs 2)\<rparr>)\<rparr>"

record UvmRegisterGpuParams =
  p_gpu_uuid :: "u8 list"
  p_numa_enabled :: u8
  p_pad0 :: "u8 list"
  p_numa_node_id :: i32
  p_rm_ctrl_fd :: i32
  p_h_client :: u32
  p_h_smc_part_ref :: u32
  p_rm_status :: i32

definition UvmRegisterGpuParams_layout :: "fty list" where
  "UvmRegisterGpuParams_layout = [FArr 16 FU8, FU8, FArr 3 FU8, FI32, FI32, FU32, FU32, FI32]"

definition UvmRegisterGpuParams_pod :: "UvmRegisterGpuParams pod" where
  "UvmRegisterGpuParams_pod =
     \<lparr>pod_size = size_of (FStruct UvmRegisterGpuParams_layout),
      pod_read = (\<lambda>bs. \<lparr>p_gpu_uuid = take 16 (field_at UvmRegisterGpuParams_layout bs 0),
      p_numa_enabled = get_u8 (field_at UvmRegisterGpuParams_layout bs 1),
      p_pad0 = take 3 (field_at UvmRegisterGpuParams_layout bs 2),
      p_numa_node_id = get_i32 (field_at UvmRegisterGpuParams_layout bs 3),
      p_rm_ctrl_fd = get_i32 (field_at UvmRegisterGpuParams_layout bs 4),
      p_h_client = get_u32 (field_at UvmRegisterGpuParams_layout bs 5),
      p_h_smc_part_ref = get_u32 (field_at UvmRegisterGpuParams_layout bs 6),
      p_rm_status = get_i32 (field_at UvmRegisterGpuParams_layout bs 7)\<rparr>)\<rparr>"

record UvmUnregisterGpuParams =
  p_gpu_uuid :: "u8 list"
  p_rm_status :: i32

definition UvmUnregisterGpuParams_layout :: "fty list" where
  "UvmUnregisterGpuParams_layout = [FArr 16 FU8, FI32]"

definition UvmUnregisterGpuParams_pod :: "UvmUnregisterGpuParams pod" where
  "UvmUnregisterGpuParams_pod =
     \<lparr>pod_size = size_of (FStruct UvmUnregisterGpuParams_layout),
      pod_read = (\<lambda>bs. \<lparr>p_gpu_uuid = take 16 (field_at UvmUnregisterGpuParams_layout bs 0),
      p_rm_status = get_i32 (field_at UvmUnregisterGpuParams_layout bs 1)\<rparr>)\<rparr>"

record UvmPageableMemAccessParams =
  p_pageable_mem_access :: u8
  p_pad0 :: "u8 list"
  p_rm_status :: i32

definition UvmPageableMemAccessParams_layout :: "fty list" where
  "UvmPageableMemAccessParams_layout = [FU8, FArr 3 FU8, FI32]"

definition UvmPageableMemAccessParams_pod :: "UvmPageableMemAccessParams pod" where
  "UvmPageableMemAccessParams_pod =
     \<lparr>pod_size = size_of (FStruct UvmPageableMemAccessParams_layout),
      pod_read = (\<lambda>bs. \<lparr>p_pageable_mem_access = get_u8 (field_at UvmPageableMemAccessParams_layout bs 0),
      p_pad0 = take 3 (field_at UvmPageableMemAccessParams_layout bs 1),
      p_rm_status = get_i32 (field_at UvmPageableMemAccessParams_layout bs 2)\<rparr>)\<rparr>"

record UvmRangeGroupsParams =
  p_range_group_ids :: "u64 list"
  p_num_group_ids :: u64
  p_rm_status :: i32

definition UvmRangeGroupsParams_layout :: "fty list" where
  "UvmRangeGroupsParams_layout = [FArr UVM_MAX_RANGE_GROUPS_PER_IOCTL_CALL FU64, FU64, FI32]"

definition UvmRangeGroupsParams_pod :: "UvmRangeGroupsParams pod" where
  "UvmRangeGroupsParams_pod =
     \<lparr>pod_size = size_of (FStruct UvmRangeGroupsParams_layout),
      pod_read = (\<lambda>bs. \<lparr>p_range_group_ids = get_array UVM_MAX_RANGE_GROUPS_PER_IOCTL_CALL (size_of FU64) get_u64 (field_at UvmRangeGroupsParams_layout bs 0),
      p_num_group_ids = get_u64 (field_at UvmRangeGroupsParams_layout bs 1),
      p_rm_status = get_i32 (field_at UvmRangeGroupsParams_layout bs 2)\<rparr>)\<rparr>"

record UvmSetPreferredLocationParams =
  p_requested_base :: u64
  p_length :: u64
  p_preferred_location :: "u8 list"
  p_preferred_cpu_numa_node :: i32
  p_rm_status :: i32

definition UvmSetPreferredLocationParams_layout :: "fty list" where
  "UvmSetPreferredLocationParams_layout = [FU64, FU64, FArr 16 FU8, FI32, FI32]"

definition UvmSetPreferredLocationParams_pod :: "UvmSetPreferredLocationParams pod" where
  "UvmSetPreferredLocationParams_pod =
     \<lparr>pod_size = size_of (FStruct UvmSetPreferredLocationParams_layout),
      pod_read = (\<lambda>bs. \<lparr>p_requested_base = get_u64 (field_at UvmSetPreferredLocationParams_layout bs 0),
      p_length = get_u64 (field_at UvmSetPreferredLocationParams_layout bs 1),
      p_preferred_location = take 16 (field_at UvmSetPreferredLocationParams_layout bs 2),
      p_preferred_cpu_numa_node = get_i32 (field_at UvmSetPreferredLocationParams_layout bs 3),
      p_rm_status = get_i32 (field_at UvmSetPreferredLocationParams_layout bs 4)\<rparr>)\<rparr>"

record UvmSetAccessedByParams =
  p_requested_base :: u64
  p_length :: u64
  p_accessed_by_uuid :: "u8 list"
  p_rm_status :: i32

definition UvmSetAccessedByParams_layout :: "fty list" where
  "UvmSetAccessedByParams_layout = [FU64, FU64, FArr 16 FU8, FI32]"

definition UvmSetAccessedByParams_pod :: "UvmSetAccessedByParams pod" where
  "UvmSetAccessedByParams_pod =
     \<lparr>pod_size = size_of (FStruct UvmSetAccessedByParams_layout),
      pod_read = (\<lambda>bs. \<lparr>p_requested_base = get_u64 (field_at UvmSetAccessedByParams_layout bs 0),
      p_length = get_u64 (field_at UvmSetAccessedByParams_layout bs 1),
      p_accessed_by_uuid = take 16 (field_at UvmSetAccessedByParams_layout bs 2),
      p_rm_status = get_i32 (field_at UvmSetAccessedByParams_layout bs 3)\<rparr>)\<rparr>"

record UvmMigrateParams =
  p_base :: u64
  p_length :: u64
  p_destination_uuid :: "u8 list"
  p_flags :: u32
  p_semaphore_address :: u64
  p_semaphore_payload :: u32
  p_cpu_numa_node :: i32
  p_user_space_start :: u64
  p_user_space_length :: u64
  p_rm_status :: i32

definition UvmMigrateParams_layout :: "fty list" where
  "UvmMigrateParams_layout = [FU64, FU64, FArr 16 FU8, FU32, FU64, FU32, FI32, FU64, FU64, FI32]"

definition UvmMigrateParams_pod :: "UvmMigrateParams pod" where
  "UvmMigrateParams_pod =
     \<lparr>pod_size = size_of (FStruct UvmMigrateParams_layout),
      pod_read = (\<lambda>bs. \<lparr>p_base = get_u64 (field_at UvmMigrateParams_layout bs 0),
      p_length = get_u64 (field_at UvmMigrateParams_layout bs 1),
      p_destination_uuid = take 16 (field_at UvmMigrateParams_layout bs 2),
      p_flags = get_u32 (field_at UvmMigrateParams_layout bs 3),
      p_semaphore_address = get_u64 (field_at UvmMigrateParams_layout bs 4),
      p_semaphore_payload = get_u32 (field_at UvmMigrateParams_layout bs 5),
      p_cpu_numa_node = get_i32 (field_at UvmMigrateParams_layout bs 6),
      p_user_space_start = get_u64 (field_at UvmMigrateParams_layout bs 7),
      p_user_space_length = get_u64 (field_at UvmMigrateParams_layout bs 8),
      p_rm_status = get_i32 (field_at UvmMigrateParams_layout bs 9)\<rparr>)\<rparr>"

record UvmMigrateRangeGroupParams =
  p_range_group_id :: u64
  p_destination_uuid :: "u8 list"
  p_rm_status :: i32

definition UvmMigrateRangeGroupParams_layout :: "fty list" where
  "UvmMigrateRangeGroupParams_layout = [FU64, FArr 16 FU8, FI32]"

definition UvmMigrateRangeGroupParams_pod :: "UvmMigrateRangeGroupParams pod" where
  "UvmMigrateRangeGroupParams_pod =
     \<lparr>pod_size = size_of (FStruct UvmMigrateRangeGroupParams_layout),
      pod_read = (\<lambda>bs. \<lparr>p_range_group_id = get_u64 (field_at UvmMigrateRangeGroupParams_layout bs 0),
      p_destination_uuid = take 16 (field_at UvmMigrateRangeGroupParams_layout bs 1),
      p_rm_status = get_i32 (field_at UvmMigrateRangeGroupParams_layout bs 2)\<rparr>)\<rparr>"

record UvmGpuUuidParams =
  p_gpu_uuid :: "u8 list"
  p_rm_status :: i32

definition UvmGpuUuidParams_layout :: "fty list" where
  "UvmGpuUuidParams_layout = [FArr 16 FU8, FI32]"

definition UvmGpuUuidParams_pod :: "UvmGpuUuidParams pod" where
  "UvmGpuUuidParams_pod =
     \<lparr>pod_size = size_of (FStruct UvmGpuUuidParams_layout),
      pod_read = (\<lambda>bs. \<lparr>p_gpu_uuid = take 16 (field_at UvmGpuUuidParams_layout bs 0),
      p_rm_status = get_i32 (field_at UvmGpuUuidParams_layout bs 1)\<rparr>)\<rparr>"

record UvmToolsInitEventTrackerParams =
  p_queue_buffer :: u64
  p_queue_buffer_size :: u64
  p_control_buffer :: u64
  p_processor :: "u8 list"
  p_all_processors :: u32
  p_uvm_fd :: u32
  p_rm_status :: i32

definition UvmToolsInitEventTrackerParams_layout :: "fty list" where
  "UvmToolsInitEventTrackerParams_layout = [FU64, FU64, FU64, FArr 16 FU8, FU32, FU32, FI32]"

definition UvmToolsInitEventTrackerParams_pod :: "UvmToolsInitEventTrackerParams pod" where
  "UvmToolsInitEventTrackerParams_pod =
     \<lparr>pod_size = size_of (FStruct UvmToolsInitEventTrackerParams_layout),
      pod_read = (\<lambda>bs. \<lparr>p_queue_buffer = get_u64 (field_at UvmToolsInitEventTrackerParams_layout bs 0),
      p_queue_buffer_size = get_u64 (field_at UvmToolsInitEventTrackerParams_layout bs 1),
      p_control_buffer = get_u64 (field_at UvmToolsInitEventTrackerParams_layout bs 2),
      p_processor = take 16 (field_at UvmToolsInitEventTrackerParams_layout bs 3),
      p_all_processors = get_u32 (field_at UvmToolsInitEventTrackerParams_layout bs 4),
      p_uvm_fd = get_u32 (field_at UvmToolsInitEventTrackerParams_layout bs 5),
      p_rm_status = get_i32 (field_at UvmToolsInitEventTrackerParams_layout bs 6)\<rparr>)\<rparr>"

record UvmToolsSetNotificationThresholdParams =
  p_notification_threshold :: u32
  p_rm_status :: i32

definition UvmToolsSetNotificationThresholdParams_layout :: "fty list" where
  "UvmToolsSetNotificationThresholdParams_layout = [FU32, FI32]"

definition UvmToolsSetNotificationThresholdParams_pod :: "UvmToolsSetNotificationThresholdParams pod" where
  "UvmToolsSetNotificationThresholdParams_pod =
     \<lparr>pod_size = size_of (FStruct UvmToolsSetNotificationThresholdParams_layout),
      pod_read = (\<lambda>bs. \<lparr>p_notification_threshold = get_u32 (field_at UvmToolsSetNotificationThresholdParams_layout bs 0),
      p_rm_status = get_i32 (field_at UvmToolsSetNotificationThresholdParams_layout bs 1)\<rparr>)\<rparr>"

record UvmToolsFlagsParams =
  p_flags :: u64
  p_rm_status :: i32

definition UvmToolsFlagsParams_layout :: "fty list" where
  "UvmToolsFlagsParams_layout = [FU64, FI32]"

definition UvmToolsFlagsParams_pod :: "UvmToolsFlagsParams pod" where
  "UvmToolsFlagsParams_pod =
     \<lparr>pod_size = size_of (FStruct UvmToolsFlagsParams_layout),
      pod_read = (\<lambda>bs. \<lparr>p_flags = get_u64 (field_at UvmToolsFlagsParams_layout bs 0),
      p_rm_status = get_i32 (field_at UvmToolsFlagsParams_layout bs 1)\<rparr>)\<rparr>"

record UvmToolsReadProcessMemoryParams =
  p_buffer :: u64
  p_size :: u64
  p_target_va :: u64
  p_bytes_read :: u64
  p_rm_status :: i32

definition UvmToolsReadProcessMemoryParams_layout :: "fty list" where
  "UvmToolsReadProcessMemoryParams_layout = [FU64, FU64, FU64, FU64, FI32]"

definition UvmToolsReadProcessMemoryParams_pod :: "UvmToolsReadProcessMemoryParams pod" where
  "UvmToolsReadProcessMemoryParams_pod =
     \<lparr>pod_size = size_of (FStruct UvmToolsReadProcessMemoryParams_layout),
      pod_read = (\<lambda>bs. \<lparr>p_buffer = get_u64 (field_at UvmToolsReadProcessMemoryParams_layout bs 0),
      p_size = get_u64 (field_at UvmToolsReadProcessMemoryParams_layout bs 1),
      p_target_va = get_u64 (field_at UvmToolsReadProcessMemoryParams_layout bs 2),
      p_bytes_read = get_u64 (field_at UvmToolsReadProcessMemoryParams_layout bs 3),
      p_rm_status = get_i32 (field_at UvmToolsReadProcessMemoryParams_layout bs 4)\<rparr>)\<rparr>"

record UvmToolsWriteProcessMemoryParams =
  p_buffer :: u64
  p_size :: u64
  p_target_va :: u64
  p_bytes_written :: u64
  p_rm_status :: i32

definition UvmToolsWriteProcessMemoryParams_layout :: "fty list" where
  "UvmToolsWriteProcessMemoryParams_layout = [FU64, FU64, FU64, FU64, FI32]"

definition UvmToolsWriteProcessMemoryParams_pod :: "UvmToolsWriteProcessMemoryParams pod" where
  "UvmToolsWriteProcessMemoryParams_pod =
     \<lparr>pod_size = size_of (FStruct UvmToolsWriteProcessMemoryParams_layout),
      pod_read = (\<lambda>bs. \<lparr>p_buffer = get_u64 (field_at UvmToolsWriteProcessMemoryParams_layout bs 0),
      p_size = get_u64 (field_at UvmToolsWriteProcessMemoryParams_layout bs 1),
      p_target_va = get_u64 (field_at UvmToolsWriteProcessMemoryParams_layout bs 2),
      p_bytes_written = get_u64 (field_at UvmToolsWriteProcessMemoryParams_layout bs 3),
      p_rm_status = get_i32 (field_at UvmToolsWriteProcessMemoryParams_layout bs 4)\<rparr>)\<rparr>"

record UvmToolsGetProcessorUuidTableParams =
  p_table_ptr :: u64
  p_rm_status :: i32

definition UvmToolsGetProcessorUuidTableParams_layout :: "fty list" where
  "UvmToolsGetProcessorUuidTableParams_layout = [FU64, FI32]"

definition UvmToolsGetProcessorUuidTableParams_pod :: "UvmToolsGetProcessorUuidTableParams pod" where
  "UvmToolsGetProcessorUuidTableParams_pod =
     \<lparr>pod_size = size_of (FStruct UvmToolsGetProcessorUuidTableParams_layout),
      pod_read = (\<lambda>bs. \<lparr>p_table_ptr = get_u64 (field_at UvmToolsGetProcessorUuidTableParams_layout bs 0),
      p_rm_status = get_i32 (field_at UvmToolsGetProcessorUuidTableParams_layout bs 1)\<rparr>)\<rparr>"

record UvmBaseLengthGpuUuidParams =
  p_base :: u64
  p_length :: u64
  p_gpu_uuid :: "u8 list"
  p_rm_status :: i32

definition UvmBaseLengthGpuUuidParams_layout :: "fty list" where
  "UvmBaseLengthGpuUuidParams_layout = [FU64, FU64, FArr 16 FU8, FI32]"

definition UvmBaseLengthGpuUuidParams_pod :: "UvmBaseLengthGpuUuidParams pod" where
  "UvmBaseLengthGpuUuidParams_pod =
     \<lparr>pod_size = size_of (FStruct UvmBaseLengthGpuUuidParams_layout),
      pod_read = (\<lambda>bs. \<lparr>p_base = get_u64 (field_at UvmBaseLengthGpuUuidParams_layout bs 0),
      p_length = get_u64 (field_at UvmBaseLengthGpuUuidParams_layout bs 1),
      p_gpu_uuid = take 16 (field_at UvmBaseLengthGpuUuidParams_layout bs 2),
      p_rm_status = get_i32 (field_at UvmBaseLengthGpuUuidParams_layout bs 3)\<rparr>)\<rparr>"

record UvmAllocSemaphorePoolParams =
  p_base :: u64
  p_length :: u64
  p_per_gpu_attributes :: "UvmGpuMappingAttributes list"
  p_gpu_attributes_count :: u64
  p_rm_status :: i32

definition UvmAllocSemaphorePoolParams_layout :: "fty list" where
  "UvmAllocSemaphorePoolParams_layout = [FU64, FU64, FArr UVM_MAX_GPUS (FStruct UvmGpuMappingAttributes_layout), FU64, FI32]"

definition UvmAllocSemaphorePoolParams_pod :: "UvmAllocSemaphorePoolParams pod" where
  "UvmAllocSemaphorePoolParams_pod =
     \<lparr>pod_size = size_of (FStruct UvmAllocSemaphorePoolParams_layout),
      pod_read = (\<lambda>bs. \<lparr>p_base = get_u64 (field_at UvmAllocSemaphorePoolParams_layout bs 0),
      p_length = get_u64 (field_at UvmAllocSemaphorePoolParams_layout bs 1),
      p_per_gpu_attributes = get_array UVM_MAX_GPUS (pod_size UvmGpuMappingAttributes_pod) ((pod_read UvmGpuMappingAttributes_pod)) (field_at UvmAllocSemaphorePoolParams_layout bs 2),
      p_gpu_attributes_count = get_u64 (field_at UvmAllocSemaphorePoolParams_layout bs 3),
      p_rm_status = get_i32 (field_at UvmAllocSemaphorePoolParams_layout bs 4)\<rparr>)\<rparr>"

record UvmStatusParams =
  p_rm_status :: i32

definition UvmStatusParams_layout :: "fty list" where
  "UvmStatusParams_layout = [FI32]"

definition UvmStatusParams_pod :: "UvmStatusParams pod" where
  "UvmStatusParams_pod =
     \<lparr>pod_size = size_of (FStruct UvmStatusParams_layout),
      pod_read = (\<lambda>bs. \<lparr>p_rm_status = get_i32 (field_at UvmStatusParams_layout bs 0)\<rparr>)\<rparr>"

record UvmPageableMemAccessOnGpuParams =
  p_gpu_uuid :: "u8 list"
  p_pageable_mem_access :: u8
  p_pad0 :: "u8 list"
  p_rm_status :: i32

definition UvmPageableMemAccessOnGpuParams_layout :: "fty list" where
  "UvmPageableMemAccessOnGpuParams_layout = [FArr 16 FU8, FU8, FArr 3 FU8, FI32]"

definition UvmPageableMemAccessOnGpuParams_pod :: "UvmPageableMemAccessOnGpuParams pod" where
  "UvmPageableMemAccessOnGpuParams_pod =
     \<lparr>pod_size = size_of (FStruct UvmPageableMemAccessOnGpuParams_layout),
      pod_read = (\<lambda>bs. \<lparr>p_gpu_uuid = take 16 (field_at UvmPageableMemAccessOnGpuParams_layout bs 0),
      p_pageable_mem_access = get_u8 (field_at UvmPageableMemAccessOnGpuParams_layout bs 1),
      p_pad0 = take 3 (field_at UvmPageableMemAccessOnGpuParams_layout bs 2),
      p_rm_status = get_i32 (field_at UvmPageableMemAccessOnGpuParams_layout bs 3)\<rparr>)\<rparr>"

record UvmPopulatePageableParams =
  p_base :: u64
  p_length :: u64
  p_flags :: u32
  p_rm_status :: i32

definition UvmPopulatePageableParams_layout :: "fty list" where
  "UvmPopulatePageableParams_layout = [FU64, FU64, FU32, FI32]"

definition UvmPopulatePageableParams_pod :: "UvmPopulatePageableParams pod" where
  "UvmPopulatePageableParams_pod =
     \<lparr>pod_size = size_of (FStruct UvmPopulatePageableParams_layout),
      pod_read = (\<lambda>bs. \<lparr>p_base = get_u64 (field_at UvmPopulatePageableParams_layout bs 0),
      p_length = get_u64 (field_at UvmPopulatePageableParams_layout bs 1),
      p_flags = get_u32 (field_at UvmPopulatePageableParams_layout bs 2),
      p_rm_status = get_i32 (field_at UvmPopulatePageableParams_layout bs 3)\<rparr>)\<rparr>"

record UvmValidateVaRangeParams =
  p_base :: u64
  p_length :: u64
  p_rm_status :: i32

definition UvmValidateVaRangeParams_layout :: "fty list" where
  "UvmValidateVaRangeParams_layout = [FU64, FU64, FI32]"

definition UvmValidateVaRangeParams_pod :: "UvmValidateVaRangeParams pod" where
  "UvmValidateVaRangeParams_pod =
     \<lparr>pod_size = size_of (FStruct UvmValidateVaRangeParams_layout),
      pod_read = (\<lambda>bs. \<lparr>p_base = get_u64 (field_at UvmValidateVaRangeParams_layout bs 0),
      p_length = get_u64 (field_at UvmValidateVaRangeParams_layout bs 1),
      p_rm_status = get_i32 (field_at UvmValidateVaRangeParams_layout bs 2)\<rparr>)\<rparr>"

record UvmCreateExternalRangeParams =
  p_base :: u64
  p_length :: u64
  p_rm_status :: i32

definition UvmCreateExternalRangeParams_layout :: "fty list" where
  "UvmCreateExternalRangeParams_layout = [FU64, FU64, FI32]"

definition UvmCreateExternalRangeParams_pod :: "UvmCreateExternalRangeParams pod" where
  "UvmCreateExternalRangeParams_pod =
     \<lparr>pod_size = size_of (FStruct UvmCreateExternalRangeParams_layout),
      pod_read = (\<lambda>bs. \<lparr>p_base = get_u64 (field_at UvmCreateExternalRangeParams_layout bs 0),
      p_length = get_u64 (field_at UvmCreateExternalRangeParams_layout bs 1),
      p_rm_status = get_i32 (field_at UvmCreateExternalRangeParams_layout bs 2)\<rparr>)\<rparr>"

record UvmMmInitializeParams =
  p_uvm_fd :: i32
  p_rm_status :: i32

definition UvmMmInitializeParams_layout :: "fty list" where
  "UvmMmInitializeParams_layout = [FI32, FI32]"

definition UvmMmInitializeParams_pod :: "UvmMmInitializeParams pod" where
  "UvmMmInitializeParams_pod =
     \<lparr>pod_size = size_of (FStruct UvmMmInitializeParams_layout),
      pod_read = (\<lambda>bs. \<lparr>p_uvm_fd = get_i32 (field_at UvmMmInitializeParams_layout bs 0),
      p_rm_status = get_i32 (field_at UvmMmInitializeParams_layout bs 1)\<rparr>)\<rparr>"

record UvmAllocDeviceP2pParams =
  p_base :: u64
  p_length :: u64
  p_offset :: u64
  p_gpu_uuid :: "u8 list"
  p_rm_ctrl_fd :: i32
  p_h_client :: u32
  p_h_memory :: u32
  p_rm_status :: i32

definition UvmAllocDeviceP2pParams_layout :: "fty list" where
  "UvmAllocDeviceP2pParams_layout = [FU64, FU64, FU64, FArr 16 FU8, FI32, FU32, FU32, FI32]"

definition UvmAllocDeviceP2pParams_pod :: "UvmAllocDeviceP2pParams pod" where
  "UvmAllocDeviceP2pParams_pod =
     \<lparr>pod_size = size_of (FStruct UvmAllocDeviceP2pParams_layout),
      pod_read = (\<lambda>bs. \<lparr>p_base = get_u64 (field_at UvmAllocDeviceP2pParams_layout bs 0),
      p_length = get_u64 (field_at UvmAllocDeviceP2pParams_layout bs 1),
      p_offset = get_u64 (field_at UvmAllocDeviceP2pParams_layout bs 2),
      p_gpu_uuid = take 16 (field_at UvmAllocDeviceP2pParams_layout bs 3),
      p_rm_ctrl_fd = get_i32 (field_at UvmAllocDeviceP2pParams_layout bs 4),
      p_h_client = get_u32 (field_at UvmAllocDeviceP2pParams_layout bs 5),
      p_h_memory = get_u32 (field_at UvmAllocDeviceP2pParams_layout bs 6),
      p_rm_status = get_i32 (field_at UvmAllocDeviceP2pParams_layout bs 7)\<rparr>)\<rparr>"

record UvmDiscardParams =
  p_base :: u64
  p_length :: u64
  p_flags :: u64
  p_rm_status :: i32

definition UvmDiscardParams_layout :: "fty list" where
  "UvmDiscardParams_layout = [FU64, FU64, FU64, FI32]"

definition UvmDiscardParams_pod :: "UvmDiscardParams pod" where
  "UvmDiscardParams_pod =
     \<lparr>pod_size = size_of (FStruct UvmDiscardParams_layout),
      pod_read = (\<lambda>bs. \<lparr>p_base = get_u64 (field_at UvmDiscardParams_layout bs 0),
      p_length = get_u64 (field_at UvmDiscardParams_layout bs 1),
      p_flags = get_u64 (field_at UvmDiscardParams_layout bs 2),
      p_rm_status = get_i32 (field_at UvmDiscardParams_layout bs 3)\<rparr>)\<rparr>"

record UvmIs8SupportedParams =
  p_is8_supported :: u32
  p_rm_status :: i32

definition UvmIs8SupportedParams_layout :: "fty list" where
  "UvmIs8SupportedParams_layout = [FU32, FI32]"

definition UvmIs8SupportedParams_pod :: "UvmIs8SupportedParams pod" where
  "UvmIs8SupportedParams_pod =
     \<lparr>pod_size = size_of (FStruct UvmIs8SupportedParams_layout),
      pod_read = (\<lambda>bs. \<lparr>p_is8_supported = get_u32 (field_at UvmIs8SupportedParams_layout bs 0),
      p_rm_status = get_i32 (field_at UvmIs8SupportedParams_layout bs 1)\<rparr>)\<rparr>"

lemmas uvm_layouts = UvmInitializeParams_layout_def UvmReserveVaParams_layout_def
  UvmRegionCommitParams_layout_def UvmRegionSetStreamParams_layout_def
  UvmSetStreamRunningParams_layout_def UvmSetStreamStoppedParams_layout_def
  UvmAddSessionParams_layout_def UvmCounterConfig_layout_def UvmEnableCountersParams_layout_def
  UvmMapCounterParams_layout_def UvmCreateEventQueueParams_layout_def
  UvmRemoveEventQueueParams_layout_def UvmMapEventQueueParams_layout_def
  UvmEventCtrlParams_layout_def UvmGetGpuUuidTableParams_layout_def
  UvmRegionSetBackingParams_layout_def UvmRegionUnsetBackingParams_layout_def
  UvmCreateRangeGroupParams_layout_def UvmDestroyRangeGroupParams_layout_def
  UvmRegisterGpuVaspaceParams_layout_def UvmUnregisterGpuVaspaceParams_layout_def
  UvmRegisterChannelParams_layout_def UvmUnregisterChannelParams_layout_def
  UvmPeerAccessParams_layout_def UvmSetRangeGroupParams_layout_def
  UvmGpuMappingAttributes_layout_def UvmMapExternalAllocationParams_layout_def
  UvmFreeParams_layout_def UvmMemMapParams_layout_def UvmRegisterGpuParams_layout_def
  UvmUnregisterGpuParams_layout_def UvmPageableMemAccessParams_layout_def
  UvmRangeGroupsParams_layout_def UvmSetPreferredLocationParams_layout_def
  UvmSetAccessedByParams_layout_def UvmMigrateParams_layout_def
  UvmMigrateRangeGroupParams_layout_def UvmGpuUuidParams_layout_def
  UvmToolsInitEventTrackerParams_layout_def UvmToolsSetNotificationThresholdParams_layout_def
  UvmToolsFlagsParams_layout_def UvmToolsReadProcessMemoryParams_layout_def
  UvmToolsWriteProcessMemoryParams_layout_def UvmToolsGetProcessorUuidTableParams_layout_def
  UvmBaseLengthGpuUuidParams_layout_def UvmAllocSemaphorePoolParams_layout_def
  UvmStatusParams_layout_def UvmPageableMemAccessOnGpuParams_layout_def
  UvmPopulatePageableParams_layout_def UvmValidateVaRangeParams_layout_def
  UvmCreateExternalRangeParams_layout_def UvmMmInitializeParams_layout_def
  UvmAllocDeviceP2pParams_layout_def UvmDiscardParams_layout_def UvmIs8SupportedParams_layout_def

lemmas uvm_pods = UvmInitializeParams_pod_def UvmReserveVaParams_pod_def
  UvmRegionCommitParams_pod_def UvmRegionSetStreamParams_pod_def UvmSetStreamRunningParams_pod_def
  UvmSetStreamStoppedParams_pod_def UvmAddSessionParams_pod_def UvmCounterConfig_pod_def
  UvmEnableCountersParams_pod_def UvmMapCounterParams_pod_def UvmCreateEventQueueParams_pod_def
  UvmRemoveEventQueueParams_pod_def UvmMapEventQueueParams_pod_def UvmEventCtrlParams_pod_def
  UvmGetGpuUuidTableParams_pod_def UvmRegionSetBackingParams_pod_def
  UvmRegionUnsetBackingParams_pod_def UvmCreateRangeGroupParams_pod_def
  UvmDestroyRangeGroupParams_pod_def UvmRegisterGpuVaspaceParams_pod_def
  UvmUnregisterGpuVaspaceParams_pod_def UvmRegisterChannelParams_pod_def
  UvmUnregisterChannelParams_pod_def UvmPeerAccessParams_pod_def UvmSetRangeGroupParams_pod_def
  UvmGpuMappingAttributes_pod_def UvmMapExternalAllocationParams_pod_def UvmFreeParams_pod_def
  UvmMemMapParams_pod_def UvmRegisterGpuParams_pod_def UvmUnregisterGpuParams_pod_def
  UvmPageableMemAccessParams_pod_def UvmRangeGroupsParams_pod_def
  UvmSetPreferredLocationParams_pod_def UvmSetAccessedByParams_pod_def UvmMigrateParams_pod_def
  UvmMigrateRangeGroupParams_pod_def UvmGpuUuidParams_pod_def
  UvmToolsInitEventTrackerParams_pod_def UvmToolsSetNotificationThresholdParams_pod_def
  UvmToolsFlagsParams_pod_def UvmToolsReadProcessMemoryParams_pod_def
  UvmToolsWriteProcessMemoryParams_pod_def UvmToolsGetProcessorUuidTableParams_pod_def
  UvmBaseLengthGpuUuidParams_pod_def UvmAllocSemaphorePoolParams_pod_def UvmStatusParams_pod_def
  UvmPageableMemAccessOnGpuParams_pod_def UvmPopulatePageableParams_pod_def
  UvmValidateVaRangeParams_pod_def UvmCreateExternalRangeParams_pod_def
  UvmMmInitializeParams_pod_def UvmAllocDeviceP2pParams_pod_def UvmDiscardParams_pod_def
  UvmIs8SupportedParams_pod_def

end
