(* ===== verification/Json.thy ===== *)
theory Json
  imports Rust_Fmt
begin

text \<open>
  \<open>src/decode/ioctl_json.rs\<close>: the builder of the JSON objects that the ioctl decoders emit.
  The first part is the program's \<open>JsonObject\<close> and \<open>json_quote\<close>; an operation that takes
  \<open>&mut self\<close> returns the new object. The second part is the specification: a parser of JSON
  text (RFC 8259 without insignificant white space, escapes of the basic plane), and the
  relation \<open>denotes\<close> between a text and the value it parses to in every context. The third
  part proves the builder correct against it and states its contract as the locale
  \<open>object_builder\<close>.
\<close>

subsection \<open>The program\<close>

record JsonObject =
  jo_out :: string
  jo_first :: bool

definition JsonObject_new :: JsonObject where
  "JsonObject_new = \<lparr>jo_out = ''{'', jo_first = True\<rparr>"

text \<open>\<open>char::is_control\<close>: the general category Cc.\<close>

definition is_control :: "string \<Rightarrow> bool" where
  "is_control c = (let n = code_point c in n < 32 \<or> (127 \<le> n \<and> n \<le> 159))"

definition json_escape :: "string \<Rightarrow> string" where
  "json_escape ch =
     (if ch = [dquote] then [bslash, dquote]
      else if ch = [bslash] then [bslash, bslash]
      else if ch = [newline] then [bslash, CHR ''n'']
      else if ch = [creturn] then [bslash, CHR ''r'']
      else if ch = [tab] then [bslash, CHR ''t'']
      else if is_control ch then bslash # CHR ''u'' # hex_pad 4 (code_point ch)
      else ch)"

definition json_quote :: "string \<Rightarrow> string" where
  "json_quote value = dquote # concat (map json_escape (rust_chars value)) @ [dquote]"

definition push_field_key :: "string \<Rightarrow> JsonObject \<Rightarrow> JsonObject" where
  "push_field_key key self =
     (let self = (if \<not> jo_first self then self\<lparr>jo_out := jo_out self @ '',''\<rparr> else self);
          self = self\<lparr>jo_first := False\<rparr>
      in self\<lparr>jo_out := jo_out self @ json_quote key @ '':''\<rparr>)"

definition push_str :: "string \<Rightarrow> JsonObject \<Rightarrow> JsonObject" where
  "push_str s self = self\<lparr>jo_out := jo_out self @ s\<rparr>"

definition field_str :: "string \<Rightarrow> string \<Rightarrow> JsonObject \<Rightarrow> JsonObject" where
  "field_str key value self = push_str (json_quote value) (push_field_key key self)"

definition field_bool :: "string \<Rightarrow> bool \<Rightarrow> JsonObject \<Rightarrow> JsonObject" where
  "field_bool key value self =
     push_str (if value then ''true'' else ''false'') (push_field_key key self)"

definition field_i64 :: "string \<Rightarrow> i64 \<Rightarrow> JsonObject \<Rightarrow> JsonObject" where
  "field_i64 key value self = push_str (dec_int value) (push_field_key key self)"

definition field_u64 :: "string \<Rightarrow> u64 \<Rightarrow> JsonObject \<Rightarrow> JsonObject" where
  "field_u64 key value self = push_str (dec (unat value)) (push_field_key key self)"

definition field_raw :: "string \<Rightarrow> string \<Rightarrow> JsonObject \<Rightarrow> JsonObject" where
  "field_raw key raw_json self = push_str raw_json (push_field_key key self)"

definition finish :: "JsonObject \<Rightarrow> string" where
  "finish self = jo_out self @ ''}''"

subsection \<open>The specification: a JSON parser\<close>

datatype json = JStr string | JBool bool | JNum int | JArr "json list"
  | JObj "(string \<times> json) list"

definition utf8_encode :: "nat \<Rightarrow> string option" where
  "utf8_encode n =
     (if n < 128 then Some [char_of n]
      else if n < 2048 then Some [char_of (192 + n div 64), char_of (128 + n mod 64)]
      else if 55296 \<le> n \<and> n \<le> 57343 then None
      else if n < 65536 then
        Some [char_of (224 + n div 4096), char_of (128 + n div 64 mod 64), char_of (128 + n mod 64)]
      else None)"

definition simple_escape :: "char \<Rightarrow> char option" where
  "simple_escape c =
     (if c = dquote \<or> c = bslash \<or> c = CHR ''/'' then Some c
      else if c = CHR ''n'' then Some newline
      else if c = CHR ''r'' then Some creturn
      else if c = CHR ''t'' then Some tab
      else if c = CHR ''b'' then Some (char_of (8 :: nat))
      else if c = CHR ''f'' then Some (char_of (12 :: nat))
      else None)"

definition prepend :: "string \<Rightarrow> (string \<times> string) option \<Rightarrow> (string \<times> string) option" where
  "prepend p r = map_option (\<lambda>(a, b). (p @ a, b)) r"

text \<open>The characters of a string after its opening quote, up to the closing one.\<close>

fun parse_str :: "string \<Rightarrow> (string \<times> string) option" where
  "parse_str [] = None"
| "parse_str (c # s) =
     (if c = dquote then Some ([], s)
      else if c = bslash then
        (case s of
           [] \<Rightarrow> None
         | e # s1 \<Rightarrow>
             (if e = CHR ''u'' then
                (case s1 of
                   h1 # h2 # h3 # h4 # s2 \<Rightarrow>
                     (case parse_digits 16 [h1, h2, h3, h4] of
                        None \<Rightarrow> None
                      | Some n \<Rightarrow>
                          (case utf8_encode n of None \<Rightarrow> None | Some p \<Rightarrow> prepend p (parse_str s2)))
                 | _ \<Rightarrow> None)
              else (case simple_escape e of None \<Rightarrow> None | Some p \<Rightarrow> prepend [p] (parse_str s1))))
      else if ord c < 32 then None
      else prepend [c] (parse_str s))"

definition is_digit :: "char \<Rightarrow> bool" where
  "is_digit c \<longleftrightarrow> 48 \<le> ord c \<and> ord c \<le> 57"

definition parse_nat :: "string \<Rightarrow> (nat \<times> string) option" where
  "parse_nat s =
     (case parse_digits 10 (takeWhile is_digit s) of
        None \<Rightarrow> None | Some n \<Rightarrow> Some (n, dropWhile is_digit s))"

fun parse_num :: "string \<Rightarrow> (json \<times> string) option" where
  "parse_num [] = None"
| "parse_num (c # s) =
     (if c = CHR ''-'' then map_option (\<lambda>(n, r). (JNum (- int n), r)) (parse_nat s)
      else map_option (\<lambda>(n, r). (JNum (int n), r)) (parse_nat (c # s)))"

fun parse_val :: "nat \<Rightarrow> string \<Rightarrow> (json \<times> string) option"
  and parse_members :: "nat \<Rightarrow> string \<Rightarrow> ((string \<times> json) list \<times> string) option"
  and parse_elems :: "nat \<Rightarrow> string \<Rightarrow> (json list \<times> string) option" where
  "parse_val 0 s = None"
| "parse_val (Suc fuel) s =
     (case s of
        [] \<Rightarrow> None
      | c # r \<Rightarrow>
          (if c = dquote then map_option (\<lambda>(t, r). (JStr t, r)) (parse_str r)
           else if c = CHR ''{'' then
             (if starts_with r ''}'' then Some (JObj [], drop 1 r)
              else map_option (\<lambda>(ms, r). (JObj ms, r)) (parse_members fuel r))
           else if c = CHR ''['' then
             (if starts_with r '']'' then Some (JArr [], drop 1 r)
              else map_option (\<lambda>(vs, r). (JArr vs, r)) (parse_elems fuel r))
           else if starts_with s ''true'' then Some (JBool True, drop 4 s)
           else if starts_with s ''false'' then Some (JBool False, drop 5 s)
           else parse_num s))"
| "parse_members 0 s = None"
| "parse_members (Suc fuel) s =
     (case s of
        [] \<Rightarrow> None
      | c # r \<Rightarrow>
          (if c \<noteq> dquote then None
           else case parse_str r of
                  None \<Rightarrow> None
                | Some (k, r1) \<Rightarrow>
                    (if \<not> starts_with r1 '':'' then None
                     else case parse_val fuel (drop 1 r1) of
                            None \<Rightarrow> None
                          | Some (v, r2) \<Rightarrow>
                              (if starts_with r2 '','' then
                                 map_option (\<lambda>(ms, r). ((k, v) # ms, r))
                                   (parse_members fuel (drop 1 r2))
                               else if starts_with r2 ''}'' then Some ([(k, v)], drop 1 r2)
                               else None))))"
| "parse_elems 0 s = None"
| "parse_elems (Suc fuel) s =
     (case parse_val fuel s of
        None \<Rightarrow> None
      | Some (v, r2) \<Rightarrow>
          (if starts_with r2 '','' then
             map_option (\<lambda>(vs, r). (v # vs, r)) (parse_elems fuel (drop 1 r2))
           else if starts_with r2 '']'' then Some ([v], drop 1 r2)
           else None))"

text \<open>A whole text is a JSON value: the parser consumes all of it. As many units of fuel as the
  text has bytes are enough (\<open>denotes_parses\<close> below): every call consumes a byte first.\<close>

definition json_parse :: "string \<Rightarrow> json option" where
  "json_parse s = (case parse_val (Suc (length s)) s of Some (v, []) \<Rightarrow> Some v | _ \<Rightarrow> None)"

definition no_digit :: "string \<Rightarrow> bool" where
  "no_digit s \<longleftrightarrow> (case s of [] \<Rightarrow> True | c # _ \<Rightarrow> \<not> is_digit c)"

definition denotes :: "string \<Rightarrow> json \<Rightarrow> bool" where
  "denotes s v \<longleftrightarrow>
     (\<forall>fuel rest. length s \<le> fuel \<longrightarrow> no_digit rest \<longrightarrow> parse_val fuel (s @ rest) = Some (v, rest))"

lemma denotesD: "denotes s v \<Longrightarrow> length s \<le> fuel \<Longrightarrow> no_digit rest \<Longrightarrow>
    parse_val fuel (s @ rest) = Some (v, rest)"
  by (simp add: denotes_def)

lemma no_digit_simps [simp]: "no_digit []" "no_digit (c # s) = (\<not> is_digit c)"
  by (simp_all add: no_digit_def)

lemma denotes_parses:
  assumes "denotes s v"
  shows "json_parse s = Some v"
proof -
  from denotesD [OF assms, of "Suc (length s)" "[]"]
  have "parse_val (Suc (length s)) s = Some (v, [])" by (simp del: parse_val.simps)
  then show ?thesis by (simp add: json_parse_def del: parse_val.simps)
qed

text \<open>The parser by the first character of the value.\<close>

lemma parse_val_string:
  "parse_val (Suc f) (dquote # r) = map_option (\<lambda>(t, r). (JStr t, r)) (parse_str r)"
  by simp

lemma parse_val_object:
  "parse_val (Suc f) (CHR ''{'' # r) =
     (if starts_with r ''}'' then Some (JObj [], drop 1 r)
      else map_option (\<lambda>(ms, r). (JObj ms, r)) (parse_members f r))"
  by simp

lemma parse_val_array:
  "parse_val (Suc f) (CHR ''['' # r) =
     (if starts_with r '']'' then Some (JArr [], drop 1 r)
      else map_option (\<lambda>(vs, r). (JArr vs, r)) (parse_elems f r))"
  by simp

lemma parse_val_number:
  assumes "is_digit c \<or> c = CHR ''-''"
  shows "parse_val (Suc f) (c # r) = parse_num (c # r)"
proof -
  from assms have "c \<noteq> dquote" "c \<noteq> CHR ''{''" "c \<noteq> CHR ''[''" "c \<noteq> CHR ''t''" "c \<noteq> CHR ''f''"
    by (auto simp: is_digit_def)
  then show ?thesis by (simp add: starts_with_def del: parse_num.simps)
qed

lemma parse_val_bool:
  "parse_val (Suc f) ((if b then ''true'' else ''false'') @ r) = Some (JBool b, r)"
  by (simp add: starts_with_def)

declare parse_val.simps [simp del]

subsection \<open>Strings: \<open>json_quote\<close> is inverted by the parser\<close>

lemma prepend_simps [simp]:
  "prepend p None = None"
  "prepend p (Some (a, b)) = Some (p @ a, b)"
  "prepend p (prepend q r) = prepend (p @ q) r"
  "prepend [] r = r"
  by (cases r; simp add: prepend_def split_beta)+

lemma is_cont_mod: "is_cont b \<Longrightarrow> b = 128 + b mod 64"
proof -
  assume "is_cont b"
  then have "b div 64 = 2" by (auto simp: is_cont_def intro!: div_nat_eqI)
  then show ?thesis using div_mult_mod_eq [of b 64] by simp
qed

text \<open>The shapes a well-formed scalar value has.\<close>

lemma chunk_cases:
  assumes "s \<noteq> []" and "utf8_step s = (True, n)"
  obtains (one) c where "take n s = [c]" "ord c < 128"
  | (two) a b where "take n s = [a, b]" "194 \<le> ord a" "ord a \<le> 223" "is_cont (ord b)"
  | (three) a b c where "take n s = [a, b, c]" "224 \<le> ord a" "ord a \<le> 239"
      "second_of_three (ord a) (ord b)" "is_cont (ord c)"
  | (four) a b c d where "take n s = [a, b, c, d]" "240 \<le> ord a" "ord a \<le> 244"
      "second_of_four (ord a) (ord b)" "is_cont (ord c)" "is_cont (ord d)"
proof -
  from utf8_step_bounds [OF assms] have n: "1 \<le> n" "n \<le> length s" by simp_all
  have tk: "take (Suc k) s = take k s @ [s ! k]" if "k < length s" for k
    using that by (simp add: take_Suc_conv_app_nth)
  have tk: "1 \<le> length s \<Longrightarrow> take 1 s = [s ! 0]"
    "2 \<le> length s \<Longrightarrow> take 2 s = [s ! 0, s ! 1]"
    "3 \<le> length s \<Longrightarrow> take 3 s = [s ! 0, s ! 1, s ! 2]"
    "4 \<le> length s \<Longrightarrow> take 4 s = [s ! 0, s ! 1, s ! 2, s ! 3]"
    using assms(1) tk [of 0] tk [of 1] tk [of 2] tk [of 3] by (simp_all add: eval_nat_numeral)
  have at: "byte_at s i = ord (s ! i)" if "i < n" for i
    using that n by (simp add: byte_at_def)
  from assms(2) consider
      (a) "n = 1" "byte_at s 0 < 128"
    | (b) "n = 2" "194 \<le> byte_at s 0" "byte_at s 0 \<le> 223" "is_cont (byte_at s 1)"
    | (c) "n = 3" "224 \<le> byte_at s 0" "byte_at s 0 \<le> 239"
        "second_of_three (byte_at s 0) (byte_at s 1)" "is_cont (byte_at s 2)"
    | (d) "n = 4" "240 \<le> byte_at s 0" "byte_at s 0 \<le> 244"
        "second_of_four (byte_at s 0) (byte_at s 1)" "is_cont (byte_at s 2)" "is_cont (byte_at s 3)"
    by (auto simp: utf8_step_def Let_def split: if_splits)
  then show ?thesis
  proof cases
    case a
    with n tk at show ?thesis by (intro one [of "s ! 0"]) auto
  next
    case b
    with n tk at show ?thesis by (intro two [of "s ! 0" "s ! 1"]) auto
  next
    case c
    with n tk at show ?thesis by (intro three [of "s ! 0" "s ! 1" "s ! 2"]) auto
  next
    case d
    with n tk at show ?thesis by (intro four [of "s ! 0" "s ! 1" "s ! 2" "s ! 3"]) auto
  qed
qed

text \<open>A plain byte, and an escaped control character, read back.\<close>

lemma parse_str_plain:
  assumes "list_all (\<lambda>c. 128 \<le> ord c) p"
  shows "parse_str (p @ t) = prepend p (parse_str t)"
  using assms by (induction p) auto

lemma hex_pad_small:
  assumes "n < 256"
  shows "length (hex_pad 4 n) = 4 \<and> parse_digits 16 (hex_pad 4 n) = Some n"
  using hex_length_byte [OF assms] by (intro hex_pad_parse) simp

lemma parse_str_control:
  assumes "n < 256" and "utf8_encode n = Some p"
  shows "parse_str (bslash # CHR ''u'' # hex_pad 4 n @ t) = prepend p (parse_str t)"
proof -
  obtain h1 h2 h3 h4 where "hex_pad 4 n = [h1, h2, h3, h4]"
    using hex_pad_small [OF assms(1)] by (auto simp: numeral_eq_Suc length_Suc_conv)
  with hex_pad_small [OF assms(1)] assms(2) show ?thesis by simp
qed

lemma three_not_control:
  assumes "224 \<le> ord a" "ord a \<le> 239" "second_of_three (ord a) (ord b)"
  shows "2048 \<le> code_point [a, b, c]"
proof (cases "ord a = 224")
  case True
  have "is_cont (ord b)" by (rule second_is_cont(1) [OF assms(3)])
  moreover from True assms(3) have "160 \<le> ord b" by (simp add: second_of_three_def)
  ultimately have "32 \<le> ord b mod 64" using is_cont_mod [of "ord b"] by linarith
  then show ?thesis by simp
next
  case False
  with assms(1,2) have "ord a div 16 = 14" "225 \<le> ord a" by (auto intro!: div_nat_eqI)
  with div_mult_mod_eq [of "ord a" 16] have "1 \<le> ord a mod 16" by linarith
  then show ?thesis by simp
qed

lemma four_not_control:
  assumes "240 \<le> ord a" "ord a \<le> 244" "second_of_four (ord a) (ord b)"
  shows "2048 \<le> code_point [a, b, c, d]"
proof (cases "ord a = 240")
  case True
  have "is_cont (ord b)" by (rule second_is_cont(2) [OF assms(3)])
  moreover from True assms(3) have "144 \<le> ord b" by (simp add: second_of_four_def)
  ultimately have "16 \<le> ord b mod 64" using is_cont_mod [of "ord b"] by linarith
  then show ?thesis by simp
next
  case False
  with assms(1,2) have "ord a div 8 = 30" "241 \<le> ord a" by (auto intro!: div_nat_eqI)
  with div_mult_mod_eq [of "ord a" 8] have "1 \<le> ord a mod 8" by linarith
  then show ?thesis by simp
qed

lemma two_encode:
  assumes "194 \<le> ord a" "ord a \<le> 223" "is_cont (ord b)"
  shows "128 \<le> code_point [a, b] \<and> utf8_encode (code_point [a, b]) = Some [a, b]"
proof -
  have "ord a div 32 = 6" using assms(1,2) by (intro div_nat_eqI) auto
  then have a: "ord a = 192 + ord a mod 32" using div_mult_mod_eq [of "ord a" 32] by simp
  have b: "ord b = 128 + ord b mod 64" using assms(3) by (rule is_cont_mod)
  have "2 \<le> ord a mod 32" "ord a mod 32 < 32" using a assms(1) by simp_all
  then have c: "128 \<le> code_point [a, b]" "code_point [a, b] < 2048" by auto
  have "char_of (192 + code_point [a, b] div 64) = char_of (ord a)"
    using a by simp
  moreover have "char_of (128 + code_point [a, b] mod 64) = char_of (ord b)"
    using b by simp
  ultimately show ?thesis using c by (simp add: utf8_encode_def del: code_point.simps)
qed

text \<open>One scalar value, escaped and read back.\<close>

lemma parse_str_escape:
  assumes "s \<noteq> []" and "utf8_step s = (True, n)"
  shows "parse_str (json_escape (take n s) @ t) = prepend (take n s) (parse_str t)"
  using assms
proof (cases rule: chunk_cases)
  case (one c)
  have "parse_str (bslash # CHR ''u'' # hex_pad 4 (ord c) @ t) = prepend [c] (parse_str t)"
    using one(2) by (intro parse_str_control) (simp_all add: utf8_encode_def)
  with one show ?thesis
    by (auto simp: json_escape_def simple_escape_def is_control_def Let_def)
next
  case (two a b)
  then have e: "128 \<le> code_point [a, b]" "utf8_encode (code_point [a, b]) = Some [a, b]"
    using two_encode by simp_all
  show ?thesis
  proof (cases "is_control [a, b]")
    case True
    then have "code_point [a, b] < 256" by (auto simp: is_control_def Let_def)
    with e(2) have "parse_str (bslash # CHR ''u'' # hex_pad 4 (code_point [a, b]) @ t) =
        prepend [a, b] (parse_str t)"
      by (intro parse_str_control)
    with True two(1) show ?thesis by (simp add: json_escape_def del: code_point.simps)
  next
    case False
    have "parse_str ([a, b] @ t) = prepend [a, b] (parse_str t)"
      using two by (intro parse_str_plain) (simp add: is_cont_def)
    with False two(1) show ?thesis by (simp add: json_escape_def del: parse_str.simps)
  qed
next
  case (three a b c)
  then have "\<not> is_control [a, b, c]"
    using three_not_control [of a b c] by (auto simp: is_control_def Let_def)
  moreover have "parse_str ([a, b, c] @ t) = prepend [a, b, c] (parse_str t)"
    using three second_is_cont by (intro parse_str_plain) (auto simp: is_cont_def)
  ultimately show ?thesis using three(1) by (simp add: json_escape_def del: parse_str.simps)
next
  case (four a b c d)
  then have "\<not> is_control [a, b, c, d]"
    using four_not_control [of a b c d] by (auto simp: is_control_def Let_def)
  moreover have "parse_str ([a, b, c, d] @ t) = prepend [a, b, c, d] (parse_str t)"
    using four second_is_cont by (intro parse_str_plain) (auto simp: is_cont_def)
  ultimately show ?thesis using four(1) by (simp add: json_escape_def del: parse_str.simps)
qed

lemma parse_str_escapes:
  "utf8 s \<Longrightarrow> parse_str (concat (map json_escape (rust_chars s)) @ t) = prepend s (parse_str t)"
proof (induction s rule: chunks.induct)
  case (1 s)
  show ?case
  proof (cases "s = []")
    case False
    obtain n where st: "utf8_step s = (True, n)" and u: "utf8 (drop n s)"
      using "1.prems" False by (cases "utf8_step s") (simp add: utf8_def chunks.simps [of s])
    have "rust_chars s = take n s # rust_chars (drop n s)"
      using st False by (simp add: rust_chars_def chunks.simps [of s])
    then have "parse_str (concat (map json_escape (rust_chars s)) @ t) =
        prepend (take n s) (prepend (drop n s) (parse_str t))"
      using parse_str_escape [OF False st] "1.IH" [OF False] u st by simp
    then show ?thesis by simp
  qed simp
qed

lemma parse_str_quote: "utf8 s \<Longrightarrow> parse_str (tl (json_quote s) @ t) = Some (s, t)"
  using parse_str_escapes [of s "dquote # t"] by (simp add: json_quote_def)

text \<open>What each kind of field value denotes.\<close>

lemma denotes_quote [json_intros]:
  assumes "utf8 s"
  shows "denotes (json_quote s) (JStr s)"
  unfolding denotes_def
proof (intro allI impI)
  fix fuel rest assume "length (json_quote s) \<le> fuel"
  then obtain f where f: "fuel = Suc f" by (cases fuel) (simp_all add: json_quote_def)
  have q: "json_quote s @ rest = dquote # tl (json_quote s) @ rest" by (simp add: json_quote_def)
  show "parse_val fuel (json_quote s @ rest) = Some (JStr s, rest)"
    unfolding q f parse_val_string parse_str_quote [OF assms] by simp
qed

lemma denotes_bool [json_intros]: "denotes (if b then ''true'' else ''false'') (JBool b)"
  unfolding denotes_def
proof (intro allI impI)
  fix fuel rest
  assume "length (if b then ''true'' else ''false'') \<le> fuel"
  then obtain f where "fuel = Suc f" by (cases fuel) (simp_all split: if_splits)
  then show "parse_val fuel ((if b then ''true'' else ''false'') @ rest) = Some (JBool b, rest)"
    by (simp only: parse_val_bool)
qed

lemma dec_is_digit: "list_all is_digit (dec n)"
proof -
  have "is_digit (digit_char d)" if "d \<in> set (digits 10 n)" for d
  proof -
    from digits_less [of 10 n] that have "d < 10" by auto
    then show ?thesis by (simp add: is_digit_def digit_char_def)
  qed
  then show ?thesis by (simp add: radix_def list_all_iff)
qed

lemma parse_nat_dec:
  assumes "no_digit rest"
  shows "parse_nat (dec n @ rest) = Some (n, rest)"
proof -
  have "takeWhile is_digit rest = []" "dropWhile is_digit rest = rest"
    using assms by (cases rest; simp)+
  moreover have d: "\<And>c. c \<in> set (dec n) \<Longrightarrow> is_digit c"
    using dec_is_digit [of n] by (simp add: list_all_iff)
  ultimately have "takeWhile is_digit (dec n @ rest) = dec n"
    "dropWhile is_digit (dec n @ rest) = rest"
    by (simp_all add: takeWhile_append2 dropWhile_append2)
  then show ?thesis by (simp add: parse_nat_def parse_digits_radix)
qed

lemma denotes_dec [json_intros]: "denotes (dec n) (JNum (int n))"
  unfolding denotes_def
proof (intro allI impI)
  fix fuel rest assume fu: "length (dec n) \<le> fuel" and nd: "no_digit rest"
  obtain c r where cr: "dec n = c # r" by (cases "dec n") simp_all
  from fu cr obtain f where "fuel = Suc f" by (cases fuel) simp_all
  moreover from cr dec_is_digit [of n] have c: "is_digit c" by simp
  moreover from c have "c \<noteq> CHR ''-''" by (auto simp: is_digit_def)
  ultimately show "parse_val fuel (dec n @ rest) = Some (JNum (int n), rest)"
    using parse_nat_dec [OF nd, of n] cr by (simp add: parse_val_number)
qed

lemma denotes_dec_int [json_intros]: "denotes (dec_int i) (JNum i)"
proof (cases "i < 0")
  case False
  with denotes_dec [of "nat i"] show ?thesis by (simp add: dec_int_def)
next
  case True
  show ?thesis
    unfolding denotes_def
  proof (intro allI impI)
    fix fuel rest assume fu: "length (dec_int i) \<le> fuel" and nd: "no_digit rest"
    with True obtain f where "fuel = Suc f" by (cases fuel) (simp_all add: dec_int_def)
    with True show "parse_val fuel (dec_int i @ rest) = Some (JNum i, rest)"
      using parse_nat_dec [OF nd, of "nat (- i)"] by (simp add: dec_int_def parse_val_number)
  qed
qed

subsection \<open>Objects: the builder prints what it was given\<close>

definition member_text :: "string \<Rightarrow> string \<Rightarrow> json \<Rightarrow> bool" where
  "member_text t k v \<longleftrightarrow> (\<exists>u. t = json_quote k @ CHR '':'' # u \<and> utf8 k \<and> denotes u v)"

text \<open>The builder holds the members \<open>fs\<close>, in order.\<close>

definition jo_repr :: "JsonObject \<Rightarrow> (string \<times> json) list \<Rightarrow> bool" where
  "jo_repr self fs \<longleftrightarrow>
     jo_first self = (fs = []) \<and>
     (\<exists>ts. list_all2 (\<lambda>t (k, v). member_text t k v) ts fs \<and> jo_out self = CHR ''{'' # join '','' ts)"

lemma join_snoc: "xs \<noteq> [] \<Longrightarrow> join sep (xs @ [x]) = join sep xs @ sep @ x"
  by (induction sep xs rule: join.induct) simp_all

lemma parse_member:
  assumes "member_text t k v" and "length t \<le> fuel" and "no_digit rest"
  obtains r1 where "t @ rest = dquote # r1" "parse_str r1 = Some (k, CHR '':'' # drop (Suc (length (json_quote k))) t @ rest)"
    "parse_val (fuel - 1) (drop (Suc (length (json_quote k))) t @ rest) = Some (v, rest)"
proof -
  from assms(1) obtain u where u: "t = json_quote k @ CHR '':'' # u" "utf8 k" "denotes u v"
    by (auto simp: member_text_def)
  have d: "drop (Suc (length (json_quote k))) t = u" by (simp add: u(1))
  have q: "json_quote k = dquote # tl (json_quote k)" by (simp add: json_quote_def)
  show ?thesis
  proof (rule that)
    show "t @ rest = dquote # tl (json_quote k) @ CHR '':'' # u @ rest"
      by (subst u(1), subst q) simp
    show "parse_str (tl (json_quote k) @ CHR '':'' # u @ rest) =
        Some (k, CHR '':'' # drop (Suc (length (json_quote k))) t @ rest)"
      using parse_str_quote [OF u(2)] by (simp add: d)
    have "length u \<le> fuel - 1" using assms(2) by (simp add: u(1))
    then show "parse_val (fuel - 1) (drop (Suc (length (json_quote k))) t @ rest) = Some (v, rest)"
      unfolding d by (rule denotesD [OF u(3) _ assms(3)])
  qed
qed

lemma parse_members_join:
  assumes "list_all2 (\<lambda>t (k, v). member_text t k v) ts fs" and "ts \<noteq> []"
    and "length (join '','' ts) < fuel"
  shows "parse_members fuel (join '','' ts @ CHR ''}'' # rest) = Some (fs, rest)"
  using assms
proof (induction "'',''" ts arbitrary: fs fuel rule: join.induct)
  case (2 t)
  then obtain k v where fs: "fs = [(k, v)]" and m: "member_text t k v"
    by (auto simp: list_all2_Cons1)
  from "2.prems"(3) obtain f where f: "fuel = Suc f" "length t \<le> Suc f" by (cases fuel) simp_all
  obtain r1 where "t @ CHR ''}'' # rest = dquote # r1"
    "parse_str r1 = Some (k, CHR '':'' # drop (Suc (length (json_quote k))) t @ CHR ''}'' # rest)"
    "parse_val f (drop (Suc (length (json_quote k))) t @ CHR ''}'' # rest) =
      Some (v, CHR ''}'' # rest)"
    using parse_member [OF m f(2), of "CHR ''}'' # rest"] by (auto simp: is_digit_def)
  then show ?case by (simp add: f fs starts_with_def)
next
  case (3 t t' ts)
  then obtain k v fs' where fs: "fs = (k, v) # fs'" and m: "member_text t k v"
    and ms: "list_all2 (\<lambda>t (k, v). member_text t k v) (t' # ts) fs'"
    by (auto simp: list_all2_Cons1)
  let ?R = "CHR '','' # join '','' (t' # ts) @ CHR ''}'' # rest"
  from "3.prems"(3) obtain f where f: "fuel = Suc f" "length t \<le> Suc f"
    "length (join '','' (t' # ts)) < f" by (cases fuel) simp_all
  have ih: "parse_members f (join '','' (t' # ts) @ CHR ''}'' # rest) = Some (fs', rest)"
    by (rule "3.hyps" [OF ms _ f(3)]) simp
  obtain r1 where "t @ ?R = dquote # r1"
    "parse_str r1 = Some (k, CHR '':'' # drop (Suc (length (json_quote k))) t @ ?R)"
    "parse_val f (drop (Suc (length (json_quote k))) t @ ?R) = Some (v, ?R)"
    using parse_member [OF m f(2), of ?R] by (auto simp: is_digit_def)
  with ih show ?case by (simp add: f(1) fs starts_with_def)
qed simp

lemma jo_repr_new: "jo_repr JsonObject_new []"
  by (simp add: jo_repr_def JsonObject_new_def)

lemma jo_repr_field_raw:
  assumes "jo_repr self fs" and "utf8 k" and "denotes t v"
  shows "jo_repr (field_raw k t self) (fs @ [(k, v)])"
proof -
  from assms(1) obtain ts where ts: "list_all2 (\<lambda>t (k, v). member_text t k v) ts fs"
    and out: "jo_out self = CHR ''{'' # join '','' ts" and first: "jo_first self = (fs = [])"
    by (auto simp: jo_repr_def)
  let ?m = "json_quote k @ CHR '':'' # t"
  have "member_text ?m k v" using assms(2,3) by (auto simp: member_text_def)
  with ts have "list_all2 (\<lambda>t (k, v). member_text t k v) (ts @ [?m]) (fs @ [(k, v)])"
    by (intro list_all2_appendI) simp_all
  moreover have "jo_out (field_raw k t self) = CHR ''{'' # join '','' (ts @ [?m])"
  proof (cases "fs = []")
    case True
    with ts show ?thesis by (simp add: field_raw_def push_str_def push_field_key_def out first)
  next
    case False
    with ts have "ts \<noteq> []" by auto
    with False show ?thesis
      by (simp add: field_raw_def push_str_def push_field_key_def out first join_snoc)
  qed
  ultimately show ?thesis
    by (auto simp: jo_repr_def field_raw_def push_str_def push_field_key_def Let_def)
qed

lemma denotes_finish:
  assumes "jo_repr self fs"
  shows "denotes (finish self) (JObj fs)"
  unfolding denotes_def
proof (intro allI impI)
  fix fuel rest assume fu: "length (finish self) \<le> fuel"
  from assms obtain ts where ts: "list_all2 (\<lambda>t (k, v). member_text t k v) ts fs"
    and out: "jo_out self = CHR ''{'' # join '','' ts" by (auto simp: jo_repr_def)
  have fin: "finish self = CHR ''{'' # join '','' ts @ ''}''" by (simp add: finish_def out)
  with fu obtain f where f: "fuel = Suc f" "length (join '','' ts) < f" by (cases fuel) simp_all
  show "parse_val fuel (finish self @ rest) = Some (JObj fs, rest)"
  proof (cases "ts = []")
    case True
    with ts show ?thesis by (simp add: fin f starts_with_def parse_val_object)
  next
    case False
    have "parse_members f (join '','' ts @ CHR ''}'' # rest) = Some (fs, rest)"
      by (rule parse_members_join [OF ts False f(2)])
    moreover have "\<not> starts_with (join '','' ts @ CHR ''}'' # rest) ''}''"
    proof -
      from ts False obtain t ts' k v where "ts = t # ts'" "member_text t k v"
        by (cases ts) (auto simp: list_all2_Cons1)
      then show ?thesis
        by (cases ts') (auto simp: member_text_def json_quote_def starts_with_def)
    qed
    ultimately show ?thesis by (simp add: fin f(1) parse_val_object)
  qed
qed

lemma field_as_raw:
  "field_str k v self = field_raw k (json_quote v) self"
  "field_bool k b self = field_raw k (if b then ''true'' else ''false'') self"
  "field_i64 k i self = field_raw k (dec_int i) self"
  "field_u64 k w self = field_raw k (dec (unat w)) self"
  by (simp_all add: field_str_def field_bool_def field_i64_def field_u64_def field_raw_def)

subsection \<open>The contract\<close>

text \<open>
  What the decoders rely on: an object is started empty, members are added one by one with a
  key and the text of a value, and the finished text denotes exactly these members in order.
\<close>

locale object_builder =
  fixes obj_new :: 'o
    and obj_push :: "string \<Rightarrow> string \<Rightarrow> 'o \<Rightarrow> 'o"
    and obj_finish :: "'o \<Rightarrow> string"
    and obj_repr :: "'o \<Rightarrow> (string \<times> json) list \<Rightarrow> bool"
  assumes repr_new: "obj_repr obj_new []"
    and repr_push: "obj_repr self fs \<Longrightarrow> utf8 k \<Longrightarrow> denotes t v \<Longrightarrow>
      obj_repr (obj_push k t self) (fs @ [(k, v)])"
    and repr_finish: "obj_repr self fs \<Longrightarrow> denotes (obj_finish self) (JObj fs)"
begin

lemma repr_fold:
  assumes "obj_repr self fs" and "list_all (\<lambda>(k, t, v). utf8 k \<and> denotes t v) ms"
  shows "obj_repr (fold (\<lambda>(k, t, v). obj_push k t) ms self) (fs @ map (\<lambda>(k, t, v). (k, v)) ms)"
  using assms
proof (induction ms arbitrary: self fs)
  case (Cons m ms)
  obtain k t v where m: "m = (k, t, v)" by (cases m)
  with Cons.prems have "obj_repr (obj_push k t self) (fs @ [(k, v)])" by (simp add: repr_push)
  with Cons.IH [OF this] Cons.prems show ?case by (simp add: m)
qed simp

lemma fold_parses:
  assumes "list_all (\<lambda>(k, t, v). utf8 k \<and> denotes t v) ms"
  shows "json_parse (obj_finish (fold (\<lambda>(k, t, v). obj_push k t) ms obj_new)) =
    Some (JObj (map (\<lambda>(k, t, v). (k, v)) ms))"
  using denotes_parses [OF repr_finish [OF repr_fold [OF repr_new assms]]] by simp

text \<open>An object nested in an object.\<close>

lemma repr_nest:
  assumes "obj_repr inner fs" and "obj_repr self gs" and "utf8 k"
  shows "obj_repr (obj_push k (obj_finish inner) self) (gs @ [(k, JObj fs)])"
  by (rule repr_push [OF assms(2,3) repr_finish [OF assms(1)]])

end

interpretation jo: object_builder JsonObject_new field_raw finish jo_repr
  by unfold_locales (rule jo_repr_new jo_repr_field_raw denotes_finish; assumption)+

text \<open>The members a run of the builder's own operations adds, as values.\<close>

datatype jfield = FStr string | FBool bool | FI64 i64 | FU64 u64

fun add_field :: "string \<times> jfield \<Rightarrow> JsonObject \<Rightarrow> JsonObject" where
  "add_field (k, FStr s) = field_str k s"
| "add_field (k, FBool b) = field_bool k b"
| "add_field (k, FI64 i) = field_i64 k i"
| "add_field (k, FU64 w) = field_u64 k w"

fun field_value :: "jfield \<Rightarrow> json" where
  "field_value (FStr s) = JStr s"
| "field_value (FBool b) = JBool b"
| "field_value (FI64 i) = JNum i"
| "field_value (FU64 w) = JNum (uint w)"

fun field_text :: "jfield \<Rightarrow> string" where
  "field_text (FStr s) = json_quote s"
| "field_text (FBool b) = (if b then ''true'' else ''false'')"
| "field_text (FI64 i) = dec_int i"
| "field_text (FU64 w) = dec (unat w)"

fun field_ok :: "string \<times> jfield \<Rightarrow> bool" where
  "field_ok (k, FStr s) = (utf8 k \<and> utf8 s)"
| "field_ok (k, _) = utf8 k"

lemma add_field_raw: "add_field (k, f) = field_raw k (field_text f)"
  by (cases f) (simp_all add: field_as_raw fun_eq_iff del: if_weak_cong)

lemma field_text_denotes: "field_ok (k, f) \<Longrightarrow> utf8 k \<and> denotes (field_text f) (field_value f)"
  using denotes_dec [of "unat w" for w]
  by (cases f) (auto simp: denotes_quote denotes_dec_int denotes_bool simp del: if_weak_cong
      split del: if_split)

lemma add_fields_parse:
  assumes "list_all field_ok fs"
  shows "json_parse (finish (fold add_field fs JsonObject_new)) =
    Some (JObj (map (\<lambda>(k, f). (k, field_value f)) fs))"
proof -
  let ?m = "map (\<lambda>(k, f). (k, field_text f, field_value f)) fs"
  have "list_all (\<lambda>(k, t, v). utf8 k \<and> denotes t v) ?m"
    using assms field_text_denotes by (fastforce simp: list_all_iff)
  from jo.fold_parses [OF this] show ?thesis
    by (simp add: fold_map comp_def split_beta flip: add_field_raw)
qed

text \<open>Quoting any text and parsing it back gives the text: no byte of a traced string is
  lost or can end the JSON string early.\<close>

theorem json_quote_roundtrip:
  assumes "utf8 s"
  shows "json_parse (json_quote s) = Some (JStr s)"
  by (rule denotes_parses [OF denotes_quote [OF assms]])

theorem json_quote_roundtrip_witness:
  "utf8 [CHR ''a'', dquote, newline, bslash] \<and>
   json_parse (json_quote [CHR ''a'', dquote, newline, bslash]) =
     Some (JStr [CHR ''a'', dquote, newline, bslash])"
  using json_quote_roundtrip [of "[CHR ''a'', dquote, newline, bslash]"] by simp

text \<open>C29. An object built with the builder's operations is one well-formed JSON object, with
  exactly the members that were added, in their order, with their values.\<close>

theorem object_roundtrip:
  assumes "list_all field_ok fs"
  shows "json_parse (finish (fold add_field fs JsonObject_new)) =
    Some (JObj (map (\<lambda>(k, f). (k, field_value f)) fs))"
  by (rule add_fields_parse [OF assms])

theorem object_roundtrip_witness:
  "list_all field_ok [(''a'', FStr ''x''), (''b'', FBool True), (''c'', FU64 7), (''d'', FI64 (- 3))] \<and>
   json_parse (finish (fold add_field
     [(''a'', FStr ''x''), (''b'', FBool True), (''c'', FU64 7), (''d'', FI64 (- 3))] JsonObject_new)) =
   Some (JObj [(''a'', JStr ''x''), (''b'', JBool True), (''c'', JNum 7), (''d'', JNum (- 3))])"
  using object_roundtrip
    [of "[(''a'', FStr ''x''), (''b'', FBool True), (''c'', FU64 7), (''d'', FI64 (- 3))]"] by simp

text \<open>Arrays, written by a loop that puts a comma before every element but the first.\<close>

definition json_elems :: "string list \<Rightarrow> string" where
  "json_elems ts =
     ''['' @ concat (map (\<lambda>(idx, t). (if idx \<noteq> 0 then '','' else []) @ t) (enumerate 0 ts)) @ '']''"

lemma concat_enumerate:
  "concat (map (\<lambda>(idx, t). (if idx \<noteq> 0 then '','' else []) @ t) (enumerate (Suc n) ts)) =
     concat (map (\<lambda>t. CHR '','' # t) ts)"
  by (induction ts arbitrary: n) simp_all

lemma join_concat: "join '','' (t # ts) = t @ concat (map (\<lambda>t. CHR '','' # t) ts)"
  by (induction ts arbitrary: t) simp_all

lemma json_elems_join: "json_elems ts = ''['' @ join '','' ts @ '']''"
  by (cases ts) (simp_all add: json_elems_def concat_enumerate [simplified] join_concat)

lemma denotes_first:
  assumes "denotes t v"
  obtains c t' where "t = c # t'" "c \<noteq> CHR '']''"
proof (cases t)
  case Nil
  with denotesD [OF assms, of 0 "[]"] show ?thesis by (simp add: parse_val.simps)
next
  case (Cons c t')
  have "c \<noteq> CHR '']''"
  proof
    assume c: "c = CHR '']''"
    have "parse_val (Suc (length t)) (CHR '']'' # r) = None" for r
      by (simp add: parse_val.simps starts_with_def parse_nat_def is_digit_def parse_digits_def)
    with denotesD [OF assms, of "Suc (length t)" "[]"] Cons c show False by simp
  qed
  with Cons that show ?thesis by blast
qed

lemma parse_elems_join:
  assumes "list_all2 denotes ts vs" and "ts \<noteq> []" and "length (join '','' ts) < fuel"
  shows "parse_elems fuel (join '','' ts @ CHR '']'' # rest) = Some (vs, rest)"
  using assms
proof (induction "'',''" ts arbitrary: vs fuel rule: join.induct)
  case (2 t)
  then obtain v where v: "vs = [v]" "denotes t v" by (auto simp: list_all2_Cons1)
  from "2.prems"(3) obtain f where f: "fuel = Suc f" "length t \<le> f" by (cases fuel) simp_all
  have "parse_val f (t @ CHR '']'' # rest) = Some (v, CHR '']'' # rest)"
    by (rule denotesD [OF v(2) f(2)]) (simp add: is_digit_def)
  then show ?case by (simp add: f v starts_with_def)
next
  case (3 t t' ts)
  then obtain v vs' where v: "vs = v # vs'" "denotes t v" "list_all2 denotes (t' # ts) vs'"
    by (auto simp: list_all2_Cons1)
  from "3.prems"(3) obtain f where f: "fuel = Suc f" "length t \<le> f"
    "length (join '','' (t' # ts)) < f" by (cases fuel) simp_all
  let ?R = "CHR '','' # join '','' (t' # ts) @ CHR '']'' # rest"
  have "parse_val f (t @ ?R) = Some (v, ?R)"
    by (rule denotesD [OF v(2) f(2)]) (simp add: is_digit_def)
  moreover have "parse_elems f (join '','' (t' # ts) @ CHR '']'' # rest) = Some (vs', rest)"
    by (rule "3.hyps" [OF v(3) _ f(3)]) simp
  ultimately show ?case by (simp add: f(1) v(1) starts_with_def)
qed simp

lemma denotes_array [json_intros]:
  assumes "list_all2 denotes ts vs"
  shows "denotes (json_elems ts) (JArr vs)"
  unfolding denotes_def
proof (intro allI impI)
  fix fuel rest assume "length (json_elems ts) \<le> fuel"
  then obtain f where f: "fuel = Suc f" "length (join '','' ts) < f"
    by (cases fuel) (simp_all add: json_elems_join)
  show "parse_val fuel (json_elems ts @ rest) = Some (JArr vs, rest)"
  proof (cases ts)
    case Nil
    with assms show ?thesis by (simp add: json_elems_join f parse_val_array starts_with_def)
  next
    case (Cons t ts')
    with assms obtain v where "denotes t v" by (auto simp: list_all2_Cons1)
    then obtain c t' where "t = c # t'" "c \<noteq> CHR '']''" by (rule denotes_first)
    with Cons have "\<not> starts_with (join '','' ts @ CHR '']'' # rest) '']''"
      by (cases ts') (simp_all add: starts_with_def)
    moreover have "parse_elems f (join '','' ts @ CHR '']'' # rest) = Some (vs, rest)"
      by (rule parse_elems_join [OF assms _ f(2)]) (simp add: Cons)
    ultimately show ?thesis by (simp add: json_elems_join f(1) parse_val_array)
  qed
qed

subsection \<open>Rules for the decoders\<close>

text \<open>\<open>well_built root\<close>: the object denotes some members. The rules below follow the calls of
  a decoder one by one; the last one gives the claim about its result.\<close>

definition well_built :: "JsonObject \<Rightarrow> bool" where
  "well_built self \<longleftrightarrow> (\<exists>fs. jo_repr self fs)"

definition json_text :: "string \<Rightarrow> bool" where
  "json_text t \<longleftrightarrow> (\<exists>v. denotes t v)"

text \<open>A JSON object whose last member is the status.\<close>

definition status_object :: "string \<Rightarrow> string \<Rightarrow> bool" where
  "status_object s t \<longleftrightarrow> (\<exists>fs. json_parse t = Some (JObj (fs @ [(''status'', JStr s)])))"

lemma json_textI: "denotes t v \<Longrightarrow> json_text t"
  by (auto simp: json_text_def)

lemmas denotes_texts = denotes_quote denotes_bool denotes_dec denotes_dec_int

lemma well_built_new [json_intros]: "well_built JsonObject_new"
  using jo.repr_new by (auto simp: well_built_def)

lemma well_built_raw [json_intros]:
  "well_built self \<Longrightarrow> ascii k \<Longrightarrow> json_text t \<Longrightarrow> well_built (field_raw k t self)"
  unfolding well_built_def json_text_def using jo.repr_push ascii_utf8 by blast

lemma well_built_str [json_intros]:
  "well_built self \<Longrightarrow> ascii k \<Longrightarrow> utf8 v \<Longrightarrow> well_built (field_str k v self)"
  unfolding field_as_raw by (intro well_built_raw json_textI [OF denotes_quote])

lemma well_built_bool [json_intros]:
  "well_built self \<Longrightarrow> ascii k \<Longrightarrow> well_built (field_bool k b self)"
  unfolding field_as_raw by (intro well_built_raw json_textI [OF denotes_bool])

lemma well_built_i64 [json_intros]:
  "well_built self \<Longrightarrow> ascii k \<Longrightarrow> well_built (field_i64 k i self)"
  unfolding field_as_raw by (intro well_built_raw json_textI [OF denotes_dec_int])

lemma well_built_u64 [json_intros]:
  "well_built self \<Longrightarrow> ascii k \<Longrightarrow> well_built (field_u64 k w self)"
  unfolding field_as_raw by (intro well_built_raw json_textI [OF denotes_dec])

lemma json_text_finish [json_intros]: "well_built self \<Longrightarrow> json_text (finish self)"
  unfolding well_built_def json_text_def using jo.repr_finish by blast

lemma json_text_scalars [json_intros]:
  "utf8 s \<Longrightarrow> json_text (json_quote s)" "json_text (dec n)" "json_text (dec_int i)"
  by (auto intro: json_textI denotes_texts)

lemma json_text_elems [json_intros]:
  assumes "list_all json_text ts"
  shows "json_text (json_elems ts)"
proof -
  from assms obtain vs where "list_all2 denotes ts vs"
    unfolding json_text_def by (induction ts) (auto intro: list_all2_Cons [THEN iffD2])
  then show ?thesis by (rule json_textI [OF denotes_array])
qed

lemma status_object_finish [json_intros]:
  assumes "well_built self" and "ascii s"
  shows "status_object s (finish (field_str ''status'' s self))"
proof -
  from assms(1) obtain fs where "jo_repr self fs" by (auto simp: well_built_def)
  from denotes_parses [OF jo.repr_finish [OF jo.repr_push
        [OF this _ denotes_quote [OF ascii_utf8 [OF assms(2)]], of "''status''"]]]
  show ?thesis by (auto simp: status_object_def field_as_raw)
qed

end
