(* ===== verification/Config.thy ===== *)
theory Config
  imports Rust_Fmt
begin

text \<open>
  \<open>src/config.rs\<close>: the configuration read once from the environment. \<open>Config::global()\<close>
  is the \<open>Config\<close> value every other component takes as an argument. The environment is the
  lookup function \<open>from_lookup\<close> is given, as in the source, where the tests use a map for it.
  Record fields carry the prefix \<open>cfg_\<close> or \<open>mask_\<close>. A \<open>HashSet\<close> is a set.
\<close>

subsection \<open>Types\<close>

datatype OutputMode = File | Stdout

datatype IoctlDecodeMode = Full | Header | Off

datatype TimeUnit = Us | Ns

datatype LeftMetaMode = Off | Tid | Timestamp | TidTimestamp

fun include_tid :: "LeftMetaMode \<Rightarrow> bool" where
  "include_tid m = (m = Tid \<or> m = TidTimestamp)"

fun include_timestamp :: "LeftMetaMode \<Rightarrow> bool" where
  "include_timestamp m = (m = Timestamp \<or> m = TidTimestamp)"

datatype TraceDomain = Cudart | Driver | Syscall

record TraceMask =
  mask_cudart :: bool
  mask_driver :: bool
  mask_syscall :: bool

definition TraceMask_all :: TraceMask where
  "TraceMask_all = \<lparr>mask_cudart = True, mask_driver = True, mask_syscall = True\<rparr>"

definition any_enabled :: "TraceMask \<Rightarrow> bool" where
  "any_enabled m \<longleftrightarrow> mask_cudart m \<or> mask_driver m \<or> mask_syscall m"

fun enabled_for :: "TraceMask \<Rightarrow> TraceDomain \<Rightarrow> bool" where
  "enabled_for m Cudart = mask_cudart m"
| "enabled_for m Driver = mask_driver m"
| "enabled_for m Syscall = mask_syscall m"

record Config =
  cfg_output :: OutputMode
  cfg_path :: string
  cfg_trace :: TraceMask
  cfg_ioctl_decode :: IoctlDecodeMode
  cfg_max_blob :: usize
  cfg_time_unit :: TimeUnit
  cfg_left_meta :: LeftMetaMode
  cfg_fgraph_funcs :: "string set"
  cfg_fgraph_buffer_kb :: usize

definition trace_enabled :: "Config \<Rightarrow> TraceDomain \<Rightarrow> bool" where
  "trace_enabled cfg d = enabled_for (cfg_trace cfg) d"

definition fgraph_enabled :: "Config \<Rightarrow> bool" where
  "fgraph_enabled cfg \<longleftrightarrow> cfg_fgraph_funcs cfg \<noteq> {}"

definition fgraph_match :: "Config \<Rightarrow> string \<Rightarrow> bool" where
  "fgraph_match cfg f \<longleftrightarrow> f \<in> cfg_fgraph_funcs cfg"

subsection \<open>Constants\<close>

definition ENV_OUTPUT :: string where "ENV_OUTPUT = ''LIB_CUDATRACE_OUTPUT''"
definition ENV_PATH :: string where "ENV_PATH = ''LIB_CUDATRACE_PATH''"
definition ENV_TRACE :: string where "ENV_TRACE = ''LIB_CUDATRACE_TRACE''"
definition ENV_IOCTL_DECODE :: string where "ENV_IOCTL_DECODE = ''LIB_CUDATRACE_IOCTL_DECODE''"
definition ENV_MAX_BLOB :: string where "ENV_MAX_BLOB = ''LIB_CUDATRACE_MAX_BLOB''"
definition ENV_TIME_UNIT :: string where "ENV_TIME_UNIT = ''LIB_CUDATRACE_TIME_UNIT''"
definition ENV_LEFT_META :: string where "ENV_LEFT_META = ''LIB_CUDATRACE_LEFT_META''"
definition ENV_FGRAPH_FUNCS :: string where "ENV_FGRAPH_FUNCS = ''LIB_CUDATRACE_FGRAPH_FUNCS''"
definition ENV_FGRAPH_BUFFER_KB :: string where
  "ENV_FGRAPH_BUFFER_KB = ''LIB_CUDATRACE_FGRAPH_BUFFER_KB''"

definition DEFAULT_PATH :: string where "DEFAULT_PATH = ''./cudatrace.output''"
definition DEFAULT_MAX_BLOB :: usize where "DEFAULT_MAX_BLOB = 256"
definition MAX_BLOB_CAP :: usize where "MAX_BLOB_CAP = 64 * 1024"
definition DEFAULT_FGRAPH_BUFFER_KB :: usize where "DEFAULT_FGRAPH_BUFFER_KB = 16 * 1024"
definition MIN_FGRAPH_BUFFER_KB :: usize where "MIN_FGRAPH_BUFFER_KB = 64"
definition MAX_FGRAPH_BUFFER_KB :: usize where "MAX_FGRAPH_BUFFER_KB = 256 * 1024"

lemmas env_defs = ENV_OUTPUT_def ENV_PATH_def ENV_TRACE_def ENV_IOCTL_DECODE_def
  ENV_MAX_BLOB_def ENV_TIME_UNIT_def ENV_LEFT_META_def ENV_FGRAPH_FUNCS_def
  ENV_FGRAPH_BUFFER_KB_def

lemmas limit_defs = DEFAULT_MAX_BLOB_def MAX_BLOB_CAP_def DEFAULT_FGRAPH_BUFFER_KB_def
  MIN_FGRAPH_BUFFER_KB_def MAX_FGRAPH_BUFFER_KB_def

subsection \<open>Parsers of the variables\<close>

definition normalize :: "string \<Rightarrow> string" where
  "normalize s = to_ascii_lowercase (trim s)"

definition parse_output :: "string option \<Rightarrow> OutputMode" where
  "parse_output value =
     (case map_option normalize value of
        Some v \<Rightarrow> if v = ''stdout'' then Stdout else File
      | None \<Rightarrow> File)"

text \<open>The body of the loop over the tokens of \<open>LIB_CUDATRACE_TRACE\<close>.\<close>

definition trace_token :: "string \<Rightarrow> TraceMask \<Rightarrow> TraceMask" where
  "trace_token token m =
     (let t = trim token in
      if t = ''cudart'' then m\<lparr>mask_cudart := True\<rparr>
      else if t = ''driver'' then m\<lparr>mask_driver := True\<rparr>
      else if t = ''syscall'' then m\<lparr>mask_syscall := True\<rparr>
      else m)"

definition parse_trace :: "string option \<Rightarrow> TraceMask" where
  "parse_trace value =
     (case map_option normalize value of
        None \<Rightarrow> TraceMask_all
      | Some raw \<Rightarrow>
          if raw = ''all'' then TraceMask_all
          else
            let m = fold trace_token (split_on (\<lambda>c. c = CHR '','') raw)
                  \<lparr>mask_cudart = False, mask_driver = False, mask_syscall = False\<rparr>
            in if any_enabled m then m else TraceMask_all)"

definition parse_ioctl_decode :: "string option \<Rightarrow> IoctlDecodeMode" where
  "parse_ioctl_decode value =
     (case map_option normalize value of
        Some v \<Rightarrow> if v = ''header'' then Header else if v = ''off'' then IoctlDecodeMode.Off else Full
      | None \<Rightarrow> Full)"

text \<open>\<open>.map(str::trim).filter(|v| !v.is_empty()).and_then(|v| v.parse::<usize>().ok())\<close>.\<close>

definition parse_usize_var :: "string option \<Rightarrow> usize option" where
  "parse_usize_var value =
     (case map_option trim value of
        None \<Rightarrow> None
      | Some v \<Rightarrow> if v = [] then None else parse_unsigned 64 10 v)"

definition parse_max_blob :: "string option \<Rightarrow> usize" where
  "parse_max_blob value =
     (let parsed = (case parse_usize_var value of
                      Some v \<Rightarrow> if v > 0 then v else DEFAULT_MAX_BLOB
                    | None \<Rightarrow> DEFAULT_MAX_BLOB)
      in min parsed MAX_BLOB_CAP)"

definition parse_time_unit :: "string option \<Rightarrow> TimeUnit" where
  "parse_time_unit value =
     (case map_option normalize value of
        Some v \<Rightarrow> if v = ''ns'' then Ns else Us
      | None \<Rightarrow> Us)"

definition left_meta_token :: "string \<Rightarrow> bool \<times> bool \<Rightarrow> bool \<times> bool" where
  "left_meta_token token acc =
     (let t = trim token in
      if t \<in> {''tid'', ''thread'', ''threadid''} then (True, snd acc)
      else if t \<in> {''ts'', ''time'', ''timestamp''} then (fst acc, True)
      else acc)"

definition parse_left_meta :: "string option \<Rightarrow> LeftMetaMode" where
  "parse_left_meta value =
     (case map_option normalize value of
        None \<Rightarrow> LeftMetaMode.Off
      | Some raw \<Rightarrow>
          if raw \<in> {[], ''off'', ''0'', ''none''} then LeftMetaMode.Off
          else if raw \<in> {''1'', ''on'', ''true'', ''yes'', ''all''} then TidTimestamp
          else
            (case fold left_meta_token
                    (split_on (\<lambda>c. c \<in> {CHR '','', CHR ''|'', CHR ''+''}) raw) (False, False) of
               (True, True) \<Rightarrow> TidTimestamp
             | (True, False) \<Rightarrow> Tid
             | (False, True) \<Rightarrow> Timestamp
             | (False, False) \<Rightarrow> LeftMetaMode.Off))"

definition fgraph_func_token :: "string \<Rightarrow> string set \<Rightarrow> string set" where
  "fgraph_func_token token out =
     (let out = insert token out in
      if token = ''cudaMallocHost'' then insert ''cudaHostAlloc'' out
      else if token = ''cudaHostAlloc'' then insert ''cudaMallocHost'' out
      else out)"

definition parse_fgraph_funcs :: "string option \<Rightarrow> string set" where
  "parse_fgraph_funcs value =
     (case value of
        None \<Rightarrow> {}
      | Some raw \<Rightarrow>
          fold fgraph_func_token
            (filter (\<lambda>t. t \<noteq> []) (map trim (split_on (\<lambda>c. c = CHR '','') raw))) {})"

definition clamp :: "nat \<Rightarrow> nat \<Rightarrow> nat \<Rightarrow> nat" where
  "clamp lo hi x = (if x < lo then lo else if hi < x then hi else x)"

definition parse_fgraph_buffer_kb :: "string option \<Rightarrow> usize" where
  "parse_fgraph_buffer_kb value =
     clamp MIN_FGRAPH_BUFFER_KB MAX_FGRAPH_BUFFER_KB
       (unwrap_or DEFAULT_FGRAPH_BUFFER_KB (parse_usize_var value))"

definition from_lookup :: "(string \<Rightarrow> string option) \<Rightarrow> Config" where
  "from_lookup lookup =
     \<lparr>cfg_output = parse_output (lookup ENV_OUTPUT),
      cfg_path =
        (case map_option trim (lookup ENV_PATH) of
           Some v \<Rightarrow> if v \<noteq> [] then v else DEFAULT_PATH
         | None \<Rightarrow> DEFAULT_PATH),
      cfg_trace = parse_trace (lookup ENV_TRACE),
      cfg_ioctl_decode = parse_ioctl_decode (lookup ENV_IOCTL_DECODE),
      cfg_max_blob = parse_max_blob (lookup ENV_MAX_BLOB),
      cfg_time_unit = parse_time_unit (lookup ENV_TIME_UNIT),
      cfg_left_meta = parse_left_meta (lookup ENV_LEFT_META),
      cfg_fgraph_funcs = parse_fgraph_funcs (lookup ENV_FGRAPH_FUNCS),
      cfg_fgraph_buffer_kb = parse_fgraph_buffer_kb (lookup ENV_FGRAPH_BUFFER_KB)\<rparr>"

subsection \<open>Lemmas\<close>

lemma trim_dec [simp]: "trim (dec n) = dec n"
proof (rule trim_no_white)
  show "ascii (dec n)" by simp
  show "list_all (\<lambda>c. \<not> is_white [c]) (dec n)"
    by (rule list.pred_mono_strong [OF radix_chars])
      (auto simp: is_hex_digit_def is_white_def Let_def)
qed

lemma parse_usize_var_dec: "n < 2 ^ 64 \<Longrightarrow> parse_usize_var (Some (dec n)) = Some n"
  using parse_unsigned_radix [of 10 n 64] by (simp add: parse_usize_var_def)

lemma fold_trace_token:
  "mask_cudart (fold trace_token ts m) \<longleftrightarrow> mask_cudart m \<or> ''cudart'' \<in> trim ` set ts"
  "mask_driver (fold trace_token ts m) \<longleftrightarrow> mask_driver m \<or> ''driver'' \<in> trim ` set ts"
  "mask_syscall (fold trace_token ts m) \<longleftrightarrow> mask_syscall m \<or> ''syscall'' \<in> trim ` set ts"
  by (induction ts arbitrary: m) (auto simp: trace_token_def Let_def)

lemma fold_fgraph_func_token:
  "fold fgraph_func_token ts S =
     S \<union> set ts \<union> (if ''cudaMallocHost'' \<in> set ts \<or> ''cudaHostAlloc'' \<in> set ts
                    then {''cudaMallocHost'', ''cudaHostAlloc''} else {})"
  by (induction ts arbitrary: S) (auto simp: fgraph_func_token_def Let_def)

text \<open>The configuration is always usable, whatever the environment holds: the blob limit
  is between 1 and 64 KiB, the ring buffer size is in its range, some domain is traced, and
  the output path is not empty.\<close>

theorem config_in_range:
  "1 \<le> cfg_max_blob (from_lookup lookup) \<and> cfg_max_blob (from_lookup lookup) \<le> 65536
   \<and> 64 \<le> cfg_fgraph_buffer_kb (from_lookup lookup)
   \<and> cfg_fgraph_buffer_kb (from_lookup lookup) \<le> 262144
   \<and> any_enabled (cfg_trace (from_lookup lookup))
   \<and> cfg_path (from_lookup lookup) \<noteq> []"
proof -
  have "any_enabled (parse_trace v)" for v
    by (auto simp: parse_trace_def any_enabled_def TraceMask_all_def Let_def split: option.split)
  then show ?thesis
    by (auto simp: from_lookup_def parse_max_blob_def parse_fgraph_buffer_kb_def clamp_def Let_def
        limit_defs DEFAULT_PATH_def split: option.splits)
qed

text \<open>The trace mask is the set of the domains named in the list, read without regard to
  case and surrounding white space, and all domains when the value is \<open>all\<close> or names none.\<close>

theorem parse_trace_functional:
  "enabled_for (parse_trace (Some v)) d \<longleftrightarrow>
     (let raw = normalize v;
          named = trim ` set (split_on (\<lambda>c. c = CHR '','') raw);
          name = (case d of Cudart \<Rightarrow> ''cudart'' | Driver \<Rightarrow> ''driver'' | Syscall \<Rightarrow> ''syscall'')
      in raw = ''all'' \<or> named \<inter> {''cudart'', ''driver'', ''syscall''} = {} \<or> name \<in> named)"
  by (cases d)
    (auto simp: parse_trace_def any_enabled_def TraceMask_all_def Let_def fold_trace_token)

text \<open>The set of functions whose window is captured is exactly the set of non-empty
  trimmed names of the list, closed under the alias of \<open>cudaMallocHost\<close> and
  \<open>cudaHostAlloc\<close>.\<close>

theorem parse_fgraph_funcs_functional:
  "f \<in> parse_fgraph_funcs (Some raw) \<longleftrightarrow>
     (let named = {t \<in> trim ` set (split_on (\<lambda>c. c = CHR '','') raw). t \<noteq> []};
          host = {''cudaMallocHost'', ''cudaHostAlloc''}
      in f \<in> named \<or> f \<in> host \<and> named \<inter> host \<noteq> {})"
  by (auto simp: parse_fgraph_funcs_def fold_fgraph_func_token Let_def)

text \<open>A blob limit written in decimal is read back as it is, up to the cap; zero and
  numbers that do not fit \<open>usize\<close> fall back to the default.\<close>

theorem parse_max_blob_roundtrip:
  "parse_max_blob (Some (dec n)) =
     (if n = 0 \<or> 2 ^ 64 \<le> n then 256 else min n 65536)"
proof (cases "n < 2 ^ 64")
  case True
  then show ?thesis
    using parse_usize_var_dec [OF True] by (auto simp: parse_max_blob_def limit_defs)
next
  case False
  have "parse_unsigned 64 10 (dec n) = None"
  proof -
    obtain c r where "dec n = c # r" "c \<noteq> CHR ''+''"
      using radix_hd_not_sign [of 10 n] by auto
    then show ?thesis
      using parse_digits_radix [of 10 n] False by (simp add: parse_unsigned_def)
  qed
  with False show ?thesis
    by (simp add: parse_max_blob_def parse_usize_var_def limit_defs)
qed

end
