(* ===== verification/Uvm.thy ===== *)
theory Uvm
  imports Uvm_Structs Json Config
begin

text \<open>
  \<open>src/decode/ioctl_uvm.rs\<close>: the decoder of the ioctls of \<open>/dev/nvidia-uvm\<close>. A function that
  takes \<open>root: &mut JsonObject\<close> returns the object it leaves. \<open>arg_ptr\<close> is the address as a
  number, null being 0. A \<open>match\<close> over the command constants is the table of its arms, looked
  up with \<open>map_of\<close>. The lemmas show that every decoder emits a well-formed JSON object that
  ends in a truthful status.
\<close>

subsection \<open>Commands\<close>

definition UVM_INITIALIZE :: u64 where "UVM_INITIALIZE = 0x30000001"
definition UVM_DEINITIALIZE :: u64 where "UVM_DEINITIALIZE = 0x30000002"
definition UVM_RESERVE_VA :: u64 where "UVM_RESERVE_VA = 1"
definition UVM_RELEASE_VA :: u64 where "UVM_RELEASE_VA = 2"
definition UVM_REGION_COMMIT :: u64 where "UVM_REGION_COMMIT = 3"
definition UVM_REGION_DECOMMIT :: u64 where "UVM_REGION_DECOMMIT = 4"
definition UVM_REGION_SET_STREAM :: u64 where "UVM_REGION_SET_STREAM = 5"
definition UVM_SET_STREAM_RUNNING :: u64 where "UVM_SET_STREAM_RUNNING = 6"
definition UVM_SET_STREAM_STOPPED :: u64 where "UVM_SET_STREAM_STOPPED = 7"
definition UVM_ADD_SESSION :: u64 where "UVM_ADD_SESSION = 10"
definition UVM_ENABLE_COUNTERS :: u64 where "UVM_ENABLE_COUNTERS = 12"
definition UVM_MAP_COUNTER :: u64 where "UVM_MAP_COUNTER = 13"
definition UVM_CREATE_EVENT_QUEUE :: u64 where "UVM_CREATE_EVENT_QUEUE = 14"
definition UVM_REMOVE_EVENT_QUEUE :: u64 where "UVM_REMOVE_EVENT_QUEUE = 15"
definition UVM_MAP_EVENT_QUEUE :: u64 where "UVM_MAP_EVENT_QUEUE = 16"
definition UVM_EVENT_CTRL :: u64 where "UVM_EVENT_CTRL = 17"
definition UVM_GET_GPU_UUID_TABLE :: u64 where "UVM_GET_GPU_UUID_TABLE = 20"
definition UVM_REGION_SET_BACKING :: u64 where "UVM_REGION_SET_BACKING = 21"
definition UVM_REGION_UNSET_BACKING :: u64 where "UVM_REGION_UNSET_BACKING = 22"
definition UVM_CREATE_RANGE_GROUP :: u64 where "UVM_CREATE_RANGE_GROUP = 23"
definition UVM_DESTROY_RANGE_GROUP :: u64 where "UVM_DESTROY_RANGE_GROUP = 24"
definition UVM_REGISTER_GPU_VASPACE :: u64 where "UVM_REGISTER_GPU_VASPACE = 25"
definition UVM_UNREGISTER_GPU_VASPACE :: u64 where "UVM_UNREGISTER_GPU_VASPACE = 26"
definition UVM_REGISTER_CHANNEL :: u64 where "UVM_REGISTER_CHANNEL = 27"
definition UVM_UNREGISTER_CHANNEL :: u64 where "UVM_UNREGISTER_CHANNEL = 28"
definition UVM_ENABLE_PEER_ACCESS :: u64 where "UVM_ENABLE_PEER_ACCESS = 29"
definition UVM_DISABLE_PEER_ACCESS :: u64 where "UVM_DISABLE_PEER_ACCESS = 30"
definition UVM_SET_RANGE_GROUP :: u64 where "UVM_SET_RANGE_GROUP = 31"
definition UVM_MAP_EXTERNAL_ALLOCATION :: u64 where "UVM_MAP_EXTERNAL_ALLOCATION = 33"
definition UVM_FREE :: u64 where "UVM_FREE = 34"
definition UVM_MEM_MAP :: u64 where "UVM_MEM_MAP = 35"
definition UVM_REGISTER_GPU :: u64 where "UVM_REGISTER_GPU = 37"
definition UVM_UNREGISTER_GPU :: u64 where "UVM_UNREGISTER_GPU = 38"
definition UVM_PAGEABLE_MEM_ACCESS :: u64 where "UVM_PAGEABLE_MEM_ACCESS = 39"
definition UVM_PREVENT_MIGRATION_RANGE_GROUPS :: u64 where "UVM_PREVENT_MIGRATION_RANGE_GROUPS = 40"
definition UVM_ALLOW_MIGRATION_RANGE_GROUPS :: u64 where "UVM_ALLOW_MIGRATION_RANGE_GROUPS = 41"
definition UVM_SET_PREFERRED_LOCATION :: u64 where "UVM_SET_PREFERRED_LOCATION = 42"
definition UVM_UNSET_PREFERRED_LOCATION :: u64 where "UVM_UNSET_PREFERRED_LOCATION = 43"
definition UVM_ENABLE_READ_DUPLICATION :: u64 where "UVM_ENABLE_READ_DUPLICATION = 44"
definition UVM_DISABLE_READ_DUPLICATION :: u64 where "UVM_DISABLE_READ_DUPLICATION = 45"
definition UVM_SET_ACCESSED_BY :: u64 where "UVM_SET_ACCESSED_BY = 46"
definition UVM_UNSET_ACCESSED_BY :: u64 where "UVM_UNSET_ACCESSED_BY = 47"
definition UVM_MIGRATE :: u64 where "UVM_MIGRATE = 51"
definition UVM_MIGRATE_RANGE_GROUP :: u64 where "UVM_MIGRATE_RANGE_GROUP = 53"
definition UVM_ENABLE_SYSTEM_WIDE_ATOMICS :: u64 where "UVM_ENABLE_SYSTEM_WIDE_ATOMICS = 54"
definition UVM_DISABLE_SYSTEM_WIDE_ATOMICS :: u64 where "UVM_DISABLE_SYSTEM_WIDE_ATOMICS = 55"
definition UVM_TOOLS_INIT_EVENT_TRACKER :: u64 where "UVM_TOOLS_INIT_EVENT_TRACKER = 56"
definition UVM_TOOLS_SET_NOTIFICATION_THRESHOLD :: u64 where "UVM_TOOLS_SET_NOTIFICATION_THRESHOLD = 57"
definition UVM_TOOLS_EVENT_QUEUE_ENABLE_EVENTS :: u64 where "UVM_TOOLS_EVENT_QUEUE_ENABLE_EVENTS = 58"
definition UVM_TOOLS_EVENT_QUEUE_DISABLE_EVENTS :: u64 where "UVM_TOOLS_EVENT_QUEUE_DISABLE_EVENTS = 59"
definition UVM_TOOLS_ENABLE_COUNTERS :: u64 where "UVM_TOOLS_ENABLE_COUNTERS = 60"
definition UVM_TOOLS_DISABLE_COUNTERS :: u64 where "UVM_TOOLS_DISABLE_COUNTERS = 61"
definition UVM_TOOLS_READ_PROCESS_MEMORY :: u64 where "UVM_TOOLS_READ_PROCESS_MEMORY = 62"
definition UVM_TOOLS_WRITE_PROCESS_MEMORY :: u64 where "UVM_TOOLS_WRITE_PROCESS_MEMORY = 63"
definition UVM_TOOLS_GET_PROCESSOR_UUID_TABLE :: u64 where "UVM_TOOLS_GET_PROCESSOR_UUID_TABLE = 64"
definition UVM_MAP_DYNAMIC_PARALLELISM_REGION :: u64 where "UVM_MAP_DYNAMIC_PARALLELISM_REGION = 65"
definition UVM_UNMAP_EXTERNAL :: u64 where "UVM_UNMAP_EXTERNAL = 66"
definition UVM_TOOLS_FLUSH_EVENTS :: u64 where "UVM_TOOLS_FLUSH_EVENTS = 67"
definition UVM_ALLOC_SEMAPHORE_POOL :: u64 where "UVM_ALLOC_SEMAPHORE_POOL = 68"
definition UVM_CLEAN_UP_ZOMBIE_RESOURCES :: u64 where "UVM_CLEAN_UP_ZOMBIE_RESOURCES = 69"
definition UVM_PAGEABLE_MEM_ACCESS_ON_GPU :: u64 where "UVM_PAGEABLE_MEM_ACCESS_ON_GPU = 70"
definition UVM_POPULATE_PAGEABLE :: u64 where "UVM_POPULATE_PAGEABLE = 71"
definition UVM_VALIDATE_VA_RANGE :: u64 where "UVM_VALIDATE_VA_RANGE = 72"
definition UVM_CREATE_EXTERNAL_RANGE :: u64 where "UVM_CREATE_EXTERNAL_RANGE = 73"
definition UVM_MAP_EXTERNAL_SPARSE :: u64 where "UVM_MAP_EXTERNAL_SPARSE = 74"
definition UVM_MM_INITIALIZE :: u64 where "UVM_MM_INITIALIZE = 75"
definition UVM_TOOLS_INIT_EVENT_TRACKER_V2 :: u64 where "UVM_TOOLS_INIT_EVENT_TRACKER_V2 = 76"
definition UVM_TOOLS_GET_PROCESSOR_UUID_TABLE_V2 :: u64 where "UVM_TOOLS_GET_PROCESSOR_UUID_TABLE_V2 = 77"
definition UVM_ALLOC_DEVICE_P2P :: u64 where "UVM_ALLOC_DEVICE_P2P = 78"
definition UVM_CLEAR_ALL_ACCESS_COUNTERS :: u64 where "UVM_CLEAR_ALL_ACCESS_COUNTERS = 79"
definition UVM_DISCARD :: u64 where "UVM_DISCARD = 80"
definition UVM_IS_8_SUPPORTED :: u64 where "UVM_IS_8_SUPPORTED = 2047"

lemmas uvm_cmd_defs = UVM_INITIALIZE_def UVM_DEINITIALIZE_def UVM_RESERVE_VA_def UVM_RELEASE_VA_def
  UVM_REGION_COMMIT_def UVM_REGION_DECOMMIT_def UVM_REGION_SET_STREAM_def
  UVM_SET_STREAM_RUNNING_def UVM_SET_STREAM_STOPPED_def UVM_ADD_SESSION_def
  UVM_ENABLE_COUNTERS_def UVM_MAP_COUNTER_def UVM_CREATE_EVENT_QUEUE_def
  UVM_REMOVE_EVENT_QUEUE_def UVM_MAP_EVENT_QUEUE_def UVM_EVENT_CTRL_def
  UVM_GET_GPU_UUID_TABLE_def UVM_REGION_SET_BACKING_def UVM_REGION_UNSET_BACKING_def
  UVM_CREATE_RANGE_GROUP_def UVM_DESTROY_RANGE_GROUP_def UVM_REGISTER_GPU_VASPACE_def
  UVM_UNREGISTER_GPU_VASPACE_def UVM_REGISTER_CHANNEL_def UVM_UNREGISTER_CHANNEL_def
  UVM_ENABLE_PEER_ACCESS_def UVM_DISABLE_PEER_ACCESS_def UVM_SET_RANGE_GROUP_def
  UVM_MAP_EXTERNAL_ALLOCATION_def UVM_FREE_def UVM_MEM_MAP_def UVM_REGISTER_GPU_def
  UVM_UNREGISTER_GPU_def UVM_PAGEABLE_MEM_ACCESS_def UVM_PREVENT_MIGRATION_RANGE_GROUPS_def
  UVM_ALLOW_MIGRATION_RANGE_GROUPS_def UVM_SET_PREFERRED_LOCATION_def
  UVM_UNSET_PREFERRED_LOCATION_def UVM_ENABLE_READ_DUPLICATION_def
  UVM_DISABLE_READ_DUPLICATION_def UVM_SET_ACCESSED_BY_def UVM_UNSET_ACCESSED_BY_def
  UVM_MIGRATE_def UVM_MIGRATE_RANGE_GROUP_def UVM_ENABLE_SYSTEM_WIDE_ATOMICS_def
  UVM_DISABLE_SYSTEM_WIDE_ATOMICS_def UVM_TOOLS_INIT_EVENT_TRACKER_def
  UVM_TOOLS_SET_NOTIFICATION_THRESHOLD_def UVM_TOOLS_EVENT_QUEUE_ENABLE_EVENTS_def
  UVM_TOOLS_EVENT_QUEUE_DISABLE_EVENTS_def UVM_TOOLS_ENABLE_COUNTERS_def
  UVM_TOOLS_DISABLE_COUNTERS_def UVM_TOOLS_READ_PROCESS_MEMORY_def
  UVM_TOOLS_WRITE_PROCESS_MEMORY_def UVM_TOOLS_GET_PROCESSOR_UUID_TABLE_def
  UVM_MAP_DYNAMIC_PARALLELISM_REGION_def UVM_UNMAP_EXTERNAL_def UVM_TOOLS_FLUSH_EVENTS_def
  UVM_ALLOC_SEMAPHORE_POOL_def UVM_CLEAN_UP_ZOMBIE_RESOURCES_def
  UVM_PAGEABLE_MEM_ACCESS_ON_GPU_def UVM_POPULATE_PAGEABLE_def UVM_VALIDATE_VA_RANGE_def
  UVM_CREATE_EXTERNAL_RANGE_def UVM_MAP_EXTERNAL_SPARSE_def UVM_MM_INITIALIZE_def
  UVM_TOOLS_INIT_EVENT_TRACKER_V2_def UVM_TOOLS_GET_PROCESSOR_UUID_TABLE_V2_def
  UVM_ALLOC_DEVICE_P2P_def UVM_CLEAR_ALL_ACCESS_COUNTERS_def UVM_DISCARD_def
  UVM_IS_8_SUPPORTED_def

subsection \<open>Printing\<close>

definition normalize_uvm_cmd :: "u64 \<Rightarrow> u64" where
  "normalize_uvm_cmd cmd = cmd AND 0xffffffff"

definition clamp_count :: "u64 \<Rightarrow> nat \<Rightarrow> nat \<times> bool" where
  "clamp_count count limit = (if of_nat limit < count then (limit, True) else (unat count, False))"

definition hex_u32 :: "u32 \<Rightarrow> string" where
  "hex_u32 v = hex0x (unat v)"

definition hex_u64 :: "u64 \<Rightarrow> string" where
  "hex_u64 v = hex0x (unat v)"

definition uvm_hex_nibble :: "u8 \<Rightarrow> char" where
  "uvm_hex_nibble nibble =
     (if nibble \<le> 9 then byte_char (48 + nibble)
      else if nibble \<le> 15 then byte_char (97 + (nibble - 10))
      else CHR ''?'')"

definition format_uuid :: "u8 list \<Rightarrow> string" where
  "format_uuid uuid =
     concat (map (\<lambda>(idx, byte).
       (if idx = 4 \<or> idx = 6 \<or> idx = 8 \<or> idx = 10 then ''-'' else []) @
       [uvm_hex_nibble (drop_bit 4 byte), uvm_hex_nibble (byte AND 0x0f)]) (enumerate 0 uuid))"

definition json_u64_array :: "u64 list \<Rightarrow> string" where
  "json_u64_array vs = json_elems (map (\<lambda>v. dec (unat v)) vs)"

definition json_uuid_array :: "u8 list list \<Rightarrow> string" where
  "json_uuid_array vs = json_elems (map (\<lambda>v. json_quote (format_uuid v)) vs)"

definition json_counter_config_array :: "UvmCounterConfig list \<Rightarrow> string" where
  "json_counter_config_array vs = json_elems (map (\<lambda>v.
     let obj = JsonObject_new;
         obj = field_u64 ''scope'' (ucast (UvmCounterConfig.p_scope v)) obj;
         obj = field_u64 ''name'' (ucast (UvmCounterConfig.p_name v)) obj;
         obj = field_str ''gpu_uuid'' (format_uuid (UvmCounterConfig.p_gpu_uuid v)) obj;
         obj = field_u64 ''state'' (ucast (UvmCounterConfig.p_state v)) obj
     in finish obj) vs)"

definition json_gpu_mapping_attributes_array :: "UvmGpuMappingAttributes list \<Rightarrow> string" where
  "json_gpu_mapping_attributes_array vs = json_elems (map (\<lambda>v.
     let obj = JsonObject_new;
         obj = field_str ''gpu_uuid'' (format_uuid (UvmGpuMappingAttributes.p_gpu_uuid v)) obj;
         obj = field_u64 ''gpuMappingType'' (ucast (UvmGpuMappingAttributes.p_gpu_mapping_type v)) obj;
         obj = field_u64 ''gpuCachingType'' (ucast (UvmGpuMappingAttributes.p_gpu_caching_type v)) obj;
         obj = field_u64 ''gpuFormatType'' (ucast (UvmGpuMappingAttributes.p_gpu_format_type v)) obj;
         obj = field_u64 ''gpuElementBits'' (ucast (UvmGpuMappingAttributes.p_gpu_element_bits v)) obj;
         obj = field_u64 ''gpuCompressionType''
           (ucast (UvmGpuMappingAttributes.p_gpu_compression_type v)) obj
     in finish obj) vs)"

definition with_params ::
    "remote \<Rightarrow> 'a pod \<Rightarrow> u64 \<Rightarrow> ('a \<Rightarrow> JsonObject \<Rightarrow> JsonObject) \<Rightarrow> JsonObject \<Rightarrow> JsonObject" where
  "with_params rd T arg_ptr on_ok root =
     (case read_pod rd T arg_ptr of
        Some params \<Rightarrow> on_ok params root
      | None \<Rightarrow> field_str ''status'' ''arg_unreadable'' root)"

subsection \<open>One decoder per command\<close>

definition decode_initialize :: "remote \<Rightarrow> u64 \<Rightarrow> JsonObject \<Rightarrow> JsonObject" where
  "decode_initialize rd arg_ptr =
     with_params rd UvmInitializeParams_pod arg_ptr (\<lambda>params root.
       let root = field_str ''flags'' (hex0x (unat (UvmInitializeParams.p_flags params))) root;
           root = field_i64 ''rm_status'' (UvmInitializeParams.p_rm_status params) root;
           root = field_str ''status'' ''ok'' root
       in root)"

definition decode_reserve_va :: "remote \<Rightarrow> u64 \<Rightarrow> JsonObject \<Rightarrow> JsonObject" where
  "decode_reserve_va rd arg_ptr =
     with_params rd UvmReserveVaParams_pod arg_ptr (\<lambda>params root.
       let root = field_str ''requestedBase'' (hex_u64 (UvmReserveVaParams.p_requested_base params)) root;
           root = field_u64 ''length'' (UvmReserveVaParams.p_length params) root;
           root = field_i64 ''rm_status'' (UvmReserveVaParams.p_rm_status params) root;
           root = field_str ''status'' ''ok'' root
       in root)"

definition decode_release_va :: "remote \<Rightarrow> u64 \<Rightarrow> JsonObject \<Rightarrow> JsonObject" where
  "decode_release_va rd arg_ptr =
     with_params rd UvmReserveVaParams_pod arg_ptr (\<lambda>params root.
       let root = field_str ''requestedBase'' (hex_u64 (UvmReserveVaParams.p_requested_base params)) root;
           root = field_u64 ''length'' (UvmReserveVaParams.p_length params) root;
           root = field_i64 ''rm_status'' (UvmReserveVaParams.p_rm_status params) root;
           root = field_str ''status'' ''ok'' root
       in root)"

definition decode_region_commit :: "remote \<Rightarrow> u64 \<Rightarrow> JsonObject \<Rightarrow> JsonObject" where
  "decode_region_commit rd arg_ptr =
     with_params rd UvmRegionCommitParams_pod arg_ptr (\<lambda>params root.
       let root = field_str ''requestedBase'' (hex_u64 (UvmRegionCommitParams.p_requested_base params)) root;
           root = field_u64 ''length'' (UvmRegionCommitParams.p_length params) root;
           root = field_str ''streamId'' (hex_u64 (UvmRegionCommitParams.p_stream_id params)) root;
           root = field_str ''gpu_uuid'' (format_uuid (UvmRegionCommitParams.p_gpu_uuid params)) root;
           root = field_i64 ''rm_status'' (UvmRegionCommitParams.p_rm_status params) root;
           root = field_str ''status'' ''ok'' root
       in root)"

definition decode_region_decommit :: "remote \<Rightarrow> u64 \<Rightarrow> JsonObject \<Rightarrow> JsonObject" where
  "decode_region_decommit rd arg_ptr =
     with_params rd UvmReserveVaParams_pod arg_ptr (\<lambda>params root.
       let root = field_str ''requestedBase'' (hex_u64 (UvmReserveVaParams.p_requested_base params)) root;
           root = field_u64 ''length'' (UvmReserveVaParams.p_length params) root;
           root = field_i64 ''rm_status'' (UvmReserveVaParams.p_rm_status params) root;
           root = field_str ''status'' ''ok'' root
       in root)"

definition decode_region_set_stream :: "remote \<Rightarrow> u64 \<Rightarrow> JsonObject \<Rightarrow> JsonObject" where
  "decode_region_set_stream rd arg_ptr =
     with_params rd UvmRegionSetStreamParams_pod arg_ptr (\<lambda>params root.
       let root = field_str ''requestedBase'' (hex_u64 (UvmRegionSetStreamParams.p_requested_base params)) root;
           root = field_u64 ''length'' (UvmRegionSetStreamParams.p_length params) root;
           root = field_str ''newStreamId'' (hex_u64 (UvmRegionSetStreamParams.p_new_stream_id params)) root;
           root = field_str ''gpu_uuid'' (format_uuid (UvmRegionSetStreamParams.p_gpu_uuid params)) root;
           root = field_i64 ''rm_status'' (UvmRegionSetStreamParams.p_rm_status params) root;
           root = field_str ''status'' ''ok'' root
       in root)"

definition decode_set_stream_running :: "remote \<Rightarrow> u64 \<Rightarrow> JsonObject \<Rightarrow> JsonObject" where
  "decode_set_stream_running rd arg_ptr =
     with_params rd UvmSetStreamRunningParams_pod arg_ptr (\<lambda>params root.
       let root = field_str ''streamId'' (hex_u64 (UvmSetStreamRunningParams.p_stream_id params)) root;
           root = field_i64 ''rm_status'' (UvmSetStreamRunningParams.p_rm_status params) root;
           root = field_str ''status'' ''ok'' root
       in root)"

definition decode_set_stream_stopped :: "remote \<Rightarrow> u64 \<Rightarrow> JsonObject \<Rightarrow> JsonObject" where
  "decode_set_stream_stopped rd arg_ptr =
     with_params rd UvmSetStreamStoppedParams_pod arg_ptr (\<lambda>params root.
       let (count, truncated) = clamp_count (UvmSetStreamStoppedParams.p_n_streams params) UVM_MAX_STREAMS_PER_IOCTL_CALL;
           root = field_u64 ''nStreams'' (UvmSetStreamStoppedParams.p_n_streams params) root;
           root = field_raw ''streamIds'' (json_u64_array (take count (UvmSetStreamStoppedParams.p_stream_id_array params))) root;
           root = field_bool ''truncated'' truncated root;
           root = field_i64 ''rm_status'' (UvmSetStreamStoppedParams.p_rm_status params) root;
           root = field_str ''status'' ''ok'' root
       in root)"

definition decode_add_session :: "remote \<Rightarrow> u64 \<Rightarrow> JsonObject \<Rightarrow> JsonObject" where
  "decode_add_session rd arg_ptr =
     with_params rd UvmAddSessionParams_pod arg_ptr (\<lambda>params root.
       let root = field_u64 ''pidTarget'' (ucast (UvmAddSessionParams.p_pid_target params)) root;
           root = field_i64 ''rm_status'' (UvmAddSessionParams.p_rm_status params) root;
           root = field_str ''status'' ''ok'' root
       in root)"

definition decode_enable_counters :: "remote \<Rightarrow> u64 \<Rightarrow> JsonObject \<Rightarrow> JsonObject" where
  "decode_enable_counters rd arg_ptr =
     with_params rd UvmEnableCountersParams_pod arg_ptr (\<lambda>params root.
       let (count, truncated) = clamp_count (ucast (UvmEnableCountersParams.p_count params)) UVM_MAX_COUNTERS_PER_IOCTL_CALL;
           root = field_u64 ''count'' (ucast (UvmEnableCountersParams.p_count params)) root;
           root = field_raw ''config'' (json_counter_config_array (take count (UvmEnableCountersParams.p_config params))) root;
           root = field_bool ''truncated'' truncated root;
           root = field_i64 ''rm_status'' (UvmEnableCountersParams.p_rm_status params) root;
           root = field_str ''status'' ''ok'' root
       in root)"

definition decode_map_counter :: "remote \<Rightarrow> u64 \<Rightarrow> JsonObject \<Rightarrow> JsonObject" where
  "decode_map_counter rd arg_ptr =
     with_params rd UvmMapCounterParams_pod arg_ptr (\<lambda>params root.
       let root = field_u64 ''scope'' (ucast (UvmMapCounterParams.p_scope params)) root;
           root = field_u64 ''counterName'' (ucast (UvmMapCounterParams.p_counter_name params)) root;
           root = field_str ''gpu_uuid'' (format_uuid (UvmMapCounterParams.p_gpu_uuid params)) root;
           root = field_str ''addr'' (hex_u64 (UvmMapCounterParams.p_addr params)) root;
           root = field_i64 ''rm_status'' (UvmMapCounterParams.p_rm_status params) root;
           root = field_str ''status'' ''ok'' root
       in root)"

definition decode_create_event_queue :: "remote \<Rightarrow> u64 \<Rightarrow> JsonObject \<Rightarrow> JsonObject" where
  "decode_create_event_queue rd arg_ptr =
     with_params rd UvmCreateEventQueueParams_pod arg_ptr (\<lambda>params root.
       let root = field_u64 ''eventQueueIndex'' (ucast (UvmCreateEventQueueParams.p_event_queue_index params)) root;
           root = field_u64 ''queueSize'' (UvmCreateEventQueueParams.p_queue_size params) root;
           root = field_u64 ''notificationCount'' (UvmCreateEventQueueParams.p_notification_count params) root;
           root = field_u64 ''notificationHandle'' (UvmCreateEventQueueParams.p_notification_handle params) root;
           root = field_u64 ''timeStampType'' (ucast (UvmCreateEventQueueParams.p_timestamp_type params)) root;
           root = field_i64 ''rm_status'' (UvmCreateEventQueueParams.p_rm_status params) root;
           root = field_str ''status'' ''ok'' root
       in root)"

definition decode_remove_event_queue :: "remote \<Rightarrow> u64 \<Rightarrow> JsonObject \<Rightarrow> JsonObject" where
  "decode_remove_event_queue rd arg_ptr =
     with_params rd UvmRemoveEventQueueParams_pod arg_ptr (\<lambda>params root.
       let root = field_u64 ''eventQueueIndex'' (ucast (UvmRemoveEventQueueParams.p_event_queue_index params)) root;
           root = field_i64 ''rm_status'' (UvmRemoveEventQueueParams.p_rm_status params) root;
           root = field_str ''status'' ''ok'' root
       in root)"

definition decode_map_event_queue :: "remote \<Rightarrow> u64 \<Rightarrow> JsonObject \<Rightarrow> JsonObject" where
  "decode_map_event_queue rd arg_ptr =
     with_params rd UvmMapEventQueueParams_pod arg_ptr (\<lambda>params root.
       let root = field_u64 ''eventQueueIndex'' (ucast (UvmMapEventQueueParams.p_event_queue_index params)) root;
           root = field_str ''userRODataAddr'' (hex_u64 (UvmMapEventQueueParams.p_user_ro_data_addr params)) root;
           root = field_str ''userRWDataAddr'' (hex_u64 (UvmMapEventQueueParams.p_user_rw_data_addr params)) root;
           root = field_str ''readIndexAddr'' (hex_u64 (UvmMapEventQueueParams.p_read_index_addr params)) root;
           root = field_str ''writeIndexAddr'' (hex_u64 (UvmMapEventQueueParams.p_write_index_addr params)) root;
           root = field_str ''queueBufferAddr'' (hex_u64 (UvmMapEventQueueParams.p_queue_buffer_addr params)) root;
           root = field_i64 ''rm_status'' (UvmMapEventQueueParams.p_rm_status params) root;
           root = field_str ''status'' ''ok'' root
       in root)"

definition decode_event_ctrl :: "remote \<Rightarrow> u64 \<Rightarrow> JsonObject \<Rightarrow> JsonObject" where
  "decode_event_ctrl rd arg_ptr =
     with_params rd UvmEventCtrlParams_pod arg_ptr (\<lambda>params root.
       let root = field_u64 ''eventQueueIndex'' (ucast (UvmEventCtrlParams.p_event_queue_index params)) root;
           root = field_i64 ''eventType'' (UvmEventCtrlParams.p_event_type params) root;
           root = field_u64 ''enable'' (ucast (UvmEventCtrlParams.p_enable params)) root;
           root = field_i64 ''rm_status'' (UvmEventCtrlParams.p_rm_status params) root;
           root = field_str ''status'' ''ok'' root
       in root)"

definition decode_get_gpu_uuid_table :: "remote \<Rightarrow> u64 \<Rightarrow> JsonObject \<Rightarrow> JsonObject" where
  "decode_get_gpu_uuid_table rd arg_ptr =
     with_params rd UvmGetGpuUuidTableParams_pod arg_ptr (\<lambda>params root.
       let (count, truncated) = clamp_count (ucast (UvmGetGpuUuidTableParams.p_valid_count params)) UVM_MAX_GPUS_V1;
           root = field_u64 ''validCount'' (ucast (UvmGetGpuUuidTableParams.p_valid_count params)) root;
           root = field_raw ''gpuUuids'' (json_uuid_array (take count (UvmGetGpuUuidTableParams.p_gpu_uuid_array params))) root;
           root = field_bool ''truncated'' truncated root;
           root = field_i64 ''rm_status'' (UvmGetGpuUuidTableParams.p_rm_status params) root;
           root = field_str ''status'' ''ok'' root
       in root)"

definition decode_region_set_backing :: "remote \<Rightarrow> u64 \<Rightarrow> JsonObject \<Rightarrow> JsonObject" where
  "decode_region_set_backing rd arg_ptr =
     with_params rd UvmRegionSetBackingParams_pod arg_ptr (\<lambda>params root.
       let root = field_str ''gpu_uuid'' (format_uuid (UvmRegionSetBackingParams.p_gpu_uuid params)) root;
           root = field_str ''hAllocation'' (hex_u32 (UvmRegionSetBackingParams.p_h_allocation params)) root;
           root = field_str ''vaAddr'' (hex_u64 (UvmRegionSetBackingParams.p_va_addr params)) root;
           root = field_u64 ''regionLength'' (UvmRegionSetBackingParams.p_region_length params) root;
           root = field_i64 ''rm_status'' (UvmRegionSetBackingParams.p_rm_status params) root;
           root = field_str ''status'' ''ok'' root
       in root)"

definition decode_region_unset_backing :: "remote \<Rightarrow> u64 \<Rightarrow> JsonObject \<Rightarrow> JsonObject" where
  "decode_region_unset_backing rd arg_ptr =
     with_params rd UvmRegionUnsetBackingParams_pod arg_ptr (\<lambda>params root.
       let root = field_str ''vaAddr'' (hex_u64 (UvmRegionUnsetBackingParams.p_va_addr params)) root;
           root = field_u64 ''regionLength'' (UvmRegionUnsetBackingParams.p_region_length params) root;
           root = field_i64 ''rm_status'' (UvmRegionUnsetBackingParams.p_rm_status params) root;
           root = field_str ''status'' ''ok'' root
       in root)"

definition decode_create_range_group :: "remote \<Rightarrow> u64 \<Rightarrow> JsonObject \<Rightarrow> JsonObject" where
  "decode_create_range_group rd arg_ptr =
     with_params rd UvmCreateRangeGroupParams_pod arg_ptr (\<lambda>params root.
       let root = field_u64 ''rangeGroupId'' (UvmCreateRangeGroupParams.p_range_group_id params) root;
           root = field_i64 ''rm_status'' (UvmCreateRangeGroupParams.p_rm_status params) root;
           root = field_str ''status'' ''ok'' root
       in root)"

definition decode_destroy_range_group :: "remote \<Rightarrow> u64 \<Rightarrow> JsonObject \<Rightarrow> JsonObject" where
  "decode_destroy_range_group rd arg_ptr =
     with_params rd UvmDestroyRangeGroupParams_pod arg_ptr (\<lambda>params root.
       let root = field_u64 ''rangeGroupId'' (UvmDestroyRangeGroupParams.p_range_group_id params) root;
           root = field_i64 ''rm_status'' (UvmDestroyRangeGroupParams.p_rm_status params) root;
           root = field_str ''status'' ''ok'' root
       in root)"

definition decode_register_gpu_vaspace :: "remote \<Rightarrow> u64 \<Rightarrow> JsonObject \<Rightarrow> JsonObject" where
  "decode_register_gpu_vaspace rd arg_ptr =
     with_params rd UvmRegisterGpuVaspaceParams_pod arg_ptr (\<lambda>params root.
       let root = field_str ''gpu_uuid'' (format_uuid (UvmRegisterGpuVaspaceParams.p_gpu_uuid params)) root;
           root = field_i64 ''rmCtrlFd'' (UvmRegisterGpuVaspaceParams.p_rm_ctrl_fd params) root;
           root = field_str ''hClient'' (hex_u32 (UvmRegisterGpuVaspaceParams.p_h_client params)) root;
           root = field_str ''hVaSpace'' (hex_u32 (UvmRegisterGpuVaspaceParams.p_h_vaspace params)) root;
           root = field_i64 ''rm_status'' (UvmRegisterGpuVaspaceParams.p_rm_status params) root;
           root = field_str ''status'' ''ok'' root
       in root)"

definition decode_unregister_gpu_vaspace :: "remote \<Rightarrow> u64 \<Rightarrow> JsonObject \<Rightarrow> JsonObject" where
  "decode_unregister_gpu_vaspace rd arg_ptr =
     with_params rd UvmUnregisterGpuVaspaceParams_pod arg_ptr (\<lambda>params root.
       let root = field_str ''gpu_uuid'' (format_uuid (UvmUnregisterGpuVaspaceParams.p_gpu_uuid params)) root;
           root = field_i64 ''rm_status'' (UvmUnregisterGpuVaspaceParams.p_rm_status params) root;
           root = field_str ''status'' ''ok'' root
       in root)"

definition decode_register_channel :: "remote \<Rightarrow> u64 \<Rightarrow> JsonObject \<Rightarrow> JsonObject" where
  "decode_register_channel rd arg_ptr =
     with_params rd UvmRegisterChannelParams_pod arg_ptr (\<lambda>params root.
       let root = field_str ''gpu_uuid'' (format_uuid (UvmRegisterChannelParams.p_gpu_uuid params)) root;
           root = field_i64 ''rmCtrlFd'' (UvmRegisterChannelParams.p_rm_ctrl_fd params) root;
           root = field_str ''hClient'' (hex_u32 (UvmRegisterChannelParams.p_h_client params)) root;
           root = field_str ''hChannel'' (hex_u32 (UvmRegisterChannelParams.p_h_channel params)) root;
           root = field_str ''base'' (hex_u64 (UvmRegisterChannelParams.p_base params)) root;
           root = field_u64 ''length'' (UvmRegisterChannelParams.p_length params) root;
           root = field_i64 ''rm_status'' (UvmRegisterChannelParams.p_rm_status params) root;
           root = field_str ''status'' ''ok'' root
       in root)"

definition decode_unregister_channel :: "remote \<Rightarrow> u64 \<Rightarrow> JsonObject \<Rightarrow> JsonObject" where
  "decode_unregister_channel rd arg_ptr =
     with_params rd UvmUnregisterChannelParams_pod arg_ptr (\<lambda>params root.
       let root = field_str ''hClient'' (hex_u32 (UvmUnregisterChannelParams.p_h_client params)) root;
           root = field_str ''hChannel'' (hex_u32 (UvmUnregisterChannelParams.p_h_channel params)) root;
           root = field_i64 ''rm_status'' (UvmUnregisterChannelParams.p_rm_status params) root;
           root = field_str ''status'' ''ok'' root
       in root)"

definition decode_enable_peer_access :: "remote \<Rightarrow> u64 \<Rightarrow> JsonObject \<Rightarrow> JsonObject" where
  "decode_enable_peer_access rd arg_ptr =
     with_params rd UvmPeerAccessParams_pod arg_ptr (\<lambda>params root.
       let root = field_str ''gpuUuidA'' (format_uuid (UvmPeerAccessParams.p_gpu_uuid_a params)) root;
           root = field_str ''gpuUuidB'' (format_uuid (UvmPeerAccessParams.p_gpu_uuid_b params)) root;
           root = field_i64 ''rm_status'' (UvmPeerAccessParams.p_rm_status params) root;
           root = field_str ''status'' ''ok'' root
       in root)"

definition decode_disable_peer_access :: "remote \<Rightarrow> u64 \<Rightarrow> JsonObject \<Rightarrow> JsonObject" where
  "decode_disable_peer_access rd arg_ptr =
     with_params rd UvmPeerAccessParams_pod arg_ptr (\<lambda>params root.
       let root = field_str ''gpuUuidA'' (format_uuid (UvmPeerAccessParams.p_gpu_uuid_a params)) root;
           root = field_str ''gpuUuidB'' (format_uuid (UvmPeerAccessParams.p_gpu_uuid_b params)) root;
           root = field_i64 ''rm_status'' (UvmPeerAccessParams.p_rm_status params) root;
           root = field_str ''status'' ''ok'' root
       in root)"

definition decode_set_range_group :: "remote \<Rightarrow> u64 \<Rightarrow> JsonObject \<Rightarrow> JsonObject" where
  "decode_set_range_group rd arg_ptr =
     with_params rd UvmSetRangeGroupParams_pod arg_ptr (\<lambda>params root.
       let root = field_u64 ''rangeGroupId'' (UvmSetRangeGroupParams.p_range_group_id params) root;
           root = field_str ''requestedBase'' (hex_u64 (UvmSetRangeGroupParams.p_requested_base params)) root;
           root = field_u64 ''length'' (UvmSetRangeGroupParams.p_length params) root;
           root = field_i64 ''rm_status'' (UvmSetRangeGroupParams.p_rm_status params) root;
           root = field_str ''status'' ''ok'' root
       in root)"

definition decode_map_external_allocation :: "remote \<Rightarrow> u64 \<Rightarrow> JsonObject \<Rightarrow> JsonObject" where
  "decode_map_external_allocation rd arg_ptr =
     with_params rd UvmMapExternalAllocationParams_pod arg_ptr (\<lambda>params root.
       let (count, truncated) = clamp_count (UvmMapExternalAllocationParams.p_gpu_attributes_count params) UVM_MAX_GPUS;
           root = field_str ''base'' (hex_u64 (UvmMapExternalAllocationParams.p_base params)) root;
           root = field_u64 ''length'' (UvmMapExternalAllocationParams.p_length params) root;
           root = field_u64 ''offset'' (UvmMapExternalAllocationParams.p_offset params) root;
           root = field_u64 ''gpuAttributesCount'' (UvmMapExternalAllocationParams.p_gpu_attributes_count params) root;
           root = field_raw ''perGpuAttributes'' (json_gpu_mapping_attributes_array (take count (UvmMapExternalAllocationParams.p_per_gpu_attributes params))) root;
           root = field_bool ''truncated'' truncated root;
           root = field_i64 ''rmCtrlFd'' (UvmMapExternalAllocationParams.p_rm_ctrl_fd params) root;
           root = field_str ''hClient'' (hex_u32 (UvmMapExternalAllocationParams.p_h_client params)) root;
           root = field_str ''hMemory'' (hex_u32 (UvmMapExternalAllocationParams.p_h_memory params)) root;
           root = field_i64 ''rm_status'' (UvmMapExternalAllocationParams.p_rm_status params) root;
           root = field_str ''status'' ''ok'' root
       in root)"

definition decode_free :: "remote \<Rightarrow> u64 \<Rightarrow> JsonObject \<Rightarrow> JsonObject" where
  "decode_free rd arg_ptr =
     with_params rd UvmFreeParams_pod arg_ptr (\<lambda>params root.
       let root = field_str ''base'' (hex_u64 (UvmFreeParams.p_base params)) root;
           root = field_i64 ''rm_status'' (UvmFreeParams.p_rm_status params) root;
           root = field_str ''status'' ''ok'' root
       in root)"

definition decode_mem_map :: "remote \<Rightarrow> u64 \<Rightarrow> JsonObject \<Rightarrow> JsonObject" where
  "decode_mem_map rd arg_ptr =
     with_params rd UvmMemMapParams_pod arg_ptr (\<lambda>params root.
       let root = field_str ''regionBase'' (hex_u64 (UvmMemMapParams.p_region_base params)) root;
           root = field_u64 ''regionLength'' (UvmMemMapParams.p_region_length params) root;
           root = field_i64 ''rm_status'' (UvmMemMapParams.p_rm_status params) root;
           root = field_str ''status'' ''ok'' root
       in root)"

definition decode_register_gpu :: "remote \<Rightarrow> u64 \<Rightarrow> JsonObject \<Rightarrow> JsonObject" where
  "decode_register_gpu rd arg_ptr =
     with_params rd UvmRegisterGpuParams_pod arg_ptr (\<lambda>params root.
       let root = field_str ''gpu_uuid'' (format_uuid (UvmRegisterGpuParams.p_gpu_uuid params)) root;
           root = field_bool ''numaEnabled'' (UvmRegisterGpuParams.p_numa_enabled params \<noteq> 0) root;
           root = field_i64 ''numaNodeId'' (UvmRegisterGpuParams.p_numa_node_id params) root;
           root = field_i64 ''rmCtrlFd'' (UvmRegisterGpuParams.p_rm_ctrl_fd params) root;
           root = field_str ''hClient'' (hex_u32 (UvmRegisterGpuParams.p_h_client params)) root;
           root = field_str ''hSmcPartRef'' (hex_u32 (UvmRegisterGpuParams.p_h_smc_part_ref params)) root;
           root = field_i64 ''rm_status'' (UvmRegisterGpuParams.p_rm_status params) root;
           root = field_str ''status'' ''ok'' root
       in root)"

definition decode_unregister_gpu :: "remote \<Rightarrow> u64 \<Rightarrow> JsonObject \<Rightarrow> JsonObject" where
  "decode_unregister_gpu rd arg_ptr =
     with_params rd UvmUnregisterGpuParams_pod arg_ptr (\<lambda>params root.
       let root = field_str ''gpu_uuid'' (format_uuid (UvmUnregisterGpuParams.p_gpu_uuid params)) root;
           root = field_i64 ''rm_status'' (UvmUnregisterGpuParams.p_rm_status params) root;
           root = field_str ''status'' ''ok'' root
       in root)"

definition decode_pageable_mem_access :: "remote \<Rightarrow> u64 \<Rightarrow> JsonObject \<Rightarrow> JsonObject" where
  "decode_pageable_mem_access rd arg_ptr =
     with_params rd UvmPageableMemAccessParams_pod arg_ptr (\<lambda>params root.
       let root = field_bool ''pageableMemAccess'' (UvmPageableMemAccessParams.p_pageable_mem_access params \<noteq> 0) root;
           root = field_i64 ''rm_status'' (UvmPageableMemAccessParams.p_rm_status params) root;
           root = field_str ''status'' ''ok'' root
       in root)"

definition decode_prevent_migration_range_groups :: "remote \<Rightarrow> u64 \<Rightarrow> JsonObject \<Rightarrow> JsonObject" where
  "decode_prevent_migration_range_groups rd arg_ptr =
     with_params rd UvmRangeGroupsParams_pod arg_ptr (\<lambda>params root.
       let (count, truncated) = clamp_count (UvmRangeGroupsParams.p_num_group_ids params) UVM_MAX_RANGE_GROUPS_PER_IOCTL_CALL;
           root = field_u64 ''numGroupIds'' (UvmRangeGroupsParams.p_num_group_ids params) root;
           root = field_raw ''rangeGroupIds'' (json_u64_array (take count (UvmRangeGroupsParams.p_range_group_ids params))) root;
           root = field_bool ''truncated'' truncated root;
           root = field_i64 ''rm_status'' (UvmRangeGroupsParams.p_rm_status params) root;
           root = field_str ''status'' ''ok'' root
       in root)"

definition decode_allow_migration_range_groups :: "remote \<Rightarrow> u64 \<Rightarrow> JsonObject \<Rightarrow> JsonObject" where
  "decode_allow_migration_range_groups rd arg_ptr =
     with_params rd UvmRangeGroupsParams_pod arg_ptr (\<lambda>params root.
       let (count, truncated) = clamp_count (UvmRangeGroupsParams.p_num_group_ids params) UVM_MAX_RANGE_GROUPS_PER_IOCTL_CALL;
           root = field_u64 ''numGroupIds'' (UvmRangeGroupsParams.p_num_group_ids params) root;
           root = field_raw ''rangeGroupIds'' (json_u64_array (take count (UvmRangeGroupsParams.p_range_group_ids params))) root;
           root = field_bool ''truncated'' truncated root;
           root = field_i64 ''rm_status'' (UvmRangeGroupsParams.p_rm_status params) root;
           root = field_str ''status'' ''ok'' root
       in root)"

definition decode_set_preferred_location :: "remote \<Rightarrow> u64 \<Rightarrow> JsonObject \<Rightarrow> JsonObject" where
  "decode_set_preferred_location rd arg_ptr =
     with_params rd UvmSetPreferredLocationParams_pod arg_ptr (\<lambda>params root.
       let root = field_str ''requestedBase'' (hex_u64 (UvmSetPreferredLocationParams.p_requested_base params)) root;
           root = field_u64 ''length'' (UvmSetPreferredLocationParams.p_length params) root;
           root = field_str ''preferredLocation'' (format_uuid (UvmSetPreferredLocationParams.p_preferred_location params)) root;
           root = field_i64 ''preferredCpuNumaNode'' (UvmSetPreferredLocationParams.p_preferred_cpu_numa_node params) root;
           root = field_i64 ''rm_status'' (UvmSetPreferredLocationParams.p_rm_status params) root;
           root = field_str ''status'' ''ok'' root
       in root)"

definition decode_unset_preferred_location :: "remote \<Rightarrow> u64 \<Rightarrow> JsonObject \<Rightarrow> JsonObject" where
  "decode_unset_preferred_location rd arg_ptr =
     with_params rd UvmReserveVaParams_pod arg_ptr (\<lambda>params root.
       let root = field_str ''requestedBase'' (hex_u64 (UvmReserveVaParams.p_requested_base params)) root;
           root = field_u64 ''length'' (UvmReserveVaParams.p_length params) root;
           root = field_i64 ''rm_status'' (UvmReserveVaParams.p_rm_status params) root;
           root = field_str ''status'' ''ok'' root
       in root)"

definition decode_enable_read_duplication :: "remote \<Rightarrow> u64 \<Rightarrow> JsonObject \<Rightarrow> JsonObject" where
  "decode_enable_read_duplication rd arg_ptr =
     with_params rd UvmReserveVaParams_pod arg_ptr (\<lambda>params root.
       let root = field_str ''requestedBase'' (hex_u64 (UvmReserveVaParams.p_requested_base params)) root;
           root = field_u64 ''length'' (UvmReserveVaParams.p_length params) root;
           root = field_i64 ''rm_status'' (UvmReserveVaParams.p_rm_status params) root;
           root = field_str ''status'' ''ok'' root
       in root)"

definition decode_disable_read_duplication :: "remote \<Rightarrow> u64 \<Rightarrow> JsonObject \<Rightarrow> JsonObject" where
  "decode_disable_read_duplication rd arg_ptr =
     with_params rd UvmReserveVaParams_pod arg_ptr (\<lambda>params root.
       let root = field_str ''requestedBase'' (hex_u64 (UvmReserveVaParams.p_requested_base params)) root;
           root = field_u64 ''length'' (UvmReserveVaParams.p_length params) root;
           root = field_i64 ''rm_status'' (UvmReserveVaParams.p_rm_status params) root;
           root = field_str ''status'' ''ok'' root
       in root)"

definition decode_set_accessed_by :: "remote \<Rightarrow> u64 \<Rightarrow> JsonObject \<Rightarrow> JsonObject" where
  "decode_set_accessed_by rd arg_ptr =
     with_params rd UvmSetAccessedByParams_pod arg_ptr (\<lambda>params root.
       let root = field_str ''requestedBase'' (hex_u64 (UvmSetAccessedByParams.p_requested_base params)) root;
           root = field_u64 ''length'' (UvmSetAccessedByParams.p_length params) root;
           root = field_str ''accessedByUuid'' (format_uuid (UvmSetAccessedByParams.p_accessed_by_uuid params)) root;
           root = field_i64 ''rm_status'' (UvmSetAccessedByParams.p_rm_status params) root;
           root = field_str ''status'' ''ok'' root
       in root)"

definition decode_unset_accessed_by :: "remote \<Rightarrow> u64 \<Rightarrow> JsonObject \<Rightarrow> JsonObject" where
  "decode_unset_accessed_by rd arg_ptr =
     with_params rd UvmSetAccessedByParams_pod arg_ptr (\<lambda>params root.
       let root = field_str ''requestedBase'' (hex_u64 (UvmSetAccessedByParams.p_requested_base params)) root;
           root = field_u64 ''length'' (UvmSetAccessedByParams.p_length params) root;
           root = field_str ''accessedByUuid'' (format_uuid (UvmSetAccessedByParams.p_accessed_by_uuid params)) root;
           root = field_i64 ''rm_status'' (UvmSetAccessedByParams.p_rm_status params) root;
           root = field_str ''status'' ''ok'' root
       in root)"

definition decode_migrate :: "remote \<Rightarrow> u64 \<Rightarrow> JsonObject \<Rightarrow> JsonObject" where
  "decode_migrate rd arg_ptr =
     with_params rd UvmMigrateParams_pod arg_ptr (\<lambda>params root.
       let root = field_str ''base'' (hex_u64 (UvmMigrateParams.p_base params)) root;
           root = field_u64 ''length'' (UvmMigrateParams.p_length params) root;
           root = field_str ''destinationUuid'' (format_uuid (UvmMigrateParams.p_destination_uuid params)) root;
           root = field_str ''flags'' (hex_u32 (UvmMigrateParams.p_flags params)) root;
           root = field_str ''semaphoreAddress'' (hex_u64 (UvmMigrateParams.p_semaphore_address params)) root;
           root = field_u64 ''semaphorePayload'' (ucast (UvmMigrateParams.p_semaphore_payload params)) root;
           root = field_i64 ''cpuNumaNode'' (UvmMigrateParams.p_cpu_numa_node params) root;
           root = field_str ''userSpaceStart'' (hex_u64 (UvmMigrateParams.p_user_space_start params)) root;
           root = field_u64 ''userSpaceLength'' (UvmMigrateParams.p_user_space_length params) root;
           root = field_i64 ''rm_status'' (UvmMigrateParams.p_rm_status params) root;
           root = field_str ''status'' ''ok'' root
       in root)"

definition decode_migrate_range_group :: "remote \<Rightarrow> u64 \<Rightarrow> JsonObject \<Rightarrow> JsonObject" where
  "decode_migrate_range_group rd arg_ptr =
     with_params rd UvmMigrateRangeGroupParams_pod arg_ptr (\<lambda>params root.
       let root = field_u64 ''rangeGroupId'' (UvmMigrateRangeGroupParams.p_range_group_id params) root;
           root = field_str ''destinationUuid'' (format_uuid (UvmMigrateRangeGroupParams.p_destination_uuid params)) root;
           root = field_i64 ''rm_status'' (UvmMigrateRangeGroupParams.p_rm_status params) root;
           root = field_str ''status'' ''ok'' root
       in root)"

definition decode_enable_system_wide_atomics :: "remote \<Rightarrow> u64 \<Rightarrow> JsonObject \<Rightarrow> JsonObject" where
  "decode_enable_system_wide_atomics rd arg_ptr =
     with_params rd UvmGpuUuidParams_pod arg_ptr (\<lambda>params root.
       let root = field_str ''gpu_uuid'' (format_uuid (UvmGpuUuidParams.p_gpu_uuid params)) root;
           root = field_i64 ''rm_status'' (UvmGpuUuidParams.p_rm_status params) root;
           root = field_str ''status'' ''ok'' root
       in root)"

definition decode_disable_system_wide_atomics :: "remote \<Rightarrow> u64 \<Rightarrow> JsonObject \<Rightarrow> JsonObject" where
  "decode_disable_system_wide_atomics rd arg_ptr =
     with_params rd UvmGpuUuidParams_pod arg_ptr (\<lambda>params root.
       let root = field_str ''gpu_uuid'' (format_uuid (UvmGpuUuidParams.p_gpu_uuid params)) root;
           root = field_i64 ''rm_status'' (UvmGpuUuidParams.p_rm_status params) root;
           root = field_str ''status'' ''ok'' root
       in root)"

definition decode_tools_init_event_tracker :: "remote \<Rightarrow> u64 \<Rightarrow> JsonObject \<Rightarrow> JsonObject" where
  "decode_tools_init_event_tracker rd arg_ptr =
     with_params rd UvmToolsInitEventTrackerParams_pod arg_ptr (\<lambda>params root.
       let root = field_str ''queueBuffer'' (hex_u64 (UvmToolsInitEventTrackerParams.p_queue_buffer params)) root;
           root = field_u64 ''queueBufferSize'' (UvmToolsInitEventTrackerParams.p_queue_buffer_size params) root;
           root = field_str ''controlBuffer'' (hex_u64 (UvmToolsInitEventTrackerParams.p_control_buffer params)) root;
           root = field_str ''processor'' (format_uuid (UvmToolsInitEventTrackerParams.p_processor params)) root;
           root = field_u64 ''allProcessors'' (ucast (UvmToolsInitEventTrackerParams.p_all_processors params)) root;
           root = field_u64 ''uvmFd'' (ucast (UvmToolsInitEventTrackerParams.p_uvm_fd params)) root;
           root = field_i64 ''rm_status'' (UvmToolsInitEventTrackerParams.p_rm_status params) root;
           root = field_str ''status'' ''ok'' root
       in root)"

definition decode_tools_set_notification_threshold :: "remote \<Rightarrow> u64 \<Rightarrow> JsonObject \<Rightarrow> JsonObject" where
  "decode_tools_set_notification_threshold rd arg_ptr =
     with_params rd UvmToolsSetNotificationThresholdParams_pod arg_ptr (\<lambda>params root.
       let root = field_u64 ''notificationThreshold'' (ucast (UvmToolsSetNotificationThresholdParams.p_notification_threshold params)) root;
           root = field_i64 ''rm_status'' (UvmToolsSetNotificationThresholdParams.p_rm_status params) root;
           root = field_str ''status'' ''ok'' root
       in root)"

definition decode_tools_event_queue_enable_events :: "remote \<Rightarrow> u64 \<Rightarrow> JsonObject \<Rightarrow> JsonObject" where
  "decode_tools_event_queue_enable_events rd arg_ptr =
     with_params rd UvmToolsFlagsParams_pod arg_ptr (\<lambda>params root.
       let root = field_str ''eventTypeFlags'' (hex_u64 (UvmToolsFlagsParams.p_flags params)) root;
           root = field_i64 ''rm_status'' (UvmToolsFlagsParams.p_rm_status params) root;
           root = field_str ''status'' ''ok'' root
       in root)"

definition decode_tools_event_queue_disable_events :: "remote \<Rightarrow> u64 \<Rightarrow> JsonObject \<Rightarrow> JsonObject" where
  "decode_tools_event_queue_disable_events rd arg_ptr =
     with_params rd UvmToolsFlagsParams_pod arg_ptr (\<lambda>params root.
       let root = field_str ''eventTypeFlags'' (hex_u64 (UvmToolsFlagsParams.p_flags params)) root;
           root = field_i64 ''rm_status'' (UvmToolsFlagsParams.p_rm_status params) root;
           root = field_str ''status'' ''ok'' root
       in root)"

definition decode_tools_enable_counters :: "remote \<Rightarrow> u64 \<Rightarrow> JsonObject \<Rightarrow> JsonObject" where
  "decode_tools_enable_counters rd arg_ptr =
     with_params rd UvmToolsFlagsParams_pod arg_ptr (\<lambda>params root.
       let root = field_str ''counterTypeFlags'' (hex_u64 (UvmToolsFlagsParams.p_flags params)) root;
           root = field_i64 ''rm_status'' (UvmToolsFlagsParams.p_rm_status params) root;
           root = field_str ''status'' ''ok'' root
       in root)"

definition decode_tools_disable_counters :: "remote \<Rightarrow> u64 \<Rightarrow> JsonObject \<Rightarrow> JsonObject" where
  "decode_tools_disable_counters rd arg_ptr =
     with_params rd UvmToolsFlagsParams_pod arg_ptr (\<lambda>params root.
       let root = field_str ''counterTypeFlags'' (hex_u64 (UvmToolsFlagsParams.p_flags params)) root;
           root = field_i64 ''rm_status'' (UvmToolsFlagsParams.p_rm_status params) root;
           root = field_str ''status'' ''ok'' root
       in root)"

definition decode_tools_read_process_memory :: "remote \<Rightarrow> u64 \<Rightarrow> JsonObject \<Rightarrow> JsonObject" where
  "decode_tools_read_process_memory rd arg_ptr =
     with_params rd UvmToolsReadProcessMemoryParams_pod arg_ptr (\<lambda>params root.
       let root = field_str ''buffer'' (hex_u64 (UvmToolsReadProcessMemoryParams.p_buffer params)) root;
           root = field_u64 ''size'' (UvmToolsReadProcessMemoryParams.p_size params) root;
           root = field_str ''targetVa'' (hex_u64 (UvmToolsReadProcessMemoryParams.p_target_va params)) root;
           root = field_u64 ''bytesRead'' (UvmToolsReadProcessMemoryParams.p_bytes_read params) root;
           root = field_i64 ''rm_status'' (UvmToolsReadProcessMemoryParams.p_rm_status params) root;
           root = field_str ''status'' ''ok'' root
       in root)"

definition decode_tools_write_process_memory :: "remote \<Rightarrow> u64 \<Rightarrow> JsonObject \<Rightarrow> JsonObject" where
  "decode_tools_write_process_memory rd arg_ptr =
     with_params rd UvmToolsWriteProcessMemoryParams_pod arg_ptr (\<lambda>params root.
       let root = field_str ''buffer'' (hex_u64 (UvmToolsWriteProcessMemoryParams.p_buffer params)) root;
           root = field_u64 ''size'' (UvmToolsWriteProcessMemoryParams.p_size params) root;
           root = field_str ''targetVa'' (hex_u64 (UvmToolsWriteProcessMemoryParams.p_target_va params)) root;
           root = field_u64 ''bytesWritten'' (UvmToolsWriteProcessMemoryParams.p_bytes_written params) root;
           root = field_i64 ''rm_status'' (UvmToolsWriteProcessMemoryParams.p_rm_status params) root;
           root = field_str ''status'' ''ok'' root
       in root)"

definition decode_tools_get_processor_uuid_table :: "remote \<Rightarrow> u64 \<Rightarrow> JsonObject \<Rightarrow> JsonObject" where
  "decode_tools_get_processor_uuid_table rd arg_ptr =
     with_params rd UvmToolsGetProcessorUuidTableParams_pod arg_ptr (\<lambda>params root.
       let root = field_str ''tablePtr'' (hex_u64 (UvmToolsGetProcessorUuidTableParams.p_table_ptr params)) root;
           root = field_i64 ''rm_status'' (UvmToolsGetProcessorUuidTableParams.p_rm_status params) root;
           root = field_str ''status'' ''ok'' root
       in root)"

definition decode_map_dynamic_parallelism_region :: "remote \<Rightarrow> u64 \<Rightarrow> JsonObject \<Rightarrow> JsonObject" where
  "decode_map_dynamic_parallelism_region rd arg_ptr =
     with_params rd UvmBaseLengthGpuUuidParams_pod arg_ptr (\<lambda>params root.
       let root = field_str ''base'' (hex_u64 (UvmBaseLengthGpuUuidParams.p_base params)) root;
           root = field_u64 ''length'' (UvmBaseLengthGpuUuidParams.p_length params) root;
           root = field_str ''gpu_uuid'' (format_uuid (UvmBaseLengthGpuUuidParams.p_gpu_uuid params)) root;
           root = field_i64 ''rm_status'' (UvmBaseLengthGpuUuidParams.p_rm_status params) root;
           root = field_str ''status'' ''ok'' root
       in root)"

definition decode_unmap_external :: "remote \<Rightarrow> u64 \<Rightarrow> JsonObject \<Rightarrow> JsonObject" where
  "decode_unmap_external rd arg_ptr =
     with_params rd UvmBaseLengthGpuUuidParams_pod arg_ptr (\<lambda>params root.
       let root = field_str ''base'' (hex_u64 (UvmBaseLengthGpuUuidParams.p_base params)) root;
           root = field_u64 ''length'' (UvmBaseLengthGpuUuidParams.p_length params) root;
           root = field_str ''gpu_uuid'' (format_uuid (UvmBaseLengthGpuUuidParams.p_gpu_uuid params)) root;
           root = field_i64 ''rm_status'' (UvmBaseLengthGpuUuidParams.p_rm_status params) root;
           root = field_str ''status'' ''ok'' root
       in root)"

definition decode_tools_flush_events :: "remote \<Rightarrow> u64 \<Rightarrow> JsonObject \<Rightarrow> JsonObject" where
  "decode_tools_flush_events rd arg_ptr =
     with_params rd UvmStatusParams_pod arg_ptr (\<lambda>params root.
       let root = field_i64 ''rm_status'' (UvmStatusParams.p_rm_status params) root;
           root = field_str ''status'' ''ok'' root
       in root)"

definition decode_alloc_semaphore_pool :: "remote \<Rightarrow> u64 \<Rightarrow> JsonObject \<Rightarrow> JsonObject" where
  "decode_alloc_semaphore_pool rd arg_ptr =
     with_params rd UvmAllocSemaphorePoolParams_pod arg_ptr (\<lambda>params root.
       let (count, truncated) = clamp_count (UvmAllocSemaphorePoolParams.p_gpu_attributes_count params) UVM_MAX_GPUS;
           root = field_str ''base'' (hex_u64 (UvmAllocSemaphorePoolParams.p_base params)) root;
           root = field_u64 ''length'' (UvmAllocSemaphorePoolParams.p_length params) root;
           root = field_u64 ''gpuAttributesCount'' (UvmAllocSemaphorePoolParams.p_gpu_attributes_count params) root;
           root = field_raw ''perGpuAttributes'' (json_gpu_mapping_attributes_array (take count (UvmAllocSemaphorePoolParams.p_per_gpu_attributes params))) root;
           root = field_bool ''truncated'' truncated root;
           root = field_i64 ''rm_status'' (UvmAllocSemaphorePoolParams.p_rm_status params) root;
           root = field_str ''status'' ''ok'' root
       in root)"

definition decode_clean_up_zombie_resources :: "remote \<Rightarrow> u64 \<Rightarrow> JsonObject \<Rightarrow> JsonObject" where
  "decode_clean_up_zombie_resources rd arg_ptr =
     with_params rd UvmStatusParams_pod arg_ptr (\<lambda>params root.
       let root = field_i64 ''rm_status'' (UvmStatusParams.p_rm_status params) root;
           root = field_str ''status'' ''ok'' root
       in root)"

definition decode_pageable_mem_access_on_gpu :: "remote \<Rightarrow> u64 \<Rightarrow> JsonObject \<Rightarrow> JsonObject" where
  "decode_pageable_mem_access_on_gpu rd arg_ptr =
     with_params rd UvmPageableMemAccessOnGpuParams_pod arg_ptr (\<lambda>params root.
       let root = field_str ''gpu_uuid'' (format_uuid (UvmPageableMemAccessOnGpuParams.p_gpu_uuid params)) root;
           root = field_bool ''pageableMemAccess'' (UvmPageableMemAccessOnGpuParams.p_pageable_mem_access params \<noteq> 0) root;
           root = field_i64 ''rm_status'' (UvmPageableMemAccessOnGpuParams.p_rm_status params) root;
           root = field_str ''status'' ''ok'' root
       in root)"

definition decode_populate_pageable :: "remote \<Rightarrow> u64 \<Rightarrow> JsonObject \<Rightarrow> JsonObject" where
  "decode_populate_pageable rd arg_ptr =
     with_params rd UvmPopulatePageableParams_pod arg_ptr (\<lambda>params root.
       let root = field_str ''base'' (hex_u64 (UvmPopulatePageableParams.p_base params)) root;
           root = field_u64 ''length'' (UvmPopulatePageableParams.p_length params) root;
           root = field_str ''flags'' (hex_u32 (UvmPopulatePageableParams.p_flags params)) root;
           root = field_i64 ''rm_status'' (UvmPopulatePageableParams.p_rm_status params) root;
           root = field_str ''status'' ''ok'' root
       in root)"

definition decode_validate_va_range :: "remote \<Rightarrow> u64 \<Rightarrow> JsonObject \<Rightarrow> JsonObject" where
  "decode_validate_va_range rd arg_ptr =
     with_params rd UvmValidateVaRangeParams_pod arg_ptr (\<lambda>params root.
       let root = field_str ''base'' (hex_u64 (UvmValidateVaRangeParams.p_base params)) root;
           root = field_u64 ''length'' (UvmValidateVaRangeParams.p_length params) root;
           root = field_i64 ''rm_status'' (UvmValidateVaRangeParams.p_rm_status params) root;
           root = field_str ''status'' ''ok'' root
       in root)"

definition decode_create_external_range :: "remote \<Rightarrow> u64 \<Rightarrow> JsonObject \<Rightarrow> JsonObject" where
  "decode_create_external_range rd arg_ptr =
     with_params rd UvmCreateExternalRangeParams_pod arg_ptr (\<lambda>params root.
       let root = field_str ''base'' (hex_u64 (UvmCreateExternalRangeParams.p_base params)) root;
           root = field_u64 ''length'' (UvmCreateExternalRangeParams.p_length params) root;
           root = field_i64 ''rm_status'' (UvmCreateExternalRangeParams.p_rm_status params) root;
           root = field_str ''status'' ''ok'' root
       in root)"

definition decode_map_external_sparse :: "remote \<Rightarrow> u64 \<Rightarrow> JsonObject \<Rightarrow> JsonObject" where
  "decode_map_external_sparse rd arg_ptr =
     with_params rd UvmBaseLengthGpuUuidParams_pod arg_ptr (\<lambda>params root.
       let root = field_str ''base'' (hex_u64 (UvmBaseLengthGpuUuidParams.p_base params)) root;
           root = field_u64 ''length'' (UvmBaseLengthGpuUuidParams.p_length params) root;
           root = field_str ''gpu_uuid'' (format_uuid (UvmBaseLengthGpuUuidParams.p_gpu_uuid params)) root;
           root = field_i64 ''rm_status'' (UvmBaseLengthGpuUuidParams.p_rm_status params) root;
           root = field_str ''status'' ''ok'' root
       in root)"

definition decode_mm_initialize :: "remote \<Rightarrow> u64 \<Rightarrow> JsonObject \<Rightarrow> JsonObject" where
  "decode_mm_initialize rd arg_ptr =
     with_params rd UvmMmInitializeParams_pod arg_ptr (\<lambda>params root.
       let root = field_i64 ''uvmFd'' (UvmMmInitializeParams.p_uvm_fd params) root;
           root = field_i64 ''rm_status'' (UvmMmInitializeParams.p_rm_status params) root;
           root = field_str ''status'' ''ok'' root
       in root)"

definition decode_alloc_device_p2p :: "remote \<Rightarrow> u64 \<Rightarrow> JsonObject \<Rightarrow> JsonObject" where
  "decode_alloc_device_p2p rd arg_ptr =
     with_params rd UvmAllocDeviceP2pParams_pod arg_ptr (\<lambda>params root.
       let root = field_str ''base'' (hex_u64 (UvmAllocDeviceP2pParams.p_base params)) root;
           root = field_u64 ''length'' (UvmAllocDeviceP2pParams.p_length params) root;
           root = field_u64 ''offset'' (UvmAllocDeviceP2pParams.p_offset params) root;
           root = field_str ''gpu_uuid'' (format_uuid (UvmAllocDeviceP2pParams.p_gpu_uuid params)) root;
           root = field_i64 ''rmCtrlFd'' (UvmAllocDeviceP2pParams.p_rm_ctrl_fd params) root;
           root = field_str ''hClient'' (hex_u32 (UvmAllocDeviceP2pParams.p_h_client params)) root;
           root = field_str ''hMemory'' (hex_u32 (UvmAllocDeviceP2pParams.p_h_memory params)) root;
           root = field_i64 ''rm_status'' (UvmAllocDeviceP2pParams.p_rm_status params) root;
           root = field_str ''status'' ''ok'' root
       in root)"

definition decode_clear_all_access_counters :: "remote \<Rightarrow> u64 \<Rightarrow> JsonObject \<Rightarrow> JsonObject" where
  "decode_clear_all_access_counters rd arg_ptr =
     with_params rd UvmStatusParams_pod arg_ptr (\<lambda>params root.
       let root = field_i64 ''rm_status'' (UvmStatusParams.p_rm_status params) root;
           root = field_str ''status'' ''ok'' root
       in root)"

definition decode_discard :: "remote \<Rightarrow> u64 \<Rightarrow> JsonObject \<Rightarrow> JsonObject" where
  "decode_discard rd arg_ptr =
     with_params rd UvmDiscardParams_pod arg_ptr (\<lambda>params root.
       let root = field_str ''base'' (hex_u64 (UvmDiscardParams.p_base params)) root;
           root = field_u64 ''length'' (UvmDiscardParams.p_length params) root;
           root = field_str ''flags'' (hex_u64 (UvmDiscardParams.p_flags params)) root;
           root = field_i64 ''rm_status'' (UvmDiscardParams.p_rm_status params) root;
           root = field_str ''status'' ''ok'' root
       in root)"

definition decode_is8_supported :: "remote \<Rightarrow> u64 \<Rightarrow> JsonObject \<Rightarrow> JsonObject" where
  "decode_is8_supported rd arg_ptr =
     with_params rd UvmIs8SupportedParams_pod arg_ptr (\<lambda>params root.
       let root = field_bool ''is8Supported'' (UvmIs8SupportedParams.p_is8_supported params \<noteq> 0) root;
           root = field_i64 ''rm_status'' (UvmIs8SupportedParams.p_rm_status params) root;
           root = field_str ''status'' ''ok'' root
       in root)"

definition decode_unknown :: "remote \<Rightarrow> u64 \<Rightarrow> usize \<Rightarrow> JsonObject \<Rightarrow> JsonObject" where
  "decode_unknown rd arg_ptr max_blob root =
     (let read_len = min (max max_blob 16) 64 in
      case read_bytes rd arg_ptr read_len of
        Some bytes \<Rightarrow>
          (let root = field_str ''blob_hex'' (hex_bytes bytes) root
           in field_str ''status'' ''unknown_cmd'' root)
      | None \<Rightarrow> field_str ''status'' ''arg_unreadable'' root)"

subsection \<open>Dispatch\<close>

definition uvm_cmd_names :: "(u64 \<times> string) list" where
  "uvm_cmd_names =
     [(UVM_INITIALIZE, ''UVM_INITIALIZE''), (UVM_DEINITIALIZE, ''UVM_DEINITIALIZE''),
      (UVM_RESERVE_VA, ''UVM_RESERVE_VA''), (UVM_RELEASE_VA, ''UVM_RELEASE_VA''),
      (UVM_REGION_COMMIT, ''UVM_REGION_COMMIT''), (UVM_REGION_DECOMMIT, ''UVM_REGION_DECOMMIT''),
      (UVM_REGION_SET_STREAM, ''UVM_REGION_SET_STREAM''),
      (UVM_SET_STREAM_RUNNING, ''UVM_SET_STREAM_RUNNING''),
      (UVM_SET_STREAM_STOPPED, ''UVM_SET_STREAM_STOPPED''),
      (UVM_ADD_SESSION, ''UVM_ADD_SESSION''), (UVM_ENABLE_COUNTERS, ''UVM_ENABLE_COUNTERS''),
      (UVM_MAP_COUNTER, ''UVM_MAP_COUNTER''),
      (UVM_CREATE_EVENT_QUEUE, ''UVM_CREATE_EVENT_QUEUE''),
      (UVM_REMOVE_EVENT_QUEUE, ''UVM_REMOVE_EVENT_QUEUE''),
      (UVM_MAP_EVENT_QUEUE, ''UVM_MAP_EVENT_QUEUE''), (UVM_EVENT_CTRL, ''UVM_EVENT_CTRL''),
      (UVM_GET_GPU_UUID_TABLE, ''UVM_GET_GPU_UUID_TABLE''),
      (UVM_REGION_SET_BACKING, ''UVM_REGION_SET_BACKING''),
      (UVM_REGION_UNSET_BACKING, ''UVM_REGION_UNSET_BACKING''),
      (UVM_CREATE_RANGE_GROUP, ''UVM_CREATE_RANGE_GROUP''),
      (UVM_DESTROY_RANGE_GROUP, ''UVM_DESTROY_RANGE_GROUP''),
      (UVM_REGISTER_GPU_VASPACE, ''UVM_REGISTER_GPU_VASPACE''),
      (UVM_UNREGISTER_GPU_VASPACE, ''UVM_UNREGISTER_GPU_VASPACE''),
      (UVM_REGISTER_CHANNEL, ''UVM_REGISTER_CHANNEL''),
      (UVM_UNREGISTER_CHANNEL, ''UVM_UNREGISTER_CHANNEL''),
      (UVM_ENABLE_PEER_ACCESS, ''UVM_ENABLE_PEER_ACCESS''),
      (UVM_DISABLE_PEER_ACCESS, ''UVM_DISABLE_PEER_ACCESS''),
      (UVM_SET_RANGE_GROUP, ''UVM_SET_RANGE_GROUP''),
      (UVM_MAP_EXTERNAL_ALLOCATION, ''UVM_MAP_EXTERNAL_ALLOCATION''), (UVM_FREE, ''UVM_FREE''),
      (UVM_MEM_MAP, ''UVM_MEM_MAP''), (UVM_REGISTER_GPU, ''UVM_REGISTER_GPU''),
      (UVM_UNREGISTER_GPU, ''UVM_UNREGISTER_GPU''),
      (UVM_PAGEABLE_MEM_ACCESS, ''UVM_PAGEABLE_MEM_ACCESS''),
      (UVM_PREVENT_MIGRATION_RANGE_GROUPS, ''UVM_PREVENT_MIGRATION_RANGE_GROUPS''),
      (UVM_ALLOW_MIGRATION_RANGE_GROUPS, ''UVM_ALLOW_MIGRATION_RANGE_GROUPS''),
      (UVM_SET_PREFERRED_LOCATION, ''UVM_SET_PREFERRED_LOCATION''),
      (UVM_UNSET_PREFERRED_LOCATION, ''UVM_UNSET_PREFERRED_LOCATION''),
      (UVM_ENABLE_READ_DUPLICATION, ''UVM_ENABLE_READ_DUPLICATION''),
      (UVM_DISABLE_READ_DUPLICATION, ''UVM_DISABLE_READ_DUPLICATION''),
      (UVM_SET_ACCESSED_BY, ''UVM_SET_ACCESSED_BY''),
      (UVM_UNSET_ACCESSED_BY, ''UVM_UNSET_ACCESSED_BY''), (UVM_MIGRATE, ''UVM_MIGRATE''),
      (UVM_MIGRATE_RANGE_GROUP, ''UVM_MIGRATE_RANGE_GROUP''),
      (UVM_ENABLE_SYSTEM_WIDE_ATOMICS, ''UVM_ENABLE_SYSTEM_WIDE_ATOMICS''),
      (UVM_DISABLE_SYSTEM_WIDE_ATOMICS, ''UVM_DISABLE_SYSTEM_WIDE_ATOMICS''),
      (UVM_TOOLS_INIT_EVENT_TRACKER, ''UVM_TOOLS_INIT_EVENT_TRACKER''),
      (UVM_TOOLS_SET_NOTIFICATION_THRESHOLD, ''UVM_TOOLS_SET_NOTIFICATION_THRESHOLD''),
      (UVM_TOOLS_EVENT_QUEUE_ENABLE_EVENTS, ''UVM_TOOLS_EVENT_QUEUE_ENABLE_EVENTS''),
      (UVM_TOOLS_EVENT_QUEUE_DISABLE_EVENTS, ''UVM_TOOLS_EVENT_QUEUE_DISABLE_EVENTS''),
      (UVM_TOOLS_ENABLE_COUNTERS, ''UVM_TOOLS_ENABLE_COUNTERS''),
      (UVM_TOOLS_DISABLE_COUNTERS, ''UVM_TOOLS_DISABLE_COUNTERS''),
      (UVM_TOOLS_READ_PROCESS_MEMORY, ''UVM_TOOLS_READ_PROCESS_MEMORY''),
      (UVM_TOOLS_WRITE_PROCESS_MEMORY, ''UVM_TOOLS_WRITE_PROCESS_MEMORY''),
      (UVM_TOOLS_GET_PROCESSOR_UUID_TABLE, ''UVM_TOOLS_GET_PROCESSOR_UUID_TABLE''),
      (UVM_MAP_DYNAMIC_PARALLELISM_REGION, ''UVM_MAP_DYNAMIC_PARALLELISM_REGION''),
      (UVM_UNMAP_EXTERNAL, ''UVM_UNMAP_EXTERNAL''),
      (UVM_TOOLS_FLUSH_EVENTS, ''UVM_TOOLS_FLUSH_EVENTS''),
      (UVM_ALLOC_SEMAPHORE_POOL, ''UVM_ALLOC_SEMAPHORE_POOL''),
      (UVM_CLEAN_UP_ZOMBIE_RESOURCES, ''UVM_CLEAN_UP_ZOMBIE_RESOURCES''),
      (UVM_PAGEABLE_MEM_ACCESS_ON_GPU, ''UVM_PAGEABLE_MEM_ACCESS_ON_GPU''),
      (UVM_POPULATE_PAGEABLE, ''UVM_POPULATE_PAGEABLE''),
      (UVM_VALIDATE_VA_RANGE, ''UVM_VALIDATE_VA_RANGE''),
      (UVM_CREATE_EXTERNAL_RANGE, ''UVM_CREATE_EXTERNAL_RANGE''),
      (UVM_MAP_EXTERNAL_SPARSE, ''UVM_MAP_EXTERNAL_SPARSE''),
      (UVM_MM_INITIALIZE, ''UVM_MM_INITIALIZE''),
      (UVM_TOOLS_INIT_EVENT_TRACKER_V2, ''UVM_TOOLS_INIT_EVENT_TRACKER_V2''),
      (UVM_TOOLS_GET_PROCESSOR_UUID_TABLE_V2, ''UVM_TOOLS_GET_PROCESSOR_UUID_TABLE_V2''),
      (UVM_ALLOC_DEVICE_P2P, ''UVM_ALLOC_DEVICE_P2P''),
      (UVM_CLEAR_ALL_ACCESS_COUNTERS, ''UVM_CLEAR_ALL_ACCESS_COUNTERS''),
      (UVM_DISCARD, ''UVM_DISCARD''), (UVM_IS_8_SUPPORTED, ''UVM_IS_8_SUPPORTED'')]"

definition uvm_cmd_name :: "u64 \<Rightarrow> string" where
  "uvm_cmd_name cmd =
     (case map_of uvm_cmd_names (normalize_uvm_cmd cmd) of Some s \<Rightarrow> s | None \<Rightarrow> ''UNKNOWN'')"

definition uvm_decoders :: "(u64 \<times> (remote \<Rightarrow> u64 \<Rightarrow> JsonObject \<Rightarrow> JsonObject)) list" where
  "uvm_decoders =
     [(UVM_INITIALIZE, decode_initialize), (UVM_RESERVE_VA, decode_reserve_va),
      (UVM_RELEASE_VA, decode_release_va), (UVM_REGION_COMMIT, decode_region_commit),
      (UVM_REGION_DECOMMIT, decode_region_decommit),
      (UVM_REGION_SET_STREAM, decode_region_set_stream),
      (UVM_SET_STREAM_RUNNING, decode_set_stream_running),
      (UVM_SET_STREAM_STOPPED, decode_set_stream_stopped), (UVM_ADD_SESSION, decode_add_session),
      (UVM_ENABLE_COUNTERS, decode_enable_counters), (UVM_MAP_COUNTER, decode_map_counter),
      (UVM_CREATE_EVENT_QUEUE, decode_create_event_queue),
      (UVM_REMOVE_EVENT_QUEUE, decode_remove_event_queue),
      (UVM_MAP_EVENT_QUEUE, decode_map_event_queue), (UVM_EVENT_CTRL, decode_event_ctrl),
      (UVM_GET_GPU_UUID_TABLE, decode_get_gpu_uuid_table),
      (UVM_REGION_SET_BACKING, decode_region_set_backing),
      (UVM_REGION_UNSET_BACKING, decode_region_unset_backing),
      (UVM_CREATE_RANGE_GROUP, decode_create_range_group),
      (UVM_DESTROY_RANGE_GROUP, decode_destroy_range_group),
      (UVM_REGISTER_GPU_VASPACE, decode_register_gpu_vaspace),
      (UVM_UNREGISTER_GPU_VASPACE, decode_unregister_gpu_vaspace),
      (UVM_REGISTER_CHANNEL, decode_register_channel),
      (UVM_UNREGISTER_CHANNEL, decode_unregister_channel),
      (UVM_ENABLE_PEER_ACCESS, decode_enable_peer_access),
      (UVM_DISABLE_PEER_ACCESS, decode_disable_peer_access),
      (UVM_SET_RANGE_GROUP, decode_set_range_group),
      (UVM_MAP_EXTERNAL_ALLOCATION, decode_map_external_allocation), (UVM_FREE, decode_free),
      (UVM_MEM_MAP, decode_mem_map), (UVM_REGISTER_GPU, decode_register_gpu),
      (UVM_UNREGISTER_GPU, decode_unregister_gpu),
      (UVM_PAGEABLE_MEM_ACCESS, decode_pageable_mem_access),
      (UVM_PREVENT_MIGRATION_RANGE_GROUPS, decode_prevent_migration_range_groups),
      (UVM_ALLOW_MIGRATION_RANGE_GROUPS, decode_allow_migration_range_groups),
      (UVM_SET_PREFERRED_LOCATION, decode_set_preferred_location),
      (UVM_UNSET_PREFERRED_LOCATION, decode_unset_preferred_location),
      (UVM_ENABLE_READ_DUPLICATION, decode_enable_read_duplication),
      (UVM_DISABLE_READ_DUPLICATION, decode_disable_read_duplication),
      (UVM_SET_ACCESSED_BY, decode_set_accessed_by),
      (UVM_UNSET_ACCESSED_BY, decode_unset_accessed_by), (UVM_MIGRATE, decode_migrate),
      (UVM_MIGRATE_RANGE_GROUP, decode_migrate_range_group),
      (UVM_ENABLE_SYSTEM_WIDE_ATOMICS, decode_enable_system_wide_atomics),
      (UVM_DISABLE_SYSTEM_WIDE_ATOMICS, decode_disable_system_wide_atomics),
      (UVM_TOOLS_INIT_EVENT_TRACKER, decode_tools_init_event_tracker),
      (UVM_TOOLS_INIT_EVENT_TRACKER_V2, decode_tools_init_event_tracker),
      (UVM_TOOLS_SET_NOTIFICATION_THRESHOLD, decode_tools_set_notification_threshold),
      (UVM_TOOLS_EVENT_QUEUE_ENABLE_EVENTS, decode_tools_event_queue_enable_events),
      (UVM_TOOLS_EVENT_QUEUE_DISABLE_EVENTS, decode_tools_event_queue_disable_events),
      (UVM_TOOLS_ENABLE_COUNTERS, decode_tools_enable_counters),
      (UVM_TOOLS_DISABLE_COUNTERS, decode_tools_disable_counters),
      (UVM_TOOLS_READ_PROCESS_MEMORY, decode_tools_read_process_memory),
      (UVM_TOOLS_WRITE_PROCESS_MEMORY, decode_tools_write_process_memory),
      (UVM_TOOLS_GET_PROCESSOR_UUID_TABLE, decode_tools_get_processor_uuid_table),
      (UVM_TOOLS_GET_PROCESSOR_UUID_TABLE_V2, decode_tools_get_processor_uuid_table),
      (UVM_MAP_DYNAMIC_PARALLELISM_REGION, decode_map_dynamic_parallelism_region),
      (UVM_UNMAP_EXTERNAL, decode_unmap_external),
      (UVM_TOOLS_FLUSH_EVENTS, decode_tools_flush_events),
      (UVM_ALLOC_SEMAPHORE_POOL, decode_alloc_semaphore_pool),
      (UVM_CLEAN_UP_ZOMBIE_RESOURCES, decode_clean_up_zombie_resources),
      (UVM_PAGEABLE_MEM_ACCESS_ON_GPU, decode_pageable_mem_access_on_gpu),
      (UVM_POPULATE_PAGEABLE, decode_populate_pageable),
      (UVM_VALIDATE_VA_RANGE, decode_validate_va_range),
      (UVM_CREATE_EXTERNAL_RANGE, decode_create_external_range),
      (UVM_MAP_EXTERNAL_SPARSE, decode_map_external_sparse),
      (UVM_MM_INITIALIZE, decode_mm_initialize), (UVM_ALLOC_DEVICE_P2P, decode_alloc_device_p2p),
      (UVM_CLEAR_ALL_ACCESS_COUNTERS, decode_clear_all_access_counters),
      (UVM_DISCARD, decode_discard), (UVM_IS_8_SUPPORTED, decode_is8_supported)]"

record DecodeSummary =
  ds_legacy :: string
  ds_json :: string

definition decode_uvm_ioctl ::
    "remote \<Rightarrow> IoctlMeta \<Rightarrow> u64 \<Rightarrow> IoctlDecodeMode \<Rightarrow> usize \<Rightarrow> DecodeSummary option" where
  "decode_uvm_ioctl rd meta arg_ptr decode_mode max_blob =
     (let root = JsonObject_new in
      if decode_mode = Header then
        (let root = field_str ''status'' ''header'' root
         in Some \<lparr>ds_legacy = [], ds_json = finish root\<rparr>)
      else
        let raw_cmd = normalize_uvm_cmd (meta_raw meta) in
        if raw_cmd = UVM_DEINITIALIZE then
          (let root = field_str ''status'' ''ok'' root
           in Some \<lparr>ds_legacy = [], ds_json = finish root\<rparr>)
        else if arg_ptr = 0 then
          (let root = field_str ''status'' ''arg_null'' root
           in Some \<lparr>ds_legacy = [], ds_json = finish root\<rparr>)
        else
          let root = (case map_of uvm_decoders raw_cmd of
                        Some decode \<Rightarrow> decode rd arg_ptr root
                      | None \<Rightarrow> decode_unknown rd arg_ptr max_blob root)
          in Some \<lparr>ds_legacy = [], ds_json = finish root\<rparr>)"

subsection \<open>Every decoder reports how its read went\<close>

definition readable :: "remote \<Rightarrow> u64 \<Rightarrow> nat \<Rightarrow> bool" where
  "readable rd a n \<longleftrightarrow> (\<exists>bs. rd a n = Some bs \<and> length bs = n)"

definition ends_with_status :: "string \<Rightarrow> JsonObject \<Rightarrow> bool" where
  "ends_with_status s root \<longleftrightarrow> (\<exists>r. well_built r \<and> root = field_str ''status'' s r)"

text \<open>\<open>f\<close> reads exactly \<open>n\<close> bytes, adds members, and says whether the read succeeded.\<close>

definition decodes :: "(remote \<Rightarrow> u64 \<Rightarrow> JsonObject \<Rightarrow> JsonObject) \<Rightarrow> nat \<Rightarrow> bool" where
  "decodes f n \<longleftrightarrow> (\<forall>rd a root. well_built root \<longrightarrow>
     ends_with_status (if readable rd a n then ''ok'' else ''arg_unreadable'') (f rd a root))"

lemma ends_with_statusI: "well_built r \<Longrightarrow> ends_with_status s (field_str ''status'' s r)"
  by (auto simp: ends_with_status_def)

lemma status_object_ends: "ends_with_status s root \<Longrightarrow> ascii s \<Longrightarrow> status_object s (finish root)"
  by (auto simp: ends_with_status_def status_object_finish)

lemma read_pod_readable: "(\<exists>p. read_pod rd T a = Some p) \<longleftrightarrow> readable rd a (pod_size T)"
  by (auto simp: read_pod_def readable_def split: option.splits)

lemma decodes_with_params:
  assumes "\<And>p root. well_built root \<Longrightarrow> ends_with_status ''ok'' (k p root)" and "pod_size T = n"
  shows "decodes (\<lambda>rd a. with_params rd T a k) n"
  unfolding decodes_def
proof (intro allI impI)
  fix rd a root assume w: "well_built root"
  show "ends_with_status (if readable rd a n then ''ok'' else ''arg_unreadable'')
      (with_params rd T a k root)"
  proof (cases "read_pod rd T a")
    case None
    with read_pod_readable [of rd T a] assms(2) have "\<not> readable rd a n" by simp
    with None w show ?thesis by (simp add: with_params_def ends_with_statusI)
  next
    case (Some p)
    with read_pod_readable [of rd T a] assms(2) have "readable rd a n" by simp
    with Some assms(1) [OF w] show ?thesis by (simp add: with_params_def)
  qed
qed

text \<open>The texts the decoders print.\<close>

lemma uvm_nibble: "uvm_hex_nibble = hex_nibble"
  by (simp add: fun_eq_iff uvm_hex_nibble_def hex_nibble_def)

lemma ascii_concat: "list_all ascii xs \<Longrightarrow> ascii (concat xs)"
  by (induction xs) simp_all

lemma ascii_uuid [simp]: "ascii (format_uuid u)"
  unfolding format_uuid_def
  by (rule ascii_concat)
    (auto simp: list_all_iff uvm_nibble nibbles ascii_digit_char nibble_bounds)

lemma ascii_hex_words [simp]: "ascii (hex_u32 w)" "ascii (hex_u64 v)"
  by (simp_all add: hex_u32_def hex_u64_def)

lemma utf8_texts [json_intros]:
  "utf8 (format_uuid u)" "utf8 (hex_u32 w)" "utf8 (hex_u64 v)" "utf8 (hex_bytes bs)" "utf8 (hex0x n)"
  by (simp_all add: ascii_utf8)

lemma json_text_arrays [json_intros]:
  "json_text (json_u64_array ws)" "json_text (json_uuid_array us)"
  "json_text (json_counter_config_array cs)" "json_text (json_gpu_mapping_attributes_array gs)"
  unfolding json_u64_array_def json_uuid_array_def json_counter_config_array_def
    json_gpu_mapping_attributes_array_def Let_def
  by (intro json_text_elems; simp add: list_all_iff; intro ballI json_intros; simp)+

lemmas uvm_sizes = uvm_pods uvm_layouts round_up_def UVM_MAX_STREAMS_PER_IOCTL_CALL_def
  UVM_MAX_COUNTERS_PER_IOCTL_CALL_def UVM_MAX_RANGE_GROUPS_PER_IOCTL_CALL_def
  UVM_MAX_GPUS_V1_def UVM_MAX_GPUS_def

lemmas decoder_defs = decode_initialize_def decode_reserve_va_def decode_release_va_def decode_region_commit_def
  decode_region_decommit_def decode_region_set_stream_def decode_set_stream_running_def
  decode_set_stream_stopped_def decode_add_session_def decode_enable_counters_def
  decode_map_counter_def decode_create_event_queue_def decode_remove_event_queue_def
  decode_map_event_queue_def decode_event_ctrl_def decode_get_gpu_uuid_table_def
  decode_region_set_backing_def decode_region_unset_backing_def decode_create_range_group_def
  decode_destroy_range_group_def decode_register_gpu_vaspace_def
  decode_unregister_gpu_vaspace_def decode_register_channel_def decode_unregister_channel_def
  decode_enable_peer_access_def decode_disable_peer_access_def decode_set_range_group_def
  decode_map_external_allocation_def decode_free_def decode_mem_map_def
  decode_register_gpu_def decode_unregister_gpu_def decode_pageable_mem_access_def
  decode_prevent_migration_range_groups_def decode_allow_migration_range_groups_def
  decode_set_preferred_location_def decode_unset_preferred_location_def
  decode_enable_read_duplication_def decode_disable_read_duplication_def
  decode_set_accessed_by_def decode_unset_accessed_by_def decode_migrate_def
  decode_migrate_range_group_def decode_enable_system_wide_atomics_def
  decode_disable_system_wide_atomics_def decode_tools_init_event_tracker_def
  decode_tools_set_notification_threshold_def decode_tools_event_queue_enable_events_def
  decode_tools_event_queue_disable_events_def decode_tools_enable_counters_def
  decode_tools_disable_counters_def decode_tools_read_process_memory_def
  decode_tools_write_process_memory_def decode_tools_get_processor_uuid_table_def
  decode_map_dynamic_parallelism_region_def decode_unmap_external_def
  decode_tools_flush_events_def decode_alloc_semaphore_pool_def
  decode_clean_up_zombie_resources_def decode_pageable_mem_access_on_gpu_def
  decode_populate_pageable_def decode_validate_va_range_def decode_create_external_range_def
  decode_map_external_sparse_def decode_mm_initialize_def decode_alloc_device_p2p_def
  decode_clear_all_access_counters_def decode_discard_def decode_is8_supported_def

text \<open>The bytes each command's parameter structure has, which are the bytes its decoder needs.\<close>

definition uvm_param_sizes :: "(u64 \<times> nat) list" where
  "uvm_param_sizes =
     [(UVM_INITIALIZE, 16), (UVM_RESERVE_VA, 24), (UVM_RELEASE_VA, 24), (UVM_REGION_COMMIT, 48),
      (UVM_REGION_DECOMMIT, 24), (UVM_REGION_SET_STREAM, 48), (UVM_SET_STREAM_RUNNING, 16),
      (UVM_SET_STREAM_STOPPED, 272), (UVM_ADD_SESSION, 8), (UVM_ENABLE_COUNTERS, 904),
      (UVM_MAP_COUNTER, 40), (UVM_CREATE_EVENT_QUEUE, 40), (UVM_REMOVE_EVENT_QUEUE, 8),
      (UVM_MAP_EVENT_QUEUE, 56), (UVM_EVENT_CTRL, 16), (UVM_GET_GPU_UUID_TABLE, 520),
      (UVM_REGION_SET_BACKING, 48), (UVM_REGION_UNSET_BACKING, 24), (UVM_CREATE_RANGE_GROUP, 16),
      (UVM_DESTROY_RANGE_GROUP, 16), (UVM_REGISTER_GPU_VASPACE, 32),
      (UVM_UNREGISTER_GPU_VASPACE, 20), (UVM_REGISTER_CHANNEL, 56), (UVM_UNREGISTER_CHANNEL, 12),
      (UVM_ENABLE_PEER_ACCESS, 36), (UVM_DISABLE_PEER_ACCESS, 36), (UVM_SET_RANGE_GROUP, 32),
      (UVM_MAP_EXTERNAL_ALLOCATION, 9264), (UVM_FREE, 16), (UVM_MEM_MAP, 24),
      (UVM_REGISTER_GPU, 40), (UVM_UNREGISTER_GPU, 20), (UVM_PAGEABLE_MEM_ACCESS, 8),
      (UVM_PREVENT_MIGRATION_RANGE_GROUPS, 272), (UVM_ALLOW_MIGRATION_RANGE_GROUPS, 272),
      (UVM_SET_PREFERRED_LOCATION, 40), (UVM_UNSET_PREFERRED_LOCATION, 24),
      (UVM_ENABLE_READ_DUPLICATION, 24), (UVM_DISABLE_READ_DUPLICATION, 24),
      (UVM_SET_ACCESSED_BY, 40), (UVM_UNSET_ACCESSED_BY, 40), (UVM_MIGRATE, 80),
      (UVM_MIGRATE_RANGE_GROUP, 32), (UVM_ENABLE_SYSTEM_WIDE_ATOMICS, 20),
      (UVM_DISABLE_SYSTEM_WIDE_ATOMICS, 20), (UVM_TOOLS_INIT_EVENT_TRACKER, 56),
      (UVM_TOOLS_INIT_EVENT_TRACKER_V2, 56), (UVM_TOOLS_SET_NOTIFICATION_THRESHOLD, 8),
      (UVM_TOOLS_EVENT_QUEUE_ENABLE_EVENTS, 16), (UVM_TOOLS_EVENT_QUEUE_DISABLE_EVENTS, 16),
      (UVM_TOOLS_ENABLE_COUNTERS, 16), (UVM_TOOLS_DISABLE_COUNTERS, 16),
      (UVM_TOOLS_READ_PROCESS_MEMORY, 40), (UVM_TOOLS_WRITE_PROCESS_MEMORY, 40),
      (UVM_TOOLS_GET_PROCESSOR_UUID_TABLE, 16), (UVM_TOOLS_GET_PROCESSOR_UUID_TABLE_V2, 16),
      (UVM_MAP_DYNAMIC_PARALLELISM_REGION, 40), (UVM_UNMAP_EXTERNAL, 40),
      (UVM_TOOLS_FLUSH_EVENTS, 4), (UVM_ALLOC_SEMAPHORE_POOL, 9248),
      (UVM_CLEAN_UP_ZOMBIE_RESOURCES, 4), (UVM_PAGEABLE_MEM_ACCESS_ON_GPU, 24),
      (UVM_POPULATE_PAGEABLE, 24), (UVM_VALIDATE_VA_RANGE, 24), (UVM_CREATE_EXTERNAL_RANGE, 24),
      (UVM_MAP_EXTERNAL_SPARSE, 40), (UVM_MM_INITIALIZE, 8), (UVM_ALLOC_DEVICE_P2P, 56),
      (UVM_CLEAR_ALL_ACCESS_COUNTERS, 4), (UVM_DISCARD, 32), (UVM_IS_8_SUPPORTED, 8)]"

lemma uvm_decoders_ok:
  "list_all2 (\<lambda>(c, f) (c', n). c = c' \<and> decodes f n) uvm_decoders uvm_param_sizes"
  unfolding uvm_decoders_def uvm_param_sizes_def list_all2_Cons prod.case
  by (intro conjI refl list.rel_intros(1); unfold decoder_defs Let_def; rule decodes_with_params;
      auto simp: uvm_sizes split: prod.split intro!: ends_with_statusI json_intros)

lemma map_of_rel:
  assumes "list_all2 (\<lambda>(c, x) (c', y). c = c' \<and> R x y) xs ys"
  shows "rel_option R (map_of xs k) (map_of ys k)"
  using assms by (induction rule: list_all2_induct) auto

lemma decode_unknown_ok:
  "decode_unknown rd a max_blob root = r \<Longrightarrow> well_built root \<Longrightarrow>
   ends_with_status
     (if readable rd a (min (max max_blob 16) 64) then ''unknown_cmd'' else ''arg_unreadable'') r"
  by (auto simp: decode_unknown_def read_bytes_def readable_def Let_def
      split: option.splits intro!: ends_with_statusI json_intros)

text \<open>The status an ioctl is reported with, as documented by the decoder's early returns.\<close>

definition uvm_status :: "remote \<Rightarrow> u64 \<Rightarrow> u64 \<Rightarrow> IoctlDecodeMode \<Rightarrow> usize \<Rightarrow> string" where
  "uvm_status rd cmd arg_ptr decode_mode max_blob =
     (if decode_mode = Header then ''header''
      else if take_bit 32 cmd = UVM_DEINITIALIZE then ''ok''
      else if arg_ptr = 0 then ''arg_null''
      else case map_of uvm_param_sizes (take_bit 32 cmd) of
             Some n \<Rightarrow> if readable rd arg_ptr n then ''ok'' else ''arg_unreadable''
           | None \<Rightarrow> if readable rd arg_ptr (min (max max_blob 16) 64) then ''unknown_cmd''
                     else ''arg_unreadable'')"

lemma normalize_take_bit: "normalize_uvm_cmd cmd = take_bit 32 cmd"
  by (simp add: normalize_uvm_cmd_def take_bit_eq_mask mask_eq_exp_minus_1)

lemma ascii_uvm_status [simp]: "ascii (uvm_status rd cmd a m b)"
  by (simp add: uvm_status_def split: option.split)

lemma uvm_decode_ends:
  assumes "map_of uvm_param_sizes k = n" and "well_built root"
  shows "ends_with_status
    (case n of
       Some n \<Rightarrow> if readable rd a n then ''ok'' else ''arg_unreadable''
     | None \<Rightarrow> if readable rd a (min (max b 16) 64) then ''unknown_cmd'' else ''arg_unreadable'')
    (case map_of uvm_decoders k of Some f \<Rightarrow> f rd a root | None \<Rightarrow> decode_unknown rd a b root)"
proof (cases "map_of uvm_decoders k")
  case None
  with map_of_rel [OF uvm_decoders_ok, of k] assms(1) have "n = None" by (auto elim: option.rel_cases)
  with None decode_unknown_ok [OF refl assms(2)] show ?thesis by simp
next
  case (Some f)
  with map_of_rel [OF uvm_decoders_ok, of k] assms(1) obtain m where "n = Some m" "decodes f m"
    by (auto elim: option.rel_cases)
  with Some assms(2) show ?thesis by (simp add: decodes_def)
qed

lemma uvm_decode_status:
  "\<exists>s. decode_uvm_ioctl rd meta arg_ptr decode_mode max_blob = Some s \<and>
       status_object (uvm_status rd (meta_raw meta) arg_ptr decode_mode max_blob) (ds_json s)"
proof (cases "decode_mode = Header \<or> take_bit 32 (meta_raw meta) = UVM_DEINITIALIZE \<or> arg_ptr = 0")
  case True
  then show ?thesis
    using status_object_finish [OF well_built_new]
    by (auto simp: decode_uvm_ioctl_def uvm_status_def normalize_take_bit Let_def)
next
  case False
  let ?k = "take_bit 32 (meta_raw meta)"
  have "ends_with_status (uvm_status rd (meta_raw meta) arg_ptr decode_mode max_blob)
      (case map_of uvm_decoders ?k of Some f \<Rightarrow> f rd arg_ptr JsonObject_new
       | None \<Rightarrow> decode_unknown rd arg_ptr max_blob JsonObject_new)"
    using uvm_decode_ends [where k = ?k and rd = rd and a = arg_ptr and b = max_blob,
        OF refl well_built_new] False by (simp add: uvm_status_def)
  from status_object_ends [OF this ascii_uvm_status] False show ?thesis
    by (simp add: decode_uvm_ioctl_def normalize_take_bit Let_def)
qed

text \<open>C30. Whatever the traced process passes, the decoder of \<open>/dev/nvidia-uvm\<close> ioctls returns one
  well-formed JSON object whose last member is the status, and the status is truthful: \<open>ok\<close>
  exactly when all bytes of the command's structure could be read.\<close>

theorem decode_uvm_status:
  "\<exists>s. decode_uvm_ioctl rd meta arg_ptr decode_mode max_blob = Some s \<and>
       status_object (uvm_status rd (meta_raw meta) arg_ptr decode_mode max_blob) (ds_json s)"
  by (rule uvm_decode_status)

text \<open>The printed command name and the decoder agree: a command is named exactly when a
  decoder exists for it (or when it takes no argument).\<close>

theorem uvm_named_iff_decoded:
  "uvm_cmd_name cmd \<noteq> ''UNKNOWN'' \<longleftrightarrow>
     normalize_uvm_cmd cmd = UVM_DEINITIALIZE \<or> normalize_uvm_cmd cmd \<in> fst ` set uvm_decoders"
proof -
  have n: "''UNKNOWN'' \<notin> snd ` set uvm_cmd_names"
    by (simp add: uvm_cmd_names_def)
  have k: "fst ` set uvm_cmd_names = insert UVM_DEINITIALIZE (fst ` set uvm_decoders)"
    unfolding uvm_cmd_names_def uvm_decoders_def list.set image_insert image_empty fst_conv by blast
  show ?thesis
  proof (cases "map_of uvm_cmd_names (normalize_uvm_cmd cmd)")
    case None
    then have "normalize_uvm_cmd cmd \<notin> fst ` set uvm_cmd_names" by (simp add: map_of_eq_None_iff)
    with k None show ?thesis by (simp add: uvm_cmd_name_def)
  next
    case (Some s)
    then have "(normalize_uvm_cmd cmd, s) \<in> set uvm_cmd_names" by (rule map_of_SomeD)
    then have "s \<noteq> ''UNKNOWN''" and "normalize_uvm_cmd cmd \<in> fst ` set uvm_cmd_names"
      using n by (metis image_eqI snd_conv, metis image_eqI fst_conv)
    with k Some show ?thesis by (simp add: uvm_cmd_name_def)
  qed
qed

text \<open>No slice \<open>[..count]\<close> of a decoder can panic: the clamped count is at most the length
  of the array it cuts, it is the declared count unless that is too large, and the flag says so.\<close>

theorem uvm_slices_in_bounds:
  "fst (clamp_count c UVM_MAX_STREAMS_PER_IOCTL_CALL) \<le>
     length (UvmSetStreamStoppedParams.p_stream_id_array (pod_read UvmSetStreamStoppedParams_pod bs)) \<and>
   fst (clamp_count c UVM_MAX_COUNTERS_PER_IOCTL_CALL) \<le>
     length (UvmEnableCountersParams.p_config (pod_read UvmEnableCountersParams_pod bs)) \<and>
   fst (clamp_count c UVM_MAX_GPUS_V1) \<le>
     length (UvmGetGpuUuidTableParams.p_gpu_uuid_array (pod_read UvmGetGpuUuidTableParams_pod bs)) \<and>
   fst (clamp_count c UVM_MAX_GPUS) \<le> length (UvmMapExternalAllocationParams.p_per_gpu_attributes
     (pod_read UvmMapExternalAllocationParams_pod bs)) \<and>
   fst (clamp_count c UVM_MAX_RANGE_GROUPS_PER_IOCTL_CALL) \<le>
     length (UvmRangeGroupsParams.p_range_group_ids (pod_read UvmRangeGroupsParams_pod bs)) \<and>
   fst (clamp_count c UVM_MAX_GPUS) \<le> length (UvmAllocSemaphorePoolParams.p_per_gpu_attributes
     (pod_read UvmAllocSemaphorePoolParams_pod bs)) \<and>
   list_all (\<lambda>limit. clamp_count c limit = (min limit (unat c), limit < unat c))
     [UVM_MAX_STREAMS_PER_IOCTL_CALL, UVM_MAX_COUNTERS_PER_IOCTL_CALL,
      UVM_MAX_RANGE_GROUPS_PER_IOCTL_CALL, UVM_MAX_GPUS_V1, UVM_MAX_GPUS]"
  by (auto simp: clamp_count_def uvm_pods word_less_nat_alt unat_of_nat not_less
      UVM_MAX_STREAMS_PER_IOCTL_CALL_def UVM_MAX_COUNTERS_PER_IOCTL_CALL_def
      UVM_MAX_RANGE_GROUPS_PER_IOCTL_CALL_def UVM_MAX_GPUS_V1_def UVM_MAX_GPUS_def)

text \<open>A GPU identifier is printed in the usual groups of 8, 4, 4, 4 and 12 hex digits, which are
  the digits of its sixteen bytes in order.\<close>

theorem format_uuid_groups:
  assumes "length uuid = 16"
  shows "(let h = hex_bytes uuid in
    format_uuid uuid = take 8 h @ ''-'' @ take 4 (drop 8 h) @ ''-'' @ take 4 (drop 12 h) @ ''-'' @
      take 4 (drop 16 h) @ ''-'' @ drop 20 h)"
proof -
  obtain b0 b1 b2 b3 b4 b5 b6 b7 b8 b9 b10 b11 b12 b13 b14 b15
    where u: "uuid = [b0, b1, b2, b3, b4, b5, b6, b7, b8, b9, b10, b11, b12, b13, b14, b15]"
    using assms by (auto simp: eval_nat_numeral length_Suc_conv)
  show ?thesis unfolding u by (simp add: format_uuid_def uvm_nibble hex_bytes_def Let_def)
qed

theorem format_uuid_groups_witness:
  "length (replicate 16 (0x11 :: u8)) = 16 \<and>
   format_uuid (replicate 16 0x11) = ''11111111-1111-1111-1111-111111111111''"
proof -
  have "hex_bytes (replicate 16 0x11) = ''11111111111111111111111111111111''"
    by code_simp
  with format_uuid_groups [of "replicate 16 0x11"] show ?thesis
    by (simp add: Let_def)
qed

text \<open>From the bytes in the traced process to the members of the printed object, for the
  registration of a GPU address space: every field is read at its offset, with its sign, and
  printed under its name.\<close>

theorem register_gpu_vaspace_members:
  assumes "rd a 32 = Some (uuid @ le_bytes 4 (unat fd) @ le_bytes 4 (unat client) @
      le_bytes 4 (unat vaspace) @ le_bytes 4 (unat rm))"
    and "length uuid = 16"
  shows "json_parse (finish (decode_register_gpu_vaspace rd a JsonObject_new)) =
    Some (JObj [(''gpu_uuid'', JStr (format_uuid uuid)), (''rmCtrlFd'', JNum (sint (fd :: 32 word))),
      (''hClient'', JStr (hex0x (unat (client :: u32)))), (''hVaSpace'', JStr (hex0x (unat (vaspace :: u32)))),
      (''rm_status'', JNum (sint (rm :: 32 word))), (''status'', JStr ''ok'')])"
proof -
  let ?bs = "uuid @ le_bytes 4 (unat fd) @ le_bytes 4 (unat client) @ le_bytes 4 (unat vaspace) @
    le_bytes 4 (unat rm)"
  let ?L = UvmRegisterGpuVaspaceParams_layout
  have o: "field_offset ?L 0 = 0" "field_offset ?L (Suc 0) = 16" "field_offset ?L 2 = 20"
    "field_offset ?L 3 = 24" "field_offset ?L 4 = 28"
    by (simp_all add: UvmRegisterGpuVaspaceParams_layout_def field_offset_def round_up_def)
  have f: "field_at ?L ?bs 0 = ?bs"
    "field_at ?L ?bs (Suc 0) = le_bytes 4 (unat fd) @ le_bytes 4 (unat client) @
      le_bytes 4 (unat vaspace) @ le_bytes 4 (unat rm)"
    "field_at ?L ?bs 2 = le_bytes 4 (unat client) @ le_bytes 4 (unat vaspace) @ le_bytes 4 (unat rm)"
    "field_at ?L ?bs 3 = le_bytes 4 (unat vaspace) @ le_bytes 4 (unat rm)"
    "field_at ?L ?bs 4 = le_bytes 4 (unat rm) @ []"
    using assms(2) by (simp_all add: field_at_def o)
  have z: "pod_size UvmRegisterGpuVaspaceParams_pod = 32" by (simp add: uvm_sizes)
  have "read_pod rd UvmRegisterGpuVaspaceParams_pod a = Some (UvmRegisterGpuVaspaceParams.make
      uuid (sint fd) client vaspace (sint rm))"
    using assms f
    by (simp add: read_pod_def z) (simp add: UvmRegisterGpuVaspaceParams_pod_def get_i32_def
        get_u32_le_bytes get_u32_le_bytes [of _ "[]", simplified] UvmRegisterGpuVaspaceParams.defs)
  then have "decode_register_gpu_vaspace rd a JsonObject_new = fold add_field
      [(''gpu_uuid'', FStr (format_uuid uuid)), (''rmCtrlFd'', FI64 (sint fd)),
       (''hClient'', FStr (hex0x (unat client))), (''hVaSpace'', FStr (hex0x (unat vaspace))),
       (''rm_status'', FI64 (sint rm)), (''status'', FStr ''ok'')] JsonObject_new"
    by (simp add: decode_register_gpu_vaspace_def with_params_def hex_u32_def
        UvmRegisterGpuVaspaceParams.defs)
  then show ?thesis
    using add_fields_parse [of "[(''gpu_uuid'', FStr (format_uuid uuid)), (''rmCtrlFd'', FI64 (sint fd)),
       (''hClient'', FStr (hex0x (unat client))), (''hVaSpace'', FStr (hex0x (unat vaspace))),
       (''rm_status'', FI64 (sint rm)), (''status'', FStr ''ok'')]"]
    by (simp add: ascii_utf8)
qed

theorem register_gpu_vaspace_members_witness:
  "json_parse (finish (decode_register_gpu_vaspace
     (\<lambda>_ _. Some (replicate 16 0x11 @ le_bytes 4 9 @ le_bytes 4 0xabc @ le_bytes 4 0xdef @ le_bytes 4 0))
     0x1000 JsonObject_new)) =
   Some (JObj [(''gpu_uuid'', JStr (format_uuid (replicate 16 0x11))), (''rmCtrlFd'', JNum 9),
      (''hClient'', JStr (hex0x 0xabc)), (''hVaSpace'', JStr (hex0x 0xdef)),
      (''rm_status'', JNum 0), (''status'', JStr ''ok'')])"
  using register_gpu_vaspace_members [where rd = "\<lambda>_ _. Some (replicate 16 0x11 @ le_bytes 4 9 @
      le_bytes 4 0xabc @ le_bytes 4 0xdef @ le_bytes 4 0)" and a = "0x1000" and uuid = "replicate 16 0x11"
      and fd = 9 and client = "0xabc" and vaspace = "0xdef" and rm = 0]
  by simp

text \<open>An ioctl the decoder does not know is not lost: between 16 and 64 of its bytes, as many as
  the configured limit allows, are in the output and can be read back.\<close>

theorem unknown_blob_members:
  assumes "rd a (min (max max_blob 16) 64) = Some bs" and "length bs = min (max max_blob 16) 64"
  shows "json_parse (finish (decode_unknown rd a max_blob JsonObject_new)) =
      Some (JObj [(''blob_hex'', JStr (hex_bytes bs)), (''status'', JStr ''unknown_cmd'')]) \<and>
    16 \<le> length bs \<and> length bs \<le> 64"
  using add_fields_parse [of "[(''blob_hex'', FStr (hex_bytes bs)), (''status'', FStr ''unknown_cmd'')]"]
    assms by (simp add: decode_unknown_def read_bytes_def ascii_utf8 Let_def)

theorem unknown_blob_members_witness:
  "json_parse (finish (decode_unknown (\<lambda>_ n. Some (replicate n 7)) 0x1000 0 JsonObject_new)) =
      Some (JObj [(''blob_hex'', JStr (hex_bytes (replicate 16 7))), (''status'', JStr ''unknown_cmd'')]) \<and>
    16 \<le> length (replicate 16 (7 :: u8)) \<and> length (replicate 16 (7 :: u8)) \<le> 64"
  by (rule unknown_blob_members) simp_all

end
