(* ===== verification/Nvidia.thy ===== *)
theory Nvidia
  imports Ioctl_Meta
begin

text \<open>
  \<open>src/decode/nvidia.rs\<close>: the numbers of the resource manager's ioctls and the \<open>#[repr(C)]\<close>
  structures they take, with the size each has according to the unit test of the source. For each
  structure: the record (fields prefixed with \<open>p_\<close>), its layout, and the \<open>pod\<close> with which it is
  read out of the traced process.
\<close>

subsection \<open>Commands\<close>

definition NV_IOCTL_MAGIC :: u8 where "NV_IOCTL_MAGIC = 0x46"
definition NV_IOCTL_BASE :: u32 where "NV_IOCTL_BASE = 200"
definition NV_ESC_CARD_INFO :: u32 where "NV_ESC_CARD_INFO = 200"
definition NV_ESC_REGISTER_FD :: u32 where "NV_ESC_REGISTER_FD = 201"
definition NV_ESC_ALLOC_OS_EVENT :: u32 where "NV_ESC_ALLOC_OS_EVENT = 206"
definition NV_ESC_FREE_OS_EVENT :: u32 where "NV_ESC_FREE_OS_EVENT = 207"
definition NV_ESC_STATUS_CODE :: u32 where "NV_ESC_STATUS_CODE = 209"
definition NV_ESC_CHECK_VERSION_STR :: u32 where "NV_ESC_CHECK_VERSION_STR = 210"
definition NV_ESC_IOCTL_XFER_CMD :: u32 where "NV_ESC_IOCTL_XFER_CMD = 211"
definition NV_ESC_ATTACH_GPUS_TO_FD :: u32 where "NV_ESC_ATTACH_GPUS_TO_FD = 212"
definition NV_ESC_QUERY_DEVICE_INTR :: u32 where "NV_ESC_QUERY_DEVICE_INTR = 213"
definition NV_ESC_SYS_PARAMS :: u32 where "NV_ESC_SYS_PARAMS = 214"
definition NV_ESC_NUMA_INFO :: u32 where "NV_ESC_NUMA_INFO = 215"
definition NV_ESC_SET_NUMA_STATUS :: u32 where "NV_ESC_SET_NUMA_STATUS = 216"
definition NV_ESC_EXPORT_TO_DMABUF_FD :: u32 where "NV_ESC_EXPORT_TO_DMABUF_FD = 217"
definition NV_ESC_WAIT_OPEN_COMPLETE :: u32 where "NV_ESC_WAIT_OPEN_COMPLETE = 218"
definition NV_ESC_RM_ALLOC_MEMORY :: u32 where "NV_ESC_RM_ALLOC_MEMORY = 0x27"
definition NV_ESC_RM_ALLOC_OBJECT :: u32 where "NV_ESC_RM_ALLOC_OBJECT = 0x28"
definition NV_ESC_RM_FREE :: u32 where "NV_ESC_RM_FREE = 0x29"
definition NV_ESC_RM_CONTROL :: u32 where "NV_ESC_RM_CONTROL = 0x2a"
definition NV_ESC_RM_ALLOC :: u32 where "NV_ESC_RM_ALLOC = 0x2b"
definition NV_ESC_RM_CONFIG_GET :: u32 where "NV_ESC_RM_CONFIG_GET = 0x32"
definition NV_ESC_RM_CONFIG_SET :: u32 where "NV_ESC_RM_CONFIG_SET = 0x33"
definition NV_ESC_RM_DUP_OBJECT :: u32 where "NV_ESC_RM_DUP_OBJECT = 0x34"
definition NV_ESC_RM_SHARE :: u32 where "NV_ESC_RM_SHARE = 0x35"
definition NV_ESC_RM_CONFIG_GET_EX :: u32 where "NV_ESC_RM_CONFIG_GET_EX = 0x37"
definition NV_ESC_RM_CONFIG_SET_EX :: u32 where "NV_ESC_RM_CONFIG_SET_EX = 0x38"
definition NV_ESC_RM_I2C_ACCESS :: u32 where "NV_ESC_RM_I2C_ACCESS = 0x39"
definition NV_ESC_RM_IDLE_CHANNELS :: u32 where "NV_ESC_RM_IDLE_CHANNELS = 0x41"
definition NV_ESC_RM_VID_HEAP_CONTROL :: u32 where "NV_ESC_RM_VID_HEAP_CONTROL = 0x4a"
definition NV_ESC_RM_ACCESS_REGISTRY :: u32 where "NV_ESC_RM_ACCESS_REGISTRY = 0x4d"
definition NV_ESC_RM_MAP_MEMORY :: u32 where "NV_ESC_RM_MAP_MEMORY = 0x4e"
definition NV_ESC_RM_UNMAP_MEMORY :: u32 where "NV_ESC_RM_UNMAP_MEMORY = 0x4f"
definition NV_ESC_RM_GET_EVENT_DATA :: u32 where "NV_ESC_RM_GET_EVENT_DATA = 0x52"
definition NV_ESC_RM_ALLOC_CONTEXT_DMA2 :: u32 where "NV_ESC_RM_ALLOC_CONTEXT_DMA2 = 0x54"
definition NV_ESC_RM_ADD_VBLANK_CALLBACK :: u32 where "NV_ESC_RM_ADD_VBLANK_CALLBACK = 0x56"
definition NV_ESC_RM_MAP_MEMORY_DMA :: u32 where "NV_ESC_RM_MAP_MEMORY_DMA = 0x57"
definition NV_ESC_RM_UNMAP_MEMORY_DMA :: u32 where "NV_ESC_RM_UNMAP_MEMORY_DMA = 0x58"
definition NV_ESC_RM_BIND_CONTEXT_DMA :: u32 where "NV_ESC_RM_BIND_CONTEXT_DMA = 0x59"
definition NV_ESC_RM_EXPORT_OBJECT_TO_FD :: u32 where "NV_ESC_RM_EXPORT_OBJECT_TO_FD = 0x5c"
definition NV_ESC_RM_IMPORT_OBJECT_FROM_FD :: u32 where "NV_ESC_RM_IMPORT_OBJECT_FROM_FD = 0x5d"
definition NV_ESC_RM_UPDATE_DEVICE_MAPPING_INFO :: u32 where "NV_ESC_RM_UPDATE_DEVICE_MAPPING_INFO = 0x5e"
definition NV_ESC_RM_LOCKLESS_DIAGNOSTIC :: u32 where "NV_ESC_RM_LOCKLESS_DIAGNOSTIC = 0x5f"
definition NV04_CONTROL :: u32 where "NV04_CONTROL = 0x00000036"
definition NV01_ROOT :: i32 where "NV01_ROOT = 0x00000000"
definition NV01_ROOT_NON_PRIV :: i32 where "NV01_ROOT_NON_PRIV = 0x00000001"
definition NV01_ROOT_CLIENT :: i32 where "NV01_ROOT_CLIENT = 0x00000041"
definition NV0000_CTRL_CMD_SYSTEM_GET_BUILD_VERSION :: u32 where "NV0000_CTRL_CMD_SYSTEM_GET_BUILD_VERSION = 0x0101"
definition NV0000_CTRL_CMD_CLIENT_GET_ADDR_SPACE_TYPE :: u32 where "NV0000_CTRL_CMD_CLIENT_GET_ADDR_SPACE_TYPE = 0x0d01"
definition NV0000_CTRL_CMD_OS_UNIX_GET_CONTROL_FILE_DESCRIPTOR :: u32 where "NV0000_CTRL_CMD_OS_UNIX_GET_CONTROL_FILE_DESCRIPTOR = 0x3d04"
definition NV0000_CTRL_CLIENT_GET_ADDR_SPACE_TYPE_INVALID :: u32 where "NV0000_CTRL_CLIENT_GET_ADDR_SPACE_TYPE_INVALID = 0x00000000"
definition NV0000_CTRL_CLIENT_GET_ADDR_SPACE_TYPE_SYSMEM :: u32 where "NV0000_CTRL_CLIENT_GET_ADDR_SPACE_TYPE_SYSMEM = 0x00000001"
definition NV0000_CTRL_CLIENT_GET_ADDR_SPACE_TYPE_VIDMEM :: u32 where "NV0000_CTRL_CLIENT_GET_ADDR_SPACE_TYPE_VIDMEM = 0x00000002"
definition NV0000_CTRL_CLIENT_GET_ADDR_SPACE_TYPE_REGMEM :: u32 where "NV0000_CTRL_CLIENT_GET_ADDR_SPACE_TYPE_REGMEM = 0x00000003"
definition NV0000_CTRL_CLIENT_GET_ADDR_SPACE_TYPE_FABRIC :: u32 where "NV0000_CTRL_CLIENT_GET_ADDR_SPACE_TYPE_FABRIC = 0x00000004"
definition NV0000_CTRL_CLIENT_GET_ADDR_SPACE_TYPE_FABRIC_MC :: u32 where "NV0000_CTRL_CLIENT_GET_ADDR_SPACE_TYPE_FABRIC_MC = 0x00000005"

lemmas nvidia_consts = NV_IOCTL_MAGIC_def NV_IOCTL_BASE_def NV_ESC_CARD_INFO_def NV_ESC_REGISTER_FD_def
  NV_ESC_ALLOC_OS_EVENT_def NV_ESC_FREE_OS_EVENT_def NV_ESC_STATUS_CODE_def
  NV_ESC_CHECK_VERSION_STR_def NV_ESC_IOCTL_XFER_CMD_def NV_ESC_ATTACH_GPUS_TO_FD_def
  NV_ESC_QUERY_DEVICE_INTR_def NV_ESC_SYS_PARAMS_def NV_ESC_NUMA_INFO_def
  NV_ESC_SET_NUMA_STATUS_def NV_ESC_EXPORT_TO_DMABUF_FD_def NV_ESC_WAIT_OPEN_COMPLETE_def
  NV_ESC_RM_ALLOC_MEMORY_def NV_ESC_RM_ALLOC_OBJECT_def NV_ESC_RM_FREE_def NV_ESC_RM_CONTROL_def
  NV_ESC_RM_ALLOC_def NV_ESC_RM_CONFIG_GET_def NV_ESC_RM_CONFIG_SET_def NV_ESC_RM_DUP_OBJECT_def
  NV_ESC_RM_SHARE_def NV_ESC_RM_CONFIG_GET_EX_def NV_ESC_RM_CONFIG_SET_EX_def
  NV_ESC_RM_I2C_ACCESS_def NV_ESC_RM_IDLE_CHANNELS_def NV_ESC_RM_VID_HEAP_CONTROL_def
  NV_ESC_RM_ACCESS_REGISTRY_def NV_ESC_RM_MAP_MEMORY_def NV_ESC_RM_UNMAP_MEMORY_def
  NV_ESC_RM_GET_EVENT_DATA_def NV_ESC_RM_ALLOC_CONTEXT_DMA2_def NV_ESC_RM_ADD_VBLANK_CALLBACK_def
  NV_ESC_RM_MAP_MEMORY_DMA_def NV_ESC_RM_UNMAP_MEMORY_DMA_def NV_ESC_RM_BIND_CONTEXT_DMA_def
  NV_ESC_RM_EXPORT_OBJECT_TO_FD_def NV_ESC_RM_IMPORT_OBJECT_FROM_FD_def
  NV_ESC_RM_UPDATE_DEVICE_MAPPING_INFO_def NV_ESC_RM_LOCKLESS_DIAGNOSTIC_def NV04_CONTROL_def
  NV01_ROOT_def NV01_ROOT_NON_PRIV_def NV01_ROOT_CLIENT_def
  NV0000_CTRL_CMD_SYSTEM_GET_BUILD_VERSION_def NV0000_CTRL_CMD_CLIENT_GET_ADDR_SPACE_TYPE_def
  NV0000_CTRL_CMD_OS_UNIX_GET_CONTROL_FILE_DESCRIPTOR_def
  NV0000_CTRL_CLIENT_GET_ADDR_SPACE_TYPE_INVALID_def
  NV0000_CTRL_CLIENT_GET_ADDR_SPACE_TYPE_SYSMEM_def
  NV0000_CTRL_CLIENT_GET_ADDR_SPACE_TYPE_VIDMEM_def
  NV0000_CTRL_CLIENT_GET_ADDR_SPACE_TYPE_REGMEM_def
  NV0000_CTRL_CLIENT_GET_ADDR_SPACE_TYPE_FABRIC_def
  NV0000_CTRL_CLIENT_GET_ADDR_SPACE_TYPE_FABRIC_MC_def

subsection \<open>Structures\<close>

record NvPciInfo =
  p_domain :: u32
  p_bus :: u8
  p_slot :: u8
  p_function :: u8
  p_pad0 :: u8
  p_vendor_id :: u16
  p_device_id :: u16

definition NvPciInfo_layout :: "fty list" where
  "NvPciInfo_layout = [FU32, FU8, FU8, FU8, FU8, FU16, FU16]"

definition NvPciInfo_pod :: "NvPciInfo pod" where
  "NvPciInfo_pod =
     \<lparr>pod_size = size_of (FStruct NvPciInfo_layout),
      pod_read = (\<lambda>bs. \<lparr>p_domain = get_u32 (field_at NvPciInfo_layout bs 0),
      p_bus = get_u8 (field_at NvPciInfo_layout bs 1),
      p_slot = get_u8 (field_at NvPciInfo_layout bs 2),
      p_function = get_u8 (field_at NvPciInfo_layout bs 3),
      p_pad0 = get_u8 (field_at NvPciInfo_layout bs 4),
      p_vendor_id = get_u16 (field_at NvPciInfo_layout bs 5),
      p_device_id = get_u16 (field_at NvPciInfo_layout bs 6)\<rparr>)\<rparr>"

record NvIoctlCardInfo =
  p_valid :: u8
  p_pad0 :: "u8 list"
  p_pci_info :: NvPciInfo
  p_gpu_id :: u32
  p_interrupt_line :: u16
  p_pad1 :: "u8 list"
  p_reg_address :: u64
  p_reg_size :: u64
  p_fb_address :: u64
  p_fb_size :: u64
  p_minor_number :: u32
  p_dev_name :: "u8 list"
  p_pad2 :: "u8 list"

definition NvIoctlCardInfo_layout :: "fty list" where
  "NvIoctlCardInfo_layout = [FU8, FArr 3 FU8, FStruct NvPciInfo_layout, FU32, FU16, FArr 2 FU8, FU64, FU64, FU64, FU64,
      FU32, FArr 10 FU8, FArr 2 FU8]"

definition NvIoctlCardInfo_pod :: "NvIoctlCardInfo pod" where
  "NvIoctlCardInfo_pod =
     \<lparr>pod_size = size_of (FStruct NvIoctlCardInfo_layout),
      pod_read = (\<lambda>bs. \<lparr>p_valid = get_u8 (field_at NvIoctlCardInfo_layout bs 0),
      p_pad0 = take 3 (field_at NvIoctlCardInfo_layout bs 1),
      p_pci_info = pod_read NvPciInfo_pod (field_at NvIoctlCardInfo_layout bs 2),
      p_gpu_id = get_u32 (field_at NvIoctlCardInfo_layout bs 3),
      p_interrupt_line = get_u16 (field_at NvIoctlCardInfo_layout bs 4),
      p_pad1 = take 2 (field_at NvIoctlCardInfo_layout bs 5),
      p_reg_address = get_u64 (field_at NvIoctlCardInfo_layout bs 6),
      p_reg_size = get_u64 (field_at NvIoctlCardInfo_layout bs 7),
      p_fb_address = get_u64 (field_at NvIoctlCardInfo_layout bs 8),
      p_fb_size = get_u64 (field_at NvIoctlCardInfo_layout bs 9),
      p_minor_number = get_u32 (field_at NvIoctlCardInfo_layout bs 10),
      p_dev_name = take 10 (field_at NvIoctlCardInfo_layout bs 11),
      p_pad2 = take 2 (field_at NvIoctlCardInfo_layout bs 12)\<rparr>)\<rparr>"

record NvIoctlRegisterFd =
  p_ctl_fd :: i32

definition NvIoctlRegisterFd_layout :: "fty list" where
  "NvIoctlRegisterFd_layout = [FI32]"

definition NvIoctlRegisterFd_pod :: "NvIoctlRegisterFd pod" where
  "NvIoctlRegisterFd_pod =
     \<lparr>pod_size = size_of (FStruct NvIoctlRegisterFd_layout),
      pod_read = (\<lambda>bs. \<lparr>p_ctl_fd = get_i32 (field_at NvIoctlRegisterFd_layout bs 0)\<rparr>)\<rparr>"

record NvIoctlAllocOsEvent =
  p_h_client :: u32
  p_h_device :: u32
  p_fd :: u32
  p_status :: u32

definition NvIoctlAllocOsEvent_layout :: "fty list" where
  "NvIoctlAllocOsEvent_layout = [FU32, FU32, FU32, FU32]"

definition NvIoctlAllocOsEvent_pod :: "NvIoctlAllocOsEvent pod" where
  "NvIoctlAllocOsEvent_pod =
     \<lparr>pod_size = size_of (FStruct NvIoctlAllocOsEvent_layout),
      pod_read = (\<lambda>bs. \<lparr>p_h_client = get_u32 (field_at NvIoctlAllocOsEvent_layout bs 0),
      p_h_device = get_u32 (field_at NvIoctlAllocOsEvent_layout bs 1),
      p_fd = get_u32 (field_at NvIoctlAllocOsEvent_layout bs 2),
      p_status = get_u32 (field_at NvIoctlAllocOsEvent_layout bs 3)\<rparr>)\<rparr>"

record NvIoctlStatusCode =
  p_domain :: u32
  p_bus :: u8
  p_slot :: u8
  p_pad0 :: u16
  p_status :: u32

definition NvIoctlStatusCode_layout :: "fty list" where
  "NvIoctlStatusCode_layout = [FU32, FU8, FU8, FU16, FU32]"

definition NvIoctlStatusCode_pod :: "NvIoctlStatusCode pod" where
  "NvIoctlStatusCode_pod =
     \<lparr>pod_size = size_of (FStruct NvIoctlStatusCode_layout),
      pod_read = (\<lambda>bs. \<lparr>p_domain = get_u32 (field_at NvIoctlStatusCode_layout bs 0),
      p_bus = get_u8 (field_at NvIoctlStatusCode_layout bs 1),
      p_slot = get_u8 (field_at NvIoctlStatusCode_layout bs 2),
      p_pad0 = get_u16 (field_at NvIoctlStatusCode_layout bs 3),
      p_status = get_u32 (field_at NvIoctlStatusCode_layout bs 4)\<rparr>)\<rparr>"

record NvIoctlRmApiVersion =
  p_cmd :: u32
  p_reply :: u32
  p_version_string :: "u8 list"

definition NvIoctlRmApiVersion_layout :: "fty list" where
  "NvIoctlRmApiVersion_layout = [FU32, FU32, FArr 64 FU8]"

definition NvIoctlRmApiVersion_pod :: "NvIoctlRmApiVersion pod" where
  "NvIoctlRmApiVersion_pod =
     \<lparr>pod_size = size_of (FStruct NvIoctlRmApiVersion_layout),
      pod_read = (\<lambda>bs. \<lparr>p_cmd = get_u32 (field_at NvIoctlRmApiVersion_layout bs 0),
      p_reply = get_u32 (field_at NvIoctlRmApiVersion_layout bs 1),
      p_version_string = take 64 (field_at NvIoctlRmApiVersion_layout bs 2)\<rparr>)\<rparr>"

record NvIoctlQueryDeviceIntr =
  p_intr_status :: u32
  p_status :: u32

definition NvIoctlQueryDeviceIntr_layout :: "fty list" where
  "NvIoctlQueryDeviceIntr_layout = [FU32, FU32]"

definition NvIoctlQueryDeviceIntr_pod :: "NvIoctlQueryDeviceIntr pod" where
  "NvIoctlQueryDeviceIntr_pod =
     \<lparr>pod_size = size_of (FStruct NvIoctlQueryDeviceIntr_layout),
      pod_read = (\<lambda>bs. \<lparr>p_intr_status = get_u32 (field_at NvIoctlQueryDeviceIntr_layout bs 0),
      p_status = get_u32 (field_at NvIoctlQueryDeviceIntr_layout bs 1)\<rparr>)\<rparr>"

record NvIoctlSysParams =
  p_memblock_size :: u64

definition NvIoctlSysParams_layout :: "fty list" where
  "NvIoctlSysParams_layout = [FU64]"

definition NvIoctlSysParams_pod :: "NvIoctlSysParams pod" where
  "NvIoctlSysParams_pod =
     \<lparr>pod_size = size_of (FStruct NvIoctlSysParams_layout),
      pod_read = (\<lambda>bs. \<lparr>p_memblock_size = get_u64 (field_at NvIoctlSysParams_layout bs 0)\<rparr>)\<rparr>"

record NvIoctlWaitOpenComplete =
  p_rc :: i32
  p_adapter_status :: u32

definition NvIoctlWaitOpenComplete_layout :: "fty list" where
  "NvIoctlWaitOpenComplete_layout = [FI32, FU32]"

definition NvIoctlWaitOpenComplete_pod :: "NvIoctlWaitOpenComplete pod" where
  "NvIoctlWaitOpenComplete_pod =
     \<lparr>pod_size = size_of (FStruct NvIoctlWaitOpenComplete_layout),
      pod_read = (\<lambda>bs. \<lparr>p_rc = get_i32 (field_at NvIoctlWaitOpenComplete_layout bs 0),
      p_adapter_status = get_u32 (field_at NvIoctlWaitOpenComplete_layout bs 1)\<rparr>)\<rparr>"

record NvOfflineAddresses =
  p_addresses :: "u64 list"
  p_num_entries :: u32

definition NvOfflineAddresses_layout :: "fty list" where
  "NvOfflineAddresses_layout = [FArr 64 FU64, FU32]"

definition NvOfflineAddresses_pod :: "NvOfflineAddresses pod" where
  "NvOfflineAddresses_pod =
     \<lparr>pod_size = size_of (FStruct NvOfflineAddresses_layout),
      pod_read = (\<lambda>bs. \<lparr>p_addresses = get_array 64 (size_of FU64) get_u64 (field_at NvOfflineAddresses_layout bs 0),
      p_num_entries = get_u32 (field_at NvOfflineAddresses_layout bs 1)\<rparr>)\<rparr>"

record NvIoctlNumaInfo =
  p_nid :: i32
  p_status :: i32
  p_memblock_size :: u64
  p_numa_mem_addr :: u64
  p_numa_mem_size :: u64
  p_use_auto_online :: u8
  p_pad0 :: "u8 list"
  p_offline_addresses :: NvOfflineAddresses

definition NvIoctlNumaInfo_layout :: "fty list" where
  "NvIoctlNumaInfo_layout = [FI32, FI32, FU64, FU64, FU64, FU8, FArr 7 FU8, FStruct NvOfflineAddresses_layout]"

definition NvIoctlNumaInfo_pod :: "NvIoctlNumaInfo pod" where
  "NvIoctlNumaInfo_pod =
     \<lparr>pod_size = size_of (FStruct NvIoctlNumaInfo_layout),
      pod_read = (\<lambda>bs. \<lparr>p_nid = get_i32 (field_at NvIoctlNumaInfo_layout bs 0),
      p_status = get_i32 (field_at NvIoctlNumaInfo_layout bs 1),
      p_memblock_size = get_u64 (field_at NvIoctlNumaInfo_layout bs 2),
      p_numa_mem_addr = get_u64 (field_at NvIoctlNumaInfo_layout bs 3),
      p_numa_mem_size = get_u64 (field_at NvIoctlNumaInfo_layout bs 4),
      p_use_auto_online = get_u8 (field_at NvIoctlNumaInfo_layout bs 5),
      p_pad0 = take 7 (field_at NvIoctlNumaInfo_layout bs 6),
      p_offline_addresses = pod_read NvOfflineAddresses_pod (field_at NvIoctlNumaInfo_layout bs 7)\<rparr>)\<rparr>"

record NvIoctlSetNumaStatus =
  p_status :: i32

definition NvIoctlSetNumaStatus_layout :: "fty list" where
  "NvIoctlSetNumaStatus_layout = [FI32]"

definition NvIoctlSetNumaStatus_pod :: "NvIoctlSetNumaStatus pod" where
  "NvIoctlSetNumaStatus_pod =
     \<lparr>pod_size = size_of (FStruct NvIoctlSetNumaStatus_layout),
      pod_read = (\<lambda>bs. \<lparr>p_status = get_i32 (field_at NvIoctlSetNumaStatus_layout bs 0)\<rparr>)\<rparr>"

record NvIoctlExportToDmaBufFdPrefix =
  p_fd :: i32
  p_h_client :: u32
  p_total_objects :: u32
  p_num_objects :: u32
  p_index :: u32
  p_total_size :: u64
  p_mapping_type :: u8
  p_b_allow_mmap :: u8

definition NvIoctlExportToDmaBufFdPrefix_layout :: "fty list" where
  "NvIoctlExportToDmaBufFdPrefix_layout = [FI32, FU32, FU32, FU32, FU32, FU64, FU8, FU8]"

definition NvIoctlExportToDmaBufFdPrefix_pod :: "NvIoctlExportToDmaBufFdPrefix pod" where
  "NvIoctlExportToDmaBufFdPrefix_pod =
     \<lparr>pod_size = size_of (FStruct NvIoctlExportToDmaBufFdPrefix_layout),
      pod_read = (\<lambda>bs. \<lparr>p_fd = get_i32 (field_at NvIoctlExportToDmaBufFdPrefix_layout bs 0),
      p_h_client = get_u32 (field_at NvIoctlExportToDmaBufFdPrefix_layout bs 1),
      p_total_objects = get_u32 (field_at NvIoctlExportToDmaBufFdPrefix_layout bs 2),
      p_num_objects = get_u32 (field_at NvIoctlExportToDmaBufFdPrefix_layout bs 3),
      p_index = get_u32 (field_at NvIoctlExportToDmaBufFdPrefix_layout bs 4),
      p_total_size = get_u64 (field_at NvIoctlExportToDmaBufFdPrefix_layout bs 5),
      p_mapping_type = get_u8 (field_at NvIoctlExportToDmaBufFdPrefix_layout bs 6),
      p_b_allow_mmap = get_u8 (field_at NvIoctlExportToDmaBufFdPrefix_layout bs 7)\<rparr>)\<rparr>"

record NvIoctlXfer =
  p_cmd :: u32
  p_size :: u32
  p_ptr :: u64

definition NvIoctlXfer_layout :: "fty list" where
  "NvIoctlXfer_layout = [FU32, FU32, FU64]"

definition NvIoctlXfer_pod :: "NvIoctlXfer pod" where
  "NvIoctlXfer_pod =
     \<lparr>pod_size = size_of (FStruct NvIoctlXfer_layout),
      pod_read = (\<lambda>bs. \<lparr>p_cmd = get_u32 (field_at NvIoctlXfer_layout bs 0),
      p_size = get_u32 (field_at NvIoctlXfer_layout bs 1),
      p_ptr = get_u64 (field_at NvIoctlXfer_layout bs 2)\<rparr>)\<rparr>"

record NvOs00Parameters =
  p_h_root :: u32
  p_h_object_parent :: u32
  p_h_object_old :: u32
  p_status :: i32

definition NvOs00Parameters_layout :: "fty list" where
  "NvOs00Parameters_layout = [FU32, FU32, FU32, FI32]"

definition NvOs00Parameters_pod :: "NvOs00Parameters pod" where
  "NvOs00Parameters_pod =
     \<lparr>pod_size = size_of (FStruct NvOs00Parameters_layout),
      pod_read = (\<lambda>bs. \<lparr>p_h_root = get_u32 (field_at NvOs00Parameters_layout bs 0),
      p_h_object_parent = get_u32 (field_at NvOs00Parameters_layout bs 1),
      p_h_object_old = get_u32 (field_at NvOs00Parameters_layout bs 2),
      p_status = get_i32 (field_at NvOs00Parameters_layout bs 3)\<rparr>)\<rparr>"

record NvOs02Parameters =
  p_h_root :: u32
  p_h_object_parent :: u32
  p_h_object_new :: u32
  p_h_class :: i32
  p_flags :: u32
  p_p_memory :: u64
  p_limit :: u64
  p_status :: i32

definition NvOs02Parameters_layout :: "fty list" where
  "NvOs02Parameters_layout = [FU32, FU32, FU32, FI32, FU32, FU64, FU64, FI32]"

definition NvOs02Parameters_pod :: "NvOs02Parameters pod" where
  "NvOs02Parameters_pod =
     \<lparr>pod_size = size_of (FStruct NvOs02Parameters_layout),
      pod_read = (\<lambda>bs. \<lparr>p_h_root = get_u32 (field_at NvOs02Parameters_layout bs 0),
      p_h_object_parent = get_u32 (field_at NvOs02Parameters_layout bs 1),
      p_h_object_new = get_u32 (field_at NvOs02Parameters_layout bs 2),
      p_h_class = get_i32 (field_at NvOs02Parameters_layout bs 3),
      p_flags = get_u32 (field_at NvOs02Parameters_layout bs 4),
      p_p_memory = get_u64 (field_at NvOs02Parameters_layout bs 5),
      p_limit = get_u64 (field_at NvOs02Parameters_layout bs 6),
      p_status = get_i32 (field_at NvOs02Parameters_layout bs 7)\<rparr>)\<rparr>"

record NvIoctlNvos02ParametersWithFd =
  p_params :: NvOs02Parameters
  p_fd :: i32

definition NvIoctlNvos02ParametersWithFd_layout :: "fty list" where
  "NvIoctlNvos02ParametersWithFd_layout = [FStruct NvOs02Parameters_layout, FI32]"

definition NvIoctlNvos02ParametersWithFd_pod :: "NvIoctlNvos02ParametersWithFd pod" where
  "NvIoctlNvos02ParametersWithFd_pod =
     \<lparr>pod_size = size_of (FStruct NvIoctlNvos02ParametersWithFd_layout),
      pod_read = (\<lambda>bs. \<lparr>p_params = pod_read NvOs02Parameters_pod (field_at NvIoctlNvos02ParametersWithFd_layout bs 0),
      p_fd = get_i32 (field_at NvIoctlNvos02ParametersWithFd_layout bs 1)\<rparr>)\<rparr>"

record NvOs05Parameters =
  p_h_root :: u32
  p_h_object_parent :: u32
  p_h_object_new :: u32
  p_h_class :: i32
  p_status :: i32

definition NvOs05Parameters_layout :: "fty list" where
  "NvOs05Parameters_layout = [FU32, FU32, FU32, FI32, FI32]"

definition NvOs05Parameters_pod :: "NvOs05Parameters pod" where
  "NvOs05Parameters_pod =
     \<lparr>pod_size = size_of (FStruct NvOs05Parameters_layout),
      pod_read = (\<lambda>bs. \<lparr>p_h_root = get_u32 (field_at NvOs05Parameters_layout bs 0),
      p_h_object_parent = get_u32 (field_at NvOs05Parameters_layout bs 1),
      p_h_object_new = get_u32 (field_at NvOs05Parameters_layout bs 2),
      p_h_class = get_i32 (field_at NvOs05Parameters_layout bs 3),
      p_status = get_i32 (field_at NvOs05Parameters_layout bs 4)\<rparr>)\<rparr>"

record NvOs21Parameters =
  p_h_root :: u32
  p_h_object_parent :: u32
  p_h_object_new :: u32
  p_h_class :: i32
  p_p_alloc_parms :: u64
  p_params_size :: u32
  p_status :: i32

definition NvOs21Parameters_layout :: "fty list" where
  "NvOs21Parameters_layout = [FU32, FU32, FU32, FI32, FU64, FU32, FI32]"

definition NvOs21Parameters_pod :: "NvOs21Parameters pod" where
  "NvOs21Parameters_pod =
     \<lparr>pod_size = size_of (FStruct NvOs21Parameters_layout),
      pod_read = (\<lambda>bs. \<lparr>p_h_root = get_u32 (field_at NvOs21Parameters_layout bs 0),
      p_h_object_parent = get_u32 (field_at NvOs21Parameters_layout bs 1),
      p_h_object_new = get_u32 (field_at NvOs21Parameters_layout bs 2),
      p_h_class = get_i32 (field_at NvOs21Parameters_layout bs 3),
      p_p_alloc_parms = get_u64 (field_at NvOs21Parameters_layout bs 4),
      p_params_size = get_u32 (field_at NvOs21Parameters_layout bs 5),
      p_status = get_i32 (field_at NvOs21Parameters_layout bs 6)\<rparr>)\<rparr>"

record NvOs64Parameters =
  p_h_root :: u32
  p_h_object_parent :: u32
  p_h_object_new :: u32
  p_h_class :: i32
  p_p_alloc_parms :: u64
  p_p_rights_requested :: u64
  p_params_size :: u32
  p_flags :: u32
  p_status :: i32

definition NvOs64Parameters_layout :: "fty list" where
  "NvOs64Parameters_layout = [FU32, FU32, FU32, FI32, FU64, FU64, FU32, FU32, FI32]"

definition NvOs64Parameters_pod :: "NvOs64Parameters pod" where
  "NvOs64Parameters_pod =
     \<lparr>pod_size = size_of (FStruct NvOs64Parameters_layout),
      pod_read = (\<lambda>bs. \<lparr>p_h_root = get_u32 (field_at NvOs64Parameters_layout bs 0),
      p_h_object_parent = get_u32 (field_at NvOs64Parameters_layout bs 1),
      p_h_object_new = get_u32 (field_at NvOs64Parameters_layout bs 2),
      p_h_class = get_i32 (field_at NvOs64Parameters_layout bs 3),
      p_p_alloc_parms = get_u64 (field_at NvOs64Parameters_layout bs 4),
      p_p_rights_requested = get_u64 (field_at NvOs64Parameters_layout bs 5),
      p_params_size = get_u32 (field_at NvOs64Parameters_layout bs 6),
      p_flags = get_u32 (field_at NvOs64Parameters_layout bs 7),
      p_status = get_i32 (field_at NvOs64Parameters_layout bs 8)\<rparr>)\<rparr>"

record NvOs33Parameters =
  p_h_client :: u32
  p_h_device :: u32
  p_h_memory :: u32
  p_offset :: u64
  p_length :: u64
  p_p_linear_address :: u64
  p_status :: u32
  p_flags :: u32

definition NvOs33Parameters_layout :: "fty list" where
  "NvOs33Parameters_layout = [FU32, FU32, FU32, FU64, FU64, FU64, FU32, FU32]"

definition NvOs33Parameters_pod :: "NvOs33Parameters pod" where
  "NvOs33Parameters_pod =
     \<lparr>pod_size = size_of (FStruct NvOs33Parameters_layout),
      pod_read = (\<lambda>bs. \<lparr>p_h_client = get_u32 (field_at NvOs33Parameters_layout bs 0),
      p_h_device = get_u32 (field_at NvOs33Parameters_layout bs 1),
      p_h_memory = get_u32 (field_at NvOs33Parameters_layout bs 2),
      p_offset = get_u64 (field_at NvOs33Parameters_layout bs 3),
      p_length = get_u64 (field_at NvOs33Parameters_layout bs 4),
      p_p_linear_address = get_u64 (field_at NvOs33Parameters_layout bs 5),
      p_status = get_u32 (field_at NvOs33Parameters_layout bs 6),
      p_flags = get_u32 (field_at NvOs33Parameters_layout bs 7)\<rparr>)\<rparr>"

record NvIoctlNvos33ParametersWithFd =
  p_params :: NvOs33Parameters
  p_fd :: i32

definition NvIoctlNvos33ParametersWithFd_layout :: "fty list" where
  "NvIoctlNvos33ParametersWithFd_layout = [FStruct NvOs33Parameters_layout, FI32]"

definition NvIoctlNvos33ParametersWithFd_pod :: "NvIoctlNvos33ParametersWithFd pod" where
  "NvIoctlNvos33ParametersWithFd_pod =
     \<lparr>pod_size = size_of (FStruct NvIoctlNvos33ParametersWithFd_layout),
      pod_read = (\<lambda>bs. \<lparr>p_params = pod_read NvOs33Parameters_pod (field_at NvIoctlNvos33ParametersWithFd_layout bs 0),
      p_fd = get_i32 (field_at NvIoctlNvos33ParametersWithFd_layout bs 1)\<rparr>)\<rparr>"

record NvOs34Parameters =
  p_h_client :: u32
  p_h_device :: u32
  p_h_memory :: u32
  p_p_linear_address :: u64
  p_status :: u32
  p_flags :: u32

definition NvOs34Parameters_layout :: "fty list" where
  "NvOs34Parameters_layout = [FU32, FU32, FU32, FU64, FU32, FU32]"

definition NvOs34Parameters_pod :: "NvOs34Parameters pod" where
  "NvOs34Parameters_pod =
     \<lparr>pod_size = size_of (FStruct NvOs34Parameters_layout),
      pod_read = (\<lambda>bs. \<lparr>p_h_client = get_u32 (field_at NvOs34Parameters_layout bs 0),
      p_h_device = get_u32 (field_at NvOs34Parameters_layout bs 1),
      p_h_memory = get_u32 (field_at NvOs34Parameters_layout bs 2),
      p_p_linear_address = get_u64 (field_at NvOs34Parameters_layout bs 3),
      p_status = get_u32 (field_at NvOs34Parameters_layout bs 4),
      p_flags = get_u32 (field_at NvOs34Parameters_layout bs 5)\<rparr>)\<rparr>"

record NvOs54Parameters =
  p_h_client :: u32
  p_h_object :: u32
  p_cmd :: u32
  p_flags :: u32
  p_params :: u64
  p_params_size :: u32
  p_status :: i32

definition NvOs54Parameters_layout :: "fty list" where
  "NvOs54Parameters_layout = [FU32, FU32, FU32, FU32, FU64, FU32, FI32]"

definition NvOs54Parameters_pod :: "NvOs54Parameters pod" where
  "NvOs54Parameters_pod =
     \<lparr>pod_size = size_of (FStruct NvOs54Parameters_layout),
      pod_read = (\<lambda>bs. \<lparr>p_h_client = get_u32 (field_at NvOs54Parameters_layout bs 0),
      p_h_object = get_u32 (field_at NvOs54Parameters_layout bs 1),
      p_cmd = get_u32 (field_at NvOs54Parameters_layout bs 2),
      p_flags = get_u32 (field_at NvOs54Parameters_layout bs 3),
      p_params = get_u64 (field_at NvOs54Parameters_layout bs 4),
      p_params_size = get_u32 (field_at NvOs54Parameters_layout bs 5),
      p_status = get_i32 (field_at NvOs54Parameters_layout bs 6)\<rparr>)\<rparr>"

record Nv0000CtrlClientGetAddrSpaceTypeParams =
  p_h_object :: u32
  p_map_flags :: u32
  p_addr_space_type :: u32

definition Nv0000CtrlClientGetAddrSpaceTypeParams_layout :: "fty list" where
  "Nv0000CtrlClientGetAddrSpaceTypeParams_layout = [FU32, FU32, FU32]"

definition Nv0000CtrlClientGetAddrSpaceTypeParams_pod :: "Nv0000CtrlClientGetAddrSpaceTypeParams pod" where
  "Nv0000CtrlClientGetAddrSpaceTypeParams_pod =
     \<lparr>pod_size = size_of (FStruct Nv0000CtrlClientGetAddrSpaceTypeParams_layout),
      pod_read = (\<lambda>bs. \<lparr>p_h_object = get_u32 (field_at Nv0000CtrlClientGetAddrSpaceTypeParams_layout bs 0),
      p_map_flags = get_u32 (field_at Nv0000CtrlClientGetAddrSpaceTypeParams_layout bs 1),
      p_addr_space_type = get_u32 (field_at Nv0000CtrlClientGetAddrSpaceTypeParams_layout bs 2)\<rparr>)\<rparr>"

record Nv0000CtrlOsUnixGetControlFileDescriptorParams =
  p_fd :: i32

definition Nv0000CtrlOsUnixGetControlFileDescriptorParams_layout :: "fty list" where
  "Nv0000CtrlOsUnixGetControlFileDescriptorParams_layout = [FI32]"

definition Nv0000CtrlOsUnixGetControlFileDescriptorParams_pod :: "Nv0000CtrlOsUnixGetControlFileDescriptorParams pod" where
  "Nv0000CtrlOsUnixGetControlFileDescriptorParams_pod =
     \<lparr>pod_size = size_of (FStruct Nv0000CtrlOsUnixGetControlFileDescriptorParams_layout),
      pod_read = (\<lambda>bs. \<lparr>p_fd = get_i32 (field_at Nv0000CtrlOsUnixGetControlFileDescriptorParams_layout bs 0)\<rparr>)\<rparr>"

record Nv0000CtrlSystemGetBuildVersionParams =
  p_size_of_strings :: u32
  p_p_driver_version_buffer :: u64
  p_p_version_buffer :: u64
  p_p_title_buffer :: u64
  p_changelist_number :: u32
  p_official_changelist_number :: u32

definition Nv0000CtrlSystemGetBuildVersionParams_layout :: "fty list" where
  "Nv0000CtrlSystemGetBuildVersionParams_layout = [FU32, FU64, FU64, FU64, FU32, FU32]"

definition Nv0000CtrlSystemGetBuildVersionParams_pod :: "Nv0000CtrlSystemGetBuildVersionParams pod" where
  "Nv0000CtrlSystemGetBuildVersionParams_pod =
     \<lparr>pod_size = size_of (FStruct Nv0000CtrlSystemGetBuildVersionParams_layout),
      pod_read = (\<lambda>bs. \<lparr>p_size_of_strings = get_u32 (field_at Nv0000CtrlSystemGetBuildVersionParams_layout bs 0),
      p_p_driver_version_buffer = get_u64 (field_at Nv0000CtrlSystemGetBuildVersionParams_layout bs 1),
      p_p_version_buffer = get_u64 (field_at Nv0000CtrlSystemGetBuildVersionParams_layout bs 2),
      p_p_title_buffer = get_u64 (field_at Nv0000CtrlSystemGetBuildVersionParams_layout bs 3),
      p_changelist_number = get_u32 (field_at Nv0000CtrlSystemGetBuildVersionParams_layout bs 4),
      p_official_changelist_number = get_u32 (field_at Nv0000CtrlSystemGetBuildVersionParams_layout bs 5)\<rparr>)\<rparr>"

lemmas nvidia_layouts = NvPciInfo_layout_def NvIoctlCardInfo_layout_def NvIoctlRegisterFd_layout_def
  NvIoctlAllocOsEvent_layout_def NvIoctlStatusCode_layout_def NvIoctlRmApiVersion_layout_def
  NvIoctlQueryDeviceIntr_layout_def NvIoctlSysParams_layout_def NvIoctlWaitOpenComplete_layout_def
  NvOfflineAddresses_layout_def NvIoctlNumaInfo_layout_def NvIoctlSetNumaStatus_layout_def
  NvIoctlExportToDmaBufFdPrefix_layout_def NvIoctlXfer_layout_def NvOs00Parameters_layout_def
  NvOs02Parameters_layout_def NvIoctlNvos02ParametersWithFd_layout_def NvOs05Parameters_layout_def
  NvOs21Parameters_layout_def NvOs64Parameters_layout_def NvOs33Parameters_layout_def
  NvIoctlNvos33ParametersWithFd_layout_def NvOs34Parameters_layout_def NvOs54Parameters_layout_def
  Nv0000CtrlClientGetAddrSpaceTypeParams_layout_def
  Nv0000CtrlOsUnixGetControlFileDescriptorParams_layout_def
  Nv0000CtrlSystemGetBuildVersionParams_layout_def

lemmas nvidia_pods = NvPciInfo_pod_def NvIoctlCardInfo_pod_def NvIoctlRegisterFd_pod_def NvIoctlAllocOsEvent_pod_def
  NvIoctlStatusCode_pod_def NvIoctlRmApiVersion_pod_def NvIoctlQueryDeviceIntr_pod_def
  NvIoctlSysParams_pod_def NvIoctlWaitOpenComplete_pod_def NvOfflineAddresses_pod_def
  NvIoctlNumaInfo_pod_def NvIoctlSetNumaStatus_pod_def NvIoctlExportToDmaBufFdPrefix_pod_def
  NvIoctlXfer_pod_def NvOs00Parameters_pod_def NvOs02Parameters_pod_def
  NvIoctlNvos02ParametersWithFd_pod_def NvOs05Parameters_pod_def NvOs21Parameters_pod_def
  NvOs64Parameters_pod_def NvOs33Parameters_pod_def NvIoctlNvos33ParametersWithFd_pod_def
  NvOs34Parameters_pod_def NvOs54Parameters_pod_def Nv0000CtrlClientGetAddrSpaceTypeParams_pod_def
  Nv0000CtrlOsUnixGetControlFileDescriptorParams_pod_def
  Nv0000CtrlSystemGetBuildVersionParams_pod_def

text \<open>What the unit test \<open>nvidia_struct_layout_matches_headers\<close> asserts.\<close>

lemma nvidia_sizes:
  "pod_size NvPciInfo_pod = 12"
  "pod_size NvIoctlCardInfo_pod = 72"
  "pod_size NvIoctlXfer_pod = 16"
  "pod_size NvIoctlRegisterFd_pod = 4"
  "pod_size NvIoctlAllocOsEvent_pod = 16"
  "pod_size NvIoctlStatusCode_pod = 12"
  "pod_size NvIoctlRmApiVersion_pod = 72"
  "pod_size NvIoctlQueryDeviceIntr_pod = 8"
  "pod_size NvIoctlSysParams_pod = 8"
  "pod_size NvIoctlWaitOpenComplete_pod = 8"
  "pod_size NvIoctlNumaInfo_pod = 560"
  "pod_size NvIoctlSetNumaStatus_pod = 4"
  "pod_size NvIoctlExportToDmaBufFdPrefix_pod = 40"
  "pod_size NvOs00Parameters_pod = 16"
  "pod_size NvOs02Parameters_pod = 48"
  "pod_size NvIoctlNvos02ParametersWithFd_pod = 56"
  "pod_size NvOs05Parameters_pod = 20"
  "pod_size NvOs21Parameters_pod = 32"
  "pod_size NvOs64Parameters_pod = 48"
  "pod_size NvOs33Parameters_pod = 48"
  "pod_size NvIoctlNvos33ParametersWithFd_pod = 56"
  "pod_size NvOs34Parameters_pod = 32"
  "pod_size NvOs54Parameters_pod = 32"
  "pod_size Nv0000CtrlClientGetAddrSpaceTypeParams_pod = 12"
  "pod_size Nv0000CtrlOsUnixGetControlFileDescriptorParams_pod = 4"
  "pod_size Nv0000CtrlSystemGetBuildVersionParams_pod = 40"
  by (simp_all add: nvidia_pods nvidia_layouts round_up_def)

lemma nvidia_aligns:
  "align_of (FStruct NvIoctlXfer_layout) = 8"
  "align_of (FStruct NvOs54Parameters_layout) = 8"
  "align_of (FStruct Nv0000CtrlClientGetAddrSpaceTypeParams_layout) = 4"
  "align_of (FStruct Nv0000CtrlOsUnixGetControlFileDescriptorParams_layout) = 4"
  "align_of (FStruct Nv0000CtrlSystemGetBuildVersionParams_layout) = 8"
  by (simp_all add: nvidia_layouts)

end
