(* ===== verification/Rm_Structs.thy ===== *)
theory Rm_Structs
  imports Nvidia
begin

text \<open>
  The structures of \<open>src/decode/ioctl_rm.rs\<close>, in the form of theory \<open>Nvidia\<close>, and its constants:
  the control commands it knows and the bounds of the lists it prints.
\<close>

subsection \<open>Commands and bounds\<close>

definition MAX_NUMA_ADDRESSES :: usize where "MAX_NUMA_ADDRESSES = 16"
definition MAX_CTRL_LIST_ITEMS :: usize where "MAX_CTRL_LIST_ITEMS = 64"
definition MAX_INNER_PREVIEW_WORDS :: usize where "MAX_INNER_PREVIEW_WORDS = 8"
definition NV0000_CTRL_CMD_SYSTEM_GET_FABRIC_STATUS :: u32 where "NV0000_CTRL_CMD_SYSTEM_GET_FABRIC_STATUS = 0x0136"
definition NV0000_CTRL_CMD_SYSTEM_GET_P2P_CAPS_MATRIX :: u32 where "NV0000_CTRL_CMD_SYSTEM_GET_P2P_CAPS_MATRIX = 0x013a"
definition NV0000_CTRL_CMD_SYSTEM_GET_FEATURES :: u32 where "NV0000_CTRL_CMD_SYSTEM_GET_FEATURES = 0x01f0"
definition NV0000_CTRL_CMD_GPU_GET_MEMOP_ENABLE :: u32 where "NV0000_CTRL_CMD_GPU_GET_MEMOP_ENABLE = 0x027b"
definition NV0000_CTRL_CMD_GPU_GET_ATTACHED_IDS :: u32 where "NV0000_CTRL_CMD_GPU_GET_ATTACHED_IDS = 0x0201"
definition NV0000_CTRL_CMD_GPU_GET_ID_INFO :: u32 where "NV0000_CTRL_CMD_GPU_GET_ID_INFO = 0x0202"
definition NV0000_CTRL_CMD_GPU_GET_ID_INFO_V2 :: u32 where "NV0000_CTRL_CMD_GPU_GET_ID_INFO_V2 = 0x0205"
definition NV0000_CTRL_CMD_GPU_GET_PROBED_IDS :: u32 where "NV0000_CTRL_CMD_GPU_GET_PROBED_IDS = 0x0214"
definition NV0000_CTRL_CMD_GPU_ATTACH_IDS :: u32 where "NV0000_CTRL_CMD_GPU_ATTACH_IDS = 0x0215"
definition NV0000_CTRL_CMD_GPU_GET_ACTIVE_DEVICE_IDS :: u32 where "NV0000_CTRL_CMD_GPU_GET_ACTIVE_DEVICE_IDS = 0x0288"
definition NV0000_CTRL_CMD_SYNC_GPU_BOOST_GROUP_INFO :: u32 where "NV0000_CTRL_CMD_SYNC_GPU_BOOST_GROUP_INFO = 0x0a04"
definition NV0000_CTRL_CMD_CLIENT_SET_INHERITED_SHARE_POLICY :: u32 where "NV0000_CTRL_CMD_CLIENT_SET_INHERITED_SHARE_POLICY = 0x0d04"
definition NV0080_CTRL_CMD_GPU_GET_NUM_SUBDEVICES :: u32 where "NV0080_CTRL_CMD_GPU_GET_NUM_SUBDEVICES = 0x800280"
definition NV0080_CTRL_CMD_GPU_GET_CLASSLIST_V2 :: u32 where "NV0080_CTRL_CMD_GPU_GET_CLASSLIST_V2 = 0x800292"
definition NV0080_CTRL_CMD_GPU_GET_VIRTUALIZATION_MODE :: u32 where "NV0080_CTRL_CMD_GPU_GET_VIRTUALIZATION_MODE = 0x800289"
definition NV0080_CTRL_CMD_HOST_GET_CAPS_V2 :: u32 where "NV0080_CTRL_CMD_HOST_GET_CAPS_V2 = 0x801402"
definition NV0080_CTRL_CMD_FB_GET_CAPS_V2 :: u32 where "NV0080_CTRL_CMD_FB_GET_CAPS_V2 = 0x801307"
definition NV0080_CTRL_CMD_FIFO_GET_CHANNELLIST :: u32 where "NV0080_CTRL_CMD_FIFO_GET_CHANNELLIST = 0x80170d"
definition NV0080_CTRL_CMD_PERF_CUDA_LIMIT_SET_CONTROL :: u32 where "NV0080_CTRL_CMD_PERF_CUDA_LIMIT_SET_CONTROL = 0x801909"
definition NV906F_CTRL_GET_CLASS_ENGINEID :: u32 where "NV906F_CTRL_GET_CLASS_ENGINEID = 0x906f0101"
definition NVC36F_CTRL_CMD_GPFIFO_GET_WORK_SUBMIT_TOKEN :: u32 where "NVC36F_CTRL_CMD_GPFIFO_GET_WORK_SUBMIT_TOKEN = 0xc36f0108"
definition NV2080_CTRL_CMD_GPU_GET_INFO_V2 :: u32 where "NV2080_CTRL_CMD_GPU_GET_INFO_V2 = 0x20800102"
definition NV2080_CTRL_CMD_GPU_GET_NAME_STRING :: u32 where "NV2080_CTRL_CMD_GPU_GET_NAME_STRING = 0x20800110"
definition NV2080_CTRL_CMD_GPU_GET_SHORT_NAME_STRING :: u32 where "NV2080_CTRL_CMD_GPU_GET_SHORT_NAME_STRING = 0x20800111"
definition NV2080_CTRL_CMD_GPU_GET_SIMULATION_INFO :: u32 where "NV2080_CTRL_CMD_GPU_GET_SIMULATION_INFO = 0x20800119"
definition NV2080_CTRL_CMD_GPU_QUERY_ECC_STATUS :: u32 where "NV2080_CTRL_CMD_GPU_QUERY_ECC_STATUS = 0x2080012f"
definition NV2080_CTRL_CMD_GPU_QUERY_COMPUTE_MODE_RULES :: u32 where "NV2080_CTRL_CMD_GPU_QUERY_COMPUTE_MODE_RULES = 0x20800131"
definition NV2080_CTRL_CMD_GPU_GET_GID_INFO :: u32 where "NV2080_CTRL_CMD_GPU_GET_GID_INFO = 0x2080014a"
definition NV2080_CTRL_CMD_GPU_GET_ENGINES_V2 :: u32 where "NV2080_CTRL_CMD_GPU_GET_ENGINES_V2 = 0x20800170"
definition NV2080_CTRL_CMD_GR_GET_INFO :: u32 where "NV2080_CTRL_CMD_GR_GET_INFO = 0x20801201"
definition NV2080_CTRL_CMD_GR_GET_GLOBAL_SM_ORDER :: u32 where "NV2080_CTRL_CMD_GR_GET_GLOBAL_SM_ORDER = 0x2080121b"
definition NV2080_CTRL_CMD_GR_GET_CAPS_V2 :: u32 where "NV2080_CTRL_CMD_GR_GET_CAPS_V2 = 0x20801227"
definition NV2080_CTRL_CMD_GR_GET_GPC_MASK :: u32 where "NV2080_CTRL_CMD_GR_GET_GPC_MASK = 0x2080122a"
definition NV2080_CTRL_CMD_GR_GET_TPC_MASK :: u32 where "NV2080_CTRL_CMD_GR_GET_TPC_MASK = 0x2080122b"
definition NV2080_CTRL_CMD_GR_SET_CTXSW_PREEMPTION_MODE :: u32 where "NV2080_CTRL_CMD_GR_SET_CTXSW_PREEMPTION_MODE = 0x20801210"
definition NV2080_CTRL_CMD_GR_GET_CTX_BUFFER_SIZE :: u32 where "NV2080_CTRL_CMD_GR_GET_CTX_BUFFER_SIZE = 0x20801218"
definition NV2080_CTRL_CMD_FB_GET_INFO_V2 :: u32 where "NV2080_CTRL_CMD_FB_GET_INFO_V2 = 0x20801303"
definition NV2080_CTRL_CMD_MC_GET_ARCH_INFO :: u32 where "NV2080_CTRL_CMD_MC_GET_ARCH_INFO = 0x20801701"
definition NV2080_CTRL_CMD_BUS_GET_PCI_INFO :: u32 where "NV2080_CTRL_CMD_BUS_GET_PCI_INFO = 0x20801801"
definition NV2080_CTRL_CMD_BUS_GET_INFO_V2 :: u32 where "NV2080_CTRL_CMD_BUS_GET_INFO_V2 = 0x20801823"
definition NV2080_CTRL_CMD_BUS_GET_PCI_BAR_INFO :: u32 where "NV2080_CTRL_CMD_BUS_GET_PCI_BAR_INFO = 0x20801803"
definition NV2080_CTRL_CMD_BUS_GET_PCIE_SUPPORTED_GPU_ATOMICS :: u32 where "NV2080_CTRL_CMD_BUS_GET_PCIE_SUPPORTED_GPU_ATOMICS = 0x2080182a"
definition NV2080_CTRL_CMD_BUS_GET_C2C_INFO :: u32 where "NV2080_CTRL_CMD_BUS_GET_C2C_INFO = 0x2080182b"
definition NV2080_CTRL_CMD_PERF_BOOST :: u32 where "NV2080_CTRL_CMD_PERF_BOOST = 0x2080200a"
definition NV2080_CTRL_CMD_CE_GET_ALL_CAPS :: u32 where "NV2080_CTRL_CMD_CE_GET_ALL_CAPS = 0x20802a0a"
definition NV2080_CTRL_CMD_NVLINK_GET_NVLINK_STATUS :: u32 where "NV2080_CTRL_CMD_NVLINK_GET_NVLINK_STATUS = 0x20803002"
definition NV2080_CTRL_CMD_GSP_GET_FEATURES :: u32 where "NV2080_CTRL_CMD_GSP_GET_FEATURES = 0x20803601"
definition NV2080_CTRL_CMD_GRMGR_GET_GR_FS_INFO :: u32 where "NV2080_CTRL_CMD_GRMGR_GET_GR_FS_INFO = 0x20803801"
definition NVA06C_CTRL_CMD_GPFIFO_SCHEDULE :: u32 where "NVA06C_CTRL_CMD_GPFIFO_SCHEDULE = 0xa06c0101"
definition NVA06C_CTRL_CMD_SET_TIMESLICE :: u32 where "NVA06C_CTRL_CMD_SET_TIMESLICE = 0xa06c0103"
definition NVA06C_CTRL_CMD_PREEMPT :: u32 where "NVA06C_CTRL_CMD_PREEMPT = 0xa06c0105"
definition NV83DE_CTRL_CMD_DEBUG_SET_EXCEPTION_MASK :: u32 where "NV83DE_CTRL_CMD_DEBUG_SET_EXCEPTION_MASK = 0x83de0309"
definition NV_CONF_COMPUTE_CTRL_CMD_SYSTEM_GET_CAPABILITIES :: u32 where "NV_CONF_COMPUTE_CTRL_CMD_SYSTEM_GET_CAPABILITIES = 0xcb330101"
definition NV0000_CTRL_SYSTEM_MAX_P2P_GROUP_GPUS :: usize where "NV0000_CTRL_SYSTEM_MAX_P2P_GROUP_GPUS = 8"
definition NV0000_CTRL_GPU_MAX_ATTACHED_GPUS :: usize where "NV0000_CTRL_GPU_MAX_ATTACHED_GPUS = 32"
definition NV0000_CTRL_GPU_MAX_PROBED_GPUS :: usize where "NV0000_CTRL_GPU_MAX_PROBED_GPUS = 32"
definition NV0000_CTRL_GPU_MAX_ACTIVE_DEVICES :: usize where "NV0000_CTRL_GPU_MAX_ACTIVE_DEVICES = 256"
definition NV0080_CTRL_GPU_CLASSLIST_MAX_SIZE :: usize where "NV0080_CTRL_GPU_CLASSLIST_MAX_SIZE = 200"
definition NV0080_CTRL_FB_CAPS_TBL_SIZE :: usize where "NV0080_CTRL_FB_CAPS_TBL_SIZE = 3"
definition NV0080_CTRL_GR_CAPS_TBL_SIZE :: usize where "NV0080_CTRL_GR_CAPS_TBL_SIZE = 23"
definition NV2080_CTRL_GPU_INFO_MAX_LIST_SIZE :: usize where "NV2080_CTRL_GPU_INFO_MAX_LIST_SIZE = 70"
definition NV2080_GPU_MAX_NAME_STRING_LENGTH :: usize where "NV2080_GPU_MAX_NAME_STRING_LENGTH = 64"
definition NV2080_GPU_MAX_ENGINES_LIST_SIZE :: usize where "NV2080_GPU_MAX_ENGINES_LIST_SIZE = 84"
definition NV2080_CTRL_GPU_ECC_UNIT_COUNT :: usize where "NV2080_CTRL_GPU_ECC_UNIT_COUNT = 41"
definition NV2080_GPU_MAX_GID_LENGTH :: usize where "NV2080_GPU_MAX_GID_LENGTH = 256"
definition NV2080_CTRL_FB_INFO_MAX_LIST_SIZE :: usize where "NV2080_CTRL_FB_INFO_MAX_LIST_SIZE = 128"
definition NV2080_CTRL_BUS_INFO_MAX_LIST_SIZE :: usize where "NV2080_CTRL_BUS_INFO_MAX_LIST_SIZE = 52"
definition NV2080_CTRL_BUS_MAX_PCI_BARS :: usize where "NV2080_CTRL_BUS_MAX_PCI_BARS = 8"
definition NV2080_CTRL_PCIE_SUPPORTED_GPU_ATOMICS_OP_TYPE_COUNT :: usize where "NV2080_CTRL_PCIE_SUPPORTED_GPU_ATOMICS_OP_TYPE_COUNT = 13"
definition NV2080_CTRL_GR_GET_GLOBAL_SM_ORDER_MAX_SM_COUNT :: usize where "NV2080_CTRL_GR_GET_GLOBAL_SM_ORDER_MAX_SM_COUNT = 512"
definition NV2080_CTRL_CE_CAPS_TBL_SIZE :: usize where "NV2080_CTRL_CE_CAPS_TBL_SIZE = 2"
definition NV2080_CTRL_MAX_CES :: usize where "NV2080_CTRL_MAX_CES = 64"
definition NV2080_GSP_MAX_BUILD_VERSION_LENGTH :: usize where "NV2080_GSP_MAX_BUILD_VERSION_LENGTH = 64"
definition NV2080_CTRL_GRMGR_GR_FS_INFO_MAX_QUERIES :: usize where "NV2080_CTRL_GRMGR_GR_FS_INFO_MAX_QUERIES = 96"
definition NV0000_SYNC_GPU_BOOST_MAX_GROUPS :: usize where "NV0000_SYNC_GPU_BOOST_MAX_GROUPS = 16"
definition NV_MAX_DEVICES :: usize where "NV_MAX_DEVICES = 32"

lemmas rm_consts = MAX_NUMA_ADDRESSES_def MAX_CTRL_LIST_ITEMS_def MAX_INNER_PREVIEW_WORDS_def
  NV0000_CTRL_CMD_SYSTEM_GET_FABRIC_STATUS_def NV0000_CTRL_CMD_SYSTEM_GET_P2P_CAPS_MATRIX_def
  NV0000_CTRL_CMD_SYSTEM_GET_FEATURES_def NV0000_CTRL_CMD_GPU_GET_MEMOP_ENABLE_def
  NV0000_CTRL_CMD_GPU_GET_ATTACHED_IDS_def NV0000_CTRL_CMD_GPU_GET_ID_INFO_def
  NV0000_CTRL_CMD_GPU_GET_ID_INFO_V2_def NV0000_CTRL_CMD_GPU_GET_PROBED_IDS_def
  NV0000_CTRL_CMD_GPU_ATTACH_IDS_def NV0000_CTRL_CMD_GPU_GET_ACTIVE_DEVICE_IDS_def
  NV0000_CTRL_CMD_SYNC_GPU_BOOST_GROUP_INFO_def
  NV0000_CTRL_CMD_CLIENT_SET_INHERITED_SHARE_POLICY_def NV0080_CTRL_CMD_GPU_GET_NUM_SUBDEVICES_def
  NV0080_CTRL_CMD_GPU_GET_CLASSLIST_V2_def NV0080_CTRL_CMD_GPU_GET_VIRTUALIZATION_MODE_def
  NV0080_CTRL_CMD_HOST_GET_CAPS_V2_def NV0080_CTRL_CMD_FB_GET_CAPS_V2_def
  NV0080_CTRL_CMD_FIFO_GET_CHANNELLIST_def NV0080_CTRL_CMD_PERF_CUDA_LIMIT_SET_CONTROL_def
  NV906F_CTRL_GET_CLASS_ENGINEID_def NVC36F_CTRL_CMD_GPFIFO_GET_WORK_SUBMIT_TOKEN_def
  NV2080_CTRL_CMD_GPU_GET_INFO_V2_def NV2080_CTRL_CMD_GPU_GET_NAME_STRING_def
  NV2080_CTRL_CMD_GPU_GET_SHORT_NAME_STRING_def NV2080_CTRL_CMD_GPU_GET_SIMULATION_INFO_def
  NV2080_CTRL_CMD_GPU_QUERY_ECC_STATUS_def NV2080_CTRL_CMD_GPU_QUERY_COMPUTE_MODE_RULES_def
  NV2080_CTRL_CMD_GPU_GET_GID_INFO_def NV2080_CTRL_CMD_GPU_GET_ENGINES_V2_def
  NV2080_CTRL_CMD_GR_GET_INFO_def NV2080_CTRL_CMD_GR_GET_GLOBAL_SM_ORDER_def
  NV2080_CTRL_CMD_GR_GET_CAPS_V2_def NV2080_CTRL_CMD_GR_GET_GPC_MASK_def
  NV2080_CTRL_CMD_GR_GET_TPC_MASK_def NV2080_CTRL_CMD_GR_SET_CTXSW_PREEMPTION_MODE_def
  NV2080_CTRL_CMD_GR_GET_CTX_BUFFER_SIZE_def NV2080_CTRL_CMD_FB_GET_INFO_V2_def
  NV2080_CTRL_CMD_MC_GET_ARCH_INFO_def NV2080_CTRL_CMD_BUS_GET_PCI_INFO_def
  NV2080_CTRL_CMD_BUS_GET_INFO_V2_def NV2080_CTRL_CMD_BUS_GET_PCI_BAR_INFO_def
  NV2080_CTRL_CMD_BUS_GET_PCIE_SUPPORTED_GPU_ATOMICS_def NV2080_CTRL_CMD_BUS_GET_C2C_INFO_def
  NV2080_CTRL_CMD_PERF_BOOST_def NV2080_CTRL_CMD_CE_GET_ALL_CAPS_def
  NV2080_CTRL_CMD_NVLINK_GET_NVLINK_STATUS_def NV2080_CTRL_CMD_GSP_GET_FEATURES_def
  NV2080_CTRL_CMD_GRMGR_GET_GR_FS_INFO_def NVA06C_CTRL_CMD_GPFIFO_SCHEDULE_def
  NVA06C_CTRL_CMD_SET_TIMESLICE_def NVA06C_CTRL_CMD_PREEMPT_def
  NV83DE_CTRL_CMD_DEBUG_SET_EXCEPTION_MASK_def
  NV_CONF_COMPUTE_CTRL_CMD_SYSTEM_GET_CAPABILITIES_def NV0000_CTRL_SYSTEM_MAX_P2P_GROUP_GPUS_def
  NV0000_CTRL_GPU_MAX_ATTACHED_GPUS_def NV0000_CTRL_GPU_MAX_PROBED_GPUS_def
  NV0000_CTRL_GPU_MAX_ACTIVE_DEVICES_def NV0080_CTRL_GPU_CLASSLIST_MAX_SIZE_def
  NV0080_CTRL_FB_CAPS_TBL_SIZE_def NV0080_CTRL_GR_CAPS_TBL_SIZE_def
  NV2080_CTRL_GPU_INFO_MAX_LIST_SIZE_def NV2080_GPU_MAX_NAME_STRING_LENGTH_def
  NV2080_GPU_MAX_ENGINES_LIST_SIZE_def NV2080_CTRL_GPU_ECC_UNIT_COUNT_def
  NV2080_GPU_MAX_GID_LENGTH_def NV2080_CTRL_FB_INFO_MAX_LIST_SIZE_def
  NV2080_CTRL_BUS_INFO_MAX_LIST_SIZE_def NV2080_CTRL_BUS_MAX_PCI_BARS_def
  NV2080_CTRL_PCIE_SUPPORTED_GPU_ATOMICS_OP_TYPE_COUNT_def
  NV2080_CTRL_GR_GET_GLOBAL_SM_ORDER_MAX_SM_COUNT_def NV2080_CTRL_CE_CAPS_TBL_SIZE_def
  NV2080_CTRL_MAX_CES_def NV2080_GSP_MAX_BUILD_VERSION_LENGTH_def
  NV2080_CTRL_GRMGR_GR_FS_INFO_MAX_QUERIES_def NV0000_SYNC_GPU_BOOST_MAX_GROUPS_def
  NV_MAX_DEVICES_def

lemmas rm_bounds = MAX_NUMA_ADDRESSES_def MAX_CTRL_LIST_ITEMS_def MAX_INNER_PREVIEW_WORDS_def
  NV0000_CTRL_SYSTEM_MAX_P2P_GROUP_GPUS_def NV0000_CTRL_GPU_MAX_ATTACHED_GPUS_def
  NV0000_CTRL_GPU_MAX_PROBED_GPUS_def NV0000_CTRL_GPU_MAX_ACTIVE_DEVICES_def
  NV0080_CTRL_GPU_CLASSLIST_MAX_SIZE_def NV0080_CTRL_FB_CAPS_TBL_SIZE_def
  NV0080_CTRL_GR_CAPS_TBL_SIZE_def NV2080_CTRL_GPU_INFO_MAX_LIST_SIZE_def
  NV2080_GPU_MAX_NAME_STRING_LENGTH_def NV2080_GPU_MAX_ENGINES_LIST_SIZE_def
  NV2080_CTRL_GPU_ECC_UNIT_COUNT_def NV2080_GPU_MAX_GID_LENGTH_def
  NV2080_CTRL_FB_INFO_MAX_LIST_SIZE_def NV2080_CTRL_BUS_INFO_MAX_LIST_SIZE_def
  NV2080_CTRL_BUS_MAX_PCI_BARS_def NV2080_CTRL_PCIE_SUPPORTED_GPU_ATOMICS_OP_TYPE_COUNT_def
  NV2080_CTRL_GR_GET_GLOBAL_SM_ORDER_MAX_SM_COUNT_def NV2080_CTRL_CE_CAPS_TBL_SIZE_def
  NV2080_CTRL_MAX_CES_def NV2080_GSP_MAX_BUILD_VERSION_LENGTH_def
  NV2080_CTRL_GRMGR_GR_FS_INFO_MAX_QUERIES_def NV0000_SYNC_GPU_BOOST_MAX_GROUPS_def
  NV_MAX_DEVICES_def

subsection \<open>Structures\<close>

record RmI2cAccessParams =
  p_h_client :: u32
  p_h_device :: u32
  p_param_size :: u32
  p_param_struct_ptr :: u64
  p_status :: u32

definition RmI2cAccessParams_layout :: "fty list" where
  "RmI2cAccessParams_layout = [FU32, FU32, FU32, FU64, FU32]"

definition RmI2cAccessParams_pod :: "RmI2cAccessParams pod" where
  "RmI2cAccessParams_pod =
     \<lparr>pod_size = size_of (FStruct RmI2cAccessParams_layout),
      pod_read = (\<lambda>bs. \<lparr>p_h_client = get_u32 (field_at RmI2cAccessParams_layout bs 0),
      p_h_device = get_u32 (field_at RmI2cAccessParams_layout bs 1),
      p_param_size = get_u32 (field_at RmI2cAccessParams_layout bs 2),
      p_param_struct_ptr = get_u64 (field_at RmI2cAccessParams_layout bs 3),
      p_status = get_u32 (field_at RmI2cAccessParams_layout bs 4)\<rparr>)\<rparr>"

record RmIdleChannelsParams =
  p_h_client :: u32
  p_h_device :: u32
  p_h_channel :: u32
  p_num_channels :: u32
  p_ph_clients :: u64
  p_ph_devices :: u64
  p_ph_channels :: u64
  p_flags :: u32
  p_timeout :: u32
  p_status :: u32

definition RmIdleChannelsParams_layout :: "fty list" where
  "RmIdleChannelsParams_layout = [FU32, FU32, FU32, FU32, FU64, FU64, FU64, FU32, FU32, FU32]"

definition RmIdleChannelsParams_pod :: "RmIdleChannelsParams pod" where
  "RmIdleChannelsParams_pod =
     \<lparr>pod_size = size_of (FStruct RmIdleChannelsParams_layout),
      pod_read = (\<lambda>bs. \<lparr>p_h_client = get_u32 (field_at RmIdleChannelsParams_layout bs 0),
      p_h_device = get_u32 (field_at RmIdleChannelsParams_layout bs 1),
      p_h_channel = get_u32 (field_at RmIdleChannelsParams_layout bs 2),
      p_num_channels = get_u32 (field_at RmIdleChannelsParams_layout bs 3),
      p_ph_clients = get_u64 (field_at RmIdleChannelsParams_layout bs 4),
      p_ph_devices = get_u64 (field_at RmIdleChannelsParams_layout bs 5),
      p_ph_channels = get_u64 (field_at RmIdleChannelsParams_layout bs 6),
      p_flags = get_u32 (field_at RmIdleChannelsParams_layout bs 7),
      p_timeout = get_u32 (field_at RmIdleChannelsParams_layout bs 8),
      p_status = get_u32 (field_at RmIdleChannelsParams_layout bs 9)\<rparr>)\<rparr>"

record RmVidHeapControlPrefix =
  p_h_root :: u32
  p_h_object_parent :: u32
  p_function :: u32
  p_h_vaspace :: u32
  p_ivc_heap_number :: i16
  p_pad0 :: u16
  p_status :: u32
  p_total :: u64
  p_free :: u64

definition RmVidHeapControlPrefix_layout :: "fty list" where
  "RmVidHeapControlPrefix_layout = [FU32, FU32, FU32, FU32, FI16, FU16, FU32, FU64, FU64]"

definition RmVidHeapControlPrefix_pod :: "RmVidHeapControlPrefix pod" where
  "RmVidHeapControlPrefix_pod =
     \<lparr>pod_size = size_of (FStruct RmVidHeapControlPrefix_layout),
      pod_read = (\<lambda>bs. \<lparr>p_h_root = get_u32 (field_at RmVidHeapControlPrefix_layout bs 0),
      p_h_object_parent = get_u32 (field_at RmVidHeapControlPrefix_layout bs 1),
      p_function = get_u32 (field_at RmVidHeapControlPrefix_layout bs 2),
      p_h_vaspace = get_u32 (field_at RmVidHeapControlPrefix_layout bs 3),
      p_ivc_heap_number = get_i16 (field_at RmVidHeapControlPrefix_layout bs 4),
      p_pad0 = get_u16 (field_at RmVidHeapControlPrefix_layout bs 5),
      p_status = get_u32 (field_at RmVidHeapControlPrefix_layout bs 6),
      p_total = get_u64 (field_at RmVidHeapControlPrefix_layout bs 7),
      p_free = get_u64 (field_at RmVidHeapControlPrefix_layout bs 8)\<rparr>)\<rparr>"

record RmVidHeapAllocSizeData =
  p_owner :: u32
  p_h_memory :: u32
  p_mem_type :: u32
  p_flags :: u32
  p_attr :: u32
  p_format :: u32
  p_compr_covg :: u32
  p_zcull_covg :: u32
  p_partition_stride :: u32
  p_width :: u32
  p_height :: u32
  p_size :: u64
  p_alignment :: u64
  p_offset :: u64
  p_limit :: u64
  p_address :: u64
  p_range_begin :: u64
  p_range_end :: u64
  p_attr2 :: u32
  p_ctag_offset :: u32
  p_numa_node :: i32

definition RmVidHeapAllocSizeData_layout :: "fty list" where
  "RmVidHeapAllocSizeData_layout = [FU32, FU32, FU32, FU32, FU32, FU32, FU32, FU32, FU32, FU32, FU32, FU64, FU64, FU64, FU64,
      FU64, FU64, FU64, FU32, FU32, FI32]"

definition RmVidHeapAllocSizeData_pod :: "RmVidHeapAllocSizeData pod" where
  "RmVidHeapAllocSizeData_pod =
     \<lparr>pod_size = size_of (FStruct RmVidHeapAllocSizeData_layout),
      pod_read = (\<lambda>bs. \<lparr>p_owner = get_u32 (field_at RmVidHeapAllocSizeData_layout bs 0),
      p_h_memory = get_u32 (field_at RmVidHeapAllocSizeData_layout bs 1),
      p_mem_type = get_u32 (field_at RmVidHeapAllocSizeData_layout bs 2),
      p_flags = get_u32 (field_at RmVidHeapAllocSizeData_layout bs 3),
      p_attr = get_u32 (field_at RmVidHeapAllocSizeData_layout bs 4),
      p_format = get_u32 (field_at RmVidHeapAllocSizeData_layout bs 5),
      p_compr_covg = get_u32 (field_at RmVidHeapAllocSizeData_layout bs 6),
      p_zcull_covg = get_u32 (field_at RmVidHeapAllocSizeData_layout bs 7),
      p_partition_stride = get_u32 (field_at RmVidHeapAllocSizeData_layout bs 8),
      p_width = get_u32 (field_at RmVidHeapAllocSizeData_layout bs 9),
      p_height = get_u32 (field_at RmVidHeapAllocSizeData_layout bs 10),
      p_size = get_u64 (field_at RmVidHeapAllocSizeData_layout bs 11),
      p_alignment = get_u64 (field_at RmVidHeapAllocSizeData_layout bs 12),
      p_offset = get_u64 (field_at RmVidHeapAllocSizeData_layout bs 13),
      p_limit = get_u64 (field_at RmVidHeapAllocSizeData_layout bs 14),
      p_address = get_u64 (field_at RmVidHeapAllocSizeData_layout bs 15),
      p_range_begin = get_u64 (field_at RmVidHeapAllocSizeData_layout bs 16),
      p_range_end = get_u64 (field_at RmVidHeapAllocSizeData_layout bs 17),
      p_attr2 = get_u32 (field_at RmVidHeapAllocSizeData_layout bs 18),
      p_ctag_offset = get_u32 (field_at RmVidHeapAllocSizeData_layout bs 19),
      p_numa_node = get_i32 (field_at RmVidHeapAllocSizeData_layout bs 20)\<rparr>)\<rparr>"

record RmVidHeapFreeData =
  p_owner :: u32
  p_h_memory :: u32
  p_flags :: u32

definition RmVidHeapFreeData_layout :: "fty list" where
  "RmVidHeapFreeData_layout = [FU32, FU32, FU32]"

definition RmVidHeapFreeData_pod :: "RmVidHeapFreeData pod" where
  "RmVidHeapFreeData_pod =
     \<lparr>pod_size = size_of (FStruct RmVidHeapFreeData_layout),
      pod_read = (\<lambda>bs. \<lparr>p_owner = get_u32 (field_at RmVidHeapFreeData_layout bs 0),
      p_h_memory = get_u32 (field_at RmVidHeapFreeData_layout bs 1),
      p_flags = get_u32 (field_at RmVidHeapFreeData_layout bs 2)\<rparr>)\<rparr>"

record RmVidHeapAllocOsDescData =
  p_h_memory :: u32
  p_mem_type :: u32
  p_flags :: u32
  p_attr :: u32
  p_attr2 :: u32
  p_descriptor :: u64
  p_limit :: u64
  p_descriptor_type :: u32

definition RmVidHeapAllocOsDescData_layout :: "fty list" where
  "RmVidHeapAllocOsDescData_layout = [FU32, FU32, FU32, FU32, FU32, FU64, FU64, FU32]"

definition RmVidHeapAllocOsDescData_pod :: "RmVidHeapAllocOsDescData pod" where
  "RmVidHeapAllocOsDescData_pod =
     \<lparr>pod_size = size_of (FStruct RmVidHeapAllocOsDescData_layout),
      pod_read = (\<lambda>bs. \<lparr>p_h_memory = get_u32 (field_at RmVidHeapAllocOsDescData_layout bs 0),
      p_mem_type = get_u32 (field_at RmVidHeapAllocOsDescData_layout bs 1),
      p_flags = get_u32 (field_at RmVidHeapAllocOsDescData_layout bs 2),
      p_attr = get_u32 (field_at RmVidHeapAllocOsDescData_layout bs 3),
      p_attr2 = get_u32 (field_at RmVidHeapAllocOsDescData_layout bs 4),
      p_descriptor = get_u64 (field_at RmVidHeapAllocOsDescData_layout bs 5),
      p_limit = get_u64 (field_at RmVidHeapAllocOsDescData_layout bs 6),
      p_descriptor_type = get_u32 (field_at RmVidHeapAllocOsDescData_layout bs 7)\<rparr>)\<rparr>"

record RmAccessRegistryParams =
  p_h_client :: u32
  p_h_object :: u32
  p_access_type :: u32
  p_dev_node_length :: u32
  p_p_dev_node :: u64
  p_parm_str_length :: u32
  p_p_parm_str :: u64
  p_binary_data_length :: u32
  p_p_binary_data :: u64
  p_data :: u32
  p_entry :: u32
  p_status :: u32

definition RmAccessRegistryParams_layout :: "fty list" where
  "RmAccessRegistryParams_layout = [FU32, FU32, FU32, FU32, FU64, FU32, FU64, FU32, FU64, FU32, FU32, FU32]"

definition RmAccessRegistryParams_pod :: "RmAccessRegistryParams pod" where
  "RmAccessRegistryParams_pod =
     \<lparr>pod_size = size_of (FStruct RmAccessRegistryParams_layout),
      pod_read = (\<lambda>bs. \<lparr>p_h_client = get_u32 (field_at RmAccessRegistryParams_layout bs 0),
      p_h_object = get_u32 (field_at RmAccessRegistryParams_layout bs 1),
      p_access_type = get_u32 (field_at RmAccessRegistryParams_layout bs 2),
      p_dev_node_length = get_u32 (field_at RmAccessRegistryParams_layout bs 3),
      p_p_dev_node = get_u64 (field_at RmAccessRegistryParams_layout bs 4),
      p_parm_str_length = get_u32 (field_at RmAccessRegistryParams_layout bs 5),
      p_p_parm_str = get_u64 (field_at RmAccessRegistryParams_layout bs 6),
      p_binary_data_length = get_u32 (field_at RmAccessRegistryParams_layout bs 7),
      p_p_binary_data = get_u64 (field_at RmAccessRegistryParams_layout bs 8),
      p_data = get_u32 (field_at RmAccessRegistryParams_layout bs 9),
      p_entry = get_u32 (field_at RmAccessRegistryParams_layout bs 10),
      p_status = get_u32 (field_at RmAccessRegistryParams_layout bs 11)\<rparr>)\<rparr>"

record RmAllocContextDma2Params =
  p_h_object_parent :: u32
  p_h_sub_device :: u32
  p_h_object_new :: u32
  p_h_class :: u32
  p_flags :: u32
  p_selector :: u32
  p_h_memory :: u32
  p_pad0 :: u32
  p_offset :: u64
  p_limit :: u64
  p_status :: u32

definition RmAllocContextDma2Params_layout :: "fty list" where
  "RmAllocContextDma2Params_layout = [FU32, FU32, FU32, FU32, FU32, FU32, FU32, FU32, FU64, FU64, FU32]"

definition RmAllocContextDma2Params_pod :: "RmAllocContextDma2Params pod" where
  "RmAllocContextDma2Params_pod =
     \<lparr>pod_size = size_of (FStruct RmAllocContextDma2Params_layout),
      pod_read = (\<lambda>bs. \<lparr>p_h_object_parent = get_u32 (field_at RmAllocContextDma2Params_layout bs 0),
      p_h_sub_device = get_u32 (field_at RmAllocContextDma2Params_layout bs 1),
      p_h_object_new = get_u32 (field_at RmAllocContextDma2Params_layout bs 2),
      p_h_class = get_u32 (field_at RmAllocContextDma2Params_layout bs 3),
      p_flags = get_u32 (field_at RmAllocContextDma2Params_layout bs 4),
      p_selector = get_u32 (field_at RmAllocContextDma2Params_layout bs 5),
      p_h_memory = get_u32 (field_at RmAllocContextDma2Params_layout bs 6),
      p_pad0 = get_u32 (field_at RmAllocContextDma2Params_layout bs 7),
      p_offset = get_u64 (field_at RmAllocContextDma2Params_layout bs 8),
      p_limit = get_u64 (field_at RmAllocContextDma2Params_layout bs 9),
      p_status = get_u32 (field_at RmAllocContextDma2Params_layout bs 10)\<rparr>)\<rparr>"

record RmGetEventDataParams =
  p_p_event :: u64
  p_more_events :: u32
  p_status :: u32

definition RmGetEventDataParams_layout :: "fty list" where
  "RmGetEventDataParams_layout = [FU64, FU32, FU32]"

definition RmGetEventDataParams_pod :: "RmGetEventDataParams pod" where
  "RmGetEventDataParams_pod =
     \<lparr>pod_size = size_of (FStruct RmGetEventDataParams_layout),
      pod_read = (\<lambda>bs. \<lparr>p_p_event = get_u64 (field_at RmGetEventDataParams_layout bs 0),
      p_more_events = get_u32 (field_at RmGetEventDataParams_layout bs 1),
      p_status = get_u32 (field_at RmGetEventDataParams_layout bs 2)\<rparr>)\<rparr>"

record RmUnixEvent =
  p_h_object :: u32
  p_notify_index :: u32
  p_info32 :: u32
  p_info16 :: u16
  p_pad0 :: u16

definition RmUnixEvent_layout :: "fty list" where
  "RmUnixEvent_layout = [FU32, FU32, FU32, FU16, FU16]"

definition RmUnixEvent_pod :: "RmUnixEvent pod" where
  "RmUnixEvent_pod =
     \<lparr>pod_size = size_of (FStruct RmUnixEvent_layout),
      pod_read = (\<lambda>bs. \<lparr>p_h_object = get_u32 (field_at RmUnixEvent_layout bs 0),
      p_notify_index = get_u32 (field_at RmUnixEvent_layout bs 1),
      p_info32 = get_u32 (field_at RmUnixEvent_layout bs 2),
      p_info16 = get_u16 (field_at RmUnixEvent_layout bs 3),
      p_pad0 = get_u16 (field_at RmUnixEvent_layout bs 4)\<rparr>)\<rparr>"

record RmMapMemoryDmaParams =
  p_h_client :: u32
  p_h_device :: u32
  p_h_dma :: u32
  p_h_memory :: u32
  p_offset :: u64
  p_length :: u64
  p_flags :: u32
  p_flags2 :: u32
  p_kind_override :: u32
  p_pad0 :: u32
  p_dma_offset :: u64
  p_status :: u32

definition RmMapMemoryDmaParams_layout :: "fty list" where
  "RmMapMemoryDmaParams_layout = [FU32, FU32, FU32, FU32, FU64, FU64, FU32, FU32, FU32, FU32, FU64, FU32]"

definition RmMapMemoryDmaParams_pod :: "RmMapMemoryDmaParams pod" where
  "RmMapMemoryDmaParams_pod =
     \<lparr>pod_size = size_of (FStruct RmMapMemoryDmaParams_layout),
      pod_read = (\<lambda>bs. \<lparr>p_h_client = get_u32 (field_at RmMapMemoryDmaParams_layout bs 0),
      p_h_device = get_u32 (field_at RmMapMemoryDmaParams_layout bs 1),
      p_h_dma = get_u32 (field_at RmMapMemoryDmaParams_layout bs 2),
      p_h_memory = get_u32 (field_at RmMapMemoryDmaParams_layout bs 3),
      p_offset = get_u64 (field_at RmMapMemoryDmaParams_layout bs 4),
      p_length = get_u64 (field_at RmMapMemoryDmaParams_layout bs 5),
      p_flags = get_u32 (field_at RmMapMemoryDmaParams_layout bs 6),
      p_flags2 = get_u32 (field_at RmMapMemoryDmaParams_layout bs 7),
      p_kind_override = get_u32 (field_at RmMapMemoryDmaParams_layout bs 8),
      p_pad0 = get_u32 (field_at RmMapMemoryDmaParams_layout bs 9),
      p_dma_offset = get_u64 (field_at RmMapMemoryDmaParams_layout bs 10),
      p_status = get_u32 (field_at RmMapMemoryDmaParams_layout bs 11)\<rparr>)\<rparr>"

record RmUnmapMemoryDmaParams =
  p_h_client :: u32
  p_h_device :: u32
  p_h_dma :: u32
  p_h_memory :: u32
  p_flags :: u32
  p_pad0 :: u32
  p_dma_offset :: u64
  p_size :: u64
  p_status :: u32

definition RmUnmapMemoryDmaParams_layout :: "fty list" where
  "RmUnmapMemoryDmaParams_layout = [FU32, FU32, FU32, FU32, FU32, FU32, FU64, FU64, FU32]"

definition RmUnmapMemoryDmaParams_pod :: "RmUnmapMemoryDmaParams pod" where
  "RmUnmapMemoryDmaParams_pod =
     \<lparr>pod_size = size_of (FStruct RmUnmapMemoryDmaParams_layout),
      pod_read = (\<lambda>bs. \<lparr>p_h_client = get_u32 (field_at RmUnmapMemoryDmaParams_layout bs 0),
      p_h_device = get_u32 (field_at RmUnmapMemoryDmaParams_layout bs 1),
      p_h_dma = get_u32 (field_at RmUnmapMemoryDmaParams_layout bs 2),
      p_h_memory = get_u32 (field_at RmUnmapMemoryDmaParams_layout bs 3),
      p_flags = get_u32 (field_at RmUnmapMemoryDmaParams_layout bs 4),
      p_pad0 = get_u32 (field_at RmUnmapMemoryDmaParams_layout bs 5),
      p_dma_offset = get_u64 (field_at RmUnmapMemoryDmaParams_layout bs 6),
      p_size = get_u64 (field_at RmUnmapMemoryDmaParams_layout bs 7),
      p_status = get_u32 (field_at RmUnmapMemoryDmaParams_layout bs 8)\<rparr>)\<rparr>"

record RmBindContextDmaParams =
  p_h_client :: u32
  p_h_channel :: u32
  p_h_ctx_dma :: u32
  p_status :: u32

definition RmBindContextDmaParams_layout :: "fty list" where
  "RmBindContextDmaParams_layout = [FU32, FU32, FU32, FU32]"

definition RmBindContextDmaParams_pod :: "RmBindContextDmaParams pod" where
  "RmBindContextDmaParams_pod =
     \<lparr>pod_size = size_of (FStruct RmBindContextDmaParams_layout),
      pod_read = (\<lambda>bs. \<lparr>p_h_client = get_u32 (field_at RmBindContextDmaParams_layout bs 0),
      p_h_channel = get_u32 (field_at RmBindContextDmaParams_layout bs 1),
      p_h_ctx_dma = get_u32 (field_at RmBindContextDmaParams_layout bs 2),
      p_status = get_u32 (field_at RmBindContextDmaParams_layout bs 3)\<rparr>)\<rparr>"

record RmDupObjectParams =
  p_h_client :: u32
  p_h_parent :: u32
  p_h_object :: u32
  p_h_client_src :: u32
  p_h_object_src :: u32
  p_flags :: u32
  p_status :: u32

definition RmDupObjectParams_layout :: "fty list" where
  "RmDupObjectParams_layout = [FU32, FU32, FU32, FU32, FU32, FU32, FU32]"

definition RmDupObjectParams_pod :: "RmDupObjectParams pod" where
  "RmDupObjectParams_pod =
     \<lparr>pod_size = size_of (FStruct RmDupObjectParams_layout),
      pod_read = (\<lambda>bs. \<lparr>p_h_client = get_u32 (field_at RmDupObjectParams_layout bs 0),
      p_h_parent = get_u32 (field_at RmDupObjectParams_layout bs 1),
      p_h_object = get_u32 (field_at RmDupObjectParams_layout bs 2),
      p_h_client_src = get_u32 (field_at RmDupObjectParams_layout bs 3),
      p_h_object_src = get_u32 (field_at RmDupObjectParams_layout bs 4),
      p_flags = get_u32 (field_at RmDupObjectParams_layout bs 5),
      p_status = get_u32 (field_at RmDupObjectParams_layout bs 6)\<rparr>)\<rparr>"

record RmUpdateDeviceMappingInfoParams =
  p_h_client :: u32
  p_h_device :: u32
  p_h_memory :: u32
  p_pad0 :: u32
  p_p_old_cpu_address :: u64
  p_p_new_cpu_address :: u64
  p_status :: u32

definition RmUpdateDeviceMappingInfoParams_layout :: "fty list" where
  "RmUpdateDeviceMappingInfoParams_layout = [FU32, FU32, FU32, FU32, FU64, FU64, FU32]"

definition RmUpdateDeviceMappingInfoParams_pod :: "RmUpdateDeviceMappingInfoParams pod" where
  "RmUpdateDeviceMappingInfoParams_pod =
     \<lparr>pod_size = size_of (FStruct RmUpdateDeviceMappingInfoParams_layout),
      pod_read = (\<lambda>bs. \<lparr>p_h_client = get_u32 (field_at RmUpdateDeviceMappingInfoParams_layout bs 0),
      p_h_device = get_u32 (field_at RmUpdateDeviceMappingInfoParams_layout bs 1),
      p_h_memory = get_u32 (field_at RmUpdateDeviceMappingInfoParams_layout bs 2),
      p_pad0 = get_u32 (field_at RmUpdateDeviceMappingInfoParams_layout bs 3),
      p_p_old_cpu_address = get_u64 (field_at RmUpdateDeviceMappingInfoParams_layout bs 4),
      p_p_new_cpu_address = get_u64 (field_at RmUpdateDeviceMappingInfoParams_layout bs 5),
      p_status = get_u32 (field_at RmUpdateDeviceMappingInfoParams_layout bs 6)\<rparr>)\<rparr>"

record RsAccessMask =
  p_limbs :: "u32 list"

definition RsAccessMask_layout :: "fty list" where
  "RsAccessMask_layout = [FArr 1 FU32]"

definition RsAccessMask_pod :: "RsAccessMask pod" where
  "RsAccessMask_pod =
     \<lparr>pod_size = size_of (FStruct RsAccessMask_layout),
      pod_read = (\<lambda>bs. \<lparr>p_limbs = get_array 1 (size_of FU32) get_u32 (field_at RsAccessMask_layout bs 0)\<rparr>)\<rparr>"

record RsSharePolicy =
  p_target :: u32
  p_access_mask :: RsAccessMask
  p_policy_type :: u16
  p_action :: u8
  p_pad0 :: u8

definition RsSharePolicy_layout :: "fty list" where
  "RsSharePolicy_layout = [FU32, FStruct RsAccessMask_layout, FU16, FU8, FU8]"

definition RsSharePolicy_pod :: "RsSharePolicy pod" where
  "RsSharePolicy_pod =
     \<lparr>pod_size = size_of (FStruct RsSharePolicy_layout),
      pod_read = (\<lambda>bs. \<lparr>p_target = get_u32 (field_at RsSharePolicy_layout bs 0),
      p_access_mask = pod_read RsAccessMask_pod (field_at RsSharePolicy_layout bs 1),
      p_policy_type = get_u16 (field_at RsSharePolicy_layout bs 2),
      p_action = get_u8 (field_at RsSharePolicy_layout bs 3),
      p_pad0 = get_u8 (field_at RsSharePolicy_layout bs 4)\<rparr>)\<rparr>"

record RmShareParams =
  p_h_client :: u32
  p_h_object :: u32
  p_share_policy :: RsSharePolicy
  p_status :: u32

definition RmShareParams_layout :: "fty list" where
  "RmShareParams_layout = [FU32, FU32, FStruct RsSharePolicy_layout, FU32]"

definition RmShareParams_pod :: "RmShareParams pod" where
  "RmShareParams_pod =
     \<lparr>pod_size = size_of (FStruct RmShareParams_layout),
      pod_read = (\<lambda>bs. \<lparr>p_h_client = get_u32 (field_at RmShareParams_layout bs 0),
      p_h_object = get_u32 (field_at RmShareParams_layout bs 1),
      p_share_policy = pod_read RsSharePolicy_pod (field_at RmShareParams_layout bs 2),
      p_status = get_u32 (field_at RmShareParams_layout bs 3)\<rparr>)\<rparr>"

record RmAddVblankCallbackParams =
  p_h_client :: u32
  p_h_device :: u32
  p_h_vblank :: u32
  p_pad0 :: u32
  p_p_proc :: u64
  p_logical_head :: u32
  p_pad1 :: u32
  p_p_parm1 :: u64
  p_p_parm2 :: u64
  p_b_add :: u32
  p_status :: u32

definition RmAddVblankCallbackParams_layout :: "fty list" where
  "RmAddVblankCallbackParams_layout = [FU32, FU32, FU32, FU32, FU64, FU32, FU32, FU64, FU64, FU32, FU32]"

definition RmAddVblankCallbackParams_pod :: "RmAddVblankCallbackParams pod" where
  "RmAddVblankCallbackParams_pod =
     \<lparr>pod_size = size_of (FStruct RmAddVblankCallbackParams_layout),
      pod_read = (\<lambda>bs. \<lparr>p_h_client = get_u32 (field_at RmAddVblankCallbackParams_layout bs 0),
      p_h_device = get_u32 (field_at RmAddVblankCallbackParams_layout bs 1),
      p_h_vblank = get_u32 (field_at RmAddVblankCallbackParams_layout bs 2),
      p_pad0 = get_u32 (field_at RmAddVblankCallbackParams_layout bs 3),
      p_p_proc = get_u64 (field_at RmAddVblankCallbackParams_layout bs 4),
      p_logical_head = get_u32 (field_at RmAddVblankCallbackParams_layout bs 5),
      p_pad1 = get_u32 (field_at RmAddVblankCallbackParams_layout bs 6),
      p_p_parm1 = get_u64 (field_at RmAddVblankCallbackParams_layout bs 7),
      p_p_parm2 = get_u64 (field_at RmAddVblankCallbackParams_layout bs 8),
      p_b_add = get_u32 (field_at RmAddVblankCallbackParams_layout bs 9),
      p_status = get_u32 (field_at RmAddVblankCallbackParams_layout bs 10)\<rparr>)\<rparr>"

record Nv0000CtrlSystemGetFeaturesParams =
  p_features_mask :: u32

definition Nv0000CtrlSystemGetFeaturesParams_layout :: "fty list" where
  "Nv0000CtrlSystemGetFeaturesParams_layout = [FU32]"

definition Nv0000CtrlSystemGetFeaturesParams_pod :: "Nv0000CtrlSystemGetFeaturesParams pod" where
  "Nv0000CtrlSystemGetFeaturesParams_pod =
     \<lparr>pod_size = size_of (FStruct Nv0000CtrlSystemGetFeaturesParams_layout),
      pod_read = (\<lambda>bs. \<lparr>p_features_mask = get_u32 (field_at Nv0000CtrlSystemGetFeaturesParams_layout bs 0)\<rparr>)\<rparr>"

record Nv0000CtrlClientSetInheritedSharePolicyParams =
  p_share_policy :: RsSharePolicy

definition Nv0000CtrlClientSetInheritedSharePolicyParams_layout :: "fty list" where
  "Nv0000CtrlClientSetInheritedSharePolicyParams_layout = [FStruct RsSharePolicy_layout]"

definition Nv0000CtrlClientSetInheritedSharePolicyParams_pod :: "Nv0000CtrlClientSetInheritedSharePolicyParams pod" where
  "Nv0000CtrlClientSetInheritedSharePolicyParams_pod =
     \<lparr>pod_size = size_of (FStruct Nv0000CtrlClientSetInheritedSharePolicyParams_layout),
      pod_read = (\<lambda>bs. \<lparr>p_share_policy = pod_read RsSharePolicy_pod (field_at Nv0000CtrlClientSetInheritedSharePolicyParams_layout bs 0)\<rparr>)\<rparr>"

record Nv0000CtrlGpuGetAttachedIdsParams =
  p_gpu_ids :: "u32 list"

definition Nv0000CtrlGpuGetAttachedIdsParams_layout :: "fty list" where
  "Nv0000CtrlGpuGetAttachedIdsParams_layout = [FArr NV0000_CTRL_GPU_MAX_ATTACHED_GPUS FU32]"

definition Nv0000CtrlGpuGetAttachedIdsParams_pod :: "Nv0000CtrlGpuGetAttachedIdsParams pod" where
  "Nv0000CtrlGpuGetAttachedIdsParams_pod =
     \<lparr>pod_size = size_of (FStruct Nv0000CtrlGpuGetAttachedIdsParams_layout),
      pod_read = (\<lambda>bs. \<lparr>p_gpu_ids = get_array NV0000_CTRL_GPU_MAX_ATTACHED_GPUS (size_of FU32) get_u32 (field_at Nv0000CtrlGpuGetAttachedIdsParams_layout bs 0)\<rparr>)\<rparr>"

record Nv0000CtrlGpuGetIdInfoParams =
  p_gpu_id :: u32
  p_gpu_flags :: u32
  p_device_instance :: u32
  p_sub_device_instance :: u32
  p_sz_name :: u64
  p_sli_status :: u32
  p_board_id :: u32
  p_gpu_instance :: u32
  p_numa_id :: i32

definition Nv0000CtrlGpuGetIdInfoParams_layout :: "fty list" where
  "Nv0000CtrlGpuGetIdInfoParams_layout = [FU32, FU32, FU32, FU32, FU64, FU32, FU32, FU32, FI32]"

definition Nv0000CtrlGpuGetIdInfoParams_pod :: "Nv0000CtrlGpuGetIdInfoParams pod" where
  "Nv0000CtrlGpuGetIdInfoParams_pod =
     \<lparr>pod_size = size_of (FStruct Nv0000CtrlGpuGetIdInfoParams_layout),
      pod_read = (\<lambda>bs. \<lparr>p_gpu_id = get_u32 (field_at Nv0000CtrlGpuGetIdInfoParams_layout bs 0),
      p_gpu_flags = get_u32 (field_at Nv0000CtrlGpuGetIdInfoParams_layout bs 1),
      p_device_instance = get_u32 (field_at Nv0000CtrlGpuGetIdInfoParams_layout bs 2),
      p_sub_device_instance = get_u32 (field_at Nv0000CtrlGpuGetIdInfoParams_layout bs 3),
      p_sz_name = get_u64 (field_at Nv0000CtrlGpuGetIdInfoParams_layout bs 4),
      p_sli_status = get_u32 (field_at Nv0000CtrlGpuGetIdInfoParams_layout bs 5),
      p_board_id = get_u32 (field_at Nv0000CtrlGpuGetIdInfoParams_layout bs 6),
      p_gpu_instance = get_u32 (field_at Nv0000CtrlGpuGetIdInfoParams_layout bs 7),
      p_numa_id = get_i32 (field_at Nv0000CtrlGpuGetIdInfoParams_layout bs 8)\<rparr>)\<rparr>"

record Nv0000CtrlGpuGetIdInfoV2Params =
  p_gpu_id :: u32
  p_gpu_flags :: u32
  p_device_instance :: u32
  p_sub_device_instance :: u32
  p_sli_status :: u32
  p_board_id :: u32
  p_gpu_instance :: u32
  p_numa_id :: i32

definition Nv0000CtrlGpuGetIdInfoV2Params_layout :: "fty list" where
  "Nv0000CtrlGpuGetIdInfoV2Params_layout = [FU32, FU32, FU32, FU32, FU32, FU32, FU32, FI32]"

definition Nv0000CtrlGpuGetIdInfoV2Params_pod :: "Nv0000CtrlGpuGetIdInfoV2Params pod" where
  "Nv0000CtrlGpuGetIdInfoV2Params_pod =
     \<lparr>pod_size = size_of (FStruct Nv0000CtrlGpuGetIdInfoV2Params_layout),
      pod_read = (\<lambda>bs. \<lparr>p_gpu_id = get_u32 (field_at Nv0000CtrlGpuGetIdInfoV2Params_layout bs 0),
      p_gpu_flags = get_u32 (field_at Nv0000CtrlGpuGetIdInfoV2Params_layout bs 1),
      p_device_instance = get_u32 (field_at Nv0000CtrlGpuGetIdInfoV2Params_layout bs 2),
      p_sub_device_instance = get_u32 (field_at Nv0000CtrlGpuGetIdInfoV2Params_layout bs 3),
      p_sli_status = get_u32 (field_at Nv0000CtrlGpuGetIdInfoV2Params_layout bs 4),
      p_board_id = get_u32 (field_at Nv0000CtrlGpuGetIdInfoV2Params_layout bs 5),
      p_gpu_instance = get_u32 (field_at Nv0000CtrlGpuGetIdInfoV2Params_layout bs 6),
      p_numa_id = get_i32 (field_at Nv0000CtrlGpuGetIdInfoV2Params_layout bs 7)\<rparr>)\<rparr>"

record Nv0000CtrlGpuGetProbedIdsParams =
  p_gpu_ids :: "u32 list"
  p_excluded_gpu_ids :: "u32 list"
  p_gpu_flags :: "u32 list"

definition Nv0000CtrlGpuGetProbedIdsParams_layout :: "fty list" where
  "Nv0000CtrlGpuGetProbedIdsParams_layout = [FArr NV0000_CTRL_GPU_MAX_PROBED_GPUS FU32, FArr NV0000_CTRL_GPU_MAX_PROBED_GPUS FU32,
      FArr NV0000_CTRL_GPU_MAX_PROBED_GPUS FU32]"

definition Nv0000CtrlGpuGetProbedIdsParams_pod :: "Nv0000CtrlGpuGetProbedIdsParams pod" where
  "Nv0000CtrlGpuGetProbedIdsParams_pod =
     \<lparr>pod_size = size_of (FStruct Nv0000CtrlGpuGetProbedIdsParams_layout),
      pod_read = (\<lambda>bs. \<lparr>p_gpu_ids = get_array NV0000_CTRL_GPU_MAX_PROBED_GPUS (size_of FU32) get_u32 (field_at Nv0000CtrlGpuGetProbedIdsParams_layout bs 0),
      p_excluded_gpu_ids = get_array NV0000_CTRL_GPU_MAX_PROBED_GPUS (size_of FU32) get_u32 (field_at Nv0000CtrlGpuGetProbedIdsParams_layout bs 1),
      p_gpu_flags = get_array NV0000_CTRL_GPU_MAX_PROBED_GPUS (size_of FU32) get_u32 (field_at Nv0000CtrlGpuGetProbedIdsParams_layout bs 2)\<rparr>)\<rparr>"

record Nv0000CtrlGpuAttachIdsParams =
  p_gpu_ids :: "u32 list"
  p_failed_id :: u32

definition Nv0000CtrlGpuAttachIdsParams_layout :: "fty list" where
  "Nv0000CtrlGpuAttachIdsParams_layout = [FArr NV0000_CTRL_GPU_MAX_PROBED_GPUS FU32, FU32]"

definition Nv0000CtrlGpuAttachIdsParams_pod :: "Nv0000CtrlGpuAttachIdsParams pod" where
  "Nv0000CtrlGpuAttachIdsParams_pod =
     \<lparr>pod_size = size_of (FStruct Nv0000CtrlGpuAttachIdsParams_layout),
      pod_read = (\<lambda>bs. \<lparr>p_gpu_ids = get_array NV0000_CTRL_GPU_MAX_PROBED_GPUS (size_of FU32) get_u32 (field_at Nv0000CtrlGpuAttachIdsParams_layout bs 0),
      p_failed_id = get_u32 (field_at Nv0000CtrlGpuAttachIdsParams_layout bs 1)\<rparr>)\<rparr>"

record Nv0000CtrlGpuActiveDevice =
  p_gpu_id :: u32
  p_gpu_instance_id :: u32
  p_compute_instance_id :: u32

definition Nv0000CtrlGpuActiveDevice_layout :: "fty list" where
  "Nv0000CtrlGpuActiveDevice_layout = [FU32, FU32, FU32]"

definition Nv0000CtrlGpuActiveDevice_pod :: "Nv0000CtrlGpuActiveDevice pod" where
  "Nv0000CtrlGpuActiveDevice_pod =
     \<lparr>pod_size = size_of (FStruct Nv0000CtrlGpuActiveDevice_layout),
      pod_read = (\<lambda>bs. \<lparr>p_gpu_id = get_u32 (field_at Nv0000CtrlGpuActiveDevice_layout bs 0),
      p_gpu_instance_id = get_u32 (field_at Nv0000CtrlGpuActiveDevice_layout bs 1),
      p_compute_instance_id = get_u32 (field_at Nv0000CtrlGpuActiveDevice_layout bs 2)\<rparr>)\<rparr>"

record Nv0000CtrlGpuGetActiveDeviceIdsParams =
  p_num_devices :: u32
  p_devices :: "Nv0000CtrlGpuActiveDevice list"

definition Nv0000CtrlGpuGetActiveDeviceIdsParams_layout :: "fty list" where
  "Nv0000CtrlGpuGetActiveDeviceIdsParams_layout = [FU32, FArr NV0000_CTRL_GPU_MAX_ACTIVE_DEVICES (FStruct Nv0000CtrlGpuActiveDevice_layout)]"

definition Nv0000CtrlGpuGetActiveDeviceIdsParams_pod :: "Nv0000CtrlGpuGetActiveDeviceIdsParams pod" where
  "Nv0000CtrlGpuGetActiveDeviceIdsParams_pod =
     \<lparr>pod_size = size_of (FStruct Nv0000CtrlGpuGetActiveDeviceIdsParams_layout),
      pod_read = (\<lambda>bs. \<lparr>p_num_devices = get_u32 (field_at Nv0000CtrlGpuGetActiveDeviceIdsParams_layout bs 0),
      p_devices = get_array NV0000_CTRL_GPU_MAX_ACTIVE_DEVICES (pod_size Nv0000CtrlGpuActiveDevice_pod) (pod_read Nv0000CtrlGpuActiveDevice_pod) (field_at Nv0000CtrlGpuGetActiveDeviceIdsParams_layout bs 1)\<rparr>)\<rparr>"

record Nv0000CtrlSystemGetFabricStatusParams =
  p_fabric_status :: u32

definition Nv0000CtrlSystemGetFabricStatusParams_layout :: "fty list" where
  "Nv0000CtrlSystemGetFabricStatusParams_layout = [FU32]"

definition Nv0000CtrlSystemGetFabricStatusParams_pod :: "Nv0000CtrlSystemGetFabricStatusParams pod" where
  "Nv0000CtrlSystemGetFabricStatusParams_pod =
     \<lparr>pod_size = size_of (FStruct Nv0000CtrlSystemGetFabricStatusParams_layout),
      pod_read = (\<lambda>bs. \<lparr>p_fabric_status = get_u32 (field_at Nv0000CtrlSystemGetFabricStatusParams_layout bs 0)\<rparr>)\<rparr>"

record Nv0000CtrlGpuGetMemopEnableParams =
  p_enable_mask :: u32

definition Nv0000CtrlGpuGetMemopEnableParams_layout :: "fty list" where
  "Nv0000CtrlGpuGetMemopEnableParams_layout = [FU32]"

definition Nv0000CtrlGpuGetMemopEnableParams_pod :: "Nv0000CtrlGpuGetMemopEnableParams pod" where
  "Nv0000CtrlGpuGetMemopEnableParams_pod =
     \<lparr>pod_size = size_of (FStruct Nv0000CtrlGpuGetMemopEnableParams_layout),
      pod_read = (\<lambda>bs. \<lparr>p_enable_mask = get_u32 (field_at Nv0000CtrlGpuGetMemopEnableParams_layout bs 0)\<rparr>)\<rparr>"

record Nv0000CtrlSystemGetP2PCapsMatrixParams =
  p_grp_a_count :: u32
  p_grp_b_count :: u32
  p_gpu_id_grp_a :: "u32 list"
  p_gpu_id_grp_b :: "u32 list"
  p_p2p_caps :: "(u32 list) list"
  p_a2b_optimal_read_ces :: "(u32 list) list"
  p_a2b_optimal_write_ces :: "(u32 list) list"
  p_b2a_optimal_read_ces :: "(u32 list) list"
  p_b2a_optimal_write_ces :: "(u32 list) list"

definition Nv0000CtrlSystemGetP2PCapsMatrixParams_layout :: "fty list" where
  "Nv0000CtrlSystemGetP2PCapsMatrixParams_layout = [FU32, FU32, FArr NV0000_CTRL_SYSTEM_MAX_P2P_GROUP_GPUS FU32,
      FArr NV0000_CTRL_SYSTEM_MAX_P2P_GROUP_GPUS FU32,
      FArr NV0000_CTRL_SYSTEM_MAX_P2P_GROUP_GPUS (FArr NV0000_CTRL_SYSTEM_MAX_P2P_GROUP_GPUS FU32),
      FArr NV0000_CTRL_SYSTEM_MAX_P2P_GROUP_GPUS (FArr NV0000_CTRL_SYSTEM_MAX_P2P_GROUP_GPUS FU32),
      FArr NV0000_CTRL_SYSTEM_MAX_P2P_GROUP_GPUS (FArr NV0000_CTRL_SYSTEM_MAX_P2P_GROUP_GPUS FU32),
      FArr NV0000_CTRL_SYSTEM_MAX_P2P_GROUP_GPUS (FArr NV0000_CTRL_SYSTEM_MAX_P2P_GROUP_GPUS FU32),
      FArr NV0000_CTRL_SYSTEM_MAX_P2P_GROUP_GPUS (FArr NV0000_CTRL_SYSTEM_MAX_P2P_GROUP_GPUS FU32)]"

definition Nv0000CtrlSystemGetP2PCapsMatrixParams_pod :: "Nv0000CtrlSystemGetP2PCapsMatrixParams pod" where
  "Nv0000CtrlSystemGetP2PCapsMatrixParams_pod =
     \<lparr>pod_size = size_of (FStruct Nv0000CtrlSystemGetP2PCapsMatrixParams_layout),
      pod_read = (\<lambda>bs. \<lparr>p_grp_a_count = get_u32 (field_at Nv0000CtrlSystemGetP2PCapsMatrixParams_layout bs 0),
      p_grp_b_count = get_u32 (field_at Nv0000CtrlSystemGetP2PCapsMatrixParams_layout bs 1),
      p_gpu_id_grp_a = get_array NV0000_CTRL_SYSTEM_MAX_P2P_GROUP_GPUS (size_of FU32) get_u32 (field_at Nv0000CtrlSystemGetP2PCapsMatrixParams_layout bs 2),
      p_gpu_id_grp_b = get_array NV0000_CTRL_SYSTEM_MAX_P2P_GROUP_GPUS (size_of FU32) get_u32 (field_at Nv0000CtrlSystemGetP2PCapsMatrixParams_layout bs 3),
      p_p2p_caps = get_array NV0000_CTRL_SYSTEM_MAX_P2P_GROUP_GPUS (size_of (FArr NV0000_CTRL_SYSTEM_MAX_P2P_GROUP_GPUS FU32)) (get_array NV0000_CTRL_SYSTEM_MAX_P2P_GROUP_GPUS (size_of FU32) get_u32) (field_at Nv0000CtrlSystemGetP2PCapsMatrixParams_layout bs 4),
      p_a2b_optimal_read_ces = get_array NV0000_CTRL_SYSTEM_MAX_P2P_GROUP_GPUS (size_of (FArr NV0000_CTRL_SYSTEM_MAX_P2P_GROUP_GPUS FU32)) (get_array NV0000_CTRL_SYSTEM_MAX_P2P_GROUP_GPUS (size_of FU32) get_u32) (field_at Nv0000CtrlSystemGetP2PCapsMatrixParams_layout bs 5),
      p_a2b_optimal_write_ces = get_array NV0000_CTRL_SYSTEM_MAX_P2P_GROUP_GPUS (size_of (FArr NV0000_CTRL_SYSTEM_MAX_P2P_GROUP_GPUS FU32)) (get_array NV0000_CTRL_SYSTEM_MAX_P2P_GROUP_GPUS (size_of FU32) get_u32) (field_at Nv0000CtrlSystemGetP2PCapsMatrixParams_layout bs 6),
      p_b2a_optimal_read_ces = get_array NV0000_CTRL_SYSTEM_MAX_P2P_GROUP_GPUS (size_of (FArr NV0000_CTRL_SYSTEM_MAX_P2P_GROUP_GPUS FU32)) (get_array NV0000_CTRL_SYSTEM_MAX_P2P_GROUP_GPUS (size_of FU32) get_u32) (field_at Nv0000CtrlSystemGetP2PCapsMatrixParams_layout bs 7),
      p_b2a_optimal_write_ces = get_array NV0000_CTRL_SYSTEM_MAX_P2P_GROUP_GPUS (size_of (FArr NV0000_CTRL_SYSTEM_MAX_P2P_GROUP_GPUS FU32)) (get_array NV0000_CTRL_SYSTEM_MAX_P2P_GROUP_GPUS (size_of FU32) get_u32) (field_at Nv0000CtrlSystemGetP2PCapsMatrixParams_layout bs 8)\<rparr>)\<rparr>"

record Nv0080CtrlHostGetCapsV2Params =
  p_caps_tbl :: "u8 list"

definition Nv0080CtrlHostGetCapsV2Params_layout :: "fty list" where
  "Nv0080CtrlHostGetCapsV2Params_layout = [FArr 3 FU8]"

definition Nv0080CtrlHostGetCapsV2Params_pod :: "Nv0080CtrlHostGetCapsV2Params pod" where
  "Nv0080CtrlHostGetCapsV2Params_pod =
     \<lparr>pod_size = size_of (FStruct Nv0080CtrlHostGetCapsV2Params_layout),
      pod_read = (\<lambda>bs. \<lparr>p_caps_tbl = take 3 (field_at Nv0080CtrlHostGetCapsV2Params_layout bs 0)\<rparr>)\<rparr>"

record Nv0080CtrlGpuGetNumSubdevicesParams =
  p_num_sub_devices :: u32

definition Nv0080CtrlGpuGetNumSubdevicesParams_layout :: "fty list" where
  "Nv0080CtrlGpuGetNumSubdevicesParams_layout = [FU32]"

definition Nv0080CtrlGpuGetNumSubdevicesParams_pod :: "Nv0080CtrlGpuGetNumSubdevicesParams pod" where
  "Nv0080CtrlGpuGetNumSubdevicesParams_pod =
     \<lparr>pod_size = size_of (FStruct Nv0080CtrlGpuGetNumSubdevicesParams_layout),
      pod_read = (\<lambda>bs. \<lparr>p_num_sub_devices = get_u32 (field_at Nv0080CtrlGpuGetNumSubdevicesParams_layout bs 0)\<rparr>)\<rparr>"

record Nv0080CtrlGpuGetClasslistV2Params =
  p_num_classes :: u32
  p_class_list :: "u32 list"

definition Nv0080CtrlGpuGetClasslistV2Params_layout :: "fty list" where
  "Nv0080CtrlGpuGetClasslistV2Params_layout = [FU32, FArr NV0080_CTRL_GPU_CLASSLIST_MAX_SIZE FU32]"

definition Nv0080CtrlGpuGetClasslistV2Params_pod :: "Nv0080CtrlGpuGetClasslistV2Params pod" where
  "Nv0080CtrlGpuGetClasslistV2Params_pod =
     \<lparr>pod_size = size_of (FStruct Nv0080CtrlGpuGetClasslistV2Params_layout),
      pod_read = (\<lambda>bs. \<lparr>p_num_classes = get_u32 (field_at Nv0080CtrlGpuGetClasslistV2Params_layout bs 0),
      p_class_list = get_array NV0080_CTRL_GPU_CLASSLIST_MAX_SIZE (size_of FU32) get_u32 (field_at Nv0080CtrlGpuGetClasslistV2Params_layout bs 1)\<rparr>)\<rparr>"

record Nv0080CtrlGpuGetVirtualizationModeParams =
  p_virtualization_mode :: u32
  p_is_grid_build :: u8
  p_pad0 :: "u8 list"

definition Nv0080CtrlGpuGetVirtualizationModeParams_layout :: "fty list" where
  "Nv0080CtrlGpuGetVirtualizationModeParams_layout = [FU32, FU8, FArr 3 FU8]"

definition Nv0080CtrlGpuGetVirtualizationModeParams_pod :: "Nv0080CtrlGpuGetVirtualizationModeParams pod" where
  "Nv0080CtrlGpuGetVirtualizationModeParams_pod =
     \<lparr>pod_size = size_of (FStruct Nv0080CtrlGpuGetVirtualizationModeParams_layout),
      pod_read = (\<lambda>bs. \<lparr>p_virtualization_mode = get_u32 (field_at Nv0080CtrlGpuGetVirtualizationModeParams_layout bs 0),
      p_is_grid_build = get_u8 (field_at Nv0080CtrlGpuGetVirtualizationModeParams_layout bs 1),
      p_pad0 = take 3 (field_at Nv0080CtrlGpuGetVirtualizationModeParams_layout bs 2)\<rparr>)\<rparr>"

record Nv0080CtrlFifoGetChannellistParams =
  p_num_channels :: u32
  p_p_channel_handle_list :: u64
  p_p_channel_list :: u64

definition Nv0080CtrlFifoGetChannellistParams_layout :: "fty list" where
  "Nv0080CtrlFifoGetChannellistParams_layout = [FU32, FU64, FU64]"

definition Nv0080CtrlFifoGetChannellistParams_pod :: "Nv0080CtrlFifoGetChannellistParams pod" where
  "Nv0080CtrlFifoGetChannellistParams_pod =
     \<lparr>pod_size = size_of (FStruct Nv0080CtrlFifoGetChannellistParams_layout),
      pod_read = (\<lambda>bs. \<lparr>p_num_channels = get_u32 (field_at Nv0080CtrlFifoGetChannellistParams_layout bs 0),
      p_p_channel_handle_list = get_u64 (field_at Nv0080CtrlFifoGetChannellistParams_layout bs 1),
      p_p_channel_list = get_u64 (field_at Nv0080CtrlFifoGetChannellistParams_layout bs 2)\<rparr>)\<rparr>"

record Nv0080CtrlPerfCudaLimitControlParams =
  p_b_cuda_limit :: u8

definition Nv0080CtrlPerfCudaLimitControlParams_layout :: "fty list" where
  "Nv0080CtrlPerfCudaLimitControlParams_layout = [FU8]"

definition Nv0080CtrlPerfCudaLimitControlParams_pod :: "Nv0080CtrlPerfCudaLimitControlParams pod" where
  "Nv0080CtrlPerfCudaLimitControlParams_pod =
     \<lparr>pod_size = size_of (FStruct Nv0080CtrlPerfCudaLimitControlParams_layout),
      pod_read = (\<lambda>bs. \<lparr>p_b_cuda_limit = get_u8 (field_at Nv0080CtrlPerfCudaLimitControlParams_layout bs 0)\<rparr>)\<rparr>"

record Nv0080CtrlFbGetCapsV2Params =
  p_caps_tbl :: "u8 list"

definition Nv0080CtrlFbGetCapsV2Params_layout :: "fty list" where
  "Nv0080CtrlFbGetCapsV2Params_layout = [FArr NV0080_CTRL_FB_CAPS_TBL_SIZE FU8]"

definition Nv0080CtrlFbGetCapsV2Params_pod :: "Nv0080CtrlFbGetCapsV2Params pod" where
  "Nv0080CtrlFbGetCapsV2Params_pod =
     \<lparr>pod_size = size_of (FStruct Nv0080CtrlFbGetCapsV2Params_layout),
      pod_read = (\<lambda>bs. \<lparr>p_caps_tbl = take NV0080_CTRL_FB_CAPS_TBL_SIZE (field_at Nv0080CtrlFbGetCapsV2Params_layout bs 0)\<rparr>)\<rparr>"

record Nv2080CtrlGrRouteInfo =
  p_flags :: u32
  p_pad0 :: u32
  p_route :: u64

definition Nv2080CtrlGrRouteInfo_layout :: "fty list" where
  "Nv2080CtrlGrRouteInfo_layout = [FU32, FU32, FU64]"

definition Nv2080CtrlGrRouteInfo_pod :: "Nv2080CtrlGrRouteInfo pod" where
  "Nv2080CtrlGrRouteInfo_pod =
     \<lparr>pod_size = size_of (FStruct Nv2080CtrlGrRouteInfo_layout),
      pod_read = (\<lambda>bs. \<lparr>p_flags = get_u32 (field_at Nv2080CtrlGrRouteInfo_layout bs 0),
      p_pad0 = get_u32 (field_at Nv2080CtrlGrRouteInfo_layout bs 1),
      p_route = get_u64 (field_at Nv2080CtrlGrRouteInfo_layout bs 2)\<rparr>)\<rparr>"

record Nv0080CtrlGrGetCapsV2Params =
  p_caps_tbl :: "u8 list"
  p_pad0 :: u8
  p_gr_route_info :: Nv2080CtrlGrRouteInfo
  p_b_caps_populated :: u8
  p_pad1 :: "u8 list"

definition Nv0080CtrlGrGetCapsV2Params_layout :: "fty list" where
  "Nv0080CtrlGrGetCapsV2Params_layout = [FArr NV0080_CTRL_GR_CAPS_TBL_SIZE FU8, FU8, FStruct Nv2080CtrlGrRouteInfo_layout, FU8,
      FArr 7 FU8]"

definition Nv0080CtrlGrGetCapsV2Params_pod :: "Nv0080CtrlGrGetCapsV2Params pod" where
  "Nv0080CtrlGrGetCapsV2Params_pod =
     \<lparr>pod_size = size_of (FStruct Nv0080CtrlGrGetCapsV2Params_layout),
      pod_read = (\<lambda>bs. \<lparr>p_caps_tbl = take NV0080_CTRL_GR_CAPS_TBL_SIZE (field_at Nv0080CtrlGrGetCapsV2Params_layout bs 0),
      p_pad0 = get_u8 (field_at Nv0080CtrlGrGetCapsV2Params_layout bs 1),
      p_gr_route_info = pod_read Nv2080CtrlGrRouteInfo_pod (field_at Nv0080CtrlGrGetCapsV2Params_layout bs 2),
      p_b_caps_populated = get_u8 (field_at Nv0080CtrlGrGetCapsV2Params_layout bs 3),
      p_pad1 = take 7 (field_at Nv0080CtrlGrGetCapsV2Params_layout bs 4)\<rparr>)\<rparr>"

record Nv906fCtrlGetClassEngineIdParams =
  p_h_object :: u32
  p_class_engine_id :: u32
  p_class_id :: u32
  p_engine_id :: u32

definition Nv906fCtrlGetClassEngineIdParams_layout :: "fty list" where
  "Nv906fCtrlGetClassEngineIdParams_layout = [FU32, FU32, FU32, FU32]"

definition Nv906fCtrlGetClassEngineIdParams_pod :: "Nv906fCtrlGetClassEngineIdParams pod" where
  "Nv906fCtrlGetClassEngineIdParams_pod =
     \<lparr>pod_size = size_of (FStruct Nv906fCtrlGetClassEngineIdParams_layout),
      pod_read = (\<lambda>bs. \<lparr>p_h_object = get_u32 (field_at Nv906fCtrlGetClassEngineIdParams_layout bs 0),
      p_class_engine_id = get_u32 (field_at Nv906fCtrlGetClassEngineIdParams_layout bs 1),
      p_class_id = get_u32 (field_at Nv906fCtrlGetClassEngineIdParams_layout bs 2),
      p_engine_id = get_u32 (field_at Nv906fCtrlGetClassEngineIdParams_layout bs 3)\<rparr>)\<rparr>"

record Nvc36fCtrlCmdGpfifoGetWorkSubmitTokenParams =
  p_work_submit_token :: u32

definition Nvc36fCtrlCmdGpfifoGetWorkSubmitTokenParams_layout :: "fty list" where
  "Nvc36fCtrlCmdGpfifoGetWorkSubmitTokenParams_layout = [FU32]"

definition Nvc36fCtrlCmdGpfifoGetWorkSubmitTokenParams_pod :: "Nvc36fCtrlCmdGpfifoGetWorkSubmitTokenParams pod" where
  "Nvc36fCtrlCmdGpfifoGetWorkSubmitTokenParams_pod =
     \<lparr>pod_size = size_of (FStruct Nvc36fCtrlCmdGpfifoGetWorkSubmitTokenParams_layout),
      pod_read = (\<lambda>bs. \<lparr>p_work_submit_token = get_u32 (field_at Nvc36fCtrlCmdGpfifoGetWorkSubmitTokenParams_layout bs 0)\<rparr>)\<rparr>"

record Nv2080CtrlMcGetArchInfoParams =
  p_architecture :: u32
  p_implementation :: u32
  p_revision :: u32
  p_sub_revision :: u8
  p_pad0 :: "u8 list"

definition Nv2080CtrlMcGetArchInfoParams_layout :: "fty list" where
  "Nv2080CtrlMcGetArchInfoParams_layout = [FU32, FU32, FU32, FU8, FArr 3 FU8]"

definition Nv2080CtrlMcGetArchInfoParams_pod :: "Nv2080CtrlMcGetArchInfoParams pod" where
  "Nv2080CtrlMcGetArchInfoParams_pod =
     \<lparr>pod_size = size_of (FStruct Nv2080CtrlMcGetArchInfoParams_layout),
      pod_read = (\<lambda>bs. \<lparr>p_architecture = get_u32 (field_at Nv2080CtrlMcGetArchInfoParams_layout bs 0),
      p_implementation = get_u32 (field_at Nv2080CtrlMcGetArchInfoParams_layout bs 1),
      p_revision = get_u32 (field_at Nv2080CtrlMcGetArchInfoParams_layout bs 2),
      p_sub_revision = get_u8 (field_at Nv2080CtrlMcGetArchInfoParams_layout bs 3),
      p_pad0 = take 3 (field_at Nv2080CtrlMcGetArchInfoParams_layout bs 4)\<rparr>)\<rparr>"

record NvxxxxCtrlXxxInfo =
  p_index :: u32
  p_data :: u32

definition NvxxxxCtrlXxxInfo_layout :: "fty list" where
  "NvxxxxCtrlXxxInfo_layout = [FU32, FU32]"

definition NvxxxxCtrlXxxInfo_pod :: "NvxxxxCtrlXxxInfo pod" where
  "NvxxxxCtrlXxxInfo_pod =
     \<lparr>pod_size = size_of (FStruct NvxxxxCtrlXxxInfo_layout),
      pod_read = (\<lambda>bs. \<lparr>p_index = get_u32 (field_at NvxxxxCtrlXxxInfo_layout bs 0),
      p_data = get_u32 (field_at NvxxxxCtrlXxxInfo_layout bs 1)\<rparr>)\<rparr>"

record Nv2080CtrlGpuGetInfoV2Params =
  p_gpu_info_list_size :: u32
  p_gpu_info_list :: "NvxxxxCtrlXxxInfo list"

definition Nv2080CtrlGpuGetInfoV2Params_layout :: "fty list" where
  "Nv2080CtrlGpuGetInfoV2Params_layout = [FU32, FArr NV2080_CTRL_GPU_INFO_MAX_LIST_SIZE (FStruct NvxxxxCtrlXxxInfo_layout)]"

definition Nv2080CtrlGpuGetInfoV2Params_pod :: "Nv2080CtrlGpuGetInfoV2Params pod" where
  "Nv2080CtrlGpuGetInfoV2Params_pod =
     \<lparr>pod_size = size_of (FStruct Nv2080CtrlGpuGetInfoV2Params_layout),
      pod_read = (\<lambda>bs. \<lparr>p_gpu_info_list_size = get_u32 (field_at Nv2080CtrlGpuGetInfoV2Params_layout bs 0),
      p_gpu_info_list = get_array NV2080_CTRL_GPU_INFO_MAX_LIST_SIZE (pod_size NvxxxxCtrlXxxInfo_pod) (pod_read NvxxxxCtrlXxxInfo_pod) (field_at Nv2080CtrlGpuGetInfoV2Params_layout bs 1)\<rparr>)\<rparr>"

record Nv2080CtrlGpuGetNameStringParams =
  p_gpu_name_string_flags :: u32
  p_gpu_name_string :: "u8 list"

definition Nv2080CtrlGpuGetNameStringParams_layout :: "fty list" where
  "Nv2080CtrlGpuGetNameStringParams_layout = [FU32, FArr (NV2080_GPU_MAX_NAME_STRING_LENGTH * 2) FU8]"

definition Nv2080CtrlGpuGetNameStringParams_pod :: "Nv2080CtrlGpuGetNameStringParams pod" where
  "Nv2080CtrlGpuGetNameStringParams_pod =
     \<lparr>pod_size = size_of (FStruct Nv2080CtrlGpuGetNameStringParams_layout),
      pod_read = (\<lambda>bs. \<lparr>p_gpu_name_string_flags = get_u32 (field_at Nv2080CtrlGpuGetNameStringParams_layout bs 0),
      p_gpu_name_string = take (NV2080_GPU_MAX_NAME_STRING_LENGTH * 2) (field_at Nv2080CtrlGpuGetNameStringParams_layout bs 1)\<rparr>)\<rparr>"

record Nv2080CtrlGpuGetShortNameStringParams =
  p_gpu_short_name_string :: "u8 list"

definition Nv2080CtrlGpuGetShortNameStringParams_layout :: "fty list" where
  "Nv2080CtrlGpuGetShortNameStringParams_layout = [FArr NV2080_GPU_MAX_NAME_STRING_LENGTH FU8]"

definition Nv2080CtrlGpuGetShortNameStringParams_pod :: "Nv2080CtrlGpuGetShortNameStringParams pod" where
  "Nv2080CtrlGpuGetShortNameStringParams_pod =
     \<lparr>pod_size = size_of (FStruct Nv2080CtrlGpuGetShortNameStringParams_layout),
      pod_read = (\<lambda>bs. \<lparr>p_gpu_short_name_string = take NV2080_GPU_MAX_NAME_STRING_LENGTH (field_at Nv2080CtrlGpuGetShortNameStringParams_layout bs 0)\<rparr>)\<rparr>"

record Nv2080CtrlGpuGetSimulationInfoParams =
  p_sim_type :: u32

definition Nv2080CtrlGpuGetSimulationInfoParams_layout :: "fty list" where
  "Nv2080CtrlGpuGetSimulationInfoParams_layout = [FU32]"

definition Nv2080CtrlGpuGetSimulationInfoParams_pod :: "Nv2080CtrlGpuGetSimulationInfoParams pod" where
  "Nv2080CtrlGpuGetSimulationInfoParams_pod =
     \<lparr>pod_size = size_of (FStruct Nv2080CtrlGpuGetSimulationInfoParams_layout),
      pod_read = (\<lambda>bs. \<lparr>p_sim_type = get_u32 (field_at Nv2080CtrlGpuGetSimulationInfoParams_layout bs 0)\<rparr>)\<rparr>"

record Nv2080CtrlGpuGetEnginesV2Params =
  p_engine_count :: u32
  p_engine_list :: "u32 list"

definition Nv2080CtrlGpuGetEnginesV2Params_layout :: "fty list" where
  "Nv2080CtrlGpuGetEnginesV2Params_layout = [FU32, FArr NV2080_GPU_MAX_ENGINES_LIST_SIZE FU32]"

definition Nv2080CtrlGpuGetEnginesV2Params_pod :: "Nv2080CtrlGpuGetEnginesV2Params pod" where
  "Nv2080CtrlGpuGetEnginesV2Params_pod =
     \<lparr>pod_size = size_of (FStruct Nv2080CtrlGpuGetEnginesV2Params_layout),
      pod_read = (\<lambda>bs. \<lparr>p_engine_count = get_u32 (field_at Nv2080CtrlGpuGetEnginesV2Params_layout bs 0),
      p_engine_list = get_array NV2080_GPU_MAX_ENGINES_LIST_SIZE (size_of FU32) get_u32 (field_at Nv2080CtrlGpuGetEnginesV2Params_layout bs 1)\<rparr>)\<rparr>"

record Nv2080CtrlGpuQueryComputeModeRulesParams =
  p_rules :: u32

definition Nv2080CtrlGpuQueryComputeModeRulesParams_layout :: "fty list" where
  "Nv2080CtrlGpuQueryComputeModeRulesParams_layout = [FU32]"

definition Nv2080CtrlGpuQueryComputeModeRulesParams_pod :: "Nv2080CtrlGpuQueryComputeModeRulesParams pod" where
  "Nv2080CtrlGpuQueryComputeModeRulesParams_pod =
     \<lparr>pod_size = size_of (FStruct Nv2080CtrlGpuQueryComputeModeRulesParams_layout),
      pod_read = (\<lambda>bs. \<lparr>p_rules = get_u32 (field_at Nv2080CtrlGpuQueryComputeModeRulesParams_layout bs 0)\<rparr>)\<rparr>"

record Nv2080CtrlGpuQueryEccExceptionStatus =
  p_count :: u64

definition Nv2080CtrlGpuQueryEccExceptionStatus_layout :: "fty list" where
  "Nv2080CtrlGpuQueryEccExceptionStatus_layout = [FU64]"

definition Nv2080CtrlGpuQueryEccExceptionStatus_pod :: "Nv2080CtrlGpuQueryEccExceptionStatus pod" where
  "Nv2080CtrlGpuQueryEccExceptionStatus_pod =
     \<lparr>pod_size = size_of (FStruct Nv2080CtrlGpuQueryEccExceptionStatus_layout),
      pod_read = (\<lambda>bs. \<lparr>p_count = get_u64 (field_at Nv2080CtrlGpuQueryEccExceptionStatus_layout bs 0)\<rparr>)\<rparr>"

record Nv2080CtrlGpuQueryEccUnitStatus =
  p_enabled :: u8
  p_scrub_complete :: u8
  p_supported :: u8
  p_pad0 :: "u8 list"
  p_dbe :: Nv2080CtrlGpuQueryEccExceptionStatus
  p_dbe_non_resettable :: Nv2080CtrlGpuQueryEccExceptionStatus
  p_sbe :: Nv2080CtrlGpuQueryEccExceptionStatus
  p_sbe_non_resettable :: Nv2080CtrlGpuQueryEccExceptionStatus

definition Nv2080CtrlGpuQueryEccUnitStatus_layout :: "fty list" where
  "Nv2080CtrlGpuQueryEccUnitStatus_layout = [FU8, FU8, FU8, FArr 5 FU8, FStruct Nv2080CtrlGpuQueryEccExceptionStatus_layout,
      FStruct Nv2080CtrlGpuQueryEccExceptionStatus_layout,
      FStruct Nv2080CtrlGpuQueryEccExceptionStatus_layout,
      FStruct Nv2080CtrlGpuQueryEccExceptionStatus_layout]"

definition Nv2080CtrlGpuQueryEccUnitStatus_pod :: "Nv2080CtrlGpuQueryEccUnitStatus pod" where
  "Nv2080CtrlGpuQueryEccUnitStatus_pod =
     \<lparr>pod_size = size_of (FStruct Nv2080CtrlGpuQueryEccUnitStatus_layout),
      pod_read = (\<lambda>bs. \<lparr>p_enabled = get_u8 (field_at Nv2080CtrlGpuQueryEccUnitStatus_layout bs 0),
      p_scrub_complete = get_u8 (field_at Nv2080CtrlGpuQueryEccUnitStatus_layout bs 1),
      p_supported = get_u8 (field_at Nv2080CtrlGpuQueryEccUnitStatus_layout bs 2),
      p_pad0 = take 5 (field_at Nv2080CtrlGpuQueryEccUnitStatus_layout bs 3),
      p_dbe = pod_read Nv2080CtrlGpuQueryEccExceptionStatus_pod (field_at Nv2080CtrlGpuQueryEccUnitStatus_layout bs 4),
      p_dbe_non_resettable = pod_read Nv2080CtrlGpuQueryEccExceptionStatus_pod (field_at Nv2080CtrlGpuQueryEccUnitStatus_layout bs 5),
      p_sbe = pod_read Nv2080CtrlGpuQueryEccExceptionStatus_pod (field_at Nv2080CtrlGpuQueryEccUnitStatus_layout bs 6),
      p_sbe_non_resettable = pod_read Nv2080CtrlGpuQueryEccExceptionStatus_pod (field_at Nv2080CtrlGpuQueryEccUnitStatus_layout bs 7)\<rparr>)\<rparr>"

record Nv2080CtrlGpuQueryEccStatusParams =
  p_units :: "Nv2080CtrlGpuQueryEccUnitStatus list"
  p_b_fatal_poison_error :: u8
  p_uncorrectable_error :: u8
  p_pad0 :: "u8 list"
  p_flags :: u32
  p_gr_route_info :: Nv2080CtrlGrRouteInfo

definition Nv2080CtrlGpuQueryEccStatusParams_layout :: "fty list" where
  "Nv2080CtrlGpuQueryEccStatusParams_layout = [FArr NV2080_CTRL_GPU_ECC_UNIT_COUNT (FStruct Nv2080CtrlGpuQueryEccUnitStatus_layout), FU8,
      FU8, FArr 2 FU8, FU32, FStruct Nv2080CtrlGrRouteInfo_layout]"

definition Nv2080CtrlGpuQueryEccStatusParams_pod :: "Nv2080CtrlGpuQueryEccStatusParams pod" where
  "Nv2080CtrlGpuQueryEccStatusParams_pod =
     \<lparr>pod_size = size_of (FStruct Nv2080CtrlGpuQueryEccStatusParams_layout),
      pod_read = (\<lambda>bs. \<lparr>p_units = get_array NV2080_CTRL_GPU_ECC_UNIT_COUNT (pod_size Nv2080CtrlGpuQueryEccUnitStatus_pod) (pod_read Nv2080CtrlGpuQueryEccUnitStatus_pod) (field_at Nv2080CtrlGpuQueryEccStatusParams_layout bs 0),
      p_b_fatal_poison_error = get_u8 (field_at Nv2080CtrlGpuQueryEccStatusParams_layout bs 1),
      p_uncorrectable_error = get_u8 (field_at Nv2080CtrlGpuQueryEccStatusParams_layout bs 2),
      p_pad0 = take 2 (field_at Nv2080CtrlGpuQueryEccStatusParams_layout bs 3),
      p_flags = get_u32 (field_at Nv2080CtrlGpuQueryEccStatusParams_layout bs 4),
      p_gr_route_info = pod_read Nv2080CtrlGrRouteInfo_pod (field_at Nv2080CtrlGpuQueryEccStatusParams_layout bs 5)\<rparr>)\<rparr>"

record Nv2080CtrlGpuGetGidInfoParams =
  p_index :: u32
  p_flags :: u32
  p_length :: u32
  p_data :: "u8 list"

definition Nv2080CtrlGpuGetGidInfoParams_layout :: "fty list" where
  "Nv2080CtrlGpuGetGidInfoParams_layout = [FU32, FU32, FU32, FArr NV2080_GPU_MAX_GID_LENGTH FU8]"

definition Nv2080CtrlGpuGetGidInfoParams_pod :: "Nv2080CtrlGpuGetGidInfoParams pod" where
  "Nv2080CtrlGpuGetGidInfoParams_pod =
     \<lparr>pod_size = size_of (FStruct Nv2080CtrlGpuGetGidInfoParams_layout),
      pod_read = (\<lambda>bs. \<lparr>p_index = get_u32 (field_at Nv2080CtrlGpuGetGidInfoParams_layout bs 0),
      p_flags = get_u32 (field_at Nv2080CtrlGpuGetGidInfoParams_layout bs 1),
      p_length = get_u32 (field_at Nv2080CtrlGpuGetGidInfoParams_layout bs 2),
      p_data = take NV2080_GPU_MAX_GID_LENGTH (field_at Nv2080CtrlGpuGetGidInfoParams_layout bs 3)\<rparr>)\<rparr>"

record Nv2080CtrlFbGetInfoV2Params =
  p_fb_info_list_size :: u32
  p_fb_info_list :: "NvxxxxCtrlXxxInfo list"

definition Nv2080CtrlFbGetInfoV2Params_layout :: "fty list" where
  "Nv2080CtrlFbGetInfoV2Params_layout = [FU32, FArr NV2080_CTRL_FB_INFO_MAX_LIST_SIZE (FStruct NvxxxxCtrlXxxInfo_layout)]"

definition Nv2080CtrlFbGetInfoV2Params_pod :: "Nv2080CtrlFbGetInfoV2Params pod" where
  "Nv2080CtrlFbGetInfoV2Params_pod =
     \<lparr>pod_size = size_of (FStruct Nv2080CtrlFbGetInfoV2Params_layout),
      pod_read = (\<lambda>bs. \<lparr>p_fb_info_list_size = get_u32 (field_at Nv2080CtrlFbGetInfoV2Params_layout bs 0),
      p_fb_info_list = get_array NV2080_CTRL_FB_INFO_MAX_LIST_SIZE (pod_size NvxxxxCtrlXxxInfo_pod) (pod_read NvxxxxCtrlXxxInfo_pod) (field_at Nv2080CtrlFbGetInfoV2Params_layout bs 1)\<rparr>)\<rparr>"

record Nv2080CtrlBusGetInfoV2Params =
  p_bus_info_list_size :: u32
  p_bus_info_list :: "NvxxxxCtrlXxxInfo list"

definition Nv2080CtrlBusGetInfoV2Params_layout :: "fty list" where
  "Nv2080CtrlBusGetInfoV2Params_layout = [FU32, FArr NV2080_CTRL_BUS_INFO_MAX_LIST_SIZE (FStruct NvxxxxCtrlXxxInfo_layout)]"

definition Nv2080CtrlBusGetInfoV2Params_pod :: "Nv2080CtrlBusGetInfoV2Params pod" where
  "Nv2080CtrlBusGetInfoV2Params_pod =
     \<lparr>pod_size = size_of (FStruct Nv2080CtrlBusGetInfoV2Params_layout),
      pod_read = (\<lambda>bs. \<lparr>p_bus_info_list_size = get_u32 (field_at Nv2080CtrlBusGetInfoV2Params_layout bs 0),
      p_bus_info_list = get_array NV2080_CTRL_BUS_INFO_MAX_LIST_SIZE (pod_size NvxxxxCtrlXxxInfo_pod) (pod_read NvxxxxCtrlXxxInfo_pod) (field_at Nv2080CtrlBusGetInfoV2Params_layout bs 1)\<rparr>)\<rparr>"

record Nv2080CtrlBusGetC2cInfoParams =
  p_b_is_link_up :: u8
  p_b_link_in_hs :: u8
  p_pad0 :: "u8 list"
  p_nr_links :: u32
  p_max_nr_links :: u32
  p_link_mask :: u32
  p_per_link_bw_mbps :: u32
  p_per_link_lane_width :: u32
  p_remote_type :: u32

definition Nv2080CtrlBusGetC2cInfoParams_layout :: "fty list" where
  "Nv2080CtrlBusGetC2cInfoParams_layout = [FU8, FU8, FArr 2 FU8, FU32, FU32, FU32, FU32, FU32, FU32]"

definition Nv2080CtrlBusGetC2cInfoParams_pod :: "Nv2080CtrlBusGetC2cInfoParams pod" where
  "Nv2080CtrlBusGetC2cInfoParams_pod =
     \<lparr>pod_size = size_of (FStruct Nv2080CtrlBusGetC2cInfoParams_layout),
      pod_read = (\<lambda>bs. \<lparr>p_b_is_link_up = get_u8 (field_at Nv2080CtrlBusGetC2cInfoParams_layout bs 0),
      p_b_link_in_hs = get_u8 (field_at Nv2080CtrlBusGetC2cInfoParams_layout bs 1),
      p_pad0 = take 2 (field_at Nv2080CtrlBusGetC2cInfoParams_layout bs 2),
      p_nr_links = get_u32 (field_at Nv2080CtrlBusGetC2cInfoParams_layout bs 3),
      p_max_nr_links = get_u32 (field_at Nv2080CtrlBusGetC2cInfoParams_layout bs 4),
      p_link_mask = get_u32 (field_at Nv2080CtrlBusGetC2cInfoParams_layout bs 5),
      p_per_link_bw_mbps = get_u32 (field_at Nv2080CtrlBusGetC2cInfoParams_layout bs 6),
      p_per_link_lane_width = get_u32 (field_at Nv2080CtrlBusGetC2cInfoParams_layout bs 7),
      p_remote_type = get_u32 (field_at Nv2080CtrlBusGetC2cInfoParams_layout bs 8)\<rparr>)\<rparr>"

record Nv2080CtrlBusGetPciInfoParams =
  p_pci_device_id :: u32
  p_pci_sub_system_id :: u32
  p_pci_revision_id :: u32
  p_pci_ext_device_id :: u32

definition Nv2080CtrlBusGetPciInfoParams_layout :: "fty list" where
  "Nv2080CtrlBusGetPciInfoParams_layout = [FU32, FU32, FU32, FU32]"

definition Nv2080CtrlBusGetPciInfoParams_pod :: "Nv2080CtrlBusGetPciInfoParams pod" where
  "Nv2080CtrlBusGetPciInfoParams_pod =
     \<lparr>pod_size = size_of (FStruct Nv2080CtrlBusGetPciInfoParams_layout),
      pod_read = (\<lambda>bs. \<lparr>p_pci_device_id = get_u32 (field_at Nv2080CtrlBusGetPciInfoParams_layout bs 0),
      p_pci_sub_system_id = get_u32 (field_at Nv2080CtrlBusGetPciInfoParams_layout bs 1),
      p_pci_revision_id = get_u32 (field_at Nv2080CtrlBusGetPciInfoParams_layout bs 2),
      p_pci_ext_device_id = get_u32 (field_at Nv2080CtrlBusGetPciInfoParams_layout bs 3)\<rparr>)\<rparr>"

record Nv2080CtrlBusPciBarInfo =
  p_flags :: u32
  p_bar_size :: u32
  p_bar_size_bytes :: u64
  p_bar_offset :: u64

definition Nv2080CtrlBusPciBarInfo_layout :: "fty list" where
  "Nv2080CtrlBusPciBarInfo_layout = [FU32, FU32, FU64, FU64]"

definition Nv2080CtrlBusPciBarInfo_pod :: "Nv2080CtrlBusPciBarInfo pod" where
  "Nv2080CtrlBusPciBarInfo_pod =
     \<lparr>pod_size = size_of (FStruct Nv2080CtrlBusPciBarInfo_layout),
      pod_read = (\<lambda>bs. \<lparr>p_flags = get_u32 (field_at Nv2080CtrlBusPciBarInfo_layout bs 0),
      p_bar_size = get_u32 (field_at Nv2080CtrlBusPciBarInfo_layout bs 1),
      p_bar_size_bytes = get_u64 (field_at Nv2080CtrlBusPciBarInfo_layout bs 2),
      p_bar_offset = get_u64 (field_at Nv2080CtrlBusPciBarInfo_layout bs 3)\<rparr>)\<rparr>"

record Nv2080CtrlBusGetPciBarInfoParams =
  p_pci_bar_count :: u32
  p_pad0 :: u32
  p_pci_bar_info :: "Nv2080CtrlBusPciBarInfo list"

definition Nv2080CtrlBusGetPciBarInfoParams_layout :: "fty list" where
  "Nv2080CtrlBusGetPciBarInfoParams_layout = [FU32, FU32, FArr NV2080_CTRL_BUS_MAX_PCI_BARS (FStruct Nv2080CtrlBusPciBarInfo_layout)]"

definition Nv2080CtrlBusGetPciBarInfoParams_pod :: "Nv2080CtrlBusGetPciBarInfoParams pod" where
  "Nv2080CtrlBusGetPciBarInfoParams_pod =
     \<lparr>pod_size = size_of (FStruct Nv2080CtrlBusGetPciBarInfoParams_layout),
      pod_read = (\<lambda>bs. \<lparr>p_pci_bar_count = get_u32 (field_at Nv2080CtrlBusGetPciBarInfoParams_layout bs 0),
      p_pad0 = get_u32 (field_at Nv2080CtrlBusGetPciBarInfoParams_layout bs 1),
      p_pci_bar_info = get_array NV2080_CTRL_BUS_MAX_PCI_BARS (pod_size Nv2080CtrlBusPciBarInfo_pod) (pod_read Nv2080CtrlBusPciBarInfo_pod) (field_at Nv2080CtrlBusGetPciBarInfoParams_layout bs 2)\<rparr>)\<rparr>"

record Nv2080CtrlBusPcieGpuAtomicOpInfo =
  p_b_supported :: u8
  p_pad0 :: "u8 list"
  p_attributes :: u32

definition Nv2080CtrlBusPcieGpuAtomicOpInfo_layout :: "fty list" where
  "Nv2080CtrlBusPcieGpuAtomicOpInfo_layout = [FU8, FArr 3 FU8, FU32]"

definition Nv2080CtrlBusPcieGpuAtomicOpInfo_pod :: "Nv2080CtrlBusPcieGpuAtomicOpInfo pod" where
  "Nv2080CtrlBusPcieGpuAtomicOpInfo_pod =
     \<lparr>pod_size = size_of (FStruct Nv2080CtrlBusPcieGpuAtomicOpInfo_layout),
      pod_read = (\<lambda>bs. \<lparr>p_b_supported = get_u8 (field_at Nv2080CtrlBusPcieGpuAtomicOpInfo_layout bs 0),
      p_pad0 = take 3 (field_at Nv2080CtrlBusPcieGpuAtomicOpInfo_layout bs 1),
      p_attributes = get_u32 (field_at Nv2080CtrlBusPcieGpuAtomicOpInfo_layout bs 2)\<rparr>)\<rparr>"

record Nv2080CtrlCmdBusGetPcieSupportedGpuAtomicsParams =
  p_cap_type :: u32
  p_dbdf :: u32
  p_atomic_op :: "Nv2080CtrlBusPcieGpuAtomicOpInfo list"

definition Nv2080CtrlCmdBusGetPcieSupportedGpuAtomicsParams_layout :: "fty list" where
  "Nv2080CtrlCmdBusGetPcieSupportedGpuAtomicsParams_layout = [FU32, FU32,
      FArr NV2080_CTRL_PCIE_SUPPORTED_GPU_ATOMICS_OP_TYPE_COUNT (FStruct Nv2080CtrlBusPcieGpuAtomicOpInfo_layout)]"

definition Nv2080CtrlCmdBusGetPcieSupportedGpuAtomicsParams_pod :: "Nv2080CtrlCmdBusGetPcieSupportedGpuAtomicsParams pod" where
  "Nv2080CtrlCmdBusGetPcieSupportedGpuAtomicsParams_pod =
     \<lparr>pod_size = size_of (FStruct Nv2080CtrlCmdBusGetPcieSupportedGpuAtomicsParams_layout),
      pod_read = (\<lambda>bs. \<lparr>p_cap_type = get_u32 (field_at Nv2080CtrlCmdBusGetPcieSupportedGpuAtomicsParams_layout bs 0),
      p_dbdf = get_u32 (field_at Nv2080CtrlCmdBusGetPcieSupportedGpuAtomicsParams_layout bs 1),
      p_atomic_op = get_array NV2080_CTRL_PCIE_SUPPORTED_GPU_ATOMICS_OP_TYPE_COUNT (pod_size Nv2080CtrlBusPcieGpuAtomicOpInfo_pod) (pod_read Nv2080CtrlBusPcieGpuAtomicOpInfo_pod) (field_at Nv2080CtrlCmdBusGetPcieSupportedGpuAtomicsParams_layout bs 2)\<rparr>)\<rparr>"

record Nv2080CtrlGrGetInfoParams =
  p_gr_info_list_size :: u32
  p_pad0 :: u32
  p_gr_info_list :: u64
  p_gr_route_info :: Nv2080CtrlGrRouteInfo

definition Nv2080CtrlGrGetInfoParams_layout :: "fty list" where
  "Nv2080CtrlGrGetInfoParams_layout = [FU32, FU32, FU64, FStruct Nv2080CtrlGrRouteInfo_layout]"

definition Nv2080CtrlGrGetInfoParams_pod :: "Nv2080CtrlGrGetInfoParams pod" where
  "Nv2080CtrlGrGetInfoParams_pod =
     \<lparr>pod_size = size_of (FStruct Nv2080CtrlGrGetInfoParams_layout),
      pod_read = (\<lambda>bs. \<lparr>p_gr_info_list_size = get_u32 (field_at Nv2080CtrlGrGetInfoParams_layout bs 0),
      p_pad0 = get_u32 (field_at Nv2080CtrlGrGetInfoParams_layout bs 1),
      p_gr_info_list = get_u64 (field_at Nv2080CtrlGrGetInfoParams_layout bs 2),
      p_gr_route_info = pod_read Nv2080CtrlGrRouteInfo_pod (field_at Nv2080CtrlGrGetInfoParams_layout bs 3)\<rparr>)\<rparr>"

record Nv2080CtrlGrGlobalSmId =
  p_gpc_id :: u16
  p_local_tpc_id :: u16
  p_local_sm_id :: u16
  p_global_tpc_id :: u16
  p_virtual_gpc_id :: u16
  p_migratable_tpc_id :: u16
  p_ugpu_id :: u16
  p_physical_cpc_id :: u16
  p_virtual_tpc_id :: u16

definition Nv2080CtrlGrGlobalSmId_layout :: "fty list" where
  "Nv2080CtrlGrGlobalSmId_layout = [FU16, FU16, FU16, FU16, FU16, FU16, FU16, FU16, FU16]"

definition Nv2080CtrlGrGlobalSmId_pod :: "Nv2080CtrlGrGlobalSmId pod" where
  "Nv2080CtrlGrGlobalSmId_pod =
     \<lparr>pod_size = size_of (FStruct Nv2080CtrlGrGlobalSmId_layout),
      pod_read = (\<lambda>bs. \<lparr>p_gpc_id = get_u16 (field_at Nv2080CtrlGrGlobalSmId_layout bs 0),
      p_local_tpc_id = get_u16 (field_at Nv2080CtrlGrGlobalSmId_layout bs 1),
      p_local_sm_id = get_u16 (field_at Nv2080CtrlGrGlobalSmId_layout bs 2),
      p_global_tpc_id = get_u16 (field_at Nv2080CtrlGrGlobalSmId_layout bs 3),
      p_virtual_gpc_id = get_u16 (field_at Nv2080CtrlGrGlobalSmId_layout bs 4),
      p_migratable_tpc_id = get_u16 (field_at Nv2080CtrlGrGlobalSmId_layout bs 5),
      p_ugpu_id = get_u16 (field_at Nv2080CtrlGrGlobalSmId_layout bs 6),
      p_physical_cpc_id = get_u16 (field_at Nv2080CtrlGrGlobalSmId_layout bs 7),
      p_virtual_tpc_id = get_u16 (field_at Nv2080CtrlGrGlobalSmId_layout bs 8)\<rparr>)\<rparr>"

record Nv2080CtrlGrGetGlobalSmOrderParams =
  p_global_sm_id :: "Nv2080CtrlGrGlobalSmId list"
  p_num_sm :: u16
  p_num_tpc :: u16
  p_pad0 :: u32
  p_gr_route_info :: Nv2080CtrlGrRouteInfo

definition Nv2080CtrlGrGetGlobalSmOrderParams_layout :: "fty list" where
  "Nv2080CtrlGrGetGlobalSmOrderParams_layout = [FArr NV2080_CTRL_GR_GET_GLOBAL_SM_ORDER_MAX_SM_COUNT (FStruct Nv2080CtrlGrGlobalSmId_layout),
      FU16, FU16, FU32, FStruct Nv2080CtrlGrRouteInfo_layout]"

definition Nv2080CtrlGrGetGlobalSmOrderParams_pod :: "Nv2080CtrlGrGetGlobalSmOrderParams pod" where
  "Nv2080CtrlGrGetGlobalSmOrderParams_pod =
     \<lparr>pod_size = size_of (FStruct Nv2080CtrlGrGetGlobalSmOrderParams_layout),
      pod_read = (\<lambda>bs. \<lparr>p_global_sm_id = get_array NV2080_CTRL_GR_GET_GLOBAL_SM_ORDER_MAX_SM_COUNT (pod_size Nv2080CtrlGrGlobalSmId_pod) (pod_read Nv2080CtrlGrGlobalSmId_pod) (field_at Nv2080CtrlGrGetGlobalSmOrderParams_layout bs 0),
      p_num_sm = get_u16 (field_at Nv2080CtrlGrGetGlobalSmOrderParams_layout bs 1),
      p_num_tpc = get_u16 (field_at Nv2080CtrlGrGetGlobalSmOrderParams_layout bs 2),
      p_pad0 = get_u32 (field_at Nv2080CtrlGrGetGlobalSmOrderParams_layout bs 3),
      p_gr_route_info = pod_read Nv2080CtrlGrRouteInfo_pod (field_at Nv2080CtrlGrGetGlobalSmOrderParams_layout bs 4)\<rparr>)\<rparr>"

record Nv2080CtrlGrGetGpcMaskParams =
  p_gr_route_info :: Nv2080CtrlGrRouteInfo
  p_gpc_mask :: u32
  p_pad0 :: u32

definition Nv2080CtrlGrGetGpcMaskParams_layout :: "fty list" where
  "Nv2080CtrlGrGetGpcMaskParams_layout = [FStruct Nv2080CtrlGrRouteInfo_layout, FU32, FU32]"

definition Nv2080CtrlGrGetGpcMaskParams_pod :: "Nv2080CtrlGrGetGpcMaskParams pod" where
  "Nv2080CtrlGrGetGpcMaskParams_pod =
     \<lparr>pod_size = size_of (FStruct Nv2080CtrlGrGetGpcMaskParams_layout),
      pod_read = (\<lambda>bs. \<lparr>p_gr_route_info = pod_read Nv2080CtrlGrRouteInfo_pod (field_at Nv2080CtrlGrGetGpcMaskParams_layout bs 0),
      p_gpc_mask = get_u32 (field_at Nv2080CtrlGrGetGpcMaskParams_layout bs 1),
      p_pad0 = get_u32 (field_at Nv2080CtrlGrGetGpcMaskParams_layout bs 2)\<rparr>)\<rparr>"

record Nv2080CtrlGrGetTpcMaskParams =
  p_gr_route_info :: Nv2080CtrlGrRouteInfo
  p_gpc_id :: u32
  p_tpc_mask :: u32

definition Nv2080CtrlGrGetTpcMaskParams_layout :: "fty list" where
  "Nv2080CtrlGrGetTpcMaskParams_layout = [FStruct Nv2080CtrlGrRouteInfo_layout, FU32, FU32]"

definition Nv2080CtrlGrGetTpcMaskParams_pod :: "Nv2080CtrlGrGetTpcMaskParams pod" where
  "Nv2080CtrlGrGetTpcMaskParams_pod =
     \<lparr>pod_size = size_of (FStruct Nv2080CtrlGrGetTpcMaskParams_layout),
      pod_read = (\<lambda>bs. \<lparr>p_gr_route_info = pod_read Nv2080CtrlGrRouteInfo_pod (field_at Nv2080CtrlGrGetTpcMaskParams_layout bs 0),
      p_gpc_id = get_u32 (field_at Nv2080CtrlGrGetTpcMaskParams_layout bs 1),
      p_tpc_mask = get_u32 (field_at Nv2080CtrlGrGetTpcMaskParams_layout bs 2)\<rparr>)\<rparr>"

record Nv2080CtrlGrSetCtxswPreemptionModeParams =
  p_flags :: u32
  p_h_channel :: u32
  p_gfxp_preempt_mode :: u32
  p_cilp_preempt_mode :: u32
  p_gr_route_info :: Nv2080CtrlGrRouteInfo

definition Nv2080CtrlGrSetCtxswPreemptionModeParams_layout :: "fty list" where
  "Nv2080CtrlGrSetCtxswPreemptionModeParams_layout = [FU32, FU32, FU32, FU32, FStruct Nv2080CtrlGrRouteInfo_layout]"

definition Nv2080CtrlGrSetCtxswPreemptionModeParams_pod :: "Nv2080CtrlGrSetCtxswPreemptionModeParams pod" where
  "Nv2080CtrlGrSetCtxswPreemptionModeParams_pod =
     \<lparr>pod_size = size_of (FStruct Nv2080CtrlGrSetCtxswPreemptionModeParams_layout),
      pod_read = (\<lambda>bs. \<lparr>p_flags = get_u32 (field_at Nv2080CtrlGrSetCtxswPreemptionModeParams_layout bs 0),
      p_h_channel = get_u32 (field_at Nv2080CtrlGrSetCtxswPreemptionModeParams_layout bs 1),
      p_gfxp_preempt_mode = get_u32 (field_at Nv2080CtrlGrSetCtxswPreemptionModeParams_layout bs 2),
      p_cilp_preempt_mode = get_u32 (field_at Nv2080CtrlGrSetCtxswPreemptionModeParams_layout bs 3),
      p_gr_route_info = pod_read Nv2080CtrlGrRouteInfo_pod (field_at Nv2080CtrlGrSetCtxswPreemptionModeParams_layout bs 4)\<rparr>)\<rparr>"

record Nv2080CtrlGrGetCtxBufferSizeParams =
  p_h_channel :: u32
  p_pad0 :: u32
  p_total_buffer_size :: u64

definition Nv2080CtrlGrGetCtxBufferSizeParams_layout :: "fty list" where
  "Nv2080CtrlGrGetCtxBufferSizeParams_layout = [FU32, FU32, FU64]"

definition Nv2080CtrlGrGetCtxBufferSizeParams_pod :: "Nv2080CtrlGrGetCtxBufferSizeParams pod" where
  "Nv2080CtrlGrGetCtxBufferSizeParams_pod =
     \<lparr>pod_size = size_of (FStruct Nv2080CtrlGrGetCtxBufferSizeParams_layout),
      pod_read = (\<lambda>bs. \<lparr>p_h_channel = get_u32 (field_at Nv2080CtrlGrGetCtxBufferSizeParams_layout bs 0),
      p_pad0 = get_u32 (field_at Nv2080CtrlGrGetCtxBufferSizeParams_layout bs 1),
      p_total_buffer_size = get_u64 (field_at Nv2080CtrlGrGetCtxBufferSizeParams_layout bs 2)\<rparr>)\<rparr>"

record Nv2080CtrlCeGetAllCapsParams =
  p_caps_tbl :: "(u8 list) list"
  p_present :: u64

definition Nv2080CtrlCeGetAllCapsParams_layout :: "fty list" where
  "Nv2080CtrlCeGetAllCapsParams_layout = [FArr NV2080_CTRL_MAX_CES (FArr NV2080_CTRL_CE_CAPS_TBL_SIZE FU8), FU64]"

definition Nv2080CtrlCeGetAllCapsParams_pod :: "Nv2080CtrlCeGetAllCapsParams pod" where
  "Nv2080CtrlCeGetAllCapsParams_pod =
     \<lparr>pod_size = size_of (FStruct Nv2080CtrlCeGetAllCapsParams_layout),
      pod_read = (\<lambda>bs. \<lparr>p_caps_tbl = get_array NV2080_CTRL_MAX_CES (size_of (FArr NV2080_CTRL_CE_CAPS_TBL_SIZE FU8)) (take NV2080_CTRL_CE_CAPS_TBL_SIZE) (field_at Nv2080CtrlCeGetAllCapsParams_layout bs 0),
      p_present = get_u64 (field_at Nv2080CtrlCeGetAllCapsParams_layout bs 1)\<rparr>)\<rparr>"

record Nv2080CtrlGspGetFeaturesParams =
  p_gsp_features :: u32
  p_b_valid :: u8
  p_b_default_gsp_rm_gpu :: u8
  p_pad0 :: "u8 list"
  p_firmware_version :: "u8 list"

definition Nv2080CtrlGspGetFeaturesParams_layout :: "fty list" where
  "Nv2080CtrlGspGetFeaturesParams_layout = [FU32, FU8, FU8, FArr 2 FU8, FArr NV2080_GSP_MAX_BUILD_VERSION_LENGTH FU8]"

definition Nv2080CtrlGspGetFeaturesParams_pod :: "Nv2080CtrlGspGetFeaturesParams pod" where
  "Nv2080CtrlGspGetFeaturesParams_pod =
     \<lparr>pod_size = size_of (FStruct Nv2080CtrlGspGetFeaturesParams_layout),
      pod_read = (\<lambda>bs. \<lparr>p_gsp_features = get_u32 (field_at Nv2080CtrlGspGetFeaturesParams_layout bs 0),
      p_b_valid = get_u8 (field_at Nv2080CtrlGspGetFeaturesParams_layout bs 1),
      p_b_default_gsp_rm_gpu = get_u8 (field_at Nv2080CtrlGspGetFeaturesParams_layout bs 2),
      p_pad0 = take 2 (field_at Nv2080CtrlGspGetFeaturesParams_layout bs 3),
      p_firmware_version = take NV2080_GSP_MAX_BUILD_VERSION_LENGTH (field_at Nv2080CtrlGspGetFeaturesParams_layout bs 4)\<rparr>)\<rparr>"

record Nv2080CtrlGrmgrGrFsInfoQueryParams =
  p_query_type :: u16
  p_reserved :: "u8 list"
  p_status :: u32
  p_query_data_words :: "u32 list"

definition Nv2080CtrlGrmgrGrFsInfoQueryParams_layout :: "fty list" where
  "Nv2080CtrlGrmgrGrFsInfoQueryParams_layout = [FU16, FArr 2 FU8, FU32, FArr 3 FU32]"

definition Nv2080CtrlGrmgrGrFsInfoQueryParams_pod :: "Nv2080CtrlGrmgrGrFsInfoQueryParams pod" where
  "Nv2080CtrlGrmgrGrFsInfoQueryParams_pod =
     \<lparr>pod_size = size_of (FStruct Nv2080CtrlGrmgrGrFsInfoQueryParams_layout),
      pod_read = (\<lambda>bs. \<lparr>p_query_type = get_u16 (field_at Nv2080CtrlGrmgrGrFsInfoQueryParams_layout bs 0),
      p_reserved = take 2 (field_at Nv2080CtrlGrmgrGrFsInfoQueryParams_layout bs 1),
      p_status = get_u32 (field_at Nv2080CtrlGrmgrGrFsInfoQueryParams_layout bs 2),
      p_query_data_words = get_array 3 (size_of FU32) get_u32 (field_at Nv2080CtrlGrmgrGrFsInfoQueryParams_layout bs 3)\<rparr>)\<rparr>"

record Nv2080CtrlGrmgrGetGrFsInfoParams =
  p_num_queries :: u16
  p_reserved :: "u8 list"
  p_queries :: "Nv2080CtrlGrmgrGrFsInfoQueryParams list"

definition Nv2080CtrlGrmgrGetGrFsInfoParams_layout :: "fty list" where
  "Nv2080CtrlGrmgrGetGrFsInfoParams_layout = [FU16, FArr 6 FU8,
      FArr NV2080_CTRL_GRMGR_GR_FS_INFO_MAX_QUERIES (FStruct Nv2080CtrlGrmgrGrFsInfoQueryParams_layout)]"

definition Nv2080CtrlGrmgrGetGrFsInfoParams_pod :: "Nv2080CtrlGrmgrGetGrFsInfoParams pod" where
  "Nv2080CtrlGrmgrGetGrFsInfoParams_pod =
     \<lparr>pod_size = size_of (FStruct Nv2080CtrlGrmgrGetGrFsInfoParams_layout),
      pod_read = (\<lambda>bs. \<lparr>p_num_queries = get_u16 (field_at Nv2080CtrlGrmgrGetGrFsInfoParams_layout bs 0),
      p_reserved = take 6 (field_at Nv2080CtrlGrmgrGetGrFsInfoParams_layout bs 1),
      p_queries = get_array NV2080_CTRL_GRMGR_GR_FS_INFO_MAX_QUERIES (pod_size Nv2080CtrlGrmgrGrFsInfoQueryParams_pod) (pod_read Nv2080CtrlGrmgrGrFsInfoQueryParams_pod) (field_at Nv2080CtrlGrmgrGetGrFsInfoParams_layout bs 2)\<rparr>)\<rparr>"

record Nv2080CtrlNvlinkLinkMask =
  p_len_masks :: u8
  p_pad0 :: "u8 list"
  p_masks :: "u64 list"

definition Nv2080CtrlNvlinkLinkMask_layout :: "fty list" where
  "Nv2080CtrlNvlinkLinkMask_layout = [FU8, FArr 7 FU8, FArr 1 FU64]"

definition Nv2080CtrlNvlinkLinkMask_pod :: "Nv2080CtrlNvlinkLinkMask pod" where
  "Nv2080CtrlNvlinkLinkMask_pod =
     \<lparr>pod_size = size_of (FStruct Nv2080CtrlNvlinkLinkMask_layout),
      pod_read = (\<lambda>bs. \<lparr>p_len_masks = get_u8 (field_at Nv2080CtrlNvlinkLinkMask_layout bs 0),
      p_pad0 = take 7 (field_at Nv2080CtrlNvlinkLinkMask_layout bs 1),
      p_masks = get_array 1 (size_of FU64) get_u64 (field_at Nv2080CtrlNvlinkLinkMask_layout bs 2)\<rparr>)\<rparr>"

record Nv2080CtrlNvlinkGetNvlinkStatusParamsPrefix =
  p_enabled_link_mask :: u32
  p_pad0 :: u32
  p_enabled_links :: Nv2080CtrlNvlinkLinkMask
  p_b_sublink_state_inst :: u8
  p_b_nvle_mode_enabled :: u8

definition Nv2080CtrlNvlinkGetNvlinkStatusParamsPrefix_layout :: "fty list" where
  "Nv2080CtrlNvlinkGetNvlinkStatusParamsPrefix_layout = [FU32, FU32, FStruct Nv2080CtrlNvlinkLinkMask_layout, FU8, FU8]"

definition Nv2080CtrlNvlinkGetNvlinkStatusParamsPrefix_pod :: "Nv2080CtrlNvlinkGetNvlinkStatusParamsPrefix pod" where
  "Nv2080CtrlNvlinkGetNvlinkStatusParamsPrefix_pod =
     \<lparr>pod_size = size_of (FStruct Nv2080CtrlNvlinkGetNvlinkStatusParamsPrefix_layout),
      pod_read = (\<lambda>bs. \<lparr>p_enabled_link_mask = get_u32 (field_at Nv2080CtrlNvlinkGetNvlinkStatusParamsPrefix_layout bs 0),
      p_pad0 = get_u32 (field_at Nv2080CtrlNvlinkGetNvlinkStatusParamsPrefix_layout bs 1),
      p_enabled_links = pod_read Nv2080CtrlNvlinkLinkMask_pod (field_at Nv2080CtrlNvlinkGetNvlinkStatusParamsPrefix_layout bs 2),
      p_b_sublink_state_inst = get_u8 (field_at Nv2080CtrlNvlinkGetNvlinkStatusParamsPrefix_layout bs 3),
      p_b_nvle_mode_enabled = get_u8 (field_at Nv2080CtrlNvlinkGetNvlinkStatusParamsPrefix_layout bs 4)\<rparr>)\<rparr>"

record NvConfComputeCtrlCmdSystemGetCapabilitiesParams =
  p_cpu_capability :: u8
  p_gpus_capability :: u8
  p_environment :: u8
  p_cc_feature :: u8
  p_dev_tools_mode :: u8
  p_multi_gpu_mode :: u8

definition NvConfComputeCtrlCmdSystemGetCapabilitiesParams_layout :: "fty list" where
  "NvConfComputeCtrlCmdSystemGetCapabilitiesParams_layout = [FU8, FU8, FU8, FU8, FU8, FU8]"

definition NvConfComputeCtrlCmdSystemGetCapabilitiesParams_pod :: "NvConfComputeCtrlCmdSystemGetCapabilitiesParams pod" where
  "NvConfComputeCtrlCmdSystemGetCapabilitiesParams_pod =
     \<lparr>pod_size = size_of (FStruct NvConfComputeCtrlCmdSystemGetCapabilitiesParams_layout),
      pod_read = (\<lambda>bs. \<lparr>p_cpu_capability = get_u8 (field_at NvConfComputeCtrlCmdSystemGetCapabilitiesParams_layout bs 0),
      p_gpus_capability = get_u8 (field_at NvConfComputeCtrlCmdSystemGetCapabilitiesParams_layout bs 1),
      p_environment = get_u8 (field_at NvConfComputeCtrlCmdSystemGetCapabilitiesParams_layout bs 2),
      p_cc_feature = get_u8 (field_at NvConfComputeCtrlCmdSystemGetCapabilitiesParams_layout bs 3),
      p_dev_tools_mode = get_u8 (field_at NvConfComputeCtrlCmdSystemGetCapabilitiesParams_layout bs 4),
      p_multi_gpu_mode = get_u8 (field_at NvConfComputeCtrlCmdSystemGetCapabilitiesParams_layout bs 5)\<rparr>)\<rparr>"

record Nv0000SyncGpuBoostGroupConfig =
  p_gpu_count :: u32
  p_gpu_ids :: "u32 list"
  p_boost_group_id :: u32
  p_b_bridgeless :: u8
  p_pad0 :: "u8 list"

definition Nv0000SyncGpuBoostGroupConfig_layout :: "fty list" where
  "Nv0000SyncGpuBoostGroupConfig_layout = [FU32, FArr NV_MAX_DEVICES FU32, FU32, FU8, FArr 3 FU8]"

definition Nv0000SyncGpuBoostGroupConfig_pod :: "Nv0000SyncGpuBoostGroupConfig pod" where
  "Nv0000SyncGpuBoostGroupConfig_pod =
     \<lparr>pod_size = size_of (FStruct Nv0000SyncGpuBoostGroupConfig_layout),
      pod_read = (\<lambda>bs. \<lparr>p_gpu_count = get_u32 (field_at Nv0000SyncGpuBoostGroupConfig_layout bs 0),
      p_gpu_ids = get_array NV_MAX_DEVICES (size_of FU32) get_u32 (field_at Nv0000SyncGpuBoostGroupConfig_layout bs 1),
      p_boost_group_id = get_u32 (field_at Nv0000SyncGpuBoostGroupConfig_layout bs 2),
      p_b_bridgeless = get_u8 (field_at Nv0000SyncGpuBoostGroupConfig_layout bs 3),
      p_pad0 = take 3 (field_at Nv0000SyncGpuBoostGroupConfig_layout bs 4)\<rparr>)\<rparr>"

record Nv0000SyncGpuBoostGroupInfoParams =
  p_group_count :: u32
  p_boost_groups :: "Nv0000SyncGpuBoostGroupConfig list"

definition Nv0000SyncGpuBoostGroupInfoParams_layout :: "fty list" where
  "Nv0000SyncGpuBoostGroupInfoParams_layout = [FU32, FArr NV0000_SYNC_GPU_BOOST_MAX_GROUPS (FStruct Nv0000SyncGpuBoostGroupConfig_layout)]"

definition Nv0000SyncGpuBoostGroupInfoParams_pod :: "Nv0000SyncGpuBoostGroupInfoParams pod" where
  "Nv0000SyncGpuBoostGroupInfoParams_pod =
     \<lparr>pod_size = size_of (FStruct Nv0000SyncGpuBoostGroupInfoParams_layout),
      pod_read = (\<lambda>bs. \<lparr>p_group_count = get_u32 (field_at Nv0000SyncGpuBoostGroupInfoParams_layout bs 0),
      p_boost_groups = get_array NV0000_SYNC_GPU_BOOST_MAX_GROUPS (pod_size Nv0000SyncGpuBoostGroupConfig_pod) (pod_read Nv0000SyncGpuBoostGroupConfig_pod) (field_at Nv0000SyncGpuBoostGroupInfoParams_layout bs 1)\<rparr>)\<rparr>"

record Nva06cCtrlGpfifoScheduleParams =
  p_b_enable :: u8
  p_b_skip_submit :: u8
  p_b_skip_enable :: u8

definition Nva06cCtrlGpfifoScheduleParams_layout :: "fty list" where
  "Nva06cCtrlGpfifoScheduleParams_layout = [FU8, FU8, FU8]"

definition Nva06cCtrlGpfifoScheduleParams_pod :: "Nva06cCtrlGpfifoScheduleParams pod" where
  "Nva06cCtrlGpfifoScheduleParams_pod =
     \<lparr>pod_size = size_of (FStruct Nva06cCtrlGpfifoScheduleParams_layout),
      pod_read = (\<lambda>bs. \<lparr>p_b_enable = get_u8 (field_at Nva06cCtrlGpfifoScheduleParams_layout bs 0),
      p_b_skip_submit = get_u8 (field_at Nva06cCtrlGpfifoScheduleParams_layout bs 1),
      p_b_skip_enable = get_u8 (field_at Nva06cCtrlGpfifoScheduleParams_layout bs 2)\<rparr>)\<rparr>"

record Nva06cCtrlTimesliceParams =
  p_timeslice_us :: u64

definition Nva06cCtrlTimesliceParams_layout :: "fty list" where
  "Nva06cCtrlTimesliceParams_layout = [FU64]"

definition Nva06cCtrlTimesliceParams_pod :: "Nva06cCtrlTimesliceParams pod" where
  "Nva06cCtrlTimesliceParams_pod =
     \<lparr>pod_size = size_of (FStruct Nva06cCtrlTimesliceParams_layout),
      pod_read = (\<lambda>bs. \<lparr>p_timeslice_us = get_u64 (field_at Nva06cCtrlTimesliceParams_layout bs 0)\<rparr>)\<rparr>"

record Nva06cCtrlPreemptParams =
  p_b_wait :: u8
  p_b_manual_timeout :: u8
  p_pad0 :: "u8 list"
  p_timeout_us :: u32

definition Nva06cCtrlPreemptParams_layout :: "fty list" where
  "Nva06cCtrlPreemptParams_layout = [FU8, FU8, FArr 2 FU8, FU32]"

definition Nva06cCtrlPreemptParams_pod :: "Nva06cCtrlPreemptParams pod" where
  "Nva06cCtrlPreemptParams_pod =
     \<lparr>pod_size = size_of (FStruct Nva06cCtrlPreemptParams_layout),
      pod_read = (\<lambda>bs. \<lparr>p_b_wait = get_u8 (field_at Nva06cCtrlPreemptParams_layout bs 0),
      p_b_manual_timeout = get_u8 (field_at Nva06cCtrlPreemptParams_layout bs 1),
      p_pad0 = take 2 (field_at Nva06cCtrlPreemptParams_layout bs 2),
      p_timeout_us = get_u32 (field_at Nva06cCtrlPreemptParams_layout bs 3)\<rparr>)\<rparr>"

record Nv83deCtrlDebugSetExceptionMaskParams =
  p_exception_mask :: u32

definition Nv83deCtrlDebugSetExceptionMaskParams_layout :: "fty list" where
  "Nv83deCtrlDebugSetExceptionMaskParams_layout = [FU32]"

definition Nv83deCtrlDebugSetExceptionMaskParams_pod :: "Nv83deCtrlDebugSetExceptionMaskParams pod" where
  "Nv83deCtrlDebugSetExceptionMaskParams_pod =
     \<lparr>pod_size = size_of (FStruct Nv83deCtrlDebugSetExceptionMaskParams_layout),
      pod_read = (\<lambda>bs. \<lparr>p_exception_mask = get_u32 (field_at Nv83deCtrlDebugSetExceptionMaskParams_layout bs 0)\<rparr>)\<rparr>"

record Nv2080CtrlPerfBoostParams =
  p_flags :: u32
  p_duration :: u32

definition Nv2080CtrlPerfBoostParams_layout :: "fty list" where
  "Nv2080CtrlPerfBoostParams_layout = [FU32, FU32]"

definition Nv2080CtrlPerfBoostParams_pod :: "Nv2080CtrlPerfBoostParams pod" where
  "Nv2080CtrlPerfBoostParams_pod =
     \<lparr>pod_size = size_of (FStruct Nv2080CtrlPerfBoostParams_layout),
      pod_read = (\<lambda>bs. \<lparr>p_flags = get_u32 (field_at Nv2080CtrlPerfBoostParams_layout bs 0),
      p_duration = get_u32 (field_at Nv2080CtrlPerfBoostParams_layout bs 1)\<rparr>)\<rparr>"

lemmas rm_layouts = RmI2cAccessParams_layout_def RmIdleChannelsParams_layout_def RmVidHeapControlPrefix_layout_def
  RmVidHeapAllocSizeData_layout_def RmVidHeapFreeData_layout_def
  RmVidHeapAllocOsDescData_layout_def RmAccessRegistryParams_layout_def
  RmAllocContextDma2Params_layout_def RmGetEventDataParams_layout_def RmUnixEvent_layout_def
  RmMapMemoryDmaParams_layout_def RmUnmapMemoryDmaParams_layout_def
  RmBindContextDmaParams_layout_def RmDupObjectParams_layout_def
  RmUpdateDeviceMappingInfoParams_layout_def RsAccessMask_layout_def RsSharePolicy_layout_def
  RmShareParams_layout_def RmAddVblankCallbackParams_layout_def
  Nv0000CtrlSystemGetFeaturesParams_layout_def
  Nv0000CtrlClientSetInheritedSharePolicyParams_layout_def
  Nv0000CtrlGpuGetAttachedIdsParams_layout_def Nv0000CtrlGpuGetIdInfoParams_layout_def
  Nv0000CtrlGpuGetIdInfoV2Params_layout_def Nv0000CtrlGpuGetProbedIdsParams_layout_def
  Nv0000CtrlGpuAttachIdsParams_layout_def Nv0000CtrlGpuActiveDevice_layout_def
  Nv0000CtrlGpuGetActiveDeviceIdsParams_layout_def
  Nv0000CtrlSystemGetFabricStatusParams_layout_def Nv0000CtrlGpuGetMemopEnableParams_layout_def
  Nv0000CtrlSystemGetP2PCapsMatrixParams_layout_def Nv0080CtrlHostGetCapsV2Params_layout_def
  Nv0080CtrlGpuGetNumSubdevicesParams_layout_def Nv0080CtrlGpuGetClasslistV2Params_layout_def
  Nv0080CtrlGpuGetVirtualizationModeParams_layout_def
  Nv0080CtrlFifoGetChannellistParams_layout_def Nv0080CtrlPerfCudaLimitControlParams_layout_def
  Nv0080CtrlFbGetCapsV2Params_layout_def Nv2080CtrlGrRouteInfo_layout_def
  Nv0080CtrlGrGetCapsV2Params_layout_def Nv906fCtrlGetClassEngineIdParams_layout_def
  Nvc36fCtrlCmdGpfifoGetWorkSubmitTokenParams_layout_def Nv2080CtrlMcGetArchInfoParams_layout_def
  NvxxxxCtrlXxxInfo_layout_def Nv2080CtrlGpuGetInfoV2Params_layout_def
  Nv2080CtrlGpuGetNameStringParams_layout_def Nv2080CtrlGpuGetShortNameStringParams_layout_def
  Nv2080CtrlGpuGetSimulationInfoParams_layout_def Nv2080CtrlGpuGetEnginesV2Params_layout_def
  Nv2080CtrlGpuQueryComputeModeRulesParams_layout_def
  Nv2080CtrlGpuQueryEccExceptionStatus_layout_def Nv2080CtrlGpuQueryEccUnitStatus_layout_def
  Nv2080CtrlGpuQueryEccStatusParams_layout_def Nv2080CtrlGpuGetGidInfoParams_layout_def
  Nv2080CtrlFbGetInfoV2Params_layout_def Nv2080CtrlBusGetInfoV2Params_layout_def
  Nv2080CtrlBusGetC2cInfoParams_layout_def Nv2080CtrlBusGetPciInfoParams_layout_def
  Nv2080CtrlBusPciBarInfo_layout_def Nv2080CtrlBusGetPciBarInfoParams_layout_def
  Nv2080CtrlBusPcieGpuAtomicOpInfo_layout_def
  Nv2080CtrlCmdBusGetPcieSupportedGpuAtomicsParams_layout_def Nv2080CtrlGrGetInfoParams_layout_def
  Nv2080CtrlGrGlobalSmId_layout_def Nv2080CtrlGrGetGlobalSmOrderParams_layout_def
  Nv2080CtrlGrGetGpcMaskParams_layout_def Nv2080CtrlGrGetTpcMaskParams_layout_def
  Nv2080CtrlGrSetCtxswPreemptionModeParams_layout_def
  Nv2080CtrlGrGetCtxBufferSizeParams_layout_def Nv2080CtrlCeGetAllCapsParams_layout_def
  Nv2080CtrlGspGetFeaturesParams_layout_def Nv2080CtrlGrmgrGrFsInfoQueryParams_layout_def
  Nv2080CtrlGrmgrGetGrFsInfoParams_layout_def Nv2080CtrlNvlinkLinkMask_layout_def
  Nv2080CtrlNvlinkGetNvlinkStatusParamsPrefix_layout_def
  NvConfComputeCtrlCmdSystemGetCapabilitiesParams_layout_def
  Nv0000SyncGpuBoostGroupConfig_layout_def Nv0000SyncGpuBoostGroupInfoParams_layout_def
  Nva06cCtrlGpfifoScheduleParams_layout_def Nva06cCtrlTimesliceParams_layout_def
  Nva06cCtrlPreemptParams_layout_def Nv83deCtrlDebugSetExceptionMaskParams_layout_def
  Nv2080CtrlPerfBoostParams_layout_def

lemmas rm_pods = RmI2cAccessParams_pod_def RmIdleChannelsParams_pod_def RmVidHeapControlPrefix_pod_def
  RmVidHeapAllocSizeData_pod_def RmVidHeapFreeData_pod_def RmVidHeapAllocOsDescData_pod_def
  RmAccessRegistryParams_pod_def RmAllocContextDma2Params_pod_def RmGetEventDataParams_pod_def
  RmUnixEvent_pod_def RmMapMemoryDmaParams_pod_def RmUnmapMemoryDmaParams_pod_def
  RmBindContextDmaParams_pod_def RmDupObjectParams_pod_def RmUpdateDeviceMappingInfoParams_pod_def
  RsAccessMask_pod_def RsSharePolicy_pod_def RmShareParams_pod_def
  RmAddVblankCallbackParams_pod_def Nv0000CtrlSystemGetFeaturesParams_pod_def
  Nv0000CtrlClientSetInheritedSharePolicyParams_pod_def Nv0000CtrlGpuGetAttachedIdsParams_pod_def
  Nv0000CtrlGpuGetIdInfoParams_pod_def Nv0000CtrlGpuGetIdInfoV2Params_pod_def
  Nv0000CtrlGpuGetProbedIdsParams_pod_def Nv0000CtrlGpuAttachIdsParams_pod_def
  Nv0000CtrlGpuActiveDevice_pod_def Nv0000CtrlGpuGetActiveDeviceIdsParams_pod_def
  Nv0000CtrlSystemGetFabricStatusParams_pod_def Nv0000CtrlGpuGetMemopEnableParams_pod_def
  Nv0000CtrlSystemGetP2PCapsMatrixParams_pod_def Nv0080CtrlHostGetCapsV2Params_pod_def
  Nv0080CtrlGpuGetNumSubdevicesParams_pod_def Nv0080CtrlGpuGetClasslistV2Params_pod_def
  Nv0080CtrlGpuGetVirtualizationModeParams_pod_def Nv0080CtrlFifoGetChannellistParams_pod_def
  Nv0080CtrlPerfCudaLimitControlParams_pod_def Nv0080CtrlFbGetCapsV2Params_pod_def
  Nv2080CtrlGrRouteInfo_pod_def Nv0080CtrlGrGetCapsV2Params_pod_def
  Nv906fCtrlGetClassEngineIdParams_pod_def Nvc36fCtrlCmdGpfifoGetWorkSubmitTokenParams_pod_def
  Nv2080CtrlMcGetArchInfoParams_pod_def NvxxxxCtrlXxxInfo_pod_def
  Nv2080CtrlGpuGetInfoV2Params_pod_def Nv2080CtrlGpuGetNameStringParams_pod_def
  Nv2080CtrlGpuGetShortNameStringParams_pod_def Nv2080CtrlGpuGetSimulationInfoParams_pod_def
  Nv2080CtrlGpuGetEnginesV2Params_pod_def Nv2080CtrlGpuQueryComputeModeRulesParams_pod_def
  Nv2080CtrlGpuQueryEccExceptionStatus_pod_def Nv2080CtrlGpuQueryEccUnitStatus_pod_def
  Nv2080CtrlGpuQueryEccStatusParams_pod_def Nv2080CtrlGpuGetGidInfoParams_pod_def
  Nv2080CtrlFbGetInfoV2Params_pod_def Nv2080CtrlBusGetInfoV2Params_pod_def
  Nv2080CtrlBusGetC2cInfoParams_pod_def Nv2080CtrlBusGetPciInfoParams_pod_def
  Nv2080CtrlBusPciBarInfo_pod_def Nv2080CtrlBusGetPciBarInfoParams_pod_def
  Nv2080CtrlBusPcieGpuAtomicOpInfo_pod_def
  Nv2080CtrlCmdBusGetPcieSupportedGpuAtomicsParams_pod_def Nv2080CtrlGrGetInfoParams_pod_def
  Nv2080CtrlGrGlobalSmId_pod_def Nv2080CtrlGrGetGlobalSmOrderParams_pod_def
  Nv2080CtrlGrGetGpcMaskParams_pod_def Nv2080CtrlGrGetTpcMaskParams_pod_def
  Nv2080CtrlGrSetCtxswPreemptionModeParams_pod_def Nv2080CtrlGrGetCtxBufferSizeParams_pod_def
  Nv2080CtrlCeGetAllCapsParams_pod_def Nv2080CtrlGspGetFeaturesParams_pod_def
  Nv2080CtrlGrmgrGrFsInfoQueryParams_pod_def Nv2080CtrlGrmgrGetGrFsInfoParams_pod_def
  Nv2080CtrlNvlinkLinkMask_pod_def Nv2080CtrlNvlinkGetNvlinkStatusParamsPrefix_pod_def
  NvConfComputeCtrlCmdSystemGetCapabilitiesParams_pod_def Nv0000SyncGpuBoostGroupConfig_pod_def
  Nv0000SyncGpuBoostGroupInfoParams_pod_def Nva06cCtrlGpfifoScheduleParams_pod_def
  Nva06cCtrlTimesliceParams_pod_def Nva06cCtrlPreemptParams_pod_def
  Nv83deCtrlDebugSetExceptionMaskParams_pod_def Nv2080CtrlPerfBoostParams_pod_def

end
