(* ===== verification/Rm_Names.thy ===== *)
theory Rm_Names
  imports Rm_Structs Json Uvm
begin

text \<open>
  The tables of names of \<open>src/decode/ioctl_rm.rs\<close>, the strings it reads, and the arrays it prints. A
  \<open>match\<close> over constants is the table of its arms. What \<open>build.rs\<close> writes into
  \<open>generated_nvidia_ioctl_tables.rs\<close> is a parameter, the record \<open>generated_tables\<close>; the \<open>OnceLock\<close>s that
  keep the maps made of it hold the value of a pure function.
\<close>

subsection \<open>Names\<close>

record generated_tables =
  GENERATED_NV_ESC_CMD_NAMES :: "(u32 \<times> string) list"
  GENERATED_RM_CONTROL_CMD_NAMES :: "(u32 \<times> string) list"
  GENERATED_RM_INTERFACE_NAMES :: "(u32 \<times> string) list"

text \<open>\<open>entry(k).or_insert(v)\<close>.\<close>

definition or_insert :: "'k \<times> 'v \<Rightarrow> ('k \<Rightarrow> 'v option) \<Rightarrow> 'k \<Rightarrow> 'v option" where
  "or_insert e m = (let (k, v) = e in if m k = None then m(k \<mapsto> v) else m)"

definition load_extra_nv_esc_cmd_names :: "generated_tables \<Rightarrow> u32 \<Rightarrow> string option" where
  "load_extra_nv_esc_cmd_names tables = fold or_insert (GENERATED_NV_ESC_CMD_NAMES tables) Map.empty"

definition generated_nv_esc_cmd_name :: "generated_tables \<Rightarrow> u32 \<Rightarrow> string option" where
  "generated_nv_esc_cmd_name tables nr = load_extra_nv_esc_cmd_names tables nr"

definition outer_cmd_names :: "(u32 \<times> string) list" where
  "outer_cmd_names =
     [(NV_ESC_RM_ALLOC_MEMORY, ''NV_ESC_RM_ALLOC_MEMORY''),
      (NV_ESC_RM_ALLOC_OBJECT, ''NV_ESC_RM_ALLOC_OBJECT''), (NV_ESC_RM_FREE, ''NV_ESC_RM_FREE''),
      (NV_ESC_RM_CONTROL, ''NV_ESC_RM_CONTROL''), (NV_ESC_RM_ALLOC, ''NV_ESC_RM_ALLOC''),
      (NV_ESC_RM_CONFIG_GET, ''NV_ESC_RM_CONFIG_GET''),
      (NV_ESC_RM_CONFIG_SET, ''NV_ESC_RM_CONFIG_SET''),
      (NV_ESC_RM_DUP_OBJECT, ''NV_ESC_RM_DUP_OBJECT''), (NV_ESC_RM_SHARE, ''NV_ESC_RM_SHARE''),
      (NV_ESC_RM_CONFIG_GET_EX, ''NV_ESC_RM_CONFIG_GET_EX''),
      (NV_ESC_RM_CONFIG_SET_EX, ''NV_ESC_RM_CONFIG_SET_EX''),
      (NV_ESC_RM_I2C_ACCESS, ''NV_ESC_RM_I2C_ACCESS''),
      (NV_ESC_RM_IDLE_CHANNELS, ''NV_ESC_RM_IDLE_CHANNELS''),
      (NV_ESC_RM_VID_HEAP_CONTROL, ''NV_ESC_RM_VID_HEAP_CONTROL''),
      (NV_ESC_RM_ACCESS_REGISTRY, ''NV_ESC_RM_ACCESS_REGISTRY''),
      (NV_ESC_RM_MAP_MEMORY, ''NV_ESC_RM_MAP_MEMORY''),
      (NV_ESC_RM_UNMAP_MEMORY, ''NV_ESC_RM_UNMAP_MEMORY''),
      (NV_ESC_RM_GET_EVENT_DATA, ''NV_ESC_RM_GET_EVENT_DATA''),
      (NV_ESC_RM_ALLOC_CONTEXT_DMA2, ''NV_ESC_RM_ALLOC_CONTEXT_DMA2''),
      (NV_ESC_RM_ADD_VBLANK_CALLBACK, ''NV_ESC_RM_ADD_VBLANK_CALLBACK''),
      (NV_ESC_RM_MAP_MEMORY_DMA, ''NV_ESC_RM_MAP_MEMORY_DMA''),
      (NV_ESC_RM_UNMAP_MEMORY_DMA, ''NV_ESC_RM_UNMAP_MEMORY_DMA''),
      (NV_ESC_RM_BIND_CONTEXT_DMA, ''NV_ESC_RM_BIND_CONTEXT_DMA''),
      (NV_ESC_RM_EXPORT_OBJECT_TO_FD, ''NV_ESC_RM_EXPORT_OBJECT_TO_FD''),
      (NV_ESC_RM_IMPORT_OBJECT_FROM_FD, ''NV_ESC_RM_IMPORT_OBJECT_FROM_FD''),
      (NV_ESC_RM_UPDATE_DEVICE_MAPPING_INFO, ''NV_ESC_RM_UPDATE_DEVICE_MAPPING_INFO''),
      (NV_ESC_RM_LOCKLESS_DIAGNOSTIC, ''NV_ESC_RM_LOCKLESS_DIAGNOSTIC''),
      (NV_ESC_CARD_INFO, ''NV_ESC_CARD_INFO''), (NV_ESC_REGISTER_FD, ''NV_ESC_REGISTER_FD''),
      (NV_ESC_ALLOC_OS_EVENT, ''NV_ESC_ALLOC_OS_EVENT''),
      (NV_ESC_FREE_OS_EVENT, ''NV_ESC_FREE_OS_EVENT''),
      (NV_ESC_STATUS_CODE, ''NV_ESC_STATUS_CODE''),
      (NV_ESC_CHECK_VERSION_STR, ''NV_ESC_CHECK_VERSION_STR''),
      (NV_ESC_IOCTL_XFER_CMD, ''NV_ESC_IOCTL_XFER_CMD''),
      (NV_ESC_ATTACH_GPUS_TO_FD, ''NV_ESC_ATTACH_GPUS_TO_FD''),
      (NV_ESC_QUERY_DEVICE_INTR, ''NV_ESC_QUERY_DEVICE_INTR''),
      (NV_ESC_SYS_PARAMS, ''NV_ESC_SYS_PARAMS''), (NV_ESC_NUMA_INFO, ''NV_ESC_NUMA_INFO''),
      (NV_ESC_SET_NUMA_STATUS, ''NV_ESC_SET_NUMA_STATUS''),
      (NV_ESC_EXPORT_TO_DMABUF_FD, ''NV_ESC_EXPORT_TO_DMABUF_FD''),
      (NV_ESC_WAIT_OPEN_COMPLETE, ''NV_ESC_WAIT_OPEN_COMPLETE'')]"

definition outer_cmd_name :: "generated_tables \<Rightarrow> u8 \<Rightarrow> string" where
  "outer_cmd_name tables nr =
     (case map_of outer_cmd_names (ucast nr :: u32) of Some s \<Rightarrow> s | None \<Rightarrow> unwrap_or ''UNKNOWN'' (generated_nv_esc_cmd_name tables (ucast nr :: u32)))"

definition load_extra_rm_control_cmd_names :: "generated_tables \<Rightarrow> u32 \<Rightarrow> string option" where
  "load_extra_rm_control_cmd_names tables = fold or_insert (GENERATED_RM_CONTROL_CMD_NAMES tables) Map.empty"

definition generated_rm_control_cmd_name :: "generated_tables \<Rightarrow> u32 \<Rightarrow> string option" where
  "generated_rm_control_cmd_name tables cmd = load_extra_rm_control_cmd_names tables cmd"

definition load_extra_rm_interface_names :: "generated_tables \<Rightarrow> u32 \<Rightarrow> string option" where
  "load_extra_rm_interface_names tables = fold or_insert (GENERATED_RM_INTERFACE_NAMES tables) Map.empty"

definition generated_rm_interface_name :: "generated_tables \<Rightarrow> u32 \<Rightarrow> string option" where
  "generated_rm_interface_name tables interface_id = load_extra_rm_interface_names tables interface_id"

definition legacy_families :: "(u8 \<times> string) list" where
  "legacy_families =
     [(0x81, ''GPU_LEGACY_NON_PRIVILEGED''), (0x82, ''FUSE_LEGACY_NON_PRIVILEGED''),
      (0x85, ''THERMAL_LEGACY_NON_PRIVILEGED''), (0x90, ''CLK_LEGACY_NON_PRIVILEGED''),
      (0xa0, ''PERF_LEGACY_NON_PRIVILEGED''), (0xa3, ''GPIO_LEGACY_NON_PRIVILEGED''),
      (0xa6, ''PMGR_LEGACY_NON_PRIVILEGED''), (0xa7, ''POWER_LEGACY_NON_PRIVILEGED''),
      (0xa8, ''LPWR_LEGACY_NON_PRIVILEGED''), (0xb2, ''VOLT_LEGACY_NON_PRIVILEGED''),
      (0xb4, ''ECC_NON_PRIVILEGED''), (0xb7, ''NNE_LEGACY_NON_PRIVILEGED''),
      (0xc5, ''THERMAL_LEGACY_PRIVILEGED''), (0xd0, ''CLK_LEGACY_PRIVILEGED''),
      (0xe0, ''PERF_LEGACY_PRIVILEGED''), (0xe6, ''PMGR_LEGACY_PRIVILEGED''),
      (0xe8, ''LPWR_LEGACY_PRIVILEGED''), (0xf2, ''VOLT_LEGACY_PRIVILEGED'')]"

definition rm_control_legacy_family_and_msg_id :: "u32 \<Rightarrow> (string \<times> u8) option" where
  "rm_control_legacy_family_and_msg_id cmd =
     (if drop_bit 16 cmd \<noteq> 0x2080 then None
      else
        let interface = (ucast (drop_bit 8 cmd AND 0xff) :: u8);
            msg_id = (ucast (cmd AND 0xff) :: u8)
        in case map_of legacy_families interface of
             None \<Rightarrow> None
           | Some family \<Rightarrow> Some (family, msg_id))"

definition nv2080_interface_names :: "(u8 \<times> string) list" where
  "nv2080_interface_names =
     [(0x00, ''RESERVED''), (0x01, ''GPU''), (0x81, ''GPU_LEGACY_NON_PRIVILEGED''),
      (0x02, ''FUSE''), (0x82, ''FUSE_LEGACY_NON_PRIVILEGED''), (0x03, ''EVENT''),
      (0x04, ''TIMER''), (0x05, ''THERMAL''), (0xc5, ''THERMAL_LEGACY_PRIVILEGED''),
      (0x85, ''THERMAL_LEGACY_NON_PRIVILEGED''), (0x06, ''I2C''), (0x07, ''EXTI2C''),
      (0x08, ''BIOS''), (0x09, ''CIPHER''), (0x0a, ''INTERNAL''),
      (0xd0, ''CLK_LEGACY_PRIVILEGED''), (0x90, ''CLK_LEGACY_NON_PRIVILEGED''), (0x10, ''CLK''),
      (0x11, ''FIFO''), (0x12, ''GR''), (0x13, ''FB''), (0x17, ''MC''), (0x18, ''BUS''),
      (0xe0, ''PERF_LEGACY_PRIVILEGED''), (0xa0, ''PERF_LEGACY_NON_PRIVILEGED''),
      (0x20, ''PERF''), (0x21, ''NVIF''), (0x22, ''RC''), (0x23, ''GPIO''),
      (0xa3, ''GPIO_LEGACY_NON_PRIVILEGED''), (0x24, ''NVD''), (0x25, ''DMA''), (0x26, ''PMGR''),
      (0xe6, ''PMGR_LEGACY_PRIVILEGED''), (0xa6, ''PMGR_LEGACY_NON_PRIVILEGED''),
      (0x27, ''POWER''), (0xa7, ''POWER_LEGACY_NON_PRIVILEGED''), (0x28, ''LPWR''),
      (0xa8, ''LPWR_LEGACY_NON_PRIVILEGED''), (0xe8, ''LPWR_LEGACY_PRIVILEGED''), (0x29, ''ACR''),
      (0x2a, ''CE''), (0x2b, ''SPI''), (0x30, ''NVLINK''), (0x31, ''FLCN''), (0x32, ''VOLT''),
      (0xf2, ''VOLT_LEGACY_PRIVILEGED''), (0xb2, ''VOLT_LEGACY_NON_PRIVILEGED''), (0x33, ''FAS''),
      (0x34, ''ECC''), (0xb4, ''ECC_NON_PRIVILEGED''), (0x35, ''FLA''), (0x36, ''GSP''),
      (0x37, ''NNE''), (0xb7, ''NNE_LEGACY_NON_PRIVILEGED''), (0x38, ''GRMGR''),
      (0x39, ''UCODE_FUZZER''), (0x3a, ''DMABUF''), (0x3b, ''BIF''), (0x3d, ''OS_UNIX''),
      (0x3e, ''OS_MACOS''), (0x3f, ''OS_WINDOWS'')]"

definition nv2080_interface_name :: "u8 \<Rightarrow> string option" where
  "nv2080_interface_name interface =
     map_of nv2080_interface_names interface"

definition rm_control_interface_name :: "u32 \<Rightarrow> string option" where
  "rm_control_interface_name cmd =
     (if drop_bit 16 cmd \<noteq> 0x2080 then
        None
      else
        nv2080_interface_name (ucast (drop_bit 8 cmd AND 0xff) :: u8))"

definition rm_control_cmd_name_fallback :: "generated_tables \<Rightarrow> u32 \<Rightarrow> string" where
  "rm_control_cmd_name_fallback tables cmd =
     (case rm_control_legacy_family_and_msg_id cmd of
        Some (family, msg_id) \<Rightarrow>
          ''NV2080_CTRL_CMD_'' @ family @ ''_0x'' @ hex_pad 2 (unat msg_id)
      | None \<Rightarrow>
          (case rm_control_interface_name cmd of
             Some interface_name \<Rightarrow>
               (let msg_id = (ucast (cmd AND 0xff) :: u8)
                in ''NV2080_CTRL_CMD_'' @ interface_name @ ''_0x'' @ hex_pad 2 (unat msg_id))
           | None \<Rightarrow>
               (let interface_id = drop_bit 8 cmd;
                    msg_id = (ucast (cmd AND 0xff) :: u8)
                in (case generated_rm_interface_name tables interface_id of
                      Some interface_name \<Rightarrow>
                        interface_name @ ''_CMD_0x'' @ hex_pad 2 (unat msg_id)
                    | None \<Rightarrow>
                        ''UNKNOWN''))))"

definition rm_control_cmd_names :: "(u32 \<times> string) list" where
  "rm_control_cmd_names =
     [(NV0000_CTRL_CMD_SYSTEM_GET_BUILD_VERSION, ''NV0000_CTRL_CMD_SYSTEM_GET_BUILD_VERSION''),
      (NV0000_CTRL_CMD_SYSTEM_GET_FABRIC_STATUS, ''NV0000_CTRL_CMD_SYSTEM_GET_FABRIC_STATUS''),
      (NV0000_CTRL_CMD_SYSTEM_GET_P2P_CAPS_MATRIX, ''NV0000_CTRL_CMD_SYSTEM_GET_P2P_CAPS_MATRIX''),
      (NV0000_CTRL_CMD_CLIENT_GET_ADDR_SPACE_TYPE, ''NV0000_CTRL_CMD_CLIENT_GET_ADDR_SPACE_TYPE''),
      (NV0000_CTRL_CMD_OS_UNIX_GET_CONTROL_FILE_DESCRIPTOR, ''NV0000_CTRL_CMD_OS_UNIX_GET_CONTROL_FILE_DESCRIPTOR''),
      (NV0000_CTRL_CMD_CLIENT_SET_INHERITED_SHARE_POLICY, ''NV0000_CTRL_CMD_CLIENT_SET_INHERITED_SHARE_POLICY''),
      (NV0000_CTRL_CMD_SYSTEM_GET_FEATURES, ''NV0000_CTRL_CMD_SYSTEM_GET_FEATURES''),
      (NV0000_CTRL_CMD_GPU_GET_MEMOP_ENABLE, ''NV0000_CTRL_CMD_GPU_GET_MEMOP_ENABLE''),
      (NV0000_CTRL_CMD_GPU_GET_ATTACHED_IDS, ''NV0000_CTRL_CMD_GPU_GET_ATTACHED_IDS''),
      (NV0000_CTRL_CMD_GPU_GET_ID_INFO, ''NV0000_CTRL_CMD_GPU_GET_ID_INFO''),
      (NV0000_CTRL_CMD_GPU_GET_ID_INFO_V2, ''NV0000_CTRL_CMD_GPU_GET_ID_INFO_V2''),
      (NV0000_CTRL_CMD_GPU_GET_PROBED_IDS, ''NV0000_CTRL_CMD_GPU_GET_PROBED_IDS''),
      (NV0000_CTRL_CMD_GPU_ATTACH_IDS, ''NV0000_CTRL_CMD_GPU_ATTACH_IDS''),
      (NV0000_CTRL_CMD_GPU_GET_ACTIVE_DEVICE_IDS, ''NV0000_CTRL_CMD_GPU_GET_ACTIVE_DEVICE_IDS''),
      (NV0000_CTRL_CMD_SYNC_GPU_BOOST_GROUP_INFO, ''NV0000_CTRL_CMD_SYNC_GPU_BOOST_GROUP_INFO''),
      (NV0080_CTRL_CMD_HOST_GET_CAPS_V2, ''NV0080_CTRL_CMD_HOST_GET_CAPS_V2''),
      (NV0080_CTRL_CMD_GPU_GET_NUM_SUBDEVICES, ''NV0080_CTRL_CMD_GPU_GET_NUM_SUBDEVICES''),
      (NV0080_CTRL_CMD_GPU_GET_CLASSLIST_V2, ''NV0080_CTRL_CMD_GPU_GET_CLASSLIST_V2''),
      (NV0080_CTRL_CMD_GPU_GET_VIRTUALIZATION_MODE, ''NV0080_CTRL_CMD_GPU_GET_VIRTUALIZATION_MODE''),
      (NV0080_CTRL_CMD_FIFO_GET_CHANNELLIST, ''NV0080_CTRL_CMD_FIFO_GET_CHANNELLIST''),
      (NV0080_CTRL_CMD_PERF_CUDA_LIMIT_SET_CONTROL, ''NV0080_CTRL_CMD_PERF_CUDA_LIMIT_SET_CONTROL''),
      (NV0080_CTRL_CMD_FB_GET_CAPS_V2, ''NV0080_CTRL_CMD_FB_GET_CAPS_V2''),
      (NV906F_CTRL_GET_CLASS_ENGINEID, ''NV906F_CTRL_GET_CLASS_ENGINEID''),
      (NVC36F_CTRL_CMD_GPFIFO_GET_WORK_SUBMIT_TOKEN, ''NVC36F_CTRL_CMD_GPFIFO_GET_WORK_SUBMIT_TOKEN''),
      (NV2080_CTRL_CMD_GPU_GET_INFO_V2, ''NV2080_CTRL_CMD_GPU_GET_INFO_V2''),
      (NV2080_CTRL_CMD_GPU_GET_NAME_STRING, ''NV2080_CTRL_CMD_GPU_GET_NAME_STRING''),
      (NV2080_CTRL_CMD_GPU_GET_SHORT_NAME_STRING, ''NV2080_CTRL_CMD_GPU_GET_SHORT_NAME_STRING''),
      (NV2080_CTRL_CMD_GPU_GET_SIMULATION_INFO, ''NV2080_CTRL_CMD_GPU_GET_SIMULATION_INFO''),
      (NV2080_CTRL_CMD_GPU_QUERY_ECC_STATUS, ''NV2080_CTRL_CMD_GPU_QUERY_ECC_STATUS''),
      (NV2080_CTRL_CMD_GPU_QUERY_COMPUTE_MODE_RULES, ''NV2080_CTRL_CMD_GPU_QUERY_COMPUTE_MODE_RULES''),
      (NV2080_CTRL_CMD_GPU_GET_GID_INFO, ''NV2080_CTRL_CMD_GPU_GET_GID_INFO''),
      (NV2080_CTRL_CMD_GPU_GET_ENGINES_V2, ''NV2080_CTRL_CMD_GPU_GET_ENGINES_V2''),
      (NV2080_CTRL_CMD_GR_GET_INFO, ''NV2080_CTRL_CMD_GR_GET_INFO''),
      (NV2080_CTRL_CMD_GR_GET_GLOBAL_SM_ORDER, ''NV2080_CTRL_CMD_GR_GET_GLOBAL_SM_ORDER''),
      (NV2080_CTRL_CMD_GR_GET_CAPS_V2, ''NV2080_CTRL_CMD_GR_GET_CAPS_V2''),
      (NV2080_CTRL_CMD_GR_GET_GPC_MASK, ''NV2080_CTRL_CMD_GR_GET_GPC_MASK''),
      (NV2080_CTRL_CMD_GR_GET_TPC_MASK, ''NV2080_CTRL_CMD_GR_GET_TPC_MASK''),
      (NV2080_CTRL_CMD_GR_SET_CTXSW_PREEMPTION_MODE, ''NV2080_CTRL_CMD_GR_SET_CTXSW_PREEMPTION_MODE''),
      (NV2080_CTRL_CMD_GR_GET_CTX_BUFFER_SIZE, ''NV2080_CTRL_CMD_GR_GET_CTX_BUFFER_SIZE''),
      (NV2080_CTRL_CMD_FB_GET_INFO_V2, ''NV2080_CTRL_CMD_FB_GET_INFO_V2''),
      (NV2080_CTRL_CMD_MC_GET_ARCH_INFO, ''NV2080_CTRL_CMD_MC_GET_ARCH_INFO''),
      (NV2080_CTRL_CMD_BUS_GET_PCI_INFO, ''NV2080_CTRL_CMD_BUS_GET_PCI_INFO''),
      (NV2080_CTRL_CMD_BUS_GET_INFO_V2, ''NV2080_CTRL_CMD_BUS_GET_INFO_V2''),
      (NV2080_CTRL_CMD_BUS_GET_PCI_BAR_INFO, ''NV2080_CTRL_CMD_BUS_GET_PCI_BAR_INFO''),
      (NV2080_CTRL_CMD_BUS_GET_PCIE_SUPPORTED_GPU_ATOMICS, ''NV2080_CTRL_CMD_BUS_GET_PCIE_SUPPORTED_GPU_ATOMICS''),
      (NV2080_CTRL_CMD_BUS_GET_C2C_INFO, ''NV2080_CTRL_CMD_BUS_GET_C2C_INFO''),
      (NV2080_CTRL_CMD_PERF_BOOST, ''NV2080_CTRL_CMD_PERF_BOOST''),
      (NV2080_CTRL_CMD_CE_GET_ALL_CAPS, ''NV2080_CTRL_CMD_CE_GET_ALL_CAPS''),
      (NV2080_CTRL_CMD_NVLINK_GET_NVLINK_STATUS, ''NV2080_CTRL_CMD_NVLINK_GET_NVLINK_STATUS''),
      (NV2080_CTRL_CMD_GSP_GET_FEATURES, ''NV2080_CTRL_CMD_GSP_GET_FEATURES''),
      (NV2080_CTRL_CMD_GRMGR_GET_GR_FS_INFO, ''NV2080_CTRL_CMD_GRMGR_GET_GR_FS_INFO''),
      (NVA06C_CTRL_CMD_GPFIFO_SCHEDULE, ''NVA06C_CTRL_CMD_GPFIFO_SCHEDULE''),
      (NVA06C_CTRL_CMD_SET_TIMESLICE, ''NVA06C_CTRL_CMD_SET_TIMESLICE''),
      (NVA06C_CTRL_CMD_PREEMPT, ''NVA06C_CTRL_CMD_PREEMPT''),
      (NV83DE_CTRL_CMD_DEBUG_SET_EXCEPTION_MASK, ''NV83DE_CTRL_CMD_DEBUG_SET_EXCEPTION_MASK''),
      (NV_CONF_COMPUTE_CTRL_CMD_SYSTEM_GET_CAPABILITIES, ''NV_CONF_COMPUTE_CTRL_CMD_SYSTEM_GET_CAPABILITIES'')]"

definition rm_control_cmd_name :: "generated_tables \<Rightarrow> u32 \<Rightarrow> string" where
  "rm_control_cmd_name tables cmd =
     (case map_of rm_control_cmd_names cmd of Some s \<Rightarrow> s | None \<Rightarrow> unwrap_or (rm_control_cmd_name_fallback tables cmd) (generated_rm_control_cmd_name tables cmd))"

definition rm_control_params_type_name :: "string \<Rightarrow> string option" where
  "rm_control_params_type_name cmd_name =
     (if cmd_name = ''UNKNOWN'' then
        None
      else
        (case split_once_str ''_CMD_'' cmd_name of
           None \<Rightarrow> None
         | Some (prefix, suffix) \<Rightarrow>
             (if suffix = [] then
                None
              else
                Some (prefix @ ''_'' @ suffix @ ''_PARAMS''))))"

definition rm_vid_heap_function_names :: "(u32 \<times> string) list" where
  "rm_vid_heap_function_names =
     [(2, ''NVOS32_FUNCTION_ALLOC_SIZE''), (3, ''NVOS32_FUNCTION_FREE''),
      (5, ''NVOS32_FUNCTION_INFO''), (6, ''NVOS32_FUNCTION_ALLOC_TILED_PITCH_HEIGHT''),
      (14, ''NVOS32_FUNCTION_ALLOC_SIZE_RANGE''), (15, ''NVOS32_FUNCTION_REACQUIRE_COMPR''),
      (16, ''NVOS32_FUNCTION_RELEASE_COMPR''), (18, ''NVOS32_FUNCTION_GET_MEM_ALIGNMENT''),
      (19, ''NVOS32_FUNCTION_HW_ALLOC''), (20, ''NVOS32_FUNCTION_HW_FREE''),
      (27, ''NVOS32_FUNCTION_ALLOC_OS_DESCRIPTOR'')]"

definition rm_vid_heap_function_name :: "u32 \<Rightarrow> string" where
  "rm_vid_heap_function_name function =
     unwrap_or ''UNKNOWN'' (map_of rm_vid_heap_function_names function)"

definition virtualization_mode_names :: "(u32 \<times> string) list" where
  "virtualization_mode_names =
     [(0, ''NONE''), (1, ''NMOS''), (2, ''VGX''), (3, ''HOST/HOST_VGPU''), (4, ''HOST_VSGA'')]"

definition virtualization_mode_name :: "u32 \<Rightarrow> string" where
  "virtualization_mode_name mode =
     unwrap_or ''UNKNOWN'' (map_of virtualization_mode_names mode)"

definition fabric_status_names :: "(u32 \<times> string) list" where
  "fabric_status_names =
     [(1, ''SKIP''), (2, ''UNINITIALIZED''), (3, ''IN_PROGRESS''), (4, ''INITIALIZED'')]"

definition fabric_status_name :: "u32 \<Rightarrow> string" where
  "fabric_status_name value =
     unwrap_or ''UNKNOWN'' (map_of fabric_status_names value)"

definition simulation_info_type_names :: "(u32 \<times> string) list" where
  "simulation_info_type_names =
     [(0, ''NONE''), (1, ''MODS_AMODEL''), (2, ''LIVE_AMODEL''), (3, ''FMODEL''), (4, ''RTL''),
      (5, ''EMU''), (6, ''EMU_LOW_POWER''), (7, ''DFPGA''), (8, ''DFPGA_RTL''),
      (9, ''DFPGA_FMODEL''), (0xffffffff, ''UNKNOWN_FLAG'')]"

definition simulation_info_type_name :: "u32 \<Rightarrow> string" where
  "simulation_info_type_name value =
     unwrap_or ''UNKNOWN'' (map_of simulation_info_type_names value)"

definition compute_mode_rules_names :: "(u32 \<times> string) list" where
  "compute_mode_rules_names =
     [(0, ''NONE''), (1, ''EXCLUSIVE_COMPUTE''), (2, ''COMPUTE_PROHIBITED''),
      (3, ''EXCLUSIVE_COMPUTE_PROCESS'')]"

definition compute_mode_rules_name :: "u32 \<Rightarrow> string" where
  "compute_mode_rules_name value =
     unwrap_or ''UNKNOWN'' (map_of compute_mode_rules_names value)"

definition c2c_remote_type_names :: "(u32 \<times> string) list" where
  "c2c_remote_type_names =
     [(0, ''NONE''), (1, ''CPU''), (2, ''GPU'')]"

definition c2c_remote_type_name :: "u32 \<Rightarrow> string" where
  "c2c_remote_type_name value =
     unwrap_or ''UNKNOWN'' (map_of c2c_remote_type_names value)"

definition grmgr_query_type_names :: "(u32 \<times> string) list" where
  "grmgr_query_type_names =
     [(1, ''GPC_COUNT''), (2, ''CHIPLET_GPC_MAP''), (3, ''TPC_MASK''), (4, ''PPC_MASK''),
      (5, ''PARTITION_CHIPLET_GPC_MAP''), (6, ''CHIPLET_SYSPIPE_MASK''),
      (7, ''PARTITION_CHIPLET_SYSPIPE_IDS''), (8, ''PROFILER_MON_GPC_MASK''),
      (9, ''PARTITION_SYSPIPE_ID''), (10, ''ROP_MASK''), (11, ''CHIPLET_GRAPHICS_SYSPIPE_MASK''),
      (12, ''GFX_CAPABLE_GPC_MASK'')]"

definition grmgr_query_type_name :: "u16 \<Rightarrow> string" where
  "grmgr_query_type_name value =
     unwrap_or ''UNKNOWN'' (map_of grmgr_query_type_names (ucast value :: u32))"

definition pcie_atomic_op_names :: "(nat \<times> string) list" where
  "pcie_atomic_op_names =
     [(0, ''IADD''), (1, ''IMIN''), (2, ''IMAX''), (3, ''INC''), (4, ''DEC''), (5, ''IAND''),
      (6, ''IOR''), (7, ''IXOR''), (8, ''EXCH''), (9, ''CAS''), (10, ''FADD''), (11, ''FMIN''),
      (12, ''FMAX'')]"

definition pcie_atomic_op_name :: "usize \<Rightarrow> string" where
  "pcie_atomic_op_name index =
     unwrap_or ''UNKNOWN'' (map_of pcie_atomic_op_names index)"

definition rm_alloc_class_names :: "(i32 \<times> string) list" where
  "rm_alloc_class_names =
     [(NV01_ROOT, ''NV01_ROOT''), (NV01_ROOT_NON_PRIV, ''NV01_ROOT_NON_PRIV''),
      (NV01_ROOT_CLIENT, ''NV01_ROOT_CLIENT''), (0x0000003e, ''NV01_MEMORY_SYSTEM''),
      (0x00000040, ''NV01_MEMORY_LOCAL_USER''),
      (0x00000071, ''NV01_MEMORY_SYSTEM_OS_DESCRIPTOR''), (0x00000079, ''NV01_EVENT_OS_EVENT''),
      (0x00000080, ''NV01_DEVICE_0''), (0x000000de, ''RM_USER_SHARED_DATA''),
      (0x00002080, ''NV20_SUBDEVICE_0''), (0x00002081, ''NV2081_BINAPI''),
      (0x000050a0, ''NV50_MEMORY_VIRTUAL''), (0x000083de, ''GT200_DEBUGGER''),
      (0x00009067, ''FERMI_CONTEXT_SHARE_A''), (0x000090f1, ''FERMI_VASPACE_A''),
      (0x0000a06c, ''KEPLER_CHANNEL_GROUP_A''), (0x0000c461, ''TURING_USERMODE_A''),
      (0x0000c56f, ''AMPERE_CHANNEL_GPFIFO_A''), (0x0000c7b5, ''AMPERE_DMA_COPY_B''),
      (0x0000c7c0, ''AMPERE_COMPUTE_B''), (0x0000cb33, ''NV_CONFIDENTIAL_COMPUTE'')]"

definition rm_alloc_class_name :: "i32 \<Rightarrow> string option" where
  "rm_alloc_class_name class_id =
     map_of rm_alloc_class_names class_id"

definition nvos02_flags_physicality_names :: "(u32 \<times> string) list" where
  "nvos02_flags_physicality_names =
     [(0x0, ''CONTIGUOUS''), (0x1, ''NONCONTIGUOUS'')]"

definition nvos02_flags_physicality_name :: "u32 \<Rightarrow> string" where
  "nvos02_flags_physicality_name value =
     unwrap_or ''UNKNOWN'' (map_of nvos02_flags_physicality_names value)"

definition nvos02_flags_location_names :: "(u32 \<times> string) list" where
  "nvos02_flags_location_names =
     [(0x0, ''PCI''), (0x2, ''VIDMEM'')]"

definition nvos02_flags_location_name :: "u32 \<Rightarrow> string" where
  "nvos02_flags_location_name value =
     unwrap_or ''UNKNOWN'' (map_of nvos02_flags_location_names value)"

definition nvos02_flags_coherency_names :: "(u32 \<times> string) list" where
  "nvos02_flags_coherency_names =
     [(0x0, ''UNCACHED''), (0x1, ''CACHED''), (0x2, ''WRITE_COMBINE''), (0x3, ''WRITE_THROUGH''),
      (0x4, ''WRITE_PROTECT''), (0x5, ''WRITE_BACK'')]"

definition nvos02_flags_coherency_name :: "u32 \<Rightarrow> string" where
  "nvos02_flags_coherency_name value =
     unwrap_or ''UNKNOWN'' (map_of nvos02_flags_coherency_names value)"

definition nvos02_flags_alloc_names :: "(u32 \<times> string) list" where
  "nvos02_flags_alloc_names =
     [(0x0, ''DEFAULT''), (0x1, ''NONE'')]"

definition nvos02_flags_alloc_name :: "u32 \<Rightarrow> string" where
  "nvos02_flags_alloc_name value =
     unwrap_or ''UNKNOWN'' (map_of nvos02_flags_alloc_names value)"

definition nvos02_flags_mapping_names :: "(u32 \<times> string) list" where
  "nvos02_flags_mapping_names =
     [(0x0, ''DEFAULT''), (0x1, ''NO_MAP''), (0x2, ''NEVER_MAP'')]"

definition nvos02_flags_mapping_name :: "u32 \<Rightarrow> string" where
  "nvos02_flags_mapping_name value =
     unwrap_or ''UNKNOWN'' (map_of nvos02_flags_mapping_names value)"

definition addr_space_type_names :: "(u32 \<times> string) list" where
  "addr_space_type_names =
     [(NV0000_CTRL_CLIENT_GET_ADDR_SPACE_TYPE_INVALID, ''INVALID''),
      (NV0000_CTRL_CLIENT_GET_ADDR_SPACE_TYPE_SYSMEM, ''SYSMEM''),
      (NV0000_CTRL_CLIENT_GET_ADDR_SPACE_TYPE_VIDMEM, ''VIDMEM''),
      (NV0000_CTRL_CLIENT_GET_ADDR_SPACE_TYPE_REGMEM, ''REGMEM''),
      (NV0000_CTRL_CLIENT_GET_ADDR_SPACE_TYPE_FABRIC, ''FABRIC''),
      (NV0000_CTRL_CLIENT_GET_ADDR_SPACE_TYPE_FABRIC_MC, ''FABRIC_MC'')]"

definition addr_space_type_name :: "u32 \<Rightarrow> string" where
  "addr_space_type_name value =
     unwrap_or ''UNKNOWN'' (map_of addr_space_type_names value)"

subsection \<open>Strings and lists of the traced process\<close>

fun valid_gpu_ids :: "u32 list \<Rightarrow> u32 list" where
  "valid_gpu_ids [] = []"
| "valid_gpu_ids (gpu_id # all_ids) =
     (if gpu_id = 0xffffffff then [] else gpu_id # valid_gpu_ids all_ids)"

definition read_remote_string :: "remote \<Rightarrow> u64 \<Rightarrow> usize \<Rightarrow> usize \<Rightarrow> string option" where
  "read_remote_string rd ptr len max_blob =
     (if ptr = 0 \<or> len = 0 then None
      else
        let read_len = min len (max max_blob 32)
        in case read_bytes rd ptr read_len of
             None \<Rightarrow> None
           | Some bytes \<Rightarrow> Some (from_utf8_lossy (bytes_string (takeWhile (\<lambda>b. b \<noteq> 0) bytes))))"

definition read_c_string :: "u8 list \<Rightarrow> string" where
  "read_c_string bytes = from_utf8_lossy (bytes_string (takeWhile (\<lambda>b. b \<noteq> 0) bytes))"

definition read_utf16le_c_string :: "u8 list \<Rightarrow> string" where
  "read_utf16le_c_string bytes =
     from_utf16_lossy (takeWhile (\<lambda>v. v \<noteq> 0) (map get_u16 (chunks_exact 2 bytes)))"

subsection \<open>Arrays\<close>

definition json_u8_array :: "u8 list \<Rightarrow> string" where
  "json_u8_array values =
     json_elems (map (\<lambda>value. dec (unat value)) values)"

definition json_u8_hex_array :: "u8 list \<Rightarrow> string" where
  "json_u8_hex_array values =
     json_elems (map (\<lambda>value. [dquote] @ ''0x'' @ hex_pad 2 (unat value) @ [dquote]) values)"

definition json_u32_hex_array :: "u32 list \<Rightarrow> string" where
  "json_u32_hex_array values =
     json_elems (map (\<lambda>value. [dquote] @ hex0x (unat value) @ [dquote]) values)"

definition json_u32_matrix :: "nat \<Rightarrow> nat \<Rightarrow> u32 list list \<Rightarrow> usize \<Rightarrow> usize \<Rightarrow> string" where
  "json_u32_matrix R C values rows cols =
     (let row_count = min rows R;
          col_count = min cols C
      in json_elems (map (\<lambda>row_idx.
           json_elems (map (\<lambda>col_idx. dec (unat (values ! row_idx ! col_idx))) [0..<col_count])) [0..<row_count]))"

definition json_share_policy :: "RsSharePolicy \<Rightarrow> string" where
  "json_share_policy policy =
     (let obj = JsonObject_new;
          obj = field_str ''target'' (hex0x (unat (RsSharePolicy.p_target policy))) obj;
          obj = field_str ''accessMask'' (hex0x (unat ((RsAccessMask.p_limbs (RsSharePolicy.p_access_mask policy)) ! 0))) obj;
          obj = field_u64 ''type'' (ucast (RsSharePolicy.p_policy_type policy)) obj;
          obj = field_u64 ''action'' (ucast (RsSharePolicy.p_action policy)) obj
      in finish obj)"

definition json_active_device_array :: "Nv0000CtrlGpuActiveDevice list \<Rightarrow> string" where
  "json_active_device_array values =
     json_elems (map (\<lambda>value.
       (let obj = JsonObject_new;
            obj = field_u64 ''gpuId'' (ucast (Nv0000CtrlGpuActiveDevice.p_gpu_id value)) obj;
            obj = field_u64 ''gpuInstanceId'' (ucast (Nv0000CtrlGpuActiveDevice.p_gpu_instance_id value)) obj;
            obj = field_u64 ''computeInstanceId'' (ucast (Nv0000CtrlGpuActiveDevice.p_compute_instance_id value)) obj
        in finish obj)) values)"

definition json_u32_array :: "u32 list \<Rightarrow> string" where
  "json_u32_array values =
     json_elems (map (\<lambda>value. dec (unat value)) values)"

definition json_sync_gpu_boost_group_array :: "Nv0000SyncGpuBoostGroupConfig list \<Rightarrow> string" where
  "json_sync_gpu_boost_group_array values =
     json_elems (map (\<lambda>value.
       (let gpu_count = min (unat (Nv0000SyncGpuBoostGroupConfig.p_gpu_count value)) (length (Nv0000SyncGpuBoostGroupConfig.p_gpu_ids value));
            obj = JsonObject_new;
            obj = field_u64 ''gpuCount'' (ucast (Nv0000SyncGpuBoostGroupConfig.p_gpu_count value)) obj;
            obj = field_raw ''gpuIds'' (json_u32_array (take gpu_count (Nv0000SyncGpuBoostGroupConfig.p_gpu_ids value))) obj;
            obj = field_str ''boostGroupId'' (hex0x (unat (Nv0000SyncGpuBoostGroupConfig.p_boost_group_id value))) obj;
            obj = field_bool ''bridgeless'' (Nv0000SyncGpuBoostGroupConfig.p_b_bridgeless value \<noteq> 0) obj
        in finish obj)) values)"

definition json_xxx_info_array :: "NvxxxxCtrlXxxInfo list \<Rightarrow> string" where
  "json_xxx_info_array values =
     json_elems (map (\<lambda>value.
       (let obj = JsonObject_new;
            obj = field_str ''index'' (hex0x (unat (NvxxxxCtrlXxxInfo.p_index value))) obj;
            obj = field_str ''data'' (hex0x (unat (NvxxxxCtrlXxxInfo.p_data value))) obj
        in finish obj)) values)"

definition json_global_sm_order_array :: "Nv2080CtrlGrGlobalSmId list \<Rightarrow> string" where
  "json_global_sm_order_array values =
     json_elems (map (\<lambda>value.
       (let obj = JsonObject_new;
            obj = field_u64 ''gpcId'' (ucast (Nv2080CtrlGrGlobalSmId.p_gpc_id value)) obj;
            obj = field_u64 ''localTpcId'' (ucast (Nv2080CtrlGrGlobalSmId.p_local_tpc_id value)) obj;
            obj = field_u64 ''localSmId'' (ucast (Nv2080CtrlGrGlobalSmId.p_local_sm_id value)) obj;
            obj = field_u64 ''globalTpcId'' (ucast (Nv2080CtrlGrGlobalSmId.p_global_tpc_id value)) obj;
            obj = field_u64 ''virtualGpcId'' (ucast (Nv2080CtrlGrGlobalSmId.p_virtual_gpc_id value)) obj;
            obj = field_u64 ''migratableTpcId'' (ucast (Nv2080CtrlGrGlobalSmId.p_migratable_tpc_id value)) obj;
            obj = field_u64 ''uGpuId'' (ucast (Nv2080CtrlGrGlobalSmId.p_ugpu_id value)) obj;
            obj = field_u64 ''physicalCpcId'' (ucast (Nv2080CtrlGrGlobalSmId.p_physical_cpc_id value)) obj;
            obj = field_u64 ''virtualTpcId'' (ucast (Nv2080CtrlGrGlobalSmId.p_virtual_tpc_id value)) obj
        in finish obj)) values)"

definition json_ecc_unit_sample_array ::
    "(((u32 \<times> Nv2080CtrlGpuQueryEccUnitStatus)) list) \<Rightarrow> string" where
  "json_ecc_unit_sample_array values =
     json_elems (map (\<lambda>(unit_idx, unit).
       (let obj = JsonObject_new;
            obj = field_u64 ''unit'' (ucast unit_idx) obj;
            obj = field_bool ''enabled'' (Nv2080CtrlGpuQueryEccUnitStatus.p_enabled unit \<noteq> 0) obj;
            obj = field_bool ''supported'' (Nv2080CtrlGpuQueryEccUnitStatus.p_supported unit \<noteq> 0) obj;
            obj = field_bool ''scrubComplete'' (Nv2080CtrlGpuQueryEccUnitStatus.p_scrub_complete unit \<noteq> 0) obj;
            obj = field_u64 ''dbe'' (Nv2080CtrlGpuQueryEccExceptionStatus.p_count (Nv2080CtrlGpuQueryEccUnitStatus.p_dbe unit)) obj;
            obj = field_u64 ''dbeNonResettable'' (Nv2080CtrlGpuQueryEccExceptionStatus.p_count (Nv2080CtrlGpuQueryEccUnitStatus.p_dbe_non_resettable unit)) obj;
            obj = field_u64 ''sbe'' (Nv2080CtrlGpuQueryEccExceptionStatus.p_count (Nv2080CtrlGpuQueryEccUnitStatus.p_sbe unit)) obj;
            obj = field_u64 ''sbeNonResettable'' (Nv2080CtrlGpuQueryEccExceptionStatus.p_count (Nv2080CtrlGpuQueryEccUnitStatus.p_sbe_non_resettable unit)) obj
        in finish obj)) values)"

definition json_ce_caps_array ::
    "(((u32 \<times> u8 \<times> u8 \<times> bool)) list) \<Rightarrow> string" where
  "json_ce_caps_array values =
     json_elems (map (\<lambda>(ce_idx, caps0, caps1, present).
       (let obj = JsonObject_new;
            obj = field_u64 ''ce'' (ucast ce_idx) obj;
            obj = field_bool ''present'' present obj;
            obj = field_str ''caps0'' (''0x'' @ hex_pad 2 (unat caps0)) obj;
            obj = field_str ''caps1'' (''0x'' @ hex_pad 2 (unat caps1)) obj
        in finish obj)) values)"

definition json_grmgr_queries_array :: "Nv2080CtrlGrmgrGrFsInfoQueryParams list \<Rightarrow> string" where
  "json_grmgr_queries_array values =
     json_elems (map (\<lambda>query.
       (let obj = JsonObject_new;
            obj = field_u64 ''queryType'' (ucast (Nv2080CtrlGrmgrGrFsInfoQueryParams.p_query_type query)) obj;
            obj = field_str ''queryName'' (grmgr_query_type_name (Nv2080CtrlGrmgrGrFsInfoQueryParams.p_query_type query)) obj;
            obj = field_i64 ''queryStatus'' (uint (Nv2080CtrlGrmgrGrFsInfoQueryParams.p_status query)) obj;
            obj = field_raw ''queryData'' (json_u32_hex_array (Nv2080CtrlGrmgrGrFsInfoQueryParams.p_query_data_words query)) obj
        in finish obj)) values)"

definition json_pci_bar_info_array :: "Nv2080CtrlBusPciBarInfo list \<Rightarrow> string" where
  "json_pci_bar_info_array values =
     json_elems (map (\<lambda>value.
       (let obj = JsonObject_new;
            obj = field_str ''flags'' (hex0x (unat (Nv2080CtrlBusPciBarInfo.p_flags value))) obj;
            obj = field_u64 ''barSizeMb'' (ucast (Nv2080CtrlBusPciBarInfo.p_bar_size value)) obj;
            obj = field_u64 ''barSizeBytes'' (Nv2080CtrlBusPciBarInfo.p_bar_size_bytes value) obj;
            obj = field_str ''barOffset'' (hex0x (unat (Nv2080CtrlBusPciBarInfo.p_bar_offset value))) obj
        in finish obj)) values)"

definition json_atomic_op_array :: "Nv2080CtrlBusPcieGpuAtomicOpInfo list \<Rightarrow> string" where
  "json_atomic_op_array values =
     json_elems (map (\<lambda>(idx, value).
       (let obj = JsonObject_new;
            obj = field_str ''op'' (pcie_atomic_op_name idx) obj;
            obj = field_bool ''supported'' (Nv2080CtrlBusPcieGpuAtomicOpInfo.p_b_supported value \<noteq> 0) obj;
            obj = field_str ''attributes'' (hex0x (unat (Nv2080CtrlBusPcieGpuAtomicOpInfo.p_attributes value))) obj
        in finish obj)) (enumerate 0 values))"

definition json_u64_hex_array :: "u64 list \<Rightarrow> string" where
  "json_u64_hex_array values =
     json_elems (map (\<lambda>value. [dquote] @ hex0x (unat value) @ [dquote]) values)"

definition json_card_info :: "usize \<Rightarrow> NvIoctlCardInfo \<Rightarrow> string" where
  "json_card_info idx entry =
     (let obj = JsonObject_new;
          obj = field_u64 ''index'' (of_nat idx) obj;
          obj = field_bool ''valid'' (NvIoctlCardInfo.p_valid entry \<noteq> 0) obj;
          obj = field_u64 ''domain'' (ucast (NvPciInfo.p_domain (NvIoctlCardInfo.p_pci_info entry))) obj;
          obj = field_u64 ''bus'' (ucast (NvPciInfo.p_bus (NvIoctlCardInfo.p_pci_info entry))) obj;
          obj = field_u64 ''slot'' (ucast (NvPciInfo.p_slot (NvIoctlCardInfo.p_pci_info entry))) obj;
          obj = field_u64 ''function'' (ucast (NvPciInfo.p_function (NvIoctlCardInfo.p_pci_info entry))) obj;
          obj = field_u64 ''vendorId'' (ucast (NvPciInfo.p_vendor_id (NvIoctlCardInfo.p_pci_info entry))) obj;
          obj = field_u64 ''deviceId'' (ucast (NvPciInfo.p_device_id (NvIoctlCardInfo.p_pci_info entry))) obj;
          obj = field_str ''bdf'' (hex_pad 4 (unat (NvPciInfo.p_domain (NvIoctlCardInfo.p_pci_info entry))) @ '':'' @ hex_pad 2 (unat (NvPciInfo.p_bus (NvIoctlCardInfo.p_pci_info entry))) @ '':'' @ hex_pad 2 (unat (NvPciInfo.p_slot (NvIoctlCardInfo.p_pci_info entry))) @ ''.'' @ dec (unat (NvPciInfo.p_function (NvIoctlCardInfo.p_pci_info entry)))) obj;
          obj = field_u64 ''gpuId'' (ucast (NvIoctlCardInfo.p_gpu_id entry)) obj;
          obj = field_u64 ''interruptLine'' (ucast (NvIoctlCardInfo.p_interrupt_line entry)) obj;
          obj = field_str ''regAddress'' (hex0x (unat (NvIoctlCardInfo.p_reg_address entry))) obj;
          obj = field_u64 ''regSize'' (NvIoctlCardInfo.p_reg_size entry) obj;
          obj = field_str ''fbAddress'' (hex0x (unat (NvIoctlCardInfo.p_fb_address entry))) obj;
          obj = field_u64 ''fbSize'' (NvIoctlCardInfo.p_fb_size entry) obj;
          obj = field_u64 ''minorNumber'' (ucast (NvIoctlCardInfo.p_minor_number entry)) obj;
          obj = field_str ''devName'' (read_c_string (NvIoctlCardInfo.p_dev_name entry)) obj
      in finish obj)"

definition json_card_info_array :: "NvIoctlCardInfo list \<Rightarrow> string" where
  "json_card_info_array values =
     json_elems (map (\<lambda>(idx, value). json_card_info idx value) (enumerate 0 values))"

subsection \<open>The names and texts are printable\<close>

text \<open>The generated names are C identifiers.\<close>

definition tables_ok :: "generated_tables \<Rightarrow> bool" where
  "tables_ok tables \<longleftrightarrow>
     list_all (\<lambda>(_, s). ascii s) (GENERATED_NV_ESC_CMD_NAMES tables) \<and>
     list_all (\<lambda>(_, s). ascii s) (GENERATED_RM_CONTROL_CMD_NAMES tables) \<and>
     list_all (\<lambda>(_, s). ascii s) (GENERATED_RM_INTERFACE_NAMES tables)"

lemma fold_or_insert: "fold or_insert t m = map_of t ++ m"
proof (induction t arbitrary: m)
  case (Cons e t)
  obtain k v where e: "e = (k, v)" by (cases e)
  have "map_of t ++ or_insert (k, v) m = map_of ((k, v) # t) ++ m"
    by (rule ext) (auto simp: or_insert_def map_add_def split: option.split)
  with Cons show ?case by (simp add: e fun_upd_def)
qed simp

lemma load_extra_map_of:
  "load_extra_nv_esc_cmd_names tables = map_of (GENERATED_NV_ESC_CMD_NAMES tables)"
  "load_extra_rm_control_cmd_names tables = map_of (GENERATED_RM_CONTROL_CMD_NAMES tables)"
  "load_extra_rm_interface_names tables = map_of (GENERATED_RM_INTERFACE_NAMES tables)"
  by (simp_all add: load_extra_nv_esc_cmd_names_def load_extra_rm_control_cmd_names_def
      load_extra_rm_interface_names_def fold_or_insert)

lemma ascii_map_of: "list_all (\<lambda>(_, s). ascii s) t \<Longrightarrow> map_of t k = Some s \<Longrightarrow> ascii s"
  by (auto simp: list_all_iff dest!: map_of_SomeD)

lemma ascii_unwrap_map_of:
  assumes "ascii d" and "list_all (\<lambda>(_, s). ascii s) t"
  shows "ascii (unwrap_or d (map_of t k))"
  using assms by (cases "map_of t k") (auto dest: ascii_map_of)

lemma ascii_generated:
  assumes "tables_ok tables"
  shows "generated_nv_esc_cmd_name tables nr = Some s \<Longrightarrow> ascii s"
    and "generated_rm_control_cmd_name tables cmd = Some s \<Longrightarrow> ascii s"
    and "generated_rm_interface_name tables i = Some s \<Longrightarrow> ascii s"
  using assms
  by (auto simp: tables_ok_def generated_nv_esc_cmd_name_def generated_rm_control_cmd_name_def
      generated_rm_interface_name_def load_extra_map_of dest: ascii_map_of)

lemmas rm_name_tables = rm_vid_heap_function_names_def virtualization_mode_names_def fabric_status_names_def
  simulation_info_type_names_def compute_mode_rules_names_def c2c_remote_type_names_def
  grmgr_query_type_names_def pcie_atomic_op_names_def nvos02_flags_physicality_names_def
  nvos02_flags_location_names_def nvos02_flags_coherency_names_def nvos02_flags_alloc_names_def
  nvos02_flags_mapping_names_def addr_space_type_names_def

lemma ascii_enum_names [simp]:
  "ascii (rm_vid_heap_function_name v0)"
  "ascii (virtualization_mode_name v1)"
  "ascii (fabric_status_name v2)"
  "ascii (simulation_info_type_name v3)"
  "ascii (compute_mode_rules_name v4)"
  "ascii (c2c_remote_type_name v5)"
  "ascii (grmgr_query_type_name v6)"
  "ascii (pcie_atomic_op_name v7)"
  "ascii (nvos02_flags_physicality_name v8)"
  "ascii (nvos02_flags_location_name v9)"
  "ascii (nvos02_flags_coherency_name v10)"
  "ascii (nvos02_flags_alloc_name v11)"
  "ascii (nvos02_flags_mapping_name v12)"
  "ascii (addr_space_type_name v13)"
  unfolding rm_vid_heap_function_name_def virtualization_mode_name_def fabric_status_name_def
    simulation_info_type_name_def compute_mode_rules_name_def c2c_remote_type_name_def
    grmgr_query_type_name_def pcie_atomic_op_name_def nvos02_flags_physicality_name_def
    nvos02_flags_location_name_def nvos02_flags_coherency_name_def nvos02_flags_alloc_name_def
    nvos02_flags_mapping_name_def addr_space_type_name_def
  by (rule ascii_unwrap_map_of; simp add: rm_name_tables)+

lemma name_tables_ascii:
  "list_all (\<lambda>(_, s). ascii s) nv2080_interface_names" "list_all (\<lambda>(_, s). ascii s) legacy_families"
  "list_all (\<lambda>(_, s). ascii s) rm_alloc_class_names" "list_all (\<lambda>(_, s). ascii s) outer_cmd_names"
  "list_all (\<lambda>(_, s). ascii s) rm_control_cmd_names"
  by (simp_all add: nv2080_interface_names_def legacy_families_def rm_alloc_class_names_def
      outer_cmd_names_def rm_control_cmd_names_def)

lemma ascii_static_names:
  "nv2080_interface_name i = Some s \<Longrightarrow> ascii s"
  "rm_control_interface_name cmd = Some s \<Longrightarrow> ascii s"
  "rm_control_legacy_family_and_msg_id cmd = Some (s, m) \<Longrightarrow> ascii s"
  "rm_alloc_class_name c = Some s \<Longrightarrow> ascii s"
proof -
  show n: "ascii s" if "nv2080_interface_name i = Some s" for i s
    using that unfolding nv2080_interface_name_def by (rule ascii_map_of [OF name_tables_ascii(1)])
  show "rm_control_interface_name cmd = Some s \<Longrightarrow> ascii s"
    by (auto simp: rm_control_interface_name_def dest: n split: if_splits)
  show "rm_control_legacy_family_and_msg_id cmd = Some (s, m) \<Longrightarrow> ascii s"
    unfolding rm_control_legacy_family_and_msg_id_def Let_def
    by (auto split: if_splits option.splits dest!: ascii_map_of [OF name_tables_ascii(2)])
  show "rm_alloc_class_name c = Some s \<Longrightarrow> ascii s"
    unfolding rm_alloc_class_name_def by (rule ascii_map_of [OF name_tables_ascii(3)])
qed

lemma ascii_hex_pad [simp]: "ascii (hex_pad w n)"
  by (simp add: hex_pad_def ascii_def [of "replicate _ _"] list_all_length)

lemma ascii_outer_cmd_name:
  assumes "tables_ok tables"
  shows "ascii (outer_cmd_name tables nr)"
proof (cases "map_of outer_cmd_names (ucast nr)")
  case None
  then show ?thesis
    using ascii_generated(1) [OF assms]
    by (cases "generated_nv_esc_cmd_name tables (ucast nr)") (simp_all add: outer_cmd_name_def)
next
  case (Some s)
  then have "ascii s" by (rule ascii_map_of [OF name_tables_ascii(4)])
  with Some show ?thesis by (simp add: outer_cmd_name_def)
qed

lemma ascii_rm_control_cmd_name:
  assumes "tables_ok tables"
  shows "ascii (rm_control_cmd_name tables cmd)"
proof -
  have f: "ascii (rm_control_cmd_name_fallback tables cmd)"
    using ascii_generated(3) [OF assms]
    by (auto simp: rm_control_cmd_name_fallback_def Let_def split: option.split dest: ascii_static_names)
  show ?thesis
  proof (cases "map_of rm_control_cmd_names cmd")
    case None
    with f ascii_generated(2) [OF assms] show ?thesis
      by (cases "generated_rm_control_cmd_name tables cmd") (simp_all add: rm_control_cmd_name_def)
  next
    case (Some s)
    then have "ascii s" by (rule ascii_map_of [OF name_tables_ascii(5)])
    with Some show ?thesis by (simp add: rm_control_cmd_name_def)
  qed
qed

lemma split_once_str_append: "split_once_str pat s = Some (a, b) \<Longrightarrow> s = a @ pat @ b"
proof (induction s arbitrary: a)
  case (Cons c s)
  show ?case
  proof (cases "starts_with (c # s) pat")
    case True
    with Cons.prems have "a = []" "b = drop (length pat) (c # s)" by simp_all
    moreover have "take (length pat) (c # s) @ drop (length pat) (c # s) = c # s" by simp
    ultimately show ?thesis using True by (simp only: starts_with_def append.simps(1))
  next
    case False
    with Cons.prems obtain a' where "split_once_str pat s = Some (a', b)" "a = c # a'" by auto
    with Cons.IH show ?thesis by simp
  qed
qed (simp split: if_splits)

lemma ascii_params_type_name:
  assumes "ascii s" and "rm_control_params_type_name s = Some t"
  shows "ascii t"
  using assms
  by (auto simp: rm_control_params_type_name_def split: if_splits option.splits dest!: split_once_str_append)

lemma utf8_remote_texts [json_intros]:
  "utf8 (read_c_string bs)" "utf8 (read_utf16le_c_string bs)"
  by (simp_all add: read_c_string_def read_utf16le_c_string_def utf8_from_utf8_lossy utf8_from_utf16_lossy)

lemma utf8_remote_string: "read_remote_string rd p n m = Some s \<Longrightarrow> utf8 s"
  by (auto simp: read_remote_string_def Let_def utf8_from_utf8_lossy split: if_splits option.splits)

subsection \<open>The arrays are JSON\<close>

text \<open>Text that needs no escapes may be put between quotes as it is.\<close>

definition is_plain :: "char \<Rightarrow> bool" where
  "is_plain c \<longleftrightarrow> 32 \<le> ord c \<and> ord c < 127 \<and> c \<noteq> dquote \<and> c \<noteq> bslash"

lemma json_quote_plain: "list_all is_plain s \<Longrightarrow> json_quote s = dquote # s @ [dquote]"
proof -
  have "concat (map json_escape (rust_chars s)) = s" if "list_all is_plain s"
    using that by (induction s) (auto simp: is_plain_def json_escape_def is_control_def)
  then show "list_all is_plain s \<Longrightarrow> json_quote s = dquote # s @ [dquote]"
    by (simp add: json_quote_def)
qed

lemma hex_digit_plain: "is_hex_digit c \<Longrightarrow> is_plain c"
  by (auto simp: is_hex_digit_def is_plain_def)

lemma hex_plain: "list_all is_plain (hex n)"
  using radix_chars [of 16 n] by (auto simp: list_all_iff hex_digit_plain)

lemma json_text_hex [json_intros]:
  "json_text ([dquote] @ hex0x n @ [dquote])" "json_text ([dquote] @ ''0x'' @ hex_pad w n @ [dquote])"
proof -
  have "list_all is_plain (hex0x n)" "list_all is_plain (''0x'' @ hex_pad w n)"
    using hex_plain by (simp_all add: hex0x_def hex_pad_def is_plain_def list_all_length [of _ "replicate _ _"])
  from this [THEN json_quote_plain]
  show "json_text ([dquote] @ hex0x n @ [dquote])" "json_text ([dquote] @ ''0x'' @ hex_pad w n @ [dquote])"
    using json_text_scalars(1) [of "hex0x n"] json_text_scalars(1) [of "''0x'' @ hex_pad w n"]
    by (simp_all add: ascii_utf8)
qed

lemma json_text_map [json_intros]: "(\<And>x. json_text (f x)) \<Longrightarrow> json_text (json_elems (map f xs))"
  by (rule json_text_elems) (simp add: list_all_iff)

lemma utf8_ascii_names [json_intros]:
    "ascii t \<Longrightarrow> utf8 t"
  by (simp_all add: ascii_utf8)

lemma json_text_number_arrays [json_intros]:
  "json_text (json_u8_array bs)" "json_text (json_u8_hex_array bs)" "json_text (json_u32_hex_array ws)"
  "json_text (json_u32_matrix R C m r c)" "json_text (json_u32_array ws)" "json_text (json_u64_hex_array vs)"
  unfolding json_u8_array_def json_u8_hex_array_def json_u32_hex_array_def json_u32_matrix_def
    json_u32_array_def json_u64_hex_array_def Let_def
  by (intro json_intros)+

lemma json_text_object_arrays [json_intros]:
  "json_text (json_active_device_array x0)"
  "json_text (json_sync_gpu_boost_group_array x1)"
  "json_text (json_xxx_info_array x2)"
  "json_text (json_global_sm_order_array x3)"
  "json_text (json_ecc_unit_sample_array x4)"
  "json_text (json_ce_caps_array x5)"
  "json_text (json_grmgr_queries_array x6)"
  "json_text (json_pci_bar_info_array x7)"
  "json_text (json_atomic_op_array x8)"
  unfolding json_active_device_array_def json_sync_gpu_boost_group_array_def json_xxx_info_array_def
    json_global_sm_order_array_def json_ecc_unit_sample_array_def json_ce_caps_array_def
    json_grmgr_queries_array_def json_pci_bar_info_array_def json_atomic_op_array_def
  by (intro json_text_map; simp only: split_beta Let_def; intro json_intros; simp)+

lemma json_text_single_objects [json_intros]:
  "json_text (json_share_policy p)" "json_text (json_card_info i c)" "json_text (json_card_info_array cs)"
proof -
  show "json_text (json_share_policy p)"
    unfolding json_share_policy_def Let_def by (intro json_intros; simp)
  show c: "json_text (json_card_info i c)" for i c
    unfolding json_card_info_def Let_def by (intro json_intros; simp)
  show "json_text (json_card_info_array cs)"
    unfolding json_card_info_array_def by (intro json_text_map) (simp add: split_beta c)
qed

end
