(* ===== verification/Rm_Control.thy ===== *)
theory Rm_Control
  imports Rm_Names
begin

text \<open>
  The decoders of the control commands that \<open>src/decode/ioctl_rm.rs\<close> knows, one per command, and their
  dispatch \<open>decode_known_rm_control\<close>. Each reads the command's structure from the traced process and
  returns a JSON object and a short text, or \<open>None\<close> when it cannot be read.
\<close>

record KnownRmDecode =
  krd_legacy :: string
  krd_json :: string

definition decode_cmd_client_get_addr_space_type ::
    "remote \<Rightarrow> u64 \<Rightarrow> usize \<Rightarrow> KnownRmDecode option" where
  "decode_cmd_client_get_addr_space_type rd params_addr params_size =
     (let expected = pod_size Nv0000CtrlClientGetAddrSpaceTypeParams_pod
      in (if params_size < expected then
            (let json = JsonObject_new;
                 json = field_str ''status'' (''size_mismatch(expected>='' @ dec expected @ '',actual='' @ dec params_size @ '')'') json
             in Some \<lparr>krd_legacy = ''name=NV0000_CTRL_CMD_CLIENT_GET_ADDR_SPACE_TYPE, sizeMismatch(expected>='' @
                                   dec expected @ '', actual='' @ dec params_size @ '')'',
                      krd_json = finish json\<rparr>)
          else
            (case read_pod rd Nv0000CtrlClientGetAddrSpaceTypeParams_pod params_addr of
               None \<Rightarrow> None
             | Some params \<Rightarrow>
                 (let json = JsonObject_new;
                      json = field_str ''hObject'' (hex0x (unat (Nv0000CtrlClientGetAddrSpaceTypeParams.p_h_object params))) json;
                      json = field_str ''mapFlags'' (hex0x (unat (Nv0000CtrlClientGetAddrSpaceTypeParams.p_map_flags params))) json;
                      json = field_str ''addrSpaceType'' (hex0x (unat (Nv0000CtrlClientGetAddrSpaceTypeParams.p_addr_space_type params))) json;
                      json = field_str ''addrSpaceTypeName'' (addr_space_type_name (Nv0000CtrlClientGetAddrSpaceTypeParams.p_addr_space_type params)) json;
                      json = field_str ''status'' ''ok'' json
                  in Some \<lparr>krd_legacy = ''name=NV0000_CTRL_CMD_CLIENT_GET_ADDR_SPACE_TYPE, hObject=0x'' @
                                        hex (unat (Nv0000CtrlClientGetAddrSpaceTypeParams.p_h_object params)) @
                                        '', mapFlags=0x'' @
                                        hex (unat (Nv0000CtrlClientGetAddrSpaceTypeParams.p_map_flags params)) @
                                        '', addrSpaceType=0x'' @
                                        hex (unat (Nv0000CtrlClientGetAddrSpaceTypeParams.p_addr_space_type params)) @
                                        ''('' @
                                        addr_space_type_name (Nv0000CtrlClientGetAddrSpaceTypeParams.p_addr_space_type params) @
                                        '')'',
                           krd_json = finish json\<rparr>))))"

definition decode_cmd_os_unix_get_control_file_descriptor ::
    "remote \<Rightarrow> u64 \<Rightarrow> usize \<Rightarrow> KnownRmDecode option" where
  "decode_cmd_os_unix_get_control_file_descriptor rd params_addr params_size =
     (let expected = pod_size Nv0000CtrlOsUnixGetControlFileDescriptorParams_pod
      in (if params_size < expected then
            (let json = JsonObject_new;
                 json = field_str ''status'' (''size_mismatch(expected>='' @ dec expected @ '',actual='' @ dec params_size @ '')'') json
             in Some \<lparr>krd_legacy = ''name=NV0000_CTRL_CMD_OS_UNIX_GET_CONTROL_FILE_DESCRIPTOR, sizeMismatch(expected>='' @
                                   dec expected @ '', actual='' @ dec params_size @ '')'',
                      krd_json = finish json\<rparr>)
          else
            (case read_pod rd Nv0000CtrlOsUnixGetControlFileDescriptorParams_pod params_addr of
               None \<Rightarrow> None
             | Some params \<Rightarrow>
                 (let json = JsonObject_new;
                      json = field_i64 ''fd'' (Nv0000CtrlOsUnixGetControlFileDescriptorParams.p_fd params) json;
                      json = field_str ''status'' ''ok'' json
                  in Some \<lparr>krd_legacy = ''name=NV0000_CTRL_CMD_OS_UNIX_GET_CONTROL_FILE_DESCRIPTOR, fd='' @
                                        dec_int (Nv0000CtrlOsUnixGetControlFileDescriptorParams.p_fd params),
                           krd_json = finish json\<rparr>))))"

definition decode_cmd_system_get_build_version ::
    "remote \<Rightarrow> u64 \<Rightarrow> usize \<Rightarrow> KnownRmDecode option" where
  "decode_cmd_system_get_build_version rd params_addr params_size =
     (let expected = pod_size Nv0000CtrlSystemGetBuildVersionParams_pod
      in (if params_size < expected then
            (let json = JsonObject_new;
                 json = field_str ''status'' (''size_mismatch(expected>='' @ dec expected @ '',actual='' @ dec params_size @ '')'') json
             in Some \<lparr>krd_legacy = ''name=NV0000_CTRL_CMD_SYSTEM_GET_BUILD_VERSION, sizeMismatch(expected>='' @
                                   dec expected @ '', actual='' @ dec params_size @ '')'',
                      krd_json = finish json\<rparr>)
          else
            (case read_pod rd Nv0000CtrlSystemGetBuildVersionParams_pod params_addr of
               None \<Rightarrow> None
             | Some params \<Rightarrow>
                 (let json = JsonObject_new;
                      json = field_u64 ''sizeOfStrings'' (ucast (Nv0000CtrlSystemGetBuildVersionParams.p_size_of_strings params)) json;
                      json = field_str ''pDriverVersionBuffer'' (hex0x (unat (Nv0000CtrlSystemGetBuildVersionParams.p_p_driver_version_buffer params))) json;
                      json = field_str ''pVersionBuffer'' (hex0x (unat (Nv0000CtrlSystemGetBuildVersionParams.p_p_version_buffer params))) json;
                      json = field_str ''pTitleBuffer'' (hex0x (unat (Nv0000CtrlSystemGetBuildVersionParams.p_p_title_buffer params))) json;
                      json = field_u64 ''changelistNumber'' (ucast (Nv0000CtrlSystemGetBuildVersionParams.p_changelist_number params)) json;
                      json = field_u64 ''officialChangelistNumber'' (ucast (Nv0000CtrlSystemGetBuildVersionParams.p_official_changelist_number params)) json;
                      json = field_str ''status'' ''ok'' json
                  in Some \<lparr>krd_legacy = ''name=NV0000_CTRL_CMD_SYSTEM_GET_BUILD_VERSION, sizeOfStrings='' @
                                        dec (unat (Nv0000CtrlSystemGetBuildVersionParams.p_size_of_strings params)) @
                                        '', pDriverVersionBuffer=0x'' @
                                        hex (unat (Nv0000CtrlSystemGetBuildVersionParams.p_p_driver_version_buffer params)) @
                                        '', pVersionBuffer=0x'' @
                                        hex (unat (Nv0000CtrlSystemGetBuildVersionParams.p_p_version_buffer params)) @
                                        '', pTitleBuffer=0x'' @
                                        hex (unat (Nv0000CtrlSystemGetBuildVersionParams.p_p_title_buffer params)) @
                                        '', changelistNumber='' @
                                        dec (unat (Nv0000CtrlSystemGetBuildVersionParams.p_changelist_number params)) @
                                        '', officialChangelistNumber='' @
                                        dec (unat (Nv0000CtrlSystemGetBuildVersionParams.p_official_changelist_number params)),
                           krd_json = finish json\<rparr>))))"

definition known_size_mismatch ::
    "string \<Rightarrow> usize \<Rightarrow> usize \<Rightarrow> KnownRmDecode" where
  "known_size_mismatch name expected actual =
     (let json = JsonObject_new;
          json = field_str ''status'' (''size_mismatch(expected>='' @ dec expected @ '',actual='' @ dec actual @ '')'') json
      in \<lparr>krd_legacy = ''name='' @ name @ '', sizeMismatch(expected>='' @ dec expected @
                       '', actual='' @ dec actual @ '')'',
          krd_json = finish json\<rparr>)"

definition decode_cmd_client_set_inherited_share_policy ::
    "remote \<Rightarrow> u64 \<Rightarrow> usize \<Rightarrow> KnownRmDecode option" where
  "decode_cmd_client_set_inherited_share_policy rd params_addr params_size =
     (let expected = pod_size Nv0000CtrlClientSetInheritedSharePolicyParams_pod
      in (if params_size < expected then
            Some (known_size_mismatch ''NV0000_CTRL_CMD_CLIENT_SET_INHERITED_SHARE_POLICY'' expected params_size)
          else
            (case read_pod rd Nv0000CtrlClientSetInheritedSharePolicyParams_pod params_addr of
               None \<Rightarrow> None
             | Some params \<Rightarrow>
                 (let json = JsonObject_new;
                      json = field_raw ''sharePolicy'' (json_share_policy (Nv0000CtrlClientSetInheritedSharePolicyParams.p_share_policy params)) json;
                      json = field_str ''status'' ''ok'' json
                  in Some \<lparr>krd_legacy = ''name=NV0000_CTRL_CMD_CLIENT_SET_INHERITED_SHARE_POLICY'',
                           krd_json = finish json\<rparr>))))"

definition decode_cmd_system_get_features ::
    "remote \<Rightarrow> u64 \<Rightarrow> usize \<Rightarrow> KnownRmDecode option" where
  "decode_cmd_system_get_features rd params_addr params_size =
     (let expected = pod_size Nv0000CtrlSystemGetFeaturesParams_pod
      in (if params_size < expected then
            Some (known_size_mismatch ''NV0000_CTRL_CMD_SYSTEM_GET_FEATURES'' expected params_size)
          else
            (case read_pod rd Nv0000CtrlSystemGetFeaturesParams_pod params_addr of
               None \<Rightarrow> None
             | Some params \<Rightarrow>
                 (let json = JsonObject_new;
                      json = field_str ''featuresMask'' (hex0x (unat (Nv0000CtrlSystemGetFeaturesParams.p_features_mask params))) json;
                      json = field_bool ''featureSli'' ((Nv0000CtrlSystemGetFeaturesParams.p_features_mask params AND 0x1) \<noteq> 0) json;
                      json = field_bool ''featureUuidBasedMemSharing'' ((Nv0000CtrlSystemGetFeaturesParams.p_features_mask params AND push_bit 3 1) \<noteq> 0) json;
                      json = field_bool ''featureRmTestOnlyCode'' ((Nv0000CtrlSystemGetFeaturesParams.p_features_mask params AND push_bit 4 1) \<noteq> 0) json;
                      json = field_str ''status'' ''ok'' json
                  in Some \<lparr>krd_legacy = ''name=NV0000_CTRL_CMD_SYSTEM_GET_FEATURES, featuresMask=0x'' @
                                        hex (unat (Nv0000CtrlSystemGetFeaturesParams.p_features_mask params)),
                           krd_json = finish json\<rparr>))))"

definition decode_cmd_system_get_fabric_status ::
    "remote \<Rightarrow> u64 \<Rightarrow> usize \<Rightarrow> KnownRmDecode option" where
  "decode_cmd_system_get_fabric_status rd params_addr params_size =
     (let expected = pod_size Nv0000CtrlSystemGetFabricStatusParams_pod
      in (if params_size < expected then
            Some (known_size_mismatch ''NV0000_CTRL_CMD_SYSTEM_GET_FABRIC_STATUS'' expected params_size)
          else
            (case read_pod rd Nv0000CtrlSystemGetFabricStatusParams_pod params_addr of
               None \<Rightarrow> None
             | Some params \<Rightarrow>
                 (let json = JsonObject_new;
                      json = field_u64 ''fabricStatus'' (ucast (Nv0000CtrlSystemGetFabricStatusParams.p_fabric_status params)) json;
                      json = field_str ''fabricStatusName'' (fabric_status_name (Nv0000CtrlSystemGetFabricStatusParams.p_fabric_status params)) json;
                      json = field_str ''status'' ''ok'' json
                  in Some \<lparr>krd_legacy = ''name=NV0000_CTRL_CMD_SYSTEM_GET_FABRIC_STATUS, fabricStatus='' @
                                        fabric_status_name (Nv0000CtrlSystemGetFabricStatusParams.p_fabric_status params),
                           krd_json = finish json\<rparr>))))"

definition decode_cmd_system_get_p2p_caps_matrix ::
    "remote \<Rightarrow> u64 \<Rightarrow> usize \<Rightarrow> KnownRmDecode option" where
  "decode_cmd_system_get_p2p_caps_matrix rd params_addr params_size =
     (let expected = pod_size Nv0000CtrlSystemGetP2PCapsMatrixParams_pod
      in (if params_size < expected then
            Some (known_size_mismatch ''NV0000_CTRL_CMD_SYSTEM_GET_P2P_CAPS_MATRIX'' expected params_size)
          else
            (case read_pod rd Nv0000CtrlSystemGetP2PCapsMatrixParams_pod params_addr of
               None \<Rightarrow> None
             | Some params \<Rightarrow>
                 (let grp_a_count = min (unat (Nv0000CtrlSystemGetP2PCapsMatrixParams.p_grp_a_count params)) (length (Nv0000CtrlSystemGetP2PCapsMatrixParams.p_gpu_id_grp_a params));
                      grp_b_count = min (unat (Nv0000CtrlSystemGetP2PCapsMatrixParams.p_grp_b_count params)) (length (Nv0000CtrlSystemGetP2PCapsMatrixParams.p_gpu_id_grp_b params));
                      json = JsonObject_new;
                      json = field_u64 ''grpACount'' (ucast (Nv0000CtrlSystemGetP2PCapsMatrixParams.p_grp_a_count params)) json;
                      json = field_u64 ''grpBCount'' (ucast (Nv0000CtrlSystemGetP2PCapsMatrixParams.p_grp_b_count params)) json;
                      json = field_raw ''gpuIdGrpA'' (json_u32_array (take grp_a_count (Nv0000CtrlSystemGetP2PCapsMatrixParams.p_gpu_id_grp_a params))) json;
                      json = field_raw ''gpuIdGrpB'' (json_u32_array (take grp_b_count (Nv0000CtrlSystemGetP2PCapsMatrixParams.p_gpu_id_grp_b params))) json;
                      json = field_raw ''p2pCaps'' (json_u32_matrix NV0000_CTRL_SYSTEM_MAX_P2P_GROUP_GPUS NV0000_CTRL_SYSTEM_MAX_P2P_GROUP_GPUS (Nv0000CtrlSystemGetP2PCapsMatrixParams.p_p2p_caps params) grp_a_count grp_b_count) json;
                      json = field_raw ''a2bOptimalReadCes'' (json_u32_matrix NV0000_CTRL_SYSTEM_MAX_P2P_GROUP_GPUS NV0000_CTRL_SYSTEM_MAX_P2P_GROUP_GPUS (Nv0000CtrlSystemGetP2PCapsMatrixParams.p_a2b_optimal_read_ces params) grp_a_count grp_b_count) json;
                      json = field_raw ''a2bOptimalWriteCes'' (json_u32_matrix NV0000_CTRL_SYSTEM_MAX_P2P_GROUP_GPUS NV0000_CTRL_SYSTEM_MAX_P2P_GROUP_GPUS (Nv0000CtrlSystemGetP2PCapsMatrixParams.p_a2b_optimal_write_ces params) grp_a_count grp_b_count) json;
                      json = field_raw ''b2aOptimalReadCes'' (json_u32_matrix NV0000_CTRL_SYSTEM_MAX_P2P_GROUP_GPUS NV0000_CTRL_SYSTEM_MAX_P2P_GROUP_GPUS (Nv0000CtrlSystemGetP2PCapsMatrixParams.p_b2a_optimal_read_ces params) grp_a_count grp_b_count) json;
                      json = field_raw ''b2aOptimalWriteCes'' (json_u32_matrix NV0000_CTRL_SYSTEM_MAX_P2P_GROUP_GPUS NV0000_CTRL_SYSTEM_MAX_P2P_GROUP_GPUS (Nv0000CtrlSystemGetP2PCapsMatrixParams.p_b2a_optimal_write_ces params) grp_a_count grp_b_count) json;
                      json = field_bool ''truncated'' ((grp_a_count < unat (Nv0000CtrlSystemGetP2PCapsMatrixParams.p_grp_a_count params)) \<or> (grp_b_count < unat (Nv0000CtrlSystemGetP2PCapsMatrixParams.p_grp_b_count params))) json;
                      json = field_str ''status'' ''ok'' json
                  in Some \<lparr>krd_legacy = ''name=NV0000_CTRL_CMD_SYSTEM_GET_P2P_CAPS_MATRIX, grpACount='' @
                                        dec (unat (Nv0000CtrlSystemGetP2PCapsMatrixParams.p_grp_a_count params)) @
                                        '', grpBCount='' @
                                        dec (unat (Nv0000CtrlSystemGetP2PCapsMatrixParams.p_grp_b_count params)),
                           krd_json = finish json\<rparr>))))"

definition decode_cmd_gpu_get_memop_enable ::
    "remote \<Rightarrow> u64 \<Rightarrow> usize \<Rightarrow> KnownRmDecode option" where
  "decode_cmd_gpu_get_memop_enable rd params_addr params_size =
     (let expected = pod_size Nv0000CtrlGpuGetMemopEnableParams_pod
      in (if params_size < expected then
            Some (known_size_mismatch ''NV0000_CTRL_CMD_GPU_GET_MEMOP_ENABLE'' expected params_size)
          else
            (case read_pod rd Nv0000CtrlGpuGetMemopEnableParams_pod params_addr of
               None \<Rightarrow> None
             | Some params \<Rightarrow>
                 (let json = JsonObject_new;
                      json = field_str ''enableMask'' (hex0x (unat (Nv0000CtrlGpuGetMemopEnableParams.p_enable_mask params))) json;
                      json = field_bool ''memOpEnabled'' ((Nv0000CtrlGpuGetMemopEnableParams.p_enable_mask params AND 0x1) \<noteq> 0) json;
                      json = field_str ''status'' ''ok'' json
                  in Some \<lparr>krd_legacy = ''name=NV0000_CTRL_CMD_GPU_GET_MEMOP_ENABLE, enableMask=0x'' @
                                        hex (unat (Nv0000CtrlGpuGetMemopEnableParams.p_enable_mask params)),
                           krd_json = finish json\<rparr>))))"

definition decode_cmd_gpu_get_attached_ids ::
    "remote \<Rightarrow> u64 \<Rightarrow> usize \<Rightarrow> KnownRmDecode option" where
  "decode_cmd_gpu_get_attached_ids rd params_addr params_size =
     (let expected = pod_size Nv0000CtrlGpuGetAttachedIdsParams_pod
      in (if params_size < expected then
            Some (known_size_mismatch ''NV0000_CTRL_CMD_GPU_GET_ATTACHED_IDS'' expected params_size)
          else
            (case read_pod rd Nv0000CtrlGpuGetAttachedIdsParams_pod params_addr of
               None \<Rightarrow> None
             | Some params \<Rightarrow>
                 (let ids = valid_gpu_ids (Nv0000CtrlGpuGetAttachedIdsParams.p_gpu_ids params);
                      json = JsonObject_new;
                      json = field_u64 ''validCount'' (of_nat (length ids)) json;
                      json = field_raw ''gpuIds'' (json_u32_array ids) json;
                      json = field_str ''status'' ''ok'' json
                  in Some \<lparr>krd_legacy = ''name=NV0000_CTRL_CMD_GPU_GET_ATTACHED_IDS, validCount='' @
                                        dec (length ids),
                           krd_json = finish json\<rparr>))))"

definition decode_cmd_gpu_get_id_info ::
    "remote \<Rightarrow> u64 \<Rightarrow> usize \<Rightarrow> KnownRmDecode option" where
  "decode_cmd_gpu_get_id_info rd params_addr params_size =
     (let expected = pod_size Nv0000CtrlGpuGetIdInfoParams_pod
      in (if params_size < expected then
            Some (known_size_mismatch ''NV0000_CTRL_CMD_GPU_GET_ID_INFO'' expected params_size)
          else
            (case read_pod rd Nv0000CtrlGpuGetIdInfoParams_pod params_addr of
               None \<Rightarrow> None
             | Some params \<Rightarrow>
                 (let json = JsonObject_new;
                      json = field_u64 ''gpuId'' (ucast (Nv0000CtrlGpuGetIdInfoParams.p_gpu_id params)) json;
                      json = field_str ''gpuFlags'' (hex0x (unat (Nv0000CtrlGpuGetIdInfoParams.p_gpu_flags params))) json;
                      json = field_u64 ''deviceInstance'' (ucast (Nv0000CtrlGpuGetIdInfoParams.p_device_instance params)) json;
                      json = field_u64 ''subDeviceInstance'' (ucast (Nv0000CtrlGpuGetIdInfoParams.p_sub_device_instance params)) json;
                      json = field_str ''szNamePtr'' (hex0x (unat (Nv0000CtrlGpuGetIdInfoParams.p_sz_name params))) json;
                      json = field_u64 ''sliStatus'' (ucast (Nv0000CtrlGpuGetIdInfoParams.p_sli_status params)) json;
                      json = field_u64 ''boardId'' (ucast (Nv0000CtrlGpuGetIdInfoParams.p_board_id params)) json;
                      json = field_u64 ''gpuInstance'' (ucast (Nv0000CtrlGpuGetIdInfoParams.p_gpu_instance params)) json;
                      json = field_i64 ''numaId'' (Nv0000CtrlGpuGetIdInfoParams.p_numa_id params) json;
                      json = (if Nv0000CtrlGpuGetIdInfoParams.p_sz_name params \<noteq> 0
                                 then (case read_remote_string rd (Nv0000CtrlGpuGetIdInfoParams.p_sz_name params) 128 128 of
                                         Some name \<Rightarrow>
                                           field_str ''name'' name json
                                       | None \<Rightarrow> json)
                                 else json);
                      json = field_str ''status'' ''ok'' json
                  in Some \<lparr>krd_legacy = ''name=NV0000_CTRL_CMD_GPU_GET_ID_INFO, gpuId='' @
                                        dec (unat (Nv0000CtrlGpuGetIdInfoParams.p_gpu_id params)),
                           krd_json = finish json\<rparr>))))"

definition decode_cmd_gpu_get_id_info_v2 ::
    "remote \<Rightarrow> u64 \<Rightarrow> usize \<Rightarrow> KnownRmDecode option" where
  "decode_cmd_gpu_get_id_info_v2 rd params_addr params_size =
     (let expected = pod_size Nv0000CtrlGpuGetIdInfoV2Params_pod
      in (if params_size < expected then
            Some (known_size_mismatch ''NV0000_CTRL_CMD_GPU_GET_ID_INFO_V2'' expected params_size)
          else
            (case read_pod rd Nv0000CtrlGpuGetIdInfoV2Params_pod params_addr of
               None \<Rightarrow> None
             | Some params \<Rightarrow>
                 (let json = JsonObject_new;
                      json = field_u64 ''gpuId'' (ucast (Nv0000CtrlGpuGetIdInfoV2Params.p_gpu_id params)) json;
                      json = field_str ''gpuFlags'' (hex0x (unat (Nv0000CtrlGpuGetIdInfoV2Params.p_gpu_flags params))) json;
                      json = field_u64 ''deviceInstance'' (ucast (Nv0000CtrlGpuGetIdInfoV2Params.p_device_instance params)) json;
                      json = field_u64 ''subDeviceInstance'' (ucast (Nv0000CtrlGpuGetIdInfoV2Params.p_sub_device_instance params)) json;
                      json = field_u64 ''sliStatus'' (ucast (Nv0000CtrlGpuGetIdInfoV2Params.p_sli_status params)) json;
                      json = field_u64 ''boardId'' (ucast (Nv0000CtrlGpuGetIdInfoV2Params.p_board_id params)) json;
                      json = field_u64 ''gpuInstance'' (ucast (Nv0000CtrlGpuGetIdInfoV2Params.p_gpu_instance params)) json;
                      json = field_i64 ''numaId'' (Nv0000CtrlGpuGetIdInfoV2Params.p_numa_id params) json;
                      json = field_str ''status'' ''ok'' json
                  in Some \<lparr>krd_legacy = ''name=NV0000_CTRL_CMD_GPU_GET_ID_INFO_V2, gpuId='' @
                                        dec (unat (Nv0000CtrlGpuGetIdInfoV2Params.p_gpu_id params)),
                           krd_json = finish json\<rparr>))))"

definition decode_cmd_gpu_get_probed_ids ::
    "remote \<Rightarrow> u64 \<Rightarrow> usize \<Rightarrow> KnownRmDecode option" where
  "decode_cmd_gpu_get_probed_ids rd params_addr params_size =
     (let expected = pod_size Nv0000CtrlGpuGetProbedIdsParams_pod
      in (if params_size < expected then
            Some (known_size_mismatch ''NV0000_CTRL_CMD_GPU_GET_PROBED_IDS'' expected params_size)
          else
            (case read_pod rd Nv0000CtrlGpuGetProbedIdsParams_pod params_addr of
               None \<Rightarrow> None
             | Some params \<Rightarrow>
                 (let gpu_ids = valid_gpu_ids (Nv0000CtrlGpuGetProbedIdsParams.p_gpu_ids params);
                      excluded_ids = valid_gpu_ids (Nv0000CtrlGpuGetProbedIdsParams.p_excluded_gpu_ids params);
                      json = JsonObject_new;
                      json = field_u64 ''gpuCount'' (of_nat (length gpu_ids)) json;
                      json = field_u64 ''excludedCount'' (of_nat (length excluded_ids)) json;
                      json = field_raw ''gpuIds'' (json_u32_array gpu_ids) json;
                      json = field_raw ''excludedGpuIds'' (json_u32_array excluded_ids) json;
                      json = field_raw ''gpuFlags'' (json_u32_hex_array (take (length gpu_ids) (Nv0000CtrlGpuGetProbedIdsParams.p_gpu_flags params))) json;
                      json = field_str ''status'' ''ok'' json
                  in Some \<lparr>krd_legacy = ''name=NV0000_CTRL_CMD_GPU_GET_PROBED_IDS, gpuCount='' @
                                        dec (length gpu_ids),
                           krd_json = finish json\<rparr>))))"

definition decode_cmd_gpu_attach_ids ::
    "remote \<Rightarrow> u64 \<Rightarrow> usize \<Rightarrow> KnownRmDecode option" where
  "decode_cmd_gpu_attach_ids rd params_addr params_size =
     (let expected = pod_size Nv0000CtrlGpuAttachIdsParams_pod
      in (if params_size < expected then
            Some (known_size_mismatch ''NV0000_CTRL_CMD_GPU_ATTACH_IDS'' expected params_size)
          else
            (case read_pod rd Nv0000CtrlGpuAttachIdsParams_pod params_addr of
               None \<Rightarrow> None
             | Some params \<Rightarrow>
                 (let ids = valid_gpu_ids (Nv0000CtrlGpuAttachIdsParams.p_gpu_ids params);
                      json = JsonObject_new;
                      json = field_u64 ''gpuCount'' (of_nat (length ids)) json;
                      json = field_raw ''gpuIds'' (json_u32_array ids) json;
                      json = field_u64 ''failedId'' (ucast (Nv0000CtrlGpuAttachIdsParams.p_failed_id params)) json;
                      json = field_str ''status'' ''ok'' json
                  in Some \<lparr>krd_legacy = ''name=NV0000_CTRL_CMD_GPU_ATTACH_IDS, gpuCount='' @
                                        dec (length ids),
                           krd_json = finish json\<rparr>))))"

definition decode_cmd_gpu_get_active_device_ids ::
    "remote \<Rightarrow> u64 \<Rightarrow> usize \<Rightarrow> KnownRmDecode option" where
  "decode_cmd_gpu_get_active_device_ids rd params_addr params_size =
     (let expected = pod_size Nv0000CtrlGpuGetActiveDeviceIdsParams_pod
      in (if params_size < expected then
            Some (known_size_mismatch ''NV0000_CTRL_CMD_GPU_GET_ACTIVE_DEVICE_IDS'' expected params_size)
          else
            (case read_pod rd Nv0000CtrlGpuGetActiveDeviceIdsParams_pod params_addr of
               None \<Rightarrow> None
             | Some params \<Rightarrow>
                 (let count = min (unat (Nv0000CtrlGpuGetActiveDeviceIdsParams.p_num_devices params)) (length (Nv0000CtrlGpuGetActiveDeviceIdsParams.p_devices params));
                      json = JsonObject_new;
                      json = field_u64 ''numDevices'' (ucast (Nv0000CtrlGpuGetActiveDeviceIdsParams.p_num_devices params)) json;
                      json = field_raw ''devices'' (json_active_device_array (take count (Nv0000CtrlGpuGetActiveDeviceIdsParams.p_devices params))) json;
                      json = field_bool ''truncated'' (count < unat (Nv0000CtrlGpuGetActiveDeviceIdsParams.p_num_devices params)) json;
                      json = field_str ''status'' ''ok'' json
                  in Some \<lparr>krd_legacy = ''name=NV0000_CTRL_CMD_GPU_GET_ACTIVE_DEVICE_IDS, numDevices='' @
                                        dec (unat (Nv0000CtrlGpuGetActiveDeviceIdsParams.p_num_devices params)),
                           krd_json = finish json\<rparr>))))"

definition decode_cmd_sync_gpu_boost_group_info ::
    "remote \<Rightarrow> u64 \<Rightarrow> usize \<Rightarrow> KnownRmDecode option" where
  "decode_cmd_sync_gpu_boost_group_info rd params_addr params_size =
     (let expected = pod_size Nv0000SyncGpuBoostGroupInfoParams_pod
      in (if params_size < expected then
            Some (known_size_mismatch ''NV0000_CTRL_CMD_SYNC_GPU_BOOST_GROUP_INFO'' expected params_size)
          else
            (case read_pod rd Nv0000SyncGpuBoostGroupInfoParams_pod params_addr of
               None \<Rightarrow> None
             | Some params \<Rightarrow>
                 (let count = min (unat (Nv0000SyncGpuBoostGroupInfoParams.p_group_count params)) (length (Nv0000SyncGpuBoostGroupInfoParams.p_boost_groups params));
                      json = JsonObject_new;
                      json = field_u64 ''groupCount'' (ucast (Nv0000SyncGpuBoostGroupInfoParams.p_group_count params)) json;
                      json = field_raw ''groups'' (json_sync_gpu_boost_group_array (take count (Nv0000SyncGpuBoostGroupInfoParams.p_boost_groups params))) json;
                      json = field_bool ''truncated'' (count < unat (Nv0000SyncGpuBoostGroupInfoParams.p_group_count params)) json;
                      json = field_str ''status'' ''ok'' json
                  in Some \<lparr>krd_legacy = ''name=NV0000_CTRL_CMD_SYNC_GPU_BOOST_GROUP_INFO, groupCount='' @
                                        dec (unat (Nv0000SyncGpuBoostGroupInfoParams.p_group_count params)),
                           krd_json = finish json\<rparr>))))"

definition decode_cmd_host_get_caps_v2 ::
    "remote \<Rightarrow> u64 \<Rightarrow> usize \<Rightarrow> KnownRmDecode option" where
  "decode_cmd_host_get_caps_v2 rd params_addr params_size =
     (let expected = pod_size Nv0080CtrlHostGetCapsV2Params_pod
      in (if params_size < expected then
            Some (known_size_mismatch ''NV0080_CTRL_CMD_HOST_GET_CAPS_V2'' expected params_size)
          else
            (case read_pod rd Nv0080CtrlHostGetCapsV2Params_pod params_addr of
               None \<Rightarrow> None
             | Some params \<Rightarrow>
                 (let json = JsonObject_new;
                      json = field_raw ''capsTbl'' (json_u8_array (Nv0080CtrlHostGetCapsV2Params.p_caps_tbl params)) json;
                      json = field_str ''status'' ''ok'' json
                  in Some \<lparr>krd_legacy = ''name=NV0080_CTRL_CMD_HOST_GET_CAPS_V2'',
                           krd_json = finish json\<rparr>))))"

definition decode_cmd_gpu_get_num_subdevices ::
    "remote \<Rightarrow> u64 \<Rightarrow> usize \<Rightarrow> KnownRmDecode option" where
  "decode_cmd_gpu_get_num_subdevices rd params_addr params_size =
     (let expected = pod_size Nv0080CtrlGpuGetNumSubdevicesParams_pod
      in (if params_size < expected then
            Some (known_size_mismatch ''NV0080_CTRL_CMD_GPU_GET_NUM_SUBDEVICES'' expected params_size)
          else
            (case read_pod rd Nv0080CtrlGpuGetNumSubdevicesParams_pod params_addr of
               None \<Rightarrow> None
             | Some params \<Rightarrow>
                 (let json = JsonObject_new;
                      json = field_u64 ''numSubDevices'' (ucast (Nv0080CtrlGpuGetNumSubdevicesParams.p_num_sub_devices params)) json;
                      json = field_str ''status'' ''ok'' json
                  in Some \<lparr>krd_legacy = ''name=NV0080_CTRL_CMD_GPU_GET_NUM_SUBDEVICES, numSubDevices='' @
                                        dec (unat (Nv0080CtrlGpuGetNumSubdevicesParams.p_num_sub_devices params)),
                           krd_json = finish json\<rparr>))))"

definition decode_cmd_gpu_get_classlist_v2 ::
    "remote \<Rightarrow> u64 \<Rightarrow> usize \<Rightarrow> KnownRmDecode option" where
  "decode_cmd_gpu_get_classlist_v2 rd params_addr params_size =
     (let expected = pod_size Nv0080CtrlGpuGetClasslistV2Params_pod
      in (if params_size < expected then
            Some (known_size_mismatch ''NV0080_CTRL_CMD_GPU_GET_CLASSLIST_V2'' expected params_size)
          else
            (case read_pod rd Nv0080CtrlGpuGetClasslistV2Params_pod params_addr of
               None \<Rightarrow> None
             | Some params \<Rightarrow>
                 (let count = min (unat (Nv0080CtrlGpuGetClasslistV2Params.p_num_classes params)) (length (Nv0080CtrlGpuGetClasslistV2Params.p_class_list params));
                      json = JsonObject_new;
                      json = field_u64 ''numClasses'' (ucast (Nv0080CtrlGpuGetClasslistV2Params.p_num_classes params)) json;
                      json = field_raw ''classList'' (json_u32_hex_array (take count (Nv0080CtrlGpuGetClasslistV2Params.p_class_list params))) json;
                      json = field_bool ''truncated'' (count < unat (Nv0080CtrlGpuGetClasslistV2Params.p_num_classes params)) json;
                      json = field_str ''status'' ''ok'' json
                  in Some \<lparr>krd_legacy = ''name=NV0080_CTRL_CMD_GPU_GET_CLASSLIST_V2, numClasses='' @
                                        dec (unat (Nv0080CtrlGpuGetClasslistV2Params.p_num_classes params)),
                           krd_json = finish json\<rparr>))))"

definition decode_cmd_gpu_get_virtualization_mode ::
    "remote \<Rightarrow> u64 \<Rightarrow> usize \<Rightarrow> KnownRmDecode option" where
  "decode_cmd_gpu_get_virtualization_mode rd params_addr params_size =
     (let expected = pod_size Nv0080CtrlGpuGetVirtualizationModeParams_pod
      in (if params_size < expected then
            Some (known_size_mismatch ''NV0080_CTRL_CMD_GPU_GET_VIRTUALIZATION_MODE'' expected params_size)
          else
            (case read_pod rd Nv0080CtrlGpuGetVirtualizationModeParams_pod params_addr of
               None \<Rightarrow> None
             | Some params \<Rightarrow>
                 (let json = JsonObject_new;
                      json = field_u64 ''virtualizationMode'' (ucast (Nv0080CtrlGpuGetVirtualizationModeParams.p_virtualization_mode params)) json;
                      json = field_str ''virtualizationModeName'' (virtualization_mode_name (Nv0080CtrlGpuGetVirtualizationModeParams.p_virtualization_mode params)) json;
                      json = field_bool ''isGridBuild'' (Nv0080CtrlGpuGetVirtualizationModeParams.p_is_grid_build params \<noteq> 0) json;
                      json = field_str ''status'' ''ok'' json
                  in Some \<lparr>krd_legacy = ''name=NV0080_CTRL_CMD_GPU_GET_VIRTUALIZATION_MODE, mode='' @
                                        dec (unat (Nv0080CtrlGpuGetVirtualizationModeParams.p_virtualization_mode params)),
                           krd_json = finish json\<rparr>))))"

definition decode_cmd_fifo_get_channellist ::
    "remote \<Rightarrow> u64 \<Rightarrow> usize \<Rightarrow> KnownRmDecode option" where
  "decode_cmd_fifo_get_channellist rd params_addr params_size =
     (let expected = pod_size Nv0080CtrlFifoGetChannellistParams_pod
      in (if params_size < expected then
            Some (known_size_mismatch ''NV0080_CTRL_CMD_FIFO_GET_CHANNELLIST'' expected params_size)
          else
            (case read_pod rd Nv0080CtrlFifoGetChannellistParams_pod params_addr of
               None \<Rightarrow> None
             | Some params \<Rightarrow>
                 (let count = min (unat (Nv0080CtrlFifoGetChannellistParams.p_num_channels params)) MAX_CTRL_LIST_ITEMS;
                      handles = [];
                      channels = [];
                      handles = (if (Nv0080CtrlFifoGetChannellistParams.p_p_channel_handle_list params \<noteq> 0) \<and> (0 < count)
                                    then (case read_bytes rd (Nv0080CtrlFifoGetChannellistParams.p_p_channel_handle_list params) (count * size_of FU32) of
                                            Some bytes \<Rightarrow>
                                              handles @ map get_u32 (chunks_exact (size_of FU32) bytes)
                                          | None \<Rightarrow> handles)
                                    else handles);
                      channels = (if (Nv0080CtrlFifoGetChannellistParams.p_p_channel_list params \<noteq> 0) \<and> (0 < count)
                                     then (case read_bytes rd (Nv0080CtrlFifoGetChannellistParams.p_p_channel_list params) (count * size_of FU32) of
                                             Some bytes \<Rightarrow>
                                               channels @ map get_u32 (chunks_exact (size_of FU32) bytes)
                                           | None \<Rightarrow> channels)
                                     else channels);
                      json = JsonObject_new;
                      json = field_u64 ''numChannels'' (ucast (Nv0080CtrlFifoGetChannellistParams.p_num_channels params)) json;
                      json = field_str ''pChannelHandleList'' (hex0x (unat (Nv0080CtrlFifoGetChannellistParams.p_p_channel_handle_list params))) json;
                      json = field_str ''pChannelList'' (hex0x (unat (Nv0080CtrlFifoGetChannellistParams.p_p_channel_list params))) json;
                      json = (if handles \<noteq> []
                                 then field_raw ''channelHandleList'' (json_u32_hex_array handles) json
                                 else json);
                      json = (if channels \<noteq> []
                                 then field_raw ''channelIdList'' (json_u32_hex_array channels) json
                                 else json);
                      json = field_bool ''truncated'' (count < unat (Nv0080CtrlFifoGetChannellistParams.p_num_channels params)) json;
                      json = field_str ''status'' ''ok'' json
                  in Some \<lparr>krd_legacy = ''name=NV0080_CTRL_CMD_FIFO_GET_CHANNELLIST, numChannels='' @
                                        dec (unat (Nv0080CtrlFifoGetChannellistParams.p_num_channels params)),
                           krd_json = finish json\<rparr>))))"

definition decode_cmd_perf_cuda_limit_set_control ::
    "remote \<Rightarrow> u64 \<Rightarrow> usize \<Rightarrow> KnownRmDecode option" where
  "decode_cmd_perf_cuda_limit_set_control rd params_addr params_size =
     (let expected = pod_size Nv0080CtrlPerfCudaLimitControlParams_pod
      in (if params_size < expected then
            Some (known_size_mismatch ''NV0080_CTRL_CMD_PERF_CUDA_LIMIT_SET_CONTROL'' expected params_size)
          else
            (case read_pod rd Nv0080CtrlPerfCudaLimitControlParams_pod params_addr of
               None \<Rightarrow> None
             | Some params \<Rightarrow>
                 (let json = JsonObject_new;
                      json = field_bool ''cudaLimit'' (Nv0080CtrlPerfCudaLimitControlParams.p_b_cuda_limit params \<noteq> 0) json;
                      json = field_str ''status'' ''ok'' json
                  in Some \<lparr>krd_legacy = ''name=NV0080_CTRL_CMD_PERF_CUDA_LIMIT_SET_CONTROL, cudaLimit='' @
                                        dec (unat (Nv0080CtrlPerfCudaLimitControlParams.p_b_cuda_limit params)),
                           krd_json = finish json\<rparr>))))"

definition decode_cmd_fb_get_caps_v2 ::
    "remote \<Rightarrow> u64 \<Rightarrow> usize \<Rightarrow> KnownRmDecode option" where
  "decode_cmd_fb_get_caps_v2 rd params_addr params_size =
     (let expected = pod_size Nv0080CtrlFbGetCapsV2Params_pod
      in (if params_size < expected then
            Some (known_size_mismatch ''NV0080_CTRL_CMD_FB_GET_CAPS_V2'' expected params_size)
          else
            (case read_pod rd Nv0080CtrlFbGetCapsV2Params_pod params_addr of
               None \<Rightarrow> None
             | Some params \<Rightarrow>
                 (let json = JsonObject_new;
                      json = field_raw ''capsTbl'' (json_u8_hex_array (Nv0080CtrlFbGetCapsV2Params.p_caps_tbl params)) json;
                      json = field_str ''status'' ''ok'' json
                  in Some \<lparr>krd_legacy = ''name=NV0080_CTRL_CMD_FB_GET_CAPS_V2'',
                           krd_json = finish json\<rparr>))))"

definition decode_cmd_class_engine_id ::
    "remote \<Rightarrow> u64 \<Rightarrow> usize \<Rightarrow> KnownRmDecode option" where
  "decode_cmd_class_engine_id rd params_addr params_size =
     (let expected = pod_size Nv906fCtrlGetClassEngineIdParams_pod
      in (if params_size < expected then
            Some (known_size_mismatch ''NV906F_CTRL_GET_CLASS_ENGINEID'' expected params_size)
          else
            (case read_pod rd Nv906fCtrlGetClassEngineIdParams_pod params_addr of
               None \<Rightarrow> None
             | Some params \<Rightarrow>
                 (let json = JsonObject_new;
                      json = field_str ''hObject'' (hex0x (unat (Nv906fCtrlGetClassEngineIdParams.p_h_object params))) json;
                      json = field_u64 ''classEngineId'' (ucast (Nv906fCtrlGetClassEngineIdParams.p_class_engine_id params)) json;
                      json = field_str ''classId'' (hex0x (unat (Nv906fCtrlGetClassEngineIdParams.p_class_id params))) json;
                      json = field_str ''engineId'' (hex0x (unat (Nv906fCtrlGetClassEngineIdParams.p_engine_id params))) json;
                      json = field_str ''status'' ''ok'' json
                  in Some \<lparr>krd_legacy = ''name=NV906F_CTRL_GET_CLASS_ENGINEID, hObject=0x'' @
                                        hex (unat (Nv906fCtrlGetClassEngineIdParams.p_h_object params)),
                           krd_json = finish json\<rparr>))))"

definition decode_cmd_gpfifo_get_work_submit_token ::
    "remote \<Rightarrow> u64 \<Rightarrow> usize \<Rightarrow> KnownRmDecode option" where
  "decode_cmd_gpfifo_get_work_submit_token rd params_addr params_size =
     (let expected = pod_size Nvc36fCtrlCmdGpfifoGetWorkSubmitTokenParams_pod
      in (if params_size < expected then
            Some (known_size_mismatch ''NVC36F_CTRL_CMD_GPFIFO_GET_WORK_SUBMIT_TOKEN'' expected params_size)
          else
            (case read_pod rd Nvc36fCtrlCmdGpfifoGetWorkSubmitTokenParams_pod params_addr of
               None \<Rightarrow> None
             | Some params \<Rightarrow>
                 (let json = JsonObject_new;
                      json = field_u64 ''workSubmitToken'' (ucast (Nvc36fCtrlCmdGpfifoGetWorkSubmitTokenParams.p_work_submit_token params)) json;
                      json = field_str ''status'' ''ok'' json
                  in Some \<lparr>krd_legacy = ''name=NVC36F_CTRL_CMD_GPFIFO_GET_WORK_SUBMIT_TOKEN, token='' @
                                        dec (unat (Nvc36fCtrlCmdGpfifoGetWorkSubmitTokenParams.p_work_submit_token params)),
                           krd_json = finish json\<rparr>))))"

definition decode_cmd_mc_get_arch_info ::
    "remote \<Rightarrow> u64 \<Rightarrow> usize \<Rightarrow> KnownRmDecode option" where
  "decode_cmd_mc_get_arch_info rd params_addr params_size =
     (let expected = pod_size Nv2080CtrlMcGetArchInfoParams_pod
      in (if params_size < expected then
            Some (known_size_mismatch ''NV2080_CTRL_CMD_MC_GET_ARCH_INFO'' expected params_size)
          else
            (case read_pod rd Nv2080CtrlMcGetArchInfoParams_pod params_addr of
               None \<Rightarrow> None
             | Some params \<Rightarrow>
                 (let json = JsonObject_new;
                      json = field_str ''architecture'' (hex0x (unat (Nv2080CtrlMcGetArchInfoParams.p_architecture params))) json;
                      json = field_str ''implementation'' (hex0x (unat (Nv2080CtrlMcGetArchInfoParams.p_implementation params))) json;
                      json = field_str ''revision'' (hex0x (unat (Nv2080CtrlMcGetArchInfoParams.p_revision params))) json;
                      json = field_u64 ''subRevision'' (ucast (Nv2080CtrlMcGetArchInfoParams.p_sub_revision params)) json;
                      json = field_str ''status'' ''ok'' json
                  in Some \<lparr>krd_legacy = ''name=NV2080_CTRL_CMD_MC_GET_ARCH_INFO, arch=0x'' @
                                        hex (unat (Nv2080CtrlMcGetArchInfoParams.p_architecture params)),
                           krd_json = finish json\<rparr>))))"

definition decode_cmd_gpu_get_info_v2 ::
    "remote \<Rightarrow> u64 \<Rightarrow> usize \<Rightarrow> KnownRmDecode option" where
  "decode_cmd_gpu_get_info_v2 rd params_addr params_size =
     (let expected = pod_size Nv2080CtrlGpuGetInfoV2Params_pod
      in (if params_size < expected then
            Some (known_size_mismatch ''NV2080_CTRL_CMD_GPU_GET_INFO_V2'' expected params_size)
          else
            (case read_pod rd Nv2080CtrlGpuGetInfoV2Params_pod params_addr of
               None \<Rightarrow> None
             | Some params \<Rightarrow>
                 (let count = min (unat (Nv2080CtrlGpuGetInfoV2Params.p_gpu_info_list_size params)) (length (Nv2080CtrlGpuGetInfoV2Params.p_gpu_info_list params));
                      json = JsonObject_new;
                      json = field_u64 ''gpuInfoListSize'' (ucast (Nv2080CtrlGpuGetInfoV2Params.p_gpu_info_list_size params)) json;
                      json = field_raw ''gpuInfoList'' (json_xxx_info_array (take count (Nv2080CtrlGpuGetInfoV2Params.p_gpu_info_list params))) json;
                      json = field_bool ''truncated'' (count < unat (Nv2080CtrlGpuGetInfoV2Params.p_gpu_info_list_size params)) json;
                      json = field_str ''status'' ''ok'' json
                  in Some \<lparr>krd_legacy = ''name=NV2080_CTRL_CMD_GPU_GET_INFO_V2, gpuInfoListSize='' @
                                        dec (unat (Nv2080CtrlGpuGetInfoV2Params.p_gpu_info_list_size params)),
                           krd_json = finish json\<rparr>))))"

definition decode_cmd_gpu_get_name_string ::
    "remote \<Rightarrow> u64 \<Rightarrow> usize \<Rightarrow> KnownRmDecode option" where
  "decode_cmd_gpu_get_name_string rd params_addr params_size =
     (let expected = pod_size Nv2080CtrlGpuGetNameStringParams_pod
      in (if params_size < expected then
            Some (known_size_mismatch ''NV2080_CTRL_CMD_GPU_GET_NAME_STRING'' expected params_size)
          else
            (case read_pod rd Nv2080CtrlGpuGetNameStringParams_pod params_addr of
               None \<Rightarrow> None
             | Some params \<Rightarrow>
                 (let json = JsonObject_new;
                      json = field_str ''gpuNameStringFlags'' (hex0x (unat (Nv2080CtrlGpuGetNameStringParams.p_gpu_name_string_flags params))) json;
                      name = (if (Nv2080CtrlGpuGetNameStringParams.p_gpu_name_string_flags params AND 0x1) \<noteq> 0 then read_utf16le_c_string (Nv2080CtrlGpuGetNameStringParams.p_gpu_name_string params) else read_c_string (take NV2080_GPU_MAX_NAME_STRING_LENGTH (Nv2080CtrlGpuGetNameStringParams.p_gpu_name_string params)));
                      json = field_str ''name'' name json;
                      json = field_str ''encoding'' (if (Nv2080CtrlGpuGetNameStringParams.p_gpu_name_string_flags params AND 0x1) \<noteq> 0 then ''UTF16'' else ''ASCII'') json;
                      json = field_str ''status'' ''ok'' json
                  in Some \<lparr>krd_legacy = ''name=NV2080_CTRL_CMD_GPU_GET_NAME_STRING, name='' @
                                        [dquote] @ name @ [dquote],
                           krd_json = finish json\<rparr>))))"

definition decode_cmd_gpu_get_short_name_string ::
    "remote \<Rightarrow> u64 \<Rightarrow> usize \<Rightarrow> KnownRmDecode option" where
  "decode_cmd_gpu_get_short_name_string rd params_addr params_size =
     (let expected = pod_size Nv2080CtrlGpuGetShortNameStringParams_pod
      in (if params_size < expected then
            Some (known_size_mismatch ''NV2080_CTRL_CMD_GPU_GET_SHORT_NAME_STRING'' expected params_size)
          else
            (case read_pod rd Nv2080CtrlGpuGetShortNameStringParams_pod params_addr of
               None \<Rightarrow> None
             | Some params \<Rightarrow>
                 (let name = read_c_string (Nv2080CtrlGpuGetShortNameStringParams.p_gpu_short_name_string params);
                      json = JsonObject_new;
                      json = field_str ''name'' name json;
                      json = field_str ''status'' ''ok'' json
                  in Some \<lparr>krd_legacy = ''name=NV2080_CTRL_CMD_GPU_GET_SHORT_NAME_STRING, name='' @
                                        [dquote] @ name @ [dquote],
                           krd_json = finish json\<rparr>))))"

definition decode_cmd_gpu_get_simulation_info ::
    "remote \<Rightarrow> u64 \<Rightarrow> usize \<Rightarrow> KnownRmDecode option" where
  "decode_cmd_gpu_get_simulation_info rd params_addr params_size =
     (let expected = pod_size Nv2080CtrlGpuGetSimulationInfoParams_pod
      in (if params_size < expected then
            Some (known_size_mismatch ''NV2080_CTRL_CMD_GPU_GET_SIMULATION_INFO'' expected params_size)
          else
            (case read_pod rd Nv2080CtrlGpuGetSimulationInfoParams_pod params_addr of
               None \<Rightarrow> None
             | Some params \<Rightarrow>
                 (let json = JsonObject_new;
                      json = field_u64 ''type'' (ucast (Nv2080CtrlGpuGetSimulationInfoParams.p_sim_type params)) json;
                      json = field_str ''typeName'' (simulation_info_type_name (Nv2080CtrlGpuGetSimulationInfoParams.p_sim_type params)) json;
                      json = field_str ''status'' ''ok'' json
                  in Some \<lparr>krd_legacy = ''name=NV2080_CTRL_CMD_GPU_GET_SIMULATION_INFO, type='' @
                                        simulation_info_type_name (Nv2080CtrlGpuGetSimulationInfoParams.p_sim_type params),
                           krd_json = finish json\<rparr>))))"

definition decode_cmd_gpu_get_engines_v2 ::
    "remote \<Rightarrow> u64 \<Rightarrow> usize \<Rightarrow> KnownRmDecode option" where
  "decode_cmd_gpu_get_engines_v2 rd params_addr params_size =
     (let expected = pod_size Nv2080CtrlGpuGetEnginesV2Params_pod
      in (if params_size < expected then
            Some (known_size_mismatch ''NV2080_CTRL_CMD_GPU_GET_ENGINES_V2'' expected params_size)
          else
            (case read_pod rd Nv2080CtrlGpuGetEnginesV2Params_pod params_addr of
               None \<Rightarrow> None
             | Some params \<Rightarrow>
                 (let count = min (unat (Nv2080CtrlGpuGetEnginesV2Params.p_engine_count params)) (length (Nv2080CtrlGpuGetEnginesV2Params.p_engine_list params));
                      json = JsonObject_new;
                      json = field_u64 ''engineCount'' (ucast (Nv2080CtrlGpuGetEnginesV2Params.p_engine_count params)) json;
                      json = field_raw ''engineList'' (json_u32_hex_array (take count (Nv2080CtrlGpuGetEnginesV2Params.p_engine_list params))) json;
                      json = field_bool ''truncated'' (count < unat (Nv2080CtrlGpuGetEnginesV2Params.p_engine_count params)) json;
                      json = field_str ''status'' ''ok'' json
                  in Some \<lparr>krd_legacy = ''name=NV2080_CTRL_CMD_GPU_GET_ENGINES_V2, engineCount='' @
                                        dec (unat (Nv2080CtrlGpuGetEnginesV2Params.p_engine_count params)),
                           krd_json = finish json\<rparr>))))"

record ecc_totals =
  enabled_units :: usize
  supported_units :: usize
  scrub_complete_units :: usize
  dbe_total :: u64
  sbe_total :: u64
  sampled :: "(u32 \<times> Nv2080CtrlGpuQueryEccUnitStatus) list"
  non_zero_units :: usize

definition u64_saturating_add :: "u64 \<Rightarrow> u64 \<Rightarrow> u64" where
  "u64_saturating_add a b = of_nat (saturating_add (2 ^ 64 - 1) (unat a) (unat b))"

definition ecc_unit :: "nat \<times> Nv2080CtrlGpuQueryEccUnitStatus \<Rightarrow> ecc_totals \<Rightarrow> ecc_totals" where
  "ecc_unit c t =
     (let (idx, unit) = c;
          t = (if Nv2080CtrlGpuQueryEccUnitStatus.p_enabled unit \<noteq> 0 then t\<lparr>enabled_units := enabled_units t + 1\<rparr> else t);
          t = (if Nv2080CtrlGpuQueryEccUnitStatus.p_supported unit \<noteq> 0 then t\<lparr>supported_units := supported_units t + 1\<rparr> else t);
          t = (if Nv2080CtrlGpuQueryEccUnitStatus.p_scrub_complete unit \<noteq> 0
               then t\<lparr>scrub_complete_units := scrub_complete_units t + 1\<rparr> else t);
          t = t\<lparr>dbe_total := u64_saturating_add (dbe_total t) (Nv2080CtrlGpuQueryEccExceptionStatus.p_count (Nv2080CtrlGpuQueryEccUnitStatus.p_dbe unit))\<rparr>;
          t = t\<lparr>sbe_total := u64_saturating_add (sbe_total t) (Nv2080CtrlGpuQueryEccExceptionStatus.p_count (Nv2080CtrlGpuQueryEccUnitStatus.p_sbe unit))\<rparr>;
          non_zero = (Nv2080CtrlGpuQueryEccUnitStatus.p_enabled unit \<noteq> 0 \<or> Nv2080CtrlGpuQueryEccUnitStatus.p_supported unit \<noteq> 0 \<or>
                      Nv2080CtrlGpuQueryEccExceptionStatus.p_count (Nv2080CtrlGpuQueryEccUnitStatus.p_dbe unit) \<noteq> 0 \<or> Nv2080CtrlGpuQueryEccExceptionStatus.p_count (Nv2080CtrlGpuQueryEccUnitStatus.p_sbe unit) \<noteq> 0)
      in if non_zero then
           (let t = t\<lparr>non_zero_units := non_zero_units t + 1\<rparr>
            in if length (sampled t) < MAX_CTRL_LIST_ITEMS
               then t\<lparr>sampled := sampled t @ [((of_nat idx :: u32), unit)]\<rparr> else t)
         else t)"

definition ecc_start :: ecc_totals where
  "ecc_start = \<lparr>enabled_units = 0, supported_units = 0, scrub_complete_units = 0, dbe_total = 0,
     sbe_total = 0, sampled = [], non_zero_units = 0\<rparr>"

definition decode_cmd_gpu_query_ecc_status :: "remote \<Rightarrow> u64 \<Rightarrow> usize \<Rightarrow> KnownRmDecode option" where
  "decode_cmd_gpu_query_ecc_status rd params_addr params_size =
     (let expected = pod_size Nv2080CtrlGpuQueryEccStatusParams_pod
      in (if params_size < expected then
            Some (known_size_mismatch ''NV2080_CTRL_CMD_GPU_QUERY_ECC_STATUS'' expected params_size)
          else
            (case read_pod rd Nv2080CtrlGpuQueryEccStatusParams_pod params_addr of
               None \<Rightarrow> None
             | Some params \<Rightarrow>
                 (let t = fold ecc_unit (enumerate 0 (Nv2080CtrlGpuQueryEccStatusParams.p_units params)) ecc_start;
                      json = JsonObject_new;
                      json = field_u64 ''unitCount'' (of_nat (length (Nv2080CtrlGpuQueryEccStatusParams.p_units params))) json;
                      json = field_u64 ''enabledUnits'' (of_nat (enabled_units t)) json;
                      json = field_u64 ''supportedUnits'' (of_nat (supported_units t)) json;
                      json = field_u64 ''scrubCompleteUnits'' (of_nat (scrub_complete_units t)) json;
                      json = field_u64 ''dbeTotal'' (dbe_total t) json;
                      json = field_u64 ''sbeTotal'' (sbe_total t) json;
                      json = field_bool ''fatalPoisonError'' (Nv2080CtrlGpuQueryEccStatusParams.p_b_fatal_poison_error params \<noteq> 0) json;
                      json = field_u64 ''uncorrectableError'' (ucast (Nv2080CtrlGpuQueryEccStatusParams.p_uncorrectable_error params)) json;
                      json = field_str ''flags'' (hex0x (unat (Nv2080CtrlGpuQueryEccStatusParams.p_flags params))) json;
                      route = JsonObject_new;
                      route = field_str ''flags'' (hex0x (unat (Nv2080CtrlGrRouteInfo.p_flags (Nv2080CtrlGpuQueryEccStatusParams.p_gr_route_info params)))) route;
                      route = field_str ''route'' (hex0x (unat (Nv2080CtrlGrRouteInfo.p_route (Nv2080CtrlGpuQueryEccStatusParams.p_gr_route_info params)))) route;
                      json = field_raw ''grRouteInfo'' (finish route) json;
                      json = field_raw ''unitSample'' (json_ecc_unit_sample_array (sampled t)) json;
                      json = field_bool ''sampleTruncated'' (length (sampled t) < non_zero_units t) json;
                      json = field_str ''status'' ''ok'' json
                  in Some \<lparr>krd_legacy = ''name=NV2080_CTRL_CMD_GPU_QUERY_ECC_STATUS, enabledUnits='' @
                                        dec (enabled_units t) @ '', dbeTotal='' @ dec (unat (dbe_total t)) @
                                        '', sbeTotal='' @ dec (unat (sbe_total t)),
                           krd_json = finish json\<rparr>))))"

definition decode_cmd_gpu_query_compute_mode_rules ::
    "remote \<Rightarrow> u64 \<Rightarrow> usize \<Rightarrow> KnownRmDecode option" where
  "decode_cmd_gpu_query_compute_mode_rules rd params_addr params_size =
     (let expected = pod_size Nv2080CtrlGpuQueryComputeModeRulesParams_pod
      in (if params_size < expected then
            Some (known_size_mismatch ''NV2080_CTRL_CMD_GPU_QUERY_COMPUTE_MODE_RULES'' expected params_size)
          else
            (case read_pod rd Nv2080CtrlGpuQueryComputeModeRulesParams_pod params_addr of
               None \<Rightarrow> None
             | Some params \<Rightarrow>
                 (let json = JsonObject_new;
                      json = field_u64 ''rules'' (ucast (Nv2080CtrlGpuQueryComputeModeRulesParams.p_rules params)) json;
                      json = field_str ''rulesName'' (compute_mode_rules_name (Nv2080CtrlGpuQueryComputeModeRulesParams.p_rules params)) json;
                      json = field_str ''status'' ''ok'' json
                  in Some \<lparr>krd_legacy = ''name=NV2080_CTRL_CMD_GPU_QUERY_COMPUTE_MODE_RULES, rules='' @
                                        compute_mode_rules_name (Nv2080CtrlGpuQueryComputeModeRulesParams.p_rules params),
                           krd_json = finish json\<rparr>))))"

definition decode_cmd_gpu_get_gid_info ::
    "remote \<Rightarrow> u64 \<Rightarrow> usize \<Rightarrow> KnownRmDecode option" where
  "decode_cmd_gpu_get_gid_info rd params_addr params_size =
     (let expected = pod_size Nv2080CtrlGpuGetGidInfoParams_pod
      in (if params_size < expected then
            Some (known_size_mismatch ''NV2080_CTRL_CMD_GPU_GET_GID_INFO'' expected params_size)
          else
            (case read_pod rd Nv2080CtrlGpuGetGidInfoParams_pod params_addr of
               None \<Rightarrow> None
             | Some params \<Rightarrow>
                 (let len = min (unat (Nv2080CtrlGpuGetGidInfoParams.p_length params)) (length (Nv2080CtrlGpuGetGidInfoParams.p_data params));
                      json = JsonObject_new;
                      json = field_u64 ''index'' (ucast (Nv2080CtrlGpuGetGidInfoParams.p_index params)) json;
                      json = field_str ''flags'' (hex0x (unat (Nv2080CtrlGpuGetGidInfoParams.p_flags params))) json;
                      json = field_u64 ''length'' (ucast (Nv2080CtrlGpuGetGidInfoParams.p_length params)) json;
                      json = (if (Nv2080CtrlGpuGetGidInfoParams.p_flags params AND 0x2) = 0
                                 then (let text = from_utf8_lossy (bytes_string (take len (Nv2080CtrlGpuGetGidInfoParams.p_data params)));
                                           json = field_str ''gid'' (trim_nuls text) json
                                       in json)
                                 else field_raw ''gidBytes'' (json_u8_array (take len (Nv2080CtrlGpuGetGidInfoParams.p_data params))) json);
                      json = field_str ''status'' ''ok'' json
                  in Some \<lparr>krd_legacy = ''name=NV2080_CTRL_CMD_GPU_GET_GID_INFO, length='' @
                                        dec (unat (Nv2080CtrlGpuGetGidInfoParams.p_length params)),
                           krd_json = finish json\<rparr>))))"

definition decode_cmd_fb_get_info_v2 ::
    "remote \<Rightarrow> u64 \<Rightarrow> usize \<Rightarrow> KnownRmDecode option" where
  "decode_cmd_fb_get_info_v2 rd params_addr params_size =
     (let expected = pod_size Nv2080CtrlFbGetInfoV2Params_pod
      in (if params_size < expected then
            Some (known_size_mismatch ''NV2080_CTRL_CMD_FB_GET_INFO_V2'' expected params_size)
          else
            (case read_pod rd Nv2080CtrlFbGetInfoV2Params_pod params_addr of
               None \<Rightarrow> None
             | Some params \<Rightarrow>
                 (let count = min (unat (Nv2080CtrlFbGetInfoV2Params.p_fb_info_list_size params)) (length (Nv2080CtrlFbGetInfoV2Params.p_fb_info_list params));
                      json = JsonObject_new;
                      json = field_u64 ''fbInfoListSize'' (ucast (Nv2080CtrlFbGetInfoV2Params.p_fb_info_list_size params)) json;
                      json = field_raw ''fbInfoList'' (json_xxx_info_array (take count (Nv2080CtrlFbGetInfoV2Params.p_fb_info_list params))) json;
                      json = field_bool ''truncated'' (count < unat (Nv2080CtrlFbGetInfoV2Params.p_fb_info_list_size params)) json;
                      json = field_str ''status'' ''ok'' json
                  in Some \<lparr>krd_legacy = ''name=NV2080_CTRL_CMD_FB_GET_INFO_V2, fbInfoListSize='' @
                                        dec (unat (Nv2080CtrlFbGetInfoV2Params.p_fb_info_list_size params)),
                           krd_json = finish json\<rparr>))))"

definition decode_cmd_bus_get_pci_info ::
    "remote \<Rightarrow> u64 \<Rightarrow> usize \<Rightarrow> KnownRmDecode option" where
  "decode_cmd_bus_get_pci_info rd params_addr params_size =
     (let expected = pod_size Nv2080CtrlBusGetPciInfoParams_pod
      in (if params_size < expected then
            Some (known_size_mismatch ''NV2080_CTRL_CMD_BUS_GET_PCI_INFO'' expected params_size)
          else
            (case read_pod rd Nv2080CtrlBusGetPciInfoParams_pod params_addr of
               None \<Rightarrow> None
             | Some params \<Rightarrow>
                 (let json = JsonObject_new;
                      json = field_str ''pciDeviceId'' (hex0x (unat (Nv2080CtrlBusGetPciInfoParams.p_pci_device_id params))) json;
                      json = field_str ''pciSubSystemId'' (hex0x (unat (Nv2080CtrlBusGetPciInfoParams.p_pci_sub_system_id params))) json;
                      json = field_str ''pciRevisionId'' (hex0x (unat (Nv2080CtrlBusGetPciInfoParams.p_pci_revision_id params))) json;
                      json = field_str ''pciExtDeviceId'' (hex0x (unat (Nv2080CtrlBusGetPciInfoParams.p_pci_ext_device_id params))) json;
                      json = field_str ''status'' ''ok'' json
                  in Some \<lparr>krd_legacy = ''name=NV2080_CTRL_CMD_BUS_GET_PCI_INFO'',
                           krd_json = finish json\<rparr>))))"

definition decode_cmd_bus_get_info_v2 ::
    "remote \<Rightarrow> u64 \<Rightarrow> usize \<Rightarrow> KnownRmDecode option" where
  "decode_cmd_bus_get_info_v2 rd params_addr params_size =
     (let expected = pod_size Nv2080CtrlBusGetInfoV2Params_pod
      in (if params_size < expected then
            Some (known_size_mismatch ''NV2080_CTRL_CMD_BUS_GET_INFO_V2'' expected params_size)
          else
            (case read_pod rd Nv2080CtrlBusGetInfoV2Params_pod params_addr of
               None \<Rightarrow> None
             | Some params \<Rightarrow>
                 (let count = min (unat (Nv2080CtrlBusGetInfoV2Params.p_bus_info_list_size params)) (length (Nv2080CtrlBusGetInfoV2Params.p_bus_info_list params));
                      json = JsonObject_new;
                      json = field_u64 ''busInfoListSize'' (ucast (Nv2080CtrlBusGetInfoV2Params.p_bus_info_list_size params)) json;
                      json = field_raw ''busInfoList'' (json_xxx_info_array (take count (Nv2080CtrlBusGetInfoV2Params.p_bus_info_list params))) json;
                      json = field_bool ''truncated'' (count < unat (Nv2080CtrlBusGetInfoV2Params.p_bus_info_list_size params)) json;
                      json = field_str ''status'' ''ok'' json
                  in Some \<lparr>krd_legacy = ''name=NV2080_CTRL_CMD_BUS_GET_INFO_V2, busInfoListSize='' @
                                        dec (unat (Nv2080CtrlBusGetInfoV2Params.p_bus_info_list_size params)),
                           krd_json = finish json\<rparr>))))"

definition decode_cmd_bus_get_pci_bar_info ::
    "remote \<Rightarrow> u64 \<Rightarrow> usize \<Rightarrow> KnownRmDecode option" where
  "decode_cmd_bus_get_pci_bar_info rd params_addr params_size =
     (let expected = pod_size Nv2080CtrlBusGetPciBarInfoParams_pod
      in (if params_size < expected then
            Some (known_size_mismatch ''NV2080_CTRL_CMD_BUS_GET_PCI_BAR_INFO'' expected params_size)
          else
            (case read_pod rd Nv2080CtrlBusGetPciBarInfoParams_pod params_addr of
               None \<Rightarrow> None
             | Some params \<Rightarrow>
                 (let count = min (unat (Nv2080CtrlBusGetPciBarInfoParams.p_pci_bar_count params)) (length (Nv2080CtrlBusGetPciBarInfoParams.p_pci_bar_info params));
                      json = JsonObject_new;
                      json = field_u64 ''pciBarCount'' (ucast (Nv2080CtrlBusGetPciBarInfoParams.p_pci_bar_count params)) json;
                      json = field_raw ''pciBarInfo'' (json_pci_bar_info_array (take count (Nv2080CtrlBusGetPciBarInfoParams.p_pci_bar_info params))) json;
                      json = field_bool ''truncated'' (count < unat (Nv2080CtrlBusGetPciBarInfoParams.p_pci_bar_count params)) json;
                      json = field_str ''status'' ''ok'' json
                  in Some \<lparr>krd_legacy = ''name=NV2080_CTRL_CMD_BUS_GET_PCI_BAR_INFO, pciBarCount='' @
                                        dec (unat (Nv2080CtrlBusGetPciBarInfoParams.p_pci_bar_count params)),
                           krd_json = finish json\<rparr>))))"

definition decode_cmd_bus_get_pcie_supported_gpu_atomics ::
    "remote \<Rightarrow> u64 \<Rightarrow> usize \<Rightarrow> KnownRmDecode option" where
  "decode_cmd_bus_get_pcie_supported_gpu_atomics rd params_addr params_size =
     (let expected = pod_size Nv2080CtrlCmdBusGetPcieSupportedGpuAtomicsParams_pod
      in (if params_size < expected then
            Some (known_size_mismatch ''NV2080_CTRL_CMD_BUS_GET_PCIE_SUPPORTED_GPU_ATOMICS'' expected params_size)
          else
            (case read_pod rd Nv2080CtrlCmdBusGetPcieSupportedGpuAtomicsParams_pod params_addr of
               None \<Rightarrow> None
             | Some params \<Rightarrow>
                 (let json = JsonObject_new;
                      json = field_u64 ''capType'' (ucast (Nv2080CtrlCmdBusGetPcieSupportedGpuAtomicsParams.p_cap_type params)) json;
                      json = field_str ''dbdf'' (hex0x (unat (Nv2080CtrlCmdBusGetPcieSupportedGpuAtomicsParams.p_dbdf params))) json;
                      json = field_raw ''atomicOp'' (json_atomic_op_array (Nv2080CtrlCmdBusGetPcieSupportedGpuAtomicsParams.p_atomic_op params)) json;
                      json = field_str ''status'' ''ok'' json
                  in Some \<lparr>krd_legacy = ''name=NV2080_CTRL_CMD_BUS_GET_PCIE_SUPPORTED_GPU_ATOMICS'',
                           krd_json = finish json\<rparr>))))"

definition decode_cmd_bus_get_c2c_info ::
    "remote \<Rightarrow> u64 \<Rightarrow> usize \<Rightarrow> KnownRmDecode option" where
  "decode_cmd_bus_get_c2c_info rd params_addr params_size =
     (let expected = pod_size Nv2080CtrlBusGetC2cInfoParams_pod
      in (if params_size < expected then
            Some (known_size_mismatch ''NV2080_CTRL_CMD_BUS_GET_C2C_INFO'' expected params_size)
          else
            (case read_pod rd Nv2080CtrlBusGetC2cInfoParams_pod params_addr of
               None \<Rightarrow> None
             | Some params \<Rightarrow>
                 (let json = JsonObject_new;
                      json = field_bool ''isLinkUp'' (Nv2080CtrlBusGetC2cInfoParams.p_b_is_link_up params \<noteq> 0) json;
                      json = field_bool ''linkInHighSpeed'' (Nv2080CtrlBusGetC2cInfoParams.p_b_link_in_hs params \<noteq> 0) json;
                      json = field_u64 ''nrLinks'' (ucast (Nv2080CtrlBusGetC2cInfoParams.p_nr_links params)) json;
                      json = field_u64 ''maxNrLinks'' (ucast (Nv2080CtrlBusGetC2cInfoParams.p_max_nr_links params)) json;
                      json = field_str ''linkMask'' (hex0x (unat (Nv2080CtrlBusGetC2cInfoParams.p_link_mask params))) json;
                      json = field_u64 ''perLinkBwMBps'' (ucast (Nv2080CtrlBusGetC2cInfoParams.p_per_link_bw_mbps params)) json;
                      json = field_u64 ''perLinkLaneWidth'' (ucast (Nv2080CtrlBusGetC2cInfoParams.p_per_link_lane_width params)) json;
                      json = field_u64 ''remoteType'' (ucast (Nv2080CtrlBusGetC2cInfoParams.p_remote_type params)) json;
                      json = field_str ''remoteTypeName'' (c2c_remote_type_name (Nv2080CtrlBusGetC2cInfoParams.p_remote_type params)) json;
                      json = field_str ''status'' ''ok'' json
                  in Some \<lparr>krd_legacy = ''name=NV2080_CTRL_CMD_BUS_GET_C2C_INFO, isLinkUp='' @
                                        (if Nv2080CtrlBusGetC2cInfoParams.p_b_is_link_up params \<noteq> 0 then ''true'' else ''false'') @
                                        '', nrLinks='' @
                                        dec (unat (Nv2080CtrlBusGetC2cInfoParams.p_nr_links params)),
                           krd_json = finish json\<rparr>))))"

definition decode_cmd_gr_get_info :: "remote \<Rightarrow> u64 \<Rightarrow> usize \<Rightarrow> KnownRmDecode option" where
  "decode_cmd_gr_get_info rd params_addr params_size =
     (let expected = pod_size Nv2080CtrlGrGetInfoParams_pod
      in (if params_size < expected then
            Some (known_size_mismatch ''NV2080_CTRL_CMD_GR_GET_INFO'' expected params_size)
          else
            (case read_pod rd Nv2080CtrlGrGetInfoParams_pod params_addr of
               None \<Rightarrow> None
             | Some params \<Rightarrow>
                 (let entries = [];
                      count = min (unat (Nv2080CtrlGrGetInfoParams.p_gr_info_list_size params)) MAX_CTRL_LIST_ITEMS;
                      entries = (if Nv2080CtrlGrGetInfoParams.p_gr_info_list params \<noteq> 0 \<and> 0 < count
                                 then (case read_bytes rd (Nv2080CtrlGrGetInfoParams.p_gr_info_list params)
                                              (count * pod_size NvxxxxCtrlXxxInfo_pod) of
                                         Some bytes \<Rightarrow>
                                           entries @ map (\<lambda>chunk. \<lparr>NvxxxxCtrlXxxInfo.p_index = get_u32 chunk,
                                                                      p_data = get_u32 (drop 4 chunk)\<rparr>)
                                             (chunks_exact (pod_size NvxxxxCtrlXxxInfo_pod) bytes)
                                       | None \<Rightarrow> entries)
                                 else entries);
                      json = JsonObject_new;
                      json = field_u64 ''grInfoListSize'' (ucast (Nv2080CtrlGrGetInfoParams.p_gr_info_list_size params)) json;
                      json = field_str ''grInfoListPtr'' (hex0x (unat (Nv2080CtrlGrGetInfoParams.p_gr_info_list params))) json;
                      json = field_raw ''grInfoList'' (json_xxx_info_array entries) json;
                      json = field_bool ''truncated'' (count < unat (Nv2080CtrlGrGetInfoParams.p_gr_info_list_size params)) json;
                      route = JsonObject_new;
                      route = field_str ''flags'' (hex0x (unat (Nv2080CtrlGrRouteInfo.p_flags (Nv2080CtrlGrGetInfoParams.p_gr_route_info params)))) route;
                      route = field_str ''route'' (hex0x (unat (Nv2080CtrlGrRouteInfo.p_route (Nv2080CtrlGrGetInfoParams.p_gr_route_info params)))) route;
                      json = field_raw ''grRouteInfo'' (finish route) json;
                      json = field_str ''status'' ''ok'' json
                  in Some \<lparr>krd_legacy = ''name=NV2080_CTRL_CMD_GR_GET_INFO, grInfoListSize='' @
                                        dec (unat (Nv2080CtrlGrGetInfoParams.p_gr_info_list_size params)),
                           krd_json = finish json\<rparr>))))"

definition decode_cmd_gr_get_global_sm_order ::
    "remote \<Rightarrow> u64 \<Rightarrow> usize \<Rightarrow> KnownRmDecode option" where
  "decode_cmd_gr_get_global_sm_order rd params_addr params_size =
     (let expected = pod_size Nv2080CtrlGrGetGlobalSmOrderParams_pod
      in (if params_size < expected then
            Some (known_size_mismatch ''NV2080_CTRL_CMD_GR_GET_GLOBAL_SM_ORDER'' expected params_size)
          else
            (case read_pod rd Nv2080CtrlGrGetGlobalSmOrderParams_pod params_addr of
               None \<Rightarrow> None
             | Some params \<Rightarrow>
                 (let count = min (unat (Nv2080CtrlGrGetGlobalSmOrderParams.p_num_sm params)) (length (Nv2080CtrlGrGetGlobalSmOrderParams.p_global_sm_id params));
                      sampled = min count MAX_CTRL_LIST_ITEMS;
                      json = JsonObject_new;
                      json = field_u64 ''numSm'' (ucast (Nv2080CtrlGrGetGlobalSmOrderParams.p_num_sm params)) json;
                      json = field_u64 ''numTpc'' (ucast (Nv2080CtrlGrGetGlobalSmOrderParams.p_num_tpc params)) json;
                      json = field_raw ''globalSmId'' (json_global_sm_order_array (take sampled (Nv2080CtrlGrGetGlobalSmOrderParams.p_global_sm_id params))) json;
                      json = field_bool ''truncated'' (sampled < count) json;
                      route = JsonObject_new;
                      route = field_str ''flags'' (hex0x (unat (Nv2080CtrlGrRouteInfo.p_flags (Nv2080CtrlGrGetGlobalSmOrderParams.p_gr_route_info params)))) route;
                      route = field_str ''route'' (hex0x (unat (Nv2080CtrlGrRouteInfo.p_route (Nv2080CtrlGrGetGlobalSmOrderParams.p_gr_route_info params)))) route;
                      json = field_raw ''grRouteInfo'' (finish route) json;
                      json = field_str ''status'' ''ok'' json
                  in Some \<lparr>krd_legacy = ''name=NV2080_CTRL_CMD_GR_GET_GLOBAL_SM_ORDER, numSm='' @
                                        dec (unat (Nv2080CtrlGrGetGlobalSmOrderParams.p_num_sm params)) @
                                        '', numTpc='' @
                                        dec (unat (Nv2080CtrlGrGetGlobalSmOrderParams.p_num_tpc params)),
                           krd_json = finish json\<rparr>))))"

definition decode_cmd_gr_get_caps_v2 ::
    "remote \<Rightarrow> u64 \<Rightarrow> usize \<Rightarrow> KnownRmDecode option" where
  "decode_cmd_gr_get_caps_v2 rd params_addr params_size =
     (let expected = pod_size Nv0080CtrlGrGetCapsV2Params_pod
      in (if params_size < expected then
            Some (known_size_mismatch ''NV2080_CTRL_CMD_GR_GET_CAPS_V2'' expected params_size)
          else
            (case read_pod rd Nv0080CtrlGrGetCapsV2Params_pod params_addr of
               None \<Rightarrow> None
             | Some params \<Rightarrow>
                 (let json = JsonObject_new;
                      json = field_raw ''capsTbl'' (json_u8_hex_array (Nv0080CtrlGrGetCapsV2Params.p_caps_tbl params)) json;
                      json = field_bool ''capsPopulated'' (Nv0080CtrlGrGetCapsV2Params.p_b_caps_populated params \<noteq> 0) json;
                      route = JsonObject_new;
                      route = field_str ''flags'' (hex0x (unat (Nv2080CtrlGrRouteInfo.p_flags (Nv0080CtrlGrGetCapsV2Params.p_gr_route_info params)))) route;
                      route = field_str ''route'' (hex0x (unat (Nv2080CtrlGrRouteInfo.p_route (Nv0080CtrlGrGetCapsV2Params.p_gr_route_info params)))) route;
                      json = field_raw ''grRouteInfo'' (finish route) json;
                      json = field_str ''status'' ''ok'' json
                  in Some \<lparr>krd_legacy = ''name=NV2080_CTRL_CMD_GR_GET_CAPS_V2'',
                           krd_json = finish json\<rparr>))))"

definition decode_cmd_gr_get_gpc_mask ::
    "remote \<Rightarrow> u64 \<Rightarrow> usize \<Rightarrow> KnownRmDecode option" where
  "decode_cmd_gr_get_gpc_mask rd params_addr params_size =
     (let expected = pod_size Nv2080CtrlGrGetGpcMaskParams_pod
      in (if params_size < expected then
            Some (known_size_mismatch ''NV2080_CTRL_CMD_GR_GET_GPC_MASK'' expected params_size)
          else
            (case read_pod rd Nv2080CtrlGrGetGpcMaskParams_pod params_addr of
               None \<Rightarrow> None
             | Some params \<Rightarrow>
                 (let json = JsonObject_new;
                      json = field_str ''gpcMask'' (hex0x (unat (Nv2080CtrlGrGetGpcMaskParams.p_gpc_mask params))) json;
                      route = JsonObject_new;
                      route = field_str ''flags'' (hex0x (unat (Nv2080CtrlGrRouteInfo.p_flags (Nv2080CtrlGrGetGpcMaskParams.p_gr_route_info params)))) route;
                      route = field_str ''route'' (hex0x (unat (Nv2080CtrlGrRouteInfo.p_route (Nv2080CtrlGrGetGpcMaskParams.p_gr_route_info params)))) route;
                      json = field_raw ''grRouteInfo'' (finish route) json;
                      json = field_str ''status'' ''ok'' json
                  in Some \<lparr>krd_legacy = ''name=NV2080_CTRL_CMD_GR_GET_GPC_MASK, gpcMask=0x'' @
                                        hex (unat (Nv2080CtrlGrGetGpcMaskParams.p_gpc_mask params)),
                           krd_json = finish json\<rparr>))))"

definition decode_cmd_gr_get_tpc_mask ::
    "remote \<Rightarrow> u64 \<Rightarrow> usize \<Rightarrow> KnownRmDecode option" where
  "decode_cmd_gr_get_tpc_mask rd params_addr params_size =
     (let expected = pod_size Nv2080CtrlGrGetTpcMaskParams_pod
      in (if params_size < expected then
            Some (known_size_mismatch ''NV2080_CTRL_CMD_GR_GET_TPC_MASK'' expected params_size)
          else
            (case read_pod rd Nv2080CtrlGrGetTpcMaskParams_pod params_addr of
               None \<Rightarrow> None
             | Some params \<Rightarrow>
                 (let json = JsonObject_new;
                      json = field_u64 ''gpcId'' (ucast (Nv2080CtrlGrGetTpcMaskParams.p_gpc_id params)) json;
                      json = field_str ''tpcMask'' (hex0x (unat (Nv2080CtrlGrGetTpcMaskParams.p_tpc_mask params))) json;
                      route = JsonObject_new;
                      route = field_str ''flags'' (hex0x (unat (Nv2080CtrlGrRouteInfo.p_flags (Nv2080CtrlGrGetTpcMaskParams.p_gr_route_info params)))) route;
                      route = field_str ''route'' (hex0x (unat (Nv2080CtrlGrRouteInfo.p_route (Nv2080CtrlGrGetTpcMaskParams.p_gr_route_info params)))) route;
                      json = field_raw ''grRouteInfo'' (finish route) json;
                      json = field_str ''status'' ''ok'' json
                  in Some \<lparr>krd_legacy = ''name=NV2080_CTRL_CMD_GR_GET_TPC_MASK, gpcId='' @
                                        dec (unat (Nv2080CtrlGrGetTpcMaskParams.p_gpc_id params)) @
                                        '', tpcMask=0x'' @
                                        hex (unat (Nv2080CtrlGrGetTpcMaskParams.p_tpc_mask params)),
                           krd_json = finish json\<rparr>))))"

definition decode_cmd_gr_set_ctxsw_preemption_mode ::
    "remote \<Rightarrow> u64 \<Rightarrow> usize \<Rightarrow> KnownRmDecode option" where
  "decode_cmd_gr_set_ctxsw_preemption_mode rd params_addr params_size =
     (let expected = pod_size Nv2080CtrlGrSetCtxswPreemptionModeParams_pod
      in (if params_size < expected then
            Some (known_size_mismatch ''NV2080_CTRL_CMD_GR_SET_CTXSW_PREEMPTION_MODE'' expected params_size)
          else
            (case read_pod rd Nv2080CtrlGrSetCtxswPreemptionModeParams_pod params_addr of
               None \<Rightarrow> None
             | Some params \<Rightarrow>
                 (let json = JsonObject_new;
                      json = field_str ''flags'' (hex0x (unat (Nv2080CtrlGrSetCtxswPreemptionModeParams.p_flags params))) json;
                      json = field_str ''hChannel'' (hex0x (unat (Nv2080CtrlGrSetCtxswPreemptionModeParams.p_h_channel params))) json;
                      json = field_u64 ''gfxpPreemptMode'' (ucast (Nv2080CtrlGrSetCtxswPreemptionModeParams.p_gfxp_preempt_mode params)) json;
                      json = field_u64 ''cilpPreemptMode'' (ucast (Nv2080CtrlGrSetCtxswPreemptionModeParams.p_cilp_preempt_mode params)) json;
                      route = JsonObject_new;
                      route = field_str ''flags'' (hex0x (unat (Nv2080CtrlGrRouteInfo.p_flags (Nv2080CtrlGrSetCtxswPreemptionModeParams.p_gr_route_info params)))) route;
                      route = field_str ''route'' (hex0x (unat (Nv2080CtrlGrRouteInfo.p_route (Nv2080CtrlGrSetCtxswPreemptionModeParams.p_gr_route_info params)))) route;
                      json = field_raw ''grRouteInfo'' (finish route) json;
                      json = field_str ''status'' ''ok'' json
                  in Some \<lparr>krd_legacy = ''name=NV2080_CTRL_CMD_GR_SET_CTXSW_PREEMPTION_MODE'',
                           krd_json = finish json\<rparr>))))"

definition decode_cmd_gr_get_ctx_buffer_size ::
    "remote \<Rightarrow> u64 \<Rightarrow> usize \<Rightarrow> KnownRmDecode option" where
  "decode_cmd_gr_get_ctx_buffer_size rd params_addr params_size =
     (let expected = pod_size Nv2080CtrlGrGetCtxBufferSizeParams_pod
      in (if params_size < expected then
            Some (known_size_mismatch ''NV2080_CTRL_CMD_GR_GET_CTX_BUFFER_SIZE'' expected params_size)
          else
            (case read_pod rd Nv2080CtrlGrGetCtxBufferSizeParams_pod params_addr of
               None \<Rightarrow> None
             | Some params \<Rightarrow>
                 (let json = JsonObject_new;
                      json = field_str ''hChannel'' (hex0x (unat (Nv2080CtrlGrGetCtxBufferSizeParams.p_h_channel params))) json;
                      json = field_u64 ''totalBufferSize'' (Nv2080CtrlGrGetCtxBufferSizeParams.p_total_buffer_size params) json;
                      json = field_str ''status'' ''ok'' json
                  in Some \<lparr>krd_legacy = ''name=NV2080_CTRL_CMD_GR_GET_CTX_BUFFER_SIZE, totalBufferSize='' @
                                        dec (unat (Nv2080CtrlGrGetCtxBufferSizeParams.p_total_buffer_size params)),
                           krd_json = finish json\<rparr>))))"

definition push_ce_caps :: "u64 \<Rightarrow> nat \<times> u8 list \<Rightarrow> (u32 \<times> u8 \<times> u8 \<times> bool) list \<Rightarrow> (u32 \<times> u8 \<times> u8 \<times> bool) list" where
  "push_ce_caps present_mask c entries =
     (let (idx, caps) = c;
          present = (drop_bit idx present_mask AND 1 \<noteq> 0)
      in if present \<or> caps ! 0 \<noteq> 0 \<or> caps ! 1 \<noteq> 0
         then entries @ [((of_nat idx :: u32), caps ! 0, caps ! 1, present)]
         else entries)"

definition decode_cmd_ce_get_all_caps :: "remote \<Rightarrow> u64 \<Rightarrow> usize \<Rightarrow> KnownRmDecode option" where
  "decode_cmd_ce_get_all_caps rd params_addr params_size =
     (let expected = pod_size Nv2080CtrlCeGetAllCapsParams_pod
      in (if params_size < expected then
            Some (known_size_mismatch ''NV2080_CTRL_CMD_CE_GET_ALL_CAPS'' expected params_size)
          else
            (case read_pod rd Nv2080CtrlCeGetAllCapsParams_pod params_addr of
               None \<Rightarrow> None
             | Some params \<Rightarrow>
                 (let entries = fold (push_ce_caps (Nv2080CtrlCeGetAllCapsParams.p_present params))
                        (enumerate 0 (Nv2080CtrlCeGetAllCapsParams.p_caps_tbl params)) [];
                      json = JsonObject_new;
                      json = field_str ''presentMask'' (hex0x (unat (Nv2080CtrlCeGetAllCapsParams.p_present params))) json;
                      json = field_raw ''ceCaps'' (json_ce_caps_array entries) json;
                      json = field_u64 ''presentCount'' (of_nat (length (filter (\<lambda>(_, _, _, p). p) entries))) json;
                      json = field_str ''status'' ''ok'' json
                  in Some \<lparr>krd_legacy = ''name=NV2080_CTRL_CMD_CE_GET_ALL_CAPS, presentMask=0x'' @
                                        hex (unat (Nv2080CtrlCeGetAllCapsParams.p_present params)),
                           krd_json = finish json\<rparr>))))"

definition decode_cmd_nvlink_get_nvlink_status ::
    "remote \<Rightarrow> u64 \<Rightarrow> usize \<Rightarrow> KnownRmDecode option" where
  "decode_cmd_nvlink_get_nvlink_status rd params_addr params_size =
     (let expected = pod_size Nv2080CtrlNvlinkGetNvlinkStatusParamsPrefix_pod
      in (if params_size < expected then
            Some (known_size_mismatch ''NV2080_CTRL_CMD_NVLINK_GET_NVLINK_STATUS'' expected params_size)
          else
            (case read_pod rd Nv2080CtrlNvlinkGetNvlinkStatusParamsPrefix_pod params_addr of
               None \<Rightarrow> None
             | Some params \<Rightarrow>
                 (let json = JsonObject_new;
                      json = field_str ''enabledLinkMask'' (hex0x (unat (Nv2080CtrlNvlinkGetNvlinkStatusParamsPrefix.p_enabled_link_mask params))) json;
                      json = field_u64 ''enabledLinksLenMasks'' (ucast (Nv2080CtrlNvlinkLinkMask.p_len_masks (Nv2080CtrlNvlinkGetNvlinkStatusParamsPrefix.p_enabled_links params))) json;
                      json = field_str ''enabledLinksMask0'' (hex0x (unat ((Nv2080CtrlNvlinkLinkMask.p_masks (Nv2080CtrlNvlinkGetNvlinkStatusParamsPrefix.p_enabled_links params)) ! 0))) json;
                      json = field_bool ''sublinkStateInstant'' (Nv2080CtrlNvlinkGetNvlinkStatusParamsPrefix.p_b_sublink_state_inst params \<noteq> 0) json;
                      json = field_bool ''nvleModeEnabled'' (Nv2080CtrlNvlinkGetNvlinkStatusParamsPrefix.p_b_nvle_mode_enabled params \<noteq> 0) json;
                      json = (if size_of fty.FU64 \<le> params_size
                                 then (let enabled_nvlpw_mask_addr = (params_addr + of_nat params_size) - of_nat (size_of fty.FU64)
                                       in (case read_pod rd u64_pod enabled_nvlpw_mask_addr of
                                             Some nvlpw_mask \<Rightarrow>
                                               field_str ''enabledNvlpwMask'' (hex0x (unat nvlpw_mask)) json
                                           | None \<Rightarrow> json))
                                 else json);
                      json = field_u64 ''paramsSize'' (of_nat params_size) json;
                      json = field_str ''status'' ''ok'' json
                  in Some \<lparr>krd_legacy = ''name=NV2080_CTRL_CMD_NVLINK_GET_NVLINK_STATUS, enabledLinkMask=0x'' @
                                        hex (unat (Nv2080CtrlNvlinkGetNvlinkStatusParamsPrefix.p_enabled_link_mask params)),
                           krd_json = finish json\<rparr>))))"

definition decode_cmd_gsp_get_features ::
    "remote \<Rightarrow> u64 \<Rightarrow> usize \<Rightarrow> KnownRmDecode option" where
  "decode_cmd_gsp_get_features rd params_addr params_size =
     (let expected = pod_size Nv2080CtrlGspGetFeaturesParams_pod
      in (if params_size < expected then
            Some (known_size_mismatch ''NV2080_CTRL_CMD_GSP_GET_FEATURES'' expected params_size)
          else
            (case read_pod rd Nv2080CtrlGspGetFeaturesParams_pod params_addr of
               None \<Rightarrow> None
             | Some params \<Rightarrow>
                 (let json = JsonObject_new;
                      json = field_str ''gspFeatures'' (hex0x (unat (Nv2080CtrlGspGetFeaturesParams.p_gsp_features params))) json;
                      json = field_bool ''valid'' (Nv2080CtrlGspGetFeaturesParams.p_b_valid params \<noteq> 0) json;
                      json = field_bool ''defaultGspRmGpu'' (Nv2080CtrlGspGetFeaturesParams.p_b_default_gsp_rm_gpu params \<noteq> 0) json;
                      json = field_str ''firmwareVersion'' (read_c_string (Nv2080CtrlGspGetFeaturesParams.p_firmware_version params)) json;
                      json = field_str ''status'' ''ok'' json
                  in Some \<lparr>krd_legacy = ''name=NV2080_CTRL_CMD_GSP_GET_FEATURES, valid='' @
                                        (if Nv2080CtrlGspGetFeaturesParams.p_b_valid params \<noteq> 0 then ''true'' else ''false''),
                           krd_json = finish json\<rparr>))))"

definition decode_cmd_grmgr_get_gr_fs_info ::
    "remote \<Rightarrow> u64 \<Rightarrow> usize \<Rightarrow> KnownRmDecode option" where
  "decode_cmd_grmgr_get_gr_fs_info rd params_addr params_size =
     (let expected = pod_size Nv2080CtrlGrmgrGetGrFsInfoParams_pod
      in (if params_size < expected then
            Some (known_size_mismatch ''NV2080_CTRL_CMD_GRMGR_GET_GR_FS_INFO'' expected params_size)
          else
            (case read_pod rd Nv2080CtrlGrmgrGetGrFsInfoParams_pod params_addr of
               None \<Rightarrow> None
             | Some params \<Rightarrow>
                 (let count = min (unat (Nv2080CtrlGrmgrGetGrFsInfoParams.p_num_queries params)) (length (Nv2080CtrlGrmgrGetGrFsInfoParams.p_queries params));
                      sampled = min count MAX_CTRL_LIST_ITEMS;
                      json = JsonObject_new;
                      json = field_u64 ''numQueries'' (ucast (Nv2080CtrlGrmgrGetGrFsInfoParams.p_num_queries params)) json;
                      json = field_raw ''queries'' (json_grmgr_queries_array (take sampled (Nv2080CtrlGrmgrGetGrFsInfoParams.p_queries params))) json;
                      json = field_bool ''truncated'' (sampled < count) json;
                      json = field_str ''status'' ''ok'' json
                  in Some \<lparr>krd_legacy = ''name=NV2080_CTRL_CMD_GRMGR_GET_GR_FS_INFO, numQueries='' @
                                        dec (unat (Nv2080CtrlGrmgrGetGrFsInfoParams.p_num_queries params)),
                           krd_json = finish json\<rparr>))))"

definition decode_cmd_conf_compute_get_capabilities ::
    "remote \<Rightarrow> u64 \<Rightarrow> usize \<Rightarrow> KnownRmDecode option" where
  "decode_cmd_conf_compute_get_capabilities rd params_addr params_size =
     (let expected = pod_size NvConfComputeCtrlCmdSystemGetCapabilitiesParams_pod
      in (if params_size < expected then
            Some (known_size_mismatch ''NV_CONF_COMPUTE_CTRL_CMD_SYSTEM_GET_CAPABILITIES'' expected params_size)
          else
            (case read_pod rd NvConfComputeCtrlCmdSystemGetCapabilitiesParams_pod params_addr of
               None \<Rightarrow> None
             | Some params \<Rightarrow>
                 (let json = JsonObject_new;
                      json = field_u64 ''cpuCapability'' (ucast (NvConfComputeCtrlCmdSystemGetCapabilitiesParams.p_cpu_capability params)) json;
                      json = field_u64 ''gpusCapability'' (ucast (NvConfComputeCtrlCmdSystemGetCapabilitiesParams.p_gpus_capability params)) json;
                      json = field_u64 ''environment'' (ucast (NvConfComputeCtrlCmdSystemGetCapabilitiesParams.p_environment params)) json;
                      json = field_u64 ''ccFeature'' (ucast (NvConfComputeCtrlCmdSystemGetCapabilitiesParams.p_cc_feature params)) json;
                      json = field_u64 ''devToolsMode'' (ucast (NvConfComputeCtrlCmdSystemGetCapabilitiesParams.p_dev_tools_mode params)) json;
                      json = field_u64 ''multiGpuMode'' (ucast (NvConfComputeCtrlCmdSystemGetCapabilitiesParams.p_multi_gpu_mode params)) json;
                      json = field_str ''status'' ''ok'' json
                  in Some \<lparr>krd_legacy = ''name=NV_CONF_COMPUTE_CTRL_CMD_SYSTEM_GET_CAPABILITIES'',
                           krd_json = finish json\<rparr>))))"

definition decode_cmd_gpfifo_schedule ::
    "remote \<Rightarrow> u64 \<Rightarrow> usize \<Rightarrow> KnownRmDecode option" where
  "decode_cmd_gpfifo_schedule rd params_addr params_size =
     (let expected = pod_size Nva06cCtrlGpfifoScheduleParams_pod
      in (if params_size < expected then
            Some (known_size_mismatch ''NVA06C_CTRL_CMD_GPFIFO_SCHEDULE'' expected params_size)
          else
            (case read_pod rd Nva06cCtrlGpfifoScheduleParams_pod params_addr of
               None \<Rightarrow> None
             | Some params \<Rightarrow>
                 (let json = JsonObject_new;
                      json = field_bool ''enable'' (Nva06cCtrlGpfifoScheduleParams.p_b_enable params \<noteq> 0) json;
                      json = field_bool ''skipSubmit'' (Nva06cCtrlGpfifoScheduleParams.p_b_skip_submit params \<noteq> 0) json;
                      json = field_bool ''skipEnable'' (Nva06cCtrlGpfifoScheduleParams.p_b_skip_enable params \<noteq> 0) json;
                      json = field_str ''status'' ''ok'' json
                  in Some \<lparr>krd_legacy = ''name=NVA06C_CTRL_CMD_GPFIFO_SCHEDULE'',
                           krd_json = finish json\<rparr>))))"

definition decode_cmd_set_timeslice ::
    "remote \<Rightarrow> u64 \<Rightarrow> usize \<Rightarrow> KnownRmDecode option" where
  "decode_cmd_set_timeslice rd params_addr params_size =
     (let expected = pod_size Nva06cCtrlTimesliceParams_pod
      in (if params_size < expected then
            Some (known_size_mismatch ''NVA06C_CTRL_CMD_SET_TIMESLICE'' expected params_size)
          else
            (case read_pod rd Nva06cCtrlTimesliceParams_pod params_addr of
               None \<Rightarrow> None
             | Some params \<Rightarrow>
                 (let json = JsonObject_new;
                      json = field_u64 ''timesliceUs'' (Nva06cCtrlTimesliceParams.p_timeslice_us params) json;
                      json = field_str ''status'' ''ok'' json
                  in Some \<lparr>krd_legacy = ''name=NVA06C_CTRL_CMD_SET_TIMESLICE, timesliceUs='' @
                                        dec (unat (Nva06cCtrlTimesliceParams.p_timeslice_us params)),
                           krd_json = finish json\<rparr>))))"

definition decode_cmd_preempt ::
    "remote \<Rightarrow> u64 \<Rightarrow> usize \<Rightarrow> KnownRmDecode option" where
  "decode_cmd_preempt rd params_addr params_size =
     (let expected = pod_size Nva06cCtrlPreemptParams_pod
      in (if params_size < expected then
            Some (known_size_mismatch ''NVA06C_CTRL_CMD_PREEMPT'' expected params_size)
          else
            (case read_pod rd Nva06cCtrlPreemptParams_pod params_addr of
               None \<Rightarrow> None
             | Some params \<Rightarrow>
                 (let json = JsonObject_new;
                      json = field_bool ''wait'' (Nva06cCtrlPreemptParams.p_b_wait params \<noteq> 0) json;
                      json = field_bool ''manualTimeout'' (Nva06cCtrlPreemptParams.p_b_manual_timeout params \<noteq> 0) json;
                      json = field_u64 ''timeoutUs'' (ucast (Nva06cCtrlPreemptParams.p_timeout_us params)) json;
                      json = field_str ''status'' ''ok'' json
                  in Some \<lparr>krd_legacy = ''name=NVA06C_CTRL_CMD_PREEMPT, timeoutUs='' @
                                        dec (unat (Nva06cCtrlPreemptParams.p_timeout_us params)),
                           krd_json = finish json\<rparr>))))"

definition decode_cmd_debug_set_exception_mask ::
    "remote \<Rightarrow> u64 \<Rightarrow> usize \<Rightarrow> KnownRmDecode option" where
  "decode_cmd_debug_set_exception_mask rd params_addr params_size =
     (let expected = pod_size Nv83deCtrlDebugSetExceptionMaskParams_pod
      in (if params_size < expected then
            Some (known_size_mismatch ''NV83DE_CTRL_CMD_DEBUG_SET_EXCEPTION_MASK'' expected params_size)
          else
            (case read_pod rd Nv83deCtrlDebugSetExceptionMaskParams_pod params_addr of
               None \<Rightarrow> None
             | Some params \<Rightarrow>
                 (let json = JsonObject_new;
                      json = field_str ''exceptionMask'' (hex0x (unat (Nv83deCtrlDebugSetExceptionMaskParams.p_exception_mask params))) json;
                      json = field_str ''status'' ''ok'' json
                  in Some \<lparr>krd_legacy = ''name=NV83DE_CTRL_CMD_DEBUG_SET_EXCEPTION_MASK, mask=0x'' @
                                        hex (unat (Nv83deCtrlDebugSetExceptionMaskParams.p_exception_mask params)),
                           krd_json = finish json\<rparr>))))"

definition decode_cmd_perf_boost ::
    "remote \<Rightarrow> u64 \<Rightarrow> usize \<Rightarrow> KnownRmDecode option" where
  "decode_cmd_perf_boost rd params_addr params_size =
     (let expected = pod_size Nv2080CtrlPerfBoostParams_pod
      in (if params_size < expected then
            Some (known_size_mismatch ''NV2080_CTRL_CMD_PERF_BOOST'' expected params_size)
          else
            (case read_pod rd Nv2080CtrlPerfBoostParams_pod params_addr of
               None \<Rightarrow> None
             | Some params \<Rightarrow>
                 (let json = JsonObject_new;
                      json = field_str ''flags'' (hex0x (unat (Nv2080CtrlPerfBoostParams.p_flags params))) json;
                      json = field_u64 ''duration'' (ucast (Nv2080CtrlPerfBoostParams.p_duration params)) json;
                      json = field_str ''status'' ''ok'' json
                  in Some \<lparr>krd_legacy = ''name=NV2080_CTRL_CMD_PERF_BOOST, flags=0x'' @
                                        hex (unat (Nv2080CtrlPerfBoostParams.p_flags params)) @
                                        '', duration='' @
                                        dec (unat (Nv2080CtrlPerfBoostParams.p_duration params)),
                           krd_json = finish json\<rparr>))))"

definition decode_cmd_nv2080_legacy_generic ::
    "generated_tables \<Rightarrow> remote \<Rightarrow> u32 \<Rightarrow> u64 \<Rightarrow>
     usize \<Rightarrow> KnownRmDecode option" where
  "decode_cmd_nv2080_legacy_generic tables rd cmd params_addr params_size =
     (if drop_bit 16 cmd \<noteq> 0x2080 then
        None
      else
        (let interface = (ucast (drop_bit 8 cmd AND 0xff) :: u8);
             msg_id = (ucast (cmd AND 0xff) :: u8)
         in (case nv2080_interface_name interface of
               None \<Rightarrow>
                 None
             | Some interface_name \<Rightarrow>
                 (if \<not> str_contains interface_name ''LEGACY'' then
                    None
                  else
                    (let MAX_WORDS = 64;
                         max_read_len = MAX_WORDS * size_of FU32;
                         read_len = min params_size max_read_len;
                         cmd_name = rm_control_cmd_name tables cmd;
                         params_type_name = unwrap_or ''paramsPreview'' (rm_control_params_type_name cmd_name);
                         json = JsonObject_new;
                         json = field_str ''name'' cmd_name json;
                         json = field_str ''interface'' interface_name json;
                         json = field_str ''msg_id'' (''0x'' @ hex_pad 2 (unat msg_id)) json;
                         json = field_u64 ''params_size'' (of_nat params_size) json
                     in (if read_len = 0 then
                           (let json = field_str ''status'' ''ok'' json
                            in Some \<lparr>krd_legacy = ''name='' @ cmd_name @ '', interface='' @
                                                  interface_name @ '', msgId=0x'' @
                                                  hex_pad 2 (unat msg_id),
                                     krd_json = finish json\<rparr>)
                         else
                           (case read_bytes rd params_addr read_len of
                              None \<Rightarrow> None
                            | Some bytes \<Rightarrow>
                                (let words = [];
                                     words = words @ map get_u32 (chunks_exact (size_of FU32) bytes);
                                     json = (case nth_opt words 0 of
                                               Some word0 \<Rightarrow>
                                                 field_str ''word0'' (hex0x (unat word0)) json
                                             | None \<Rightarrow> json);
                                     json = (case nth_opt words 1 of
                                               Some word1 \<Rightarrow>
                                                 field_str ''word1'' (hex0x (unat word1)) json
                                             | None \<Rightarrow> json);
                                     json = (if 2 < length words
                                                then field_raw params_type_name (json_u32_hex_array words) json
                                                else json);
                                     json = field_bool ''truncated'' (read_len < params_size) json;
                                     json = field_str ''status'' ''ok'' json;
                                     legacy = ''name='' @ cmd_name @ '', interface='' @ interface_name @ '', msgId=0x'' @ hex_pad 2 (unat msg_id);
                                     legacy = (case nth_opt words 0 of
                                                 Some word0 \<Rightarrow>
                                                   legacy @ '', word0=0x'' @ hex (unat word0)
                                               | None \<Rightarrow> legacy);
                                     legacy = (case nth_opt words 1 of
                                                 Some word1 \<Rightarrow>
                                                   legacy @ '', word1=0x'' @ hex (unat word1)
                                               | None \<Rightarrow> legacy);
                                     legacy = (if 2 < length words
                                                  then legacy @ '', u32Words='' @ dec (length words)
                                                  else legacy);
                                     legacy = (if read_len < params_size
                                                  then legacy @ '', truncated('' @ dec read_len @ ''/'' @ dec params_size @ '')''
                                                  else legacy)
                                 in Some \<lparr>krd_legacy = legacy,
                                          krd_json = finish json\<rparr>))))))))"

definition known_rm_decoders :: "(u32 \<times> (remote \<Rightarrow> u64 \<Rightarrow> usize \<Rightarrow> KnownRmDecode option)) list" where
  "known_rm_decoders =
     [(NV0000_CTRL_CMD_CLIENT_GET_ADDR_SPACE_TYPE, decode_cmd_client_get_addr_space_type),
      (NV0000_CTRL_CMD_OS_UNIX_GET_CONTROL_FILE_DESCRIPTOR, decode_cmd_os_unix_get_control_file_descriptor),
      (NV0000_CTRL_CMD_SYSTEM_GET_BUILD_VERSION, decode_cmd_system_get_build_version),
      (NV0000_CTRL_CMD_CLIENT_SET_INHERITED_SHARE_POLICY, decode_cmd_client_set_inherited_share_policy),
      (NV0000_CTRL_CMD_SYSTEM_GET_FEATURES, decode_cmd_system_get_features),
      (NV0000_CTRL_CMD_SYSTEM_GET_FABRIC_STATUS, decode_cmd_system_get_fabric_status),
      (NV0000_CTRL_CMD_SYSTEM_GET_P2P_CAPS_MATRIX, decode_cmd_system_get_p2p_caps_matrix),
      (NV0000_CTRL_CMD_GPU_GET_MEMOP_ENABLE, decode_cmd_gpu_get_memop_enable),
      (NV0000_CTRL_CMD_GPU_GET_ATTACHED_IDS, decode_cmd_gpu_get_attached_ids),
      (NV0000_CTRL_CMD_GPU_GET_ID_INFO, decode_cmd_gpu_get_id_info),
      (NV0000_CTRL_CMD_GPU_GET_ID_INFO_V2, decode_cmd_gpu_get_id_info_v2),
      (NV0000_CTRL_CMD_GPU_GET_PROBED_IDS, decode_cmd_gpu_get_probed_ids),
      (NV0000_CTRL_CMD_GPU_ATTACH_IDS, decode_cmd_gpu_attach_ids),
      (NV0000_CTRL_CMD_GPU_GET_ACTIVE_DEVICE_IDS, decode_cmd_gpu_get_active_device_ids),
      (NV0000_CTRL_CMD_SYNC_GPU_BOOST_GROUP_INFO, decode_cmd_sync_gpu_boost_group_info),
      (NV0080_CTRL_CMD_HOST_GET_CAPS_V2, decode_cmd_host_get_caps_v2),
      (NV0080_CTRL_CMD_GPU_GET_NUM_SUBDEVICES, decode_cmd_gpu_get_num_subdevices),
      (NV0080_CTRL_CMD_GPU_GET_CLASSLIST_V2, decode_cmd_gpu_get_classlist_v2),
      (NV0080_CTRL_CMD_GPU_GET_VIRTUALIZATION_MODE, decode_cmd_gpu_get_virtualization_mode),
      (NV0080_CTRL_CMD_FIFO_GET_CHANNELLIST, decode_cmd_fifo_get_channellist),
      (NV0080_CTRL_CMD_PERF_CUDA_LIMIT_SET_CONTROL, decode_cmd_perf_cuda_limit_set_control),
      (NV0080_CTRL_CMD_FB_GET_CAPS_V2, decode_cmd_fb_get_caps_v2),
      (NV906F_CTRL_GET_CLASS_ENGINEID, decode_cmd_class_engine_id),
      (NVC36F_CTRL_CMD_GPFIFO_GET_WORK_SUBMIT_TOKEN, decode_cmd_gpfifo_get_work_submit_token),
      (NV2080_CTRL_CMD_MC_GET_ARCH_INFO, decode_cmd_mc_get_arch_info),
      (NV2080_CTRL_CMD_GPU_GET_INFO_V2, decode_cmd_gpu_get_info_v2),
      (NV2080_CTRL_CMD_GPU_GET_NAME_STRING, decode_cmd_gpu_get_name_string),
      (NV2080_CTRL_CMD_GPU_GET_SHORT_NAME_STRING, decode_cmd_gpu_get_short_name_string),
      (NV2080_CTRL_CMD_GPU_GET_SIMULATION_INFO, decode_cmd_gpu_get_simulation_info),
      (NV2080_CTRL_CMD_GPU_GET_ENGINES_V2, decode_cmd_gpu_get_engines_v2),
      (NV2080_CTRL_CMD_GPU_QUERY_ECC_STATUS, decode_cmd_gpu_query_ecc_status),
      (NV2080_CTRL_CMD_GPU_QUERY_COMPUTE_MODE_RULES, decode_cmd_gpu_query_compute_mode_rules),
      (NV2080_CTRL_CMD_GPU_GET_GID_INFO, decode_cmd_gpu_get_gid_info),
      (NV2080_CTRL_CMD_FB_GET_INFO_V2, decode_cmd_fb_get_info_v2),
      (NV2080_CTRL_CMD_BUS_GET_PCI_INFO, decode_cmd_bus_get_pci_info),
      (NV2080_CTRL_CMD_BUS_GET_INFO_V2, decode_cmd_bus_get_info_v2),
      (NV2080_CTRL_CMD_BUS_GET_PCI_BAR_INFO, decode_cmd_bus_get_pci_bar_info),
      (NV2080_CTRL_CMD_BUS_GET_PCIE_SUPPORTED_GPU_ATOMICS, decode_cmd_bus_get_pcie_supported_gpu_atomics),
      (NV2080_CTRL_CMD_BUS_GET_C2C_INFO, decode_cmd_bus_get_c2c_info),
      (NV2080_CTRL_CMD_GR_GET_INFO, decode_cmd_gr_get_info),
      (NV2080_CTRL_CMD_GR_GET_GLOBAL_SM_ORDER, decode_cmd_gr_get_global_sm_order),
      (NV2080_CTRL_CMD_GR_GET_CAPS_V2, decode_cmd_gr_get_caps_v2),
      (NV2080_CTRL_CMD_GR_GET_GPC_MASK, decode_cmd_gr_get_gpc_mask),
      (NV2080_CTRL_CMD_GR_GET_TPC_MASK, decode_cmd_gr_get_tpc_mask),
      (NV2080_CTRL_CMD_GR_SET_CTXSW_PREEMPTION_MODE, decode_cmd_gr_set_ctxsw_preemption_mode),
      (NV2080_CTRL_CMD_GR_GET_CTX_BUFFER_SIZE, decode_cmd_gr_get_ctx_buffer_size),
      (NV2080_CTRL_CMD_CE_GET_ALL_CAPS, decode_cmd_ce_get_all_caps),
      (NV2080_CTRL_CMD_NVLINK_GET_NVLINK_STATUS, decode_cmd_nvlink_get_nvlink_status),
      (NV2080_CTRL_CMD_GSP_GET_FEATURES, decode_cmd_gsp_get_features),
      (NV2080_CTRL_CMD_GRMGR_GET_GR_FS_INFO, decode_cmd_grmgr_get_gr_fs_info),
      (NV_CONF_COMPUTE_CTRL_CMD_SYSTEM_GET_CAPABILITIES, decode_cmd_conf_compute_get_capabilities),
      (NVA06C_CTRL_CMD_GPFIFO_SCHEDULE, decode_cmd_gpfifo_schedule),
      (NVA06C_CTRL_CMD_SET_TIMESLICE, decode_cmd_set_timeslice),
      (NVA06C_CTRL_CMD_PREEMPT, decode_cmd_preempt),
      (NV83DE_CTRL_CMD_DEBUG_SET_EXCEPTION_MASK, decode_cmd_debug_set_exception_mask),
      (NV2080_CTRL_CMD_PERF_BOOST, decode_cmd_perf_boost)]"

definition decode_known_rm_control ::
    "generated_tables \<Rightarrow> remote \<Rightarrow> u32 \<Rightarrow> u64 \<Rightarrow> usize \<Rightarrow> KnownRmDecode option" where
  "decode_known_rm_control tables rd cmd params_addr params_size =
     (case map_of known_rm_decoders cmd of
        Some decode \<Rightarrow> decode rd params_addr params_size
      | None \<Rightarrow> decode_cmd_nv2080_legacy_generic tables rd cmd params_addr params_size)"

end
