(* ===== verification/Rm.thy ===== *)
theory Rm
  imports Rm_Control
begin

text \<open>
  The decoders of the ioctls of \<open>/dev/nvidia*\<close>, \<open>src/decode/ioctl_rm.rs\<close>: one per command, and
  \<open>decode_nvidia_ioctl\<close>. A function with the arguments \<open>legacy: &mut String\<close> and \<open>root: &mut JsonObject\<close>
  returns both. Sums of an address and a length wrap around at 64 bits, as in a release build.
\<close>

subsection \<open>One decoder per command\<close>

definition read_checked_pod :: "remote \<Rightarrow> 'a pod \<Rightarrow> IoctlMeta \<Rightarrow> u64 \<Rightarrow> string + 'a" where
  "read_checked_pod rd T meta arg_ptr =
     (let expected = pod_size T;
          declared = unat (meta_size meta)
      in if 0 < declared \<and> declared < expected then
           Inl (''size_mismatch(expected>='' @ dec expected @ '',actual='' @ dec declared @ '')'')
         else
           case read_pod rd T arg_ptr of
             None \<Rightarrow> Inl ''arg_unreadable''
           | Some value \<Rightarrow> Inr value)"

definition decode_nvos54_payload ::
    "generated_tables \<Rightarrow> remote \<Rightarrow> NvOs54Parameters \<Rightarrow>
     usize \<Rightarrow> string \<Rightarrow> JsonObject \<Rightarrow>
     string \<times> JsonObject" where
  "decode_nvos54_payload tables rd os54 max_blob legacy root =
     (let cmd_name = rm_control_cmd_name tables (NvOs54Parameters.p_cmd os54);
          legacy = legacy @ '', os54={hClient=0x'' @
                        hex (unat (NvOs54Parameters.p_h_client os54)) @ '',hObject=0x'' @
                        hex (unat (NvOs54Parameters.p_h_object os54)) @ '',cmd=0x'' @
                        hex (unat (NvOs54Parameters.p_cmd os54)) @ ''('' @ cmd_name @
                        ''),flags=0x'' @ hex (unat (NvOs54Parameters.p_flags os54)) @
                        '',params=0x'' @ hex (unat (NvOs54Parameters.p_params os54)) @
                        '',paramsSize='' @ dec (unat (NvOs54Parameters.p_params_size os54)) @
                        '',status='' @ dec_int (NvOs54Parameters.p_status os54) @ ''}'';
          os54_json = JsonObject_new;
          os54_json = field_str ''hClient'' (hex0x (unat (NvOs54Parameters.p_h_client os54))) os54_json;
          os54_json = field_str ''hObject'' (hex0x (unat (NvOs54Parameters.p_h_object os54))) os54_json;
          os54_json = field_str ''cmd_raw'' (hex0x (unat (NvOs54Parameters.p_cmd os54))) os54_json;
          os54_json = field_str ''cmd_name'' cmd_name os54_json;
          os54_json = field_str ''flags'' (hex0x (unat (NvOs54Parameters.p_flags os54))) os54_json;
          os54_json = field_str ''params_ptr'' (hex0x (unat (NvOs54Parameters.p_params os54))) os54_json;
          os54_json = field_u64 ''params_size'' (ucast (NvOs54Parameters.p_params_size os54)) os54_json;
          os54_json = field_i64 ''rm_status'' (NvOs54Parameters.p_status os54) os54_json;
          root = field_raw ''os54'' (finish os54_json) root
      in (if (NvOs54Parameters.p_params os54 = 0) \<or> (NvOs54Parameters.p_params_size os54 = 0) then
            (let root = field_str ''status'' ''ok'' root
             in (legacy, root))
          else
            (case decode_known_rm_control tables rd (NvOs54Parameters.p_cmd os54) (NvOs54Parameters.p_params os54) (unat (NvOs54Parameters.p_params_size os54)) of
               Some decoded \<Rightarrow>
                 (let legacy = legacy @ '', rmKnown={'' @ krd_legacy decoded @ ''}'';
                      root = field_raw ''inner'' (krd_json decoded) root;
                      root = field_str ''status'' ''ok'' root
                  in (legacy, root))
             | None \<Rightarrow>
                 (let read_len = min (unat (NvOs54Parameters.p_params_size os54)) (min (max max_blob 16) (MAX_INNER_PREVIEW_WORDS * size_of FU32))
                  in (if read_len = 0 then
                        (let root = field_str ''status'' ''params_empty'' root
                         in (legacy, root))
                      else
                        (let inner = JsonObject_new;
                             inner = field_str ''cmd_raw'' (hex0x (unat (NvOs54Parameters.p_cmd os54))) inner;
                             inner = field_str ''cmd_name'' cmd_name inner;
                             inner = field_u64 ''params_size'' (ucast (NvOs54Parameters.p_params_size os54)) inner
                         in (case read_bytes rd (NvOs54Parameters.p_params os54) read_len of
                               Some bytes \<Rightarrow>
                                 (let words = [];
                                      words = words @ map get_u32 (chunks_exact (size_of FU32) bytes);
                                      params_type_name = unwrap_or ''paramsPreview'' (rm_control_params_type_name cmd_name);
                                      inner = field_raw params_type_name (json_u32_hex_array words) inner;
                                      inner = field_bool ''preview_truncated'' (read_len < unat (NvOs54Parameters.p_params_size os54)) inner;
                                      root = field_raw ''inner'' (finish inner) root;
                                      root = field_str ''status'' ''inner_partial'' root
                                  in (legacy, root))
                             | None \<Rightarrow>
                                 (let inner = field_str ''preview'' ''unreadable'' inner;
                                      root = field_raw ''inner'' (finish inner) root;
                                      root = field_str ''status'' ''params_unreadable'' root
                                  in (legacy, root)))))))))"

definition decode_xfer ::
    "generated_tables \<Rightarrow> remote \<Rightarrow> u64 \<Rightarrow>
     IoctlDecodeMode \<Rightarrow> usize \<Rightarrow> string \<Rightarrow>
     JsonObject \<Rightarrow> string \<times> JsonObject" where
  "decode_xfer tables rd arg_ptr decode_mode max_blob legacy root =
     (case read_pod rd NvIoctlXfer_pod arg_ptr of
        None \<Rightarrow>
          (let legacy = legacy @ '', xfer=<unreadable>'';
               root = field_str ''status'' ''xfer_unreadable'' root
           in (legacy, root))
      | Some xfer \<Rightarrow>
          (let legacy = legacy @ '', xfer={cmd=0x'' @ hex (unat (NvIoctlXfer.p_cmd xfer)) @
                        '',size='' @ dec (unat (NvIoctlXfer.p_size xfer)) @ '',ptr=0x'' @
                        hex (unat (NvIoctlXfer.p_ptr xfer)) @ ''}'';
               xfer_json = JsonObject_new;
               xfer_json = field_str ''cmd_raw'' (hex0x (unat (NvIoctlXfer.p_cmd xfer))) xfer_json;
               xfer_json = field_u64 ''size'' (ucast (NvIoctlXfer.p_size xfer)) xfer_json;
               xfer_json = field_str ''ptr'' (hex0x (unat (NvIoctlXfer.p_ptr xfer))) xfer_json;
               root = field_raw ''xfer'' (finish xfer_json) root
           in (if decode_mode \<noteq> Full then
                 (let root = field_str ''status'' ''ok'' root
                  in (legacy, root))
               else
                 (if (NvIoctlXfer.p_cmd xfer \<noteq> NV04_CONTROL) \<or> (NvIoctlXfer.p_ptr xfer = 0) then
                    (let root = field_str ''status'' ''xfer_non_nvos54'' root
                     in (legacy, root))
                  else
                    (case read_pod rd NvOs54Parameters_pod (NvIoctlXfer.p_ptr xfer) of
                       None \<Rightarrow>
                         (let legacy = legacy @ '', os54=<unreadable>'';
                              root = field_str ''status'' ''os54_unreadable'' root
                          in (legacy, root))
                     | Some os54 \<Rightarrow>
                         decode_nvos54_payload tables rd os54 max_blob legacy root)))))"

definition decode_rm_control ::
    "generated_tables \<Rightarrow> remote \<Rightarrow> IoctlMeta \<Rightarrow>
     u64 \<Rightarrow> usize \<Rightarrow> string \<Rightarrow> JsonObject \<Rightarrow>
     string \<times> JsonObject" where
  "decode_rm_control tables rd meta arg_ptr max_blob legacy root =
     (case read_checked_pod rd NvOs54Parameters_pod meta arg_ptr of
        Inr os54 \<Rightarrow>
          decode_nvos54_payload tables rd os54 max_blob legacy root
      | Inl err \<Rightarrow>
          (let root = field_str ''status'' err root
           in (legacy, root)))"

definition write_rm_alloc_class :: "JsonObject \<Rightarrow> i32 \<Rightarrow> JsonObject" where
  "write_rm_alloc_class root class_id =
     (let root = field_str ''hClass'' (hex0x (unat (word_of_int class_id :: u32))) root;
          class_name = unwrap_or (''UNKNOWN(0x'' @ hex (unat (word_of_int class_id :: u32)) @ '')'') (rm_alloc_class_name class_id);
          root = field_str ''hClassName'' class_name root
      in root)"

definition write_nvos02_fields :: "NvOs02Parameters \<Rightarrow> JsonObject \<Rightarrow> JsonObject" where
  "write_nvos02_fields params root =
     (let root = field_str ''hRoot'' (hex0x (unat (NvOs02Parameters.p_h_root params))) root;
          root = field_str ''hObjectParent'' (hex0x (unat (NvOs02Parameters.p_h_object_parent params))) root;
          root = field_str ''hObjectNew'' (hex0x (unat (NvOs02Parameters.p_h_object_new params))) root;
          root = write_rm_alloc_class root (NvOs02Parameters.p_h_class params);
          root = field_str ''flags'' (hex0x (unat (NvOs02Parameters.p_flags params))) root;
          root = field_str ''flagsPhysicality'' (nvos02_flags_physicality_name (drop_bit 4 (NvOs02Parameters.p_flags params) AND 0x0f)) root;
          root = field_str ''flagsLocation'' (nvos02_flags_location_name (drop_bit 8 (NvOs02Parameters.p_flags params) AND 0x0f)) root;
          root = field_str ''flagsCoherency'' (nvos02_flags_coherency_name (drop_bit 12 (NvOs02Parameters.p_flags params) AND 0x0f)) root;
          root = field_str ''flagsAlloc'' (nvos02_flags_alloc_name (drop_bit 16 (NvOs02Parameters.p_flags params) AND 0x03)) root;
          root = field_bool ''flagsGpuCacheable'' ((drop_bit 18 (NvOs02Parameters.p_flags params) AND 0x1) \<noteq> 0) root;
          root = field_bool ''flagsKernelMapping'' ((drop_bit 19 (NvOs02Parameters.p_flags params) AND 0x1) \<noteq> 0) root;
          root = field_str ''flagsMapping'' (nvos02_flags_mapping_name (drop_bit 30 (NvOs02Parameters.p_flags params) AND 0x03)) root;
          root = field_str ''pMemory'' (hex0x (unat (NvOs02Parameters.p_p_memory params))) root;
          root = field_str ''limit'' (hex0x (unat (NvOs02Parameters.p_limit params))) root
      in root)"

definition decode_rm_alloc_memory ::
    "remote \<Rightarrow> IoctlMeta \<Rightarrow> u64 \<Rightarrow> JsonObject \<Rightarrow>
     JsonObject" where
  "decode_rm_alloc_memory rd meta arg_ptr root =
     (let declared = unat (meta_size meta)
      in (if pod_size NvIoctlNvos02ParametersWithFd_pod \<le> declared then
            (case read_checked_pod rd NvIoctlNvos02ParametersWithFd_pod meta arg_ptr of
                           Inr wrapper \<Rightarrow>
                             (let root = field_str ''api'' ''nv_ioctl_nvos02_parameters_with_fd'' root;
                                  root = write_nvos02_fields (NvIoctlNvos02ParametersWithFd.p_params wrapper) root;
                                  root = field_i64 ''fd'' (NvIoctlNvos02ParametersWithFd.p_fd wrapper) root;
                                  root = field_i64 ''rmStatus'' (NvOs02Parameters.p_status (NvIoctlNvos02ParametersWithFd.p_params wrapper)) root;
                                  root = field_str ''status'' ''ok'' root
                              in root)
                         | Inl err \<Rightarrow>
                             field_str ''status'' err root)
          else
            (if pod_size NvOs02Parameters_pod \<le> declared then
               (case read_checked_pod rd NvOs02Parameters_pod meta arg_ptr of
                              Inr params \<Rightarrow>
                                (let root = field_str ''api'' ''NVOS02'' root;
                                     root = write_nvos02_fields params root;
                                     root = field_i64 ''rmStatus'' (NvOs02Parameters.p_status params) root;
                                     root = field_str ''status'' ''ok'' root
                                 in root)
                            | Inl err \<Rightarrow>
                                field_str ''status'' err root)
             else
               field_str ''status'' (''size_mismatch(expected>='' @ dec (pod_size NvOs02Parameters_pod) @ '',actual='' @ dec declared @ '')'') root)))"

definition decode_rm_alloc_object ::
    "remote \<Rightarrow> IoctlMeta \<Rightarrow> u64 \<Rightarrow> JsonObject \<Rightarrow>
     JsonObject" where
  "decode_rm_alloc_object rd meta arg_ptr root =
     (case read_checked_pod rd NvOs05Parameters_pod meta arg_ptr of
        Inr params \<Rightarrow>
          (let root = field_str ''api'' ''NVOS05'' root;
               root = field_str ''hRoot'' (hex0x (unat (NvOs05Parameters.p_h_root params))) root;
               root = field_str ''hObjectParent'' (hex0x (unat (NvOs05Parameters.p_h_object_parent params))) root;
               root = field_str ''hObjectNew'' (hex0x (unat (NvOs05Parameters.p_h_object_new params))) root;
               root = write_rm_alloc_class root (NvOs05Parameters.p_h_class params);
               root = field_i64 ''rmStatus'' (NvOs05Parameters.p_status params) root;
               root = field_str ''status'' ''ok'' root
           in root)
      | Inl err \<Rightarrow>
          field_str ''status'' err root)"

definition decode_alloc_blob ::
    "remote \<Rightarrow> u64 \<Rightarrow> usize \<Rightarrow> usize \<Rightarrow>
     JsonObject \<Rightarrow> JsonObject" where
  "decode_alloc_blob rd params_ptr params_size max_blob root =
     (if (params_ptr = 0) \<or> (params_size = 0) then
        root
      else
        (let read_len = min params_size (max max_blob 16)
         in (case read_bytes rd params_ptr read_len of
               Some bytes \<Rightarrow>
                 (let root = field_str ''allocParamsBlobHex'' (hex_bytes bytes) root;
                      root = field_bool ''allocParamsTruncated'' (read_len < params_size) root
                  in root)
             | None \<Rightarrow> field_str ''allocParamsStatus'' ''unreadable'' root)))"

definition decode_rm_alloc ::
    "remote \<Rightarrow> IoctlMeta \<Rightarrow> u64 \<Rightarrow> usize \<Rightarrow>
     JsonObject \<Rightarrow> JsonObject" where
  "decode_rm_alloc rd meta arg_ptr max_blob root =
     (let declared = unat (meta_size meta)
      in (if pod_size NvOs64Parameters_pod \<le> declared then
            (case read_checked_pod rd NvOs64Parameters_pod meta arg_ptr of
                           Inr params \<Rightarrow>
                             (let root = field_str ''api'' ''NVOS64'' root;
                                  root = field_str ''hRoot'' (hex0x (unat (NvOs64Parameters.p_h_root params))) root;
                                  root = field_str ''hObjectParent'' (hex0x (unat (NvOs64Parameters.p_h_object_parent params))) root;
                                  root = field_str ''hObjectNew'' (hex0x (unat (NvOs64Parameters.p_h_object_new params))) root;
                                  root = write_rm_alloc_class root (NvOs64Parameters.p_h_class params);
                                  root = field_str ''pAllocParms'' (hex0x (unat (NvOs64Parameters.p_p_alloc_parms params))) root;
                                  root = field_str ''pRightsRequested'' (hex0x (unat (NvOs64Parameters.p_p_rights_requested params))) root;
                                  root = field_u64 ''paramsSize'' (ucast (NvOs64Parameters.p_params_size params)) root;
                                  root = field_u64 ''flags'' (ucast (NvOs64Parameters.p_flags params)) root;
                                  root = field_i64 ''rmStatus'' (NvOs64Parameters.p_status params) root;
                                  root = decode_alloc_blob rd (NvOs64Parameters.p_p_alloc_parms params) (unat (NvOs64Parameters.p_params_size params)) max_blob root;
                                  root = field_str ''status'' ''ok'' root
                              in root)
                         | Inl err \<Rightarrow>
                             field_str ''status'' err root)
          else
            (if pod_size NvOs21Parameters_pod \<le> declared then
               (case read_checked_pod rd NvOs21Parameters_pod meta arg_ptr of
                              Inr params \<Rightarrow>
                                (let root = field_str ''api'' ''NVOS21'' root;
                                     root = field_str ''hRoot'' (hex0x (unat (NvOs21Parameters.p_h_root params))) root;
                                     root = field_str ''hObjectParent'' (hex0x (unat (NvOs21Parameters.p_h_object_parent params))) root;
                                     root = field_str ''hObjectNew'' (hex0x (unat (NvOs21Parameters.p_h_object_new params))) root;
                                     root = write_rm_alloc_class root (NvOs21Parameters.p_h_class params);
                                     root = field_str ''pAllocParms'' (hex0x (unat (NvOs21Parameters.p_p_alloc_parms params))) root;
                                     root = field_u64 ''paramsSize'' (ucast (NvOs21Parameters.p_params_size params)) root;
                                     root = field_i64 ''rmStatus'' (NvOs21Parameters.p_status params) root;
                                     root = decode_alloc_blob rd (NvOs21Parameters.p_p_alloc_parms params) (unat (NvOs21Parameters.p_params_size params)) max_blob root;
                                     root = field_str ''status'' ''ok'' root
                                 in root)
                            | Inl err \<Rightarrow>
                                field_str ''status'' err root)
             else
               field_str ''status'' (''size_mismatch(expected>='' @ dec (pod_size NvOs21Parameters_pod) @ '',actual='' @ dec declared @ '')'') root)))"

definition decode_rm_free ::
    "remote \<Rightarrow> IoctlMeta \<Rightarrow> u64 \<Rightarrow> JsonObject \<Rightarrow>
     JsonObject" where
  "decode_rm_free rd meta arg_ptr root =
     (case read_checked_pod rd NvOs00Parameters_pod meta arg_ptr of
        Inr params \<Rightarrow>
          (let root = field_str ''hRoot'' (hex0x (unat (NvOs00Parameters.p_h_root params))) root;
               root = field_str ''hObjectParent'' (hex0x (unat (NvOs00Parameters.p_h_object_parent params))) root;
               root = field_str ''hObjectOld'' (hex0x (unat (NvOs00Parameters.p_h_object_old params))) root;
               root = field_i64 ''rmStatus'' (NvOs00Parameters.p_status params) root;
               root = field_str ''status'' ''ok'' root
           in root)
      | Inl err \<Rightarrow>
          field_str ''status'' err root)"

definition decode_rm_map_memory ::
    "remote \<Rightarrow> IoctlMeta \<Rightarrow> u64 \<Rightarrow> JsonObject \<Rightarrow>
     JsonObject" where
  "decode_rm_map_memory rd meta arg_ptr root =
     (let declared = unat (meta_size meta)
      in (if pod_size NvIoctlNvos33ParametersWithFd_pod \<le> declared then
            (case read_checked_pod rd NvIoctlNvos33ParametersWithFd_pod meta arg_ptr of
                           Inr wrapper \<Rightarrow>
                             (let params = NvIoctlNvos33ParametersWithFd.p_params wrapper;
                                  root = field_str ''api'' ''nv_ioctl_nvos33_parameters_with_fd'' root;
                                  root = field_str ''hClient'' (hex0x (unat (NvOs33Parameters.p_h_client params))) root;
                                  root = field_str ''hDevice'' (hex0x (unat (NvOs33Parameters.p_h_device params))) root;
                                  root = field_str ''hMemory'' (hex0x (unat (NvOs33Parameters.p_h_memory params))) root;
                                  root = field_str ''offset'' (hex0x (unat (NvOs33Parameters.p_offset params))) root;
                                  root = field_u64 ''length'' (NvOs33Parameters.p_length params) root;
                                  root = field_str ''pLinearAddress'' (hex0x (unat (NvOs33Parameters.p_p_linear_address params))) root;
                                  root = field_u64 ''flags'' (ucast (NvOs33Parameters.p_flags params)) root;
                                  root = field_u64 ''fd'' (i64_as_u64 (NvIoctlNvos33ParametersWithFd.p_fd wrapper)) root;
                                  root = field_i64 ''rmStatus'' (uint (NvOs33Parameters.p_status params)) root;
                                  root = field_str ''status'' ''ok'' root
                              in root)
                         | Inl err \<Rightarrow>
                             field_str ''status'' err root)
          else
            field_str ''status'' (''size_mismatch(expected>='' @ dec (pod_size NvIoctlNvos33ParametersWithFd_pod) @ '',actual='' @ dec declared @ '')'') root))"

definition decode_rm_unmap_memory ::
    "remote \<Rightarrow> IoctlMeta \<Rightarrow> u64 \<Rightarrow> JsonObject \<Rightarrow>
     JsonObject" where
  "decode_rm_unmap_memory rd meta arg_ptr root =
     (case read_checked_pod rd NvOs34Parameters_pod meta arg_ptr of
        Inr params \<Rightarrow>
          (let root = field_str ''hClient'' (hex0x (unat (NvOs34Parameters.p_h_client params))) root;
               root = field_str ''hDevice'' (hex0x (unat (NvOs34Parameters.p_h_device params))) root;
               root = field_str ''hMemory'' (hex0x (unat (NvOs34Parameters.p_h_memory params))) root;
               root = field_str ''pLinearAddress'' (hex0x (unat (NvOs34Parameters.p_p_linear_address params))) root;
               root = field_u64 ''flags'' (ucast (NvOs34Parameters.p_flags params)) root;
               root = field_i64 ''rmStatus'' (uint (NvOs34Parameters.p_status params)) root;
               root = field_str ''status'' ''ok'' root
           in root)
      | Inl err \<Rightarrow>
          field_str ''status'' err root)"

definition decode_rm_i2c_access ::
    "remote \<Rightarrow> IoctlMeta \<Rightarrow> u64 \<Rightarrow> JsonObject \<Rightarrow>
     JsonObject" where
  "decode_rm_i2c_access rd meta arg_ptr root =
     (case read_checked_pod rd RmI2cAccessParams_pod meta arg_ptr of
        Inr params \<Rightarrow>
          (let root = field_str ''hClient'' (hex0x (unat (RmI2cAccessParams.p_h_client params))) root;
               root = field_str ''hDevice'' (hex0x (unat (RmI2cAccessParams.p_h_device params))) root;
               root = field_u64 ''paramSize'' (ucast (RmI2cAccessParams.p_param_size params)) root;
               root = field_str ''paramStructPtr'' (hex0x (unat (RmI2cAccessParams.p_param_struct_ptr params))) root;
               root = field_i64 ''rmStatus'' (uint (RmI2cAccessParams.p_status params)) root;
               root = field_str ''status'' ''ok'' root
           in root)
      | Inl err \<Rightarrow>
          field_str ''status'' err root)"

definition decode_rm_idle_channels ::
    "remote \<Rightarrow> IoctlMeta \<Rightarrow> u64 \<Rightarrow> JsonObject \<Rightarrow>
     JsonObject" where
  "decode_rm_idle_channels rd meta arg_ptr root =
     (case read_checked_pod rd RmIdleChannelsParams_pod meta arg_ptr of
        Inr params \<Rightarrow>
          (let root = field_str ''hClient'' (hex0x (unat (RmIdleChannelsParams.p_h_client params))) root;
               root = field_str ''hDevice'' (hex0x (unat (RmIdleChannelsParams.p_h_device params))) root;
               root = field_str ''hChannel'' (hex0x (unat (RmIdleChannelsParams.p_h_channel params))) root;
               root = field_u64 ''numChannels'' (ucast (RmIdleChannelsParams.p_num_channels params)) root;
               root = field_str ''phClients'' (hex0x (unat (RmIdleChannelsParams.p_ph_clients params))) root;
               root = field_str ''phDevices'' (hex0x (unat (RmIdleChannelsParams.p_ph_devices params))) root;
               root = field_str ''phChannels'' (hex0x (unat (RmIdleChannelsParams.p_ph_channels params))) root;
               root = field_str ''flags'' (hex0x (unat (RmIdleChannelsParams.p_flags params))) root;
               root = field_u64 ''timeout'' (ucast (RmIdleChannelsParams.p_timeout params)) root;
               root = field_i64 ''rmStatus'' (uint (RmIdleChannelsParams.p_status params)) root;
               root = field_str ''status'' ''ok'' root
           in root)
      | Inl err \<Rightarrow>
          field_str ''status'' err root)"

definition decode_rm_vid_heap_control ::
    "remote \<Rightarrow> IoctlMeta \<Rightarrow> u64 \<Rightarrow> JsonObject \<Rightarrow>
     JsonObject" where
  "decode_rm_vid_heap_control rd meta arg_ptr root =
     (case read_checked_pod rd RmVidHeapControlPrefix_pod meta arg_ptr of
        Inr params \<Rightarrow>
          (let root = field_str ''hRoot'' (hex0x (unat (RmVidHeapControlPrefix.p_h_root params))) root;
               root = field_str ''hObjectParent'' (hex0x (unat (RmVidHeapControlPrefix.p_h_object_parent params))) root;
               root = field_u64 ''function'' (ucast (RmVidHeapControlPrefix.p_function params)) root;
               root = field_str ''functionName'' (rm_vid_heap_function_name (RmVidHeapControlPrefix.p_function params)) root;
               root = field_str ''hVASpace'' (hex0x (unat (RmVidHeapControlPrefix.p_h_vaspace params))) root;
               root = field_i64 ''ivcHeapNumber'' (RmVidHeapControlPrefix.p_ivc_heap_number params) root;
               root = field_u64 ''total'' (RmVidHeapControlPrefix.p_total params) root;
               root = field_u64 ''free'' (RmVidHeapControlPrefix.p_free params) root;
               root = field_i64 ''rmStatus'' (uint (RmVidHeapControlPrefix.p_status params)) root;
               data_addr = arg_ptr + of_nat (pod_size RmVidHeapControlPrefix_pod);
               root = (if RmVidHeapControlPrefix.p_function params = 2 then
                         (case read_pod rd RmVidHeapAllocSizeData_pod data_addr of
                            Some data \<Rightarrow>
                              (let obj = JsonObject_new;
                                   obj = field_u64 ''owner'' (ucast (RmVidHeapAllocSizeData.p_owner data)) obj;
                                   obj = field_str ''hMemory'' (hex0x (unat (RmVidHeapAllocSizeData.p_h_memory data))) obj;
                                   obj = field_u64 ''type'' (ucast (RmVidHeapAllocSizeData.p_mem_type data)) obj;
                                   obj = field_str ''flags'' (hex0x (unat (RmVidHeapAllocSizeData.p_flags data))) obj;
                                   obj = field_str ''attr'' (hex0x (unat (RmVidHeapAllocSizeData.p_attr data))) obj;
                                   obj = field_str ''format'' (hex0x (unat (RmVidHeapAllocSizeData.p_format data))) obj;
                                   obj = field_u64 ''comprCovg'' (ucast (RmVidHeapAllocSizeData.p_compr_covg data)) obj;
                                   obj = field_u64 ''zcullCovg'' (ucast (RmVidHeapAllocSizeData.p_zcull_covg data)) obj;
                                   obj = field_u64 ''partitionStride'' (ucast (RmVidHeapAllocSizeData.p_partition_stride data)) obj;
                                   obj = field_u64 ''width'' (ucast (RmVidHeapAllocSizeData.p_width data)) obj;
                                   obj = field_u64 ''height'' (ucast (RmVidHeapAllocSizeData.p_height data)) obj;
                                   obj = field_u64 ''size'' (RmVidHeapAllocSizeData.p_size data) obj;
                                   obj = field_u64 ''alignment'' (RmVidHeapAllocSizeData.p_alignment data) obj;
                                   obj = field_str ''offset'' (hex0x (unat (RmVidHeapAllocSizeData.p_offset data))) obj;
                                   obj = field_str ''limit'' (hex0x (unat (RmVidHeapAllocSizeData.p_limit data))) obj;
                                   obj = field_str ''address'' (hex0x (unat (RmVidHeapAllocSizeData.p_address data))) obj;
                                   obj = field_str ''rangeBegin'' (hex0x (unat (RmVidHeapAllocSizeData.p_range_begin data))) obj;
                                   obj = field_str ''rangeEnd'' (hex0x (unat (RmVidHeapAllocSizeData.p_range_end data))) obj;
                                   obj = field_str ''attr2'' (hex0x (unat (RmVidHeapAllocSizeData.p_attr2 data))) obj;
                                   obj = field_u64 ''ctagOffset'' (ucast (RmVidHeapAllocSizeData.p_ctag_offset data)) obj;
                                   obj = field_i64 ''numaNode'' (RmVidHeapAllocSizeData.p_numa_node data) obj;
                                   root = field_raw ''allocSize'' (finish obj) root
                               in root)
                          | None \<Rightarrow> root)
                       else if RmVidHeapControlPrefix.p_function params = 3 then
                         (case read_pod rd RmVidHeapFreeData_pod data_addr of
                            Some data \<Rightarrow>
                              (let obj = JsonObject_new;
                                   obj = field_u64 ''owner'' (ucast (RmVidHeapFreeData.p_owner data)) obj;
                                   obj = field_str ''hMemory'' (hex0x (unat (RmVidHeapFreeData.p_h_memory data))) obj;
                                   obj = field_str ''flags'' (hex0x (unat (RmVidHeapFreeData.p_flags data))) obj;
                                   root = field_raw ''free'' (finish obj) root
                               in root)
                          | None \<Rightarrow> root)
                       else if RmVidHeapControlPrefix.p_function params = 27 then
                         (case read_pod rd RmVidHeapAllocOsDescData_pod data_addr of
                            Some data \<Rightarrow>
                              (let obj = JsonObject_new;
                                   obj = field_str ''hMemory'' (hex0x (unat (RmVidHeapAllocOsDescData.p_h_memory data))) obj;
                                   obj = field_u64 ''type'' (ucast (RmVidHeapAllocOsDescData.p_mem_type data)) obj;
                                   obj = field_str ''flags'' (hex0x (unat (RmVidHeapAllocOsDescData.p_flags data))) obj;
                                   obj = field_str ''attr'' (hex0x (unat (RmVidHeapAllocOsDescData.p_attr data))) obj;
                                   obj = field_str ''attr2'' (hex0x (unat (RmVidHeapAllocOsDescData.p_attr2 data))) obj;
                                   obj = field_str ''descriptor'' (hex0x (unat (RmVidHeapAllocOsDescData.p_descriptor data))) obj;
                                   obj = field_str ''limit'' (hex0x (unat (RmVidHeapAllocOsDescData.p_limit data))) obj;
                                   obj = field_u64 ''descriptorType'' (ucast (RmVidHeapAllocOsDescData.p_descriptor_type data)) obj;
                                   root = field_raw ''allocOsDesc'' (finish obj) root
                               in root)
                          | None \<Rightarrow> root)
                       else root);
               root = field_str ''status'' ''ok'' root
           in root)
      | Inl err \<Rightarrow>
          field_str ''status'' err root)"

definition decode_rm_access_registry ::
    "remote \<Rightarrow> IoctlMeta \<Rightarrow> u64 \<Rightarrow> usize \<Rightarrow>
     JsonObject \<Rightarrow> JsonObject" where
  "decode_rm_access_registry rd meta arg_ptr max_blob root =
     (case read_checked_pod rd RmAccessRegistryParams_pod meta arg_ptr of
        Inr params \<Rightarrow>
          (let root = field_str ''hClient'' (hex0x (unat (RmAccessRegistryParams.p_h_client params))) root;
               root = field_str ''hObject'' (hex0x (unat (RmAccessRegistryParams.p_h_object params))) root;
               root = field_u64 ''accessType'' (ucast (RmAccessRegistryParams.p_access_type params)) root;
               root = field_u64 ''devNodeLength'' (ucast (RmAccessRegistryParams.p_dev_node_length params)) root;
               root = field_str ''pDevNode'' (hex0x (unat (RmAccessRegistryParams.p_p_dev_node params))) root;
               root = field_u64 ''parmStrLength'' (ucast (RmAccessRegistryParams.p_parm_str_length params)) root;
               root = field_str ''pParmStr'' (hex0x (unat (RmAccessRegistryParams.p_p_parm_str params))) root;
               root = field_u64 ''binaryDataLength'' (ucast (RmAccessRegistryParams.p_binary_data_length params)) root;
               root = field_str ''pBinaryData'' (hex0x (unat (RmAccessRegistryParams.p_p_binary_data params))) root;
               root = field_u64 ''data'' (ucast (RmAccessRegistryParams.p_data params)) root;
               root = field_u64 ''entry'' (ucast (RmAccessRegistryParams.p_entry params)) root;
               root = field_i64 ''rmStatus'' (uint (RmAccessRegistryParams.p_status params)) root;
               root = (if (RmAccessRegistryParams.p_p_dev_node params \<noteq> 0) \<and> (0 < RmAccessRegistryParams.p_dev_node_length params)
                          then (case read_remote_string rd (RmAccessRegistryParams.p_p_dev_node params) (unat (RmAccessRegistryParams.p_dev_node_length params)) max_blob of
                                  Some text \<Rightarrow>
                                    field_str ''devNode'' text root
                                | None \<Rightarrow> root)
                          else root);
               root = (if (RmAccessRegistryParams.p_p_parm_str params \<noteq> 0) \<and> (0 < RmAccessRegistryParams.p_parm_str_length params)
                          then (case read_remote_string rd (RmAccessRegistryParams.p_p_parm_str params) (unat (RmAccessRegistryParams.p_parm_str_length params)) max_blob of
                                  Some text \<Rightarrow>
                                    field_str ''parmStr'' text root
                                | None \<Rightarrow> root)
                          else root);
               root = field_str ''status'' ''ok'' root
           in root)
      | Inl err \<Rightarrow>
          field_str ''status'' err root)"

definition decode_rm_get_event_data ::
    "remote \<Rightarrow> IoctlMeta \<Rightarrow> u64 \<Rightarrow> JsonObject \<Rightarrow>
     JsonObject" where
  "decode_rm_get_event_data rd meta arg_ptr root =
     (case read_checked_pod rd RmGetEventDataParams_pod meta arg_ptr of
        Inr params \<Rightarrow>
          (let root = field_str ''pEvent'' (hex0x (unat (RmGetEventDataParams.p_p_event params))) root;
               root = field_u64 ''moreEvents'' (ucast (RmGetEventDataParams.p_more_events params)) root;
               root = field_i64 ''rmStatus'' (uint (RmGetEventDataParams.p_status params)) root;
               root = (if RmGetEventDataParams.p_p_event params \<noteq> 0
                          then (case read_pod rd RmUnixEvent_pod (RmGetEventDataParams.p_p_event params) of
                                  Some event \<Rightarrow>
                                    (let obj = JsonObject_new;
                                         obj = field_str ''hObject'' (hex0x (unat (RmUnixEvent.p_h_object event))) obj;
                                         obj = field_u64 ''notifyIndex'' (ucast (RmUnixEvent.p_notify_index event)) obj;
                                         obj = field_u64 ''info32'' (ucast (RmUnixEvent.p_info32 event)) obj;
                                         obj = field_u64 ''info16'' (ucast (RmUnixEvent.p_info16 event)) obj;
                                         root = field_raw ''event'' (finish obj) root
                                     in root)
                                | None \<Rightarrow> root)
                          else root);
               root = field_str ''status'' ''ok'' root
           in root)
      | Inl err \<Rightarrow>
          field_str ''status'' err root)"

definition decode_rm_alloc_context_dma2 ::
    "remote \<Rightarrow> IoctlMeta \<Rightarrow> u64 \<Rightarrow> JsonObject \<Rightarrow>
     JsonObject" where
  "decode_rm_alloc_context_dma2 rd meta arg_ptr root =
     (case read_checked_pod rd RmAllocContextDma2Params_pod meta arg_ptr of
        Inr params \<Rightarrow>
          (let root = field_str ''hObjectParent'' (hex0x (unat (RmAllocContextDma2Params.p_h_object_parent params))) root;
               root = field_str ''hSubDevice'' (hex0x (unat (RmAllocContextDma2Params.p_h_sub_device params))) root;
               root = field_str ''hObjectNew'' (hex0x (unat (RmAllocContextDma2Params.p_h_object_new params))) root;
               root = field_str ''hClass'' (hex0x (unat (RmAllocContextDma2Params.p_h_class params))) root;
               root = field_str ''flags'' (hex0x (unat (RmAllocContextDma2Params.p_flags params))) root;
               root = field_u64 ''selector'' (ucast (RmAllocContextDma2Params.p_selector params)) root;
               root = field_str ''hMemory'' (hex0x (unat (RmAllocContextDma2Params.p_h_memory params))) root;
               root = field_str ''offset'' (hex0x (unat (RmAllocContextDma2Params.p_offset params))) root;
               root = field_str ''limit'' (hex0x (unat (RmAllocContextDma2Params.p_limit params))) root;
               root = field_i64 ''rmStatus'' (uint (RmAllocContextDma2Params.p_status params)) root;
               root = field_str ''status'' ''ok'' root
           in root)
      | Inl err \<Rightarrow>
          field_str ''status'' err root)"

definition decode_rm_map_memory_dma ::
    "remote \<Rightarrow> IoctlMeta \<Rightarrow> u64 \<Rightarrow> JsonObject \<Rightarrow>
     JsonObject" where
  "decode_rm_map_memory_dma rd meta arg_ptr root =
     (case read_checked_pod rd RmMapMemoryDmaParams_pod meta arg_ptr of
        Inr params \<Rightarrow>
          (let root = field_str ''hClient'' (hex0x (unat (RmMapMemoryDmaParams.p_h_client params))) root;
               root = field_str ''hDevice'' (hex0x (unat (RmMapMemoryDmaParams.p_h_device params))) root;
               root = field_str ''hDma'' (hex0x (unat (RmMapMemoryDmaParams.p_h_dma params))) root;
               root = field_str ''hMemory'' (hex0x (unat (RmMapMemoryDmaParams.p_h_memory params))) root;
               root = field_str ''offset'' (hex0x (unat (RmMapMemoryDmaParams.p_offset params))) root;
               root = field_u64 ''length'' (RmMapMemoryDmaParams.p_length params) root;
               root = field_str ''flags'' (hex0x (unat (RmMapMemoryDmaParams.p_flags params))) root;
               root = field_str ''flags2'' (hex0x (unat (RmMapMemoryDmaParams.p_flags2 params))) root;
               root = field_u64 ''kindOverride'' (ucast (RmMapMemoryDmaParams.p_kind_override params)) root;
               root = field_str ''dmaOffset'' (hex0x (unat (RmMapMemoryDmaParams.p_dma_offset params))) root;
               root = field_i64 ''rmStatus'' (uint (RmMapMemoryDmaParams.p_status params)) root;
               root = field_str ''status'' ''ok'' root
           in root)
      | Inl err \<Rightarrow>
          field_str ''status'' err root)"

definition decode_rm_unmap_memory_dma ::
    "remote \<Rightarrow> IoctlMeta \<Rightarrow> u64 \<Rightarrow> JsonObject \<Rightarrow>
     JsonObject" where
  "decode_rm_unmap_memory_dma rd meta arg_ptr root =
     (case read_checked_pod rd RmUnmapMemoryDmaParams_pod meta arg_ptr of
        Inr params \<Rightarrow>
          (let root = field_str ''hClient'' (hex0x (unat (RmUnmapMemoryDmaParams.p_h_client params))) root;
               root = field_str ''hDevice'' (hex0x (unat (RmUnmapMemoryDmaParams.p_h_device params))) root;
               root = field_str ''hDma'' (hex0x (unat (RmUnmapMemoryDmaParams.p_h_dma params))) root;
               root = field_str ''hMemory'' (hex0x (unat (RmUnmapMemoryDmaParams.p_h_memory params))) root;
               root = field_str ''flags'' (hex0x (unat (RmUnmapMemoryDmaParams.p_flags params))) root;
               root = field_str ''dmaOffset'' (hex0x (unat (RmUnmapMemoryDmaParams.p_dma_offset params))) root;
               root = field_u64 ''size'' (RmUnmapMemoryDmaParams.p_size params) root;
               root = field_i64 ''rmStatus'' (uint (RmUnmapMemoryDmaParams.p_status params)) root;
               root = field_str ''status'' ''ok'' root
           in root)
      | Inl err \<Rightarrow>
          field_str ''status'' err root)"

definition decode_rm_bind_context_dma ::
    "remote \<Rightarrow> IoctlMeta \<Rightarrow> u64 \<Rightarrow> JsonObject \<Rightarrow>
     JsonObject" where
  "decode_rm_bind_context_dma rd meta arg_ptr root =
     (case read_checked_pod rd RmBindContextDmaParams_pod meta arg_ptr of
        Inr params \<Rightarrow>
          (let root = field_str ''hClient'' (hex0x (unat (RmBindContextDmaParams.p_h_client params))) root;
               root = field_str ''hChannel'' (hex0x (unat (RmBindContextDmaParams.p_h_channel params))) root;
               root = field_str ''hCtxDma'' (hex0x (unat (RmBindContextDmaParams.p_h_ctx_dma params))) root;
               root = field_i64 ''rmStatus'' (uint (RmBindContextDmaParams.p_status params)) root;
               root = field_str ''status'' ''ok'' root
           in root)
      | Inl err \<Rightarrow>
          field_str ''status'' err root)"

definition decode_rm_dup_object ::
    "remote \<Rightarrow> IoctlMeta \<Rightarrow> u64 \<Rightarrow> JsonObject \<Rightarrow>
     JsonObject" where
  "decode_rm_dup_object rd meta arg_ptr root =
     (case read_checked_pod rd RmDupObjectParams_pod meta arg_ptr of
        Inr params \<Rightarrow>
          (let root = field_str ''hClient'' (hex0x (unat (RmDupObjectParams.p_h_client params))) root;
               root = field_str ''hParent'' (hex0x (unat (RmDupObjectParams.p_h_parent params))) root;
               root = field_str ''hObject'' (hex0x (unat (RmDupObjectParams.p_h_object params))) root;
               root = field_str ''hClientSrc'' (hex0x (unat (RmDupObjectParams.p_h_client_src params))) root;
               root = field_str ''hObjectSrc'' (hex0x (unat (RmDupObjectParams.p_h_object_src params))) root;
               root = field_str ''flags'' (hex0x (unat (RmDupObjectParams.p_flags params))) root;
               root = field_i64 ''rmStatus'' (uint (RmDupObjectParams.p_status params)) root;
               root = field_str ''status'' ''ok'' root
           in root)
      | Inl err \<Rightarrow>
          field_str ''status'' err root)"

definition decode_rm_update_device_mapping_info ::
    "remote \<Rightarrow> IoctlMeta \<Rightarrow> u64 \<Rightarrow> JsonObject \<Rightarrow>
     JsonObject" where
  "decode_rm_update_device_mapping_info rd meta arg_ptr root =
     (case read_checked_pod rd RmUpdateDeviceMappingInfoParams_pod meta arg_ptr of
        Inr params \<Rightarrow>
          (let root = field_str ''hClient'' (hex0x (unat (RmUpdateDeviceMappingInfoParams.p_h_client params))) root;
               root = field_str ''hDevice'' (hex0x (unat (RmUpdateDeviceMappingInfoParams.p_h_device params))) root;
               root = field_str ''hMemory'' (hex0x (unat (RmUpdateDeviceMappingInfoParams.p_h_memory params))) root;
               root = field_str ''pOldCpuAddress'' (hex0x (unat (RmUpdateDeviceMappingInfoParams.p_p_old_cpu_address params))) root;
               root = field_str ''pNewCpuAddress'' (hex0x (unat (RmUpdateDeviceMappingInfoParams.p_p_new_cpu_address params))) root;
               root = field_i64 ''rmStatus'' (uint (RmUpdateDeviceMappingInfoParams.p_status params)) root;
               root = field_str ''status'' ''ok'' root
           in root)
      | Inl err \<Rightarrow>
          field_str ''status'' err root)"

definition decode_rm_share ::
    "remote \<Rightarrow> IoctlMeta \<Rightarrow> u64 \<Rightarrow> JsonObject \<Rightarrow>
     JsonObject" where
  "decode_rm_share rd meta arg_ptr root =
     (case read_checked_pod rd RmShareParams_pod meta arg_ptr of
        Inr params \<Rightarrow>
          (let root = field_str ''hClient'' (hex0x (unat (RmShareParams.p_h_client params))) root;
               root = field_str ''hObject'' (hex0x (unat (RmShareParams.p_h_object params))) root;
               root = field_raw ''sharePolicy'' (json_share_policy (RmShareParams.p_share_policy params)) root;
               root = field_i64 ''rmStatus'' (uint (RmShareParams.p_status params)) root;
               root = field_str ''status'' ''ok'' root
           in root)
      | Inl err \<Rightarrow>
          field_str ''status'' err root)"

definition decode_rm_add_vblank_callback ::
    "remote \<Rightarrow> IoctlMeta \<Rightarrow> u64 \<Rightarrow> JsonObject \<Rightarrow>
     JsonObject" where
  "decode_rm_add_vblank_callback rd meta arg_ptr root =
     (case read_checked_pod rd RmAddVblankCallbackParams_pod meta arg_ptr of
        Inr params \<Rightarrow>
          (let root = field_str ''hClient'' (hex0x (unat (RmAddVblankCallbackParams.p_h_client params))) root;
               root = field_str ''hDevice'' (hex0x (unat (RmAddVblankCallbackParams.p_h_device params))) root;
               root = field_str ''hVblank'' (hex0x (unat (RmAddVblankCallbackParams.p_h_vblank params))) root;
               root = field_str ''pProc'' (hex0x (unat (RmAddVblankCallbackParams.p_p_proc params))) root;
               root = field_u64 ''logicalHead'' (ucast (RmAddVblankCallbackParams.p_logical_head params)) root;
               root = field_str ''pParm1'' (hex0x (unat (RmAddVblankCallbackParams.p_p_parm1 params))) root;
               root = field_str ''pParm2'' (hex0x (unat (RmAddVblankCallbackParams.p_p_parm2 params))) root;
               root = field_bool ''add'' (RmAddVblankCallbackParams.p_b_add params \<noteq> 0) root;
               root = field_i64 ''rmStatus'' (uint (RmAddVblankCallbackParams.p_status params)) root;
               root = field_str ''status'' ''ok'' root
           in root)
      | Inl err \<Rightarrow>
          field_str ''status'' err root)"

definition decode_rm_opaque ::
    "generated_tables \<Rightarrow> remote \<Rightarrow> IoctlMeta \<Rightarrow>
     u64 \<Rightarrow> JsonObject \<Rightarrow> JsonObject" where
  "decode_rm_opaque tables rd meta arg_ptr root =
     (let root = field_str ''cmdName'' (outer_cmd_name tables (meta_nr meta)) root;
          root = field_u64 ''declaredSize'' (ucast (meta_size meta)) root;
          root = field_str ''argPtr'' (hex0x (unat arg_ptr)) root;
          root = (if size_of FU32 \<le> unat (meta_size meta)
                     then (let status_addr = (arg_ptr + of_nat (unat (meta_size meta))) - of_nat (size_of FU32)
                           in (case read_pod rd u32_pod status_addr of
                                 Some status \<Rightarrow>
                                   field_i64 ''rmStatusHint'' (sint status) root
                               | None \<Rightarrow> root))
                     else root);
          root = field_str ''status'' ''opaque'' root
      in root)"

definition decode_register_fd ::
    "remote \<Rightarrow> IoctlMeta \<Rightarrow> u64 \<Rightarrow> JsonObject \<Rightarrow>
     JsonObject" where
  "decode_register_fd rd meta arg_ptr root =
     (case read_checked_pod rd NvIoctlRegisterFd_pod meta arg_ptr of
        Inr params \<Rightarrow>
          (let root = field_i64 ''ctl_fd'' (NvIoctlRegisterFd.p_ctl_fd params) root;
               root = field_str ''status'' ''ok'' root
           in root)
      | Inl err \<Rightarrow>
          field_str ''status'' err root)"

definition decode_alloc_free_os_event ::
    "remote \<Rightarrow> IoctlMeta \<Rightarrow> u64 \<Rightarrow> JsonObject \<Rightarrow>
     JsonObject" where
  "decode_alloc_free_os_event rd meta arg_ptr root =
     (case read_checked_pod rd NvIoctlAllocOsEvent_pod meta arg_ptr of
        Inr params \<Rightarrow>
          (let root = field_str ''hClient'' (hex0x (unat (NvIoctlAllocOsEvent.p_h_client params))) root;
               root = field_str ''hDevice'' (hex0x (unat (NvIoctlAllocOsEvent.p_h_device params))) root;
               root = field_u64 ''fd'' (ucast (NvIoctlAllocOsEvent.p_fd params)) root;
               root = field_i64 ''rmStatus'' (uint (NvIoctlAllocOsEvent.p_status params)) root;
               root = field_str ''status'' ''ok'' root
           in root)
      | Inl err \<Rightarrow>
          field_str ''status'' err root)"

definition decode_status_code ::
    "remote \<Rightarrow> IoctlMeta \<Rightarrow> u64 \<Rightarrow> JsonObject \<Rightarrow>
     JsonObject" where
  "decode_status_code rd meta arg_ptr root =
     (case read_checked_pod rd NvIoctlStatusCode_pod meta arg_ptr of
        Inr params \<Rightarrow>
          (let root = field_u64 ''domain'' (ucast (NvIoctlStatusCode.p_domain params)) root;
               root = field_u64 ''bus'' (ucast (NvIoctlStatusCode.p_bus params)) root;
               root = field_u64 ''slot'' (ucast (NvIoctlStatusCode.p_slot params)) root;
               root = field_u64 ''statusCode'' (ucast (NvIoctlStatusCode.p_status params)) root;
               root = field_str ''status'' ''ok'' root
           in root)
      | Inl err \<Rightarrow>
          field_str ''status'' err root)"

definition decode_rm_api_version ::
    "remote \<Rightarrow> IoctlMeta \<Rightarrow> u64 \<Rightarrow> JsonObject \<Rightarrow>
     JsonObject" where
  "decode_rm_api_version rd meta arg_ptr root =
     (case read_checked_pod rd NvIoctlRmApiVersion_pod meta arg_ptr of
        Inr params \<Rightarrow>
          (let root = field_u64 ''cmd'' (ucast (NvIoctlRmApiVersion.p_cmd params)) root;
               root = field_u64 ''reply'' (ucast (NvIoctlRmApiVersion.p_reply params)) root;
               root = field_str ''version'' (read_c_string (NvIoctlRmApiVersion.p_version_string params)) root;
               root = field_str ''status'' ''ok'' root
           in root)
      | Inl err \<Rightarrow>
          field_str ''status'' err root)"

definition decode_query_device_intr ::
    "remote \<Rightarrow> IoctlMeta \<Rightarrow> u64 \<Rightarrow> JsonObject \<Rightarrow>
     JsonObject" where
  "decode_query_device_intr rd meta arg_ptr root =
     (case read_checked_pod rd NvIoctlQueryDeviceIntr_pod meta arg_ptr of
        Inr params \<Rightarrow>
          (let root = field_u64 ''intrStatus'' (ucast (NvIoctlQueryDeviceIntr.p_intr_status params)) root;
               root = field_u64 ''rmStatus'' (ucast (NvIoctlQueryDeviceIntr.p_status params)) root;
               root = field_str ''status'' ''ok'' root
           in root)
      | Inl err \<Rightarrow>
          field_str ''status'' err root)"

definition decode_sys_params ::
    "remote \<Rightarrow> IoctlMeta \<Rightarrow> u64 \<Rightarrow> JsonObject \<Rightarrow>
     JsonObject" where
  "decode_sys_params rd meta arg_ptr root =
     (case read_checked_pod rd NvIoctlSysParams_pod meta arg_ptr of
        Inr params \<Rightarrow>
          (let root = field_u64 ''memblock_size'' (NvIoctlSysParams.p_memblock_size params) root;
               root = field_str ''status'' ''ok'' root
           in root)
      | Inl err \<Rightarrow>
          field_str ''status'' err root)"

definition decode_wait_open_complete ::
    "remote \<Rightarrow> IoctlMeta \<Rightarrow> u64 \<Rightarrow> JsonObject \<Rightarrow>
     JsonObject" where
  "decode_wait_open_complete rd meta arg_ptr root =
     (case read_checked_pod rd NvIoctlWaitOpenComplete_pod meta arg_ptr of
        Inr params \<Rightarrow>
          (let root = field_i64 ''rc'' (NvIoctlWaitOpenComplete.p_rc params) root;
               root = field_u64 ''adapterStatus'' (ucast (NvIoctlWaitOpenComplete.p_adapter_status params)) root;
               root = field_str ''status'' ''ok'' root
           in root)
      | Inl err \<Rightarrow>
          field_str ''status'' err root)"

definition decode_numa_info ::
    "remote \<Rightarrow> IoctlMeta \<Rightarrow> u64 \<Rightarrow> JsonObject \<Rightarrow>
     JsonObject" where
  "decode_numa_info rd meta arg_ptr root =
     (case read_checked_pod rd NvIoctlNumaInfo_pod meta arg_ptr of
        Inr params \<Rightarrow>
          (let root = field_i64 ''nid'' (NvIoctlNumaInfo.p_nid params) root;
               root = field_i64 ''numaStatus'' (NvIoctlNumaInfo.p_status params) root;
               root = field_u64 ''memblock_size'' (NvIoctlNumaInfo.p_memblock_size params) root;
               root = field_str ''numa_mem_addr'' (hex0x (unat (NvIoctlNumaInfo.p_numa_mem_addr params))) root;
               root = field_u64 ''numa_mem_size'' (NvIoctlNumaInfo.p_numa_mem_size params) root;
               root = field_bool ''use_auto_online'' (NvIoctlNumaInfo.p_use_auto_online params \<noteq> 0) root;
               addr_count = min (unat (NvOfflineAddresses.p_num_entries (NvIoctlNumaInfo.p_offline_addresses params))) (length (NvOfflineAddresses.p_addresses (NvIoctlNumaInfo.p_offline_addresses params)));
               logged = min addr_count MAX_NUMA_ADDRESSES;
               root = field_u64 ''offlineAddressCount'' (of_nat addr_count) root;
               root = field_raw ''offlineAddresses'' (json_u64_hex_array (take logged (NvOfflineAddresses.p_addresses (NvIoctlNumaInfo.p_offline_addresses params)))) root;
               root = field_bool ''offlineAddressesTruncated'' (logged < addr_count) root;
               root = field_str ''status'' ''ok'' root
           in root)
      | Inl err \<Rightarrow>
          field_str ''status'' err root)"

definition decode_set_numa_status ::
    "remote \<Rightarrow> IoctlMeta \<Rightarrow> u64 \<Rightarrow> JsonObject \<Rightarrow>
     JsonObject" where
  "decode_set_numa_status rd meta arg_ptr root =
     (case read_checked_pod rd NvIoctlSetNumaStatus_pod meta arg_ptr of
        Inr params \<Rightarrow>
          (let root = field_i64 ''numaStatus'' (NvIoctlSetNumaStatus.p_status params) root;
               root = field_str ''status'' ''ok'' root
           in root)
      | Inl err \<Rightarrow>
          field_str ''status'' err root)"

definition decode_attach_gpus ::
    "remote \<Rightarrow> IoctlMeta \<Rightarrow> u64 \<Rightarrow> usize \<Rightarrow>
     JsonObject \<Rightarrow> JsonObject" where
  "decode_attach_gpus rd meta arg_ptr max_blob root =
     (let declared = unat (meta_size meta)
      in (if (declared = 0) \<or> ((declared mod size_of FU32) \<noteq> 0) then
            field_str ''status'' ''size_unknown'' root
          else
            (let read_len = min declared (max max_blob (size_of FU32))
             in (case read_bytes rd arg_ptr read_len of
                   None \<Rightarrow>
                     field_str ''status'' ''arg_unreadable'' root
                 | Some bytes \<Rightarrow>
                     (let ids = [];
                          ids = ids @ map get_u32 (chunks_exact 4 bytes);
                          root = field_u64 ''gpu_count'' (of_nat (declared div size_of FU32)) root;
                          root = field_raw ''gpu_ids'' (json_u32_array ids) root;
                          root = field_bool ''truncated'' (read_len < declared) root;
                          root = field_str ''status'' ''ok'' root
                      in root)))))"

definition decode_export_to_dmabuf ::
    "remote \<Rightarrow> IoctlMeta \<Rightarrow> u64 \<Rightarrow> JsonObject \<Rightarrow>
     JsonObject" where
  "decode_export_to_dmabuf rd meta arg_ptr root =
     (case read_checked_pod rd NvIoctlExportToDmaBufFdPrefix_pod meta arg_ptr of
        Inr params \<Rightarrow>
          (let root = field_i64 ''fd'' (NvIoctlExportToDmaBufFdPrefix.p_fd params) root;
               root = field_str ''hClient'' (hex0x (unat (NvIoctlExportToDmaBufFdPrefix.p_h_client params))) root;
               root = field_u64 ''totalObjects'' (ucast (NvIoctlExportToDmaBufFdPrefix.p_total_objects params)) root;
               root = field_u64 ''numObjects'' (ucast (NvIoctlExportToDmaBufFdPrefix.p_num_objects params)) root;
               root = field_u64 ''index'' (ucast (NvIoctlExportToDmaBufFdPrefix.p_index params)) root;
               root = field_u64 ''totalSize'' (NvIoctlExportToDmaBufFdPrefix.p_total_size params) root;
               root = field_u64 ''mappingType'' (ucast (NvIoctlExportToDmaBufFdPrefix.p_mapping_type params)) root;
               root = field_bool ''allowMmap'' (NvIoctlExportToDmaBufFdPrefix.p_b_allow_mmap params \<noteq> 0) root;
               root = field_str ''status'' ''ok'' root
           in root)
      | Inl err \<Rightarrow>
          field_str ''status'' err root)"

fun read_cards :: "remote \<Rightarrow> u64 \<Rightarrow> nat \<Rightarrow> nat \<Rightarrow> nat \<Rightarrow> NvIoctlCardInfo list" where
  "read_cards rd arg_ptr card_size 0 idx = []"
| "read_cards rd arg_ptr card_size (Suc n) idx =
     (case read_pod rd NvIoctlCardInfo_pod (arg_ptr + of_nat (idx * card_size)) of
        None \<Rightarrow> []
      | Some entry \<Rightarrow> entry # read_cards rd arg_ptr card_size n (idx + 1))"

definition decode_card_info ::
    "remote \<Rightarrow> IoctlMeta \<Rightarrow> u64 \<Rightarrow> usize \<Rightarrow> JsonObject \<Rightarrow> JsonObject" where
  "decode_card_info rd meta arg_ptr max_blob root =
     (let declared = unat (meta_size meta);
          card_size = pod_size NvIoctlCardInfo_pod
      in if declared < card_size then
           field_str ''status''
             (''size_mismatch(expected>='' @ dec card_size @ '',actual='' @ dec declared @ '')'') root
         else
           let declared_count = declared div card_size;
               max_entries = max (max_blob div card_size) 1;
               read_count = min declared_count max_entries;
               decoded = read_cards rd arg_ptr card_size read_count 0
           in if decoded = [] then field_str ''status'' ''arg_unreadable'' root
              else
                let valid_count = length (filter (\<lambda>entry. NvIoctlCardInfo.p_valid entry \<noteq> 0) decoded);
                    root = field_u64 ''cardCountDeclared'' (of_nat declared_count) root;
                    root = field_u64 ''cardCountDecoded'' (of_nat (length decoded)) root;
                    root = field_u64 ''validCount'' (of_nat valid_count) root;
                    root = field_bool ''truncated'' (length decoded < declared_count) root;
                    root = field_raw ''cards'' (json_card_info_array decoded) root
                in field_str ''status'' ''ok'' root)"

definition rm_decode_unknown ::
    "remote \<Rightarrow> IoctlMeta \<Rightarrow> u64 \<Rightarrow> usize \<Rightarrow>
     JsonObject \<Rightarrow> JsonObject" where
  "rm_decode_unknown rd meta arg_ptr max_blob root =
     (let declared = unat (meta_size meta)
      in (if declared = 0 then
            field_str ''status'' ''unknown_cmd'' root
          else
            (let read_len = min declared (max max_blob 16)
             in (case read_bytes rd arg_ptr read_len of
                   Some bytes \<Rightarrow>
                     (let root = field_str ''blob_hex'' (hex_bytes bytes) root;
                          root = field_bool ''truncated'' (read_len < declared) root;
                          root = field_str ''status'' ''partial'' root
                      in root)
                 | None \<Rightarrow> field_str ''status'' ''arg_unreadable'' root))))"

subsection \<open>Dispatch\<close>

definition rm_decoders :: "(u32 \<times> (remote \<Rightarrow> IoctlMeta \<Rightarrow> u64 \<Rightarrow> JsonObject \<Rightarrow> JsonObject)) list" where
  "rm_decoders =
     [(NV_ESC_RM_ALLOC_MEMORY, decode_rm_alloc_memory),
      (NV_ESC_RM_ALLOC_OBJECT, decode_rm_alloc_object), (NV_ESC_RM_FREE, decode_rm_free),
      (NV_ESC_RM_MAP_MEMORY, decode_rm_map_memory),
      (NV_ESC_RM_UNMAP_MEMORY, decode_rm_unmap_memory),
      (NV_ESC_RM_I2C_ACCESS, decode_rm_i2c_access),
      (NV_ESC_RM_IDLE_CHANNELS, decode_rm_idle_channels),
      (NV_ESC_RM_VID_HEAP_CONTROL, decode_rm_vid_heap_control),
      (NV_ESC_RM_GET_EVENT_DATA, decode_rm_get_event_data),
      (NV_ESC_RM_ALLOC_CONTEXT_DMA2, decode_rm_alloc_context_dma2),
      (NV_ESC_RM_MAP_MEMORY_DMA, decode_rm_map_memory_dma),
      (NV_ESC_RM_UNMAP_MEMORY_DMA, decode_rm_unmap_memory_dma),
      (NV_ESC_RM_BIND_CONTEXT_DMA, decode_rm_bind_context_dma),
      (NV_ESC_RM_DUP_OBJECT, decode_rm_dup_object),
      (NV_ESC_RM_UPDATE_DEVICE_MAPPING_INFO, decode_rm_update_device_mapping_info),
      (NV_ESC_RM_SHARE, decode_rm_share),
      (NV_ESC_RM_ADD_VBLANK_CALLBACK, decode_rm_add_vblank_callback),
      (NV_ESC_REGISTER_FD, decode_register_fd),
      (NV_ESC_ALLOC_OS_EVENT, decode_alloc_free_os_event),
      (NV_ESC_FREE_OS_EVENT, decode_alloc_free_os_event),
      (NV_ESC_STATUS_CODE, decode_status_code), (NV_ESC_CHECK_VERSION_STR, decode_rm_api_version),
      (NV_ESC_QUERY_DEVICE_INTR, decode_query_device_intr),
      (NV_ESC_SYS_PARAMS, decode_sys_params),
      (NV_ESC_WAIT_OPEN_COMPLETE, decode_wait_open_complete),
      (NV_ESC_NUMA_INFO, decode_numa_info), (NV_ESC_SET_NUMA_STATUS, decode_set_numa_status),
      (NV_ESC_EXPORT_TO_DMABUF_FD, decode_export_to_dmabuf)]"

definition rm_opaque_cmds :: "u32 list" where
  "rm_opaque_cmds =
     [NV_ESC_RM_CONFIG_GET, NV_ESC_RM_CONFIG_SET, NV_ESC_RM_CONFIG_GET_EX,
      NV_ESC_RM_CONFIG_SET_EX, NV_ESC_RM_EXPORT_OBJECT_TO_FD, NV_ESC_RM_IMPORT_OBJECT_FROM_FD,
      NV_ESC_RM_LOCKLESS_DIAGNOSTIC]"

definition decode_nvidia_ioctl ::
    "generated_tables \<Rightarrow> remote \<Rightarrow> IoctlMeta \<Rightarrow> u64 \<Rightarrow> IoctlDecodeMode \<Rightarrow> usize \<Rightarrow> DecodeSummary option" where
  "decode_nvidia_ioctl tables rd meta arg_ptr decode_mode max_blob =
     (if meta_ioc_type meta \<noteq> NV_IOCTL_MAGIC then None
      else
        let root = JsonObject_new;
            legacy = []
        in if decode_mode = Header then
             (let root = field_str ''status'' ''header'' root
              in Some \<lparr>ds_legacy = legacy, ds_json = finish root\<rparr>)
           else if arg_ptr = 0 then
             (let root = field_str ''status'' ''arg_null'' root
              in Some \<lparr>ds_legacy = legacy, ds_json = finish root\<rparr>)
           else
             let nr = (ucast (meta_nr meta) :: u32);
                 (legacy, root) =
                (if nr = NV_ESC_IOCTL_XFER_CMD then decode_xfer tables rd arg_ptr decode_mode max_blob legacy root
                 else if nr = NV_ESC_RM_CONTROL then decode_rm_control tables rd meta arg_ptr max_blob legacy root
                 else if nr = NV_ESC_RM_ALLOC then (legacy, decode_rm_alloc rd meta arg_ptr max_blob root)
                 else if nr = NV_ESC_RM_ACCESS_REGISTRY then (legacy, decode_rm_access_registry rd meta arg_ptr max_blob root)
                 else if nr = NV_ESC_ATTACH_GPUS_TO_FD then (legacy, decode_attach_gpus rd meta arg_ptr max_blob root)
                 else if nr = NV_ESC_CARD_INFO then (legacy, decode_card_info rd meta arg_ptr max_blob root)
                 else if nr \<in> set rm_opaque_cmds then (legacy, decode_rm_opaque tables rd meta arg_ptr root)
                 else case map_of rm_decoders nr of
                        Some decode \<Rightarrow> (legacy, decode rd meta arg_ptr root)
                      | None \<Rightarrow> (legacy, rm_decode_unknown rd meta arg_ptr max_blob root))
             in Some \<lparr>ds_legacy = legacy, ds_json = finish root\<rparr>)"

end
