(* ===== verification/Rm_Control_Status.thy ===== *)
theory Rm_Control_Status
  imports Rm_Control
begin

text \<open>
  What the decoders of the known control commands guarantee: each fails only when its structure cannot be
  read, and otherwise returns a well-formed JSON object that ends with a truthful status, and a text
  that begins with the command's name.
\<close>

subsection \<open>Every decoder reports how its read went\<close>

definition size_mismatch :: "nat \<Rightarrow> nat \<Rightarrow> string" where
  "size_mismatch expected actual =
     ''size_mismatch(expected>='' @ dec expected @ '',actual='' @ dec actual @ '')''"

lemma ascii_size_mismatch [simp]: "ascii (size_mismatch n m)"
  by (simp add: size_mismatch_def)

text \<open>The text of an object that ends with the status.\<close>

definition ends_object :: "string \<Rightarrow> string \<Rightarrow> bool" where
  "ends_object s t \<longleftrightarrow> (\<exists>root. ends_with_status s root \<and> t = finish root)"

lemma ends_objectI: "well_built r \<Longrightarrow> ends_object s (finish (field_str ''status'' s r))"
  by (auto simp: ends_object_def intro: ends_with_statusI)

lemma ends_object_status: "ends_object s t \<Longrightarrow> ascii s \<Longrightarrow> status_object s t"
  by (auto simp: ends_object_def status_object_ends)

lemma ends_object_text: "ends_object s t \<Longrightarrow> ascii s \<Longrightarrow> json_text t"
  by (auto simp: ends_object_def ends_with_status_def intro!: json_intros)

text \<open>\<open>f\<close> decodes the command \<open>name\<close>, whose structure has \<open>n\<close> bytes: it fails only when these bytes
  were announced but cannot be read, and otherwise its object ends with a truthful status and its
  text begins with the command's name.\<close>

definition known_ok :: "string \<Rightarrow> nat \<Rightarrow> (remote \<Rightarrow> u64 \<Rightarrow> usize \<Rightarrow> KnownRmDecode option) \<Rightarrow> bool" where
  "known_ok name n f \<longleftrightarrow> (\<forall>rd a sz.
     case f rd a sz of
       None \<Rightarrow> n \<le> sz \<and> \<not> readable rd a n
     | Some d \<Rightarrow>
         (sz < n \<or> readable rd a n) \<and>
         ends_object (if sz < n then size_mismatch n sz else ''ok'') (krd_json d) \<and>
         starts_with (krd_legacy d) (''name='' @ name))"

lemma mismatch_object:
  "ends_object (size_mismatch n m) (finish (field_str ''status''
     (''size_mismatch(expected>='' @ dec n @ '',actual='' @ dec m @ '')'') JsonObject_new))"
  unfolding size_mismatch_def [symmetric] by (intro ends_objectI well_built_new)

lemma known_size_mismatch_ok:
  "ends_object (size_mismatch n m) (krd_json (known_size_mismatch name n m)) \<and>
   starts_with (krd_legacy (known_size_mismatch name n m)) (''name='' @ name)"
  unfolding known_size_mismatch_def Let_def KnownRmDecode.simps
  by (intro conjI mismatch_object) (simp add: starts_with_def)

lemma known_okI:
  assumes f: "\<And>rd a sz. f rd a sz =
      (if sz < pod_size T then Some (B sz)
       else (case read_pod rd T a of
               None \<Rightarrow> None
             | Some p \<Rightarrow> Some \<lparr>krd_legacy = L rd a sz p, krd_json = finish (field_str ''status'' ''ok'' (J rd a sz p))\<rparr>))"
    and J: "\<And>rd a sz p. well_built (J rd a sz p)"
    and L: "\<And>rd a sz p. starts_with (L rd a sz p) (''name='' @ name)"
    and B: "\<And>m. ends_object (size_mismatch (pod_size T) m) (krd_json (B m)) \<and>
      starts_with (krd_legacy (B m)) (''name='' @ name)"
    and n: "pod_size T = n"
  shows "known_ok name n f"
  unfolding known_ok_def
proof (intro allI)
  fix rd a sz
  have r: "readable rd a n \<longleftrightarrow> read_pod rd T a \<noteq> None"
    using read_pod_readable [of rd T a] n by auto
  have s: "ends_object ''ok'' (finish (field_str ''status'' ''ok'' (J rd a sz p)))" for p
    by (intro ends_objectI J)
  show "case f rd a sz of
      None \<Rightarrow> n \<le> sz \<and> \<not> readable rd a n
    | Some d \<Rightarrow> (sz < n \<or> readable rd a n) \<and>
        ends_object (if sz < n then size_mismatch n sz else ''ok'') (krd_json d) \<and>
        starts_with (krd_legacy d) (''name='' @ name)"
    using B [of sz] L [of rd a sz] s unfolding f n r by (cases "read_pod rd T a") auto
qed

text \<open>The conditional members of an object.\<close>

lemma well_built_if [json_intros]:
  "(c \<Longrightarrow> well_built a) \<Longrightarrow> (\<not> c \<Longrightarrow> well_built b) \<Longrightarrow> well_built (if c then a else b)"
  by simp

lemma well_built_option [json_intros]:
  "(\<And>x. e = Some x \<Longrightarrow> well_built (f x)) \<Longrightarrow> well_built b \<Longrightarrow>
   well_built (case e of Some x \<Rightarrow> f x | None \<Rightarrow> b)"
  by (cases e) simp_all

lemma utf8_if [json_intros]: "utf8 a \<Longrightarrow> utf8 b \<Longrightarrow> utf8 (if c then a else b)"
  by simp

lemma utf8_trimmed [json_intros]: "utf8 (trim_nuls (from_utf8_lossy t))"
  by (rule utf8_trim_nuls [OF utf8_from_utf8_lossy])

lemma well_built_remote:
  "well_built r \<Longrightarrow> ascii k \<Longrightarrow>
   well_built (case read_remote_string rd p n m of Some text \<Rightarrow> field_str k text r | None \<Rightarrow> r)"
  by (auto split: option.split intro!: well_built_str dest: utf8_remote_string)

text \<open>What the header files of the driver say: each known command, its name and the bytes of its structure.\<close>

definition known_specs :: "(u32 \<times> string \<times> nat) list" where
  "known_specs =
     [(NV0000_CTRL_CMD_CLIENT_GET_ADDR_SPACE_TYPE, ''NV0000_CTRL_CMD_CLIENT_GET_ADDR_SPACE_TYPE'', 12),
      (NV0000_CTRL_CMD_OS_UNIX_GET_CONTROL_FILE_DESCRIPTOR, ''NV0000_CTRL_CMD_OS_UNIX_GET_CONTROL_FILE_DESCRIPTOR'', 4),
      (NV0000_CTRL_CMD_SYSTEM_GET_BUILD_VERSION, ''NV0000_CTRL_CMD_SYSTEM_GET_BUILD_VERSION'', 40),
      (NV0000_CTRL_CMD_CLIENT_SET_INHERITED_SHARE_POLICY, ''NV0000_CTRL_CMD_CLIENT_SET_INHERITED_SHARE_POLICY'', 12),
      (NV0000_CTRL_CMD_SYSTEM_GET_FEATURES, ''NV0000_CTRL_CMD_SYSTEM_GET_FEATURES'', 4),
      (NV0000_CTRL_CMD_SYSTEM_GET_FABRIC_STATUS, ''NV0000_CTRL_CMD_SYSTEM_GET_FABRIC_STATUS'', 4),
      (NV0000_CTRL_CMD_SYSTEM_GET_P2P_CAPS_MATRIX, ''NV0000_CTRL_CMD_SYSTEM_GET_P2P_CAPS_MATRIX'', 1352),
      (NV0000_CTRL_CMD_GPU_GET_MEMOP_ENABLE, ''NV0000_CTRL_CMD_GPU_GET_MEMOP_ENABLE'', 4),
      (NV0000_CTRL_CMD_GPU_GET_ATTACHED_IDS, ''NV0000_CTRL_CMD_GPU_GET_ATTACHED_IDS'', 128),
      (NV0000_CTRL_CMD_GPU_GET_ID_INFO, ''NV0000_CTRL_CMD_GPU_GET_ID_INFO'', 40),
      (NV0000_CTRL_CMD_GPU_GET_ID_INFO_V2, ''NV0000_CTRL_CMD_GPU_GET_ID_INFO_V2'', 32),
      (NV0000_CTRL_CMD_GPU_GET_PROBED_IDS, ''NV0000_CTRL_CMD_GPU_GET_PROBED_IDS'', 384),
      (NV0000_CTRL_CMD_GPU_ATTACH_IDS, ''NV0000_CTRL_CMD_GPU_ATTACH_IDS'', 132),
      (NV0000_CTRL_CMD_GPU_GET_ACTIVE_DEVICE_IDS, ''NV0000_CTRL_CMD_GPU_GET_ACTIVE_DEVICE_IDS'', 3076),
      (NV0000_CTRL_CMD_SYNC_GPU_BOOST_GROUP_INFO, ''NV0000_CTRL_CMD_SYNC_GPU_BOOST_GROUP_INFO'', 2244),
      (NV0080_CTRL_CMD_HOST_GET_CAPS_V2, ''NV0080_CTRL_CMD_HOST_GET_CAPS_V2'', 3),
      (NV0080_CTRL_CMD_GPU_GET_NUM_SUBDEVICES, ''NV0080_CTRL_CMD_GPU_GET_NUM_SUBDEVICES'', 4),
      (NV0080_CTRL_CMD_GPU_GET_CLASSLIST_V2, ''NV0080_CTRL_CMD_GPU_GET_CLASSLIST_V2'', 804),
      (NV0080_CTRL_CMD_GPU_GET_VIRTUALIZATION_MODE, ''NV0080_CTRL_CMD_GPU_GET_VIRTUALIZATION_MODE'', 8),
      (NV0080_CTRL_CMD_FIFO_GET_CHANNELLIST, ''NV0080_CTRL_CMD_FIFO_GET_CHANNELLIST'', 24),
      (NV0080_CTRL_CMD_PERF_CUDA_LIMIT_SET_CONTROL, ''NV0080_CTRL_CMD_PERF_CUDA_LIMIT_SET_CONTROL'', 1),
      (NV0080_CTRL_CMD_FB_GET_CAPS_V2, ''NV0080_CTRL_CMD_FB_GET_CAPS_V2'', 3),
      (NV906F_CTRL_GET_CLASS_ENGINEID, ''NV906F_CTRL_GET_CLASS_ENGINEID'', 16),
      (NVC36F_CTRL_CMD_GPFIFO_GET_WORK_SUBMIT_TOKEN, ''NVC36F_CTRL_CMD_GPFIFO_GET_WORK_SUBMIT_TOKEN'', 4),
      (NV2080_CTRL_CMD_MC_GET_ARCH_INFO, ''NV2080_CTRL_CMD_MC_GET_ARCH_INFO'', 16),
      (NV2080_CTRL_CMD_GPU_GET_INFO_V2, ''NV2080_CTRL_CMD_GPU_GET_INFO_V2'', 564),
      (NV2080_CTRL_CMD_GPU_GET_NAME_STRING, ''NV2080_CTRL_CMD_GPU_GET_NAME_STRING'', 132),
      (NV2080_CTRL_CMD_GPU_GET_SHORT_NAME_STRING, ''NV2080_CTRL_CMD_GPU_GET_SHORT_NAME_STRING'', 64),
      (NV2080_CTRL_CMD_GPU_GET_SIMULATION_INFO, ''NV2080_CTRL_CMD_GPU_GET_SIMULATION_INFO'', 4),
      (NV2080_CTRL_CMD_GPU_GET_ENGINES_V2, ''NV2080_CTRL_CMD_GPU_GET_ENGINES_V2'', 340),
      (NV2080_CTRL_CMD_GPU_QUERY_ECC_STATUS, ''NV2080_CTRL_CMD_GPU_QUERY_ECC_STATUS'', 1664),
      (NV2080_CTRL_CMD_GPU_QUERY_COMPUTE_MODE_RULES, ''NV2080_CTRL_CMD_GPU_QUERY_COMPUTE_MODE_RULES'', 4),
      (NV2080_CTRL_CMD_GPU_GET_GID_INFO, ''NV2080_CTRL_CMD_GPU_GET_GID_INFO'', 268),
      (NV2080_CTRL_CMD_FB_GET_INFO_V2, ''NV2080_CTRL_CMD_FB_GET_INFO_V2'', 1028),
      (NV2080_CTRL_CMD_BUS_GET_PCI_INFO, ''NV2080_CTRL_CMD_BUS_GET_PCI_INFO'', 16),
      (NV2080_CTRL_CMD_BUS_GET_INFO_V2, ''NV2080_CTRL_CMD_BUS_GET_INFO_V2'', 420),
      (NV2080_CTRL_CMD_BUS_GET_PCI_BAR_INFO, ''NV2080_CTRL_CMD_BUS_GET_PCI_BAR_INFO'', 200),
      (NV2080_CTRL_CMD_BUS_GET_PCIE_SUPPORTED_GPU_ATOMICS, ''NV2080_CTRL_CMD_BUS_GET_PCIE_SUPPORTED_GPU_ATOMICS'', 112),
      (NV2080_CTRL_CMD_BUS_GET_C2C_INFO, ''NV2080_CTRL_CMD_BUS_GET_C2C_INFO'', 28),
      (NV2080_CTRL_CMD_GR_GET_INFO, ''NV2080_CTRL_CMD_GR_GET_INFO'', 32),
      (NV2080_CTRL_CMD_GR_GET_GLOBAL_SM_ORDER, ''NV2080_CTRL_CMD_GR_GET_GLOBAL_SM_ORDER'', 9240),
      (NV2080_CTRL_CMD_GR_GET_CAPS_V2, ''NV2080_CTRL_CMD_GR_GET_CAPS_V2'', 48),
      (NV2080_CTRL_CMD_GR_GET_GPC_MASK, ''NV2080_CTRL_CMD_GR_GET_GPC_MASK'', 24),
      (NV2080_CTRL_CMD_GR_GET_TPC_MASK, ''NV2080_CTRL_CMD_GR_GET_TPC_MASK'', 24),
      (NV2080_CTRL_CMD_GR_SET_CTXSW_PREEMPTION_MODE, ''NV2080_CTRL_CMD_GR_SET_CTXSW_PREEMPTION_MODE'', 32),
      (NV2080_CTRL_CMD_GR_GET_CTX_BUFFER_SIZE, ''NV2080_CTRL_CMD_GR_GET_CTX_BUFFER_SIZE'', 16),
      (NV2080_CTRL_CMD_CE_GET_ALL_CAPS, ''NV2080_CTRL_CMD_CE_GET_ALL_CAPS'', 136),
      (NV2080_CTRL_CMD_NVLINK_GET_NVLINK_STATUS, ''NV2080_CTRL_CMD_NVLINK_GET_NVLINK_STATUS'', 32),
      (NV2080_CTRL_CMD_GSP_GET_FEATURES, ''NV2080_CTRL_CMD_GSP_GET_FEATURES'', 72),
      (NV2080_CTRL_CMD_GRMGR_GET_GR_FS_INFO, ''NV2080_CTRL_CMD_GRMGR_GET_GR_FS_INFO'', 1928),
      (NV_CONF_COMPUTE_CTRL_CMD_SYSTEM_GET_CAPABILITIES, ''NV_CONF_COMPUTE_CTRL_CMD_SYSTEM_GET_CAPABILITIES'', 6),
      (NVA06C_CTRL_CMD_GPFIFO_SCHEDULE, ''NVA06C_CTRL_CMD_GPFIFO_SCHEDULE'', 3),
      (NVA06C_CTRL_CMD_SET_TIMESLICE, ''NVA06C_CTRL_CMD_SET_TIMESLICE'', 8),
      (NVA06C_CTRL_CMD_PREEMPT, ''NVA06C_CTRL_CMD_PREEMPT'', 8),
      (NV83DE_CTRL_CMD_DEBUG_SET_EXCEPTION_MASK, ''NV83DE_CTRL_CMD_DEBUG_SET_EXCEPTION_MASK'', 4),
      (NV2080_CTRL_CMD_PERF_BOOST, ''NV2080_CTRL_CMD_PERF_BOOST'', 8)]"

lemmas known_decoder_defs = decode_cmd_client_get_addr_space_type_def decode_cmd_os_unix_get_control_file_descriptor_def
  decode_cmd_system_get_build_version_def decode_cmd_client_set_inherited_share_policy_def
  decode_cmd_system_get_features_def decode_cmd_system_get_fabric_status_def
  decode_cmd_system_get_p2p_caps_matrix_def decode_cmd_gpu_get_memop_enable_def
  decode_cmd_gpu_get_attached_ids_def decode_cmd_gpu_get_id_info_def
  decode_cmd_gpu_get_id_info_v2_def decode_cmd_gpu_get_probed_ids_def
  decode_cmd_gpu_attach_ids_def decode_cmd_gpu_get_active_device_ids_def
  decode_cmd_sync_gpu_boost_group_info_def decode_cmd_host_get_caps_v2_def
  decode_cmd_gpu_get_num_subdevices_def decode_cmd_gpu_get_classlist_v2_def
  decode_cmd_gpu_get_virtualization_mode_def decode_cmd_fifo_get_channellist_def
  decode_cmd_perf_cuda_limit_set_control_def decode_cmd_fb_get_caps_v2_def
  decode_cmd_class_engine_id_def decode_cmd_gpfifo_get_work_submit_token_def
  decode_cmd_mc_get_arch_info_def decode_cmd_gpu_get_info_v2_def
  decode_cmd_gpu_get_name_string_def decode_cmd_gpu_get_short_name_string_def
  decode_cmd_gpu_get_simulation_info_def decode_cmd_gpu_get_engines_v2_def
  decode_cmd_gpu_query_ecc_status_def decode_cmd_gpu_query_compute_mode_rules_def
  decode_cmd_gpu_get_gid_info_def decode_cmd_fb_get_info_v2_def decode_cmd_bus_get_pci_info_def
  decode_cmd_bus_get_info_v2_def decode_cmd_bus_get_pci_bar_info_def
  decode_cmd_bus_get_pcie_supported_gpu_atomics_def decode_cmd_bus_get_c2c_info_def
  decode_cmd_gr_get_info_def decode_cmd_gr_get_global_sm_order_def decode_cmd_gr_get_caps_v2_def
  decode_cmd_gr_get_gpc_mask_def decode_cmd_gr_get_tpc_mask_def
  decode_cmd_gr_set_ctxsw_preemption_mode_def decode_cmd_gr_get_ctx_buffer_size_def
  decode_cmd_ce_get_all_caps_def decode_cmd_nvlink_get_nvlink_status_def
  decode_cmd_gsp_get_features_def decode_cmd_grmgr_get_gr_fs_info_def
  decode_cmd_conf_compute_get_capabilities_def decode_cmd_gpfifo_schedule_def
  decode_cmd_set_timeslice_def decode_cmd_preempt_def decode_cmd_debug_set_exception_mask_def
  decode_cmd_perf_boost_def

lemmas rm_sizes = rm_pods rm_layouts nvidia_pods nvidia_layouts rm_bounds round_up_def
  numeral_2_eq_2 [symmetric]

lemma ok_client_get_addr_space_type: "known_ok ''NV0000_CTRL_CMD_CLIENT_GET_ADDR_SPACE_TYPE'' 12 decode_cmd_client_get_addr_space_type"
  by (rule known_okI, (unfold decode_cmd_client_get_addr_space_type_def Let_def, rule refl)[1], (intro well_built_remote json_intros; simp)[1],
      (simp add: starts_with_def)[1], (rule conjI, unfold KnownRmDecode.simps, rule mismatch_object, simp add: starts_with_def)[1], simp add: rm_sizes)

lemma ok_os_unix_get_control_file_descriptor: "known_ok ''NV0000_CTRL_CMD_OS_UNIX_GET_CONTROL_FILE_DESCRIPTOR'' 4 decode_cmd_os_unix_get_control_file_descriptor"
  by (rule known_okI, (unfold decode_cmd_os_unix_get_control_file_descriptor_def Let_def, rule refl)[1], (intro well_built_remote json_intros; simp)[1],
      (simp add: starts_with_def)[1], (rule conjI, unfold KnownRmDecode.simps, rule mismatch_object, simp add: starts_with_def)[1], simp add: rm_sizes)

lemma ok_system_get_build_version: "known_ok ''NV0000_CTRL_CMD_SYSTEM_GET_BUILD_VERSION'' 40 decode_cmd_system_get_build_version"
  by (rule known_okI, (unfold decode_cmd_system_get_build_version_def Let_def, rule refl)[1], (intro well_built_remote json_intros; simp)[1],
      (simp add: starts_with_def)[1], (rule conjI, unfold KnownRmDecode.simps, rule mismatch_object, simp add: starts_with_def)[1], simp add: rm_sizes)

lemma ok_client_set_inherited_share_policy: "known_ok ''NV0000_CTRL_CMD_CLIENT_SET_INHERITED_SHARE_POLICY'' 12 decode_cmd_client_set_inherited_share_policy"
  by (rule known_okI, (unfold decode_cmd_client_set_inherited_share_policy_def Let_def, rule refl)[1], (intro well_built_remote json_intros; simp)[1],
      (simp add: starts_with_def)[1], (rule known_size_mismatch_ok)[1], simp add: rm_sizes)

lemma ok_system_get_features: "known_ok ''NV0000_CTRL_CMD_SYSTEM_GET_FEATURES'' 4 decode_cmd_system_get_features"
  by (rule known_okI, (unfold decode_cmd_system_get_features_def Let_def, rule refl)[1], (intro well_built_remote json_intros; simp)[1],
      (simp add: starts_with_def)[1], (rule known_size_mismatch_ok)[1], simp add: rm_sizes)

lemma ok_system_get_fabric_status: "known_ok ''NV0000_CTRL_CMD_SYSTEM_GET_FABRIC_STATUS'' 4 decode_cmd_system_get_fabric_status"
  by (rule known_okI, (unfold decode_cmd_system_get_fabric_status_def Let_def, rule refl)[1], (intro well_built_remote json_intros; simp)[1],
      (simp add: starts_with_def)[1], (rule known_size_mismatch_ok)[1], simp add: rm_sizes)

lemma ok_system_get_p2p_caps_matrix: "known_ok ''NV0000_CTRL_CMD_SYSTEM_GET_P2P_CAPS_MATRIX'' 1352 decode_cmd_system_get_p2p_caps_matrix"
  by (rule known_okI, (unfold decode_cmd_system_get_p2p_caps_matrix_def Let_def, rule refl)[1], (intro well_built_remote json_intros; simp)[1],
      (simp add: starts_with_def)[1], (rule known_size_mismatch_ok)[1], simp add: rm_sizes)

lemma ok_gpu_get_memop_enable: "known_ok ''NV0000_CTRL_CMD_GPU_GET_MEMOP_ENABLE'' 4 decode_cmd_gpu_get_memop_enable"
  by (rule known_okI, (unfold decode_cmd_gpu_get_memop_enable_def Let_def, rule refl)[1], (intro well_built_remote json_intros; simp)[1],
      (simp add: starts_with_def)[1], (rule known_size_mismatch_ok)[1], simp add: rm_sizes)

lemma ok_gpu_get_attached_ids: "known_ok ''NV0000_CTRL_CMD_GPU_GET_ATTACHED_IDS'' 128 decode_cmd_gpu_get_attached_ids"
  by (rule known_okI, (unfold decode_cmd_gpu_get_attached_ids_def Let_def, rule refl)[1], (intro well_built_remote json_intros; simp)[1],
      (simp add: starts_with_def)[1], (rule known_size_mismatch_ok)[1], simp add: rm_sizes)

lemma ok_gpu_get_id_info: "known_ok ''NV0000_CTRL_CMD_GPU_GET_ID_INFO'' 40 decode_cmd_gpu_get_id_info"
  by (rule known_okI, (unfold decode_cmd_gpu_get_id_info_def Let_def, rule refl)[1], (intro well_built_remote json_intros; simp)[1],
      (simp add: starts_with_def)[1], (rule known_size_mismatch_ok)[1], simp add: rm_sizes)

lemma ok_gpu_get_id_info_v2: "known_ok ''NV0000_CTRL_CMD_GPU_GET_ID_INFO_V2'' 32 decode_cmd_gpu_get_id_info_v2"
  by (rule known_okI, (unfold decode_cmd_gpu_get_id_info_v2_def Let_def, rule refl)[1], (intro well_built_remote json_intros; simp)[1],
      (simp add: starts_with_def)[1], (rule known_size_mismatch_ok)[1], simp add: rm_sizes)

lemma ok_gpu_get_probed_ids: "known_ok ''NV0000_CTRL_CMD_GPU_GET_PROBED_IDS'' 384 decode_cmd_gpu_get_probed_ids"
  by (rule known_okI, (unfold decode_cmd_gpu_get_probed_ids_def Let_def, rule refl)[1], (intro well_built_remote json_intros; simp)[1],
      (simp add: starts_with_def)[1], (rule known_size_mismatch_ok)[1], simp add: rm_sizes)

lemma ok_gpu_attach_ids: "known_ok ''NV0000_CTRL_CMD_GPU_ATTACH_IDS'' 132 decode_cmd_gpu_attach_ids"
  by (rule known_okI, (unfold decode_cmd_gpu_attach_ids_def Let_def, rule refl)[1], (intro well_built_remote json_intros; simp)[1],
      (simp add: starts_with_def)[1], (rule known_size_mismatch_ok)[1], simp add: rm_sizes)

lemma ok_gpu_get_active_device_ids: "known_ok ''NV0000_CTRL_CMD_GPU_GET_ACTIVE_DEVICE_IDS'' 3076 decode_cmd_gpu_get_active_device_ids"
  by (rule known_okI, (unfold decode_cmd_gpu_get_active_device_ids_def Let_def, rule refl)[1], (intro well_built_remote json_intros; simp)[1],
      (simp add: starts_with_def)[1], (rule known_size_mismatch_ok)[1], simp add: rm_sizes)

lemma ok_sync_gpu_boost_group_info: "known_ok ''NV0000_CTRL_CMD_SYNC_GPU_BOOST_GROUP_INFO'' 2244 decode_cmd_sync_gpu_boost_group_info"
  by (rule known_okI, (unfold decode_cmd_sync_gpu_boost_group_info_def Let_def, rule refl)[1], (intro well_built_remote json_intros; simp)[1],
      (simp add: starts_with_def)[1], (rule known_size_mismatch_ok)[1], simp add: rm_sizes)

lemma ok_host_get_caps_v2: "known_ok ''NV0080_CTRL_CMD_HOST_GET_CAPS_V2'' 3 decode_cmd_host_get_caps_v2"
  by (rule known_okI, (unfold decode_cmd_host_get_caps_v2_def Let_def, rule refl)[1], (intro well_built_remote json_intros; simp)[1],
      (simp add: starts_with_def)[1], (rule known_size_mismatch_ok)[1], simp add: rm_sizes)

lemma ok_gpu_get_num_subdevices: "known_ok ''NV0080_CTRL_CMD_GPU_GET_NUM_SUBDEVICES'' 4 decode_cmd_gpu_get_num_subdevices"
  by (rule known_okI, (unfold decode_cmd_gpu_get_num_subdevices_def Let_def, rule refl)[1], (intro well_built_remote json_intros; simp)[1],
      (simp add: starts_with_def)[1], (rule known_size_mismatch_ok)[1], simp add: rm_sizes)

lemma ok_gpu_get_classlist_v2: "known_ok ''NV0080_CTRL_CMD_GPU_GET_CLASSLIST_V2'' 804 decode_cmd_gpu_get_classlist_v2"
  by (rule known_okI, (unfold decode_cmd_gpu_get_classlist_v2_def Let_def, rule refl)[1], (intro well_built_remote json_intros; simp)[1],
      (simp add: starts_with_def)[1], (rule known_size_mismatch_ok)[1], simp add: rm_sizes)

lemma ok_gpu_get_virtualization_mode: "known_ok ''NV0080_CTRL_CMD_GPU_GET_VIRTUALIZATION_MODE'' 8 decode_cmd_gpu_get_virtualization_mode"
  by (rule known_okI, (unfold decode_cmd_gpu_get_virtualization_mode_def Let_def, rule refl)[1], (intro well_built_remote json_intros; simp)[1],
      (simp add: starts_with_def)[1], (rule known_size_mismatch_ok)[1], simp add: rm_sizes)

lemma ok_fifo_get_channellist: "known_ok ''NV0080_CTRL_CMD_FIFO_GET_CHANNELLIST'' 24 decode_cmd_fifo_get_channellist"
  by (rule known_okI, (unfold decode_cmd_fifo_get_channellist_def Let_def, rule refl)[1], (intro well_built_remote json_intros; simp)[1],
      (simp add: starts_with_def)[1], (rule known_size_mismatch_ok)[1], simp add: rm_sizes)

lemma ok_perf_cuda_limit_set_control: "known_ok ''NV0080_CTRL_CMD_PERF_CUDA_LIMIT_SET_CONTROL'' 1 decode_cmd_perf_cuda_limit_set_control"
  by (rule known_okI, (unfold decode_cmd_perf_cuda_limit_set_control_def Let_def, rule refl)[1], (intro well_built_remote json_intros; simp)[1],
      (simp add: starts_with_def)[1], (rule known_size_mismatch_ok)[1], simp add: rm_sizes)

lemma ok_fb_get_caps_v2: "known_ok ''NV0080_CTRL_CMD_FB_GET_CAPS_V2'' 3 decode_cmd_fb_get_caps_v2"
  by (rule known_okI, (unfold decode_cmd_fb_get_caps_v2_def Let_def, rule refl)[1], (intro well_built_remote json_intros; simp)[1],
      (simp add: starts_with_def)[1], (rule known_size_mismatch_ok)[1], simp add: rm_sizes)

lemma ok_class_engine_id: "known_ok ''NV906F_CTRL_GET_CLASS_ENGINEID'' 16 decode_cmd_class_engine_id"
  by (rule known_okI, (unfold decode_cmd_class_engine_id_def Let_def, rule refl)[1], (intro well_built_remote json_intros; simp)[1],
      (simp add: starts_with_def)[1], (rule known_size_mismatch_ok)[1], simp add: rm_sizes)

lemma ok_gpfifo_get_work_submit_token: "known_ok ''NVC36F_CTRL_CMD_GPFIFO_GET_WORK_SUBMIT_TOKEN'' 4 decode_cmd_gpfifo_get_work_submit_token"
  by (rule known_okI, (unfold decode_cmd_gpfifo_get_work_submit_token_def Let_def, rule refl)[1], (intro well_built_remote json_intros; simp)[1],
      (simp add: starts_with_def)[1], (rule known_size_mismatch_ok)[1], simp add: rm_sizes)

lemma ok_mc_get_arch_info: "known_ok ''NV2080_CTRL_CMD_MC_GET_ARCH_INFO'' 16 decode_cmd_mc_get_arch_info"
  by (rule known_okI, (unfold decode_cmd_mc_get_arch_info_def Let_def, rule refl)[1], (intro well_built_remote json_intros; simp)[1],
      (simp add: starts_with_def)[1], (rule known_size_mismatch_ok)[1], simp add: rm_sizes)

lemma ok_gpu_get_info_v2: "known_ok ''NV2080_CTRL_CMD_GPU_GET_INFO_V2'' 564 decode_cmd_gpu_get_info_v2"
  by (rule known_okI, (unfold decode_cmd_gpu_get_info_v2_def Let_def, rule refl)[1], (intro well_built_remote json_intros; simp)[1],
      (simp add: starts_with_def)[1], (rule known_size_mismatch_ok)[1], simp add: rm_sizes)

lemma ok_gpu_get_name_string: "known_ok ''NV2080_CTRL_CMD_GPU_GET_NAME_STRING'' 132 decode_cmd_gpu_get_name_string"
  by (rule known_okI, (unfold decode_cmd_gpu_get_name_string_def Let_def, rule refl)[1], (intro well_built_remote json_intros; simp)[1],
      (simp add: starts_with_def)[1], (rule known_size_mismatch_ok)[1], simp add: rm_sizes)

lemma ok_gpu_get_short_name_string: "known_ok ''NV2080_CTRL_CMD_GPU_GET_SHORT_NAME_STRING'' 64 decode_cmd_gpu_get_short_name_string"
  by (rule known_okI, (unfold decode_cmd_gpu_get_short_name_string_def Let_def, rule refl)[1], (intro well_built_remote json_intros; simp)[1],
      (simp add: starts_with_def)[1], (rule known_size_mismatch_ok)[1], simp add: rm_sizes)

lemma ok_gpu_get_simulation_info: "known_ok ''NV2080_CTRL_CMD_GPU_GET_SIMULATION_INFO'' 4 decode_cmd_gpu_get_simulation_info"
  by (rule known_okI, (unfold decode_cmd_gpu_get_simulation_info_def Let_def, rule refl)[1], (intro well_built_remote json_intros; simp)[1],
      (simp add: starts_with_def)[1], (rule known_size_mismatch_ok)[1], simp add: rm_sizes)

lemma ok_gpu_get_engines_v2: "known_ok ''NV2080_CTRL_CMD_GPU_GET_ENGINES_V2'' 340 decode_cmd_gpu_get_engines_v2"
  by (rule known_okI, (unfold decode_cmd_gpu_get_engines_v2_def Let_def, rule refl)[1], (intro well_built_remote json_intros; simp)[1],
      (simp add: starts_with_def)[1], (rule known_size_mismatch_ok)[1], simp add: rm_sizes)

lemma ok_gpu_query_ecc_status: "known_ok ''NV2080_CTRL_CMD_GPU_QUERY_ECC_STATUS'' 1664 decode_cmd_gpu_query_ecc_status"
  by (rule known_okI, (unfold decode_cmd_gpu_query_ecc_status_def Let_def, rule refl)[1], (intro well_built_remote json_intros; simp)[1],
      (simp add: starts_with_def)[1], (rule known_size_mismatch_ok)[1], simp add: rm_sizes)

lemma ok_gpu_query_compute_mode_rules: "known_ok ''NV2080_CTRL_CMD_GPU_QUERY_COMPUTE_MODE_RULES'' 4 decode_cmd_gpu_query_compute_mode_rules"
  by (rule known_okI, (unfold decode_cmd_gpu_query_compute_mode_rules_def Let_def, rule refl)[1], (intro well_built_remote json_intros; simp)[1],
      (simp add: starts_with_def)[1], (rule known_size_mismatch_ok)[1], simp add: rm_sizes)

lemma ok_gpu_get_gid_info: "known_ok ''NV2080_CTRL_CMD_GPU_GET_GID_INFO'' 268 decode_cmd_gpu_get_gid_info"
  by (rule known_okI, (unfold decode_cmd_gpu_get_gid_info_def Let_def, rule refl)[1], (intro well_built_remote json_intros; simp)[1],
      (simp add: starts_with_def)[1], (rule known_size_mismatch_ok)[1], simp add: rm_sizes)

lemma ok_fb_get_info_v2: "known_ok ''NV2080_CTRL_CMD_FB_GET_INFO_V2'' 1028 decode_cmd_fb_get_info_v2"
  by (rule known_okI, (unfold decode_cmd_fb_get_info_v2_def Let_def, rule refl)[1], (intro well_built_remote json_intros; simp)[1],
      (simp add: starts_with_def)[1], (rule known_size_mismatch_ok)[1], simp add: rm_sizes)

lemma ok_bus_get_pci_info: "known_ok ''NV2080_CTRL_CMD_BUS_GET_PCI_INFO'' 16 decode_cmd_bus_get_pci_info"
  by (rule known_okI, (unfold decode_cmd_bus_get_pci_info_def Let_def, rule refl)[1], (intro well_built_remote json_intros; simp)[1],
      (simp add: starts_with_def)[1], (rule known_size_mismatch_ok)[1], simp add: rm_sizes)

lemma ok_bus_get_info_v2: "known_ok ''NV2080_CTRL_CMD_BUS_GET_INFO_V2'' 420 decode_cmd_bus_get_info_v2"
  by (rule known_okI, (unfold decode_cmd_bus_get_info_v2_def Let_def, rule refl)[1], (intro well_built_remote json_intros; simp)[1],
      (simp add: starts_with_def)[1], (rule known_size_mismatch_ok)[1], simp add: rm_sizes)

lemma ok_bus_get_pci_bar_info: "known_ok ''NV2080_CTRL_CMD_BUS_GET_PCI_BAR_INFO'' 200 decode_cmd_bus_get_pci_bar_info"
  by (rule known_okI, (unfold decode_cmd_bus_get_pci_bar_info_def Let_def, rule refl)[1], (intro well_built_remote json_intros; simp)[1],
      (simp add: starts_with_def)[1], (rule known_size_mismatch_ok)[1], simp add: rm_sizes)

lemma ok_bus_get_pcie_supported_gpu_atomics: "known_ok ''NV2080_CTRL_CMD_BUS_GET_PCIE_SUPPORTED_GPU_ATOMICS'' 112 decode_cmd_bus_get_pcie_supported_gpu_atomics"
  by (rule known_okI, (unfold decode_cmd_bus_get_pcie_supported_gpu_atomics_def Let_def, rule refl)[1], (intro well_built_remote json_intros; simp)[1],
      (simp add: starts_with_def)[1], (rule known_size_mismatch_ok)[1], simp add: rm_sizes)

lemma ok_bus_get_c2c_info: "known_ok ''NV2080_CTRL_CMD_BUS_GET_C2C_INFO'' 28 decode_cmd_bus_get_c2c_info"
  by (rule known_okI, (unfold decode_cmd_bus_get_c2c_info_def Let_def, rule refl)[1], (intro well_built_remote json_intros; simp)[1],
      (simp add: starts_with_def)[1], (rule known_size_mismatch_ok)[1], simp add: rm_sizes)

lemma ok_gr_get_info: "known_ok ''NV2080_CTRL_CMD_GR_GET_INFO'' 32 decode_cmd_gr_get_info"
  by (rule known_okI, (unfold decode_cmd_gr_get_info_def Let_def, rule refl)[1], (intro well_built_remote json_intros; simp)[1],
      (simp add: starts_with_def)[1], (rule known_size_mismatch_ok)[1], simp add: rm_sizes)

lemma ok_gr_get_global_sm_order: "known_ok ''NV2080_CTRL_CMD_GR_GET_GLOBAL_SM_ORDER'' 9240 decode_cmd_gr_get_global_sm_order"
  by (rule known_okI, (unfold decode_cmd_gr_get_global_sm_order_def Let_def, rule refl)[1], (intro well_built_remote json_intros; simp)[1],
      (simp add: starts_with_def)[1], (rule known_size_mismatch_ok)[1], simp add: rm_sizes)

lemma ok_gr_get_caps_v2: "known_ok ''NV2080_CTRL_CMD_GR_GET_CAPS_V2'' 48 decode_cmd_gr_get_caps_v2"
  by (rule known_okI, (unfold decode_cmd_gr_get_caps_v2_def Let_def, rule refl)[1], (intro well_built_remote json_intros; simp)[1],
      (simp add: starts_with_def)[1], (rule known_size_mismatch_ok)[1], simp add: rm_sizes)

lemma ok_gr_get_gpc_mask: "known_ok ''NV2080_CTRL_CMD_GR_GET_GPC_MASK'' 24 decode_cmd_gr_get_gpc_mask"
  by (rule known_okI, (unfold decode_cmd_gr_get_gpc_mask_def Let_def, rule refl)[1], (intro well_built_remote json_intros; simp)[1],
      (simp add: starts_with_def)[1], (rule known_size_mismatch_ok)[1], simp add: rm_sizes)

lemma ok_gr_get_tpc_mask: "known_ok ''NV2080_CTRL_CMD_GR_GET_TPC_MASK'' 24 decode_cmd_gr_get_tpc_mask"
  by (rule known_okI, (unfold decode_cmd_gr_get_tpc_mask_def Let_def, rule refl)[1], (intro well_built_remote json_intros; simp)[1],
      (simp add: starts_with_def)[1], (rule known_size_mismatch_ok)[1], simp add: rm_sizes)

lemma ok_gr_set_ctxsw_preemption_mode: "known_ok ''NV2080_CTRL_CMD_GR_SET_CTXSW_PREEMPTION_MODE'' 32 decode_cmd_gr_set_ctxsw_preemption_mode"
  by (rule known_okI, (unfold decode_cmd_gr_set_ctxsw_preemption_mode_def Let_def, rule refl)[1], (intro well_built_remote json_intros; simp)[1],
      (simp add: starts_with_def)[1], (rule known_size_mismatch_ok)[1], simp add: rm_sizes)

lemma ok_gr_get_ctx_buffer_size: "known_ok ''NV2080_CTRL_CMD_GR_GET_CTX_BUFFER_SIZE'' 16 decode_cmd_gr_get_ctx_buffer_size"
  by (rule known_okI, (unfold decode_cmd_gr_get_ctx_buffer_size_def Let_def, rule refl)[1], (intro well_built_remote json_intros; simp)[1],
      (simp add: starts_with_def)[1], (rule known_size_mismatch_ok)[1], simp add: rm_sizes)

lemma ok_ce_get_all_caps: "known_ok ''NV2080_CTRL_CMD_CE_GET_ALL_CAPS'' 136 decode_cmd_ce_get_all_caps"
  by (rule known_okI, (unfold decode_cmd_ce_get_all_caps_def Let_def, rule refl)[1], (intro well_built_remote json_intros; simp)[1],
      (simp add: starts_with_def)[1], (rule known_size_mismatch_ok)[1], simp add: rm_sizes)

lemma ok_nvlink_get_nvlink_status: "known_ok ''NV2080_CTRL_CMD_NVLINK_GET_NVLINK_STATUS'' 32 decode_cmd_nvlink_get_nvlink_status"
  by (rule known_okI, (unfold decode_cmd_nvlink_get_nvlink_status_def Let_def, rule refl)[1], (intro well_built_remote json_intros; simp)[1],
      (simp add: starts_with_def)[1], (rule known_size_mismatch_ok)[1], simp add: rm_sizes)

lemma ok_gsp_get_features: "known_ok ''NV2080_CTRL_CMD_GSP_GET_FEATURES'' 72 decode_cmd_gsp_get_features"
  by (rule known_okI, (unfold decode_cmd_gsp_get_features_def Let_def, rule refl)[1], (intro well_built_remote json_intros; simp)[1],
      (simp add: starts_with_def)[1], (rule known_size_mismatch_ok)[1], simp add: rm_sizes)

lemma ok_grmgr_get_gr_fs_info: "known_ok ''NV2080_CTRL_CMD_GRMGR_GET_GR_FS_INFO'' 1928 decode_cmd_grmgr_get_gr_fs_info"
  by (rule known_okI, (unfold decode_cmd_grmgr_get_gr_fs_info_def Let_def, rule refl)[1], (intro well_built_remote json_intros; simp)[1],
      (simp add: starts_with_def)[1], (rule known_size_mismatch_ok)[1], simp add: rm_sizes)

lemma ok_conf_compute_get_capabilities: "known_ok ''NV_CONF_COMPUTE_CTRL_CMD_SYSTEM_GET_CAPABILITIES'' 6 decode_cmd_conf_compute_get_capabilities"
  by (rule known_okI, (unfold decode_cmd_conf_compute_get_capabilities_def Let_def, rule refl)[1], (intro well_built_remote json_intros; simp)[1],
      (simp add: starts_with_def)[1], (rule known_size_mismatch_ok)[1], simp add: rm_sizes)

lemma ok_gpfifo_schedule: "known_ok ''NVA06C_CTRL_CMD_GPFIFO_SCHEDULE'' 3 decode_cmd_gpfifo_schedule"
  by (rule known_okI, (unfold decode_cmd_gpfifo_schedule_def Let_def, rule refl)[1], (intro well_built_remote json_intros; simp)[1],
      (simp add: starts_with_def)[1], (rule known_size_mismatch_ok)[1], simp add: rm_sizes)

lemma ok_set_timeslice: "known_ok ''NVA06C_CTRL_CMD_SET_TIMESLICE'' 8 decode_cmd_set_timeslice"
  by (rule known_okI, (unfold decode_cmd_set_timeslice_def Let_def, rule refl)[1], (intro well_built_remote json_intros; simp)[1],
      (simp add: starts_with_def)[1], (rule known_size_mismatch_ok)[1], simp add: rm_sizes)

lemma ok_preempt: "known_ok ''NVA06C_CTRL_CMD_PREEMPT'' 8 decode_cmd_preempt"
  by (rule known_okI, (unfold decode_cmd_preempt_def Let_def, rule refl)[1], (intro well_built_remote json_intros; simp)[1],
      (simp add: starts_with_def)[1], (rule known_size_mismatch_ok)[1], simp add: rm_sizes)

lemma ok_debug_set_exception_mask: "known_ok ''NV83DE_CTRL_CMD_DEBUG_SET_EXCEPTION_MASK'' 4 decode_cmd_debug_set_exception_mask"
  by (rule known_okI, (unfold decode_cmd_debug_set_exception_mask_def Let_def, rule refl)[1], (intro well_built_remote json_intros; simp)[1],
      (simp add: starts_with_def)[1], (rule known_size_mismatch_ok)[1], simp add: rm_sizes)

lemma ok_perf_boost: "known_ok ''NV2080_CTRL_CMD_PERF_BOOST'' 8 decode_cmd_perf_boost"
  by (rule known_okI, (unfold decode_cmd_perf_boost_def Let_def, rule refl)[1], (intro well_built_remote json_intros; simp)[1],
      (simp add: starts_with_def)[1], (rule known_size_mismatch_ok)[1], simp add: rm_sizes)

lemmas known_ok_each = ok_client_get_addr_space_type ok_os_unix_get_control_file_descriptor ok_system_get_build_version
  ok_client_set_inherited_share_policy ok_system_get_features ok_system_get_fabric_status
  ok_system_get_p2p_caps_matrix ok_gpu_get_memop_enable ok_gpu_get_attached_ids ok_gpu_get_id_info
  ok_gpu_get_id_info_v2 ok_gpu_get_probed_ids ok_gpu_attach_ids ok_gpu_get_active_device_ids
  ok_sync_gpu_boost_group_info ok_host_get_caps_v2 ok_gpu_get_num_subdevices
  ok_gpu_get_classlist_v2 ok_gpu_get_virtualization_mode ok_fifo_get_channellist
  ok_perf_cuda_limit_set_control ok_fb_get_caps_v2 ok_class_engine_id
  ok_gpfifo_get_work_submit_token ok_mc_get_arch_info ok_gpu_get_info_v2 ok_gpu_get_name_string
  ok_gpu_get_short_name_string ok_gpu_get_simulation_info ok_gpu_get_engines_v2
  ok_gpu_query_ecc_status ok_gpu_query_compute_mode_rules ok_gpu_get_gid_info ok_fb_get_info_v2
  ok_bus_get_pci_info ok_bus_get_info_v2 ok_bus_get_pci_bar_info
  ok_bus_get_pcie_supported_gpu_atomics ok_bus_get_c2c_info ok_gr_get_info
  ok_gr_get_global_sm_order ok_gr_get_caps_v2 ok_gr_get_gpc_mask ok_gr_get_tpc_mask
  ok_gr_set_ctxsw_preemption_mode ok_gr_get_ctx_buffer_size ok_ce_get_all_caps
  ok_nvlink_get_nvlink_status ok_gsp_get_features ok_grmgr_get_gr_fs_info
  ok_conf_compute_get_capabilities ok_gpfifo_schedule ok_set_timeslice ok_preempt
  ok_debug_set_exception_mask ok_perf_boost

lemma known_decoders_ok:
  "list_all2 (\<lambda>(c, f) (c', name, n). c = c' \<and> known_ok name n f) known_rm_decoders known_specs"
  unfolding known_rm_decoders_def known_specs_def list_all2_Cons prod.case
  by (intro conjI refl list.rel_intros(1) known_ok_each)

subsection \<open>The legacy interfaces\<close>

definition legacy_interface :: "u32 \<Rightarrow> bool" where
  "legacy_interface cmd \<longleftrightarrow> drop_bit 16 cmd = 0x2080 \<and>
     (case nv2080_interface_name (ucast (drop_bit 8 cmd AND 0xff)) of
        None \<Rightarrow> False
      | Some s \<Rightarrow> str_contains s ''LEGACY'')"

lemma read_bytes_readable: "(\<exists>bs. read_bytes rd a n = Some bs) \<longleftrightarrow> readable rd a n"
  by (auto simp: read_bytes_def readable_def split: option.splits)

lemma legacy_generic_ok:
  assumes t: "tables_ok tables"
  shows "case decode_cmd_nv2080_legacy_generic tables rd cmd a sz of
      None \<Rightarrow> \<not> (legacy_interface cmd \<and> (sz = 0 \<or> readable rd a (min sz 256)))
    | Some d \<Rightarrow> legacy_interface cmd \<and> (sz = 0 \<or> readable rd a (min sz 256)) \<and>
        ends_object ''ok'' (krd_json d) \<and>
        starts_with (krd_legacy d) (''name='' @ rm_control_cmd_name tables cmd)"
proof (cases "legacy_interface cmd")
  case False
  then have "decode_cmd_nv2080_legacy_generic tables rd cmd a sz = None"
    by (auto simp: decode_cmd_nv2080_legacy_generic_def legacy_interface_def Let_def split: option.splits)
  with False show ?thesis by simp
next
  case True
  let ?name = "rm_control_cmd_name tables cmd"
  obtain i where i: "nv2080_interface_name (ucast (drop_bit 8 cmd AND 0xff)) = Some i" "str_contains i ''LEGACY''"
    and c: "drop_bit 16 cmd = 0x2080"
    using True by (auto simp: legacy_interface_def split: option.splits)
  have u: "ascii i" "ascii ?name" "ascii (unwrap_or ''paramsPreview'' (rm_control_params_type_name ?name))"
    using ascii_static_names(1) [OF i(1)] ascii_rm_control_cmd_name [OF t, of cmd]
      ascii_params_type_name [OF ascii_rm_control_cmd_name [OF t]]
    by (auto simp: unwrap_or_def split: option.split)
  have m: "min sz (64 * size_of FU32) = min sz 256" by simp
  let ?good = "\<lambda>d. \<exists>L J. d = Some \<lparr>krd_legacy = L, krd_json = finish (field_str ''status'' ''ok'' J)\<rparr> \<and>
    well_built J \<and> starts_with L (''name='' @ ?name)"
  have g: "?good d \<Longrightarrow> \<exists>k. d = Some k \<and> ends_object ''ok'' (krd_json k) \<and>
      starts_with (krd_legacy k) (''name='' @ ?name)" for d
    by (auto intro!: ends_objectI)
  define f where "f = decode_cmd_nv2080_legacy_generic tables rd cmd a sz"
  note f_eq = f_def [unfolded decode_cmd_nv2080_legacy_generic_def Let_def m]
  have n: "\<not> drop_bit 16 cmd \<noteq> 0x2080" "\<not> \<not> str_contains i ''LEGACY''" using c i(2) by simp_all
  consider "sz = 0" | bs where "sz \<noteq> 0" "read_bytes rd a (min sz 256) = Some bs"
    | "sz \<noteq> 0" "read_bytes rd a (min sz 256) = None" by fastforce
  then show ?thesis
  proof cases
    case 1
    have "?good f"
      unfolding f_eq by (simp only: n i(1) option.case 1 min_0L if_True if_False HOL.refl)
        ((intro exI conjI, rule HOL.refl), (intro json_intros; simp add: u), simp add: starts_with_def)
    from g [OF this] True 1 show ?thesis by (auto simp: f_def)
  next
    case 2
    then have z: "\<not> min sz 256 = 0" by simp
    have "?good f"
      unfolding f_eq by (simp only: n i(1) option.case 2(2) z if_True if_False)
        ((intro exI conjI, rule HOL.refl), (intro json_intros; simp add: u), simp add: starts_with_def split: option.split)
    with g [OF this] True 2 read_bytes_readable [of rd a "min sz 256"] show ?thesis by (auto simp: f_def)
  next
    case 3
    then have "f = None" using n i(1) by (simp add: f_eq)
    with 3 True read_bytes_readable [of rd a "min sz 256"] show ?thesis by (auto simp: f_def)
  qed
qed

subsection \<open>All control commands\<close>

definition known_decodes :: "remote \<Rightarrow> u32 \<Rightarrow> u64 \<Rightarrow> usize \<Rightarrow> bool" where
  "known_decodes rd cmd a sz \<longleftrightarrow>
     (case map_of known_specs cmd of
        Some (name, n) \<Rightarrow> sz < n \<or> readable rd a n
      | None \<Rightarrow> legacy_interface cmd \<and> (sz = 0 \<or> readable rd a (min sz 256)))"

definition known_status :: "u32 \<Rightarrow> usize \<Rightarrow> string" where
  "known_status cmd sz =
     (case map_of known_specs cmd of
        Some (name, n) \<Rightarrow> if sz < n then size_mismatch n sz else ''ok''
      | None \<Rightarrow> ''ok'')"

lemma ascii_known_status [simp]: "ascii (known_status cmd sz)"
  by (simp add: known_status_def split: option.split)

lemma distinct_control_cmds: "distinct (map fst rm_control_cmd_names)"
  by (simp add: rm_control_cmd_names_def rm_consts nvidia_consts)

lemma known_specs_named: "list_all (\<lambda>(c, name, n). map_of rm_control_cmd_names c = Some name) known_specs"
proof -
  have "list_all (\<lambda>(c, name, n). (c, name) \<in> set rm_control_cmd_names) known_specs"
    by (simp add: known_specs_def rm_control_cmd_names_def)
  then show ?thesis
    by (auto simp: list_all_iff map_of_eq_Some_iff [OF distinct_control_cmds])
qed

lemma known_control_ok:
  assumes "tables_ok tables"
  shows "case decode_known_rm_control tables rd cmd a sz of
      None \<Rightarrow> \<not> known_decodes rd cmd a sz
    | Some d \<Rightarrow> known_decodes rd cmd a sz \<and> ends_object (known_status cmd sz) (krd_json d) \<and>
        starts_with (krd_legacy d) (''name='' @ rm_control_cmd_name tables cmd)"
proof -
  note r = map_of_rel [of "\<lambda>f (name, n). known_ok name n f" known_rm_decoders known_specs cmd]
  have rel: "rel_option (\<lambda>f (name, n). known_ok name n f) (map_of known_rm_decoders cmd) (map_of known_specs cmd)"
    by (rule r) (rule list.rel_mono_strong [OF known_decoders_ok], auto)
  show ?thesis
  proof (cases "map_of known_specs cmd")
    case None
    with rel have "map_of known_rm_decoders cmd = None" by (auto elim: option.rel_cases)
    with legacy_generic_ok [OF assms, where rd = rd and cmd = cmd and a = a and sz = sz] None show ?thesis
      by (auto simp: decode_known_rm_control_def known_decodes_def known_status_def split: option.splits)
  next
    case (Some s)
    obtain name n where s: "s = (name, n)" by (cases s)
    with rel Some obtain f where f: "map_of known_rm_decoders cmd = Some f" "known_ok name n f"
      by (auto elim: option.rel_cases)
    from known_specs_named map_of_SomeD [OF Some] have "rm_control_cmd_name tables cmd = name"
      by (auto simp: list_all_iff s rm_control_cmd_name_def)
    with f Some show ?thesis
      by (auto simp: decode_known_rm_control_def known_decodes_def known_status_def known_ok_def s
          split: option.splits dest!: spec [of _ rd] spec [of _ a] spec [of _ sz])
  qed
qed

end
