(* ===== verification/Rm_Status.thy ===== *)
theory Rm_Status
  imports Rm Rm_Control_Status
begin

text \<open>
  What \<open>decode_nvidia_ioctl\<close> guarantees: one well-formed JSON object for every ioctl of the resource
  manager, which ends with the status that the specification \<open>rm_status\<close> gives; and what some of
  the objects contain.
\<close>

subsection \<open>The specification of the status\<close>

text \<open>A declared size of zero counts as unknown; a structure that is too small is not read.\<close>

definition checked_status :: "nat \<Rightarrow> remote \<Rightarrow> IoctlMeta \<Rightarrow> u64 \<Rightarrow> string" where
  "checked_status n rd meta a =
     (let d = unat (meta_size meta)
      in if 0 < d \<and> d < n then size_mismatch n d
         else if readable rd a n then ''ok'' else ''arg_unreadable'')"

text \<open>Some commands have two structures, told apart by the declared size.\<close>

definition graded_status :: "nat \<Rightarrow> nat \<Rightarrow> remote \<Rightarrow> IoctlMeta \<Rightarrow> u64 \<Rightarrow> string" where
  "graded_status large small rd meta a =
     (let d = unat (meta_size meta)
      in if large \<le> d then checked_status large rd meta a
         else if small \<le> d then checked_status small rd meta a
         else size_mismatch small d)"

definition payload_status :: "remote \<Rightarrow> usize \<Rightarrow> NvOs54Parameters \<Rightarrow> string" where
  "payload_status rd max_blob os54 =
     (let p = NvOs54Parameters.p_params os54; n = unat (NvOs54Parameters.p_params_size os54)
      in if p = 0 \<or> n = 0 \<or> known_decodes rd (NvOs54Parameters.p_cmd os54) p n then ''ok''
         else if readable rd p (min n (min (max max_blob 16) 32)) then ''inner_partial''
         else ''params_unreadable'')"

definition control_status :: "remote \<Rightarrow> IoctlMeta \<Rightarrow> u64 \<Rightarrow> usize \<Rightarrow> string" where
  "control_status rd meta a max_blob =
     (case read_checked_pod rd NvOs54Parameters_pod meta a of
        Inl e \<Rightarrow> checked_status 32 rd meta a
      | Inr os54 \<Rightarrow> payload_status rd max_blob os54)"

definition xfer_status :: "remote \<Rightarrow> IoctlDecodeMode \<Rightarrow> u64 \<Rightarrow> usize \<Rightarrow> string" where
  "xfer_status rd mode a max_blob =
     (case read_pod rd NvIoctlXfer_pod a of
        None \<Rightarrow> ''xfer_unreadable''
      | Some x \<Rightarrow>
          if mode \<noteq> Full then ''ok''
          else if NvIoctlXfer.p_cmd x \<noteq> NV04_CONTROL \<or> NvIoctlXfer.p_ptr x = 0 then ''xfer_non_nvos54''
          else case read_pod rd NvOs54Parameters_pod (NvIoctlXfer.p_ptr x) of
                 None \<Rightarrow> ''os54_unreadable''
               | Some os54 \<Rightarrow> payload_status rd max_blob os54)"

definition attach_status :: "remote \<Rightarrow> IoctlMeta \<Rightarrow> u64 \<Rightarrow> usize \<Rightarrow> string" where
  "attach_status rd meta a max_blob =
     (let d = unat (meta_size meta)
      in if d = 0 \<or> d mod 4 \<noteq> 0 then ''size_unknown''
         else if readable rd a (min d (max max_blob 4)) then ''ok'' else ''arg_unreadable'')"

definition card_status :: "remote \<Rightarrow> IoctlMeta \<Rightarrow> u64 \<Rightarrow> string" where
  "card_status rd meta a =
     (let d = unat (meta_size meta)
      in if d < 72 then size_mismatch 72 d
         else if readable rd a 72 then ''ok'' else ''arg_unreadable'')"

definition unknown_status :: "remote \<Rightarrow> IoctlMeta \<Rightarrow> u64 \<Rightarrow> usize \<Rightarrow> string" where
  "unknown_status rd meta a max_blob =
     (let d = unat (meta_size meta)
      in if d = 0 then ''unknown_cmd''
         else if readable rd a (min d (max max_blob 16)) then ''partial'' else ''arg_unreadable'')"

definition rm_statuses :: "(u32 \<times> (remote \<Rightarrow> IoctlMeta \<Rightarrow> u64 \<Rightarrow> string)) list" where
  "rm_statuses =
     [(NV_ESC_RM_ALLOC_MEMORY, graded_status 56 48), (NV_ESC_RM_ALLOC_OBJECT, checked_status 20),
      (NV_ESC_RM_FREE, checked_status 16), (NV_ESC_RM_MAP_MEMORY, graded_status 56 56),
      (NV_ESC_RM_UNMAP_MEMORY, checked_status 32), (NV_ESC_RM_I2C_ACCESS, checked_status 32),
      (NV_ESC_RM_IDLE_CHANNELS, checked_status 56),
      (NV_ESC_RM_VID_HEAP_CONTROL, checked_status 40),
      (NV_ESC_RM_GET_EVENT_DATA, checked_status 16),
      (NV_ESC_RM_ALLOC_CONTEXT_DMA2, checked_status 56),
      (NV_ESC_RM_MAP_MEMORY_DMA, checked_status 64),
      (NV_ESC_RM_UNMAP_MEMORY_DMA, checked_status 48),
      (NV_ESC_RM_BIND_CONTEXT_DMA, checked_status 16), (NV_ESC_RM_DUP_OBJECT, checked_status 28),
      (NV_ESC_RM_UPDATE_DEVICE_MAPPING_INFO, checked_status 40),
      (NV_ESC_RM_SHARE, checked_status 24), (NV_ESC_RM_ADD_VBLANK_CALLBACK, checked_status 56),
      (NV_ESC_REGISTER_FD, checked_status 4), (NV_ESC_ALLOC_OS_EVENT, checked_status 16),
      (NV_ESC_FREE_OS_EVENT, checked_status 16), (NV_ESC_STATUS_CODE, checked_status 12),
      (NV_ESC_CHECK_VERSION_STR, checked_status 72), (NV_ESC_QUERY_DEVICE_INTR, checked_status 8),
      (NV_ESC_SYS_PARAMS, checked_status 8), (NV_ESC_WAIT_OPEN_COMPLETE, checked_status 8),
      (NV_ESC_NUMA_INFO, checked_status 560), (NV_ESC_SET_NUMA_STATUS, checked_status 4),
      (NV_ESC_EXPORT_TO_DMABUF_FD, checked_status 40)]"

definition rm_status :: "remote \<Rightarrow> IoctlMeta \<Rightarrow> u64 \<Rightarrow> IoctlDecodeMode \<Rightarrow> usize \<Rightarrow> string" where
  "rm_status rd meta a mode max_blob =
     (let nr = (ucast (meta_nr meta) :: u32)
      in if mode = Header then ''header''
         else if a = 0 then ''arg_null''
         else if nr = NV_ESC_IOCTL_XFER_CMD then xfer_status rd mode a max_blob
         else if nr = NV_ESC_RM_CONTROL then control_status rd meta a max_blob
         else if nr = NV_ESC_RM_ALLOC then graded_status 48 32 rd meta a
         else if nr = NV_ESC_RM_ACCESS_REGISTRY then checked_status 72 rd meta a
         else if nr = NV_ESC_ATTACH_GPUS_TO_FD then attach_status rd meta a max_blob
         else if nr = NV_ESC_CARD_INFO then card_status rd meta a
         else if nr \<in> set rm_opaque_cmds then ''opaque''
         else case map_of rm_statuses nr of
                Some s \<Rightarrow> s rd meta a
              | None \<Rightarrow> unknown_status rd meta a max_blob)"

subsection \<open>One decoder at a time\<close>

definition reports :: "(remote \<Rightarrow> IoctlMeta \<Rightarrow> u64 \<Rightarrow> string) \<Rightarrow>
    (remote \<Rightarrow> IoctlMeta \<Rightarrow> u64 \<Rightarrow> JsonObject \<Rightarrow> JsonObject) \<Rightarrow> bool" where
  "reports s f \<longleftrightarrow> (\<forall>rd meta a root. well_built root \<longrightarrow>
     ascii (s rd meta a) \<and> ends_with_status (s rd meta a) (f rd meta a root))"

lemma ascii_checked [simp]: "ascii (checked_status n rd meta a)" "ascii (graded_status k n rd meta a)"
  by (simp_all add: checked_status_def graded_status_def Let_def)

lemma read_checked_cases:
  obtains (good) p where "read_checked_pod rd T meta a = Inr p" "checked_status (pod_size T) rd meta a = ''ok''"
  | (bad) "read_checked_pod rd T meta a = Inl (checked_status (pod_size T) rd meta a)"
proof (cases "0 < unat (meta_size meta) \<and> unat (meta_size meta) < pod_size T")
  case True
  then have "read_checked_pod rd T meta a = Inl (checked_status (pod_size T) rd meta a)"
    unfolding read_checked_pod_def checked_status_def size_mismatch_def Let_def by (simp only: simp_thms if_True)
  then show ?thesis by (rule bad)
next
  case False
  show ?thesis
  proof (cases "read_pod rd T a")
    case None
    with read_pod_readable [of rd T a] have "\<not> readable rd a (pod_size T)" by simp
    with None False have "read_checked_pod rd T meta a = Inl (checked_status (pod_size T) rd meta a)"
      by (auto simp: read_checked_pod_def checked_status_def Let_def)
    then show ?thesis by (rule bad)
  next
    case (Some p)
    with read_pod_readable [of rd T a] have "readable rd a (pod_size T)" by simp
    with Some False have "read_checked_pod rd T meta a = Inr p" "checked_status (pod_size T) rd meta a = ''ok''"
      by (auto simp: read_checked_pod_def checked_status_def Let_def)
    then show ?thesis by (rule good)
  qed
qed

lemma checked_ends:
  assumes "well_built root" and "\<And>p. well_built (J p)" and "pod_size T = n"
  shows "ends_with_status (checked_status n rd meta a)
    (case read_checked_pod rd T meta a of
       Inr p \<Rightarrow> field_str ''status'' ''ok'' (J p)
     | Inl e \<Rightarrow> field_str ''status'' e root)"
  by (cases rule: read_checked_cases [of rd T meta a]) (simp_all add: assms(3) [symmetric] assms(1,2) ends_with_statusI)

lemma reports_checked:
  assumes "\<And>rd meta a root. f rd meta a root =
      (case read_checked_pod rd T meta a of
         Inr p \<Rightarrow> field_str ''status'' ''ok'' (J rd meta a p root)
       | Inl e \<Rightarrow> field_str ''status'' e root)"
    and "\<And>rd meta a p root. well_built root \<Longrightarrow> well_built (J rd meta a p root)"
    and "pod_size T = n"
  shows "reports (checked_status n) f"
  unfolding reports_def assms(1)
  by (intro allI impI conjI ascii_checked checked_ends assms(2,3))

lemma reports_graded:
  assumes "\<And>rd meta a root. f rd meta a root =
      (if pod_size T \<le> unat (meta_size meta) then
         (case read_checked_pod rd T meta a of
            Inr p \<Rightarrow> field_str ''status'' ''ok'' (J rd meta a p root)
          | Inl e \<Rightarrow> field_str ''status'' e root)
       else if pod_size U \<le> unat (meta_size meta) then
         (case read_checked_pod rd U meta a of
            Inr p \<Rightarrow> field_str ''status'' ''ok'' (K rd meta a p root)
          | Inl e \<Rightarrow> field_str ''status'' e root)
       else field_str ''status'' (''size_mismatch(expected>='' @ dec (pod_size U) @ '',actual='' @
              dec (unat (meta_size meta)) @ '')'') root)"
    and "\<And>rd meta a p root. well_built root \<Longrightarrow> well_built (J rd meta a p root)"
    and "\<And>rd meta a p root. well_built root \<Longrightarrow> well_built (K rd meta a p root)"
    and "pod_size T = m" "pod_size U = n"
  shows "reports (graded_status m n) f"
  unfolding reports_def
proof (intro allI impI conjI)
  fix rd meta a root assume w: "well_built root"
  note e = checked_ends [OF w, where rd = rd and meta = meta and a = a]
  show "ends_with_status (graded_status m n rd meta a) (f rd meta a root)"
    using e [OF assms(2) [OF w] assms(4)] e [OF assms(3) [OF w] assms(5)]
    unfolding assms(1) graded_status_def Let_def assms(4,5) size_mismatch_def
    by (auto intro: ends_with_statusI w)
qed simp

lemma well_built_class [json_intros]: "well_built root \<Longrightarrow> well_built (write_rm_alloc_class root c)"
proof -
  assume "well_built root"
  moreover have "ascii (unwrap_or (''UNKNOWN(0x'' @ hex (unat (word_of_int c :: u32)) @ '')'') (rm_alloc_class_name c))"
    using ascii_static_names(4) by (cases "rm_alloc_class_name c") auto
  ultimately show ?thesis
    unfolding write_rm_alloc_class_def Let_def by (intro json_intros; simp)
qed

lemma well_built_nvos02 [json_intros]: "well_built root \<Longrightarrow> well_built (write_nvos02_fields p root)"
  unfolding write_nvos02_fields_def Let_def by (intro json_intros; simp)

lemma well_built_blob [json_intros]: "well_built root \<Longrightarrow> well_built (decode_alloc_blob rd p n m root)"
  unfolding decode_alloc_blob_def Let_def by (intro json_intros; simp)

lemma report_rm_alloc_object: "reports (checked_status 20) decode_rm_alloc_object"
  by (rule reports_checked, (unfold decode_rm_alloc_object_def Let_def, rule refl)[1], (intro json_intros; simp)[1], simp add: rm_sizes)

lemma report_rm_free: "reports (checked_status 16) decode_rm_free"
  by (rule reports_checked, (unfold decode_rm_free_def Let_def, rule refl)[1], (intro json_intros; simp)[1], simp add: rm_sizes)

lemma report_rm_unmap_memory: "reports (checked_status 32) decode_rm_unmap_memory"
  by (rule reports_checked, (unfold decode_rm_unmap_memory_def Let_def, rule refl)[1], (intro json_intros; simp)[1], simp add: rm_sizes)

lemma report_rm_i2c_access: "reports (checked_status 32) decode_rm_i2c_access"
  by (rule reports_checked, (unfold decode_rm_i2c_access_def Let_def, rule refl)[1], (intro json_intros; simp)[1], simp add: rm_sizes)

lemma report_rm_idle_channels: "reports (checked_status 56) decode_rm_idle_channels"
  by (rule reports_checked, (unfold decode_rm_idle_channels_def Let_def, rule refl)[1], (intro json_intros; simp)[1], simp add: rm_sizes)

lemma report_rm_vid_heap_control: "reports (checked_status 40) decode_rm_vid_heap_control"
  by (rule reports_checked, (unfold decode_rm_vid_heap_control_def Let_def, rule refl)[1], (intro json_intros; simp)[1], simp add: rm_sizes)

lemma report_rm_get_event_data: "reports (checked_status 16) decode_rm_get_event_data"
  by (rule reports_checked, (unfold decode_rm_get_event_data_def Let_def, rule refl)[1], (intro json_intros; simp)[1], simp add: rm_sizes)

lemma report_rm_alloc_context_dma2: "reports (checked_status 56) decode_rm_alloc_context_dma2"
  by (rule reports_checked, (unfold decode_rm_alloc_context_dma2_def Let_def, rule refl)[1], (intro json_intros; simp)[1], simp add: rm_sizes)

lemma report_rm_map_memory_dma: "reports (checked_status 64) decode_rm_map_memory_dma"
  by (rule reports_checked, (unfold decode_rm_map_memory_dma_def Let_def, rule refl)[1], (intro json_intros; simp)[1], simp add: rm_sizes)

lemma report_rm_unmap_memory_dma: "reports (checked_status 48) decode_rm_unmap_memory_dma"
  by (rule reports_checked, (unfold decode_rm_unmap_memory_dma_def Let_def, rule refl)[1], (intro json_intros; simp)[1], simp add: rm_sizes)

lemma report_rm_bind_context_dma: "reports (checked_status 16) decode_rm_bind_context_dma"
  by (rule reports_checked, (unfold decode_rm_bind_context_dma_def Let_def, rule refl)[1], (intro json_intros; simp)[1], simp add: rm_sizes)

lemma report_rm_dup_object: "reports (checked_status 28) decode_rm_dup_object"
  by (rule reports_checked, (unfold decode_rm_dup_object_def Let_def, rule refl)[1], (intro json_intros; simp)[1], simp add: rm_sizes)

lemma report_rm_update_device_mapping_info: "reports (checked_status 40) decode_rm_update_device_mapping_info"
  by (rule reports_checked, (unfold decode_rm_update_device_mapping_info_def Let_def, rule refl)[1], (intro json_intros; simp)[1], simp add: rm_sizes)

lemma report_rm_share: "reports (checked_status 24) decode_rm_share"
  by (rule reports_checked, (unfold decode_rm_share_def Let_def, rule refl)[1], (intro json_intros; simp)[1], simp add: rm_sizes)

lemma report_rm_add_vblank_callback: "reports (checked_status 56) decode_rm_add_vblank_callback"
  by (rule reports_checked, (unfold decode_rm_add_vblank_callback_def Let_def, rule refl)[1], (intro json_intros; simp)[1], simp add: rm_sizes)

lemma report_register_fd: "reports (checked_status 4) decode_register_fd"
  by (rule reports_checked, (unfold decode_register_fd_def Let_def, rule refl)[1], (intro json_intros; simp)[1], simp add: rm_sizes)

lemma report_alloc_free_os_event: "reports (checked_status 16) decode_alloc_free_os_event"
  by (rule reports_checked, (unfold decode_alloc_free_os_event_def Let_def, rule refl)[1], (intro json_intros; simp)[1], simp add: rm_sizes)

lemma report_status_code: "reports (checked_status 12) decode_status_code"
  by (rule reports_checked, (unfold decode_status_code_def Let_def, rule refl)[1], (intro json_intros; simp)[1], simp add: rm_sizes)

lemma report_rm_api_version: "reports (checked_status 72) decode_rm_api_version"
  by (rule reports_checked, (unfold decode_rm_api_version_def Let_def, rule refl)[1], (intro json_intros; simp)[1], simp add: rm_sizes)

lemma report_query_device_intr: "reports (checked_status 8) decode_query_device_intr"
  by (rule reports_checked, (unfold decode_query_device_intr_def Let_def, rule refl)[1], (intro json_intros; simp)[1], simp add: rm_sizes)

lemma report_sys_params: "reports (checked_status 8) decode_sys_params"
  by (rule reports_checked, (unfold decode_sys_params_def Let_def, rule refl)[1], (intro json_intros; simp)[1], simp add: rm_sizes)

lemma report_wait_open_complete: "reports (checked_status 8) decode_wait_open_complete"
  by (rule reports_checked, (unfold decode_wait_open_complete_def Let_def, rule refl)[1], (intro json_intros; simp)[1], simp add: rm_sizes)

lemma report_numa_info: "reports (checked_status 560) decode_numa_info"
  by (rule reports_checked, (unfold decode_numa_info_def Let_def, rule refl)[1], (intro json_intros; simp)[1], simp add: rm_sizes)

lemma report_set_numa_status: "reports (checked_status 4) decode_set_numa_status"
  by (rule reports_checked, (unfold decode_set_numa_status_def Let_def, rule refl)[1], (intro json_intros; simp)[1], simp add: rm_sizes)

lemma report_export_to_dmabuf: "reports (checked_status 40) decode_export_to_dmabuf"
  by (rule reports_checked, (unfold decode_export_to_dmabuf_def Let_def, rule refl)[1], (intro json_intros; simp)[1], simp add: rm_sizes)

lemma report_rm_alloc_memory: "reports (graded_status 56 48) decode_rm_alloc_memory"
  by (rule reports_graded, (unfold decode_rm_alloc_memory_def Let_def, rule refl)[1], (intro json_intros; simp)[1],
      (intro json_intros; simp)[1], (simp add: rm_sizes)[1], simp add: rm_sizes)

lemma report_rm_alloc: "reports (graded_status 48 32) (\<lambda>rd meta a. decode_rm_alloc rd meta a max_blob)"
  by (rule reports_graded, (unfold decode_rm_alloc_def Let_def, rule refl)[1], (intro json_intros; simp)[1],
      (intro json_intros; simp)[1], (simp add: rm_sizes)[1], simp add: rm_sizes)

lemma graded_once: "reports (graded_status n n) f"
  if "\<And>rd meta a root. f rd meta a root =
      (if pod_size T \<le> unat (meta_size meta) then
         (case read_checked_pod rd T meta a of
            Inr p \<Rightarrow> field_str ''status'' ''ok'' (J rd meta a p root)
          | Inl e \<Rightarrow> field_str ''status'' e root)
       else field_str ''status'' (''size_mismatch(expected>='' @ dec (pod_size T) @ '',actual='' @
              dec (unat (meta_size meta)) @ '')'') root)"
    and "\<And>rd meta a p root. well_built root \<Longrightarrow> well_built (J rd meta a p root)"
    and "pod_size T = n"
  using that by (intro reports_graded [where T = T and U = T and J = J and K = J]) auto

lemma report_rm_map_memory: "reports (graded_status 56 56) decode_rm_map_memory"
  by (rule graded_once, (unfold decode_rm_map_memory_def Let_def, rule refl)[1], (intro json_intros; simp)[1],
      simp add: rm_sizes)

lemma report_rm_access_registry:
  "reports (checked_status 72) (\<lambda>rd meta a. decode_rm_access_registry rd meta a max_blob)"
  by (rule reports_checked, (unfold decode_rm_access_registry_def Let_def, rule refl)[1],
      (intro well_built_remote json_intros; simp)[1], simp add: rm_sizes)

lemmas rm_report_each = report_rm_alloc_memory report_rm_alloc_object report_rm_free report_rm_map_memory
  report_rm_unmap_memory report_rm_i2c_access report_rm_idle_channels report_rm_vid_heap_control
  report_rm_get_event_data report_rm_alloc_context_dma2 report_rm_map_memory_dma
  report_rm_unmap_memory_dma report_rm_bind_context_dma report_rm_dup_object
  report_rm_update_device_mapping_info report_rm_share report_rm_add_vblank_callback
  report_register_fd report_alloc_free_os_event report_status_code report_rm_api_version
  report_query_device_intr report_sys_params report_wait_open_complete report_numa_info
  report_set_numa_status report_export_to_dmabuf

lemma rm_decoders_report: "list_all2 (\<lambda>(c, f) (c', s). c = c' \<and> reports s f) rm_decoders rm_statuses"
  unfolding rm_decoders_def rm_statuses_def list_all2_Cons prod.case
  by (intro conjI refl list.rel_intros(1) rm_report_each)


lemma attach_reports:
  assumes "well_built root"
  shows "ends_with_status (attach_status rd meta a max_blob) (decode_attach_gpus rd meta a max_blob root)"
proof -
  have r: "readable rd a (min d (max max_blob 4)) \<longleftrightarrow> read_bytes rd a (min d (max max_blob 4)) \<noteq> None" for d
    using read_bytes_readable [of rd a "min d (max max_blob 4)"] by auto
  show ?thesis
    unfolding attach_status_def decode_attach_gpus_def Let_def r size_of.simps
    by (auto split: option.split intro!: ends_with_statusI json_intros simp: assms)
qed

lemma unknown_reports:
  assumes "well_built root"
  shows "ends_with_status (unknown_status rd meta a max_blob) (rm_decode_unknown rd meta a max_blob root)"
proof -
  have r: "readable rd a (min d (max max_blob 16)) \<longleftrightarrow> read_bytes rd a (min d (max max_blob 16)) \<noteq> None" for d
    using read_bytes_readable [of rd a "min d (max max_blob 16)"] by auto
  show ?thesis
    unfolding unknown_status_def rm_decode_unknown_def Let_def r
    by (auto split: option.split intro!: ends_with_statusI json_intros simp: assms)
qed

lemma card_size: "pod_size NvIoctlCardInfo_pod = 72"
  by (simp add: rm_sizes)

lemma read_cards_empty:
  "0 < n \<Longrightarrow> read_cards rd a k n 0 = [] \<longleftrightarrow> \<not> readable rd a (pod_size NvIoctlCardInfo_pod)"
  using read_pod_readable [of rd NvIoctlCardInfo_pod a] by (cases n) (auto split: option.split)

lemma card_reports:
  assumes "well_built root"
  shows "ends_with_status (card_status rd meta a) (decode_card_info rd meta a max_blob root)"
proof (cases "unat (meta_size meta) < 72")
  case True
  then show ?thesis
    unfolding card_status_def decode_card_info_def Let_def card_size size_mismatch_def
    by (simp only: if_True) (intro ends_with_statusI assms)
next
  case False
  then have "0 < unat (meta_size meta) div 72" by (simp add: div_greater_zero_iff)
  then have e: "read_cards rd a 72 (min (unat (meta_size meta) div 72) (max (max_blob div 72) 1)) 0 = [] \<longleftrightarrow>
      \<not> readable rd a 72"
    using read_cards_empty [of "min (unat (meta_size meta) div 72) (max (max_blob div 72) 1)" rd a 72]
    by (simp add: card_size)
  define cs where "cs = read_cards rd a 72 (min (unat (meta_size meta) div 72) (max (max_blob div 72) 1)) 0"
  show ?thesis
    unfolding card_status_def decode_card_info_def Let_def card_size
    using False e unfolding cs_def [symmetric]
    by (auto simp: assms intro!: ends_with_statusI json_intros)
qed

lemma opaque_reports:
  assumes "tables_ok tables" and "well_built root"
  shows "ends_with_status ''opaque'' (decode_rm_opaque tables rd meta a root)"
  unfolding decode_rm_opaque_def Let_def
  by (intro ends_with_statusI json_intros; simp add: assms ascii_outer_cmd_name)

lemma nvos54_reports:
  assumes t: "tables_ok tables" and w: "well_built root"
  shows "ends_with_status (payload_status rd max_blob os54)
    (snd (decode_nvos54_payload tables rd os54 max_blob legacy root))"
proof -
  let ?name = "rm_control_cmd_name tables (NvOs54Parameters.p_cmd os54)"
  let ?p = "NvOs54Parameters.p_params os54" and ?n = "unat (NvOs54Parameters.p_params_size os54)"
  let ?known = "decode_known_rm_control tables rd (NvOs54Parameters.p_cmd os54) ?p ?n"
  let ?len = "min ?n (min (max max_blob 16) 32)"
  have u: "ascii ?name" "ascii (unwrap_or ''paramsPreview'' (rm_control_params_type_name ?name))"
    using ascii_rm_control_cmd_name [OF t, of "NvOs54Parameters.p_cmd os54"]
      ascii_params_type_name [OF ascii_rm_control_cmd_name [OF t]]
    by (auto simp: unwrap_or_def split: option.split)
  have len: "min ?n (min (max max_blob 16) (MAX_INNER_PREVIEW_WORDS * size_of FU32)) = ?len"
    by (simp add: MAX_INNER_PREVIEW_WORDS_def)
  note k = known_control_ok [OF t, where rd = rd and cmd = "NvOs54Parameters.p_cmd os54" and a = ?p and sz = ?n]
  show ?thesis
  proof (cases ?known)
    case (Some d)
    with k have "json_text (krd_json d)" by (auto intro: ends_object_text)
    with Some k show ?thesis
      unfolding decode_nvos54_payload_def payload_status_def Let_def len
      by (auto intro!: ends_with_statusI json_intros simp: w u)
  next
    case None
    with k have nk: "\<not> known_decodes rd (NvOs54Parameters.p_cmd os54) ?p ?n" by simp
    show ?thesis
    proof (cases "?p = 0 \<or> NvOs54Parameters.p_params_size os54 = 0")
      case True
      then have "payload_status rd max_blob os54 = ''ok''" by (auto simp: payload_status_def Let_def)
      then show ?thesis
        unfolding decode_nvos54_payload_def Let_def if_P [OF True] snd_conv
        by (simp only:) (intro ends_with_statusI json_intros; simp add: w u)
    next
      case False
      then have n: "?p \<noteq> 0" "?n \<noteq> 0" by (simp_all add: unat_eq_0)
      then have z: "?len \<noteq> 0" by simp
      from n nk have pay: "payload_status rd max_blob os54 =
          (if readable rd ?p ?len then ''inner_partial'' else ''params_unreadable'')"
        by (simp add: payload_status_def)
      show ?thesis
      proof (cases "read_bytes rd ?p ?len")
        case unread: None
        with read_bytes_readable [of rd ?p ?len] have "\<not> readable rd ?p ?len" by simp
        then show ?thesis
          unfolding decode_nvos54_payload_def Let_def if_not_P [OF False] None option.case len if_not_P [OF z]
            unread snd_conv pay
          by (simp only: if_False) (intro ends_with_statusI json_intros; simp add: w u)
      next
        case (Some bs)
        with read_bytes_readable [of rd ?p ?len] have "readable rd ?p ?len" by auto
        then show ?thesis
          unfolding decode_nvos54_payload_def Let_def if_not_P [OF False] None option.case len if_not_P [OF z]
            Some snd_conv pay
          by (simp only: if_True) (intro ends_with_statusI json_intros; simp add: w u)
      qed
    qed
  qed
qed

lemma xfer_reports:
  assumes "tables_ok tables" and "well_built root"
  shows "ends_with_status (xfer_status rd mode a max_blob)
    (snd (decode_xfer tables rd a mode max_blob legacy root))"
  unfolding xfer_status_def decode_xfer_def Let_def
  by (auto split: option.split intro!: ends_with_statusI nvos54_reports json_intros simp: assms)

lemma control_reports:
  assumes "tables_ok tables" and "well_built root"
  shows "ends_with_status (control_status rd meta a max_blob)
    (snd (decode_rm_control tables rd meta a max_blob legacy root))"
proof -
  have z: "pod_size NvOs54Parameters_pod = 32" by (simp add: rm_sizes)
  show ?thesis
    using assms unfolding control_status_def decode_rm_control_def Let_def
    by (cases rule: read_checked_cases [of rd NvOs54Parameters_pod meta a])
      (auto simp: z intro!: ends_with_statusI nvos54_reports)
qed

subsection \<open>Every ioctl\<close>

lemma ascii_statuses [simp]:
  "ascii (payload_status rd max_blob os54)" "ascii (control_status rd meta a max_blob)"
  "ascii (xfer_status rd mode a max_blob)" "ascii (attach_status rd meta a max_blob)"
  "ascii (card_status rd meta a)" "ascii (unknown_status rd meta a max_blob)"
  by (simp_all add: payload_status_def control_status_def xfer_status_def attach_status_def card_status_def
      unknown_status_def Let_def split: option.split sum.split)

lemma table_reports:
  assumes "well_built root"
  shows "ends_with_status
      (case map_of rm_statuses nr of Some s \<Rightarrow> s rd meta a | None \<Rightarrow> unknown_status rd meta a max_blob)
      (case map_of rm_decoders nr of Some f \<Rightarrow> f rd meta a root | None \<Rightarrow> rm_decode_unknown rd meta a max_blob root) \<and>
    ascii (case map_of rm_statuses nr of Some s \<Rightarrow> s rd meta a | None \<Rightarrow> unknown_status rd meta a max_blob)"
proof -
  have "rel_option (\<lambda>f s. reports s f) (map_of rm_decoders nr) (map_of rm_statuses nr)"
    by (rule map_of_rel [OF rm_decoders_report])
  then show ?thesis
    using unknown_reports [OF assms] assms
    by (cases rule: option.rel_cases) (auto simp: reports_def)
qed

lemma status_branch:
  "(c \<Longrightarrow> ends_with_status s (snd x)) \<Longrightarrow> (\<not> c \<Longrightarrow> ends_with_status s' (snd y)) \<Longrightarrow>
   ends_with_status (if c then s else s') (snd (if c then x else y))"
  by simp

lemma ascii_rm_status [simp]: "ascii (rm_status rd meta a mode max_blob)"
  using table_reports [OF well_built_new, where nr = "ucast (meta_nr meta)" and rd = rd and meta = meta and a = a
      and max_blob = max_blob]
  by (auto simp: rm_status_def Let_def)

lemma rm_decode_status:
  assumes t: "tables_ok tables" and m: "meta_ioc_type meta = NV_IOCTL_MAGIC"
  shows "\<exists>s. decode_nvidia_ioctl tables rd meta a mode max_blob = Some s \<and>
    status_object (rm_status rd meta a mode max_blob) (ds_json s)"
proof (cases "mode = Header \<or> a = 0")
  case True
  then show ?thesis
    using status_object_finish [OF well_built_new] m by (auto simp: decode_nvidia_ioctl_def rm_status_def Let_def)
next
  case False
  then have h: "mode \<noteq> Header" "a \<noteq> 0" by simp_all
  note w = well_built_new
  have m': "\<not> meta_ioc_type meta \<noteq> NV_IOCTL_MAGIC" using m by simp
  have ra: "ends_with_status (graded_status 48 32 rd meta a) (decode_rm_alloc rd meta a max_blob JsonObject_new)"
    and rr: "ends_with_status (checked_status 72 rd meta a)
      (decode_rm_access_registry rd meta a max_blob JsonObject_new)"
    using report_rm_alloc [of max_blob] report_rm_access_registry [of max_blob] w by (simp_all add: reports_def)
  have tr: "ends_with_status
      (case map_of rm_statuses nr of Some s \<Rightarrow> s rd meta a | None \<Rightarrow> unknown_status rd meta a max_blob)
      (snd (case map_of rm_decoders nr of Some f \<Rightarrow> ([], f rd meta a JsonObject_new)
            | None \<Rightarrow> (l, rm_decode_unknown rd meta a max_blob JsonObject_new)))" for nr and l :: string
    using table_reports [OF w, where nr = nr and rd = rd and meta = meta and a = a and max_blob = max_blob]
    by (cases "map_of rm_decoders nr") simp_all
  have "\<exists>x. decode_nvidia_ioctl tables rd meta a mode max_blob =
        Some \<lparr>ds_legacy = fst x, ds_json = finish (snd x)\<rparr> \<and>
      ends_with_status (rm_status rd meta a mode max_blob) (snd x)"
    unfolding decode_nvidia_ioctl_def if_not_P [OF m'] rm_status_def Let_def if_not_P [OF h(1)]
      if_not_P [OF h(2)] split_beta
    by (rule exI, rule conjI, rule HOL.refl)
      (intro status_branch; (simp only: snd_conv)?; rule xfer_reports [OF t w] control_reports [OF t w] ra rr
        attach_reports [OF w] card_reports [OF w] opaque_reports [OF t w] tr)
  then obtain x where d: "decode_nvidia_ioctl tables rd meta a mode max_blob =
      Some \<lparr>ds_legacy = fst x, ds_json = finish (snd x)\<rparr>"
    and e: "ends_with_status (rm_status rd meta a mode max_blob) (snd x)" by blast
  from status_object_ends [OF e ascii_rm_status] d show ?thesis by auto
qed

text \<open>Empty tables, and the ones that \<open>generate_nvidia_ioctl_tables\<close> of \<open>build.rs\<close> writes.\<close>

definition no_tables :: generated_tables where
  "no_tables = \<lparr>GENERATED_NV_ESC_CMD_NAMES = [], GENERATED_RM_CONTROL_CMD_NAMES = [],
     GENERATED_RM_INTERFACE_NAMES = []\<rparr>"

lemma no_tables_ok [simp]: "tables_ok no_tables"
  by (simp add: tables_ok_def no_tables_def)

definition build_tables :: generated_tables where
  "build_tables = \<lparr>GENERATED_NV_ESC_CMD_NAMES = [],
     GENERATED_RM_CONTROL_CMD_NAMES =
       [(0x13e, ''NV0000_CTRL_CMD_SYSTEM_GET_BUILD_VERSION_V2''),
        (0x20800147, ''NV2080_CTRL_CMD_GPU_GET_ENGINE_PARTNERLIST''),
        (0x20800601, ''NV2080_CTRL_CMD_I2C_READ_BUFFER'')],
     GENERATED_RM_INTERFACE_NAMES = [(0x208101, ''NV2081_BINAPI'')]\<rparr>"

lemma build_tables_ok [simp]: "tables_ok build_tables"
  by (simp add: tables_ok_def build_tables_def ascii_def)

end
