(* ===== verification/Line_Meta.thy ===== *)
theory Line_Meta
  imports Config
begin

text \<open>
  \<open>src/line_meta.rs\<close> and \<open>src/fd_map.rs\<close>: the prefix of a trace line, with the thread id and
  the timestamp the configuration asks for. The thread-local \<open>CACHED_TID\<close> is passed through
  \<open>current_tid\<close>; the value of \<open>gettid\<close> and the clock are arguments.
\<close>

definition current_tid :: "i32 \<Rightarrow> i32 \<Rightarrow> i32 \<times> i32" where
  "current_tid gettid cached =
     (if 0 < cached then (cached, cached)
      else let tid = gettid in (tid, if 0 < tid then tid else cached))"

text \<open>A \<open>Duration\<close> is its number of nanoseconds.\<close>

definition as_unit :: "TimeUnit \<Rightarrow> nat \<Rightarrow> nat" where
  "as_unit unit ns = (case unit of Ns \<Rightarrow> ns | Us \<Rightarrow> ns div 1000)"

definition now_timestamp_for_config :: "Config \<Rightarrow> nat \<Rightarrow> nat" where
  "now_timestamp_for_config cfg since_epoch_ns = as_unit (cfg_time_unit cfg) since_epoch_ns"

definition unit_name :: "TimeUnit \<Rightarrow> string" where
  "unit_name unit = (case unit of Ns \<Rightarrow> ''ns'' | Us \<Rightarrow> ''us'')"

definition format_left_meta_prefix :: "Config \<Rightarrow> i32 \<Rightarrow> nat \<Rightarrow> string" where
  "format_left_meta_prefix cfg tid timestamp =
     (let out = [];
          out = (if include_tid (cfg_left_meta cfg) then out @ ''tid='' @ dec_int tid else out);
          out = (if include_timestamp (cfg_left_meta cfg) then
                   let out = (if out \<noteq> [] then out @ '' '' else out);
                       unit = (case cfg_time_unit cfg of Ns \<Rightarrow> ''ns'' | Us \<Rightarrow> ''us'')
                   in out @ ''ts='' @ dec timestamp @ unit
                 else out)
      in if out = [] then [] else out @ ''  |  '')"

definition prepend_left_meta :: "Config \<Rightarrow> string \<Rightarrow> i32 \<Rightarrow> nat \<Rightarrow> string" where
  "prepend_left_meta cfg line tid timestamp =
     (let prefix = format_left_meta_prefix cfg tid timestamp
      in if prefix = [] then line else prefix @ line)"

definition is_gpu_path :: "string \<Rightarrow> bool" where
  "is_gpu_path path \<longleftrightarrow> starts_with path ''/dev/nvidia'' \<or> starts_with path ''/dev/dri/''"

lemma prepend_is_prefix: "prepend_left_meta cfg line tid ts = format_left_meta_prefix cfg tid ts @ line"
  by (simp add: prepend_left_meta_def Let_def)

lemma split_at_first:
  assumes "s @ c # t = s' @ d # t'" and "\<not> P c" "\<not> P d" and "list_all P s" "list_all P s'"
  shows "s = s' \<and> c = d \<and> t = t'"
proof -
  have w: "takeWhile P (x @ y # z) = x" if "\<not> P y" "list_all P x" for x y z
    using that by (simp add: takeWhile_append2 list_all_iff)
  have "s = s'" using w [OF assms(2,4), of t] w [OF assms(3,5), of t'] assms(1) by simp
  with assms(1) show ?thesis by simp
qed

lemma dec_int_no_space: "list_all (\<lambda>c. c \<noteq> CHR '' '') (dec_int i)"
proof -
  have "list_all (\<lambda>c. c \<noteq> CHR '' '') (dec n)" for n
    by (rule list.pred_mono_strong [OF radix_chars]) (auto simp: is_hex_digit_def)
  then show ?thesis by (simp add: dec_int_def)
qed

lemma unit_letter:
  obtains u us where "unit_name unit = u # us" "\<not> is_hex_digit u"
  by (cases unit) (auto simp: unit_name_def is_hex_digit_def)

lemma dec_stops:
  assumes "\<not> is_hex_digit u" "\<not> is_hex_digit u'" and "dec s @ u # t = dec s' @ u' # t'"
  shows "s = s' \<and> u # t = u' # t'"
  using split_at_first [where P = is_hex_digit, OF assms(3,1,2)] radix_chars [of 10] radix_inj [of 10 s s']
  by auto

lemma dec_int_stops:
  assumes "dec_int i @ CHR '' '' # t = dec_int j @ CHR '' '' # t'"
  shows "i = j \<and> t = t'"
  using split_at_first [where P = "\<lambda>c. c \<noteq> CHR '' ''", OF assms] dec_int_no_space dec_int_inj by auto

lemma meta_prefix:
  "format_left_meta_prefix cfg tid ts =
     (case cfg_left_meta cfg of
        Off \<Rightarrow> []
      | Tid \<Rightarrow> ''tid='' @ dec_int tid @ ''  |  ''
      | Timestamp \<Rightarrow> ''ts='' @ dec ts @ unit_name (cfg_time_unit cfg) @ ''  |  ''
      | TidTimestamp \<Rightarrow> ''tid='' @ dec_int tid @ '' ts='' @ dec ts @ unit_name (cfg_time_unit cfg) @ ''  |  '')"
  by (cases "cfg_left_meta cfg") (simp_all add: format_left_meta_prefix_def unit_name_def)

text \<open>The prefix keeps thread, time and text apart: two output lines are equal exactly when they
  have the same text, whatever it is, and agree in each of thread and timestamp that the
  configuration asks for.\<close>

theorem left_meta_faithful:
  "prepend_left_meta cfg l1 t1 s1 = prepend_left_meta cfg l2 t2 s2 \<longleftrightarrow>
     l1 = l2 \<and> (if include_tid (cfg_left_meta cfg) then t1 = t2 else True) \<and>
     (if include_timestamp (cfg_left_meta cfg) then s1 = s2 else True)"
proof -
  obtain u us where u: "unit_name (cfg_time_unit cfg) = u # us" "\<not> is_hex_digit u"
    by (rule unit_letter)
  note stops = dec_stops [OF u(2) u(2)]
  show ?thesis
    by (cases "cfg_left_meta cfg")
      (auto simp: prepend_is_prefix meta_prefix u(1) dest!: stops dec_int_stops)
qed

end
