(* ===== verification/Ioctl.thy ===== *)
theory Ioctl
  imports Uvm Rm_Status Line_Meta
begin

text \<open>
  The upper half of \<open>src/decode/ioctl.rs\<close>: the summary of an ioctl, which sends the ioctls of
  \<open>/dev/nvidia-uvm\<close> to the decoder of theory \<open>Uvm\<close> and those of the other GPU devices to the
  decoder of theory \<open>Rm\<close>. The tables of names that \<open>build.rs\<close> generates from the driver's
  headers are the parameter \<open>tables\<close>.
\<close>

definition format_ioc_nr :: "generated_tables \<Rightarrow> IoctlMeta \<Rightarrow> string option \<Rightarrow> string" where
  "format_ioc_nr tables meta fd_path =
     (if is_uvm_path fd_path then
        (let name = uvm_cmd_name (meta_raw meta)
         in if name \<noteq> ''UNKNOWN'' then name else dec (unat (meta_nr meta)))
      else if is_nvidia_rm_path fd_path then
        (let name = outer_cmd_name tables (meta_nr meta)
         in if name \<noteq> ''UNKNOWN'' then name else dec (unat (meta_nr meta)))
      else dec (unat (meta_nr meta)))"

definition summarize_ioctl ::
    "generated_tables \<Rightarrow> remote \<Rightarrow> u64 \<Rightarrow> u64 \<Rightarrow> IoctlDecodeMode \<Rightarrow> usize \<Rightarrow> string option \<Rightarrow> string" where
  "summarize_ioctl tables rd cmd arg_ptr decode_mode max_blob fd_path =
     (let meta = decode_ioctl_cmd cmd;
          ioc_type = format_ioc_type (meta_ioc_type meta);
          ioc_nr = format_ioc_nr tables meta fd_path;
          out = ''_IOC(dir='' @ direction_name meta @ '',type='' @ ioc_type @ '',nr='' @ ioc_nr @
                '',size='' @ dec (unat (meta_size meta)) @ '')''
      in if decode_mode = IoctlDecodeMode.Off then out
         else
           let decoded =
             (if is_uvm_path fd_path then decode_uvm_ioctl rd meta arg_ptr decode_mode max_blob
              else if is_nvidia_rm_path fd_path then
                decode_nvidia_ioctl tables rd meta arg_ptr decode_mode max_blob
              else None)
           in case decoded of
                Some decoded \<Rightarrow> out @ '', args='' @ ds_json decoded
              | None \<Rightarrow> out)"

text \<open>Every path the decoders handle is one the tracer takes for a GPU device.\<close>

lemma decoded_paths_are_gpu:
  "is_uvm_path (Some p) \<Longrightarrow> is_gpu_path p" "is_nvidia_rm_path (Some p) \<Longrightarrow> is_gpu_path p"
proof -
  show "is_nvidia_rm_path (Some p) \<Longrightarrow> is_gpu_path p"
    by (simp add: is_nvidia_rm_path_def is_gpu_path_def)
  assume "is_uvm_path (Some p)"
  then obtain t where "p = ''/dev/nvidia-uvm'' @ t"
    by (auto simp: is_uvm_path_def starts_with_prefix)
  then show "is_gpu_path p" by (simp add: is_gpu_path_def starts_with_def)
qed

text \<open>What the summary of an ioctl reports: the status of the decoder that the path of the descriptor
  selects, and no status where the decoder of the resource manager does not know the type of the
  number, or for any other path.\<close>

definition ioctl_status ::
    "remote \<Rightarrow> u64 \<Rightarrow> u64 \<Rightarrow> IoctlDecodeMode \<Rightarrow> usize \<Rightarrow> string option \<Rightarrow> string option" where
  "ioctl_status rd cmd a mode max_blob fd_path =
     (if is_uvm_path fd_path then Some (uvm_status rd cmd a mode max_blob)
      else if is_nvidia_rm_path fd_path \<and> meta_ioc_type (decode_ioctl_cmd cmd) = NV_IOCTL_MAGIC then
        Some (rm_status rd (decode_ioctl_cmd cmd) a mode max_blob)
      else None)"

definition ioctl_header :: "generated_tables \<Rightarrow> u64 \<Rightarrow> string option \<Rightarrow> string" where
  "ioctl_header tables cmd fd_path =
     ''_IOC(dir='' @ direction_name (decode_ioctl_cmd cmd) @ '',type='' @
       format_ioc_type (meta_ioc_type (decode_ioctl_cmd cmd)) @ '',nr='' @
       format_ioc_nr tables (decode_ioctl_cmd cmd) fd_path @ '',size='' @
       dec (unat (meta_size (decode_ioctl_cmd cmd))) @ '')''"

text \<open>The summary of an ioctl is the printed header, followed, exactly when decoding is on and a
  decoder is responsible, by one JSON object, and it is the object that the status claims.\<close>

lemma summarize_reports:
  assumes "tables_ok tables" and "mode \<noteq> IoctlDecodeMode.Off"
  shows "case ioctl_status rd cmd a mode max_blob fd_path of
      Some s \<Rightarrow> \<exists>json. summarize_ioctl tables rd cmd a mode max_blob fd_path =
          ioctl_header tables cmd fd_path @ '', args='' @ json \<and> status_object s json
    | None \<Rightarrow> summarize_ioctl tables rd cmd a mode max_blob fd_path = ioctl_header tables cmd fd_path"
proof (cases "is_uvm_path fd_path")
  case True
  obtain s where "decode_uvm_ioctl rd (decode_ioctl_cmd cmd) a mode max_blob = Some s"
    "status_object (uvm_status rd cmd a mode max_blob) (ds_json s)"
    using uvm_decode_status [of rd "decode_ioctl_cmd cmd" a mode max_blob]
    by (auto simp: decode_ioctl_cmd_def)
  with True assms(2) show ?thesis
    by (auto simp: ioctl_status_def ioctl_header_def summarize_ioctl_def Let_def)
next
  case False
  show ?thesis
  proof (cases "is_nvidia_rm_path fd_path \<and> meta_ioc_type (decode_ioctl_cmd cmd) = NV_IOCTL_MAGIC")
    case True
    then obtain s where "decode_nvidia_ioctl tables rd (decode_ioctl_cmd cmd) a mode max_blob = Some s"
      "status_object (rm_status rd (decode_ioctl_cmd cmd) a mode max_blob) (ds_json s)"
      using rm_decode_status [OF assms(1)] by blast
    with True False assms(2) show ?thesis
      by (auto simp: ioctl_status_def ioctl_header_def summarize_ioctl_def Let_def)
  next
    case no: False
    then have "\<not> is_nvidia_rm_path fd_path \<or>
        decode_nvidia_ioctl tables rd (decode_ioctl_cmd cmd) a mode max_blob = None"
      by (auto simp: decode_nvidia_ioctl_def)
    with no False show ?thesis
      by (auto simp: ioctl_status_def ioctl_header_def summarize_ioctl_def Let_def)
  qed
qed

text \<open>With decoding switched off the summary is the header alone.\<close>

lemma summarize_off: "summarize_ioctl tables rd cmd a IoctlDecodeMode.Off max_blob fd_path = ioctl_header tables cmd fd_path"
  by (simp add: summarize_ioctl_def ioctl_header_def Let_def)

text \<open>On \<open>/dev/nvidia-uvm\<close> the summary of an ioctl is the printed header followed by exactly one JSON
  object, and it is the object the decoder's status claims; with decoding switched off it is the
  header alone.\<close>

theorem summarize_uvm:
  assumes "is_uvm_path (Some p)"
  shows "\<exists>json. summarize_ioctl tables rd cmd arg_ptr mode max_blob (Some p) =
      ioctl_header tables cmd (Some p) @ (if mode = IoctlDecodeMode.Off then [] else '', args='' @ json) \<and>
    status_object (uvm_status rd cmd arg_ptr mode max_blob) json"
proof -
  obtain s where "decode_uvm_ioctl rd (decode_ioctl_cmd cmd) arg_ptr mode max_blob = Some s"
    "status_object (uvm_status rd cmd arg_ptr mode max_blob) (ds_json s)"
    using uvm_decode_status [of rd "decode_ioctl_cmd cmd" arg_ptr mode max_blob]
    by (auto simp: decode_ioctl_cmd_def)
  with assms show ?thesis by (auto simp: summarize_ioctl_def ioctl_header_def Let_def)
qed

theorem summarize_uvm_witness:
  "is_uvm_path (Some ''/dev/nvidia-uvm'') \<and>
   (\<exists>json. summarize_ioctl no_tables (\<lambda>_ _. None) 25 0x1000 Full 256 (Some ''/dev/nvidia-uvm'') =
      ioctl_header no_tables 25 (Some ''/dev/nvidia-uvm'') @ '', args='' @ json \<and>
    status_object (uvm_status (\<lambda>_ _. None) 25 0x1000 Full 256) json)"
proof -
  have u: "is_uvm_path (Some ''/dev/nvidia-uvm'')" by (simp add: is_uvm_path_def starts_with_def)
  from summarize_uvm [OF u, of no_tables "\<lambda>_ _. None" 25 "0x1000" Full 256] show ?thesis using u by simp
qed

end
