(* ===== verification/Ptrace_Flags.thy ===== *)
theory Ptrace_Flags
  imports Rust_Fmt
begin

text \<open>
  The printing of flag words in \<open>src/hook/ptrace.rs\<close>: open, mmap, access, dup3 and \<open>*at\<close> flags
  as names joined by bars, with the bits that have no name in hexadecimal and the whole word in
  parentheses. Octal constants of the source are written in hexadecimal. The property of each
  printer is that the printed parts, read back, are exactly the bits of the word.
\<close>

subsection \<open>Constants\<close>

definition O_CREAT_MASK :: u64 where "O_CREAT_MASK = 0x40"
definition O_ACCMODE_MASK :: u64 where "O_ACCMODE_MASK = 3"
definition O_WRONLY_MASK :: u64 where "O_WRONLY_MASK = 1"
definition O_RDWR_MASK :: u64 where "O_RDWR_MASK = 2"
definition O_EXCL_MASK :: u64 where "O_EXCL_MASK = 0x80"
definition O_NOCTTY_MASK :: u64 where "O_NOCTTY_MASK = 0x100"
definition O_TRUNC_MASK :: u64 where "O_TRUNC_MASK = 0x200"
definition O_APPEND_MASK :: u64 where "O_APPEND_MASK = 0x400"
definition O_DSYNC_MASK :: u64 where "O_DSYNC_MASK = 0x1000"
definition O_DIRECT_MASK :: u64 where "O_DIRECT_MASK = 0x4000"
definition O_LARGEFILE_MASK :: u64 where "O_LARGEFILE_MASK = 0x8000"
definition O_DIRECTORY_MASK :: u64 where "O_DIRECTORY_MASK = 0x10000"
definition O_NOFOLLOW_MASK :: u64 where "O_NOFOLLOW_MASK = 0x20000"
definition O_NOATIME_MASK :: u64 where "O_NOATIME_MASK = 0x40000"
definition O_CLOEXEC_MASK :: u64 where "O_CLOEXEC_MASK = 0x80000"
definition O_SYNC_MASK :: u64 where "O_SYNC_MASK = 0x101000"
definition O_PATH_MASK :: u64 where "O_PATH_MASK = 0x200000"
definition O_TMPFILE_MASK :: u64 where "O_TMPFILE_MASK = 0x410000"
definition PROT_NONE_MASK :: u64 where "PROT_NONE_MASK = 0"
definition PROT_READ_MASK :: u64 where "PROT_READ_MASK = 1"
definition PROT_WRITE_MASK :: u64 where "PROT_WRITE_MASK = 2"
definition PROT_EXEC_MASK :: u64 where "PROT_EXEC_MASK = 4"
definition PROT_SEM_MASK :: u64 where "PROT_SEM_MASK = 8"
definition PROT_GROWSDOWN_MASK :: u64 where "PROT_GROWSDOWN_MASK = 0x1000000"
definition PROT_GROWSUP_MASK :: u64 where "PROT_GROWSUP_MASK = 0x2000000"
definition MAP_TYPE_MASK :: u64 where "MAP_TYPE_MASK = 0xf"
definition MAP_SHARED_MASK :: u64 where "MAP_SHARED_MASK = 1"
definition MAP_PRIVATE_MASK :: u64 where "MAP_PRIVATE_MASK = 2"
definition MAP_SHARED_VALIDATE_MASK :: u64 where "MAP_SHARED_VALIDATE_MASK = 3"
definition MAP_FIXED_MASK :: u64 where "MAP_FIXED_MASK = 0x10"
definition MAP_ANONYMOUS_MASK :: u64 where "MAP_ANONYMOUS_MASK = 0x20"
definition MAP_32BIT_MASK :: u64 where "MAP_32BIT_MASK = 0x40"
definition MAP_GROWSDOWN_MASK :: u64 where "MAP_GROWSDOWN_MASK = 0x100"
definition MAP_DENYWRITE_MASK :: u64 where "MAP_DENYWRITE_MASK = 0x800"
definition MAP_EXECUTABLE_MASK :: u64 where "MAP_EXECUTABLE_MASK = 0x1000"
definition MAP_LOCKED_MASK :: u64 where "MAP_LOCKED_MASK = 0x2000"
definition MAP_NORESERVE_MASK :: u64 where "MAP_NORESERVE_MASK = 0x4000"
definition MAP_POPULATE_MASK :: u64 where "MAP_POPULATE_MASK = 0x8000"
definition MAP_NONBLOCK_MASK :: u64 where "MAP_NONBLOCK_MASK = 0x10000"
definition MAP_STACK_MASK :: u64 where "MAP_STACK_MASK = 0x20000"
definition MAP_HUGETLB_MASK :: u64 where "MAP_HUGETLB_MASK = 0x40000"
definition MAP_SYNC_MASK :: u64 where "MAP_SYNC_MASK = 0x80000"
definition MAP_FIXED_NOREPLACE_MASK :: u64 where "MAP_FIXED_NOREPLACE_MASK = 0x100000"
definition F_OK_MASK :: u64 where "F_OK_MASK = 0"
definition X_OK_MASK :: u64 where "X_OK_MASK = 1"
definition W_OK_MASK :: u64 where "W_OK_MASK = 2"
definition R_OK_MASK :: u64 where "R_OK_MASK = 4"
definition AT_SYMLINK_NOFOLLOW_MASK :: u64 where "AT_SYMLINK_NOFOLLOW_MASK = 0x100"
definition AT_EACCESS_MASK :: u64 where "AT_EACCESS_MASK = 0x200"
definition AT_NO_AUTOMOUNT_MASK :: u64 where "AT_NO_AUTOMOUNT_MASK = 0x800"
definition AT_EMPTY_PATH_MASK :: u64 where "AT_EMPTY_PATH_MASK = 0x1000"
definition SEEK_SET :: u64 where "SEEK_SET = 0"
definition SEEK_CUR :: u64 where "SEEK_CUR = 1"
definition SEEK_END :: u64 where "SEEK_END = 2"
definition SEEK_DATA :: u64 where "SEEK_DATA = 3"
definition SEEK_HOLE :: u64 where "SEEK_HOLE = 4"
definition O_NONBLOCK :: u64 where "O_NONBLOCK = 0x800"

lemmas flag_consts = O_NONBLOCK_def
  O_CREAT_MASK_def O_ACCMODE_MASK_def O_WRONLY_MASK_def O_RDWR_MASK_def O_EXCL_MASK_def
  O_NOCTTY_MASK_def O_TRUNC_MASK_def O_APPEND_MASK_def O_DSYNC_MASK_def O_DIRECT_MASK_def
  O_LARGEFILE_MASK_def O_DIRECTORY_MASK_def O_NOFOLLOW_MASK_def O_NOATIME_MASK_def
  O_CLOEXEC_MASK_def O_SYNC_MASK_def O_PATH_MASK_def O_TMPFILE_MASK_def PROT_NONE_MASK_def
  PROT_READ_MASK_def PROT_WRITE_MASK_def PROT_EXEC_MASK_def PROT_SEM_MASK_def
  PROT_GROWSDOWN_MASK_def PROT_GROWSUP_MASK_def MAP_TYPE_MASK_def MAP_SHARED_MASK_def
  MAP_PRIVATE_MASK_def MAP_SHARED_VALIDATE_MASK_def MAP_FIXED_MASK_def MAP_ANONYMOUS_MASK_def
  MAP_32BIT_MASK_def MAP_GROWSDOWN_MASK_def MAP_DENYWRITE_MASK_def MAP_EXECUTABLE_MASK_def
  MAP_LOCKED_MASK_def MAP_NORESERVE_MASK_def MAP_POPULATE_MASK_def MAP_NONBLOCK_MASK_def
  MAP_STACK_MASK_def MAP_HUGETLB_MASK_def MAP_SYNC_MASK_def MAP_FIXED_NOREPLACE_MASK_def
  F_OK_MASK_def X_OK_MASK_def W_OK_MASK_def R_OK_MASK_def AT_SYMLINK_NOFOLLOW_MASK_def
  AT_EACCESS_MASK_def AT_NO_AUTOMOUNT_MASK_def AT_EMPTY_PATH_MASK_def SEEK_SET_def SEEK_CUR_def
  SEEK_END_def SEEK_DATA_def SEEK_HOLE_def

subsection \<open>The program\<close>

text \<open>The loop over a table of masks: \<open>parts\<close> grows by the name of every mask that is contained in
  what remains of the word, and its bits are taken out.\<close>

fun scan_flags :: "(u64 \<times> string) list \<Rightarrow> string list \<times> u64 \<Rightarrow> string list \<times> u64" where
  "scan_flags [] st = st"
| "scan_flags ((bits, name) # specs) (parts, remaining) =
     scan_flags specs
       (if remaining AND bits = bits then (parts @ [name], remaining AND NOT bits)
        else (parts, remaining))"

definition push_remaining :: "string list \<times> u64 \<Rightarrow> string list" where
  "push_remaining st =
     (case st of (parts, remaining) \<Rightarrow>
        if remaining \<noteq> 0 then parts @ [hex0x (unat remaining)] else parts)"

definition with_word :: "string list \<Rightarrow> u64 \<Rightarrow> string" where
  "with_word parts w = join ''|'' parts @ ''('' @ hex0x (unat w) @ '')''"

definition open_flag_specs :: "(u64 \<times> string) list" where
  "open_flag_specs =
     [(O_CREAT_MASK, ''O_CREAT''), (O_EXCL_MASK, ''O_EXCL''), (O_NOCTTY_MASK, ''O_NOCTTY''),
      (O_TRUNC_MASK, ''O_TRUNC''), (O_APPEND_MASK, ''O_APPEND''), (O_NONBLOCK, ''O_NONBLOCK''),
      (O_DIRECT_MASK, ''O_DIRECT''), (O_SYNC_MASK, ''O_SYNC''), (O_DSYNC_MASK, ''O_DSYNC''),
      (O_LARGEFILE_MASK, ''O_LARGEFILE''), (O_DIRECTORY_MASK, ''O_DIRECTORY''),
      (O_NOFOLLOW_MASK, ''O_NOFOLLOW''), (O_NOATIME_MASK, ''O_NOATIME''),
      (O_CLOEXEC_MASK, ''O_CLOEXEC''), (O_PATH_MASK, ''O_PATH'')]"

definition open_access_part :: "u64 \<Rightarrow> string list" where
  "open_access_part acc =
     (if acc = 0 then [''O_RDONLY'']
      else if acc = O_WRONLY_MASK then [''O_WRONLY'']
      else if acc = O_RDWR_MASK then [''O_RDWR'']
      else [''O_ACCMODE'' @ ''('' @ hex0x (unat acc) @ '')''])"

definition format_open_flags :: "u64 \<Rightarrow> string" where
  "format_open_flags flags =
     (let parts = open_access_part (flags AND O_ACCMODE_MASK);
          remaining = flags AND NOT O_ACCMODE_MASK;
          (parts, remaining) =
            (if remaining AND O_TMPFILE_MASK = O_TMPFILE_MASK then
               (parts @ [''O_TMPFILE''], remaining AND NOT O_TMPFILE_MASK)
             else (parts, remaining))
      in with_word (push_remaining (scan_flags open_flag_specs (parts, remaining))) flags)"

definition format_dup3_flags :: "u64 \<Rightarrow> string" where
  "format_dup3_flags flags =
     (if flags = 0 then ''0''
      else with_word (push_remaining (scan_flags [(O_CLOEXEC_MASK, ''O_CLOEXEC'')] ([], flags))) flags)"

definition mmap_prot_specs :: "(u64 \<times> string) list" where
  "mmap_prot_specs =
     [(PROT_READ_MASK, ''PROT_READ''), (PROT_WRITE_MASK, ''PROT_WRITE''),
      (PROT_EXEC_MASK, ''PROT_EXEC''), (PROT_SEM_MASK, ''PROT_SEM''),
      (PROT_GROWSDOWN_MASK, ''PROT_GROWSDOWN''), (PROT_GROWSUP_MASK, ''PROT_GROWSUP'')]"

definition format_mmap_prot :: "u64 \<Rightarrow> string" where
  "format_mmap_prot prot =
     (if prot = PROT_NONE_MASK then ''PROT_NONE(0x0)''
      else with_word (push_remaining (scan_flags mmap_prot_specs ([], prot))) prot)"

definition mmap_flag_specs :: "(u64 \<times> string) list" where
  "mmap_flag_specs =
     [(MAP_FIXED_MASK, ''MAP_FIXED''), (MAP_ANONYMOUS_MASK, ''MAP_ANONYMOUS''),
      (MAP_32BIT_MASK, ''MAP_32BIT''), (MAP_GROWSDOWN_MASK, ''MAP_GROWSDOWN''),
      (MAP_DENYWRITE_MASK, ''MAP_DENYWRITE''), (MAP_EXECUTABLE_MASK, ''MAP_EXECUTABLE''),
      (MAP_LOCKED_MASK, ''MAP_LOCKED''), (MAP_NORESERVE_MASK, ''MAP_NORESERVE''),
      (MAP_POPULATE_MASK, ''MAP_POPULATE''), (MAP_NONBLOCK_MASK, ''MAP_NONBLOCK''),
      (MAP_STACK_MASK, ''MAP_STACK''), (MAP_HUGETLB_MASK, ''MAP_HUGETLB''),
      (MAP_SYNC_MASK, ''MAP_SYNC''), (MAP_FIXED_NOREPLACE_MASK, ''MAP_FIXED_NOREPLACE'')]"

definition mmap_type_part :: "u64 \<Rightarrow> string list" where
  "mmap_type_part map_type =
     (if map_type = MAP_SHARED_MASK then [''MAP_SHARED'']
      else if map_type = MAP_PRIVATE_MASK then [''MAP_PRIVATE'']
      else if map_type = MAP_SHARED_VALIDATE_MASK then [''MAP_SHARED_VALIDATE'']
      else if map_type = 0 then []
      else [''MAP_TYPE'' @ ''('' @ hex0x (unat map_type) @ '')''])"

definition format_mmap_flags :: "u64 \<Rightarrow> string" where
  "format_mmap_flags flags =
     (if flags = 0 then ''0''
      else
        let map_type = flags AND MAP_TYPE_MASK;
            remaining = flags AND NOT MAP_TYPE_MASK;
            parts = mmap_type_part map_type;
            parts = push_remaining (scan_flags mmap_flag_specs (parts, remaining))
        in if parts = [] then hex0x (unat flags) else with_word parts flags)"

definition access_mode_specs :: "(u64 \<times> string) list" where
  "access_mode_specs = [(R_OK_MASK, ''R_OK''), (W_OK_MASK, ''W_OK''), (X_OK_MASK, ''X_OK'')]"

definition format_access_mode :: "u64 \<Rightarrow> string" where
  "format_access_mode mode =
     (if mode = F_OK_MASK then ''F_OK(0x0)''
      else with_word (push_remaining (scan_flags access_mode_specs ([], mode))) mode)"

definition format_named_at_flags :: "u64 \<Rightarrow> (u64 \<times> string) list \<Rightarrow> string" where
  "format_named_at_flags flags specs =
     (if flags = 0 then ''0''
      else with_word (push_remaining (scan_flags specs ([], flags))) flags)"

definition newfstatat_specs :: "(u64 \<times> string) list" where
  "newfstatat_specs =
     [(AT_SYMLINK_NOFOLLOW_MASK, ''AT_SYMLINK_NOFOLLOW''), (AT_NO_AUTOMOUNT_MASK, ''AT_NO_AUTOMOUNT''),
      (AT_EMPTY_PATH_MASK, ''AT_EMPTY_PATH'')]"

definition faccessat_specs :: "(u64 \<times> string) list" where
  "faccessat_specs =
     [(AT_EACCESS_MASK, ''AT_EACCESS''), (AT_SYMLINK_NOFOLLOW_MASK, ''AT_SYMLINK_NOFOLLOW''),
      (AT_EMPTY_PATH_MASK, ''AT_EMPTY_PATH'')]"

definition format_newfstatat_flags :: "u64 \<Rightarrow> string" where
  "format_newfstatat_flags flags = format_named_at_flags flags newfstatat_specs"

definition format_faccessat_flags :: "u64 \<Rightarrow> string" where
  "format_faccessat_flags flags = format_named_at_flags flags faccessat_specs"

definition format_lseek_whence :: "u64 \<Rightarrow> string" where
  "format_lseek_whence whence =
     (if whence = SEEK_SET then ''SEEK_SET(0x0)''
      else if whence = SEEK_CUR then ''SEEK_CUR(0x1)''
      else if whence = SEEK_END then ''SEEK_END(0x2)''
      else if whence = SEEK_DATA then ''SEEK_DATA(0x3)''
      else if whence = SEEK_HOLE then ''SEEK_HOLE(0x4)''
      else hex0x (unat whence))"

subsection \<open>Reading the printed parts back\<close>

text \<open>The value of one printed part: a known name, or a number after \<open>0x\<close>, possibly inside the
  parentheses of a type field.\<close>

definition hex_value :: "string \<Rightarrow> u64 option" where
  "hex_value s =
     (if starts_with s ''0x'' then map_option of_nat (parse_digits 16 (drop 2 s)) else None)"

definition part_value :: "(u64 \<times> string) list \<Rightarrow> string \<Rightarrow> u64 option" where
  "part_value names s =
     (case map_of (map (\<lambda>(m, n). (n, m)) names) s of
        Some m \<Rightarrow> Some m
      | None \<Rightarrow>
          (case hex_value s of
             Some w \<Rightarrow> Some w
           | None \<Rightarrow> hex_value (takeWhile (\<lambda>c. c \<noteq> CHR '')'') (tl (dropWhile (\<lambda>c. c \<noteq> CHR ''('') s)))))"

fun or_parts :: "(u64 \<times> string) list \<Rightarrow> string list \<Rightarrow> u64 option" where
  "or_parts names [] = Some 0"
| "or_parts names (p # ps) =
     (case (part_value names p, or_parts names ps) of
        (Some a, Some b) \<Rightarrow> Some (a OR b) | _ \<Rightarrow> None)"

text \<open>A printed flag word says what it prints: its parts, joined by bars, stand for the word.\<close>

definition flags_text :: "(u64 \<times> string) list \<Rightarrow> u64 \<Rightarrow> string \<Rightarrow> bool" where
  "flags_text names w s \<longleftrightarrow> (\<exists>parts. s = with_word parts w \<and> or_parts names parts = Some w)"

lemma or_parts_append:
  "or_parts names (ps @ qs) =
     (case (or_parts names ps, or_parts names qs) of (Some a, Some b) \<Rightarrow> Some (a OR b) | _ \<Rightarrow> None)"
  by (induction ps) (auto simp: or.assoc split: option.splits)

lemma hex_value_hex0x: "hex_value (hex0x (unat w)) = Some w"
  by (simp add: hex_value_def hex0x_def starts_with_def parse_digits_radix)

lemma split_mask:
  fixes w m :: u64
  assumes "w AND m = m"
  shows "(w AND NOT m) OR m = w"
proof (rule bit_word_eqI)
  fix n
  have "bit m n \<Longrightarrow> bit w n" using assms by (metis bit_and_iff)
  then show "n < LENGTH(64) \<Longrightarrow> bit ((w AND NOT m) OR m) n = bit w n" by (auto simp: bit_simps)
qed

text \<open>Names whose masks are as the table says, and that are not mistaken for numbers.\<close>

definition names_ok :: "(u64 \<times> string) list \<Rightarrow> (u64 \<times> string) list \<Rightarrow> bool" where
  "names_ok names specs \<longleftrightarrow> list_all (\<lambda>(m, n). part_value names n = Some m) specs"

lemma scan_flags_value:
  assumes "names_ok names specs" and "or_parts names parts = Some a"
    and "scan_flags specs (parts, remaining) = (parts', remaining')"
  shows "\<exists>b. or_parts names parts' = Some b \<and> b OR remaining' = a OR remaining"
  using assms
proof (induction specs arbitrary: parts remaining a)
  case (Cons s specs)
  obtain m n where s: "s = (m, n)" by (cases s)
  from Cons.prems(1) have n: "names_ok names specs" "part_value names n = Some m"
    by (simp_all add: names_ok_def s)
  show ?case
  proof (cases "remaining AND m = m")
    case True
    have "or_parts names (parts @ [n]) = Some (a OR m)"
      using Cons.prems(2) n(2) by (simp add: or_parts_append)
    from Cons.IH [OF n(1) this] Cons.prems(3) True obtain b where
      "or_parts names parts' = Some b" "b OR remaining' = (a OR m) OR (remaining AND NOT m)"
      by (auto simp: s)
    then show ?thesis using split_mask [OF True] by (auto simp: or.assoc or.commute or.left_commute)
  next
    case False
    with Cons.IH [OF n(1) Cons.prems(2)] Cons.prems(3) show ?thesis by (simp add: s)
  qed
qed simp

lemma hex_not_name:
  assumes "list_all (\<lambda>(m, n). \<not> starts_with n ''0x'') names"
  shows "part_value names (hex0x (unat w)) = Some w"
proof -
  have "hex0x (unat w) \<notin> snd ` set names"
    using assms by (auto simp: list_all_iff hex0x_def starts_with_def split_beta)
  then have "map_of (map (\<lambda>(m, n). (n, m)) names) (hex0x (unat w)) = None"
    by (force simp: map_of_eq_None_iff)
  then show ?thesis by (simp add: part_value_def hex_value_hex0x)
qed

lemma push_remaining_value:
  assumes "list_all (\<lambda>(m, n). \<not> starts_with n ''0x'') names" and "names_ok names specs"
    and "or_parts names parts = Some a"
  shows "or_parts names (push_remaining (scan_flags specs (parts, remaining))) = Some (a OR remaining)"
proof -
  obtain parts' remaining' where sc: "scan_flags specs (parts, remaining) = (parts', remaining')"
    by (cases "scan_flags specs (parts, remaining)")
  from scan_flags_value [OF assms(2,3) sc] obtain b where
    "or_parts names parts' = Some b" "b OR remaining' = a OR remaining" by blast
  then show ?thesis
    using hex_not_name [OF assms(1), of remaining']
    by (auto simp: push_remaining_def sc or_parts_append)
qed

text \<open>A type field in the low bits, and the rest of the word.\<close>

lemma split_field: "(w AND m) OR (w AND NOT m) = (w :: u64)"
  by (rule bit_word_eqI) (auto simp: bit_simps)

lemma type_part_value:
  assumes "part_value names (p @ ''('' @ hex0x (unat w) @ '')'') = Some w"
  shows "or_parts names [p @ ''('' @ hex0x (unat w) @ '')''] = Some w"
  using assms by simp

lemma field_value:
  assumes "map_of (map (\<lambda>(m, n). (n, m)) names) (p @ ''('' @ hex0x (unat w) @ '')'') = None"
    and "CHR ''('' \<notin> set p" and "\<not> starts_with (p @ ''('' @ hex0x (unat w) @ '')'') ''0x''"
  shows "part_value names (p @ ''('' @ hex0x (unat w) @ '')'') = Some w"
proof -
  have "list_all (\<lambda>c. c \<noteq> CHR '')'') (radix 16 (unat w))"
    by (rule list.pred_mono_strong [OF radix_chars]) (auto simp: is_hex_digit_def)
  then have "takeWhile (\<lambda>c. c \<noteq> CHR '')'') (hex0x (unat w) @ '')'') = hex0x (unat w)"
    by (simp add: hex0x_def takeWhile_append2 list_all_iff)
  moreover have "dropWhile (\<lambda>c. c \<noteq> CHR ''('') (p @ ''('' @ hex0x (unat w) @ '')'') =
      ''('' @ hex0x (unat w) @ '')''"
    using assms(2) by (simp add: dropWhile_append2 dropWhile_append3 split: if_splits) (metis dropWhile_append2 dropWhile.simps(2))
  ultimately show ?thesis
    using assms(1,3) by (simp add: part_value_def hex_value_def [of "p @ _"] hex_value_hex0x)
qed

definition open_flag_names :: "(u64 \<times> string) list" where
  "open_flag_names =
     [(0, ''O_RDONLY''), (O_WRONLY_MASK, ''O_WRONLY''), (O_RDWR_MASK, ''O_RDWR''),
      (O_TMPFILE_MASK, ''O_TMPFILE'')] @ open_flag_specs"

lemma open_names_ok: "names_ok open_flag_names open_flag_names"
  "list_all (\<lambda>(m, n). \<not> starts_with n ''0x'') open_flag_names"
  by (simp_all add: names_ok_def part_value_def open_flag_names_def open_flag_specs_def starts_with_def)

definition mmap_flag_names :: "(u64 \<times> string) list" where
  "mmap_flag_names =
     [(MAP_SHARED_MASK, ''MAP_SHARED''), (MAP_PRIVATE_MASK, ''MAP_PRIVATE''),
      (MAP_SHARED_VALIDATE_MASK, ''MAP_SHARED_VALIDATE'')] @ mmap_flag_specs"

lemma mmap_names_ok: "names_ok mmap_flag_names mmap_flag_names"
  "list_all (\<lambda>(m, n). \<not> starts_with n ''0x'') mmap_flag_names"
  by (simp_all add: names_ok_def part_value_def mmap_flag_names_def mmap_flag_specs_def starts_with_def)

lemma names_ok_append: "names_ok names (xs @ ys) \<longleftrightarrow> names_ok names xs \<and> names_ok names ys"
  by (simp add: names_ok_def)

text \<open>A table whose own names are its dictionary.\<close>

definition specs_ok :: "(u64 \<times> string) list \<Rightarrow> bool" where
  "specs_ok specs \<longleftrightarrow> names_ok specs specs \<and> list_all (\<lambda>(m, n). \<not> starts_with n ''0x'') specs"

lemma specs_text:
  assumes "specs_ok specs"
  shows "flags_text specs w (with_word (push_remaining (scan_flags specs ([], w))) w)"
  using push_remaining_value [of specs specs "[]" 0 w] assms
  by (auto simp: flags_text_def specs_ok_def)

lemma all_specs_ok:
  "specs_ok mmap_prot_specs" "specs_ok access_mode_specs" "specs_ok newfstatat_specs"
  "specs_ok faccessat_specs" "specs_ok [(O_CLOEXEC_MASK, ''O_CLOEXEC'')]"
  by (simp_all add: specs_ok_def names_ok_def part_value_def starts_with_def mmap_prot_specs_def
      access_mode_specs_def newfstatat_specs_def faccessat_specs_def)

text \<open>No bit of the flags of an \<open>open\<close> is dropped, invented or misnamed in the trace: the names
  and the remainder that are printed stand for exactly the flag word, whatever it is.\<close>

theorem open_flags_text: "flags_text open_flag_names flags (format_open_flags flags)"
proof -
  let ?acc = "flags AND O_ACCMODE_MASK" and ?rest = "flags AND NOT O_ACCMODE_MASK"
  let ?p = "open_access_part ?acc"
  have sp: "names_ok open_flag_names open_flag_specs" "part_value open_flag_names ''O_RDONLY'' = Some 0"
    "part_value open_flag_names ''O_WRONLY'' = Some O_WRONLY_MASK"
    "part_value open_flag_names ''O_RDWR'' = Some O_RDWR_MASK"
    "part_value open_flag_names ''O_TMPFILE'' = Some O_TMPFILE_MASK"
    using open_names_ok(1) by (simp_all add: names_ok_def open_flag_names_def)
  have f: "part_value open_flag_names (''O_ACCMODE'' @ ''('' @ hex0x (unat ?acc) @ '')'') = Some ?acc"
    by (rule field_value) (simp_all add: open_flag_names_def open_flag_specs_def starts_with_def)
  have p: "or_parts open_flag_names ?p = Some ?acc"
    using sp f by (simp add: open_access_part_def)
  let ?q = "if ?rest AND O_TMPFILE_MASK = O_TMPFILE_MASK then (?p @ [''O_TMPFILE''], ?rest AND NOT O_TMPFILE_MASK)
    else (?p, ?rest)"
  have "or_parts open_flag_names (push_remaining (scan_flags open_flag_specs ?q)) = Some flags"
  proof (cases "?rest AND O_TMPFILE_MASK = O_TMPFILE_MASK")
    case True
    have q: "or_parts open_flag_names (?p @ [''O_TMPFILE'']) = Some (?acc OR O_TMPFILE_MASK)"
      using p sp(5) by (simp only: or_parts_append option.case or_parts.simps) simp
    have "(?acc OR O_TMPFILE_MASK) OR (?rest AND NOT O_TMPFILE_MASK) = ?acc OR ?rest"
      using split_mask [OF True] by (simp only: or.assoc or.commute [of O_TMPFILE_MASK])
    with push_remaining_value [OF open_names_ok(2) sp(1) q] True show ?thesis
      by (simp only: split_field if_P [OF refl])
  next
    case False
    with push_remaining_value [OF open_names_ok(2) sp(1) p] show ?thesis
      by (simp only: split_field if_False)
  qed
  moreover have "format_open_flags flags = with_word (push_remaining (scan_flags open_flag_specs ?q)) flags"
    by (simp add: format_open_flags_def Let_def)
  ultimately show ?thesis by (auto simp only: flags_text_def)
qed

text \<open>The same for the words of \<open>mmap\<close>, \<open>access\<close>, \<open>dup3\<close> and the \<open>*at\<close> calls; only the zero
  word has a spelling of its own.\<close>

theorem other_flags_text:
  assumes "w \<noteq> 0"
  shows "flags_text mmap_flag_names w (format_mmap_flags w) \<and>
    flags_text mmap_prot_specs w (format_mmap_prot w) \<and>
    flags_text access_mode_specs w (format_access_mode w) \<and>
    flags_text [(O_CLOEXEC_MASK, ''O_CLOEXEC'')] w (format_dup3_flags w) \<and>
    flags_text newfstatat_specs w (format_newfstatat_flags w) \<and>
    flags_text faccessat_specs w (format_faccessat_flags w)"
proof -
  let ?t = "w AND MAP_TYPE_MASK" and ?rest = "w AND NOT MAP_TYPE_MASK"
  let ?p = "mmap_type_part ?t"
  have sp: "names_ok mmap_flag_names mmap_flag_specs"
    "part_value mmap_flag_names ''MAP_SHARED'' = Some MAP_SHARED_MASK"
    "part_value mmap_flag_names ''MAP_PRIVATE'' = Some MAP_PRIVATE_MASK"
    "part_value mmap_flag_names ''MAP_SHARED_VALIDATE'' = Some MAP_SHARED_VALIDATE_MASK"
    using mmap_names_ok(1) by (simp_all add: names_ok_def mmap_flag_names_def)
  have f: "part_value mmap_flag_names (''MAP_TYPE'' @ ''('' @ hex0x (unat ?t) @ '')'') = Some ?t"
    by (rule field_value) (simp_all add: mmap_flag_names_def mmap_flag_specs_def starts_with_def)
  have p: "or_parts mmap_flag_names ?p = Some ?t" using sp f by (simp add: mmap_type_part_def)
  let ?parts = "push_remaining (scan_flags mmap_flag_specs (?p, ?rest))"
  have v: "or_parts mmap_flag_names ?parts = Some w"
    using push_remaining_value [OF mmap_names_ok(2) sp(1) p, of ?rest] by (simp only: split_field)
  with assms have "?parts \<noteq> []" by auto
  with assms have "format_mmap_flags w = with_word ?parts w"
    by (simp add: format_mmap_flags_def Let_def)
  with v have "flags_text mmap_flag_names w (format_mmap_flags w)" by (auto simp only: flags_text_def)
  with assms all_specs_ok [THEN specs_text, of w] show ?thesis
    by (simp add: format_mmap_prot_def format_access_mode_def format_dup3_flags_def
        format_newfstatat_flags_def format_faccessat_flags_def format_named_at_flags_def
        PROT_NONE_MASK_def F_OK_MASK_def)
qed

theorem other_flags_text_witness:
  "flags_text mmap_prot_specs 3 (format_mmap_prot 3) \<and>
   format_mmap_prot 3 = ''PROT_READ|PROT_WRITE(0x3)''"
proof -
  have "format_mmap_prot 3 = ''PROT_READ|PROT_WRITE(0x3)''" by code_simp
  with other_flags_text [of 3] show ?thesis by simp
qed

end
