(* ===== verification/Ptrace_Mem.thy ===== *)
theory Ptrace_Mem
  imports Ioctl_Meta Config
begin

text \<open>
  The parts of \<open>src/hook/ptrace.rs\<close> that read the traced process: strings and buffers through
  \<open>process_vm_readv\<close> (the parameter \<open>rd\<close>, already applied to the process), the memory map of
  the tracing library, and the test whether a system call comes from the library itself.
\<close>

subsection \<open>The program\<close>

definition read_remote_bytes :: "remote \<Rightarrow> u64 \<Rightarrow> nat \<Rightarrow> u8 list option" where
  "read_remote_bytes rd remote_addr len =
     (if len = 0 then Some []
      else case rd remote_addr len of
             None \<Rightarrow> None
           | Some out \<Rightarrow> if out = [] then None else Some (take len out))"

definition CSTRING_CHUNK :: nat where "CSTRING_CHUNK = 256"
definition CSTRING_MAX_LEN :: nat where "CSTRING_MAX_LEN = 4096"

text \<open>The loop of \<open>read_remote_cstring\<close>: whether the terminator was found, and the bytes so far.\<close>

function cstring_loop :: "remote \<Rightarrow> u64 \<Rightarrow> u8 list \<Rightarrow> bool \<times> u8 list" where
  "cstring_loop rd cursor out =
     (if length out < CSTRING_MAX_LEN then
        let want = min (CSTRING_MAX_LEN - length out) CSTRING_CHUNK in
        case read_remote_bytes rd cursor want of
          None \<Rightarrow> (False, out)
        | Some bytes \<Rightarrow>
            (if bytes = [] then (False, out)
             else if 0 \<in> set bytes then (True, out @ takeWhile (\<lambda>b. b \<noteq> 0) bytes)
             else if length bytes < want then (False, out @ bytes)
             else cstring_loop rd
                    (of_nat (saturating_add (2 ^ 64 - 1) (unat cursor) (length bytes))) (out @ bytes))
      else (False, out))"
  by pat_completeness auto
termination
  by (relation "measure (\<lambda>(rd, cursor, out). CSTRING_MAX_LEN - length out)")
    (auto simp flip: length_greater_0_conv)

declare cstring_loop.simps [simp del]

definition read_remote_cstring :: "remote \<Rightarrow> u64 \<Rightarrow> string" where
  "read_remote_cstring rd addr =
     (if addr = 0 then ''<null>''
      else case cstring_loop rd addr [] of
             (found, out) \<Rightarrow>
               if \<not> found \<and> out = [] then ''<unreadable@'' @ hex0x (unat addr) @ ''>''
               else from_utf8_lossy (bytes_string out))"

definition preview_byte :: "u8 \<Rightarrow> string" where
  "preview_byte b =
     (let c = byte_char b in
      if c = bslash then [bslash, bslash]
      else if c = dquote then [bslash, dquote]
      else if c = newline then [bslash, CHR ''n'']
      else if c = creturn then [bslash, CHR ''r'']
      else if c = tab then [bslash, CHR ''t'']
      else if 0x20 \<le> b \<and> b \<le> 0x7e then [c]
      else [bslash, CHR ''x''] @ hex_pad 2 (unat b))"

definition bytes_to_ascii_preview :: "u8 list \<Rightarrow> string" where
  "bytes_to_ascii_preview bytes = concat (map preview_byte bytes)"

definition format_buffer_preview :: "Config \<Rightarrow> remote \<Rightarrow> u64 \<Rightarrow> u64 \<Rightarrow> i64 \<Rightarrow> string" where
  "format_buffer_preview cfg rd buf_addr req_count ret_norm =
     (if ret_norm \<le> 0 then []
      else
        let observed = nat ret_norm;
            requested = unat req_count;
            expected = min observed requested
        in if expected = 0 then []
           else
             let preview_len = min expected (cfg_max_blob cfg) in
             if preview_len = 0 then '', data_truncated=true''
             else case read_remote_bytes rd buf_addr preview_len of
                    None \<Rightarrow> '', data='' @ [dquote] @ ''<unreadable@'' @ hex0x (unat buf_addr) @ ''>'' @ [dquote]
                  | Some bytes \<Rightarrow>
                      let ascii = bytes_to_ascii_preview bytes;
                          truncated = (length bytes < expected \<or> preview_len < expected)
                      in if truncated then
                           '', data='' @ [dquote] @ ascii @ [dquote] @ '', data_truncated=true''
                         else '', data='' @ [dquote] @ ascii @ [dquote])"

text \<open>One line of \<open>/proc/pid/maps\<close>.\<close>

definition parse_range :: "string \<Rightarrow> (u64 \<times> u64) option" where
  "parse_range line =
     (if \<not> str_contains line ''cudatrace'' then None
      else case split_whitespace line of
             [] \<Rightarrow> None
           | range_raw # _ \<Rightarrow>
               (case split_once CHR ''-'' range_raw of
                  None \<Rightarrow> None
                | Some (start_raw, end_raw) \<Rightarrow>
                    (case (parse_unsigned 64 16 start_raw, parse_unsigned 64 16 end_raw) of
                       (Some s, Some e) \<Rightarrow>
                         if (of_nat s :: u64) < of_nat e then Some (of_nat s, of_nat e) else None
                     | _ \<Rightarrow> None)))"

text \<open>The text of the file is an argument; \<open>None\<close> when it cannot be read.\<close>

definition load_cudatrace_ranges :: "string option \<Rightarrow> (u64 \<times> u64) list" where
  "load_cudatrace_ranges maps =
     (case maps of None \<Rightarrow> [] | Some text \<Rightarrow> List.map_filter parse_range (lines text))"

definition in_ranges :: "u64 \<Rightarrow> (u64 \<times> u64) list \<Rightarrow> bool" where
  "in_ranges addr ranges \<longleftrightarrow> list_ex (\<lambda>(s, e). s \<le> addr \<and> addr < e) ranges"

definition STACK_WORDS_TO_SCAN :: nat where "STACK_WORDS_TO_SCAN = 16"

definition is_internal_syscall :: "remote \<Rightarrow> u64 \<Rightarrow> u64 \<Rightarrow> (u64 \<times> u64) list \<Rightarrow> bool" where
  "is_internal_syscall rd rip rsp ranges =
     (if ranges = [] then False
      else if in_ranges rip ranges then True
      else
        let want = STACK_WORDS_TO_SCAN * 8 in
        case read_remote_bytes rd rsp want of
          None \<Rightarrow> False
        | Some bytes \<Rightarrow> list_ex (\<lambda>chunk. in_ranges (get_u64 chunk) ranges) (chunks_exact 8 bytes))"

subsection \<open>What the code needs of \<open>process_vm_readv\<close>\<close>

text \<open>The memory of the process is a partial map. The manual page: a call does not split an element of its
  vectors, and the code passes one element, so a read returns all the bytes asked for, or fails if
  one of them is not mapped.\<close>

definition vm_contract :: "remote \<Rightarrow> (u64 \<Rightarrow> u8 option) \<Rightarrow> bool" where
  "vm_contract rd mem \<longleftrightarrow> (\<forall>a n. 0 < n \<longrightarrow>
     rd a n = (if \<forall>i < n. mem (a + of_nat i) \<noteq> None
       then Some (map (\<lambda>i. the (mem (a + of_nat i))) [0..<n]) else None))"

text \<open>The C string \<open>s\<close> with its terminator is in memory at \<open>addr\<close>.\<close>

definition cstring_at :: "(u64 \<Rightarrow> u8 option) \<Rightarrow> u64 \<Rightarrow> u8 list \<Rightarrow> bool" where
  "cstring_at mem addr s \<longleftrightarrow>
     0 \<notin> set s \<and> unat addr + length s < 2 ^ 64 \<and>
     (\<forall>i \<le> length s. mem (addr + of_nat i) = Some ((s @ [0]) ! i))"

text \<open>The pieces of 256 bytes in which a string is read, and how many of the first \<open>n\<close> can be read
  before one cannot.\<close>

definition chunk_mapped :: "(u64 \<Rightarrow> u8 option) \<Rightarrow> u64 \<Rightarrow> nat \<Rightarrow> bool" where
  "chunk_mapped mem addr j \<longleftrightarrow> (\<forall>i < 256. mem (addr + of_nat (256 * j + i)) \<noteq> None)"

definition readable_chunks :: "(u64 \<Rightarrow> u8 option) \<Rightarrow> u64 \<Rightarrow> nat \<Rightarrow> nat" where
  "readable_chunks mem addr n = length (takeWhile (chunk_mapped mem addr) [0..<n])"

lemma read_chunk:
  assumes "vm_contract rd mem"
  shows "read_remote_bytes rd (addr + of_nat (256 * j)) 256 =
    (if chunk_mapped mem addr j then Some (map (\<lambda>i. the (mem (addr + of_nat (256 * j + i)))) [0..<256]) else None)"
proof -
  have a: "addr + of_nat (256 * j) + of_nat i = addr + of_nat (256 * j + i)" for i by (simp add: add.assoc)
  have "(map f [0..<256] = []) = False" for f :: "nat \<Rightarrow> u8" by simp
  then show ?thesis
    using assms unfolding read_remote_bytes_def vm_contract_def chunk_mapped_def
    by (simp only: a) simp
qed

lemma unat_plus_nat:
  fixes a :: u64
  assumes "unat a + i < 2 ^ 64"
  shows "unat (a + of_nat i) = unat a + i"
  using assms by (simp add: unat_word_ariths unat_of_nat)

lemma cstring_loop_chunks:
  assumes c: "vm_contract rd mem" and s: "cstring_at mem addr s" and l: "length s < CSTRING_MAX_LEN"
    and n: "n = length s div 256 + 1" and "256 * j \<le> length s"
    and "k = j + length (takeWhile (chunk_mapped mem addr) [j..<n])"
  shows "cstring_loop rd (addr + of_nat (256 * j)) (take (256 * j) s) = (k = n, if k = n then s else take (256 * k) s)"
  using assms(5,6)
proof (induction "n - j" arbitrary: j rule: less_induct)
  case less
  have jn: "j < n" using less.prems(1) n by linarith
  then have up: "[j..<n] = j # [Suc j..<n]" by (rule upt_conv_Cons)
  have len: "length (take (256 * j) s) = 256 * j" using less.prems(1) by simp
  have "256 * j + 256 \<le> CSTRING_MAX_LEN" using less.prems(1) l by (simp add: CSTRING_MAX_LEN_def)
  then have w: "min (CSTRING_MAX_LEN - 256 * j) CSTRING_CHUNK = 256" "256 * j < CSTRING_MAX_LEN"
    by (simp_all add: CSTRING_CHUNK_def)
  let ?bs = "map (\<lambda>i. the (mem (addr + of_nat (256 * j + i)))) [0..<256]"
  have at: "?bs ! i = (s @ [0]) ! (256 * j + i)" if "i < 256" "256 * j + i \<le> length s" for i
  proof -
    have "mem (addr + of_nat (256 * j + i)) = Some ((s @ [0]) ! (256 * j + i))"
      using s that(2) unfolding cstring_at_def by blast
    then show ?thesis using that(1) by (simp del: of_nat_add of_nat_mult)
  qed
  have loop: "cstring_loop rd (addr + of_nat (256 * j)) (take (256 * j) s) =
      (if \<not> chunk_mapped mem addr j then (False, take (256 * j) s)
       else if 0 \<in> set ?bs then (True, take (256 * j) s @ takeWhile (\<lambda>b. b \<noteq> 0) ?bs)
       else cstring_loop rd (of_nat (saturating_add (2 ^ 64 - 1) (unat (addr + of_nat (256 * j))) 256))
              (take (256 * j) s @ ?bs))"
  proof (cases "chunk_mapped mem addr j")
    case True
    with read_chunk [OF c] have "read_remote_bytes rd (addr + of_nat (256 * j)) 256 = Some ?bs" by presburger
    moreover have "(?bs = []) = False" "length ?bs = 256" by simp_all
    ultimately show ?thesis
      by (subst cstring_loop.simps)
        (simp only: len w Let_def option.case True if_True if_False not_True_eq_False less_irrefl)
  next
    case False
    with read_chunk [OF c] have "read_remote_bytes rd (addr + of_nat (256 * j)) 256 = None" by presburger
    with False show ?thesis
      by (subst cstring_loop.simps) (simp only: len w Let_def option.case if_True not_False_eq_True)
  qed
  show ?case
  proof (cases "chunk_mapped mem addr j")
    case False
    with less.prems(2) up jn loop show ?thesis by simp
  next
    case mapped: True
    show ?thesis
    proof (cases "256 * Suc j \<le> length s")
      case True
      have e: "?bs = take 256 (drop (256 * j) s)"
        using True at by (intro nth_equalityI) (simp_all add: nth_append)
      then have "0 \<notin> set ?bs" using s by (metis cstring_at_def in_set_dropD in_set_takeD)
      moreover have "of_nat (saturating_add (2 ^ 64 - 1) (unat (addr + of_nat (256 * j))) 256) = addr + of_nat (256 * Suc j)"
      proof -
        have b: "unat addr + 256 * Suc j < 2 ^ 64" using s True by (simp add: cstring_at_def)
        then have "unat (addr + of_nat (256 * j)) = unat addr + 256 * j" by (intro unat_plus_nat) simp
        with b have "saturating_add (2 ^ 64 - 1) (unat (addr + of_nat (256 * j))) 256 = unat addr + 256 * Suc j"
          by (simp only: saturating_add_def min_def) simp
        then show ?thesis by simp
      qed
      moreover have "take (256 * j) s @ ?bs = take (256 * Suc j) s"
        unfolding e by (metis mult_Suc_right add.commute take_add)
      moreover have "cstring_loop rd (addr + of_nat (256 * Suc j)) (take (256 * Suc j) s) =
          (k = n, if k = n then s else take (256 * k) s)"
        using less.prems(2) up mapped True jn by (intro less.hyps) simp_all
      ultimately show ?thesis using loop mapped by simp
    next
      case False
      let ?m = "length s - 256 * j"
      have m: "?m < 256" "256 * j + ?m = length s" using False less.prems(1) by simp_all
      have "?bs ! i = s ! (256 * j + i)" if "i < ?m" for i
      proof -
        have "256 * j + i < length s" "i < 256" using that m by linarith+
        with at [of i] show ?thesis by (simp add: nth_append del: of_nat_add of_nat_mult)
      qed
      then have e: "take ?m ?bs = drop (256 * j) s"
        using m by (intro nth_equalityI) (simp_all del: of_nat_add of_nat_mult)
      have z: "?bs ! ?m = 0" using m at [of ?m] by simp
      have split: "?bs = drop (256 * j) s @ 0 # drop (Suc ?m) ?bs"
        using id_take_nth_drop [of ?m ?bs] m e z by simp
      have nz: "0 \<notin> set (drop (256 * j) s)" using s by (metis cstring_at_def in_set_dropD)
      have tw: "takeWhile (\<lambda>b. b \<noteq> 0) ?bs = drop (256 * j) s"
        by (subst split, subst takeWhile_append2) (use nz in auto)
      have zin: "0 \<in> set ?bs" by (subst split) simp
      have "n = Suc j" using False less.prems(1) n by simp
      then have "k = n" using less.prems(2) mapped by simp
      then show ?thesis using loop mapped by (simp only: tw zin) simp
    qed
  qed
qed

text \<open>C28. A path argument of the traced process is read in pieces of 256 bytes. If every piece up to the
  one with the terminator is mapped as a whole, the text is the C string up to its terminator, made
  valid UTF-8. Otherwise, even when the string itself is mapped up to its terminator, it is cut at
  the first piece that is not, and if that is the first piece it is shown as unreadable.\<close>

theorem read_remote_cstring_correct:
  assumes "vm_contract rd mem" and "cstring_at mem addr s" and "length s < CSTRING_MAX_LEN" and "addr \<noteq> 0"
    and "n = length s div 256 + 1"
  shows "read_remote_cstring rd addr =
    (if readable_chunks mem addr n = n then from_utf8_lossy (bytes_string s)
     else if readable_chunks mem addr n = 0 then ''<unreadable@'' @ hex0x (unat addr) @ ''>''
     else from_utf8_lossy (bytes_string (take (256 * readable_chunks mem addr n) s)))"
proof -
  let ?k = "readable_chunks mem addr n"
  have loop: "cstring_loop rd addr [] = (?k = n, if ?k = n then s else take (256 * ?k) s)"
    using cstring_loop_chunks [OF assms(1-3,5), of 0 ?k] by (simp add: readable_chunks_def)
  have "take (256 * ?k) s = [] \<longleftrightarrow> ?k = 0" if "?k \<noteq> n"
  proof -
    have "?k \<le> n" using length_takeWhile_le [of "chunk_mapped mem addr" "[0..<n]"] by (simp add: readable_chunks_def)
    with that assms(5) have "?k \<le> length s div 256" by simp
    then show ?thesis by auto
  qed
  with loop assms(4) show ?thesis by (simp add: read_remote_cstring_def)
qed

text \<open>A process whose mapped memory is one block of bytes.\<close>

definition block_mem :: "nat \<Rightarrow> u8 list \<Rightarrow> u64 \<Rightarrow> u8 option" where
  "block_mem base bs a =
     (if base \<le> unat a \<and> unat a < base + length bs then Some (bs ! (unat a - base)) else None)"

definition block_read :: "nat \<Rightarrow> u8 list \<Rightarrow> remote" where
  "block_read base bs a n =
     (if \<forall>i < n. block_mem base bs (a + of_nat i) \<noteq> None
      then Some (map (\<lambda>i. the (block_mem base bs (a + of_nat i))) [0..<n]) else None)"

lemma block_contract: "vm_contract (block_read base bs) (block_mem base bs)"
  by (simp add: vm_contract_def block_read_def)

text \<open>A path in the first bytes of a page, and the same path in the last bytes of one.\<close>

theorem read_remote_cstring_correct_witness:
  "(let page = [47, 97, 0] @ replicate 253 0 in
     read_remote_cstring (block_read 4096 page) 4096 = ''/a'') \<and>
   cstring_at (block_mem 4093 [47, 97, 0]) 4093 [47, 97] \<and>
   read_remote_cstring (block_read 4093 [47, 97, 0]) 4093 = ''<unreadable@0xffd>''"
proof -
  let ?page = "[47, 97, 0] @ replicate 253 0 :: u8 list"
  have s: "cstring_at (block_mem 4096 ?page) 4096 [47, 97]" "cstring_at (block_mem 4093 [47, 97, 0]) 4093 [47, 97]"
    by (simp_all add: cstring_at_def block_mem_def le_Suc_eq)
  have "block_mem 4096 ?page (4096 + of_nat i) \<noteq> None" if "i < 256" for i
    using that unat_plus_nat [of 4096 i] by (simp add: block_mem_def)
  then have k: "readable_chunks (block_mem 4096 ?page) 4096 1 = 1"
    by (simp add: readable_chunks_def chunk_mapped_def)
  have "block_mem 4093 [47, 97, 0] (4093 + of_nat (256 * 0 + 3)) = None" by (simp add: block_mem_def)
  then have "\<not> chunk_mapped (block_mem 4093 [47, 97, 0]) 4093 0"
    unfolding chunk_mapped_def not_all by (intro exI [of _ 3]) simp
  then have k': "readable_chunks (block_mem 4093 [47, 97, 0]) 4093 1 = 0" by (simp add: readable_chunks_def)
  have t: "from_utf8_lossy (bytes_string [47, 97]) = ''/a''" "hex0x 4093 = ''0xffd''" by code_simp+
  show ?thesis
    using read_remote_cstring_correct [OF block_contract s(1), of 1] read_remote_cstring_correct [OF block_contract s(2), of 1]
      k k' s(2)
    by (simp add: CSTRING_MAX_LEN_def t Let_def)
qed

text \<open>Reading the preview of a buffer back: the escapes of \<open>bytes_to_ascii_preview\<close>.\<close>

fun unpreview :: "string \<Rightarrow> u8 list option" where
  "unpreview [] = Some []"
| "unpreview (c # s) =
     (if c \<noteq> bslash then map_option ((#) (char_byte c)) (unpreview s)
      else case s of
             [] \<Rightarrow> None
           | e # s1 \<Rightarrow>
               (if e = bslash \<or> e = dquote then map_option ((#) (char_byte e)) (unpreview s1)
                else if e = CHR ''n'' then map_option ((#) 10) (unpreview s1)
                else if e = CHR ''r'' then map_option ((#) 13) (unpreview s1)
                else if e = CHR ''t'' then map_option ((#) 9) (unpreview s1)
                else if e = CHR ''x'' then
                  (case s1 of
                     h # l # s2 \<Rightarrow>
                       (case parse_digits 16 [h, l] of
                          Some n \<Rightarrow> map_option ((#) (of_nat n)) (unpreview s2) | None \<Rightarrow> None)
                   | _ \<Rightarrow> None)
                else None))"

lemma hex_pad_2: "\<exists>h l. hex_pad 2 (unat (b :: u8)) = [h, l] \<and> parse_digits 16 [h, l] = Some (unat b)"
  using hex_pad_parse [OF hex_length_byte [OF unat_less_256 [of b]]]
  by (auto simp: numeral_2_eq_2 length_Suc_conv)

lemma byte_char_eq: "byte_char b = c \<longleftrightarrow> b = char_byte c"
  by (metis byte_char_byte char_byte_char)

lemma unpreview_byte: "unpreview (preview_byte b @ s) = map_option ((#) b) (unpreview s)"
proof -
  obtain h l where hl: "hex_pad 2 (unat b) = [h, l]" "parse_digits 16 [h, l] = Some (unat b)"
    using hex_pad_2 by blast
  have "byte_char b = newline \<Longrightarrow> b = 10" "byte_char b = creturn \<Longrightarrow> b = 13" "byte_char b = tab \<Longrightarrow> b = 9"
    "byte_char b = bslash \<Longrightarrow> b = char_byte bslash" "byte_char b = dquote \<Longrightarrow> b = char_byte dquote"
    by (simp_all add: byte_char_eq char_byte_def)
  then show ?thesis using hl by (auto simp: preview_byte_def Let_def)
qed

lemma preview_byte_printable: "list_all (\<lambda>c. 32 \<le> ord c \<and> ord c \<le> 126) (preview_byte b)"
proof -
  have "list_all (\<lambda>c. 32 \<le> ord c \<and> ord c \<le> 126) (hex_pad 2 (unat b))"
    by (rule list.pred_mono_strong [OF hex_pad_chars]) (auto simp: is_hex_digit_def)
  then show ?thesis by (auto simp: preview_byte_def Let_def word_le_nat_alt)
qed

text \<open>A data preview in the trace is unambiguous: it has no raw quote or control character, so it
  cannot break the line it is in, and the bytes can be read back from it.\<close>

theorem preview_roundtrip:
  "unpreview (bytes_to_ascii_preview bs) = Some bs \<and>
   list_all (\<lambda>c. 32 \<le> ord c \<and> ord c \<le> 126) (bytes_to_ascii_preview bs)"
proof (induction bs)
  case Nil
  then show ?case by (simp add: bytes_to_ascii_preview_def)
next
  case (Cons b bs)
  have p: "bytes_to_ascii_preview (b # bs) = preview_byte b @ bytes_to_ascii_preview bs"
    by (simp add: bytes_to_ascii_preview_def)
  with Cons show ?case by (simp add: unpreview_byte preview_byte_printable)
qed

subsection \<open>Whose system call it is\<close>

lemma chunks_exact_concat:
  assumes "list_all (\<lambda>x. length x = n) xs" and "0 < n"
  shows "chunks_exact n (concat xs) = xs"
proof -
  have len: "length (concat ys) = n * length ys" if "list_all (\<lambda>x. length x = n) ys" for ys :: "'a list list"
    using that by (induction ys) simp_all
  have "take n (drop (i * n) (concat xs)) = xs ! i" if "i < length xs" for i
  proof -
    have a: "list_all (\<lambda>x. length x = n) (take i xs)" using assms(1) by (auto simp: list_all_length)
    have "concat xs = concat (take i xs) @ xs ! i @ concat (drop (Suc i) xs)"
      using id_take_nth_drop [OF that] by (metis concat.simps(2) concat_append)
    moreover have "length (concat (take i xs)) = i * n" using len [OF a] that by simp
    moreover have "length (xs ! i) = n" using assms(1) that by (simp add: list_all_length)
    ultimately show ?thesis by simp
  qed
  with len [OF assms(1)] assms(2) show ?thesis
    by (auto simp: chunks_exact_def intro!: nth_equalityI)
qed

text \<open>C33. A system call is taken for the library's own exactly when its instruction pointer, or one of
  the sixteen words on top of the stack, points into a mapping of the library.\<close>

theorem internal_syscall_iff:
  assumes "length stack = STACK_WORDS_TO_SCAN"
    and "rd rsp (8 * STACK_WORDS_TO_SCAN) = Some (concat (map (\<lambda>w. le_bytes 8 (unat w)) stack))"
  shows "is_internal_syscall rd rip rsp ranges \<longleftrightarrow>
    (\<exists>(s, e) \<in> set ranges. \<exists>a \<in> insert rip (set stack). s \<le> a \<and> a < e)"
proof -
  let ?b = "concat (map (\<lambda>w. le_bytes 8 (unat w)) stack)"
  have l: "list_all (\<lambda>x. length x = 8) (map (\<lambda>w. le_bytes 8 (unat w)) stack)"
    by (simp add: list_all_iff)
  have c: "chunks_exact 8 ?b = map (\<lambda>w. le_bytes 8 (unat w)) stack"
    by (rule chunks_exact_concat [OF l]) simp
  have lb: "length ?b = 128"
    using assms(1) by (simp add: length_concat comp_def sum_list_triv STACK_WORDS_TO_SCAN_def)
  then have "?b \<noteq> []" by (metis list.size(3) zero_neq_numeral)
  with assms(2) lb have r: "read_remote_bytes rd rsp (STACK_WORDS_TO_SCAN * 8) = Some ?b"
    by (simp add: read_remote_bytes_def STACK_WORDS_TO_SCAN_def)
  have g: "get_u64 (le_bytes 8 (unat w)) = w" for w :: u64
    using get_u64_le_bytes [of w "[]"] by simp
  show ?thesis
    by (auto simp: is_internal_syscall_def r c list_ex_iff g in_ranges_def Bex_def split_beta)
qed

theorem internal_syscall_iff_witness:
  "is_internal_syscall
     (\<lambda>_ _. Some (concat (map (\<lambda>w. le_bytes 8 (unat w)) (replicate 15 0 @ [0x7f0010 :: u64]))))
     0x401000 0x7ffe0000 [(0x7f0000, 0x7f1000)]"
proof -
  let ?s = "replicate 15 0 @ [0x7f0010 :: u64]"
  have l: "length ?s = STACK_WORDS_TO_SCAN" by (simp add: STACK_WORDS_TO_SCAN_def)
  from internal_syscall_iff [where stack = ?s
      and rd = "\<lambda>_ _. Some (concat (map (\<lambda>w. le_bytes 8 (unat w)) ?s))" and rsp = "0x7ffe0000",
      OF l refl, of "0x401000" "[(0x7f0000, 0x7f1000)]"]
  show ?thesis by simp
qed

text \<open>The line the kernel prints for a mapping: the range in hexadecimal, then whatever describes
  it.\<close>

definition maps_line :: "u64 \<times> u64 \<times> string \<Rightarrow> string" where
  "maps_line m = (case m of (s, e, rest) \<Rightarrow> hex (unat s) @ ''-'' @ hex (unat e) @ '' '' @ rest)"

lemma hex_digit_facts:
  assumes "is_hex_digit c"
  shows "c \<noteq> CHR ''-''" "\<not> is_white [c]" "ord c < 128" "c \<noteq> newline"
  using assms by (auto simp: is_hex_digit_def is_white_def Let_def)

lemma parse_range_line:
  "parse_range (maps_line (s, e, rest)) =
     (if str_contains (maps_line (s, e, rest)) ''cudatrace'' \<and> s < e then Some (s, e) else None)"
proof -
  let ?t = "hex (unat s) @ CHR ''-'' # hex (unat e)"
  have h: "list_all is_hex_digit (hex n)" for n by (rule radix_chars) simp_all
  have "list_all (\<lambda>c. \<not> is_white [c]) (hex n)" "CHR ''-'' \<notin> set (hex n)" for n
    using h [of n] hex_digit_facts by (auto simp: list_all_iff)
  then have w: "list_all (\<lambda>c. \<not> is_white [c]) ?t" and d: "CHR ''-'' \<notin> set (hex (unat s))"
    by (simp_all add: is_white_def)
  obtain ws where ws: "split_whitespace (maps_line (s, e, rest)) = ?t # ws"
    using split_whitespace_first [of ?t rest] w by (auto simp: maps_line_def)
  have "takeWhile (\<lambda>x. x \<noteq> CHR ''-'') ?t = hex (unat s)"
    "dropWhile (\<lambda>x. x \<noteq> CHR ''-'') ?t = CHR ''-'' # hex (unat e)"
    using d by (subst takeWhile_append2 dropWhile_append2; auto)+
  then have so: "split_once CHR ''-'' ?t = Some (hex (unat s), hex (unat e))"
    by (simp add: split_once_def)
  have "parse_unsigned 64 16 (hex (unat w)) = Some (unat w)" for w :: u64
    using unsigned_less [of w, where 'a = nat] by (intro parse_unsigned_radix) simp_all
  then show ?thesis by (simp add: parse_range_def ws so)
qed

text \<open>C34. From the text of \<open>/proc/pid/maps\<close> exactly the non-empty ranges of the mappings that name the
  library are taken, in order, whatever else the lines contain.\<close>

theorem ranges_of_maps:
  assumes "list_all (\<lambda>m. newline \<notin> set (maps_line m) \<and> last (maps_line m) \<noteq> creturn) ms"
  shows "load_cudatrace_ranges (Some (concat (map (\<lambda>m. maps_line m @ [newline]) ms))) =
    map (\<lambda>(s, e, rest). (s, e))
      (filter (\<lambda>m. str_contains (maps_line m) ''cudatrace'' \<and> fst m < fst (snd m)) ms)"
proof -
  have "lines (concat (map (\<lambda>m. maps_line m @ [newline]) ms)) = map maps_line ms"
    using lines_concat [of "map maps_line ms"] assms by (simp add: list_all_iff comp_def)
  moreover have "List.map_filter parse_range (map maps_line ms) = map (\<lambda>(s, e, rest). (s, e))
      (filter (\<lambda>m. str_contains (maps_line m) ''cudatrace'' \<and> fst m < fst (snd m)) ms)"
    by (induction ms) (auto simp: List.map_filter_simps parse_range_line)
  ultimately show ?thesis by (simp add: load_cudatrace_ranges_def)
qed

theorem ranges_of_maps_witness:
  "load_cudatrace_ranges (Some (concat (map (\<lambda>m. maps_line m @ [newline])
     [(0x10, 0x20, ''r-xp /bin/true''), (0x7f, 0x80, ''r-xp /lib/libcudatrace.so'')]))) =
   [(0x7f, 0x80)]"
proof -
  let ?ms = "[(0x10, 0x20, ''r-xp /bin/true''), (0x7f, 0x80, ''r-xp /lib/libcudatrace.so'')] ::
    (u64 \<times> u64 \<times> string) list"
  have "maps_line (0x10, 0x20, ''r-xp /bin/true'') = ''10-20 r-xp /bin/true''"
    and "maps_line (0x7f, 0x80, ''r-xp /lib/libcudatrace.so'') =
      ''7f-80 r-xp /lib/libcudatrace.so''"
    by code_simp+
  with ranges_of_maps [of ?ms] show ?thesis by (simp add: starts_with_def)
qed

end
