(* ===== verification/Ptrace_Wait.thy ===== *)
theory Ptrace_Wait
  imports Prelude
begin

text \<open>
  The status words of \<open>src/hook/ptrace.rs\<close>: what \<open>waitpid\<close> reports about a traced thread, and the
  return value of a system call. A status is an \<open>i32\<close>; \<open>>>\<close> on it is the arithmetic shift.
\<close>

definition SIGTRAP :: i32 where "SIGTRAP = 5"
definition SYSCALL_STOP_SIG :: i32 where "SYSCALL_STOP_SIG = SIGTRAP OR 0x80"
definition PTRACE_EVENT_FORK :: i32 where "PTRACE_EVENT_FORK = 1"
definition PTRACE_EVENT_VFORK :: i32 where "PTRACE_EVENT_VFORK = 2"
definition PTRACE_EVENT_CLONE :: i32 where "PTRACE_EVENT_CLONE = 3"
definition PTRACE_EVENT_EXEC :: i32 where "PTRACE_EVENT_EXEC = 4"

definition wifstopped :: "i32 \<Rightarrow> bool" where
  "wifstopped status \<longleftrightarrow> status AND 0xff = 0x7f"

definition wstopsig :: "i32 \<Rightarrow> i32" where
  "wstopsig status = drop_bit 8 status AND 0xff"

definition wifexited :: "i32 \<Rightarrow> bool" where
  "wifexited status \<longleftrightarrow> status AND 0x7f = 0"

definition wifsignaled :: "i32 \<Rightarrow> bool" where
  "wifsignaled status \<longleftrightarrow> (let sig = status AND 0x7f in sig \<noteq> 0 \<and> sig \<noteq> 0x7f)"

definition ptrace_event :: "i32 \<Rightarrow> i32" where
  "ptrace_event status = drop_bit 16 status AND 0xffff"

definition is_kernel_error :: "i64 \<Rightarrow> bool" where
  "is_kernel_error ret_raw \<longleftrightarrow> -4095 \<le> ret_raw \<and> ret_raw \<le> -1"

definition normalize_ret :: "i64 \<Rightarrow> i64" where
  "normalize_ret ret_raw = (if is_kernel_error ret_raw then -1 else ret_raw)"

subsection \<open>The kernel's encoding\<close>

text \<open>What a status word stands for, and the word the kernel makes of it (\<open>wait(2)\<close>,
  \<open>ptrace(2)\<close>): an exit code, a deadly signal with the core-dump bit, a stop with its signal
  and ptrace event, or a continuation.\<close>

datatype wait_event = Exited int | Signaled int bool | Stopped int int | Continued

fun encode_wait :: "wait_event \<Rightarrow> i32" where
  "encode_wait (Exited code) = code * 256"
| "encode_wait (Signaled sig core) = sig + (if core then 128 else 0)"
| "encode_wait (Stopped sig event) = event * 65536 + sig * 256 + 0x7f"
| "encode_wait Continued = 0xffff"

fun wait_event_ok :: "wait_event \<Rightarrow> bool" where
  "wait_event_ok (Exited code) = (0 \<le> code \<and> code < 256)"
| "wait_event_ok (Signaled sig core) = (1 \<le> sig \<and> sig \<le> 64)"
| "wait_event_ok (Stopped sig event) = (0 \<le> sig \<and> sig < 256 \<and> 0 \<le> event \<and> event < 32768)"
| "wait_event_ok Continued = True"

lemma int_masks:
  fixes x :: int
  shows "x AND 0xff = x mod 256" "x AND 0x7f = x mod 128" "x AND 0xffff = x mod 65536"
proof -
  have "x AND (2 ^ n - 1) = x mod 2 ^ n" for n
    by (metis mask_eq_exp_minus_1 take_bit_eq_mask take_bit_eq_mod)
  from this [of 8] this [of 7] this [of 16]
  show "x AND 0xff = x mod 256" "x AND 0x7f = x mod 128" "x AND 0xffff = x mod 65536" by simp_all
qed

lemmas wait_simps = wifstopped_def wifexited_def wifsignaled_def wstopsig_def ptrace_event_def
  int_masks drop_bit_int_def Let_def

text \<open>Every status word the kernel can produce is classified as what it is, and a stop's
  signal and event are read back exactly.\<close>

theorem wait_status_decoded:
  assumes "wait_event_ok ev"
  shows "wifexited (encode_wait ev) = (\<exists>c. ev = Exited c) \<and>
    wifsignaled (encode_wait ev) = (\<exists>s c. ev = Signaled s c) \<and>
    wifstopped (encode_wait ev) = (\<exists>s e. ev = Stopped s e) \<and>
    (\<forall>s e. ev = Stopped s e \<longrightarrow>
       wstopsig (encode_wait ev) = s \<and> ptrace_event (encode_wait ev) = e)"
proof (cases ev)
  case (Exited c)
  then have "encode_wait ev mod 256 = 0" "encode_wait ev mod 128 = 0" by simp_all
  with Exited show ?thesis by (simp add: wait_simps)
next
  case (Signaled s c)
  with assms have "encode_wait ev mod 128 = s" "encode_wait ev mod 256 = encode_wait ev" by auto
  with Signaled assms show ?thesis by (auto simp: wait_simps)
next
  case (Stopped s e)
  with assms have b: "0 \<le> s" "s < 256" "0 \<le> e" "e < 32768" by simp_all
  have "encode_wait ev mod 256 = 127"
    by (rule int_mod_pos_eq [where q = "e * 256 + s"]) (simp_all add: Stopped)
  moreover have "encode_wait ev mod 128 = 127"
    by (rule int_mod_pos_eq [where q = "e * 512 + s * 2"]) (simp_all add: Stopped)
  moreover have "encode_wait ev div 256 = e * 256 + s"
    by (rule int_div_pos_eq [where r = 127]) (simp_all add: Stopped)
  moreover have "encode_wait ev div 65536 = e"
    using b by (intro int_div_pos_eq [where r = "s * 256 + 127"]) (simp_all add: Stopped)
  moreover have "(e * 256 + s) mod 256 = s"
    using b by (intro int_mod_pos_eq [where q = e]) simp_all
  ultimately show ?thesis using b by (simp add: wait_simps Stopped)
next
  case Continued
  then show ?thesis by (simp add: wait_simps)
qed

theorem wait_status_decoded_witness:
  "wifstopped (encode_wait (Stopped 5 3)) \<and> wstopsig (encode_wait (Stopped 5 3)) = SIGTRAP \<and>
   ptrace_event (encode_wait (Stopped 5 3)) = PTRACE_EVENT_CLONE"
  using wait_status_decoded [of "Stopped 5 3"]
  by (simp add: SIGTRAP_def PTRACE_EVENT_CLONE_def)

text \<open>Whatever the word, the three tests exclude each other.\<close>

lemma wait_tests_exclusive:
  "\<not> (wifstopped s \<and> wifexited s)" "\<not> (wifstopped s \<and> wifsignaled s)" "\<not> (wifexited s \<and> wifsignaled s)"
proof -
  have "s mod 128 = s mod 256 mod 128" by (simp add: mod_mod_cancel)
  then show "\<not> (wifstopped s \<and> wifexited s)" "\<not> (wifstopped s \<and> wifsignaled s)"
    "\<not> (wifexited s \<and> wifsignaled s)"
    by (auto simp: wait_simps)
qed

lemma normalize_ret_simps:
  "0 \<le> r \<Longrightarrow> normalize_ret r = r"
  "normalize_ret r = -1 \<or> normalize_ret r = r"
  by (auto simp: normalize_ret_def is_kernel_error_def)

lemma normalize_ret_nonneg: "0 \<le> normalize_ret r \<longleftrightarrow> 0 \<le> r"
  by (auto simp: normalize_ret_def is_kernel_error_def)

end
