(* ===== verification/Ptrace_Fds.thy ===== *)
theory Ptrace_Fds
  imports Ptrace_Wait Config
begin

text \<open>
  The bookkeeping of descriptors in \<open>src/hook/ptrace.rs\<close>: \<open>fd_paths\<close>, which path each descriptor
  of the traced process stands for, and \<open>hidden_fds\<close>, the descriptors through which the library
  writes its own output and whose system calls are left out of the trace. The abstract
  specification is the descriptor table of the kernel; the two maps are shown to be its image
  after any sequence of system calls, beside the descriptors that calls the tracer does not follow
  have changed.
\<close>

subsection \<open>System call numbers\<close>

definition SYS_READ :: i64 where "SYS_READ = 0"
definition SYS_WRITE :: i64 where "SYS_WRITE = 1"
definition SYS_OPEN :: i64 where "SYS_OPEN = 2"
definition SYS_CLOSE :: i64 where "SYS_CLOSE = 3"
definition SYS_STAT :: i64 where "SYS_STAT = 4"
definition SYS_FSTAT :: i64 where "SYS_FSTAT = 5"
definition SYS_LSTAT :: i64 where "SYS_LSTAT = 6"
definition SYS_POLL :: i64 where "SYS_POLL = 7"
definition SYS_LSEEK :: i64 where "SYS_LSEEK = 8"
definition SYS_MMAP :: i64 where "SYS_MMAP = 9"
definition SYS_MUNMAP :: i64 where "SYS_MUNMAP = 11"
definition SYS_IOCTL :: i64 where "SYS_IOCTL = 16"
definition SYS_PREAD64 :: i64 where "SYS_PREAD64 = 17"
definition SYS_PWRITE64 :: i64 where "SYS_PWRITE64 = 18"
definition SYS_ACCESS :: i64 where "SYS_ACCESS = 21"
definition SYS_SELECT :: i64 where "SYS_SELECT = 23"
definition SYS_DUP :: i64 where "SYS_DUP = 32"
definition SYS_DUP2 :: i64 where "SYS_DUP2 = 33"
definition SYS_PRCTL :: i64 where "SYS_PRCTL = 157"
definition SYS_FUTEX :: i64 where "SYS_FUTEX = 202"
definition SYS_OPENAT :: i64 where "SYS_OPENAT = 257"
definition SYS_NEWFSTATAT :: i64 where "SYS_NEWFSTATAT = 262"
definition SYS_PPOLL :: i64 where "SYS_PPOLL = 271"
definition SYS_PSELECT6 :: i64 where "SYS_PSELECT6 = 270"
definition SYS_FACCESSAT :: i64 where "SYS_FACCESSAT = 269"
definition SYS_DUP3 :: i64 where "SYS_DUP3 = 292"

lemmas sys_defs = SYS_READ_def SYS_WRITE_def SYS_OPEN_def SYS_CLOSE_def SYS_STAT_def SYS_FSTAT_def
  SYS_LSTAT_def SYS_POLL_def SYS_LSEEK_def SYS_MMAP_def SYS_MUNMAP_def SYS_IOCTL_def
  SYS_PREAD64_def SYS_PWRITE64_def SYS_ACCESS_def SYS_SELECT_def SYS_DUP_def SYS_DUP2_def
  SYS_PRCTL_def SYS_FUTEX_def SYS_OPENAT_def SYS_NEWFSTATAT_def SYS_PPOLL_def SYS_PSELECT6_def
  SYS_FACCESSAT_def SYS_DUP3_def

subsection \<open>The program\<close>

text \<open>The state kept per traced thread between the entry and the exit of a system call. The six
  arguments are a list; times are nanoseconds, or microseconds where the name says so.\<close>

record SyscallState =
  st_active :: bool
  st_internal :: bool
  st_nr :: i64
  st_args :: "u64 list"
  st_path_hint :: "string option"
  st_started_ts :: nat
  st_started_at :: nat
  st_started_ts_us :: nat
  st_fgraph_waiting :: bool
  st_fgraph_capturing :: bool

definition arg :: "SyscallState \<Rightarrow> nat \<Rightarrow> u64" where
  "arg st i = st_args st ! i"

text \<open>\<open>state.args[i] as i32\<close>.\<close>

definition arg_fd :: "SyscallState \<Rightarrow> nat \<Rightarrow> rfd" where
  "arg_fd st i = u64_as_i32 (arg st i)"

function trim_end_matches :: "string \<Rightarrow> string \<Rightarrow> string" where
  "trim_end_matches p s =
     (if p \<noteq> [] \<and> ends_with s p then trim_end_matches p (take (length s - length p) s) else s)"
  by pat_completeness auto
termination
  by (relation "measure (\<lambda>(p, s). length s)") (auto simp: ends_with_def, metis diff_less le_zero_eq length_greater_0_conv not_gr_zero)

declare trim_end_matches.simps [simp del]

text \<open>\<open>Path::file_name\<close>: the last component, unless it is \<open>..\<close> or there is none.\<close>

definition file_name :: "string \<Rightarrow> string option" where
  "file_name path =
     (case last_opt (filter (\<lambda>p. p \<noteq> [] \<and> p \<noteq> ''.'') (split_on (\<lambda>c. c = CHR ''/'') path)) of
        None \<Rightarrow> None
      | Some p \<Rightarrow> if p = ''..'' then None else Some p)"

definition is_cudatrace_output_path :: "Config \<Rightarrow> string \<Rightarrow> bool" where
  "is_cudatrace_output_path cfg path =
     (let trimmed = trim_end_matches '' (deleted)'' path;
          base = cfg_path cfg
      in if str_contains trimmed (base @ ''.tid-'') then True
         else case file_name base of
                None \<Rightarrow> False
              | Some base_name \<Rightarrow> str_contains trimmed (base_name @ ''.tid-''))"

definition is_cudatrace_output_open :: "Config \<Rightarrow> SyscallState \<Rightarrow> bool" where
  "is_cudatrace_output_open cfg st =
     (case st_path_hint st of None \<Rightarrow> False | Some path \<Rightarrow> is_cudatrace_output_path cfg path)"

definition duplicate_fd :: "rfd \<Rightarrow> rfd \<Rightarrow> (rfd \<Rightarrow> string option) \<Rightarrow> (rfd \<Rightarrow> string option)" where
  "duplicate_fd from to fd_paths =
     (case fd_paths from of Some path \<Rightarrow> fd_paths(to \<mapsto> path) | None \<Rightarrow> fd_paths(to := None))"

definition update_fd_paths ::
    "SyscallState \<Rightarrow> i64 \<Rightarrow> (rfd \<Rightarrow> string option) \<Rightarrow> (rfd \<Rightarrow> string option)" where
  "update_fd_paths st ret_norm fd_paths =
     (if st_nr st = SYS_OPEN \<or> st_nr st = SYS_OPENAT then
        (if 0 \<le> ret_norm then
           (case st_path_hint st of
              Some path \<Rightarrow> fd_paths(i64_as_i32 ret_norm \<mapsto> path) | None \<Rightarrow> fd_paths)
         else fd_paths)
      else if st_nr st = SYS_CLOSE then
        (if ret_norm = 0 then fd_paths(arg_fd st 0 := None) else fd_paths)
      else if st_nr st = SYS_DUP then
        (if 0 \<le> ret_norm then duplicate_fd (arg_fd st 0) (i64_as_i32 ret_norm) fd_paths else fd_paths)
      else if st_nr st = SYS_DUP2 \<or> st_nr st = SYS_DUP3 then
        (if 0 \<le> ret_norm then duplicate_fd (arg_fd st 0) (i64_as_i32 ret_norm) fd_paths else fd_paths)
      else fd_paths)"

definition update_hidden_fds :: "Config \<Rightarrow> SyscallState \<Rightarrow> i64 \<Rightarrow> rfd set \<Rightarrow> rfd set" where
  "update_hidden_fds cfg st ret_norm hidden_fds =
     (if st_nr st = SYS_OPEN \<or> st_nr st = SYS_OPENAT then
        (if 0 \<le> ret_norm \<and> is_cudatrace_output_open cfg st then insert (i64_as_i32 ret_norm) hidden_fds
         else hidden_fds)
      else if st_nr st = SYS_CLOSE then
        (if ret_norm = 0 then hidden_fds - {arg_fd st 0} else hidden_fds)
      else if st_nr st = SYS_DUP then
        (if 0 \<le> ret_norm \<and> arg_fd st 0 \<in> hidden_fds then insert (i64_as_i32 ret_norm) hidden_fds
         else hidden_fds)
      else if st_nr st = SYS_DUP2 \<or> st_nr st = SYS_DUP3 then
        (if 0 \<le> ret_norm then
           let oldfd = arg_fd st 0; newfd = i64_as_i32 ret_norm in
           if oldfd \<in> hidden_fds then insert newfd hidden_fds else hidden_fds - {newfd}
         else hidden_fds)
      else hidden_fds)"

definition is_hidden_fd_syscall :: "SyscallState \<Rightarrow> rfd set \<Rightarrow> bool" where
  "is_hidden_fd_syscall st hidden_fds =
     (let fd = (if st_nr st \<in> {SYS_READ, SYS_WRITE, SYS_CLOSE, SYS_IOCTL, SYS_FSTAT, SYS_LSEEK,
                     SYS_PREAD64, SYS_PWRITE64, SYS_DUP, SYS_DUP2, SYS_DUP3} then Some (arg_fd st 0)
                else if st_nr st = SYS_MMAP then Some (arg_fd st 4)
                else None)
      in case fd of Some f \<Rightarrow> f \<in> hidden_fds | None \<Rightarrow> False)"

text \<open>The entries of \<open>/proc/pid/fd\<close> with what they link to, \<open>None\<close> where they cannot be read.\<close>

fun seed_entry :: "Config \<Rightarrow> string \<times> string option \<Rightarrow> (rfd \<Rightarrow> string option) \<times> rfd set \<Rightarrow>
    (rfd \<Rightarrow> string option) \<times> rfd set" where
  "seed_entry cfg (fd_raw, link) (fd_paths, hidden_fds) =
     (case parse_signed 32 fd_raw of
        None \<Rightarrow> (fd_paths, hidden_fds)
      | Some fd \<Rightarrow>
          (case link of
             None \<Rightarrow> (fd_paths, hidden_fds)
           | Some path \<Rightarrow>
               (fd_paths(fd \<mapsto> path),
                if is_cudatrace_output_path cfg path then insert fd hidden_fds else hidden_fds)))"

definition seed_fd_state_from_proc ::
    "Config \<Rightarrow> (string \<times> string option) list option \<Rightarrow> (rfd \<Rightarrow> string option) \<times> rfd set \<Rightarrow>
     (rfd \<Rightarrow> string option) \<times> rfd set" where
  "seed_fd_state_from_proc cfg entries tables =
     (case entries of None \<Rightarrow> tables | Some es \<Rightarrow> fold (seed_entry cfg) es tables)"

subsection \<open>The specification: the kernel's table\<close>

text \<open>A descriptor stands for a path, and may be one of the library's own.\<close>

type_synonym fd_table = "rfd \<Rightarrow> (string \<times> bool) option"

definition fd_range :: "i64 \<Rightarrow> bool" where
  "fd_range r \<longleftrightarrow> 0 \<le> r \<and> r < 2 ^ 31"

definition follows_fds :: "i64 \<Rightarrow> bool" where
  "follows_fds nr \<longleftrightarrow> nr \<in> {SYS_OPEN, SYS_OPENAT, SYS_CLOSE, SYS_DUP, SYS_DUP2, SYS_DUP3}"

text \<open>What a system call does to the table. \<open>open\<close> and \<open>dup\<close> return an unused descriptor, \<open>dup2\<close> and
  \<open>dup3\<close> replace their target, and when they fail they change nothing; a \<open>close\<close> that fails may have
  released the descriptor. Any other call (\<open>pipe\<close>, \<open>socket\<close>, \<open>fcntl\<close>, \<open>close_range\<close>, \<open>execve\<close>) may
  change the table in any way. The set beside the table holds the descriptors the tracer cannot
  know about: those changed by a call it does not follow, by an \<open>open\<close> whose path it could not
  read or by a failed \<open>close\<close>, and the copies of such descriptors. A descriptor leaves the set when it
  is closed, or replaced by a copy of one outside it.\<close>

inductive kernel_fds :: "Config \<Rightarrow> fd_table \<Rightarrow> rfd set \<Rightarrow> SyscallState \<Rightarrow> i64 \<Rightarrow> fd_table \<Rightarrow> rfd set \<Rightarrow> bool" for cfg where
  opened: "st_nr st \<in> {SYS_OPEN, SYS_OPENAT} \<Longrightarrow> st_path_hint st = Some path \<Longrightarrow> fd_range r \<Longrightarrow>
     T r = None \<Longrightarrow> kernel_fds cfg T B st r (T(r \<mapsto> (path, is_cudatrace_output_path cfg path))) B"
| opened_unread: "st_nr st \<in> {SYS_OPEN, SYS_OPENAT} \<Longrightarrow> st_path_hint st = None \<Longrightarrow> fd_range r \<Longrightarrow>
     T r = None \<Longrightarrow> kernel_fds cfg T B st r (T(r \<mapsto> e)) (insert r B)"
| closed: "st_nr st = SYS_CLOSE \<Longrightarrow>
     kernel_fds cfg T B st 0 (T(arg_fd st 0 := None)) (B - {arg_fd st 0})"
| close_failed: "st_nr st = SYS_CLOSE \<Longrightarrow> r < 0 \<Longrightarrow> T' = T \<or> T' = T(arg_fd st 0 := None) \<Longrightarrow>
     kernel_fds cfg T B st r T' (insert (arg_fd st 0) B)"
| duped: "st_nr st = SYS_DUP \<Longrightarrow> T (arg_fd st 0) = Some e \<Longrightarrow> fd_range r \<Longrightarrow> T r = None \<Longrightarrow>
     kernel_fds cfg T B st r (T(r \<mapsto> e)) (if arg_fd st 0 \<in> B then insert r B else B)"
| replaced: "st_nr st \<in> {SYS_DUP2, SYS_DUP3} \<Longrightarrow> T (arg_fd st 0) = Some e \<Longrightarrow> fd_range r \<Longrightarrow>
     kernel_fds cfg T B st r (T(r \<mapsto> e)) (if arg_fd st 0 \<in> B then insert r B else B - {r})"
| failed: "follows_fds (st_nr st) \<Longrightarrow> st_nr st \<noteq> SYS_CLOSE \<Longrightarrow> r < 0 \<Longrightarrow> kernel_fds cfg T B st r T B"
| other: "\<not> follows_fds (st_nr st) \<Longrightarrow> kernel_fds cfg T B st r T' (B \<union> {fd. T' fd \<noteq> T fd})"

inductive_cases kernel_fdsE: "kernel_fds cfg T B st r T' B'"

text \<open>Outside the set, the tracer's two tables are the image of the kernel's.\<close>

definition fds_rel :: "fd_table \<Rightarrow> rfd set \<Rightarrow> (rfd \<Rightarrow> string option) \<Rightarrow> rfd set \<Rightarrow> bool" where
  "fds_rel T B fd_paths hidden_fds \<longleftrightarrow>
     (\<forall>fd. fd \<notin> B \<longrightarrow>
        fd_paths fd = map_option fst (T fd) \<and> (fd \<in> hidden_fds \<longleftrightarrow> (\<exists>path. T fd = Some (path, True))))"

lemma fd_range_cast [simp]: "fd_range r \<Longrightarrow> i64_as_i32 r = r"
  by (simp add: fd_range_def i64_as_i32_small)

lemma fds_rel_fresh: "fds_rel T B fd_paths hidden_fds \<Longrightarrow> T fd = None \<Longrightarrow> fd \<notin> B \<Longrightarrow> fd \<notin> hidden_fds"
  by (auto simp: fds_rel_def)

lemma fds_rel_at:
  "fds_rel T B fd_paths hidden_fds \<Longrightarrow> fd \<notin> B \<Longrightarrow> T fd = Some (p, h) \<Longrightarrow>
   fd_paths fd = Some p \<and> (fd \<in> hidden_fds \<longleftrightarrow> h)"
  by (auto simp: fds_rel_def)

lemma kernel_step_tracked:
  assumes "kernel_fds cfg T B st r T' B'" and rel: "fds_rel T B fd_paths hidden_fds"
  shows "fds_rel T' B' (update_fd_paths st (normalize_ret r) fd_paths)
    (update_hidden_fds cfg st (normalize_ret r) hidden_fds)"
  using assms(1)
proof (cases rule: kernel_fds.cases)
  case (opened path)
  then have "normalize_ret r = r" by (simp add: fd_range_def normalize_ret_simps)
  with opened rel fds_rel_fresh [OF rel, of r] show ?thesis
    by (auto simp: fds_rel_def update_fd_paths_def update_hidden_fds_def is_cudatrace_output_open_def
        fd_range_def i64_as_i32_small)
next
  case (opened_unread e)
  then have "normalize_ret r = r" by (simp add: fd_range_def normalize_ret_simps)
  with opened_unread rel show ?thesis
    by (auto simp: fds_rel_def update_fd_paths_def update_hidden_fds_def is_cudatrace_output_open_def
        fd_range_def i64_as_i32_small)
next
  case closed
  with rel show ?thesis
    by (auto simp: fds_rel_def update_fd_paths_def update_hidden_fds_def normalize_ret_simps sys_defs)
next
  case close_failed
  then have "normalize_ret r < 0" using normalize_ret_nonneg [of r] by simp
  with close_failed rel show ?thesis
    by (auto simp: fds_rel_def update_fd_paths_def update_hidden_fds_def sys_defs)
next
  case (duped e)
  obtain p h where e: "e = (p, h)" by (cases e)
  have "normalize_ret r = r" using duped by (simp add: fd_range_def normalize_ret_simps)
  with duped rel fds_rel_at [OF rel, of "arg_fd st 0" p h] fds_rel_fresh [OF rel, of r] show ?thesis
    by (auto simp: fds_rel_def update_fd_paths_def update_hidden_fds_def duplicate_fd_def sys_defs e
        fd_range_def i64_as_i32_small split: option.splits)
next
  case (replaced e)
  obtain p h where e: "e = (p, h)" by (cases e)
  have "normalize_ret r = r" using replaced by (simp add: fd_range_def normalize_ret_simps)
  with replaced rel fds_rel_at [OF rel, of "arg_fd st 0" p h] show ?thesis
    by (auto simp: fds_rel_def update_fd_paths_def update_hidden_fds_def duplicate_fd_def sys_defs e
        fd_range_def i64_as_i32_small Let_def split: option.splits)
next
  case failed
  then have "normalize_ret r < 0" using normalize_ret_nonneg [of r] by simp
  with failed rel show ?thesis by (auto simp: update_fd_paths_def update_hidden_fds_def)
next
  case other
  with rel show ?thesis
    by (auto simp: update_fd_paths_def update_hidden_fds_def follows_fds_def fds_rel_def)
qed

inductive kernel_run :: "Config \<Rightarrow> fd_table \<Rightarrow> rfd set \<Rightarrow> (SyscallState \<times> i64) list \<Rightarrow> fd_table \<Rightarrow> rfd set \<Rightarrow> bool" for cfg where
  run_nil: "kernel_run cfg T B [] T B"
| run_step: "kernel_fds cfg T B st r T' B' \<Longrightarrow> kernel_run cfg T' B' cs T'' B'' \<Longrightarrow>
     kernel_run cfg T B ((st, r) # cs) T'' B''"

fun track :: "Config \<Rightarrow> (SyscallState \<times> i64) list \<Rightarrow> (rfd \<Rightarrow> string option) \<times> rfd set \<Rightarrow>
    (rfd \<Rightarrow> string option) \<times> rfd set" where
  "track cfg [] tables = tables"
| "track cfg ((st, r) # cs) (fd_paths, hidden_fds) =
     track cfg cs (update_fd_paths st (normalize_ret r) fd_paths,
                   update_hidden_fds cfg st (normalize_ret r) hidden_fds)"

lemma kernel_run_tracked:
  assumes "kernel_run cfg T B cs T' B'" and "fds_rel T B fd_paths hidden_fds"
  shows "(case track cfg cs (fd_paths, hidden_fds) of (p, h) \<Rightarrow> fds_rel T' B' p h)"
  using assms
proof (induction arbitrary: fd_paths hidden_fds)
  case (run_nil T B)
  then show ?case by simp
next
  case (run_step T B st r T' B' cs T'' B'')
  from run_step.IH [OF kernel_step_tracked [OF run_step.hyps(1) run_step.prems]]
  show ?case by simp
qed

text \<open>A call after which the tracer knows everything it knew before.\<close>

definition followed :: "SyscallState \<times> i64 \<Rightarrow> bool" where
  "followed c \<longleftrightarrow> (case c of (st, r) \<Rightarrow>
     follows_fds (st_nr st) \<and> (st_nr st = SYS_CLOSE \<longrightarrow> 0 \<le> r) \<and>
     (st_nr st \<in> {SYS_OPEN, SYS_OPENAT} \<longrightarrow> 0 \<le> r \<longrightarrow> st_path_hint st \<noteq> None))"

lemma followed_step: "kernel_fds cfg T {} st r T' B' \<Longrightarrow> followed (st, r) \<Longrightarrow> B' = {}"
  by (erule kernel_fdsE) (auto simp: followed_def fd_range_def)

lemma followed_run: "kernel_run cfg T B cs T' B' \<Longrightarrow> B = {} \<Longrightarrow> list_all followed cs \<Longrightarrow> B' = {}"
  by (induction rule: kernel_run.induct) (auto dest: followed_step)

text \<open>C10. After any sequence of successful and failing system calls of a process the tracer knows, for
  every descriptor that no call it does not follow has touched, the path it stands for, and hides
  it exactly when it is the library's own output or a copy of it. If it follows every call of the
  sequence, that is every descriptor.\<close>

theorem fd_tracking_refines:
  assumes "kernel_run cfg T B cs T' B'" and "fds_rel T B fd_paths hidden_fds"
  shows "(case track cfg cs (fd_paths, hidden_fds) of (p, h) \<Rightarrow>
    \<forall>fd. fd \<notin> B' \<longrightarrow> p fd = map_option fst (T' fd) \<and> (fd \<in> h \<longleftrightarrow> (\<exists>path. T' fd = Some (path, True)))) \<and>
    (B = {} \<longrightarrow> list_all followed cs \<longrightarrow> B' = {})"
  using kernel_run_tracked [OF assms] followed_run [OF assms(1)] by (auto simp: fds_rel_def split_beta)

definition call_state :: "i64 \<Rightarrow> u64 list \<Rightarrow> string option \<Rightarrow> SyscallState" where
  "call_state nr args hint =
     \<lparr>st_active = True, st_internal = False, st_nr = nr, st_args = args, st_path_hint = hint,
      st_started_ts = 0, st_started_at = 0, st_started_ts_us = 0, st_fgraph_waiting = False,
      st_fgraph_capturing = False\<rparr>"

definition plain_config :: Config where
  "plain_config = from_lookup (\<lambda>_. None)"

lemma plain_config_path: "cfg_path plain_config = ''./cudatrace.output''"
  by (simp add: plain_config_def from_lookup_def Let_def DEFAULT_PATH_def)

text \<open>A device is opened and copied; a pipe takes the descriptors 5 and 6 behind the tracer's back; then the
  device is closed.\<close>

theorem fd_tracking_refines_witness:
  "(case track plain_config
      [(call_state SYS_OPENAT [0, 0, 0, 0, 0, 0] (Some ''/dev/nvidia0''), 3),
       (call_state SYS_DUP [3, 0, 0, 0, 0, 0] None, 4),
       (call_state 22 [0, 0, 0, 0, 0, 0] None, 0),
       (call_state SYS_CLOSE [3, 0, 0, 0, 0, 0] None, 0)] (\<lambda>_. None, {}) of
     (p, h) \<Rightarrow> p 3 = None \<and> p 4 = Some ''/dev/nvidia0'')"
proof -
  let ?e = "(''/dev/nvidia0'', is_cudatrace_output_path plain_config ''/dev/nvidia0'')"
  let ?cs = "[(call_state SYS_OPENAT [0, 0, 0, 0, 0, 0] (Some ''/dev/nvidia0''), 3),
    (call_state SYS_DUP [3, 0, 0, 0, 0, 0] None, 4), (call_state 22 [0, 0, 0, 0, 0, 0] None, 0),
    (call_state SYS_CLOSE [3, 0, 0, 0, 0, 0] None, 0)]"
  let ?T2 = "(\<lambda>_. None)(3 \<mapsto> ?e, 4 \<mapsto> ?e)"
  let ?T3 = "?T2(5 \<mapsto> (''pipe'', False), 6 \<mapsto> (''pipe'', False))"
  have a: "arg_fd (call_state SYS_DUP [3, 0, 0, 0, 0, 0] None) 0 = 3"
    "arg_fd (call_state SYS_CLOSE [3, 0, 0, 0, 0, 0] None) 0 = 3"
    by (simp_all add: arg_fd_def arg_def call_state_def u64_as_i32_def)
  have n: "st_nr (call_state SYS_DUP [3, 0, 0, 0, 0, 0] None) = SYS_DUP"
    "st_nr (call_state SYS_CLOSE [3, 0, 0, 0, 0, 0] None) = SYS_CLOSE" by (simp_all add: call_state_def)
  have 1: "kernel_fds plain_config (\<lambda>_. None) {} (call_state SYS_OPENAT [0, 0, 0, 0, 0, 0] (Some ''/dev/nvidia0'')) 3
      ((\<lambda>_. None)(3 \<mapsto> ?e)) {}"
    by (rule kernel_fds.opened) (simp_all add: call_state_def fd_range_def)
  have 2: "kernel_fds plain_config ((\<lambda>_. None)(3 \<mapsto> ?e)) {} (call_state SYS_DUP [3, 0, 0, 0, 0, 0] None) 4 ?T2 {}"
    using kernel_fds.duped [OF n(1), of "(\<lambda>_. None)(3 \<mapsto> ?e)" ?e 4 plain_config "{}"]
    unfolding a by (simp add: fd_range_def)
  have 3: "kernel_fds plain_config ?T2 {} (call_state 22 [0, 0, 0, 0, 0, 0] None) 0 ?T3 ({} \<union> {fd. ?T3 fd \<noteq> ?T2 fd})"
    by (rule kernel_fds.other) (simp add: call_state_def follows_fds_def sys_defs)
  have 4: "kernel_fds plain_config ?T3 ({} \<union> {fd. ?T3 fd \<noteq> ?T2 fd}) (call_state SYS_CLOSE [3, 0, 0, 0, 0, 0] None) 0
      (?T3(3 := None)) (({} \<union> {fd. ?T3 fd \<noteq> ?T2 fd}) - {3})"
    using kernel_fds.closed [OF n(2), of plain_config ?T3 "{} \<union> {fd. ?T3 fd \<noteq> ?T2 fd}"] unfolding a .
  note run_step [OF 1 run_step [OF 2 run_step [OF 3 run_step [OF 4 run_nil]]]]
  from fd_tracking_refines [OF this, of "\<lambda>_. None" "{}"] show ?thesis
    by (simp add: fds_rel_def split_beta)
qed

text \<open>A call is left out of the trace exactly when the descriptor it acts on is one of the
  library's own, for every call that acts on one.\<close>

definition subject_fd :: "SyscallState \<Rightarrow> rfd option" where
  "subject_fd st =
     (if st_nr st = SYS_MMAP then Some (arg_fd st 4)
      else if st_nr st \<in> {SYS_READ, SYS_WRITE, SYS_PREAD64, SYS_PWRITE64, SYS_LSEEK, SYS_FSTAT,
                SYS_IOCTL, SYS_CLOSE, SYS_DUP, SYS_DUP2, SYS_DUP3} then Some (arg_fd st 0)
      else None)"

theorem hidden_exactly_own:
  assumes "fds_rel T {} fd_paths hidden_fds"
  shows "is_hidden_fd_syscall st hidden_fds \<longleftrightarrow>
    (\<exists>fd path. subject_fd st = Some fd \<and> T fd = Some (path, True))"
  using assms
  by (auto simp: is_hidden_fd_syscall_def subject_fd_def fds_rel_def sys_defs)

theorem hidden_exactly_own_witness:
  "is_hidden_fd_syscall (call_state SYS_WRITE [7, 0, 0, 0, 0, 0] None) {7} \<longleftrightarrow>
    (\<exists>fd path. subject_fd (call_state SYS_WRITE [7, 0, 0, 0, 0, 0] None) = Some fd \<and>
       [7 \<mapsto> (''out.tid-1'', True)] fd = Some (path :: string, True))"
proof -
  have "fds_rel [7 \<mapsto> (''out.tid-1'', True)] {} [7 \<mapsto> ''out.tid-1''] {7}"
    by (auto simp: fds_rel_def fun_eq_iff split: if_splits)
  then show ?thesis by (rule hidden_exactly_own)
qed

text \<open>C35. What the tables rely on: the tracer only hears of descriptors that are closed by
  \<open>close\<close>. A descriptor that vanished otherwise (\<open>close_range\<close>, close-on-exec) stays hidden when
  the process opens an unrelated file under the same number, although its path is corrected.\<close>

theorem reopened_stays_hidden:
  assumes "st_nr st = SYS_OPENAT \<or> st_nr st = SYS_OPEN" and "st_path_hint st = Some path"
    and "fd_range r" and "r \<in> hidden_fds"
  shows "r \<in> update_hidden_fds cfg st r hidden_fds \<and> update_fd_paths st r fd_paths r = Some path"
  using assms by (auto simp: update_hidden_fds_def update_fd_paths_def fd_range_def i64_as_i32_small)

theorem reopened_stays_hidden_witness:
  "7 \<in> update_hidden_fds plain_config (call_state SYS_OPENAT [0, 0, 0, 0, 0, 0] (Some ''/dev/nvidia0'')) 7 {7} \<and>
   \<not> is_cudatrace_output_path plain_config ''/dev/nvidia0''"
proof -
  have "\<not> is_cudatrace_output_path plain_config ''/dev/nvidia0''"
    unfolding is_cudatrace_output_path_def plain_config_path by code_simp
  with reopened_stays_hidden [of "call_state SYS_OPENAT [0, 0, 0, 0, 0, 0] (Some ''/dev/nvidia0'')"
      "''/dev/nvidia0''" 7 "{7}" plain_config]
  show ?thesis by (simp add: call_state_def fd_range_def)
qed

end
