(* ===== verification/Ptrace_Format.thy ===== *)
theory Ptrace_Format
  imports Ioctl Ptrace_Flags Ptrace_Mem Ptrace_Fds
begin

text \<open>
  The lines of the system-call trace in \<open>src/hook/ptrace.rs\<close>: \<open>format_syscall_line\<close> with one
  definition per arm of its \<open>match\<close>, \<open>format_ioctl_line\<close>, and the table of system call names
  parsed from the C headers. What the functions read of the outside world is the record \<open>env\<close>:
  the configuration, \<open>process_vm_readv\<close>, the links in \<open>/proc/pid/fd\<close>, the loaded names and the
  resource-manager decoder. \<open>line_ctx\<close> gathers the parameters and the first locals of
  \<open>format_syscall_line\<close>.
\<close>

subsection \<open>Names of system calls\<close>

definition parse_syscall_define :: "string \<Rightarrow> (i64 \<times> string) option" where
  "parse_syscall_define raw =
     (let line = trim raw in
      if \<not> starts_with line ''#define __NR_'' then None
      else case split_whitespace line of
             define_kw # name_raw # num_raw # _ \<Rightarrow>
               (case strip_prefix ''__NR_'' name_raw of
                  None \<Rightarrow> None
                | Some name \<Rightarrow>
                    (case parse_signed 64 num_raw of None \<Rightarrow> None | Some nr \<Rightarrow> Some (nr, name)))
           | _ \<Rightarrow> None)"

definition insert_syscalls :: "string \<Rightarrow> (i64 \<Rightarrow> string option) \<Rightarrow> (i64 \<Rightarrow> string option)" where
  "insert_syscalls text m =
     fold (\<lambda>(nr, name) m. m(nr \<mapsto> name)) (List.map_filter parse_syscall_define (lines text)) m"

text \<open>The candidate files in order, \<open>None\<close> where one cannot be read; the first that defines a name
  ends the search.\<close>

fun load_syscall_names :: "string option list \<Rightarrow> (i64 \<Rightarrow> string option)" where
  "load_syscall_names [] = (\<lambda>_. None)"
| "load_syscall_names (None # rest) = load_syscall_names rest"
| "load_syscall_names (Some text # rest) =
     (if List.map_filter parse_syscall_define (lines text) \<noteq> [] then insert_syscalls text (\<lambda>_. None)
      else load_syscall_names rest)"

subsection \<open>The environment\<close>

record env =
  env_cfg :: Config
  env_vm :: vm
  env_live_link :: "pid_t \<Rightarrow> rfd \<Rightarrow> string option"
  env_names :: "i64 \<Rightarrow> string option"
  env_rm :: generated_tables
  env_self_pid :: pid_t

record line_ctx =
  lc_env :: env
  lc_pid :: pid_t
  lc_state :: SyscallState
  lc_ret_raw :: i64
  lc_ret_norm :: i64
  lc_elapsed_value :: nat
  lc_elapsed_unit :: string
  lc_fd_paths :: "rfd \<Rightarrow> string option"

definition syscall_name :: "env \<Rightarrow> i64 \<Rightarrow> string" where
  "syscall_name e nr = unwrap_or (''syscall_'' @ dec_int nr) (env_names e nr)"

definition AT_FDCWD :: rfd where "AT_FDCWD = -100"

definition format_dirfd :: "rfd \<Rightarrow> string" where
  "format_dirfd dirfd = (if dirfd = AT_FDCWD then ''AT_FDCWD'' else dec_int dirfd)"

definition format_fd_suffix :: "string option \<Rightarrow> string" where
  "format_fd_suffix path = (case path of Some p \<Rightarrow> ''('' @ p @ '')'' | None \<Rightarrow> [])"

text \<open>\<open>read_link\<close> of the descriptor, converted with \<open>to_string_lossy\<close>.\<close>

definition env_live_fd_path :: "env \<Rightarrow> pid_t \<Rightarrow> rfd \<Rightarrow> string option" where
  "env_live_fd_path e pid fd =
     (if fd < 0 then None else map_option from_utf8_lossy (env_live_link e pid fd))"

definition capture_path_hint :: "env \<Rightarrow> pid_t \<Rightarrow> i64 \<Rightarrow> u64 list \<Rightarrow> string option" where
  "capture_path_hint e pid nr args =
     (if nr \<in> {SYS_OPEN, SYS_STAT, SYS_LSTAT, SYS_ACCESS} then
        Some (read_remote_cstring (env_vm e pid) (args ! 0))
      else if nr \<in> {SYS_OPENAT, SYS_NEWFSTATAT, SYS_FACCESSAT} then
        Some (read_remote_cstring (env_vm e pid) (args ! 1))
      else if nr = SYS_CLOSE then env_live_fd_path e pid (u64_as_i32 (args ! 0))
      else None)"

definition format_open_return :: "i64 \<Rightarrow> string option \<Rightarrow> string" where
  "format_open_return ret_norm path =
     (if ret_norm < 0 then dec_int ret_norm
      else case path of
             None \<Rightarrow> dec_int ret_norm
           | Some path \<Rightarrow>
               if starts_with path ''<'' then dec_int ret_norm
               else dec_int ret_norm @ ''('' @ path @ '')'')"

definition indent_ptrace_line :: "Config \<Rightarrow> string \<Rightarrow> nat \<Rightarrow> string" where
  "indent_ptrace_line cfg line depth =
     (if \<not> (mask_cudart (cfg_trace cfg) \<or> mask_driver (cfg_trace cfg)) \<or> depth = 0 then line
      else tabs depth @ line)"

definition ptrace_duration_for_config :: "Config \<Rightarrow> nat \<Rightarrow> nat \<times> string" where
  "ptrace_duration_for_config cfg ns =
     (case cfg_time_unit cfg of Ns \<Rightarrow> (ns, ''ns'') | Us \<Rightarrow> (ns div 1000, ''us''))"

subsection \<open>One line per system call\<close>

definition line_open :: "line_ctx \<Rightarrow> string" where
  "line_open c =
     (let path = unwrap_or ''<unreadable>'' (st_path_hint (lc_state c));
          flags = arg (lc_state c) 1;
          flags_text = format_open_flags flags;
          mode = arg (lc_state c) 2;
          ret_text = format_open_return (lc_ret_norm c) (st_path_hint (lc_state c))
      in if flags AND O_CREAT_MASK \<noteq> 0 then
           ''open(path='' @ [dquote] @ path @ [dquote] @ '', flags='' @ flags_text @
           '', mode=0'' @ oct (unat mode) @ '') = '' @ ret_text @ ''  /* '' @
           dec (lc_elapsed_value c) @ '' '' @ lc_elapsed_unit c @ '' */''
         else
           ''open(path='' @ [dquote] @ path @ [dquote] @ '', flags='' @ flags_text @ '') = '' @
           ret_text @ ''  /* '' @ dec (lc_elapsed_value c) @ '' '' @ lc_elapsed_unit c @ '' */'')"

definition line_openat :: "line_ctx \<Rightarrow> string" where
  "line_openat c =
     (let dirfd_text = format_dirfd (arg_fd (lc_state c) 0);
          path = unwrap_or ''<unreadable>'' (st_path_hint (lc_state c));
          flags = arg (lc_state c) 2;
          flags_text = format_open_flags flags;
          mode = arg (lc_state c) 3;
          ret_text = format_open_return (lc_ret_norm c) (st_path_hint (lc_state c))
      in if flags AND O_CREAT_MASK \<noteq> 0 then
           ''openat(dirfd='' @ dirfd_text @ '', path='' @ [dquote] @ path @ [dquote] @
           '', flags='' @ flags_text @ '', mode=0'' @ oct (unat mode) @ '') = '' @ ret_text @
           ''  /* '' @ dec (lc_elapsed_value c) @ '' '' @ lc_elapsed_unit c @ '' */''
         else
           ''openat(dirfd='' @ dirfd_text @ '', path='' @ [dquote] @ path @ [dquote] @
           '', flags='' @ flags_text @ '') = '' @ ret_text @ ''  /* '' @
           dec (lc_elapsed_value c) @ '' '' @ lc_elapsed_unit c @ '' */'')"

definition line_close :: "line_ctx \<Rightarrow> string" where
  "line_close c =
     (let fd = arg_fd (lc_state c) 0;
          fallback_path = (if lc_fd_paths c fd \<noteq> None then None else env_live_fd_path (lc_env c) (lc_pid c) fd);
          suffix = format_fd_suffix (opt_or (opt_or (st_path_hint (lc_state c)) (lc_fd_paths c fd)) fallback_path)
      in ''close(fd='' @ dec_int fd @ suffix @ '') = '' @ dec_int ((lc_ret_norm c)) @ ''  /* '' @
         dec (lc_elapsed_value c) @ '' '' @ lc_elapsed_unit c @ '' */'')"

definition line_dup :: "line_ctx \<Rightarrow> string" where
  "line_dup c =
     (let oldfd = arg_fd (lc_state c) 0;
          suffix = format_fd_suffix (lc_fd_paths c oldfd)
      in ''dup(oldfd='' @ dec_int oldfd @ suffix @ '') = '' @ dec_int ((lc_ret_norm c)) @
         ''  /* '' @ dec (lc_elapsed_value c) @ '' '' @ lc_elapsed_unit c @ '' */'')"

definition line_dup2 :: "line_ctx \<Rightarrow> string" where
  "line_dup2 c =
     (let oldfd = arg_fd (lc_state c) 0;
          newfd = arg_fd (lc_state c) 1;
          suffix = format_fd_suffix (lc_fd_paths c oldfd)
      in ''dup2(oldfd='' @ dec_int oldfd @ suffix @ '' , newfd='' @ dec_int newfd @ '') = '' @
         dec_int ((lc_ret_norm c)) @ ''  /* '' @ dec (lc_elapsed_value c) @ '' '' @
         lc_elapsed_unit c @ '' */'')"

definition line_dup3 :: "line_ctx \<Rightarrow> string" where
  "line_dup3 c =
     (let oldfd = arg_fd (lc_state c) 0;
          newfd = arg_fd (lc_state c) 1;
          flags_text = format_dup3_flags (arg (lc_state c) 2);
          suffix = format_fd_suffix (lc_fd_paths c oldfd)
      in ''dup3(oldfd='' @ dec_int oldfd @ suffix @ '' , newfd='' @ dec_int newfd @ '', flags='' @
         flags_text @ '') = '' @ dec_int ((lc_ret_norm c)) @ ''  /* '' @
         dec (lc_elapsed_value c) @ '' '' @ lc_elapsed_unit c @ '' */'')"

definition line_mmap :: "line_ctx \<Rightarrow> string" where
  "line_mmap c =
     (let fd = arg_fd (lc_state c) 4;
          suffix = (if 0 \<le> fd then format_fd_suffix (lc_fd_paths c fd) else []);
          addr = arg (lc_state c) 0;
          len = arg (lc_state c) 1;
          prot_text = format_mmap_prot (arg (lc_state c) 2);
          flags_text = format_mmap_flags (arg (lc_state c) 3);
          offset = u64_as_i64 (arg (lc_state c) 5);
          ret_text = (if is_kernel_error (lc_ret_raw c) then ''MAP_FAILED'' else hex0x (unat (i64_as_u64 (lc_ret_raw c))))
      in if 0 \<le> fd then
           ''mmap(addr=0x'' @ hex (unat addr) @ '', length='' @ dec (unat len) @ '', prot='' @
           prot_text @ '', flags='' @ flags_text @ '', fd='' @ dec_int fd @ suffix @
           '' , offset='' @ dec_int offset @ '') = '' @ ret_text @ ''  /* '' @
           dec (lc_elapsed_value c) @ '' '' @ lc_elapsed_unit c @ '' */''
         else
           ''mmap(addr=0x'' @ hex (unat addr) @ '', length='' @ dec (unat len) @ '', prot='' @
           prot_text @ '', flags='' @ flags_text @ '', fd='' @ dec_int fd @ '', offset='' @
           dec_int offset @ '') = '' @ ret_text @ ''  /* '' @ dec (lc_elapsed_value c) @ '' '' @
           lc_elapsed_unit c @ '' */'')"

definition line_munmap :: "line_ctx \<Rightarrow> string" where
  "line_munmap c =
     (let addr = arg (lc_state c) 0;
          len = arg (lc_state c) 1
      in ''munmap(addr=0x'' @ hex (unat addr) @ '', length='' @ dec (unat len) @ '') = '' @
         dec_int ((lc_ret_norm c)) @ ''  /* '' @ dec (lc_elapsed_value c) @ '' '' @
         lc_elapsed_unit c @ '' */'')"

definition line_read :: "line_ctx \<Rightarrow> string" where
  "line_read c =
     (let fd = arg_fd (lc_state c) 0;
          buf = arg (lc_state c) 1;
          count = arg (lc_state c) 2;
          preview = format_buffer_preview (env_cfg (lc_env c)) (env_vm (lc_env c) (lc_pid c)) buf count (lc_ret_norm c);
          suffix = format_fd_suffix (lc_fd_paths c fd)
      in if suffix = [] then
           ''read(fd='' @ dec_int fd @ '', buf=0x'' @ hex (unat buf) @ '', count='' @
           dec (unat count) @ preview @ '') = '' @ dec_int ((lc_ret_norm c)) @ ''  /* '' @
           dec (lc_elapsed_value c) @ '' '' @ lc_elapsed_unit c @ '' */''
         else
           ''read(fd='' @ dec_int fd @ suffix @ '' , buf=0x'' @ hex (unat buf) @ '', count='' @
           dec (unat count) @ preview @ '') = '' @ dec_int ((lc_ret_norm c)) @ ''  /* '' @
           dec (lc_elapsed_value c) @ '' '' @ lc_elapsed_unit c @ '' */'')"

definition line_write :: "line_ctx \<Rightarrow> string" where
  "line_write c =
     (let fd = arg_fd (lc_state c) 0;
          buf = arg (lc_state c) 1;
          count = arg (lc_state c) 2;
          preview = format_buffer_preview (env_cfg (lc_env c)) (env_vm (lc_env c) (lc_pid c)) buf count (lc_ret_norm c);
          suffix = format_fd_suffix (lc_fd_paths c fd)
      in if suffix = [] then
           ''write(fd='' @ dec_int fd @ '', buf=0x'' @ hex (unat buf) @ '', count='' @
           dec (unat count) @ preview @ '') = '' @ dec_int ((lc_ret_norm c)) @ ''  /* '' @
           dec (lc_elapsed_value c) @ '' '' @ lc_elapsed_unit c @ '' */''
         else
           ''write(fd='' @ dec_int fd @ suffix @ '' , buf=0x'' @ hex (unat buf) @ '', count='' @
           dec (unat count) @ preview @ '') = '' @ dec_int ((lc_ret_norm c)) @ ''  /* '' @
           dec (lc_elapsed_value c) @ '' '' @ lc_elapsed_unit c @ '' */'')"

definition line_poll :: "line_ctx \<Rightarrow> string" where
  "line_poll c =
     (let fds = arg (lc_state c) 0;
          nfds = arg (lc_state c) 1;
          timeout = arg_fd (lc_state c) 2
      in ''poll(fds=0x'' @ hex (unat fds) @ '', nfds='' @ dec (unat nfds) @ '', timeout='' @
         dec_int timeout @ '') = '' @ dec_int ((lc_ret_norm c)) @ ''  /* '' @
         dec (lc_elapsed_value c) @ '' '' @ lc_elapsed_unit c @ '' */'')"

definition line_ppoll :: "line_ctx \<Rightarrow> string" where
  "line_ppoll c =
     (let fds = arg (lc_state c) 0;
          nfds = arg (lc_state c) 1;
          timeout = arg (lc_state c) 2;
          sigmask = arg (lc_state c) 3
      in ''ppoll(fds=0x'' @ hex (unat fds) @ '', nfds='' @ dec (unat nfds) @ '', timeout=0x'' @
         hex (unat timeout) @ '', sigmask=0x'' @ hex (unat sigmask) @ '') = '' @
         dec_int ((lc_ret_norm c)) @ ''  /* '' @ dec (lc_elapsed_value c) @ '' '' @
         lc_elapsed_unit c @ '' */'')"

definition line_select :: "line_ctx \<Rightarrow> string" where
  "line_select c =
     (let nfds = arg_fd (lc_state c) 0;
          readfds = arg (lc_state c) 1;
          writefds = arg (lc_state c) 2;
          exceptfds = arg (lc_state c) 3;
          timeout = arg (lc_state c) 4
      in ''select(nfds='' @ dec_int nfds @ '', readfds=0x'' @ hex (unat readfds) @
         '', writefds=0x'' @ hex (unat writefds) @ '', exceptfds=0x'' @ hex (unat exceptfds) @
         '', timeout=0x'' @ hex (unat timeout) @ '') = '' @ dec_int ((lc_ret_norm c)) @
         ''  /* '' @ dec (lc_elapsed_value c) @ '' '' @ lc_elapsed_unit c @ '' */'')"

definition line_pselect6 :: "line_ctx \<Rightarrow> string" where
  "line_pselect6 c =
     (let nfds = arg_fd (lc_state c) 0;
          readfds = arg (lc_state c) 1;
          writefds = arg (lc_state c) 2;
          exceptfds = arg (lc_state c) 3;
          timeout = arg (lc_state c) 4;
          sigmask = arg (lc_state c) 5
      in ''pselect(nfds='' @ dec_int nfds @ '', readfds=0x'' @ hex (unat readfds) @
         '', writefds=0x'' @ hex (unat writefds) @ '', exceptfds=0x'' @ hex (unat exceptfds) @
         '', timeout=0x'' @ hex (unat timeout) @ '', sigmask=0x'' @ hex (unat sigmask) @
         '') = '' @ dec_int ((lc_ret_norm c)) @ ''  /* '' @ dec (lc_elapsed_value c) @ '' '' @
         lc_elapsed_unit c @ '' */'')"

definition line_stat :: "line_ctx \<Rightarrow> string" where
  "line_stat c =
     (let path = unwrap_or ''<unreadable>'' (st_path_hint (lc_state c));
          statbuf = arg (lc_state c) 1
      in ''stat(path='' @ [dquote] @ path @ [dquote] @ '', statbuf=0x'' @ hex (unat statbuf) @
         '') = '' @ dec_int ((lc_ret_norm c)) @ ''  /* '' @ dec (lc_elapsed_value c) @ '' '' @
         lc_elapsed_unit c @ '' */'')"

definition line_lstat :: "line_ctx \<Rightarrow> string" where
  "line_lstat c =
     (let path = unwrap_or ''<unreadable>'' (st_path_hint (lc_state c));
          statbuf = arg (lc_state c) 1
      in ''lstat(path='' @ [dquote] @ path @ [dquote] @ '', statbuf=0x'' @ hex (unat statbuf) @
         '') = '' @ dec_int ((lc_ret_norm c)) @ ''  /* '' @ dec (lc_elapsed_value c) @ '' '' @
         lc_elapsed_unit c @ '' */'')"

definition line_fstat :: "line_ctx \<Rightarrow> string" where
  "line_fstat c =
     (let fd = arg_fd (lc_state c) 0;
          statbuf = arg (lc_state c) 1;
          suffix = format_fd_suffix (lc_fd_paths c fd)
      in if suffix = [] then
           ''fstat(fd='' @ dec_int fd @ '', statbuf=0x'' @ hex (unat statbuf) @ '') = '' @
           dec_int ((lc_ret_norm c)) @ ''  /* '' @ dec (lc_elapsed_value c) @ '' '' @
           lc_elapsed_unit c @ '' */''
         else
           ''fstat(fd='' @ dec_int fd @ suffix @ '' , statbuf=0x'' @ hex (unat statbuf) @
           '') = '' @ dec_int ((lc_ret_norm c)) @ ''  /* '' @ dec (lc_elapsed_value c) @ '' '' @
           lc_elapsed_unit c @ '' */'')"

definition line_newfstatat :: "line_ctx \<Rightarrow> string" where
  "line_newfstatat c =
     (let dirfd_text = format_dirfd (arg_fd (lc_state c) 0);
          path = unwrap_or ''<unreadable>'' (st_path_hint (lc_state c));
          statbuf = arg (lc_state c) 2;
          flags_text = format_newfstatat_flags (arg (lc_state c) 3)
      in ''newfstatat(dirfd='' @ dirfd_text @ '', path='' @ [dquote] @ path @ [dquote] @
         '', statbuf=0x'' @ hex (unat statbuf) @ '', flags='' @ flags_text @ '') = '' @
         dec_int ((lc_ret_norm c)) @ ''  /* '' @ dec (lc_elapsed_value c) @ '' '' @
         lc_elapsed_unit c @ '' */'')"

definition line_access :: "line_ctx \<Rightarrow> string" where
  "line_access c =
     (let path = unwrap_or ''<unreadable>'' (st_path_hint (lc_state c));
          mode_text = format_access_mode (arg (lc_state c) 1)
      in ''access(path='' @ [dquote] @ path @ [dquote] @ '', mode='' @ mode_text @ '') = '' @
         dec_int ((lc_ret_norm c)) @ ''  /* '' @ dec (lc_elapsed_value c) @ '' '' @
         lc_elapsed_unit c @ '' */'')"

definition line_faccessat :: "line_ctx \<Rightarrow> string" where
  "line_faccessat c =
     (let dirfd_text = format_dirfd (arg_fd (lc_state c) 0);
          path = unwrap_or ''<unreadable>'' (st_path_hint (lc_state c));
          mode_text = format_access_mode (arg (lc_state c) 2);
          flags_text = format_faccessat_flags (arg (lc_state c) 3)
      in ''faccessat(dirfd='' @ dirfd_text @ '', path='' @ [dquote] @ path @ [dquote] @
         '', mode='' @ mode_text @ '', flags='' @ flags_text @ '') = '' @
         dec_int ((lc_ret_norm c)) @ ''  /* '' @ dec (lc_elapsed_value c) @ '' '' @
         lc_elapsed_unit c @ '' */'')"

definition line_lseek :: "line_ctx \<Rightarrow> string" where
  "line_lseek c =
     (let fd = arg_fd (lc_state c) 0;
          offset = u64_as_i64 (arg (lc_state c) 1);
          whence_text = format_lseek_whence (arg (lc_state c) 2);
          suffix = format_fd_suffix (lc_fd_paths c fd)
      in if suffix = [] then
           ''lseek(fd='' @ dec_int fd @ '', offset='' @ dec_int offset @ '', whence='' @
           whence_text @ '') = '' @ dec_int ((lc_ret_norm c)) @ ''  /* '' @
           dec (lc_elapsed_value c) @ '' '' @ lc_elapsed_unit c @ '' */''
         else
           ''lseek(fd='' @ dec_int fd @ suffix @ '' , offset='' @ dec_int offset @ '', whence='' @
           whence_text @ '') = '' @ dec_int ((lc_ret_norm c)) @ ''  /* '' @
           dec (lc_elapsed_value c) @ '' '' @ lc_elapsed_unit c @ '' */'')"

definition line_pread64 :: "line_ctx \<Rightarrow> string" where
  "line_pread64 c =
     (let fd = arg_fd (lc_state c) 0;
          buf = arg (lc_state c) 1;
          count = arg (lc_state c) 2;
          offset = u64_as_i64 (arg (lc_state c) 3);
          preview = format_buffer_preview (env_cfg (lc_env c)) (env_vm (lc_env c) (lc_pid c)) buf count (lc_ret_norm c);
          suffix = format_fd_suffix (lc_fd_paths c fd)
      in if suffix = [] then
           ''pread(fd='' @ dec_int fd @ '', buf=0x'' @ hex (unat buf) @ '', count='' @
           dec (unat count) @ '', offset='' @ dec_int offset @ preview @ '') = '' @
           dec_int ((lc_ret_norm c)) @ ''  /* '' @ dec (lc_elapsed_value c) @ '' '' @
           lc_elapsed_unit c @ '' */''
         else
           ''pread(fd='' @ dec_int fd @ suffix @ '' , buf=0x'' @ hex (unat buf) @ '', count='' @
           dec (unat count) @ '', offset='' @ dec_int offset @ preview @ '') = '' @
           dec_int ((lc_ret_norm c)) @ ''  /* '' @ dec (lc_elapsed_value c) @ '' '' @
           lc_elapsed_unit c @ '' */'')"

definition line_pwrite64 :: "line_ctx \<Rightarrow> string" where
  "line_pwrite64 c =
     (let fd = arg_fd (lc_state c) 0;
          buf = arg (lc_state c) 1;
          count = arg (lc_state c) 2;
          offset = u64_as_i64 (arg (lc_state c) 3);
          preview = format_buffer_preview (env_cfg (lc_env c)) (env_vm (lc_env c) (lc_pid c)) buf count (lc_ret_norm c);
          suffix = format_fd_suffix (lc_fd_paths c fd)
      in if suffix = [] then
           ''pwrite(fd='' @ dec_int fd @ '', buf=0x'' @ hex (unat buf) @ '', count='' @
           dec (unat count) @ '', offset='' @ dec_int offset @ preview @ '') = '' @
           dec_int ((lc_ret_norm c)) @ ''  /* '' @ dec (lc_elapsed_value c) @ '' '' @
           lc_elapsed_unit c @ '' */''
         else
           ''pwrite(fd='' @ dec_int fd @ suffix @ '' , buf=0x'' @ hex (unat buf) @ '', count='' @
           dec (unat count) @ '', offset='' @ dec_int offset @ preview @ '') = '' @
           dec_int ((lc_ret_norm c)) @ ''  /* '' @ dec (lc_elapsed_value c) @ '' '' @
           lc_elapsed_unit c @ '' */'')"

definition line_prctl :: "line_ctx \<Rightarrow> string" where
  "line_prctl c =
     (let option = arg_fd (lc_state c) 0;
          arg2 = arg (lc_state c) 1;
          arg3 = arg (lc_state c) 2;
          arg4 = arg (lc_state c) 3;
          arg5 = arg (lc_state c) 4
      in ''prctl(option='' @ dec_int option @ '', arg2=0x'' @ hex (unat arg2) @ '', arg3=0x'' @
         hex (unat arg3) @ '', arg4=0x'' @ hex (unat arg4) @ '', arg5=0x'' @ hex (unat arg5) @
         '') = '' @ dec_int ((lc_ret_norm c)) @ ''  /* '' @ dec (lc_elapsed_value c) @ '' '' @
         lc_elapsed_unit c @ '' */'')"

definition line_futex :: "line_ctx \<Rightarrow> string" where
  "line_futex c =
     ''futex(uaddr=0x'' @ hex (unat (arg (lc_state c) 0)) @ '', futex_op=0x'' @
         hex (unat (arg (lc_state c) 1)) @ '', val='' @ dec_int (arg_fd (lc_state c) 2) @
         '', timeout_or_val2=0x'' @ hex (unat (arg (lc_state c) 3)) @ '', uaddr2=0x'' @
         hex (unat (arg (lc_state c) 4)) @ '', val3='' @ dec_int (arg_fd (lc_state c) 5) @
         '') = '' @ dec_int ((lc_ret_norm c)) @ ''  /* '' @ dec (lc_elapsed_value c) @ '' '' @
         lc_elapsed_unit c @ '' */''"

definition line_ioctl :: "line_ctx \<Rightarrow> string" where
  "line_ioctl c =
     (let fd = arg_fd (lc_state c) 0;
          cmd = arg (lc_state c) 1;
          ptr = arg (lc_state c) 2;
          path = lc_fd_paths c fd;
          gpu_related = (case path of None \<Rightarrow> False | Some p \<Rightarrow> is_gpu_path p);
          cfg = env_cfg (lc_env c);
          cmd_summary =
            (if gpu_related then
               summarize_ioctl (env_rm (lc_env c)) (env_vm (lc_env c) (decode_target_pid (Some (lc_pid c)) (env_self_pid (lc_env c))))
                 cmd ptr (cfg_ioctl_decode cfg) (cfg_max_blob cfg) path
             else ''cmd=0x'' @ hex (unat cmd));
          args =
            (if gpu_related then
               [dquote] @ unwrap_or ''<unknown>'' path @ [dquote] @ '' ,'' @ cmd_summary
             else
               ''fd='' @ dec_int fd @ format_fd_suffix path @ '' , '' @ cmd_summary)
      in ''ioctl('' @ args @ '') = '' @ dec_int (lc_ret_norm c) @ ''  /* '' @ dec (lc_elapsed_value c) @
         '' '' @ lc_elapsed_unit c @ '' */'')"

definition line_other :: "line_ctx \<Rightarrow> string" where
  "line_other c =
     (let name = syscall_name (lc_env c) (st_nr (lc_state c))
      in name @ ''(0x'' @ hex (unat (arg (lc_state c) 0)) @ '', 0x'' @
         hex (unat (arg (lc_state c) 1)) @ '', 0x'' @ hex (unat (arg (lc_state c) 2)) @ '', 0x'' @
         hex (unat (arg (lc_state c) 3)) @ '', 0x'' @ hex (unat (arg (lc_state c) 4)) @ '', 0x'' @
         hex (unat (arg (lc_state c) 5)) @ '') = '' @ dec_int ((lc_ret_norm c)) @ ''  /* '' @
         dec (lc_elapsed_value c) @ '' '' @ lc_elapsed_unit c @ '' */'')"

definition syscall_arms :: "(i64 \<times> (line_ctx \<Rightarrow> string)) list" where
  "syscall_arms =
     [(SYS_OPEN, line_open), (SYS_OPENAT, line_openat), (SYS_CLOSE, line_close),
      (SYS_DUP, line_dup), (SYS_DUP2, line_dup2), (SYS_DUP3, line_dup3), (SYS_MMAP, line_mmap),
      (SYS_MUNMAP, line_munmap), (SYS_READ, line_read), (SYS_WRITE, line_write),
      (SYS_POLL, line_poll), (SYS_PPOLL, line_ppoll), (SYS_SELECT, line_select),
      (SYS_PSELECT6, line_pselect6), (SYS_STAT, line_stat), (SYS_LSTAT, line_lstat),
      (SYS_FSTAT, line_fstat), (SYS_NEWFSTATAT, line_newfstatat), (SYS_ACCESS, line_access),
      (SYS_FACCESSAT, line_faccessat), (SYS_LSEEK, line_lseek), (SYS_PREAD64, line_pread64),
      (SYS_PWRITE64, line_pwrite64), (SYS_PRCTL, line_prctl), (SYS_FUTEX, line_futex),
      (SYS_IOCTL, line_ioctl)]"

definition format_syscall_line ::
    "env \<Rightarrow> pid_t \<Rightarrow> SyscallState \<Rightarrow> i64 \<Rightarrow> nat \<Rightarrow> (rfd \<Rightarrow> string option) \<Rightarrow> rfd set \<Rightarrow> nat \<Rightarrow> string" where
  "format_syscall_line e pid st ret_raw elapsed fd_paths hidden_fds depth =
     (let cfg = env_cfg e;
          (elapsed_value, elapsed_unit) = ptrace_duration_for_config cfg elapsed;
          ret_norm = normalize_ret ret_raw
      in if is_hidden_fd_syscall st hidden_fds then []
         else if (st_nr st = SYS_OPEN \<or> st_nr st = SYS_OPENAT) \<and> 0 \<le> ret_norm \<and>
                 is_cudatrace_output_open cfg st then []
         else
           let c = \<lparr>lc_env = e, lc_pid = pid, lc_state = st, lc_ret_raw = ret_raw, lc_ret_norm = ret_norm,
                    lc_elapsed_value = elapsed_value, lc_elapsed_unit = elapsed_unit,
                    lc_fd_paths = fd_paths\<rparr>;
               line = (case map_of syscall_arms (st_nr st) of
                         Some format \<Rightarrow> format c | None \<Rightarrow> line_other c);
               indented = indent_ptrace_line cfg line depth
           in prepend_left_meta cfg indented pid (st_started_ts st))"

subsection \<open>The shape of a line\<close>

definition ends_in :: "string \<Rightarrow> string \<Rightarrow> bool" where
  "ends_in t s \<longleftrightarrow> (\<exists>h. s = h @ t)"

lemma ends_in_refl: "ends_in t t"
  by (simp add: ends_in_def)

lemma ends_in_Cons: "ends_in t s \<Longrightarrow> ends_in t (c # s)"
  by (auto simp: ends_in_def)

lemma ends_in_append: "ends_in t s \<Longrightarrow> ends_in t (h @ s)"
  by (auto simp: ends_in_def)

lemmas ends_in_intros = ends_in_refl ends_in_Cons ends_in_append

text \<open>What is printed for the return value.\<close>

definition shown_return :: "line_ctx \<Rightarrow> string" where
  "shown_return c =
     (if st_nr (lc_state c) = SYS_OPEN \<or> st_nr (lc_state c) = SYS_OPENAT then
        format_open_return (lc_ret_norm c) (st_path_hint (lc_state c))
      else if st_nr (lc_state c) = SYS_MMAP then
        (if is_kernel_error (lc_ret_raw c) then ''MAP_FAILED''
         else hex0x (unat (i64_as_u64 (lc_ret_raw c))))
      else dec_int (lc_ret_norm c))"

definition line_end :: "line_ctx \<Rightarrow> string \<Rightarrow> string" where
  "line_end c ret = '') = '' @ ret @ ''  /* '' @ dec (lc_elapsed_value c) @ '' '' @ lc_elapsed_unit c @ '' */''"

lemmas line_defs = line_open_def line_openat_def line_close_def line_dup_def line_dup2_def line_dup3_def
  line_mmap_def line_munmap_def line_read_def line_write_def line_poll_def line_ppoll_def
  line_select_def line_pselect6_def line_stat_def line_lstat_def line_fstat_def
  line_newfstatat_def line_access_def line_faccessat_def line_lseek_def line_pread64_def
  line_pwrite64_def line_prctl_def line_futex_def line_other_def line_ioctl_def

text \<open>The arm of a system call prints its return value and the elapsed time last.\<close>

definition arm_ok :: "i64 \<Rightarrow> (line_ctx \<Rightarrow> string) \<Rightarrow> bool" where
  "arm_ok nr f \<longleftrightarrow> (\<forall>c. st_nr (lc_state c) = nr \<longrightarrow> ends_in (line_end c (shown_return c)) (f c))"

lemma arms_ok: "list_all (\<lambda>(nr, f). arm_ok nr f) syscall_arms"
  unfolding syscall_arms_def list.pred_inject(2) prod.case arm_ok_def
  by (intro conjI allI impI list.pred_inject(1); unfold line_defs Let_def;
      simp add: shown_return_def line_end_def sys_defs split: if_split;
      (intro conjI impI)?; (rule ends_in_intros)+)

lemma map_of_arm: "map_of syscall_arms nr = Some f \<Longrightarrow> arm_ok nr f"
  using arms_ok by (auto simp: list_all_iff dest!: map_of_SomeD)

lemma other_ok:
  assumes "map_of syscall_arms (st_nr (lc_state c)) = None"
  shows "ends_in (line_end c (shown_return c)) (line_other c)"
proof -
  have "st_nr (lc_state c) \<notin> {SYS_OPEN, SYS_OPENAT, SYS_MMAP}"
    using assms by (auto simp: syscall_arms_def split: if_splits)
  then show ?thesis
    unfolding line_other_def Let_def
    by (simp add: shown_return_def line_end_def) ((rule ends_in_intros)+)
qed

definition ctx_of :: "env \<Rightarrow> pid_t \<Rightarrow> SyscallState \<Rightarrow> i64 \<Rightarrow> nat \<Rightarrow> (rfd \<Rightarrow> string option) \<Rightarrow> line_ctx" where
  "ctx_of e pid st ret_raw elapsed fd_paths =
     \<lparr>lc_env = e, lc_pid = pid, lc_state = st, lc_ret_raw = ret_raw, lc_ret_norm = normalize_ret ret_raw,
      lc_elapsed_value = fst (ptrace_duration_for_config (env_cfg e) elapsed),
      lc_elapsed_unit = snd (ptrace_duration_for_config (env_cfg e) elapsed), lc_fd_paths = fd_paths\<rparr>"

definition suppressed :: "env \<Rightarrow> SyscallState \<Rightarrow> i64 \<Rightarrow> rfd set \<Rightarrow> bool" where
  "suppressed e st ret_raw hidden_fds \<longleftrightarrow>
     is_hidden_fd_syscall st hidden_fds \<or>
     (st_nr st \<in> {SYS_OPEN, SYS_OPENAT} \<and> 0 \<le> ret_raw \<and> is_cudatrace_output_open (env_cfg e) st)"

lemma line_of_call:
  "format_syscall_line e pid st ret_raw elapsed fd_paths hidden_fds depth =
     (if suppressed e st ret_raw hidden_fds then []
      else prepend_left_meta (env_cfg e)
        (indent_ptrace_line (env_cfg e)
          (case map_of syscall_arms (st_nr st) of
             Some format \<Rightarrow> format (ctx_of e pid st ret_raw elapsed fd_paths)
           | None \<Rightarrow> line_other (ctx_of e pid st ret_raw elapsed fd_paths)) depth)
        pid (st_started_ts st))"
  by (cases "ptrace_duration_for_config (env_cfg e) elapsed"; cases "map_of syscall_arms (st_nr st)")
    (unfold format_syscall_line_def suppressed_def ctx_of_def Let_def normalize_ret_nonneg, auto)

lemma indent_tabs:
  "\<exists>n. n \<le> depth \<and> indent_ptrace_line cfg line depth = tabs n @ line"
  by (cases "\<not> (mask_cudart (cfg_trace cfg) \<or> mask_driver (cfg_trace cfg)) \<or> depth = 0")
    (auto simp: indent_ptrace_line_def tabs_def intro: exI [of _ 0])

text \<open>Every system call is traced or suppressed, never both: it is suppressed only when it acts on
  one of the library's own descriptors or opens the library's output, and otherwise it gives a line
  that, after the configured prefix and at most as many tabs as the call depth, ends in the
  return value and the elapsed time.\<close>

theorem syscall_line_shape:
  "(let line = format_syscall_line e pid st ret_raw elapsed fd_paths hidden_fds depth;
        c = ctx_of e pid st ret_raw elapsed fd_paths
    in if suppressed e st ret_raw hidden_fds then line = []
       else \<exists>n head. n \<le> depth \<and>
         line = format_left_meta_prefix (env_cfg e) pid (st_started_ts st) @ tabs n @ head @
           line_end c (shown_return c))"
proof (cases "suppressed e st ret_raw hidden_fds")
  case False
  let ?c = "ctx_of e pid st ret_raw elapsed fd_paths"
  let ?l = "case map_of syscall_arms (st_nr st) of Some format \<Rightarrow> format ?c | None \<Rightarrow> line_other ?c"
  have nr: "st_nr (lc_state ?c) = st_nr st" by (simp add: ctx_of_def)
  have "ends_in (line_end ?c (shown_return ?c)) ?l"
    using map_of_arm [of "st_nr st"] other_ok [of ?c] nr
    by (cases "map_of syscall_arms (st_nr st)") (auto simp: arm_ok_def)
  then obtain head where h: "?l = head @ line_end ?c (shown_return ?c)" by (auto simp: ends_in_def)
  obtain n where "n \<le> depth" "indent_ptrace_line (env_cfg e) ?l depth = tabs n @ ?l"
    using indent_tabs by blast
  with False h show ?thesis by (auto simp: line_of_call prepend_is_prefix)
qed (simp add: line_of_call)

text \<open>The line of an ioctl on a descriptor whose path a decoder handles.\<close>

lemma ioctl_line:
  assumes "st_nr st = SYS_IOCTL" and "fd_paths (arg_fd st 0) = Some p" and "is_gpu_path p"
    and "arg_fd st 0 \<notin> hidden_fds"
    and sum: "summarize_ioctl (env_rm e) (env_vm e pid) (arg st 1) (arg st 2) (cfg_ioctl_decode (env_cfg e))
      (cfg_max_blob (env_cfg e)) (Some p) = hdr @ '', args='' @ json"
  shows "\<exists>head tail. format_syscall_line e pid st ret_raw elapsed fd_paths hidden_fds depth =
      head @ '', args='' @ json @ '') = '' @ dec_int (normalize_ret ret_raw) @ tail"
proof -
  let ?c = "ctx_of e pid st ret_raw elapsed fd_paths"
  have "\<not> suppressed e st ret_raw hidden_fds"
    using assms(1,4) by (simp add: suppressed_def is_hidden_fd_syscall_def sys_defs)
  moreover have "map_of syscall_arms SYS_IOCTL = Some line_ioctl"
    by (simp add: syscall_arms_def sys_defs)
  moreover obtain n where "indent_ptrace_line (env_cfg e) (line_ioctl ?c) depth = tabs n @ line_ioctl ?c"
    using indent_tabs by blast
  ultimately have l: "format_syscall_line e pid st ret_raw elapsed fd_paths hidden_fds depth =
      format_left_meta_prefix (env_cfg e) pid (st_started_ts st) @ tabs n @ line_ioctl ?c"
    using assms(1) by (simp add: line_of_call prepend_is_prefix)
  have "line_ioctl ?c = (''ioctl('' @ [dquote] @ p @ [dquote] @ '' ,'' @ hdr) @ '', args='' @ json @
      '') = '' @ dec_int (normalize_ret ret_raw) @
      (''  /* '' @ dec (lc_elapsed_value ?c) @ '' '' @ lc_elapsed_unit ?c @ '' */'')"
    using assms(2,3) sum
    by (simp add: line_ioctl_def ctx_of_def decode_target_pid_def Let_def)
  with l show ?thesis by (metis append_assoc)
qed

text \<open>C11. From an ioctl of the traced process to its line: on a descriptor known to be a device of the
  driver, \<open>/dev/nvidia-uvm\<close> or one of the resource manager, the line contains one JSON object that
  parses, decoded from the memory of the calling process (and of no other), and its last member is
  the truthful status.\<close>

theorem gpu_ioctl_line:
  assumes "st_nr st = SYS_IOCTL" and "fd_paths (arg_fd st 0) = Some p" and "arg_fd st 0 \<notin> hidden_fds"
    and "cfg_ioctl_decode (env_cfg e) \<noteq> IoctlDecodeMode.Off" and "tables_ok (env_rm e)"
    and "ioctl_status (env_vm e pid) (arg st 1) (arg st 2) (cfg_ioctl_decode (env_cfg e))
      (cfg_max_blob (env_cfg e)) (Some p) = Some s"
  shows "\<exists>head json tail.
    format_syscall_line e pid st ret_raw elapsed fd_paths hidden_fds depth =
      head @ '', args='' @ json @ '') = '' @ dec_int (normalize_ret ret_raw) @ tail \<and>
    status_object s json"
proof -
  from assms(6) have "is_uvm_path (Some p) \<or> is_nvidia_rm_path (Some p)"
    by (auto simp: ioctl_status_def split: if_splits)
  then have g: "is_gpu_path p" by (auto dest: decoded_paths_are_gpu)
  from summarize_reports [OF assms(5,4), of "env_vm e pid" "arg st 1" "arg st 2" "cfg_max_blob (env_cfg e)" "Some p"]
  obtain json where j: "summarize_ioctl (env_rm e) (env_vm e pid) (arg st 1) (arg st 2)
      (cfg_ioctl_decode (env_cfg e)) (cfg_max_blob (env_cfg e)) (Some p) =
      ioctl_header (env_rm e) (arg st 1) (Some p) @ '', args='' @ json" "status_object s json"
    unfolding assms(6) option.case by blast
  from ioctl_line [where e = e and pid = pid and st = st and fd_paths = fd_paths and p = p
      and hidden_fds = hidden_fds, OF assms(1,2) g assms(3) j(1)] j(2) show ?thesis by blast
qed

text \<open>On \<open>/dev/nvidia-uvm\<close> the same holds whatever the tables of names are.\<close>

theorem uvm_ioctl_line:
  assumes "st_nr st = SYS_IOCTL" and "fd_paths (arg_fd st 0) = Some p" and "is_uvm_path (Some p)"
    and "cfg_ioctl_decode (env_cfg e) \<noteq> IoctlDecodeMode.Off" and "arg_fd st 0 \<notin> hidden_fds"
  shows "\<exists>head json tail.
    format_syscall_line e pid st ret_raw elapsed fd_paths hidden_fds depth =
      head @ '', args='' @ json @ '') = '' @ dec_int (normalize_ret ret_raw) @ tail \<and>
    status_object (uvm_status (env_vm e pid) (arg st 1) (arg st 2) (cfg_ioctl_decode (env_cfg e))
      (cfg_max_blob (env_cfg e))) json"
proof -
  have g: "is_gpu_path p" by (rule decoded_paths_are_gpu(1) [OF assms(3)])
  from summarize_uvm [OF assms(3), of "env_rm e" "env_vm e pid" "arg st 1" "arg st 2"
      "cfg_ioctl_decode (env_cfg e)" "cfg_max_blob (env_cfg e)"]
  obtain json where "summarize_ioctl (env_rm e) (env_vm e pid) (arg st 1) (arg st 2)
      (cfg_ioctl_decode (env_cfg e)) (cfg_max_blob (env_cfg e)) (Some p) =
      ioctl_header (env_rm e) (arg st 1) (Some p) @ '', args='' @ json"
    "status_object (uvm_status (env_vm e pid) (arg st 1) (arg st 2) (cfg_ioctl_decode (env_cfg e))
      (cfg_max_blob (env_cfg e))) json"
    unfolding if_not_P [OF assms(4)] by blast
  with ioctl_line [where e = e and pid = pid and st = st and fd_paths = fd_paths and p = p
      and hidden_fds = hidden_fds, OF assms(1,2) g assms(5)] show ?thesis by blast
qed

definition probe_env :: env where
  "probe_env = \<lparr>env_cfg = plain_config, env_vm = (\<lambda>_ _ n. Some (replicate n 0)),
     env_live_link = (\<lambda>_ _. None), env_names = (\<lambda>_. None), env_rm = no_tables, env_self_pid = 1\<rparr>"

theorem gpu_ioctl_line_witness:
  "\<exists>head json tail.
    format_syscall_line probe_env 42 (call_state SYS_IOCTL [5, 0xc020462a, 0x1000, 0, 0, 0] None) 0 0
      [5 \<mapsto> ''/dev/nvidiactl''] {} 0 = head @ '', args='' @ json @ '') = '' @ dec_int (normalize_ret 0) @ tail \<and>
    status_object (rm_status (\<lambda>_ n. Some (replicate n 0)) (decode_ioctl_cmd 0xc020462a) 0x1000
      (cfg_ioctl_decode plain_config) (cfg_max_blob plain_config)) json"
proof -
  let ?s = "call_state SYS_IOCTL [5, 0xc020462a, 0x1000, 0, 0, 0] None"
  have a: "st_nr ?s = SYS_IOCTL" "arg_fd ?s 0 = 5" "arg ?s 1 = 0xc020462a" "arg ?s 2 = 0x1000"
    by (simp_all add: call_state_def arg_fd_def arg_def u64_as_i32_def)
  have c: "cfg_ioctl_decode (env_cfg probe_env) \<noteq> IoctlDecodeMode.Off" "tables_ok (env_rm probe_env)"
    by (simp_all add: probe_env_def plain_config_def from_lookup_def parse_ioctl_decode_def)
  have e: "env_cfg probe_env = plain_config" "env_vm probe_env 42 = (\<lambda>_ n. Some (replicate n 0))"
    by (simp_all add: probe_env_def)
  have f: "[5 \<mapsto> ''/dev/nvidiactl''] (arg_fd ?s 0) = Some ''/dev/nvidiactl''" "arg_fd ?s 0 \<notin> {}"
    by (simp_all add: a(2))
  have p: "\<not> is_uvm_path (Some ''/dev/nvidiactl'')" "is_nvidia_rm_path (Some ''/dev/nvidiactl'')"
    by (simp_all add: is_uvm_path_def is_nvidia_rm_path_def starts_with_def)
  have m: "meta_ioc_type (decode_ioctl_cmd 0xc020462a) = NV_IOCTL_MAGIC"
    by code_simp
  have s: "ioctl_status (env_vm probe_env 42) (arg ?s 1) (arg ?s 2) (cfg_ioctl_decode (env_cfg probe_env))
      (cfg_max_blob (env_cfg probe_env)) (Some ''/dev/nvidiactl'') =
    Some (rm_status (\<lambda>_ n. Some (replicate n 0)) (decode_ioctl_cmd 0xc020462a) 0x1000
      (cfg_ioctl_decode plain_config) (cfg_max_blob plain_config))"
    by (simp only: e a(3,4)) (simp add: ioctl_status_def p m)
  from gpu_ioctl_line [where e = probe_env and pid = 42 and ret_raw = 0 and elapsed = 0 and depth = 0
      and st = ?s and fd_paths = "[5 \<mapsto> ''/dev/nvidiactl'']" and hidden_fds = "{}", OF a(1) f c s] show ?thesis .
qed

theorem uvm_ioctl_line_witness:
  "\<exists>head json tail.
    format_syscall_line probe_env 42 (call_state SYS_IOCTL [5, 39, 0x1000, 0, 0, 0] None) 0 0
      [5 \<mapsto> ''/dev/nvidia-uvm''] {} 0 = head @ '', args='' @ json @ '') = '' @ dec_int (normalize_ret 0) @ tail \<and>
    status_object (uvm_status (\<lambda>_ n. Some (replicate n 0)) 39 0x1000 (cfg_ioctl_decode plain_config)
      (cfg_max_blob plain_config)) json"
proof -
  let ?s = "call_state SYS_IOCTL [5, 39, 0x1000, 0, 0, 0] None"
  have a: "st_nr ?s = SYS_IOCTL" "arg_fd ?s 0 = 5" "arg ?s 1 = 39" "arg ?s 2 = 0x1000"
    by (simp_all add: call_state_def arg_fd_def arg_def u64_as_i32_def)
  have c: "cfg_ioctl_decode plain_config \<noteq> IoctlDecodeMode.Off"
    by (simp add: plain_config_def from_lookup_def parse_ioctl_decode_def)
  have e: "env_cfg probe_env = plain_config" "env_vm probe_env 42 = (\<lambda>_ n. Some (replicate n 0))"
    by (simp_all add: probe_env_def)
  have f: "[5 \<mapsto> ''/dev/nvidia-uvm''] (arg_fd ?s 0) = Some ''/dev/nvidia-uvm''"
    "is_uvm_path (Some ''/dev/nvidia-uvm'')" "arg_fd ?s 0 \<notin> {}"
    by (simp_all add: a(2) is_uvm_path_def starts_with_def)
  from uvm_ioctl_line [where e = probe_env and pid = 42 and ret_raw = 0 and elapsed = 0 and depth = 0
      and st = ?s and fd_paths = "[5 \<mapsto> ''/dev/nvidia-uvm'']" and hidden_fds = "{}",
      OF a(1) f(1,2) _ f(3)] c
  show ?thesis by (simp only: e a(3,4)) simp
qed

end
