(* ===== verification/Reentry.thy ===== *)
theory Reentry
  imports Prelude
begin

text \<open>
  \<open>src/reentry.rs\<close>: the per-thread counter that switches the hooks off while the library runs
  its own code. The thread-local \<open>BYPASS_DEPTH\<close> is \<open>Some depth\<close>, or \<open>None\<close> while the
  thread's storage is being torn down (then \<open>try_with\<close> fails). A guard dropped at the end of
  its scope is the call of \<open>HookBypassGuard_drop\<close> there.
\<close>

type_synonym bypass_tls = "nat option"

record HookBypassGuard =
  guard_active :: bool

definition HookBypassGuard_enter :: "bypass_tls \<Rightarrow> HookBypassGuard \<times> bypass_tls" where
  "HookBypassGuard_enter tls =
     (case tls of
        Some current \<Rightarrow> (\<lparr>guard_active = True\<rparr>, Some (saturating_add u32_max current 1))
      | None \<Rightarrow> (\<lparr>guard_active = False\<rparr>, None))"

definition hooks_blocked :: "bypass_tls \<Rightarrow> bool" where
  "hooks_blocked tls = (case tls of Some depth \<Rightarrow> 0 < depth | None \<Rightarrow> True)"

definition HookBypassGuard_drop :: "HookBypassGuard \<Rightarrow> bypass_tls \<Rightarrow> bypass_tls" where
  "HookBypassGuard_drop self tls =
     (if \<not> guard_active self then tls
      else case tls of Some current \<Rightarrow> Some (current - 1) | None \<Rightarrow> None)"

text \<open>Code that uses guards: a probe of \<open>hooks_blocked\<close>, or a scope that holds a guard around
  other code. \<open>run_scopes\<close> gives what the probes see and the final counter.\<close>

datatype scope = Probe | Guarded "scope list"

fun run_scope :: "scope \<Rightarrow> bypass_tls \<Rightarrow> bool list \<times> bypass_tls"
  and run_scopes :: "scope list \<Rightarrow> bypass_tls \<Rightarrow> bool list \<times> bypass_tls" where
  "run_scope Probe tls = ([hooks_blocked tls], tls)"
| "run_scope (Guarded body) tls =
     (let (guard, tls) = HookBypassGuard_enter tls;
          (seen, tls) = run_scopes body tls
      in (seen, HookBypassGuard_drop guard tls))"
| "run_scopes [] tls = ([], tls)"
| "run_scopes (s # ss) tls =
     (let (seen, tls) = run_scope s tls; (seen', tls) = run_scopes ss tls in (seen @ seen', tls))"

text \<open>What the probes ought to see: whether a guard is alive.\<close>

fun blocked_spec :: "bool \<Rightarrow> scope \<Rightarrow> bool list"
  and blocked_specs :: "bool \<Rightarrow> scope list \<Rightarrow> bool list" where
  "blocked_spec b Probe = [b]"
| "blocked_spec b (Guarded body) = blocked_specs True body"
| "blocked_specs b [] = []"
| "blocked_specs b (s # ss) = blocked_spec b s @ blocked_specs b ss"

fun nesting :: "scope \<Rightarrow> nat" and nestings :: "scope list \<Rightarrow> nat" where
  "nesting Probe = 0"
| "nesting (Guarded body) = Suc (nestings body)"
| "nestings [] = 0"
| "nestings (s # ss) = max (nesting s) (nestings ss)"

lemma enter_drop:
  assumes "n < u32_max"
  shows "HookBypassGuard_enter (Some n) = (\<lparr>guard_active = True\<rparr>, Some (Suc n))"
    and "HookBypassGuard_drop \<lparr>guard_active = True\<rparr> (Some (Suc n)) = Some n"
  using assms by (simp_all add: HookBypassGuard_enter_def HookBypassGuard_drop_def saturating_add_def)

lemma run_scope_ok:
  "n + nesting s \<le> u32_max \<Longrightarrow> run_scope s (Some n) = (blocked_spec (0 < n) s, Some n)"
  "n + nestings ss \<le> u32_max \<Longrightarrow> run_scopes ss (Some n) = (blocked_specs (0 < n) ss, Some n)"
  by (induction s and ss arbitrary: n and n rule: nesting_nestings.induct)
    (simp_all add: hooks_blocked_def enter_drop)

lemma run_scope_none:
  "run_scope s None = (blocked_spec True s, None)"
  "run_scopes ss None = (blocked_specs True ss, None)"
  by (induction s and ss rule: nesting_nestings.induct)
    (simp_all add: hooks_blocked_def HookBypassGuard_enter_def HookBypassGuard_drop_def)

lemma blocked_all: "list_all id (blocked_spec True s)" "list_all id (blocked_specs True ss)"
  by (induction s and ss rule: nesting_nestings.induct) simp_all

text \<open>Guards nest: after any use of guards the counter is what it was before, and inside a
  guard, at any depth, the hooks are off, while outside every guard they are as they were.\<close>

theorem bypass_guards_nest:
  assumes "n + nestings ss \<le> u32_max"
  shows "run_scopes ss (Some n) = (blocked_specs (0 < n) ss, Some n)"
  by (rule run_scope_ok(2) [OF assms])

theorem bypass_guards_nest_witness:
  "run_scopes [Probe, Guarded [Probe, Guarded [Probe], Probe], Probe] (Some 0) =
     ([False, True, True, True, False], Some 0)"
  using bypass_guards_nest [of 0 "[Probe, Guarded [Probe, Guarded [Probe], Probe], Probe]"]
  by (simp add: u32_max_def)

text \<open>While a thread's storage is torn down the hooks stay off, and guards change nothing.\<close>

theorem bypass_torn_down:
  "run_scopes ss None = (blocked_specs True ss, None) \<and> list_all id (blocked_specs True ss)"
  by (simp add: run_scope_none blocked_all)

end
