(* ===== verification/Logger.thy ===== *)
theory Logger
  imports Config Reentry
begin

text \<open>
  \<open>src/logger.rs\<close>: one line of trace output, written to the thread's own file or to standard
  output. The system calls are a parameter: a \<open>kernel\<close> acts on a world of any type \<open>'w\<close>.
  \<open>write\<close> returns its result and \<open>errno\<close>. The retry loop of \<open>write_all\<close> may run forever on
  a kernel that keeps interrupting it, so it is a partial function whose \<open>None\<close> is divergence.
\<close>

definition STDOUT_FILENO :: rfd where "STDOUT_FILENO = 1"
definition STDERR_FILENO :: rfd where "STDERR_FILENO = 2"
definition EINTR :: i32 where "EINTR = 4"

record 'w kernel =
  k_write :: "rfd \<Rightarrow> string \<Rightarrow> 'w \<Rightarrow> int \<times> i32 \<times> 'w"
  k_openat :: "string \<Rightarrow> 'w \<Rightarrow> i64 \<times> 'w"
  k_gettid :: i64

datatype LoggerTarget = Stdout_target | ThreadFiles string

definition LoggerSettings_from_config :: "Config \<Rightarrow> LoggerTarget" where
  "LoggerSettings_from_config cfg =
     (case cfg_output cfg of Stdout \<Rightarrow> Stdout_target | File \<Rightarrow> ThreadFiles (cfg_path cfg))"

partial_function (option) write_all ::
    "'w kernel \<Rightarrow> rfd \<Rightarrow> string \<Rightarrow> 'w \<Rightarrow> (bool \<times> 'w) option" where
  "write_all k fd data w =
     (if data = [] then Some (True, w)
      else case k_write k fd data w of
             (written, err, w') \<Rightarrow>
               if written < 0 then
                 (if err = EINTR then write_all k fd data w' else Some (False, w'))
               else write_all k fd (drop (nat written) data) w')"

definition thread_output_path :: "string \<Rightarrow> i64 \<Rightarrow> string" where
  "thread_output_path base_path tid = base_path @ ''.tid-'' @ dec_int tid"

text \<open>\<open>CString::new\<close> fails on an interior NUL.\<close>

definition open_output_file :: "'w kernel \<Rightarrow> string \<Rightarrow> 'w \<Rightarrow> rfd option \<times> 'w" where
  "open_output_file k path w =
     (if char_of (0 :: nat) \<in> set path then (None, w)
      else case k_openat k path w of
             (r, w') \<Rightarrow> (let fd = i64_as_i32 r in (if 0 \<le> fd then Some fd else None, w')))"

text \<open>The thread-local state: the bypass counter and \<open>THREAD_FILE_SINK\<close>, \<open>None\<close> while the
  storage is torn down.\<close>

record log_tls =
  tls_bypass :: bypass_tls
  tls_sink :: "rfd option option"

definition open_failed_message :: string where
  "open_failed_message =
     ''[cudatrace] failed to open thread output file, fallback to stdout'' @ [newline]"

definition write_to_sink ::
    "'w kernel \<Rightarrow> string \<Rightarrow> string \<Rightarrow> log_tls \<Rightarrow> 'w \<Rightarrow> (bool \<times> log_tls \<times> 'w) option" where
  "write_to_sink k base_path bytes tls w =
     (case tls_sink tls of
        None \<Rightarrow> map_option (\<lambda>(ok, w). (ok, tls, w)) (write_all k STDOUT_FILENO bytes w)
      | Some (Some fd) \<Rightarrow> map_option (\<lambda>(ok, w). (ok, tls, w)) (write_all k fd bytes w)
      | Some None \<Rightarrow>
          (case open_output_file k (thread_output_path base_path (k_gettid k)) w of
             (Some fd, w) \<Rightarrow>
               map_option (\<lambda>(ok, w). (ok, tls\<lparr>tls_sink := Some (Some fd)\<rparr>, w)) (write_all k fd bytes w)
           | (None, w) \<Rightarrow>
               Option.bind (write_all k STDERR_FILENO open_failed_message w)
                 (\<lambda>(_, w). map_option (\<lambda>(ok, w). (ok, tls, w)) (write_all k STDOUT_FILENO bytes w))))"

definition log_line ::
    "'w kernel \<Rightarrow> LoggerTarget \<Rightarrow> string \<Rightarrow> log_tls \<Rightarrow> 'w \<Rightarrow> (log_tls \<times> 'w) option" where
  "log_line k target line tls w =
     (let (bypass, b) = HookBypassGuard_enter (tls_bypass tls);
          tls = tls\<lparr>tls_bypass := b\<rparr>;
          bytes = line @ [newline];
          r = (case target of
                 Stdout_target \<Rightarrow> map_option (\<lambda>(_, w). (tls, w)) (write_all k STDOUT_FILENO bytes w)
               | ThreadFiles base_path \<Rightarrow>
                   Option.bind (write_to_sink k base_path bytes tls w) (\<lambda>(ok, tls, w).
                     if \<not> ok then map_option (\<lambda>(_, w). (tls, w)) (write_all k STDOUT_FILENO bytes w)
                     else Some (tls, w)))
      in map_option (\<lambda>(tls, w). (tls\<lparr>tls_bypass := HookBypassGuard_drop bypass (tls_bypass tls)\<rparr>, w)) r)"

text \<open>The drop of a \<open>ThreadFileSink\<close> when its thread ends: the descriptor that is closed, with
  the bypass counter around it.\<close>

definition ThreadFileSink_drop :: "rfd \<Rightarrow> bypass_tls \<Rightarrow> rfd \<times> bypass_tls" where
  "ThreadFileSink_drop fd tls =
     (let (bypass, tls) = HookBypassGuard_enter tls in (fd, HookBypassGuard_drop bypass tls))"

subsection \<open>What the code needs of the kernel\<close>

text \<open>
  \<open>write(2)\<close> for a non-empty buffer: it appends a non-empty prefix to the file, or fails and
  appends nothing; it is interrupted only finitely often in a row, counted by \<open>patience\<close>.
  \<open>content\<close> is what has been appended to a descriptor.
\<close>

definition write_contract ::
    "'w kernel \<Rightarrow> ('w \<Rightarrow> rfd \<Rightarrow> string) \<Rightarrow> ('w \<Rightarrow> nat) \<Rightarrow> bool" where
  "write_contract k content patience \<longleftrightarrow>
     (\<forall>fd data w r e w'. data \<noteq> [] \<longrightarrow> k_write k fd data w = (r, e, w') \<longrightarrow>
        r \<noteq> 0 \<and> r \<le> int (length data) \<and>
        (0 < r \<longrightarrow> content w' = (content w)(fd := content w fd @ take (nat r) data)) \<and>
        (r < 0 \<longrightarrow> content w' = content w) \<and>
        (r < 0 \<longrightarrow> e = EINTR \<longrightarrow> patience w' < patience w))"

text \<open>\<open>refused\<close> lists the descriptors on which a write was refused; an interruption is no refusal.\<close>

definition refusals_logged :: "'w kernel \<Rightarrow> ('w \<Rightarrow> rfd list) \<Rightarrow> bool" where
  "refusals_logged k refused \<longleftrightarrow>
     (\<forall>fd data w r e w'. k_write k fd data w = (r, e, w') \<longrightarrow>
        refused w' = refused w @ (if r < 0 \<and> e \<noteq> EINTR then [fd] else []))"

lemma write_all_returns:
  assumes c: "write_contract k content patience"
  shows "\<exists>ok w' n. write_all k fd data w = Some (ok, w') \<and> n \<le> length data \<and>
    content w' = (content w)(fd := content w fd @ take n data) \<and> (ok \<longleftrightarrow> n = length data) \<and>
    (refusals_logged k refused \<longrightarrow> refused w' = refused w @ (if ok then [] else [fd]))"
proof (induction "(length data, patience w)" arbitrary: data w
    rule: wf_induct_rule [OF wf_lex_prod [OF wf_less wf_less]])
  case 1
  show ?case
  proof (cases "data = []")
    case True
    then show ?thesis by (auto simp: write_all.simps)
  next
    case False
    obtain r e w' where wr: "k_write k fd data w = (r, e, w')" by (metis prod_cases3)
    note k = c [unfolded write_contract_def, rule_format, OF False wr]
    have l: "refusals_logged k refused \<longrightarrow> refused w' = refused w @ (if r < 0 \<and> e \<noteq> EINTR then [fd] else [])"
      using wr unfolding refusals_logged_def by blast
    consider (eintr) "r < 0" "e = EINTR" | (fail) "r < 0" "e \<noteq> EINTR" | (some) "0 < r"
      using k by fastforce
    then show ?thesis
    proof cases
      case eintr
      with k have "((length data, patience w'), (length data, patience w)) \<in> less_than <*lex*> less_than"
        by simp
      from "1" [of data w'] eintr k l wr False show ?thesis by (simp add: write_all.simps)
    next
      case fail
      with k l wr False show ?thesis by (auto simp: write_all.simps intro!: exI [of _ 0])
    next
      case some
      let ?d = "drop (nat r) data"
      from some False have shorter: "length ?d < length data" by (cases data) auto
      with "1" [of ?d w'] obtain ok w'' n where ih: "write_all k fd ?d w' = Some (ok, w'')"
        "n \<le> length ?d" "content w'' = (content w')(fd := content w' fd @ take n ?d)"
        "ok \<longleftrightarrow> n = length ?d"
        "refusals_logged k refused \<longrightarrow> refused w'' = refused w' @ (if ok then [] else [fd])" by auto
      have "content w'' = (content w)(fd := content w fd @ take (nat r + n) data)"
        using ih(3) k some by (simp add: take_add)
      moreover have "write_all k fd data w = Some (ok, w'')"
        using ih(1) some wr False by (subst write_all.simps) simp
      moreover have "nat r + n \<le> length data" "ok \<longleftrightarrow> nat r + n = length data"
        using ih(2,4) k some by auto
      moreover have "refusals_logged k refused \<longrightarrow> refused w'' = refused w @ (if ok then [] else [fd])"
        using ih(5) l some by simp
      ultimately show ?thesis by blast
    qed
  qed
qed

text \<open>C32. Writing returns, whatever the kernel accepts per call and however often it interrupts:
  what was appended is a prefix of the data, and success means it is all of it. No byte is
  skipped or written twice by a retry.\<close>

theorem write_all_appends:
  assumes "write_contract k content patience"
  shows "\<exists>ok w' n. write_all k fd data w = Some (ok, w') \<and> n \<le> length data \<and>
    content w' = (content w)(fd := content w fd @ take n data) \<and> (ok \<longleftrightarrow> n = length data)"
  using write_all_returns [OF assms, of fd data w] by blast

text \<open>A kernel that takes at most three bytes per call, and is interrupted before each.\<close>

definition slow_kernel :: "((rfd \<Rightarrow> string) \<times> bool) kernel" where
  "slow_kernel =
     \<lparr>k_write = (\<lambda>fd data (files, interrupted).
        if \<not> interrupted then (- 1, EINTR, (files, True))
        else (int (min 3 (length data)), 0, (files(fd := files fd @ take 3 data), False))),
      k_openat = (\<lambda>path w. (7, w)), k_gettid = 41\<rparr>"

lemma slow_kernel_contract: "write_contract slow_kernel fst (\<lambda>(_, i). if i then 0 else 1)"
  by (auto simp: write_contract_def slow_kernel_def min_def split: if_splits)

theorem write_all_appends_witness:
  "\<exists>ok w' n. write_all slow_kernel 5 ''hello world'' (\<lambda>_. [], False) = Some (ok, w') \<and>
    n \<le> length ''hello world'' \<and> fst w' = (\<lambda>_. [])(5 := take n ''hello world'') \<and>
    (ok \<longleftrightarrow> n = length ''hello world'')"
  using write_all_appends [OF slow_kernel_contract, of 5 "''hello world''" "(\<lambda>_. [], False)"] by simp


text \<open>The slow kernel, with descriptor 7 on a file of at most six bytes.\<close>

definition full_kernel :: "((rfd \<Rightarrow> string) \<times> bool \<times> rfd list) kernel" where
  "full_kernel =
     \<lparr>k_write = (\<lambda>fd data (files, interrupted, refused).
        if \<not> interrupted then (- 1, EINTR, (files, True, refused))
        else if fd = 7 \<and> 4 \<le> length (files fd) then (- 1, 28, (files, False, refused @ [fd]))
        else (int (min 3 (length data)), 0, (files(fd := files fd @ take 3 data), False, refused))),
      k_openat = (\<lambda>path w. (7, w)), k_gettid = 41\<rparr>"

lemma full_kernel_contract:
  "write_contract full_kernel fst (\<lambda>w. if fst (snd w) then 0 else 1)" "refusals_logged full_kernel (\<lambda>w. snd (snd w))"
  by (auto simp: write_contract_def refusals_logged_def full_kernel_def EINTR_def min_def split: if_splits)


end
