(* ===== verification/Fgraph_Proto.thy ===== *)
theory Fgraph_Proto
  imports Logger Layout Rust_Std Rust_Fmt
begin

text \<open>
  The messages between the hooked process and the tracer in \<open>src/hook/ptrace.rs\<close>: the depth of
  the call graph and the windows of the functions selected for function-graph tracing. The hooked
  side publishes them through two pipes, the tracer drains the pipes before every event and keeps
  for each thread the stack of its open windows. A write to a pipe gives the result and \<open>errno\<close>,
  both parameters; the answers to the tracer's reads are a list of triples of result, \<open>errno\<close> and
  data, whose end stands for \<open>EAGAIN\<close>. The atomics that hold the pipe descriptors are passed
  through, with \<open>compare_exchange\<close> as in a sequential run.
\<close>

subsection \<open>The messages\<close>

definition FGRAPH_WINDOW_EVENT_EXIT :: u8 where "FGRAPH_WINDOW_EVENT_EXIT = 0"
definition FGRAPH_WINDOW_EVENT_ENTER :: u8 where "FGRAPH_WINDOW_EVENT_ENTER = 1"
definition FGRAPH_FUNC_NAME_MAX :: usize where "FGRAPH_FUNC_NAME_MAX = 96"
definition EAGAIN :: i32 where "EAGAIN = 11"
definition EWOULDBLOCK :: i32 where "EWOULDBLOCK = 11"
definition EBADF :: i32 where "EBADF = 9"
definition EPIPE :: i32 where "EPIPE = 32"

record DepthUpdate =
  du_tid :: i32
  du_depth :: u32

record FgraphWindowUpdate =
  fw_tid :: i32
  fw_depth :: u32
  fw_seq :: u32
  fw_event :: u8
  fw_reserved :: "u8 list"
  fw_func :: "u8 list"

definition FgraphWindowUpdate_default :: FgraphWindowUpdate where
  "FgraphWindowUpdate_default =
     \<lparr>fw_tid = 0, fw_depth = 0, fw_seq = 0, fw_event = FGRAPH_WINDOW_EVENT_EXIT,
      fw_reserved = replicate 3 0, fw_func = replicate FGRAPH_FUNC_NAME_MAX 0\<rparr>"

definition set_func :: "string \<Rightarrow> FgraphWindowUpdate \<Rightarrow> FgraphWindowUpdate" where
  "set_func func self =
     (let cleared = replicate (length (fw_func self)) 0;
          src = string_bytes func;
          copy_len = min (length src) (length cleared)
      in self\<lparr>fw_func := take copy_len src @ drop copy_len cleared\<rparr>)"

definition func_name :: "FgraphWindowUpdate \<Rightarrow> string" where
  "func_name self = from_utf8_lossy (bytes_string (takeWhile (\<lambda>b. b \<noteq> 0) (fw_func self)))"

text \<open>Both structures are \<open>repr(C)\<close>; the tracer reads into the structure itself.\<close>

definition DepthUpdate_layout :: "fty list" where
  "DepthUpdate_layout = [FI32, FU32]"

definition FgraphWindowUpdate_layout :: "fty list" where
  "FgraphWindowUpdate_layout = [FI32, FU32, FU32, FU8, FArr 3 FU8, FArr FGRAPH_FUNC_NAME_MAX FU8]"

definition i32_bytes :: "i32 \<Rightarrow> u8 list" where
  "i32_bytes i = le_bytes 4 (unat (word_of_int i :: 32 word))"

definition depth_update_as_bytes :: "DepthUpdate \<Rightarrow> u8 list" where
  "depth_update_as_bytes msg = i32_bytes (du_tid msg) @ le_bytes 4 (unat (du_depth msg))"

definition fgraph_window_update_as_bytes :: "FgraphWindowUpdate \<Rightarrow> u8 list" where
  "fgraph_window_update_as_bytes msg =
     i32_bytes (fw_tid msg) @ le_bytes 4 (unat (fw_depth msg)) @ le_bytes 4 (unat (fw_seq msg)) @
     [fw_event msg] @ fw_reserved msg @ fw_func msg"

definition depth_update_of_bytes :: "u8 list \<Rightarrow> DepthUpdate" where
  "depth_update_of_bytes bs =
     \<lparr>du_tid = get_i32 (field_at DepthUpdate_layout bs 0),
      du_depth = get_u32 (field_at DepthUpdate_layout bs 1)\<rparr>"

definition fgraph_window_update_of_bytes :: "u8 list \<Rightarrow> FgraphWindowUpdate" where
  "fgraph_window_update_of_bytes bs =
     (let at = field_at FgraphWindowUpdate_layout bs
      in \<lparr>fw_tid = get_i32 (at 0), fw_depth = get_u32 (at 1), fw_seq = get_u32 (at 2),
          fw_event = get_u8 (at 3), fw_reserved = take 3 (at 4),
          fw_func = take FGRAPH_FUNC_NAME_MAX (at 5)\<rparr>)"

subsection \<open>The hooked side\<close>

text \<open>What a publication does: a write to a pipe, the close of a pipe whose other end is gone.\<close>

datatype pub_call = PubWrite rfd "u8 list" | PubClose rfd

definition publish_bytes :: "(rfd \<Rightarrow> u8 list \<Rightarrow> int \<times> i32) \<Rightarrow> u8 list \<Rightarrow> rfd \<Rightarrow> rfd \<times> pub_call list" where
  "publish_bytes write bytes fd =
     (if fd < 0 then (fd, [])
      else case write fd bytes of
             (written, err) \<Rightarrow>
               if written = int (length bytes) then (fd, [PubWrite fd bytes])
               else if written < 0 \<and> (err = EBADF \<or> err = EPIPE) then
                 (-1, [PubWrite fd bytes, PubClose fd])
               else (fd, [PubWrite fd bytes]))"

definition publish_graph_depth ::
    "Config \<Rightarrow> bool \<Rightarrow> i32 \<Rightarrow> (rfd \<Rightarrow> u8 list \<Rightarrow> int \<times> i32) \<Rightarrow> nat \<Rightarrow> rfd \<Rightarrow> rfd \<times> pub_call list" where
  "publish_graph_depth cfg is_internal_tracer tid write depth fd =
     (if is_internal_tracer \<or> \<not> mask_syscall (cfg_trace cfg) then (fd, [])
      else publish_bytes write
             (depth_update_as_bytes \<lparr>du_tid = tid, du_depth = of_nat (min depth u32_max)\<rparr>) fd)"

definition window_enter_msg :: "i32 \<Rightarrow> nat \<Rightarrow> string \<Rightarrow> u32 \<Rightarrow> FgraphWindowUpdate" where
  "window_enter_msg tid depth func seq =
     set_func func (FgraphWindowUpdate_default
       \<lparr>fw_tid := tid, fw_depth := of_nat (min depth u32_max), fw_seq := seq,
        fw_event := FGRAPH_WINDOW_EVENT_ENTER\<rparr>)"

definition window_exit_msg :: "i32 \<Rightarrow> nat \<Rightarrow> FgraphWindowUpdate" where
  "window_exit_msg tid depth =
     FgraphWindowUpdate_default
       \<lparr>fw_tid := tid, fw_depth := of_nat (min depth u32_max), fw_seq := 0,
        fw_event := FGRAPH_WINDOW_EVENT_EXIT\<rparr>"

definition publish_fgraph_window_update ::
    "Config \<Rightarrow> bool \<Rightarrow> (rfd \<Rightarrow> u8 list \<Rightarrow> int \<times> i32) \<Rightarrow> FgraphWindowUpdate \<Rightarrow> rfd \<Rightarrow> rfd \<times> pub_call list" where
  "publish_fgraph_window_update cfg is_internal_tracer write msg fd =
     (if is_internal_tracer \<or> \<not> mask_syscall (cfg_trace cfg) \<or> \<not> fgraph_enabled cfg then (fd, [])
      else publish_bytes write (fgraph_window_update_as_bytes msg) fd)"

definition publish_fgraph_window_enter ::
    "Config \<Rightarrow> bool \<Rightarrow> i32 \<Rightarrow> (rfd \<Rightarrow> u8 list \<Rightarrow> int \<times> i32) \<Rightarrow> nat \<Rightarrow> string \<Rightarrow> u32 \<Rightarrow> rfd \<Rightarrow>
     rfd \<times> pub_call list" where
  "publish_fgraph_window_enter cfg is_internal_tracer tid write depth func seq fd =
     publish_fgraph_window_update cfg is_internal_tracer write (window_enter_msg tid depth func seq) fd"

definition publish_fgraph_window_exit ::
    "Config \<Rightarrow> bool \<Rightarrow> i32 \<Rightarrow> (rfd \<Rightarrow> u8 list \<Rightarrow> int \<times> i32) \<Rightarrow> nat \<Rightarrow> rfd \<Rightarrow> rfd \<times> pub_call list" where
  "publish_fgraph_window_exit cfg is_internal_tracer tid write depth fd =
     publish_fgraph_window_update cfg is_internal_tracer write (window_exit_msg tid depth) fd"

subsection \<open>The tracer's side\<close>

record FgraphScopeLabel =
  lb_func :: string
  lb_seq :: u32

record FgraphWindowState =
  ws_depth :: nat
  ws_labels :: "FgraphScopeLabel list"

type_synonym windows = "pid_t \<Rightarrow> FgraphWindowState option"
type_synonym read_answer = "int \<times> i32 \<times> u8 list"

definition FgraphWindowState_default :: FgraphWindowState where
  "FgraphWindowState_default = \<lparr>ws_depth = 0, ws_labels = []\<rparr>"

definition apply_fgraph_window_update :: "FgraphWindowUpdate \<Rightarrow> windows \<Rightarrow> windows" where
  "apply_fgraph_window_update msg window_by_tid =
     (let depth = unat (fw_depth msg);
          state = map_default FgraphWindowState_default window_by_tid (fw_tid msg)
      in if depth = 0 then window_by_tid(fw_tid msg := None)
         else if fw_event msg = FGRAPH_WINDOW_EVENT_ENTER then
           window_by_tid(fw_tid msg \<mapsto>
             \<lparr>ws_depth = depth,
              ws_labels = take (depth - 1) (ws_labels state) @
                [\<lparr>lb_func = func_name msg, lb_seq = fw_seq msg\<rparr>]\<rparr>)
         else
           window_by_tid(fw_tid msg \<mapsto> \<lparr>ws_depth = depth, ws_labels = take depth (ws_labels state)\<rparr>))"

definition current_fgraph_scope_label :: "pid_t \<Rightarrow> windows \<Rightarrow> string option" where
  "current_fgraph_scope_label tid window_by_tid =
     (case window_by_tid tid of
        None \<Rightarrow> None
      | Some state \<Rightarrow> map_option (\<lambda>l. lb_func l @ dec (unat (lb_seq l))) (last_opt (ws_labels state)))"

text \<open>The loop of both drains: messages of the full size are handed on, an interrupted read is
  repeated, anything else ends it.\<close>

fun drain_loop :: "nat \<Rightarrow> (u8 list \<Rightarrow> 's \<Rightarrow> 's) \<Rightarrow> read_answer list \<Rightarrow> 's \<Rightarrow> 's" where
  "drain_loop msg_size handle [] s = s"
| "drain_loop msg_size handle ((n, err, bytes) # reads) s =
     (if n = int msg_size then drain_loop msg_size handle reads (handle bytes s)
      else if n < 0 \<and> err = EINTR then drain_loop msg_size handle reads s
      else s)"

definition drain_depth_updates ::
    "rfd \<Rightarrow> read_answer list \<Rightarrow> (pid_t \<Rightarrow> nat option) \<Rightarrow> (pid_t \<Rightarrow> nat option)" where
  "drain_depth_updates fd reads depth_by_tid =
     (if fd < 0 then depth_by_tid
      else drain_loop (size_of (FStruct DepthUpdate_layout))
             (\<lambda>bytes m. let msg = depth_update_of_bytes bytes in m(du_tid msg \<mapsto> unat (du_depth msg)))
             reads depth_by_tid)"

definition drain_fgraph_window_updates :: "rfd \<Rightarrow> read_answer list \<Rightarrow> windows \<Rightarrow> windows" where
  "drain_fgraph_window_updates fd reads window_by_tid =
     (if fd < 0 then window_by_tid
      else drain_loop (size_of (FStruct FgraphWindowUpdate_layout))
             (\<lambda>bytes. apply_fgraph_window_update (fgraph_window_update_of_bytes bytes))
             reads window_by_tid)"

subsection \<open>What is written is what is read\<close>

definition i32_range :: "i32 \<Rightarrow> bool" where
  "i32_range i \<longleftrightarrow> - (2 ^ 31) \<le> i \<and> i < 2 ^ 31"

definition msg_ok :: "FgraphWindowUpdate \<Rightarrow> bool" where
  "msg_ok m \<longleftrightarrow> i32_range (fw_tid m) \<and> length (fw_reserved m) = 3 \<and>
     length (fw_func m) = FGRAPH_FUNC_NAME_MAX"

lemma length_i32_bytes [simp]: "length (i32_bytes i) = 4"
  by (simp add: i32_bytes_def)

lemma get_i32_bytes: "i32_range i \<Longrightarrow> get_i32 (i32_bytes i @ r) = i"
  using get_u32_le_bytes [of "word_of_int i" r]
  by (simp add: get_i32_def i32_bytes_def i32_range_def sint_sbintrunc' signed_take_bit_int_eq_self)

lemma window_offsets:
  "map (field_offset FgraphWindowUpdate_layout) [0..<6] = [0, 4, 8, 12, 13, 16]"
  "size_of (FStruct FgraphWindowUpdate_layout) = 112"
  "map (field_offset DepthUpdate_layout) [0..<2] = [0, 4]"
  "size_of (FStruct DepthUpdate_layout) = 8"
  by (code_simp, code_simp, code_simp, code_simp)

lemma window_offset:
  "field_offset FgraphWindowUpdate_layout 0 = 0" "field_offset FgraphWindowUpdate_layout 1 = 4"
  "field_offset FgraphWindowUpdate_layout 2 = 8" "field_offset FgraphWindowUpdate_layout 3 = 12"
  "field_offset FgraphWindowUpdate_layout 4 = 13" "field_offset FgraphWindowUpdate_layout 5 = 16"
  "field_offset DepthUpdate_layout 0 = 0" "field_offset DepthUpdate_layout 1 = 4"
  using window_offsets(1,3) by (simp_all add: eval_nat_numeral)

lemmas window_offset' = window_offset window_offset [unfolded One_nat_def]

lemma get_u8_Cons [simp]: "get_u8 (b # bs) = b"
  by (simp add: get_u8_def)

lemma window_bytes_read:
  assumes "msg_ok m"
  shows "fgraph_window_update_of_bytes (fgraph_window_update_as_bytes m) = m"
  using assms
  by (cases m) (simp add: fgraph_window_update_of_bytes_def fgraph_window_update_as_bytes_def msg_ok_def
      field_at_def window_offset' get_i32_bytes get_u32_le_bytes Let_def)

lemma window_bytes_length: "msg_ok m \<Longrightarrow> length (fgraph_window_update_as_bytes m) = 112"
  by (simp add: fgraph_window_update_as_bytes_def msg_ok_def FGRAPH_FUNC_NAME_MAX_def)

lemma depth_bytes_read:
  assumes "i32_range (du_tid m)"
  shows "depth_update_of_bytes (depth_update_as_bytes m) = m"
  using assms get_u32_le_bytes [of "du_depth m" "[]"]
  by (cases m) (simp add: depth_update_of_bytes_def depth_update_as_bytes_def field_at_def window_offset'
      get_i32_bytes)

lemma depth_bytes_length [simp]: "length (depth_update_as_bytes m) = 8"
  by (simp add: depth_update_as_bytes_def)

text \<open>A function name as the tracer sees it.\<close>

definition wire_name :: "string \<Rightarrow> string" where
  "wire_name func = from_utf8_lossy (bytes_string (takeWhile (\<lambda>b. b \<noteq> 0) (take FGRAPH_FUNC_NAME_MAX (string_bytes func))))"

lemma takeWhile_zeros: "takeWhile (\<lambda>b. b \<noteq> (0 :: u8)) (xs @ replicate n 0) = takeWhile (\<lambda>b. b \<noteq> 0) xs"
  by (induction xs) (cases n, auto)

lemma func_name_set_func:
  "length (fw_func m) = FGRAPH_FUNC_NAME_MAX \<Longrightarrow> func_name (set_func func m) = wire_name func"
  by (simp add: func_name_def set_func_def wire_name_def takeWhile_zeros min_def Let_def)

lemma wire_name_id:
  assumes "utf8 func" and "length func \<le> FGRAPH_FUNC_NAME_MAX" and "char_of (0 :: nat) \<notin> set func"
  shows "wire_name func = func"
proof -
  have "char_byte c \<noteq> 0" if "c \<in> set func" for c
  proof
    assume "char_byte c = 0"
    then have "c = byte_char 0" by (metis byte_char_byte)
    with that assms(3) show False by (simp add: byte_char_def)
  qed
  then have "takeWhile (\<lambda>b. b \<noteq> 0) (string_bytes func) = string_bytes func"
    by (auto simp: takeWhile_eq_all_conv string_bytes_def)
  then show ?thesis using assms(1,2)
    by (simp add: wire_name_def from_utf8_lossy_id del: takeWhile_eq_all_conv)
qed

lemma window_msgs_ok [simp]:
  "i32_range tid \<Longrightarrow> msg_ok (window_enter_msg tid depth func seq)"
  "i32_range tid \<Longrightarrow> msg_ok (window_exit_msg tid depth)"
  by (simp_all add: msg_ok_def window_enter_msg_def window_exit_msg_def set_func_def
      FgraphWindowUpdate_default_def Let_def min_def)

lemma window_msg_fields [simp]:
  "fw_tid (window_enter_msg tid depth func seq) = tid" "fw_tid (window_exit_msg tid depth) = tid"
  "fw_event (window_enter_msg tid depth func seq) = FGRAPH_WINDOW_EVENT_ENTER"
  "fw_event (window_exit_msg tid depth) \<noteq> FGRAPH_WINDOW_EVENT_ENTER"
  "fw_seq (window_enter_msg tid depth func seq) = seq"
  "func_name (window_enter_msg tid depth func seq) = wire_name func"
  by (simp_all add: window_enter_msg_def window_exit_msg_def func_name_set_func FgraphWindowUpdate_default_def)
    (simp_all add: set_func_def Let_def FGRAPH_WINDOW_EVENT_EXIT_def FGRAPH_WINDOW_EVENT_ENTER_def)

lemma window_msg_depth:
  "depth \<le> u32_max \<Longrightarrow> unat (fw_depth (window_enter_msg tid depth func seq)) = depth"
  "depth \<le> u32_max \<Longrightarrow> unat (fw_depth (window_exit_msg tid depth)) = depth"
  by (simp_all add: window_enter_msg_def window_exit_msg_def set_func_def u32_max_def unat_of_nat Let_def)

subsection \<open>The tracer knows the open windows\<close>

text \<open>The specification: for each thread the stack of the windows it has open, innermost last. The
  messages carry the depth after the event.\<close>

datatype window_event = WEnter string u32 | WExit

type_synonym stacks = "pid_t \<Rightarrow> (string \<times> u32) list"

fun window_spec :: "pid_t \<times> window_event \<Rightarrow> stacks \<Rightarrow> stacks" where
  "window_spec (tid, WEnter func seq) st = st(tid := st tid @ [(func, seq)])"
| "window_spec (tid, WExit) st = st(tid := butlast (st tid))"

fun window_msg :: "pid_t \<times> window_event \<Rightarrow> stacks \<Rightarrow> FgraphWindowUpdate" where
  "window_msg (tid, WEnter func seq) st = window_enter_msg tid (length (st tid) + 1) func seq"
| "window_msg (tid, WExit) st = window_exit_msg tid (length (st tid) - 1)"

fun window_run :: "(pid_t \<times> window_event) list \<Rightarrow> stacks \<Rightarrow> FgraphWindowUpdate list \<times> stacks" where
  "window_run [] st = ([], st)"
| "window_run (e # es) st =
     (let (msgs, st') = window_run es (window_spec e st) in (window_msg e st # msgs, st'))"

definition label_of :: "string \<times> u32 \<Rightarrow> FgraphScopeLabel" where
  "label_of w = \<lparr>lb_func = wire_name (fst w), lb_seq = snd w\<rparr>"

definition window_rel :: "stacks \<Rightarrow> windows \<Rightarrow> bool" where
  "window_rel st W \<longleftrightarrow>
     (\<forall>tid. W tid = (if st tid = [] then None
        else Some \<lparr>ws_depth = length (st tid), ws_labels = map label_of (st tid)\<rparr>))"

lemma window_rel_step:
  assumes rel: "window_rel st W" and b: "length (st (fst e)) + 1 \<le> u32_max"
  shows "window_rel (window_spec e st) (apply_fgraph_window_update (window_msg e st) W)"
proof (cases e)
  case (Pair tid ev)
  let ?s = "map_default FgraphWindowState_default W tid"
  have l: "ws_labels ?s = map label_of (st tid)"
    using rel by (cases "st tid = []") (simp_all add: window_rel_def FgraphWindowState_default_def)
  show ?thesis
  proof (cases ev)
    case (WEnter func seq)
    with rel l b Pair show ?thesis
      by (simp add: window_rel_def apply_fgraph_window_update_def window_msg_depth label_of_def Let_def)
  next
    case WExit
    with rel l b Pair show ?thesis
      by (auto simp: window_rel_def apply_fgraph_window_update_def window_msg_depth Let_def map_butlast
          butlast_conv_take take_map)
  qed
qed

text \<open>The answers to the tracer's reads carry the messages in order, with any interruptions between
  them.\<close>

definition carries :: "read_answer list \<Rightarrow> u8 list list \<Rightarrow> bool" where
  "carries reads msgs \<longleftrightarrow>
     map (\<lambda>(n, err, bytes). (n, bytes)) (filter (\<lambda>(n, err, bytes). \<not> (n < 0 \<and> err = EINTR)) reads) =
     map (\<lambda>bytes. (int (length bytes), bytes)) msgs"

lemma drain_carried:
  assumes "carries reads msgs" and "list_all (\<lambda>m. length m = sz) msgs"
  shows "drain_loop sz handle reads s = fold handle msgs s"
  using assms
proof (induction sz handle reads s arbitrary: msgs rule: drain_loop.induct)
  case (1 msg_size handle s)
  then show ?case by (simp add: carries_def)
next
  case (2 msg_size handle n err bytes reads s)
  show ?case
  proof (cases "n < 0 \<and> err = EINTR")
    case True
    with 2 show ?thesis by (auto simp: carries_def)
  next
    case False
    with "2.prems" obtain ms where m: "msgs = bytes # ms" "n = int (length bytes)" "carries reads ms"
      by (auto simp: carries_def)
    with 2 show ?thesis by simp
  qed
qed

lemma windows_run:
  assumes "window_rel st W" and "list_all (\<lambda>e. i32_range (fst e)) es"
    and "\<forall>tid. length (st tid) + length es \<le> u32_max"
  shows "window_rel (snd (window_run es st))
    (fold (\<lambda>bytes. apply_fgraph_window_update (fgraph_window_update_of_bytes bytes))
      (map fgraph_window_update_as_bytes (fst (window_run es st))) W)"
  using assms
proof (induction es arbitrary: st W)
  case Nil
  then show ?case by simp
next
  case (Cons e es)
  let ?m = "window_msg e st"
  have ok: "msg_ok ?m" using Cons.prems(2) by (cases e; cases "snd e") auto
  have r: "window_rel (window_spec e st) (apply_fgraph_window_update ?m W)"
    using Cons.prems(1,3) by (intro window_rel_step) (auto dest: spec [of _ "fst e"])
  have b: "length (window_spec e st tid) + length es \<le> u32_max" for tid
    using Cons.prems(3) [rule_format, of tid] by (cases e; cases "snd e") (auto split: if_splits)
  from Cons.IH [OF r] Cons.prems(2) b show ?case
    by (simp add: split_beta window_bytes_read [OF ok] Let_def)
qed

lemma window_msgs_length:
  "list_all (\<lambda>e. i32_range (fst e)) es \<Longrightarrow>
   list_all (\<lambda>m. length m = 112) (map fgraph_window_update_as_bytes (fst (window_run es st)))"
proof (induction es arbitrary: st)
  case (Cons e es)
  then have "msg_ok (window_msg e st)" by (cases e; cases "snd e") auto
  with Cons show ?case by (simp add: split_beta window_bytes_length Let_def)
qed simp

lemma windows_drained:
  assumes "window_rel st W" and "list_all (\<lambda>e. i32_range (fst e)) es"
    and "\<forall>tid. length (st tid) + length es \<le> u32_max" and "0 \<le> fd"
    and "carries reads (map fgraph_window_update_as_bytes (fst (window_run es st)))"
  shows "window_rel (snd (window_run es st)) (drain_fgraph_window_updates fd reads W)"
  using windows_run [OF assms(1-3)] assms(4)
  by (simp add: drain_fgraph_window_updates_def window_offsets(2)
      drain_carried [OF assms(5) window_msgs_length [OF assms(2)]] del: size_of.simps)

lemma window_rel_label:
  "window_rel st W \<Longrightarrow>
   current_fgraph_scope_label tid W = map_option (\<lambda>(f, n). wire_name f @ dec (unat n)) (last_opt (st tid))"
  by (auto simp: window_rel_def current_fgraph_scope_label_def last_opt_def last_map label_of_def split_beta)

text \<open>C37. However the threads of the process interleave, after the tracer has drained the pipe it knows
  for every thread how many selected functions it is inside of, and the label of the innermost
  one: the name it was published under and its sequence number.\<close>

theorem windows_follow_calls:
  assumes "window_rel st W" and "list_all (\<lambda>e. i32_range (fst e)) es"
    and "\<forall>tid. length (st tid) + length es \<le> u32_max" and "0 \<le> fd"
    and "carries reads (map fgraph_window_update_as_bytes (fst (window_run es st)))"
  shows "(let W' = drain_fgraph_window_updates fd reads W; st' = snd (window_run es st)
    in (\<forall>tid. map_option ws_depth (W' tid) = (if st' tid = [] then None else Some (length (st' tid)))) \<and>
       (\<forall>tid. current_fgraph_scope_label tid W' =
          map_option (\<lambda>(f, n). wire_name f @ dec (unat n)) (last_opt (st' tid))))"
  using windows_drained [OF assms] window_rel_label [OF windows_drained [OF assms]]
  by (simp add: window_rel_def Let_def)

theorem windows_follow_calls_witness:
  "(let es = [(7, WEnter ''cuInit'' 1), (8, WEnter ''cuMemAlloc'' 1), (7, WEnter ''cuInit'' 2), (8, WExit)];
        reads = (-1, EINTR, []) # map (\<lambda>m. (112, 0, fgraph_window_update_as_bytes m)) (fst (window_run es (\<lambda>_. [])));
        W' = drain_fgraph_window_updates 5 reads (\<lambda>_. None)
    in current_fgraph_scope_label 7 W' = Some (wire_name ''cuInit'' @ ''2'') \<and>
       current_fgraph_scope_label 8 W' = None)"
proof -
  let ?es = "[(7, WEnter ''cuInit'' 1), (8, WEnter ''cuMemAlloc'' 1), (7, WEnter ''cuInit'' 2), (8, WExit)]"
  let ?m = "map fgraph_window_update_as_bytes (fst (window_run ?es (\<lambda>_. [])))"
  let ?r = "(-1, EINTR, []) # map (\<lambda>m. (112, 0, fgraph_window_update_as_bytes m)) (fst (window_run ?es (\<lambda>_. [])))"
  have es: "list_all (\<lambda>e. i32_range (fst e)) ?es" by (simp add: i32_range_def)
  have "list_all (\<lambda>m. length m = 112) ?m" by (rule window_msgs_length [OF es])
  then have "carries ?r ?m"
    unfolding carries_def by (auto simp: filter_map comp_def list_all_iff simp del: window_run.simps)
  moreover have "window_rel (\<lambda>_. []) (\<lambda>_. None)" by (simp add: window_rel_def)
  moreover have "snd (window_run ?es (\<lambda>_. [])) 7 = [(''cuInit'', 1), (''cuInit'', 2)]"
    "snd (window_run ?es (\<lambda>_. [])) 8 = []" by simp_all
  moreover have "dec (2 :: nat) = ''2''" by code_simp
  ultimately show ?thesis
    using windows_follow_calls [OF _ es, of "\<lambda>_. []" "\<lambda>_. None" 5 ?r]
    by (simp add: Let_def u32_max_def last_opt_def del: window_run.simps)
qed

text \<open>A lost message does no lasting harm: whatever the tracer believed before, after the message
  of an entered function it has the right depth and the right innermost label for that thread,
  and nothing has changed for the others.\<close>

theorem window_resync:
  assumes "0 < depth" and "depth \<le> u32_max" and "i32_range tid"
  shows "(let W' = apply_fgraph_window_update
          (fgraph_window_update_of_bytes (fgraph_window_update_as_bytes (window_enter_msg tid depth func seq))) W
    in map_option ws_depth (W' tid) = Some depth \<and>
       current_fgraph_scope_label tid W' = Some (wire_name func @ dec (unat seq)) \<and>
       W'(tid := None) = W(tid := None))"
  using assms
  by (simp add: window_bytes_read apply_fgraph_window_update_def window_msg_depth
      current_fgraph_scope_label_def Let_def)

theorem window_resync_witness:
  "current_fgraph_scope_label 7 (apply_fgraph_window_update (fgraph_window_update_of_bytes
     (fgraph_window_update_as_bytes (window_enter_msg 7 3 ''cuInit'' 9))) (\<lambda>_. None)) =
   Some (wire_name ''cuInit'' @ dec 9)"
  using window_resync [where depth = 3 and tid = 7 and W = "\<lambda>_. None" and func = "''cuInit''" and seq = 9]
  by (simp add: u32_max_def i32_range_def Let_def)

end
