(* ===== verification/Tracefs.thy ===== *)
theory Tracefs
  imports Rust_Fmt Config
begin

text \<open>
  \<open>src/hook/fgraph.rs\<close>: the control of the kernel's function-graph tracer through the files of
  tracefs. The operating system is a parameter: what an operation does is appended to the history
  of effects, and the answer of the system to the next operation is any function of that history
  (\<open>fs_env\<close>). The effects of the tracer's loop are in the same type, so that the order between
  tracefs and the traced threads is part of the history.
\<close>

subsection \<open>Effects and answers\<close>

datatype effect =
    TfWrote string string
  | TfFailed string
  | TfRead string
  | FileWrote string string
  | FileFailed string
  | LogError string
  | Resume pid_t i32
  | SetOptions pid_t
  | WriteLine pid_t string
  | CloseTid pid_t

text \<open>The messages of failing operations are the operating system's; \<open>None\<close> is success.\<close>

record fs_env =
  fe_is_dir :: "string \<Rightarrow> bool"
  fe_exists :: "effect list \<Rightarrow> string \<Rightarrow> bool"
  fe_open_err :: "effect list \<Rightarrow> string \<Rightarrow> string option"
  fe_write_err :: "effect list \<Rightarrow> string \<Rightarrow> string \<Rightarrow> string option"
  fe_read :: "effect list \<Rightarrow> string \<Rightarrow> string + string"
  fe_create_ok :: "effect list \<Rightarrow> string \<Rightarrow> string \<Rightarrow> bool"

type_synonym 'a io = "effect list \<Rightarrow> (string + 'a) \<times> effect list"

text \<open>The operator \<open>?\<close>: an error ends the function.\<close>

definition and_then :: "'a io \<Rightarrow> ('a \<Rightarrow> 'b io) \<Rightarrow> 'b io" where
  "and_then m f h = (case m h of (Inl err, h') \<Rightarrow> (Inl err, h') | (Inr x, h') \<Rightarrow> f x h')"

definition return_ok :: "'a \<Rightarrow> 'a io" where
  "return_ok x h = (Inr x, h)"

definition fail_with :: "string \<Rightarrow> 'a io" where
  "fail_with err h = (Inl err, h)"

definition map_err :: "(string \<Rightarrow> string) \<Rightarrow> 'a io \<Rightarrow> 'a io" where
  "map_err f m h = (case m h of (Inl err, h') \<Rightarrow> (Inl (f err), h') | (Inr x, h') \<Rightarrow> (Inr x, h'))"

text \<open>A function without a result.\<close>

definition run_unit :: "(effect list \<Rightarrow> effect list) \<Rightarrow> unit io" where
  "run_unit g h = (Inr (), g h)"

subsection \<open>The program\<close>

definition TRACEFS_ROOTS :: "string list" where
  "TRACEFS_ROOTS = [''/sys/kernel/tracing'', ''/sys/kernel/debug/tracing'']"

text \<open>A \<open>TraceFsController\<close> is its root.\<close>

definition tf_path :: "string \<Rightarrow> string \<Rightarrow> string" where
  "tf_path root file = root @ ''/'' @ file"

definition write_control :: "fs_env \<Rightarrow> string \<Rightarrow> string \<Rightarrow> string \<Rightarrow> unit io" where
  "write_control env root file value h =
     (let path = tf_path root file;
          payload = (if value = [] then [newline] else value)
      in case fe_open_err env h path of
           Some err \<Rightarrow> (Inl (''failed to open '' @ path @ '': '' @ err), h @ [TfFailed path])
         | None \<Rightarrow>
             (case fe_write_err env h path payload of
                Some err \<Rightarrow> (Inl (''failed to write '' @ path @ '': '' @ err), h @ [TfFailed path])
              | None \<Rightarrow> (Inr (), h @ [TfWrote path payload])))"

definition best_effort_set_graph_function ::
    "fs_env \<Rightarrow> string \<Rightarrow> string option \<Rightarrow> effect list \<Rightarrow> effect list" where
  "best_effort_set_graph_function env root graph_function h =
     (if \<not> fe_exists env h (tf_path root ''set_graph_function'') then h
      else
        let h = snd (write_control env root ''set_graph_function'' [] h)
        in case graph_function of
             None \<Rightarrow> h
           | Some f \<Rightarrow>
               (case write_control env root ''set_graph_function'' f h of
                  (Inr _, h) \<Rightarrow> h
                | (Inl _, h) \<Rightarrow> snd (write_control env root ''set_graph_function'' [] h)))"

definition begin_capture :: "fs_env \<Rightarrow> string \<Rightarrow> i32 \<Rightarrow> string option \<Rightarrow> unit io" where
  "begin_capture env root tid graph_function =
     and_then (write_control env root ''tracing_on'' ''0'') (\<lambda>_.
     and_then (write_control env root ''set_ftrace_pid'' []) (\<lambda>_.
     and_then (write_control env root ''set_ftrace_pid'' (dec_int tid)) (\<lambda>_.
     and_then (run_unit (best_effort_set_graph_function env root graph_function)) (\<lambda>_.
     and_then (write_control env root ''current_tracer'' ''function_graph'') (\<lambda>_.
     and_then (write_control env root ''trace'' []) (\<lambda>_.
     write_control env root ''tracing_on'' ''1''))))))"

definition read_file :: "fs_env \<Rightarrow> string \<Rightarrow> string io" where
  "read_file env path h = (fe_read env h path, h @ [TfRead path])"

definition end_capture_and_read :: "fs_env \<Rightarrow> string \<Rightarrow> string io" where
  "end_capture_and_read env root =
     and_then (write_control env root ''tracing_on'' ''0'') (\<lambda>_.
     and_then (map_err (\<lambda>err. ''failed to read trace: '' @ err) (read_file env (tf_path root ''trace''))) (\<lambda>trace.
     and_then (write_control env root ''trace'' []) (\<lambda>_.
     and_then (run_unit (best_effort_set_graph_function env root None)) (\<lambda>_.
     and_then (write_control env root ''set_ftrace_pid'' []) (\<lambda>_.
     return_ok trace)))))"

definition reset_state :: "fs_env \<Rightarrow> string \<Rightarrow> unit io" where
  "reset_state env root =
     and_then (write_control env root ''tracing_on'' ''0'') (\<lambda>_.
     and_then (run_unit (best_effort_set_graph_function env root None)) (\<lambda>_.
     and_then (write_control env root ''set_ftrace_pid'' []) (\<lambda>_.
     and_then (write_control env root ''current_tracer'' ''nop'') (\<lambda>_.
     write_control env root ''trace'' []))))"

fun require_files :: "fs_env \<Rightarrow> string \<Rightarrow> string list \<Rightarrow> unit io" where
  "require_files env root [] h = (Inr (), h)"
| "require_files env root (name # names) h =
     (if \<not> fe_exists env h (tf_path root name) then
        (Inl (''required tracefs file missing: '' @ tf_path root name), h)
      else require_files env root names h)"

definition validate_access :: "fs_env \<Rightarrow> string \<Rightarrow> unit io" where
  "validate_access env root =
     and_then (require_files env root
       [''available_tracers'', ''current_tracer'', ''set_ftrace_pid'', ''trace'', ''tracing_on'',
        ''buffer_size_kb'']) (\<lambda>_.
     and_then (map_err (\<lambda>err. ''failed to read available_tracers: '' @ err)
       (read_file env (tf_path root ''available_tracers''))) (\<lambda>available.
     and_then (if ''function_graph'' \<notin> set (split_whitespace available) then
         fail_with ''kernel does not expose function_graph tracer'' else return_ok ()) (\<lambda>_.
     and_then (write_control env root ''tracing_on'' ''0'') (\<lambda>_.
     and_then (write_control env root ''set_ftrace_pid'' []) (\<lambda>_.
     and_then (write_control env root ''current_tracer'' ''nop'') (\<lambda>_.
     write_control env root ''trace'' []))))))"

definition apply_runtime_config :: "fs_env \<Rightarrow> Config \<Rightarrow> string \<Rightarrow> unit io" where
  "apply_runtime_config env cfg root =
     map_err (\<lambda>err. ''failed to set buffer_size_kb='' @ dec (cfg_fgraph_buffer_kb cfg) @ '': '' @ err)
       (write_control env root ''buffer_size_kb'' (dec (cfg_fgraph_buffer_kb cfg)))"

definition detect_tracefs_root :: "fs_env \<Rightarrow> string option" where
  "detect_tracefs_root env = List.find (fe_is_dir env) TRACEFS_ROOTS"

text \<open>The drop of a controller; a controller that is not returned is dropped, on an early return too.\<close>

definition TraceFsController_drop :: "fs_env \<Rightarrow> string \<Rightarrow> effect list \<Rightarrow> effect list" where
  "TraceFsController_drop env root h = snd (reset_state env root h)"

definition init_or_fail :: "fs_env \<Rightarrow> Config \<Rightarrow> string io" where
  "init_or_fail env cfg h =
     (case detect_tracefs_root env of
        None \<Rightarrow>
          (Inl ''tracefs is not available under /sys/kernel/tracing or /sys/kernel/debug/tracing'', h)
      | Some root \<Rightarrow>
          (case and_then (validate_access env root) (\<lambda>_. apply_runtime_config env cfg root) h of
             (Inl err, h) \<Rightarrow> (Inl err, TraceFsController_drop env root h)
           | (Inr _, h) \<Rightarrow> (Inr root, h)))"

definition preflight :: "fs_env \<Rightarrow> Config \<Rightarrow> unit io" where
  "preflight env cfg =
     and_then (init_or_fail env cfg) (\<lambda>root h.
       case reset_state env root h of (r, h) \<Rightarrow> (r, TraceFsController_drop env root h))"

subsection \<open>What the files hold\<close>

text \<open>The last text successfully written to each control file.\<close>

fun file_step :: "effect \<Rightarrow> (string \<Rightarrow> string option) \<Rightarrow> (string \<Rightarrow> string option)" where
  "file_step (TfWrote path payload) m = m(path \<mapsto> payload)"
| "file_step _ m = m"

definition contents :: "effect list \<Rightarrow> string \<Rightarrow> string option" where
  "contents h = fold file_step h (\<lambda>_. None)"

lemma contents_snoc [simp]: "contents (h @ [e]) = file_step e (contents h)"
  by (simp add: contents_def)

lemma contents_append: "contents (h @ es) = fold file_step es (contents h)"
  by (simp add: contents_def)

lemma tf_path_inj [simp]: "tf_path root a = tf_path root b \<longleftrightarrow> a = b"
  by (simp add: tf_path_def)

lemma write_control_cases:
  obtains err where "write_control env root fname v h = (Inl err, h @ [TfFailed (tf_path root fname)])"
  | "write_control env root fname v h =
       (Inr (), h @ [TfWrote (tf_path root fname) (if v = [] then [newline] else v)])"
  by (cases "fe_open_err env h (tf_path root fname)";
      cases "fe_write_err env h (tf_path root fname) (if v = [] then [newline] else v)")
    (simp_all add: write_control_def Let_def)

lemma write_ok: "write_control env root fname v h = (Inr u, h') \<Longrightarrow>
    h' = h @ [TfWrote (tf_path root fname) (if v = [] then [newline] else v)]"
  by (rule write_control_cases [of env root fname v h]) simp_all

lemma write_err: "write_control env root fname v h = (Inl e, h') \<Longrightarrow> h' = h @ [TfFailed (tf_path root fname)]"
  by (rule write_control_cases [of env root fname v h]) simp_all

lemma write_history:
  "snd (write_control env root fname v h) = h @ [TfFailed (tf_path root fname)] \<or>
   (\<exists>payload. snd (write_control env root fname v h) = h @ [TfWrote (tf_path root fname) payload])"
  by (rule write_control_cases [of env root fname v h]) simp_all

lemma and_then_ok:
  "and_then m f h = (Inr y, h') \<longleftrightarrow> (\<exists>x h1. m h = (Inr x, h1) \<and> f x h1 = (Inr y, h'))"
  by (auto simp: and_then_def split: prod.split sum.split)

lemma and_then_err:
  "and_then m f h = (Inl e, h') \<longleftrightarrow>
     m h = (Inl e, h') \<or> (\<exists>x h1. m h = (Inr x, h1) \<and> f x h1 = (Inl e, h'))"
  by (auto simp: and_then_def split: prod.split sum.split)

lemma map_err_ok: "map_err g m h = (Inr y, h') \<longleftrightarrow> m h = (Inr y, h')"
  by (auto simp: map_err_def split: prod.split sum.split)

lemma map_err_err: "map_err g m h = (Inl e, h') \<longleftrightarrow> (\<exists>e'. m h = (Inl e', h') \<and> e = g e')"
  by (auto simp: map_err_def split: prod.split sum.split)

lemma run_unit_iff [simp]:
  "run_unit g h = (Inr u, h') \<longleftrightarrow> h' = g h" "run_unit g h \<noteq> (Inl e, h')"
  by (auto simp: run_unit_def)

lemmas io_simps = and_then_ok and_then_err map_err_ok map_err_err return_ok_def fail_with_def read_file_def

text \<open>An effect on one control file.\<close>

fun on_file :: "string \<Rightarrow> effect \<Rightarrow> bool" where
  "on_file path (TfWrote p payload) = (p = path)"
| "on_file path (TfFailed p) = (p = path)"
| "on_file path _ = False"

lemma contents_other:
  "list_all (\<lambda>e. \<not> on_file path e) es \<Longrightarrow> contents (h @ es) path = contents h path"
proof (induction es rule: rev_induct)
  case (snoc e es)
  then show ?case by (cases e) (auto simp: append_assoc [symmetric] simp del: append_assoc)
qed simp

lemma best_effort_history:
  "\<exists>es. best_effort_set_graph_function env root g h = h @ es \<and>
     list_all (on_file (tf_path root ''set_graph_function'')) es"
proof -
  let ?p = "tf_path root ''set_graph_function''"
  have w: "\<exists>e. snd (write_control env root ''set_graph_function'' v h) = h @ [e] \<and> on_file ?p e" for v h
    using write_history [of env root "''set_graph_function''" v h] by auto
  define h1 where "h1 = snd (write_control env root ''set_graph_function'' [] h)"
  obtain e1 where h1: "h1 = h @ [e1]" "on_file ?p e1" using w [of "[]" h] h1_def by auto
  show ?thesis
  proof (cases g)
    case None
    then show ?thesis using h1 h1_def by (auto simp: best_effort_set_graph_function_def Let_def)
  next
    case (Some f)
    define h2 where "h2 = snd (write_control env root ''set_graph_function'' f h1)"
    obtain e2 where h2: "h2 = h1 @ [e2]" "on_file ?p e2" using w [of f h1] h2_def by auto
    obtain e3 where h3: "snd (write_control env root ''set_graph_function'' [] h2) = h2 @ [e3]" "on_file ?p e3"
      using w [of "[]" h2] by auto
    have "write_control env root ''set_graph_function'' f h1 =
        (fst (write_control env root ''set_graph_function'' f h1), h2)" by (simp add: h2_def)
    then show ?thesis using Some h1 h2 h3
      by (auto simp: best_effort_set_graph_function_def Let_def h1_def [symmetric] split: sum.split prod.split)
  qed
qed

text \<open>Choosing the function to trace touches no other control file.\<close>

lemma best_effort_elsewhere:
  obtains es where "best_effort_set_graph_function env root g h = h @ es"
    "\<And>f. f \<noteq> ''set_graph_function'' \<Longrightarrow> list_all (\<lambda>e. \<not> on_file (tf_path root f) e) es"
proof -
  obtain es where e: "best_effort_set_graph_function env root g h = h @ es"
    "list_all (on_file (tf_path root ''set_graph_function'')) es"
    using best_effort_history by blast
  have "\<not> on_file (tf_path root f) x"
    if "f \<noteq> ''set_graph_function''" "on_file (tf_path root ''set_graph_function'') x" for f x
    using that by (cases x) auto
  with e(2) have "f \<noteq> ''set_graph_function'' \<Longrightarrow> list_all (\<lambda>e. \<not> on_file (tf_path root f) e) es" for f
    by (auto simp: list_all_iff)
  with e(1) that show thesis by blast
qed

lemma best_effort_contents:
  assumes "f \<noteq> ''set_graph_function''"
  shows "contents (best_effort_set_graph_function env root g h) (tf_path root f) = contents h (tf_path root f)"
  using assms by (rule_tac best_effort_elsewhere [of env root g h]) (simp add: contents_other)

subsection \<open>A capture session\<close>

text \<open>Which thread the kernel traces: the one whose id is in the filter while tracing is on.\<close>

definition tracing :: "string \<Rightarrow> effect list \<Rightarrow> string option" where
  "tracing root h =
     (if contents h (tf_path root ''tracing_on'') = Some ''1'' then contents h (tf_path root ''set_ftrace_pid'')
      else None)"

text \<open>The kernel refused the most recent attempt to switch tracing on or off.\<close>

definition refused :: "string \<Rightarrow> effect list \<Rightarrow> bool" where
  "refused root h \<longleftrightarrow>
     (case rev (filter (on_file (tf_path root ''tracing_on'')) h) of
        [] \<Rightarrow> False
      | e # _ \<Rightarrow> e = TfFailed (tf_path root ''tracing_on''))"

lemma refused_snoc [simp]:
  "refused root (h @ [e]) \<longleftrightarrow>
     (if on_file (tf_path root ''tracing_on'') e then e = TfFailed (tf_path root ''tracing_on'') else refused root h)"
  by (simp add: refused_def)

lemma refused_other:
  "list_all (\<lambda>e. \<not> on_file (tf_path root ''tracing_on'') e) es \<Longrightarrow> refused root (h @ es) \<longleftrightarrow> refused root h"
  by (induction es rule: rev_induct) (simp_all add: append_assoc [symmetric] del: append_assoc)

text \<open>What the tracer relies on, as an interface: starting, stopping and resetting a capture.\<close>

locale capture_device =
  fixes start :: "i32 \<Rightarrow> string option \<Rightarrow> unit io"
    and stop :: "string io"
    and reset :: "unit io"
    and traced :: "effect list \<Rightarrow> string option"
    and stuck :: "effect list \<Rightarrow> bool"
    and foreign :: "effect \<Rightarrow> bool"
  assumes start_ok: "start tid g h = (Inr u, h') \<Longrightarrow> traced h' = Some (dec_int tid)"
    and start_err: "start tid g h = (Inl e, h') \<Longrightarrow> stuck h' \<or> traced h' = None"
    and stop_off: "stop h = (r, h') \<Longrightarrow> stuck h' \<or> traced h' = None"
    and reset_off: "reset h = (r', h') \<Longrightarrow> stuck h' \<or> traced h' = None"
    and foreign_ignored: "foreign x \<Longrightarrow> traced (h @ [x]) = traced h \<and> (stuck (h @ [x]) \<longleftrightarrow> stuck h)"
begin

text \<open>The rule the tracer keeps: the kernel traces exactly the thread whose capture is active; while none
  is active it traces no thread, or its refusal to be switched off is the last answer it gave.\<close>

definition in_step :: "i32 option \<Rightarrow> effect list \<Rightarrow> bool" where
  "in_step active h \<longleftrightarrow>
     (case active of
        Some tid \<Rightarrow> traced h = Some (dec_int tid)
      | None \<Rightarrow> stuck h \<or> traced h = None)"

lemma in_step_start_ok: "start tid g h = (Inr u, h') \<Longrightarrow> in_step (Some tid) h'"
  by (simp add: in_step_def start_ok)

lemma in_step_start_err: "start tid g h = (Inl e, h') \<Longrightarrow> in_step None h'"
  using start_err by (simp add: in_step_def)

lemma in_step_stop: "stop h = (r, h') \<Longrightarrow> in_step None h'"
  using stop_off by (auto simp: in_step_def)

lemma in_step_reset: "reset h = (r, h') \<Longrightarrow> in_step None h'"
  using reset_off by (auto simp: in_step_def)

lemma in_step_foreign: "list_all foreign es \<Longrightarrow> in_step a (h @ es) \<longleftrightarrow> in_step a h"
proof (induction es rule: rev_induct)
  case (snoc e es)
  then show ?case
    using foreign_ignored [of e "h @ es"] by (cases a) (simp_all add: in_step_def)
qed simp

end

lemma dec_int_nonempty [simp]: "dec_int i \<noteq> []"
  by (simp add: dec_int_def)

lemma best_effort_ignored [simp]:
  "tracing root (best_effort_set_graph_function env root g h) = tracing root h"
  "refused root (best_effort_set_graph_function env root g h) = refused root h"
proof -
  show "tracing root (best_effort_set_graph_function env root g h) = tracing root h"
    by (simp add: tracing_def best_effort_contents)
  show "refused root (best_effort_set_graph_function env root g h) = refused root h"
    by (rule best_effort_elsewhere [of env root g h]) (simp add: refused_other)
qed

text \<open>Starting: everything is set before tracing is switched on, and only then.\<close>

lemma begin_ok:
  assumes "begin_capture env root tid g h = (Inr u, h')"
  shows "\<exists>h0. h' = h0 @ [TfWrote (tf_path root ''tracing_on'') ''1''] \<and>
    contents h0 (tf_path root ''tracing_on'') = Some ''0'' \<and>
    contents h0 (tf_path root ''set_ftrace_pid'') = Some (dec_int tid) \<and>
    contents h0 (tf_path root ''current_tracer'') = Some ''function_graph'' \<and>
    contents h0 (tf_path root ''trace'') = Some [newline]"
  using assms
  by (auto simp: begin_capture_def io_simps best_effort_contents contents_append dest!: write_ok)

lemma begin_err:
  assumes "begin_capture env root tid g h = (Inl e, h')"
  shows "refused root h' \<or> tracing root h' = None"
  using assms
  by (auto simp: begin_capture_def io_simps dest!: write_ok write_err)
    (auto simp: tracing_def best_effort_contents contents_append)

lemma stop_result:
  assumes "end_capture_and_read env root h = (r, h')"
  shows "refused root h' \<or> tracing root h' = None"
  using assms
  by (cases r; auto simp: end_capture_and_read_def io_simps dest!: write_ok write_err)
    (auto simp: tracing_def best_effort_contents contents_append)

lemma reset_result:
  assumes "reset_state env root h = (r, h')"
  shows "refused root h' \<or> tracing root h' = None"
  using assms
  by (cases r; auto simp: reset_state_def io_simps dest!: write_ok write_err)
    (auto simp: tracing_def best_effort_contents contents_append)

text \<open>Effects outside tracefs.\<close>

fun outside :: "effect \<Rightarrow> bool" where
  "outside (TfWrote p v) = False"
| "outside (TfFailed p) = False"
| "outside _ = True"

lemma outside_ignored:
  "outside e \<Longrightarrow> tracing root (h @ [e]) = tracing root h \<and> (refused root (h @ [e]) \<longleftrightarrow> refused root h)"
  by (cases e) (simp_all add: tracing_def)

text \<open>Control operations only append effects of tracefs to the history.\<close>

fun tf_effect :: "effect \<Rightarrow> bool" where
  "tf_effect (TfWrote p v) = True"
| "tf_effect (TfFailed p) = True"
| "tf_effect (TfRead p) = True"
| "tf_effect _ = False"

definition grows :: "'a io \<Rightarrow> bool" where
  "grows m \<longleftrightarrow> (\<forall>h. \<exists>es. snd (m h) = h @ es \<and> list_all tf_effect es)"

named_theorems grows_intros "operations that only append effects of tracefs"

lemma growsE: "grows m \<Longrightarrow> m h = (r, h') \<Longrightarrow> (\<And>es. h' = h @ es \<Longrightarrow> list_all tf_effect es \<Longrightarrow> thesis) \<Longrightarrow> thesis"
  unfolding grows_def by (metis snd_conv)

lemma grows_write [grows_intros]: "grows (write_control env root fname v)"
  unfolding grows_def
proof
  fix h
  show "\<exists>es. snd (write_control env root fname v h) = h @ es \<and> list_all tf_effect es"
    using write_history [of env root fname v h] by auto
qed

lemma grows_and_then [grows_intros]:
  assumes "grows m" and "\<And>x. grows (f x)"
  shows "grows (and_then m f)"
  unfolding grows_def
proof
  fix h
  obtain r h1 where m: "m h = (r, h1)" by (cases "m h")
  obtain es where es: "h1 = h @ es" "list_all tf_effect es" using assms(1) m by (rule growsE)
  show "\<exists>es. snd (and_then m f h) = h @ es \<and> list_all tf_effect es"
  proof (cases r)
    case (Inl e)
    with m es show ?thesis by (simp add: and_then_def)
  next
    case (Inr x)
    obtain fs where "snd (f x h1) = h1 @ fs" "list_all tf_effect fs" using assms(2) by (auto simp: grows_def)
    with m es Inr show ?thesis by (simp add: and_then_def)
  qed
qed

lemma grows_run_unit [grows_intros]: "grows (run_unit (best_effort_set_graph_function env root g))"
  unfolding grows_def
proof
  fix h
  have "on_file p e \<Longrightarrow> tf_effect e" for p e by (cases e) simp_all
  then show "\<exists>es. snd (run_unit (best_effort_set_graph_function env root g) h) = h @ es \<and> list_all tf_effect es"
    using best_effort_history [of env root g h] by (auto simp: run_unit_def list_all_iff)
qed

lemma grows_basic [grows_intros]: "grows (return_ok x)" "grows (read_file env p)"
  by (simp_all add: grows_def return_ok_def read_file_def)

lemma grows_map_err [grows_intros]: "grows m \<Longrightarrow> grows (map_err g m)"
  by (auto simp: grows_def map_err_def split: prod.split sum.split) (metis snd_conv)+

lemma grows_operations [grows_intros]:
  "grows (begin_capture env root tid g)" "grows (end_capture_and_read env root)" "grows (reset_state env root)"
  unfolding begin_capture_def end_capture_and_read_def reset_state_def by (intro grows_intros)+

interpretation tf: capture_device "begin_capture env root" "end_capture_and_read env root"
    "reset_state env root" "tracing root" "refused root" outside for env root
proof
  fix tid g h u h'
  assume "begin_capture env root tid g h = (Inr u, h')"
  from begin_ok [OF this] show "tracing root h' = Some (dec_int tid)"
    by (auto simp: tracing_def)
qed (erule begin_err stop_result reset_result outside_ignored)+

text \<open>C38. A capture starts configured: when \<open>begin_capture\<close> succeeds, the last thing it did was to switch
  tracing on, and at that moment tracing was off, the filter held exactly the thread, the tracer
  was \<open>function_graph\<close> and the buffer had been cleared.\<close>

theorem capture_starts_configured:
  assumes "begin_capture env root tid g h = (Inr u, h')"
  shows "\<exists>h0. h' = h0 @ [TfWrote (tf_path root ''tracing_on'') ''1''] \<and>
    map (\<lambda>f. contents h0 (tf_path root f)) [''tracing_on'', ''set_ftrace_pid'', ''current_tracer'', ''trace''] =
      [Some ''0'', Some (dec_int tid), Some ''function_graph'', Some [newline]]"
  using begin_ok [OF assms] by auto

definition willing :: fs_env where
  "willing = \<lparr>fe_is_dir = (\<lambda>p. p = ''/sys/kernel/tracing''), fe_exists = (\<lambda>_ _. True),
     fe_open_err = (\<lambda>_ _. None), fe_write_err = (\<lambda>_ _ _. None),
     fe_read = (\<lambda>_ p. Inr ''nop function_graph''), fe_create_ok = (\<lambda>_ _ _. True)\<rparr>"

lemma willing_writes:
  "write_control willing root fname v h =
     (Inr (), h @ [TfWrote (tf_path root fname) (if v = [] then [newline] else v)])"
  by (simp add: write_control_def willing_def Let_def)

lemma willing_begin: "\<exists>h'. begin_capture willing root tid g h = (Inr (), h')"
  by (simp add: begin_capture_def io_simps willing_writes)

theorem capture_starts_configured_witness:
  "\<exists>h0. snd (begin_capture willing ''/t'' 41 (Some ''__x64_sys_ioctl'') []) =
     h0 @ [TfWrote (tf_path ''/t'' ''tracing_on'') ''1''] \<and>
    contents h0 (tf_path ''/t'' ''set_ftrace_pid'') = Some (dec_int 41)"
proof -
  obtain h' where "begin_capture willing ''/t'' 41 (Some ''__x64_sys_ioctl'') [] = (Inr (), h')"
    using willing_begin by blast
  from capture_starts_configured [OF this] this show ?thesis by auto
qed

text \<open>C26. The text of a capture that ends is complete: it is what the kernel answered after tracing had
  been stopped and before the buffer was cleared, and afterwards tracing is off, the thread filter
  and the buffer are empty, and the kernel traces no thread, whatever it traced before.\<close>

theorem capture_text_complete:
  assumes "end_capture_and_read env root h = (Inr text, h')"
  shows "let h1 = h @ [TfWrote (tf_path root ''tracing_on'') ''0'']
    in fe_read env h1 (tf_path root ''trace'') = Inr text \<and> tracing root h' = None \<and>
       map (\<lambda>f. contents h' (tf_path root f)) [''tracing_on'', ''set_ftrace_pid'', ''trace''] =
         [Some ''0'', Some [newline], Some [newline]] \<and>
       (\<exists>rest. h' = h1 @ [TfRead (tf_path root ''trace''), TfWrote (tf_path root ''trace'') [newline]] @ rest)"
proof -
  let ?h1 = "h @ [TfWrote (tf_path root ''tracing_on'') ''0'']"
  let ?h2 = "?h1 @ [TfRead (tf_path root ''trace''), TfWrote (tf_path root ''trace'') [newline]]"
  have r: "fe_read env ?h1 (tf_path root ''trace'') = Inr text"
    "h' = best_effort_set_graph_function env root None ?h2 @ [TfWrote (tf_path root ''set_ftrace_pid'') [newline]]"
    using assms by (auto simp: end_capture_and_read_def io_simps dest!: write_ok)
  have c: "contents h' (tf_path root f) =
      (if f = ''set_ftrace_pid'' then Some [newline] else contents ?h2 (tf_path root f))"
    if "f \<noteq> ''set_graph_function''" for f
    using best_effort_contents [OF that, of env root None ?h2] by (simp add: r(2))
  obtain es where "best_effort_set_graph_function env root None ?h2 = ?h2 @ es"
    using best_effort_history by blast
  with r(2) have "h' = ?h2 @ es @ [TfWrote (tf_path root ''set_ftrace_pid'') [newline]]" by simp
  moreover have "map (\<lambda>f. contents h' (tf_path root f)) [''tracing_on'', ''set_ftrace_pid'', ''trace''] =
      [Some ''0'', Some [newline], Some [newline]]"
    by (simp add: c contents_append)
  moreover from this have "tracing root h' = None" by (simp add: tracing_def)
  ultimately show ?thesis using r(1) by (auto simp: Let_def)
qed

theorem capture_text_complete_witness:
  "\<exists>h. begin_capture willing ''/t'' 41 (Some ''__x64_sys_ioctl'') [] = (Inr (), h) \<and>
     tracing ''/t'' h = Some (dec_int 41) \<and>
     tracing ''/t'' (snd (end_capture_and_read willing ''/t'' h)) = None \<and>
     contents (snd (end_capture_and_read willing ''/t'' h)) (tf_path ''/t'' ''set_ftrace_pid'') = Some [newline]"
proof -
  obtain h where b: "begin_capture willing ''/t'' 41 (Some ''__x64_sys_ioctl'') [] = (Inr (), h)"
    using willing_begin by blast
  have "\<exists>h'. end_capture_and_read willing ''/t'' h = (Inr ''nop function_graph'', h')"
    by (simp add: end_capture_and_read_def io_simps willing_writes) (simp add: willing_def)
  then obtain h' where "end_capture_and_read willing ''/t'' h = (Inr ''nop function_graph'', h')" ..
  from capture_text_complete [OF this] this b tf.start_ok [OF b] show ?thesis by (simp add: Let_def)
qed

end
