(* ===== verification/Ptrace_Fgraph.thy ===== *)
theory Ptrace_Fgraph
  imports Ptrace_Format Fgraph_Proto Tracefs
begin

text \<open>
  One capture of the kernel's function graph in \<open>src/hook/ptrace.rs\<close>: when it starts and ends,
  which file it goes to, and how the kernel's text is turned into an indented call tree. The
  controller is the root of tracefs, \<open>None\<close> when no function was selected; effects go to the
  history of \<open>Tracefs\<close>.
\<close>

subsection \<open>The program\<close>

record ActiveFgraphCapture =
  ac_tid :: pid_t
  ac_syscall_name :: string
  ac_graph_function :: "string option"
  ac_syscall_enter :: string
  ac_entry_ts_us :: nat
  ac_scope_label :: string

definition should_capture_fgraph ::
    "pid_t \<Rightarrow> SyscallState \<Rightarrow> windows \<Rightarrow> string option \<Rightarrow> bool" where
  "should_capture_fgraph pid state window_by_tid controller \<longleftrightarrow>
     controller \<noteq> None \<and> \<not> st_internal state \<and>
     unwrap_or 0 (map_option ws_depth (window_by_tid pid)) > 0"

definition syscall_graph_function :: "env \<Rightarrow> i64 \<Rightarrow> string option" where
  "syscall_graph_function e nr =
     (let name = syscall_name e nr
      in if starts_with name ''syscall_'' then None else Some (''__x64_sys_'' @ name))"

definition file_char :: "char \<Rightarrow> bool" where
  "file_char c \<longleftrightarrow> (48 \<le> ord c \<and> ord c \<le> 57) \<or> (65 \<le> ord c \<and> ord c \<le> 90) \<or>
     (97 \<le> ord c \<and> ord c \<le> 122) \<or> c = CHR ''_'' \<or> c = CHR ''-'' \<or> c = CHR ''.''"

definition sanitize_file_component :: "string \<Rightarrow> string" where
  "sanitize_file_component input =
     concat (map (\<lambda>ch. if length ch = 1 \<and> file_char (hd ch) then ch else ''_'') (rust_chars input))"

definition sanitize_scope_label_component :: "string \<Rightarrow> string" where
  "sanitize_scope_label_component input =
     (let cleaned = sanitize_file_component input in if cleaned = [] then ''unknown0'' else cleaned)"

definition fgraph_output_path :: "string \<Rightarrow> pid_t \<Rightarrow> string \<Rightarrow> nat \<Rightarrow> string \<Rightarrow> string" where
  "fgraph_output_path base_path tid syscall entry_ts_us scope_label =
     (let scope = sanitize_scope_label_component scope_label
      in base_path @ ''.fgraph.tid-'' @ dec_int tid @ ''.ts-'' @ dec entry_ts_us @ ''.'' @ scope @
         ''.sys-'' @ sanitize_file_component syscall @ ''.log'')"

definition enter_fd_suffix :: "env \<Rightarrow> pid_t \<Rightarrow> SyscallState \<Rightarrow> (rfd \<Rightarrow> string option) \<Rightarrow> rfd \<Rightarrow> string" where
  "enter_fd_suffix e pid st fd_paths fd =
     (let fallback_path = (if fd_paths fd \<noteq> None then None else env_live_fd_path e pid fd)
      in format_fd_suffix (opt_or (opt_or (st_path_hint st) (fd_paths fd)) fallback_path))"

definition format_fgraph_syscall_enter ::
    "env \<Rightarrow> pid_t \<Rightarrow> SyscallState \<Rightarrow> (rfd \<Rightarrow> string option) \<Rightarrow> string" where
  "format_fgraph_syscall_enter e pid st fd_paths =
     (if st_nr st = SYS_IOCTL then
        (let fd = arg_fd st 0
         in ''ioctl(fd='' @ dec_int fd @ enter_fd_suffix e pid st fd_paths fd @ '', cmd=0x'' @
            hex (unat (arg st 1)) @ '', arg=0x'' @ hex (unat (arg st 2)) @ '')'')
      else if st_nr st = SYS_OPEN then
        (let path = unwrap_or ''<unreadable>'' (st_path_hint st)
         in ''open(path='' @ [dquote] @ path @ [dquote] @ '', flags='' @ format_open_flags (arg st 1) @
            '', mode=0'' @ oct (unat (arg st 2)) @ '')'')
      else if st_nr st = SYS_OPENAT then
        (let path = unwrap_or ''<unreadable>'' (st_path_hint st)
         in ''openat(dirfd='' @ format_dirfd (arg_fd st 0) @ '', path='' @ [dquote] @ path @ [dquote] @
            '', flags='' @ format_open_flags (arg st 2) @ '', mode=0'' @ oct (unat (arg st 3)) @ '')'')
      else if st_nr st = SYS_CLOSE then
        (let fd = arg_fd st 0 in ''close(fd='' @ dec_int fd @ enter_fd_suffix e pid st fd_paths fd @ '')'')
      else
        syscall_name e (st_nr st) @ ''(0x'' @ hex (unat (arg st 0)) @ '', 0x'' @ hex (unat (arg st 1)) @
        '', 0x'' @ hex (unat (arg st 2)) @ '', 0x'' @ hex (unat (arg st 3)) @ '', 0x'' @
        hex (unat (arg st 4)) @ '', 0x'' @ hex (unat (arg st 5)) @ '')'')"

definition log_fgraph_error :: "string \<Rightarrow> effect" where
  "log_fgraph_error msg = LogError (''[cudatrace-fgraph] '' @ msg @ [newline])"

definition begin_fgraph_capture_for_state ::
    "fs_env \<Rightarrow> env \<Rightarrow> pid_t \<Rightarrow> SyscallState \<Rightarrow> (rfd \<Rightarrow> string option) \<Rightarrow> windows \<Rightarrow> string option \<Rightarrow>
     ActiveFgraphCapture option \<Rightarrow> effect list \<Rightarrow> bool \<times> ActiveFgraphCapture option \<times> effect list" where
  "begin_fgraph_capture_for_state fs e pid state fd_paths window_by_tid controller active_capture h =
     (case controller of
        None \<Rightarrow> (False, active_capture, h)
      | Some root \<Rightarrow>
          (let graph_function = syscall_graph_function e (st_nr state)
           in case begin_capture fs root pid graph_function h of
                (Inl err, h) \<Rightarrow>
                  (False, active_capture,
                   h @ [log_fgraph_error (''failed to begin function_graph capture for tid='' @ dec_int pid @
                          '': '' @ err)])
              | (Inr _, h) \<Rightarrow>
                  (True,
                   Some \<lparr>ac_tid = pid, ac_syscall_name = syscall_name e (st_nr state),
                         ac_graph_function = graph_function,
                         ac_syscall_enter = format_fgraph_syscall_enter e pid state fd_paths,
                         ac_entry_ts_us = st_started_ts_us state,
                         ac_scope_label = unwrap_or ''unknown0'' (current_fgraph_scope_label pid window_by_tid)\<rparr>,
                   h)))"

text \<open>One line of the kernel's text: what is left of it, \<open>None\<close> where it is left out.\<close>

definition graph_body :: "string \<Rightarrow> string option" where
  "graph_body line =
     (let trimmed = trim_start line in
      if starts_with trimmed ''#'' then None
      else if starts_with trimmed ''------------------------------------------'' then None
      else if str_contains line ''=>'' then None
      else
        let body = (if CHR ''|'' \<in> set line then
                      let body = tl (dropWhile (\<lambda>c. c \<noteq> CHR ''|'') line)
                      in trim (unwrap_or body (strip_prefix '' '' body))
                    else trim trimmed)
        in if body = [] then None else Some body)"

fun sanitize_lines :: "nat \<Rightarrow> string list \<Rightarrow> string" where
  "sanitize_lines depth [] = []"
| "sanitize_lines depth (line # rest) =
     (case graph_body line of
        None \<Rightarrow> sanitize_lines depth rest
      | Some body \<Rightarrow>
          (let depth = (if starts_with body ''}'' then depth - 1 else depth)
           in tabs depth @ body @ [newline] @
              sanitize_lines (if ends_with body ''{'' then saturating_add usize_max depth 1 else depth) rest))"

definition sanitize_fgraph_trace_output :: "string \<Rightarrow> string" where
  "sanitize_fgraph_trace_output graph =
     (let out = sanitize_lines 0 (lines graph) in if out = [] then graph else out)"

definition capture_text :: "ActiveFgraphCapture \<Rightarrow> string \<Rightarrow> string" where
  "capture_text capture graph =
     ''tid='' @ dec_int (ac_tid capture) @ '' syscall='' @ ac_syscall_name capture @ '' entry_ts_us='' @
     dec (ac_entry_ts_us capture) @ [newline] @
     ''scope='' @ ac_scope_label capture @ [newline] @
     (case ac_graph_function capture of None \<Rightarrow> [] | Some f \<Rightarrow> ''graph_function='' @ f @ [newline]) @
     ''syscall_enter='' @ ac_syscall_enter capture @ [newline] @
     sanitize_fgraph_trace_output graph"

definition finish_active_fgraph_capture ::
    "fs_env \<Rightarrow> string option \<Rightarrow> string \<Rightarrow> ActiveFgraphCapture option \<Rightarrow> effect list \<Rightarrow>
     bool \<times> ActiveFgraphCapture option \<times> effect list" where
  "finish_active_fgraph_capture fs controller base_path active_capture h =
     (case active_capture of
        None \<Rightarrow> (True, None, h)
      | Some capture \<Rightarrow>
          (case controller of
             None \<Rightarrow> (True, None, h)
           | Some root \<Rightarrow>
               (case end_capture_and_read fs root h of
                  (Inl err, h) \<Rightarrow>
                    (let h = h @ [log_fgraph_error (''failed to finish function_graph capture for tid='' @
                               dec_int (ac_tid capture) @ '': '' @ err)]
                     in (False, None, snd (reset_state fs root h)))
                | (Inr graph, h) \<Rightarrow>
                    (let path = fgraph_output_path base_path (ac_tid capture) (ac_syscall_name capture)
                                  (ac_entry_ts_us capture) (ac_scope_label capture);
                         out = capture_text capture graph
                     in if fe_create_ok fs h path out then (True, None, h @ [FileWrote path out])
                        else (False, None, h @ [FileFailed path,
                                log_fgraph_error (''failed to write function_graph output: '' @ path)])))))"

subsection \<open>Names of the capture files\<close>

lemma list_all_concat_map: "(\<And>x. list_all P (f x)) \<Longrightarrow> list_all P (concat (map f xs))"
  by (induction xs) simp_all

lemma sanitize_chars: "list_all file_char (sanitize_file_component s)"
  unfolding sanitize_file_component_def
proof (rule list_all_concat_map)
  fix ch :: string
  show "list_all file_char (if length ch = 1 \<and> file_char (hd ch) then ch else ''_'')"
    by (cases ch) (simp_all add: file_char_def)
qed

lemma dec_file_chars: "list_all file_char (dec n)" "list_all file_char (dec_int i)"
proof -
  have d: "list_all file_char (dec n)" for n
    by (rule list.pred_mono_strong [OF radix_chars]) (auto simp: is_hex_digit_def file_char_def)
  then show "list_all file_char (dec n)" "list_all file_char (dec_int i)"
    by (simp_all add: dec_int_def) (simp add: file_char_def)
qed

lemma dec_no_dot: "list_all (\<lambda>c. c \<noteq> CHR ''.'') (dec n)" "list_all (\<lambda>c. c \<noteq> CHR ''.'') (dec_int i)"
proof -
  have d: "list_all (\<lambda>c. c \<noteq> CHR ''.'') (dec n)" for n
    by (rule list.pred_mono_strong [OF radix_chars]) (auto simp: is_hex_digit_def)
  then show "list_all (\<lambda>c. c \<noteq> CHR ''.'') (dec n)" "list_all (\<lambda>c. c \<noteq> CHR ''.'') (dec_int i)"
    by (simp_all add: dec_int_def)
qed

lemma scope_component: "list_all file_char (sanitize_scope_label_component l)"
  "sanitize_scope_label_component l \<noteq> []"
proof -
  have "list_all file_char ''unknown0''" by code_simp
  then show "list_all file_char (sanitize_scope_label_component l)" "sanitize_scope_label_component l \<noteq> []"
    using sanitize_chars [of l] by (simp_all add: sanitize_scope_label_component_def Let_def)
qed

lemma sanitize_no_dot:
  assumes "CHR ''.'' \<notin> set s"
  shows "list_all (\<lambda>c. c \<noteq> CHR ''.'') (sanitize_file_component s)"
  unfolding sanitize_file_component_def list_all_iff
proof
  let ?f = "\<lambda>ch. if length ch = 1 \<and> file_char (hd ch) then ch else ''_''"
  fix c assume "c \<in> set (concat (map ?f (rust_chars s)))"
  then obtain ch where ch: "ch \<in> set (rust_chars s)" "c \<in> set (?f ch)"
    unfolding set_concat set_map by blast
  then have "set ch \<subseteq> set (concat (rust_chars s))" by (auto simp del: concat_rust_chars)
  then have "set ch \<subseteq> set s" by simp
  with ch(2) assms show "c \<noteq> CHR ''.''" by (auto split: if_splits)
qed

text \<open>The last dot separates the system call from the label.\<close>

lemma scope_and_syscall:
  assumes "a @ ''.sys-'' @ m = b @ ''.sys-'' @ n"
    and "list_all (\<lambda>c. c \<noteq> CHR ''.'') m" "list_all (\<lambda>c. c \<noteq> CHR ''.'') n"
  shows "a = b \<and> m = n"
proof -
  have "rev (a @ ''.sys-'' @ m) = rev (b @ ''.sys-'' @ n)" by (simp only: assms(1))
  then have "(rev m @ ''-sys'') @ CHR ''.'' # rev a = (rev n @ ''-sys'') @ CHR ''.'' # rev b" by simp
  from split_at_first [where P = "\<lambda>c. c \<noteq> CHR ''.''", OF this] assms(2,3)
  show ?thesis by (simp add: list_all_iff)
qed

text \<open>C39. The name of a capture file is safe and tells captures apart: whatever the system call and the
  label are called, what follows the configured base path has only letters, digits, \<open>_\<close>,
  \<open>-\<close> and \<open>.\<close> (so the file stays in its directory). If the names of the system calls have no
  dot, as those of Linux, two captures share a file exactly if they are of the same thread, entered
  in the same microsecond, with the same cleaned label and the same cleaned system call.\<close>

theorem fgraph_path_safe_and_unique:
  assumes "CHR ''.'' \<notin> set n1" and "CHR ''.'' \<notin> set n2"
  shows "list_all file_char (drop (length base) (fgraph_output_path base t1 n1 ts1 l1)) \<and>
   take (length base) (fgraph_output_path base t1 n1 ts1 l1) = base \<and>
   (fgraph_output_path base t1 n1 ts1 l1 = fgraph_output_path base t2 n2 ts2 l2 \<longleftrightarrow>
      t1 = t2 \<and> ts1 = ts2 \<and> sanitize_scope_label_component l1 = sanitize_scope_label_component l2 \<and>
      sanitize_file_component n1 = sanitize_file_component n2)"
proof (intro conjI)
  show "list_all file_char (drop (length base) (fgraph_output_path base t1 n1 ts1 l1))"
    using dec_file_chars scope_component sanitize_chars
    by (simp add: fgraph_output_path_def Let_def) (simp add: file_char_def)
  show "take (length base) (fgraph_output_path base t1 n1 ts1 l1) = base"
    by (simp add: fgraph_output_path_def Let_def)
  let ?s = "sanitize_scope_label_component" and ?n = "sanitize_file_component"
  let ?r = "\<lambda>n l. ?s l @ ''.sys-'' @ ?n n"
  have p: "fgraph_output_path base t n ts l =
      base @ ''.fgraph.tid-'' @ dec_int t @ CHR ''.'' # ''ts-'' @ dec ts @ CHR ''.'' # ?r n l @ ''.log''" for t n ts l
    by (simp add: fgraph_output_path_def Let_def)
  show "fgraph_output_path base t1 n1 ts1 l1 = fgraph_output_path base t2 n2 ts2 l2 \<longleftrightarrow>
      t1 = t2 \<and> ts1 = ts2 \<and> ?s l1 = ?s l2 \<and> ?n n1 = ?n n2" (is "?eq \<longleftrightarrow> ?parts")
  proof
    assume ?eq
    then have e: "dec_int t1 @ CHR ''.'' # ''ts-'' @ dec ts1 @ CHR ''.'' # ?r n1 l1 @ ''.log'' =
        dec_int t2 @ CHR ''.'' # ''ts-'' @ dec ts2 @ CHR ''.'' # ?r n2 l2 @ ''.log''" by (simp add: p)
    note split = split_at_first [where P = "\<lambda>c. c \<noteq> CHR ''.''"]
    from split [OF e] dec_no_dot have t: "dec_int t1 = dec_int t2"
      and "dec ts1 @ CHR ''.'' # ?r n1 l1 @ ''.log'' = dec ts2 @ CHR ''.'' # ?r n2 l2 @ ''.log''" by auto
    from split [OF this(2)] dec_no_dot have ts: "dec ts1 = dec ts2"
      and "?r n1 l1 @ ''.log'' = ?r n2 l2 @ ''.log''" by auto
    then have "?r n1 l1 = ?r n2 l2" by (simp only: append_same_eq)
    from scope_and_syscall [OF this sanitize_no_dot [OF assms(1)] sanitize_no_dot [OF assms(2)]]
    have "?s l1 = ?s l2 \<and> ?n n1 = ?n n2" .
    moreover have "t1 = t2" by (rule dec_int_inj [OF t])
    moreover have "ts1 = ts2" using radix_inj [of 10 ts1 ts2] ts by simp
    ultimately show ?parts by blast
  next
    assume ?parts
    then have a: "t1 = t2" "ts1 = ts2" "?s l1 = ?s l2" "?n n1 = ?n n2" by blast+
    show ?eq unfolding p a by (rule refl)
  qed
qed

theorem fgraph_path_safe_and_unique_witness:
  "fgraph_output_path ''out'' 41 ''read'' 7 ''f1.sys-x'' \<noteq> fgraph_output_path ''out'' 41 ''ioctl'' 7 ''f1''"
proof -
  have "sanitize_file_component ''read'' \<noteq> sanitize_file_component ''ioctl''" by code_simp
  with fgraph_path_safe_and_unique [of "''read''" "''ioctl''" "''out''" 41 7 "''f1.sys-x''" 41 7 "''f1''"]
  show ?thesis by simp
qed

subsection \<open>The cleaned text of a capture\<close>

text \<open>The specification: a tree of kernel functions, each line of which the kernel prints after a
  column of CPU and duration, a bar and some spaces.\<close>

datatype ktree = KLeaf string nat string | KFun string nat string "ktree list" string nat

definition kline :: "string \<Rightarrow> nat \<Rightarrow> string \<Rightarrow> string" where
  "kline column spaces text = column @ CHR ''|'' # replicate spaces CHR '' '' @ text"

fun klines :: "ktree \<Rightarrow> string list" and klines_list :: "ktree list \<Rightarrow> string list" where
  "klines (KLeaf col n f) = [kline col n (f @ ''();'')]"
| "klines (KFun col n f kids col' n') =
     kline col n (f @ ''() {'') # klines_list kids @ [kline col' n' ''}'']"
| "klines_list [] = []"
| "klines_list (t # ts) = klines t @ klines_list ts"

fun kpicture :: "nat \<Rightarrow> ktree \<Rightarrow> string" and kpictures :: "nat \<Rightarrow> ktree list \<Rightarrow> string" where
  "kpicture d (KLeaf col n f) = tabs d @ f @ ''();'' @ [newline]"
| "kpicture d (KFun col n f kids col' n') =
     tabs d @ f @ ''() {'' @ [newline] @ kpictures (Suc d) kids @ tabs d @ ''}'' @ [newline]"
| "kpictures d [] = []"
| "kpictures d (t # ts) = kpicture d t @ kpictures d ts"

fun kheight :: "ktree \<Rightarrow> nat" and kheights :: "ktree list \<Rightarrow> nat" where
  "kheight (KLeaf col n f) = 0"
| "kheight (KFun col n f kids col' n') = Suc (kheights kids)"
| "kheights [] = 0"
| "kheights (t # ts) = max (kheight t) (kheights ts)"

text \<open>Between these the kernel puts other lines, with spaces before: comments; where another thread was
  scheduled, a rule of dashes and a line with the two threads and an arrow between them; and blank
  lines.\<close>

datatype knoise = KComment nat string | KRule nat nat | KSwitch nat string string | KBlank nat

fun knoise_line :: "knoise \<Rightarrow> string" where
  "knoise_line (KComment n s) = replicate n CHR '' '' @ ''#'' @ s"
| "knoise_line (KRule n m) = replicate n CHR '' '' @ replicate (42 + m) CHR ''-''"
| "knoise_line (KSwitch n before after) = replicate n CHR '' '' @ before @ '' => '' @ after"
| "knoise_line (KBlank n) = replicate n CHR '' ''"

definition kwhole :: "string \<Rightarrow> bool" where
  "kwhole l \<longleftrightarrow> newline \<notin> set l \<and> (l = [] \<or> last l \<noteq> creturn)"

text \<open>Columns hold digits, blanks and marks; functions are named by identifiers.\<close>

definition column_ok :: "string \<Rightarrow> bool" where
  "column_ok s \<longleftrightarrow> list_all (\<lambda>c. ord c < 128 \<and> c \<notin> {CHR ''|'', CHR ''#'', CHR ''-'', CHR ''='', newline}) s"

definition kname_ok :: "string \<Rightarrow> bool" where
  "kname_ok s \<longleftrightarrow> s \<noteq> [] \<and> list_all (\<lambda>c. file_char c \<and> c \<noteq> CHR ''-'') s"

fun ktree_ok :: "ktree \<Rightarrow> bool" and ktrees_ok :: "ktree list \<Rightarrow> bool" where
  "ktree_ok (KLeaf col n f) = (column_ok col \<and> kname_ok f)"
| "ktree_ok (KFun col n f kids col' n') = (column_ok col \<and> column_ok col' \<and> kname_ok f \<and> ktrees_ok kids)"
| "ktrees_ok [] = True"
| "ktrees_ok (t # ts) = (ktree_ok t \<and> ktrees_ok ts)"

lemma trim_padded:
  assumes "ascii t" "t \<noteq> []" "\<not> is_white [hd t]" "\<not> is_white [last t]"
  shows "trim (replicate n CHR '' '' @ t) = t"
proof -
  have w: "is_white [CHR '' '']" by (simp add: is_white_def Let_def)
  have "rust_chars (replicate n CHR '' '' @ t) = replicate n [CHR '' ''] @ map (\<lambda>c. [c]) t"
    using rust_chars_ascii [of t] assms(1) by (induction n) simp_all
  moreover have "dropWhile is_white (replicate n [CHR '' ''] @ cs) = dropWhile is_white cs" for cs
    using w by (induction n) simp_all
  moreover have "dropWhile is_white (map (\<lambda>c. [c]) t) = map (\<lambda>c. [c]) t"
    using assms(2,3) by (cases t) simp_all
  moreover have "trim_end_chars (map (\<lambda>c. [c]) t) = map (\<lambda>c. [c]) t"
    using assms(2,4) by (cases t rule: rev_cases) (simp_all add: trim_end_chars_def)
  ultimately show ?thesis by (simp add: trim_def)
qed

lemma trim_start_subset: "set (trim_start s) \<subseteq> set s"
proof -
  have "set (concat (dropWhile P cs)) \<subseteq> set (concat cs)" for P and cs :: "string list"
    by (auto dest: set_dropWhileD)
  from this [of is_white "rust_chars s"] show ?thesis by (simp add: trim_start_def)
qed

lemma no_prefix: "c \<notin> set s \<Longrightarrow> \<not> starts_with s (c # p)"
  by (cases s) (auto simp: starts_with_def)

text \<open>What is left of a line of the kernel.\<close>

lemma graph_body_kline:
  assumes "column_ok col" and "ascii body" "body \<noteq> []" "\<not> is_white [hd body]" "\<not> is_white [last body]"
    and "list_all (\<lambda>c. c \<notin> {CHR ''#'', CHR ''-'', CHR ''=''}) body"
  shows "graph_body (kline col n body) = Some body"
proof -
  let ?l = "kline col n body"
  have c: "CHR ''#'' \<notin> set ?l" "CHR ''-'' \<notin> set ?l" "CHR ''='' \<notin> set ?l"
    using assms(1,6) by (auto simp: kline_def column_ok_def list_all_iff)
  have "CHR ''#'' \<notin> set (trim_start ?l)" "CHR ''-'' \<notin> set (trim_start ?l)"
    using c(1,2) trim_start_subset [of ?l] by blast+
  then have "\<not> starts_with (trim_start ?l) ''#''"
    "\<not> starts_with (trim_start ?l) ''------------------------------------------''"
    by (simp_all add: no_prefix)
  moreover have "\<not> str_contains ?l ''=>''" using c(3) by (auto simp: str_contains_iff)
  moreover have "dropWhile (\<lambda>c. c \<noteq> CHR ''|'') ?l = CHR ''|'' # replicate n CHR '' '' @ body"
    using assms(1) by (auto simp: kline_def column_ok_def list_all_iff dropWhile_append)
  moreover have "trim (unwrap_or (replicate n CHR '' '' @ body) (strip_prefix '' '' (replicate n CHR '' '' @ body))) = body"
  proof (cases n)
    case 0
    have "hd body \<noteq> CHR '' ''" using assms(4) by (auto simp: is_white_def Let_def)
    then have "\<not> starts_with body '' ''" using assms(3) by (cases body) (simp_all add: starts_with_def)
    then show ?thesis using trim_padded [OF assms(2-5), of 0] 0 by (simp add: strip_prefix_def)
  next
    case (Suc m)
    then show ?thesis using trim_padded [OF assms(2-5), of m]
      by (simp add: strip_prefix_def starts_with_def)
  qed
  moreover have "CHR ''|'' \<in> set ?l" by (simp add: kline_def)
  ultimately show ?thesis using assms(3) by (simp add: graph_body_def Let_def)
qed

lemma file_char_range: "file_char c \<Longrightarrow> 45 \<le> ord c \<and> ord c \<le> 122 \<and> c \<noteq> CHR ''=''"
  by (auto simp: file_char_def)

lemma kname_text:
  assumes "kname_ok f" and "t = ''();'' \<or> t = ''() {''"
  shows "ascii (f @ t)" "\<not> is_white [hd (f @ t)]" "\<not> is_white [last (f @ t)]"
    "list_all (\<lambda>c. c \<notin> {CHR ''#'', CHR ''-'', CHR ''=''}) (f @ t)" "\<not> starts_with (f @ t) ''}''"
proof -
  have f: "ord c < 128 \<and> ord c > 32 \<and> c \<notin> {CHR ''#'', CHR ''-'', CHR ''='', CHR ''}''}" if "c \<in> set f" for c
  proof -
    have "file_char c" "c \<noteq> CHR ''-''" using that assms(1) by (simp_all add: kname_ok_def list_all_iff)
    with file_char_range [of c] show ?thesis by (cases "c = CHR ''#''"; cases "c = CHR ''}''") simp_all
  qed
  obtain c g where g: "f = c # g" using assms(1) by (cases f) (auto simp: kname_ok_def)
  have "ascii f" using f by (auto simp: ascii_def list_all_iff)
  with assms(2) show "ascii (f @ t)" by auto
  show "\<not> is_white [hd (f @ t)]" using f [of c] g by (auto simp: is_white_def Let_def)
  show "\<not> is_white [last (f @ t)]" using assms(2) by (auto simp: is_white_def Let_def)
  show "list_all (\<lambda>c. c \<notin> {CHR ''#'', CHR ''-'', CHR ''=''}) (f @ t)"
    using f assms(2) by (auto simp: list_all_iff)
  show "\<not> starts_with (f @ t) ''}''" using f [of c] g by (auto simp: starts_with_def)
qed

lemma kline_bodies:
  "column_ok col \<Longrightarrow> kname_ok f \<Longrightarrow> graph_body (kline col n (f @ ''();'')) = Some (f @ ''();'')"
  "column_ok col \<Longrightarrow> kname_ok f \<Longrightarrow> graph_body (kline col n (f @ ''() {'')) = Some (f @ ''() {'')"
  "column_ok col \<Longrightarrow> graph_body (kline col n ''}'') = Some ''}''"
proof -
  show "column_ok col \<Longrightarrow> kname_ok f \<Longrightarrow> graph_body (kline col n (f @ ''();'')) = Some (f @ ''();'')"
    using kname_text [of f "''();''"] by (intro graph_body_kline) simp_all
  show "column_ok col \<Longrightarrow> kname_ok f \<Longrightarrow> graph_body (kline col n (f @ ''() {'')) = Some (f @ ''() {'')"
    using kname_text [of f "''() {''"] by (intro graph_body_kline) simp_all
  show "column_ok col \<Longrightarrow> graph_body (kline col n ''}'') = Some ''}''"
    by (intro graph_body_kline) (simp_all add: is_white_def)
qed

lemma ends_with_snoc: "ends_with (s @ [c]) [d] \<longleftrightarrow> c = d"
  by (simp add: ends_with_def)

lemma kname_ends: "\<not> ends_with (f @ ''();'') ''{''" "ends_with (f @ ''() {'') ''{''"
  using ends_with_snoc [of "f @ ''()''" "CHR '';''" "CHR ''{''"] ends_with_snoc [of "f @ ''() ''" "CHR ''{''" "CHR ''{''"]
  by simp_all

lemma sanitize_klines:
  "ktree_ok t \<Longrightarrow> d + kheight t \<le> usize_max \<Longrightarrow>
   sanitize_lines d (klines t @ rest) = kpicture d t @ sanitize_lines d rest"
  "ktrees_ok ts \<Longrightarrow> d + kheights ts \<le> usize_max \<Longrightarrow>
   sanitize_lines d (klines_list ts @ rest) = kpictures d ts @ sanitize_lines d rest"
proof (induction t and ts arbitrary: d rest and d rest rule: klines_klines_list.induct)
  case (1 col n f)
  then show ?case
    using kname_text(5) [of f "''();''"] by (simp add: kline_bodies kname_ends)
next
  case (2 col n f kids col' n')
  have "saturating_add usize_max d (Suc 0) = Suc d" using "2.prems" by (simp add: saturating_add_exact)
  moreover have "starts_with ''}'' ''}''" "\<not> ends_with ''}'' ''{''"
    by (simp_all add: starts_with_def ends_with_def)
  ultimately show ?case
    using "2.IH" [of "Suc d"] "2.prems" kname_text(5) [of f "''() {''"]
    by (simp add: kline_bodies kname_ends)
qed simp_all

lemma trim_start_padded: "ord c < 128 \<Longrightarrow> \<not> is_white [c] \<Longrightarrow> trim_start (replicate n CHR '' '' @ c # s) = c # s"
proof -
  assume "ord c < 128" "\<not> is_white [c]"
  moreover have "is_white [CHR '' '']" by (simp add: is_white_def Let_def)
  then have "dropWhile is_white (rust_chars (replicate n CHR '' '' @ t)) = dropWhile is_white (rust_chars t)" for t
    by (induction n) simp_all
  ultimately show ?thesis by (simp add: trim_start_def)
qed

lemma trim_start_blank: "trim_start (replicate n CHR '' '') = []"
proof -
  have "is_white [CHR '' '']" by (simp add: is_white_def Let_def)
  moreover have "rust_chars (replicate n CHR '' '') = replicate n [CHR '' '']" by (induction n) simp_all
  ultimately have "dropWhile is_white (rust_chars (replicate n CHR '' '')) = []" by simp
  then show ?thesis by (simp only: trim_start_def concat.simps)
qed

lemma graph_body_noise: "graph_body (knoise_line z) = None"
proof (cases z)
  case (KComment n s)
  have "trim_start (replicate n CHR '' '' @ CHR ''#'' # s) = CHR ''#'' # s"
    by (rule trim_start_padded) (simp_all add: is_white_def Let_def)
  then show ?thesis using KComment by (simp add: graph_body_def starts_with_def)
next
  case (KRule n m)
  have e: "replicate (42 + m) CHR ''-'' = ''------------------------------------------'' @ replicate m CHR ''-''"
    by (simp add: numeral_eq_Suc)
  have "trim_start (replicate n CHR '' '' @ replicate (42 + m) CHR ''-'') = replicate (42 + m) CHR ''-''"
  proof -
    have "42 + m = Suc (41 + m)" by simp
    then have "replicate (42 + m) CHR ''-'' = CHR ''-'' # replicate (41 + m) CHR ''-''" by (simp only: replicate_Suc)
    then show ?thesis
      using trim_start_padded [of "CHR ''-''" n "replicate (41 + m) CHR ''-''"]
      by (simp only:) (simp add: is_white_def Let_def)
  qed
  then show ?thesis unfolding KRule knoise_line.simps graph_body_def e by (simp add: starts_with_def)
next
  case (KSwitch n a b)
  have "str_contains (replicate n CHR '' '' @ a @ '' => '' @ b) ''=>''"
    unfolding str_contains_iff by (intro exI [of _ "replicate n CHR '' '' @ a @ '' ''"] exI [of _ "CHR '' '' # b"]) simp
  then show ?thesis using KSwitch by (simp add: graph_body_def Let_def)
next
  case (KBlank n)
  have "CHR ''|'' \<notin> set (replicate n CHR '' '')" by auto
  moreover have "trim [] = []" by (simp add: trim_def trim_end_chars_def)
  ultimately show ?thesis using KBlank trim_start_blank [of n]
    by (auto simp: graph_body_def Let_def)
qed

lemma sanitize_noise:
  "ls \<in> shuffles (map knoise_line zs) ks \<Longrightarrow> sanitize_lines d ls = sanitize_lines d ks"
proof (induction ls arbitrary: zs ks d)
  case (Cons l ls)
  from Cons.prems consider (noise) z zs' where "zs = z # zs'" "l = knoise_line z" "ls \<in> shuffles (map knoise_line zs') ks"
    | (line) ks' where "ks = l # ks'" "ls \<in> shuffles (map knoise_line zs) ks'"
    by (auto simp: Cons_in_shuffles_iff neq_Nil_conv)
  then show ?case
  proof cases
    case noise
    with Cons.IH show ?thesis by (simp add: graph_body_noise)
  next
    case line
    with Cons.IH [OF line(2)] show ?thesis by (simp add: Let_def split: option.split)
  qed
qed simp

text \<open>A printed line is one line.\<close>

lemma kline_whole:
  assumes "column_ok col" and "newline \<notin> set t" "t \<noteq> []" "last t \<noteq> creturn"
  shows "newline \<notin> set (kline col n t) \<and> (kline col n t = [] \<or> last (kline col n t) \<noteq> creturn)"
  using assms by (auto simp: kline_def column_ok_def list_all_iff)

lemma kname_whole:
  "kname_ok f \<Longrightarrow> newline \<notin> set (f @ ''();'')" "kname_ok f \<Longrightarrow> newline \<notin> set (f @ ''() {'')"
  using file_char_range [of newline] by (auto simp: kname_ok_def list_all_iff)

lemma klines_whole:
  "ktree_ok t \<Longrightarrow> list_all (\<lambda>l. newline \<notin> set l \<and> (l = [] \<or> last l \<noteq> creturn)) (klines t)"
  "ktrees_ok ts \<Longrightarrow> list_all (\<lambda>l. newline \<notin> set l \<and> (l = [] \<or> last l \<noteq> creturn)) (klines_list ts)"
proof (induction t and ts rule: klines_klines_list.induct)
  case (1 col n f)
  then show ?case using kline_whole [of col "f @ ''();''" n] kname_whole(1) by simp
next
  case (2 col n f kids col' n')
  then show ?case
    using kline_whole [of col "f @ ''() {''" n] kline_whole [of col' "''}''" n'] kname_whole(2) by simp
qed simp_all



end
