(* ===== verification/Ptrace_Loop.thy ===== *)
theory Ptrace_Loop
  imports Ptrace_Fgraph
begin

text \<open>
  The tracer of \<open>src/hook/ptrace.rs\<close>: \<open>run_ptrace_loop\<close> and the scheduling of captures. The
  tracer's tables are the record \<open>tracer\<close>; what an iteration learns from the kernel (the answer
  of \<open>waitpid\<close>, registers, pipes, memory, clocks, the files of tracefs) is the record
  \<open>stop_input\<close>, any value of it; what it does is appended to the history of effects, in order.
  The results of resuming a thread and of setting its options are ignored by the code. Debug
  messages are left out.
\<close>

subsection \<open>The state\<close>

record UserRegsStruct =
  r_r15 :: u64
  r_r14 :: u64
  r_r13 :: u64
  r_r12 :: u64
  r_rbp :: u64
  r_rbx :: u64
  r_r11 :: u64
  r_r10 :: u64
  r_r9 :: u64
  r_r8 :: u64
  r_rax :: u64
  r_rcx :: u64
  r_rdx :: u64
  r_rsi :: u64
  r_rdi :: u64
  r_orig_rax :: u64
  r_rip :: u64
  r_cs :: u64
  r_eflags :: u64
  r_rsp :: u64
  r_ss :: u64
  r_fs_base :: u64
  r_gs_base :: u64
  r_ds :: u64
  r_es :: u64
  r_fs :: u64
  r_gs :: u64

definition ECHILD :: i32 where "ECHILD = 10"

text \<open>\<open>st_started_at\<close> of the default is the time of its creation; it is overwritten before it is read.\<close>

definition SyscallState_default :: "nat \<Rightarrow> SyscallState" where
  "SyscallState_default now =
     \<lparr>st_active = False, st_internal = False, st_nr = -1, st_args = replicate 6 0, st_path_hint = None,
      st_started_ts = 0, st_started_at = now, st_started_ts_us = 0, st_fgraph_waiting = False,
      st_fgraph_capturing = False\<rparr>"

record tracer =
  tr_controller :: "string option"
  tr_depth_fd :: rfd
  tr_window_fd :: rfd
  tr_states :: "pid_t \<Rightarrow> SyscallState option"
  tr_depth :: "pid_t \<Rightarrow> nat option"
  tr_windows :: windows
  tr_capture :: "ActiveFgraphCapture option"
  tr_waiting :: "pid_t list"
  tr_fd_paths :: "rfd \<Rightarrow> string option"
  tr_hidden :: "rfd set"
  tr_ranges :: "(u64 \<times> u64) list"
  tr_history :: "effect list"

datatype wait_answer = WaitFailed i32 | Waited pid_t i32

record stop_input =
  si_env :: env
  si_fs :: fs_env
  si_depth_reads :: "read_answer list"
  si_window_reads :: "read_answer list"
  si_regs :: "UserRegsStruct option"
  si_eventmsg :: "u64 option"
  si_maps :: "string option"
  si_epoch :: nat
  si_epoch_us :: nat
  si_now :: nat

definition emit :: "effect \<Rightarrow> tracer \<Rightarrow> tracer" where
  "emit e t = t\<lparr>tr_history := tr_history t @ [e]\<rparr>"

subsection \<open>Captures\<close>

text \<open>\<open>begin_fgraph_capture_for_state\<close> and \<open>finish_active_fgraph_capture\<close> on the tracer's
  variables.\<close>

definition begin_for :: "stop_input \<Rightarrow> pid_t \<Rightarrow> SyscallState \<Rightarrow> tracer \<Rightarrow> bool \<times> tracer" where
  "begin_for i pid state t =
     (case begin_fgraph_capture_for_state (si_fs i) (si_env i) pid state (tr_fd_paths t) (tr_windows t)
             (tr_controller t) (tr_capture t) (tr_history t) of
        (started, capture, h) \<Rightarrow> (started, t\<lparr>tr_capture := capture, tr_history := h\<rparr>))"

definition finish_active :: "stop_input \<Rightarrow> tracer \<Rightarrow> tracer" where
  "finish_active i t =
     (case finish_active_fgraph_capture (si_fs i) (tr_controller t) (cfg_path (env_cfg (si_env i)))
             (tr_capture t) (tr_history t) of
        (_, capture, h) \<Rightarrow> t\<lparr>tr_capture := capture, tr_history := h\<rparr>)"

text \<open>The loop of \<open>maybe_resume_waiting_fgraph_tid\<close> over the queue: a thread that still waits is
  resumed, with a capture of its own if it is still inside a selected function; the first
  capture that starts ends the loop.\<close>

fun resume_waiting :: "stop_input \<Rightarrow> pid_t list \<Rightarrow> tracer \<Rightarrow> tracer" where
  "resume_waiting i [] t = t\<lparr>tr_waiting := []\<rparr>"
| "resume_waiting i (tid # queue) t =
     (case tr_states t tid of
        None \<Rightarrow> resume_waiting i queue t
      | Some state \<Rightarrow>
          if \<not> st_active state \<or> \<not> st_fgraph_waiting state then resume_waiting i queue t
          else
            (let state = state\<lparr>st_fgraph_waiting := False\<rparr>;
                 (capturing, t) =
                   (if should_capture_fgraph tid state (tr_windows t) (tr_controller t) then
                      begin_for i tid state t
                    else (False, t));
                 t = t\<lparr>tr_states := (tr_states t)(tid \<mapsto> state\<lparr>st_fgraph_capturing := capturing\<rparr>)\<rparr>;
                 t = emit (Resume tid 0) t
             in if tr_capture t \<noteq> None then t\<lparr>tr_waiting := queue\<rparr> else resume_waiting i queue t))"

declare resume_waiting.simps [simp del]

definition maybe_resume_waiting_fgraph_tid :: "stop_input \<Rightarrow> tracer \<Rightarrow> tracer" where
  "maybe_resume_waiting_fgraph_tid i t =
     (if tr_capture t \<noteq> None then t else resume_waiting i (tr_waiting t) t)"

subsection \<open>One iteration\<close>

definition drain_pipes :: "stop_input \<Rightarrow> tracer \<Rightarrow> tracer" where
  "drain_pipes i t =
     t\<lparr>tr_depth := drain_depth_updates (tr_depth_fd t) (si_depth_reads i) (tr_depth t),
       tr_windows := drain_fgraph_window_updates (tr_window_fd t) (si_window_reads i) (tr_windows t)\<rparr>"

definition thread_gone :: "stop_input \<Rightarrow> pid_t \<Rightarrow> tracer \<Rightarrow> tracer" where
  "thread_gone i pid t =
     (let t = (if map_option ac_tid (tr_capture t) = Some pid then finish_active i t else t);
          t = t\<lparr>tr_states := (tr_states t)(pid := None), tr_depth := (tr_depth t)(pid := None),
                tr_windows := (tr_windows t)(pid := None),
                tr_waiting := filter (\<lambda>queued. queued \<noteq> pid) (tr_waiting t)\<rparr>
      in maybe_resume_waiting_fgraph_tid i (emit (CloseTid pid) t))"

text \<open>The first stop of a system call; the result says whether the thread is held there.\<close>

definition entry_state :: "stop_input \<Rightarrow> pid_t \<Rightarrow> UserRegsStruct \<Rightarrow> tracer \<Rightarrow> SyscallState" where
  "entry_state i pid regs t =
     (let e = si_env i;
          nr = u64_as_i64 (r_orig_rax regs);
          args = [r_rdi regs, r_rsi regs, r_rdx regs, r_r10 regs, r_r8 regs, r_r9 regs]
      in \<lparr>st_active = True,
          st_internal = is_internal_syscall (env_vm e pid) (r_rip regs) (r_rsp regs) (tr_ranges t),
          st_nr = nr, st_args = args, st_path_hint = capture_path_hint e pid nr args,
          st_started_ts =
            (if include_timestamp (cfg_left_meta (env_cfg e)) then now_timestamp_for_config (env_cfg e) (si_epoch i)
             else 0),
          st_started_at = si_now i, st_started_ts_us = si_epoch_us i div 1000,
          st_fgraph_waiting = False, st_fgraph_capturing = False\<rparr>)"

definition syscall_entry :: "stop_input \<Rightarrow> pid_t \<Rightarrow> UserRegsStruct \<Rightarrow> tracer \<Rightarrow> bool \<times> tracer" where
  "syscall_entry i pid regs t =
     (let state = entry_state i pid regs t
      in if should_capture_fgraph pid state (tr_windows t) (tr_controller t) then
           (if tr_capture t = None then
              (let (capturing, t) = begin_for i pid state t
               in (False, t\<lparr>tr_states := (tr_states t)(pid \<mapsto> state\<lparr>st_fgraph_capturing := capturing\<rparr>)\<rparr>))
            else
              (True, t\<lparr>tr_states := (tr_states t)(pid \<mapsto> state\<lparr>st_fgraph_waiting := True\<rparr>),
                       tr_waiting := (if pid \<in> set (tr_waiting t) then tr_waiting t
                                      else tr_waiting t @ [pid])\<rparr>))
         else (False, t\<lparr>tr_states := (tr_states t)(pid \<mapsto> state)\<rparr>))"

text \<open>The second stop; the result says whether its capture is finished.\<close>

definition syscall_exit :: "stop_input \<Rightarrow> pid_t \<Rightarrow> UserRegsStruct \<Rightarrow> SyscallState \<Rightarrow> tracer \<Rightarrow> bool \<times> tracer" where
  "syscall_exit i pid regs state t =
     (let ret_raw = u64_as_i64 (r_rax regs);
          ret_norm = normalize_ret ret_raw;
          finished = st_fgraph_capturing state;
          state = (if finished then state\<lparr>st_fgraph_capturing := False\<rparr> else state);
          t = (if \<not> st_internal state then
                 (let elapsed = si_now i - st_started_at state;
                      depth = unwrap_or 0 (tr_depth t pid);
                      line = format_syscall_line (si_env i) pid state ret_raw elapsed (tr_fd_paths t)
                               (tr_hidden t) depth
                  in if line \<noteq> [] then emit (WriteLine pid line) t else t)
               else t);
          t = t\<lparr>tr_hidden := update_hidden_fds (env_cfg (si_env i)) state ret_norm (tr_hidden t)\<rparr>;
          t = t\<lparr>tr_fd_paths := update_fd_paths state ret_norm (tr_fd_paths t)\<rparr>;
          state = state\<lparr>st_active := False, st_internal := False, st_path_hint := None,
                        st_started_ts_us := 0, st_fgraph_waiting := False\<rparr>
      in (finished, t\<lparr>tr_states := (tr_states t)(pid \<mapsto> state)\<rparr>))"

definition syscall_stop :: "stop_input \<Rightarrow> pid_t \<Rightarrow> tracer \<Rightarrow> tracer" where
  "syscall_stop i pid t =
     (case si_regs i of
        None \<Rightarrow> emit (Resume pid 0) t
      | Some regs \<Rightarrow>
          (let state = map_default (SyscallState_default (si_now i)) (tr_states t) pid
           in if \<not> st_active state then
                (let (hold, t) = syscall_entry i pid regs t
                 in if hold then t else emit (Resume pid 0) t)
              else
                (let (finished, t) = syscall_exit i pid regs state t;
                     t = (if finished then maybe_resume_waiting_fgraph_tid i (finish_active i t) else t)
                 in emit (Resume pid 0) t)))"

definition signal_stop :: "stop_input \<Rightarrow> pid_t \<Rightarrow> i32 \<Rightarrow> tracer \<Rightarrow> tracer" where
  "signal_stop i pid status t =
     (let sig = wstopsig status; event = ptrace_event status
      in if sig = SIGTRAP \<and>
            (event = PTRACE_EVENT_CLONE \<or> event = PTRACE_EVENT_FORK \<or> event = PTRACE_EVENT_VFORK) then
           (let t = (case si_eventmsg i of
                       None \<Rightarrow> t
                     | Some msg \<Rightarrow>
                         (let new_tid = u64_as_i32 msg in emit (Resume new_tid 0) (emit (SetOptions new_tid) t)))
            in emit (Resume pid 0) t)
         else if sig = SIGTRAP \<and> event = PTRACE_EVENT_EXEC then
           emit (Resume pid 0) (t\<lparr>tr_ranges := load_cudatrace_ranges (si_maps i)\<rparr>)
         else emit (Resume pid sig) t)"

definition handle_status :: "stop_input \<Rightarrow> pid_t \<Rightarrow> i32 \<Rightarrow> tracer \<Rightarrow> tracer" where
  "handle_status i pid status t =
     (let t = drain_pipes i t
      in if wifexited status \<or> wifsignaled status then thread_gone i pid t
         else if \<not> wifstopped status then t
         else if wstopsig status = SYSCALL_STOP_SIG then syscall_stop i pid t
         else signal_stop i pid status t)"

text \<open>An iteration: the new state, and whether the loop goes on. A failed \<open>waitpid\<close> ends it only
  when there are no threads left.\<close>

definition loop_step :: "wait_answer \<Rightarrow> stop_input \<Rightarrow> tracer \<Rightarrow> bool \<times> tracer" where
  "loop_step w i t =
     (case w of
        WaitFailed err \<Rightarrow> if err = EINTR then (True, t) else if err = ECHILD then (False, t) else (True, t)
      | Waited pid status \<Rightarrow> (True, handle_status i pid status t))"

text \<open>The loop on a sequence of answers, up to the one that ends it.\<close>

fun ptrace_loop :: "(wait_answer \<times> stop_input) list \<Rightarrow> tracer \<Rightarrow> tracer" where
  "ptrace_loop [] t = t"
| "ptrace_loop ((w, i) # answers) t =
     (case loop_step w i t of (continue, t) \<Rightarrow> if continue then ptrace_loop answers t else t)"

subsection \<open>What the parts do\<close>

text \<open>A thread that an effect lets run on.\<close>

fun resumed :: "effect \<Rightarrow> pid_t option" where
  "resumed (Resume pid sig) = Some pid"
| "resumed _ = None"

definition resumes :: "effect list \<Rightarrow> pid_t list" where
  "resumes es = List.map_filter resumed es"

lemma resumes_simps [simp]:
  "resumes [] = []" "resumes (es @ fs) = resumes es @ resumes fs"
  "resumes (e # es) = (case resumed e of None \<Rightarrow> resumes es | Some p \<Rightarrow> p # resumes es)"
  by (simp_all add: resumes_def List.map_filter_def split: option.split)

text \<open>A line that an effect prints.\<close>

fun written :: "effect \<Rightarrow> (pid_t \<times> string) option" where
  "written (WriteLine pid line) = Some (pid, line)"
| "written _ = None"

definition writes :: "effect list \<Rightarrow> (pid_t \<times> string) list" where
  "writes es = List.map_filter written es"

lemma writes_simps [simp]:
  "writes [] = []" "writes (es @ fs) = writes es @ writes fs"
  "writes (e # es) = (case written e of None \<Rightarrow> writes es | Some p \<Rightarrow> p # writes es)"
  by (simp_all add: writes_def List.map_filter_def split: option.split)

definition quiet :: "effect list \<Rightarrow> bool" where
  "quiet es \<longleftrightarrow> resumes es = [] \<and> writes es = []"

lemma quiet_simps [simp]:
  "quiet []" "quiet (es @ fs) \<longleftrightarrow> quiet es \<and> quiet fs"
  "quiet (e # es) \<longleftrightarrow> resumed e = None \<and> written e = None \<and> quiet es"
  by (auto simp: quiet_def split: option.splits)

lemma quietD: "quiet es \<Longrightarrow> resumes es = []" "quiet es \<Longrightarrow> writes es = []"
  by (simp_all add: quiet_def)

lemma tf_quiet: "list_all tf_effect es \<Longrightarrow> quiet es"
proof (induction es)
  case (Cons e es)
  then show ?case by (cases e) simp_all
qed simp

lemma log_quiet [simp]: "resumed (log_fgraph_error msg) = None" "written (log_fgraph_error msg) = None"
  by (simp_all add: log_fgraph_error_def)

lemma emit_simps [simp]:
  "tr_history (emit e t) = tr_history t @ [e]" "tr_states (emit e t) = tr_states t"
  "tr_capture (emit e t) = tr_capture t" "tr_waiting (emit e t) = tr_waiting t"
  "tr_controller (emit e t) = tr_controller t" "tr_windows (emit e t) = tr_windows t"
  "tr_fd_paths (emit e t) = tr_fd_paths t" "tr_hidden (emit e t) = tr_hidden t"
  "tr_depth (emit e t) = tr_depth t" "tr_ranges (emit e t) = tr_ranges t"
  by (simp_all add: emit_def)

lemma begin_for_cases:
  assumes "begin_for i pid state t = (started, t')"
  obtains c where "started" "tr_controller t \<noteq> None" "ac_tid c = pid" "\<exists>es. quiet es \<and>
      t' = t\<lparr>tr_capture := Some c, tr_history := tr_history t @ es\<rparr>"
  | "\<not> started" "\<exists>es. quiet es \<and> t' = t\<lparr>tr_history := tr_history t @ es\<rparr>"
proof (cases "tr_controller t")
  case None
  with assms have "\<not> started" "t' = t\<lparr>tr_history := tr_history t @ []\<rparr>"
    by (simp_all add: begin_for_def begin_fgraph_capture_for_state_def)
  with that(2) show thesis by (metis quiet_simps(1))
next
  case (Some root)
  obtain r h where b: "begin_capture (si_fs i) root pid (syscall_graph_function (si_env i) (st_nr state))
      (tr_history t) = (r, h)" by fastforce
  obtain es where es: "h = tr_history t @ es" "list_all tf_effect es"
    using growsE [OF grows_operations(1) b] by blast
  show thesis
  proof (cases r)
    case (Inl err)
    with assms b Some es tf_quiet [OF es(2)] show ?thesis
      by (intro that(2)) (auto simp: begin_for_def begin_fgraph_capture_for_state_def Let_def
          intro!: exI [of _ "es @ [_]"])
  next
    case (Inr u)
    with assms b Some es tf_quiet [OF es(2)] show ?thesis
      by (intro that(1)) (auto simp: begin_for_def begin_fgraph_capture_for_state_def Let_def)
  qed
qed

lemma finish_active_result:
  "\<exists>es. quiet es \<and> finish_active i t = t\<lparr>tr_capture := None, tr_history := tr_history t @ es\<rparr>"
proof (cases "tr_capture t")
  case None
  then have "finish_active i t = t\<lparr>tr_capture := None, tr_history := tr_history t @ []\<rparr>"
    by (simp add: finish_active_def finish_active_fgraph_capture_def)
  then show ?thesis by (metis quiet_simps(1))
next
  case (Some c)
  show ?thesis
  proof (cases "tr_controller t")
    case None
    with Some have "finish_active i t = t\<lparr>tr_capture := None, tr_history := tr_history t @ []\<rparr>"
      by (simp add: finish_active_def finish_active_fgraph_capture_def)
    then show ?thesis by (metis quiet_simps(1))
  next
    case ctl: (Some root)
    obtain r h where b: "end_capture_and_read (si_fs i) root (tr_history t) = (r, h)" by fastforce
    obtain es where es: "h = tr_history t @ es" "list_all tf_effect es"
      using growsE [OF grows_operations(2) b] by blast
    show ?thesis
    proof (cases r)
      case (Inl err)
      let ?e = "log_fgraph_error (''failed to finish function_graph capture for tid='' @ dec_int (ac_tid c) @ '': '' @ err)"
      obtain r' h' where b': "reset_state (si_fs i) root (h @ [?e]) = (r', h')" by fastforce
      obtain fs where fs: "h' = (h @ [?e]) @ fs" "list_all tf_effect fs"
        using growsE [OF grows_operations(3) b'] by blast
      have "quiet (es @ [?e] @ fs)" using tf_quiet [OF es(2)] tf_quiet [OF fs(2)] by simp
      moreover have "finish_active i t = t\<lparr>tr_capture := None, tr_history := tr_history t @ es @ [?e] @ fs\<rparr>"
        using Some ctl b b' Inl es fs
        by (simp add: finish_active_def finish_active_fgraph_capture_def Let_def)
      ultimately show ?thesis by metis
    next
      case (Inr graph)
      let ?p = "fgraph_output_path (cfg_path (env_cfg (si_env i))) (ac_tid c) (ac_syscall_name c)
        (ac_entry_ts_us c) (ac_scope_label c)"
      let ?fs = "if fe_create_ok (si_fs i) h ?p (capture_text c graph) then [FileWrote ?p (capture_text c graph)]
        else [FileFailed ?p, log_fgraph_error (''failed to write function_graph output: '' @ ?p)]"
      have "finish_active i t = t\<lparr>tr_capture := None, tr_history := tr_history t @ es @ ?fs\<rparr>"
        using Some ctl b Inr es by (simp add: finish_active_def finish_active_fgraph_capture_def Let_def)
      moreover have "quiet (es @ ?fs)" using tf_quiet [OF es(2)] by simp
      ultimately show ?thesis by metis
    qed
  qed
qed

subsection \<open>The rules of the scheduler\<close>

text \<open>The queue of held threads: no duplicates, only known threads, and every thread that waits is in
  it, stopped at the entry of a system call.\<close>

definition queue_inv :: "pid_t list \<Rightarrow> tracer \<Rightarrow> bool" where
  "queue_inv q t \<longleftrightarrow> distinct q \<and> (\<forall>tid \<in> set q. tr_states t tid \<noteq> None) \<and>
     (\<forall>tid st. tr_states t tid = Some st \<longrightarrow> st_fgraph_waiting st \<longrightarrow> st_active st \<and> tid \<in> set q)"

text \<open>The active capture: it belongs to the one thread marked as captured, which is inside a system
  call and not held.\<close>

definition cap_inv :: "tracer \<Rightarrow> bool" where
  "cap_inv t \<longleftrightarrow>
     (\<forall>tid st. tr_states t tid = Some st \<longrightarrow>
        (st_fgraph_capturing st \<longleftrightarrow> map_option ac_tid (tr_capture t) = Some tid)) \<and>
     (\<forall>c. tr_capture t = Some c \<longrightarrow> (\<exists>st. tr_states t (ac_tid c) = Some st \<and> st_active st \<and> \<not> st_fgraph_waiting st)) \<and>
     (tr_capture t \<noteq> None \<longrightarrow> tr_controller t \<noteq> None)"

text \<open>Threads are held only while a capture is active.\<close>

definition sched_inv :: "tracer \<Rightarrow> bool" where
  "sched_inv t \<longleftrightarrow> queue_inv (tr_waiting t) t \<and> cap_inv t \<and> (tr_capture t = None \<longrightarrow> tr_waiting t = [])"

definition held :: "tracer \<Rightarrow> pid_t \<Rightarrow> bool" where
  "held t tid \<longleftrightarrow> (\<exists>st. tr_states t tid = Some st \<and> st_active st \<and> st_fgraph_waiting st)"

definition same_tables :: "tracer \<Rightarrow> tracer \<Rightarrow> bool" where
  "same_tables t t' \<longleftrightarrow> tr_controller t' = tr_controller t \<and> tr_depth t' = tr_depth t \<and>
     tr_windows t' = tr_windows t \<and> tr_fd_paths t' = tr_fd_paths t \<and> tr_hidden t' = tr_hidden t \<and>
     tr_ranges t' = tr_ranges t \<and> tr_depth_fd t' = tr_depth_fd t \<and> tr_window_fd t' = tr_window_fd t"

lemma same_tables_refl [simp]: "same_tables t t"
  by (simp add: same_tables_def)

lemma same_tables_trans: "same_tables t t' \<Longrightarrow> same_tables t' t'' \<Longrightarrow> same_tables t t''"
  by (simp add: same_tables_def)

lemma same_tables_upd [simp]:
  "same_tables t (t'\<lparr>tr_history := h\<rparr>) = same_tables t t'"
  "same_tables t (t'\<lparr>tr_capture := c\<rparr>) = same_tables t t'"
  "same_tables t (t'\<lparr>tr_states := s\<rparr>) = same_tables t t'"
  "same_tables t (t'\<lparr>tr_waiting := q\<rparr>) = same_tables t t'"
  "same_tables t (emit e t') = same_tables t t'"
  by (simp_all add: same_tables_def emit_def)

text \<open>What the loop over the queue did: it looked at the first \<open>k\<close> threads of the queue and let
  those run that were held, in order; nothing else changed.\<close>

definition front :: "tracer \<Rightarrow> pid_t list \<Rightarrow> nat \<Rightarrow> effect list \<Rightarrow> tracer \<Rightarrow> bool" where
  "front t q k es t' \<longleftrightarrow> same_tables t t' \<and> tr_waiting t' = drop k q \<and> tr_history t' = tr_history t @ es \<and>
     resumes es = filter (held t) (take k q) \<and> writes es = [] \<and>
     (\<forall>tid. tid \<notin> set (resumes es) \<longrightarrow> tr_states t' tid = tr_states t tid) \<and>
     (\<forall>tid \<in> set (resumes es). \<exists>st c. tr_states t tid = Some st \<and>
        tr_states t' tid = Some (st\<lparr>st_fgraph_waiting := False, st_fgraph_capturing := c\<rparr>))"

lemma front_nil: "tr_capture t = None \<Longrightarrow> front t [] 0 [] (t\<lparr>tr_waiting := []\<rparr>)"
  by (simp add: front_def)

lemma front_skip: "front t q k es t' \<Longrightarrow> \<not> held t tid \<Longrightarrow> front t (tid # q) (Suc k) es t'"
  by (simp add: front_def)

text \<open>The first thread is resumed and the loop ends, or goes on.\<close>

lemma front_stop:
  assumes "held t tid" "tr_states t tid = Some st" "same_tables t t1" "quiet es"
    and "tr_history t1 = tr_history t @ es @ [Resume tid 0]"
    and "tr_states t1 = (tr_states t)(tid \<mapsto> st\<lparr>st_fgraph_waiting := False, st_fgraph_capturing := b\<rparr>)"
  shows "front t (tid # q) 1 (es @ [Resume tid 0]) (t1\<lparr>tr_waiting := q\<rparr>)"
  using assms by (auto simp: front_def quietD)

lemma front_more:
  assumes "held t tid" "tr_states t tid = Some st" "same_tables t t1" "quiet es"
    and "tr_history t1 = tr_history t @ es @ [Resume tid 0]"
    and t1: "tr_states t1 = (tr_states t)(tid \<mapsto> st\<lparr>st_fgraph_waiting := False, st_fgraph_capturing := b\<rparr>)"
    and "tid \<notin> set q" and f: "front t1 q k fs t'"
  shows "front t (tid # q) (Suc k) (es @ Resume tid 0 # fs) t'"
proof -
  have h: "filter (held t1) (take k q) = filter (held t) (take k q)"
    using assms(7) by (intro filter_cong) (auto simp: held_def t1 dest: in_set_takeD)
  have r: "resumes fs = filter (held t1) (take k q)" using f by (simp add: front_def)
  then have n: "tid \<notin> set (resumes fs)" using assms(7) by (auto dest: in_set_takeD)
  have out: "tr_states t' p = tr_states t p" if "p \<notin> set (tid # resumes fs)" for p
    using f that by (simp add: front_def t1)
  have "tr_states t' tid = tr_states t1 tid" using f n by (simp add: front_def)
  moreover have "\<exists>st c. tr_states t p = Some st \<and>
      tr_states t' p = Some (st\<lparr>st_fgraph_waiting := False, st_fgraph_capturing := c\<rparr>)" if "p \<in> set (resumes fs)" for p
  proof -
    have "p \<noteq> tid" using that n by blast
    then have "tr_states t1 p = tr_states t p" by (simp add: t1)
    moreover have "\<exists>st c. tr_states t1 p = Some st \<and>
        tr_states t' p = Some (st\<lparr>st_fgraph_waiting := False, st_fgraph_capturing := c\<rparr>)"
      using f that unfolding front_def by blast
    ultimately show ?thesis by simp
  qed
  ultimately have ins: "\<exists>st c. tr_states t p = Some st \<and>
      tr_states t' p = Some (st\<lparr>st_fgraph_waiting := False, st_fgraph_capturing := c\<rparr>)"
    if "p \<in> set (tid # resumes fs)" for p
    using that assms(2) by (auto simp: t1)
  have rs: "resumes (es @ Resume tid 0 # fs) = tid # resumes fs" "writes (es @ Resume tid 0 # fs) = []"
    using assms(4) f by (simp_all add: quietD front_def)
  have "same_tables t t'" using same_tables_trans [OF assms(3)] f by (simp add: front_def)
  moreover have "tr_waiting t' = drop (Suc k) (tid # q)" using f by (simp add: front_def)
  moreover have "tr_history t' = tr_history t @ es @ Resume tid 0 # fs" using f assms(5) by (simp add: front_def)
  moreover have "tid # resumes fs = filter (held t) (take (Suc k) (tid # q))" using r h assms(1) by simp
  ultimately show ?thesis using out ins unfolding front_def rs by blast
qed

lemma queue_inv_tl:
  assumes "queue_inv (tid # q) t" and "\<not> held t tid"
  shows "queue_inv q t"
  using assms by (auto simp: queue_inv_def held_def)

lemma resume_one_inv:
  assumes q: "queue_inv (tid # q) t" and c: "cap_inv t" and none: "tr_capture t = None"
    and st: "tr_states t tid = Some st"
    and t1: "tr_states t1 = (tr_states t)(tid \<mapsto> st\<lparr>st_fgraph_waiting := False, st_fgraph_capturing := b\<rparr>)"
    and "tr_controller t1 = tr_controller t" and "st_active st"
    and cap: "b \<and> tr_controller t \<noteq> None \<and> map_option ac_tid (tr_capture t1) = Some tid \<or>
      \<not> b \<and> tr_capture t1 = None"
  shows "queue_inv q t1 \<and> cap_inv t1"
proof
  show "queue_inv q t1" using q by (auto simp: queue_inv_def t1)
  have "\<not> st_fgraph_capturing s" if "tr_states t p = Some s" for p s
    using c none that by (auto simp: cap_inv_def)
  then show "cap_inv t1" using cap assms(6,7) by (auto simp: cap_inv_def t1)
qed

text \<open>One thread of the queue: it is skipped, or goes on with or without a capture of its own.\<close>

lemma resume_waiting_head:
  assumes "tr_capture t = None"
  obtains (skip) "\<not> held t tid" "resume_waiting i (tid # q) t = resume_waiting i q t"
  | (run) st b t0 t1 es where "held t tid" "tr_states t tid = Some st" "st_active st"
      "begin_for i tid (st\<lparr>st_fgraph_waiting := False\<rparr>) t = (b, t0) \<or> b = False \<and> t0 = t"
      "t1 = emit (Resume tid 0) (t0\<lparr>tr_states := (tr_states t0)(tid \<mapsto> st\<lparr>st_fgraph_waiting := False, st_fgraph_capturing := b\<rparr>)\<rparr>)"
      "resume_waiting i (tid # q) t =
         (if tr_capture t1 \<noteq> None then t1\<lparr>tr_waiting := q\<rparr> else resume_waiting i q t1)"
      "quiet es" "tr_history t0 = tr_history t @ es" "tr_states t0 = tr_states t" "same_tables t t0"
      "b \<and> tr_controller t \<noteq> None \<and> map_option ac_tid (tr_capture t0) = Some tid \<or> \<not> b \<and> tr_capture t0 = None"
proof (cases "held t tid")
  case False
  then have "resume_waiting i (tid # q) t = resume_waiting i q t"
    by (auto simp: held_def resume_waiting.simps split: option.split)
  with False show thesis by (rule skip)
next
  case True
  then obtain st where st: "tr_states t tid = Some st" "st_active st" "st_fgraph_waiting st"
    by (auto simp: held_def)
  let ?st = "st\<lparr>st_fgraph_waiting := False\<rparr>"
  obtain b t0 where b: "(if should_capture_fgraph tid ?st (tr_windows t) (tr_controller t) then begin_for i tid ?st t
      else (False, t)) = (b, t0)" by (rule prod.exhaust)
  have "\<exists>es. quiet es \<and> tr_history t0 = tr_history t @ es \<and> tr_states t0 = tr_states t \<and>
      same_tables t t0 \<and> (b \<and> tr_controller t \<noteq> None \<and> map_option ac_tid (tr_capture t0) = Some tid \<or>
        \<not> b \<and> tr_capture t0 = None)"
  proof (cases "should_capture_fgraph tid ?st (tr_windows t) (tr_controller t)")
    case should: True
    with b have "begin_for i tid ?st t = (b, t0)" by simp
    then show ?thesis by (cases rule: begin_for_cases) (use assms in auto)
  next
    case False
    with b assms show ?thesis by (intro exI [of _ "[]"]) auto
  qed
  then obtain es where es: "quiet es" "tr_history t0 = tr_history t @ es" "tr_states t0 = tr_states t"
    "same_tables t t0" "b \<and> tr_controller t \<noteq> None \<and> map_option ac_tid (tr_capture t0) = Some tid \<or> \<not> b \<and> tr_capture t0 = None"
    by blast
  define t1 where "t1 = emit (Resume tid 0) (t0\<lparr>tr_states := (tr_states t0)(tid \<mapsto> ?st\<lparr>st_fgraph_capturing := b\<rparr>)\<rparr>)"
  have "resume_waiting i (tid # q) t = (if tr_capture t1 \<noteq> None then t1\<lparr>tr_waiting := q\<rparr> else resume_waiting i q t1)"
    using st b by (simp add: t1_def Let_def resume_waiting.simps)
  moreover have "begin_for i tid ?st t = (b, t0) \<or> b = False \<and> t0 = t" using b by (auto split: if_splits)
  ultimately show thesis using run [of st b t0 t1 es] True st es t1_def by blast
qed

lemma resume_waiting_ok:
  assumes "queue_inv q t" and "cap_inv t" and "tr_capture t = None"
  shows "sched_inv (resume_waiting i q t) \<and> (\<exists>k es. front t q k es (resume_waiting i q t))"
  using assms
proof (induction q arbitrary: t)
  case Nil
  then have "sched_inv (resume_waiting i [] t)" by (simp add: resume_waiting.simps sched_inv_def queue_inv_def cap_inv_def)
  with front_nil [OF Nil(3)] show ?case by (auto simp: resume_waiting.simps)
next
  case (Cons tid q)
  from Cons.prems(3) show ?case
  proof (cases rule: resume_waiting_head [of t tid i q])
    case skip
    from Cons.IH [OF queue_inv_tl [OF Cons.prems(1) skip(1)] Cons.prems(2,3)] front_skip [OF _ skip(1)]
    show ?thesis unfolding skip(2) by blast
  next
    case (run st b t0 t1 es)
    have t1: "tr_states t1 = (tr_states t)(tid \<mapsto> st\<lparr>st_fgraph_waiting := False, st_fgraph_capturing := b\<rparr>)"
      "tr_history t1 = tr_history t @ es @ [Resume tid 0]" "same_tables t t1" "tr_capture t1 = tr_capture t0"
      using run by simp_all
    have inv: "queue_inv q t1 \<and> cap_inv t1"
      using t1(3) run(11,3) by (intro resume_one_inv [OF Cons.prems run(2) t1(1)]) (simp_all add: same_tables_def t1(4))
    have nq: "tid \<notin> set q" using Cons.prems(1) by (simp add: queue_inv_def)
    show ?thesis
    proof (cases "tr_capture t1")
      case None
      with run(6) have r': "resume_waiting i (tid # q) t = resume_waiting i q t1" by simp
      from Cons.IH [of t1] inv None front_more [OF run(1,2) t1(3) run(7) t1(2,1) nq]
      show ?thesis unfolding r' by blast
    next
      case (Some c)
      have "sched_inv (t1\<lparr>tr_waiting := q\<rparr>)"
        using inv Some by (simp add: sched_inv_def queue_inv_def cap_inv_def)
      moreover from Some run(6) have "resume_waiting i (tid # q) t = t1\<lparr>tr_waiting := q\<rparr>" by simp
      ultimately show ?thesis using front_stop [OF run(1,2) t1(3) run(7) t1(2,1)] by auto
    qed
  qed
qed

lemma maybe_resume_ok:
  assumes "queue_inv (tr_waiting t) t" and "cap_inv t"
  shows "sched_inv (maybe_resume_waiting_fgraph_tid i t)"
    and "\<exists>k es. front t (tr_waiting t) k es (maybe_resume_waiting_fgraph_tid i t)"
proof -
  have "front t (tr_waiting t) 0 [] t" by (simp add: front_def)
  with resume_waiting_ok [OF assms, of i] assms
  show "sched_inv (maybe_resume_waiting_fgraph_tid i t)"
    and "\<exists>k es. front t (tr_waiting t) k es (maybe_resume_waiting_fgraph_tid i t)"
    by (auto simp: maybe_resume_waiting_fgraph_tid_def sched_inv_def)
qed

text \<open>The rules depend on four fields only.\<close>

lemma sched_cong:
  assumes "tr_states t' = tr_states t" "tr_capture t' = tr_capture t" "tr_waiting t' = tr_waiting t"
    "tr_controller t' = tr_controller t"
  shows "sched_inv t' = sched_inv t" "queue_inv q t' = queue_inv q t" "cap_inv t' = cap_inv t" "held t' = held t"
  by (auto simp: sched_inv_def queue_inv_def cap_inv_def held_def assms fun_eq_iff)

lemma sched_emit [simp]: "sched_inv (emit e t) = sched_inv t" "queue_inv q (emit e t) = queue_inv q t"
  "cap_inv (emit e t) = cap_inv t" "held (emit e t) = held t"
  by (rule sched_cong; simp)+

lemma drain_pipes_simps [simp]:
  "tr_states (drain_pipes i t) = tr_states t" "tr_capture (drain_pipes i t) = tr_capture t"
  "tr_waiting (drain_pipes i t) = tr_waiting t" "tr_controller (drain_pipes i t) = tr_controller t"
  "tr_history (drain_pipes i t) = tr_history t" "tr_fd_paths (drain_pipes i t) = tr_fd_paths t"
  "tr_hidden (drain_pipes i t) = tr_hidden t" "tr_ranges (drain_pipes i t) = tr_ranges t"
  by (simp_all add: drain_pipes_def)

lemma sched_drain [simp]: "sched_inv (drain_pipes i t) = sched_inv t" "held (drain_pipes i t) = held t"
  by (rule sched_cong; simp)+

text \<open>A thread that is gone.\<close>

definition forget :: "stop_input \<Rightarrow> pid_t \<Rightarrow> tracer \<Rightarrow> tracer" where
  "forget i pid t =
     (if map_option ac_tid (tr_capture t) = Some pid then finish_active i t else t)
       \<lparr>tr_states := (tr_states t)(pid := None), tr_depth := (tr_depth t)(pid := None),
        tr_windows := (tr_windows t)(pid := None),
        tr_waiting := filter (\<lambda>queued. queued \<noteq> pid) (tr_waiting t)\<rparr>"

lemma thread_gone_forget:
  "thread_gone i pid t = maybe_resume_waiting_fgraph_tid i (emit (CloseTid pid) (forget i pid t))"
proof -
  obtain es where "finish_active i t = t\<lparr>tr_capture := None, tr_history := tr_history t @ es\<rparr>"
    using finish_active_result by blast
  then show ?thesis by (simp add: thread_gone_def forget_def Let_def)
qed

lemma forget_fields:
  "\<exists>es. quiet es \<and> tr_history (forget i pid t) = tr_history t @ es"
  "tr_states (forget i pid t) = (tr_states t)(pid := None)"
  "tr_waiting (forget i pid t) = filter (\<lambda>queued. queued \<noteq> pid) (tr_waiting t)"
  "tr_capture (forget i pid t) = (if map_option ac_tid (tr_capture t) = Some pid then None else tr_capture t)"
  "tr_controller (forget i pid t) = tr_controller t"
proof -
  obtain es where "finish_active i t = t\<lparr>tr_capture := None, tr_history := tr_history t @ es\<rparr>" "quiet es"
    using finish_active_result by blast
  then show "\<exists>es. quiet es \<and> tr_history (forget i pid t) = tr_history t @ es"
    "tr_states (forget i pid t) = (tr_states t)(pid := None)"
    "tr_waiting (forget i pid t) = filter (\<lambda>queued. queued \<noteq> pid) (tr_waiting t)"
    "tr_capture (forget i pid t) = (if map_option ac_tid (tr_capture t) = Some pid then None else tr_capture t)"
    "tr_controller (forget i pid t) = tr_controller t"
    by (auto simp: forget_def intro: exI [of _ "[]"])
qed

lemma forget_inv:
  assumes "sched_inv t"
  shows "queue_inv (tr_waiting (forget i pid t)) (forget i pid t)" "cap_inv (forget i pid t)"
  using assms
  by (auto simp: sched_inv_def queue_inv_def cap_inv_def forget_fields split: if_splits)

lemma thread_gone_inv: "sched_inv t \<Longrightarrow> sched_inv (thread_gone i pid t)"
  unfolding thread_gone_forget by (rule maybe_resume_ok) (simp_all add: forget_inv)

text \<open>The entry of a system call.\<close>

lemma entry_flags [simp]:
  "st_active (entry_state i pid regs t)" "\<not> st_fgraph_waiting (entry_state i pid regs t)"
  "\<not> st_fgraph_capturing (entry_state i pid regs t)"
  by (simp_all add: entry_state_def Let_def)

lemma syscall_entry_cases:
  assumes "syscall_entry i pid regs t = (hold, t')"
  obtains (captured) c es where "\<not> hold" "tr_capture t = None" "tr_controller t \<noteq> None" "ac_tid c = pid" "quiet es"
      "t' = t\<lparr>tr_states := (tr_states t)(pid \<mapsto> (entry_state i pid regs t)\<lparr>st_fgraph_capturing := True\<rparr>),
        tr_capture := Some c, tr_history := tr_history t @ es\<rparr>"
  | (plain) es where "\<not> hold" "quiet es"
      "t' = t\<lparr>tr_states := (tr_states t)(pid \<mapsto> entry_state i pid regs t), tr_history := tr_history t @ es\<rparr>"
  | (hold) "hold" "tr_capture t \<noteq> None"
      "t' = t\<lparr>tr_states := (tr_states t)(pid \<mapsto> (entry_state i pid regs t)\<lparr>st_fgraph_waiting := True\<rparr>),
        tr_waiting := (if pid \<in> set (tr_waiting t) then tr_waiting t else tr_waiting t @ [pid])\<rparr>"
proof -
  let ?st = "entry_state i pid regs t"
  have flag: "?st\<lparr>st_fgraph_capturing := False\<rparr> = ?st" by (simp add: entry_state_def Let_def)
  consider (no) "\<not> should_capture_fgraph pid ?st (tr_windows t) (tr_controller t)"
    | (yes) "should_capture_fgraph pid ?st (tr_windows t) (tr_controller t)" "tr_capture t = None"
    | (wait) "should_capture_fgraph pid ?st (tr_windows t) (tr_controller t)" "tr_capture t \<noteq> None"
    by blast
  then show thesis
  proof cases
    case no
    with assms show ?thesis by (intro plain [of "[]"]) (auto simp: syscall_entry_def Let_def)
  next
    case wait
    with assms show ?thesis by (intro hold) (auto simp: syscall_entry_def Let_def)
  next
    case yes
    obtain b t1 where b: "begin_for i pid ?st t = (b, t1)" by (cases "begin_for i pid ?st t")
    with assms yes have r: "\<not> hold" "t' = t1\<lparr>tr_states := (tr_states t1)(pid \<mapsto> ?st\<lparr>st_fgraph_capturing := b\<rparr>)\<rparr>"
      by (auto simp: syscall_entry_def Let_def)
    from b show ?thesis
    proof (cases rule: begin_for_cases)
      case (1 c)
      with r yes show ?thesis by (auto intro: captured [of c])
    next
      case 2
      with r yes flag show ?thesis by (auto intro: plain)
    qed
  qed
qed

lemma entry_inv:
  assumes "sched_inv t" and "syscall_entry i pid regs t = (hold, t')"
    and "\<not> st_active (map_default d (tr_states t) pid)" and "\<not> st_fgraph_capturing d"
  shows "sched_inv t'"
proof -
  have n: "map_option ac_tid (tr_capture t) \<noteq> Some pid"
    using assms(1,3,4) by (cases "tr_states t pid") (auto simp: sched_inv_def cap_inv_def)
  from assms(2) show ?thesis
  proof (cases rule: syscall_entry_cases)
    case (captured c es)
    with assms(1) show ?thesis by (auto simp: sched_inv_def queue_inv_def cap_inv_def)
  next
    case (plain es)
    with assms(1) n show ?thesis by (auto simp: sched_inv_def queue_inv_def cap_inv_def)
  next
    case hold
    with assms(1) n show ?thesis by (auto simp: sched_inv_def queue_inv_def cap_inv_def)
  qed
qed

text \<open>The exit of a system call: the state after it, and the line it may print.\<close>

definition exit_state :: "SyscallState \<Rightarrow> SyscallState" where
  "exit_state st =
     st\<lparr>st_active := False, st_internal := False, st_path_hint := None, st_started_ts_us := 0,
        st_fgraph_waiting := False, st_fgraph_capturing := False\<rparr>"

definition exit_line :: "stop_input \<Rightarrow> pid_t \<Rightarrow> UserRegsStruct \<Rightarrow> SyscallState \<Rightarrow> tracer \<Rightarrow> string" where
  "exit_line i pid regs st t =
     format_syscall_line (si_env i) pid (st\<lparr>st_fgraph_capturing := False\<rparr>) (u64_as_i64 (r_rax regs))
       (si_now i - st_started_at st) (tr_fd_paths t) (tr_hidden t) (unwrap_or 0 (tr_depth t pid))"

definition printed :: "stop_input \<Rightarrow> pid_t \<Rightarrow> UserRegsStruct \<Rightarrow> SyscallState \<Rightarrow> tracer \<Rightarrow> effect list" where
  "printed i pid regs st t =
     (if st_internal st \<or> exit_line i pid regs st t = [] then [] else [WriteLine pid (exit_line i pid regs st t)])"

lemma syscall_exit_eq:
  "syscall_exit i pid regs st t =
     (st_fgraph_capturing st,
      t\<lparr>tr_history := tr_history t @ printed i pid regs st t,
        tr_hidden := update_hidden_fds (env_cfg (si_env i)) (st\<lparr>st_fgraph_capturing := False\<rparr>)
          (normalize_ret (u64_as_i64 (r_rax regs))) (tr_hidden t),
        tr_fd_paths := update_fd_paths (st\<lparr>st_fgraph_capturing := False\<rparr>)
          (normalize_ret (u64_as_i64 (r_rax regs))) (tr_fd_paths t),
        tr_states := (tr_states t)(pid \<mapsto> exit_state st)\<rparr>)"
proof -
  have f: "(if st_fgraph_capturing st then st\<lparr>st_fgraph_capturing := False\<rparr> else st) = st\<lparr>st_fgraph_capturing := False\<rparr>"
    by (cases st) simp
  have s: "(st\<lparr>st_fgraph_capturing := False\<rparr>)\<lparr>st_active := False, st_internal := False, st_path_hint := None,
      st_started_ts_us := 0, st_fgraph_waiting := False\<rparr> = exit_state st"
    by (cases st) (simp add: exit_state_def)
  show ?thesis
    by (simp only: syscall_exit_def Let_def f s) (simp add: printed_def exit_line_def emit_def)
qed

lemma printed_effects [simp]:
  "resumes (printed i pid regs st t) = []"
  "writes (printed i pid regs st t) =
     (if st_internal st \<or> exit_line i pid regs st t = [] then [] else [(pid, exit_line i pid regs st t)])"
  by (simp_all add: printed_def)

lemma exit_flags [simp]:
  "\<not> st_active (exit_state st)" "\<not> st_fgraph_waiting (exit_state st)" "\<not> st_fgraph_capturing (exit_state st)"
  by (simp_all add: exit_state_def)

lemma exit_inv:
  assumes inv: "sched_inv t" and st: "tr_states t pid = Some st" "st_active st"
    and e: "syscall_exit i pid regs st t = (finished, t1)"
  shows "\<not> finished \<Longrightarrow> sched_inv t1"
    and "finished \<Longrightarrow> queue_inv (tr_waiting (finish_active i t1)) (finish_active i t1) \<and> cap_inv (finish_active i t1)"
proof -
  have t1: "tr_states t1 = (tr_states t)(pid \<mapsto> exit_state st)" "tr_capture t1 = tr_capture t"
    "tr_waiting t1 = tr_waiting t" "tr_controller t1 = tr_controller t" "finished = st_fgraph_capturing st"
    using e by (auto simp: syscall_exit_eq)
  have c: "st_fgraph_capturing st \<longleftrightarrow> map_option ac_tid (tr_capture t) = Some pid"
    using inv st(1) by (simp add: sched_inv_def cap_inv_def)
  show "sched_inv t1" if "\<not> finished"
    using inv c that st by (auto simp: sched_inv_def queue_inv_def cap_inv_def t1)
  show "queue_inv (tr_waiting (finish_active i t1)) (finish_active i t1) \<and> cap_inv (finish_active i t1)" if "finished"
  proof -
    obtain es where f: "finish_active i t1 = t1\<lparr>tr_capture := None, tr_history := tr_history t1 @ es\<rparr>"
      using finish_active_result by blast
    show ?thesis using inv c that by (auto simp: sched_inv_def queue_inv_def cap_inv_def f t1)
  qed
qed

lemma default_inactive [simp]: "\<not> st_active (SyscallState_default n)" "\<not> st_fgraph_capturing (SyscallState_default n)"
  by (simp_all add: SyscallState_default_def)

text \<open>Every case of a stop at a system call.\<close>

lemma syscall_stop_cases:
  obtains (unread) "si_regs i = None" "syscall_stop i pid t = emit (Resume pid 0) t"
  | (entry) regs hold t1 where "si_regs i = Some regs"
      "\<not> st_active (map_default (SyscallState_default (si_now i)) (tr_states t) pid)"
      "syscall_entry i pid regs t = (hold, t1)"
      "syscall_stop i pid t = (if hold then t1 else emit (Resume pid 0) t1)"
  | (exit) regs st finished t1 where "si_regs i = Some regs" "tr_states t pid = Some st" "st_active st"
      "syscall_exit i pid regs st t = (finished, t1)"
      "syscall_stop i pid t = emit (Resume pid 0)
         (if finished then maybe_resume_waiting_fgraph_tid i (finish_active i t1) else t1)"
proof (cases "si_regs i")
  case None
  then show thesis by (intro unread) (simp_all add: syscall_stop_def)
next
  case (Some regs)
  let ?st = "map_default (SyscallState_default (si_now i)) (tr_states t) pid"
  show thesis
  proof (cases "st_active ?st")
    case False
    then show thesis using Some
      by (cases "syscall_entry i pid regs t") (intro entry, auto simp: syscall_stop_def Let_def)
  next
    case True
    then obtain st where st: "tr_states t pid = Some st" by (cases "tr_states t pid") simp_all
    with True Some show thesis
      by (cases "syscall_exit i pid regs st t") (intro exit, auto simp: syscall_stop_def Let_def)
  qed
qed

lemma syscall_stop_inv: "sched_inv t \<Longrightarrow> sched_inv (syscall_stop i pid t)"
proof (cases rule: syscall_stop_cases [of i pid t])
  case (entry regs hold t1)
  moreover assume "sched_inv t"
  ultimately show ?thesis using entry_inv [of t i pid regs hold t1] by simp
next
  case (exit regs st finished t1)
  moreover assume "sched_inv t"
  ultimately show ?thesis
    using exit_inv [of t pid st i regs finished t1] maybe_resume_ok(1) [of "finish_active i t1" i]
    by (cases finished) simp_all
qed simp

lemma signal_stop_inv: "sched_inv t \<Longrightarrow> sched_inv (signal_stop i pid status t)"
proof -
  have "sched_inv (t\<lparr>tr_ranges := r\<rparr>) = sched_inv t" for r by (rule sched_cong) simp_all
  then show "sched_inv t \<Longrightarrow> sched_inv (signal_stop i pid status t)"
    by (simp add: signal_stop_def Let_def split: option.split)
qed

lemma handle_status_inv: "sched_inv t \<Longrightarrow> sched_inv (handle_status i pid status t)"
  by (simp add: handle_status_def Let_def thread_gone_inv syscall_stop_inv signal_stop_inv)

lemma loop_step_inv: "sched_inv t \<Longrightarrow> sched_inv (snd (loop_step w i t))"
  by (cases w) (simp_all add: loop_step_def handle_status_inv)

text \<open>The states the tracer can get into.\<close>

inductive reaches :: "tracer \<Rightarrow> tracer \<Rightarrow> bool" where
  start: "reaches t t"
| go: "reaches t t' \<Longrightarrow> loop_step w i t' = (continue, t'') \<Longrightarrow> reaches t t''"

lemma reaches_inv: "reaches t t' \<Longrightarrow> sched_inv t \<Longrightarrow> sched_inv t'"
proof (induction rule: reaches.induct)
  case (go t t' w i continue t'')
  then show ?case using loop_step_inv [of t' w i] by simp
qed simp

lemma loop_reaches: "reaches s t \<Longrightarrow> reaches s (ptrace_loop answers t)"
proof (induction answers arbitrary: t)
  case (Cons a answers)
  obtain continue t' where l: "loop_step (fst a) (snd a) t = (continue, t')" by fastforce
  with Cons have "reaches s t'" by (auto intro: reaches.go)
  with Cons.IH [of t'] l show ?case by (cases a) auto
qed simp

end
