(* ===== verification/Ptrace_Boot.thy ===== *)
theory Ptrace_Boot
  imports Ptrace_Loop
begin

text \<open>
  How the tracer starts and ends, in \<open>src/hook/ptrace.rs\<close>: the once-only decision of
  \<open>ensure_started\<close>, the parent's and the child's side of \<open>spawn_ptrace_tracer\<close> with the
  readiness handshake, the set-up of \<open>run_ptrace_loop\<close> that leads to the first state of the
  tracer, and what it does after its loop. The results of the system calls are inputs.
\<close>

subsection \<open>Set-up of the tracer\<close>

text \<open>\<open>None\<close> while it waits for an answer that does not come.\<close>

fun wait_for_stop :: "wait_answer list \<Rightarrow> bool option" where
  "wait_for_stop [] = None"
| "wait_for_stop (WaitFailed err # answers) = (if err = EINTR then wait_for_stop answers else Some False)"
| "wait_for_stop (Waited waited status # answers) =
     (if wifstopped status then Some True
      else if wifexited status \<or> wifsignaled status then Some False
      else wait_for_stop answers)"

record start_input =
  su_attached :: bool
  su_waits :: "wait_answer list"
  su_options :: bool
  su_resumed :: bool
  su_cfg :: Config
  su_fs :: fs_env
  su_fds :: "(string \<times> string option) list option"
  su_maps :: "string option"

text \<open>The first state of the tracer: empty tables, its own pipes hidden.\<close>

definition first_tracer ::
    "start_input \<Rightarrow> rfd \<Rightarrow> rfd \<Rightarrow> rfd \<Rightarrow> rfd \<Rightarrow> rfd \<Rightarrow> string option \<Rightarrow> effect list \<Rightarrow> tracer" where
  "first_tracer s bootstrap_hidden_fd depth_read_fd depth_hidden_fd window_read_fd window_hidden_fd
     controller h =
     (let hidden = (if 0 \<le> bootstrap_hidden_fd then {bootstrap_hidden_fd} else {});
          hidden = (if 0 \<le> depth_hidden_fd then insert depth_hidden_fd hidden else hidden);
          hidden = (if 0 \<le> window_hidden_fd then insert window_hidden_fd hidden else hidden);
          (fd_paths, hidden) = seed_fd_state_from_proc (su_cfg s) (su_fds s) (\<lambda>_. None, hidden)
      in \<lparr>tr_controller = controller, tr_depth_fd = depth_read_fd, tr_window_fd = window_read_fd,
          tr_states = (\<lambda>_. None), tr_depth = (\<lambda>_. None), tr_windows = (\<lambda>_. None), tr_capture = None,
          tr_waiting = [], tr_fd_paths = fd_paths, tr_hidden = hidden,
          tr_ranges = load_cudatrace_ranges (su_maps s), tr_history = h\<rparr>)"

text \<open>\<open>Inl\<close>: the child answers \<open>0\<close> and gives up. \<open>Inr\<close>: it answers \<open>1\<close> and enters its loop.\<close>

definition tracer_setup ::
    "start_input \<Rightarrow> pid_t \<Rightarrow> rfd \<Rightarrow> rfd \<Rightarrow> rfd \<Rightarrow> rfd \<Rightarrow> rfd \<Rightarrow> (effect list + tracer) option" where
  "tracer_setup s target bootstrap_hidden_fd depth_read_fd depth_hidden_fd window_read_fd window_hidden_fd =
     (if \<not> su_attached s then Some (Inl [])
      else Option.bind (wait_for_stop (su_waits s)) (\<lambda>stopped.
        if \<not> stopped then Some (Inl [])
        else if \<not> su_options s then Some (Inl [])
        else if \<not> su_resumed s then Some (Inl [SetOptions target])
        else
          let h = [SetOptions target, Resume target 0];
              first = first_tracer s bootstrap_hidden_fd depth_read_fd depth_hidden_fd window_read_fd window_hidden_fd
          in if fgraph_enabled (su_cfg s) then
               (case init_or_fail (su_fs s) (su_cfg s) h of
                  (Inl err, h) \<Rightarrow> Some (Inl h)
                | (Inr root, h) \<Rightarrow> Some (Inr (first (Some root) h)))
             else Some (Inr (first None h))))"

text \<open>The byte of the handshake.\<close>

definition signal_ready :: "bool \<Rightarrow> string" where
  "signal_ready ok = (if ok then ''1'' else ''0'')"

text \<open>After the loop: a capture that is still active is finished, tracefs is reset, and once more when
  the controller is dropped. Closing the two pipes is left out.\<close>

definition loop_end :: "stop_input \<Rightarrow> tracer \<Rightarrow> effect list" where
  "loop_end i t =
     (let t = (if tr_capture t \<noteq> None then finish_active i t else t)
      in case tr_controller t of
           None \<Rightarrow> tr_history t
         | Some root \<Rightarrow>
             TraceFsController_drop (si_fs i) root (snd (reset_state (si_fs i) root (tr_history t))))"

text \<open>The whole run: the readiness byte and everything done, for a loop whose last answer, after the
  given ones, is that no thread is left.\<close>

definition run_ptrace_loop ::
    "start_input \<Rightarrow> pid_t \<Rightarrow> rfd \<Rightarrow> rfd \<Rightarrow> rfd \<Rightarrow> rfd \<Rightarrow> rfd \<Rightarrow> (wait_answer \<times> stop_input) list \<Rightarrow> stop_input \<Rightarrow>
     (string \<times> effect list) option" where
  "run_ptrace_loop s target bootstrap_hidden_fd depth_read_fd depth_hidden_fd window_read_fd window_hidden_fd
     answers i =
     (case tracer_setup s target bootstrap_hidden_fd depth_read_fd depth_hidden_fd window_read_fd window_hidden_fd of
        None \<Rightarrow> None
      | Some (Inl h) \<Rightarrow> Some (signal_ready False, h)
      | Some (Inr t) \<Rightarrow> Some (signal_ready True, loop_end i (ptrace_loop answers t)))"

subsection \<open>Spawning the tracer\<close>

datatype spawn_effect =
    SpPrctl
  | SpPipe rfd rfd
  | SpFork
  | SpClose rfd
  | SpNonblock rfd
  | SpRead rfd
  | SpFatal string

text \<open>The answers of \<open>pipe\<close> (read and write end), \<open>fork\<close> and \<open>read\<close>.\<close>

record spawn_input =
  sp_pipe :: "(rfd \<times> rfd) option"
  sp_depth_pipe :: "(rfd \<times> rfd) option"
  sp_window_pipe :: "(rfd \<times> rfd) option"
  sp_fork :: pid_t
  sp_ready :: "int \<times> string"

definition fatal_exit :: "string \<Rightarrow> spawn_effect" where
  "fatal_exit msg = SpFatal (''[cudatrace-fgraph] '' @ msg @ [newline])"

text \<open>The parent's side: what it does, and the descriptors it leaves in \<open>DEPTH_PIPE_WR_FD\<close> and
  \<open>FGRAPH_WINDOW_PIPE_WR_FD\<close>, which hold \<open>-1\<close> before.\<close>

definition spawn_ptrace_tracer :: "Config \<Rightarrow> spawn_input \<Rightarrow> spawn_effect list \<times> rfd \<times> rfd" where
  "spawn_ptrace_tracer cfg s =
     (case sp_pipe s of
        None \<Rightarrow> ([SpPrctl], -1, -1)
      | Some (r, w) \<Rightarrow>
     (case sp_depth_pipe s of
        None \<Rightarrow> ([SpPrctl, SpPipe r w, SpClose r, SpClose w], -1, -1)
      | Some (dr, dw) \<Rightarrow>
     (case sp_window_pipe s of
        None \<Rightarrow>
          ([SpPrctl, SpPipe r w, SpPipe dr dw, SpClose r, SpClose w, SpClose dr, SpClose dw], -1, -1)
      | Some (wr, ww) \<Rightarrow>
          (let start = [SpPrctl, SpPipe r w, SpPipe dr dw, SpPipe wr ww] in
           if sp_fork s < 0 then
             (start @ [SpClose r, SpClose w, SpClose dr, SpClose dw, SpClose wr, SpClose ww], -1, -1)
           else
             let start = start @ [SpFork, SpClose w, SpClose dr, SpClose wr, SpNonblock dw, SpNonblock ww,
                                  SpRead r];
                 (n, ready) = sp_ready s
             in if n = 1 \<and> ready = ''1'' then (start @ [SpClose r], dw, ww)
                else
                  (let start = start @ (if 0 \<le> dw then [SpClose dw] else []) @
                                 (if 0 \<le> ww then [SpClose ww] else [])
                   in if fgraph_enabled cfg then
                        (start @ [fatal_exit ''function_graph tracing requested but ptrace tracer failed to initialize''],
                         -1, -1)
                      else (start @ [SpClose r], -1, -1))))))"

text \<open>The child's side up to its loop.\<close>

definition spawn_child :: "rfd \<times> rfd \<Rightarrow> rfd \<times> rfd \<Rightarrow> rfd \<times> rfd \<Rightarrow> spawn_effect list" where
  "spawn_child fds depth_fds window_fds = [SpClose (fst fds), SpClose (snd depth_fds), SpClose (snd window_fds)]"

text \<open>The body of \<open>ensure_started\<close>, which \<open>START.call_once\<close> runs at most once per process. The history
  of effects is that of the preflight.\<close>

definition start_once ::
    "Config \<Rightarrow> fs_env \<Rightarrow> spawn_input \<Rightarrow> effect list \<Rightarrow> (spawn_effect list \<times> rfd \<times> rfd) \<times> effect list" where
  "start_once cfg fs s h =
     (if fgraph_enabled cfg \<and> \<not> mask_syscall (cfg_trace cfg) then
        (([fatal_exit ''LIB_CUDATRACE_FGRAPH_FUNCS requires syscall tracing; include `syscall` in LIB_CUDATRACE_TRACE''],
          -1, -1), h)
      else
        let (checked, h) = (if fgraph_enabled cfg then preflight fs cfg h else (Inr (), h))
        in case checked of
             Inl err \<Rightarrow>
               (([fatal_exit (''LIB_CUDATRACE_FGRAPH_FUNCS is set but tracefs function_graph is unavailable: '' @ err)],
                 -1, -1), h)
           | Inr _ \<Rightarrow>
               (if \<not> mask_syscall (cfg_trace cfg) then ([], -1, -1) else spawn_ptrace_tracer cfg s, h))"

subsection \<open>What starting guarantees\<close>

text \<open>The descriptors a process has open, and that it closes only open ones.\<close>

fun fd_step :: "spawn_effect \<Rightarrow> rfd list \<Rightarrow> rfd list" where
  "fd_step (SpPipe r w) open_fds = open_fds @ [r, w]"
| "fd_step (SpClose fd) open_fds = removeAll fd open_fds"
| "fd_step _ open_fds = open_fds"

fun closes_open :: "spawn_effect list \<Rightarrow> rfd list \<Rightarrow> bool" where
  "closes_open [] open_fds \<longleftrightarrow> True"
| "closes_open (e # es) open_fds \<longleftrightarrow>
     (case e of SpClose fd \<Rightarrow> fd \<in> set open_fds | _ \<Rightarrow> True) \<and> closes_open es (fd_step e open_fds)"

text \<open>The ends of the pipes that were made.\<close>

definition pipe_ends :: "spawn_input \<Rightarrow> rfd list" where
  "pipe_ends s =
     concat (map (\<lambda>p. case p of None \<Rightarrow> [] | Some (r, w) \<Rightarrow> [r, w]) [sp_pipe s, sp_depth_pipe s, sp_window_pipe s])"

text \<open>C8. Starting the tracer leaks no descriptor and closes none twice, on whatever system call it fails:
  afterwards the process has open exactly the two it publishes (none unless the tracer is ready),
  or it ends. The child keeps the other end of each pipe.\<close>

theorem spawn_leaks_nothing:
  assumes "distinct (pipe_ends s)" and "\<forall>fd \<in> set (pipe_ends s). 0 \<le> fd"
  shows "case spawn_ptrace_tracer cfg s of (es, dw, ww) \<Rightarrow>
    closes_open es [] \<and>
    ((\<exists>msg. SpFatal msg \<in> set es) \<or> fold fd_step es [] = filter (\<lambda>fd. 0 \<le> fd) [dw, ww]) \<and>
    (\<forall>r w dr dr' wr wr'. sp_pipe s = Some (r, w) \<longrightarrow> sp_depth_pipe s = Some (dr, dr') \<longrightarrow>
       sp_window_pipe s = Some (wr, wr') \<longrightarrow>
       fold fd_step (spawn_child (r, w) (dr, dr') (wr, wr')) [r, w, dr, dr', wr, wr'] = [w, dr, wr])"
proof (cases "sp_pipe s")
  case None
  then show ?thesis by (simp add: spawn_ptrace_tracer_def)
next
  case p: (Some a)
  show ?thesis
  proof (cases "sp_depth_pipe s")
    case None
    with assms p show ?thesis by (auto simp: spawn_ptrace_tracer_def pipe_ends_def split_beta)
  next
    case d: (Some b)
    show ?thesis
    proof (cases "sp_window_pipe s")
      case None
      obtain r0 w0 where "a = (r0, w0)" by (cases a)
      moreover obtain r1 w1 where "b = (r1, w1)" by (cases b)
      ultimately have e: "sp_pipe s = Some (r0, w0)" "sp_depth_pipe s = Some (r1, w1)" "sp_window_pipe s = None"
        "distinct [r0, w0, r1, w1]"
        using assms p d None by (simp_all add: pipe_ends_def)
      have sp: "spawn_ptrace_tracer cfg s =
          ([SpPrctl, SpPipe r0 w0, SpPipe r1 w1, SpClose r0, SpClose w0, SpClose r1, SpClose w1], -1, -1)"
        by (simp add: spawn_ptrace_tracer_def e(1-3))
      show ?thesis using e(4) by (auto simp: sp e(1-3))
    next
      case w: (Some c)
      obtain r0 w0 where "a = (r0, w0)" by (cases a)
      moreover obtain r1 w1 where "b = (r1, w1)" by (cases b)
      moreover obtain r2 w2 where "c = (r2, w2)" by (cases c)
      ultimately have e: "sp_pipe s = Some (r0, w0)" "sp_depth_pipe s = Some (r1, w1)"
        "sp_window_pipe s = Some (r2, w2)" "distinct [r0, w0, r1, w1, r2, w2]"
        "0 \<le> r0" "0 \<le> w0" "0 \<le> r1" "0 \<le> w1" "0 \<le> r2" "0 \<le> w2"
        using assms p d w by (simp_all add: pipe_ends_def)
      have ne:
        "r0 \<noteq> w0" "r0 \<noteq> r1" "r0 \<noteq> w1" "r0 \<noteq> r2" "r0 \<noteq> w2" "w0
        \<noteq> r1" "w0 \<noteq> w1" "w0 \<noteq> r2" "w0 \<noteq> w2" "r1 \<noteq> w1" "r1
        \<noteq> r2" "r1 \<noteq> w2" "w1 \<noteq> r2" "w1 \<noteq> w2" "r2 \<noteq> w2"
        using e(4) by simp_all
      have child: "fold fd_step (spawn_child (r0, w0) (r1, w1) (r2, w2)) [r0, w0, r1, w1, r2, w2] = [w0, r1, r2]"
        by (simp add: spawn_child_def ne ne [symmetric])
      consider "sp_fork s < 0" | "0 \<le> sp_fork s" "sp_ready s = (1, ''1'')" | "0 \<le> sp_fork s" "sp_ready s \<noteq> (1, ''1'')"
        by linarith
      then show ?thesis
      proof cases
        case 1
        with e(1-3) child show ?thesis by (simp add: spawn_ptrace_tracer_def Let_def ne ne [symmetric])
      next
        case 2
        with e(1-3,5-) child show ?thesis by (simp add: spawn_ptrace_tracer_def Let_def ne ne [symmetric])
      next
        case 3
        then obtain n ready where "sp_ready s = (n, ready)" "\<not> (n = 1 \<and> ready = ''1'')" by (cases "sp_ready s") auto
        with 3 e(1-3,5-) child show ?thesis
          by (cases "fgraph_enabled cfg") (simp_all add: spawn_ptrace_tracer_def fatal_exit_def Let_def ne ne [symmetric])
      qed
    qed
  qed
qed

definition forked :: spawn_input where
  "forked = \<lparr>sp_pipe = Some (3, 4), sp_depth_pipe = Some (5, 6), sp_window_pipe = Some (7, 8), sp_fork = 99,
     sp_ready = (1, ''1'')\<rparr>"

theorem spawn_leaks_nothing_witness:
  "case spawn_ptrace_tracer (from_lookup (\<lambda>_. None)) forked of (es, dw, ww) \<Rightarrow>
     closes_open es [] \<and> ((\<exists>msg. SpFatal msg \<in> set es) \<or> fold fd_step es [] = filter (\<lambda>fd. 0 \<le> fd) [dw, ww])"
  using spawn_leaks_nothing [of forked "from_lookup (\<lambda>_. None)"]
  by (auto simp: forked_def pipe_ends_def split: prod.splits)

text \<open>C9. The process ends with a message exactly when functions were selected for graph tracing and system
  calls are not traced, or tracefs cannot be used, or the child was started but did not get ready.
  If the tracer cannot even be started, for want of descriptors or processes, the process runs on
  untraced, although functions were selected.\<close>

theorem start_fails_loudly:
  "case start_once cfg fs s h of ((es, dw, ww), h') \<Rightarrow>
    ((\<exists>msg. SpFatal msg \<in> set es) \<longleftrightarrow>
       fgraph_enabled cfg \<and>
       (\<not> mask_syscall (cfg_trace cfg) \<or> (\<exists>err. fst (preflight fs cfg h) = Inl err) \<or>
        sp_pipe s \<noteq> None \<and> sp_depth_pipe s \<noteq> None \<and> sp_window_pipe s \<noteq> None \<and> 0 \<le> sp_fork s \<and>
        sp_ready s \<noteq> (1, ''1''))) \<and>
    (SpFork \<in> set es \<longleftrightarrow>
       mask_syscall (cfg_trace cfg) \<and> (fgraph_enabled cfg \<longrightarrow> (\<exists>u. fst (preflight fs cfg h) = Inr u)) \<and>
       sp_pipe s \<noteq> None \<and> sp_depth_pipe s \<noteq> None \<and> sp_window_pipe s \<noteq> None \<and> 0 \<le> sp_fork s)"
  by (cases "preflight fs cfg h"; cases "fst (preflight fs cfg h)"; cases "sp_pipe s"; cases "sp_depth_pipe s";
      cases "sp_window_pipe s")
    (auto simp: start_once_def spawn_ptrace_tracer_def fatal_exit_def Let_def split: prod.split)

definition kernel_only :: Config where
  "kernel_only = (from_lookup (\<lambda>_. None))
     \<lparr>cfg_fgraph_funcs := {''ksys_ioctl''}, cfg_trace := TraceMask_all\<lparr>mask_syscall := False\<rparr>\<rparr>"

theorem start_fails_loudly_witness:
  "case start_once kernel_only willing forked [] of ((es, dw, ww), h') \<Rightarrow>
     (\<exists>msg. SpFatal msg \<in> set es) \<and> SpFork \<notin> set es"
proof -
  have "fgraph_enabled kernel_only" "\<not> mask_syscall (cfg_trace kernel_only)"
    by (simp_all add: kernel_only_def fgraph_enabled_def)
  with start_fails_loudly [where cfg = kernel_only and fs = willing and s = forked and h = "[]"] show ?thesis
    by (auto split: prod.splits)
qed

end
