(* ===== verification/Ptrace_Sched.thy ===== *)
theory Ptrace_Sched
  imports Ptrace_Boot
begin

text \<open>
  What the tracer guarantees, from its first state on and for every sequence of events: who is
  captured and who is held, that no stopped thread is forgotten, the order in which held threads
  go on, that the kernel traces exactly the captured thread, and that a system call is printed once.
\<close>

subsection \<open>The first state\<close>

lemma first_tracer_fields:
  "tr_capture (first_tracer s b d1 d2 w1 w2 c h) = None" "tr_waiting (first_tracer s b d1 d2 w1 w2 c h) = []"
  "tr_states (first_tracer s b d1 d2 w1 w2 c h) = (\<lambda>_. None)" "tr_controller (first_tracer s b d1 d2 w1 w2 c h) = c"
  "tr_history (first_tracer s b d1 d2 w1 w2 c h) = h" "tr_windows (first_tracer s b d1 d2 w1 w2 c h) = (\<lambda>_. None)"
  "tr_window_fd (first_tracer s b d1 d2 w1 w2 c h) = w1"
  "tr_ranges (first_tracer s b d1 d2 w1 w2 c h) = load_cudatrace_ranges (su_maps s)"
  by (simp_all add: first_tracer_def Let_def split_beta)

lemma first_tracer_inv: "sched_inv (first_tracer s b d1 d2 w1 w2 c h)"
  by (simp add: sched_inv_def queue_inv_def cap_inv_def first_tracer_fields)

lemma setup_cases:
  assumes "tracer_setup s target b d1 d2 w1 w2 = Some (Inr t)"
  obtains c h where "t = first_tracer s b d1 d2 w1 w2 c h"
    "case c of None \<Rightarrow> True | Some root \<Rightarrow>
       init_or_fail (su_fs s) (su_cfg s) [SetOptions target, Resume target 0] = (Inr root, h)"
  using assms that
  by (auto simp: tracer_setup_def Let_def split: if_splits bind_splits prod.splits sum.splits)

lemma setup_inv: "tracer_setup s target b d1 d2 w1 w2 = Some (Inr t) \<Longrightarrow> sched_inv t"
  by (erule setup_cases) (simp add: first_tracer_inv)

lemma loop_inv:
  assumes "tracer_setup s target b d1 d2 w1 w2 = Some (Inr t0)"
  shows "sched_inv (ptrace_loop answers t0)"
  using reaches_inv [OF loop_reaches [OF reaches.start] setup_inv [OF assms]] .

text \<open>A start that succeeds, with one function selected, and what is read at some stop.\<close>

definition calm_start :: start_input where
  "calm_start = \<lparr>su_attached = True, su_waits = [WaitFailed EINTR, Waited 41 4991], su_options = True, su_resumed = True,
     su_cfg = plain_config\<lparr>cfg_fgraph_funcs := {''cuLaunchKernel''}\<rparr>, su_fs = willing, su_fds = None, su_maps = None\<rparr>"

definition calm_stop :: stop_input where
  "calm_stop = \<lparr>si_env = probe_env, si_fs = willing, si_depth_reads = [], si_window_reads = [],
     si_regs = Some \<lparr>r_r15 = 0, r_r14 = 0, r_r13 = 0, r_r12 = 0, r_rbp = 0, r_rbx = 0, r_r11 = 0, r_r10 = 0, r_r9 = 0,
       r_r8 = 0, r_rax = 0, r_rcx = 0, r_rdx = 0, r_rsi = 0, r_rdi = 0, r_orig_rax = 39, r_rip = 0, r_cs = 0,
       r_eflags = 0, r_rsp = 0, r_ss = 0, r_fs_base = 0, r_gs_base = 0, r_ds = 0, r_es = 0, r_fs = 0, r_gs = 0\<rparr>,
     si_eventmsg = None, si_maps = None, si_epoch = 0, si_epoch_us = 0, si_now = 0\<rparr>"

lemma calm_message: "si_eventmsg calm_stop = None"
  by (simp add: calm_stop_def)

text \<open>The status of a stop at a system call.\<close>

definition syscall_status :: i32 where "syscall_status = 34175"

lemma syscall_status_simps [simp]:
  "wifstopped syscall_status" "wstopsig syscall_status = SYSCALL_STOP_SIG"
  by (simp_all add: syscall_status_def wait_simps SYSCALL_STOP_SIG_def SIGTRAP_def)

lemma calm_setup:
  "\<exists>t0. tracer_setup calm_start 41 3 4 5 6 7 = Some (Inr t0) \<and> tr_states t0 = (\<lambda>_. None) \<and>
     tr_controller t0 = Some ''/sys/kernel/tracing'' \<and> tr_capture t0 = None \<and> tr_waiting t0 = [] \<and>
     tr_windows t0 = (\<lambda>_. None) \<and> tr_window_fd t0 = 6 \<and> tr_ranges t0 = []"
proof -
  have w: "split_whitespace ''nop function_graph'' = [''nop'', ''function_graph'']"
    by (simp add: split_whitespace_def rust_chars_ascii is_white_def)
  have "fe_is_dir willing ''/sys/kernel/tracing''" "fe_exists willing h p" "fe_read willing h p = Inr ''nop function_graph''" for h p
    by (simp_all add: willing_def)
  then have "\<exists>h. init_or_fail willing cfg h0 = (Inr ''/sys/kernel/tracing'', h)" for cfg h0
    by (simp add: init_or_fail_def detect_tracefs_root_def TRACEFS_ROOTS_def validate_access_def apply_runtime_config_def
        and_then_def map_err_def read_file_def willing_writes return_ok_def w)
  then obtain h where "init_or_fail willing (plain_config\<lparr>cfg_fgraph_funcs := {''cuLaunchKernel''}\<rparr>)
      [SetOptions 41, Resume 41 0] = (Inr ''/sys/kernel/tracing'', h)" by blast
  then show ?thesis
    by (simp add: tracer_setup_def calm_start_def wifstopped_def EINTR_def fgraph_enabled_def first_tracer_fields
        load_cudatrace_ranges_def)
qed

text \<open>A run with a held thread: two threads are inside the selected function; the first enters a system
  call and is captured, the second is held at its own.\<close>

definition window_stop :: stop_input where
  "window_stop = calm_stop\<lparr>si_window_reads := map (\<lambda>m. (112, 0, fgraph_window_update_as_bytes m))
     (fst (window_run [(41, WEnter ''cuLaunchKernel'' 1), (42, WEnter ''cuLaunchKernel'' 2)] (\<lambda>_. [])))\<rparr>"

lemma window_stop_windows:
  "map_option ws_depth (drain_fgraph_window_updates 6 (si_window_reads window_stop) (\<lambda>_. None) tid) =
     (if tid \<in> {41, 42} then Some 1 else None)"
proof -
  let ?es = "[(41, WEnter ''cuLaunchKernel'' 1), (42, WEnter ''cuLaunchKernel'' 2)]"
  have es: "list_all (\<lambda>e. i32_range (fst e)) ?es" by (simp add: i32_range_def)
  have "list_all (\<lambda>m. length m = 112) (map fgraph_window_update_as_bytes (fst (window_run ?es (\<lambda>_. []))))"
    by (rule window_msgs_length [OF es])
  then have "carries (si_window_reads window_stop) (map fgraph_window_update_as_bytes (fst (window_run ?es (\<lambda>_. []))))"
    by (simp add: carries_def window_stop_def list_all_iff comp_def del: window_run.simps)
  from windows_drained [OF _ es _ _ this, of "\<lambda>_. None" 6] show ?thesis
    by (simp add: window_rel_def u32_max_def)
qed

lemma calm_entry:
  assumes "tr_states t pid = None" and "tr_controller t = Some root" and "tr_ranges t = []"
    and "si_regs i = Some regs" and "map_option ws_depth (tr_windows (drain_pipes i t) pid) = Some 1"
    and "si_fs i = willing"
  shows "tr_capture t = None \<Longrightarrow>
      (\<exists>c. ac_tid c = pid \<and> tr_capture (handle_status i pid syscall_status t) = Some c) \<and>
      (\<forall>p. p \<noteq> pid \<longrightarrow> tr_states (handle_status i pid syscall_status t) p = tr_states t p) \<and>
      same_tables (drain_pipes i t) (handle_status i pid syscall_status t)"
    and "tr_capture t = Some c \<Longrightarrow> held (handle_status i pid syscall_status t) pid \<and>
      tr_capture (handle_status i pid syscall_status t) = Some c"
proof -
  let ?t = "drain_pipes i t" and ?st = "entry_state i pid regs t"
  have e: "entry_state i pid regs ?t = ?st" by (simp add: entry_state_def)
  have should: "should_capture_fgraph pid ?st (tr_windows ?t) (tr_controller t)"
    using assms by (auto simp: should_capture_fgraph_def entry_state_def is_internal_syscall_def Let_def)
  have "\<not> wifexited syscall_status" "\<not> wifsignaled syscall_status"
    using wait_tests_exclusive syscall_status_simps(1) by blast+
  then have h: "handle_status i pid syscall_status t =
      (case syscall_entry i pid regs ?t of (hold, t1) \<Rightarrow> if hold then t1 else emit (Resume pid 0) t1)"
    using assms(1,4) by (simp add: handle_status_def syscall_stop_def Let_def)
  obtain h' where b: "begin_capture (si_fs i) root pid (syscall_graph_function (si_env i) (st_nr ?st)) (tr_history t) = (Inr (), h')"
    using willing_begin assms(6) by metis
  show "(\<exists>c. ac_tid c = pid \<and> tr_capture (handle_status i pid syscall_status t) = Some c) \<and>
      (\<forall>p. p \<noteq> pid \<longrightarrow> tr_states (handle_status i pid syscall_status t) p = tr_states t p) \<and>
      same_tables ?t (handle_status i pid syscall_status t)" if "tr_capture t = None"
    using that should b assms(2) unfolding h
    by (simp add: syscall_entry_def e Let_def begin_for_def begin_fgraph_capture_for_state_def)
  show "held (handle_status i pid syscall_status t) pid \<and> tr_capture (handle_status i pid syscall_status t) = Some c"
    if "tr_capture t = Some c"
    using that should unfolding h by (simp add: syscall_entry_def e Let_def held_def)
qed

lemma calm_hold:
  assumes "tracer_setup calm_start 41 3 4 5 6 7 = Some (Inr t0)"
  shows "let t = ptrace_loop [(Waited 41 syscall_status, window_stop)] t0;
             t' = ptrace_loop [(Waited 41 syscall_status, window_stop), (Waited 42 syscall_status, calm_stop)] t0
    in (\<exists>c. tr_capture t = Some c \<and> tr_capture t' = Some c \<and> ac_tid c = 41) \<and> \<not> held t 42 \<and> held t' 42"
proof -
  have f: "tr_states t0 = (\<lambda>_. None)" "tr_controller t0 = Some ''/sys/kernel/tracing''" "tr_capture t0 = None"
    "tr_windows t0 = (\<lambda>_. None)" "tr_window_fd t0 = 6" "tr_ranges t0 = []"
    using calm_setup assms by auto
  obtain regs where r: "si_regs calm_stop = Some regs" "si_regs window_stop = Some regs"
    by (simp add: calm_stop_def window_stop_def)
  have fs: "si_fs calm_stop = willing" "si_fs window_stop = willing" "si_window_reads calm_stop = []"
    by (simp_all add: calm_stop_def window_stop_def)
  let ?t = "handle_status window_stop 41 syscall_status t0"
  have w: "tr_windows (drain_pipes window_stop t0) = drain_fgraph_window_updates 6 (si_window_reads window_stop) (\<lambda>_. None)"
    by (simp add: drain_pipes_def f)
  from calm_entry(1) [OF _ f(2,6) r(2) _ fs(2) f(3), of 41] w window_stop_windows [of 41] f(1)
  obtain c where c: "ac_tid c = 41" "tr_capture ?t = Some c" "\<forall>p. p \<noteq> 41 \<longrightarrow> tr_states ?t p = None"
    "same_tables (drain_pipes window_stop t0) ?t" by auto
  have t: "tr_controller ?t = Some ''/sys/kernel/tracing''" "tr_ranges ?t = []" "tr_windows ?t = tr_windows (drain_pipes window_stop t0)"
    using c(4) f by (simp_all add: same_tables_def drain_pipes_def)
  have "tr_windows (drain_pipes calm_stop ?t) = tr_windows ?t"
    by (simp add: drain_pipes_def drain_fgraph_window_updates_def fs)
  with calm_entry(2) [OF _ t(1,2) r(1) _ fs(1) c(2), of 42] w window_stop_windows [of 42] c(3) t(3)
  have "held (handle_status calm_stop 42 syscall_status ?t) 42"
    "tr_capture (handle_status calm_stop 42 syscall_status ?t) = Some c" by auto
  with c(1-3) show ?thesis by (simp add: loop_step_def Let_def held_def)
qed

text \<open>C3. Captures are exclusive. However the events of the traced threads interleave, at most one
  capture is active; its thread is inside a system call, is the only one marked as captured and is
  not held; every held thread is in the queue, which has no duplicates; and when no capture is
  active no thread is held.\<close>

theorem captures_exclusive:
  assumes "tracer_setup s target b d1 d2 w1 w2 = Some (Inr t0)"
  shows "let t = ptrace_loop answers t0 in
    distinct (tr_waiting t) \<and> (\<forall>tid. held t tid \<longrightarrow> tid \<in> set (tr_waiting t) \<and> tr_capture t \<noteq> None) \<and>
    (\<forall>tid st. tr_states t tid = Some st \<longrightarrow>
       (st_fgraph_capturing st \<longleftrightarrow> map_option ac_tid (tr_capture t) = Some tid)) \<and>
    (\<forall>c. tr_capture t = Some c \<longrightarrow>
       (\<exists>st. tr_states t (ac_tid c) = Some st \<and> st_active st) \<and> \<not> held t (ac_tid c))"
  using loop_inv [OF assms, of answers]
  by (fastforce simp: Let_def sched_inv_def queue_inv_def cap_inv_def held_def)

theorem captures_exclusive_witness:
  "\<exists>t0. tracer_setup calm_start 41 3 4 5 6 7 = Some (Inr t0) \<and>
     (let t = ptrace_loop [(Waited 41 syscall_status, window_stop), (Waited 42 syscall_status, calm_stop)] t0
      in held t 42 \<and> 42 \<in> set (tr_waiting t) \<and> distinct (tr_waiting t) \<and>
         (\<exists>c. tr_capture t = Some c \<and> \<not> held t (ac_tid c)))"
proof -
  obtain t0 where t0: "tracer_setup calm_start 41 3 4 5 6 7 = Some (Inr t0)" using calm_setup by blast
  from captures_exclusive [OF this] calm_hold [OF this] t0 show ?thesis unfolding Let_def by blast
qed

subsection \<open>Stopped threads\<close>

lemma held_upd [simp]:
  "held (t\<lparr>tr_history := h\<rparr>) = held t" "held (t\<lparr>tr_capture := c\<rparr>) = held t"
  "held (t\<lparr>tr_ranges := r\<rparr>) = held t"
  by (simp_all add: held_def fun_eq_iff)

lemma front_count:
  assumes "front t q k es t'" and "\<not> held t pid"
  shows "count_list (resumes es) pid = 0" and "held t' pid = held t pid"
proof -
  have "pid \<notin> set (resumes es)" using assms by (simp add: front_def)
  then show "count_list (resumes es) pid = 0" "held t' pid = held t pid"
    using assms(1) by (simp_all add: front_def held_def)
qed

lemma signal_stop_answered:
  assumes "\<forall>msg. si_eventmsg i = Some msg \<longrightarrow> u64_as_i32 msg \<noteq> pid"
  shows "\<exists>es. tr_history (signal_stop i pid status t) = tr_history t @ es \<and>
    held (signal_stop i pid status t) = held t \<and> count_list (resumes es) pid = 1"
  using assms by (auto simp: signal_stop_def Let_def split: option.split)

lemma entry_fresh:
  assumes "sched_inv t" and "\<not> st_active (map_default (SyscallState_default n) (tr_states t) pid)"
  shows "map_option ac_tid (tr_capture t) \<noteq> Some pid"
  using assms by (cases "tr_states t pid") (auto simp: sched_inv_def cap_inv_def)

text \<open>A thread whose stop is handled either runs on, once, or is held while another is captured.\<close>

definition answered :: "pid_t \<Rightarrow> tracer \<Rightarrow> tracer \<Rightarrow> bool" where
  "answered pid t t' \<longleftrightarrow>
     (\<exists>es. tr_history t' = tr_history t @ es \<and>
        (if held t' pid then resumes es = [] \<and> (\<exists>c. tr_capture t' = Some c \<and> ac_tid c \<noteq> pid)
         else count_list (resumes es) pid = 1))"

lemma syscall_stop_answered:
  assumes inv: "sched_inv t" and n: "\<not> held t pid"
  shows "answered pid t (syscall_stop i pid t)"
proof (cases rule: syscall_stop_cases [of i pid t])
  case unread
  with n show ?thesis by (auto simp: answered_def)
next
  case (entry regs hold t1)
  note f = entry_fresh [OF inv entry(2)]
  from entry(3) show ?thesis
  proof (cases rule: syscall_entry_cases)
    case (captured c es)
    with entry(4) show ?thesis by (auto simp: answered_def held_def quietD)
  next
    case (plain es)
    with entry(4) show ?thesis by (auto simp: answered_def held_def quietD)
  next
    case hold
    with entry(4) f show ?thesis by (auto simp: answered_def held_def)
  qed
next
  case (exit regs st finished t1)
  have t1: "tr_history t1 = tr_history t @ printed i pid regs st t" "tr_states t1 pid = Some (exit_state st)"
    using exit(4) by (auto simp: syscall_exit_eq)
  show ?thesis
  proof (cases finished)
    case False
    with exit(5) t1 show ?thesis by (auto simp: answered_def held_def)
  next
    case True
    obtain es where fin: "finish_active i t1 = t1\<lparr>tr_capture := None, tr_history := tr_history t1 @ es\<rparr>" "quiet es"
      using finish_active_result by blast
    then have h: "\<not> held (finish_active i t1) pid" using t1 by (simp add: held_def)
    have "queue_inv (tr_waiting (finish_active i t1)) (finish_active i t1)" "cap_inv (finish_active i t1)"
      using exit_inv(2) [OF inv exit(2,3,4) True] by simp_all
    from maybe_resume_ok(2) [OF this] obtain k fs where
      fr: "front (finish_active i t1) (tr_waiting (finish_active i t1)) k fs
        (maybe_resume_waiting_fgraph_tid i (finish_active i t1))" by blast
    from fr have "tr_history (maybe_resume_waiting_fgraph_tid i (finish_active i t1)) =
        tr_history (finish_active i t1) @ fs" by (simp add: front_def)
    with front_count [OF fr h] h True exit(5) fin t1 show ?thesis by (auto simp: answered_def quietD)
  qed
qed

lemma handle_answered:
  assumes "sched_inv t" and "wifstopped status" and "\<not> held t pid"
    and "\<forall>msg. si_eventmsg i = Some msg \<longrightarrow> u64_as_i32 msg \<noteq> pid"
  shows "answered pid t (handle_status i pid status t)"
proof -
  have w: "\<not> wifexited status" "\<not> wifsignaled status" using assms(2) wait_tests_exclusive by blast+
  show ?thesis
  proof (cases "wstopsig status = SYSCALL_STOP_SIG")
    case True
    with w assms syscall_stop_answered [of "drain_pipes i t" pid i] show ?thesis
      by (simp add: handle_status_def Let_def answered_def)
  next
    case False
    with w assms signal_stop_answered [OF assms(4), of status "drain_pipes i t"] show ?thesis
      by (auto simp: handle_status_def Let_def answered_def)
  qed
qed

text \<open>C2. No stopped thread is forgotten: when a thread that is not held reports a stop, of whatever kind,
  it is resumed by that very iteration exactly once, or it is held, and then another thread's
  capture is active; in that case the iteration resumes nobody. The message of a clone event, if
  there is one, names another thread than the one that has stopped.\<close>

theorem stops_are_answered:
  assumes "tracer_setup s target b d1 d2 w1 w2 = Some (Inr t0)" and "t = ptrace_loop answers t0"
    and "wifstopped status" and "\<not> held t pid"
    and "\<forall>msg. si_eventmsg i = Some msg \<longrightarrow> u64_as_i32 msg \<noteq> pid"
  shows "let t' = snd (loop_step (Waited pid status) i t) in
    \<exists>es. tr_history t' = tr_history t @ es \<and>
      (if held t' pid then resumes es = [] \<and> (\<exists>c. tr_capture t' = Some c \<and> ac_tid c \<noteq> pid)
       else count_list (resumes es) pid = 1)"
  using handle_answered [OF loop_inv [OF assms(1)] assms(3) assms(4) [unfolded assms(2)] assms(5)]
  by (simp add: loop_step_def answered_def assms(2))

theorem stops_are_answered_witness:
  "\<exists>t0. tracer_setup calm_start 41 3 4 5 6 7 = Some (Inr t0) \<and>
     (let t = ptrace_loop [(Waited 41 syscall_status, window_stop)] t0;
          t' = snd (loop_step (Waited 42 syscall_status) calm_stop t)
      in held t' 42 \<and> (\<exists>es. tr_history t' = tr_history t @ es \<and> resumes es = []))"
proof -
  obtain t0 where t0: "tracer_setup calm_start 41 3 4 5 6 7 = Some (Inr t0)" using calm_setup by blast
  let ?t = "ptrace_loop [(Waited 41 syscall_status, window_stop)] t0"
  have "\<not> held ?t 42" "held (snd (loop_step (Waited 42 syscall_status) calm_stop ?t)) 42"
    using calm_hold [OF t0] by (simp_all add: Let_def loop_step_def)
  with stops_are_answered [OF t0 refl, of syscall_status "[(Waited 41 syscall_status, window_stop)]" 42 calm_stop] t0
  show ?thesis by (auto simp: calm_message Let_def)
qed

subsection \<open>The order in which held threads go on\<close>

lemma filter_take_drop:
  "filter P (take k xs) = take (length (filter P (take k xs))) (filter P xs)"
  "filter P (drop k xs) = drop (length (filter P (take k xs))) (filter P xs)"
proof -
  have "filter P xs = filter P (take k xs) @ filter P (drop k xs)"
    by (metis append_take_drop_id filter_append)
  then show "filter P (take k xs) = take (length (filter P (take k xs))) (filter P xs)"
    "filter P (drop k xs) = drop (length (filter P (take k xs))) (filter P xs)" by simp_all
qed

text \<open>A capture that starts while held threads are resumed belongs to the last of them.\<close>

lemma resume_waiting_last:
  assumes "tr_capture t = None" and "tr_capture (resume_waiting i q t) = Some c"
  shows "\<exists>es. tr_history (resume_waiting i q t) = tr_history t @ es \<and> resumes es \<noteq> [] \<and> last (resumes es) = ac_tid c"
  using assms
proof (induction q arbitrary: t)
  case Nil
  then show ?case by (simp add: resume_waiting.simps)
next
  case (Cons tid q)
  from Cons.prems(1) show ?case
  proof (cases rule: resume_waiting_head [of t tid i q])
    case skip
    with Cons show ?thesis by simp
  next
    case (run st b t0 t1 es)
    show ?thesis
    proof (cases "tr_capture t1")
      case None
      with run(6) Cons.prems Cons.IH [of t1] obtain fs where "tr_history (resume_waiting i q t1) = tr_history t1 @ fs"
        "resumes fs \<noteq> []" "last (resumes fs) = ac_tid c" by auto
      with None run show ?thesis by (auto simp: quietD)
    next
      case (Some c')
      with run Cons.prems(2) show ?thesis by (auto simp: quietD)
    qed
  qed
qed

definition goes_on :: "pid_t \<Rightarrow> tracer \<Rightarrow> pid_t list \<Rightarrow> pid_t list" where
  "goes_on pid t = filter (\<lambda>p. held t p \<and> p \<noteq> pid)"

text \<open>What an event of thread \<open>pid\<close> does to the other held threads.\<close>

definition in_order :: "pid_t \<Rightarrow> tracer \<Rightarrow> tracer \<Rightarrow> bool" where
  "in_order pid t t' \<longleftrightarrow>
     (\<exists>es k. tr_history t' = tr_history t @ es \<and>
        (let q = goes_on pid t (tr_waiting t)
         in k \<le> length q \<and> goes_on pid t (resumes es) = take k q \<and>
            goes_on pid t (tr_waiting t') = drop k q \<and> (\<forall>p \<in> set (drop k q). held t' p) \<and>
            (0 < k \<longrightarrow> map_option ac_tid (tr_capture t) = Some pid \<and>
               (case tr_capture t' of None \<Rightarrow> k = length q | Some c \<Rightarrow> ac_tid c = q ! (k - 1)))))"

lemma in_order_none:
  assumes "tr_history t' = tr_history t @ es" and "goes_on pid t (resumes es) = []"
    and "goes_on pid t (tr_waiting t') = goes_on pid t (tr_waiting t)"
    and "\<And>p. held t p \<Longrightarrow> p \<noteq> pid \<Longrightarrow> held t' p"
  shows "in_order pid t t'"
  using assms unfolding in_order_def by (intro exI [of _ es] exI [of _ 0]) (auto simp: goes_on_def)

text \<open>After a capture has ended.\<close>

lemma in_order_release:
  assumes h: "tr_history t1 = tr_history t @ es" "goes_on pid t (resumes es) = []"
    and w: "goes_on pid t (tr_waiting t1) = goes_on pid t (tr_waiting t)"
    and s: "\<And>p. p \<noteq> pid \<Longrightarrow> tr_states t1 p = tr_states t p" and p: "\<not> held t1 pid"
    and inv: "queue_inv (tr_waiting t1) t1" "cap_inv t1" and none: "tr_capture t1 = None"
    and cap: "map_option ac_tid (tr_capture t) = Some pid \<or> tr_waiting t1 = []"
  shows "in_order pid t (maybe_resume_waiting_fgraph_tid i t1)"
proof -
  let ?t = "maybe_resume_waiting_fgraph_tid i t1" and ?q = "goes_on pid t (tr_waiting t)"
  obtain k fs where fr: "front t1 (tr_waiting t1) k fs ?t" using maybe_resume_ok(2) [OF inv] by blast
  have "held t1 x \<longleftrightarrow> held t x \<and> x \<noteq> pid" for x using s [of x] p by (cases "x = pid") (simp_all add: held_def)
  then have eq: "held t1 = (\<lambda>p. held t p \<and> p \<noteq> pid)" by blast
  define n where "n = length (filter (held t1) (take k (tr_waiting t1)))"
  have q: "filter (held t1) (tr_waiting t1) = ?q" using w by (simp add: eq goes_on_def)
  have r: "resumes fs = take n ?q"
    using fr filter_take_drop(1) [of "held t1" k "tr_waiting t1"] by (simp add: front_def n_def q)
  have d: "goes_on pid t (tr_waiting ?t) = drop n ?q"
    using fr filter_take_drop(2) [of "held t1" k "tr_waiting t1"] by (simp add: front_def n_def goes_on_def q eq [symmetric])
  have n: "n \<le> length ?q"
    by (metis filter_take_drop(1) length_take min.cobounded1 n_def q)
  have dis: "distinct ?q" using inv(1) unfolding q [symmetric] by (simp add: queue_inv_def)
  have "held ?t p" if "p \<in> set (drop n ?q)" for p
  proof -
    have "p \<notin> set (take n ?q)" using that dis by (meson disjoint_iff set_take_disj_set_drop_if_distinct order_refl)
    then have "tr_states ?t p = tr_states t1 p" using fr r by (simp add: front_def)
    moreover have "held t1 p" using in_set_dropD [OF that] q [symmetric] by simp
    ultimately show ?thesis by (simp add: held_def)
  qed
  moreover have "goes_on pid t (resumes fs) = resumes fs"
  proof -
    have "\<forall>x \<in> set (resumes fs). held t1 x" using fr by (simp add: front_def)
    then show ?thesis unfolding goes_on_def eq by simp
  qed
  moreover have "case tr_capture ?t of None \<Rightarrow> n = length ?q | Some c \<Rightarrow> ac_tid c = ?q ! (n - 1)"
    if "0 < n"
  proof (cases "tr_capture ?t")
    case None
    have "sched_inv ?t" by (rule maybe_resume_ok(1) [OF inv])
    with None d n show ?thesis by (simp add: sched_inv_def goes_on_def)
  next
    case (Some c)
    then have "tr_capture (resume_waiting i (tr_waiting t1) t1) = Some c"
      using none by (simp add: maybe_resume_waiting_fgraph_tid_def)
    from resume_waiting_last [OF none this] obtain gs where "tr_history ?t = tr_history t1 @ gs"
      "resumes gs \<noteq> []" "last (resumes gs) = ac_tid c" using none by (auto simp: maybe_resume_waiting_fgraph_tid_def)
    moreover have "tr_history ?t = tr_history t1 @ fs" using fr by (simp add: front_def)
    ultimately have "last (take n ?q) = ac_tid c" "take n ?q \<noteq> []" using r by simp_all
    with Some n that show ?thesis by (simp add: last_conv_nth)
  qed
  moreover have "0 < n \<longrightarrow> map_option ac_tid (tr_capture t) = Some pid" using cap by (auto simp: n_def)
  moreover have "tr_history ?t = tr_history t @ es @ fs" using fr h(1) by (simp add: front_def)
  ultimately show ?thesis
    unfolding in_order_def Let_def using n r d h(2)
    by (intro exI [of _ "es @ fs"] exI [of _ n]) (simp add: goes_on_def)
qed

text \<open>Every kind of event.\<close>

lemma goes_on_simps [simp]:
  "goes_on pid t [] = []" "goes_on pid t (xs @ ys) = goes_on pid t xs @ goes_on pid t ys"
  "goes_on pid t (p # xs) = (if held t p \<and> p \<noteq> pid then p # goes_on pid t xs else goes_on pid t xs)"
  "goes_on pid t (filter (\<lambda>q. q \<noteq> pid) xs) = goes_on pid t xs"
  by (simp_all add: goes_on_def conj_commute cong: conj_cong)

lemma thread_gone_in_order:
  assumes "sched_inv t"
  shows "in_order pid t (thread_gone i pid t)"
  unfolding thread_gone_forget
proof (cases "tr_capture (forget i pid t)")
  case Some: (Some c)
  obtain es where "tr_history (forget i pid t) = tr_history t @ es" "quiet es" using forget_fields(1) by blast
  with Some show "in_order pid t (maybe_resume_waiting_fgraph_tid i (emit (CloseTid pid) (forget i pid t)))"
    by (intro in_order_none [of _ _ "es @ [CloseTid pid]"])
      (auto simp: maybe_resume_waiting_fgraph_tid_def quietD forget_fields(2-) held_def)
next
  case None
  obtain es where es: "tr_history (forget i pid t) = tr_history t @ es" "quiet es" using forget_fields(1) by blast
  have "map_option ac_tid (tr_capture t) = Some pid \<or> tr_waiting t = []"
    using None assms by (auto simp: forget_fields sched_inv_def split: if_splits)
  with None es forget_inv [OF assms] show "in_order pid t (maybe_resume_waiting_fgraph_tid i (emit (CloseTid pid) (forget i pid t)))"
    by (intro in_order_release [of _ _ "es @ [CloseTid pid]"]) (auto simp: quietD forget_fields(2-) held_def)
qed

lemma syscall_stop_in_order:
  assumes inv: "sched_inv t"
  shows "in_order pid t (syscall_stop i pid t)"
proof (cases rule: syscall_stop_cases [of i pid t])
  case unread
  then show ?thesis by (intro in_order_none [of _ _ "[Resume pid 0]"]) simp_all
next
  case (entry regs hold t1)
  from entry(3) show ?thesis
  proof (cases rule: syscall_entry_cases)
    case (captured c es)
    with entry(4) show ?thesis
      by (intro in_order_none [of _ _ "es @ [Resume pid 0]"]) (auto simp: quietD held_def)
  next
    case (plain es)
    with entry(4) show ?thesis
      by (intro in_order_none [of _ _ "es @ [Resume pid 0]"]) (auto simp: quietD held_def)
  next
    case hold
    with entry(4) show ?thesis
      by (intro in_order_none [of _ _ "[]"]) (auto simp: held_def)
  qed
next
  case (exit regs st finished t1)
  have t1: "tr_history t1 = tr_history t @ printed i pid regs st t" "tr_waiting t1 = tr_waiting t"
    "tr_states t1 = (tr_states t)(pid \<mapsto> exit_state st)" "finished = st_fgraph_capturing st"
    using exit(4) by (auto simp: syscall_exit_eq)
  show ?thesis
  proof (cases finished)
    case False
    with exit(5) t1 show ?thesis
      by (intro in_order_none [of _ _ "printed i pid regs st t @ [Resume pid 0]"]) (auto simp: held_def)
  next
    case True
    obtain es where fin: "finish_active i t1 = t1\<lparr>tr_capture := None, tr_history := tr_history t1 @ es\<rparr>" "quiet es"
      using finish_active_result by blast
    have cap: "map_option ac_tid (tr_capture t) = Some pid"
      using inv exit(2) t1(4) True by (simp add: sched_inv_def cap_inv_def)
    have "in_order pid t (maybe_resume_waiting_fgraph_tid i (finish_active i t1))"
      using exit_inv(2) [OF inv exit(2,3,4) True] t1 cap fin
      by (intro in_order_release [of _ _ "printed i pid regs st t @ es"]) (simp_all add: quietD held_def)
    then obtain fs k where *: "tr_history (maybe_resume_waiting_fgraph_tid i (finish_active i t1)) = tr_history t @ fs"
      "let q = goes_on pid t (tr_waiting t); t' = maybe_resume_waiting_fgraph_tid i (finish_active i t1)
       in k \<le> length q \<and> goes_on pid t (resumes fs) = take k q \<and> goes_on pid t (tr_waiting t') = drop k q \<and>
          (\<forall>p \<in> set (drop k q). held t' p) \<and> (0 < k \<longrightarrow> map_option ac_tid (tr_capture t) = Some pid \<and>
             (case tr_capture t' of None \<Rightarrow> k = length q | Some c \<Rightarrow> ac_tid c = q ! (k - 1)))"
      unfolding in_order_def by (auto simp: Let_def)
    with True exit(5) show ?thesis
      unfolding in_order_def by (intro exI [of _ "fs @ [Resume pid 0]"] exI [of _ k]) (simp add: Let_def)
  qed
qed

lemma signal_stop_effects:
  "\<exists>es. tr_history (signal_stop i pid status t) = tr_history t @ es \<and>
     set (resumes es) \<subseteq> insert pid (u64_as_i32 ` set_option (si_eventmsg i))"
  by (auto simp: signal_stop_def Let_def split: option.split)

lemma handle_in_order:
  assumes "sched_inv t" and "\<forall>msg. si_eventmsg i = Some msg \<longrightarrow> \<not> held t (u64_as_i32 msg)"
  shows "in_order pid t (handle_status i pid status t)"
proof -
  let ?t = "drain_pipes i t"
  have d: "in_order pid ?t t' = in_order pid t t'" for t' by (simp add: in_order_def goes_on_def Let_def)
  have "in_order pid ?t (signal_stop i pid status ?t)"
  proof -
    obtain es where "tr_history (signal_stop i pid status ?t) = tr_history ?t @ es"
      "set (resumes es) \<subseteq> insert pid (u64_as_i32 ` set_option (si_eventmsg i))"
      using signal_stop_effects [of i pid status ?t] by blast
    moreover have "tr_waiting (signal_stop i pid status ?t) = tr_waiting ?t" "held (signal_stop i pid status ?t) = held ?t"
      by (auto simp: signal_stop_def Let_def split: option.split)
    moreover from calculation(2) assms(2) have "goes_on pid ?t (resumes es) = []"
      by (auto simp: goes_on_def filter_empty_conv)
    ultimately show ?thesis by (intro in_order_none [of _ _ es]) simp_all
  qed
  moreover have "in_order pid ?t ?t" by (rule in_order_none [of _ _ "[]"]) simp_all
  ultimately have "in_order pid ?t (handle_status i pid status t)"
    using assms(1) by (simp add: handle_status_def Let_def thread_gone_in_order syscall_stop_in_order)
  then show ?thesis by (simp add: d)
qed

text \<open>C5. Held threads go on in the order in which they were held. Whatever happens to a thread, the other
  held threads that the iteration resumes are the first ones of the queue, in order, and the rest
  stay held. None is resumed unless the event ended the capture of that thread; and if some are,
  then either all of them are, or the last one is now captured itself. A clone event is taken to
  name a thread that is not yet held.\<close>

theorem held_threads_in_order:
  assumes "tracer_setup s target b d1 d2 w1 w2 = Some (Inr t0)" and "t = ptrace_loop answers t0"
    and "\<forall>msg. si_eventmsg i = Some msg \<longrightarrow> \<not> held t (u64_as_i32 msg)"
  shows "let t' = snd (loop_step (Waited pid status) i t); others = filter (\<lambda>p. held t p \<and> p \<noteq> pid);
             q = others (tr_waiting t)
    in \<exists>es k. tr_history t' = tr_history t @ es \<and> k \<le> length q \<and> others (resumes es) = take k q \<and>
         others (tr_waiting t') = drop k q \<and> (\<forall>p \<in> set (drop k q). held t' p) \<and>
         (0 < k \<longrightarrow> map_option ac_tid (tr_capture t) = Some pid \<and>
            (case tr_capture t' of None \<Rightarrow> k = length q | Some c \<Rightarrow> ac_tid c = q ! (k - 1)))"
  using handle_in_order [OF loop_inv [OF assms(1)] assms(3) [unfolded assms(2)], of pid status]
  by (simp add: loop_step_def in_order_def goes_on_def Let_def assms(2))

theorem held_threads_in_order_witness:
  "\<exists>t0. tracer_setup calm_start 41 3 4 5 6 7 = Some (Inr t0) \<and>
     (let t = ptrace_loop [(Waited 41 syscall_status, window_stop), (Waited 42 syscall_status, calm_stop)] t0;
          t' = snd (loop_step (Waited 41 syscall_status) calm_stop t); q = filter (\<lambda>p. held t p \<and> p \<noteq> 41) (tr_waiting t)
      in held t 42 \<and> (\<exists>k. filter (\<lambda>p. held t p \<and> p \<noteq> 41) (tr_waiting t') = drop k q))"
proof -
  obtain t0 where t0: "tracer_setup calm_start 41 3 4 5 6 7 = Some (Inr t0)" using calm_setup by blast
  let ?t = "ptrace_loop [(Waited 41 syscall_status, window_stop), (Waited 42 syscall_status, calm_stop)] t0"
  have "\<forall>msg. si_eventmsg calm_stop = Some msg \<longrightarrow> \<not> held ?t (u64_as_i32 msg)" by (simp add: calm_message)
  from held_threads_in_order [OF t0 refl this, of 41 syscall_status] calm_hold [OF t0] t0
  show ?thesis unfolding Let_def by blast
qed

text \<open>While a capture lasts, nothing lets a held thread go.\<close>

lemma handle_waits:
  assumes inv: "sched_inv t" and c: "tr_capture t = Some c" and h: "held t tid" and p: "p \<noteq> ac_tid c" "p \<noteq> tid"
    and msg: "\<forall>msg. si_eventmsg i = Some msg \<longrightarrow> u64_as_i32 msg \<noteq> tid"
  shows "tr_capture (handle_status i p status t) = Some c \<and> held (handle_status i p status t) tid \<and>
    (\<exists>es. tr_history (handle_status i p status t) = tr_history t @ es \<and> tid \<notin> set (resumes es))"
proof -
  let ?t = "drain_pipes i t"
  define ok where "ok t' \<longleftrightarrow> tr_capture t' = Some c \<and> held t' tid \<and>
      (\<exists>es. tr_history t' = tr_history ?t @ es \<and> tid \<notin> set (resumes es))" for t'
  have okI: "ok t'" if "tr_capture t' = Some c" "tr_states t' tid = tr_states t tid"
      "tr_history t' = tr_history ?t @ es" "tid \<notin> set (resumes es)" for t' es
    using that h by (auto simp: ok_def held_def)
  have "ok (thread_gone i p ?t)"
  proof -
    have f: "tr_capture (forget i p ?t) = Some c" using c p by (simp add: forget_fields)
    obtain es where "tr_history (forget i p ?t) = tr_history ?t @ es" "quiet es"
      using forget_fields(1) [of i p ?t] by blast
    with f p show ?thesis unfolding thread_gone_forget
      by (intro okI [of _ "es @ [CloseTid p]"]) (simp_all add: maybe_resume_waiting_fgraph_tid_def forget_fields(2) quietD)
  qed
  moreover have "ok (syscall_stop i p ?t)"
  proof (cases rule: syscall_stop_cases [of i p ?t])
    case unread
    with c p show ?thesis by (intro okI [of _ "[Resume p 0]"]) simp_all
  next
    case (entry regs hold t1)
    from entry(3) show ?thesis
    proof (cases rule: syscall_entry_cases)
      case (captured c' es)
      with c show ?thesis by simp
    next
      case (plain es)
      with entry(4) c p show ?thesis by (intro okI [of _ "es @ [Resume p 0]"]) (simp_all add: quietD)
    next
      case hold
      with entry(4) c p show ?thesis by (intro okI [of _ "[]"]) simp_all
    qed
  next
    case (exit regs st finished t1)
    have "\<not> st_fgraph_capturing st" using inv exit(2) c p by (auto simp: sched_inv_def cap_inv_def)
    with exit(4,5) c p show ?thesis
      by (intro okI [of _ "printed i p regs st ?t @ [Resume p 0]"]) (auto simp: syscall_exit_eq)
  qed
  moreover have "ok (signal_stop i p status ?t)"
    using signal_stop_effects [of i p status ?t] c p msg
    by (elim exE conjE, intro okI) (auto simp: signal_stop_def Let_def split: option.split)
  moreover have "ok ?t" using c by (intro okI [of _ "[]"]) simp_all
  ultimately have "ok (handle_status i p status t)" by (simp add: handle_status_def Let_def)
  then show ?thesis by (simp add: ok_def)
qed

text \<open>C6. A held thread waits for the captured one. As long as the captured thread reports no event, no
  event of the others ends the capture or lets a held thread go, for however long: a system call that
  blocks until a held thread acts is never left. The clone events among them name other threads.\<close>

theorem held_until_capture_ends:
  assumes "tracer_setup s target b d1 d2 w1 w2 = Some (Inr t0)" and "t = ptrace_loop earlier t0"
    and "tr_capture t = Some c" and "held t tid"
    and "\<forall>(w, i) \<in> set later. (\<forall>p status. w = Waited p status \<longrightarrow> p \<noteq> ac_tid c \<and> p \<noteq> tid) \<and>
      (\<forall>msg. si_eventmsg i = Some msg \<longrightarrow> u64_as_i32 msg \<noteq> tid)"
  shows "let t' = ptrace_loop later t in tr_capture t' = Some c \<and> held t' tid \<and>
    (\<exists>es. tr_history t' = tr_history t @ es \<and> tid \<notin> set (resumes es))"
proof -
  have "sched_inv t" using loop_inv [OF assms(1)] assms(2) by simp
  from this assms(3-5) show ?thesis
  proof (induction later arbitrary: t)
    case (Cons a later)
    obtain w i where a: "a = (w, i)" by (cases a)
    obtain continue t1 where l: "loop_step w i t = (continue, t1)" by fastforce
    have "sched_inv t1" using loop_step_inv [OF Cons.prems(1), of w i] l by simp
    moreover have "tr_capture t1 = Some c \<and> held t1 tid \<and>
        (\<exists>es. tr_history t1 = tr_history t @ es \<and> tid \<notin> set (resumes es))"
    proof (cases w)
      case (WaitFailed err)
      with l Cons.prems(2,3) show ?thesis by (auto simp: loop_step_def split: if_splits)
    next
      case (Waited p status)
      with Cons.prems(4) a have "p \<noteq> ac_tid c" "p \<noteq> tid" "\<forall>msg. si_eventmsg i = Some msg \<longrightarrow> u64_as_i32 msg \<noteq> tid"
        by auto
      from handle_waits [OF Cons.prems(1-3) this] Waited l show ?thesis by (auto simp: loop_step_def)
    qed
    ultimately show ?case using Cons.IH [of t1] Cons.prems(4) a l by (fastforce simp: Let_def)
  qed simp
qed

theorem held_until_capture_ends_witness:
  "\<exists>t0. tracer_setup calm_start 41 3 4 5 6 7 = Some (Inr t0) \<and>
     (let t = ptrace_loop [(Waited 41 syscall_status, window_stop), (Waited 42 syscall_status, calm_stop)] t0
      in held (ptrace_loop (replicate 1000 (Waited 43 syscall_status, calm_stop)) t) 42)"
proof -
  obtain t0 where t0: "tracer_setup calm_start 41 3 4 5 6 7 = Some (Inr t0)" using calm_setup by blast
  let ?t = "ptrace_loop [(Waited 41 syscall_status, window_stop), (Waited 42 syscall_status, calm_stop)] t0"
  obtain c where c: "tr_capture ?t = Some c" "held ?t 42" and "ac_tid c = 41"
    using calm_hold [OF t0] unfolding Let_def by blast
  then have "\<forall>(w, i) \<in> set (replicate 1000 (Waited 43 syscall_status, calm_stop)).
      (\<forall>p status. w = Waited p status \<longrightarrow> p \<noteq> ac_tid c \<and> p \<noteq> 42) \<and>
      (\<forall>msg. si_eventmsg i = Some msg \<longrightarrow> u64_as_i32 msg \<noteq> 42)" by (simp add: calm_message)
  from held_until_capture_ends [OF t0 refl c this] t0 show ?thesis unfolding Let_def by blast
qed

subsection \<open>The kernel and the active capture\<close>

text \<open>The kernel traces the thread of the active capture and no other.\<close>

definition kernel_ok :: "tracer \<Rightarrow> bool" where
  "kernel_ok t \<longleftrightarrow>
     (\<forall>root. tr_controller t = Some root \<longrightarrow>
        (case tr_capture t of
           Some c \<Rightarrow> tracing root (tr_history t) = Some (dec_int (ac_tid c))
         | None \<Rightarrow> refused root (tr_history t) \<or> tracing root (tr_history t) = None))"

lemma in_step_iff:
  "tf.in_step root (map_option ac_tid c) h \<longleftrightarrow>
     (case c of
        Some a \<Rightarrow> tracing root h = Some (dec_int (ac_tid a))
      | None \<Rightarrow> refused root h \<or> tracing root h = None)"
  by (simp add: tf.in_step_def split: option.split)

lemma kernel_ok_iff:
  "kernel_ok t \<longleftrightarrow>
     (\<forall>root. tr_controller t = Some root \<longrightarrow> tf.in_step root (map_option ac_tid (tr_capture t)) (tr_history t))"
  by (simp add: kernel_ok_def in_step_iff)

lemma kernel_ok_outside:
  assumes "kernel_ok t" and "list_all outside es" and "tr_history t' = tr_history t @ es"
    and "tr_controller t' = tr_controller t" and "map_option ac_tid (tr_capture t') = map_option ac_tid (tr_capture t)"
  shows "kernel_ok t'"
  using assms by (simp add: kernel_ok_iff tf.in_step_foreign)

lemma kernel_ok_upd [simp]:
  "kernel_ok (t\<lparr>tr_states := s\<rparr>) = kernel_ok t" "kernel_ok (t\<lparr>tr_waiting := q\<rparr>) = kernel_ok t"
  "kernel_ok (t\<lparr>tr_hidden := hf\<rparr>) = kernel_ok t" "kernel_ok (t\<lparr>tr_fd_paths := fp\<rparr>) = kernel_ok t"
  "kernel_ok (t\<lparr>tr_ranges := r\<rparr>) = kernel_ok t" "kernel_ok (t\<lparr>tr_depth := dp\<rparr>) = kernel_ok t"
  "kernel_ok (t\<lparr>tr_windows := w\<rparr>) = kernel_ok t"
  by (simp_all add: kernel_ok_def cong: option.case_cong)

lemma kernel_ok_emit: "kernel_ok t \<Longrightarrow> outside e \<Longrightarrow> kernel_ok (emit e t)"
  by (rule kernel_ok_outside [of t "[e]"]) simp_all

lemma log_outside [simp]: "outside (log_fgraph_error msg)"
  by (simp add: log_fgraph_error_def)

lemma kernel_ok_begin:
  assumes "kernel_ok t" and "tr_capture t = None" and "begin_for i pid state t = (started, t')"
  shows "kernel_ok t'"
proof (cases "tr_controller t")
  case None
  with assms show ?thesis by (auto simp: kernel_ok_def begin_for_def begin_fgraph_capture_for_state_def)
next
  case (Some root)
  obtain r h where b: "begin_capture (si_fs i) root pid (syscall_graph_function (si_env i) (st_nr state))
      (tr_history t) = (r, h)" by fastforce
  show ?thesis
  proof (cases r)
    case (Inl err)
    have f: "tf.in_step root None h" using tf.in_step_start_err b Inl by blast
    have "tf.in_step root None (h @ [log_fgraph_error msg])" for msg
      using tf.in_step_foreign [of "[log_fgraph_error msg]" root None h] f by simp
    with assms b Some Inl show ?thesis
      by (auto simp: begin_for_def begin_fgraph_capture_for_state_def Let_def kernel_ok_iff)
  next
    case (Inr u)
    with b have "tf.in_step root (Some pid) h" using tf.in_step_start_ok by blast
    with assms b Some Inr show ?thesis
      by (auto simp: begin_for_def begin_fgraph_capture_for_state_def Let_def kernel_ok_iff)
  qed
qed

lemma kernel_ok_finish:
  assumes "kernel_ok t"
  shows "kernel_ok (finish_active i t)"
proof (cases "tr_capture t")
  case None
  then have "finish_active i t = t" by (simp add: finish_active_def finish_active_fgraph_capture_def)
  with assms show ?thesis by simp
next
  case (Some c)
  show ?thesis
  proof (cases "tr_controller t")
    case None
    with Some show ?thesis by (simp add: kernel_ok_def finish_active_def finish_active_fgraph_capture_def)
  next
    case ctl: (Some root)
    obtain r h where b: "end_capture_and_read (si_fs i) root (tr_history t) = (r, h)" by fastforce
    have f: "tf.in_step root None h" by (rule tf.in_step_stop [OF b])
    have out: "tf.in_step root None (h @ es)" if "list_all outside es" for es
      using tf.in_step_foreign [OF that] f by blast
    show ?thesis
    proof (cases r)
      case (Inl err)
      let ?h = "h @ [log_fgraph_error (''failed to finish function_graph capture for tid='' @ dec_int (ac_tid c) @ '': '' @ err)]"
      obtain r' h' where "reset_state (si_fs i) root ?h = (r', h')" by fastforce
      moreover from tf.in_step_reset [OF this] have "tf.in_step root None h'" .
      ultimately show ?thesis using Some ctl b Inl
        by (simp add: kernel_ok_iff finish_active_def finish_active_fgraph_capture_def Let_def)
    next
      case (Inr graph)
      with Some ctl b show ?thesis
        by (simp add: kernel_ok_iff finish_active_def finish_active_fgraph_capture_def Let_def out f)
    qed
  qed
qed

lemma kernel_ok_resume: "kernel_ok t \<Longrightarrow> tr_capture t = None \<Longrightarrow> kernel_ok (resume_waiting i q t)"
proof (induction q arbitrary: t)
  case (Cons tid q)
  from Cons.prems(2) show ?case
  proof (cases rule: resume_waiting_head [of t tid i q])
    case skip
    with Cons show ?thesis by simp
  next
    case (run st b t0 t1 es)
    have "kernel_ok t0" using run(4) kernel_ok_begin [OF Cons.prems] Cons.prems by blast
    then have "kernel_ok t1" unfolding run(5) by (intro kernel_ok_emit) simp_all
    with run(6) Cons.IH [of t1] show ?thesis by (cases "tr_capture t1") simp_all
  qed
qed (simp add: resume_waiting.simps)

lemma kernel_ok_maybe: "kernel_ok t \<Longrightarrow> kernel_ok (maybe_resume_waiting_fgraph_tid i t)"
  by (simp add: maybe_resume_waiting_fgraph_tid_def kernel_ok_resume)

lemma kernel_ok_entry:
  assumes "kernel_ok t" and "syscall_entry i pid regs t = (hold, t')"
  shows "kernel_ok t'"
  using assms kernel_ok_begin [OF assms(1)]
  by (auto simp: syscall_entry_def Let_def split: if_splits prod.splits)

lemma kernel_ok_exit: "kernel_ok t \<Longrightarrow> kernel_ok (snd (syscall_exit i pid regs st t))"
  unfolding syscall_exit_eq
  by (simp, rule kernel_ok_outside [of t "printed i pid regs st t"]) (simp_all add: printed_def)

lemma kernel_ok_handle:
  assumes "kernel_ok t"
  shows "kernel_ok (handle_status i pid status t)"
proof -
  let ?t = "drain_pipes i t"
  have d: "kernel_ok ?t" using assms by (simp add: drain_pipes_def)
  have gone: "kernel_ok (thread_gone i pid ?t)"
    using d kernel_ok_finish [OF d, of i]
    by (simp add: thread_gone_def Let_def kernel_ok_maybe kernel_ok_emit)
  have "kernel_ok (syscall_stop i pid ?t)"
  proof (cases rule: syscall_stop_cases [of i pid ?t])
    case unread
    with d show ?thesis by (simp add: kernel_ok_emit)
  next
    case (entry regs hold t1)
    with kernel_ok_entry [OF d entry(3)] show ?thesis by (simp add: kernel_ok_emit)
  next
    case (exit regs st finished t1)
    with kernel_ok_exit [OF d, of i pid regs st] have "kernel_ok t1" by simp
    then show ?thesis using exit(5) by (simp add: kernel_ok_emit kernel_ok_maybe kernel_ok_finish)
  qed
  moreover have "kernel_ok (signal_stop i pid status ?t)"
    using d by (simp add: signal_stop_def Let_def kernel_ok_emit split: option.split)
  ultimately show ?thesis using gone d by (simp add: handle_status_def Let_def)
qed

text \<open>The controller is never replaced.\<close>

lemma begin_for_controller: "tr_controller (snd (begin_for i pid st t)) = tr_controller t"
  by (simp add: begin_for_def split_beta)

lemma finish_controller: "tr_controller (finish_active i t) = tr_controller t"
  using finish_active_result [of i t] by auto

lemma resume_controller: "tr_capture t = None \<Longrightarrow> tr_controller (resume_waiting i q t) = tr_controller t"
proof (induction q arbitrary: t)
  case (Cons tid q)
  from Cons.prems show ?case
  proof (cases rule: resume_waiting_head [of t tid i q])
    case skip
    with Cons show ?thesis by simp
  next
    case (run st b t0 t1 es)
    have "tr_controller t1 = tr_controller t" using run(5,10) by (simp add: same_tables_def)
    with run(6) Cons.IH [of t1] show ?thesis by (cases "tr_capture t1") simp_all
  qed
qed (simp add: resume_waiting.simps)

lemma maybe_controller: "tr_controller (maybe_resume_waiting_fgraph_tid i t) = tr_controller t"
  by (simp add: maybe_resume_waiting_fgraph_tid_def resume_controller)

lemma handle_controller: "tr_controller (handle_status i pid status t) = tr_controller t"
proof -
  have "tr_controller (syscall_stop i pid t) = tr_controller t" for t
  proof (cases rule: syscall_stop_cases [of i pid t])
    case (entry regs hold t1)
    from entry(3) show ?thesis by (cases rule: syscall_entry_cases) (use entry(4) in auto)
  next
    case (exit regs st finished t1)
    then show ?thesis by (auto simp: maybe_controller finish_controller syscall_exit_eq)
  qed simp
  moreover have "tr_controller (signal_stop i pid status t) = tr_controller t" for t
    by (simp add: signal_stop_def Let_def split: option.split)
  ultimately show ?thesis
    by (simp add: handle_status_def Let_def thread_gone_def maybe_controller finish_controller)
qed

lemma loop_controller: "tr_controller (ptrace_loop answers t) = tr_controller t"
proof (induction answers arbitrary: t)
  case (Cons a answers)
  obtain w i where a: "a = (w, i)" by (cases a)
  have "tr_controller (snd (loop_step w i t)) = tr_controller t"
    by (cases w) (simp_all add: loop_step_def handle_controller)
  with Cons a show ?case by (auto split: prod.split)
qed simp

lemma kernel_ok_loop: "kernel_ok t \<Longrightarrow> kernel_ok (ptrace_loop answers t)"
proof (induction answers arbitrary: t)
  case (Cons a answers)
  obtain w i where a: "a = (w, i)" by (cases a)
  have "kernel_ok (snd (loop_step w i t))"
    using Cons.prems by (cases w) (simp_all add: loop_step_def kernel_ok_handle)
  with Cons.IH a show ?case by (auto split: prod.split)
qed simp

text \<open>Before the first capture, and after the loop.\<close>

lemma init_not_tracing:
  assumes "init_or_fail env cfg h = (Inr root, h')"
  shows "tracing root h' = None"
proof -
  obtain u where "and_then (validate_access env root) (\<lambda>_. apply_runtime_config env cfg root) h = (Inr u, h')"
    using assms by (auto simp: init_or_fail_def split: option.splits prod.splits sum.splits)
  then have "\<exists>h0. h' = h0 @ [TfWrote (tf_path root ''tracing_on'') ''0'', TfWrote (tf_path root ''set_ftrace_pid'') [newline],
      TfWrote (tf_path root ''current_tracer'') ''nop'', TfWrote (tf_path root ''trace'') [newline],
      TfWrote (tf_path root ''buffer_size_kb'') (dec (cfg_fgraph_buffer_kb cfg))]"
    by (auto simp: validate_access_def apply_runtime_config_def io_simps split: if_splits dest!: write_ok)
  then show ?thesis by (auto simp add: tracing_def contents_append)
qed

lemma setup_kernel_ok: "tracer_setup s target b d1 d2 w1 w2 = Some (Inr t) \<Longrightarrow> kernel_ok t"
  by (erule setup_cases) (auto simp: kernel_ok_def first_tracer_fields dest: init_not_tracing split: option.splits)

lemma loop_end_not_tracing:
  assumes "tr_controller t = Some root"
  shows "tf.in_step root None (loop_end i t)"
proof -
  have "tf.in_step root None (snd (reset_state env root h))" for env h
    using tf.in_step_reset by (metis prod.collapse)
  with assms show ?thesis
    by (simp add: loop_end_def Let_def TraceFsController_drop_def finish_controller)
qed

text \<open>C4. The kernel traces exactly the captured thread. At every moment of a run the thread whose
  capture is active is the thread the kernel traces. While no capture is active, and after the tracer
  has ended, even in the middle of a capture, the kernel traces no thread, unless it has refused the
  most recent write to \<open>tracing_on\<close>; a refusal in the past does not matter.\<close>

theorem kernel_traces_captured_thread:
  assumes "tracer_setup s target b d1 d2 w1 w2 = Some (Inr t0)" and "tr_controller t0 = Some root"
  shows "let t = ptrace_loop answers t0 in
    (case tr_capture t of
       Some c \<Rightarrow> tracing root (tr_history t) = Some (dec_int (ac_tid c))
     | None \<Rightarrow> refused root (tr_history t) \<or> tracing root (tr_history t) = None) \<and>
    (refused root (loop_end i t) \<or> tracing root (loop_end i t) = None)"
proof -
  let ?t = "ptrace_loop answers t0"
  have c: "tr_controller ?t = Some root" using loop_controller [of answers t0] assms(2) by simp
  with kernel_ok_loop [OF setup_kernel_ok [OF assms(1)], of answers] loop_end_not_tracing [OF c, of i]
  show ?thesis by (simp add: kernel_ok_def tf.in_step_def Let_def)
qed

theorem kernel_traces_captured_thread_witness:
  "\<exists>t0. tracer_setup calm_start 41 3 4 5 6 7 = Some (Inr t0) \<and>
     tracing ''/sys/kernel/tracing'' (tr_history (ptrace_loop
       [(Waited 41 syscall_status, window_stop), (Waited 42 syscall_status, calm_stop)] t0)) = Some (dec_int 41)"
proof -
  obtain t0 where t0: "tracer_setup calm_start 41 3 4 5 6 7 = Some (Inr t0)" "tr_controller t0 = Some ''/sys/kernel/tracing''"
    using calm_setup by blast
  let ?answers = "[(Waited 41 syscall_status, window_stop), (Waited 42 syscall_status, calm_stop)]"
  obtain c where "tr_capture (ptrace_loop ?answers t0) = Some c" "ac_tid c = 41"
    using calm_hold [OF t0(1)] unfolding Let_def by blast
  with kernel_traces_captured_thread [OF t0, of ?answers calm_stop] t0(1) show ?thesis
    unfolding Let_def by auto
qed

subsection \<open>One line for each system call\<close>

text \<open>The two flags of a capture do not show in a line.\<close>

definition flags_set :: "bool \<Rightarrow> bool \<Rightarrow> SyscallState \<Rightarrow> SyscallState" where
  "flags_set w c st = st\<lparr>st_fgraph_waiting := w, st_fgraph_capturing := c\<rparr>"

lemma flags_set_simps [simp]:
  "arg (flags_set w c st) n = arg st n" "arg_fd (flags_set w c st) n = arg_fd st n"
  "st_path_hint (flags_set w c st) = st_path_hint st" "st_nr (flags_set w c st) = st_nr st"
  "st_started_ts (flags_set w c st) = st_started_ts st" "st_args (flags_set w c st) = st_args st"
  "st_active (flags_set w c st) = st_active st" "st_internal (flags_set w c st) = st_internal st"
  "st_started_at (flags_set w c st) = st_started_at st"
  "flags_set w c (flags_set w' c' st) = flags_set w c st"
  by (simp_all add: flags_set_def arg_def arg_fd_def)

lemma flags_set_updates:
  "st\<lparr>st_fgraph_waiting := w\<rparr> = flags_set w (st_fgraph_capturing st) st"
  "st\<lparr>st_fgraph_capturing := c\<rparr> = flags_set (st_fgraph_waiting st) c st"
  "st\<lparr>st_fgraph_waiting := w, st_fgraph_capturing := c\<rparr> = flags_set w c st"
  "flags_set (st_fgraph_waiting st) (st_fgraph_capturing st) st = st"
  by (simp_all add: flags_set_def)

lemma arms_flags:
  "list_all (\<lambda>(nr, f). \<forall>x w c. f (x\<lparr>lc_state := flags_set w c (lc_state x)\<rparr>) = f x) syscall_arms"
  by (simp add: syscall_arms_def line_open_def line_openat_def line_close_def line_dup_def line_dup2_def
      line_dup3_def line_mmap_def line_munmap_def line_read_def line_write_def line_poll_def line_ppoll_def
      line_select_def line_pselect6_def line_stat_def line_lstat_def line_fstat_def line_newfstatat_def
      line_access_def line_faccessat_def line_lseek_def line_pread64_def line_pwrite64_def line_prctl_def
      line_futex_def line_ioctl_def Let_def cong: option.case_cong)

lemma arm_flags: "map_of syscall_arms nr = Some f \<Longrightarrow> f (x\<lparr>lc_state := flags_set w c (lc_state x)\<rparr>) = f x"
  using arms_flags by (auto simp: list_all_iff dest!: map_of_SomeD)

lemma format_flags:
  "format_syscall_line e pid (flags_set w c st) ret elapsed fd_paths hidden depth =
   format_syscall_line e pid st ret elapsed fd_paths hidden depth"
proof -
  have h: "is_hidden_fd_syscall (flags_set w c st) hidden = is_hidden_fd_syscall st hidden"
    "is_cudatrace_output_open cfg (flags_set w c st) = is_cudatrace_output_open cfg st" for cfg
    by (simp_all add: is_hidden_fd_syscall_def is_cudatrace_output_open_def)
  let ?x = "ctx_of e pid st ret elapsed fd_paths"
  have x: "ctx_of e pid (flags_set w c st) ret elapsed fd_paths = ?x\<lparr>lc_state := flags_set w c (lc_state ?x)\<rparr>"
    by (simp add: ctx_of_def)
  have "line_other (?x\<lparr>lc_state := flags_set w c (lc_state ?x)\<rparr>) = line_other ?x"
    by (simp add: line_other_def Let_def)
  then have c: "(case map_of syscall_arms (st_nr st) of Some f \<Rightarrow> f (ctx_of e pid (flags_set w c st) ret elapsed fd_paths)
        | None \<Rightarrow> line_other (ctx_of e pid (flags_set w c st) ret elapsed fd_paths)) =
      (case map_of syscall_arms (st_nr st) of Some f \<Rightarrow> f ?x | None \<Rightarrow> line_other ?x)"
    unfolding x using arm_flags [where nr = "st_nr st" and x = ?x and w = w and c = c] by (simp split: option.split)
  show ?thesis
    by (simp only: format_syscall_line_def split_beta Let_def h flags_set_simps c [unfolded ctx_of_def])
qed

text \<open>What the events of other threads leave of a thread: it gets no line, and the state of its system
  call stays, but for the two flags.\<close>

definition lines_of :: "pid_t \<Rightarrow> effect list \<Rightarrow> string list" where
  "lines_of pid es = map snd (filter (\<lambda>w. fst w = pid) (writes es))"

lemma lines_of_simps [simp]:
  "lines_of pid [] = []" "lines_of pid (es @ fs) = lines_of pid es @ lines_of pid fs"
  "lines_of pid (e # es) =
     (case written e of None \<Rightarrow> lines_of pid es
      | Some (p, line) \<Rightarrow> if p = pid then line # lines_of pid es else lines_of pid es)"
  by (simp_all add: lines_of_def split: option.split)

lemma no_lines [simp]: "writes es = [] \<Longrightarrow> lines_of pid es = []"
  by (simp add: lines_of_def)

definition keeps :: "pid_t \<Rightarrow> tracer \<Rightarrow> tracer \<Rightarrow> bool" where
  "keeps pid t t' \<longleftrightarrow>
     (\<exists>es. tr_history t' = tr_history t @ es \<and> lines_of pid es = []) \<and>
     (\<forall>st. tr_states t pid = Some st \<longrightarrow> (\<exists>w c. tr_states t' pid = Some (flags_set w c st)))"

lemma keepsI:
  assumes "tr_history t' = tr_history t @ es" "lines_of pid es = []" "tr_states t' pid = tr_states t pid"
  shows "keeps pid t t'"
  using assms unfolding keeps_def by (metis flags_set_updates(4))

lemma keeps_trans:
  assumes "keeps pid t t1" and "keeps pid t1 t2"
  shows "keeps pid t t2"
proof -
  obtain es fs where "tr_history t1 = tr_history t @ es" "lines_of pid es = []"
    "tr_history t2 = tr_history t1 @ fs" "lines_of pid fs = []"
    using assms by (auto simp: keeps_def)
  then have "tr_history t2 = tr_history t @ es @ fs" "lines_of pid (es @ fs) = []" by simp_all
  moreover have "\<exists>w c. tr_states t2 pid = Some (flags_set w c st)" if st: "tr_states t pid = Some st" for st
  proof -
    obtain w c where "tr_states t1 pid = Some (flags_set w c st)" using assms(1) st unfolding keeps_def by blast
    then obtain w' c' where "tr_states t2 pid = Some (flags_set w' c' (flags_set w c st))"
      using assms(2) unfolding keeps_def by blast
    then show ?thesis by auto
  qed
  ultimately show ?thesis unfolding keeps_def by blast
qed

lemma front_keeps:
  assumes "front t q k es t'"
  shows "keeps pid t t'"
proof (cases "pid \<in> set (resumes es)")
  case False
  with assms show ?thesis by (intro keepsI [of _ _ es]) (simp_all add: front_def)
next
  case True
  then obtain st c where "tr_states t pid = Some st" "tr_states t' pid = Some (flags_set False c st)"
    using assms unfolding front_def flags_set_def by blast
  with assms show ?thesis by (auto simp: keeps_def front_def)
qed

lemma release_keeps:
  assumes "keeps pid t t1" and "queue_inv (tr_waiting t1) t1" and "cap_inv t1"
  shows "keeps pid t (maybe_resume_waiting_fgraph_tid i t1)"
  using maybe_resume_ok(2) [OF assms(2,3)] front_keeps keeps_trans [OF assms(1)] by blast

lemma keeps_emit: "keeps pid t t' \<Longrightarrow> written e = None \<Longrightarrow> keeps pid t (emit e t')"
  by (erule keeps_trans) (rule keepsI [of _ _ "[e]"]; simp)

lemma printed_other: "p \<noteq> pid \<Longrightarrow> lines_of pid (printed i p regs st t) = []"
  by (simp add: printed_def)

lemma handle_keeps:
  assumes inv: "sched_inv t" and p: "p \<noteq> pid"
  shows "keeps pid t (handle_status i p status t)"
proof -
  let ?t = "drain_pipes i t"
  have d: "keeps pid t ?t" by (rule keepsI [of _ _ "[]"]) simp_all
  have i: "sched_inv ?t" using inv by simp
  have "keeps pid ?t (thread_gone i p ?t)"
  proof -
    obtain es where "tr_history (forget i p ?t) = tr_history ?t @ es" "quiet es"
      using forget_fields(1) [of i p ?t] by blast
    then have "keeps pid ?t (emit (CloseTid p) (forget i p ?t))"
      using p by (intro keepsI [of _ _ "es @ [CloseTid p]"]) (simp_all add: quietD forget_fields(2))
    then show ?thesis unfolding thread_gone_forget
      by (rule release_keeps) (simp_all add: forget_inv [OF i])
  qed
  moreover have "keeps pid ?t (syscall_stop i p ?t)"
  proof (cases rule: syscall_stop_cases [of i p ?t])
    case unread
    then show ?thesis by (intro keepsI [of _ _ "[Resume p 0]"]) simp_all
  next
    case (entry regs hold t1)
    from entry(3) have "keeps pid ?t t1"
    proof (cases rule: syscall_entry_cases)
      case (captured c es)
      with p show ?thesis by (intro keepsI [of _ _ es]) (simp_all add: quietD)
    next
      case (plain es)
      with p show ?thesis by (intro keepsI [of _ _ es]) (simp_all add: quietD)
    next
      case hold
      with p show ?thesis by (intro keepsI [of _ _ "[]"]) simp_all
    qed
    with entry(4) show ?thesis by (simp add: keeps_emit)
  next
    case (exit regs st finished t1)
    have k: "keeps pid ?t t1"
      using exit(4) p by (intro keepsI [of _ _ "printed i p regs st ?t"]) (auto simp: syscall_exit_eq printed_other)
    obtain es where "finish_active i t1 = t1\<lparr>tr_capture := None, tr_history := tr_history t1 @ es\<rparr>" "quiet es"
      using finish_active_result by blast
    then have "keeps pid t1 (finish_active i t1)" by (intro keepsI [of _ _ es]) (simp_all add: quietD)
    with k have f: "keeps pid ?t (finish_active i t1)" by (rule keeps_trans)
    show ?thesis
    proof (cases finished)
      case True
      with exit_inv(2) [OF i exit(2,3,4)] release_keeps [OF f] exit(5) show ?thesis by (simp add: keeps_emit)
    next
      case False
      with exit(5) k show ?thesis by (simp add: keeps_emit)
    qed
  qed
  moreover have "keeps pid ?t (signal_stop i p status ?t)"
    by (auto simp: signal_stop_def Let_def keepsI [of _ _ "[Resume p 0]"] intro!: keeps_emit keepsI [of _ _ "[]"]
        split: option.split)
  moreover have "keeps pid ?t ?t" by (rule keepsI [of _ _ "[]"]) simp_all
  ultimately have "keeps pid ?t (handle_status i p status t)"
    by (simp add: handle_status_def Let_def)
  with d show ?thesis by (rule keeps_trans)
qed

text \<open>A stretch of events of other threads, with threads left to wait for.\<close>

definition others_only :: "pid_t \<Rightarrow> (wait_answer \<times> stop_input) list \<Rightarrow> bool" where
  "others_only pid = list_all (\<lambda>(w, i). case w of WaitFailed err \<Rightarrow> err \<noteq> ECHILD | Waited p status \<Rightarrow> p \<noteq> pid)"

lemma loop_keeps:
  assumes "sched_inv t" and "others_only pid answers"
  shows "keeps pid t (ptrace_loop answers t) \<and> sched_inv (ptrace_loop answers t)"
  using assms
proof (induction answers arbitrary: t)
  case Nil
  then show ?case by (simp add: keepsI [of _ _ "[]"])
next
  case (Cons a answers)
  obtain w i where a: "a = (w, i)" by (cases a)
  obtain continue t1 where l: "loop_step w i t = (continue, t1)" by fastforce
  have "keeps pid t t1 \<and> continue"
  proof (cases w)
    case (WaitFailed err)
    with Cons.prems(2) l a have "t1 = t" "continue" by (auto simp: loop_step_def others_only_def split: if_splits)
    then show ?thesis by (simp add: keepsI [of _ _ "[]"])
  next
    case (Waited p status)
    with Cons.prems(2) a have "p \<noteq> pid" by (simp add: others_only_def)
    with Waited l handle_keeps [OF Cons.prems(1)] show ?thesis by (auto simp: loop_step_def)
  qed
  moreover have "sched_inv t1" using loop_step_inv [OF Cons.prems(1), of w i] l by simp
  moreover note l a
  ultimately show ?case using Cons.IH [of t1] Cons.prems(2) keeps_trans [of pid t t1]
    by (auto simp: others_only_def)
qed

lemma loop_append:
  "list_all (\<lambda>(w, i). w \<noteq> WaitFailed ECHILD) xs \<Longrightarrow> ptrace_loop (xs @ ys) t = ptrace_loop ys (ptrace_loop xs t)"
proof (induction xs arbitrary: t)
  case (Cons a xs)
  obtain w i where a: "a = (w, i)" by (cases a)
  with Cons.prems have "fst (loop_step w i t)" by (cases w) (auto simp: loop_step_def)
  with Cons a show ?case by (auto split: prod.split)
qed simp

lemma others_only_go: "others_only pid xs \<Longrightarrow> list_all (\<lambda>(w, i). w \<noteq> WaitFailed ECHILD) xs"
  by (auto simp: others_only_def list_all_iff split: wait_answer.splits)

lemma entry_drain [simp]: "entry_state i pid regs (drain_pipes j t) = entry_state i pid regs t"
  by (simp add: entry_state_def)

lemma entry_recorded:
  assumes "\<forall>st. tr_states t pid = Some st \<longrightarrow> \<not> st_active st" and "si_regs i = Some regs"
    and "wifstopped status" and "wstopsig status = SYSCALL_STOP_SIG"
  shows "\<exists>es w c. tr_history (handle_status i pid status t) = tr_history t @ es \<and> lines_of pid es = [] \<and>
    tr_states (handle_status i pid status t) pid = Some (flags_set w c (entry_state i pid regs t))"
proof -
  let ?t = "drain_pipes i t" and ?st = "entry_state i pid regs t"
  have w: "\<not> wifexited status" "\<not> wifsignaled status" using assms(3) wait_tests_exclusive by blast+
  then have h: "handle_status i pid status t = syscall_stop i pid ?t"
    using assms(3,4) by (simp add: handle_status_def)
  have n: "\<not> st_active (map_default (SyscallState_default (si_now i)) (tr_states ?t) pid)"
    using assms(1) by (cases "tr_states t pid") simp_all
  obtain hold t1 where e: "syscall_entry i pid regs ?t = (hold, t1)" by (cases "syscall_entry i pid regs ?t")
  have s: "syscall_stop i pid ?t = (if hold then t1 else emit (Resume pid 0) t1)"
    using assms(2) n e by (simp add: syscall_stop_def Let_def)
  have flags: "?st\<lparr>st_fgraph_capturing := True\<rparr> = flags_set False True ?st"
    "?st\<lparr>st_fgraph_waiting := True\<rparr> = flags_set True False ?st" "?st = flags_set False False ?st"
    by (simp_all add: flags_set_def entry_state_def Let_def)
  from e have "\<exists>es w c. tr_history t1 = tr_history t @ es \<and> lines_of pid es = [] \<and>
      tr_states t1 pid = Some (flags_set w c ?st)"
  proof (cases rule: syscall_entry_cases)
    case (captured c es)
    with flags(1) show ?thesis by (auto simp: quietD)
  next
    case (plain es)
    then have "tr_history t1 = tr_history t @ es" "lines_of pid es = []" "tr_states t1 pid = Some (flags_set False False ?st)"
      by (simp_all add: quietD flags(3) [symmetric])
    then show ?thesis by blast
  next
    case hold
    with flags(2) show ?thesis by auto
  qed
  then obtain es w c where "tr_history t1 = tr_history t @ es" "lines_of pid es = []"
    "tr_states t1 pid = Some (flags_set w c ?st)" by blast
  then have "tr_history (handle_status i pid status t) = tr_history t @ es @ (if hold then [] else [Resume pid 0])"
    "lines_of pid (es @ (if hold then [] else [Resume pid 0])) = []"
    "tr_states (handle_status i pid status t) pid = Some (flags_set w c ?st)"
    unfolding h s by simp_all
  then show ?thesis by blast
qed

lemma exit_printed:
  assumes inv: "sched_inv t" and st: "tr_states t pid = Some (flags_set w c st)" "st_active st"
    and "si_regs i = Some regs" "wifstopped status" "wstopsig status = SYSCALL_STOP_SIG"
  shows "\<exists>es. tr_history (handle_status i pid status t) = tr_history t @ es \<and>
    lines_of pid es =
      (let line = format_syscall_line (si_env i) pid st (u64_as_i64 (r_rax regs)) (si_now i - st_started_at st)
                    (tr_fd_paths t) (tr_hidden t) (unwrap_or 0 (tr_depth (drain_pipes i t) pid))
       in if st_internal st \<or> line = [] then [] else [line])"
proof -
  let ?t = "drain_pipes i t"
  have "\<not> wifexited status" "\<not> wifsignaled status" using assms(5) wait_tests_exclusive by blast+
  then have h: "handle_status i pid status t = syscall_stop i pid ?t"
    using assms(5,6) by (simp add: handle_status_def)
  have i: "sched_inv ?t" using inv by simp
  have a: "tr_states ?t pid = Some (flags_set w c st)" "st_active (flags_set w c st)" using st by simp_all
  obtain finished t1 where e: "syscall_exit i pid regs (flags_set w c st) ?t = (finished, t1)" by fastforce
  have s: "syscall_stop i pid ?t = emit (Resume pid 0)
      (if finished then maybe_resume_waiting_fgraph_tid i (finish_active i t1) else t1)"
    using assms(4) a e by (simp add: syscall_stop_def Let_def)
  have t1: "tr_history t1 = tr_history t @ printed i pid regs (flags_set w c st) ?t"
    using e by (auto simp: syscall_exit_eq)
  have "keeps pid t1 (if finished then maybe_resume_waiting_fgraph_tid i (finish_active i t1) else t1)"
  proof (cases finished)
    case True
    obtain es where "finish_active i t1 = t1\<lparr>tr_capture := None, tr_history := tr_history t1 @ es\<rparr>" "quiet es"
      using finish_active_result by blast
    then have "keeps pid t1 (finish_active i t1)" by (intro keepsI [of _ _ es]) (simp_all add: quietD)
    with True exit_inv(2) [OF i a e True] show ?thesis by (simp add: release_keeps)
  next
    case False
    then show ?thesis by (simp add: keepsI [of _ _ "[]"])
  qed
  then have "keeps pid t1 (handle_status i pid status t)" unfolding h s by (rule keeps_emit) simp
  then obtain es where "tr_history (handle_status i pid status t) = tr_history t1 @ es" "lines_of pid es = []"
    unfolding keeps_def by blast
  moreover have "exit_line i pid regs (flags_set w c st) ?t =
      format_syscall_line (si_env i) pid st (u64_as_i64 (r_rax regs)) (si_now i - st_started_at st)
        (tr_fd_paths t) (tr_hidden t) (unwrap_or 0 (tr_depth ?t pid))"
    by (simp add: exit_line_def flags_set_updates(2) format_flags)
  ultimately show ?thesis using t1 by (auto simp: Let_def printed_def)
qed

text \<open>C1. A system call is printed once, as it was made. Between its entry and its exit any events of
  other threads may happen, it may be held, let go and captured meanwhile: exactly one line is
  printed for the thread, made from the arguments at entry, the result at exit, and the tables
  and graph depth at exit; none if the call was made by the library itself or concerns its own
  output.\<close>

theorem syscalls_printed_once:
  assumes "tracer_setup s target b d1 d2 w1 w2 = Some (Inr t0)" and "t = ptrace_loop earlier t0"
    and "\<forall>st. tr_states t pid = Some st \<longrightarrow> \<not> st_active st"
    and "wifstopped s1" and "wstopsig s1 = SYSCALL_STOP_SIG" and "si_regs i1 = Some r1"
    and "others_only pid between"
    and "wifstopped s2" and "wstopsig s2 = SYSCALL_STOP_SIG" and "si_regs i2 = Some r2"
  shows "let u = ptrace_loop ((Waited pid s1, i1) # between) t;
             t' = ptrace_loop ((Waited pid s1, i1) # between @ [(Waited pid s2, i2)]) t;
             st = entry_state i1 pid r1 t;
             line = format_syscall_line (si_env i2) pid st (u64_as_i64 (r_rax r2)) (si_now i2 - si_now i1)
                      (tr_fd_paths u) (tr_hidden u) (unwrap_or 0 (tr_depth (drain_pipes i2 u) pid))
    in \<exists>es. tr_history t' = tr_history t @ es \<and>
         lines_of pid es = (if st_internal st \<or> line = [] then [] else [line])"
proof -
  let ?st = "entry_state i1 pid r1 t" and ?t1 = "handle_status i1 pid s1 t"
  have inv: "sched_inv ?t1" using loop_inv [OF assms(1), of earlier] assms(2) by (simp add: handle_status_inv)
  obtain es1 w c where e1: "tr_history ?t1 = tr_history t @ es1" "lines_of pid es1 = []"
    "tr_states ?t1 pid = Some (flags_set w c ?st)"
    using entry_recorded [OF assms(3,6,4,5)] by blast
  let ?u = "ptrace_loop between ?t1"
  have k: "keeps pid ?t1 ?u" "sched_inv ?u" using loop_keeps [OF inv assms(7)] by simp_all
  then obtain es2 w' c' where e2: "tr_history ?u = tr_history ?t1 @ es2" "lines_of pid es2 = []"
    "tr_states ?u pid = Some (flags_set w' c' ?st)"
    using e1(3) by (auto simp: keeps_def)
  from exit_printed [OF k(2) e2(3) _ assms(10,8,9)] obtain es3 where
    e3: "tr_history (handle_status i2 pid s2 ?u) = tr_history ?u @ es3"
    "lines_of pid es3 = (let line = format_syscall_line (si_env i2) pid ?st (u64_as_i64 (r_rax r2))
        (si_now i2 - st_started_at ?st) (tr_fd_paths ?u) (tr_hidden ?u) (unwrap_or 0 (tr_depth (drain_pipes i2 ?u) pid))
       in if st_internal ?st \<or> line = [] then [] else [line])" by auto
  have now: "st_started_at ?st = si_now i1" by (simp add: entry_state_def Let_def)
  have "ptrace_loop (between @ [(Waited pid s2, i2)]) ?t1 = handle_status i2 pid s2 ?u"
    using others_only_go [OF assms(7)] by (simp add: loop_append loop_step_def)
  with e1 e2 e3 now show ?thesis by (simp add: Let_def loop_step_def)
qed

theorem syscalls_printed_once_witness:
  "\<exists>t0 es. tracer_setup calm_start 41 3 4 5 6 7 = Some (Inr t0) \<and>
     tr_history (ptrace_loop [(Waited 41 syscall_status, calm_stop), (Waited 42 syscall_status, calm_stop),
       (Waited 41 syscall_status, calm_stop)] t0) = tr_history t0 @ es \<and> length (lines_of 41 es) \<le> 1"
proof -
  obtain t0 where t0: "tracer_setup calm_start 41 3 4 5 6 7 = Some (Inr t0)" "tr_states t0 = (\<lambda>_. None)"
    using calm_setup by blast
  obtain r where r: "si_regs calm_stop = Some r" by (simp add: calm_stop_def)
  have "others_only 41 [(Waited 42 syscall_status, calm_stop)]" by (simp add: others_only_def)
  from syscalls_printed_once [OF t0(1), of t0 "[]" 41 syscall_status calm_stop r _ syscall_status calm_stop r, OF _ _ _ _ _ this] t0 r
  obtain es where "tr_history (ptrace_loop [(Waited 41 syscall_status, calm_stop), (Waited 42 syscall_status, calm_stop),
      (Waited 41 syscall_status, calm_stop)] t0) = tr_history t0 @ es" "length (lines_of 41 es) \<le> 1"
    by (auto simp: Let_def split: if_splits)
  with t0(1) show ?thesis by blast
qed

end
