(* ===== verification/Ptrace_Writer.thy ===== *)
theory Ptrace_Writer
  imports Ptrace_Sched
begin

text \<open>
  \<open>FusedWriter\<close> of \<open>src/hook/ptrace.rs\<close>: the tracer writes the lines of each traced thread to
  that thread's file, which it opens at the first line and closes when the thread is gone. The
  system calls are those of \<open>Logger\<close>, with \<open>close\<close>. The map from threads to descriptors is
  an association list; the order in which the drop goes through it does not matter. At the end
  the writer is run on the history of the tracer's loop.
\<close>

subsection \<open>The program\<close>

record FusedWriter =
  fwr_output :: OutputMode
  fwr_base_path :: string
  fwr_fds :: "(pid_t \<times> rfd) list"

definition FusedWriter_from_config :: "Config \<Rightarrow> FusedWriter" where
  "FusedWriter_from_config cfg = \<lparr>fwr_output = cfg_output cfg, fwr_base_path = cfg_path cfg, fwr_fds = []\<rparr>"

text \<open>The tracer has its own copy of \<open>write_all\<close>, which does the same as the logger's.\<close>

definition tracer_write_all :: "'w kernel \<Rightarrow> rfd \<Rightarrow> string \<Rightarrow> 'w \<Rightarrow> (bool \<times> 'w) option" where
  "tracer_write_all = write_all"

definition fd_for_tid ::
    "'w kernel \<Rightarrow> FusedWriter \<Rightarrow> pid_t \<Rightarrow> 'w \<Rightarrow> rfd option \<times> FusedWriter \<times> 'w" where
  "fd_for_tid k self tid w =
     (case map_of (fwr_fds self) tid of
        Some fd \<Rightarrow> (Some fd, self, w)
      | None \<Rightarrow>
          (let path = fwr_base_path self @ ''.tid-'' @ dec_int tid
           in case open_output_file k path w of
                (None, w) \<Rightarrow> (None, self, w)
              | (Some fd, w) \<Rightarrow> (Some fd, self\<lparr>fwr_fds := (tid, fd) # fwr_fds self\<rparr>, w)))"

definition FusedWriter_write_line ::
    "'w kernel \<Rightarrow> FusedWriter \<Rightarrow> pid_t \<Rightarrow> string \<Rightarrow> 'w \<Rightarrow> (FusedWriter \<times> 'w) option" where
  "FusedWriter_write_line k self tid line w =
     (let bytes = line @ [newline]
      in case fwr_output self of
           Stdout \<Rightarrow> map_option (\<lambda>(_, w). (self, w)) (tracer_write_all k STDOUT_FILENO bytes w)
         | File \<Rightarrow>
             (case fd_for_tid k self tid w of
                (Some fd, self, w) \<Rightarrow>
                  Option.bind (tracer_write_all k fd bytes w) (\<lambda>(ok, w).
                    if \<not> ok then map_option (\<lambda>(_, w). (self, w)) (tracer_write_all k STDOUT_FILENO bytes w)
                    else Some (self, w))
              | (None, self, w) \<Rightarrow>
                  map_option (\<lambda>(_, w). (self, w)) (tracer_write_all k STDOUT_FILENO bytes w)))"

definition FusedWriter_close_tid ::
    "(rfd \<Rightarrow> 'w \<Rightarrow> 'w) \<Rightarrow> FusedWriter \<Rightarrow> pid_t \<Rightarrow> 'w \<Rightarrow> FusedWriter \<times> 'w" where
  "FusedWriter_close_tid close self tid w =
     (case map_of (fwr_fds self) tid of
        None \<Rightarrow> (self, w)
      | Some fd \<Rightarrow> (self\<lparr>fwr_fds := filter (\<lambda>e. fst e \<noteq> tid) (fwr_fds self)\<rparr>, close fd w))"

definition FusedWriter_drop :: "(rfd \<Rightarrow> 'w \<Rightarrow> 'w) \<Rightarrow> FusedWriter \<Rightarrow> 'w \<Rightarrow> 'w" where
  "FusedWriter_drop close self w = fold close (map snd (fwr_fds self)) w"

text \<open>The writer on a history of effects.\<close>

fun run_writer ::
    "'w kernel \<Rightarrow> (rfd \<Rightarrow> 'w \<Rightarrow> 'w) \<Rightarrow> effect list \<Rightarrow> FusedWriter \<Rightarrow> 'w \<Rightarrow> (FusedWriter \<times> 'w) option" where
  "run_writer k close [] self w = Some (self, w)"
| "run_writer k close (WriteLine tid line # es) self w =
     Option.bind (FusedWriter_write_line k self tid line w) (\<lambda>(self, w). run_writer k close es self w)"
| "run_writer k close (CloseTid tid # es) self w =
     (case FusedWriter_close_tid close self tid w of (self, w) \<Rightarrow> run_writer k close es self w)"
| "run_writer k close (_ # es) self w = run_writer k close es self w"

subsection \<open>What the code needs of the kernel\<close>

text \<open>What the kernel refuses: to open a path, or to write to a file for another reason than an
  interruption (a full disk, a closed pipe).\<close>

datatype refusal = No_open string | No_write string

text \<open>Files opened with \<open>O_APPEND\<close>: \<open>files\<close> says which path a descriptor is open on, \<open>data\<close> what a
  file holds, \<open>refusals\<close> what has been refused so far. A write takes a non-empty prefix of what is
  offered, is interrupted, finitely often in a row, or is refused; \<open>openat\<close> is refused, or returns
  an unused descriptor.\<close>

definition file_contract ::
    "'w kernel \<Rightarrow> (rfd \<Rightarrow> 'w \<Rightarrow> 'w) \<Rightarrow> ('w \<Rightarrow> rfd \<Rightarrow> string option) \<Rightarrow> ('w \<Rightarrow> string \<Rightarrow> string) \<Rightarrow>
     ('w \<Rightarrow> refusal list) \<Rightarrow> ('w \<Rightarrow> nat) \<Rightarrow> bool" where
  "file_contract k close files data refusals patience \<longleftrightarrow>
     (\<forall>fd d w r e w' p. d \<noteq> [] \<longrightarrow> files w fd = Some p \<longrightarrow> k_write k fd d w = (r, e, w') \<longrightarrow>
        r \<noteq> 0 \<and> r \<le> int (length d) \<and> files w' = files w \<and>
        (0 < r \<longrightarrow> data w' = (data w)(p := data w p @ take (nat r) d)) \<and>
        (r < 0 \<longrightarrow> data w' = data w \<and> (e = EINTR \<longrightarrow> patience w' < patience w)) \<and>
        refusals w' = refusals w @ (if r < 0 \<and> e \<noteq> EINTR then [No_write p] else [])) \<and>
     (\<forall>path w r w'. k_openat k path w = (r, w') \<longrightarrow>
        data w' = data w \<and> refusals w' = refusals w @ (if r < 0 then [No_open path] else []) \<and>
        (- (2 ^ 31) \<le> r \<and> r < 0 \<and> files w' = files w \<or>
         0 \<le> r \<and> r < 2 ^ 31 \<and> files w r = None \<and> files w' = (files w)(r \<mapsto> path))) \<and>
     (\<forall>fd w. files (close fd w) = (files w)(fd := None) \<and> data (close fd w) = data w \<and>
        refusals (close fd w) = refusals w)"

lemma file_write_all:
  assumes c: "file_contract k close files data refusals patience" and "files w fd = Some p"
  shows "\<exists>ok w' n. write_all k fd d w = Some (ok, w') \<and> files w' = files w \<and> n \<le> length d \<and>
    data w' = (data w)(p := data w p @ take n d) \<and> (ok \<longleftrightarrow> n = length d) \<and>
    refusals w' = refusals w @ (if ok then [] else [No_write p])"
  using assms(2)
proof (induction "(length d, patience w)" arbitrary: d w
    rule: wf_induct_rule [OF wf_lex_prod [OF wf_less wf_less]])
  case 1
  show ?case
  proof (cases "d = []")
    case True
    then show ?thesis by (auto simp: write_all.simps)
  next
    case False
    obtain r e w' where wr: "k_write k fd d w = (r, e, w')" by (metis prod_cases3)
    have k: "r \<noteq> 0 \<and> r \<le> int (length d) \<and> files w' = files w \<and>
        (0 < r \<longrightarrow> data w' = (data w)(p := data w p @ take (nat r) d)) \<and>
        (r < 0 \<longrightarrow> data w' = data w \<and> (e = EINTR \<longrightarrow> patience w' < patience w)) \<and>
        refusals w' = refusals w @ (if r < 0 \<and> e \<noteq> EINTR then [No_write p] else [])"
      using c False "1.prems" wr unfolding file_contract_def by blast
    consider (eintr) "r < 0" "e = EINTR" | (fail) "r < 0" "e \<noteq> EINTR" | (some) "0 < r"
      using k by fastforce
    then show ?thesis
    proof cases
      case eintr
      with k "1.hyps" [of d w'] "1.prems" wr False show ?thesis by (simp add: write_all.simps)
    next
      case fail
      with k wr False show ?thesis by (auto simp: write_all.simps intro!: exI [of _ 0])
    next
      case some
      let ?d = "drop (nat r) d"
      from some False have "length ?d < length d" by (cases d) auto
      with "1.hyps" [of ?d w'] k "1.prems" obtain ok w'' n where ih: "write_all k fd ?d w' = Some (ok, w'')"
        "files w'' = files w" "n \<le> length ?d" "data w'' = (data w')(p := data w' p @ take n ?d)"
        "ok \<longleftrightarrow> n = length ?d" "refusals w'' = refusals w' @ (if ok then [] else [No_write p])" by auto
      have "data w'' = (data w)(p := data w p @ take (nat r + n) d)" using ih(4) k some by (simp add: take_add)
      moreover have "write_all k fd d w = Some (ok, w'')"
        using ih(1) some wr False by (subst write_all.simps) simp
      moreover have "nat r + n \<le> length d" "ok \<longleftrightarrow> nat r + n = length d" using ih(3,5) k some by auto
      ultimately show ?thesis using ih(2,6) k some by auto
    qed
  qed
qed

subsection \<open>Each thread's lines in its file\<close>

definition thread_path :: "Config \<Rightarrow> pid_t \<Rightarrow> string" where
  "thread_path cfg tid = cfg_path cfg @ ''.tid-'' @ dec_int tid"

lemma thread_path_inj [simp]: "thread_path cfg a = thread_path cfg b \<longleftrightarrow> a = b"
  by (auto simp: thread_path_def dest: dec_int_inj)

text \<open>The writer's table: one open descriptor per thread, on the file of that thread. Standard output is
  open on another file. Beside the descriptors of the table, all are as they were at the start.\<close>

definition writer_ok ::
    "Config \<Rightarrow> string \<Rightarrow> (rfd \<Rightarrow> string option) \<Rightarrow> FusedWriter \<Rightarrow> (rfd \<Rightarrow> string option) \<Rightarrow> bool" where
  "writer_ok cfg out files0 self files \<longleftrightarrow>
     fwr_output self = File \<and> fwr_base_path self = cfg_path cfg \<and> distinct (map fst (fwr_fds self)) \<and>
     files STDOUT_FILENO = Some out \<and> out \<notin> range (thread_path cfg) \<and>
     (\<forall>(tid, fd) \<in> set (fwr_fds self). files fd = Some (thread_path cfg tid) \<and> files0 fd = None) \<and>
     (\<forall>fd. files fd = files0 fd \<or> (\<exists>tid. (tid, fd) \<in> set (fwr_fds self)))"

lemma writer_ok_get:
  "writer_ok cfg out files0 self files \<Longrightarrow> map_of (fwr_fds self) tid = Some fd \<Longrightarrow> files fd = Some (thread_path cfg tid)"
  by (auto simp: writer_ok_def dest: map_of_SomeD)

lemma writer_ok_entry:
  "writer_ok cfg out files0 self files \<Longrightarrow> (tid, fd) \<in> set (fwr_fds self) \<Longrightarrow>
     files fd = Some (thread_path cfg tid) \<and> files0 fd = None"
  unfolding writer_ok_def by blast

lemma writer_ok_rest:
  "writer_ok cfg out files0 self files \<Longrightarrow> \<forall>tid. (tid, fd) \<notin> set (fwr_fds self) \<Longrightarrow> files fd = files0 fd"
  unfolding writer_ok_def by blast

lemma writer_ok_unused:
  assumes "writer_ok cfg out files0 self files" and "files fd = None"
  shows "files0 fd = None"
  using writer_ok_entry [OF assms(1), of _ fd] writer_ok_rest [OF assms(1), of fd] assms(2) by metis

lemma no_nul: "char_of (0 :: nat) \<notin> set (dec_int i)"
proof -
  have "list_all (\<lambda>c. c \<noteq> char_of (0 :: nat)) (dec n)" for n
    by (rule list.pred_mono_strong [OF radix_chars]) (auto simp: is_hex_digit_def)
  then show ?thesis by (auto simp: dec_int_def list_all_iff char_of_def)
qed

lemma fd_for_tid_ok:
  assumes c: "file_contract k close files data refusals patience" and ok: "writer_ok cfg out files0 self (files w)"
    and nul: "char_of (0 :: nat) \<notin> set (cfg_path cfg)"
  obtains fd self' w' where "fd_for_tid k self tid w = (fd, self', w')" "writer_ok cfg out files0 self' (files w')"
    "data w' = data w"
    "refusals w' = refusals w @ (if fd = None then [No_open (thread_path cfg tid)] else [])"
    "case fd of None \<Rightarrow> True | Some f \<Rightarrow> files w' f = Some (thread_path cfg tid)"
proof (cases "map_of (fwr_fds self) tid")
  case (Some fd)
  with ok writer_ok_get [OF ok] that show ?thesis by (simp add: fd_for_tid_def)
next
  case None
  let ?p = "fwr_base_path self @ ''.tid-'' @ dec_int tid"
  have p: "?p = thread_path cfg tid" using ok by (simp add: writer_ok_def thread_path_def)
  obtain r w' where o: "k_openat k ?p w = (r, w')" by fastforce
  with c have r: "data w' = data w \<and> refusals w' = refusals w @ (if r < 0 then [No_open ?p] else []) \<and> (- (2 ^ 31) \<le> r \<and> r < 0 \<and> files w' = files w \<or>
      0 \<le> r \<and> r < 2 ^ 31 \<and> files w r = None \<and> files w' = (files w)(r \<mapsto> ?p))"
    unfolding file_contract_def by blast
  have nul': "char_of (0 :: nat) \<notin> set ?p"
    using nul ok no_nul [of tid] by (simp add: writer_ok_def char_of_def)
  show ?thesis
  proof (cases "r < 0")
    case True
    with o r nul' have "open_output_file k ?p w = (None, w')"
      by (simp add: open_output_file_def Let_def i64_as_i32_small)
    with True r ok None p that show ?thesis by (simp add: fd_for_tid_def Let_def)
  next
    case False
    with o r nul' have "open_output_file k ?p w = (Some r, w')"
      by (simp add: open_output_file_def Let_def i64_as_i32_small)
    moreover have "files0 r = None" using False r writer_ok_unused [OF ok] by simp
    then have "writer_ok cfg out files0 (self\<lparr>fwr_fds := (tid, r) # fwr_fds self\<rparr>) (files w')"
      using False ok None r p by (auto simp: writer_ok_def map_of_eq_None_iff)
    ultimately show ?thesis using False None r p that by (simp add: fd_for_tid_def Let_def)
  qed
qed

lemma closed_writer_ok:
  assumes c: "file_contract k close files data refusals patience" and ok: "writer_ok cfg out files0 self (files w)"
    and g: "FusedWriter_close_tid close self tid w = (self', w')"
  shows "writer_ok cfg out files0 self' (files w')"
proof (cases "map_of (fwr_fds self) tid")
  case None
  with ok g show ?thesis by (simp add: FusedWriter_close_tid_def)
next
  case (Some fd)
  then have f: "files w fd = Some (thread_path cfg tid)" by (rule writer_ok_get [OF ok])
  have e: "self' = self\<lparr>fwr_fds := filter (\<lambda>e. fst e \<noteq> tid) (fwr_fds self)\<rparr>" "files w' = (files w)(fd := None)"
    using g Some c by (auto simp: FusedWriter_close_tid_def file_contract_def)
  have "files w' fd' = Some (thread_path cfg t)" if "(t, fd') \<in> set (fwr_fds self)" "t \<noteq> tid" for t fd'
  proof -
    have "files w fd' = Some (thread_path cfg t)" using ok that(1) by (auto simp: writer_ok_def)
    with f that(2) show ?thesis by (auto simp: e)
  qed
  moreover have "files0 fd' = None" if "(t, fd') \<in> set (fwr_fds self)" for t fd'
    using writer_ok_entry [OF ok that] by simp
  moreover have "files w' fd' = files0 fd' \<or> (\<exists>t. (t, fd') \<in> set (fwr_fds self) \<and> t \<noteq> tid)" for fd'
  proof (cases "fd' = fd")
    case True
    with writer_ok_entry [OF ok map_of_SomeD [OF Some]] show ?thesis by (simp add: e)
  next
    case False
    then have "files w' fd' = files w fd'" by (simp add: e)
    moreover have "(tid, fd') \<notin> set (fwr_fds self)"
      using ok Some False by (metis map_of_is_SomeI option.inject writer_ok_def)
    ultimately show ?thesis using writer_ok_rest [OF ok, of fd'] by metis
  qed
  moreover have "STDOUT_FILENO \<noteq> fd" using ok f by (auto simp: writer_ok_def)
  moreover have "fwr_output self = File" "fwr_base_path self = cfg_path cfg" "distinct (map fst (fwr_fds self))"
    "files w STDOUT_FILENO = Some out" "out \<notin> range (thread_path cfg)" using ok by (auto simp: writer_ok_def)
  ultimately show ?thesis unfolding writer_ok_def e(1) by (simp add: distinct_map_filter e(2)) blast
qed

text \<open>What becomes of a line of \<open>b\<close> bytes: it is whole in its thread's file; or that file took only the
  first \<open>n\<close> bytes before it refused, or could not be opened, and standard output has the first
  \<open>m\<close> bytes of a copy, all of them unless it refused too.\<close>

datatype outcome = Whole | Cut nat nat | Unopened nat

fun outcome_ok :: "nat \<Rightarrow> outcome \<Rightarrow> bool" where
  "outcome_ok b Whole = True"
| "outcome_ok b (Cut n m) = (n < b \<and> m \<le> b)"
| "outcome_ok b (Unopened m) = (m \<le> b)"

fun file_share :: "outcome \<Rightarrow> string \<Rightarrow> string" where
  "file_share Whole bytes = bytes"
| "file_share (Cut n m) bytes = take n bytes"
| "file_share (Unopened m) bytes = []"

fun stdout_share :: "outcome \<Rightarrow> string \<Rightarrow> string" where
  "stdout_share Whole bytes = []"
| "stdout_share (Cut n m) bytes = take m bytes"
| "stdout_share (Unopened m) bytes = take m bytes"

text \<open>The refusals that bring about an outcome, in their order.\<close>

fun refusals_of :: "string \<Rightarrow> string \<Rightarrow> nat \<Rightarrow> outcome \<Rightarrow> refusal list" where
  "refusals_of path out b Whole = []"
| "refusals_of path out b (Cut n m) = No_write path # (if m < b then [No_write out] else [])"
| "refusals_of path out b (Unopened m) = No_open path # (if m < b then [No_write out] else [])"

text \<open>For printed lines with their outcomes: what the file of a thread gets, what standard output gets,
  and what the kernel must have refused.\<close>

definition in_file :: "((pid_t \<times> string) \<times> outcome) list \<Rightarrow> pid_t \<Rightarrow> string" where
  "in_file ws tid = concat (map (\<lambda>((t, line), oc). if t = tid then file_share oc (line @ [newline]) else []) ws)"

definition in_stdout :: "((pid_t \<times> string) \<times> outcome) list \<Rightarrow> string" where
  "in_stdout ws = concat (map (\<lambda>((t, line), oc). stdout_share oc (line @ [newline])) ws)"

definition explained :: "Config \<Rightarrow> string \<Rightarrow> ((pid_t \<times> string) \<times> outcome) list \<Rightarrow> refusal list" where
  "explained cfg out ws =
     concat (map (\<lambda>((t, line), oc). refusals_of (thread_path cfg t) out (length line + 1) oc) ws)"

text \<open>What the files hold afterwards.\<close>

definition grown :: "Config \<Rightarrow> string \<Rightarrow> ((pid_t \<times> string) \<times> outcome) list \<Rightarrow> (string \<Rightarrow> string) \<Rightarrow> (string \<Rightarrow> string) \<Rightarrow> bool" where
  "grown cfg out ws d d' \<longleftrightarrow>
     (\<forall>tid. d' (thread_path cfg tid) = d (thread_path cfg tid) @ in_file ws tid) \<and>
     d' out = d out @ in_stdout ws \<and> (\<forall>q. q \<noteq> out \<longrightarrow> q \<notin> range (thread_path cfg) \<longrightarrow> d' q = d q)"

lemmas share_defs = in_file_def in_stdout_def explained_def grown_def

lemma shares_append [simp]:
  "in_file (us @ ws) tid = in_file us tid @ in_file ws tid" "in_stdout (us @ ws) = in_stdout us @ in_stdout ws"
  "explained cfg out (us @ ws) = explained cfg out us @ explained cfg out ws"
  by (simp_all add: share_defs)

lemma grown_trans: "grown cfg out us d d1 \<Longrightarrow> grown cfg out ws d1 d2 \<Longrightarrow> grown cfg out (us @ ws) d d2"
  by (simp add: grown_def)

lemma line_written:
  assumes c: "file_contract k close files data refusals patience" and nul: "char_of (0 :: nat) \<notin> set (cfg_path cfg)"
    and ok: "writer_ok cfg out files0 self (files w)"
  shows "\<exists>self' w' oc. FusedWriter_write_line k self tid line w = Some (self', w') \<and> writer_ok cfg out files0 self' (files w') \<and>
    outcome_ok (length line + 1) oc \<and> grown cfg out [((tid, line), oc)] (data w) (data w') \<and>
    refusals w' = refusals w @ explained cfg out [((tid, line), oc)]"
proof -
  let ?b = "line @ [newline]" and ?p = "thread_path cfg tid"
  have out: "out \<notin> range (thread_path cfg)" and fo: "fwr_output self = File"
    using ok by (simp_all add: writer_ok_def)
  obtain fd self1 w1 where f: "fd_for_tid k self tid w = (fd, self1, w1)" "writer_ok cfg out files0 self1 (files w1)"
    "data w1 = data w" "refusals w1 = refusals w @ (if fd = None then [No_open ?p] else [])"
    "case fd of None \<Rightarrow> True | Some f \<Rightarrow> files w1 f = Some ?p"
    using fd_for_tid_ok [OF c ok nul] by metis
  have std: "\<exists>ok w' m. write_all k STDOUT_FILENO ?b v = Some (ok, w') \<and> files w' = files v \<and> m \<le> length ?b \<and>
      data w' = (data v)(out := data v out @ take m ?b) \<and>
      refusals w' = refusals v @ (if m < length ?b then [No_write out] else [])"
    if "files v = files w1" for v
    using file_write_all [OF c, of v STDOUT_FILENO out ?b] f(2) that by (fastforce simp: writer_ok_def)
  show ?thesis
  proof (cases fd)
    case None
    from std [OF refl] obtain ok2 w2 m where s: "write_all k STDOUT_FILENO ?b w1 = Some (ok2, w2)" "files w2 = files w1"
      "m \<le> length ?b" "data w2 = (data w1)(out := data w1 out @ take m ?b)"
      "refusals w2 = refusals w1 @ (if m < length ?b then [No_write out] else [])" by blast
    with None f fo out show ?thesis
      by (intro exI [of _ self1] exI [of _ w2] exI [of _ "Unopened m"])
        (auto simp: FusedWriter_write_line_def Let_def tracer_write_all_def share_defs)
  next
    case (Some g)
    with f(5) have "files w1 g = Some ?p" by simp
    from file_write_all [OF c this, of ?b] obtain ok1 w2 n where
      g: "write_all k g ?b w1 = Some (ok1, w2)" "files w2 = files w1" "n \<le> length ?b"
      "data w2 = (data w1)(?p := data w1 ?p @ take n ?b)" "ok1 \<longleftrightarrow> n = length ?b"
      "refusals w2 = refusals w1 @ (if ok1 then [] else [No_write ?p])" by blast
    show ?thesis
    proof (cases ok1)
      case True
      with Some f fo out g show ?thesis
        by (intro exI [of _ self1] exI [of _ w2] exI [of _ Whole])
          (auto simp: FusedWriter_write_line_def Let_def tracer_write_all_def share_defs)
    next
      case False
      from std [OF g(2)] obtain ok2 w3 m where s: "write_all k STDOUT_FILENO ?b w2 = Some (ok2, w3)"
        "files w3 = files w2" "m \<le> length ?b" "data w3 = (data w2)(out := data w2 out @ take m ?b)"
        "refusals w3 = refusals w2 @ (if m < length ?b then [No_write out] else [])" by blast
      with Some f fo out g False show ?thesis
        by (intro exI [of _ self1] exI [of _ w3] exI [of _ "Cut n m"])
          (auto simp: FusedWriter_write_line_def Let_def tracer_write_all_def share_defs)
    qed
  qed
qed

lemma run_writer_ok:
  assumes c: "file_contract k close files data refusals patience" and nul: "char_of (0 :: nat) \<notin> set (cfg_path cfg)"
    and "writer_ok cfg out files0 self (files w)"
  shows "\<exists>self' w' ocs. run_writer k close es self w = Some (self', w') \<and> writer_ok cfg out files0 self' (files w') \<and>
    list_all2 (\<lambda>(tid, line). outcome_ok (length line + 1)) (writes es) ocs \<and>
    grown cfg out (zip (writes es) ocs) (data w) (data w') \<and>
    refusals w' = refusals w @ explained cfg out (zip (writes es) ocs)"
  using assms(3)
proof (induction es arbitrary: self w)
  case Nil
  then show ?case by (simp add: share_defs)
next
  case (Cons e es)
  consider (line) tid line where "e = WriteLine tid line" | (gone) tid where "e = CloseTid tid"
    | (other) "written e = None" "run_writer k close (e # es) self w = run_writer k close es self w"
    by (cases e) simp_all
  then show ?case
  proof cases
    case line
    obtain self1 w1 oc where l: "FusedWriter_write_line k self tid line w = Some (self1, w1)"
      "writer_ok cfg out files0 self1 (files w1)" "outcome_ok (length line + 1) oc"
      "grown cfg out [((tid, line), oc)] (data w) (data w1)"
      "refusals w1 = refusals w @ explained cfg out [((tid, line), oc)]"
      using line_written [OF c nul Cons.prems] by blast
    obtain self2 w2 ocs where ih: "run_writer k close es self1 w1 = Some (self2, w2)" "writer_ok cfg out files0 self2 (files w2)"
      "list_all2 (\<lambda>(tid, line). outcome_ok (length line + 1)) (writes es) ocs"
      "grown cfg out (zip (writes es) ocs) (data w1) (data w2)"
      "refusals w2 = refusals w1 @ explained cfg out (zip (writes es) ocs)"
      using Cons.IH [OF l(2)] by blast
    have "grown cfg out (((tid, line), oc) # zip (writes es) ocs) (data w) (data w2)"
      using grown_trans [OF l(4) ih(4)] by simp
    moreover have "refusals w2 = refusals w @ explained cfg out (((tid, line), oc) # zip (writes es) ocs)"
      using ih(5) l(5) by (simp add: explained_def)
    ultimately show ?thesis using l(1,3) ih(1-3) line
      by (intro exI [of _ self2] exI [of _ w2] exI [of _ "oc # ocs"]) simp
  next
    case gone
    obtain self1 w1 where g: "FusedWriter_close_tid close self tid w = (self1, w1)"
      by (cases "FusedWriter_close_tid close self tid w")
    have "data w1 = data w" "refusals w1 = refusals w"
      using g c by (auto simp: FusedWriter_close_tid_def file_contract_def split: option.splits)
    moreover have "writer_ok cfg out files0 self1 (files w1)" using closed_writer_ok [OF c Cons.prems g] .
    ultimately show ?thesis using Cons.IH [of self1 w1] g gone by simp
  next
    case other
    with Cons show ?thesis by simp
  qed
qed

text \<open>C7. What is traced of a thread is in its file. For any history of the tracer, in particular with
  threads that end and whose ids are used again, there is one outcome for each printed line, and
  each place holds, in the order of printing, exactly what the outcomes give it. A line is whole in
  its thread's file and nowhere else, except where the kernel refused to open that file or to write
  to it: then standard output gets the whole line, or as much as it takes. The outcomes account
  for exactly what the kernel refused, in that order, so that a kernel that refuses nothing has
  every line in its thread's file. No other file is written, and once
  the writer is dropped every descriptor is as it was before.\<close>

theorem lines_reach_thread_files:
  assumes "file_contract k close files data refusals patience" and "char_of (0 :: nat) \<notin> set (cfg_path cfg)"
    and "cfg_output cfg = File" and "files w STDOUT_FILENO = Some out" and "out \<notin> range (thread_path cfg)"
  shows "\<exists>self' w' ocs. run_writer k close es (FusedWriter_from_config cfg) w = Some (self', w') \<and>
    list_all2 (\<lambda>(tid, line). outcome_ok (length line + 1)) (writes es) ocs \<and>
    refusals w' = refusals w @ explained cfg out (zip (writes es) ocs) \<and>
    (\<forall>tid. data w' (thread_path cfg tid) = data w (thread_path cfg tid) @ in_file (zip (writes es) ocs) tid) \<and>
    data w' out = data w out @ in_stdout (zip (writes es) ocs) \<and>
    (\<forall>q. q \<noteq> out \<longrightarrow> q \<notin> range (thread_path cfg) \<longrightarrow> data w' q = data w q) \<and>
    files (FusedWriter_drop close self' w') = files w"
proof -
  have "writer_ok cfg out (files w) (FusedWriter_from_config cfg) (files w)"
    using assms(3-5) by (simp add: writer_ok_def FusedWriter_from_config_def)
  from run_writer_ok [OF assms(1,2) this, of es] obtain self' w' ocs where
    r: "run_writer k close es (FusedWriter_from_config cfg) w = Some (self', w')"
    "writer_ok cfg out (files w) self' (files w')"
    "list_all2 (\<lambda>(tid, line). outcome_ok (length line + 1)) (writes es) ocs"
    "grown cfg out (zip (writes es) ocs) (data w) (data w')"
    "refusals w' = refusals w @ explained cfg out (zip (writes es) ocs)" by blast
  have "files (fold close fds v) fd = (if fd \<in> set fds then None else files v fd)" for fds v fd
  proof (induction fds arbitrary: v)
    case (Cons x fds)
    then show ?case using assms(1) by (auto simp: file_contract_def)
  qed simp
  then have "files (FusedWriter_drop close self' w') = files w"
    using writer_ok_entry [OF r(2)] writer_ok_rest [OF r(2)]
    by (intro ext) (force simp: FusedWriter_drop_def)
  with r show ?thesis unfolding grown_def by blast
qed

text \<open>A file system that takes at most three bytes per write, has room for two open files, and keeps at
  most six bytes in each file but standard output.\<close>

type_synonym small_fs = "(rfd \<Rightarrow> string option) \<times> (string \<Rightarrow> string) \<times> refusal list"

definition small_kernel :: "small_fs kernel" where
  "small_kernel =
     \<lparr>k_write = (\<lambda>fd d (files, data, rs). case files fd of
          None \<Rightarrow> (- 1, EBADF, (files, data, rs))
        | Some p \<Rightarrow>
            if p \<noteq> ''out'' \<and> 4 \<le> length (data p) then (- 1, EBADF, (files, data, rs @ [No_write p]))
            else (int (min 3 (length d)), 0, (files, data(p := data p @ take 3 d), rs))),
      k_openat = (\<lambda>path (files, data, rs).
          if files 5 = None then (5, (files(5 \<mapsto> path), data, rs))
          else if files 6 = None then (6, (files(6 \<mapsto> path), data, rs))
          else (-1, (files, data, rs @ [No_open path]))),
      k_gettid = 41\<rparr>"

definition small_close :: "rfd \<Rightarrow> small_fs \<Rightarrow> small_fs" where
  "small_close fd w = (case w of (files, data, rs) \<Rightarrow> (files(fd := None), data, rs))"

lemma small_contract:
  "file_contract small_kernel small_close fst (\<lambda>w. fst (snd w)) (\<lambda>w. snd (snd w)) (\<lambda>_. 0)"
  by (auto simp: file_contract_def small_kernel_def small_close_def min_def EBADF_def EINTR_def split: if_splits)

theorem lines_reach_thread_files_witness:
  "\<exists>self' w' ocs.
     run_writer small_kernel small_close
       [WriteLine 41 ''read()'', WriteLine 42 ''write()'', WriteLine 43 ''brk()'', CloseTid 41, WriteLine 41 ''close()'']
       (FusedWriter_from_config plain_config) ([1 \<mapsto> ''out''], \<lambda>_. [], []) = Some (self', w') \<and>
     (let ws = zip [(41, ''read()''), (42, ''write()''), (43, ''brk()''), (41, ''close()'')] ocs
      in length ocs = 4 \<and> fst (snd w') (thread_path plain_config 41) = in_file ws 41 \<and>
         snd (snd w') = explained plain_config ''out'' ws)"
proof -
  have out: "''out'' \<notin> range (thread_path plain_config)" "char_of (0 :: nat) \<notin> set (cfg_path plain_config)"
    by (auto simp: thread_path_def plain_config_path char_of_def)
  let ?es = "[WriteLine 41 ''read()'', WriteLine 42 ''write()'', WriteLine 43 ''brk()'', CloseTid 41, WriteLine 41 ''close()'']"
  have "cfg_output plain_config = File"
    by (simp add: plain_config_def from_lookup_def Let_def parse_output_def)
  from lines_reach_thread_files [OF small_contract out(2) this, of "([1 \<mapsto> ''out''], \<lambda>_. [], [])" "''out''" ?es] out(1)
  obtain self' w' ocs where r: "run_writer small_kernel small_close ?es (FusedWriter_from_config plain_config)
      ([1 \<mapsto> ''out''], \<lambda>_. [], []) = Some (self', w')"
    "list_all2 (\<lambda>(tid, line). outcome_ok (length line + 1)) (writes ?es) ocs"
    "\<forall>tid. fst (snd w') (thread_path plain_config tid) = in_file (zip (writes ?es) ocs) tid"
    "snd (snd w') = explained plain_config ''out'' (zip (writes ?es) ocs)"
    by (auto simp: STDOUT_FILENO_def simp del: writes_simps run_writer.simps)
  have "writes ?es = [(41, ''read()''), (42, ''write()''), (43, ''brk()''), (41, ''close()'')]" by simp
  with r list_all2_lengthD [OF r(2)] show ?thesis
    by (intro exI [of _ self'] exI [of _ w'] exI [of _ ocs]) (simp add: Let_def)
qed

end
