(* ===== verification/Graph.thy ===== *)
theory Graph
  imports Line_Meta
begin

text \<open>
  \<open>src/graph.rs\<close>: the per-thread stack of traced calls, and the lines printed when a call is
  entered and left. The thread-local \<open>STACK\<close> is \<open>Some frames\<close> with the top at the end (a
  \<open>Vec\<close>), or \<open>None\<close> while it is torn down. An operation returns the new stack, the depth it
  passes to \<open>publish_graph_depth\<close> and the lines it passes to \<open>log_line\<close>, in order. Instants
  and times since the epoch are nanoseconds and arguments; so is the thread id.
\<close>

subsection \<open>The program\<close>

record Frame =
  fr_func :: string
  fr_args :: string
  fr_depth :: nat
  fr_started_ts :: nat
  fr_started_at :: nat
  fr_has_child :: bool
  fr_enter_printed :: bool

record graph_out =
  go_depth :: "nat option"
  go_lines :: "string list"

definition force_brace_mode :: "Config \<Rightarrow> bool" where
  "force_brace_mode cfg = mask_syscall (cfg_trace cfg)"

definition duration_for_config :: "Config \<Rightarrow> nat \<Rightarrow> nat \<times> string" where
  "duration_for_config cfg ns =
     (case cfg_time_unit cfg of Ns \<Rightarrow> (ns, ''ns'') | Us \<Rightarrow> (ns div 1000, ''us''))"

definition format_open_line :: "nat \<Rightarrow> string \<Rightarrow> string \<Rightarrow> string" where
  "format_open_line depth func args = tabs depth @ func @ ''('' @ args @ '') {''"

definition format_close_line :: "nat \<Rightarrow> string \<Rightarrow> nat \<Rightarrow> string \<Rightarrow> string" where
  "format_close_line depth ret elapsed_value elapsed_unit =
     tabs depth @ ''} = '' @ ret @ ''  /* '' @ dec elapsed_value @ '' '' @ elapsed_unit @ '' */''"

definition format_leaf_line :: "nat \<Rightarrow> string \<Rightarrow> string \<Rightarrow> string \<Rightarrow> nat \<Rightarrow> string \<Rightarrow> string" where
  "format_leaf_line depth func args ret elapsed_value elapsed_unit =
     tabs depth @ func @ ''('' @ args @ '') = '' @ ret @ ''  /* '' @ dec elapsed_value @ '' '' @
     elapsed_unit @ '' */''"

definition enter ::
    "Config \<Rightarrow> i32 \<Rightarrow> nat \<Rightarrow> nat \<Rightarrow> string \<Rightarrow> string \<Rightarrow> Frame list option \<Rightarrow> Frame list option \<times> graph_out" where
  "enter cfg tid now epoch func args tls =
     (let now_ts = (if include_timestamp (cfg_left_meta cfg) then now_timestamp_for_config cfg epoch
                    else 0);
          eager_open = force_brace_mode cfg
      in case tls of
           None \<Rightarrow> (None, \<lparr>go_depth = None, go_lines = []\<rparr>)
         | Some stack \<Rightarrow>
             (let (stack, parent_to_open) =
                    (case last_opt stack of
                       None \<Rightarrow> (stack, None)
                     | Some parent \<Rightarrow>
                         if \<not> fr_has_child parent then
                           (butlast stack @ [parent\<lparr>fr_has_child := True, fr_enter_printed := True\<rparr>],
                            if \<not> fr_enter_printed parent then
                              Some (fr_depth parent, fr_func parent, fr_args parent, fr_started_ts parent)
                            else None)
                         else (stack, None));
                  depth = length stack;
                  self_to_open = (if eager_open then Some (depth, func, args, now_ts) else None);
                  stack = stack @ [\<lparr>fr_func = func, fr_args = args, fr_depth = depth,
                    fr_started_ts = now_ts, fr_started_at = now, fr_has_child = False,
                    fr_enter_printed = eager_open\<rparr>];
                  open_line = (\<lambda>t. case t of
                    None \<Rightarrow> []
                  | Some (depth, func, args, started_ts) \<Rightarrow>
                      [prepend_left_meta cfg (format_open_line depth func args) tid started_ts])
              in (Some stack, \<lparr>go_depth = Some (length stack),
                   go_lines = open_line parent_to_open @ open_line self_to_open\<rparr>)))"

definition exit :: "Config \<Rightarrow> i32 \<Rightarrow> nat \<Rightarrow> string \<Rightarrow> Frame list option \<Rightarrow> Frame list option \<times> graph_out" where
  "exit cfg tid now ret tls =
     (case tls of
        None \<Rightarrow> (None, \<lparr>go_depth = None, go_lines = []\<rparr>)
      | Some [] \<Rightarrow> (Some [], \<lparr>go_depth = None, go_lines = []\<rparr>)
      | Some stack \<Rightarrow>
          (let frame = last stack;
               stack = butlast stack;
               (elapsed_value, elapsed_unit) = duration_for_config cfg (now - fr_started_at frame);
               meta = (\<lambda>line. prepend_left_meta cfg line tid (fr_started_ts frame))
           in (Some stack, \<lparr>go_depth = Some (length stack),
                go_lines =
                  (if force_brace_mode cfg \<or> fr_has_child frame then
                     (if \<not> fr_enter_printed frame then
                        [meta (format_open_line (fr_depth frame) (fr_func frame) (fr_args frame))]
                      else []) @
                     [meta (format_close_line (fr_depth frame) ret elapsed_value elapsed_unit)]
                   else
                     [meta (format_leaf_line (fr_depth frame) (fr_func frame) (fr_args frame) ret
                        elapsed_value elapsed_unit)])\<rparr>)))"

subsection \<open>The specification: a call tree and its picture\<close>

text \<open>A call with its arguments, when it started (instant and epoch), the calls it made, what it
  returned and when. \<open>events\<close> is the order in which the hooks see them.\<close>

datatype call = Call string string nat nat "call list" string nat

datatype gevent = GEnter string string nat nat | GExit string nat

fun events :: "call \<Rightarrow> gevent list" and eventss :: "call list \<Rightarrow> gevent list" where
  "events (Call f a i ts kids r j) = GEnter f a i ts # eventss kids @ [GExit r j]"
| "eventss [] = []"
| "eventss (c # cs) = events c @ eventss cs"

fun graph_step :: "Config \<Rightarrow> i32 \<Rightarrow> gevent \<Rightarrow> Frame list option \<Rightarrow> Frame list option \<times> graph_out" where
  "graph_step cfg tid (GEnter f a i ts) tls = enter cfg tid i ts f a tls"
| "graph_step cfg tid (GExit r j) tls = exit cfg tid j r tls"

fun graph_run :: "Config \<Rightarrow> i32 \<Rightarrow> gevent list \<Rightarrow> Frame list option \<Rightarrow>
    Frame list option \<times> nat option list \<times> string list" where
  "graph_run cfg tid [] tls = (tls, [], [])"
| "graph_run cfg tid (e # es) tls =
     (let (tls, go) = graph_step cfg tid e tls;
          (tls, ds, ls) = graph_run cfg tid es tls
      in (tls, go_depth go # ds, go_lines go @ ls))"

definition start_ts :: "Config \<Rightarrow> nat \<Rightarrow> nat" where
  "start_ts cfg epoch =
     (if include_timestamp (cfg_left_meta cfg) then now_timestamp_for_config cfg epoch else 0)"

text \<open>A call without calls of its own is one line, unless system calls are traced too; any other
  call is an open_parent line, the picture of its calls one tab deeper, and a closing line.\<close>

fun picture :: "Config \<Rightarrow> i32 \<Rightarrow> nat \<Rightarrow> call \<Rightarrow> string list"
  and pictures :: "Config \<Rightarrow> i32 \<Rightarrow> nat \<Rightarrow> call list \<Rightarrow> string list" where
  "picture cfg tid d (Call f a i ts kids r j) =
     (let (n, u) = duration_for_config cfg (j - i);
          meta = (\<lambda>line. prepend_left_meta cfg line tid (start_ts cfg ts))
      in if force_brace_mode cfg \<or> kids \<noteq> [] then
           meta (format_open_line d f a) # pictures cfg tid (Suc d) kids @
           [meta (format_close_line d r n u)]
         else [meta (format_leaf_line d f a r n u)])"
| "pictures cfg tid d [] = []"
| "pictures cfg tid d (c # cs) = picture cfg tid d c @ pictures cfg tid d cs"

text \<open>The depths a call publishes.\<close>

fun depths :: "nat \<Rightarrow> call \<Rightarrow> nat list" and depthss :: "nat \<Rightarrow> call list \<Rightarrow> nat list" where
  "depths d (Call f a i ts kids r j) = Suc d # depthss (Suc d) kids @ [d]"
| "depthss d [] = []"
| "depthss d (c # cs) = depths d c @ depthss d cs"

subsection \<open>The stack implements the specification\<close>

definition new_frame :: "Config \<Rightarrow> nat \<Rightarrow> string \<Rightarrow> string \<Rightarrow> nat \<Rightarrow> nat \<Rightarrow> Frame" where
  "new_frame cfg d f a i ts =
     \<lparr>fr_func = f, fr_args = a, fr_depth = d, fr_started_ts = start_ts cfg ts, fr_started_at = i,
      fr_has_child = False, fr_enter_printed = force_brace_mode cfg\<rparr>"

text \<open>A frame with a child has been opened; in brace mode every frame has.\<close>

definition frame_ok :: "Config \<Rightarrow> Frame \<Rightarrow> bool" where
  "frame_ok cfg fr \<longleftrightarrow> (fr_has_child fr \<or> force_brace_mode cfg \<longrightarrow> fr_enter_printed fr)"

definition touched :: "Frame \<Rightarrow> Frame" where
  "touched fr = fr\<lparr>fr_has_child := True, fr_enter_printed := True\<rparr>"

definition open_parent :: "Config \<Rightarrow> i32 \<Rightarrow> Frame \<Rightarrow> string list" where
  "open_parent cfg tid fr =
     (if fr_enter_printed fr then []
      else [prepend_left_meta cfg (format_open_line (fr_depth fr) (fr_func fr) (fr_args fr)) tid
              (fr_started_ts fr)])"

lemma frame_ok_new [simp]: "frame_ok cfg (new_frame cfg d f a i ts)"
  by (simp add: frame_ok_def new_frame_def)

lemma frame_ok_touched [simp]: "frame_ok cfg (touched fr)" "open_parent cfg tid (touched fr) = []"
  "touched (touched fr) = touched fr"
  by (simp_all add: frame_ok_def touched_def open_parent_def)

lemma new_frame_open:
  "(if force_brace_mode cfg then
      [prepend_left_meta cfg (format_open_line d f a) tid (start_ts cfg ts)] else []) @
   open_parent cfg tid (new_frame cfg d f a i ts) =
     [prepend_left_meta cfg (format_open_line d f a) tid (start_ts cfg ts)]"
  by (simp add: open_parent_def new_frame_def)

lemma enter_empty:
  "enter cfg tid i ts f a (Some []) =
     (Some [new_frame cfg 0 f a i ts],
      \<lparr>go_depth = Some 1,
       go_lines = (if force_brace_mode cfg then
         [prepend_left_meta cfg (format_open_line 0 f a) tid (start_ts cfg ts)] else [])\<rparr>)"
  by (simp add: enter_def new_frame_def start_ts_def Let_def del: include_timestamp.simps)

lemma enter_snoc:
  assumes "frame_ok cfg fr"
  shows "enter cfg tid i ts f a (Some (st @ [fr])) =
    (Some (st @ [touched fr, new_frame cfg (Suc (length st)) f a i ts]),
     \<lparr>go_depth = Some (Suc (Suc (length st))),
      go_lines = open_parent cfg tid fr @ (if force_brace_mode cfg then
        [prepend_left_meta cfg (format_open_line (Suc (length st)) f a) tid (start_ts cfg ts)] else [])\<rparr>)"
proof (cases "fr_has_child fr")
  case True
  with assms have "touched fr = fr" "fr_enter_printed fr"
    by (auto simp: touched_def frame_ok_def)
  with True show ?thesis
    by (simp add: enter_def new_frame_def start_ts_def open_parent_def Let_def del: include_timestamp.simps)
next
  case False
  then show ?thesis
    by (simp add: enter_def new_frame_def start_ts_def open_parent_def touched_def Let_def
        del: include_timestamp.simps)
qed

lemma exit_snoc:
  "exit cfg tid j r (Some (st @ [fr])) =
     (Some st, \<lparr>go_depth = Some (length st),
       go_lines = (let (n, u) = duration_for_config cfg (j - fr_started_at fr);
          meta = (\<lambda>line. prepend_left_meta cfg line tid (fr_started_ts fr)) in
          if force_brace_mode cfg \<or> fr_has_child fr then
            open_parent cfg tid fr @ [meta (format_close_line (fr_depth fr) r n u)]
          else [meta (format_leaf_line (fr_depth fr) (fr_func fr) (fr_args fr) r n u)])\<rparr>)"
  by (cases st) (simp_all add: exit_def open_parent_def Let_def split_beta)

lemma graph_run_append:
  "graph_run cfg tid (es @ fs) tls =
     (let (tls, ds, ls) = graph_run cfg tid es tls;
          (tls, ds', ls') = graph_run cfg tid fs tls in (tls, ds @ ds', ls @ ls'))"
  by (induction es arbitrary: tls) (simp_all add: split_beta Let_def)

text \<open>A run of calls below a frame: it opens the frame when there is a call, and leaves it.\<close>

lemma run_calls:
  "frame_ok cfg fr \<Longrightarrow> graph_run cfg tid (events c) (Some (st @ [fr])) =
     (Some (st @ [touched fr]), map Some (depths (Suc (length st)) c),
      open_parent cfg tid fr @ picture cfg tid (Suc (length st)) c)"
  "frame_ok cfg fr \<Longrightarrow> graph_run cfg tid (eventss cs) (Some (st @ [fr])) =
     (Some (st @ [if cs = [] then fr else touched fr]), map Some (depthss (Suc (length st)) cs),
      (if cs = [] then [] else open_parent cfg tid fr) @ pictures cfg tid (Suc (length st)) cs)"
proof (induction c and cs arbitrary: st fr and st fr rule: events_eventss.induct)
  case (1 f a i ts kids r j)
  let ?d = "Suc (length st)"
  let ?n = "new_frame cfg ?d f a i ts"
  have k: "graph_run cfg tid (eventss kids) (Some (st @ [touched fr, ?n])) =
      (Some (st @ [touched fr, if kids = [] then ?n else touched ?n]), map Some (depthss (Suc ?d) kids),
       (if kids = [] then [] else open_parent cfg tid ?n) @ pictures cfg tid (Suc ?d) kids)"
    using "1.IH" [of ?n "st @ [touched fr]"] by simp
  have x: "graph_run cfg tid [GExit r j] (Some (st @ [touched fr, fr'])) =
      (Some (st @ [touched fr]), [Some ?d],
       go_lines (snd (exit cfg tid j r (Some ((st @ [touched fr]) @ [fr'])))))" for fr'
    using exit_snoc [of cfg tid j r "st @ [touched fr]" fr'] by simp
  show ?case
  proof (cases "kids = []")
    case True
    then show ?thesis
      using "1.prems" k x [of ?n] exit_snoc [of cfg tid j r "st @ [touched fr]" ?n] new_frame_open [of cfg ?d f a tid ts i]
      by (simp add: enter_snoc graph_run_append Let_def split_beta)
        (simp add: new_frame_def open_parent_def)
  next
    case False
    then show ?thesis
      using "1.prems" k x [of "touched ?n"] exit_snoc [of cfg tid j r "st @ [touched fr]" "touched ?n"]
        new_frame_open [of cfg ?d f a tid ts i]
      by (simp add: enter_snoc graph_run_append Let_def split_beta)
        (simp add: new_frame_def touched_def open_parent_def)
  qed
next
  case 2
  then show ?case by simp
next
  case (3 c cs)
  then show ?case by (simp add: graph_run_append)
qed

lemma run_call_top:
  "graph_run cfg tid (events c) (Some []) = (Some [], map Some (depths 0 c), picture cfg tid 0 c)"
proof (cases c)
  case (Call f a i ts kids r j)
  let ?n = "new_frame cfg 0 f a i ts"
  have k: "graph_run cfg tid (eventss kids) (Some [?n]) =
      (Some [if kids = [] then ?n else touched ?n], map Some (depthss 1 kids),
       (if kids = [] then [] else open_parent cfg tid ?n) @ pictures cfg tid 1 kids)"
    using run_calls(2) [of cfg ?n tid kids "[]"] by simp
  note x = exit_snoc [of cfg tid j r "[]", simplified]
  show ?thesis
    using k new_frame_open [of cfg 0 f a tid ts i]
    by (cases "kids = []")
      (simp_all add: Call graph_run_append enter_empty x Let_def split_beta
        del: include_timestamp.simps, simp_all add: new_frame_def touched_def open_parent_def)
qed

lemma run_calls_top:
  "graph_run cfg tid (eventss cs) (Some []) = (Some [], map Some (depthss 0 cs), pictures cfg tid 0 cs)"
  by (induction cs) (simp_all add: graph_run_append run_call_top)

text \<open>C27. The trace of any thread is the picture of its call tree: for calls nested in any way the
  lines come out in order, each once, indented by depth, a leaf on one line and an inner call in
  braces around its children; afterwards the stack is empty and every depth was published.\<close>

theorem graph_prints_call_tree:
  "graph_run cfg tid (eventss cs) (Some []) =
     (Some [], map Some (depthss 0 cs), pictures cfg tid 0 cs)"
  by (rule run_calls_top)

text \<open>The depth other components see is the depth of the stack: an operation either publishes
  the length of the stack it leaves, or did nothing at all (a torn-down thread, an unmatched
  exit).\<close>

theorem published_depth_is_stack_depth:
  "(case graph_step cfg tid e tls of
      (tls', go) \<Rightarrow>
        (tls' = tls \<and> go = \<lparr>go_depth = None, go_lines = []\<rparr> \<and> (tls = None \<or> tls = Some [])) \<or>
        (\<exists>st. tls' = Some st \<and> go_depth go = Some (length st)))"
  by (cases e; cases tls)
    (auto simp: enter_def exit_def Let_def split_beta split: list.split option.split)

end
