(* ===== verification/Hook.thy ===== *)
theory Hook
  imports Graph Reentry Fgraph_Proto
begin

text \<open>
  \<open>src/hook/mod.rs\<close>: what every hooked function does before and after the real one.
  \<open>TraceScope\<close> combines the re-entrancy guard, the call graph and the windows of the functions
  selected for function-graph tracing. The state is that of one thread (its bypass counter, window
  depth and call stack) with the two statics it shares with the others, the sequence numbers and
  whether the tracer was started; a call gives the new state and what it tells the other
  components, in order. Functions are named by strings, times and the thread id are arguments.
\<close>

subsection \<open>The program\<close>

record hook_state =
  hs_started :: bool
  hs_seq :: "string \<Rightarrow> nat option"
  hs_bypass :: bypass_tls
  hs_window_depth :: nat
  hs_stack :: "Frame list option"

datatype hook_out =
    OStart
  | OWindowEnter nat string u32
  | OWindowExit nat
  | ODepth nat
  | OLine string

definition graph_outs :: "graph_out \<Rightarrow> hook_out list" where
  "graph_outs go = (case go_depth go of None \<Rightarrow> [] | Some d \<Rightarrow> [ODepth d]) @ map OLine (go_lines go)"

definition next_fgraph_window_seq :: "string \<Rightarrow> hook_state \<Rightarrow> nat \<times> hook_state" where
  "next_fgraph_window_seq func s =
     (let next = saturating_add u32_max (unwrap_or 0 (hs_seq s func)) 1
      in (next, s\<lparr>hs_seq := (hs_seq s)(func \<mapsto> next)\<rparr>))"

text \<open>\<open>SpanToken\<close> has no content: \<open>sc_span\<close> says whether there is one.\<close>

record TraceScope =
  sc_span :: bool
  sc_window_matched :: bool

definition enter_fgraph_window_if_matched ::
    "Config \<Rightarrow> string \<Rightarrow> hook_state \<Rightarrow> bool \<times> hook_state \<times> hook_out list" where
  "enter_fgraph_window_if_matched cfg func s =
     (if \<not> fgraph_enabled cfg \<or> \<not> fgraph_match cfg func then (False, s, [])
      else
        let (seq, s) = next_fgraph_window_seq func s;
            depth = saturating_add usize_max (hs_window_depth s) 1
        in (True, s\<lparr>hs_window_depth := depth\<rparr>, [OWindowEnter depth func (of_nat seq)]))"

definition exit_fgraph_window_if_needed :: "bool \<Rightarrow> hook_state \<Rightarrow> hook_state \<times> hook_out list" where
  "exit_fgraph_window_if_needed matched s =
     (if \<not> matched then (s, [])
      else let depth = hs_window_depth s - 1 in (s\<lparr>hs_window_depth := depth\<rparr>, [OWindowExit depth]))"

definition ensure_started :: "bool \<Rightarrow> hook_state \<Rightarrow> hook_state \<times> hook_out list" where
  "ensure_started is_internal_tracer s =
     (if is_internal_tracer \<or> hs_started s then (s, []) else (s\<lparr>hs_started := True\<rparr>, [OStart]))"

definition TraceScope_enter ::
    "Config \<Rightarrow> bool \<Rightarrow> i32 \<Rightarrow> TraceDomain \<Rightarrow> string \<Rightarrow> string \<Rightarrow> nat \<Rightarrow> nat \<Rightarrow> hook_state \<Rightarrow>
     TraceScope \<times> hook_state \<times> hook_out list" where
  "TraceScope_enter cfg is_internal_tracer tid domain func args now epoch s =
     (if is_internal_tracer then (\<lparr>sc_span = False, sc_window_matched = False\<rparr>, s, [])
      else
        let (s, o_start) = ensure_started is_internal_tracer s;
            blocked = hooks_blocked (hs_bypass s);
            (matched, s, o_window) =
              (if blocked then (False, s, []) else enter_fgraph_window_if_matched cfg func s)
        in if \<not> trace_enabled cfg domain \<or> blocked then
             (\<lparr>sc_span = False, sc_window_matched = matched\<rparr>, s, o_start @ o_window)
           else
             let (guard, bypass) = HookBypassGuard_enter (hs_bypass s);
                 (stack, go) = enter cfg tid now epoch func args (hs_stack s)
             in (\<lparr>sc_span = True, sc_window_matched = matched\<rparr>,
                 s\<lparr>hs_stack := stack, hs_bypass := HookBypassGuard_drop guard bypass\<rparr>,
                 o_start @ o_window @ graph_outs go))"

definition TraceScope_finish ::
    "Config \<Rightarrow> i32 \<Rightarrow> TraceScope \<Rightarrow> nat \<Rightarrow> string \<Rightarrow> hook_state \<Rightarrow> hook_state \<times> hook_out list" where
  "TraceScope_finish cfg tid self now ret s =
     (let (s, o_window) = exit_fgraph_window_if_needed (sc_window_matched self) s
      in if sc_span self then
           let (guard, bypass) = HookBypassGuard_enter (hs_bypass s);
               (stack, go) = exit cfg tid now ret (hs_stack s)
           in (s\<lparr>hs_stack := stack, hs_bypass := HookBypassGuard_drop guard bypass\<rparr>,
               o_window @ graph_outs go)
         else (s, o_window))"

subsection \<open>Nested hooked calls\<close>

text \<open>A hooked call of a thread: its domain, function and arguments, when it starts (instant and
  epoch), the hooked calls the real function makes, its result and when it ends.\<close>

datatype hcall = HCall TraceDomain string string nat nat "hcall list" string nat

fun run_hcall :: "Config \<Rightarrow> i32 \<Rightarrow> hcall \<Rightarrow> hook_state \<Rightarrow> hook_state \<times> hook_out list"
  and run_hcalls :: "Config \<Rightarrow> i32 \<Rightarrow> hcall list \<Rightarrow> hook_state \<Rightarrow> hook_state \<times> hook_out list" where
  "run_hcall cfg tid (HCall dm f a i ts kids r j) s =
     (let (scope, s, o1) = TraceScope_enter cfg False tid dm f a i ts s;
          (s, o2) = run_hcalls cfg tid kids s;
          (s, o3) = TraceScope_finish cfg tid scope j r s
      in (s, o1 @ o2 @ o3))"
| "run_hcalls cfg tid [] s = (s, [])"
| "run_hcalls cfg tid (c # cs) s =
     (let (s, o1) = run_hcall cfg tid c s; (s, o2) = run_hcalls cfg tid cs s in (s, o1 @ o2))"

fun height :: "hcall \<Rightarrow> nat" and heights :: "hcall list \<Rightarrow> nat" where
  "height (HCall dm f a i ts kids r j) = Suc (heights kids)"
| "heights [] = 0"
| "heights (c # cs) = max (height c) (heights cs)"

text \<open>The call tree of the traced domains: a call of another domain is replaced by its calls.\<close>

fun traced :: "Config \<Rightarrow> hcall \<Rightarrow> call list" and traceds :: "Config \<Rightarrow> hcall list \<Rightarrow> call list" where
  "traced cfg (HCall dm f a i ts kids r j) =
     (if trace_enabled cfg dm then [Call f a i ts (traceds cfg kids) r j] else traceds cfg kids)"
| "traceds cfg [] = []"
| "traceds cfg (c # cs) = traced cfg c @ traceds cfg cs"

definition selected :: "Config \<Rightarrow> string \<Rightarrow> bool" where
  "selected cfg func \<longleftrightarrow> fgraph_enabled cfg \<and> fgraph_match cfg func"

definition bump :: "string \<Rightarrow> (string \<Rightarrow> nat option) \<Rightarrow> (string \<Rightarrow> nat option)" where
  "bump func seqs = seqs(func \<mapsto> saturating_add u32_max (unwrap_or 0 (seqs func)) 1)"

text \<open>The windows the calls open and close, numbering the calls of each selected function.\<close>

fun windows_of :: "Config \<Rightarrow> hcall \<Rightarrow> (string \<Rightarrow> nat option) \<Rightarrow> window_event list \<times> (string \<Rightarrow> nat option)"
  and windows_ofs :: "Config \<Rightarrow> hcall list \<Rightarrow> (string \<Rightarrow> nat option) \<Rightarrow> window_event list \<times> (string \<Rightarrow> nat option)" where
  "windows_of cfg (HCall dm f a i ts kids r j) seqs =
     (if selected cfg f then
        let (ws, seqs') = windows_ofs cfg kids (bump f seqs)
        in (WEnter f (of_nat (unwrap_or 0 (bump f seqs f))) # ws @ [WExit], seqs')
      else windows_ofs cfg kids seqs)"
| "windows_ofs cfg [] seqs = ([], seqs)"
| "windows_ofs cfg (c # cs) seqs =
     (let (ws, seqs) = windows_of cfg c seqs; (ws', seqs) = windows_ofs cfg cs seqs in (ws @ ws', seqs))"

fun out_line :: "hook_out \<Rightarrow> string option" where
  "out_line (OLine l) = Some l"
| "out_line _ = None"

fun out_depth :: "hook_out \<Rightarrow> nat option" where
  "out_depth (ODepth d) = Some d"
| "out_depth _ = None"

fun out_window :: "i32 \<Rightarrow> hook_out \<Rightarrow> FgraphWindowUpdate option" where
  "out_window tid (OWindowEnter d f q) = Some (window_enter_msg tid d f q)"
| "out_window tid (OWindowExit d) = Some (window_exit_msg tid d)"
| "out_window tid _ = None"

abbreviation out_lines :: "hook_out list \<Rightarrow> string list" where
  "out_lines os \<equiv> List.map_filter out_line os"

abbreviation out_depths :: "hook_out list \<Rightarrow> nat list" where
  "out_depths os \<equiv> List.map_filter out_depth os"

abbreviation out_windows :: "i32 \<Rightarrow> hook_out list \<Rightarrow> FgraphWindowUpdate list" where
  "out_windows tid os \<equiv> List.map_filter (out_window tid) os"

lemma map_filter_append [simp]: "List.map_filter f (xs @ ys) = List.map_filter f xs @ List.map_filter f ys"
  by (simp add: List.map_filter_def)

lemma graph_outs_parts [simp]:
  "out_lines (graph_outs go) = go_lines go"
  "out_depths (graph_outs go) = (case go_depth go of None \<Rightarrow> [] | Some d \<Rightarrow> [d])"
  "out_windows tid (graph_outs go) = []"
  by (auto simp: graph_outs_def List.map_filter_def comp_def filter_map split: option.split)

subsection \<open>What a thread publishes and prints\<close>

lemma eventss_append [simp]: "eventss (xs @ ys) = eventss xs @ eventss ys"
  by (induction xs) simp_all

lemma window_run_append:
  "window_run (es @ fs) st =
     (let (ms, st') = window_run es st; (ms', st'') = window_run fs st' in (ms @ ms', st''))"
  by (induction es arbitrary: st) (simp_all add: split_beta Let_def)

lemma windows_balanced:
  "snd (window_run (map (Pair tid) (fst (windows_of cfg c seqs))) st) = st"
  "snd (window_run (map (Pair tid) (fst (windows_ofs cfg cs seqs))) st) = st"
  by (induction c and cs arbitrary: seqs st and seqs st rule: height_heights.induct)
    (simp_all add: split_beta Let_def window_run_append)

lemma unblocked_guard:
  "HookBypassGuard_enter (Some 0) = (\<lparr>guard_active = True\<rparr>, Some 1)"
  "HookBypassGuard_drop \<lparr>guard_active = True\<rparr> (Some (Suc 0)) = Some 0"
  using enter_drop [of 0] by (simp_all add: u32_max_def)

lemma bypass_same [simp]: "hs_bypass s = b \<Longrightarrow> s\<lparr>hs_stack := k, hs_bypass := b\<rparr> = s\<lparr>hs_stack := k\<rparr>"
  by (cases s) simp

lemma bypass_seq_same [simp]:
  "hs_bypass s = b \<Longrightarrow> s\<lparr>hs_seq := q, hs_window_depth := d, hs_stack := k, hs_bypass := b\<rparr> =
     s\<lparr>hs_seq := q, hs_window_depth := d, hs_stack := k\<rparr>"
  by (cases s) simp

text \<open>The window part of entering and leaving: what happens to the state and the events.\<close>

definition enter_windows :: "Config \<Rightarrow> string \<Rightarrow> hook_state \<Rightarrow> hook_state" where
  "enter_windows cfg f s =
     (if selected cfg f then s\<lparr>hs_seq := bump f (hs_seq s), hs_window_depth := hs_window_depth s + 1\<rparr> else s)"

lemma enter_unblocked:
  assumes "hs_started s" "hs_bypass s = Some 0" "hs_window_depth s < usize_max"
  shows "TraceScope_enter cfg False tid dm f a i ts s =
    (\<lparr>sc_span = trace_enabled cfg dm, sc_window_matched = selected cfg f\<rparr>,
     (if trace_enabled cfg dm then
        (enter_windows cfg f s)\<lparr>hs_stack := fst (enter cfg tid i ts f a (hs_stack s))\<rparr>
      else enter_windows cfg f s),
     (if selected cfg f then
        [OWindowEnter (hs_window_depth s + 1) f (of_nat (unwrap_or 0 (bump f (hs_seq s) f)))] else []) @
     (if trace_enabled cfg dm then graph_outs (snd (enter cfg tid i ts f a (hs_stack s))) else []))"
  using assms
  by (auto simp: TraceScope_enter_def ensure_started_def hooks_blocked_def enter_windows_def selected_def
      enter_fgraph_window_if_matched_def next_fgraph_window_seq_def unblocked_guard saturating_add_exact
      bump_def unwrap_or_def Let_def split_beta)

lemma finish_unblocked:
  assumes "hs_bypass s = Some 0"
  shows "TraceScope_finish cfg tid \<lparr>sc_span = sp, sc_window_matched = m\<rparr> j r s =
    (let s1 = (if m then s\<lparr>hs_window_depth := hs_window_depth s - 1\<rparr> else s)
     in (if sp then s1\<lparr>hs_stack := fst (exit cfg tid j r (hs_stack s))\<rparr> else s1,
         (if m then [OWindowExit (hs_window_depth s - 1)] else []) @
         (if sp then graph_outs (snd (exit cfg tid j r (hs_stack s))) else [])))"
  using assms
  by (auto simp: TraceScope_finish_def exit_fgraph_window_if_needed_def unblocked_guard Let_def split_beta)

text \<open>The state and the outputs of a run, described by the two components it drives.\<close>

definition run_spec ::
    "Config \<Rightarrow> i32 \<Rightarrow> call list \<Rightarrow> window_event list \<times> (string \<Rightarrow> nat option) \<Rightarrow> hook_state \<Rightarrow>
     hook_state \<times> hook_out list \<Rightarrow> bool" where
  "run_spec cfg tid tree ws s r \<longleftrightarrow>
     (let (tls, ds, ls) = graph_run cfg tid (eventss tree) (hs_stack s)
      in fst r = s\<lparr>hs_seq := snd ws, hs_stack := tls\<rparr> \<and> out_lines (snd r) = ls \<and>
         out_depths (snd r) = List.map_filter id ds \<and>
         (\<forall>st. length (st tid) = hs_window_depth s \<longrightarrow>
            out_windows tid (snd r) = fst (window_run (map (Pair tid) (fst ws)) st)))"

lemma run_hcall_spec:
  "hs_started s \<Longrightarrow> hs_bypass s = Some 0 \<Longrightarrow> hs_window_depth s + height c \<le> usize_max \<Longrightarrow>
   run_spec cfg tid (traced cfg c) (windows_of cfg c (hs_seq s)) s (run_hcall cfg tid c s)"
  "hs_started s \<Longrightarrow> hs_bypass s = Some 0 \<Longrightarrow> hs_window_depth s + heights cs \<le> usize_max \<Longrightarrow>
   run_spec cfg tid (traceds cfg cs) (windows_ofs cfg cs (hs_seq s)) s (run_hcalls cfg tid cs s)"
proof (induction c and cs arbitrary: s and s rule: height_heights.induct)
  case (1 dm f a i ts kids r j)
  let ?s1 = "fst (snd (TraceScope_enter cfg False tid dm f a i ts s))"
  have d: "hs_window_depth s < usize_max" using "1.prems"(3) by simp
  note e = enter_unblocked [OF "1.prems"(1,2) d, of cfg tid dm f a i ts]
  have s1: "hs_started ?s1" "hs_bypass ?s1 = Some 0"
    "hs_window_depth ?s1 = hs_window_depth s + (if selected cfg f then 1 else 0)"
    using "1.prems" by (simp_all add: e enter_windows_def)
  then have "hs_window_depth ?s1 + heights kids \<le> usize_max" using "1.prems"(3) by simp
  note k = "1.IH" [OF s1(1,2) this]
  obtain s2 o2 where r2: "run_hcalls cfg tid kids ?s1 = (s2, o2)" by (cases "run_hcalls cfg tid kids ?s1")
  have s2: "hs_bypass s2 = Some 0" "hs_window_depth s2 = hs_window_depth ?s1"
    using k s1 by (auto simp: run_spec_def r2 split_beta)
  show ?case
    using k s1 r2 s2 "1.prems" d
    by (simp add: run_spec_def split_beta Let_def graph_run_append e,
        cases "selected cfg f"; cases "trace_enabled cfg dm")
      (simp_all add: enter_windows_def finish_unblocked Let_def window_run_append windows_balanced
        split_beta split: option.split)
next
  case 2
  then show ?case by (simp add: run_spec_def List.map_filter_def)
next
  case (3 c cs)
  obtain s1 o1 where r1: "run_hcall cfg tid c s = (s1, o1)" by (cases "run_hcall cfg tid c s")
  obtain s2 o2 where r2: "run_hcalls cfg tid cs s1 = (s2, o2)" by (cases "run_hcalls cfg tid cs s1")
  have i1: "run_spec cfg tid (traced cfg c) (windows_of cfg c (hs_seq s)) s (s1, o1)"
    using "3.IH"(1) [of s] "3.prems" r1 by simp
  have s1: "s1 = s\<lparr>hs_seq := snd (windows_of cfg c (hs_seq s)),
      hs_stack := fst (graph_run cfg tid (eventss (traced cfg c)) (hs_stack s))\<rparr>"
    using i1 by (simp add: run_spec_def split_beta)
  have i2: "run_spec cfg tid (traceds cfg cs) (windows_ofs cfg cs (hs_seq s1)) s1 (s2, o2)"
    using "3.IH"(2) [of s1] "3.prems" r2 by (simp add: s1)
  show ?case
    using i1 i2 r1 r2
    by (simp add: run_spec_def split_beta Let_def graph_run_append window_run_append windows_balanced s1)
qed

lemma blocked_run:
  "hs_started s \<Longrightarrow> hooks_blocked (hs_bypass s) \<Longrightarrow> run_hcall cfg tid c s = (s, [])"
  "hs_started s \<Longrightarrow> hooks_blocked (hs_bypass s) \<Longrightarrow> run_hcalls cfg tid cs s = (s, [])"
  by (induction c and cs rule: height_heights.induct)
    (simp_all add: TraceScope_enter_def TraceScope_finish_def exit_fgraph_window_if_needed_def
      ensure_started_def Let_def)

text \<open>C36. For any forest of nested hooked calls of a thread, across all domains: the lines printed are
  the picture of the calls of the traced domains, the depths published are those of that tree,
  the messages to the tracer open and close one numbered window per call of a selected function,
  properly nested whether or not its domain is traced, and afterwards guard, window depth and
  call stack are as before.\<close>

theorem hooked_calls_traced:
  assumes "hs_started s" and "hs_bypass s = Some 0" and "hs_stack s = Some []"
    and "hs_window_depth s + heights cs \<le> usize_max" and "length (st tid) = hs_window_depth s"
  shows "(let (s', os) = run_hcalls cfg tid cs s; (ws, seqs) = windows_ofs cfg cs (hs_seq s)
    in s' = s\<lparr>hs_seq := seqs\<rparr> \<and>
       out_lines os = pictures cfg tid 0 (traceds cfg cs) \<and>
       out_depths os = depthss 0 (traceds cfg cs) \<and>
       (out_windows tid os, st) = window_run (map (Pair tid) ws) st)"
proof -
  have m: "List.map_filter id (map Some xs) = xs" for xs :: "nat list"
    by (simp add: List.map_filter_def comp_def filter_map)
  have s: "s\<lparr>hs_seq := q, hs_stack := Some []\<rparr> = s\<lparr>hs_seq := q\<rparr>" for q
    using assms(3) by (cases s) simp
  have "fst (window_run (map (Pair tid) ws) st) = ms \<Longrightarrow> snd (window_run (map (Pair tid) ws) st) = st \<Longrightarrow>
      (ms, st) = window_run (map (Pair tid) ws) st" for ws ms
    by (metis prod.collapse)
  then show ?thesis
    using run_hcall_spec(2) [OF assms(1,2,4), of cfg tid] assms(3,5)
    by (auto simp: run_spec_def run_calls_top m s split_beta Let_def windows_balanced)
qed

definition idle_thread :: hook_state where
  "idle_thread = \<lparr>hs_started = True, hs_seq = (\<lambda>_. None), hs_bypass = Some 0, hs_window_depth = 0,
     hs_stack = Some []\<rparr>"

definition default_config :: Config where
  "default_config = from_lookup (\<lambda>_. None)"

theorem hooked_calls_traced_witness:
  "(let c = HCall Cudart ''cudaMalloc'' [] 1 1 [HCall Driver ''cuMemAlloc'' [] 2 2 [] ''0'' 3] ''0'' 9
    in fst (run_hcalls default_config 7 [c, c] idle_thread) =
         idle_thread\<lparr>hs_seq := snd (windows_ofs default_config [c, c] (\<lambda>_. None))\<rparr> \<and>
       out_lines (snd (run_hcalls default_config 7 [c, c] idle_thread)) = pictures default_config 7 0 (traceds default_config [c, c]))"
  using hooked_calls_traced [of idle_thread
      "let c = HCall Cudart ''cudaMalloc'' [] 1 1 [HCall Driver ''cuMemAlloc'' [] 2 2 [] ''0'' 3] ''0'' 9 in [c, c]"
      "\<lambda>_. []" 7 default_config]
  by (simp add: idle_thread_def usize_max_def split_beta Let_def
      del: run_hcall.simps run_hcalls.simps windows_of.simps windows_ofs.simps traced.simps traceds.simps
        picture.simps pictures.simps)

text \<open>While the library runs its own code, or the thread is being torn down, hooked calls leave no
  trace at all, however they nest.\<close>

theorem blocked_calls_silent:
  assumes "hs_started s" and "hooks_blocked (hs_bypass s)"
  shows "run_hcalls cfg tid cs s = (s, [])"
  by (rule blocked_run(2) [OF assms])

theorem blocked_calls_silent_witness:
  "run_hcalls default_config 7 [HCall Driver ''cuInit'' ''flags=0'' 1 1 [] ''0'' 2] (idle_thread\<lparr>hs_bypass := Some 1\<rparr>) =
     (idle_thread\<lparr>hs_bypass := Some 1\<rparr>, [])"
  by (rule blocked_calls_silent) (simp_all add: idle_thread_def hooks_blocked_def)

end
