(* ===== verification/Interpose.thy ===== *)
theory Interpose
  imports Hook
begin

text \<open>
  How the library puts itself between a program and CUDA: \<open>src/dlsym.rs\<close> and the parts of
  \<open>src/hook/driver.rs\<close> and \<open>src/hook/cudart.rs\<close> that all hooked functions share. A hooked function
  is exported under the name of the one it replaces; \<open>dlsym\<close> and \<open>cuGetProcAddress\<close> are replaced too,
  so that functions looked up at run time are found hooked; and the real function is looked up when
  it is first needed.

  The dynamic linker and the functions of other objects are not in the repository. They are the
  record \<open>linker\<close>: the address that \<open>dlvsym\<close> gives for the linker's own \<open>dlsym\<close>, what that \<open>dlsym\<close>
  answers when it is called from this library, and what a call of a function at an address does.
  Such a call may call back into the library, so it maps the whole state. Addresses are 64-bit
  words, and 0 is the null pointer. A C string argument is the string, or \<open>None\<close> for a null pointer.
\<close>

subsection \<open>The state\<close>

type_synonym CUresult = i32

definition CUDA_ERROR_UNKNOWN :: CUresult where "CUDA_ERROR_UNKNOWN = 999"
definition CUDA_SUCCESS :: CUresult where "CUDA_SUCCESS = 0"
definition RTLD_NEXT :: u64 where "RTLD_NEXT = - 1"

record dim3 =
  dim_x :: u32
  dim_y :: u32
  dim_z :: u32

text \<open>An argument of a call, with its C type.\<close>

datatype carg = APtr u64 | AInt i32 | AUInt u32 | ASize u64 | ADev u64 | ADim dim3 | AStr "string option"

text \<open>The library's statics and thread-locals, what it has told its other components, and the rest of
  the process. A \<open>OnceLock\<close> that was not yet initialised is \<open>None\<close>. \<open>ls_cells\<close> has the statics that hold
  the addresses of real functions: those of the macros \<open>resolve_next!\<close>, by the names they are given,
  and the static \<open>real_fn\<close> of each generated C function \<open>f\<close>, as \<open>f.real_fn\<close>.\<close>

record 'w lib =
  ls_world :: 'w
  ls_hook :: hook_state
  ls_outs :: "hook_out list"
  ls_handle :: u64
  ls_dlsym :: "u64 option option"
  ls_cells :: "string \<Rightarrow> u64 option option"
  ls_driver_names :: "string \<Rightarrow> string option"
  ls_cudart_names :: "string \<Rightarrow> string option"

record 'w linker =
  lk_cfg :: Config
  lk_internal :: bool
  lk_tid :: i32
  lk_now :: "'w lib \<Rightarrow> nat"
  lk_epoch :: "'w lib \<Rightarrow> nat"
  lk_dlvsym :: u64
  lk_dlsym :: "u64 \<Rightarrow> string option \<Rightarrow> 'w \<Rightarrow> u64"
  lk_call :: "u64 \<Rightarrow> carg list \<Rightarrow> 'w lib \<Rightarrow> i32 \<times> 'w lib"
  lk_entry :: "string \<Rightarrow> u64"
  lk_generated_driver :: "string \<Rightarrow> u64"
  lk_generated_cudart :: "string \<Rightarrow> u64"
  lk_poke :: "u64 \<Rightarrow> u64 \<Rightarrow> 'w \<Rightarrow> 'w"

definition nonnull :: "u64 \<Rightarrow> u64 option" where
  "nonnull ptr = (if ptr = 0 then None else Some ptr)"

subsection \<open>Tracing a call\<close>

definition scope_enter ::
    "'w linker \<Rightarrow> TraceDomain \<Rightarrow> string \<Rightarrow> string \<Rightarrow> 'w lib \<Rightarrow> TraceScope \<times> 'w lib" where
  "scope_enter e domain func args s =
     (let (scope, h, os) = TraceScope_enter (lk_cfg e) (lk_internal e) (lk_tid e) domain func args
            (lk_now e s) (lk_epoch e s) (ls_hook s)
      in (scope, s\<lparr>ls_hook := h, ls_outs := ls_outs s @ os\<rparr>))"

definition scope_finish :: "'w linker \<Rightarrow> TraceScope \<Rightarrow> string \<Rightarrow> 'w lib \<Rightarrow> 'w lib" where
  "scope_finish e scope ret s =
     (let (h, os) = TraceScope_finish (lk_cfg e) (lk_tid e) scope (lk_now e s) ret (ls_hook s)
      in s\<lparr>ls_hook := h, ls_outs := ls_outs s @ os\<rparr>)"

text \<open>The body that all hooked functions have: open the scope, find the real function, call it with the
  same arguments, close the scope with the result.\<close>

definition traced_call ::
    "'w linker \<Rightarrow> TraceDomain \<Rightarrow> string \<Rightarrow> string \<Rightarrow> ('w lib \<Rightarrow> u64 option \<times> 'w lib) \<Rightarrow> carg list \<Rightarrow>
     'w lib \<Rightarrow> CUresult \<times> 'w lib" where
  "traced_call e domain func text resolve args s =
     (let (scope, s) = scope_enter e domain func text s;
          (real, s) = resolve s;
          (ret, s) = (case real of
              Some real \<Rightarrow> lk_call e real args s
            | None \<Rightarrow> (CUDA_ERROR_UNKNOWN, s));
          s = scope_finish e scope (dec_int ret) s
      in (ret, s))"

subsection \<open>The wrappers by name\<close>

text \<open>The \<open>match\<close> of \<open>wrapper_for_driver_symbol\<close> and of \<open>wrapper_for_cudart_symbol\<close>: which exported
  function stands for a symbol.\<close>

definition driver_wrappers :: "(string \<times> string) list" where
  "driver_wrappers =
     [(''cuInit'', ''cuInit''), (''cuDeviceGet'', ''cuDeviceGet''),
      (''cuDeviceGetName'', ''cuDeviceGetName''), (''cuCtxCreate'', ''cuCtxCreate_v2''),
      (''cuCtxCreate_v2'', ''cuCtxCreate_v2''), (''cuCtxDestroy'', ''cuCtxDestroy_v2''),
      (''cuCtxDestroy_v2'', ''cuCtxDestroy_v2''), (''cuCtxSynchronize'', ''cuCtxSynchronize''),
      (''cuCtxGetCurrent'', ''cuCtxGetCurrent''), (''cuCtxSetCurrent'', ''cuCtxSetCurrent''),
      (''cuCtxPushCurrent'', ''cuCtxPushCurrent_v2''),
      (''cuCtxPushCurrent_v2'', ''cuCtxPushCurrent_v2''),
      (''cuCtxPopCurrent'', ''cuCtxPopCurrent_v2''),
      (''cuCtxPopCurrent_v2'', ''cuCtxPopCurrent_v2''),
      (''cuDevicePrimaryCtxRetain'', ''cuDevicePrimaryCtxRetain''),
      (''cuDevicePrimaryCtxRelease'', ''cuDevicePrimaryCtxRelease''),
      (''cuDevicePrimaryCtxReset'', ''cuDevicePrimaryCtxReset''),
      (''cuDevicePrimaryCtxSetFlags'', ''cuDevicePrimaryCtxSetFlags''),
      (''cuDevicePrimaryCtxSetFlags_v2'', ''cuDevicePrimaryCtxSetFlags''),
      (''cuDevicePrimaryCtxGetState'', ''cuDevicePrimaryCtxGetState''),
      (''cuStreamCreate'', ''cuStreamCreate''),
      (''cuStreamCreateWithPriority'', ''cuStreamCreateWithPriority''),
      (''cuStreamDestroy'', ''cuStreamDestroy''), (''cuStreamDestroy_v2'', ''cuStreamDestroy''),
      (''cuEventCreate'', ''cuEventCreate''), (''cuEventDestroy'', ''cuEventDestroy''),
      (''cuEventDestroy_v2'', ''cuEventDestroy''), (''cuEventRecord'', ''cuEventRecord''),
      (''cuEventRecord_ptsz'', ''cuEventRecord''),
      (''cuEventRecordWithFlags'', ''cuEventRecordWithFlags''),
      (''cuEventRecordWithFlags_ptsz'', ''cuEventRecordWithFlags''),
      (''cuEventSynchronize'', ''cuEventSynchronize''),
      (''cuEventElapsedTime'', ''cuEventElapsedTime''),
      (''cuEventElapsedTime_v2'', ''cuEventElapsedTime''), (''cuMemcpyAsync'', ''cuMemcpyAsync''),
      (''cuMemcpyAsync_ptsz'', ''cuMemcpyAsync''),
      (''cuMemcpyHtoDAsync'', ''cuMemcpyHtoDAsync_v2''),
      (''cuMemcpyHtoDAsync_v2'', ''cuMemcpyHtoDAsync_v2''),
      (''cuMemcpyHtoDAsync_v2_ptsz'', ''cuMemcpyHtoDAsync_v2''),
      (''cuMemcpyDtoHAsync'', ''cuMemcpyDtoHAsync_v2''),
      (''cuMemcpyDtoHAsync_v2'', ''cuMemcpyDtoHAsync_v2''),
      (''cuMemcpyDtoHAsync_v2_ptsz'', ''cuMemcpyDtoHAsync_v2''),
      (''cuModuleLoad'', ''cuModuleLoad''), (''cuModuleGetFunction'', ''cuModuleGetFunction''),
      (''cuModuleUnload'', ''cuModuleUnload''), (''cuLaunchKernel'', ''cuLaunchKernel''),
      (''cuMemcpyHtoD'', ''cuMemcpyHtoD_v2''), (''cuMemcpyHtoD_v2'', ''cuMemcpyHtoD_v2''),
      (''cuMemcpyDtoH'', ''cuMemcpyDtoH_v2''), (''cuMemcpyDtoH_v2'', ''cuMemcpyDtoH_v2''),
      (''cuMemAlloc'', ''cuMemAlloc_v2''), (''cuMemAlloc_v2'', ''cuMemAlloc_v2''),
      (''cuMemFree'', ''cuMemFree_v2''), (''cuMemFree_v2'', ''cuMemFree_v2''),
      (''cuMemAllocHost'', ''cuMemAllocHost_v2''), (''cuMemAllocHost_v2'', ''cuMemAllocHost_v2''),
      (''cuMemFreeHost'', ''cuMemFreeHost''), (''cuGetProcAddress'', ''cuGetProcAddress''),
      (''cuGetProcAddress_v2'', ''cuGetProcAddress_v2'')]"

definition cudart_wrappers :: "(string \<times> string) list" where
  "cudart_wrappers =
     [(''cudaMalloc'', ''cudaMalloc''), (''cudaFree'', ''cudaFree''),
      (''cudaHostAlloc'', ''cudaHostAlloc''), (''cudaMallocHost'', ''cudaMallocHost''),
      (''cudaFreeHost'', ''cudaFreeHost''), (''cudaMemcpyAsync'', ''cudaMemcpyAsync''),
      (''cudaLaunchKernel'', ''cudaLaunchKernel''), (''cudaStreamCreate'', ''cudaStreamCreate''),
      (''cudaStreamDestroy'', ''cudaStreamDestroy''), (''cudaEventCreate'', ''cudaEventCreate''),
      (''cudaEventRecord'', ''cudaEventRecord''),
      (''cudaEventSynchronize'', ''cudaEventSynchronize''),
      (''cudaEventElapsedTime'', ''cudaEventElapsedTime''),
      (''cudaDeviceReset'', ''cudaDeviceReset'')]"

definition wrapper_for_driver_symbol :: "'w linker \<Rightarrow> string \<Rightarrow> u64 option" where
  "wrapper_for_driver_symbol e symbol =
     (let ptr = (case map_of driver_wrappers symbol of Some f \<Rightarrow> lk_entry e f | None \<Rightarrow> 0)
      in if ptr \<noteq> 0 then Some ptr
         else
           let generated = lk_generated_driver e symbol
           in if generated \<noteq> 0 then Some generated else None)"

definition wrapper_for_cudart_symbol :: "'w linker \<Rightarrow> string \<Rightarrow> u64 option" where
  "wrapper_for_cudart_symbol e symbol =
     (let ptr = (case map_of cudart_wrappers symbol of Some f \<Rightarrow> lk_entry e f | None \<Rightarrow> 0)
      in if ptr \<noteq> 0 then Some ptr
         else
           let generated = lk_generated_cudart e symbol
           in if generated \<noteq> 0 then Some generated else None)"

subsection \<open>The library's own \<open>dlsym\<close>\<close>

definition real_dlsym :: "'w linker \<Rightarrow> 'w lib \<Rightarrow> u64 option \<times> 'w lib" where
  "real_dlsym e s =
     (case ls_dlsym s of
        Some real \<Rightarrow> (real, s)
      | None \<Rightarrow> (let real = nonnull (lk_dlvsym e) in (real, s\<lparr>ls_dlsym := Some real\<rparr>)))"

definition dlsym_override :: "'w linker \<Rightarrow> string option \<Rightarrow> u64 option" where
  "dlsym_override e symbol =
     (case symbol of
        None \<Rightarrow> None
      | Some symbol \<Rightarrow>
          (case wrapper_for_driver_symbol e symbol of
             Some wrapper \<Rightarrow> Some wrapper
           | None \<Rightarrow>
               (case wrapper_for_cudart_symbol e symbol of
                  Some wrapper \<Rightarrow> Some wrapper
                | None \<Rightarrow> None)))"

definition dlsym :: "'w linker \<Rightarrow> u64 \<Rightarrow> string option \<Rightarrow> 'w lib \<Rightarrow> u64 \<times> 'w lib" where
  "dlsym e handle symbol s =
     (let (real, s) = real_dlsym e s
      in case real of
           None \<Rightarrow> (0, s)
         | Some _ \<Rightarrow>
             let real_ptr = lk_dlsym e handle symbol (ls_world s)
             in if handle \<noteq> RTLD_NEXT \<and> real_ptr \<noteq> 0 then
                  (case dlsym_override e symbol of
                     Some wrapper \<Rightarrow> (wrapper, s\<lparr>ls_handle := handle\<rparr>)
                   | None \<Rightarrow> (real_ptr, s))
                else (real_ptr, s))"

subsection \<open>Finding the real functions\<close>

text \<open>\<open>crate::ffi::dlsym\<close> is bound to the \<open>dlsym\<close> that the library itself exports.\<close>

definition resolve_next_from_ptr :: "'w linker \<Rightarrow> string option \<Rightarrow> 'w lib \<Rightarrow> u64 option \<times> 'w lib" where
  "resolve_next_from_ptr e symbol s =
     (let (bypass, b) = HookBypassGuard_enter (hs_bypass (ls_hook s));
          s = s\<lparr>ls_hook := (ls_hook s)\<lparr>hs_bypass := b\<rparr>\<rparr>;
          (ptr, s) = dlsym e RTLD_NEXT symbol s;
          s = s\<lparr>ls_hook := (ls_hook s)\<lparr>hs_bypass := HookBypassGuard_drop bypass (hs_bypass (ls_hook s))\<rparr>\<rparr>
      in (nonnull ptr, s))"

definition resolve_driver_from_ptr :: "'w linker \<Rightarrow> string option \<Rightarrow> 'w lib \<Rightarrow> u64 option \<times> 'w lib" where
  "resolve_driver_from_ptr e symbol s =
     (let handle = ls_handle s
      in if handle \<noteq> 0 then
           let (real, s) = real_dlsym e s
           in case real of
                Some _ \<Rightarrow>
                  (let ptr = lk_dlsym e handle symbol (ls_world s)
                   in if ptr \<noteq> 0 then (Some ptr, s) else resolve_next_from_ptr e symbol s)
              | None \<Rightarrow> resolve_next_from_ptr e symbol s
         else resolve_next_from_ptr e symbol s)"

text \<open>The macros \<open>resolve_next!\<close>: each use has a \<open>OnceLock\<close> of its own, named by \<open>$cell\<close>.\<close>

definition resolve_driver :: "'w linker \<Rightarrow> string \<Rightarrow> string \<Rightarrow> 'w lib \<Rightarrow> u64 option \<times> 'w lib" where
  "resolve_driver e cell name s =
     (case ls_cells s cell of
        Some real \<Rightarrow> (real, s)
      | None \<Rightarrow> (let (real, s) = resolve_driver_from_ptr e (Some name) s
                 in (real, s\<lparr>ls_cells := (ls_cells s)(cell \<mapsto> real)\<rparr>)))"

definition resolve_cudart :: "'w linker \<Rightarrow> string \<Rightarrow> string \<Rightarrow> 'w lib \<Rightarrow> u64 option \<times> 'w lib" where
  "resolve_cudart e cell name s =
     (case ls_cells s cell of
        Some real \<Rightarrow> (real, s)
      | None \<Rightarrow> (let (real, s) = resolve_next_from_ptr e (Some name) s
                 in (real, s\<lparr>ls_cells := (ls_cells s)(cell \<mapsto> real)\<rparr>)))"

definition or_else ::
    "('s \<Rightarrow> 'a option \<times> 's) \<Rightarrow> ('s \<Rightarrow> 'a option \<times> 's) \<Rightarrow> 's \<Rightarrow> 'a option \<times> 's" where
  "or_else f g s = (let (r, s) = f s in case r of Some x \<Rightarrow> (Some x, s) | None \<Rightarrow> g s)"

subsection \<open>The entry points of the generated wrappers\<close>

definition intern_driver_func_name :: "string \<Rightarrow> 'w lib \<Rightarrow> string \<times> 'w lib" where
  "intern_driver_func_name key s =
     (case ls_driver_names s key of
        Some name \<Rightarrow> (name, s)
      | None \<Rightarrow> (let leaked = from_utf8_lossy key
                 in (leaked, s\<lparr>ls_driver_names := (ls_driver_names s)(key \<mapsto> leaked)\<rparr>)))"

definition intern_cudart_func_name :: "string \<Rightarrow> 'w lib \<Rightarrow> string \<times> 'w lib" where
  "intern_cudart_func_name key s =
     (case ls_cudart_names s key of
        Some name \<Rightarrow> (name, s)
      | None \<Rightarrow> (let leaked = from_utf8_lossy key
                 in (leaked, s\<lparr>ls_cudart_names := (ls_cudart_names s)(key \<mapsto> leaked)\<rparr>)))"

text \<open>The scope that is boxed and passed through C is \<open>None\<close> for a null pointer.\<close>

definition cudatrace_driver_enter :: "'w linker \<Rightarrow> string option \<Rightarrow> 'w lib \<Rightarrow> TraceScope option \<times> 'w lib" where
  "cudatrace_driver_enter e func s =
     (case func of
        None \<Rightarrow> (None, s)
      | Some func \<Rightarrow>
          (let (func, s) = intern_driver_func_name func s;
               (scope, s) = scope_enter e TraceDomain.Driver func [] s
           in (Some scope, s)))"

definition cudatrace_driver_exit :: "'w linker \<Rightarrow> TraceScope option \<Rightarrow> CUresult \<Rightarrow> 'w lib \<Rightarrow> 'w lib" where
  "cudatrace_driver_exit e scope ret s =
     (case scope of None \<Rightarrow> s | Some scope \<Rightarrow> scope_finish e scope (dec_int ret) s)"

definition cudatrace_resolve_driver_symbol :: "'w linker \<Rightarrow> string option \<Rightarrow> 'w lib \<Rightarrow> u64 \<times> 'w lib" where
  "cudatrace_resolve_driver_symbol e symbol s =
     (case symbol of
        None \<Rightarrow> (0, s)
      | Some symbol \<Rightarrow>
          (let (real, s) = resolve_driver_from_ptr e (Some symbol) s in (unwrap_or 0 real, s)))"

definition cudatrace_cudart_enter :: "'w linker \<Rightarrow> string option \<Rightarrow> 'w lib \<Rightarrow> TraceScope option \<times> 'w lib" where
  "cudatrace_cudart_enter e func s =
     (case func of
        None \<Rightarrow> (None, s)
      | Some func \<Rightarrow>
          (let (func, s) = intern_cudart_func_name func s;
               (scope, s) = scope_enter e TraceDomain.Cudart func [] s
           in (Some scope, s)))"

definition cudatrace_cudart_exit :: "'w linker \<Rightarrow> TraceScope option \<Rightarrow> CUresult \<Rightarrow> 'w lib \<Rightarrow> 'w lib" where
  "cudatrace_cudart_exit e scope ret s =
     (case scope of None \<Rightarrow> s | Some scope \<Rightarrow> scope_finish e scope (dec_int ret) s)"

definition cudatrace_resolve_cudart_symbol :: "'w linker \<Rightarrow> string option \<Rightarrow> 'w lib \<Rightarrow> u64 \<times> 'w lib" where
  "cudatrace_resolve_cudart_symbol e symbol s =
     (case symbol of
        None \<Rightarrow> (0, s)
      | Some symbol \<Rightarrow>
          (let (real, s) = resolve_next_from_ptr e (Some symbol) s in (unwrap_or 0 real, s)))"

subsection \<open>Functions looked up through the driver\<close>

definition patch_driver_proc :: "'w linker \<Rightarrow> string option \<Rightarrow> u64 \<Rightarrow> 'w lib \<Rightarrow> bool \<times> 'w lib" where
  "patch_driver_proc e symbol pfn s =
     (if symbol = None \<or> pfn = 0 then (False, s)
      else
        case wrapper_for_driver_symbol e (the symbol) of
          Some wrapper \<Rightarrow> (True, s\<lparr>ls_world := lk_poke e pfn wrapper (ls_world s)\<rparr>)
        | None \<Rightarrow> (False, s))"

definition real_cu_get_proc_address :: "'w linker \<Rightarrow> 'w lib \<Rightarrow> u64 option \<times> 'w lib" where
  "real_cu_get_proc_address e = resolve_driver e ''REAL_CU_GET_PROC_ADDRESS'' ''cuGetProcAddress''"

definition real_cu_get_proc_address_v2 :: "'w linker \<Rightarrow> 'w lib \<Rightarrow> u64 option \<times> 'w lib" where
  "real_cu_get_proc_address_v2 e = resolve_driver e ''REAL_CU_GET_PROC_ADDRESS_V2'' ''cuGetProcAddress_v2''"

definition cuGetProcAddress ::
    "'w linker \<Rightarrow> string option \<Rightarrow> u64 \<Rightarrow> i32 \<Rightarrow> u64 \<Rightarrow> 'w lib \<Rightarrow> CUresult \<times> 'w lib" where
  "cuGetProcAddress e symbol pfn cuda_version flags s =
     (let (real, s) = real_cu_get_proc_address e s;
          (ret, s) = (case real of
              Some real \<Rightarrow> lk_call e real [AStr symbol, APtr pfn, AInt cuda_version, ADev flags] s
            | None \<Rightarrow>
                (let (real_v2, s) = real_cu_get_proc_address_v2 e s
                 in case real_v2 of
                      Some real_v2 \<Rightarrow>
                        lk_call e real_v2 [AStr symbol, APtr pfn, AInt cuda_version, ADev flags, APtr 0] s
                    | None \<Rightarrow> (CUDA_ERROR_UNKNOWN, s)));
          s = (if ret = CUDA_SUCCESS then snd (patch_driver_proc e symbol pfn s) else s)
      in (ret, s))"

definition cuGetProcAddress_v2 ::
    "'w linker \<Rightarrow> string option \<Rightarrow> u64 \<Rightarrow> i32 \<Rightarrow> u64 \<Rightarrow> u64 \<Rightarrow> 'w lib \<Rightarrow> CUresult \<times> 'w lib" where
  "cuGetProcAddress_v2 e symbol pfn cuda_version flags symbol_status s =
     (let (real, s) = real_cu_get_proc_address_v2 e s;
          (ret, s) = (case real of
              Some real \<Rightarrow>
                lk_call e real [AStr symbol, APtr pfn, AInt cuda_version, ADev flags, APtr symbol_status] s
            | None \<Rightarrow>
                (let (real_legacy, s) = real_cu_get_proc_address e s
                 in case real_legacy of
                      Some real_legacy \<Rightarrow>
                        lk_call e real_legacy [AStr symbol, APtr pfn, AInt cuda_version, ADev flags] s
                    | None \<Rightarrow> (CUDA_ERROR_UNKNOWN, s)));
          s = (if ret = CUDA_SUCCESS then snd (patch_driver_proc e symbol pfn s) else s)
      in (ret, s))"

end
