(* ===== verification/Driver_Hooks.thy ===== *)
theory Driver_Hooks
  imports Interpose
begin

text \<open>
  \<open>src/hook/driver.rs\<close>: the functions of the CUDA driver that the library exports under the driver's
  own names. Each is traced, and forwards its arguments to the function it has replaced.
\<close>

subsection \<open>The real functions\<close>

definition real_cu_init :: "'w linker \<Rightarrow> 'w lib \<Rightarrow> u64 option \<times> 'w lib" where
  "real_cu_init e = resolve_driver e ''REAL_CU_INIT'' ''cuInit''"

definition real_cu_device_get :: "'w linker \<Rightarrow> 'w lib \<Rightarrow> u64 option \<times> 'w lib" where
  "real_cu_device_get e = resolve_driver e ''REAL_CU_DEVICE_GET'' ''cuDeviceGet''"

definition real_cu_device_get_name :: "'w linker \<Rightarrow> 'w lib \<Rightarrow> u64 option \<times> 'w lib" where
  "real_cu_device_get_name e = resolve_driver e ''REAL_CU_DEVICE_GET_NAME'' ''cuDeviceGetName''"

definition real_cu_ctx_create_v2 :: "'w linker \<Rightarrow> 'w lib \<Rightarrow> u64 option \<times> 'w lib" where
  "real_cu_ctx_create_v2 e = resolve_driver e ''REAL_CU_CTX_CREATE_V2'' ''cuCtxCreate_v2''"

definition real_cu_ctx_destroy_v2 :: "'w linker \<Rightarrow> 'w lib \<Rightarrow> u64 option \<times> 'w lib" where
  "real_cu_ctx_destroy_v2 e = resolve_driver e ''REAL_CU_CTX_DESTROY_V2'' ''cuCtxDestroy_v2''"

definition real_cu_ctx_synchronize :: "'w linker \<Rightarrow> 'w lib \<Rightarrow> u64 option \<times> 'w lib" where
  "real_cu_ctx_synchronize e = resolve_driver e ''REAL_CU_CTX_SYNCHRONIZE'' ''cuCtxSynchronize''"

definition real_cu_ctx_get_current :: "'w linker \<Rightarrow> 'w lib \<Rightarrow> u64 option \<times> 'w lib" where
  "real_cu_ctx_get_current e = resolve_driver e ''REAL_CU_CTX_GET_CURRENT'' ''cuCtxGetCurrent''"

definition real_cu_ctx_set_current :: "'w linker \<Rightarrow> 'w lib \<Rightarrow> u64 option \<times> 'w lib" where
  "real_cu_ctx_set_current e = resolve_driver e ''REAL_CU_CTX_SET_CURRENT'' ''cuCtxSetCurrent''"

definition real_cu_ctx_push_current_v2 :: "'w linker \<Rightarrow> 'w lib \<Rightarrow> u64 option \<times> 'w lib" where
  "real_cu_ctx_push_current_v2 e = resolve_driver e ''REAL_CU_CTX_PUSH_CURRENT_V2'' ''cuCtxPushCurrent_v2''"

definition real_cu_ctx_push_current :: "'w linker \<Rightarrow> 'w lib \<Rightarrow> u64 option \<times> 'w lib" where
  "real_cu_ctx_push_current e = resolve_driver e ''REAL_CU_CTX_PUSH_CURRENT'' ''cuCtxPushCurrent''"

definition real_cu_ctx_pop_current_v2 :: "'w linker \<Rightarrow> 'w lib \<Rightarrow> u64 option \<times> 'w lib" where
  "real_cu_ctx_pop_current_v2 e = resolve_driver e ''REAL_CU_CTX_POP_CURRENT_V2'' ''cuCtxPopCurrent_v2''"

definition real_cu_ctx_pop_current :: "'w linker \<Rightarrow> 'w lib \<Rightarrow> u64 option \<times> 'w lib" where
  "real_cu_ctx_pop_current e = resolve_driver e ''REAL_CU_CTX_POP_CURRENT'' ''cuCtxPopCurrent''"

definition real_cu_device_primary_ctx_retain :: "'w linker \<Rightarrow> 'w lib \<Rightarrow> u64 option \<times> 'w lib" where
  "real_cu_device_primary_ctx_retain e = resolve_driver e ''REAL_CU_DEVICE_PRIMARY_CTX_RETAIN'' ''cuDevicePrimaryCtxRetain''"

definition real_cu_device_primary_ctx_release :: "'w linker \<Rightarrow> 'w lib \<Rightarrow> u64 option \<times> 'w lib" where
  "real_cu_device_primary_ctx_release e = resolve_driver e ''REAL_CU_DEVICE_PRIMARY_CTX_RELEASE'' ''cuDevicePrimaryCtxRelease''"

definition real_cu_device_primary_ctx_reset :: "'w linker \<Rightarrow> 'w lib \<Rightarrow> u64 option \<times> 'w lib" where
  "real_cu_device_primary_ctx_reset e = resolve_driver e ''REAL_CU_DEVICE_PRIMARY_CTX_RESET'' ''cuDevicePrimaryCtxReset''"

definition real_cu_device_primary_ctx_set_flags :: "'w linker \<Rightarrow> 'w lib \<Rightarrow> u64 option \<times> 'w lib" where
  "real_cu_device_primary_ctx_set_flags e = resolve_driver e ''REAL_CU_DEVICE_PRIMARY_CTX_SET_FLAGS'' ''cuDevicePrimaryCtxSetFlags''"

definition real_cu_device_primary_ctx_set_flags_v2 :: "'w linker \<Rightarrow> 'w lib \<Rightarrow> u64 option \<times> 'w lib" where
  "real_cu_device_primary_ctx_set_flags_v2 e = resolve_driver e ''REAL_CU_DEVICE_PRIMARY_CTX_SET_FLAGS_V2'' ''cuDevicePrimaryCtxSetFlags_v2''"

definition real_cu_device_primary_ctx_get_state :: "'w linker \<Rightarrow> 'w lib \<Rightarrow> u64 option \<times> 'w lib" where
  "real_cu_device_primary_ctx_get_state e = resolve_driver e ''REAL_CU_DEVICE_PRIMARY_CTX_GET_STATE'' ''cuDevicePrimaryCtxGetState''"

definition real_cu_stream_create :: "'w linker \<Rightarrow> 'w lib \<Rightarrow> u64 option \<times> 'w lib" where
  "real_cu_stream_create e = resolve_driver e ''REAL_CU_STREAM_CREATE'' ''cuStreamCreate''"

definition real_cu_stream_create_with_priority :: "'w linker \<Rightarrow> 'w lib \<Rightarrow> u64 option \<times> 'w lib" where
  "real_cu_stream_create_with_priority e = resolve_driver e ''REAL_CU_STREAM_CREATE_WITH_PRIORITY'' ''cuStreamCreateWithPriority''"

definition real_cu_stream_destroy :: "'w linker \<Rightarrow> 'w lib \<Rightarrow> u64 option \<times> 'w lib" where
  "real_cu_stream_destroy e = resolve_driver e ''REAL_CU_STREAM_DESTROY'' ''cuStreamDestroy''"

definition real_cu_stream_destroy_v2 :: "'w linker \<Rightarrow> 'w lib \<Rightarrow> u64 option \<times> 'w lib" where
  "real_cu_stream_destroy_v2 e = resolve_driver e ''REAL_CU_STREAM_DESTROY_V2'' ''cuStreamDestroy_v2''"

definition real_cu_event_create :: "'w linker \<Rightarrow> 'w lib \<Rightarrow> u64 option \<times> 'w lib" where
  "real_cu_event_create e = resolve_driver e ''REAL_CU_EVENT_CREATE'' ''cuEventCreate''"

definition real_cu_event_destroy :: "'w linker \<Rightarrow> 'w lib \<Rightarrow> u64 option \<times> 'w lib" where
  "real_cu_event_destroy e = resolve_driver e ''REAL_CU_EVENT_DESTROY'' ''cuEventDestroy''"

definition real_cu_event_destroy_v2 :: "'w linker \<Rightarrow> 'w lib \<Rightarrow> u64 option \<times> 'w lib" where
  "real_cu_event_destroy_v2 e = resolve_driver e ''REAL_CU_EVENT_DESTROY_V2'' ''cuEventDestroy_v2''"

definition real_cu_event_record :: "'w linker \<Rightarrow> 'w lib \<Rightarrow> u64 option \<times> 'w lib" where
  "real_cu_event_record e = resolve_driver e ''REAL_CU_EVENT_RECORD'' ''cuEventRecord''"

definition real_cu_event_record_with_flags :: "'w linker \<Rightarrow> 'w lib \<Rightarrow> u64 option \<times> 'w lib" where
  "real_cu_event_record_with_flags e = resolve_driver e ''REAL_CU_EVENT_RECORD_WITH_FLAGS'' ''cuEventRecordWithFlags''"

definition real_cu_event_synchronize :: "'w linker \<Rightarrow> 'w lib \<Rightarrow> u64 option \<times> 'w lib" where
  "real_cu_event_synchronize e = resolve_driver e ''REAL_CU_EVENT_SYNCHRONIZE'' ''cuEventSynchronize''"

definition real_cu_event_elapsed_time :: "'w linker \<Rightarrow> 'w lib \<Rightarrow> u64 option \<times> 'w lib" where
  "real_cu_event_elapsed_time e = resolve_driver e ''REAL_CU_EVENT_ELAPSED_TIME'' ''cuEventElapsedTime''"

definition real_cu_event_elapsed_time_v2 :: "'w linker \<Rightarrow> 'w lib \<Rightarrow> u64 option \<times> 'w lib" where
  "real_cu_event_elapsed_time_v2 e = resolve_driver e ''REAL_CU_EVENT_ELAPSED_TIME_V2'' ''cuEventElapsedTime_v2''"

definition real_cu_memcpy_async :: "'w linker \<Rightarrow> 'w lib \<Rightarrow> u64 option \<times> 'w lib" where
  "real_cu_memcpy_async e = resolve_driver e ''REAL_CU_MEMCPY_ASYNC'' ''cuMemcpyAsync''"

definition real_cu_memcpy_htod_async_v2 :: "'w linker \<Rightarrow> 'w lib \<Rightarrow> u64 option \<times> 'w lib" where
  "real_cu_memcpy_htod_async_v2 e = resolve_driver e ''REAL_CU_MEMCPY_HTOD_ASYNC_V2'' ''cuMemcpyHtoDAsync_v2''"

definition real_cu_memcpy_htod_async :: "'w linker \<Rightarrow> 'w lib \<Rightarrow> u64 option \<times> 'w lib" where
  "real_cu_memcpy_htod_async e = resolve_driver e ''REAL_CU_MEMCPY_HTOD_ASYNC'' ''cuMemcpyHtoDAsync''"

definition real_cu_memcpy_dtoh_async_v2 :: "'w linker \<Rightarrow> 'w lib \<Rightarrow> u64 option \<times> 'w lib" where
  "real_cu_memcpy_dtoh_async_v2 e = resolve_driver e ''REAL_CU_MEMCPY_DTOH_ASYNC_V2'' ''cuMemcpyDtoHAsync_v2''"

definition real_cu_memcpy_dtoh_async :: "'w linker \<Rightarrow> 'w lib \<Rightarrow> u64 option \<times> 'w lib" where
  "real_cu_memcpy_dtoh_async e = resolve_driver e ''REAL_CU_MEMCPY_DTOH_ASYNC'' ''cuMemcpyDtoHAsync''"

definition real_cu_module_load :: "'w linker \<Rightarrow> 'w lib \<Rightarrow> u64 option \<times> 'w lib" where
  "real_cu_module_load e = resolve_driver e ''REAL_CU_MODULE_LOAD'' ''cuModuleLoad''"

definition real_cu_module_get_function :: "'w linker \<Rightarrow> 'w lib \<Rightarrow> u64 option \<times> 'w lib" where
  "real_cu_module_get_function e = resolve_driver e ''REAL_CU_MODULE_GET_FUNCTION'' ''cuModuleGetFunction''"

definition real_cu_module_unload :: "'w linker \<Rightarrow> 'w lib \<Rightarrow> u64 option \<times> 'w lib" where
  "real_cu_module_unload e = resolve_driver e ''REAL_CU_MODULE_UNLOAD'' ''cuModuleUnload''"

definition real_cu_launch_kernel :: "'w linker \<Rightarrow> 'w lib \<Rightarrow> u64 option \<times> 'w lib" where
  "real_cu_launch_kernel e = resolve_driver e ''REAL_CU_LAUNCH_KERNEL'' ''cuLaunchKernel''"

definition real_cu_memcpy_htod_v2 :: "'w linker \<Rightarrow> 'w lib \<Rightarrow> u64 option \<times> 'w lib" where
  "real_cu_memcpy_htod_v2 e = resolve_driver e ''REAL_CU_MEMCPY_HTOD_V2'' ''cuMemcpyHtoD_v2''"

definition real_cu_memcpy_dtoh_v2 :: "'w linker \<Rightarrow> 'w lib \<Rightarrow> u64 option \<times> 'w lib" where
  "real_cu_memcpy_dtoh_v2 e = resolve_driver e ''REAL_CU_MEMCPY_DTOH_V2'' ''cuMemcpyDtoH_v2''"

definition real_cu_mem_alloc_v2 :: "'w linker \<Rightarrow> 'w lib \<Rightarrow> u64 option \<times> 'w lib" where
  "real_cu_mem_alloc_v2 e = resolve_driver e ''REAL_CU_MEM_ALLOC_V2'' ''cuMemAlloc_v2''"

definition real_cu_mem_free_v2 :: "'w linker \<Rightarrow> 'w lib \<Rightarrow> u64 option \<times> 'w lib" where
  "real_cu_mem_free_v2 e = resolve_driver e ''REAL_CU_MEM_FREE_V2'' ''cuMemFree_v2''"

definition real_cu_mem_alloc_host_v2 :: "'w linker \<Rightarrow> 'w lib \<Rightarrow> u64 option \<times> 'w lib" where
  "real_cu_mem_alloc_host_v2 e = resolve_driver e ''REAL_CU_MEM_ALLOC_HOST_V2'' ''cuMemAllocHost_v2''"

definition real_cu_mem_free_host :: "'w linker \<Rightarrow> 'w lib \<Rightarrow> u64 option \<times> 'w lib" where
  "real_cu_mem_free_host e = resolve_driver e ''REAL_CU_MEM_FREE_HOST'' ''cuMemFreeHost''"

subsection \<open>The hooked functions\<close>

definition cuInit :: "'w linker \<Rightarrow> u32 \<Rightarrow> 'w lib \<Rightarrow> CUresult \<times> 'w lib" where
  "cuInit e flags =
     traced_call e TraceDomain.Driver ''cuInit''
       (''flags=0x'' @ hex (unat flags))
       (real_cu_init e) [AUInt flags]"

definition cuDeviceGet :: "'w linker \<Rightarrow> u64 \<Rightarrow> i32 \<Rightarrow> 'w lib \<Rightarrow> CUresult \<times> 'w lib" where
  "cuDeviceGet e device ordinal =
     traced_call e TraceDomain.Driver ''cuDeviceGet''
       (''device='' @ hex0x (unat device) @ '', ordinal='' @ dec_int ordinal)
       (real_cu_device_get e) [APtr device, AInt ordinal]"

definition cuDeviceGetName :: "'w linker \<Rightarrow> u64 \<Rightarrow> i32 \<Rightarrow> i32 \<Rightarrow> 'w lib \<Rightarrow> CUresult \<times> 'w lib" where
  "cuDeviceGetName e name len device =
     traced_call e TraceDomain.Driver ''cuDeviceGetName''
       (''name='' @ hex0x (unat name) @ '', len='' @ dec_int len @ '', device='' @ dec_int device)
       (real_cu_device_get_name e) [APtr name, AInt len, AInt device]"

definition cuCtxCreate_v2 :: "'w linker \<Rightarrow> u64 \<Rightarrow> u32 \<Rightarrow> i32 \<Rightarrow> 'w lib \<Rightarrow> CUresult \<times> 'w lib" where
  "cuCtxCreate_v2 e pctx flags dev =
     traced_call e TraceDomain.Driver ''cuCtxCreate_v2''
       (''pctx='' @ hex0x (unat pctx) @ '', flags=0x'' @ hex (unat flags) @ '', dev='' @ dec_int dev)
       (real_cu_ctx_create_v2 e) [APtr pctx, AUInt flags, AInt dev]"

definition cuCtxDestroy_v2 :: "'w linker \<Rightarrow> u64 \<Rightarrow> 'w lib \<Rightarrow> CUresult \<times> 'w lib" where
  "cuCtxDestroy_v2 e ctx =
     traced_call e TraceDomain.Driver ''cuCtxDestroy_v2''
       (''ctx='' @ hex0x (unat ctx))
       (real_cu_ctx_destroy_v2 e) [APtr ctx]"

definition cuCtxSynchronize :: "'w linker \<Rightarrow> 'w lib \<Rightarrow> CUresult \<times> 'w lib" where
  "cuCtxSynchronize e =
     traced_call e TraceDomain.Driver ''cuCtxSynchronize'' [] (real_cu_ctx_synchronize e) []"

definition cuCtxGetCurrent :: "'w linker \<Rightarrow> u64 \<Rightarrow> 'w lib \<Rightarrow> CUresult \<times> 'w lib" where
  "cuCtxGetCurrent e pctx =
     traced_call e TraceDomain.Driver ''cuCtxGetCurrent''
       (''pctx='' @ hex0x (unat pctx))
       (real_cu_ctx_get_current e) [APtr pctx]"

definition cuCtxSetCurrent :: "'w linker \<Rightarrow> u64 \<Rightarrow> 'w lib \<Rightarrow> CUresult \<times> 'w lib" where
  "cuCtxSetCurrent e ctx =
     traced_call e TraceDomain.Driver ''cuCtxSetCurrent''
       (''ctx='' @ hex0x (unat ctx))
       (real_cu_ctx_set_current e) [APtr ctx]"

definition cuCtxPushCurrent_v2 :: "'w linker \<Rightarrow> u64 \<Rightarrow> 'w lib \<Rightarrow> CUresult \<times> 'w lib" where
  "cuCtxPushCurrent_v2 e ctx =
     traced_call e TraceDomain.Driver ''cuCtxPushCurrent_v2''
       (''ctx='' @ hex0x (unat ctx))
       (or_else (real_cu_ctx_push_current_v2 e) (real_cu_ctx_push_current e)) [APtr ctx]"

definition cuCtxPushCurrent :: "'w linker \<Rightarrow> u64 \<Rightarrow> 'w lib \<Rightarrow> CUresult \<times> 'w lib" where
  "cuCtxPushCurrent e ctx = cuCtxPushCurrent_v2 e ctx"

definition cuCtxPopCurrent_v2 :: "'w linker \<Rightarrow> u64 \<Rightarrow> 'w lib \<Rightarrow> CUresult \<times> 'w lib" where
  "cuCtxPopCurrent_v2 e pctx =
     traced_call e TraceDomain.Driver ''cuCtxPopCurrent_v2''
       (''pctx='' @ hex0x (unat pctx))
       (or_else (real_cu_ctx_pop_current_v2 e) (real_cu_ctx_pop_current e)) [APtr pctx]"

definition cuCtxPopCurrent :: "'w linker \<Rightarrow> u64 \<Rightarrow> 'w lib \<Rightarrow> CUresult \<times> 'w lib" where
  "cuCtxPopCurrent e pctx = cuCtxPopCurrent_v2 e pctx"

definition cuDevicePrimaryCtxRetain :: "'w linker \<Rightarrow> u64 \<Rightarrow> i32 \<Rightarrow> 'w lib \<Rightarrow> CUresult \<times> 'w lib" where
  "cuDevicePrimaryCtxRetain e pctx dev =
     traced_call e TraceDomain.Driver ''cuDevicePrimaryCtxRetain''
       (''pctx='' @ hex0x (unat pctx) @ '', dev='' @ dec_int dev)
       (real_cu_device_primary_ctx_retain e) [APtr pctx, AInt dev]"

definition cuDevicePrimaryCtxRelease :: "'w linker \<Rightarrow> i32 \<Rightarrow> 'w lib \<Rightarrow> CUresult \<times> 'w lib" where
  "cuDevicePrimaryCtxRelease e dev =
     traced_call e TraceDomain.Driver ''cuDevicePrimaryCtxRelease''
       (''dev='' @ dec_int dev)
       (real_cu_device_primary_ctx_release e) [AInt dev]"

definition cuDevicePrimaryCtxReset :: "'w linker \<Rightarrow> i32 \<Rightarrow> 'w lib \<Rightarrow> CUresult \<times> 'w lib" where
  "cuDevicePrimaryCtxReset e dev =
     traced_call e TraceDomain.Driver ''cuDevicePrimaryCtxReset''
       (''dev='' @ dec_int dev)
       (real_cu_device_primary_ctx_reset e) [AInt dev]"

definition cuDevicePrimaryCtxSetFlags :: "'w linker \<Rightarrow> i32 \<Rightarrow> u32 \<Rightarrow> 'w lib \<Rightarrow> CUresult \<times> 'w lib" where
  "cuDevicePrimaryCtxSetFlags e dev flags =
     traced_call e TraceDomain.Driver ''cuDevicePrimaryCtxSetFlags''
       (''dev='' @ dec_int dev @ '', flags=0x'' @ hex (unat flags))
       (or_else (real_cu_device_primary_ctx_set_flags e) (real_cu_device_primary_ctx_set_flags_v2 e)) [AInt dev, AUInt flags]"

definition cuDevicePrimaryCtxSetFlags_v2 :: "'w linker \<Rightarrow> i32 \<Rightarrow> u32 \<Rightarrow> 'w lib \<Rightarrow> CUresult \<times> 'w lib" where
  "cuDevicePrimaryCtxSetFlags_v2 e dev flags = cuDevicePrimaryCtxSetFlags e dev flags"

definition cuDevicePrimaryCtxGetState :: "'w linker \<Rightarrow> i32 \<Rightarrow> u64 \<Rightarrow> u64 \<Rightarrow> 'w lib \<Rightarrow> CUresult \<times> 'w lib" where
  "cuDevicePrimaryCtxGetState e dev flags active =
     traced_call e TraceDomain.Driver ''cuDevicePrimaryCtxGetState''
       (''dev='' @ dec_int dev @ '', flags='' @ hex0x (unat flags) @ '', active='' @
        hex0x (unat active))
       (real_cu_device_primary_ctx_get_state e) [AInt dev, APtr flags, APtr active]"

definition cuStreamCreate :: "'w linker \<Rightarrow> u64 \<Rightarrow> u32 \<Rightarrow> 'w lib \<Rightarrow> CUresult \<times> 'w lib" where
  "cuStreamCreate e stream flags =
     traced_call e TraceDomain.Driver ''cuStreamCreate''
       (''stream='' @ hex0x (unat stream) @ '', flags=0x'' @ hex (unat flags))
       (real_cu_stream_create e) [APtr stream, AUInt flags]"

definition cuStreamCreateWithPriority :: "'w linker \<Rightarrow> u64 \<Rightarrow> u32 \<Rightarrow> i32 \<Rightarrow> 'w lib \<Rightarrow> CUresult \<times> 'w lib" where
  "cuStreamCreateWithPriority e stream flags priority =
     traced_call e TraceDomain.Driver ''cuStreamCreateWithPriority''
       (''stream='' @ hex0x (unat stream) @ '', flags=0x'' @ hex (unat flags) @ '', priority='' @
        dec_int priority)
       (real_cu_stream_create_with_priority e) [APtr stream, AUInt flags, AInt priority]"

definition cuStreamDestroy :: "'w linker \<Rightarrow> u64 \<Rightarrow> 'w lib \<Rightarrow> CUresult \<times> 'w lib" where
  "cuStreamDestroy e stream =
     traced_call e TraceDomain.Driver ''cuStreamDestroy''
       (''stream='' @ hex0x (unat stream))
       (or_else (real_cu_stream_destroy e) (real_cu_stream_destroy_v2 e)) [APtr stream]"

definition cuStreamDestroy_v2 :: "'w linker \<Rightarrow> u64 \<Rightarrow> 'w lib \<Rightarrow> CUresult \<times> 'w lib" where
  "cuStreamDestroy_v2 e stream = cuStreamDestroy e stream"

definition cuEventCreate :: "'w linker \<Rightarrow> u64 \<Rightarrow> u32 \<Rightarrow> 'w lib \<Rightarrow> CUresult \<times> 'w lib" where
  "cuEventCreate e event flags =
     traced_call e TraceDomain.Driver ''cuEventCreate''
       (''event='' @ hex0x (unat event) @ '', flags=0x'' @ hex (unat flags))
       (real_cu_event_create e) [APtr event, AUInt flags]"

definition cuEventDestroy :: "'w linker \<Rightarrow> u64 \<Rightarrow> 'w lib \<Rightarrow> CUresult \<times> 'w lib" where
  "cuEventDestroy e event =
     traced_call e TraceDomain.Driver ''cuEventDestroy''
       (''event='' @ hex0x (unat event))
       (or_else (real_cu_event_destroy e) (real_cu_event_destroy_v2 e)) [APtr event]"

definition cuEventDestroy_v2 :: "'w linker \<Rightarrow> u64 \<Rightarrow> 'w lib \<Rightarrow> CUresult \<times> 'w lib" where
  "cuEventDestroy_v2 e event = cuEventDestroy e event"

definition cuEventRecord :: "'w linker \<Rightarrow> u64 \<Rightarrow> u64 \<Rightarrow> 'w lib \<Rightarrow> CUresult \<times> 'w lib" where
  "cuEventRecord e event stream =
     traced_call e TraceDomain.Driver ''cuEventRecord''
       (''event='' @ hex0x (unat event) @ '', stream='' @ hex0x (unat stream))
       (real_cu_event_record e) [APtr event, APtr stream]"

definition cuEventRecord_ptsz :: "'w linker \<Rightarrow> u64 \<Rightarrow> u64 \<Rightarrow> 'w lib \<Rightarrow> CUresult \<times> 'w lib" where
  "cuEventRecord_ptsz e event stream = cuEventRecord e event stream"

definition cuEventRecordWithFlags :: "'w linker \<Rightarrow> u64 \<Rightarrow> u64 \<Rightarrow> u32 \<Rightarrow> 'w lib \<Rightarrow> CUresult \<times> 'w lib" where
  "cuEventRecordWithFlags e event stream flags =
     traced_call e TraceDomain.Driver ''cuEventRecordWithFlags''
       (''event='' @ hex0x (unat event) @ '', stream='' @ hex0x (unat stream) @ '', flags=0x'' @
        hex (unat flags))
       (real_cu_event_record_with_flags e) [APtr event, APtr stream, AUInt flags]"

definition cuEventRecordWithFlags_ptsz :: "'w linker \<Rightarrow> u64 \<Rightarrow> u64 \<Rightarrow> u32 \<Rightarrow> 'w lib \<Rightarrow> CUresult \<times> 'w lib" where
  "cuEventRecordWithFlags_ptsz e event stream flags = cuEventRecordWithFlags e event stream flags"

definition cuEventSynchronize :: "'w linker \<Rightarrow> u64 \<Rightarrow> 'w lib \<Rightarrow> CUresult \<times> 'w lib" where
  "cuEventSynchronize e event =
     traced_call e TraceDomain.Driver ''cuEventSynchronize''
       (''event='' @ hex0x (unat event))
       (real_cu_event_synchronize e) [APtr event]"

definition cuEventElapsedTime :: "'w linker \<Rightarrow> u64 \<Rightarrow> u64 \<Rightarrow> u64 \<Rightarrow> 'w lib \<Rightarrow> CUresult \<times> 'w lib" where
  "cuEventElapsedTime e milliseconds start end_event =
     traced_call e TraceDomain.Driver ''cuEventElapsedTime''
       (''ms='' @ hex0x (unat milliseconds) @ '', start='' @ hex0x (unat start) @ '', end='' @
        hex0x (unat end_event))
       (or_else (real_cu_event_elapsed_time e) (real_cu_event_elapsed_time_v2 e)) [APtr milliseconds, APtr start, APtr end_event]"

definition cuEventElapsedTime_v2 :: "'w linker \<Rightarrow> u64 \<Rightarrow> u64 \<Rightarrow> u64 \<Rightarrow> 'w lib \<Rightarrow> CUresult \<times> 'w lib" where
  "cuEventElapsedTime_v2 e milliseconds start end_event = cuEventElapsedTime e milliseconds start end_event"

definition cuModuleLoad :: "'w linker \<Rightarrow> u64 \<Rightarrow> u64 \<Rightarrow> 'w lib \<Rightarrow> CUresult \<times> 'w lib" where
  "cuModuleLoad e module fname =
     traced_call e TraceDomain.Driver ''cuModuleLoad''
       (''module='' @ hex0x (unat module) @ '', fname='' @ hex0x (unat fname))
       (real_cu_module_load e) [APtr module, APtr fname]"

definition cuModuleGetFunction :: "'w linker \<Rightarrow> u64 \<Rightarrow> u64 \<Rightarrow> u64 \<Rightarrow> 'w lib \<Rightarrow> CUresult \<times> 'w lib" where
  "cuModuleGetFunction e hfunc module name =
     traced_call e TraceDomain.Driver ''cuModuleGetFunction''
       (''hfunc='' @ hex0x (unat hfunc) @ '', module='' @ hex0x (unat module) @ '', name='' @
        hex0x (unat name))
       (real_cu_module_get_function e) [APtr hfunc, APtr module, APtr name]"

definition cuModuleUnload :: "'w linker \<Rightarrow> u64 \<Rightarrow> 'w lib \<Rightarrow> CUresult \<times> 'w lib" where
  "cuModuleUnload e module =
     traced_call e TraceDomain.Driver ''cuModuleUnload''
       (''module='' @ hex0x (unat module))
       (real_cu_module_unload e) [APtr module]"

definition cuLaunchKernel :: "'w linker \<Rightarrow> u64 \<Rightarrow> u32 \<Rightarrow> u32 \<Rightarrow> u32 \<Rightarrow> u32 \<Rightarrow> u32 \<Rightarrow>
    u32 \<Rightarrow> u32 \<Rightarrow> u64 \<Rightarrow> u64 \<Rightarrow> u64 \<Rightarrow> 'w lib \<Rightarrow>
    CUresult \<times> 'w lib" where
  "cuLaunchKernel e f grid_x grid_y grid_z block_x block_y block_z shared_mem_bytes hstream kernel_params extra =
     traced_call e TraceDomain.Driver ''cuLaunchKernel''
       (''f='' @ hex0x (unat f) @ '', grid=('' @ dec (unat grid_x) @ '','' @ dec (unat grid_y) @
        '','' @ dec (unat grid_z) @ ''), block=('' @ dec (unat block_x) @ '','' @ dec (unat block_y) @
        '','' @ dec (unat block_z) @ ''), sharedMem='' @ dec (unat shared_mem_bytes) @ '', stream='' @
        hex0x (unat hstream) @ '', params='' @ hex0x (unat kernel_params) @ '', extra='' @
        hex0x (unat extra))
       (real_cu_launch_kernel e) [APtr f, AUInt grid_x, AUInt grid_y, AUInt grid_z, AUInt block_x, AUInt block_y,
        AUInt block_z, AUInt shared_mem_bytes, APtr hstream, APtr kernel_params,
        APtr extra]"

definition cuMemcpyAsync :: "'w linker \<Rightarrow> u64 \<Rightarrow> u64 \<Rightarrow> u64 \<Rightarrow> u64 \<Rightarrow> 'w lib \<Rightarrow>
    CUresult \<times> 'w lib" where
  "cuMemcpyAsync e dst src byte_count stream =
     traced_call e TraceDomain.Driver ''cuMemcpyAsync''
       (''dst=0x'' @ hex (unat dst) @ '', src=0x'' @ hex (unat src) @ '', byte_count='' @
        dec (unat byte_count) @ '', stream='' @ hex0x (unat stream))
       (real_cu_memcpy_async e) [ADev dst, ADev src, ASize byte_count, APtr stream]"

definition cuMemcpyAsync_ptsz :: "'w linker \<Rightarrow> u64 \<Rightarrow> u64 \<Rightarrow> u64 \<Rightarrow> u64 \<Rightarrow> 'w lib \<Rightarrow>
    CUresult \<times> 'w lib" where
  "cuMemcpyAsync_ptsz e dst src byte_count stream = cuMemcpyAsync e dst src byte_count stream"

definition cuMemcpyHtoDAsync_v2 :: "'w linker \<Rightarrow> u64 \<Rightarrow> u64 \<Rightarrow> u64 \<Rightarrow> u64 \<Rightarrow> 'w lib \<Rightarrow>
    CUresult \<times> 'w lib" where
  "cuMemcpyHtoDAsync_v2 e dst_device src_host byte_count stream =
     traced_call e TraceDomain.Driver ''cuMemcpyHtoDAsync_v2''
       (''dst_device=0x'' @ hex (unat dst_device) @ '', src_host='' @ hex0x (unat src_host) @
        '', byte_count='' @ dec (unat byte_count) @ '', stream='' @ hex0x (unat stream))
       (or_else (real_cu_memcpy_htod_async_v2 e) (real_cu_memcpy_htod_async e)) [ADev dst_device, APtr src_host, ASize byte_count, APtr stream]"

definition cuMemcpyHtoDAsync :: "'w linker \<Rightarrow> u64 \<Rightarrow> u64 \<Rightarrow> u64 \<Rightarrow> u64 \<Rightarrow> 'w lib \<Rightarrow>
    CUresult \<times> 'w lib" where
  "cuMemcpyHtoDAsync e dst_device src_host byte_count stream = cuMemcpyHtoDAsync_v2 e dst_device src_host byte_count stream"

definition cuMemcpyHtoDAsync_v2_ptsz :: "'w linker \<Rightarrow> u64 \<Rightarrow> u64 \<Rightarrow> u64 \<Rightarrow> u64 \<Rightarrow> 'w lib \<Rightarrow>
    CUresult \<times> 'w lib" where
  "cuMemcpyHtoDAsync_v2_ptsz e dst_device src_host byte_count stream = cuMemcpyHtoDAsync_v2 e dst_device src_host byte_count stream"

definition cuMemcpyDtoHAsync_v2 :: "'w linker \<Rightarrow> u64 \<Rightarrow> u64 \<Rightarrow> u64 \<Rightarrow> u64 \<Rightarrow> 'w lib \<Rightarrow>
    CUresult \<times> 'w lib" where
  "cuMemcpyDtoHAsync_v2 e dst_host src_device byte_count stream =
     traced_call e TraceDomain.Driver ''cuMemcpyDtoHAsync_v2''
       (''dst_host='' @ hex0x (unat dst_host) @ '', src_device=0x'' @ hex (unat src_device) @
        '', byte_count='' @ dec (unat byte_count) @ '', stream='' @ hex0x (unat stream))
       (or_else (real_cu_memcpy_dtoh_async_v2 e) (real_cu_memcpy_dtoh_async e)) [APtr dst_host, ADev src_device, ASize byte_count, APtr stream]"

definition cuMemcpyDtoHAsync :: "'w linker \<Rightarrow> u64 \<Rightarrow> u64 \<Rightarrow> u64 \<Rightarrow> u64 \<Rightarrow> 'w lib \<Rightarrow>
    CUresult \<times> 'w lib" where
  "cuMemcpyDtoHAsync e dst_host src_device byte_count stream = cuMemcpyDtoHAsync_v2 e dst_host src_device byte_count stream"

definition cuMemcpyDtoHAsync_v2_ptsz :: "'w linker \<Rightarrow> u64 \<Rightarrow> u64 \<Rightarrow> u64 \<Rightarrow> u64 \<Rightarrow> 'w lib \<Rightarrow>
    CUresult \<times> 'w lib" where
  "cuMemcpyDtoHAsync_v2_ptsz e dst_host src_device byte_count stream = cuMemcpyDtoHAsync_v2 e dst_host src_device byte_count stream"

definition cuMemcpyHtoD_v2 :: "'w linker \<Rightarrow> u64 \<Rightarrow> u64 \<Rightarrow> u64 \<Rightarrow> 'w lib \<Rightarrow> CUresult \<times> 'w lib" where
  "cuMemcpyHtoD_v2 e dst_device src_host byte_count =
     traced_call e TraceDomain.Driver ''cuMemcpyHtoD_v2''
       (''dst_device=0x'' @ hex (unat dst_device) @ '', src_host='' @ hex0x (unat src_host) @
        '', byte_count='' @ dec (unat byte_count))
       (real_cu_memcpy_htod_v2 e) [ADev dst_device, APtr src_host, ASize byte_count]"

definition cuMemcpyDtoH_v2 :: "'w linker \<Rightarrow> u64 \<Rightarrow> u64 \<Rightarrow> u64 \<Rightarrow> 'w lib \<Rightarrow> CUresult \<times> 'w lib" where
  "cuMemcpyDtoH_v2 e dst_host src_device byte_count =
     traced_call e TraceDomain.Driver ''cuMemcpyDtoH_v2''
       (''dst_host='' @ hex0x (unat dst_host) @ '', src_device=0x'' @ hex (unat src_device) @
        '', byte_count='' @ dec (unat byte_count))
       (real_cu_memcpy_dtoh_v2 e) [APtr dst_host, ADev src_device, ASize byte_count]"

definition cuMemAlloc_v2 :: "'w linker \<Rightarrow> u64 \<Rightarrow> u64 \<Rightarrow> 'w lib \<Rightarrow> CUresult \<times> 'w lib" where
  "cuMemAlloc_v2 e dptr bytesize =
     traced_call e TraceDomain.Driver ''cuMemAlloc_v2''
       (''dptr='' @ hex0x (unat dptr) @ '', bytesize='' @ dec (unat bytesize))
       (real_cu_mem_alloc_v2 e) [APtr dptr, ASize bytesize]"

definition cuMemFree_v2 :: "'w linker \<Rightarrow> u64 \<Rightarrow> 'w lib \<Rightarrow> CUresult \<times> 'w lib" where
  "cuMemFree_v2 e dptr =
     traced_call e TraceDomain.Driver ''cuMemFree_v2''
       (''dptr=0x'' @ hex (unat dptr))
       (real_cu_mem_free_v2 e) [ADev dptr]"

definition cuMemAllocHost_v2 :: "'w linker \<Rightarrow> u64 \<Rightarrow> u64 \<Rightarrow> 'w lib \<Rightarrow> CUresult \<times> 'w lib" where
  "cuMemAllocHost_v2 e pp bytesize =
     traced_call e TraceDomain.Driver ''cuMemAllocHost_v2''
       (''pp='' @ hex0x (unat pp) @ '', bytesize='' @ dec (unat bytesize))
       (real_cu_mem_alloc_host_v2 e) [APtr pp, ASize bytesize]"

definition cuMemFreeHost :: "'w linker \<Rightarrow> u64 \<Rightarrow> 'w lib \<Rightarrow> CUresult \<times> 'w lib" where
  "cuMemFreeHost e p =
     traced_call e TraceDomain.Driver ''cuMemFreeHost''
       (''p='' @ hex0x (unat p))
       (real_cu_mem_free_host e) [APtr p]"

lemmas driver_reals = real_cu_init_def real_cu_device_get_def real_cu_device_get_name_def
  real_cu_ctx_create_v2_def real_cu_ctx_destroy_v2_def real_cu_ctx_synchronize_def
  real_cu_ctx_get_current_def real_cu_ctx_set_current_def real_cu_ctx_push_current_v2_def
  real_cu_ctx_push_current_def real_cu_ctx_pop_current_v2_def real_cu_ctx_pop_current_def
  real_cu_device_primary_ctx_retain_def real_cu_device_primary_ctx_release_def
  real_cu_device_primary_ctx_reset_def real_cu_device_primary_ctx_set_flags_def
  real_cu_device_primary_ctx_set_flags_v2_def real_cu_device_primary_ctx_get_state_def
  real_cu_stream_create_def real_cu_stream_create_with_priority_def real_cu_stream_destroy_def
  real_cu_stream_destroy_v2_def real_cu_event_create_def real_cu_event_destroy_def
  real_cu_event_destroy_v2_def real_cu_event_record_def real_cu_event_record_with_flags_def
  real_cu_event_synchronize_def real_cu_event_elapsed_time_def real_cu_event_elapsed_time_v2_def
  real_cu_memcpy_async_def real_cu_memcpy_htod_async_v2_def real_cu_memcpy_htod_async_def
  real_cu_memcpy_dtoh_async_v2_def real_cu_memcpy_dtoh_async_def real_cu_module_load_def
  real_cu_module_get_function_def real_cu_module_unload_def real_cu_launch_kernel_def
  real_cu_memcpy_htod_v2_def real_cu_memcpy_dtoh_v2_def real_cu_mem_alloc_v2_def
  real_cu_mem_free_v2_def real_cu_mem_alloc_host_v2_def real_cu_mem_free_host_def

lemmas driver_hooks = cuInit_def cuDeviceGet_def cuDeviceGetName_def cuCtxCreate_v2_def
  cuCtxDestroy_v2_def cuCtxSynchronize_def cuCtxGetCurrent_def cuCtxSetCurrent_def
  cuCtxPushCurrent_v2_def cuCtxPushCurrent_def cuCtxPopCurrent_v2_def cuCtxPopCurrent_def
  cuDevicePrimaryCtxRetain_def cuDevicePrimaryCtxRelease_def cuDevicePrimaryCtxReset_def
  cuDevicePrimaryCtxSetFlags_def cuDevicePrimaryCtxSetFlags_v2_def cuDevicePrimaryCtxGetState_def
  cuStreamCreate_def cuStreamCreateWithPriority_def cuStreamDestroy_def cuStreamDestroy_v2_def
  cuEventCreate_def cuEventDestroy_def cuEventDestroy_v2_def cuEventRecord_def cuEventRecord_ptsz_def
  cuEventRecordWithFlags_def cuEventRecordWithFlags_ptsz_def cuEventSynchronize_def
  cuEventElapsedTime_def cuEventElapsedTime_v2_def cuModuleLoad_def cuModuleGetFunction_def
  cuModuleUnload_def cuLaunchKernel_def cuMemcpyAsync_def cuMemcpyAsync_ptsz_def
  cuMemcpyHtoDAsync_v2_def cuMemcpyHtoDAsync_def cuMemcpyHtoDAsync_v2_ptsz_def
  cuMemcpyDtoHAsync_v2_def cuMemcpyDtoHAsync_def cuMemcpyDtoHAsync_v2_ptsz_def cuMemcpyHtoD_v2_def
  cuMemcpyDtoH_v2_def cuMemAlloc_v2_def cuMemFree_v2_def cuMemAllocHost_v2_def cuMemFreeHost_def

end
