(* ===== verification/Cudart_Hooks.thy ===== *)
theory Cudart_Hooks
  imports Interpose
begin

text \<open>
  \<open>src/hook/cudart.rs\<close>: the functions of the CUDA runtime that the library exports under the runtime's
  own names. Each is traced, and forwards its arguments to the function it has replaced.
\<close>

subsection \<open>The real functions\<close>

definition real_cuda_malloc :: "'w linker \<Rightarrow> 'w lib \<Rightarrow> u64 option \<times> 'w lib" where
  "real_cuda_malloc e = resolve_cudart e ''REAL_CUDA_MALLOC'' ''cudaMalloc''"

definition real_cuda_free :: "'w linker \<Rightarrow> 'w lib \<Rightarrow> u64 option \<times> 'w lib" where
  "real_cuda_free e = resolve_cudart e ''REAL_CUDA_FREE'' ''cudaFree''"

definition real_cuda_host_alloc :: "'w linker \<Rightarrow> 'w lib \<Rightarrow> u64 option \<times> 'w lib" where
  "real_cuda_host_alloc e = resolve_cudart e ''REAL_CUDA_HOST_ALLOC'' ''cudaHostAlloc''"

definition real_cuda_malloc_host :: "'w linker \<Rightarrow> 'w lib \<Rightarrow> u64 option \<times> 'w lib" where
  "real_cuda_malloc_host e = resolve_cudart e ''REAL_CUDA_MALLOC_HOST'' ''cudaMallocHost''"

definition real_cuda_free_host :: "'w linker \<Rightarrow> 'w lib \<Rightarrow> u64 option \<times> 'w lib" where
  "real_cuda_free_host e = resolve_cudart e ''REAL_CUDA_FREE_HOST'' ''cudaFreeHost''"

definition real_cuda_memcpy_async :: "'w linker \<Rightarrow> 'w lib \<Rightarrow> u64 option \<times> 'w lib" where
  "real_cuda_memcpy_async e = resolve_cudart e ''REAL_CUDA_MEMCPY_ASYNC'' ''cudaMemcpyAsync''"

definition real_cuda_launch_kernel :: "'w linker \<Rightarrow> 'w lib \<Rightarrow> u64 option \<times> 'w lib" where
  "real_cuda_launch_kernel e = resolve_cudart e ''REAL_CUDA_LAUNCH_KERNEL'' ''cudaLaunchKernel''"

definition real_cuda_stream_create :: "'w linker \<Rightarrow> 'w lib \<Rightarrow> u64 option \<times> 'w lib" where
  "real_cuda_stream_create e = resolve_cudart e ''REAL_CUDA_STREAM_CREATE'' ''cudaStreamCreate''"

definition real_cuda_stream_destroy :: "'w linker \<Rightarrow> 'w lib \<Rightarrow> u64 option \<times> 'w lib" where
  "real_cuda_stream_destroy e = resolve_cudart e ''REAL_CUDA_STREAM_DESTROY'' ''cudaStreamDestroy''"

definition real_cuda_event_create :: "'w linker \<Rightarrow> 'w lib \<Rightarrow> u64 option \<times> 'w lib" where
  "real_cuda_event_create e = resolve_cudart e ''REAL_CUDA_EVENT_CREATE'' ''cudaEventCreate''"

definition real_cuda_event_record :: "'w linker \<Rightarrow> 'w lib \<Rightarrow> u64 option \<times> 'w lib" where
  "real_cuda_event_record e = resolve_cudart e ''REAL_CUDA_EVENT_RECORD'' ''cudaEventRecord''"

definition real_cuda_event_synchronize :: "'w linker \<Rightarrow> 'w lib \<Rightarrow> u64 option \<times> 'w lib" where
  "real_cuda_event_synchronize e = resolve_cudart e ''REAL_CUDA_EVENT_SYNCHRONIZE'' ''cudaEventSynchronize''"

definition real_cuda_event_elapsed_time :: "'w linker \<Rightarrow> 'w lib \<Rightarrow> u64 option \<times> 'w lib" where
  "real_cuda_event_elapsed_time e = resolve_cudart e ''REAL_CUDA_EVENT_ELAPSED_TIME'' ''cudaEventElapsedTime''"

definition real_cuda_device_reset :: "'w linker \<Rightarrow> 'w lib \<Rightarrow> u64 option \<times> 'w lib" where
  "real_cuda_device_reset e = resolve_cudart e ''REAL_CUDA_DEVICE_RESET'' ''cudaDeviceReset''"

subsection \<open>The hooked functions\<close>

definition cudaMalloc :: "'w linker \<Rightarrow> u64 \<Rightarrow> u64 \<Rightarrow> 'w lib \<Rightarrow> CUresult \<times> 'w lib" where
  "cudaMalloc e dev_ptr bytes =
     traced_call e TraceDomain.Cudart ''cudaMalloc''
       (''dev_ptr='' @ hex0x (unat dev_ptr) @ '', size='' @ dec (unat bytes))
       (real_cuda_malloc e) [APtr dev_ptr, ASize bytes]"

definition cudaFree :: "'w linker \<Rightarrow> u64 \<Rightarrow> 'w lib \<Rightarrow> CUresult \<times> 'w lib" where
  "cudaFree e dev_ptr =
     traced_call e TraceDomain.Cudart ''cudaFree''
       (''dev_ptr='' @ hex0x (unat dev_ptr))
       (real_cuda_free e) [APtr dev_ptr]"

definition cudaHostAlloc :: "'w linker \<Rightarrow> u64 \<Rightarrow> u64 \<Rightarrow> u32 \<Rightarrow> 'w lib \<Rightarrow> CUresult \<times> 'w lib" where
  "cudaHostAlloc e ptr bytes flags =
     traced_call e TraceDomain.Cudart ''cudaHostAlloc''
       (''ptr='' @ hex0x (unat ptr) @ '', size='' @ dec (unat bytes) @ '', flags=0x'' @
        hex (unat flags))
       (real_cuda_host_alloc e) [APtr ptr, ASize bytes, AUInt flags]"

definition cudaMallocHost :: "'w linker \<Rightarrow> u64 \<Rightarrow> u64 \<Rightarrow> 'w lib \<Rightarrow> CUresult \<times> 'w lib" where
  "cudaMallocHost e ptr bytes =
     traced_call e TraceDomain.Cudart ''cudaMallocHost''
       (''ptr='' @ hex0x (unat ptr) @ '', size='' @ dec (unat bytes))
       (real_cuda_malloc_host e) [APtr ptr, ASize bytes]"

definition cudaFreeHost :: "'w linker \<Rightarrow> u64 \<Rightarrow> 'w lib \<Rightarrow> CUresult \<times> 'w lib" where
  "cudaFreeHost e ptr =
     traced_call e TraceDomain.Cudart ''cudaFreeHost''
       (''ptr='' @ hex0x (unat ptr))
       (real_cuda_free_host e) [APtr ptr]"

definition cudaMemcpyAsync :: "'w linker \<Rightarrow> u64 \<Rightarrow> u64 \<Rightarrow> u64 \<Rightarrow> i32 \<Rightarrow> u64 \<Rightarrow> 'w lib \<Rightarrow>
    CUresult \<times> 'w lib" where
  "cudaMemcpyAsync e dst src count kind stream =
     traced_call e TraceDomain.Cudart ''cudaMemcpyAsync''
       (''dst='' @ hex0x (unat dst) @ '', src='' @ hex0x (unat src) @ '', count='' @
        dec (unat count) @ '', kind='' @ dec_int kind @ '', stream='' @ hex0x (unat stream))
       (real_cuda_memcpy_async e) [APtr dst, APtr src, ASize count, AInt kind, APtr stream]"

definition cudaLaunchKernel :: "'w linker \<Rightarrow> u64 \<Rightarrow> dim3 \<Rightarrow> dim3 \<Rightarrow> u64 \<Rightarrow> u64 \<Rightarrow> u64 \<Rightarrow>
    'w lib \<Rightarrow> CUresult \<times> 'w lib" where
  "cudaLaunchKernel e func grid_dim block_dim args shared_mem stream =
     traced_call e TraceDomain.Cudart ''cudaLaunchKernel''
       (''func='' @ hex0x (unat func) @ '', grid=('' @ dec (unat (dim_x grid_dim)) @ '', '' @
        dec (unat (dim_y grid_dim)) @ '', '' @ dec (unat (dim_z grid_dim)) @ ''), block=('' @
        dec (unat (dim_x block_dim)) @ '', '' @ dec (unat (dim_y block_dim)) @ '', '' @
        dec (unat (dim_z block_dim)) @ ''), args='' @ hex0x (unat args) @ '', sharedMem='' @
        dec (unat shared_mem) @ '', stream='' @ hex0x (unat stream))
       (real_cuda_launch_kernel e) [APtr func, ADim grid_dim, ADim block_dim, APtr args, ASize shared_mem,
        APtr stream]"

definition cudaStreamCreate :: "'w linker \<Rightarrow> u64 \<Rightarrow> 'w lib \<Rightarrow> CUresult \<times> 'w lib" where
  "cudaStreamCreate e stream =
     traced_call e TraceDomain.Cudart ''cudaStreamCreate''
       (''stream='' @ hex0x (unat stream))
       (real_cuda_stream_create e) [APtr stream]"

definition cudaStreamDestroy :: "'w linker \<Rightarrow> u64 \<Rightarrow> 'w lib \<Rightarrow> CUresult \<times> 'w lib" where
  "cudaStreamDestroy e stream =
     traced_call e TraceDomain.Cudart ''cudaStreamDestroy''
       (''stream='' @ hex0x (unat stream))
       (real_cuda_stream_destroy e) [APtr stream]"

definition cudaEventCreate :: "'w linker \<Rightarrow> u64 \<Rightarrow> 'w lib \<Rightarrow> CUresult \<times> 'w lib" where
  "cudaEventCreate e event =
     traced_call e TraceDomain.Cudart ''cudaEventCreate''
       (''event='' @ hex0x (unat event))
       (real_cuda_event_create e) [APtr event]"

definition cudaEventRecord :: "'w linker \<Rightarrow> u64 \<Rightarrow> u64 \<Rightarrow> 'w lib \<Rightarrow> CUresult \<times> 'w lib" where
  "cudaEventRecord e event stream =
     traced_call e TraceDomain.Cudart ''cudaEventRecord''
       (''event='' @ hex0x (unat event) @ '', stream='' @ hex0x (unat stream))
       (real_cuda_event_record e) [APtr event, APtr stream]"

definition cudaEventSynchronize :: "'w linker \<Rightarrow> u64 \<Rightarrow> 'w lib \<Rightarrow> CUresult \<times> 'w lib" where
  "cudaEventSynchronize e event =
     traced_call e TraceDomain.Cudart ''cudaEventSynchronize''
       (''event='' @ hex0x (unat event))
       (real_cuda_event_synchronize e) [APtr event]"

definition cudaEventElapsedTime :: "'w linker \<Rightarrow> u64 \<Rightarrow> u64 \<Rightarrow> u64 \<Rightarrow> 'w lib \<Rightarrow> CUresult \<times> 'w lib" where
  "cudaEventElapsedTime e ms start end_event =
     traced_call e TraceDomain.Cudart ''cudaEventElapsedTime''
       (''ms='' @ hex0x (unat ms) @ '', start='' @ hex0x (unat start) @ '', end='' @
        hex0x (unat end_event))
       (real_cuda_event_elapsed_time e) [APtr ms, APtr start, APtr end_event]"

definition cudaDeviceReset :: "'w linker \<Rightarrow> 'w lib \<Rightarrow> CUresult \<times> 'w lib" where
  "cudaDeviceReset e =
     traced_call e TraceDomain.Cudart ''cudaDeviceReset'' [] (real_cuda_device_reset e) []"

lemmas cudart_reals = real_cuda_malloc_def real_cuda_free_def real_cuda_host_alloc_def
  real_cuda_malloc_host_def real_cuda_free_host_def real_cuda_memcpy_async_def
  real_cuda_launch_kernel_def real_cuda_stream_create_def real_cuda_stream_destroy_def
  real_cuda_event_create_def real_cuda_event_record_def real_cuda_event_synchronize_def
  real_cuda_event_elapsed_time_def real_cuda_device_reset_def

lemmas cudart_hooks = cudaMalloc_def cudaFree_def cudaHostAlloc_def cudaMallocHost_def
  cudaFreeHost_def cudaMemcpyAsync_def cudaLaunchKernel_def cudaStreamCreate_def cudaStreamDestroy_def
  cudaEventCreate_def cudaEventRecord_def cudaEventSynchronize_def cudaEventElapsedTime_def
  cudaDeviceReset_def

end
