(* ===== verification/Interpose_Facts.thy ===== *)
theory Interpose_Facts
  imports Driver_Hooks Cudart_Hooks
begin

text \<open>
  What the interposition guarantees: a hooked function forwards to the function it finds, its trace is
  the one of theory \<open>Hook\<close>, and looking functions up gives a hooked function or what the linker gives.
\<close>

subsection \<open>What is looked up\<close>

text \<open>What the process can see of the library's state: everything but the trace and the caches.\<close>

definition same_process :: "'w lib \<Rightarrow> 'w lib \<Rightarrow> bool" where
  "same_process s t \<longleftrightarrow> ls_world t = ls_world s \<and> ls_handle t = ls_handle s"

definition linker_dlsym :: "'w linker \<Rightarrow> 'w lib \<Rightarrow> u64 option" where
  "linker_dlsym e s = (case ls_dlsym s of Some real \<Rightarrow> real | None \<Rightarrow> nonnull (lk_dlvsym e))"

definition linker_symbol :: "'w linker \<Rightarrow> u64 \<Rightarrow> string option \<Rightarrow> 'w lib \<Rightarrow> u64" where
  "linker_symbol e handle symbol s =
     (if linker_dlsym e s = None then 0 else lk_dlsym e handle symbol (ls_world s))"

definition next_symbol :: "'w linker \<Rightarrow> string option \<Rightarrow> 'w lib \<Rightarrow> u64 option" where
  "next_symbol e symbol s = nonnull (linker_symbol e RTLD_NEXT symbol s)"

text \<open>The driver's symbol: from the handle that was remembered, else the next one.\<close>

definition driver_symbol :: "'w linker \<Rightarrow> string option \<Rightarrow> 'w lib \<Rightarrow> u64 option" where
  "driver_symbol e symbol s =
     (if ls_handle s \<noteq> 0 \<and> linker_symbol e (ls_handle s) symbol s \<noteq> 0
      then Some (linker_symbol e (ls_handle s) symbol s) else next_symbol e symbol s)"

text \<open>The first of some symbols that can be found, where the answers already cached count.\<close>

fun target :: "(string option \<Rightarrow> 'w lib \<Rightarrow> u64 option) \<Rightarrow> (string \<times> string) list \<Rightarrow> 'w lib \<Rightarrow> u64 option" where
  "target look [] s = None"
| "target look ((cell, name) # cs) s =
     (case (case ls_cells s cell of Some real \<Rightarrow> real | None \<Rightarrow> look (Some name) s) of
        Some real \<Rightarrow> Some real
      | None \<Rightarrow> target look cs s)"

lemma nonnull_simps [simp]: "nonnull 0 = None" "p \<noteq> 0 \<Longrightarrow> nonnull p = Some p" "nonnull p \<noteq> Some 0"
  by (simp_all add: nonnull_def)

text \<open>Two states that differ at most in the trace and in caches that are filled with the right answer.\<close>

definition like :: "'w linker \<Rightarrow> 'w lib \<Rightarrow> 'w lib \<Rightarrow> bool" where
  "like e s t \<longleftrightarrow> same_process s t \<and> linker_dlsym e t = linker_dlsym e s"

lemma like_refl [simp]: "like e s s"
  by (simp add: like_def same_process_def)

lemma like_trans: "like e s t \<Longrightarrow> like e t u \<Longrightarrow> like e s u"
  by (simp add: like_def same_process_def)

lemma like_symbols:
  assumes "like e s t"
  shows "linker_symbol e h n t = linker_symbol e h n s" "next_symbol e n t = next_symbol e n s"
    "driver_symbol e n t = driver_symbol e n s"
  using assms by (simp_all add: like_def same_process_def linker_symbol_def next_symbol_def driver_symbol_def)

text \<open>The bypass counter is not at its limit, so that a guard leaves it as it was.\<close>

definition room :: "bypass_tls \<Rightarrow> bool" where
  "room b \<longleftrightarrow> (case b of Some depth \<Rightarrow> depth < u32_max | None \<Rightarrow> True)"

lemma guard_restores:
  "room b \<Longrightarrow> HookBypassGuard_drop (fst (HookBypassGuard_enter b)) (snd (HookBypassGuard_enter b)) = b"
  by (cases b) (auto simp: room_def HookBypassGuard_enter_def HookBypassGuard_drop_def saturating_add_def)

lemma real_dlsym_like:
  "real_dlsym e s = (r, t) \<Longrightarrow> r = linker_dlsym e s \<and> like e s t \<and> ls_cells t = ls_cells s \<and> ls_hook t = ls_hook s \<and>
     ls_outs t = ls_outs s"
  by (auto simp: real_dlsym_def linker_dlsym_def like_def same_process_def Let_def split: option.splits)

lemma dlsym_next_like:
  "dlsym e RTLD_NEXT n s = (p, t) \<Longrightarrow>
     p = linker_symbol e RTLD_NEXT n s \<and> like e s t \<and> ls_cells t = ls_cells s \<and> ls_hook t = ls_hook s \<and>
     ls_outs t = ls_outs s"
proof -
  obtain r0 s0 where d: "real_dlsym e s = (r0, s0)" by (cases "real_dlsym e s")
  assume "dlsym e RTLD_NEXT n s = (p, t)"
  then show ?thesis
    using real_dlsym_like [OF d]
    by (auto simp: dlsym_def d linker_symbol_def Let_def like_def same_process_def split: option.splits)
qed

lemma resolve_next_like:
  "resolve_next_from_ptr e n s = (r, t) \<Longrightarrow>
     r = next_symbol e n s \<and> like e s t \<and> ls_cells t = ls_cells s \<and> ls_outs t = ls_outs s \<and>
     (room (hs_bypass (ls_hook s)) \<longrightarrow> ls_hook t = ls_hook s)"
proof -
  let ?b = "snd (HookBypassGuard_enter (hs_bypass (ls_hook s)))"
  let ?s = "s\<lparr>ls_hook := (ls_hook s)\<lparr>hs_bypass := ?b\<rparr>\<rparr>"
  obtain p u where d: "dlsym e RTLD_NEXT n ?s = (p, u)" by (cases "dlsym e RTLD_NEXT n ?s")
  have l: "like e s ?s" by (simp add: like_def same_process_def linker_dlsym_def)
  have h: "HookBypassGuard_drop (fst (HookBypassGuard_enter (hs_bypass (ls_hook s)))) ?b = hs_bypass (ls_hook s)"
    if "room (hs_bypass (ls_hook s))"
    using guard_restores [OF that] .
  assume "resolve_next_from_ptr e n s = (r, t)"
  then show ?thesis
    using dlsym_next_like [OF d] like_symbols(1) [OF l] h
    by (auto simp: resolve_next_from_ptr_def d next_symbol_def split_beta Let_def like_def same_process_def
        linker_dlsym_def)
qed

lemma resolve_driver_like:
  "resolve_driver_from_ptr e n s = (r, t) \<Longrightarrow>
     r = driver_symbol e n s \<and> like e s t \<and> ls_cells t = ls_cells s \<and> ls_outs t = ls_outs s \<and>
     (room (hs_bypass (ls_hook s)) \<longrightarrow> ls_hook t = ls_hook s)"
proof -
  assume r: "resolve_driver_from_ptr e n s = (r, t)"
  obtain r0 s0 where d: "real_dlsym e s = (r0, s0)" by (cases "real_dlsym e s")
  note d' = real_dlsym_like [OF d]
  obtain r1 t1 where n1: "resolve_next_from_ptr e n s = (r1, t1)" by (cases "resolve_next_from_ptr e n s")
  obtain r2 t2 where n2: "resolve_next_from_ptr e n s0 = (r2, t2)" by (cases "resolve_next_from_ptr e n s0")
  show ?thesis
    using r d' resolve_next_like [OF n1] resolve_next_like [OF n2] like_symbols [of e s s0]
    by (auto simp: resolve_driver_from_ptr_def driver_symbol_def linker_symbol_def d n1 n2 Let_def
        intro: like_trans split: if_splits option.splits)
      (auto simp: like_def same_process_def)
qed

lemma like_cells: "like e s t \<Longrightarrow> like e s (t\<lparr>ls_cells := c\<rparr>)"
  by (simp add: like_def same_process_def linker_dlsym_def)

text \<open>\<open>f\<close> finds the function that \<open>goal\<close> says, and changes at most the caches \<open>cells\<close>.\<close>

definition finds :: "'w linker \<Rightarrow> ('w lib \<Rightarrow> u64 option) \<Rightarrow> string set \<Rightarrow>
    ('w lib \<Rightarrow> u64 option \<times> 'w lib) \<Rightarrow> bool" where
  "finds e goal cells f \<longleftrightarrow> (\<forall>s r t. f s = (r, t) \<longrightarrow>
     r = goal s \<and> like e s t \<and> ls_outs t = ls_outs s \<and>
     (room (hs_bypass (ls_hook s)) \<longrightarrow> ls_hook t = ls_hook s) \<and>
     (\<forall>c. c \<notin> cells \<longrightarrow> ls_cells t c = ls_cells s c))"

lemma finds_driver: "finds e (target (driver_symbol e) [(cell, name)]) {cell} (resolve_driver e cell name)"
  unfolding finds_def
proof (intro allI impI)
  fix s r t
  obtain r1 t1 where q: "resolve_driver_from_ptr e (Some name) s = (r1, t1)"
    by (cases "resolve_driver_from_ptr e (Some name) s")
  assume "resolve_driver e cell name s = (r, t)"
  then show "r = target (driver_symbol e) [(cell, name)] s \<and> like e s t \<and> ls_outs t = ls_outs s \<and>
      (room (hs_bypass (ls_hook s)) \<longrightarrow> ls_hook t = ls_hook s) \<and>
      (\<forall>c. c \<notin> {cell} \<longrightarrow> ls_cells t c = ls_cells s c)"
    using resolve_driver_like [OF q]
    by (auto simp: resolve_driver_def q Let_def like_cells split: option.splits)
qed

lemma finds_cudart: "finds e (target (next_symbol e) [(cell, name)]) {cell} (resolve_cudart e cell name)"
  unfolding finds_def
proof (intro allI impI)
  fix s r t
  obtain r1 t1 where q: "resolve_next_from_ptr e (Some name) s = (r1, t1)"
    by (cases "resolve_next_from_ptr e (Some name) s")
  assume "resolve_cudart e cell name s = (r, t)"
  then show "r = target (next_symbol e) [(cell, name)] s \<and> like e s t \<and> ls_outs t = ls_outs s \<and>
      (room (hs_bypass (ls_hook s)) \<longrightarrow> ls_hook t = ls_hook s) \<and>
      (\<forall>c. c \<notin> {cell} \<longrightarrow> ls_cells t c = ls_cells s c)"
    using resolve_next_like [OF q]
    by (auto simp: resolve_cudart_def q Let_def like_cells split: option.splits)
qed

text \<open>What is looked up depends on the process and on the caches, not on the trace.\<close>

definition steady :: "'w linker \<Rightarrow> ('w lib \<Rightarrow> u64 option) \<Rightarrow> bool" where
  "steady e goal \<longleftrightarrow> (\<forall>s t. like e s t \<and> ls_cells t = ls_cells s \<longrightarrow> goal t = goal s)"

definition stable :: "'w linker \<Rightarrow> (string option \<Rightarrow> 'w lib \<Rightarrow> u64 option) \<Rightarrow> bool" where
  "stable e look \<longleftrightarrow> (\<forall>n s t. like e s t \<longrightarrow> look n t = look n s)"

lemma stable_symbols [simp]: "stable e (next_symbol e)" "stable e (driver_symbol e)"
  by (simp_all add: stable_def like_symbols)

lemma target_append:
  "target look (xs @ ys) s = (case target look xs s of Some real \<Rightarrow> Some real | None \<Rightarrow> target look ys s)"
  by (induction xs) (auto split: option.splits)

lemma target_like:
  assumes "stable e look" "like e s t" "\<And>c. c \<in> fst ` set cs \<Longrightarrow> ls_cells t c = ls_cells s c"
  shows "target look cs t = target look cs s"
  using assms(3)
proof (induction cs)
  case (Cons p cs)
  then show ?case using assms(1,2) by (cases p) (auto simp: stable_def split: option.splits)
qed simp

lemma steady_target [simp]: "stable e look \<Longrightarrow> steady e (target look cs)"
  by (auto simp: steady_def intro: target_like)

lemma finds_or_else:
  assumes "finds e (target look cs) (fst ` set cs) f" "finds e (target look ds) (fst ` set ds) g" "stable e look" "fst ` set cs \<inter> fst ` set ds = {}"
  shows "finds e (target look (cs @ ds)) (fst ` set (cs @ ds)) (or_else f g)"
  unfolding finds_def
proof (intro allI impI)
  fix s r t
  obtain r1 t1 where q1: "f s = (r1, t1)" by (cases "f s")
  obtain r2 t2 where q2: "g t1 = (r2, t2)" by (cases "g t1")
  note f = assms(1) [unfolded finds_def, rule_format, OF q1]
  note g = assms(2) [unfolded finds_def, rule_format, OF q2]
  have "c \<in> fst ` set ds \<Longrightarrow> ls_cells t1 c = ls_cells s c" for c
    using f assms(4) by blast
  then have "target look ds t1 = target look ds s"
    using f by (intro target_like [OF assms(3)]) auto
  moreover assume "or_else f g s = (r, t)"
  ultimately show "r = target look (cs @ ds) s \<and> like e s t \<and> ls_outs t = ls_outs s \<and>
      (room (hs_bypass (ls_hook s)) \<longrightarrow> ls_hook t = ls_hook s) \<and>
      (\<forall>c. c \<notin> fst ` set (cs @ ds) \<longrightarrow> ls_cells t c = ls_cells s c)"
    using f g by (auto simp: or_else_def q1 q2 target_append image_Un intro: like_trans split: option.splits)
qed

subsection \<open>Hooked functions forward\<close>

text \<open>\<open>f\<close> does what the first function found does: with these arguments, in a process that differs
  at most in what the library keeps for itself, and with the same result. Where none is found,
  nothing is called, and the result is \<open>CUDA_ERROR_UNKNOWN\<close>.\<close>

definition forwards :: "'w linker \<Rightarrow> ('w lib \<Rightarrow> u64 option) \<Rightarrow> carg list \<Rightarrow> ('w lib \<Rightarrow> CUresult \<times> 'w lib) \<Rightarrow> bool" where
  "forwards e goal args f \<longleftrightarrow> (\<forall>s ret s'. f s = (ret, s') \<longrightarrow>
     (case goal s of
        None \<Rightarrow> ret = CUDA_ERROR_UNKNOWN \<and> same_process s s'
      | Some real \<Rightarrow> \<exists>t u. same_process s t \<and> lk_call e real args t = (ret, u) \<and>
          same_process u s' \<and> ls_cells s' = ls_cells u))"

lemma scope_enter_like:
  "scope_enter e d f a s = (sc, t) \<Longrightarrow> like e s t \<and> ls_cells t = ls_cells s"
  by (auto simp: scope_enter_def like_def same_process_def linker_dlsym_def split_beta Let_def)

lemma scope_finish_like:
  "like e s (scope_finish e sc r s)" "ls_cells (scope_finish e sc r s) = ls_cells s"
  by (simp_all add: scope_finish_def like_def same_process_def linker_dlsym_def split_beta Let_def)

lemma scope_enter_bypass:
  assumes "scope_enter e dm func shown s = (sc, t)" "room (hs_bypass (ls_hook s))"
  shows "hs_bypass (ls_hook t) = hs_bypass (ls_hook s)"
  using assms guard_restores [OF assms(2)]
  by (auto simp: scope_enter_def TraceScope_enter_def ensure_started_def enter_fgraph_window_if_matched_def
      next_fgraph_window_seq_def split_beta Let_def split: if_splits)

text \<open>As far as the trace can tell, the function at \<open>real\<close> makes the hooked calls \<open>kids\<close> and returns
  \<open>ret\<close>, when it is called in a state that differs from \<open>s\<close> in the trace and in the caches \<open>cells\<close>.\<close>

definition makes_calls :: "'w linker \<Rightarrow> 'w lib \<Rightarrow> string set \<Rightarrow> u64 \<Rightarrow> carg list \<Rightarrow> hcall list \<Rightarrow> CUresult \<Rightarrow> bool" where
  "makes_calls e s cells real args kids ret \<longleftrightarrow>
     (\<forall>t r u. like e s t \<and> (\<forall>c. c \<notin> cells \<longrightarrow> ls_cells t c = ls_cells s c) \<and>
        hs_bypass (ls_hook t) = hs_bypass (ls_hook s) \<and> lk_call e real args t = (r, u) \<longrightarrow>
        r = ret \<and> ls_hook u = fst (run_hcalls (lk_cfg e) (lk_tid e) kids (ls_hook t)) \<and>
        ls_outs u = ls_outs t @ snd (run_hcalls (lk_cfg e) (lk_tid e) kids (ls_hook t)))"

text \<open>\<open>f\<close>, called in \<open>s\<close>, is the hooked call \<open>c now\<close> of theory \<open>Hook\<close>, where \<open>now\<close> is what the clock
  says in some state \<open>u\<close>, the one in which it ends.\<close>

definition runs_as :: "'w linker \<Rightarrow> 'w lib \<Rightarrow> (nat \<Rightarrow> hcall) \<Rightarrow> CUresult \<Rightarrow> ('w lib \<Rightarrow> CUresult \<times> 'w lib) \<Rightarrow> bool" where
  "runs_as e s c ret f \<longleftrightarrow> (\<forall>r s'. f s = (r, s') \<longrightarrow> r = ret \<and>
     (\<exists>u. ls_hook s' = fst (run_hcall (lk_cfg e) (lk_tid e) (c (lk_now e u)) (ls_hook s)) \<and>
        ls_outs s' = ls_outs s @ snd (run_hcall (lk_cfg e) (lk_tid e) (c (lk_now e u)) (ls_hook s))))"

text \<open>What a hooked function needs of the way its real function is found. Whatever finds functions in
  this way, its hooks forward and are traced.\<close>

locale resolver =
  fixes e :: "'w linker" and goal :: "'w lib \<Rightarrow> u64 option" and cells :: "string set"
    and resolve :: "'w lib \<Rightarrow> u64 option \<times> 'w lib"
  assumes finds: "finds e goal cells resolve" and steady: "steady e goal"
begin

text \<open>The steps of a hooked function: its scope is opened (\<open>s1\<close>), the function is found (\<open>s2\<close>), and
  then called.\<close>

lemma steps:
  obtains sc s1 s2 where "scope_enter e dm func shown s = (sc, s1)" "like e s s2"
    "\<And>c. c \<notin> cells \<Longrightarrow> ls_cells s2 c = ls_cells s c"
    "room (hs_bypass (ls_hook s)) \<Longrightarrow> ls_hook s2 = ls_hook s1 \<and> hs_bypass (ls_hook s1) = hs_bypass (ls_hook s)"
    "ls_outs s2 = ls_outs s1"
    "traced_call e dm func shown resolve args s =
       (let (ret, s3) = (case goal s of
            Some real \<Rightarrow> lk_call e real args s2
          | None \<Rightarrow> (CUDA_ERROR_UNKNOWN, s2))
        in (ret, scope_finish e sc (dec_int ret) s3))"
proof -
  obtain sc s1 where q1: "scope_enter e dm func shown s = (sc, s1)" by (cases "scope_enter e dm func shown s")
  obtain r s2 where q2: "resolve s1 = (r, s2)" by (cases "resolve s1")
  note f = finds [unfolded finds_def, rule_format, OF q2]
  note s1 = scope_enter_like [OF q1]
  have "goal s1 = goal s" using s1 steady by (simp add: steady_def)
  then show thesis
    using f s1 scope_enter_bypass [OF q1]
    by (intro that [of sc s1 s2]) (auto simp: traced_call_def q1 q2 Let_def intro: like_trans)
qed

lemma call_forwards:
  "forwards e goal args (traced_call e dm func shown resolve args)"
  unfolding forwards_def
proof (intro allI impI)
  fix s ret s'
  assume s': "traced_call e dm func shown resolve args s = (ret, s')"
  obtain sc s1 s2 where l: "like e s s2" and c: "traced_call e dm func shown resolve args s =
       (let (ret, s3) = (case goal s of
            Some real \<Rightarrow> lk_call e real args s2
          | None \<Rightarrow> (CUDA_ERROR_UNKNOWN, s2))
        in (ret, scope_finish e sc (dec_int ret) s3))"
    by (rule steps)
  have n: "same_process s s2" "same_process u (scope_finish e sc k u)" for k u
    using scope_finish_like(1) [of e _ sc k] l by (auto simp: like_def)
  show "case goal s of
        None \<Rightarrow> ret = CUDA_ERROR_UNKNOWN \<and> same_process s s'
      | Some real \<Rightarrow> \<exists>t u. same_process s t \<and> lk_call e real args t = (ret, u) \<and>
          same_process u s' \<and> ls_cells s' = ls_cells u"
  proof (cases "goal s")
    case (Some real)
    then obtain u where "lk_call e real args s2 = (ret, u)" "s' = scope_finish e sc (dec_int ret) u"
      using s' c by (auto split: prod.splits)
    then show ?thesis using Some n by (simp add: scope_finish_like) (intro exI [of _ s2] exI [of _ u], auto simp: scope_finish_like)
  qed (use s' c n in \<open>auto simp: same_process_def\<close>)
qed

lemma call_runs:
  assumes "\<not> lk_internal e" and "room (hs_bypass (ls_hook s))"
    and "case goal s of
        None \<Rightarrow> kids = [] \<and> ret = CUDA_ERROR_UNKNOWN
      | Some real \<Rightarrow> makes_calls e s cells real args kids ret"
  shows "runs_as e s (HCall dm func shown (lk_now e s) (lk_epoch e s) kids (dec_int ret)) ret
    (traced_call e dm func shown resolve args)"
  unfolding runs_as_def
proof (intro allI impI)
  fix r s'
  assume q: "traced_call e dm func shown resolve args s = (r, s')"
  obtain sc s1 s2 where s1: "scope_enter e dm func shown s = (sc, s1)" and s2: "like e s s2"
    "\<And>c. c \<notin> cells \<Longrightarrow> ls_cells s2 c = ls_cells s c"
    "ls_hook s2 = ls_hook s1" "hs_bypass (ls_hook s1) = hs_bypass (ls_hook s)" "ls_outs s2 = ls_outs s1"
    and c: "traced_call e dm func shown resolve args s =
       (let (ret, s3) = (case goal s of
            Some real \<Rightarrow> lk_call e real args s2
          | None \<Rightarrow> (CUDA_ERROR_UNKNOWN, s2))
        in (ret, scope_finish e sc (dec_int ret) s3))"
    using assms(2) by (rule_tac steps) blast
  obtain s3 where s': "s' = scope_finish e sc (dec_int r) s3"
    and q3: "(case goal s of Some real \<Rightarrow> lk_call e real args s2 | None \<Rightarrow> (CUDA_ERROR_UNKNOWN, s2)) = (r, s3)"
    using q c by (auto split: prod.splits)
  have s3: "r = ret \<and> ls_hook s3 = fst (run_hcalls (lk_cfg e) (lk_tid e) kids (ls_hook s1)) \<and>
    ls_outs s3 = ls_outs s1 @ snd (run_hcalls (lk_cfg e) (lk_tid e) kids (ls_hook s1))"
  proof (cases "goal s")
    case (Some real)
    then have "makes_calls e s cells real args kids ret" using assms(3) by simp
    then show ?thesis using q3 s2 Some unfolding makes_calls_def by (metis option.simps(5))
  qed (use q3 assms(3) s2 in auto)
  obtain h1 o1 where e1: "TraceScope_enter (lk_cfg e) False (lk_tid e) dm func shown (lk_now e s)
      (lk_epoch e s) (ls_hook s) = (sc, h1, o1)" "ls_hook s1 = h1" "ls_outs s1 = ls_outs s @ o1"
    using s1 assms(1) by (auto simp: scope_enter_def split_beta Let_def prod_eq_iff)
  show "r = ret \<and> (\<exists>u.
      ls_hook s' = fst (run_hcall (lk_cfg e) (lk_tid e)
        (HCall dm func shown (lk_now e s) (lk_epoch e s) kids (dec_int ret) (lk_now e u)) (ls_hook s)) \<and>
      ls_outs s' = ls_outs s @ snd (run_hcall (lk_cfg e) (lk_tid e)
        (HCall dm func shown (lk_now e s) (lk_epoch e s) kids (dec_int ret) (lk_now e u)) (ls_hook s)))"
    using s3 by (intro conjI exI [of _ s3])
      (simp_all add: s' e1 scope_finish_def split_beta Let_def)
qed

end

text \<open>The functions of the driver and of the runtime are found in this way; so are those with two versions.\<close>

interpretation driver_resolver:
  resolver e "target (driver_symbol e) [(cell, name)]" "{cell}" "resolve_driver e cell name" for e cell name
  by unfold_locales (rule finds_driver, simp)

interpretation cudart_resolver:
  resolver e "target (next_symbol e) [(cell, name)]" "{cell}" "resolve_cudart e cell name" for e cell name
  by unfold_locales (rule finds_cudart, simp)

lemma resolver_or_else:
  "c \<noteq> d \<Longrightarrow> resolver e (target (driver_symbol e) [(c, n), (d, m)]) {c, d}
     (or_else (resolve_driver e c n) (resolve_driver e d m))"
  using finds_or_else [of e "driver_symbol e" "[(c, n)]" "resolve_driver e c n" "[(d, m)]" "resolve_driver e d m"]
    finds_driver [of e c n] finds_driver [of e d m]
  by unfold_locales (simp_all add: insert_commute)

lemmas hook_forwards = driver_resolver.call_forwards cudart_resolver.call_forwards
  resolver.call_forwards [OF resolver_or_else]

subsection \<open>The hooked functions\<close>

text \<open>Under which names each hooked function of the driver looks for the function it calls, in this order,
  with the statics that keep the answers.\<close>

definition driver_cells :: "(string \<times> (string \<times> string) list) list" where
  "driver_cells =
     [(''cuInit'', [(''REAL_CU_INIT'', ''cuInit'')]),
      (''cuDeviceGet'', [(''REAL_CU_DEVICE_GET'', ''cuDeviceGet'')]),
      (''cuDeviceGetName'', [(''REAL_CU_DEVICE_GET_NAME'', ''cuDeviceGetName'')]),
      (''cuCtxCreate_v2'', [(''REAL_CU_CTX_CREATE_V2'', ''cuCtxCreate_v2'')]),
      (''cuCtxDestroy_v2'', [(''REAL_CU_CTX_DESTROY_V2'', ''cuCtxDestroy_v2'')]),
      (''cuCtxSynchronize'', [(''REAL_CU_CTX_SYNCHRONIZE'', ''cuCtxSynchronize'')]),
      (''cuCtxGetCurrent'', [(''REAL_CU_CTX_GET_CURRENT'', ''cuCtxGetCurrent'')]),
      (''cuCtxSetCurrent'', [(''REAL_CU_CTX_SET_CURRENT'', ''cuCtxSetCurrent'')]),
      (''cuCtxPushCurrent_v2'', [(''REAL_CU_CTX_PUSH_CURRENT_V2'', ''cuCtxPushCurrent_v2''),
         (''REAL_CU_CTX_PUSH_CURRENT'', ''cuCtxPushCurrent'')]),
      (''cuCtxPushCurrent'', [(''REAL_CU_CTX_PUSH_CURRENT_V2'', ''cuCtxPushCurrent_v2''),
         (''REAL_CU_CTX_PUSH_CURRENT'', ''cuCtxPushCurrent'')]),
      (''cuCtxPopCurrent_v2'', [(''REAL_CU_CTX_POP_CURRENT_V2'', ''cuCtxPopCurrent_v2''),
         (''REAL_CU_CTX_POP_CURRENT'', ''cuCtxPopCurrent'')]),
      (''cuCtxPopCurrent'', [(''REAL_CU_CTX_POP_CURRENT_V2'', ''cuCtxPopCurrent_v2''),
         (''REAL_CU_CTX_POP_CURRENT'', ''cuCtxPopCurrent'')]),
      (''cuDevicePrimaryCtxRetain'', [(''REAL_CU_DEVICE_PRIMARY_CTX_RETAIN'', ''cuDevicePrimaryCtxRetain'')]),
      (''cuDevicePrimaryCtxRelease'', [(''REAL_CU_DEVICE_PRIMARY_CTX_RELEASE'', ''cuDevicePrimaryCtxRelease'')]),
      (''cuDevicePrimaryCtxReset'', [(''REAL_CU_DEVICE_PRIMARY_CTX_RESET'', ''cuDevicePrimaryCtxReset'')]),
      (''cuDevicePrimaryCtxSetFlags'', [(''REAL_CU_DEVICE_PRIMARY_CTX_SET_FLAGS'', ''cuDevicePrimaryCtxSetFlags''),
         (''REAL_CU_DEVICE_PRIMARY_CTX_SET_FLAGS_V2'', ''cuDevicePrimaryCtxSetFlags_v2'')]),
      (''cuDevicePrimaryCtxSetFlags_v2'', [(''REAL_CU_DEVICE_PRIMARY_CTX_SET_FLAGS'', ''cuDevicePrimaryCtxSetFlags''),
         (''REAL_CU_DEVICE_PRIMARY_CTX_SET_FLAGS_V2'', ''cuDevicePrimaryCtxSetFlags_v2'')]),
      (''cuDevicePrimaryCtxGetState'', [(''REAL_CU_DEVICE_PRIMARY_CTX_GET_STATE'', ''cuDevicePrimaryCtxGetState'')]),
      (''cuStreamCreate'', [(''REAL_CU_STREAM_CREATE'', ''cuStreamCreate'')]),
      (''cuStreamCreateWithPriority'', [(''REAL_CU_STREAM_CREATE_WITH_PRIORITY'', ''cuStreamCreateWithPriority'')]),
      (''cuStreamDestroy'', [(''REAL_CU_STREAM_DESTROY'', ''cuStreamDestroy''),
         (''REAL_CU_STREAM_DESTROY_V2'', ''cuStreamDestroy_v2'')]),
      (''cuStreamDestroy_v2'', [(''REAL_CU_STREAM_DESTROY'', ''cuStreamDestroy''),
         (''REAL_CU_STREAM_DESTROY_V2'', ''cuStreamDestroy_v2'')]),
      (''cuEventCreate'', [(''REAL_CU_EVENT_CREATE'', ''cuEventCreate'')]),
      (''cuEventDestroy'', [(''REAL_CU_EVENT_DESTROY'', ''cuEventDestroy''),
         (''REAL_CU_EVENT_DESTROY_V2'', ''cuEventDestroy_v2'')]),
      (''cuEventDestroy_v2'', [(''REAL_CU_EVENT_DESTROY'', ''cuEventDestroy''),
         (''REAL_CU_EVENT_DESTROY_V2'', ''cuEventDestroy_v2'')]),
      (''cuEventRecord'', [(''REAL_CU_EVENT_RECORD'', ''cuEventRecord'')]),
      (''cuEventRecord_ptsz'', [(''REAL_CU_EVENT_RECORD'', ''cuEventRecord'')]),
      (''cuEventRecordWithFlags'', [(''REAL_CU_EVENT_RECORD_WITH_FLAGS'', ''cuEventRecordWithFlags'')]),
      (''cuEventRecordWithFlags_ptsz'', [(''REAL_CU_EVENT_RECORD_WITH_FLAGS'', ''cuEventRecordWithFlags'')]),
      (''cuEventSynchronize'', [(''REAL_CU_EVENT_SYNCHRONIZE'', ''cuEventSynchronize'')]),
      (''cuEventElapsedTime'', [(''REAL_CU_EVENT_ELAPSED_TIME'', ''cuEventElapsedTime''),
         (''REAL_CU_EVENT_ELAPSED_TIME_V2'', ''cuEventElapsedTime_v2'')]),
      (''cuEventElapsedTime_v2'', [(''REAL_CU_EVENT_ELAPSED_TIME'', ''cuEventElapsedTime''),
         (''REAL_CU_EVENT_ELAPSED_TIME_V2'', ''cuEventElapsedTime_v2'')]),
      (''cuModuleLoad'', [(''REAL_CU_MODULE_LOAD'', ''cuModuleLoad'')]),
      (''cuModuleGetFunction'', [(''REAL_CU_MODULE_GET_FUNCTION'', ''cuModuleGetFunction'')]),
      (''cuModuleUnload'', [(''REAL_CU_MODULE_UNLOAD'', ''cuModuleUnload'')]),
      (''cuLaunchKernel'', [(''REAL_CU_LAUNCH_KERNEL'', ''cuLaunchKernel'')]),
      (''cuMemcpyAsync'', [(''REAL_CU_MEMCPY_ASYNC'', ''cuMemcpyAsync'')]),
      (''cuMemcpyAsync_ptsz'', [(''REAL_CU_MEMCPY_ASYNC'', ''cuMemcpyAsync'')]),
      (''cuMemcpyHtoDAsync_v2'', [(''REAL_CU_MEMCPY_HTOD_ASYNC_V2'', ''cuMemcpyHtoDAsync_v2''),
         (''REAL_CU_MEMCPY_HTOD_ASYNC'', ''cuMemcpyHtoDAsync'')]),
      (''cuMemcpyHtoDAsync'', [(''REAL_CU_MEMCPY_HTOD_ASYNC_V2'', ''cuMemcpyHtoDAsync_v2''),
         (''REAL_CU_MEMCPY_HTOD_ASYNC'', ''cuMemcpyHtoDAsync'')]),
      (''cuMemcpyHtoDAsync_v2_ptsz'', [(''REAL_CU_MEMCPY_HTOD_ASYNC_V2'', ''cuMemcpyHtoDAsync_v2''),
         (''REAL_CU_MEMCPY_HTOD_ASYNC'', ''cuMemcpyHtoDAsync'')]),
      (''cuMemcpyDtoHAsync_v2'', [(''REAL_CU_MEMCPY_DTOH_ASYNC_V2'', ''cuMemcpyDtoHAsync_v2''),
         (''REAL_CU_MEMCPY_DTOH_ASYNC'', ''cuMemcpyDtoHAsync'')]),
      (''cuMemcpyDtoHAsync'', [(''REAL_CU_MEMCPY_DTOH_ASYNC_V2'', ''cuMemcpyDtoHAsync_v2''),
         (''REAL_CU_MEMCPY_DTOH_ASYNC'', ''cuMemcpyDtoHAsync'')]),
      (''cuMemcpyDtoHAsync_v2_ptsz'', [(''REAL_CU_MEMCPY_DTOH_ASYNC_V2'', ''cuMemcpyDtoHAsync_v2''),
         (''REAL_CU_MEMCPY_DTOH_ASYNC'', ''cuMemcpyDtoHAsync'')]),
      (''cuMemcpyHtoD_v2'', [(''REAL_CU_MEMCPY_HTOD_V2'', ''cuMemcpyHtoD_v2'')]),
      (''cuMemcpyDtoH_v2'', [(''REAL_CU_MEMCPY_DTOH_V2'', ''cuMemcpyDtoH_v2'')]),
      (''cuMemAlloc_v2'', [(''REAL_CU_MEM_ALLOC_V2'', ''cuMemAlloc_v2'')]),
      (''cuMemFree_v2'', [(''REAL_CU_MEM_FREE_V2'', ''cuMemFree_v2'')]),
      (''cuMemAllocHost_v2'', [(''REAL_CU_MEM_ALLOC_HOST_V2'', ''cuMemAllocHost_v2'')]),
      (''cuMemFreeHost'', [(''REAL_CU_MEM_FREE_HOST'', ''cuMemFreeHost'')])]"

text \<open>Calls of all of them, with arguments of the C types they have: addresses \<open>p\<close>, integers \<open>u\<close> and \<open>i\<close>,
  sizes \<open>n\<close> and device addresses \<open>d\<close>.\<close>

definition driver_exports :: "'w linker \<Rightarrow> (nat \<Rightarrow> u64) \<Rightarrow> (nat \<Rightarrow> u32) \<Rightarrow> (nat \<Rightarrow> i32) \<Rightarrow> (nat \<Rightarrow> u64) \<Rightarrow> (nat \<Rightarrow> u64) \<Rightarrow>
    (string \<times> carg list \<times> ('w lib \<Rightarrow> CUresult \<times> 'w lib)) list" where
  "driver_exports e p u i n d =
     [(''cuInit'', [AUInt (u 1)], cuInit e (u 1)),
      (''cuDeviceGet'', [APtr (p 1), AInt (i 1)], cuDeviceGet e (p 1) (i 1)),
      (''cuDeviceGetName'', [APtr (p 1), AInt (i 1), AInt (i 2)], cuDeviceGetName e (p 1) (i 1) (i 2)),
      (''cuCtxCreate_v2'', [APtr (p 1), AUInt (u 1), AInt (i 1)], cuCtxCreate_v2 e (p 1) (u 1) (i 1)),
      (''cuCtxDestroy_v2'', [APtr (p 1)], cuCtxDestroy_v2 e (p 1)),
      (''cuCtxSynchronize'', [], cuCtxSynchronize e),
      (''cuCtxGetCurrent'', [APtr (p 1)], cuCtxGetCurrent e (p 1)),
      (''cuCtxSetCurrent'', [APtr (p 1)], cuCtxSetCurrent e (p 1)),
      (''cuCtxPushCurrent_v2'', [APtr (p 1)], cuCtxPushCurrent_v2 e (p 1)),
      (''cuCtxPushCurrent'', [APtr (p 1)], cuCtxPushCurrent e (p 1)),
      (''cuCtxPopCurrent_v2'', [APtr (p 1)], cuCtxPopCurrent_v2 e (p 1)),
      (''cuCtxPopCurrent'', [APtr (p 1)], cuCtxPopCurrent e (p 1)),
      (''cuDevicePrimaryCtxRetain'', [APtr (p 1), AInt (i 1)], cuDevicePrimaryCtxRetain e (p 1) (i 1)),
      (''cuDevicePrimaryCtxRelease'', [AInt (i 1)], cuDevicePrimaryCtxRelease e (i 1)),
      (''cuDevicePrimaryCtxReset'', [AInt (i 1)], cuDevicePrimaryCtxReset e (i 1)),
      (''cuDevicePrimaryCtxSetFlags'', [AInt (i 1), AUInt (u 1)], cuDevicePrimaryCtxSetFlags e (i 1) (u 1)),
      (''cuDevicePrimaryCtxSetFlags_v2'', [AInt (i 1), AUInt (u 1)], cuDevicePrimaryCtxSetFlags_v2 e (i 1) (u 1)),
      (''cuDevicePrimaryCtxGetState'',
        [AInt (i 1), APtr (p 1), APtr (p 2)],
        cuDevicePrimaryCtxGetState e (i 1) (p 1) (p 2)),
      (''cuStreamCreate'', [APtr (p 1), AUInt (u 1)], cuStreamCreate e (p 1) (u 1)),
      (''cuStreamCreateWithPriority'',
        [APtr (p 1), AUInt (u 1), AInt (i 1)],
        cuStreamCreateWithPriority e (p 1) (u 1) (i 1)),
      (''cuStreamDestroy'', [APtr (p 1)], cuStreamDestroy e (p 1)),
      (''cuStreamDestroy_v2'', [APtr (p 1)], cuStreamDestroy_v2 e (p 1)),
      (''cuEventCreate'', [APtr (p 1), AUInt (u 1)], cuEventCreate e (p 1) (u 1)),
      (''cuEventDestroy'', [APtr (p 1)], cuEventDestroy e (p 1)),
      (''cuEventDestroy_v2'', [APtr (p 1)], cuEventDestroy_v2 e (p 1)),
      (''cuEventRecord'', [APtr (p 1), APtr (p 2)], cuEventRecord e (p 1) (p 2)),
      (''cuEventRecord_ptsz'', [APtr (p 1), APtr (p 2)], cuEventRecord_ptsz e (p 1) (p 2)),
      (''cuEventRecordWithFlags'',
        [APtr (p 1), APtr (p 2), AUInt (u 1)],
        cuEventRecordWithFlags e (p 1) (p 2) (u 1)),
      (''cuEventRecordWithFlags_ptsz'',
        [APtr (p 1), APtr (p 2), AUInt (u 1)],
        cuEventRecordWithFlags_ptsz e (p 1) (p 2) (u 1)),
      (''cuEventSynchronize'', [APtr (p 1)], cuEventSynchronize e (p 1)),
      (''cuEventElapsedTime'', [APtr (p 1), APtr (p 2), APtr (p 3)], cuEventElapsedTime e (p 1) (p 2) (p 3)),
      (''cuEventElapsedTime_v2'', [APtr (p 1), APtr (p 2), APtr (p 3)], cuEventElapsedTime_v2 e (p 1) (p 2) (p 3)),
      (''cuModuleLoad'', [APtr (p 1), APtr (p 2)], cuModuleLoad e (p 1) (p 2)),
      (''cuModuleGetFunction'', [APtr (p 1), APtr (p 2), APtr (p 3)], cuModuleGetFunction e (p 1) (p 2) (p 3)),
      (''cuModuleUnload'', [APtr (p 1)], cuModuleUnload e (p 1)),
      (''cuLaunchKernel'',
        [APtr (p 1), AUInt (u 1), AUInt (u 2), AUInt (u 3), AUInt (u 4), AUInt (u 5), AUInt (u 6), AUInt (u 7), APtr (p 2), APtr (p 3), APtr (p 4)],
        cuLaunchKernel e (p 1) (u 1) (u 2) (u 3) (u 4) (u 5) (u 6) (u 7) (p 2) (p 3) (p 4)),
      (''cuMemcpyAsync'',
        [ADev (d 1), ADev (d 2), ASize (n 1), APtr (p 1)],
        cuMemcpyAsync e (d 1) (d 2) (n 1) (p 1)),
      (''cuMemcpyAsync_ptsz'',
        [ADev (d 1), ADev (d 2), ASize (n 1), APtr (p 1)],
        cuMemcpyAsync_ptsz e (d 1) (d 2) (n 1) (p 1)),
      (''cuMemcpyHtoDAsync_v2'',
        [ADev (d 1), APtr (p 1), ASize (n 1), APtr (p 2)],
        cuMemcpyHtoDAsync_v2 e (d 1) (p 1) (n 1) (p 2)),
      (''cuMemcpyHtoDAsync'',
        [ADev (d 1), APtr (p 1), ASize (n 1), APtr (p 2)],
        cuMemcpyHtoDAsync e (d 1) (p 1) (n 1) (p 2)),
      (''cuMemcpyHtoDAsync_v2_ptsz'',
        [ADev (d 1), APtr (p 1), ASize (n 1), APtr (p 2)],
        cuMemcpyHtoDAsync_v2_ptsz e (d 1) (p 1) (n 1) (p 2)),
      (''cuMemcpyDtoHAsync_v2'',
        [APtr (p 1), ADev (d 1), ASize (n 1), APtr (p 2)],
        cuMemcpyDtoHAsync_v2 e (p 1) (d 1) (n 1) (p 2)),
      (''cuMemcpyDtoHAsync'',
        [APtr (p 1), ADev (d 1), ASize (n 1), APtr (p 2)],
        cuMemcpyDtoHAsync e (p 1) (d 1) (n 1) (p 2)),
      (''cuMemcpyDtoHAsync_v2_ptsz'',
        [APtr (p 1), ADev (d 1), ASize (n 1), APtr (p 2)],
        cuMemcpyDtoHAsync_v2_ptsz e (p 1) (d 1) (n 1) (p 2)),
      (''cuMemcpyHtoD_v2'', [ADev (d 1), APtr (p 1), ASize (n 1)], cuMemcpyHtoD_v2 e (d 1) (p 1) (n 1)),
      (''cuMemcpyDtoH_v2'', [APtr (p 1), ADev (d 1), ASize (n 1)], cuMemcpyDtoH_v2 e (p 1) (d 1) (n 1)),
      (''cuMemAlloc_v2'', [APtr (p 1), ASize (n 1)], cuMemAlloc_v2 e (p 1) (n 1)),
      (''cuMemFree_v2'', [ADev (d 1)], cuMemFree_v2 e (d 1)),
      (''cuMemAllocHost_v2'', [APtr (p 1), ASize (n 1)], cuMemAllocHost_v2 e (p 1) (n 1)),
      (''cuMemFreeHost'', [APtr (p 1)], cuMemFreeHost e (p 1))]"

text \<open>The same for the runtime, where \<open>g\<close> are the dimensions of a launch.\<close>

definition cudart_cells :: "(string \<times> (string \<times> string) list) list" where
  "cudart_cells =
     [(''cudaMalloc'', [(''REAL_CUDA_MALLOC'', ''cudaMalloc'')]),
      (''cudaFree'', [(''REAL_CUDA_FREE'', ''cudaFree'')]),
      (''cudaHostAlloc'', [(''REAL_CUDA_HOST_ALLOC'', ''cudaHostAlloc'')]),
      (''cudaMallocHost'', [(''REAL_CUDA_MALLOC_HOST'', ''cudaMallocHost'')]),
      (''cudaFreeHost'', [(''REAL_CUDA_FREE_HOST'', ''cudaFreeHost'')]),
      (''cudaMemcpyAsync'', [(''REAL_CUDA_MEMCPY_ASYNC'', ''cudaMemcpyAsync'')]),
      (''cudaLaunchKernel'', [(''REAL_CUDA_LAUNCH_KERNEL'', ''cudaLaunchKernel'')]),
      (''cudaStreamCreate'', [(''REAL_CUDA_STREAM_CREATE'', ''cudaStreamCreate'')]),
      (''cudaStreamDestroy'', [(''REAL_CUDA_STREAM_DESTROY'', ''cudaStreamDestroy'')]),
      (''cudaEventCreate'', [(''REAL_CUDA_EVENT_CREATE'', ''cudaEventCreate'')]),
      (''cudaEventRecord'', [(''REAL_CUDA_EVENT_RECORD'', ''cudaEventRecord'')]),
      (''cudaEventSynchronize'', [(''REAL_CUDA_EVENT_SYNCHRONIZE'', ''cudaEventSynchronize'')]),
      (''cudaEventElapsedTime'', [(''REAL_CUDA_EVENT_ELAPSED_TIME'', ''cudaEventElapsedTime'')]),
      (''cudaDeviceReset'', [(''REAL_CUDA_DEVICE_RESET'', ''cudaDeviceReset'')])]"

definition cudart_exports :: "'w linker \<Rightarrow> (nat \<Rightarrow> u64) \<Rightarrow> (nat \<Rightarrow> u32) \<Rightarrow> (nat \<Rightarrow> i32) \<Rightarrow> (nat \<Rightarrow> u64) \<Rightarrow> (nat \<Rightarrow> dim3) \<Rightarrow>
    (string \<times> carg list \<times> ('w lib \<Rightarrow> CUresult \<times> 'w lib)) list" where
  "cudart_exports e p u i n g =
     [(''cudaMalloc'', [APtr (p 1), ASize (n 1)], cudaMalloc e (p 1) (n 1)),
      (''cudaFree'', [APtr (p 1)], cudaFree e (p 1)),
      (''cudaHostAlloc'', [APtr (p 1), ASize (n 1), AUInt (u 1)], cudaHostAlloc e (p 1) (n 1) (u 1)),
      (''cudaMallocHost'', [APtr (p 1), ASize (n 1)], cudaMallocHost e (p 1) (n 1)),
      (''cudaFreeHost'', [APtr (p 1)], cudaFreeHost e (p 1)),
      (''cudaMemcpyAsync'',
        [APtr (p 1), APtr (p 2), ASize (n 1), AInt (i 1), APtr (p 3)],
        cudaMemcpyAsync e (p 1) (p 2) (n 1) (i 1) (p 3)),
      (''cudaLaunchKernel'',
        [APtr (p 1), ADim (g 1), ADim (g 2), APtr (p 2), ASize (n 1), APtr (p 3)],
        cudaLaunchKernel e (p 1) (g 1) (g 2) (p 2) (n 1) (p 3)),
      (''cudaStreamCreate'', [APtr (p 1)], cudaStreamCreate e (p 1)),
      (''cudaStreamDestroy'', [APtr (p 1)], cudaStreamDestroy e (p 1)),
      (''cudaEventCreate'', [APtr (p 1)], cudaEventCreate e (p 1)),
      (''cudaEventRecord'', [APtr (p 1), APtr (p 2)], cudaEventRecord e (p 1) (p 2)),
      (''cudaEventSynchronize'', [APtr (p 1)], cudaEventSynchronize e (p 1)),
      (''cudaEventElapsedTime'', [APtr (p 1), APtr (p 2), APtr (p 3)], cudaEventElapsedTime e (p 1) (p 2) (p 3)),
      (''cudaDeviceReset'', [], cudaDeviceReset e)]"

lemma driver_exports_forward:
  "list_all2 (\<lambda>(name, cells) (name', args, hook). name' = name \<and> forwards e (target (driver_symbol e) cells) args hook)
     driver_cells (driver_exports e p u i n d)"
  unfolding driver_cells_def driver_exports_def
  by (simp add: driver_hooks driver_reals hook_forwards)

lemma cudart_exports_forward:
  "list_all2 (\<lambda>(name, cells) (name', args, hook). name' = name \<and> forwards e (target (next_symbol e) cells) args hook)
     cudart_cells (cudart_exports e p u i n g)"
  unfolding cudart_cells_def cudart_exports_def
  by (simp add: cudart_hooks cudart_reals hook_forwards)

text \<open>The name a hooked function looks for first.\<close>

definition first_name :: "(string \<times> string) list \<Rightarrow> string" where
  "first_name cells = snd (hd cells)"

lemma driver_first_names:
  "map (\<lambda>(name, cells). (name, first_name cells)) (filter (\<lambda>(name, cells). first_name cells \<noteq> name) driver_cells) =
     [(''cuCtxPushCurrent'', ''cuCtxPushCurrent_v2''),
      (''cuCtxPopCurrent'', ''cuCtxPopCurrent_v2''),
      (''cuDevicePrimaryCtxSetFlags_v2'', ''cuDevicePrimaryCtxSetFlags''),
      (''cuStreamDestroy_v2'', ''cuStreamDestroy''),
      (''cuEventDestroy_v2'', ''cuEventDestroy''),
      (''cuEventRecord_ptsz'', ''cuEventRecord''),
      (''cuEventRecordWithFlags_ptsz'', ''cuEventRecordWithFlags''),
      (''cuEventElapsedTime_v2'', ''cuEventElapsedTime''),
      (''cuMemcpyAsync_ptsz'', ''cuMemcpyAsync''),
      (''cuMemcpyHtoDAsync'', ''cuMemcpyHtoDAsync_v2''),
      (''cuMemcpyHtoDAsync_v2_ptsz'', ''cuMemcpyHtoDAsync_v2''),
      (''cuMemcpyDtoHAsync'', ''cuMemcpyDtoHAsync_v2''),
      (''cuMemcpyDtoHAsync_v2_ptsz'', ''cuMemcpyDtoHAsync_v2'')]"
  by code_simp

lemma tables_closed:
  "list_all (\<lambda>(name, cells). map snd cells = [name]) cudart_cells"
  "set (map snd driver_wrappers) - set (map fst driver_cells) = {''cuGetProcAddress'', ''cuGetProcAddress_v2''}"
  "set (map snd cudart_wrappers) = set (map fst cudart_cells)"
  by code_simp+

text \<open>C12. A hooked function forwards: the function it has found is called with exactly the arguments the hook
  was called with, its result is returned, and apart from its effects the process is left as it was;
  where none is found nothing is called and the result is \<open>CUDA_ERROR_UNKNOWN\<close>. The function is the
  first that is found of those in its list, which the hooks of the runtime look for in the libraries
  that follow, under their own names; those of the driver in the library that was remembered. All
  but the listed hooks of the driver look for a function of their own name first. The others look
  for another version of it: the \<open>_ptsz\<close> variants, whose default stream is another, for the plain
  function. Every function the tables of wrappers name is among these hooks, except the two versions
  of \<open>cuGetProcAddress\<close>.\<close>

theorem hooks_forward:
  "list_all2 (\<lambda>(name, cells) (name', args, hook). name' = name \<and> forwards e (target (driver_symbol e) cells) args hook)
     driver_cells (driver_exports e p u i n d) \<and>
   list_all2 (\<lambda>(name, cells) (name', args, hook). name' = name \<and> forwards e (target (next_symbol e) cells) args hook)
     cudart_cells (cudart_exports e p u i n g) \<and>
   map (\<lambda>(name, cells). (name, first_name cells)) (filter (\<lambda>(name, cells). first_name cells \<noteq> name) driver_cells) =
     [(''cuCtxPushCurrent'', ''cuCtxPushCurrent_v2''),
      (''cuCtxPopCurrent'', ''cuCtxPopCurrent_v2''),
      (''cuDevicePrimaryCtxSetFlags_v2'', ''cuDevicePrimaryCtxSetFlags''),
      (''cuStreamDestroy_v2'', ''cuStreamDestroy''),
      (''cuEventDestroy_v2'', ''cuEventDestroy''),
      (''cuEventRecord_ptsz'', ''cuEventRecord''),
      (''cuEventRecordWithFlags_ptsz'', ''cuEventRecordWithFlags''),
      (''cuEventElapsedTime_v2'', ''cuEventElapsedTime''),
      (''cuMemcpyAsync_ptsz'', ''cuMemcpyAsync''),
      (''cuMemcpyHtoDAsync'', ''cuMemcpyHtoDAsync_v2''),
      (''cuMemcpyHtoDAsync_v2_ptsz'', ''cuMemcpyHtoDAsync_v2''),
      (''cuMemcpyDtoHAsync'', ''cuMemcpyDtoHAsync_v2''),
      (''cuMemcpyDtoHAsync_v2_ptsz'', ''cuMemcpyDtoHAsync_v2'')] \<and>
   list_all (\<lambda>(name, cells). map snd cells = [name]) cudart_cells \<and>
   set (map snd driver_wrappers) - set (map fst driver_cells) = {''cuGetProcAddress'', ''cuGetProcAddress_v2''} \<and>
   set (map snd cudart_wrappers) = set (map fst cudart_cells)"
  using driver_exports_forward cudart_exports_forward driver_first_names tables_closed by blast

text \<open>C13. Tracing a hooked function is what theory \<open>Hook\<close> describes: if the real function makes some
  hooked calls, then the call of the hook is one hooked call that contains these, with the text of
  the arguments, the real result in decimal and the times of its start; so all that theory shows of
  nested calls holds of the functions the library exports. Looking the function up leaves no trace.\<close>

theorem traced_call_is_hcall:
  assumes "\<not> lk_internal e" and "finds e goal cells resolve" and "steady e goal"
    and "room (hs_bypass (ls_hook s))"
    and "case goal s of
        None \<Rightarrow> kids = [] \<and> ret = CUDA_ERROR_UNKNOWN
      | Some real \<Rightarrow> makes_calls e s cells real args kids ret"
  shows "runs_as e s (HCall dm func shown (lk_now e s) (lk_epoch e s) kids (dec_int ret)) ret
    (traced_call e dm func shown resolve args)"
  by (rule resolver.call_runs [OF resolver.intro [OF assms(2,3)] assms(1,4,5)])

text \<open>A runtime whose \<open>cudaMalloc\<close> calls the driver's \<open>cuMemAlloc_v2\<close>, and that finds both.\<close>

definition sample_linker :: "unit linker" where
  "sample_linker = linker.make default_config False 7 (\<lambda>_. 5) (\<lambda>_. 9) 8
     (\<lambda>handle symbol w. if symbol = Some ''cuMemAlloc_v2'' then 16 else if symbol = Some ''cudaMalloc'' then 32 else 0)
     (\<lambda>real args s. (0, s)) (\<lambda>f. 64) (\<lambda>f. 0) (\<lambda>f. 0) (\<lambda>p v w. w)"

definition sample_runtime :: "unit linker" where
  "sample_runtime = sample_linker\<lparr>lk_call := (\<lambda>real args s.
     if real = 32 then cuMemAlloc_v2 sample_linker 1 2 s else (0, s))\<rparr>"

definition sample_lib :: "unit lib" where
  "sample_lib = lib.make () idle_thread [] 0 None (\<lambda>_. None) (\<lambda>_. None) (\<lambda>_. None)"

lemmas sample_defs = sample_linker_def sample_runtime_def sample_lib_def linker.defs lib.defs

lemma sample_sel [simp]:
  "lk_cfg sample_linker = default_config" "\<not> lk_internal sample_linker" "lk_tid sample_linker = 7"
  "lk_now sample_linker s = 5" "lk_epoch sample_linker s = 9" "lk_call sample_linker real args s = (0, s)"
  "lk_cfg sample_runtime = default_config" "\<not> lk_internal sample_runtime" "lk_tid sample_runtime = 7"
  "lk_now sample_runtime s = 5" "lk_epoch sample_runtime s = 9"
  "lk_call sample_runtime 32 args s = cuMemAlloc_v2 sample_linker 1 2 s"
  "hs_bypass (ls_hook sample_lib) = Some 0" "ls_cells sample_lib c = None"
  by (simp_all add: sample_defs idle_thread_def)

lemma sample_text: "hex0x (Suc 0) = ''0x1''" "dec 2 = ''2''" "dec_int 0 = ''0''"
  by code_simp+

lemma sample_symbols:
  assumes "ls_handle t = 0" "linker_dlsym sample_runtime t = Some 8"
  shows "driver_symbol sample_linker (Some ''cuMemAlloc_v2'') t = Some 16"
    "next_symbol sample_runtime (Some ''cudaMalloc'') t = Some 32"
  using assms
  by (auto simp: driver_symbol_def next_symbol_def linker_symbol_def linker_dlsym_def sample_defs
      split: option.splits)

theorem traced_call_is_hcall_witness:
  "runs_as sample_runtime sample_lib
     (HCall Cudart ''cudaMalloc'' ''dev_ptr=0x1, size=2'' 5 9
       [HCall Driver ''cuMemAlloc_v2'' ''dptr=0x1, bytesize=2'' 5 9 [] ''0'' 5] ''0'')
     0 (cudaMalloc sample_runtime 1 2)"
proof -
  let ?inner = "HCall Driver ''cuMemAlloc_v2'' ''dptr=0x1, bytesize=2'' 5 9 [] ''0''"
  have d0: "linker_dlsym sample_runtime sample_lib = Some 8" "ls_handle sample_lib = 0"
    by (simp_all add: linker_dlsym_def sample_defs)
  have inner: "runs_as sample_linker t ?inner 0 (cuMemAlloc_v2 sample_linker 1 2)"
    if "like sample_runtime sample_lib t" "ls_cells t ''REAL_CU_MEM_ALLOC_V2'' = None"
      "hs_bypass (ls_hook t) = Some 0" for t
  proof -
    have "driver_symbol sample_linker (Some ''cuMemAlloc_v2'') t = Some 16"
      using that d0 by (intro sample_symbols(1)) (simp_all add: like_def same_process_def)
    then show ?thesis
      using traced_call_is_hcall [where e = sample_linker and s = t and kids = "[]" and ret = 0 and dm = Driver
          and func = "''cuMemAlloc_v2''" and shown = "''dptr=0x1, bytesize=2''" and args = "[APtr 1, ASize 2]",
          OF _ finds_driver steady_target [OF stable_symbols(2)], of "''REAL_CU_MEM_ALLOC_V2''" "''cuMemAlloc_v2''"] that
      by (simp add: cuMemAlloc_v2_def real_cu_mem_alloc_v2_def sample_text makes_calls_def
          room_def u32_max_def)
  qed
  have "makes_calls sample_runtime sample_lib {''REAL_CUDA_MALLOC''} 32 [APtr 1, ASize 2] [?inner 5] 0"
    unfolding makes_calls_def
  proof (intro allI impI, elim conjE)
    fix t :: "unit lib" and r u
    assume "like sample_runtime sample_lib t" "hs_bypass (ls_hook t) = hs_bypass (ls_hook sample_lib)"
      "\<forall>c. c \<notin> {''REAL_CUDA_MALLOC''} \<longrightarrow> ls_cells t c = ls_cells sample_lib c"
      and c: "lk_call sample_runtime 32 [APtr 1, ASize 2] t = (r, u)"
    then have "runs_as sample_linker t ?inner 0 (cuMemAlloc_v2 sample_linker 1 2)"
      by (intro inner) simp_all
    then show "r = 0 \<and>
       ls_hook u = fst (run_hcalls (lk_cfg sample_runtime) (lk_tid sample_runtime) [?inner 5] (ls_hook t)) \<and>
       ls_outs u = ls_outs t @
         snd (run_hcalls (lk_cfg sample_runtime) (lk_tid sample_runtime) [?inner 5] (ls_hook t))"
      using c by (simp add: runs_as_def split_beta del: run_hcall.simps)
  qed
  moreover have "next_symbol sample_runtime (Some ''cudaMalloc'') sample_lib = Some 32"
    using d0 by (intro sample_symbols(2))
  ultimately show ?thesis
    using traced_call_is_hcall [where e = sample_runtime and s = sample_lib and kids = "[?inner 5]" and ret = 0
        and dm = Cudart and func = "''cudaMalloc''" and shown = "''dev_ptr=0x1, size=2''"
        and args = "[APtr 1, ASize 2]",
        OF _ finds_cudart steady_target [OF stable_symbols(1)], of "''REAL_CUDA_MALLOC''" "''cudaMalloc''"]
    by (simp add: cudaMalloc_def real_cuda_malloc_def sample_text room_def u32_max_def)
qed

subsection \<open>Looking functions up\<close>

lemma dlsym_parts:
  assumes "dlsym e handle symbol s = (p, t)"
  shows "p = (let q = linker_symbol e handle symbol s in
      if handle = RTLD_NEXT \<or> q = 0 then q else unwrap_or q (dlsym_override e symbol))"
    and "ls_handle t = (if handle \<noteq> RTLD_NEXT \<and> linker_symbol e handle symbol s \<noteq> 0 \<and>
      dlsym_override e symbol \<noteq> None then handle else ls_handle s)"
    and "ls_world t = ls_world s" "ls_cells t = ls_cells s" "ls_hook t = ls_hook s" "ls_outs t = ls_outs s"
    and "linker_dlsym e t = linker_dlsym e s"
proof -
  obtain r0 s0 where d: "real_dlsym e s = (r0, s0)" by (cases "real_dlsym e s")
  show "p = (let q = linker_symbol e handle symbol s in
      if handle = RTLD_NEXT \<or> q = 0 then q else unwrap_or q (dlsym_override e symbol))"
    and "ls_handle t = (if handle \<noteq> RTLD_NEXT \<and> linker_symbol e handle symbol s \<noteq> 0 \<and>
      dlsym_override e symbol \<noteq> None then handle else ls_handle s)"
    and "ls_world t = ls_world s" "ls_cells t = ls_cells s" "ls_hook t = ls_hook s" "ls_outs t = ls_outs s"
    and "linker_dlsym e t = linker_dlsym e s"
    using assms real_dlsym_like [OF d]
    by (auto simp: dlsym_def d linker_symbol_def linker_dlsym_def like_def same_process_def unwrap_or_def Let_def
        split: option.splits if_splits)
qed

lemma wrapper_for_driver_nonnull: "wrapper_for_driver_symbol e n \<noteq> Some 0"
  by (simp add: wrapper_for_driver_symbol_def Let_def)

lemma wrapper_for_cudart_nonnull: "wrapper_for_cudart_symbol e n \<noteq> Some 0"
  by (simp add: wrapper_for_cudart_symbol_def Let_def)

lemma override_nonnull: "dlsym_override e symbol \<noteq> Some 0"
  using wrapper_for_driver_nonnull [of e] wrapper_for_cudart_nonnull [of e]
  by (auto simp: dlsym_override_def split: option.splits)

lemma override_listed:
  "map_of driver_wrappers name = Some f \<Longrightarrow> lk_entry e f \<noteq> 0 \<Longrightarrow> dlsym_override e (Some name) = Some (lk_entry e f)"
  by (simp add: dlsym_override_def wrapper_for_driver_symbol_def Let_def)

text \<open>The hooks in the table of wrappers look for their own name first.\<close>

lemma wrapped_not_renamed:
  "list_all (\<lambda>(symbol, f). f \<notin> set [''cuCtxPushCurrent'', ''cuCtxPopCurrent'', ''cuDevicePrimaryCtxSetFlags_v2'',
       ''cuStreamDestroy_v2'', ''cuEventDestroy_v2'', ''cuEventRecord_ptsz'',
       ''cuEventRecordWithFlags_ptsz'', ''cuEventElapsedTime_v2'', ''cuMemcpyAsync_ptsz'',
       ''cuMemcpyHtoDAsync'', ''cuMemcpyHtoDAsync_v2_ptsz'', ''cuMemcpyDtoHAsync'',
       ''cuMemcpyDtoHAsync_v2_ptsz'']) driver_wrappers"
  by code_simp

lemma wrapped_first_name:
  assumes "map_of driver_wrappers name = Some f" and "(f, cells) \<in> set driver_cells"
  shows "first_name cells = f"
proof (rule ccontr)
  assume "first_name cells \<noteq> f"
  then have "(f, first_name cells) \<in> set (map (\<lambda>(name, cells). (name, first_name cells))
      (filter (\<lambda>(name, cells). first_name cells \<noteq> name) driver_cells))" using assms(2) by force
  from this [unfolded driver_first_names] map_of_SomeD [OF assms(1)] wrapped_not_renamed show False
    by (auto simp: list_all_iff)
qed

lemma wrapped_versions:
  "map fst (filter (\<lambda>(symbol, g). g \<noteq> symbol) driver_wrappers) =
     [''cuCtxCreate'', ''cuCtxDestroy'', ''cuCtxPushCurrent'', ''cuCtxPopCurrent'',
      ''cuDevicePrimaryCtxSetFlags_v2'', ''cuStreamDestroy_v2'', ''cuEventDestroy_v2'',
      ''cuEventRecord_ptsz'', ''cuEventRecordWithFlags_ptsz'', ''cuEventElapsedTime_v2'',
      ''cuMemcpyAsync_ptsz'', ''cuMemcpyHtoDAsync'', ''cuMemcpyHtoDAsync_v2_ptsz'', ''cuMemcpyDtoHAsync'',
      ''cuMemcpyDtoHAsync_v2_ptsz'', ''cuMemcpyHtoD'', ''cuMemcpyDtoH'', ''cuMemAlloc'', ''cuMemFree'',
      ''cuMemAllocHost'']"
  by code_simp

text \<open>\<open>hook\<close>, called with \<open>args\<close> in \<open>t\<close>, calls the function at \<open>real\<close> with these and returns its result.\<close>

definition calls :: "'w linker \<Rightarrow> u64 \<Rightarrow> carg list \<Rightarrow> ('w lib \<Rightarrow> CUresult \<times> 'w lib) \<Rightarrow> 'w lib \<Rightarrow> bool" where
  "calls e real args hook t \<longleftrightarrow> (\<forall>ret t'. hook t = (ret, t') \<longrightarrow>
     (\<exists>u v. same_process t u \<and> lk_call e real args u = (ret, v) \<and> same_process v t'))"

lemma forwards_calls: "forwards e goal args hook \<Longrightarrow> goal t = Some real \<Longrightarrow> calls e real args hook t"
  by (fastforce simp: forwards_def calls_def)

text \<open>The first of some names that a library has, or that follows.\<close>

fun found :: "'w linker \<Rightarrow> u64 \<Rightarrow> string list \<Rightarrow> 'w lib \<Rightarrow> u64 option" where
  "found e handle [] s = None"
| "found e handle (name # names) s =
     (if linker_symbol e handle (Some name) s \<noteq> 0 then Some (linker_symbol e handle (Some name) s)
      else case next_symbol e (Some name) s of
             Some real \<Rightarrow> Some real
           | None \<Rightarrow> found e handle names s)"

lemma target_found:
  assumes "ls_handle t = handle" and "handle \<noteq> 0" and "linker_dlsym e t = linker_dlsym e s" and "ls_world t = ls_world s"
    and "list_all (\<lambda>c. ls_cells t (fst c) = None) cells"
  shows "target (driver_symbol e) cells t = found e handle (map snd cells) s"
proof -
  have "linker_symbol e h n t = linker_symbol e h n s" for h n using assms(3,4) by (simp add: linker_symbol_def)
  then have "driver_symbol e n t = (if linker_symbol e handle n s \<noteq> 0 then Some (linker_symbol e handle n s)
      else next_symbol e n s)" for n using assms(1,2) by (simp add: driver_symbol_def next_symbol_def)
  then show ?thesis using assms(5) by (induction cells) (auto split: option.split)
qed

lemma driver_cells_nonempty: "list_all (\<lambda>(name, cells). cells \<noteq> []) driver_cells"
  by code_simp

text \<open>C14. \<open>dlsym\<close> finds something exactly if the linker does. A function of the driver that is looked up in
  a library is found hooked, whatever its version. The hook that is found then calls, with its own
  arguments, the first function of its list that this library has, or else that follows: the
  library is remembered, and searched first. It looks for its own name first; where that is the
  name that was asked for, it calls exactly the function the linker has found. The symbols that are
  given a hook of another name are listed at the end, versions and stream variants of the function
  that hook looks for. That holds as long as the hook has not been called before. Nothing else
  changes: neither the process nor the trace.\<close>

theorem dlsym_finds_hook:
  assumes "dlsym e handle (Some name) s = (q, t)" and "handle \<noteq> RTLD_NEXT" and "handle \<noteq> 0"
    and "map_of driver_wrappers name = Some f" and "lk_entry e f \<noteq> 0"
  shows "(q = 0 \<longleftrightarrow> linker_symbol e handle (Some name) s = 0) \<and>
    (q \<noteq> 0 \<longrightarrow> q = lk_entry e f \<and>
       list_all2 (\<lambda>(g, cells) (g', args, hook).
           g = f \<longrightarrow> list_all (\<lambda>c. ls_cells s (fst c) = None) cells \<longrightarrow>
           g' = f \<and> (\<forall>real. found e handle (map snd cells) s = Some real \<longrightarrow> calls e real args hook t) \<and>
           first_name cells = f \<and> (f = name \<longrightarrow> calls e (linker_symbol e handle (Some name) s) args hook t))
         driver_cells (driver_exports e p u i n d)) \<and>
    ls_world t = ls_world s \<and> ls_hook t = ls_hook s \<and> ls_outs t = ls_outs s \<and> ls_cells t = ls_cells s \<and>
    map fst (filter (\<lambda>(symbol, g). g \<noteq> symbol) driver_wrappers) =
     [''cuCtxCreate'', ''cuCtxDestroy'', ''cuCtxPushCurrent'', ''cuCtxPopCurrent'',
      ''cuDevicePrimaryCtxSetFlags_v2'', ''cuStreamDestroy_v2'', ''cuEventDestroy_v2'',
      ''cuEventRecord_ptsz'', ''cuEventRecordWithFlags_ptsz'', ''cuEventElapsedTime_v2'',
      ''cuMemcpyAsync_ptsz'', ''cuMemcpyHtoDAsync'', ''cuMemcpyHtoDAsync_v2_ptsz'', ''cuMemcpyDtoHAsync'',
      ''cuMemcpyDtoHAsync_v2_ptsz'', ''cuMemcpyHtoD'', ''cuMemcpyDtoH'', ''cuMemAlloc'', ''cuMemFree'',
      ''cuMemAllocHost'']"
proof -
  note d = dlsym_parts [OF assms(1)]
  have hooks: "list_all2 (\<lambda>(g, cells) (g', args, hook).
           g = f \<longrightarrow> list_all (\<lambda>c. ls_cells s (fst c) = None) cells \<longrightarrow>
           g' = f \<and> (\<forall>real. found e handle (map snd cells) s = Some real \<longrightarrow> calls e real args hook t) \<and>
           first_name cells = f \<and> (f = name \<longrightarrow> calls e (linker_symbol e handle (Some name) s) args hook t))
         driver_cells (driver_exports e p u i n d)" if "q \<noteq> 0"
  proof -
    have h: "ls_handle t = handle" and l: "linker_symbol e handle (Some name) s \<noteq> 0"
      using that d assms(2) override_listed [OF assms(4,5)] by (auto simp: Let_def split: if_splits)
    have one: "calls e real args hook t"
      if "forwards e (target (driver_symbol e) cells) args hook" "list_all (\<lambda>c. ls_cells s (fst c) = None) cells"
        "found e handle (map snd cells) s = Some real" for cells args hook real
      using forwards_calls [OF that(1)] target_found [OF h assms(3) d(7,3), of cells] that(2,3) d(4) by simp
    have first: "found e handle (map snd cells) s = Some (linker_symbol e handle (Some (first_name cells)) s)"
      if "cells \<noteq> []" "linker_symbol e handle (Some (first_name cells)) s \<noteq> 0" for cells
      using that by (cases cells) (simp_all add: first_name_def)
    have "list_all (\<lambda>(g, cells). cells \<noteq> [] \<and> (g = f \<longrightarrow> first_name cells = f)) driver_cells"
      using driver_cells_nonempty wrapped_first_name [OF assms(4)] by (auto simp: list_all_iff)
    then have "list_all2 (\<lambda>(g, cells) (g', args, hook). cells \<noteq> [] \<and> (g = f \<longrightarrow> first_name cells = f) \<and> g' = g \<and>
        forwards e (target (driver_symbol e) cells) args hook) driver_cells (driver_exports e p u i n d)"
      using driver_exports_forward [of e p u i n d]
      by (fastforce simp: list_all2_conv_all_nth list_all_length)
    then show ?thesis using l
      by (elim list_all2_mono) (auto intro: one first)
  qed
  show ?thesis
    using d hooks assms(2) override_listed [OF assms(4,5)] override_nonnull [of e "Some name"] wrapped_versions
    by (auto simp: Let_def unwrap_or_def split: if_splits)
qed

theorem dlsym_finds_hook_witness:
  "(let (q, t) = dlsym sample_linker 77 (Some ''cuMemAlloc_v2'') sample_lib
    in q = 64 \<and> calls sample_linker 16 [APtr 1, ASize 2] (cuMemAlloc_v2 sample_linker 1 2) t)"
proof -
  obtain q t where d: "dlsym sample_linker 77 (Some ''cuMemAlloc_v2'') sample_lib = (q, t)"
    by (cases "dlsym sample_linker 77 (Some ''cuMemAlloc_v2'') sample_lib")
  have m: "map_of driver_wrappers ''cuMemAlloc_v2'' = Some ''cuMemAlloc_v2''"
    by (simp add: driver_wrappers_def)
  have l: "linker_symbol sample_linker 77 (Some ''cuMemAlloc_v2'') sample_lib = 16" "lk_entry sample_linker f = 64" for f
    by (simp_all add: linker_symbol_def linker_dlsym_def sample_defs)
  have pre: "(77 :: u64) \<noteq> RTLD_NEXT" "(77 :: u64) \<noteq> 0" "lk_entry sample_linker ''cuMemAlloc_v2'' \<noteq> 0"
    by (simp_all add: RTLD_NEXT_def l)
  note w = dlsym_finds_hook [OF d pre(1,2) m pre(3), where p = "\<lambda>_. 1" and n = "\<lambda>_. 2"]
  have q: "q = 64" using w l by simp
  have e: "driver_cells ! 46 = (''cuMemAlloc_v2'', [(''REAL_CU_MEM_ALLOC_V2'', ''cuMemAlloc_v2'')])" "46 < length driver_cells"
    "driver_exports sample_linker (\<lambda>_. 1) u i (\<lambda>_. 2) dv ! 46 =
      (''cuMemAlloc_v2'', [APtr 1, ASize 2], cuMemAlloc_v2 sample_linker 1 2)" for u i dv
    by (simp_all add: driver_cells_def driver_exports_def)
  have "q \<noteq> 0" using q by simp
  from list_all2_nthD [OF conjunct2 [OF mp [OF conjunct1 [OF conjunct2 [OF w]] this]] e(2)]
  have "calls sample_linker 16 [APtr 1, ASize 2] (cuMemAlloc_v2 sample_linker 1 2) t"
    by (simp add: e l first_name_def del: found.simps)
  with d q show ?thesis by simp
qed

text \<open>C15. Looking a hooked function up in one library can lose the driver's functions found in another. The
  library in which a function of the runtime was found is remembered too, in place of the one that
  has the driver. If the driver can only be found through the latter, the next driver function that
  is needed is not found; and as the answer is kept, it will not be found by any later call either,
  whatever is looked up in between: its hook returns \<open>CUDA_ERROR_UNKNOWN\<close> from then on.\<close>

theorem lookup_loses_driver:
  assumes "dlsym e handle symbol s = (p, t)" and "dlsym_override e symbol \<noteq> None"
    and "handle \<noteq> RTLD_NEXT" and "linker_symbol e handle symbol s \<noteq> 0"
    and "ls_handle s \<noteq> 0" and "linker_symbol e (ls_handle s) (Some name) s = real" and "real \<noteq> 0"
    and "linker_symbol e handle (Some name) s = 0" and "next_symbol e (Some name) s = None"
    and "ls_cells s cell = None"
  shows "fst (resolve_driver e cell name s) = Some real \<and>
    (\<forall>v. ls_cells v cell = ls_cells (snd (resolve_driver e cell name t)) cell \<longrightarrow>
       fst (traced_call e dm func shown (resolve_driver e cell name) args v) = CUDA_ERROR_UNKNOWN)"
proof -
  note d = dlsym_parts [OF assms(1)]
  have l: "linker_symbol e h n t = linker_symbol e h n s" for h n
    using d(3,7) by (simp add: linker_symbol_def)
  obtain r1 t1 where q1: "resolve_driver_from_ptr e (Some name) s = (r1, t1)"
    by (cases "resolve_driver_from_ptr e (Some name) s")
  obtain r2 t2 where q2: "resolve_driver_from_ptr e (Some name) t = (r2, t2)"
    by (cases "resolve_driver_from_ptr e (Some name) t")
  have r1: "r1 = Some real"
    using resolve_driver_like [OF q1] assms(5-7) by (simp add: driver_symbol_def)
  have "r2 = None"
    using resolve_driver_like [OF q2] assms(2-4,8,9) d(2) by (simp add: driver_symbol_def next_symbol_def l)
  then have none: "target (driver_symbol e) [(cell, name)] v = None"
    if "ls_cells v cell = ls_cells (snd (resolve_driver e cell name t)) cell" for v
    using that assms(10) d(4) by (simp add: resolve_driver_def q2)
  have "fst (traced_call e dm func shown (resolve_driver e cell name) args v) = CUDA_ERROR_UNKNOWN"
    if "ls_cells v cell = ls_cells (snd (resolve_driver e cell name t)) cell" for v
    using none [OF that] driver_resolver.call_forwards [unfolded forwards_def, rule_format, where s = v and cell = cell
        and name = name and e = e and args = args and dm = dm and func = func and shown = shown]
    by (cases "traced_call e dm func shown (resolve_driver e cell name) args v") simp
  then show ?thesis using r1 assms(10) by (simp add: resolve_driver_def q1)
qed

text \<open>A second library, at 78, that has the runtime, where 77 has the driver and has been found.\<close>

definition two_libraries :: "unit linker" where
  "two_libraries = sample_linker\<lparr>lk_dlsym := (\<lambda>handle symbol w.
     if handle = 77 \<and> symbol = Some ''cuMemAlloc_v2'' then 16
     else if handle = 78 \<and> symbol = Some ''cudaMalloc'' then 32 else 0)\<rparr>"

theorem lookup_loses_driver_witness:
  "(let s = sample_lib\<lparr>ls_handle := 77\<rparr>; (p, t) = dlsym two_libraries 78 (Some ''cudaMalloc'') s
    in fst (real_cu_mem_alloc_v2 two_libraries s) = Some 16 \<and>
       fst (cuMemAlloc_v2 two_libraries 1 2
         (snd (dlsym two_libraries 77 (Some ''cuMemAlloc_v2'') (snd (real_cu_mem_alloc_v2 two_libraries t))))) =
       CUDA_ERROR_UNKNOWN)"
proof -
  let ?s = "sample_lib\<lparr>ls_handle := 77\<rparr>"
  obtain p t where d: "dlsym two_libraries 78 (Some ''cudaMalloc'') ?s = (p, t)"
    by (cases "dlsym two_libraries 78 (Some ''cudaMalloc'') ?s")
  have "map_of cudart_wrappers ''cudaMalloc'' = Some ''cudaMalloc''" "map_of driver_wrappers ''cudaMalloc'' = None"
    by (simp_all add: cudart_wrappers_def driver_wrappers_def)
  then have o: "dlsym_override two_libraries (Some ''cudaMalloc'') \<noteq> None"
    by (simp add: dlsym_override_def wrapper_for_driver_symbol_def wrapper_for_cudart_symbol_def two_libraries_def
        sample_defs Let_def)
  have q: "linker_symbol two_libraries 78 (Some ''cudaMalloc'') ?s = 32"
    "linker_symbol two_libraries 77 (Some ''cuMemAlloc_v2'') ?s = 16"
    "linker_symbol two_libraries 78 (Some ''cuMemAlloc_v2'') ?s = 0"
    "next_symbol two_libraries (Some ''cuMemAlloc_v2'') ?s = None"
    by (simp_all add: linker_symbol_def linker_dlsym_def next_symbol_def two_libraries_def RTLD_NEXT_def sample_defs)
  have c: "ls_cells (snd (dlsym e h n u)) = ls_cells u" for e h n and u :: "unit lib"
    using dlsym_parts(4) by (metis prod.collapse)
  show ?thesis
    using lookup_loses_driver [OF d o, of "''cuMemAlloc_v2''" 16 "''REAL_CU_MEM_ALLOC_V2''"]
    by (simp add: d q c real_cu_mem_alloc_v2_def cuMemAlloc_v2_def RTLD_NEXT_def Let_def)
qed

subsection \<open>Functions looked up through the driver\<close>

text \<open>Where the hook of \<open>symbol\<close> is stored over what the driver has stored: only if the driver had it.\<close>

definition patched :: "'w linker \<Rightarrow> string option \<Rightarrow> u64 \<Rightarrow> CUresult \<Rightarrow> 'w \<Rightarrow> 'w" where
  "patched e symbol pfn ret w =
     (case (if ret = CUDA_SUCCESS \<and> pfn \<noteq> 0 then Option.bind symbol (wrapper_for_driver_symbol e) else None) of
        Some wrapper \<Rightarrow> lk_poke e pfn wrapper w
      | None \<Rightarrow> w)"

text \<open>\<open>f\<close> asks the first function that is found among some alternatives, each with its arguments, and
  then patches what it was told.\<close>

fun asks :: "'w linker \<Rightarrow> string option \<Rightarrow> u64 \<Rightarrow> (string \<times> string \<times> carg list) list \<Rightarrow> 'w lib \<Rightarrow>
    CUresult \<times> 'w lib \<Rightarrow> bool" where
  "asks e symbol pfn [] s r \<longleftrightarrow> fst r = CUDA_ERROR_UNKNOWN \<and> same_process s (snd r)"
| "asks e symbol pfn ((cell, name, args) # rest) s r \<longleftrightarrow>
     (case target (driver_symbol e) [(cell, name)] s of
        Some real \<Rightarrow> \<exists>t u. like e s t \<and> lk_call e real args t = (fst r, u) \<and>
          snd r = u\<lparr>ls_world := patched e symbol pfn (fst r) (ls_world u)\<rparr>
      | None \<Rightarrow> asks e symbol pfn rest s r)"

lemma patch_driver_proc_patched:
  "(if ret = CUDA_SUCCESS then snd (patch_driver_proc e symbol pfn s) else s) =
     s\<lparr>ls_world := patched e symbol pfn ret (ls_world s)\<rparr>"
  by (auto simp: patch_driver_proc_def patched_def split: option.splits)

lemma patched_unknown [simp]: "patched e symbol pfn CUDA_ERROR_UNKNOWN w = w"
  by (simp add: patched_def CUDA_ERROR_UNKNOWN_def CUDA_SUCCESS_def)

lemma asks_two:
  assumes "c \<noteq> d"
  shows "asks e symbol pfn [(c, n, as), (d, m, bs)] s
    (let (real, s) = resolve_driver e c n s;
         (ret, s) = (case real of
             Some real \<Rightarrow> lk_call e real as s
           | None \<Rightarrow>
               (let (other, s) = resolve_driver e d m s
                in case other of
                     Some other \<Rightarrow> lk_call e other bs s
                   | None \<Rightarrow> (CUDA_ERROR_UNKNOWN, s)));
         s = (if ret = CUDA_SUCCESS then snd (patch_driver_proc e symbol pfn s) else s)
     in (ret, s))"
proof -
  obtain r1 s1 where q1: "resolve_driver e c n s = (r1, s1)" by (cases "resolve_driver e c n s")
  obtain r2 s2 where q2: "resolve_driver e d m s1 = (r2, s2)" by (cases "resolve_driver e d m s1")
  note f1 = finds_driver [unfolded finds_def, rule_format, OF q1]
  note f2 = finds_driver [unfolded finds_def, rule_format, OF q2]
  have "target (driver_symbol e) [(d, m)] s1 = target (driver_symbol e) [(d, m)] s"
    using f1 assms by (intro target_like [of e]) auto
  moreover have "like e s s2" using f1 f2 like_trans by blast
  ultimately have t: "target (driver_symbol e) [(c, n)] s = r1" "target (driver_symbol e) [(d, m)] s = r2"
    "like e s s1" "like e s s2"
    using f1 f2 by auto
  show ?thesis
  proof (cases r1)
    case (Some real)
    obtain ret u where "lk_call e real as s1 = (ret, u)" by (cases "lk_call e real as s1")
    with t Some show ?thesis
      by (simp add: q1 patch_driver_proc_patched Let_def del: target.simps) blast
  next
    case None1: None
    show ?thesis
    proof (cases r2)
      case (Some real)
      obtain ret u where "lk_call e real bs s2 = (ret, u)" by (cases "lk_call e real bs s2")
      with t None1 Some show ?thesis
        by (simp add: q1 q2 patch_driver_proc_patched Let_def del: target.simps) blast
    next
      case None
      with t None1 show ?thesis
        by (simp add: q1 q2 patch_driver_proc_patched Let_def like_def same_process_def del: target.simps)
    qed
  qed
qed

text \<open>C16. \<open>cuGetProcAddress\<close>, in both versions, asks the driver: the same version if it is found, else the
  other one with the arguments that version has; the answer is passed through. If it is success
  and the function is one that is hooked, the address the driver has stored is replaced by the
  hook's, whatever CUDA version and flags were asked for; otherwise it is left as the driver has
  stored it. Where the driver has neither function, nothing is stored.\<close>

theorem get_proc_address_patched:
  "asks e symbol pfn
     [(''REAL_CU_GET_PROC_ADDRESS'', ''cuGetProcAddress'', [AStr symbol, APtr pfn, AInt version, ADev flags]),
      (''REAL_CU_GET_PROC_ADDRESS_V2'', ''cuGetProcAddress_v2'',
        [AStr symbol, APtr pfn, AInt version, ADev flags, APtr 0])]
     s (cuGetProcAddress e symbol pfn version flags s) \<and>
   asks e symbol pfn
     [(''REAL_CU_GET_PROC_ADDRESS_V2'', ''cuGetProcAddress_v2'',
        [AStr symbol, APtr pfn, AInt version, ADev flags, APtr status]),
      (''REAL_CU_GET_PROC_ADDRESS'', ''cuGetProcAddress'', [AStr symbol, APtr pfn, AInt version, ADev flags])]
     s (cuGetProcAddress_v2 e symbol pfn version flags status s)"
  unfolding cuGetProcAddress_def cuGetProcAddress_v2_def real_cu_get_proc_address_def real_cu_get_proc_address_v2_def
  by (intro conjI asks_two) simp_all

text \<open>A name without the suffixes that tell versions of a function apart.\<close>

definition without :: "string \<Rightarrow> string \<Rightarrow> string" where
  "without suffix name = (let n = length name - length suffix in if drop n name = suffix then take n name else name)"

definition unversioned :: "string \<Rightarrow> string" where
  "unversioned name = without ''_v2'' (without ''_ptsz'' name)"

text \<open>The tables of hooks are sound: a symbol is given the hook of the function of the same name, up
  to the version; no symbol is listed twice, and none both for the driver and the runtime.\<close>

theorem wrappers_sound:
  "list_all (\<lambda>(symbol, f). unversioned symbol = unversioned f) (driver_wrappers @ cudart_wrappers) \<and>
   distinct (map fst (driver_wrappers @ cudart_wrappers))"
  by code_simp

end
