(* ===== verification/Build.thy ===== *)
theory Build
  imports Rust_Fmt "HOL-Library.Char_ord" "HOL-Library.List_Lexorder"
begin

text \<open>
  \<open>build.rs\<close>: what the build generates. The functions of the driver that \<open>src/hook/driver.rs\<close> does not
  hook by hand are hooked by C functions, made from the prototypes of \<open>build_specs_embed.rs\<close>; each
  calls the entry points of theory \<open>Interpose\<close>. Files and environment variables are the record
  \<open>build_env\<close>; what the build prints, writes and compiles is a list of \<open>build_out\<close>.
\<close>

subsection \<open>Searching in strings\<close>

definition find_char :: "char \<Rightarrow> string \<Rightarrow> nat option" where
  "find_char c s = (if c \<in> set s then Some (length (takeWhile (\<lambda>x. x \<noteq> c) s)) else None)"

definition rfind_char :: "char \<Rightarrow> string \<Rightarrow> nat option" where
  "rfind_char c s = map_option (\<lambda>i. length s - 1 - i) (find_char c (rev s))"

fun find_str :: "string \<Rightarrow> string \<Rightarrow> nat option" where
  "find_str p [] = (if p = [] then Some 0 else None)"
| "find_str p (c # s) = (if starts_with (c # s) p then Some 0 else map_option Suc (find_str p s))"

fun rfind_str :: "string \<Rightarrow> string \<Rightarrow> nat option" where
  "rfind_str p [] = (if p = [] then Some 0 else None)"
| "rfind_str p (c # s) =
     (case rfind_str p s of
        Some i \<Rightarrow> Some (Suc i)
      | None \<Rightarrow> if starts_with (c # s) p then Some 0 else None)"

text \<open>\<open>trim_end_matches(c)\<close> for a character.\<close>

definition trim_end_char :: "char \<Rightarrow> string \<Rightarrow> string" where
  "trim_end_char c s = rev (dropWhile (\<lambda>x. x = c) (rev s))"

subsection \<open>Hooks written by hand\<close>

definition DRIVER_MANUAL_HOOKS_FILE :: string where "DRIVER_MANUAL_HOOKS_FILE = ''src/hook/driver.rs''"
definition CUDART_MANUAL_HOOKS_FILE :: string where "CUDART_MANUAL_HOOKS_FILE = ''src/hook/cudart.rs''"
definition BUILD_CUDA_ERROR_UNKNOWN :: int where "BUILD_CUDA_ERROR_UNKNOWN = 999"

record WrapperPrototype =
  wp_decl_prefix :: string
  wp_name :: string
  wp_params :: string
  wp_arg_names :: "string list"

definition quoted :: "string \<Rightarrow> string" where
  "quoted s = dquote # s @ [dquote]"

definition manual_hook_line :: "string \<Rightarrow> string \<Rightarrow> string set \<Rightarrow> string set" where
  "manual_hook_line symbol_prefix line out =
     (case strip_prefix (''pub unsafe extern '' @ quoted ''C'' @ '' fn '') (trim line) of
        None \<Rightarrow> out
      | Some rest \<Rightarrow>
          (let name = trim (hd (split_on (\<lambda>c. c = CHR ''('') rest))
           in if starts_with name symbol_prefix then insert name out else out))"

definition parse_manual_hook_names :: "string \<Rightarrow> string \<Rightarrow> string set" where
  "parse_manual_hook_names txt symbol_prefix = fold (manual_hook_line symbol_prefix) (lines txt) {}"

subsection \<open>Parameters of a prototype\<close>

text \<open>The loop over the bytes after an opening parenthesis: the depth and the index where it stops.\<close>

fun scan_parens :: "string \<Rightarrow> nat \<Rightarrow> nat \<Rightarrow> nat \<times> nat" where
  "scan_parens [] depth i = (depth, i)"
| "scan_parens (b # bs) depth i =
     (if b = CHR ''('' then scan_parens bs (depth + 1) (i + 1)
      else if b = CHR '')'' then
        (let depth = depth - 1 in if depth = 0 then (depth, i) else scan_parens bs depth (i + 1))
      else scan_parens bs depth (i + 1))"

lemma scan_parens_ge: "i \<le> snd (scan_parens bs depth i)"
  by (induction bs depth i rule: scan_parens.induct) (auto simp: Let_def)

lemma find_str_bound: "find_str p s = Some i \<Longrightarrow> i + length p \<le> length s"
proof (induction s arbitrary: i)
  case (Cons c s)
  then show ?case by (auto simp: starts_with_def dest: arg_cong [where f = length] split: if_splits)
qed (simp split: if_splits)

function remove_macro_loop :: "string \<Rightarrow> string \<Rightarrow> string" where
  "remove_macro_loop needle s =
     (case find_str needle s of
        None \<Rightarrow> s
      | Some start \<Rightarrow>
          (let (depth, i) = scan_parens (drop (start + length needle) s) 1 (start + length needle)
           in if depth \<noteq> 0 \<or> length s \<le> i then s
              else remove_macro_loop needle (take start s @ drop (Suc i) s)))"
  by pat_completeness auto

termination
proof (relation "measure (\<lambda>(needle, s). length s)")
  fix needle s start p depth i
  assume "find_str needle s = Some start"
    and "p = scan_parens (drop (start + length needle) s) 1 (start + length needle)"
    and "(depth, i) = p" and "\<not> (depth \<noteq> 0 \<or> length s \<le> i)"
  then have "start \<le> i" "i < length s"
    using scan_parens_ge [of "start + length needle" "drop (start + length needle) s" 1]
    by (auto simp: prod_eq_iff dest: sym)
  then show "((needle, take start s @ drop (Suc i) s), needle, s) \<in> measure (\<lambda>(needle, s). length s)"
    by simp
qed simp

declare remove_macro_loop.simps [simp del]

definition remove_macro_invocation :: "string \<Rightarrow> string \<Rightarrow> string" where
  "remove_macro_invocation input macro_name = remove_macro_loop (macro_name @ ''('') input"

definition collapse_spaces :: "string \<Rightarrow> string" where
  "collapse_spaces s = join '' '' (split_whitespace s)"

definition sanitize_param :: "string \<Rightarrow> string option" where
  "sanitize_param raw =
     (let p = trim raw
      in if p = [] \<or> p = ''void'' then None
         else
           let p = remove_macro_invocation p ''__dv'';
               p = (case find_char (CHR ''='') p of Some eq_pos \<Rightarrow> trim (take eq_pos p) | None \<Rightarrow> p);
               p = collapse_spaces p
           in if p \<noteq> [] \<and> p \<noteq> ''void'' then Some p else None)"

definition sanitize_params :: "string \<Rightarrow> string" where
  "sanitize_params params =
     (if trim params = [] \<or> trim params = ''void'' then []
      else join '', '' (List.map_filter sanitize_param (split_on (\<lambda>c. c = CHR '','') params)))"

definition is_ascii_whitespace :: "char \<Rightarrow> bool" where
  "is_ascii_whitespace c \<longleftrightarrow> ord c \<in> {32, 9, 10, 12, 13}"

definition is_ident_char :: "char \<Rightarrow> bool" where
  "is_ident_char c \<longleftrightarrow> (48 \<le> ord c \<and> ord c \<le> 57) \<or> (65 \<le> ord c \<and> ord c \<le> 90) \<or> (97 \<le> ord c \<and> ord c \<le> 122) \<or> c = CHR ''_''"

text \<open>The loops that move an index back over bytes.\<close>

fun move_back :: "(char \<Rightarrow> bool) \<Rightarrow> string \<Rightarrow> nat \<Rightarrow> nat" where
  "move_back p bytes 0 = 0"
| "move_back p bytes (Suc n) = (if p (bytes ! n) then move_back p bytes n else Suc n)"

definition extract_param_name :: "string \<Rightarrow> string option" where
  "extract_param_name param =
     (let end = move_back is_ascii_whitespace param (length param)
      in if end = 0 then None
         else
           let start = move_back is_ident_char param end
           in if start = end then None else Some (take (end - start) (drop start param)))"

fun param_names :: "string list \<Rightarrow> (unit + string list)" where
  "param_names [] = Inr []"
| "param_names (raw # rest) =
     (let param = trim raw
      in if param = [] \<or> param = ''void'' then param_names rest
         else case extract_param_name param of
             None \<Rightarrow> Inl ()
           | Some name \<Rightarrow> map_sum id (Cons name) (param_names rest))"

definition parse_param_names :: "string \<Rightarrow> (unit + string list)" where
  "parse_param_names params =
     (if trim params = [] \<or> trim params = ''void'' then Inr []
      else param_names (split_on (\<lambda>c. c = CHR '','') params))"

subsection \<open>Prototypes\<close>

datatype build_out =
    Println string
  | Wrote string string
  | Compiled string string string

record prototypes =
  pr_wrappers :: "WrapperPrototype list"
  pr_seen :: "string set"
  pr_out :: "build_out list"

definition prototype_line :: "string set \<Rightarrow> string \<Rightarrow> string \<Rightarrow> prototypes \<Rightarrow> prototypes" where
  "prototype_line manual_hooks symbol_prefix raw st =
     (let line = trim raw
      in if line = [] then st
         else
           let line = trim_end_char (CHR '';'') line
           in case find_char (CHR ''('') line of
               None \<Rightarrow> st
             | Some open_paren \<Rightarrow>
           case rfind_char (CHR '')'') line of
               None \<Rightarrow> st
             | Some close_paren \<Rightarrow>
           if close_paren \<le> open_paren then st
           else
             let before_paren = trim (take open_paren line)
             in case last_opt (split_whitespace before_paren) of
                 None \<Rightarrow> st
               | Some name \<Rightarrow>
             if \<not> starts_with name symbol_prefix then st
             else case rfind_str name before_paren of
                 None \<Rightarrow> st
               | Some name_pos \<Rightarrow>
             let decl_prefix = trim (take name_pos before_paren)
             in if decl_prefix = [] \<or> name \<in> manual_hooks \<or> name \<in> pr_seen st then st
                else
                  let st = st\<lparr>pr_seen := insert name (pr_seen st)\<rparr>;
                      params_raw = trim (take (close_paren - (open_paren + 1)) (drop (open_paren + 1) line));
                      params = sanitize_params params_raw
                  in case parse_param_names params of
                      Inl _ \<Rightarrow> st\<lparr>pr_out := pr_out st @ [Println (''cargo:warning=skip generated wrapper for '' @
                        name @ '': failed to parse parameter names'')]\<rparr>
                    | Inr arg_names \<Rightarrow> st\<lparr>pr_wrappers := pr_wrappers st @
                        [\<lparr>wp_decl_prefix = decl_prefix, wp_name = name, wp_params = params, wp_arg_names = arg_names\<rparr>]\<rparr>)"

definition parse_missing_prototypes ::
    "string \<Rightarrow> string set \<Rightarrow> string \<Rightarrow> WrapperPrototype list \<times> build_out list" where
  "parse_missing_prototypes txt manual_hooks symbol_prefix =
     (let st = fold (prototype_line manual_hooks symbol_prefix) (lines txt)
            \<lparr>pr_wrappers = [], pr_seen = {}, pr_out = []\<rparr>
      in (sort_key wp_name (pr_wrappers st), pr_out st))"

subsection \<open>The C source\<close>

definition text_lines :: "string list \<Rightarrow> string" where
  "text_lines ls = concat (map (\<lambda>l. l @ [newline]) ls)"

definition undef_text :: "WrapperPrototype \<Rightarrow> string" where
  "undef_text wrapper =
     text_lines [''#ifdef '' @ wp_name wrapper, ''#undef '' @ wp_name wrapper, ''#endif'']"

definition entry_text :: "WrapperPrototype \<Rightarrow> string" where
  "entry_text wrapper = text_lines [''    {'' @ quoted (wp_name wrapper) @ '', (void*)'' @ wp_name wrapper @ ''},'']"

definition driver_prelude :: string where
  "driver_prelude = text_lines
     [''#include <cuda.h>'',
      ''#include <stddef.h>'',
      ''#include <string.h>'',
      [],
      ''extern void* cudatrace_driver_enter(const char* func_name);'',
      ''extern void cudatrace_driver_exit(void* scope, CUresult result);'',
      ''extern void* cudatrace_resolve_driver_symbol(const char* symbol);'',
      [],
      ''#define CUDATRACE_CUDA_ERROR_UNKNOWN ((CUresult)'' @ dec_int BUILD_CUDA_ERROR_UNKNOWN @ '')'',
      []]"

definition driver_wrapper_text :: "WrapperPrototype \<Rightarrow> string" where
  "driver_wrapper_text wrapper =
     (let name = wp_name wrapper; decl = wp_decl_prefix wrapper;
          params = (if wp_params wrapper = [] then ''void'' else wp_params wrapper);
          call_args = join '', '' (wp_arg_names wrapper)
      in text_lines
        [decl @ '' '' @ name @ ''('' @ params @ '') {'',
         ''    void* cudatrace_scope_token = cudatrace_driver_enter('' @ quoted name @ '');'',
         ''    typedef '' @ decl @ '' (*real_fn_t)('' @ params @ '');'',
         ''    static real_fn_t real_fn = NULL;'',
         ''    if (!real_fn) {'',
         ''        real_fn = (real_fn_t)cudatrace_resolve_driver_symbol('' @ quoted name @ '');'',
         ''    }'',
         if wp_arg_names wrapper = [] then
           ''    CUresult ret = real_fn ? real_fn() : CUDATRACE_CUDA_ERROR_UNKNOWN;''
         else
           ''    CUresult ret = real_fn ? real_fn('' @ call_args @ '') : CUDATRACE_CUDA_ERROR_UNKNOWN;'',
         ''    cudatrace_driver_exit(cudatrace_scope_token, ret);'',
         ''    return ret;'',
         ''}'',
         []])"

definition driver_lookup_text :: string where
  "driver_lookup_text = text_lines
     [''void* cudatrace_lookup_generated_driver_wrapper(const char* symbol) {'',
      ''    if (!symbol) {'',
      ''        return NULL;'',
      ''    }'',
      ''    for (size_t i = 0; i < sizeof(kGeneratedDriverWrappers) / sizeof(kGeneratedDriverWrappers[0]); ++i) {'',
      ''        if (strcmp(symbol, kGeneratedDriverWrappers[i].name) == 0) {'',
      ''            return kGeneratedDriverWrappers[i].fn;'',
      ''        }'',
      ''    }'',
      ''    return NULL;'',
      ''}'']"

definition render_driver_c_source :: "WrapperPrototype list \<Rightarrow> string" where
  "render_driver_c_source wrappers =
     driver_prelude @
     concat (map undef_text wrappers) @ text_lines [[]] @
     concat (map driver_wrapper_text wrappers) @
     text_lines
       [''typedef struct {'',
        ''    const char* name;'',
        ''    void* fn;'',
        ''} cudatrace_driver_wrapper_entry_t;'',
        [],
        ''static const cudatrace_driver_wrapper_entry_t kGeneratedDriverWrappers[] = {''] @
     concat (map entry_text wrappers) @
     text_lines [''};'', []] @
     driver_lookup_text"

definition cudart_prelude :: string where
  "cudart_prelude = text_lines
     [''#include <cuda_runtime_api.h>'',
      ''#include <stddef.h>'',
      ''#include <string.h>'',
      [],
      ''extern void* cudatrace_cudart_enter(const char* func_name);'',
      ''extern void cudatrace_cudart_exit(void* scope, cudaError_t result);'',
      ''extern void* cudatrace_resolve_cudart_symbol(const char* symbol);'',
      [],
      ''#define CUDATRACE_CUDART_ERROR_UNKNOWN ((cudaError_t)'' @ dec_int BUILD_CUDA_ERROR_UNKNOWN @ '')'',
      []]"

definition cudart_wrapper_text :: "WrapperPrototype \<Rightarrow> string" where
  "cudart_wrapper_text wrapper =
     (let name = wp_name wrapper; decl = wp_decl_prefix wrapper;
          params = (if wp_params wrapper = [] then ''void'' else wp_params wrapper);
          call_args = join '', '' (wp_arg_names wrapper)
      in text_lines
        [decl @ '' '' @ name @ ''('' @ params @ '') {'',
         ''    void* cudatrace_scope_token = cudatrace_cudart_enter('' @ quoted name @ '');'',
         ''    typedef '' @ decl @ '' (*real_fn_t)('' @ params @ '');'',
         ''    static real_fn_t real_fn = NULL;'',
         ''    if (!real_fn) {'',
         ''        real_fn = (real_fn_t)cudatrace_resolve_cudart_symbol('' @ quoted name @ '');'',
         ''    }'',
         if wp_arg_names wrapper = [] then
           ''    cudaError_t ret = real_fn ? real_fn() : CUDATRACE_CUDART_ERROR_UNKNOWN;''
         else
           ''    cudaError_t ret = real_fn ? real_fn('' @ call_args @ '') : CUDATRACE_CUDART_ERROR_UNKNOWN;'',
         ''    cudatrace_cudart_exit(cudatrace_scope_token, ret);'',
         ''    return ret;'',
         ''}'',
         []])"

definition cudart_lookup_text :: string where
  "cudart_lookup_text = text_lines
     [''void* cudatrace_lookup_generated_cudart_wrapper(const char* symbol) {'',
      ''    if (!symbol) {'',
      ''        return NULL;'',
      ''    }'',
      ''    for (size_t i = 0; i < sizeof(kGeneratedCudartWrappers) / sizeof(kGeneratedCudartWrappers[0]); ++i) {'',
      ''        if (strcmp(symbol, kGeneratedCudartWrappers[i].name) == 0) {'',
      ''            return kGeneratedCudartWrappers[i].fn;'',
      ''        }'',
      ''    }'',
      ''    return NULL;'',
      ''}'']"

definition render_cudart_c_source :: "WrapperPrototype list \<Rightarrow> string" where
  "render_cudart_c_source wrappers =
     cudart_prelude @
     concat (map undef_text wrappers) @ text_lines [[]] @
     concat (map cudart_wrapper_text wrappers) @
     text_lines
       [''typedef struct {'',
        ''    const char* name;'',
        ''    void* fn;'',
        ''} cudatrace_cudart_wrapper_entry_t;'',
        [],
        ''static const cudatrace_cudart_wrapper_entry_t kGeneratedCudartWrappers[] = {''] @
     concat (map entry_text wrappers) @
     text_lines [''};'', []] @
     cudart_lookup_text"

definition render_exports_version_script :: string where
  "render_exports_version_script = text_lines
     [''{'', ''  global:'', ''    cu*;'', ''    cuda*;'', ''    cudatrace*;'', ''    dlsym;'', ''  local:'',
      ''    *;'', ''};'']"

subsection \<open>The build\<close>

record build_env =
  be_var :: "string \<Rightarrow> string option"
  be_is_file :: "string \<Rightarrow> bool"
  be_read :: "string \<Rightarrow> (string + string)"
  be_write :: "string \<Rightarrow> string option"
  be_prototypes :: string

text \<open>A file that cannot be written gives the error it prints. \<open>Path::join\<close> for a relative second part.\<close>

definition path_join :: "string \<Rightarrow> string \<Rightarrow> string" where
  "path_join a b = (if a = [] \<or> last a = CHR ''/'' then a @ b else a @ ''/'' @ b)"

definition resolve_cuda_include :: "build_env \<Rightarrow> string option" where
  "resolve_cuda_include env =
     (let has_header = (\<lambda>p. be_is_file env (path_join p ''cuda.h''));
          default = ''/usr/local/cuda/include'';
          from_default = (if has_header default then Some default else None);
          from_root = (case be_var env ''CUDA_ROOT'' of
              Some path \<Rightarrow> (let p = path_join path ''include'' in if has_header p then Some p else from_default)
            | None \<Rightarrow> from_default)
      in case be_var env ''CUDA_INCLUDE'' of
           Some path \<Rightarrow> if has_header path then Some path else from_root
         | None \<Rightarrow> from_root)"

definition read_optional_file :: "build_env \<Rightarrow> string \<Rightarrow> string option \<times> build_out list" where
  "read_optional_file env path =
     (case be_read env path of
        Inr v \<Rightarrow> (Some v, [])
      | Inl err \<Rightarrow> (None, [Println (''cargo:warning=failed to read '' @ path @ '' ('' @ err @ '')'')]))"

definition GENERATED_NVIDIA_IOCTL_TABLES_FILE :: string where
  "GENERATED_NVIDIA_IOCTL_TABLES_FILE = ''generated_nvidia_ioctl_tables.rs''"

definition nvidia_ioctl_tables_text :: string where
  "nvidia_ioctl_tables_text = text_lines
     [''// @generated by build.rs; do not edit manually.'',
      ''pub const GENERATED_RM_CONTROL_CMD_NAMES: &[(u32, &str)] = &['',
      ''    (0x13eu32, '' @ quoted ''NV0000_CTRL_CMD_SYSTEM_GET_BUILD_VERSION_V2'' @ ''),'',
      ''    (0x20800147u32, '' @ quoted ''NV2080_CTRL_CMD_GPU_GET_ENGINE_PARTNERLIST'' @ ''),'',
      ''    (0x20800601u32, '' @ quoted ''NV2080_CTRL_CMD_I2C_READ_BUFFER'' @ ''),'',
      ''];'',
      ''pub const GENERATED_NV_ESC_CMD_NAMES: &[(u32, &str)] = &[];'',
      ''pub const GENERATED_RM_INTERFACE_NAMES: &[(u32, &str)] = &['',
      ''    (0x208101u32, '' @ quoted ''NV2081_BINAPI'' @ ''),'',
      ''];'']"

definition write_file :: "build_env \<Rightarrow> string \<Rightarrow> string \<Rightarrow> (string + build_out list)" where
  "write_file env path content =
     (case be_write env path of Some err \<Rightarrow> Inl err | None \<Rightarrow> Inr [Wrote path content])"

definition generate_nvidia_ioctl_tables :: "build_env \<Rightarrow> string \<Rightarrow> build_out list" where
  "generate_nvidia_ioctl_tables env out_dir =
     (let output_path = path_join out_dir GENERATED_NVIDIA_IOCTL_TABLES_FILE
      in case write_file env output_path nvidia_ioctl_tables_text of
           Inl err \<Rightarrow> [Println (''cargo:warning=failed to write '' @ output_path @ '' ('' @ err @ '')'')]
         | Inr o1 \<Rightarrow> o1)"

definition generate_driver_wrappers :: "build_env \<Rightarrow> string \<Rightarrow> string \<Rightarrow> bool \<times> build_out list" where
  "generate_driver_wrappers env cuda_include out_dir =
     (let (manual_text, o1) = read_optional_file env DRIVER_MANUAL_HOOKS_FILE
      in case manual_text of
           None \<Rightarrow> (False, o1 @ [Println (''cargo:warning=missing '' @ DRIVER_MANUAL_HOOKS_FILE @
             ''; skipping generated driver wrappers'')])
         | Some manual_text \<Rightarrow>
             (let manual_hooks = parse_manual_hook_names manual_text ''cu'';
                  (wrappers, o2) = parse_missing_prototypes (be_prototypes env) manual_hooks ''cu''
              in if wrappers = [] then
                   (False, o1 @ o2 @ [Println ''cargo:warning=no generated driver wrappers produced''])
                 else
                   let generated_c = path_join out_dir ''driver_generated_wrappers.c'';
                       source = render_driver_c_source wrappers
                   in case write_file env generated_c source of
                       Inl err \<Rightarrow> (False, o1 @ o2 @ [Println (''cargo:warning=failed to write '' @ generated_c @
                         '' ('' @ err @ ''); skipping generated driver wrappers'')])
                     | Inr o3 \<Rightarrow> (True, o1 @ o2 @ o3 @ [Compiled generated_c cuda_include ''cudatrace_driver_generated''])))"

definition generate_cudart_wrappers :: "bool \<times> build_out list" where
  "generate_cudart_wrappers =
     (False, [Println (''cargo:warning=generated runtime wrappers are disabled; using manual cudart hooks only'')])"

definition generate_wrappers :: "build_env \<Rightarrow> string \<Rightarrow> string \<Rightarrow> build_out list" where
  "generate_wrappers env cuda_include out_dir =
     (let (driver, o1) = generate_driver_wrappers env cuda_include out_dir;
          o2 = (if driver then [Println ''cargo:rustc-cfg=has_generated_driver_wrappers''] else []);
          (cudart, o3) = generate_cudart_wrappers;
          o4 = (if cudart then [Println ''cargo:rustc-cfg=has_generated_cudart_wrappers''] else []);
          generated_any = driver \<or> cudart;
          exports_map = path_join out_dir ''cudatrace_exports.map'';
          o5 = (if generated_any then
                  (case write_file env exports_map render_exports_version_script of
                     Inl err \<Rightarrow> [Println (''cargo:warning=failed to write '' @ exports_map @ '' ('' @ err @
                       ''); generated wrappers may not be exported'')]
                   | Inr o5 \<Rightarrow> o5 @ [Println (''cargo:rustc-cdylib-link-arg=-Wl,--version-script='' @ exports_map)])
                else [])
      in o1 @ o2 @ o3 @ o4 @ o5)"

text \<open>\<open>main\<close>. Without \<open>OUT_DIR\<close> it panics.\<close>

definition missing_header :: "string \<Rightarrow> string \<Rightarrow> build_out" where
  "missing_header what path =
     Println (''cargo:warning='' @ what @ '' missing at '' @ path @ ''; skipping generated CUDA wrappers'')"

definition build_directives :: "build_out list" where
  "build_directives =
     [Println ''cargo:rustc-check-cfg=cfg(has_generated_driver_wrappers)'',
      Println ''cargo:rustc-check-cfg=cfg(has_generated_cudart_wrappers)'',
      Println (''cargo:rerun-if-changed='' @ DRIVER_MANUAL_HOOKS_FILE),
      Println (''cargo:rerun-if-changed='' @ CUDART_MANUAL_HOOKS_FILE),
      Println ''cargo:rerun-if-env-changed=CUDA_ROOT'',
      Println ''cargo:rerun-if-env-changed=CUDA_INCLUDE'']"

definition build_main :: "build_env \<Rightarrow> (string + build_out list)" where
  "build_main env =
     (case be_var env ''OUT_DIR'' of
        None \<Rightarrow> Inl ''OUT_DIR is always set by cargo when running build.rs''
      | Some out_dir \<Rightarrow>
          (let out = build_directives @ generate_nvidia_ioctl_tables env out_dir
           in case resolve_cuda_include env of
                None \<Rightarrow> Inr (out @
                  [Println ''cargo:warning=CUDA include path not found; skipping generated CUDA wrappers''])
              | Some cuda_include \<Rightarrow>
                  (let header = path_join cuda_include ''cuda.h'';
                       runtime_header = path_join cuda_include ''cuda_runtime_api.h''
                   in if \<not> be_is_file env header then Inr (out @ [missing_header ''CUDA header'' header])
                      else if \<not> be_is_file env runtime_header then
                        Inr (out @ [missing_header ''CUDA runtime header'' runtime_header])
                      else Inr (out @ generate_wrappers env cuda_include out_dir))))"

end
