(* ===== verification/Build_Facts.thy ===== *)
theory Build_Facts
  imports Build
begin

text \<open>
  What the generator guarantees: whatever the prototypes are, no function is defined twice; well-formed
  prototypes are taken over exactly; and the flags given to the compiler agree with what was built.
\<close>

subsection \<open>No function is defined twice\<close>

lemma move_back_le: "move_back p bytes n \<le> n"
  by (induction n) auto

lemma move_back_all:
  "move_back p bytes n \<le> i \<Longrightarrow> i < n \<Longrightarrow> p (bytes ! i)"
  by (induction n) (auto simp: less_Suc_eq split: if_splits)

definition c_identifier :: "string \<Rightarrow> bool" where
  "c_identifier name \<longleftrightarrow> name \<noteq> [] \<and> list_all is_ident_char name"

lemma extract_param_name_identifier: "extract_param_name param = Some name \<Longrightarrow> c_identifier name"
proof -
  let ?stop = "move_back is_ascii_whitespace param (length param)"
  let ?start = "move_back is_ident_char param ?stop"
  assume "extract_param_name param = Some name"
  then have n: "name = take (?stop - ?start) (drop ?start param)" "?start \<noteq> ?stop"
    by (auto simp: extract_param_name_def Let_def split: if_splits)
  have l: "?start \<le> ?stop" "?stop \<le> length param" by (rule move_back_le)+
  then have "length name = ?stop - ?start" by (simp add: n)
  moreover have "is_ident_char (name ! i)" if "i < length name" for i
    using that l n move_back_all [of is_ident_char param ?stop "?start + i"] by (simp add: n)
  ultimately show ?thesis using n(2) l by (auto simp: c_identifier_def list_all_length)
qed

lemma param_names_identifiers: "param_names ps = Inr names \<Longrightarrow> list_all c_identifier names"
proof (induction ps arbitrary: names)
  case (Cons raw rest)
  then show ?case
    by (cases "param_names rest")
      (auto simp: Let_def extract_param_name_identifier split: if_splits option.splits)
qed simp

definition sound_wrapper :: "string set \<Rightarrow> string \<Rightarrow> WrapperPrototype \<Rightarrow> bool" where
  "sound_wrapper manual_hooks symbol_prefix w \<longleftrightarrow>
     starts_with (wp_name w) symbol_prefix \<and> wp_name w \<notin> manual_hooks \<and> wp_decl_prefix w \<noteq> [] \<and>
     list_all c_identifier (wp_arg_names w)"

definition sound_prototypes :: "string set \<Rightarrow> string \<Rightarrow> prototypes \<Rightarrow> bool" where
  "sound_prototypes manual_hooks symbol_prefix st \<longleftrightarrow>
     distinct (map wp_name (pr_wrappers st)) \<and> wp_name ` set (pr_wrappers st) \<subseteq> pr_seen st \<and>
     list_all (sound_wrapper manual_hooks symbol_prefix) (pr_wrappers st)"

lemma parse_param_names_identifiers: "parse_param_names params = Inr names \<Longrightarrow> list_all c_identifier names"
  by (auto simp: parse_param_names_def param_names_identifiers split: if_splits)

lemma prototype_line_sound:
  "sound_prototypes manual_hooks symbol_prefix st \<Longrightarrow>
   sound_prototypes manual_hooks symbol_prefix (prototype_line manual_hooks symbol_prefix raw st)"
  by (auto simp: prototype_line_def sound_prototypes_def sound_wrapper_def Let_def parse_param_names_identifiers
      split: option.split sum.split)

lemma prototypes_sound:
  "sound_prototypes manual_hooks symbol_prefix st \<Longrightarrow>
   sound_prototypes manual_hooks symbol_prefix (fold (prototype_line manual_hooks symbol_prefix) ls st)"
  by (induction ls arbitrary: st) (auto intro: prototype_line_sound)

text \<open>What the parser gives, whatever the text is: functions in strictly increasing order of their names,
  none of which is hooked by hand, and warnings.\<close>

lemma parsed_sound:
  "(let ws = fst (parse_missing_prototypes txt manual_hooks symbol_prefix)
    in sorted_wrt (<) (map wp_name ws) \<and> list_all (sound_wrapper manual_hooks symbol_prefix) ws)"
proof -
  let ?st = "fold (prototype_line manual_hooks symbol_prefix) (lines txt) \<lparr>pr_wrappers = [], pr_seen = {}, pr_out = []\<rparr>"
  have "sound_prototypes manual_hooks symbol_prefix ?st"
    by (rule prototypes_sound) (simp add: sound_prototypes_def)
  then show ?thesis
    by (simp add: parse_missing_prototypes_def Let_def sound_prototypes_def strict_sorted_iff list_all_iff
        distinct_map)
qed

definition warning :: "build_out \<Rightarrow> bool" where
  "warning x \<longleftrightarrow> (\<exists>t. x = Println (''cargo:warning='' @ t))"

lemma warning_Println [simp]: "warning (Println (''cargo:warning='' @ t))"
  by (auto simp: warning_def)

lemma not_warning [simp]:
  "\<not> warning (Wrote p t)" "\<not> warning (Compiled a b c)" "\<not> warning (Println (''cargo:rustc-cfg='' @ t))"
  by (auto simp: warning_def)

lemma prototype_line_warns:
  "list_all warning (pr_out st) \<Longrightarrow> list_all warning (pr_out (prototype_line manual_hooks symbol_prefix raw st))"
  using warning_Println [of "''skip generated wrapper for '' @ t" for t]
  by (auto simp: prototype_line_def Let_def split: option.split sum.split)

lemma parsed_warns: "list_all warning (snd (parse_missing_prototypes txt manual_hooks symbol_prefix))"
proof -
  have "list_all warning (pr_out st) \<Longrightarrow>
    list_all warning (pr_out (fold (prototype_line manual_hooks symbol_prefix) ls st))" for ls st
    by (induction ls arbitrary: st) (auto intro: prototype_line_warns)
  then show ?thesis by (simp add: parse_missing_prototypes_def Let_def)
qed

text \<open>What the generation of the driver's hooks does: either it fails, with warnings only, or it has written
  and compiled the C source of sound functions.\<close>

lemma driver_wrappers_generated:
  assumes "generate_driver_wrappers env inc out_dir = (ok, out)"
  shows "if ok then \<exists>ws c ows manual_text. out = ows @ [Wrote c (render_driver_c_source ws),
        Compiled c inc ''cudatrace_driver_generated''] \<and> list_all warning ows \<and> ws \<noteq> [] \<and>
        be_read env DRIVER_MANUAL_HOOKS_FILE = Inr manual_text \<and> sorted_wrt (<) (map wp_name ws) \<and>
        list_all (sound_wrapper (parse_manual_hook_names manual_text ''cu'') ''cu'') ws
      else list_all warning out"
proof (cases "be_read env DRIVER_MANUAL_HOOKS_FILE")
  case (Inl err)
  then show ?thesis
    using assms by (auto simp: generate_driver_wrappers_def read_optional_file_def warning_def)
next
  case (Inr manual_text)
  obtain ws ows where p: "parse_missing_prototypes (be_prototypes env) (parse_manual_hook_names manual_text ''cu'') ''cu'' = (ws, ows)"
    by (cases "parse_missing_prototypes (be_prototypes env) (parse_manual_hook_names manual_text ''cu'') ''cu''")
  have ws: "sorted_wrt (<) (map wp_name ws)" "list_all (sound_wrapper (parse_manual_hook_names manual_text ''cu'') ''cu'') ws"
    using parsed_sound [of "be_prototypes env" "parse_manual_hook_names manual_text ''cu''" "''cu''"] p
    by (simp_all add: Let_def)
  have ows: "list_all warning ows"
    using parsed_warns [of "be_prototypes env" "parse_manual_hook_names manual_text ''cu''" "''cu''"] p by simp
  show ?thesis
    using assms Inr ws ows
    by (auto simp: generate_driver_wrappers_def read_optional_file_def p write_file_def Let_def warning_def
        split: if_splits option.splits)
qed

text \<open>What has no part in linking the generated functions.\<close>

definition neutral :: "build_out \<Rightarrow> bool" where
  "neutral x \<longleftrightarrow> (\<forall>c i l. x \<noteq> Compiled c i l) \<and> (\<forall>t. x \<noteq> Println (''cargo:rustc-cfg='' @ t))"

lemma warning_neutral: "warning x \<Longrightarrow> neutral x"
  by (auto simp: warning_def neutral_def)

lemma neutral_simps [simp]: "neutral (Wrote p t)"
  by (auto simp: neutral_def)

definition generated_part :: "build_env \<Rightarrow> build_out list \<Rightarrow> bool" where
  "generated_part env out \<longleftrightarrow> (\<exists>pre post c inc ws manual_text.
     out = pre @ [Wrote c (render_driver_c_source ws), Compiled c inc ''cudatrace_driver_generated'',
       Println ''cargo:rustc-cfg=has_generated_driver_wrappers''] @ post \<and>
     list_all neutral pre \<and> list_all neutral post \<and> ws \<noteq> [] \<and>
     be_read env DRIVER_MANUAL_HOOKS_FILE = Inr manual_text \<and> sorted_wrt (<) (map wp_name ws) \<and>
     list_all (sound_wrapper (parse_manual_hook_names manual_text ''cu'') ''cu'') ws)"

lemma generated_part_append:
  "list_all neutral pre \<Longrightarrow> generated_part env out \<Longrightarrow> generated_part env (pre @ out)"
proof -
  assume pre: "list_all neutral pre" and "generated_part env out"
  then obtain p post c inc ws mt where g: "list_all neutral p" "list_all neutral post"
      "out = p @ [Wrote c (render_driver_c_source ws), Compiled c inc ''cudatrace_driver_generated'',
         Println ''cargo:rustc-cfg=has_generated_driver_wrappers''] @ post"
      "ws \<noteq> []" "be_read env DRIVER_MANUAL_HOOKS_FILE = Inr mt" "sorted_wrt (<) (map wp_name ws)"
      "list_all (sound_wrapper (parse_manual_hook_names mt ''cu'') ''cu'') ws"
    unfolding generated_part_def by blast
  show "generated_part env (pre @ out)"
    unfolding generated_part_def
    by (rule exI [of _ "pre @ p"], rule exI [of _ post], rule exI [of _ c], rule exI [of _ inc],
        rule exI [of _ ws], rule exI [of _ mt]) (use pre g in simp)
qed

lemma wrappers_parts:
  "list_all neutral (generate_wrappers env inc out_dir) \<or> generated_part env (generate_wrappers env inc out_dir)"
proof -
  obtain ok out where d: "generate_driver_wrappers env inc out_dir = (ok, out)"
    by (cases "generate_driver_wrappers env inc out_dir")
  have "\<exists>post. generate_wrappers env inc out_dir = out @
      (if ok then [Println ''cargo:rustc-cfg=has_generated_driver_wrappers''] else []) @ post \<and> list_all neutral post"
    by (auto simp: generate_wrappers_def d generate_cudart_wrappers_def write_file_def Let_def neutral_def
        split: option.splits)
  then obtain post where post: "generate_wrappers env inc out_dir = out @
      (if ok then [Println ''cargo:rustc-cfg=has_generated_driver_wrappers''] else []) @ post" "list_all neutral post"
    by blast
  note g = driver_wrappers_generated [OF d]
  show ?thesis
  proof (cases ok)
    case True
    with g post show ?thesis
      unfolding generated_part_def by (fastforce intro: warning_neutral simp: list_all_iff)
  next
    case False
    with g post show ?thesis by (auto simp: list_all_iff intro: warning_neutral)
  qed
qed

lemma build_parts:
  assumes "build_main env = Inr out"
  shows "list_all neutral out \<or> generated_part env out"
proof -
  have t: "list_all neutral (generate_nvidia_ioctl_tables env out_dir)" for out_dir
    by (auto simp: generate_nvidia_ioctl_tables_def write_file_def Let_def neutral_def split: option.split)
  have d: "list_all neutral build_directives"
    by (simp add: build_directives_def neutral_def DRIVER_MANUAL_HOOKS_FILE_def CUDART_MANUAL_HOOKS_FILE_def)
  have h: "neutral (missing_header what path)" for what path
    by (simp add: missing_header_def neutral_def)
  obtain out_dir where o: "be_var env ''OUT_DIR'' = Some out_dir"
    using assms by (cases "be_var env ''OUT_DIR''") (simp_all add: build_main_def)
  let ?pre = "build_directives @ generate_nvidia_ioctl_tables env out_dir"
  obtain x where x: "out = ?pre @ x" "list_all neutral x \<or> (\<exists>inc. x = generate_wrappers env inc out_dir)"
  proof (cases "resolve_cuda_include env")
    case None
    then show ?thesis
      using that [of "[Println ''cargo:warning=CUDA include path not found; skipping generated CUDA wrappers'']"]
        assms o by (simp add: build_main_def neutral_def)
  next
    case (Some inc)
    then show ?thesis
      using that [of "[missing_header ''CUDA header'' (path_join inc ''cuda.h'')]"]
        that [of "[missing_header ''CUDA runtime header'' (path_join inc ''cuda_runtime_api.h'')]"]
        that [of "generate_wrappers env inc out_dir"] assms o h
      by (simp add: build_main_def Let_def split: if_splits) blast
  qed
  then have "list_all neutral x \<or> generated_part env x"
    using wrappers_parts [of env] by blast
  with x(1) t [of out_dir] d show ?thesis
    using generated_part_append [of ?pre env x] by auto
qed

text \<open>C18. Whatever the prototypes and the environment are, a build that succeeds is consistent. The flag
  that makes the library refer to the generated functions is set exactly if their C source was
  compiled. That source is the one that was written, for functions in strictly increasing order of
  their names, so that none is defined twice, none of which is hooked by hand; each has a result
  type, a name with the driver's prefix, and arguments that are identifiers. No functions are
  generated for the runtime.\<close>

theorem build_consistent:
  assumes "build_main env = Inr out"
  shows "(Println ''cargo:rustc-cfg=has_generated_driver_wrappers'' \<in> set out \<longleftrightarrow>
      (\<exists>c inc lib. Compiled c inc lib \<in> set out)) \<and>
    (\<forall>c inc lib. Compiled c inc lib \<in> set out \<longrightarrow> (\<exists>manual_text ws.
      be_read env DRIVER_MANUAL_HOOKS_FILE = Inr manual_text \<and>
      Wrote c (render_driver_c_source ws) \<in> set out \<and> ws \<noteq> [] \<and> sorted_wrt (<) (map wp_name ws) \<and>
      list_all (sound_wrapper (parse_manual_hook_names manual_text ''cu'') ''cu'') ws)) \<and>
    Println ''cargo:rustc-cfg=has_generated_cudart_wrappers'' \<notin> set out"
proof -
  have r: "list_all neutral out \<or> generated_part env out" by (rule build_parts [OF assms])
  have n: "list_all neutral xs \<Longrightarrow> Compiled c i l \<notin> set xs \<and> Println (''cargo:rustc-cfg='' @ t) \<notin> set xs" for xs c i l t
    by (auto simp: list_all_iff neutral_def)
  from r show ?thesis
  proof
    assume "list_all neutral out"
    from n [OF this] show ?thesis using n [OF \<open>list_all neutral out\<close>, of _ _ _ "''has_generated_driver_wrappers''"]
        n [OF \<open>list_all neutral out\<close>, of _ _ _ "''has_generated_cudart_wrappers''"] by auto
  next
    assume "generated_part env out"
    then obtain pre post c inc ws manual_text where g: "list_all neutral pre" "list_all neutral post"
      "out = pre @ [Wrote c (render_driver_c_source ws), Compiled c inc ''cudatrace_driver_generated'',
         Println ''cargo:rustc-cfg=has_generated_driver_wrappers''] @ post"
      "ws \<noteq> []" "be_read env DRIVER_MANUAL_HOOKS_FILE = Inr manual_text" "sorted_wrt (<) (map wp_name ws)"
      "list_all (sound_wrapper (parse_manual_hook_names manual_text ''cu'') ''cu'') ws"
      unfolding generated_part_def by blast
    show ?thesis
      using n [OF g(1)] n [OF g(2)] n [OF g(1), of _ _ _ "''has_generated_cudart_wrappers''"]
        n [OF g(2), of _ _ _ "''has_generated_cudart_wrappers''"] g(4-7)
      unfolding g(3) by auto
  qed
qed

subsection \<open>Well-formed prototypes\<close>

text \<open>A parameter: the words of its type, the stars before its name, its name, and in the headers of
  the runtime a default value. The text of a prototype as the embedded specification has it, with
  blanks inside the parentheses.\<close>

record cparam =
  cp_type :: "string list"
  cp_stars :: nat
  cp_name :: string
  cp_default :: "string option"

record prototype =
  pt_decl :: "string list"
  pt_name :: string
  pt_params :: "cparam list"
  pt_before :: nat
  pt_after :: nat

definition param_text :: "cparam \<Rightarrow> string" where
  "param_text p = join '' '' (cp_type p @ [replicate (cp_stars p) CHR ''*'' @ cp_name p])"

definition written_param :: "cparam \<Rightarrow> string" where
  "written_param p = param_text p @ (case cp_default p of None \<Rightarrow> [] | Some d \<Rightarrow> '' __dv('' @ d @ '')'')"

definition params_text :: "cparam list \<Rightarrow> string" where
  "params_text ps = (if ps = [] then ''void'' else join '', '' (map written_param ps))"

definition proto_text :: "prototype \<Rightarrow> string" where
  "proto_text pt = join '' '' (pt_decl pt @ [pt_name pt]) @ ''('' @ replicate (pt_before pt) CHR '' '' @
     params_text (pt_params pt) @ replicate (pt_after pt) CHR '' '' @ '');''"

definition wrapper_of :: "prototype \<Rightarrow> WrapperPrototype" where
  "wrapper_of pt = \<lparr>wp_decl_prefix = join '' '' (pt_decl pt), wp_name = pt_name pt,
     wp_params = join '', '' (map param_text (pt_params pt)), wp_arg_names = map cp_name (pt_params pt)\<rparr>"

definition plain_char :: "char \<Rightarrow> bool" where
  "plain_char c \<longleftrightarrow> 32 < ord c \<and> ord c < 127 \<and> c \<notin> set ''(),=;''"

definition plain_word :: "string \<Rightarrow> bool" where
  "plain_word w \<longleftrightarrow> w \<noteq> [] \<and> list_all plain_char w"

definition param_ok :: "cparam \<Rightarrow> bool" where
  "param_ok p \<longleftrightarrow> cp_type p \<noteq> [] \<and> list_all plain_word (cp_type p) \<and> c_identifier (cp_name p) \<and>
     (case cp_default p of None \<Rightarrow> True | Some d \<Rightarrow> list_all (\<lambda>c. plain_char c \<or> c \<in> set '' =;'') d)"

definition proto_ok :: "string \<Rightarrow> prototype \<Rightarrow> bool" where
  "proto_ok symbol_prefix pt \<longleftrightarrow> pt_decl pt \<noteq> [] \<and> list_all plain_word (pt_decl pt) \<and>
     c_identifier (pt_name pt) \<and> starts_with (pt_name pt) symbol_prefix \<and> list_all param_ok (pt_params pt)"

lemma plain_char_facts:
  "plain_char c \<Longrightarrow> ord c < 128" "plain_char c \<Longrightarrow> \<not> is_white [c]"
  "plain_char c \<Longrightarrow> c \<noteq> CHR ''('' \<and> c \<noteq> CHR '')'' \<and> c \<noteq> CHR '','' \<and> c \<noteq> CHR ''='' \<and> c \<noteq> CHR '';'' \<and>
     c \<noteq> newline \<and> c \<noteq> creturn \<and> c \<noteq> CHR '' ''"
  by (auto simp: plain_char_def is_white_def Let_def)

lemma ident_char_plain: "is_ident_char c \<Longrightarrow> plain_char c \<and> c \<noteq> CHR ''*''"
  by (auto simp: is_ident_char_def plain_char_def)

lemma plain_stars: "plain_char CHR ''*''"
  by (simp add: plain_char_def)

lemma identifier_word: "c_identifier name \<Longrightarrow> plain_word (replicate n CHR ''*'' @ name)"
  using ident_char_plain plain_stars by (auto simp: c_identifier_def plain_word_def list_all_iff)

text \<open>Words with single blanks between them.\<close>

definition phrase :: "string list \<Rightarrow> bool" where
  "phrase ws \<longleftrightarrow> ws \<noteq> [] \<and> list_all plain_word ws"

lemma plain_word_ascii: "plain_word w \<Longrightarrow> ascii w"
  by (auto simp: plain_word_def ascii_def list_all_iff plain_char_facts)

lemma phrase_chars:
  "list_all plain_word ws \<Longrightarrow> c \<in> set (join '' '' ws) \<Longrightarrow> plain_char c \<or> c = CHR '' ''"
  by (induction "'' ''" ws rule: join.induct) (auto simp: plain_word_def list_all_iff)

lemma phrase_ascii: "list_all plain_word ws \<Longrightarrow> ascii (join '' '' ws)"
  using phrase_chars [of ws] by (fastforce simp: ascii_def list_all_iff plain_char_facts)

lemma join_snoc_blank: "ws \<noteq> [] \<Longrightarrow> join sep (ws @ [w]) = join sep ws @ sep @ w"
  by (induction sep ws rule: join.induct) auto

lemma phrase_ends:
  assumes "phrase ws"
  shows "join '' '' ws \<noteq> []" "plain_char (hd (join '' '' ws))" "plain_char (last (join '' '' ws))"
proof -
  have w: "plain_word w \<Longrightarrow> w \<noteq> [] \<and> plain_char (hd w) \<and> plain_char (last w)" for w
    by (auto simp: plain_word_def list_all_iff)
  obtain v vs where v: "ws = v # vs" using assms by (cases ws) (auto simp: phrase_def)
  with assms w [of v] show "join '' '' ws \<noteq> []" "plain_char (hd (join '' '' ws))"
    by (cases vs; auto simp: phrase_def)+
  obtain us u where u: "ws = us @ [u]" using assms by (cases ws rule: rev_cases) (auto simp: phrase_def)
  with assms w [of u] show "plain_char (last (join '' '' ws))"
    using join_snoc_blank [of us "'' ''" u] by (cases "us = []") (auto simp: phrase_def)
qed

lemma ascii_blanks [simp]: "ascii (replicate n CHR '' '')"
  by (induction n) simp_all

lemma trim_blanks:
  assumes "ascii t" "t \<noteq> []" "\<not> is_white [hd t]" "\<not> is_white [last t]"
  shows "trim (replicate m CHR '' '' @ t @ replicate n CHR '' '') = t"
proof -
  let ?c = "\<lambda>s. map (\<lambda>c. [c]) s"
  have w: "is_white [CHR '' '']" by (simp add: is_white_def Let_def)
  have "rust_chars (replicate m CHR '' '' @ t @ replicate n CHR '' '') =
      ?c (replicate m CHR '' '') @ ?c t @ ?c (replicate n CHR '' '')"
    using assms(1) by (simp add: rust_chars_ascii)
  moreover have "dropWhile is_white (?c (replicate k CHR '' '') @ cs) = dropWhile is_white cs" for k cs
    using w by (induction k) simp_all
  moreover have "dropWhile is_white (?c t @ cs) = ?c t @ cs" for cs
    using assms(2,3) by (cases t) simp_all
  moreover have "dropWhile is_white (rev (?c t)) = rev (?c t)"
    using assms(2,4) by (cases t rule: rev_cases) simp_all
  ultimately show ?thesis by (simp add: trim_def trim_end_chars_def rev_map)
qed

lemma split_white_word:
  "list_all (\<lambda>c. \<not> is_white [c]) a \<Longrightarrow> split_white (map (\<lambda>c. [c]) a) acc = (if acc @ a = [] then [] else [acc @ a])"
  by (induction a arbitrary: acc) auto

lemma split_phrase: "list_all plain_word ws \<Longrightarrow> split_whitespace (join '' '' ws) = ws"
proof (induction "'' ''" ws rule: join.induct)
  case (2 w)
  then show ?case
    using split_white_word [of w "[]"] rust_chars_ascii_append [of w "[]"] plain_word_ascii [of w]
    by (auto simp: split_whitespace_def plain_word_def list_all_iff plain_char_facts)
next
  case (3 w v vs)
  then have "list_all (\<lambda>c. \<not> is_white [c]) w" "w \<noteq> []" "ascii w"
    using plain_word_ascii by (auto simp: plain_word_def list_all_iff plain_char_facts)
  with 3 show ?case
    using split_white_token [of w "[]"] by (simp add: split_whitespace_def rust_chars_ascii_append)
qed (simp add: split_whitespace_def)

lemma split_commas:
  assumes "list_all (\<lambda>x. CHR '','' \<notin> set x) (x # xs)"
  shows "split_on (\<lambda>c. c = CHR '','') (join '', '' (x # xs)) = x # map ((#) CHR '' '') xs"
  using assms
proof (induction xs arbitrary: x)
  case Nil
  then show ?case by (induction x) auto
next
  case (Cons y ys)
  have one: "split_on (\<lambda>c. c = CHR '','') (x @ CHR '','' # s) = x # split_on (\<lambda>c. c = CHR '','') s" for s
    using Cons.prems by (induction x) auto
  have two: "split_on (\<lambda>c. c = CHR '','') (CHR '' '' # s) =
      (case split_on (\<lambda>c. c = CHR '','') s of t # ts \<Rightarrow> (CHR '' '' # t) # ts)" for s
    by (cases "split_on (\<lambda>c. c = CHR '','') s") auto
  show ?case
    using Cons.IH [of y] Cons.prems one [of "CHR '' '' # join '', '' (y # ys)"] two [of "join '', '' (y # ys)"]
    by (simp del: split_on.simps)
qed


subsubsection \<open>The parameters\<close>

lemma find_char_at: "c \<notin> set a \<Longrightarrow> find_char c (a @ c # b) = Some (length a)"
proof -
  assume c: "c \<notin> set a"
  then have "takeWhile (\<lambda>x. x \<noteq> c) (a @ c # b) = a" by (induction a) auto
  then show ?thesis by (simp add: find_char_def)
qed

lemma find_char_none: "c \<notin> set a \<Longrightarrow> find_char c a = None"
  by (simp add: find_char_def)

lemma rfind_char_at: "c \<notin> set b \<Longrightarrow> rfind_char c (a @ c # b) = Some (length a)"
  using find_char_at [of c "rev b" "rev a"] by (simp add: rfind_char_def)

lemma rfind_str_short: "length s < length p \<Longrightarrow> rfind_str p s = None"
  by (induction s) (auto simp: starts_with_def dest: arg_cong [where f = length])

lemma rfind_str_last: "p \<noteq> [] \<Longrightarrow> rfind_str p (a @ p) = Some (length a)"
proof (induction a)
  case Nil
  then show ?case
    using rfind_str_short [of "tl p" p] by (cases p) (auto simp: starts_with_def)
qed simp

lemma find_str_none: "c \<in> set p \<Longrightarrow> c \<notin> set s \<Longrightarrow> find_str p s = None"
proof (induction s)
  case (Cons a s)
  have "\<not> starts_with (a # s) p"
  proof
    assume "starts_with (a # s) p"
    then have "set p \<subseteq> set (a # s)" by (metis Un_upper1 set_append starts_with_prefix)
    with Cons.prems show False by blast
  qed
  with Cons show ?case by simp
qed auto

lemma find_str_at:
  assumes "c \<notin> set q" "c \<notin> set a"
  shows "find_str (q @ [c]) (a @ q @ c # b) = Some (length a)"
  using assms(2)
proof (induction a)
  case Nil
  then show ?case by (cases q) (simp_all add: starts_with_def)
next
  case (Cons x a)
  have tw: "takeWhile (\<lambda>y. y \<noteq> c) (w @ c # t) = w" if "c \<notin> set w" for w t
    using that by (induction w) auto
  have "\<not> starts_with (x # a @ q @ c # b) (q @ [c])"
  proof
    assume "starts_with (x # a @ q @ c # b) (q @ [c])"
    then obtain t where "(x # a @ q) @ c # b = q @ c # t" by (auto simp: starts_with_prefix)
    then have "x # a @ q = q"
      using tw [of q t] tw [of "x # a @ q" b] assms(1) Cons.prems by auto
    then show False by (auto dest: arg_cong [where f = length])
  qed
  with Cons show ?case by simp
qed

lemma scan_parens_plain:
  "CHR ''('' \<notin> set d \<Longrightarrow> CHR '')'' \<notin> set d \<Longrightarrow> scan_parens (d @ CHR '')'' # b) 1 i = (0, i + length d)"
  by (induction d arbitrary: i) (auto simp: Let_def)

lemma phrase_no:
  assumes "list_all plain_word ws" "c \<in> set ''(),=;'' \<or> c = newline"
  shows "c \<notin> set (join '' '' ws)"
  using phrase_chars [OF assms(1), of c] assms(2) by (auto simp: plain_char_def)

lemma remove_macro_none: "CHR ''('' \<notin> set s \<Longrightarrow> remove_macro_loop ''__dv('' s = s"
  using find_str_none [of "CHR ''(''" "''__dv(''" s] by (simp add: remove_macro_loop.simps)

definition param_words :: "cparam \<Rightarrow> string list" where
  "param_words p = cp_type p @ [replicate (cp_stars p) CHR ''*'' @ cp_name p]"

lemma param_text_words: "param_text p = join '' '' (param_words p)"
  by (simp add: param_text_def param_words_def)

lemma param_words_ok: "param_ok p \<Longrightarrow> list_all plain_word (param_words p) \<and> phrase (param_words p)"
  by (simp add: param_ok_def param_words_def phrase_def identifier_word)

lemma no_void: "param_ok p \<Longrightarrow> param_text p \<noteq> ''void''"
proof -
  assume "param_ok p"
  then have "CHR '' '' \<in> set (param_text p)"
    by (simp add: param_text_def param_ok_def join_snoc_blank)
  then show ?thesis by auto
qed

lemma collapse_phrase: "list_all plain_word ws \<Longrightarrow> collapse_spaces (join '' '' ws) = join '' '' ws"
  by (simp add: collapse_spaces_def split_phrase)

lemma phrase_trim:
  assumes "phrase ws"
  shows "trim (join '' '' ws) = join '' '' ws" "trim (CHR '' '' # join '' '' ws) = join '' '' ws"
    "trim (join '' '' ws @ '' '') = join '' '' ws"
  using trim_clean [of "join '' '' ws"] phrase_ends [OF assms] phrase_ascii [of ws] assms
  by (simp_all add: phrase_def plain_char_facts)


lemma written_param_ends:
  assumes "param_ok p"
  shows "ascii (written_param p)" "written_param p \<noteq> []" "\<not> is_white [hd (written_param p)]"
    "\<not> is_white [last (written_param p)]"
proof -
  note w = param_words_ok [OF assms]
  note e = phrase_ends [of "param_words p", folded param_text_words]
  have r: "\<not> is_white [CHR '')'']" by (simp add: is_white_def Let_def)
  show "ascii (written_param p)"
    using phrase_ascii [of "param_words p"] w assms
    by (auto simp: written_param_def param_text_words param_ok_def ascii_def list_all_iff plain_char_facts
        split: option.splits)
  show "written_param p \<noteq> []" "\<not> is_white [hd (written_param p)]" "\<not> is_white [last (written_param p)]"
    using e w r by (auto simp: written_param_def plain_char_facts split: option.splits)
qed

lemma remove_default:
  assumes "param_ok p"
  shows "collapse_spaces (remove_macro_invocation (written_param p) ''__dv'') = param_text p \<and>
    CHR ''='' \<notin> set (remove_macro_invocation (written_param p) ''__dv'')"
proof -
  note w = param_words_ok [OF assms]
  have no: "c \<notin> set (param_text p)" if "c \<in> set ''(),=;''" for c
    using phrase_no [OF conjunct1 [OF w] disjI1 [OF that]] by (simp add: param_text_words)
  have c: "collapse_spaces (param_text p) = param_text p" "collapse_spaces (param_text p @ '' '') = param_text p"
  proof -
    show "collapse_spaces (param_text p) = param_text p"
      using collapse_phrase [of "param_words p"] w by (simp add: param_text_words)
    have "split_white (map (\<lambda>c. [c]) s @ [[CHR '' '']]) acc = split_white (map (\<lambda>c. [c]) s) acc" for s acc
      by (induction s arbitrary: acc) (auto simp: is_white_def)
    then have "split_whitespace (param_text p @ '' '') = split_whitespace (param_text p)"
      using rust_chars_ascii_append [of "param_text p"] phrase_ascii [of "param_words p"] w
      by (auto simp: split_whitespace_def param_text_words rust_chars_ascii_append [of _ "[]", simplified])
    with \<open>collapse_spaces (param_text p) = param_text p\<close>
    show "collapse_spaces (param_text p @ '' '') = param_text p" by (simp add: collapse_spaces_def)
  qed
  show ?thesis
  proof (cases "cp_default p")
    case None
    then show ?thesis
      using c no by (simp add: written_param_def remove_macro_invocation_def remove_macro_none)
  next
    case (Some d)
    let ?s = "(param_text p @ '' '') @ ''__dv'' @ CHR ''('' # d @ '')''"
    have d: "CHR ''('' \<notin> set d" "CHR '')'' \<notin> set d"
      using assms Some by (auto simp: param_ok_def list_all_iff plain_char_def)
    have f: "find_str ''__dv('' ?s = Some (length (param_text p) + 1)"
      using find_str_at [of "CHR ''(''" "''__dv''" "param_text p @ '' ''" "d @ '')''"] no by simp
    have "scan_parens (d @ '')'') (Suc 0) i = (0, i + length d)" for i
      using scan_parens_plain [OF d, of "[]"] by simp
    then have "remove_macro_loop ''__dv('' ?s = remove_macro_loop ''__dv('' (param_text p @ '' '')"
      using f by (subst remove_macro_loop.simps) simp
    also have "\<dots> = param_text p @ '' ''" using no by (intro remove_macro_none) simp
    finally show ?thesis
      using Some c no by (simp add: written_param_def remove_macro_invocation_def)
  qed
qed

lemma sanitize_written:
  assumes "param_ok p" "raw = written_param p \<or> raw = CHR '' '' # written_param p"
  shows "sanitize_param raw = Some (param_text p)"
proof -
  note e = written_param_ends [OF assms(1)]
  have t: "trim raw = written_param p" using trim_clean(1,2) [OF e] assms(2) by auto
  have p: "param_text p \<noteq> []"
    using phrase_ends(1) [of "param_words p"] param_words_ok [OF assms(1)] by (simp add: param_text_words)
  have v: "written_param p \<noteq> ''void''"
  proof -
    have "CHR '' '' \<in> set (param_text p)"
      using assms(1) by (simp add: param_text_def param_ok_def join_snoc_blank)
    then have "CHR '' '' \<in> set (written_param p)" by (simp add: written_param_def)
    then show ?thesis by (intro notI) simp
  qed
  show ?thesis
    using remove_default [OF assms(1)] no_void [OF assms(1)] e(2) v p
    by (simp add: sanitize_param_def t find_char_none Let_def)
qed


lemma move_back_stop:
  "i \<le> n \<Longrightarrow> (\<And>j. i \<le> j \<Longrightarrow> j < n \<Longrightarrow> p (bytes ! j)) \<Longrightarrow> (0 < i \<Longrightarrow> \<not> p (bytes ! (i - 1))) \<Longrightarrow>
   move_back p bytes n = i"
proof (induction n)
  case (Suc n)
  show ?case
  proof (cases "i = Suc n")
    case False
    then show ?thesis using Suc by simp
  qed (use Suc.prems(3) in simp)
qed simp

lemma extract_name:
  assumes "c_identifier name" "t \<noteq> []" "\<not> is_ident_char (last t)"
  shows "extract_param_name (t @ name) = Some name"
proof -
  have n: "name \<noteq> []" "\<And>i. i < length name \<Longrightarrow> is_ident_char (name ! i)"
    using assms(1) by (auto simp: c_identifier_def list_all_length)
  have w: "\<not> is_ascii_whitespace (last name)"
    using n(2) [of "length name - 1"] n(1)
    by (auto simp: last_conv_nth is_ident_char_def is_ascii_whitespace_def)
  have "move_back is_ascii_whitespace (t @ name) (length (t @ name)) = length (t @ name)"
    using w n(1) last_conv_nth [of "t @ name"] by (intro move_back_stop) auto
  moreover have "move_back is_ident_char (t @ name) (length (t @ name)) = length t"
    using assms(2,3) n(2) by (intro move_back_stop) (auto simp: nth_append last_conv_nth)
  ultimately show ?thesis using n(1) by (simp add: extract_param_name_def)
qed

lemma param_name:
  assumes "param_ok p" "raw = param_text p \<or> raw = CHR '' '' # param_text p"
  shows "trim raw = param_text p" "param_text p \<noteq> []" "extract_param_name (param_text p) = Some (cp_name p)"
proof -
  note w = param_words_ok [OF assms(1)]
  show "trim raw = param_text p"
    using assms(2) phrase_trim(1,2) [OF conjunct2 [OF w]] by (auto simp: param_text_words)
  show "param_text p \<noteq> []"
    using phrase_ends(1) [OF conjunct2 [OF w]] by (simp add: param_text_words)
  let ?t = "(join '' '' (cp_type p) @ '' '') @ replicate (cp_stars p) CHR ''*''"
  have "\<not> is_ident_char (last ?t)"
    by (cases "cp_stars p") (simp_all add: is_ident_char_def del: replicate_Suc add: replicate_append_same [symmetric])
  then show "extract_param_name (param_text p) = Some (cp_name p)"
    using extract_name [of "cp_name p" ?t] assms(1) by (simp add: param_ok_def param_text_def join_snoc_blank)
qed

lemma no_comma:
  assumes "param_ok p"
  shows "CHR '','' \<notin> set (written_param p)" "CHR '','' \<notin> set (param_text p)"
proof -
  show t: "CHR '','' \<notin> set (param_text p)"
    using phrase_no [of "param_words p" "CHR '',''"] param_words_ok [OF assms] by (simp add: param_text_words)
  show "CHR '','' \<notin> set (written_param p)"
    using t assms by (auto simp: written_param_def param_ok_def list_all_iff plain_char_def split: option.splits)
qed

lemma split_joined:
  assumes "list_all (\<lambda>x. CHR '','' \<notin> set x) xs" "xs \<noteq> []"
  shows "split_on (\<lambda>c. c = CHR '','') (join '', '' xs) = hd xs # map ((#) CHR '' '') (tl xs)"
  using split_commas [of "hd xs" "tl xs"] assms by (cases xs) simp_all

lemma join_ends:
  assumes "xs \<noteq> []" "\<And>x. x \<in> set xs \<Longrightarrow> ascii x \<and> x \<noteq> [] \<and> \<not> is_white [hd x] \<and> \<not> is_white [last x]"
  shows "ascii (join '', '' xs) \<and> join '', '' xs \<noteq> [] \<and> \<not> is_white [hd (join '', '' xs)] \<and>
    \<not> is_white [last (join '', '' xs)]"
  using assms
proof (induction "'', ''" xs rule: join.induct)
  case (3 x y xs)
  then have "ascii (join '', '' (y # xs)) \<and> join '', '' (y # xs) \<noteq> [] \<and> \<not> is_white [last (join '', '' (y # xs))]"
    by simp
  with 3(3) [of x] show ?case by simp
qed simp_all

lemma written_joined:
  assumes "list_all param_ok ps" "ps \<noteq> []"
  shows "ascii (join '', '' (map written_param ps)) \<and> join '', '' (map written_param ps) \<noteq> [] \<and>
    \<not> is_white [hd (join '', '' (map written_param ps))] \<and> \<not> is_white [last (join '', '' (map written_param ps))]"
  by (rule join_ends) (use assms in \<open>auto simp: list_all_iff written_param_ends\<close>)

lemma sanitize_written_params:
  assumes "list_all param_ok ps"
  shows "sanitize_params (params_text ps) = join '', '' (map param_text ps)"
proof (cases ps)
  case Nil
  then show ?thesis using trim_clean(1) [of "''void''"]
    by (simp add: sanitize_params_def params_text_def is_white_def Let_def)
next
  case (Cons p qs)
  let ?s = "join '', '' (map written_param ps)"
  have e: "trim ?s = ?s" "?s \<noteq> []" using written_joined [OF assms] Cons by (simp_all add: trim_clean(1))
  have sp: "split_on (\<lambda>c. c = CHR '','') ?s = written_param p # map ((#) CHR '' '') (map written_param qs)"
    using split_joined [of "map written_param ps"] assms Cons by (simp add: list_all_iff no_comma)
  have "list_all param_ok qs \<Longrightarrow>
      List.map_filter sanitize_param (map ((#) CHR '' '') (map written_param qs)) = map param_text qs"
    by (induction qs) (simp_all add: List.map_filter_simps sanitize_written [OF _ disjI2 [OF refl]])
  moreover have "?s \<noteq> ''void''"
  proof
    assume v: "?s = ''void''"
    then have "written_param p = ''void''" using sp Cons by auto
    moreover have "CHR '' '' \<in> set (written_param p)"
      using assms Cons by (simp add: written_param_def param_text_def param_ok_def join_snoc_blank)
    ultimately show False by simp
  qed
  ultimately show ?thesis
    using e sp assms Cons
    by (simp add: sanitize_params_def params_text_def sanitize_written [OF _ disjI1 [OF refl]] List.map_filter_simps(1))
qed


lemma param_names_joined:
  assumes "list_all param_ok ps"
  shows "parse_param_names (join '', '' (map param_text ps)) = Inr (map cp_name ps)"
proof (cases ps)
  case Nil
  then show ?thesis by (simp add: parse_param_names_def trim_def trim_end_chars_def)
next
  case (Cons p qs)
  let ?s = "join '', '' (map param_text ps)"
  have e: "ascii (param_text q)" "param_text q \<noteq> []" "\<not> is_white [hd (param_text q)]" "\<not> is_white [last (param_text q)]"
    if "param_ok q" for q
    using phrase_ends [of "param_words q"] phrase_ascii [of "param_words q"] param_words_ok [OF that]
    by (simp_all add: param_text_words plain_char_facts)
  have "ascii ?s \<and> ?s \<noteq> [] \<and> \<not> is_white [hd ?s] \<and> \<not> is_white [last ?s]"
    by (rule join_ends) (use assms Cons in \<open>auto simp: list_all_iff e\<close>)
  then have t: "trim ?s = ?s" "?s \<noteq> []" by (simp_all add: trim_clean(1))
  have sp: "split_on (\<lambda>c. c = CHR '','') ?s = param_text p # map ((#) CHR '' '') (map param_text qs)"
    using split_joined [of "map param_text ps"] assms Cons by (simp add: list_all_iff no_comma)
  have v: "?s \<noteq> ''void''"
  proof
    assume "?s = ''void''"
    then have "param_text p = ''void''" using sp Cons by auto
    then show False using no_void assms Cons by simp
  qed
  have one: "param_names (raw # rest) = map_sum id (Cons (cp_name q)) (param_names rest)"
    if "param_ok q" "raw = param_text q \<or> raw = CHR '' '' # param_text q" for q raw rest
    using param_name [OF that] no_void [OF that(1)] by simp
  have "list_all param_ok qs \<Longrightarrow> param_names (map ((#) CHR '' '') (map param_text qs)) = Inr (map cp_name qs)"
    by (induction qs) (simp_all add: one [OF _ disjI2 [OF refl]] del: param_names.simps(2))
  then show ?thesis
    using t v sp assms Cons one [of p "param_text p"] by (simp add: parse_param_names_def del: param_names.simps(2))
qed

subsubsection \<open>The lines\<close>

lemma join_without: "c \<notin> set sep \<Longrightarrow> (\<And>x. x \<in> set xs \<Longrightarrow> c \<notin> set x) \<Longrightarrow> c \<notin> set (join sep xs)"
  by (induction sep xs rule: join.induct) auto

lemma params_text_ends:
  assumes "list_all param_ok ps"
  shows "ascii (params_text ps)" "params_text ps \<noteq> []" "\<not> is_white [hd (params_text ps)]"
    "\<not> is_white [last (params_text ps)]" "newline \<notin> set (params_text ps)"
proof -
  have "ascii (params_text ps) \<and> params_text ps \<noteq> [] \<and> \<not> is_white [hd (params_text ps)] \<and>
      \<not> is_white [last (params_text ps)]"
  proof (cases "ps = []")
    case True
    then show ?thesis by (simp add: params_text_def is_white_def Let_def)
  next
    case False
    then show ?thesis
      using written_joined [OF assms] by (simp add: params_text_def)
  qed
  then show "ascii (params_text ps)" "params_text ps \<noteq> []" "\<not> is_white [hd (params_text ps)]"
    "\<not> is_white [last (params_text ps)]"
    by simp_all
  have "newline \<notin> set (written_param p)" if "param_ok p" for p
    using phrase_no [of "param_words p" newline] param_words_ok [OF that] that
    by (auto simp: written_param_def param_text_words param_ok_def list_all_iff plain_char_def
        split: option.splits)
  then show "newline \<notin> set (params_text ps)"
    using assms join_without [of newline "'', ''" "map written_param ps"]
    by (cases "ps = []") (auto simp: params_text_def list_all_iff)
qed

lemma proto_line_whole:
  assumes "proto_ok symbol_prefix pt"
  shows "ascii (proto_text pt)" "proto_text pt \<noteq> []" "\<not> is_white [hd (proto_text pt)]" "newline \<notin> set (proto_text pt)"
    "last (proto_text pt) = CHR '';''"
proof -
  have w: "phrase (pt_decl pt @ [pt_name pt])" "list_all plain_word (pt_decl pt @ [pt_name pt])"
    using assms identifier_word [of "pt_name pt" 0] by (simp_all add: proto_ok_def phrase_def)
  have ps: "list_all param_ok (pt_params pt)" using assms by (simp add: proto_ok_def)
  show "ascii (proto_text pt)" "proto_text pt \<noteq> []" "\<not> is_white [hd (proto_text pt)]"
    "newline \<notin> set (proto_text pt)" "last (proto_text pt) = CHR '';''"
    using phrase_ends [OF w(1)] phrase_ascii [OF w(2)] phrase_no [OF w(2), of newline] params_text_ends [OF ps]
    by (simp_all add: proto_text_def plain_char_facts)
qed

lemma prototype_line_step:
  assumes "trim raw = whole" "whole \<noteq> []" "trim_end_char (CHR '';'') whole = line"
    "find_char (CHR ''('') line = Some open_paren" "rfind_char (CHR '')'') line = Some close_paren"
    "open_paren < close_paren" "trim (take open_paren line) = before"
    "last_opt (split_whitespace before) = Some name" "starts_with name symbol_prefix"
    "rfind_str name before = Some pos" "trim (take pos before) = decl" "decl \<noteq> []" "name \<notin> pr_seen st"
    "trim (take (close_paren - (open_paren + 1)) (drop (open_paren + 1) line)) = params_raw"
    "sanitize_params params_raw = params" "parse_param_names params = Inr arg_names"
  shows "prototype_line manual_hooks symbol_prefix raw st =
    (if name \<in> manual_hooks then st
     else st\<lparr>pr_seen := insert name (pr_seen st), pr_wrappers := pr_wrappers st @
       [\<lparr>wp_decl_prefix = decl, wp_name = name, wp_params = params, wp_arg_names = arg_names\<rparr>]\<rparr>)"
  using assms by (simp add: prototype_line_def Let_def)

lemma prototype_line_ok:
  assumes "proto_ok symbol_prefix pt" "pt_name pt \<notin> pr_seen st"
  shows "prototype_line manual_hooks symbol_prefix (proto_text pt) st =
    (if pt_name pt \<in> manual_hooks then st
     else st\<lparr>pr_seen := insert (pt_name pt) (pr_seen st), pr_wrappers := pr_wrappers st @ [wrapper_of pt]\<rparr>)"
proof -
  let ?h = "join '' '' (pt_decl pt @ [pt_name pt])"
  let ?p = "replicate (pt_before pt) CHR '' '' @ params_text (pt_params pt) @ replicate (pt_after pt) CHR '' ''"
  let ?l = "?h @ CHR ''('' # ?p @ '')''"
  have ws: "phrase (pt_decl pt @ [pt_name pt])" "phrase (pt_decl pt)"
    using assms(1) identifier_word [of "pt_name pt" 0] by (simp_all add: proto_ok_def phrase_def)
  have h: "?h = join '' '' (pt_decl pt) @ '' '' @ pt_name pt"
    using ws(2) by (simp add: join_snoc_blank phrase_def)
  have t: "trim (proto_text pt) = proto_text pt"
    using proto_line_whole [OF assms(1)] by (intro trim_clean(1)) (simp_all add: is_white_def Let_def)
  have s: "trim_end_char (CHR '';'') (proto_text pt) = ?l"
    by (simp add: trim_end_char_def proto_text_def)
  have o: "find_char (CHR ''('') ?l = Some (length ?h)"
    using ws(1) by (intro find_char_at phrase_no) (auto simp: phrase_def)
  have c: "rfind_char (CHR '')'') ?l = Some (length ?h + 1 + length ?p)"
    using rfind_char_at [of "CHR '')''" "[]" "?h @ CHR ''('' # ?p"] by simp
  have b: "trim (take (length ?h) ?l) = ?h" using phrase_trim(1) [OF ws(1)] by simp
  have n: "last_opt (split_whitespace ?h) = Some (pt_name pt)"
    using split_phrase [of "pt_decl pt @ [pt_name pt]"] ws(1) by (simp add: phrase_def last_opt_def)
  have r: "rfind_str (pt_name pt) ?h = Some (length (join '' '' (pt_decl pt)) + 1)"
    using rfind_str_last [of "pt_name pt" "join '' '' (pt_decl pt) @ '' ''"] ws(1) assms(1)
    by (simp add: h proto_ok_def c_identifier_def)
  have d: "trim (take (length (join '' '' (pt_decl pt)) + 1) ?h) = join '' '' (pt_decl pt)"
    "join '' '' (pt_decl pt) \<noteq> []"
    using phrase_trim(3) [OF ws(2)] phrase_ends(1) [OF ws(2)] by (simp_all add: h)
  have p: "trim (take (length ?h + 1 + length ?p - (length ?h + 1)) (drop (length ?h + 1) ?l)) =
      params_text (pt_params pt)"
    using params_text_ends [of "pt_params pt"] assms(1)
      trim_blanks [of "params_text (pt_params pt)" "pt_before pt" "pt_after pt"]
    by (simp add: proto_ok_def)
  show ?thesis
    using prototype_line_step [OF t proto_line_whole(2) [OF assms(1)] s o c _ b n _ r d assms(2) p
        sanitize_written_params param_names_joined, of symbol_prefix manual_hooks] assms(1)
    by (simp add: proto_ok_def wrapper_of_def)
qed


lemma fold_prototypes:
  assumes "list_all (proto_ok symbol_prefix) ps" "distinct (map pt_name ps)" "pt_name ` set ps \<inter> pr_seen st = {}"
  shows "fold (prototype_line manual_hooks symbol_prefix) (map proto_text ps) st =
    st\<lparr>pr_seen := pr_seen st \<union> (pt_name ` set ps - manual_hooks),
       pr_wrappers := pr_wrappers st @ map wrapper_of (filter (\<lambda>pt. pt_name pt \<notin> manual_hooks) ps)\<rparr>"
  using assms
proof (induction ps arbitrary: st)
  case (Cons pt ps)
  let ?st = "prototype_line manual_hooks symbol_prefix (proto_text pt) st"
  have st: "?st = (if pt_name pt \<in> manual_hooks then st
     else st\<lparr>pr_seen := insert (pt_name pt) (pr_seen st), pr_wrappers := pr_wrappers st @ [wrapper_of pt]\<rparr>)"
    using Cons.prems by (intro prototype_line_ok) simp_all
  have "pt_name ` set ps \<inter> pr_seen ?st = {}" using Cons.prems by (auto simp: st)
  then have "fold (prototype_line manual_hooks symbol_prefix) (map proto_text ps) ?st =
    ?st\<lparr>pr_seen := pr_seen ?st \<union> (pt_name ` set ps - manual_hooks),
       pr_wrappers := pr_wrappers ?st @ map wrapper_of (filter (\<lambda>pt. pt_name pt \<notin> manual_hooks) ps)\<rparr>"
    using Cons.prems by (intro Cons.IH) simp_all
  then show ?case by (auto simp: st insert_Diff_if)
qed simp

lemma parsed_prototypes:
  assumes "list_all (proto_ok symbol_prefix) ps" and "distinct (map pt_name ps)"
  shows "parse_missing_prototypes (text_lines (map proto_text ps)) manual_hooks symbol_prefix =
    (sort_key wp_name (map wrapper_of (filter (\<lambda>pt. pt_name pt \<notin> manual_hooks) ps)), [])"
proof -
  have "list_all (\<lambda>l. newline \<notin> set l \<and> (l = [] \<or> last l \<noteq> creturn)) (map proto_text ps)"
    using assms(1) by (auto simp: list_all_iff proto_line_whole)
  then have "lines (text_lines (map proto_text ps)) = map proto_text ps"
    unfolding text_lines_def by (rule lines_concat)
  then show ?thesis
    using fold_prototypes [OF assms, of "\<lparr>pr_wrappers = [], pr_seen = {}, pr_out = []\<rparr>" manual_hooks]
    by (simp add: parse_missing_prototypes_def)
qed

text \<open>C20. Well-formed prototypes are taken over exactly: from the text of any list of them, with distinct
  names, the generator makes one function for each that is not hooked by hand, with its result
  type, its name, its parameters without their default values, and the names of the parameters as
  arguments, in order; and it warns of nothing.\<close>

theorem prototypes_taken_over:
  assumes "list_all (proto_ok symbol_prefix) ps" and "distinct (map pt_name ps)"
  shows "parse_missing_prototypes (text_lines (map proto_text ps)) manual_hooks symbol_prefix =
    (sort_key wp_name (map wrapper_of (filter (\<lambda>pt. pt_name pt \<notin> manual_hooks) ps)), [])"
  by (rule parsed_prototypes [OF assms])

theorem prototypes_taken_over_witness:
  "parse_missing_prototypes (text_lines
     [''CUresult CUDAAPI cuArrayCreate(CUarray *pHandle, const CUDA_ARRAY_DESCRIPTOR *pAllocateArray);'',
      ''CUresult CUDAAPI cuInit(unsigned int Flags __dv(0));'',
      ''CUresult CUDAAPI cuArrayDestroy(CUarray hArray);''])
     {''cuInit''} ''cu'' =
   ([\<lparr>wp_decl_prefix = ''CUresult CUDAAPI'', wp_name = ''cuArrayCreate'',
       wp_params = ''CUarray *pHandle, const CUDA_ARRAY_DESCRIPTOR *pAllocateArray'',
       wp_arg_names = [''pHandle'', ''pAllocateArray'']\<rparr>,
     \<lparr>wp_decl_prefix = ''CUresult CUDAAPI'', wp_name = ''cuArrayDestroy'', wp_params = ''CUarray hArray'',
       wp_arg_names = [''hArray'']\<rparr>], [])"
proof -
  let ?ps = "[\<lparr>pt_decl = [''CUresult'', ''CUDAAPI''], pt_name = ''cuArrayCreate'', pt_params =
      [\<lparr>cp_type = [''CUarray''], cp_stars = 1, cp_name = ''pHandle'', cp_default = None\<rparr>,
       \<lparr>cp_type = [''const'', ''CUDA_ARRAY_DESCRIPTOR''], cp_stars = 1, cp_name = ''pAllocateArray'', cp_default = None\<rparr>], pt_before = 0, pt_after = 0\<rparr>,
    \<lparr>pt_decl = [''CUresult'', ''CUDAAPI''], pt_name = ''cuInit'', pt_params =
      [\<lparr>cp_type = [''unsigned'', ''int''], cp_stars = 0, cp_name = ''Flags'', cp_default = Some ''0''\<rparr>], pt_before = 0, pt_after = 0\<rparr>,
    \<lparr>pt_decl = [''CUresult'', ''CUDAAPI''], pt_name = ''cuArrayDestroy'', pt_params =
      [\<lparr>cp_type = [''CUarray''], cp_stars = 0, cp_name = ''hArray'', cp_default = None\<rparr>], pt_before = 0, pt_after = 0\<rparr>]"
  have "list_all (proto_ok ''cu'') ?ps" by code_simp
  moreover have "distinct (map pt_name ?ps)" by code_simp
  ultimately show ?thesis
    using prototypes_taken_over [of "''cu''" ?ps "{''cuInit''}"]
    by (simp add: proto_text_def params_text_def written_param_def param_text_def wrapper_of_def)
qed

text \<open>A build where all files are there.\<close>

definition sample_build :: build_env where
  "sample_build = \<lparr>be_var = map_of [(''OUT_DIR'', ''/out''), (''CUDA_INCLUDE'', ''/cuda'')], be_is_file = (\<lambda>_. True),
     be_read = (\<lambda>_. Inr (''pub unsafe extern '' @ quoted ''C'' @ '' fn cuInit(flags: u32) -> CUresult {'')),
     be_write = (\<lambda>_. None),
     be_prototypes = text_lines [''CUresult CUDAAPI cuArrayDestroy(CUarray hArray);'']\<rparr>"

theorem build_consistent_witness:
  "\<exists>out. build_main sample_build = Inr out \<and>
     Compiled ''/out/driver_generated_wrappers.c'' ''/cuda'' ''cudatrace_driver_generated'' \<in> set out \<and>
     Println ''cargo:rustc-cfg=has_generated_driver_wrappers'' \<in> set out"
proof -
  let ?pt = "\<lparr>pt_decl = [''CUresult'', ''CUDAAPI''], pt_name = ''cuArrayDestroy'', pt_params =
      [\<lparr>cp_type = [''CUarray''], cp_stars = 0, cp_name = ''hArray'', cp_default = None\<rparr>], pt_before = 0, pt_after = 0\<rparr>"
  have "list_all (proto_ok ''cu'') [?pt]" by code_simp
  then have p: "parse_missing_prototypes (be_prototypes sample_build) {''cuInit''} ''cu'' = ([wrapper_of ?pt], [])"
    using parsed_prototypes [of "''cu''" "[?pt]" "{''cuInit''}"]
    by (simp add: sample_build_def proto_text_def params_text_def written_param_def param_text_def)
  let ?l = "''pub unsafe extern '' @ quoted ''C'' @ '' fn cuInit(flags: u32) -> CUresult {''"
  have "trim ?l = ?l" by (rule trim_clean(1)) (simp_all add: quoted_def is_white_def Let_def)
  moreover have "trim ''cuInit'' = ''cuInit''" by (rule trim_clean(1)) (simp_all add: is_white_def Let_def)
  ultimately have m: "parse_manual_hook_names ?l ''cu'' = {''cuInit''}"
    by (simp add: parse_manual_hook_names_def manual_hook_line_def lines_def strip_prefix_def starts_with_def
        quoted_def Let_def)
  have r: "be_read sample_build path = Inr (''pub unsafe extern '' @ quoted ''C'' @ '' fn cuInit(flags: u32) -> CUresult {'')"
    "be_write sample_build path = None" "be_is_file sample_build path" for path
    by (simp_all add: sample_build_def)
  have v: "be_var sample_build ''OUT_DIR'' = Some ''/out''" "resolve_cuda_include sample_build = Some ''/cuda''"
    by (simp_all add: sample_build_def resolve_cuda_include_def)
  have g: "generate_driver_wrappers sample_build ''/cuda'' ''/out'' = (True,
      [Wrote ''/out/driver_generated_wrappers.c'' (render_driver_c_source [wrapper_of ?pt]),
       Compiled ''/out/driver_generated_wrappers.c'' ''/cuda'' ''cudatrace_driver_generated''])"
    by (simp only: generate_driver_wrappers_def read_optional_file_def r m p write_file_def Let_def prod.case sum.case
        option.case) (simp add: path_join_def)
  obtain out where out: "build_main sample_build = Inr out"
    "Compiled ''/out/driver_generated_wrappers.c'' ''/cuda'' ''cudatrace_driver_generated'' \<in> set out"
    by (simp add: build_main_def v r generate_wrappers_def g Let_def split_beta)
  then show ?thesis using build_consistent [OF out(1)] by blast
qed

end
