(* ===== verification/Generated_Hooks.thy ===== *)
theory Generated_Hooks
  imports Interpose_Facts Build_Facts
begin

text \<open>
  The C functions that \<open>build.rs\<close> generates for the functions of the driver that are not hooked by hand:
  what the C text of \<open>render_driver_c_source\<close> does, in terms of the entry points that the library
  exports for it, and that it does what the hooks written by hand do.
\<close>

subsection \<open>The generated functions\<close>

text \<open>The static \<open>real_fn\<close> of the function, as a pointer.\<close>

definition real_fn_cell :: "string \<Rightarrow> string" where
  "real_fn_cell name = name @ ''.real_fn''"

definition real_fn :: "string \<Rightarrow> 'w lib \<Rightarrow> u64" where
  "real_fn name s = (case ls_cells s (real_fn_cell name) of Some (Some ptr) \<Rightarrow> ptr | _ \<Rightarrow> 0)"

definition set_real_fn :: "string \<Rightarrow> u64 \<Rightarrow> 'w lib \<Rightarrow> 'w lib" where
  "set_real_fn name ptr s = s\<lparr>ls_cells := (ls_cells s)(real_fn_cell name \<mapsto> nonnull ptr)\<rparr>"

text \<open>The body of the function, called with the arguments \<open>args\<close> for its parameters, which it passes on
  by their names, in order.\<close>

definition generated_wrapper ::
    "'w linker \<Rightarrow> WrapperPrototype \<Rightarrow> carg list \<Rightarrow> 'w lib \<Rightarrow> CUresult \<times> 'w lib" where
  "generated_wrapper e wrapper args s =
     (let name = wp_name wrapper;
          (scope, s) = cudatrace_driver_enter e (Some name) s;
          s = (if real_fn name s = 0 then
                 (let (ptr, s) = cudatrace_resolve_driver_symbol e (Some name) s in set_real_fn name ptr s)
               else s);
          (ret, s) = (if real_fn name s \<noteq> 0 then lk_call e (real_fn name s) args s
                      else (BUILD_CUDA_ERROR_UNKNOWN, s));
          s = cudatrace_driver_exit e scope ret s
      in (ret, s))"

text \<open>The search through the table of generated functions.\<close>

fun lookup_entries :: "'w linker \<Rightarrow> WrapperPrototype list \<Rightarrow> string \<Rightarrow> u64" where
  "lookup_entries e [] symbol = 0"
| "lookup_entries e (w # ws) symbol = (if symbol = wp_name w then lk_entry e (wp_name w) else lookup_entries e ws symbol)"

definition cudatrace_lookup_generated_driver_wrapper ::
    "'w linker \<Rightarrow> WrapperPrototype list \<Rightarrow> string option \<Rightarrow> u64" where
  "cudatrace_lookup_generated_driver_wrapper e ws symbol =
     (case symbol of None \<Rightarrow> 0 | Some symbol \<Rightarrow> lookup_entries e ws symbol)"

subsection \<open>They forward and are traced\<close>

text \<open>The function that is found: the one that was found before, else the driver's symbol.\<close>

definition generated_goal :: "'w linker \<Rightarrow> string \<Rightarrow> 'w lib \<Rightarrow> u64 option" where
  "generated_goal e name s = (if real_fn name s \<noteq> 0 then Some (real_fn name s) else driver_symbol e (Some name) s)"

definition resolve_generated :: "'w linker \<Rightarrow> string \<Rightarrow> 'w lib \<Rightarrow> u64 option \<times> 'w lib" where
  "resolve_generated e name s =
     (let s = (if real_fn name s = 0 then
                 (let (ptr, s) = cudatrace_resolve_driver_symbol e (Some name) s in set_real_fn name ptr s)
               else s)
      in (nonnull (real_fn name s), s))"

lemma real_fn_set [simp]: "real_fn name (set_real_fn name ptr s) = ptr"
  by (cases "ptr = 0") (simp_all add: real_fn_def set_real_fn_def)

lemma set_real_fn_fields [simp]:
  "like e s (set_real_fn name ptr t) = like e s t" "ls_outs (set_real_fn name ptr s) = ls_outs s"
  "ls_hook (set_real_fn name ptr s) = ls_hook s"
  "c \<noteq> real_fn_cell name \<Longrightarrow> ls_cells (set_real_fn name ptr s) c = ls_cells s c"
  by (simp_all add: set_real_fn_def like_def same_process_def linker_dlsym_def)

lemma driver_symbol_nonnull: "driver_symbol e n s \<noteq> Some 0"
  by (simp add: driver_symbol_def next_symbol_def)

lemma finds_generated: "finds e (generated_goal e name) {real_fn_cell name} (resolve_generated e name)"
  unfolding finds_def
proof (intro allI impI)
  fix s r t
  obtain r1 t1 where q: "resolve_driver_from_ptr e (Some name) s = (r1, t1)"
    by (cases "resolve_driver_from_ptr e (Some name) s")
  assume "resolve_generated e name s = (r, t)"
  then show "r = generated_goal e name s \<and> like e s t \<and> ls_outs t = ls_outs s \<and>
      (room (hs_bypass (ls_hook s)) \<longrightarrow> ls_hook t = ls_hook s) \<and>
      (\<forall>c. c \<notin> {real_fn_cell name} \<longrightarrow> ls_cells t c = ls_cells s c)"
    using resolve_driver_like [OF q] driver_symbol_nonnull [of e "Some name" s]
    by (auto simp: resolve_generated_def generated_goal_def cudatrace_resolve_driver_symbol_def q Let_def
        unwrap_or_def split: option.splits if_splits)
qed

lemma steady_generated [simp]: "steady e (generated_goal e name)"
  by (simp add: steady_def generated_goal_def real_fn_def like_symbols)

interpretation generated_resolver:
  resolver e "generated_goal e name" "{real_fn_cell name}" "resolve_generated e name" for e name
  by unfold_locales (rule finds_generated, simp)

lemma generated_as_traced:
  assumes "intern_driver_func_name (wp_name w) s = (f, s0)"
  shows "generated_wrapper e w args s =
    traced_call e TraceDomain.Driver f [] (resolve_generated e (wp_name w)) args s0"
proof -
  obtain sc s1 where q1: "scope_enter e TraceDomain.Driver f [] s0 = (sc, s1)"
    by (cases "scope_enter e TraceDomain.Driver f [] s0")
  obtain s2 where q2: "(if real_fn (wp_name w) s1 = 0 then
      (let (ptr, s) = cudatrace_resolve_driver_symbol e (Some (wp_name w)) s1 in set_real_fn (wp_name w) ptr s)
      else s1) = s2" by blast
  show ?thesis
    by (cases "real_fn (wp_name w) s2 = 0")
      (simp_all add: generated_wrapper_def traced_call_def cudatrace_driver_enter_def cudatrace_driver_exit_def assms
        q1 q2 resolve_generated_def BUILD_CUDA_ERROR_UNKNOWN_def CUDA_ERROR_UNKNOWN_def split: prod.split)
qed

lemma intern_like:
  "intern_driver_func_name key s = (f, s0) \<Longrightarrow> like e s s0 \<and> ls_cells s0 = ls_cells s \<and> ls_hook s0 = ls_hook s \<and>
     ls_outs s0 = ls_outs s"
  by (auto simp: intern_driver_func_name_def like_def same_process_def linker_dlsym_def Let_def split: option.splits)

lemma generated_wrapper_forwards:
  "forwards e (generated_goal e (wp_name w)) args (generated_wrapper e w args)"
  unfolding forwards_def
proof (intro allI impI)
  fix s ret s'
  assume r: "generated_wrapper e w args s = (ret, s')"
  obtain f s0 where q: "intern_driver_func_name (wp_name w) s = (f, s0)"
    by (cases "intern_driver_func_name (wp_name w) s")
  note i = intern_like [OF q, of e]
  then have g: "generated_goal e (wp_name w) s0 = generated_goal e (wp_name w) s"
    using steady_generated [of e "wp_name w"] unfolding steady_def by blast
  have p: "same_process s s0" using i by (simp add: like_def)
  have "traced_call e TraceDomain.Driver f [] (resolve_generated e (wp_name w)) args s0 = (ret, s')"
    using r by (simp add: generated_as_traced [OF q])
  note t = generated_resolver.call_forwards [unfolded forwards_def, rule_format, OF this]
  show "case generated_goal e (wp_name w) s of
      None \<Rightarrow> ret = CUDA_ERROR_UNKNOWN \<and> same_process s s'
    | Some real \<Rightarrow> \<exists>t u. same_process s t \<and> lk_call e real args t = (ret, u) \<and> same_process u s' \<and>
        ls_cells s' = ls_cells u"
    using t p unfolding g by (auto simp: same_process_def split: option.splits)
qed

lemma generated_not_kept:
  assumes "generated_goal e name s = None"
  shows "real_fn name (snd (traced_call e dm func shown (resolve_generated e name) args s)) = 0"
proof -
  obtain sc s1 where q1: "scope_enter e dm func shown s = (sc, s1)" by (cases "scope_enter e dm func shown s")
  obtain r s2 where q2: "resolve_generated e name s1 = (r, s2)" by (cases "resolve_generated e name s1")
  have "generated_goal e name s1 = generated_goal e name s"
    using scope_enter_like [OF q1] steady_generated [of e name] unfolding steady_def by blast
  then have "r = None"
    using finds_generated [unfolded finds_def, rule_format, OF q2] assms by simp
  moreover have "r = nonnull (real_fn name s2)" using q2 by (auto simp: resolve_generated_def Let_def)
  ultimately have "real_fn name s2 = 0" "r = None" by (auto simp: nonnull_def split: if_splits)
  then show ?thesis by (simp add: traced_call_def q1 q2 real_fn_def scope_finish_like)
qed

text \<open>C17. A generated function does what the functions hooked by hand do, with two differences. It forwards
  its arguments to the driver's function of the same name and returns its result, changing nothing
  else; its trace is one hooked call, named by its C name and without arguments, that contains the
  hooked calls the real function makes. But a function that is not found is looked for again by the
  next call.\<close>

theorem generated_hook:
  assumes "\<not> lk_internal e" and "room (hs_bypass (ls_hook s))"
    and "ls_driver_names s (wp_name w) \<in> {None, Some (wp_name w)}" and "ascii (wp_name w)"
    and "case generated_goal e (wp_name w) s of
        None \<Rightarrow> kids = [] \<and> ret = CUDA_ERROR_UNKNOWN
      | Some real \<Rightarrow> makes_calls e s {real_fn_cell (wp_name w)} real args kids ret"
  shows "forwards e (generated_goal e (wp_name w)) args (generated_wrapper e w args) \<and>
    (let s0 = snd (intern_driver_func_name (wp_name w) s)
     in runs_as e s (HCall TraceDomain.Driver (wp_name w) [] (lk_now e s0) (lk_epoch e s0) kids (dec_int ret)) ret
       (generated_wrapper e w args)) \<and>
    (generated_goal e (wp_name w) s = None \<longrightarrow> real_fn (wp_name w) (snd (generated_wrapper e w args s)) = 0)"
proof -
  obtain f s0 where q: "intern_driver_func_name (wp_name w) s = (f, s0)"
    by (cases "intern_driver_func_name (wp_name w) s")
  have f: "f = wp_name w"
    using q assms(3,4) by (auto simp: intern_driver_func_name_def Let_def from_utf8_lossy_id ascii_utf8)
  note i = intern_like [OF q, of e]
  then have i2: "ls_hook s0 = ls_hook s" "ls_outs s0 = ls_outs s"
    and g: "generated_goal e (wp_name w) s0 = generated_goal e (wp_name w) s"
    using steady_generated [of e "wp_name w"] unfolding steady_def by blast+
  have m: "makes_calls e s cells real args kids ret \<Longrightarrow> makes_calls e s0 cells real args kids ret" for cells real
    using i like_trans [of e s s0] unfolding makes_calls_def by metis
  have "runs_as e s0 (HCall TraceDomain.Driver f [] (lk_now e s0) (lk_epoch e s0) kids (dec_int ret)) ret
      (traced_call e TraceDomain.Driver f [] (resolve_generated e (wp_name w)) args)"
    by (rule generated_resolver.call_runs [OF assms(1)])
      (use assms(2,5) i m in \<open>auto simp: g split: option.splits\<close>)
  then have r: "runs_as e s (HCall TraceDomain.Driver (wp_name w) [] (lk_now e s0) (lk_epoch e s0) kids (dec_int ret)) ret
      (generated_wrapper e w args)"
    unfolding runs_as_def generated_as_traced [OF q] by (simp only: f i2)
  have n: "real_fn (wp_name w) (snd (generated_wrapper e w args s)) = 0" if "generated_goal e (wp_name w) s = None"
    using generated_not_kept [of e "wp_name w" s0 TraceDomain.Driver f "[]" args] that g
    by (simp add: generated_as_traced [OF q])
  show ?thesis using generated_wrapper_forwards r n by (simp add: q)
qed

theorem generated_hook_witness:
  "(let w = \<lparr>wp_decl_prefix = ''CUresult CUDAAPI'', wp_name = ''cuArrayDestroy'', wp_params = ''CUarray hArray'',
       wp_arg_names = [''hArray'']\<rparr>
    in fst (generated_wrapper two_libraries w [APtr 5] sample_lib) = CUDA_ERROR_UNKNOWN \<and>
       real_fn ''cuArrayDestroy'' (snd (generated_wrapper two_libraries w [APtr 5] sample_lib)) = 0)"
proof -
  let ?w = "\<lparr>wp_decl_prefix = ''CUresult CUDAAPI'', wp_name = ''cuArrayDestroy'', wp_params = ''CUarray hArray'',
       wp_arg_names = [''hArray'']\<rparr>"
  have g: "generated_goal two_libraries ''cuArrayDestroy'' sample_lib = None"
    by (simp add: generated_goal_def real_fn_def driver_symbol_def next_symbol_def linker_symbol_def linker_dlsym_def
        two_libraries_def RTLD_NEXT_def sample_defs)
  have n: "ls_driver_names sample_lib c = None" "\<not> lk_internal two_libraries" for c
    by (simp_all add: sample_defs two_libraries_def)
  show ?thesis
    using generated_hook [of two_libraries sample_lib ?w "[]" CUDA_ERROR_UNKNOWN "[APtr 5]"] g n
    by (cases "generated_wrapper two_libraries ?w [APtr 5] sample_lib")
      (auto simp: room_def u32_max_def runs_as_def Let_def simp del: run_hcall.simps)
qed

text \<open>What the library is given when it asks for the function generated for a symbol: the one of that name
  if it was generated, and nothing else.\<close>

lemma lookup_generated:
  "cudatrace_lookup_generated_driver_wrapper e ws (Some symbol) =
    (if symbol \<in> wp_name ` set ws then lk_entry e symbol else 0)"
  by (induction ws) (auto simp: cudatrace_lookup_generated_driver_wrapper_def)

end
