(* ===== verification/Prototypes.thy ===== *)
theory Prototypes
  imports Build_Facts
begin

text \<open>
  \<open>build_specs_embed.rs\<close>: the prototypes from which the build makes the hooks of the driver's functions.
  Each is given by its name and its parameters; \<open>proto_text\<close> is its line of the text. The prototypes of
  the runtime in the same file are not used by the build.
\<close>

subsection \<open>The embedded text\<close>

definition par :: "string \<Rightarrow> nat \<Rightarrow> string \<Rightarrow> cparam" where
  "par type stars name =
     \<lparr>cp_type = split_on (\<lambda>c. c = CHR '' '') type, cp_stars = stars, cp_name = name, cp_default = None\<rparr>"

definition drv :: "string \<Rightarrow> cparam list \<Rightarrow> prototype" where
  "drv name ps = \<lparr>pt_decl = [''CUresult'', ''CUDAAPI''], pt_name = name, pt_params = ps, pt_before = 0, pt_after = 0\<rparr>"

definition blanks :: "nat \<Rightarrow> nat \<Rightarrow> prototype \<Rightarrow> prototype" where
  "blanks before after pt = pt\<lparr>pt_before := before, pt_after := after\<rparr>"

definition driver_prototypes_1 :: "prototype list" where
  "driver_prototypes_1 =
    [drv ''cuArray3DCreate'' [par ''CUarray'' 1 ''pHandle'', par ''const CUDA_ARRAY3D_DESCRIPTOR'' 1 ''pAllocateArray''],
     drv ''cuArray3DGetDescriptor'' [par ''CUDA_ARRAY3D_DESCRIPTOR'' 1 ''pArrayDescriptor'', par ''CUarray'' 0 ''hArray''],
     drv ''cuArrayCreate'' [par ''CUarray'' 1 ''pHandle'', par ''const CUDA_ARRAY_DESCRIPTOR'' 1 ''pAllocateArray''],
     drv ''cuArrayDestroy'' [par ''CUarray'' 0 ''hArray''],
     drv ''cuArrayGetDescriptor'' [par ''CUDA_ARRAY_DESCRIPTOR'' 1 ''pArrayDescriptor'', par ''CUarray'' 0 ''hArray''],
     drv ''cuArrayGetMemoryRequirements'' [par ''CUDA_ARRAY_MEMORY_REQUIREMENTS'' 1 ''memoryRequirements'', par ''CUarray'' 0 ''array'',
        par ''CUdevice'' 0 ''device''],
     drv ''cuArrayGetPlane'' [par ''CUarray'' 1 ''pPlaneArray'', par ''CUarray'' 0 ''hArray'',
        par ''unsigned int'' 0 ''planeIdx''],
     drv ''cuArrayGetSparseProperties'' [par ''CUDA_ARRAY_SPARSE_PROPERTIES'' 1 ''sparseProperties'', par ''CUarray'' 0 ''array''],
     drv ''cuCheckpointProcessCheckpoint'' [par ''int'' 0 ''pid'', par ''CUcheckpointCheckpointArgs'' 1 ''args''],
     drv ''cuCheckpointProcessGetRestoreThreadId'' [par ''int'' 0 ''pid'', par ''int'' 1 ''tid''],
     drv ''cuCheckpointProcessGetState'' [par ''int'' 0 ''pid'', par ''CUprocessState'' 1 ''state''],
     drv ''cuCheckpointProcessLock'' [par ''int'' 0 ''pid'', par ''CUcheckpointLockArgs'' 1 ''args''],
     drv ''cuCheckpointProcessRestore'' [par ''int'' 0 ''pid'', par ''CUcheckpointRestoreArgs'' 1 ''args''],
     drv ''cuCheckpointProcessUnlock'' [par ''int'' 0 ''pid'', par ''CUcheckpointUnlockArgs'' 1 ''args''],
     drv ''cuCoredumpGetAttribute'' [par ''CUcoredumpSettings'' 0 ''attrib'', par ''void*'' 0 ''value'', par ''size_t'' 1 ''size''],
     drv ''cuCoredumpGetAttributeGlobal'' [par ''CUcoredumpSettings'' 0 ''attrib'', par ''void'' 1 ''value'', par ''size_t'' 1 ''size''],
     drv ''cuCoredumpSetAttribute'' [par ''CUcoredumpSettings'' 0 ''attrib'', par ''void*'' 0 ''value'', par ''size_t'' 1 ''size''],
     drv ''cuCoredumpSetAttributeGlobal'' [par ''CUcoredumpSettings'' 0 ''attrib'', par ''void'' 1 ''value'', par ''size_t'' 1 ''size''],
     drv ''cuCtxAttach'' [par ''CUcontext'' 1 ''pctx'', par ''unsigned int'' 0 ''flags''],
     drv ''cuCtxCreate'' [par ''CUcontext'' 1 ''pctx'', par ''unsigned int'' 0 ''flags'', par ''CUdevice'' 0 ''dev''],
     drv ''cuCtxCreate_v3'' [par ''CUcontext'' 1 ''pctx'', par ''CUexecAffinityParam'' 1 ''paramsArray'',
        par ''int'' 0 ''numParams'', par ''unsigned int'' 0 ''flags'', par ''CUdevice'' 0 ''dev''],
     drv ''cuCtxCreate_v4'' [par ''CUcontext'' 1 ''pctx'', par ''CUctxCreateParams'' 1 ''ctxCreateParams'',
        par ''unsigned int'' 0 ''flags'', par ''CUdevice'' 0 ''dev''],
     drv ''cuCtxDestroy'' [par ''CUcontext'' 0 ''ctx''],
     drv ''cuCtxDetach'' [par ''CUcontext'' 0 ''ctx''],
     drv ''cuCtxDisablePeerAccess'' [par ''CUcontext'' 0 ''peerContext''],
     drv ''cuCtxEnablePeerAccess'' [par ''CUcontext'' 0 ''peerContext'', par ''unsigned int'' 0 ''Flags''],
     drv ''cuCtxFromGreenCtx'' [par ''CUcontext'' 1 ''pContext'', par ''CUgreenCtx'' 0 ''hCtx''],
     drv ''cuCtxGetApiVersion'' [par ''CUcontext'' 0 ''ctx'', par ''unsigned int'' 1 ''version''],
     drv ''cuCtxGetCacheConfig'' [par ''CUfunc_cache'' 1 ''pconfig''],
     drv ''cuCtxGetDevResource'' [par ''CUcontext'' 0 ''hCtx'', par ''CUdevResource*'' 0 ''resource'',
        par ''CUdevResourceType'' 0 ''type''],
     drv ''cuCtxGetDevice'' [par ''CUdevice'' 1 ''device''],
     drv ''cuCtxGetExecAffinity'' [par ''CUexecAffinityParam'' 1 ''pExecAffinity'', par ''CUexecAffinityType'' 0 ''type''],
     drv ''cuCtxGetFlags'' [par ''unsigned int'' 1 ''flags''],
     drv ''cuCtxGetId'' [par ''CUcontext'' 0 ''ctx'', par ''unsigned long long'' 1 ''ctxId''],
     drv ''cuCtxGetLimit'' [par ''size_t'' 1 ''pvalue'', par ''CUlimit'' 0 ''limit''],
     drv ''cuCtxGetSharedMemConfig'' [par ''CUsharedconfig'' 1 ''pConfig''],
     drv ''cuCtxGetStreamPriorityRange'' [par ''int'' 1 ''leastPriority'', par ''int'' 1 ''greatestPriority''],
     drv ''cuCtxRecordEvent'' [par ''CUcontext'' 0 ''hCtx'', par ''CUevent'' 0 ''hEvent''],
     drv ''cuCtxResetPersistingL2Cache'' [],
     drv ''cuCtxSetCacheConfig'' [par ''CUfunc_cache'' 0 ''config''],
     drv ''cuCtxSetFlags'' [par ''unsigned int'' 0 ''flags''],
     drv ''cuCtxSetLimit'' [par ''CUlimit'' 0 ''limit'', par ''size_t'' 0 ''value''],
     drv ''cuCtxSetSharedMemConfig'' [par ''CUsharedconfig'' 0 ''config''],
     drv ''cuCtxWaitEvent'' [par ''CUcontext'' 0 ''hCtx'', par ''CUevent'' 0 ''hEvent''],
     drv ''cuDestroyExternalMemory'' [par ''CUexternalMemory'' 0 ''extMem''],
     drv ''cuDestroyExternalSemaphore'' [par ''CUexternalSemaphore'' 0 ''extSem''],
     drv ''cuDevResourceGenerateDesc'' [par ''CUdevResourceDesc'' 1 ''phDesc'', par ''CUdevResource'' 1 ''resources'',
        par ''unsigned int'' 0 ''nbResources''],
     blanks 1 0 (drv ''cuDevSmResourceSplitByCount'' [par ''CUdevResource*'' 0 ''result'', par ''unsigned int*'' 0 ''nbGroups'',
        par ''const CUdevResource*'' 0 ''input'', par ''CUdevResource*'' 0 ''remaining'',
        par ''unsigned int'' 0 ''useFlags'', par ''unsigned int'' 0 ''minCount'']),
     drv ''cuDeviceCanAccessPeer'' [par ''int'' 1 ''canAccessPeer'', par ''CUdevice'' 0 ''dev'', par ''CUdevice'' 0 ''peerDev''],
     drv ''cuDeviceComputeCapability'' [par ''int'' 1 ''major'', par ''int'' 1 ''minor'', par ''CUdevice'' 0 ''dev''],
     drv ''cuDeviceGetAttribute'' [par ''int'' 1 ''pi'', par ''CUdevice_attribute'' 0 ''attrib'', par ''CUdevice'' 0 ''dev''],
     drv ''cuDeviceGetByPCIBusId'' [par ''CUdevice'' 1 ''dev'', par ''const char'' 1 ''pciBusId''],
     drv ''cuDeviceGetCount'' [par ''int'' 1 ''count''],
     drv ''cuDeviceGetDefaultMemPool'' [par ''CUmemoryPool'' 1 ''pool_out'', par ''CUdevice'' 0 ''dev''],
     drv ''cuDeviceGetDevResource'' [par ''CUdevice'' 0 ''device'', par ''CUdevResource*'' 0 ''resource'',
        par ''CUdevResourceType'' 0 ''type''],
     drv ''cuDeviceGetExecAffinitySupport'' [par ''int'' 1 ''pi'', par ''CUexecAffinityType'' 0 ''type'', par ''CUdevice'' 0 ''dev''],
     drv ''cuDeviceGetGraphMemAttribute'' [par ''CUdevice'' 0 ''device'', par ''CUgraphMem_attribute'' 0 ''attr'',
        par ''void*'' 0 ''value''],
     drv ''cuDeviceGetLuid'' [par ''char'' 1 ''luid'', par ''unsigned int'' 1 ''deviceNodeMask'', par ''CUdevice'' 0 ''dev''],
     drv ''cuDeviceGetMemPool'' [par ''CUmemoryPool'' 1 ''pool'', par ''CUdevice'' 0 ''dev''],
     drv ''cuDeviceGetNvSciSyncAttributes'' [par ''void'' 1 ''nvSciSyncAttrList'', par ''CUdevice'' 0 ''dev'', par ''int'' 0 ''flags''],
     drv ''cuDeviceGetP2PAttribute'' [par ''int*'' 0 ''value'', par ''CUdevice_P2PAttribute'' 0 ''attrib'',
        par ''CUdevice'' 0 ''srcDevice'', par ''CUdevice'' 0 ''dstDevice''],
     drv ''cuDeviceGetPCIBusId'' [par ''char'' 1 ''pciBusId'', par ''int'' 0 ''len'', par ''CUdevice'' 0 ''dev''],
     drv ''cuDeviceGetProperties'' [par ''CUdevprop'' 1 ''prop'', par ''CUdevice'' 0 ''dev''],
     drv ''cuDeviceGetTexture1DLinearMaxWidth'' [par ''size_t'' 1 ''maxWidthInElements'', par ''CUarray_format'' 0 ''format'',
        par ''unsigned'' 0 ''numChannels'', par ''CUdevice'' 0 ''dev''],
     drv ''cuDeviceGetUuid'' [par ''CUuuid'' 1 ''uuid'', par ''CUdevice'' 0 ''dev''],
     drv ''cuDeviceGetUuid_v2'' [par ''CUuuid'' 1 ''uuid'', par ''CUdevice'' 0 ''dev''],
     drv ''cuDeviceGraphMemTrim'' [par ''CUdevice'' 0 ''device''],
     drv ''cuDeviceRegisterAsyncNotification'' [par ''CUdevice'' 0 ''device'', par ''CUasyncCallback'' 0 ''callbackFunc'',
        par ''void'' 1 ''userData'', par ''CUasyncCallbackHandle'' 1 ''callback''],
     drv ''cuDeviceSetGraphMemAttribute'' [par ''CUdevice'' 0 ''device'', par ''CUgraphMem_attribute'' 0 ''attr'',
        par ''void*'' 0 ''value''],
     drv ''cuDeviceSetMemPool'' [par ''CUdevice'' 0 ''dev'', par ''CUmemoryPool'' 0 ''pool''],
     drv ''cuDeviceTotalMem'' [par ''size_t'' 1 ''bytes'', par ''CUdevice'' 0 ''dev''],
     drv ''cuDeviceUnregisterAsyncNotification'' [par ''CUdevice'' 0 ''device'', par ''CUasyncCallbackHandle'' 0 ''callback''],
     drv ''cuDriverGetVersion'' [par ''int'' 1 ''driverVersion''],
     drv ''cuEventQuery'' [par ''CUevent'' 0 ''hEvent''],
     drv ''cuExternalMemoryGetMappedBuffer'' [par ''CUdeviceptr'' 1 ''devPtr'', par ''CUexternalMemory'' 0 ''extMem'',
        par ''const CUDA_EXTERNAL_MEMORY_BUFFER_DESC'' 1 ''bufferDesc''],
     drv ''cuExternalMemoryGetMappedMipmappedArray'' [par ''CUmipmappedArray'' 1 ''mipmap'', par ''CUexternalMemory'' 0 ''extMem'',
        par ''const CUDA_EXTERNAL_MEMORY_MIPMAPPED_ARRAY_DESC'' 1 ''mipmapDesc''],
     drv ''cuFlushGPUDirectRDMAWrites'' [par ''CUflushGPUDirectRDMAWritesTarget'' 0 ''target'',
        par ''CUflushGPUDirectRDMAWritesScope'' 0 ''scope''],
     drv ''cuFuncGetAttribute'' [par ''int'' 1 ''pi'', par ''CUfunction_attribute'' 0 ''attrib'', par ''CUfunction'' 0 ''hfunc''],
     drv ''cuFuncGetModule'' [par ''CUmodule'' 1 ''hmod'', par ''CUfunction'' 0 ''hfunc''],
     drv ''cuFuncGetName'' [par ''const char'' 2 ''name'', par ''CUfunction'' 0 ''hfunc''],
     drv ''cuFuncGetParamInfo'' [par ''CUfunction'' 0 ''func'', par ''size_t'' 0 ''paramIndex'',
        par ''size_t'' 1 ''paramOffset'', par ''size_t'' 1 ''paramSize''],
     drv ''cuFuncIsLoaded'' [par ''CUfunctionLoadingState'' 1 ''state'', par ''CUfunction'' 0 ''function''],
     drv ''cuFuncLoad'' [par ''CUfunction'' 0 ''function''],
     drv ''cuFuncSetAttribute'' [par ''CUfunction'' 0 ''hfunc'', par ''CUfunction_attribute'' 0 ''attrib'',
        par ''int'' 0 ''value''],
     drv ''cuFuncSetBlockShape'' [par ''CUfunction'' 0 ''hfunc'', par ''int'' 0 ''x'', par ''int'' 0 ''y'', par ''int'' 0 ''z''],
     drv ''cuFuncSetCacheConfig'' [par ''CUfunction'' 0 ''hfunc'', par ''CUfunc_cache'' 0 ''config''],
     drv ''cuFuncSetSharedMemConfig'' [par ''CUfunction'' 0 ''hfunc'', par ''CUsharedconfig'' 0 ''config''],
     drv ''cuFuncSetSharedSize'' [par ''CUfunction'' 0 ''hfunc'', par ''unsigned int'' 0 ''bytes''],
     drv ''cuGetErrorName'' [par ''CUresult'' 0 ''error'', par ''const char'' 2 ''pStr''],
     drv ''cuGetErrorString'' [par ''CUresult'' 0 ''error'', par ''const char'' 2 ''pStr''],
     drv ''cuGetExportTable'' [par ''const void'' 2 ''ppExportTable'', par ''const CUuuid'' 1 ''pExportTableId''],
     drv ''cuGraphAddBatchMemOpNode'' [par ''CUgraphNode'' 1 ''phGraphNode'', par ''CUgraph'' 0 ''hGraph'',
        par ''const CUgraphNode'' 1 ''dependencies'', par ''size_t'' 0 ''numDependencies'',
        par ''const CUDA_BATCH_MEM_OP_NODE_PARAMS'' 1 ''nodeParams''],
     drv ''cuGraphAddChildGraphNode'' [par ''CUgraphNode'' 1 ''phGraphNode'', par ''CUgraph'' 0 ''hGraph'',
        par ''const CUgraphNode'' 1 ''dependencies'', par ''size_t'' 0 ''numDependencies'',
        par ''CUgraph'' 0 ''childGraph''],
     drv ''cuGraphAddDependencies'' [par ''CUgraph'' 0 ''hGraph'', par ''const CUgraphNode'' 1 ''from'',
        par ''const CUgraphNode'' 1 ''to'', par ''size_t'' 0 ''numDependencies''],
     drv ''cuGraphAddDependencies_v2'' [par ''CUgraph'' 0 ''hGraph'', par ''const CUgraphNode'' 1 ''from'',
        par ''const CUgraphNode'' 1 ''to'', par ''const CUgraphEdgeData'' 1 ''edgeData'',
        par ''size_t'' 0 ''numDependencies''],
     drv ''cuGraphAddEmptyNode'' [par ''CUgraphNode'' 1 ''phGraphNode'', par ''CUgraph'' 0 ''hGraph'',
        par ''const CUgraphNode'' 1 ''dependencies'', par ''size_t'' 0 ''numDependencies''],
     drv ''cuGraphAddEventRecordNode'' [par ''CUgraphNode'' 1 ''phGraphNode'', par ''CUgraph'' 0 ''hGraph'',
        par ''const CUgraphNode'' 1 ''dependencies'', par ''size_t'' 0 ''numDependencies'',
        par ''CUevent'' 0 ''event''],
     drv ''cuGraphAddEventWaitNode'' [par ''CUgraphNode'' 1 ''phGraphNode'', par ''CUgraph'' 0 ''hGraph'',
        par ''const CUgraphNode'' 1 ''dependencies'', par ''size_t'' 0 ''numDependencies'',
        par ''CUevent'' 0 ''event''],
     drv ''cuGraphAddExternalSemaphoresSignalNode'' [par ''CUgraphNode'' 1 ''phGraphNode'', par ''CUgraph'' 0 ''hGraph'',
        par ''const CUgraphNode'' 1 ''dependencies'', par ''size_t'' 0 ''numDependencies'',
        par ''const CUDA_EXT_SEM_SIGNAL_NODE_PARAMS'' 1 ''nodeParams''],
     drv ''cuGraphAddExternalSemaphoresWaitNode'' [par ''CUgraphNode'' 1 ''phGraphNode'', par ''CUgraph'' 0 ''hGraph'',
        par ''const CUgraphNode'' 1 ''dependencies'', par ''size_t'' 0 ''numDependencies'',
        par ''const CUDA_EXT_SEM_WAIT_NODE_PARAMS'' 1 ''nodeParams''],
     drv ''cuGraphAddHostNode'' [par ''CUgraphNode'' 1 ''phGraphNode'', par ''CUgraph'' 0 ''hGraph'',
        par ''const CUgraphNode'' 1 ''dependencies'', par ''size_t'' 0 ''numDependencies'',
        par ''const CUDA_HOST_NODE_PARAMS'' 1 ''nodeParams''],
     drv ''cuGraphAddKernelNode'' [par ''CUgraphNode'' 1 ''phGraphNode'', par ''CUgraph'' 0 ''hGraph'',
        par ''const CUgraphNode'' 1 ''dependencies'', par ''size_t'' 0 ''numDependencies'',
        par ''const CUDA_KERNEL_NODE_PARAMS'' 1 ''nodeParams''],
     drv ''cuGraphAddMemAllocNode'' [par ''CUgraphNode'' 1 ''phGraphNode'', par ''CUgraph'' 0 ''hGraph'',
        par ''const CUgraphNode'' 1 ''dependencies'', par ''size_t'' 0 ''numDependencies'',
        par ''CUDA_MEM_ALLOC_NODE_PARAMS'' 1 ''nodeParams''],
     drv ''cuGraphAddMemFreeNode'' [par ''CUgraphNode'' 1 ''phGraphNode'', par ''CUgraph'' 0 ''hGraph'',
        par ''const CUgraphNode'' 1 ''dependencies'', par ''size_t'' 0 ''numDependencies'',
        par ''CUdeviceptr'' 0 ''dptr''],
     drv ''cuGraphAddMemcpyNode'' [par ''CUgraphNode'' 1 ''phGraphNode'', par ''CUgraph'' 0 ''hGraph'',
        par ''const CUgraphNode'' 1 ''dependencies'', par ''size_t'' 0 ''numDependencies'',
        par ''const CUDA_MEMCPY3D'' 1 ''copyParams'', par ''CUcontext'' 0 ''ctx''],
     drv ''cuGraphAddMemsetNode'' [par ''CUgraphNode'' 1 ''phGraphNode'', par ''CUgraph'' 0 ''hGraph'',
        par ''const CUgraphNode'' 1 ''dependencies'', par ''size_t'' 0 ''numDependencies'',
        par ''const CUDA_MEMSET_NODE_PARAMS'' 1 ''memsetParams'', par ''CUcontext'' 0 ''ctx''],
     drv ''cuGraphAddNode'' [par ''CUgraphNode'' 1 ''phGraphNode'', par ''CUgraph'' 0 ''hGraph'',
        par ''const CUgraphNode'' 1 ''dependencies'', par ''size_t'' 0 ''numDependencies'',
        par ''CUgraphNodeParams'' 1 ''nodeParams''],
     drv ''cuGraphAddNode_v2'' [par ''CUgraphNode'' 1 ''phGraphNode'', par ''CUgraph'' 0 ''hGraph'',
        par ''const CUgraphNode'' 1 ''dependencies'',
        par ''const CUgraphEdgeData'' 1 ''dependencyData'', par ''size_t'' 0 ''numDependencies'',
        par ''CUgraphNodeParams'' 1 ''nodeParams''],
     drv ''cuGraphBatchMemOpNodeGetParams'' [par ''CUgraphNode'' 0 ''hNode'', par ''CUDA_BATCH_MEM_OP_NODE_PARAMS'' 1 ''nodeParams_out''],
     drv ''cuGraphBatchMemOpNodeSetParams'' [par ''CUgraphNode'' 0 ''hNode'', par ''const CUDA_BATCH_MEM_OP_NODE_PARAMS'' 1 ''nodeParams''],
     drv ''cuGraphChildGraphNodeGetGraph'' [par ''CUgraphNode'' 0 ''hNode'', par ''CUgraph'' 1 ''phGraph''],
     drv ''cuGraphClone'' [par ''CUgraph'' 1 ''phGraphClone'', par ''CUgraph'' 0 ''originalGraph''],
     drv ''cuGraphConditionalHandleCreate'' [par ''CUgraphConditionalHandle'' 1 ''pHandle_out'', par ''CUgraph'' 0 ''hGraph'',
        par ''CUcontext'' 0 ''ctx'', par ''unsigned int'' 0 ''defaultLaunchValue'',
        par ''unsigned int'' 0 ''flags'']]"

definition driver_prototypes_2 :: "prototype list" where
  "driver_prototypes_2 =
    [drv ''cuGraphCreate'' [par ''CUgraph'' 1 ''phGraph'', par ''unsigned int'' 0 ''flags''],
     drv ''cuGraphDebugDotPrint'' [par ''CUgraph'' 0 ''hGraph'', par ''const char'' 1 ''path'', par ''unsigned int'' 0 ''flags''],
     drv ''cuGraphDestroy'' [par ''CUgraph'' 0 ''hGraph''],
     drv ''cuGraphDestroyNode'' [par ''CUgraphNode'' 0 ''hNode''],
     drv ''cuGraphEventRecordNodeGetEvent'' [par ''CUgraphNode'' 0 ''hNode'', par ''CUevent'' 1 ''event_out''],
     drv ''cuGraphEventRecordNodeSetEvent'' [par ''CUgraphNode'' 0 ''hNode'', par ''CUevent'' 0 ''event''],
     drv ''cuGraphEventWaitNodeGetEvent'' [par ''CUgraphNode'' 0 ''hNode'', par ''CUevent'' 1 ''event_out''],
     drv ''cuGraphEventWaitNodeSetEvent'' [par ''CUgraphNode'' 0 ''hNode'', par ''CUevent'' 0 ''event''],
     drv ''cuGraphExecBatchMemOpNodeSetParams'' [par ''CUgraphExec'' 0 ''hGraphExec'', par ''CUgraphNode'' 0 ''hNode'',
        par ''const CUDA_BATCH_MEM_OP_NODE_PARAMS'' 1 ''nodeParams''],
     drv ''cuGraphExecChildGraphNodeSetParams'' [par ''CUgraphExec'' 0 ''hGraphExec'', par ''CUgraphNode'' 0 ''hNode'',
        par ''CUgraph'' 0 ''childGraph''],
     drv ''cuGraphExecDestroy'' [par ''CUgraphExec'' 0 ''hGraphExec''],
     drv ''cuGraphExecEventRecordNodeSetEvent'' [par ''CUgraphExec'' 0 ''hGraphExec'', par ''CUgraphNode'' 0 ''hNode'',
        par ''CUevent'' 0 ''event''],
     drv ''cuGraphExecEventWaitNodeSetEvent'' [par ''CUgraphExec'' 0 ''hGraphExec'', par ''CUgraphNode'' 0 ''hNode'',
        par ''CUevent'' 0 ''event''],
     drv ''cuGraphExecExternalSemaphoresSignalNodeSetParams'' [par ''CUgraphExec'' 0 ''hGraphExec'', par ''CUgraphNode'' 0 ''hNode'',
        par ''const CUDA_EXT_SEM_SIGNAL_NODE_PARAMS'' 1 ''nodeParams''],
     drv ''cuGraphExecExternalSemaphoresWaitNodeSetParams'' [par ''CUgraphExec'' 0 ''hGraphExec'', par ''CUgraphNode'' 0 ''hNode'',
        par ''const CUDA_EXT_SEM_WAIT_NODE_PARAMS'' 1 ''nodeParams''],
     drv ''cuGraphExecGetFlags'' [par ''CUgraphExec'' 0 ''hGraphExec'', par ''cuuint64_t'' 1 ''flags''],
     drv ''cuGraphExecHostNodeSetParams'' [par ''CUgraphExec'' 0 ''hGraphExec'', par ''CUgraphNode'' 0 ''hNode'',
        par ''const CUDA_HOST_NODE_PARAMS'' 1 ''nodeParams''],
     drv ''cuGraphExecKernelNodeSetParams'' [par ''CUgraphExec'' 0 ''hGraphExec'', par ''CUgraphNode'' 0 ''hNode'',
        par ''const CUDA_KERNEL_NODE_PARAMS'' 1 ''nodeParams''],
     drv ''cuGraphExecMemcpyNodeSetParams'' [par ''CUgraphExec'' 0 ''hGraphExec'', par ''CUgraphNode'' 0 ''hNode'',
        par ''const CUDA_MEMCPY3D'' 1 ''copyParams'', par ''CUcontext'' 0 ''ctx''],
     drv ''cuGraphExecMemsetNodeSetParams'' [par ''CUgraphExec'' 0 ''hGraphExec'', par ''CUgraphNode'' 0 ''hNode'',
        par ''const CUDA_MEMSET_NODE_PARAMS'' 1 ''memsetParams'', par ''CUcontext'' 0 ''ctx''],
     drv ''cuGraphExecNodeSetParams'' [par ''CUgraphExec'' 0 ''hGraphExec'', par ''CUgraphNode'' 0 ''hNode'',
        par ''CUgraphNodeParams'' 1 ''nodeParams''],
     drv ''cuGraphExecUpdate'' [par ''CUgraphExec'' 0 ''hGraphExec'', par ''CUgraph'' 0 ''hGraph'',
        par ''CUgraphExecUpdateResultInfo'' 1 ''resultInfo''],
     drv ''cuGraphExternalSemaphoresSignalNodeGetParams'' [par ''CUgraphNode'' 0 ''hNode'', par ''CUDA_EXT_SEM_SIGNAL_NODE_PARAMS'' 1 ''params_out''],
     drv ''cuGraphExternalSemaphoresSignalNodeSetParams'' [par ''CUgraphNode'' 0 ''hNode'', par ''const CUDA_EXT_SEM_SIGNAL_NODE_PARAMS'' 1 ''nodeParams''],
     drv ''cuGraphExternalSemaphoresWaitNodeGetParams'' [par ''CUgraphNode'' 0 ''hNode'', par ''CUDA_EXT_SEM_WAIT_NODE_PARAMS'' 1 ''params_out''],
     drv ''cuGraphExternalSemaphoresWaitNodeSetParams'' [par ''CUgraphNode'' 0 ''hNode'', par ''const CUDA_EXT_SEM_WAIT_NODE_PARAMS'' 1 ''nodeParams''],
     drv ''cuGraphGetEdges'' [par ''CUgraph'' 0 ''hGraph'', par ''CUgraphNode'' 1 ''from'', par ''CUgraphNode'' 1 ''to'',
        par ''size_t'' 1 ''numEdges''],
     drv ''cuGraphGetEdges_v2'' [par ''CUgraph'' 0 ''hGraph'', par ''CUgraphNode'' 1 ''from'', par ''CUgraphNode'' 1 ''to'',
        par ''CUgraphEdgeData'' 1 ''edgeData'', par ''size_t'' 1 ''numEdges''],
     drv ''cuGraphGetNodes'' [par ''CUgraph'' 0 ''hGraph'', par ''CUgraphNode'' 1 ''nodes'', par ''size_t'' 1 ''numNodes''],
     drv ''cuGraphGetRootNodes'' [par ''CUgraph'' 0 ''hGraph'', par ''CUgraphNode'' 1 ''rootNodes'',
        par ''size_t'' 1 ''numRootNodes''],
     drv ''cuGraphHostNodeGetParams'' [par ''CUgraphNode'' 0 ''hNode'', par ''CUDA_HOST_NODE_PARAMS'' 1 ''nodeParams''],
     drv ''cuGraphHostNodeSetParams'' [par ''CUgraphNode'' 0 ''hNode'', par ''const CUDA_HOST_NODE_PARAMS'' 1 ''nodeParams''],
     drv ''cuGraphInstantiate'' [par ''CUgraphExec'' 1 ''phGraphExec'', par ''CUgraph'' 0 ''hGraph'',
        par ''unsigned long long'' 0 ''flags''],
     drv ''cuGraphInstantiateWithParams'' [par ''CUgraphExec'' 1 ''phGraphExec'', par ''CUgraph'' 0 ''hGraph'',
        par ''CUDA_GRAPH_INSTANTIATE_PARAMS'' 1 ''instantiateParams''],
     drv ''cuGraphInstantiate_v2'' [par ''CUgraphExec'' 1 ''phGraphExec'', par ''CUgraph'' 0 ''hGraph'',
        par ''CUgraphNode'' 1 ''phErrorNode'', par ''char'' 1 ''logBuffer'',
        par ''size_t'' 0 ''bufferSize''],
     drv ''cuGraphKernelNodeCopyAttributes'' [par ''CUgraphNode'' 0 ''dst'', par ''CUgraphNode'' 0 ''src''],
     drv ''cuGraphKernelNodeGetAttribute'' [par ''CUgraphNode'' 0 ''hNode'', par ''CUkernelNodeAttrID'' 0 ''attr'',
        par ''CUkernelNodeAttrValue'' 1 ''value_out''],
     drv ''cuGraphKernelNodeGetParams'' [par ''CUgraphNode'' 0 ''hNode'', par ''CUDA_KERNEL_NODE_PARAMS'' 1 ''nodeParams''],
     drv ''cuGraphKernelNodeSetAttribute'' [par ''CUgraphNode'' 0 ''hNode'', par ''CUkernelNodeAttrID'' 0 ''attr'',
        par ''const CUkernelNodeAttrValue'' 1 ''value''],
     drv ''cuGraphKernelNodeSetParams'' [par ''CUgraphNode'' 0 ''hNode'', par ''const CUDA_KERNEL_NODE_PARAMS'' 1 ''nodeParams''],
     drv ''cuGraphLaunch'' [par ''CUgraphExec'' 0 ''hGraphExec'', par ''CUstream'' 0 ''hStream''],
     drv ''cuGraphMemAllocNodeGetParams'' [par ''CUgraphNode'' 0 ''hNode'', par ''CUDA_MEM_ALLOC_NODE_PARAMS'' 1 ''params_out''],
     drv ''cuGraphMemFreeNodeGetParams'' [par ''CUgraphNode'' 0 ''hNode'', par ''CUdeviceptr'' 1 ''dptr_out''],
     drv ''cuGraphMemcpyNodeGetParams'' [par ''CUgraphNode'' 0 ''hNode'', par ''CUDA_MEMCPY3D'' 1 ''nodeParams''],
     drv ''cuGraphMemcpyNodeSetParams'' [par ''CUgraphNode'' 0 ''hNode'', par ''const CUDA_MEMCPY3D'' 1 ''nodeParams''],
     drv ''cuGraphMemsetNodeGetParams'' [par ''CUgraphNode'' 0 ''hNode'', par ''CUDA_MEMSET_NODE_PARAMS'' 1 ''nodeParams''],
     drv ''cuGraphMemsetNodeSetParams'' [par ''CUgraphNode'' 0 ''hNode'', par ''const CUDA_MEMSET_NODE_PARAMS'' 1 ''nodeParams''],
     drv ''cuGraphNodeFindInClone'' [par ''CUgraphNode'' 1 ''phNode'', par ''CUgraphNode'' 0 ''hOriginalNode'',
        par ''CUgraph'' 0 ''hClonedGraph''],
     drv ''cuGraphNodeGetDependencies'' [par ''CUgraphNode'' 0 ''hNode'', par ''CUgraphNode'' 1 ''dependencies'',
        par ''size_t'' 1 ''numDependencies''],
     drv ''cuGraphNodeGetDependencies_v2'' [par ''CUgraphNode'' 0 ''hNode'', par ''CUgraphNode'' 1 ''dependencies'',
        par ''CUgraphEdgeData'' 1 ''edgeData'', par ''size_t'' 1 ''numDependencies''],
     drv ''cuGraphNodeGetDependentNodes'' [par ''CUgraphNode'' 0 ''hNode'', par ''CUgraphNode'' 1 ''dependentNodes'',
        par ''size_t'' 1 ''numDependentNodes''],
     drv ''cuGraphNodeGetDependentNodes_v2'' [par ''CUgraphNode'' 0 ''hNode'', par ''CUgraphNode'' 1 ''dependentNodes'',
        par ''CUgraphEdgeData'' 1 ''edgeData'', par ''size_t'' 1 ''numDependentNodes''],
     drv ''cuGraphNodeGetEnabled'' [par ''CUgraphExec'' 0 ''hGraphExec'', par ''CUgraphNode'' 0 ''hNode'',
        par ''unsigned int'' 1 ''isEnabled''],
     drv ''cuGraphNodeGetType'' [par ''CUgraphNode'' 0 ''hNode'', par ''CUgraphNodeType'' 1 ''type''],
     drv ''cuGraphNodeSetEnabled'' [par ''CUgraphExec'' 0 ''hGraphExec'', par ''CUgraphNode'' 0 ''hNode'',
        par ''unsigned int'' 0 ''isEnabled''],
     drv ''cuGraphNodeSetParams'' [par ''CUgraphNode'' 0 ''hNode'', par ''CUgraphNodeParams'' 1 ''nodeParams''],
     drv ''cuGraphReleaseUserObject'' [par ''CUgraph'' 0 ''graph'', par ''CUuserObject'' 0 ''object'', par ''unsigned int'' 0 ''count''],
     drv ''cuGraphRemoveDependencies'' [par ''CUgraph'' 0 ''hGraph'', par ''const CUgraphNode'' 1 ''from'',
        par ''const CUgraphNode'' 1 ''to'', par ''size_t'' 0 ''numDependencies''],
     drv ''cuGraphRemoveDependencies_v2'' [par ''CUgraph'' 0 ''hGraph'', par ''const CUgraphNode'' 1 ''from'',
        par ''const CUgraphNode'' 1 ''to'', par ''const CUgraphEdgeData'' 1 ''edgeData'',
        par ''size_t'' 0 ''numDependencies''],
     drv ''cuGraphRetainUserObject'' [par ''CUgraph'' 0 ''graph'', par ''CUuserObject'' 0 ''object'',
        par ''unsigned int'' 0 ''count'', par ''unsigned int'' 0 ''flags''],
     drv ''cuGraphUpload'' [par ''CUgraphExec'' 0 ''hGraphExec'', par ''CUstream'' 0 ''hStream''],
     drv ''cuGraphicsMapResources'' [par ''unsigned int'' 0 ''count'', par ''CUgraphicsResource'' 1 ''resources'',
        par ''CUstream'' 0 ''hStream''],
     drv ''cuGraphicsResourceGetMappedMipmappedArray'' [par ''CUmipmappedArray'' 1 ''pMipmappedArray'', par ''CUgraphicsResource'' 0 ''resource''],
     drv ''cuGraphicsResourceGetMappedPointer'' [par ''CUdeviceptr'' 1 ''pDevPtr'', par ''size_t'' 1 ''pSize'',
        par ''CUgraphicsResource'' 0 ''resource''],
     drv ''cuGraphicsResourceSetMapFlags'' [par ''CUgraphicsResource'' 0 ''resource'', par ''unsigned int'' 0 ''flags''],
     drv ''cuGraphicsSubResourceGetMappedArray'' [par ''CUarray'' 1 ''pArray'', par ''CUgraphicsResource'' 0 ''resource'',
        par ''unsigned int'' 0 ''arrayIndex'', par ''unsigned int'' 0 ''mipLevel''],
     drv ''cuGraphicsUnmapResources'' [par ''unsigned int'' 0 ''count'', par ''CUgraphicsResource'' 1 ''resources'',
        par ''CUstream'' 0 ''hStream''],
     drv ''cuGraphicsUnregisterResource'' [par ''CUgraphicsResource'' 0 ''resource''],
     drv ''cuGreenCtxCreate'' [par ''CUgreenCtx*'' 0 ''phCtx'', par ''CUdevResourceDesc'' 0 ''desc'',
        par ''CUdevice'' 0 ''dev'', par ''unsigned int'' 0 ''flags''],
     drv ''cuGreenCtxDestroy'' [par ''CUgreenCtx'' 0 ''hCtx''],
     drv ''cuGreenCtxGetDevResource'' [par ''CUgreenCtx'' 0 ''hCtx'', par ''CUdevResource*'' 0 ''resource'',
        par ''CUdevResourceType'' 0 ''type''],
     drv ''cuGreenCtxRecordEvent'' [par ''CUgreenCtx'' 0 ''hCtx'', par ''CUevent'' 0 ''hEvent''],
     drv ''cuGreenCtxStreamCreate'' [par ''CUstream*'' 0 ''phStream'', par ''CUgreenCtx'' 0 ''greenCtx'',
        par ''unsigned int'' 0 ''flags'', par ''int'' 0 ''priority''],
     drv ''cuGreenCtxWaitEvent'' [par ''CUgreenCtx'' 0 ''hCtx'', par ''CUevent'' 0 ''hEvent''],
     drv ''cuImportExternalMemory'' [par ''CUexternalMemory'' 1 ''extMem_out'',
        par ''const CUDA_EXTERNAL_MEMORY_HANDLE_DESC'' 1 ''memHandleDesc''],
     drv ''cuImportExternalSemaphore'' [par ''CUexternalSemaphore'' 1 ''extSem_out'',
        par ''const CUDA_EXTERNAL_SEMAPHORE_HANDLE_DESC'' 1 ''semHandleDesc''],
     drv ''cuIpcCloseMemHandle'' [par ''CUdeviceptr'' 0 ''dptr''],
     drv ''cuIpcGetEventHandle'' [par ''CUipcEventHandle'' 1 ''pHandle'', par ''CUevent'' 0 ''event''],
     drv ''cuIpcGetMemHandle'' [par ''CUipcMemHandle'' 1 ''pHandle'', par ''CUdeviceptr'' 0 ''dptr''],
     drv ''cuIpcOpenEventHandle'' [par ''CUevent'' 1 ''phEvent'', par ''CUipcEventHandle'' 0 ''handle''],
     drv ''cuIpcOpenMemHandle'' [par ''CUdeviceptr'' 1 ''pdptr'', par ''CUipcMemHandle'' 0 ''handle'',
        par ''unsigned int'' 0 ''Flags''],
     drv ''cuKernelGetAttribute'' [par ''int'' 1 ''pi'', par ''CUfunction_attribute'' 0 ''attrib'', par ''CUkernel'' 0 ''kernel'',
        par ''CUdevice'' 0 ''dev''],
     drv ''cuKernelGetFunction'' [par ''CUfunction'' 1 ''pFunc'', par ''CUkernel'' 0 ''kernel''],
     drv ''cuKernelGetLibrary'' [par ''CUlibrary'' 1 ''pLib'', par ''CUkernel'' 0 ''kernel''],
     drv ''cuKernelGetName'' [par ''const char'' 2 ''name'', par ''CUkernel'' 0 ''hfunc''],
     drv ''cuKernelGetParamInfo'' [par ''CUkernel'' 0 ''kernel'', par ''size_t'' 0 ''paramIndex'',
        par ''size_t'' 1 ''paramOffset'', par ''size_t'' 1 ''paramSize''],
     drv ''cuKernelSetAttribute'' [par ''CUfunction_attribute'' 0 ''attrib'', par ''int'' 0 ''val'', par ''CUkernel'' 0 ''kernel'',
        par ''CUdevice'' 0 ''dev''],
     drv ''cuKernelSetCacheConfig'' [par ''CUkernel'' 0 ''kernel'', par ''CUfunc_cache'' 0 ''config'', par ''CUdevice'' 0 ''dev''],
     drv ''cuLaunch'' [par ''CUfunction'' 0 ''f''],
     drv ''cuLaunchCooperativeKernel'' [par ''CUfunction'' 0 ''f'', par ''unsigned int'' 0 ''gridDimX'',
        par ''unsigned int'' 0 ''gridDimY'', par ''unsigned int'' 0 ''gridDimZ'',
        par ''unsigned int'' 0 ''blockDimX'', par ''unsigned int'' 0 ''blockDimY'',
        par ''unsigned int'' 0 ''blockDimZ'', par ''unsigned int'' 0 ''sharedMemBytes'',
        par ''CUstream'' 0 ''hStream'', par ''void'' 2 ''kernelParams''],
     drv ''cuLaunchCooperativeKernelMultiDevice'' [par ''CUDA_LAUNCH_PARAMS'' 1 ''launchParamsList'', par ''unsigned int'' 0 ''numDevices'',
        par ''unsigned int'' 0 ''flags''],
     drv ''cuLaunchGrid'' [par ''CUfunction'' 0 ''f'', par ''int'' 0 ''grid_width'', par ''int'' 0 ''grid_height''],
     drv ''cuLaunchGridAsync'' [par ''CUfunction'' 0 ''f'', par ''int'' 0 ''grid_width'', par ''int'' 0 ''grid_height'',
        par ''CUstream'' 0 ''hStream''],
     drv ''cuLaunchHostFunc'' [par ''CUstream'' 0 ''hStream'', par ''CUhostFn'' 0 ''fn'', par ''void'' 1 ''userData''],
     drv ''cuLaunchKernelEx'' [par ''const CUlaunchConfig'' 1 ''config'', par ''CUfunction'' 0 ''f'',
        par ''void'' 2 ''kernelParams'', par ''void'' 2 ''extra''],
     drv ''cuLibraryEnumerateKernels'' [par ''CUkernel'' 1 ''kernels'', par ''unsigned int'' 0 ''numKernels'',
        par ''CUlibrary'' 0 ''lib''],
     drv ''cuLibraryGetGlobal'' [par ''CUdeviceptr'' 1 ''dptr'', par ''size_t'' 1 ''bytes'', par ''CUlibrary'' 0 ''library'',
        par ''const char'' 1 ''name''],
     drv ''cuLibraryGetKernel'' [par ''CUkernel'' 1 ''pKernel'', par ''CUlibrary'' 0 ''library'', par ''const char'' 1 ''name''],
     drv ''cuLibraryGetKernelCount'' [par ''unsigned int'' 1 ''count'', par ''CUlibrary'' 0 ''lib''],
     drv ''cuLibraryGetManaged'' [par ''CUdeviceptr'' 1 ''dptr'', par ''size_t'' 1 ''bytes'', par ''CUlibrary'' 0 ''library'',
        par ''const char'' 1 ''name''],
     drv ''cuLibraryGetModule'' [par ''CUmodule'' 1 ''pMod'', par ''CUlibrary'' 0 ''library''],
     drv ''cuLibraryGetUnifiedFunction'' [par ''void'' 2 ''fptr'', par ''CUlibrary'' 0 ''library'', par ''const char'' 1 ''symbol''],
     drv ''cuLibraryLoadData'' [par ''CUlibrary'' 1 ''library'', par ''const void'' 1 ''code'',
        par ''CUjit_option'' 1 ''jitOptions'', par ''void'' 2 ''jitOptionsValues'',
        par ''unsigned int'' 0 ''numJitOptions'', par ''CUlibraryOption'' 1 ''libraryOptions'',
        par ''void**'' 0 ''libraryOptionValues'', par ''unsigned int'' 0 ''numLibraryOptions''],
     drv ''cuLibraryLoadFromFile'' [par ''CUlibrary'' 1 ''library'', par ''const char'' 1 ''fileName'',
        par ''CUjit_option'' 1 ''jitOptions'', par ''void'' 2 ''jitOptionsValues'',
        par ''unsigned int'' 0 ''numJitOptions'', par ''CUlibraryOption'' 1 ''libraryOptions'',
        par ''void'' 2 ''libraryOptionValues'', par ''unsigned int'' 0 ''numLibraryOptions''],
     drv ''cuLibraryUnload'' [par ''CUlibrary'' 0 ''library''],
     drv ''cuLinkAddData'' [par ''CUlinkState'' 0 ''state'', par ''CUjitInputType'' 0 ''type'', par ''void'' 1 ''data'',
        par ''size_t'' 0 ''size'', par ''const char'' 1 ''name'', par ''unsigned int'' 0 ''numOptions'',
        par ''CUjit_option'' 1 ''options'', par ''void'' 2 ''optionValues''],
     drv ''cuLinkAddFile'' [par ''CUlinkState'' 0 ''state'', par ''CUjitInputType'' 0 ''type'',
        par ''const char'' 1 ''path'', par ''unsigned int'' 0 ''numOptions'',
        par ''CUjit_option'' 1 ''options'', par ''void'' 2 ''optionValues''],
     drv ''cuLinkComplete'' [par ''CUlinkState'' 0 ''state'', par ''void'' 2 ''cubinOut'', par ''size_t'' 1 ''sizeOut''],
     drv ''cuLinkCreate'' [par ''unsigned int'' 0 ''numOptions'', par ''CUjit_option'' 1 ''options'',
        par ''void'' 2 ''optionValues'', par ''CUlinkState'' 1 ''stateOut''],
     drv ''cuLinkDestroy'' [par ''CUlinkState'' 0 ''state''],
     drv ''cuMemAddressFree'' [par ''CUdeviceptr'' 0 ''ptr'', par ''size_t'' 0 ''size''],
     drv ''cuMemAddressReserve'' [par ''CUdeviceptr'' 1 ''ptr'', par ''size_t'' 0 ''size'', par ''size_t'' 0 ''alignment'',
        par ''CUdeviceptr'' 0 ''addr'', par ''unsigned long long'' 0 ''flags''],
     drv ''cuMemAdvise'' [par ''CUdeviceptr'' 0 ''devPtr'', par ''size_t'' 0 ''count'', par ''CUmem_advise'' 0 ''advice'',
        par ''CUdevice'' 0 ''device'']]"

definition driver_prototypes_3 :: "prototype list" where
  "driver_prototypes_3 =
    [drv ''cuMemAdvise_v2'' [par ''CUdeviceptr'' 0 ''devPtr'', par ''size_t'' 0 ''count'', par ''CUmem_advise'' 0 ''advice'',
        par ''CUmemLocation'' 0 ''location''],
     drv ''cuMemAlloc'' [par ''CUdeviceptr'' 1 ''dptr'', par ''size_t'' 0 ''bytesize''],
     drv ''cuMemAllocAsync'' [par ''CUdeviceptr'' 1 ''dptr'', par ''size_t'' 0 ''bytesize'', par ''CUstream'' 0 ''hStream''],
     drv ''cuMemAllocFromPoolAsync'' [par ''CUdeviceptr'' 1 ''dptr'', par ''size_t'' 0 ''bytesize'', par ''CUmemoryPool'' 0 ''pool'',
        par ''CUstream'' 0 ''hStream''],
     drv ''cuMemAllocHost'' [par ''void'' 2 ''pp'', par ''size_t'' 0 ''bytesize''],
     drv ''cuMemAllocManaged'' [par ''CUdeviceptr'' 1 ''dptr'', par ''size_t'' 0 ''bytesize'', par ''unsigned int'' 0 ''flags''],
     drv ''cuMemAllocPitch'' [par ''CUdeviceptr'' 1 ''dptr'', par ''size_t'' 1 ''pPitch'', par ''size_t'' 0 ''WidthInBytes'',
        par ''size_t'' 0 ''Height'', par ''unsigned int'' 0 ''ElementSizeBytes''],
     blanks 1 1 (drv ''cuMemBatchDecompressAsync'' [par ''CUmemDecompressParams'' 1 ''paramsArray'', par ''size_t'' 0 ''count'',
        par ''unsigned int'' 0 ''flags'', par ''size_t'' 1 ''errorIndex'', par ''CUstream'' 0 ''stream'']),
     drv ''cuMemCreate'' [par ''CUmemGenericAllocationHandle'' 1 ''handle'', par ''size_t'' 0 ''size'',
        par ''const CUmemAllocationProp'' 1 ''prop'', par ''unsigned long long'' 0 ''flags''],
     drv ''cuMemExportToShareableHandle'' [par ''void'' 1 ''shareableHandle'', par ''CUmemGenericAllocationHandle'' 0 ''handle'',
        par ''CUmemAllocationHandleType'' 0 ''handleType'', par ''unsigned long long'' 0 ''flags''],
     drv ''cuMemFree'' [par ''CUdeviceptr'' 0 ''dptr''],
     drv ''cuMemFreeAsync'' [par ''CUdeviceptr'' 0 ''dptr'', par ''CUstream'' 0 ''hStream''],
     drv ''cuMemGetAccess'' [par ''unsigned long long'' 1 ''flags'', par ''const CUmemLocation'' 1 ''location'',
        par ''CUdeviceptr'' 0 ''ptr''],
     drv ''cuMemGetAddressRange'' [par ''CUdeviceptr'' 1 ''pbase'', par ''size_t'' 1 ''psize'', par ''CUdeviceptr'' 0 ''dptr''],
     drv ''cuMemGetAllocationGranularity'' [par ''size_t'' 1 ''granularity'', par ''const CUmemAllocationProp'' 1 ''prop'',
        par ''CUmemAllocationGranularity_flags'' 0 ''option''],
     drv ''cuMemGetAllocationPropertiesFromHandle'' [par ''CUmemAllocationProp'' 1 ''prop'', par ''CUmemGenericAllocationHandle'' 0 ''handle''],
     drv ''cuMemGetHandleForAddressRange'' [par ''void'' 1 ''handle'', par ''CUdeviceptr'' 0 ''dptr'', par ''size_t'' 0 ''size'',
        par ''CUmemRangeHandleType'' 0 ''handleType'', par ''unsigned long long'' 0 ''flags''],
     drv ''cuMemGetInfo'' [par ''size_t'' 1 ''free'', par ''size_t'' 1 ''total''],
     drv ''cuMemHostAlloc'' [par ''void'' 2 ''pp'', par ''size_t'' 0 ''bytesize'', par ''unsigned int'' 0 ''Flags''],
     drv ''cuMemHostGetDevicePointer'' [par ''CUdeviceptr'' 1 ''pdptr'', par ''void'' 1 ''p'', par ''unsigned int'' 0 ''Flags''],
     drv ''cuMemHostGetFlags'' [par ''unsigned int'' 1 ''pFlags'', par ''void'' 1 ''p''],
     drv ''cuMemHostRegister'' [par ''void'' 1 ''p'', par ''size_t'' 0 ''bytesize'', par ''unsigned int'' 0 ''Flags''],
     drv ''cuMemHostUnregister'' [par ''void'' 1 ''p''],
     drv ''cuMemImportFromShareableHandle'' [par ''CUmemGenericAllocationHandle'' 1 ''handle'', par ''void'' 1 ''osHandle'',
        par ''CUmemAllocationHandleType'' 0 ''shHandleType''],
     drv ''cuMemMap'' [par ''CUdeviceptr'' 0 ''ptr'', par ''size_t'' 0 ''size'', par ''size_t'' 0 ''offset'',
        par ''CUmemGenericAllocationHandle'' 0 ''handle'', par ''unsigned long long'' 0 ''flags''],
     drv ''cuMemMapArrayAsync'' [par ''CUarrayMapInfo'' 1 ''mapInfoList'', par ''unsigned int'' 0 ''count'',
        par ''CUstream'' 0 ''hStream''],
     drv ''cuMemPoolCreate'' [par ''CUmemoryPool'' 1 ''pool'', par ''const CUmemPoolProps'' 1 ''poolProps''],
     drv ''cuMemPoolDestroy'' [par ''CUmemoryPool'' 0 ''pool''],
     drv ''cuMemPoolExportPointer'' [par ''CUmemPoolPtrExportData'' 1 ''shareData_out'', par ''CUdeviceptr'' 0 ''ptr''],
     drv ''cuMemPoolExportToShareableHandle'' [par ''void'' 1 ''handle_out'', par ''CUmemoryPool'' 0 ''pool'',
        par ''CUmemAllocationHandleType'' 0 ''handleType'', par ''unsigned long long'' 0 ''flags''],
     drv ''cuMemPoolGetAccess'' [par ''CUmemAccess_flags'' 1 ''flags'', par ''CUmemoryPool'' 0 ''memPool'',
        par ''CUmemLocation'' 1 ''location''],
     drv ''cuMemPoolGetAttribute'' [par ''CUmemoryPool'' 0 ''pool'', par ''CUmemPool_attribute'' 0 ''attr'',
        par ''void'' 1 ''value''],
     blanks 1 0 (drv ''cuMemPoolImportFromShareableHandle'' [par ''CUmemoryPool'' 1 ''pool_out'', par ''void'' 1 ''handle'',
        par ''CUmemAllocationHandleType'' 0 ''handleType'', par ''unsigned long long'' 0 ''flags'']),
     drv ''cuMemPoolImportPointer'' [par ''CUdeviceptr'' 1 ''ptr_out'', par ''CUmemoryPool'' 0 ''pool'',
        par ''CUmemPoolPtrExportData'' 1 ''shareData''],
     drv ''cuMemPoolSetAccess'' [par ''CUmemoryPool'' 0 ''pool'', par ''const CUmemAccessDesc'' 1 ''map'',
        par ''size_t'' 0 ''count''],
     drv ''cuMemPoolSetAttribute'' [par ''CUmemoryPool'' 0 ''pool'', par ''CUmemPool_attribute'' 0 ''attr'',
        par ''void'' 1 ''value''],
     drv ''cuMemPoolTrimTo'' [par ''CUmemoryPool'' 0 ''pool'', par ''size_t'' 0 ''minBytesToKeep''],
     drv ''cuMemPrefetchAsync'' [par ''CUdeviceptr'' 0 ''devPtr'', par ''size_t'' 0 ''count'', par ''CUdevice'' 0 ''dstDevice'',
        par ''CUstream'' 0 ''hStream''],
     drv ''cuMemPrefetchAsync_v2'' [par ''CUdeviceptr'' 0 ''devPtr'', par ''size_t'' 0 ''count'',
        par ''CUmemLocation'' 0 ''location'', par ''unsigned int'' 0 ''flags'',
        par ''CUstream'' 0 ''hStream''],
     drv ''cuMemRangeGetAttribute'' [par ''void'' 1 ''data'', par ''size_t'' 0 ''dataSize'',
        par ''CUmem_range_attribute'' 0 ''attribute'', par ''CUdeviceptr'' 0 ''devPtr'',
        par ''size_t'' 0 ''count''],
     drv ''cuMemRangeGetAttributes'' [par ''void'' 2 ''data'', par ''size_t'' 1 ''dataSizes'',
        par ''CUmem_range_attribute'' 1 ''attributes'', par ''size_t'' 0 ''numAttributes'',
        par ''CUdeviceptr'' 0 ''devPtr'', par ''size_t'' 0 ''count''],
     drv ''cuMemRelease'' [par ''CUmemGenericAllocationHandle'' 0 ''handle''],
     drv ''cuMemRetainAllocationHandle'' [par ''CUmemGenericAllocationHandle'' 1 ''handle'', par ''void'' 1 ''addr''],
     drv ''cuMemSetAccess'' [par ''CUdeviceptr'' 0 ''ptr'', par ''size_t'' 0 ''size'',
        par ''const CUmemAccessDesc'' 1 ''desc'', par ''size_t'' 0 ''count''],
     drv ''cuMemUnmap'' [par ''CUdeviceptr'' 0 ''ptr'', par ''size_t'' 0 ''size''],
     drv ''cuMemcpy'' [par ''CUdeviceptr'' 0 ''dst'', par ''CUdeviceptr'' 0 ''src'', par ''size_t'' 0 ''ByteCount''],
     drv ''cuMemcpy2D'' [par ''const CUDA_MEMCPY2D'' 1 ''pCopy''],
     drv ''cuMemcpy2DAsync'' [par ''const CUDA_MEMCPY2D'' 1 ''pCopy'', par ''CUstream'' 0 ''hStream''],
     drv ''cuMemcpy2DAsync_v2'' [par ''const CUDA_MEMCPY2D'' 1 ''pCopy'', par ''CUstream'' 0 ''hStream''],
     drv ''cuMemcpy2DUnaligned'' [par ''const CUDA_MEMCPY2D'' 1 ''pCopy''],
     drv ''cuMemcpy2DUnaligned_v2'' [par ''const CUDA_MEMCPY2D'' 1 ''pCopy''],
     drv ''cuMemcpy2D_v2'' [par ''const CUDA_MEMCPY2D'' 1 ''pCopy''],
     drv ''cuMemcpy3D'' [par ''const CUDA_MEMCPY3D'' 1 ''pCopy''],
     drv ''cuMemcpy3DAsync'' [par ''const CUDA_MEMCPY3D'' 1 ''pCopy'', par ''CUstream'' 0 ''hStream''],
     drv ''cuMemcpy3DAsync_v2'' [par ''const CUDA_MEMCPY3D'' 1 ''pCopy'', par ''CUstream'' 0 ''hStream''],
     drv ''cuMemcpy3DBatchAsync'' [par ''size_t'' 0 ''numOps'', par ''CUDA_MEMCPY3D_BATCH_OP'' 1 ''opList'',
        par ''size_t'' 1 ''failIdx'', par ''unsigned long long'' 0 ''flags'',
        par ''CUstream'' 0 ''hStream''],
     drv ''cuMemcpy3DPeer'' [par ''const CUDA_MEMCPY3D_PEER'' 1 ''pCopy''],
     drv ''cuMemcpy3DPeerAsync'' [par ''const CUDA_MEMCPY3D_PEER'' 1 ''pCopy'', par ''CUstream'' 0 ''hStream''],
     drv ''cuMemcpy3D_v2'' [par ''const CUDA_MEMCPY3D'' 1 ''pCopy''],
     drv ''cuMemcpyAtoA'' [par ''CUarray'' 0 ''dstArray'', par ''size_t'' 0 ''dstOffset'', par ''CUarray'' 0 ''srcArray'',
        par ''size_t'' 0 ''srcOffset'', par ''size_t'' 0 ''ByteCount''],
     drv ''cuMemcpyAtoA_v2'' [par ''CUarray'' 0 ''dstArray'', par ''size_t'' 0 ''dstOffset'', par ''CUarray'' 0 ''srcArray'',
        par ''size_t'' 0 ''srcOffset'', par ''size_t'' 0 ''ByteCount''],
     drv ''cuMemcpyAtoD'' [par ''CUdeviceptr'' 0 ''dstDevice'', par ''CUarray'' 0 ''srcArray'',
        par ''size_t'' 0 ''srcOffset'', par ''size_t'' 0 ''ByteCount''],
     drv ''cuMemcpyAtoD_v2'' [par ''CUdeviceptr'' 0 ''dstDevice'', par ''CUarray'' 0 ''srcArray'',
        par ''size_t'' 0 ''srcOffset'', par ''size_t'' 0 ''ByteCount''],
     drv ''cuMemcpyAtoH'' [par ''void'' 1 ''dstHost'', par ''CUarray'' 0 ''srcArray'', par ''size_t'' 0 ''srcOffset'',
        par ''size_t'' 0 ''ByteCount''],
     drv ''cuMemcpyAtoHAsync'' [par ''void'' 1 ''dstHost'', par ''CUarray'' 0 ''srcArray'', par ''size_t'' 0 ''srcOffset'',
        par ''size_t'' 0 ''ByteCount'', par ''CUstream'' 0 ''hStream''],
     drv ''cuMemcpyAtoHAsync_v2'' [par ''void'' 1 ''dstHost'', par ''CUarray'' 0 ''srcArray'', par ''size_t'' 0 ''srcOffset'',
        par ''size_t'' 0 ''ByteCount'', par ''CUstream'' 0 ''hStream''],
     drv ''cuMemcpyAtoH_v2'' [par ''void'' 1 ''dstHost'', par ''CUarray'' 0 ''srcArray'', par ''size_t'' 0 ''srcOffset'',
        par ''size_t'' 0 ''ByteCount''],
     drv ''cuMemcpyBatchAsync'' [par ''CUdeviceptr'' 1 ''dsts'', par ''CUdeviceptr'' 1 ''srcs'', par ''size_t'' 1 ''sizes'',
        par ''size_t'' 0 ''count'', par ''CUmemcpyAttributes'' 1 ''attrs'',
        par ''size_t'' 1 ''attrsIdxs'', par ''size_t'' 0 ''numAttrs'', par ''size_t'' 1 ''failIdx'',
        par ''CUstream'' 0 ''hStream''],
     drv ''cuMemcpyDtoA'' [par ''CUarray'' 0 ''dstArray'', par ''size_t'' 0 ''dstOffset'',
        par ''CUdeviceptr'' 0 ''srcDevice'', par ''size_t'' 0 ''ByteCount''],
     drv ''cuMemcpyDtoA_v2'' [par ''CUarray'' 0 ''dstArray'', par ''size_t'' 0 ''dstOffset'',
        par ''CUdeviceptr'' 0 ''srcDevice'', par ''size_t'' 0 ''ByteCount''],
     drv ''cuMemcpyDtoD'' [par ''CUdeviceptr'' 0 ''dstDevice'', par ''CUdeviceptr'' 0 ''srcDevice'',
        par ''size_t'' 0 ''ByteCount''],
     drv ''cuMemcpyDtoDAsync'' [par ''CUdeviceptr'' 0 ''dstDevice'', par ''CUdeviceptr'' 0 ''srcDevice'',
        par ''size_t'' 0 ''ByteCount'', par ''CUstream'' 0 ''hStream''],
     drv ''cuMemcpyDtoDAsync_v2'' [par ''CUdeviceptr'' 0 ''dstDevice'', par ''CUdeviceptr'' 0 ''srcDevice'',
        par ''size_t'' 0 ''ByteCount'', par ''CUstream'' 0 ''hStream''],
     drv ''cuMemcpyDtoD_v2'' [par ''CUdeviceptr'' 0 ''dstDevice'', par ''CUdeviceptr'' 0 ''srcDevice'',
        par ''size_t'' 0 ''ByteCount''],
     drv ''cuMemcpyDtoH'' [par ''void'' 1 ''dstHost'', par ''CUdeviceptr'' 0 ''srcDevice'', par ''size_t'' 0 ''ByteCount''],
     drv ''cuMemcpyHtoA'' [par ''CUarray'' 0 ''dstArray'', par ''size_t'' 0 ''dstOffset'',
        par ''const void'' 1 ''srcHost'', par ''size_t'' 0 ''ByteCount''],
     drv ''cuMemcpyHtoAAsync'' [par ''CUarray'' 0 ''dstArray'', par ''size_t'' 0 ''dstOffset'',
        par ''const void'' 1 ''srcHost'', par ''size_t'' 0 ''ByteCount'', par ''CUstream'' 0 ''hStream''],
     drv ''cuMemcpyHtoAAsync_v2'' [par ''CUarray'' 0 ''dstArray'', par ''size_t'' 0 ''dstOffset'',
        par ''const void'' 1 ''srcHost'', par ''size_t'' 0 ''ByteCount'', par ''CUstream'' 0 ''hStream''],
     drv ''cuMemcpyHtoA_v2'' [par ''CUarray'' 0 ''dstArray'', par ''size_t'' 0 ''dstOffset'',
        par ''const void'' 1 ''srcHost'', par ''size_t'' 0 ''ByteCount''],
     drv ''cuMemcpyHtoD'' [par ''CUdeviceptr'' 0 ''dstDevice'', par ''const void'' 1 ''srcHost'',
        par ''size_t'' 0 ''ByteCount''],
     drv ''cuMemcpyPeer'' [par ''CUdeviceptr'' 0 ''dstDevice'', par ''CUcontext'' 0 ''dstContext'',
        par ''CUdeviceptr'' 0 ''srcDevice'', par ''CUcontext'' 0 ''srcContext'',
        par ''size_t'' 0 ''ByteCount''],
     drv ''cuMemcpyPeerAsync'' [par ''CUdeviceptr'' 0 ''dstDevice'', par ''CUcontext'' 0 ''dstContext'',
        par ''CUdeviceptr'' 0 ''srcDevice'', par ''CUcontext'' 0 ''srcContext'',
        par ''size_t'' 0 ''ByteCount'', par ''CUstream'' 0 ''hStream''],
     drv ''cuMemsetD16'' [par ''CUdeviceptr'' 0 ''dstDevice'', par ''unsigned short'' 0 ''us'', par ''size_t'' 0 ''N''],
     drv ''cuMemsetD16Async'' [par ''CUdeviceptr'' 0 ''dstDevice'', par ''unsigned short'' 0 ''us'', par ''size_t'' 0 ''N'',
        par ''CUstream'' 0 ''hStream''],
     drv ''cuMemsetD16_v2'' [par ''CUdeviceptr'' 0 ''dstDevice'', par ''unsigned short'' 0 ''us'', par ''size_t'' 0 ''N''],
     drv ''cuMemsetD2D16'' [par ''CUdeviceptr'' 0 ''dstDevice'', par ''size_t'' 0 ''dstPitch'',
        par ''unsigned short'' 0 ''us'', par ''size_t'' 0 ''Width'', par ''size_t'' 0 ''Height''],
     drv ''cuMemsetD2D16Async'' [par ''CUdeviceptr'' 0 ''dstDevice'', par ''size_t'' 0 ''dstPitch'',
        par ''unsigned short'' 0 ''us'', par ''size_t'' 0 ''Width'', par ''size_t'' 0 ''Height'',
        par ''CUstream'' 0 ''hStream''],
     drv ''cuMemsetD2D16_v2'' [par ''CUdeviceptr'' 0 ''dstDevice'', par ''size_t'' 0 ''dstPitch'',
        par ''unsigned short'' 0 ''us'', par ''size_t'' 0 ''Width'', par ''size_t'' 0 ''Height''],
     drv ''cuMemsetD2D32'' [par ''CUdeviceptr'' 0 ''dstDevice'', par ''size_t'' 0 ''dstPitch'',
        par ''unsigned int'' 0 ''ui'', par ''size_t'' 0 ''Width'', par ''size_t'' 0 ''Height''],
     drv ''cuMemsetD2D32Async'' [par ''CUdeviceptr'' 0 ''dstDevice'', par ''size_t'' 0 ''dstPitch'',
        par ''unsigned int'' 0 ''ui'', par ''size_t'' 0 ''Width'', par ''size_t'' 0 ''Height'',
        par ''CUstream'' 0 ''hStream''],
     drv ''cuMemsetD2D32_v2'' [par ''CUdeviceptr'' 0 ''dstDevice'', par ''size_t'' 0 ''dstPitch'',
        par ''unsigned int'' 0 ''ui'', par ''size_t'' 0 ''Width'', par ''size_t'' 0 ''Height''],
     drv ''cuMemsetD2D8'' [par ''CUdeviceptr'' 0 ''dstDevice'', par ''size_t'' 0 ''dstPitch'',
        par ''unsigned char'' 0 ''uc'', par ''size_t'' 0 ''Width'', par ''size_t'' 0 ''Height''],
     drv ''cuMemsetD2D8Async'' [par ''CUdeviceptr'' 0 ''dstDevice'', par ''size_t'' 0 ''dstPitch'',
        par ''unsigned char'' 0 ''uc'', par ''size_t'' 0 ''Width'', par ''size_t'' 0 ''Height'',
        par ''CUstream'' 0 ''hStream''],
     drv ''cuMemsetD2D8_v2'' [par ''CUdeviceptr'' 0 ''dstDevice'', par ''size_t'' 0 ''dstPitch'',
        par ''unsigned char'' 0 ''uc'', par ''size_t'' 0 ''Width'', par ''size_t'' 0 ''Height''],
     drv ''cuMemsetD32'' [par ''CUdeviceptr'' 0 ''dstDevice'', par ''unsigned int'' 0 ''ui'', par ''size_t'' 0 ''N''],
     drv ''cuMemsetD32Async'' [par ''CUdeviceptr'' 0 ''dstDevice'', par ''unsigned int'' 0 ''ui'', par ''size_t'' 0 ''N'',
        par ''CUstream'' 0 ''hStream''],
     drv ''cuMemsetD32_v2'' [par ''CUdeviceptr'' 0 ''dstDevice'', par ''unsigned int'' 0 ''ui'', par ''size_t'' 0 ''N''],
     drv ''cuMemsetD8'' [par ''CUdeviceptr'' 0 ''dstDevice'', par ''unsigned char'' 0 ''uc'', par ''size_t'' 0 ''N''],
     drv ''cuMemsetD8Async'' [par ''CUdeviceptr'' 0 ''dstDevice'', par ''unsigned char'' 0 ''uc'', par ''size_t'' 0 ''N'',
        par ''CUstream'' 0 ''hStream''],
     drv ''cuMemsetD8_v2'' [par ''CUdeviceptr'' 0 ''dstDevice'', par ''unsigned char'' 0 ''uc'', par ''size_t'' 0 ''N''],
     drv ''cuMipmappedArrayCreate'' [par ''CUmipmappedArray'' 1 ''pHandle'',
        par ''const CUDA_ARRAY3D_DESCRIPTOR'' 1 ''pMipmappedArrayDesc'',
        par ''unsigned int'' 0 ''numMipmapLevels''],
     drv ''cuMipmappedArrayDestroy'' [par ''CUmipmappedArray'' 0 ''hMipmappedArray''],
     drv ''cuMipmappedArrayGetLevel'' [par ''CUarray'' 1 ''pLevelArray'', par ''CUmipmappedArray'' 0 ''hMipmappedArray'',
        par ''unsigned int'' 0 ''level''],
     drv ''cuMipmappedArrayGetMemoryRequirements'' [par ''CUDA_ARRAY_MEMORY_REQUIREMENTS'' 1 ''memoryRequirements'',
        par ''CUmipmappedArray'' 0 ''mipmap'', par ''CUdevice'' 0 ''device''],
     drv ''cuMipmappedArrayGetSparseProperties'' [par ''CUDA_ARRAY_SPARSE_PROPERTIES'' 1 ''sparseProperties'',
        par ''CUmipmappedArray'' 0 ''mipmap''],
     drv ''cuModuleEnumerateFunctions'' [par ''CUfunction'' 1 ''functions'', par ''unsigned int'' 0 ''numFunctions'',
        par ''CUmodule'' 0 ''mod''],
     drv ''cuModuleGetFunctionCount'' [par ''unsigned int'' 1 ''count'', par ''CUmodule'' 0 ''mod''],
     drv ''cuModuleGetGlobal'' [par ''CUdeviceptr'' 1 ''dptr'', par ''size_t'' 1 ''bytes'', par ''CUmodule'' 0 ''hmod'',
        par ''const char'' 1 ''name''],
     drv ''cuModuleGetLoadingMode'' [par ''CUmoduleLoadingMode'' 1 ''mode''],
     drv ''cuModuleGetSurfRef'' [par ''CUsurfref'' 1 ''pSurfRef'', par ''CUmodule'' 0 ''hmod'', par ''const char'' 1 ''name''],
     drv ''cuModuleGetTexRef'' [par ''CUtexref'' 1 ''pTexRef'', par ''CUmodule'' 0 ''hmod'', par ''const char'' 1 ''name''],
     drv ''cuModuleLoadData'' [par ''CUmodule'' 1 ''module'', par ''const void'' 1 ''image''],
     drv ''cuModuleLoadDataEx'' [par ''CUmodule'' 1 ''module'', par ''const void'' 1 ''image'',
        par ''unsigned int'' 0 ''numOptions'', par ''CUjit_option'' 1 ''options'',
        par ''void'' 2 ''optionValues'']]"

definition driver_prototypes_4 :: "prototype list" where
  "driver_prototypes_4 =
    [drv ''cuModuleLoadFatBinary'' [par ''CUmodule'' 1 ''module'', par ''const void'' 1 ''fatCubin''],
     drv ''cuMulticastAddDevice'' [par ''CUmemGenericAllocationHandle'' 0 ''mcHandle'', par ''CUdevice'' 0 ''dev''],
     drv ''cuMulticastBindAddr'' [par ''CUmemGenericAllocationHandle'' 0 ''mcHandle'', par ''size_t'' 0 ''mcOffset'',
        par ''CUdeviceptr'' 0 ''memptr'', par ''size_t'' 0 ''size'',
        par ''unsigned long long'' 0 ''flags''],
     drv ''cuMulticastBindMem'' [par ''CUmemGenericAllocationHandle'' 0 ''mcHandle'', par ''size_t'' 0 ''mcOffset'',
        par ''CUmemGenericAllocationHandle'' 0 ''memHandle'', par ''size_t'' 0 ''memOffset'',
        par ''size_t'' 0 ''size'', par ''unsigned long long'' 0 ''flags''],
     drv ''cuMulticastCreate'' [par ''CUmemGenericAllocationHandle'' 1 ''mcHandle'',
        par ''const CUmulticastObjectProp'' 1 ''prop''],
     drv ''cuMulticastGetGranularity'' [par ''size_t'' 1 ''granularity'', par ''const CUmulticastObjectProp'' 1 ''prop'',
        par ''CUmulticastGranularity_flags'' 0 ''option''],
     drv ''cuMulticastUnbind'' [par ''CUmemGenericAllocationHandle'' 0 ''mcHandle'', par ''CUdevice'' 0 ''dev'',
        par ''size_t'' 0 ''mcOffset'', par ''size_t'' 0 ''size''],
     drv ''cuOccupancyAvailableDynamicSMemPerBlock'' [par ''size_t'' 1 ''dynamicSmemSize'', par ''CUfunction'' 0 ''func'',
        par ''int'' 0 ''numBlocks'', par ''int'' 0 ''blockSize''],
     drv ''cuOccupancyMaxActiveBlocksPerMultiprocessor'' [par ''int'' 1 ''numBlocks'', par ''CUfunction'' 0 ''func'', par ''int'' 0 ''blockSize'',
        par ''size_t'' 0 ''dynamicSMemSize''],
     drv ''cuOccupancyMaxActiveBlocksPerMultiprocessorWithFlags'' [par ''int'' 1 ''numBlocks'', par ''CUfunction'' 0 ''func'', par ''int'' 0 ''blockSize'',
        par ''size_t'' 0 ''dynamicSMemSize'', par ''unsigned int'' 0 ''flags''],
     drv ''cuOccupancyMaxActiveClusters'' [par ''int'' 1 ''numClusters'', par ''CUfunction'' 0 ''func'',
        par ''const CUlaunchConfig'' 1 ''config''],
     drv ''cuOccupancyMaxPotentialBlockSize'' [par ''int'' 1 ''minGridSize'', par ''int'' 1 ''blockSize'', par ''CUfunction'' 0 ''func'',
        par ''CUoccupancyB2DSize'' 0 ''blockSizeToDynamicSMemSize'',
        par ''size_t'' 0 ''dynamicSMemSize'', par ''int'' 0 ''blockSizeLimit''],
     drv ''cuOccupancyMaxPotentialBlockSizeWithFlags'' [par ''int'' 1 ''minGridSize'', par ''int'' 1 ''blockSize'', par ''CUfunction'' 0 ''func'',
        par ''CUoccupancyB2DSize'' 0 ''blockSizeToDynamicSMemSize'',
        par ''size_t'' 0 ''dynamicSMemSize'', par ''int'' 0 ''blockSizeLimit'',
        par ''unsigned int'' 0 ''flags''],
     drv ''cuOccupancyMaxPotentialClusterSize'' [par ''int'' 1 ''clusterSize'', par ''CUfunction'' 0 ''func'',
        par ''const CUlaunchConfig'' 1 ''config''],
     drv ''cuParamSetSize'' [par ''CUfunction'' 0 ''hfunc'', par ''unsigned int'' 0 ''numbytes''],
     drv ''cuParamSetTexRef'' [par ''CUfunction'' 0 ''hfunc'', par ''int'' 0 ''texunit'', par ''CUtexref'' 0 ''hTexRef''],
     drv ''cuParamSetf'' [par ''CUfunction'' 0 ''hfunc'', par ''int'' 0 ''offset'', par ''float'' 0 ''value''],
     drv ''cuParamSeti'' [par ''CUfunction'' 0 ''hfunc'', par ''int'' 0 ''offset'', par ''unsigned int'' 0 ''value''],
     drv ''cuParamSetv'' [par ''CUfunction'' 0 ''hfunc'', par ''int'' 0 ''offset'', par ''void'' 1 ''ptr'',
        par ''unsigned int'' 0 ''numbytes''],
     drv ''cuPointerGetAttribute'' [par ''void'' 1 ''data'', par ''CUpointer_attribute'' 0 ''attribute'',
        par ''CUdeviceptr'' 0 ''ptr''],
     drv ''cuPointerGetAttributes'' [par ''unsigned int'' 0 ''numAttributes'', par ''CUpointer_attribute'' 1 ''attributes'',
        par ''void'' 2 ''data'', par ''CUdeviceptr'' 0 ''ptr''],
     drv ''cuPointerSetAttribute'' [par ''const void'' 1 ''value'', par ''CUpointer_attribute'' 0 ''attribute'',
        par ''CUdeviceptr'' 0 ''ptr''],
     drv ''cuSignalExternalSemaphoresAsync'' [par ''const CUexternalSemaphore'' 1 ''extSemArray'',
        par ''const CUDA_EXTERNAL_SEMAPHORE_SIGNAL_PARAMS'' 1 ''paramsArray'',
        par ''unsigned int'' 0 ''numExtSems'', par ''CUstream'' 0 ''stream''],
     drv ''cuStreamAddCallback'' [par ''CUstream'' 0 ''hStream'', par ''CUstreamCallback'' 0 ''callback'',
        par ''void'' 1 ''userData'', par ''unsigned int'' 0 ''flags''],
     drv ''cuStreamAttachMemAsync'' [par ''CUstream'' 0 ''hStream'', par ''CUdeviceptr'' 0 ''dptr'', par ''size_t'' 0 ''length'',
        par ''unsigned int'' 0 ''flags''],
     drv ''cuStreamBatchMemOp'' [par ''CUstream'' 0 ''stream'', par ''unsigned int'' 0 ''count'',
        par ''CUstreamBatchMemOpParams'' 1 ''paramArray'', par ''unsigned int'' 0 ''flags''],
     drv ''cuStreamBatchMemOp_ptsz'' [par ''CUstream'' 0 ''stream'', par ''unsigned int'' 0 ''count'',
        par ''CUstreamBatchMemOpParams'' 1 ''paramArray'', par ''unsigned int'' 0 ''flags''],
     drv ''cuStreamBatchMemOp_v2'' [par ''CUstream'' 0 ''stream'', par ''unsigned int'' 0 ''count'',
        par ''CUstreamBatchMemOpParams'' 1 ''paramArray'', par ''unsigned int'' 0 ''flags''],
     drv ''cuStreamBeginCapture'' [par ''CUstream'' 0 ''hStream'', par ''CUstreamCaptureMode'' 0 ''mode''],
     drv ''cuStreamBeginCaptureToGraph'' [par ''CUstream'' 0 ''hStream'', par ''CUgraph'' 0 ''hGraph'',
        par ''const CUgraphNode'' 1 ''dependencies'',
        par ''const CUgraphEdgeData'' 1 ''dependencyData'', par ''size_t'' 0 ''numDependencies'',
        par ''CUstreamCaptureMode'' 0 ''mode''],
     drv ''cuStreamBeginCapture_ptsz'' [par ''CUstream'' 0 ''hStream''],
     drv ''cuStreamBeginCapture_v2'' [par ''CUstream'' 0 ''hStream'', par ''CUstreamCaptureMode'' 0 ''mode''],
     drv ''cuStreamCopyAttributes'' [par ''CUstream'' 0 ''dst'', par ''CUstream'' 0 ''src''],
     drv ''cuStreamEndCapture'' [par ''CUstream'' 0 ''hStream'', par ''CUgraph'' 1 ''phGraph''],
     drv ''cuStreamGetAttribute'' [par ''CUstream'' 0 ''hStream'', par ''CUstreamAttrID'' 0 ''attr'',
        par ''CUstreamAttrValue'' 1 ''value_out''],
     drv ''cuStreamGetCaptureInfo'' [par ''CUstream'' 0 ''hStream'', par ''CUstreamCaptureStatus'' 1 ''captureStatus_out'',
        par ''cuuint64_t'' 1 ''id_out'', par ''CUgraph'' 1 ''graph_out'',
        par ''const CUgraphNode'' 2 ''dependencies_out'', par ''size_t'' 1 ''numDependencies_out''],
     drv ''cuStreamGetCaptureInfo_ptsz'' [par ''CUstream'' 0 ''hStream'', par ''CUstreamCaptureStatus'' 1 ''captureStatus_out'',
        par ''cuuint64_t'' 1 ''id_out''],
     drv ''cuStreamGetCaptureInfo_v2'' [par ''CUstream'' 0 ''hStream'', par ''CUstreamCaptureStatus'' 1 ''captureStatus_out'',
        par ''cuuint64_t'' 1 ''id_out'', par ''CUgraph'' 1 ''graph_out'',
        par ''const CUgraphNode'' 2 ''dependencies_out'', par ''size_t'' 1 ''numDependencies_out''],
     drv ''cuStreamGetCaptureInfo_v3'' [par ''CUstream'' 0 ''hStream'', par ''CUstreamCaptureStatus'' 1 ''captureStatus_out'',
        par ''cuuint64_t'' 1 ''id_out'', par ''CUgraph'' 1 ''graph_out'',
        par ''const CUgraphNode'' 2 ''dependencies_out'',
        par ''const CUgraphEdgeData'' 2 ''edgeData_out'', par ''size_t'' 1 ''numDependencies_out''],
     drv ''cuStreamGetCtx'' [par ''CUstream'' 0 ''hStream'', par ''CUcontext'' 1 ''pctx''],
     drv ''cuStreamGetCtx_v2'' [par ''CUstream'' 0 ''hStream'', par ''CUcontext'' 1 ''pCtx'', par ''CUgreenCtx'' 1 ''pGreenCtx''],
     drv ''cuStreamGetDevice'' [par ''CUstream'' 0 ''hStream'', par ''CUdevice'' 1 ''device''],
     drv ''cuStreamGetFlags'' [par ''CUstream'' 0 ''hStream'', par ''unsigned int'' 1 ''flags''],
     drv ''cuStreamGetGreenCtx'' [par ''CUstream'' 0 ''hStream'', par ''CUgreenCtx'' 1 ''phCtx''],
     drv ''cuStreamGetId'' [par ''CUstream'' 0 ''hStream'', par ''unsigned long long'' 1 ''streamId''],
     drv ''cuStreamGetPriority'' [par ''CUstream'' 0 ''hStream'', par ''int'' 1 ''priority''],
     drv ''cuStreamIsCapturing'' [par ''CUstream'' 0 ''hStream'', par ''CUstreamCaptureStatus'' 1 ''captureStatus''],
     drv ''cuStreamQuery'' [par ''CUstream'' 0 ''hStream''],
     drv ''cuStreamSetAttribute'' [par ''CUstream'' 0 ''hStream'', par ''CUstreamAttrID'' 0 ''attr'',
        par ''const CUstreamAttrValue'' 1 ''value''],
     drv ''cuStreamSynchronize'' [par ''CUstream'' 0 ''hStream''],
     drv ''cuStreamUpdateCaptureDependencies'' [par ''CUstream'' 0 ''hStream'', par ''CUgraphNode'' 1 ''dependencies'',
        par ''size_t'' 0 ''numDependencies'', par ''unsigned int'' 0 ''flags''],
     drv ''cuStreamUpdateCaptureDependencies_v2'' [par ''CUstream'' 0 ''hStream'', par ''CUgraphNode'' 1 ''dependencies'',
        par ''const CUgraphEdgeData'' 1 ''dependencyData'', par ''size_t'' 0 ''numDependencies'',
        par ''unsigned int'' 0 ''flags''],
     drv ''cuStreamWaitEvent'' [par ''CUstream'' 0 ''hStream'', par ''CUevent'' 0 ''hEvent'', par ''unsigned int'' 0 ''Flags''],
     drv ''cuStreamWaitValue32'' [par ''CUstream'' 0 ''stream'', par ''CUdeviceptr'' 0 ''addr'', par ''cuuint32_t'' 0 ''value'',
        par ''unsigned int'' 0 ''flags''],
     drv ''cuStreamWaitValue32_ptsz'' [par ''CUstream'' 0 ''stream'', par ''CUdeviceptr'' 0 ''addr'', par ''cuuint32_t'' 0 ''value'',
        par ''unsigned int'' 0 ''flags''],
     drv ''cuStreamWaitValue32_v2'' [par ''CUstream'' 0 ''stream'', par ''CUdeviceptr'' 0 ''addr'', par ''cuuint32_t'' 0 ''value'',
        par ''unsigned int'' 0 ''flags''],
     drv ''cuStreamWaitValue64'' [par ''CUstream'' 0 ''stream'', par ''CUdeviceptr'' 0 ''addr'', par ''cuuint64_t'' 0 ''value'',
        par ''unsigned int'' 0 ''flags''],
     drv ''cuStreamWaitValue64_ptsz'' [par ''CUstream'' 0 ''stream'', par ''CUdeviceptr'' 0 ''addr'', par ''cuuint64_t'' 0 ''value'',
        par ''unsigned int'' 0 ''flags''],
     drv ''cuStreamWaitValue64_v2'' [par ''CUstream'' 0 ''stream'', par ''CUdeviceptr'' 0 ''addr'', par ''cuuint64_t'' 0 ''value'',
        par ''unsigned int'' 0 ''flags''],
     drv ''cuStreamWriteValue32'' [par ''CUstream'' 0 ''stream'', par ''CUdeviceptr'' 0 ''addr'', par ''cuuint32_t'' 0 ''value'',
        par ''unsigned int'' 0 ''flags''],
     drv ''cuStreamWriteValue32_ptsz'' [par ''CUstream'' 0 ''stream'', par ''CUdeviceptr'' 0 ''addr'', par ''cuuint32_t'' 0 ''value'',
        par ''unsigned int'' 0 ''flags''],
     drv ''cuStreamWriteValue32_v2'' [par ''CUstream'' 0 ''stream'', par ''CUdeviceptr'' 0 ''addr'', par ''cuuint32_t'' 0 ''value'',
        par ''unsigned int'' 0 ''flags''],
     drv ''cuStreamWriteValue64'' [par ''CUstream'' 0 ''stream'', par ''CUdeviceptr'' 0 ''addr'', par ''cuuint64_t'' 0 ''value'',
        par ''unsigned int'' 0 ''flags''],
     drv ''cuStreamWriteValue64_ptsz'' [par ''CUstream'' 0 ''stream'', par ''CUdeviceptr'' 0 ''addr'', par ''cuuint64_t'' 0 ''value'',
        par ''unsigned int'' 0 ''flags''],
     drv ''cuStreamWriteValue64_v2'' [par ''CUstream'' 0 ''stream'', par ''CUdeviceptr'' 0 ''addr'', par ''cuuint64_t'' 0 ''value'',
        par ''unsigned int'' 0 ''flags''],
     drv ''cuSurfObjectCreate'' [par ''CUsurfObject'' 1 ''pSurfObject'', par ''const CUDA_RESOURCE_DESC'' 1 ''pResDesc''],
     drv ''cuSurfObjectDestroy'' [par ''CUsurfObject'' 0 ''surfObject''],
     drv ''cuSurfObjectGetResourceDesc'' [par ''CUDA_RESOURCE_DESC'' 1 ''pResDesc'', par ''CUsurfObject'' 0 ''surfObject''],
     drv ''cuSurfRefGetArray'' [par ''CUarray'' 1 ''phArray'', par ''CUsurfref'' 0 ''hSurfRef''],
     drv ''cuSurfRefSetArray'' [par ''CUsurfref'' 0 ''hSurfRef'', par ''CUarray'' 0 ''hArray'', par ''unsigned int'' 0 ''Flags''],
     drv ''cuTensorMapEncodeIm2col'' [par ''CUtensorMap'' 1 ''tensorMap'', par ''CUtensorMapDataType'' 0 ''tensorDataType'',
        par ''cuuint32_t'' 0 ''tensorRank'', par ''void'' 1 ''globalAddress'',
        par ''const cuuint64_t'' 1 ''globalDim'', par ''const cuuint64_t'' 1 ''globalStrides'',
        par ''const int'' 1 ''pixelBoxLowerCorner'', par ''const int'' 1 ''pixelBoxUpperCorner'',
        par ''cuuint32_t'' 0 ''channelsPerPixel'', par ''cuuint32_t'' 0 ''pixelsPerColumn'',
        par ''const cuuint32_t'' 1 ''elementStrides'', par ''CUtensorMapInterleave'' 0 ''interleave'',
        par ''CUtensorMapSwizzle'' 0 ''swizzle'', par ''CUtensorMapL2promotion'' 0 ''l2Promotion'',
        par ''CUtensorMapFloatOOBfill'' 0 ''oobFill''],
     drv ''cuTensorMapEncodeIm2colWide'' [par ''CUtensorMap'' 1 ''tensorMap'', par ''CUtensorMapDataType'' 0 ''tensorDataType'',
        par ''cuuint32_t'' 0 ''tensorRank'', par ''void'' 1 ''globalAddress'',
        par ''const cuuint64_t'' 1 ''globalDim'', par ''const cuuint64_t'' 1 ''globalStrides'',
        par ''int'' 0 ''pixelBoxLowerCornerWidth'', par ''int'' 0 ''pixelBoxUpperCornerWidth'',
        par ''cuuint32_t'' 0 ''channelsPerPixel'', par ''cuuint32_t'' 0 ''pixelsPerColumn'',
        par ''const cuuint32_t'' 1 ''elementStrides'', par ''CUtensorMapInterleave'' 0 ''interleave'',
        par ''CUtensorMapIm2ColWideMode'' 0 ''mode'', par ''CUtensorMapSwizzle'' 0 ''swizzle'',
        par ''CUtensorMapL2promotion'' 0 ''l2Promotion'', par ''CUtensorMapFloatOOBfill'' 0 ''oobFill''],
     drv ''cuTensorMapEncodeTiled'' [par ''CUtensorMap'' 1 ''tensorMap'', par ''CUtensorMapDataType'' 0 ''tensorDataType'',
        par ''cuuint32_t'' 0 ''tensorRank'', par ''void'' 1 ''globalAddress'',
        par ''const cuuint64_t'' 1 ''globalDim'', par ''const cuuint64_t'' 1 ''globalStrides'',
        par ''const cuuint32_t'' 1 ''boxDim'', par ''const cuuint32_t'' 1 ''elementStrides'',
        par ''CUtensorMapInterleave'' 0 ''interleave'', par ''CUtensorMapSwizzle'' 0 ''swizzle'',
        par ''CUtensorMapL2promotion'' 0 ''l2Promotion'', par ''CUtensorMapFloatOOBfill'' 0 ''oobFill''],
     drv ''cuTensorMapReplaceAddress'' [par ''CUtensorMap'' 1 ''tensorMap'', par ''void'' 1 ''globalAddress''],
     drv ''cuTexObjectCreate'' [par ''CUtexObject'' 1 ''pTexObject'', par ''const CUDA_RESOURCE_DESC'' 1 ''pResDesc'',
        par ''const CUDA_TEXTURE_DESC'' 1 ''pTexDesc'',
        par ''const CUDA_RESOURCE_VIEW_DESC'' 1 ''pResViewDesc''],
     drv ''cuTexObjectDestroy'' [par ''CUtexObject'' 0 ''texObject''],
     drv ''cuTexObjectGetResourceDesc'' [par ''CUDA_RESOURCE_DESC'' 1 ''pResDesc'', par ''CUtexObject'' 0 ''texObject''],
     drv ''cuTexObjectGetResourceViewDesc'' [par ''CUDA_RESOURCE_VIEW_DESC'' 1 ''pResViewDesc'', par ''CUtexObject'' 0 ''texObject''],
     drv ''cuTexObjectGetTextureDesc'' [par ''CUDA_TEXTURE_DESC'' 1 ''pTexDesc'', par ''CUtexObject'' 0 ''texObject''],
     drv ''cuTexRefCreate'' [par ''CUtexref'' 1 ''pTexRef''],
     drv ''cuTexRefDestroy'' [par ''CUtexref'' 0 ''hTexRef''],
     drv ''cuTexRefGetAddress'' [par ''CUdeviceptr'' 1 ''pdptr'', par ''CUtexref'' 0 ''hTexRef''],
     drv ''cuTexRefGetAddressMode'' [par ''CUaddress_mode'' 1 ''pam'', par ''CUtexref'' 0 ''hTexRef'', par ''int'' 0 ''dim''],
     drv ''cuTexRefGetArray'' [par ''CUarray'' 1 ''phArray'', par ''CUtexref'' 0 ''hTexRef''],
     drv ''cuTexRefGetBorderColor'' [par ''float'' 1 ''pBorderColor'', par ''CUtexref'' 0 ''hTexRef''],
     drv ''cuTexRefGetFilterMode'' [par ''CUfilter_mode'' 1 ''pfm'', par ''CUtexref'' 0 ''hTexRef''],
     drv ''cuTexRefGetFlags'' [par ''unsigned int'' 1 ''pFlags'', par ''CUtexref'' 0 ''hTexRef''],
     drv ''cuTexRefGetFormat'' [par ''CUarray_format'' 1 ''pFormat'', par ''int'' 1 ''pNumChannels'',
        par ''CUtexref'' 0 ''hTexRef''],
     drv ''cuTexRefGetMaxAnisotropy'' [par ''int'' 1 ''pmaxAniso'', par ''CUtexref'' 0 ''hTexRef''],
     drv ''cuTexRefGetMipmapFilterMode'' [par ''CUfilter_mode'' 1 ''pfm'', par ''CUtexref'' 0 ''hTexRef''],
     drv ''cuTexRefGetMipmapLevelBias'' [par ''float'' 1 ''pbias'', par ''CUtexref'' 0 ''hTexRef''],
     drv ''cuTexRefGetMipmapLevelClamp'' [par ''float'' 1 ''pminMipmapLevelClamp'', par ''float'' 1 ''pmaxMipmapLevelClamp'',
        par ''CUtexref'' 0 ''hTexRef''],
     drv ''cuTexRefGetMipmappedArray'' [par ''CUmipmappedArray'' 1 ''phMipmappedArray'', par ''CUtexref'' 0 ''hTexRef''],
     drv ''cuTexRefSetAddress'' [par ''size_t'' 1 ''ByteOffset'', par ''CUtexref'' 0 ''hTexRef'', par ''CUdeviceptr'' 0 ''dptr'',
        par ''size_t'' 0 ''bytes''],
     drv ''cuTexRefSetAddress2D'' [par ''CUtexref'' 0 ''hTexRef'', par ''const CUDA_ARRAY_DESCRIPTOR'' 1 ''desc'',
        par ''CUdeviceptr'' 0 ''dptr'', par ''size_t'' 0 ''Pitch''],
     drv ''cuTexRefSetAddress2D_v2'' [par ''CUtexref'' 0 ''hTexRef'', par ''const CUDA_ARRAY_DESCRIPTOR'' 1 ''desc'',
        par ''CUdeviceptr'' 0 ''dptr'', par ''size_t'' 0 ''Pitch''],
     drv ''cuTexRefSetAddressMode'' [par ''CUtexref'' 0 ''hTexRef'', par ''int'' 0 ''dim'', par ''CUaddress_mode'' 0 ''am''],
     drv ''cuTexRefSetArray'' [par ''CUtexref'' 0 ''hTexRef'', par ''CUarray'' 0 ''hArray'', par ''unsigned int'' 0 ''Flags''],
     drv ''cuTexRefSetBorderColor'' [par ''CUtexref'' 0 ''hTexRef'', par ''float'' 1 ''pBorderColor''],
     drv ''cuTexRefSetFilterMode'' [par ''CUtexref'' 0 ''hTexRef'', par ''CUfilter_mode'' 0 ''fm''],
     drv ''cuTexRefSetFlags'' [par ''CUtexref'' 0 ''hTexRef'', par ''unsigned int'' 0 ''Flags''],
     drv ''cuTexRefSetFormat'' [par ''CUtexref'' 0 ''hTexRef'', par ''CUarray_format'' 0 ''fmt'',
        par ''int'' 0 ''NumPackedComponents''],
     drv ''cuTexRefSetMaxAnisotropy'' [par ''CUtexref'' 0 ''hTexRef'', par ''unsigned int'' 0 ''maxAniso''],
     drv ''cuTexRefSetMipmapFilterMode'' [par ''CUtexref'' 0 ''hTexRef'', par ''CUfilter_mode'' 0 ''fm''],
     drv ''cuTexRefSetMipmapLevelBias'' [par ''CUtexref'' 0 ''hTexRef'', par ''float'' 0 ''bias''],
     drv ''cuTexRefSetMipmapLevelClamp'' [par ''CUtexref'' 0 ''hTexRef'', par ''float'' 0 ''minMipmapLevelClamp'',
        par ''float'' 0 ''maxMipmapLevelClamp''],
     drv ''cuTexRefSetMipmappedArray'' [par ''CUtexref'' 0 ''hTexRef'', par ''CUmipmappedArray'' 0 ''hMipmappedArray'',
        par ''unsigned int'' 0 ''Flags''],
     drv ''cuThreadExchangeStreamCaptureMode'' [par ''CUstreamCaptureMode'' 1 ''mode''],
     drv ''cuUserObjectCreate'' [par ''CUuserObject'' 1 ''object_out'', par ''void'' 1 ''ptr'', par ''CUhostFn'' 0 ''destroy'',
        par ''unsigned int'' 0 ''initialRefcount'', par ''unsigned int'' 0 ''flags''],
     drv ''cuUserObjectRelease'' [par ''CUuserObject'' 0 ''object'', par ''unsigned int'' 0 ''count''],
     drv ''cuUserObjectRetain'' [par ''CUuserObject'' 0 ''object'', par ''unsigned int'' 0 ''count''],
     drv ''cuWaitExternalSemaphoresAsync'' [par ''const CUexternalSemaphore'' 1 ''extSemArray'',
        par ''const CUDA_EXTERNAL_SEMAPHORE_WAIT_PARAMS'' 1 ''paramsArray'',
        par ''unsigned int'' 0 ''numExtSems'', par ''CUstream'' 0 ''stream'']]"

definition driver_prototypes :: "prototype list" where
  "driver_prototypes = driver_prototypes_1 @ driver_prototypes_2 @ driver_prototypes_3 @ driver_prototypes_4"

definition DRIVER_MISSING_PROTOTYPES :: string where
  "DRIVER_MISSING_PROTOTYPES = newline # text_lines (map proto_text driver_prototypes)"

text \<open>For example, the first and a later line of the text.\<close>

lemma prototype_lines:
  "proto_text (hd driver_prototypes_1) =
     ''CUresult CUDAAPI cuArray3DCreate(CUarray *pHandle, const CUDA_ARRAY3D_DESCRIPTOR *pAllocateArray);''"
  "proto_text (driver_prototypes_1 ! 18) = ''CUresult CUDAAPI cuCtxAttach(CUcontext *pctx, unsigned int flags);''"
  by (simp_all add: driver_prototypes_1_def proto_text_def drv_def par_def params_text_def written_param_def
      param_text_def)

subsection \<open>They are well-formed\<close>

lemma ident_chars:
  "is_ident_char CHR ''A''" "is_ident_char CHR ''B''" "is_ident_char CHR ''C''" "is_ident_char CHR ''D''"
  "is_ident_char CHR ''E''" "is_ident_char CHR ''F''" "is_ident_char CHR ''G''" "is_ident_char CHR ''H''"
  "is_ident_char CHR ''I''" "is_ident_char CHR ''J''" "is_ident_char CHR ''K''" "is_ident_char CHR ''L''"
  "is_ident_char CHR ''M''" "is_ident_char CHR ''N''" "is_ident_char CHR ''O''" "is_ident_char CHR ''P''"
  "is_ident_char CHR ''Q''" "is_ident_char CHR ''R''" "is_ident_char CHR ''S''" "is_ident_char CHR ''T''"
  "is_ident_char CHR ''U''" "is_ident_char CHR ''V''" "is_ident_char CHR ''W''" "is_ident_char CHR ''X''"
  "is_ident_char CHR ''Y''" "is_ident_char CHR ''Z''" "is_ident_char CHR ''a''" "is_ident_char CHR ''b''"
  "is_ident_char CHR ''c''" "is_ident_char CHR ''d''" "is_ident_char CHR ''e''" "is_ident_char CHR ''f''"
  "is_ident_char CHR ''g''" "is_ident_char CHR ''h''" "is_ident_char CHR ''i''" "is_ident_char CHR ''j''"
  "is_ident_char CHR ''k''" "is_ident_char CHR ''l''" "is_ident_char CHR ''m''" "is_ident_char CHR ''n''"
  "is_ident_char CHR ''o''" "is_ident_char CHR ''p''" "is_ident_char CHR ''q''" "is_ident_char CHR ''r''"
  "is_ident_char CHR ''s''" "is_ident_char CHR ''t''" "is_ident_char CHR ''u''" "is_ident_char CHR ''v''"
  "is_ident_char CHR ''w''" "is_ident_char CHR ''x''" "is_ident_char CHR ''y''" "is_ident_char CHR ''z''"
  "is_ident_char CHR ''0''" "is_ident_char CHR ''1''" "is_ident_char CHR ''2''" "is_ident_char CHR ''3''"
  "is_ident_char CHR ''4''" "is_ident_char CHR ''5''" "is_ident_char CHR ''6''" "is_ident_char CHR ''7''"
  "is_ident_char CHR ''8''" "is_ident_char CHR ''9''" "is_ident_char CHR ''_''"
  by (simp_all add: is_ident_char_def)

lemma plain_chars: "plain_char CHR ''*''" "is_ident_char c \<Longrightarrow> plain_char c"
  using ident_char_plain plain_stars by auto

lemma par_ok: "param_ok (par type stars name) \<longleftrightarrow> list_all plain_word (split_on (\<lambda>c. c = CHR '' '') type) \<and> c_identifier name"
  by (simp add: param_ok_def par_def)

lemma drv_ok: "proto_ok ''cu'' (drv name ps) \<longleftrightarrow> c_identifier name \<and> starts_with name ''cu'' \<and> list_all param_ok ps"
proof -
  have "list_all plain_word [''CUresult'', ''CUDAAPI'']" by code_simp
  then show ?thesis by (simp add: proto_ok_def drv_def)
qed

lemma blanks_ok [simp]: "proto_ok symbol_prefix (blanks a b pt) = proto_ok symbol_prefix pt"
  by (simp add: proto_ok_def blanks_def)

lemmas prototypes_ok = par_ok drv_ok c_identifier_def plain_word_def starts_with_def ident_chars plain_chars

lemma driver_prototypes_ok_1: "list_all (proto_ok ''cu'') driver_prototypes_1"
  by (simp add: driver_prototypes_1_def prototypes_ok)

lemma driver_prototypes_ok_2: "list_all (proto_ok ''cu'') driver_prototypes_2"
  by (simp add: driver_prototypes_2_def prototypes_ok)

lemma driver_prototypes_ok_3: "list_all (proto_ok ''cu'') driver_prototypes_3"
  by (simp add: driver_prototypes_3_def prototypes_ok)

lemma driver_prototypes_ok_4: "list_all (proto_ok ''cu'') driver_prototypes_4"
  by (simp add: driver_prototypes_4_def prototypes_ok)

lemma driver_prototypes_ok: "list_all (proto_ok ''cu'') driver_prototypes"
  by (simp add: driver_prototypes_def driver_prototypes_ok_1 driver_prototypes_ok_2 driver_prototypes_ok_3
      driver_prototypes_ok_4)

text \<open>Their names increase strictly.\<close>

lemma names_simps [simp]: "pt_name (drv name ps) = name" "pt_name (blanks a b pt) = pt_name pt"
  by (simp_all add: drv_def blanks_def)

lemma driver_names_sorted:
  "successively (<) (map pt_name driver_prototypes_1)" "successively (<) (map pt_name driver_prototypes_2)"
  "successively (<) (map pt_name driver_prototypes_3)" "successively (<) (map pt_name driver_prototypes_4)"
     apply (simp add: driver_prototypes_1_def)
    apply (simp add: driver_prototypes_2_def)
   apply (simp add: driver_prototypes_3_def)
  apply (simp add: driver_prototypes_4_def)
  done

lemma driver_chunk_ends:
  "last driver_prototypes_1 = drv ''cuGraphConditionalHandleCreate'' [par ''CUgraphConditionalHandle'' 1 ''pHandle_out'', par ''CUgraph'' 0 ''hGraph'',
        par ''CUcontext'' 0 ''ctx'', par ''unsigned int'' 0 ''defaultLaunchValue'',
        par ''unsigned int'' 0 ''flags'']" "hd driver_prototypes_2 = drv ''cuGraphCreate'' [par ''CUgraph'' 1 ''phGraph'', par ''unsigned int'' 0 ''flags'']"
  "last driver_prototypes_2 = drv ''cuMemAdvise'' [par ''CUdeviceptr'' 0 ''devPtr'', par ''size_t'' 0 ''count'', par ''CUmem_advise'' 0 ''advice'',
        par ''CUdevice'' 0 ''device'']" "hd driver_prototypes_3 = drv ''cuMemAdvise_v2'' [par ''CUdeviceptr'' 0 ''devPtr'', par ''size_t'' 0 ''count'', par ''CUmem_advise'' 0 ''advice'',
        par ''CUmemLocation'' 0 ''location'']"
  "last driver_prototypes_3 = drv ''cuModuleLoadDataEx'' [par ''CUmodule'' 1 ''module'', par ''const void'' 1 ''image'',
        par ''unsigned int'' 0 ''numOptions'', par ''CUjit_option'' 1 ''options'',
        par ''void'' 2 ''optionValues'']" "hd driver_prototypes_4 = drv ''cuModuleLoadFatBinary'' [par ''CUmodule'' 1 ''module'', par ''const void'' 1 ''fatCubin'']"
  by (simp_all add: driver_prototypes_1_def driver_prototypes_2_def driver_prototypes_3_def driver_prototypes_4_def)

lemma driver_chunk_lengths:
  "length driver_prototypes_1 = 113" "length driver_prototypes_2 = 113" "length driver_prototypes_3 = 113"
  "length driver_prototypes_4 = 112"
  by (simp_all add: driver_prototypes_1_def driver_prototypes_2_def driver_prototypes_3_def driver_prototypes_4_def)

lemma driver_prototypes_sorted: "sorted_wrt (<) (map pt_name driver_prototypes)"
proof -
  have n: "driver_prototypes_1 \<noteq> []" "driver_prototypes_2 \<noteq> []" "driver_prototypes_3 \<noteq> []"
    "driver_prototypes_4 \<noteq> []"
    using driver_chunk_lengths by auto
  then have "successively (<) (map pt_name driver_prototypes)"
    using driver_names_sorted
    by (simp add: driver_prototypes_def successively_append_iff last_map hd_map driver_chunk_ends)
  moreover have "transp ((<) :: string \<Rightarrow> string \<Rightarrow> bool)" by (rule transp_on_less)
  ultimately show ?thesis by (simp add: successively_conv_sorted_wrt)
qed

subsection \<open>They are all hooked\<close>

text \<open>C19. From the embedded prototypes the build makes, in the order of their names, one hook for each of
  the 451 functions that is not hooked by hand, with its type, parameters and arguments as declared;
  none of the lines is skipped, and no warning is printed.\<close>

theorem embedded_prototypes_hooked:
  "parse_missing_prototypes DRIVER_MISSING_PROTOTYPES manual_hooks ''cu'' =
     (map wrapper_of (filter (\<lambda>pt. pt_name pt \<notin> manual_hooks) driver_prototypes), []) \<and>
   length driver_prototypes = 451 \<and> sorted_wrt (<) (map pt_name driver_prototypes)"
proof -
  let ?st = "\<lparr>pr_wrappers = [], pr_seen = {}, pr_out = []\<rparr>"
  let ?ws = "map wrapper_of (filter (\<lambda>pt. pt_name pt \<notin> manual_hooks) driver_prototypes)"
  have d: "distinct (map pt_name driver_prototypes)"
    using driver_prototypes_sorted by (simp add: strict_sorted_iff)
  have "list_all (\<lambda>l. newline \<notin> set l \<and> (l = [] \<or> last l \<noteq> creturn)) ([] # map proto_text driver_prototypes)"
    using driver_prototypes_ok by (auto simp: list_all_iff proto_line_whole)
  then have "lines (text_lines ([] # map proto_text driver_prototypes)) = [] # map proto_text driver_prototypes"
    unfolding text_lines_def by (rule lines_concat)
  then have l: "lines DRIVER_MISSING_PROTOTYPES = [] # map proto_text driver_prototypes"
    by (simp add: DRIVER_MISSING_PROTOTYPES_def text_lines_def)
  have "prototype_line manual_hooks ''cu'' [] ?st = ?st"
    by (simp add: prototype_line_def trim_def trim_end_chars_def)
  then have f: "fold (prototype_line manual_hooks ''cu'') (lines DRIVER_MISSING_PROTOTYPES) ?st =
      ?st\<lparr>pr_seen := pt_name ` set driver_prototypes - manual_hooks, pr_wrappers := ?ws\<rparr>"
    using fold_prototypes [OF driver_prototypes_ok d, of ?st manual_hooks] by (simp add: l)
  have "sorted_wrt (<) (map wp_name ?ws)"
    using driver_prototypes_sorted by (simp add: sorted_wrt_map wrapper_of_def sorted_wrt_filter)
  then have "sort_key wp_name ?ws = ?ws"
    by (intro sort_key_id_if_sorted) (simp add: strict_sorted_imp_sorted)
  then show ?thesis
    using driver_prototypes_sorted driver_chunk_lengths
    by (simp add: parse_missing_prototypes_def f driver_prototypes_def)
qed

end
