(* ===== verification/Rm_Facts.thy ===== *)
theory Rm_Facts
  imports Rm_Status
begin

text \<open>
  The guarantees of the decoder of the resource manager's ioctls: the status of every ioctl and of
  every control command, the entries of the card list and of the lists whose length the traced process
  controls, the names of control commands, and the members printed for a mapping.
\<close>

subsection \<open>Statuses\<close>

text \<open>C21. Whatever the traced process passes to a device of the resource manager, known command or
  not, readable memory or not, and in every decoding mode: a number of the driver's type is decoded,
  and only such a number, to one JSON object that parses and whose last member is the status that
  the specification \<open>rm_status\<close> gives (\<open>ok\<close> exactly when every byte that the decoder of the
  command needs could be read and the declared size is large enough).\<close>

theorem decode_rm_status:
  assumes "tables_ok tables"
  shows "case decode_nvidia_ioctl tables rd meta a mode max_blob of
      None \<Rightarrow> meta_ioc_type meta \<noteq> NV_IOCTL_MAGIC
    | Some s \<Rightarrow> meta_ioc_type meta = NV_IOCTL_MAGIC \<and>
        status_object (rm_status rd meta a mode max_blob) (ds_json s)"
proof (cases "meta_ioc_type meta = NV_IOCTL_MAGIC")
  case True
  with rm_decode_status [OF assms True, of rd a mode max_blob] show ?thesis by auto
qed (simp add: decode_nvidia_ioctl_def)

theorem decode_rm_status_witness:
  "case decode_nvidia_ioctl build_tables (\<lambda>_ n. Some (replicate n 0)) (decode_ioctl_cmd 0xc020462a) 0x1000 Full 256 of
      None \<Rightarrow> meta_ioc_type (decode_ioctl_cmd 0xc020462a) \<noteq> NV_IOCTL_MAGIC
    | Some s \<Rightarrow> meta_ioc_type (decode_ioctl_cmd 0xc020462a) = NV_IOCTL_MAGIC \<and>
        status_object (rm_status (\<lambda>_ n. Some (replicate n 0)) (decode_ioctl_cmd 0xc020462a) 0x1000 Full 256) (ds_json s)"
  by (rule decode_rm_status) simp

text \<open>C22. A control command is decoded exactly when it is in the table or in a generic family
  and its parameters can be read or are declared too small; the object then is well formed and ends
  with \<open>ok\<close>, or with both sizes when they do not fit, and the text form starts with the name that the
  command has everywhere else.\<close>

theorem known_control_decoded:
  assumes "tables_ok tables"
  shows "case decode_known_rm_control tables rd cmd a sz of
      None \<Rightarrow> \<not> known_decodes rd cmd a sz
    | Some d \<Rightarrow> known_decodes rd cmd a sz \<and> ends_object (known_status cmd sz) (krd_json d) \<and>
        starts_with (krd_legacy d) (''name='' @ rm_control_cmd_name tables cmd)"
  by (rule known_control_ok [OF assms])

theorem known_control_decoded_witness:
  "case decode_known_rm_control build_tables (\<lambda>_ n. Some (replicate n 0)) 0x101 0x1000 4 of
      None \<Rightarrow> \<not> known_decodes (\<lambda>_ n. Some (replicate n 0)) 0x101 0x1000 4
    | Some d \<Rightarrow> known_decodes (\<lambda>_ n. Some (replicate n 0)) 0x101 0x1000 4 \<and>
        ends_object (known_status 0x101 4) (krd_json d) \<and>
        starts_with (krd_legacy d) (''name='' @ rm_control_cmd_name build_tables 0x101)"
  by (rule known_control_decoded) simp

subsection \<open>The card list\<close>

text \<open>The longest prefix of the entries that can be read.\<close>

definition readable_prefix :: "(nat \<Rightarrow> 'a option) \<Rightarrow> nat \<Rightarrow> 'a list" where
  "readable_prefix f n = map (the \<circ> f) (takeWhile (\<lambda>i. f i \<noteq> None) [0..<n])"

lemma read_cards_from:
  "read_cards rd a k n idx =
     map (\<lambda>i. the (read_pod rd NvIoctlCardInfo_pod (a + of_nat (i * k))))
       (takeWhile (\<lambda>i. read_pod rd NvIoctlCardInfo_pod (a + of_nat (i * k)) \<noteq> None) [idx..<idx + n])"
proof (induction n arbitrary: idx)
  case (Suc n)
  have "[idx..<idx + Suc n] = idx # [Suc idx..<Suc idx + n]"
    by (simp add: upt_conv_Cons del: upt_Suc)
  with Suc [of "Suc idx"] show ?case
    by (simp del: upt_Suc of_nat_mult split: option.split)
qed simp

lemma read_cards_prefix:
  "read_cards rd a k n 0 = readable_prefix (\<lambda>i. read_pod rd NvIoctlCardInfo_pod (a + of_nat (i * k))) n"
  by (simp add: read_cards_from readable_prefix_def comp_def)

lemma denotes_fields:
  assumes "list_all field_ok fs"
  shows "denotes (finish (fold add_field fs JsonObject_new)) (JObj (map (\<lambda>(k, f). (k, field_value f)) fs))"
proof -
  let ?m = "map (\<lambda>(k, f). (k, field_text f, field_value f)) fs"
  have "list_all (\<lambda>(k, t, v). utf8 k \<and> denotes t v) ?m"
    using assms field_text_denotes by (fastforce simp: list_all_iff)
  from jo.repr_finish [OF jo.repr_fold [OF jo.repr_new this]] show ?thesis
    by (simp add: fold_map comp_def case_prod_unfold flip: add_field_raw)
qed

definition card_fields :: "nat \<Rightarrow> NvIoctlCardInfo \<Rightarrow> (string \<times> jfield) list" where
  "card_fields idx c =
     (let pci = NvIoctlCardInfo.p_pci_info c
      in [(''index'', jfield.FU64 (of_nat idx)), (''valid'', FBool (NvIoctlCardInfo.p_valid c \<noteq> 0)),
          (''domain'', jfield.FU64 (ucast (NvPciInfo.p_domain pci))), (''bus'', jfield.FU64 (ucast (NvPciInfo.p_bus pci))),
          (''slot'', jfield.FU64 (ucast (NvPciInfo.p_slot pci))),
          (''function'', jfield.FU64 (ucast (NvPciInfo.p_function pci))),
          (''vendorId'', jfield.FU64 (ucast (NvPciInfo.p_vendor_id pci))),
          (''deviceId'', jfield.FU64 (ucast (NvPciInfo.p_device_id pci))),
          (''bdf'', FStr (hex_pad 4 (unat (NvPciInfo.p_domain pci)) @ '':'' @ hex_pad 2 (unat (NvPciInfo.p_bus pci)) @
             '':'' @ hex_pad 2 (unat (NvPciInfo.p_slot pci)) @ ''.'' @ dec (unat (NvPciInfo.p_function pci)))),
          (''gpuId'', jfield.FU64 (ucast (NvIoctlCardInfo.p_gpu_id c))),
          (''interruptLine'', jfield.FU64 (ucast (NvIoctlCardInfo.p_interrupt_line c))),
          (''regAddress'', FStr (hex0x (unat (NvIoctlCardInfo.p_reg_address c)))),
          (''regSize'', jfield.FU64 (NvIoctlCardInfo.p_reg_size c)),
          (''fbAddress'', FStr (hex0x (unat (NvIoctlCardInfo.p_fb_address c)))),
          (''fbSize'', jfield.FU64 (NvIoctlCardInfo.p_fb_size c)),
          (''minorNumber'', jfield.FU64 (ucast (NvIoctlCardInfo.p_minor_number c))),
          (''devName'', FStr (read_c_string (NvIoctlCardInfo.p_dev_name c)))])"

definition card_value :: "nat \<Rightarrow> NvIoctlCardInfo \<Rightarrow> json" where
  "card_value idx c = JObj (map (\<lambda>(k, f). (k, field_value f)) (card_fields idx c))"

lemma denotes_card: "denotes (json_card_info idx c) (card_value idx c)"
proof -
  have "list_all field_ok (card_fields idx c)" by (simp add: card_fields_def Let_def ascii_utf8 utf8_remote_texts)
  from denotes_fields [OF this] show ?thesis
    by (simp add: card_value_def json_card_info_def card_fields_def Let_def)
qed

lemma denotes_cards:
  "denotes (json_card_info_array cs) (JArr (map (\<lambda>(i, c). card_value i c) (enumerate 0 cs)))"
  unfolding json_card_info_array_def
  by (rule denotes_array) (simp add: list_all2_conv_all_nth split_beta denotes_card)

text \<open>C24. The list of the GPUs. A request whose size covers at least one entry, of which the first can
  be read, gives one JSON object with the entries of the longest prefix that the limits allow and
  that can be read, every field of each at its offset, in order, with how many entries the size
  declares, how many are shown, how many of them are valid, and whether some are missing.\<close>

theorem card_list_members:
  assumes "72 \<le> unat (meta_size meta)"
    and "cards = readable_prefix (\<lambda>i. read_pod rd NvIoctlCardInfo_pod (a + of_nat (i * 72)))
      (min (unat (meta_size meta) div 72) (max (max_blob div 72) 1))"
    and "cards \<noteq> []"
  shows "json_parse (finish (decode_card_info rd meta a max_blob JsonObject_new)) = Some (JObj
     [(''cardCountDeclared'', JNum (int (unat (meta_size meta) div 72))),
      (''cardCountDecoded'', JNum (int (length cards))),
      (''validCount'', JNum (int (length (filter (\<lambda>c. NvIoctlCardInfo.p_valid c \<noteq> 0) cards)))),
      (''truncated'', JBool (length cards < unat (meta_size meta) div 72)),
      (''cards'', JArr (map (\<lambda>(i, c). card_value i c) (enumerate 0 cards))), (''status'', JStr ''ok'')])"
proof -
  let ?n = "unat (meta_size meta) div 72"
  let ?v = "length (filter (\<lambda>c. NvIoctlCardInfo.p_valid c \<noteq> 0) cards)"
  have n: "?n < 2 ^ 64" using unsigned_less [of "meta_size meta", where 'a = nat] by simp
  have "length cards \<le> ?n"
    using length_takeWhile_le [of _ "[0..<min ?n (max (max_blob div 72) 1)]"]
    by (simp add: assms(2) readable_prefix_def)
  moreover have "?v \<le> length cards" by (rule length_filter_le)
  ultimately have "length cards < 2 ^ 64" "?v < 2 ^ 64" using n by linarith+
  with n have small: "unat (of_nat ?n :: u64) = ?n" "unat (of_nat (length cards) :: u64) = length cards"
    "unat (of_nat ?v :: u64) = ?v"
    by (simp_all add: unat_of_nat)
  let ?ms = "[(''cardCountDeclared'', dec ?n, JNum (int ?n)),
      (''cardCountDecoded'', dec (length cards), JNum (int (length cards))), (''validCount'', dec ?v, JNum (int ?v)),
      (''truncated'', if length cards < ?n then ''true'' else ''false'', JBool (length cards < ?n)),
      (''cards'', json_card_info_array cards, JArr (map (\<lambda>(i, c). card_value i c) (enumerate 0 cards))),
      (''status'', json_quote ''ok'', JStr ''ok'')]"
  have "list_all (\<lambda>(k, t, v). utf8 k \<and> denotes t v) ?ms"
    unfolding list.pred_inject prod.case
    by (intro conjI denotes_dec denotes_bool denotes_cards denotes_quote TrueI) simp_all
  from jo.fold_parses [OF this]
  have "json_parse (finish (fold (\<lambda>(k, t, v). field_raw k t) ?ms JsonObject_new)) =
      Some (JObj (map (\<lambda>(k, t, v). (k, v)) ?ms))" .
  moreover have "fold (\<lambda>(k, t, v). field_raw k t) ?ms JsonObject_new = decode_card_info rd meta a max_blob JsonObject_new"
    using assms(1,3) unfolding decode_card_info_def Let_def card_size read_cards_prefix assms(2) [symmetric] field_as_raw small
    by simp
  ultimately show ?thesis by simp
qed

theorem card_list_members_witness:
  "json_parse (finish (decode_card_info (\<lambda>x n. if x = 0x1000 then Some (replicate n 0) else None)
     (decode_ioctl_cmd 0xc90046c8) 0x1000 4096 JsonObject_new)) = Some (JObj
     [(''cardCountDeclared'', JNum 32), (''cardCountDecoded'', JNum 1), (''validCount'', JNum 0),
      (''truncated'', JBool True),
      (''cards'', JArr [card_value 0 (pod_read NvIoctlCardInfo_pod (replicate 72 0))]), (''status'', JStr ''ok'')])"
proof -
  let ?rd = "\<lambda>x n. if x = 0x1000 then Some (replicate n 0) else None :: u8 list option"
  let ?m = "decode_ioctl_cmd 0xc90046c8"
  let ?card = "pod_read NvIoctlCardInfo_pod (replicate 72 0)"
  have m: "unat (meta_size ?m) = 2304" by code_simp
  have "[0..<32] = 0 # 1 # [2..<32]" by (simp add: upt_conv_Cons numeral_2_eq_2)
  then have c: "[?card] = readable_prefix (\<lambda>i. read_pod ?rd NvIoctlCardInfo_pod (0x1000 + of_nat (i * 72)))
      (min (unat (meta_size ?m) div 72) (max (4096 div 72) 1))"
    by (simp add: m readable_prefix_def read_pod_def card_size)
  have v: "NvIoctlCardInfo.p_valid ?card = 0" by code_simp
  from card_list_members [OF _ c] show ?thesis by (simp add: m v)
qed

subsection \<open>The names of control commands\<close>

lemma legacy_families_named:
  "list_all (\<lambda>(k, f). map_of nv2080_interface_names k = Some f) legacy_families"
  by (simp add: legacy_families_def nv2080_interface_names_def)

lemma legacy_family_is_interface:
  "rm_control_legacy_family_and_msg_id cmd = Some (f, m) \<Longrightarrow>
     rm_control_interface_name cmd = Some f \<and> m = ucast (cmd AND 0xff)"
  using legacy_families_named
  by (auto simp: rm_control_legacy_family_and_msg_id_def rm_control_interface_name_def nv2080_interface_name_def
      Let_def list_all_iff split: if_splits option.splits dest!: map_of_SomeD)

lemma low_byte: "unat (ucast (cmd AND 0xff) :: u8) = unat cmd mod 256" for cmd :: u32
proof -
  have "cmd AND 0xff = take_bit 8 cmd" by (simp add: take_bit_eq_mask mask_eq_exp_minus_1)
  moreover have "unat (ucast (take_bit 8 cmd) :: u8) = take_bit 8 (unat cmd)"
    by (simp add: unsigned_ucast_eq unsigned_take_bit_eq)
  ultimately show ?thesis by (simp add: take_bit_eq_mod)
qed

text \<open>The branch for the legacy families is redundant: its names are those of the interfaces.\<close>

theorem fallback_without_legacy:
  "rm_control_cmd_name_fallback tables cmd =
     (case rm_control_interface_name cmd of
        Some interface_name \<Rightarrow> ''NV2080_CTRL_CMD_'' @ interface_name @ ''_0x'' @ hex_pad 2 (unat cmd mod 256)
      | None \<Rightarrow> (case generated_rm_interface_name tables (drop_bit 8 cmd) of
          Some interface_name \<Rightarrow> interface_name @ ''_CMD_0x'' @ hex_pad 2 (unat cmd mod 256)
        | None \<Rightarrow> ''UNKNOWN''))"
proof -
  show ?thesis
    using legacy_family_is_interface [of cmd]
    by (auto simp: rm_control_cmd_name_fallback_def Let_def low_byte split: option.split)
qed

lemma hex_pad_byte: "length (hex_pad 2 (n mod 256)) = 2" "parse_digits 16 (hex_pad 2 (n mod 256)) = Some (n mod 256)"
proof -
  have "length (hex (n mod 256)) \<le> 2"
    by (cases "n mod 256 < 16") (auto simp: radix_def digits.simps [of 16 "n mod 256"]
        digits.simps [of 16 "n mod 256 div 16"])
  from hex_pad_parse [OF this]
  show "length (hex_pad 2 (n mod 256)) = 2" "parse_digits 16 (hex_pad 2 (n mod 256)) = Some (n mod 256)" by auto
qed

lemma interface_of_cmd:
  assumes "rm_control_interface_name cmd = Some i"
  shows "unat cmd = 0x2080 * 2 ^ 16 + unat cmd div 256 mod 256 * 256 + unat cmd mod 256"
    and "map_of nv2080_interface_names (of_nat (unat cmd div 256 mod 256)) = Some i"
proof -
  have u: "ucast (drop_bit 8 cmd AND 0xff) = (of_nat (unat cmd div 256 mod 256) :: u8)"
  proof -
    have "unat (drop_bit 8 cmd) = unat cmd div 256"
      unfolding unat_drop_bit_eq by (simp add: drop_bit_eq_div)
    with low_byte [of "drop_bit 8 cmd"]
    have "unat (ucast (drop_bit 8 cmd AND 0xff) :: u8) = unat cmd div 256 mod 256" by simp
    also have "\<dots> = unat (of_nat (unat cmd div 256 mod 256) :: u8)" by (simp add: unat_of_nat)
    finally show ?thesis by (simp only: word_unat_eq_iff)
  qed
  from assms have "drop_bit 16 cmd = 0x2080"
    and n: "map_of nv2080_interface_names (ucast (drop_bit 8 cmd AND 0xff)) = Some i"
    by (auto simp: rm_control_interface_name_def nv2080_interface_name_def split: if_splits)
  then have "unat (drop_bit 16 cmd) = 0x2080" by simp
  then have "unat cmd div 2 ^ 16 = 0x2080" unfolding unat_drop_bit_eq by (simp add: drop_bit_eq_div)
  then show "unat cmd = 0x2080 * 2 ^ 16 + unat cmd div 256 mod 256 * 256 + unat cmd mod 256"
    using div_mult_mod_eq [of "unat cmd" "256 * 256"] mod_mult2_eq [of "unat cmd" 256 256] by simp
  show "map_of nv2080_interface_names (of_nat (unat cmd div 256 mod 256)) = Some i" using n by (simp add: u)
qed

lemma map_of_inj_snd:
  assumes "distinct (map snd xs)" and "map_of xs a = Some v" and "map_of xs b = Some v"
  shows "a = b"
proof -
  from assms(1) have "inj_on snd (set xs)" by (simp add: distinct_map)
  moreover have "(a, v) \<in> set xs" "(b, v) \<in> set xs" using assms(2,3) by (auto dest: map_of_SomeD)
  ultimately show ?thesis using inj_onD [of snd "set xs" "(a, v)" "(b, v)"] by simp
qed

lemma interface_names_distinct: "distinct (map snd nv2080_interface_names)"
  by (simp add: nv2080_interface_names_def)

text \<open>The generic name of a control command of an interface that is known determines the command:
  no two commands without a name of their own are printed alike.\<close>

theorem fallback_name_determines_cmd:
  assumes "rm_control_interface_name c = Some i" and "rm_control_interface_name d = Some j"
    and "rm_control_cmd_name_fallback tables c = rm_control_cmd_name_fallback tables d"
  shows "c = d"
proof -
  have f: "rm_control_cmd_name_fallback tables cmd = ''NV2080_CTRL_CMD_'' @ k @ ''_0x'' @ hex_pad 2 (unat cmd mod 256)"
    if "rm_control_interface_name cmd = Some k" for cmd k
    using that legacy_family_is_interface [of cmd]
    by (auto simp: rm_control_cmd_name_fallback_def Let_def low_byte split: option.split)
  from assms(3) have "(i @ ''_0x'') @ hex_pad 2 (unat c mod 256) = (j @ ''_0x'') @ hex_pad 2 (unat d mod 256)"
    by (simp add: f [OF assms(1)] f [OF assms(2)])
  then have e: "i = j" "hex_pad 2 (unat c mod 256) = hex_pad 2 (unat d mod 256)"
    by (simp_all add: append_eq_append_conv hex_pad_byte del: append_assoc)
  then have low: "unat c mod 256 = unat d mod 256" by (metis hex_pad_byte(2) option.inject)
  let ?b = "\<lambda>cmd :: u32. unat cmd div 256 mod 256"
  note ic = interface_of_cmd [OF assms(1)] and id = interface_of_cmd [OF assms(2)]
  have "(of_nat (?b c) :: u8) = of_nat (?b d)"
    by (rule map_of_inj_snd [OF interface_names_distinct ic(2)]) (simp only: e(1) id(2))
  then have "unat (of_nat (?b c) :: u8) = unat (of_nat (?b d) :: u8)" by (rule arg_cong)
  then have "?b c = ?b d" by (simp add: unat_of_nat)
  with low ic(1) id(1) have "unat c = unat d" by linarith
  then show ?thesis by (simp only: word_unat_eq_iff)
qed

theorem fallback_name_determines_cmd_witness:
  "rm_control_interface_name 0x20800101 = Some ''GPU'' \<and> rm_control_interface_name 0x20800102 = Some ''GPU'' \<and>
   rm_control_cmd_name_fallback build_tables 0x20800101 \<noteq> rm_control_cmd_name_fallback build_tables 0x20800102"
proof -
  have n: "rm_control_interface_name 0x20800101 = Some ''GPU''" "rm_control_interface_name 0x20800102 = Some ''GPU''"
    by (simp_all add: rm_control_interface_name_def nv2080_interface_name_def nv2080_interface_names_def)
  from fallback_name_determines_cmd [OF n, of build_tables] n show ?thesis by auto
qed

text \<open>What the unit tests assert of the names, with the tables that the build generates.\<close>

lemma build_names:
  "rm_control_cmd_name build_tables 0x13e = ''NV0000_CTRL_CMD_SYSTEM_GET_BUILD_VERSION_V2''"
  "rm_control_cmd_name build_tables 0x20800147 = ''NV2080_CTRL_CMD_GPU_GET_ENGINE_PARTNERLIST''"
  "rm_control_cmd_name build_tables 0x20800601 = ''NV2080_CTRL_CMD_I2C_READ_BUFFER''"
  "rm_control_cmd_name build_tables 0x20810108 = ''NV2081_BINAPI_CMD_0x08''"
  "rm_control_cmd_name build_tables 0x20809009 = ''NV2080_CTRL_CMD_CLK_LEGACY_NON_PRIVILEGED_0x09''"
  "rm_control_cmd_name build_tables 0x2080a084 = ''NV2080_CTRL_CMD_PERF_LEGACY_NON_PRIVILEGED_0x84''"
  by code_simp+

subsection \<open>A mapping\<close>

lemma unsigned_of_signed:
  "uint (i64_as_u64 (sint x)) = (if sint x < 0 then sint x + 2 ^ 64 else sint x)" for x :: "32 word"
proof -
  have "- (2 ^ 31) \<le> sint x" "sint x < 2 ^ 31"
    using sint_greater_eq [of x] sint_less [of x] by simp_all
  then have "sint x mod 2 ^ 64 = (if sint x < 0 then sint x + 2 ^ 64 else sint x)"
    using mod_pos_pos_trivial [of "sint x + 2 ^ 64" "2 ^ 64"] by (auto simp: mod_pos_pos_trivial)
  then show ?thesis unfolding i64_as_u64_def uint_word_of_int by simp
qed

lemma wider: "uint (ucast x :: u64) = uint x" for x :: u32
  by (rule uint_up_ucast) (simp add: is_up)

text \<open>C25. The members printed for a mapping of memory, from the bytes of its structure. The descriptor
  that is passed along is signed; it is printed as the number its bits have as an unsigned one.\<close>

theorem map_memory_members:
  assumes "56 \<le> unat (meta_size meta)"
    and "rd a 56 = Some (le_bytes 4 (unat client) @ le_bytes 4 (unat device) @ le_bytes 4 (unat memory) @ pad @
      le_bytes 8 (unat offset) @ le_bytes 8 (unat len) @ le_bytes 8 (unat address) @ le_bytes 4 (unat status) @
      le_bytes 4 (unat flags) @ le_bytes 4 (unat fd) @ pad')"
    and "length pad = 4" and "length pad' = 4"
  shows "json_parse (finish (decode_rm_map_memory rd meta a JsonObject_new)) = Some (JObj
     [(''api'', JStr ''nv_ioctl_nvos33_parameters_with_fd''), (''hClient'', JStr (hex0x (unat (client :: u32)))),
      (''hDevice'', JStr (hex0x (unat (device :: u32)))), (''hMemory'', JStr (hex0x (unat (memory :: u32)))),
      (''offset'', JStr (hex0x (unat (offset :: u64)))), (''length'', JNum (uint (len :: u64))),
      (''pLinearAddress'', JStr (hex0x (unat (address :: u64)))), (''flags'', JNum (uint (flags :: u32))),
      (''fd'', JNum (if sint fd < 0 then sint (fd :: 32 word) + 2 ^ 64 else sint fd)),
      (''rmStatus'', JNum (uint (status :: u32))), (''status'', JStr ''ok'')])"
proof -
  let ?L = NvOs33Parameters_layout and ?W = NvIoctlNvos33ParametersWithFd_layout
  let ?bs = "le_bytes 4 (unat client) @ le_bytes 4 (unat device) @ le_bytes 4 (unat memory) @ pad @
      le_bytes 8 (unat offset) @ le_bytes 8 (unat len) @ le_bytes 8 (unat address) @ le_bytes 4 (unat status) @
      le_bytes 4 (unat flags) @ le_bytes 4 (unat fd) @ pad'"
  have o: "field_offset ?L 0 = 0" "field_offset ?L (Suc 0) = 4" "field_offset ?L 2 = 8" "field_offset ?L 3 = 16"
    "field_offset ?L 4 = 24" "field_offset ?L 5 = 32" "field_offset ?L 6 = 40" "field_offset ?L 7 = 44"
    "field_offset ?W 0 = 0" "field_offset ?W (Suc 0) = 48"
    by (simp_all add: NvOs33Parameters_layout_def NvIoctlNvos33ParametersWithFd_layout_def field_offset_def
        round_up_def)
  have z: "pod_size NvIoctlNvos33ParametersWithFd_pod = 56" by (simp add: rm_sizes)
  let ?p = "pod_read NvIoctlNvos33ParametersWithFd_pod ?bs"
  have p: "NvIoctlNvos33ParametersWithFd.p_params ?p =
      NvOs33Parameters.make client device memory offset len address status flags"
    "NvIoctlNvos33ParametersWithFd.p_fd ?p = sint fd"
    using assms(3) by (simp_all add: NvIoctlNvos33ParametersWithFd_pod_def NvOs33Parameters_pod_def field_at_def o
        get_u32_le_bytes get_u64_le_bytes get_i32_def NvOs33Parameters.defs)
  have r: "read_checked_pod rd NvIoctlNvos33ParametersWithFd_pod meta a = Inr ?p"
    using assms by (simp add: read_checked_pod_def read_pod_def z)
  let ?fs = "[(''api'', FStr ''nv_ioctl_nvos33_parameters_with_fd''), (''hClient'', FStr (hex0x (unat client))),
      (''hDevice'', FStr (hex0x (unat device))), (''hMemory'', FStr (hex0x (unat memory))),
      (''offset'', FStr (hex0x (unat offset))), (''length'', jfield.FU64 len),
      (''pLinearAddress'', FStr (hex0x (unat address))), (''flags'', jfield.FU64 (ucast flags)),
      (''fd'', jfield.FU64 (i64_as_u64 (sint fd))), (''rmStatus'', FI64 (uint status)), (''status'', FStr ''ok'')]"
  have d: "decode_rm_map_memory rd meta a JsonObject_new = fold add_field ?fs JsonObject_new"
    using assms(1) by (simp add: decode_rm_map_memory_def r p z NvOs33Parameters.defs)
  have fd: "uint (i64_as_u64 (sint fd)) = (if sint fd < 0 then sint fd + 2 ^ 64 else sint fd)"
    by (rule unsigned_of_signed)
  show ?thesis
    using add_fields_parse [of ?fs] by (simp add: d fd ascii_utf8 wider)
qed

text \<open>A process that passes no descriptor, \<open>-1\<close>, is shown as having passed \<open>2 ^ 64 - 1\<close>.\<close>

theorem map_memory_members_witness:
  "json_parse (finish (decode_rm_map_memory (\<lambda>_ _. Some (le_bytes 4 1 @ le_bytes 4 2 @ le_bytes 4 3 @
       replicate 4 0 @ le_bytes 8 0 @ le_bytes 8 4096 @ le_bytes 8 0 @ le_bytes 4 0 @ le_bytes 4 0 @
       le_bytes 4 (2 ^ 32 - 1) @ replicate 4 0)) (decode_ioctl_cmd 0xc038464e) 0x1000 JsonObject_new)) = Some (JObj
     [(''api'', JStr ''nv_ioctl_nvos33_parameters_with_fd''), (''hClient'', JStr (hex0x 1)),
      (''hDevice'', JStr (hex0x 2)), (''hMemory'', JStr (hex0x 3)), (''offset'', JStr (hex0x 0)),
      (''length'', JNum 4096), (''pLinearAddress'', JStr (hex0x 0)), (''flags'', JNum 0),
      (''fd'', JNum (2 ^ 64 - 1)), (''rmStatus'', JNum 0), (''status'', JStr ''ok'')])"
proof -
  have m: "unat (meta_size (decode_ioctl_cmd 0xc038464e)) = 56" by code_simp
  have f: "sint (- 1 :: 32 word) = - 1" "unat (- 1 :: 32 word) = 2 ^ 32 - 1" by (simp_all add: unsigned_minus_1_eq_mask mask_eq_exp_minus_1)
  let ?rd = "\<lambda>_ _. Some (le_bytes 4 1 @ le_bytes 4 2 @ le_bytes 4 3 @ replicate 4 0 @ le_bytes 8 0 @ le_bytes 8 4096 @
      le_bytes 8 0 @ le_bytes 4 0 @ le_bytes 4 0 @ le_bytes 4 (2 ^ 32 - 1) @ replicate 4 0) :: u8 list option"
  show ?thesis
    using map_memory_members [where rd = ?rd and meta = "decode_ioctl_cmd 0xc038464e" and a = "0x1000" and client = 1 and device = 2
        and memory = 3 and pad = "replicate 4 0" and offset = 0 and len = 4096 and address = 0 and status = 0
        and flags = 0 and fd = "- 1" and pad' = "replicate 4 0", unfolded m f]
    by simp
qed

subsection \<open>Counted lists\<close>

text \<open>Five control commands return a list: a word with the number of entries, and behind it an array of
  fixed capacity with entries of one or of two words. With the command: the names of the number and
  of the list in the output, the capacity, and the words of an entry.\<close>

definition counted_lists :: "(u32 \<times> string \<times> string \<times> nat \<times> nat) list" where
  "counted_lists =
     [(0x800292, ''numClasses'', ''classList'', 200, 1), (0x20800170, ''engineCount'', ''engineList'', 84, 1),
      (0x20800102, ''gpuInfoListSize'', ''gpuInfoList'', 70, 2), (0x20801303, ''fbInfoListSize'', ''fbInfoList'', 128, 2),
      (0x20801823, ''busInfoListSize'', ''busInfoList'', 52, 2)]"

definition words_bytes :: "u32 list \<Rightarrow> u8 list" where
  "words_bytes ws = concat (map (\<lambda>w. le_bytes 4 (unat w)) ws)"

text \<open>How an entry is shown.\<close>

fun entry_value :: "u32 list \<Rightarrow> json" where
  "entry_value [i, d] = JObj [(''index'', JStr (hex0x (unat i))), (''data'', JStr (hex0x (unat d)))]"
| "entry_value ws = JStr (hex0x (unat (hd ws)))"

definition counted_value :: "string \<Rightarrow> string \<Rightarrow> u32 \<Rightarrow> u32 list list \<Rightarrow> json" where
  "counted_value size_key list_key n es =
     JObj [(size_key, JNum (uint n)), (list_key, JArr (map entry_value (take (unat n) es))),
       (''truncated'', JBool (length es < unat n)), (''status'', JStr ''ok'')]"

lemma words_bytes_simps [simp]:
  "words_bytes [] = []" "words_bytes (w # ws) = le_bytes 4 (unat w) @ words_bytes ws"
  "words_bytes (us @ ws) = words_bytes us @ words_bytes ws" "length (words_bytes ws) = 4 * length ws"
  by (simp_all add: words_bytes_def length_concat comp_def sum_list_triv)

lemma length_entries: "list_all (\<lambda>e. length e = k) es \<Longrightarrow> length (concat es) = k * length es"
  by (induction es) auto

lemma get_array_words:
  assumes "\<And>e r. length e = m \<Longrightarrow> rd (words_bytes e @ r) = f e" and "list_all (\<lambda>e. length e = m) es"
  shows "get_array (length es) (4 * m) rd (words_bytes (concat es)) = map f es"
  using assms(2)
proof (induction es)
  case Nil
  then show ?case by (simp add: get_array_def)
next
  case (Cons e es)
  have "[0..<length (e # es)] = 0 # map Suc [0..<length es]" by (simp add: upt_conv_Cons map_Suc_upt del: upt_Suc)
  with Cons assms(1) [of e "words_bytes (concat es)"] show ?case
    by (simp add: get_array_def comp_def add.commute)
qed

lemma get_array_u32:
  assumes "list_all (\<lambda>e. length e = 1) es"
  shows "get_array (length es) 4 get_u32 (words_bytes (concat es)) = map hd es"
proof -
  have "get_u32 (words_bytes e @ r) = hd e" if "length e = 1" for e r
    using that by (cases e) (simp_all add: get_u32_le_bytes)
  from get_array_words [where m = 1 and rd = get_u32 and f = hd, OF this assms] show ?thesis by simp
qed

lemma get_array_info:
  assumes "list_all (\<lambda>e. length e = 2) es"
  shows "get_array (length es) 8 (pod_read NvxxxxCtrlXxxInfo_pod) (words_bytes (concat es)) =
    map (\<lambda>e. NvxxxxCtrlXxxInfo.make (e ! 0) (e ! 1)) es"
proof -
  have "pod_read NvxxxxCtrlXxxInfo_pod (words_bytes e @ r) = NvxxxxCtrlXxxInfo.make (e ! 0) (e ! 1)"
    if "length e = 2" for e r
    using that by (auto simp: numeral_2_eq_2 length_Suc_conv NvxxxxCtrlXxxInfo_pod_def NvxxxxCtrlXxxInfo_layout_def
        field_at_def field_offset_def round_up_def get_u32_le_bytes NvxxxxCtrlXxxInfo.defs)
  from get_array_words [where m = 2 and rd = "pod_read NvxxxxCtrlXxxInfo_pod"
      and f = "\<lambda>e. NvxxxxCtrlXxxInfo.make (e ! 0) (e ! 1)", OF this assms] show ?thesis by simp
qed

lemma plain_hex0x: "list_all is_plain (hex0x n)"
  using hex_plain by (simp add: hex0x_def is_plain_def)

lemma denotes_words:
  assumes "list_all (\<lambda>e. length e = 1) es"
  shows "denotes (json_u32_hex_array (map hd es)) (JArr (map entry_value es))"
  unfolding json_u32_hex_array_def
proof (rule denotes_array)
  have "denotes ([dquote] @ hex0x (unat (hd e)) @ [dquote]) (entry_value e)" if "length e = 1" for e
    using that denotes_quote [of "hex0x (unat (hd e))"] json_quote_plain [OF plain_hex0x, of "unat (hd e)"]
    by (cases e) (simp_all add: ascii_utf8)
  with assms show "list_all2 denotes (map (\<lambda>value. [dquote] @ hex0x (unat value) @ [dquote]) (map hd es)) (map entry_value es)"
    by (induction es) auto
qed

lemma denotes_infos:
  assumes "list_all (\<lambda>e. length e = 2) es"
  shows "denotes (json_xxx_info_array (map (\<lambda>e. NvxxxxCtrlXxxInfo.make (e ! 0) (e ! 1)) es)) (JArr (map entry_value es))"
  unfolding json_xxx_info_array_def
proof (rule denotes_array)
  have "denotes (finish (field_str ''data'' (hex0x (unat (e ! 1))) (field_str ''index'' (hex0x (unat (e ! 0))) JsonObject_new)))
      (entry_value e)" if "length e = 2" for e
    using that denotes_fields [of "[(''index'', FStr (hex0x (unat (e ! 0)))), (''data'', FStr (hex0x (unat (e ! 1))))]"]
    by (auto simp: numeral_2_eq_2 length_Suc_conv ascii_utf8)
  with assms show "list_all2 denotes (map (\<lambda>value. let obj = JsonObject_new;
        obj = field_str ''index'' (hex0x (unat (NvxxxxCtrlXxxInfo.p_index value))) obj;
        obj = field_str ''data'' (hex0x (unat (NvxxxxCtrlXxxInfo.p_data value))) obj in finish obj)
      (map (\<lambda>e. NvxxxxCtrlXxxInfo.make (e ! 0) (e ! 1)) es)) (map entry_value es)"
    by (induction es) (auto simp: NvxxxxCtrlXxxInfo.defs)
qed

text \<open>The object all five decoders build.\<close>

lemma counted_object:
  assumes "denotes t (JArr (map entry_value (take (unat n) es)))" and "utf8 size_key" and "utf8 list_key"
  shows "json_parse (finish (field_str ''status'' ''ok'' (field_bool ''truncated'' (min (unat n) (length es) < unat n)
      (field_raw list_key t (field_u64 size_key (ucast (n :: u32)) JsonObject_new))))) =
    Some (counted_value size_key list_key n es)"
proof -
  let ?ms = "[(size_key, dec (unat n), JNum (uint n)), (list_key, t, JArr (map entry_value (take (unat n) es))),
      (''truncated'', if length es < unat n then ''true'' else ''false'', JBool (length es < unat n)),
      (''status'', json_quote ''ok'', JStr ''ok'')]"
  have u: "unat (ucast n :: u64) = unat n" using wider [of n] by (metis nat_uint_eq)
  have "denotes (dec (unat n)) (JNum (uint n))" using denotes_dec [of "unat n"] by simp
  then have "list_all (\<lambda>(k, t, v). utf8 k \<and> denotes t v) ?ms"
    unfolding list.pred_inject prod.case
    by (intro conjI denotes_bool denotes_quote assms TrueI) simp_all
  from jo.fold_parses [OF this] show ?thesis
    by (simp add: field_as_raw u counted_value_def min_less_iff_disj)
qed

lemma clamped:
  "take (min k (length es)) (map f es) = map f (take k es)"
  by (simp add: take_map min_def)

lemma list_all_take: "list_all P es \<Longrightarrow> list_all P (take k es)"
  by (auto simp: list_all_iff dest: in_set_takeD)

lemma counted_classlist:
  assumes "length es = 200" and "list_all (\<lambda>e. length e = 1) es" and "rd a 804 = Some (words_bytes (n # concat es))"
    and "804 \<le> sz"
  shows "map_option (json_parse \<circ> krd_json) (decode_cmd_gpu_get_classlist_v2 rd a sz) =
    Some (Some (counted_value ''numClasses'' ''classList'' n es))"
proof -
  have z: "pod_size Nv0080CtrlGpuGetClasslistV2Params_pod = 804" by (simp add: rm_sizes)
  have o: "field_offset Nv0080CtrlGpuGetClasslistV2Params_layout 0 = 0" "field_offset Nv0080CtrlGpuGetClasslistV2Params_layout (Suc 0) = 4"
    by (simp_all add: Nv0080CtrlGpuGetClasslistV2Params_layout_def field_offset_def round_up_def)
  have "Nv0080CtrlGpuGetClasslistV2Params.p_class_list (pod_read Nv0080CtrlGpuGetClasslistV2Params_pod (words_bytes (n # concat es))) = map hd es"
    using get_array_u32 [OF assms(2)] by (simp add: Nv0080CtrlGpuGetClasslistV2Params_pod_def assms(1) rm_bounds field_at_def o)
  moreover have "Nv0080CtrlGpuGetClasslistV2Params.p_num_classes (pod_read Nv0080CtrlGpuGetClasslistV2Params_pod (words_bytes (n # concat es))) = n"
    by (simp add: Nv0080CtrlGpuGetClasslistV2Params_pod_def field_at_def o get_u32_le_bytes)
  ultimately have d: "map_option krd_json (decode_cmd_gpu_get_classlist_v2 rd a sz) =
      Some (finish (field_str ''status'' ''ok'' (field_bool ''truncated'' (min (unat n) (length es) < unat n)
        (field_raw ''classList'' (json_u32_hex_array (take (min (unat n) (length es)) (map hd es)))
          (field_u64 ''numClasses'' (ucast n) JsonObject_new)))))"
    using assms(3,4) length_entries [OF assms(2)] assms(1)
    by (simp add: decode_cmd_gpu_get_classlist_v2_def z read_pod_def Let_def del: words_bytes_simps(2))
  have p: "map_option (json_parse \<circ> krd_json) x = map_option json_parse (map_option krd_json x)" for x
    by (simp add: option.map_comp)
  have "utf8 ''numClasses''" "utf8 ''classList''" by (simp_all add: ascii_utf8)
  note counted_object [OF denotes_words [OF list_all_take [OF assms(2)]] this]
  then show ?thesis unfolding p d clamped option.map by (simp only:)
qed

lemma counted_engines:
  assumes "length es = 84" and "list_all (\<lambda>e. length e = 1) es" and "rd a 340 = Some (words_bytes (n # concat es))"
    and "340 \<le> sz"
  shows "map_option (json_parse \<circ> krd_json) (decode_cmd_gpu_get_engines_v2 rd a sz) =
    Some (Some (counted_value ''engineCount'' ''engineList'' n es))"
proof -
  have z: "pod_size Nv2080CtrlGpuGetEnginesV2Params_pod = 340" by (simp add: rm_sizes)
  have o: "field_offset Nv2080CtrlGpuGetEnginesV2Params_layout 0 = 0" "field_offset Nv2080CtrlGpuGetEnginesV2Params_layout (Suc 0) = 4"
    by (simp_all add: Nv2080CtrlGpuGetEnginesV2Params_layout_def field_offset_def round_up_def)
  have "Nv2080CtrlGpuGetEnginesV2Params.p_engine_list (pod_read Nv2080CtrlGpuGetEnginesV2Params_pod (words_bytes (n # concat es))) = map hd es"
    using get_array_u32 [OF assms(2)] by (simp add: Nv2080CtrlGpuGetEnginesV2Params_pod_def assms(1) rm_bounds field_at_def o)
  moreover have "Nv2080CtrlGpuGetEnginesV2Params.p_engine_count (pod_read Nv2080CtrlGpuGetEnginesV2Params_pod (words_bytes (n # concat es))) = n"
    by (simp add: Nv2080CtrlGpuGetEnginesV2Params_pod_def field_at_def o get_u32_le_bytes)
  ultimately have d: "map_option krd_json (decode_cmd_gpu_get_engines_v2 rd a sz) =
      Some (finish (field_str ''status'' ''ok'' (field_bool ''truncated'' (min (unat n) (length es) < unat n)
        (field_raw ''engineList'' (json_u32_hex_array (take (min (unat n) (length es)) (map hd es)))
          (field_u64 ''engineCount'' (ucast n) JsonObject_new)))))"
    using assms(3,4) length_entries [OF assms(2)] assms(1)
    by (simp add: decode_cmd_gpu_get_engines_v2_def z read_pod_def Let_def del: words_bytes_simps(2))
  have p: "map_option (json_parse \<circ> krd_json) x = map_option json_parse (map_option krd_json x)" for x
    by (simp add: option.map_comp)
  have "utf8 ''engineCount''" "utf8 ''engineList''" by (simp_all add: ascii_utf8)
  note counted_object [OF denotes_words [OF list_all_take [OF assms(2)]] this]
  then show ?thesis unfolding p d clamped option.map by (simp only:)
qed

lemma counted_gpu_info:
  assumes "length es = 70" and "list_all (\<lambda>e. length e = 2) es" and "rd a 564 = Some (words_bytes (n # concat es))"
    and "564 \<le> sz"
  shows "map_option (json_parse \<circ> krd_json) (decode_cmd_gpu_get_info_v2 rd a sz) =
    Some (Some (counted_value ''gpuInfoListSize'' ''gpuInfoList'' n es))"
proof -
  have z: "pod_size Nv2080CtrlGpuGetInfoV2Params_pod = 564" by (simp add: rm_sizes)
  have o: "field_offset Nv2080CtrlGpuGetInfoV2Params_layout 0 = 0" "field_offset Nv2080CtrlGpuGetInfoV2Params_layout (Suc 0) = 4"
    by (simp_all add: Nv2080CtrlGpuGetInfoV2Params_layout_def NvxxxxCtrlXxxInfo_layout_def field_offset_def round_up_def)
  have e: "pod_size NvxxxxCtrlXxxInfo_pod = 8" by (simp add: rm_sizes)
  have "Nv2080CtrlGpuGetInfoV2Params.p_gpu_info_list (pod_read Nv2080CtrlGpuGetInfoV2Params_pod (words_bytes (n # concat es))) = map (\<lambda>e. NvxxxxCtrlXxxInfo.make (e ! 0) (e ! 1)) es"
    using get_array_info [OF assms(2)] by (simp add: Nv2080CtrlGpuGetInfoV2Params_pod_def assms(1) rm_bounds field_at_def o e)
  moreover have "Nv2080CtrlGpuGetInfoV2Params.p_gpu_info_list_size (pod_read Nv2080CtrlGpuGetInfoV2Params_pod (words_bytes (n # concat es))) = n"
    by (simp add: Nv2080CtrlGpuGetInfoV2Params_pod_def field_at_def o get_u32_le_bytes)
  ultimately have d: "map_option krd_json (decode_cmd_gpu_get_info_v2 rd a sz) =
      Some (finish (field_str ''status'' ''ok'' (field_bool ''truncated'' (min (unat n) (length es) < unat n)
        (field_raw ''gpuInfoList'' (json_xxx_info_array (take (min (unat n) (length es)) (map (\<lambda>e. NvxxxxCtrlXxxInfo.make (e ! 0) (e ! 1)) es)))
          (field_u64 ''gpuInfoListSize'' (ucast n) JsonObject_new)))))"
    using assms(3,4) length_entries [OF assms(2)] assms(1)
    by (simp add: decode_cmd_gpu_get_info_v2_def z read_pod_def Let_def del: words_bytes_simps(2))
  have p: "map_option (json_parse \<circ> krd_json) x = map_option json_parse (map_option krd_json x)" for x
    by (simp add: option.map_comp)
  have "utf8 ''gpuInfoListSize''" "utf8 ''gpuInfoList''" by (simp_all add: ascii_utf8)
  note counted_object [OF denotes_infos [OF list_all_take [OF assms(2)]] this]
  then show ?thesis unfolding p d clamped option.map by (simp only:)
qed

lemma counted_fb_info:
  assumes "length es = 128" and "list_all (\<lambda>e. length e = 2) es" and "rd a 1028 = Some (words_bytes (n # concat es))"
    and "1028 \<le> sz"
  shows "map_option (json_parse \<circ> krd_json) (decode_cmd_fb_get_info_v2 rd a sz) =
    Some (Some (counted_value ''fbInfoListSize'' ''fbInfoList'' n es))"
proof -
  have z: "pod_size Nv2080CtrlFbGetInfoV2Params_pod = 1028" by (simp add: rm_sizes)
  have o: "field_offset Nv2080CtrlFbGetInfoV2Params_layout 0 = 0" "field_offset Nv2080CtrlFbGetInfoV2Params_layout (Suc 0) = 4"
    by (simp_all add: Nv2080CtrlFbGetInfoV2Params_layout_def NvxxxxCtrlXxxInfo_layout_def field_offset_def round_up_def)
  have e: "pod_size NvxxxxCtrlXxxInfo_pod = 8" by (simp add: rm_sizes)
  have "Nv2080CtrlFbGetInfoV2Params.p_fb_info_list (pod_read Nv2080CtrlFbGetInfoV2Params_pod (words_bytes (n # concat es))) = map (\<lambda>e. NvxxxxCtrlXxxInfo.make (e ! 0) (e ! 1)) es"
    using get_array_info [OF assms(2)] by (simp add: Nv2080CtrlFbGetInfoV2Params_pod_def assms(1) rm_bounds field_at_def o e)
  moreover have "Nv2080CtrlFbGetInfoV2Params.p_fb_info_list_size (pod_read Nv2080CtrlFbGetInfoV2Params_pod (words_bytes (n # concat es))) = n"
    by (simp add: Nv2080CtrlFbGetInfoV2Params_pod_def field_at_def o get_u32_le_bytes)
  ultimately have d: "map_option krd_json (decode_cmd_fb_get_info_v2 rd a sz) =
      Some (finish (field_str ''status'' ''ok'' (field_bool ''truncated'' (min (unat n) (length es) < unat n)
        (field_raw ''fbInfoList'' (json_xxx_info_array (take (min (unat n) (length es)) (map (\<lambda>e. NvxxxxCtrlXxxInfo.make (e ! 0) (e ! 1)) es)))
          (field_u64 ''fbInfoListSize'' (ucast n) JsonObject_new)))))"
    using assms(3,4) length_entries [OF assms(2)] assms(1)
    by (simp add: decode_cmd_fb_get_info_v2_def z read_pod_def Let_def del: words_bytes_simps(2))
  have p: "map_option (json_parse \<circ> krd_json) x = map_option json_parse (map_option krd_json x)" for x
    by (simp add: option.map_comp)
  have "utf8 ''fbInfoListSize''" "utf8 ''fbInfoList''" by (simp_all add: ascii_utf8)
  note counted_object [OF denotes_infos [OF list_all_take [OF assms(2)]] this]
  then show ?thesis unfolding p d clamped option.map by (simp only:)
qed

lemma counted_bus_info:
  assumes "length es = 52" and "list_all (\<lambda>e. length e = 2) es" and "rd a 420 = Some (words_bytes (n # concat es))"
    and "420 \<le> sz"
  shows "map_option (json_parse \<circ> krd_json) (decode_cmd_bus_get_info_v2 rd a sz) =
    Some (Some (counted_value ''busInfoListSize'' ''busInfoList'' n es))"
proof -
  have z: "pod_size Nv2080CtrlBusGetInfoV2Params_pod = 420" by (simp add: rm_sizes)
  have o: "field_offset Nv2080CtrlBusGetInfoV2Params_layout 0 = 0" "field_offset Nv2080CtrlBusGetInfoV2Params_layout (Suc 0) = 4"
    by (simp_all add: Nv2080CtrlBusGetInfoV2Params_layout_def NvxxxxCtrlXxxInfo_layout_def field_offset_def round_up_def)
  have e: "pod_size NvxxxxCtrlXxxInfo_pod = 8" by (simp add: rm_sizes)
  have "Nv2080CtrlBusGetInfoV2Params.p_bus_info_list (pod_read Nv2080CtrlBusGetInfoV2Params_pod (words_bytes (n # concat es))) = map (\<lambda>e. NvxxxxCtrlXxxInfo.make (e ! 0) (e ! 1)) es"
    using get_array_info [OF assms(2)] by (simp add: Nv2080CtrlBusGetInfoV2Params_pod_def assms(1) rm_bounds field_at_def o e)
  moreover have "Nv2080CtrlBusGetInfoV2Params.p_bus_info_list_size (pod_read Nv2080CtrlBusGetInfoV2Params_pod (words_bytes (n # concat es))) = n"
    by (simp add: Nv2080CtrlBusGetInfoV2Params_pod_def field_at_def o get_u32_le_bytes)
  ultimately have d: "map_option krd_json (decode_cmd_bus_get_info_v2 rd a sz) =
      Some (finish (field_str ''status'' ''ok'' (field_bool ''truncated'' (min (unat n) (length es) < unat n)
        (field_raw ''busInfoList'' (json_xxx_info_array (take (min (unat n) (length es)) (map (\<lambda>e. NvxxxxCtrlXxxInfo.make (e ! 0) (e ! 1)) es)))
          (field_u64 ''busInfoListSize'' (ucast n) JsonObject_new)))))"
    using assms(3,4) length_entries [OF assms(2)] assms(1)
    by (simp add: decode_cmd_bus_get_info_v2_def z read_pod_def Let_def del: words_bytes_simps(2))
  have p: "map_option (json_parse \<circ> krd_json) x = map_option json_parse (map_option krd_json x)" for x
    by (simp add: option.map_comp)
  have "utf8 ''busInfoListSize''" "utf8 ''busInfoList''" by (simp_all add: ascii_utf8)
  note counted_object [OF denotes_infos [OF list_all_take [OF assms(2)]] this]
  then show ?thesis unfolding p d clamped option.map by (simp only:)
qed

text \<open>C23. A list whose length the traced process controls. For each of five control commands, if the
  parameters in memory are a number and an array of entries, the output has that number, exactly
  the entries it says, in order and with their values, but never more than the array holds, and
  says whether the number was greater than that.\<close>

theorem counted_list_members:
  assumes "(cmd, size_key, list_key, cap, width) \<in> set counted_lists"
    and "length es = cap" and "list_all (\<lambda>e. length e = width) es"
    and "rd a (4 + 4 * width * cap) = Some (words_bytes (n # concat es))" and "4 + 4 * width * cap \<le> sz"
  shows "map_option (json_parse \<circ> krd_json) (decode_known_rm_control tables rd cmd a sz) =
    Some (Some (counted_value size_key list_key n es))"
proof -
  have d: "decode_known_rm_control tables rd 0x800292 a sz = decode_cmd_gpu_get_classlist_v2 rd a sz"
    "decode_known_rm_control tables rd 0x20800170 a sz = decode_cmd_gpu_get_engines_v2 rd a sz"
    "decode_known_rm_control tables rd 0x20800102 a sz = decode_cmd_gpu_get_info_v2 rd a sz"
    "decode_known_rm_control tables rd 0x20801303 a sz = decode_cmd_fb_get_info_v2 rd a sz"
    "decode_known_rm_control tables rd 0x20801823 a sz = decode_cmd_bus_get_info_v2 rd a sz"
    by (simp_all add: decode_known_rm_control_def known_rm_decoders_def rm_consts nvidia_consts)
  have "list_all (\<lambda>(cmd, size_key, list_key, cap, width). length es = cap \<longrightarrow> list_all (\<lambda>e. length e = width) es \<longrightarrow>
      rd a (4 + 4 * width * cap) = Some (words_bytes (n # concat es)) \<longrightarrow> 4 + 4 * width * cap \<le> sz \<longrightarrow>
      map_option (json_parse \<circ> krd_json) (decode_known_rm_control tables rd cmd a sz) =
        Some (Some (counted_value size_key list_key n es))) counted_lists"
    unfolding counted_lists_def list.pred_inject prod.case d
    by (intro conjI impI TrueI counted_classlist counted_engines counted_gpu_info counted_fb_info counted_bus_info; simp del: words_bytes_simps)
  with assms show ?thesis by (auto simp: list_all_iff simp del: words_bytes_simps)
qed

theorem counted_list_members_witness:
  "map_option (json_parse \<circ> krd_json) (decode_known_rm_control build_tables
     (\<lambda>a k. Some (take k (words_bytes (300 # replicate 84 7)))) 0x20800170 0x1000 340) =
   Some (Some (JObj [(''engineCount'', JNum 300), (''engineList'', JArr (replicate 84 (JStr ''0x7''))),
     (''truncated'', JBool True), (''status'', JStr ''ok'')]))"
proof -
  let ?es = "replicate 84 [7] :: u32 list list"
  have e: "concat ?es = replicate 84 7" by (simp add: numeral_eq_Suc)
  have h: "hex0x 7 = ''0x7''" by code_simp
  have "map_option (json_parse \<circ> krd_json) (decode_known_rm_control build_tables
     (\<lambda>a k. Some (take k (words_bytes (300 # concat ?es)))) 0x20800170 0x1000 340) =
   Some (Some (counted_value ''engineCount'' ''engineList'' 300 ?es))"
    by (rule counted_list_members [where cap = 84 and width = 1])
      (simp_all add: counted_lists_def list_all_length del: words_bytes_simps(2))
  then show ?thesis by (simp add: e counted_value_def map_replicate h del: words_bytes_simps)
qed

end
