(* ===== verification/Spec2Isabelle.thy ===== *)
theory Spec2Isabelle
  imports Ptrace_Writer Generated_Hooks Prototypes Logger Rm_Facts
begin

text \<open>
  cudatrace: a preloaded library that prints, as a call graph, the CUDA runtime calls, the CUDA driver
  calls and the system calls of a program.

  \<^bold>\<open>The program.\<close> The library is loaded into the traced process. Its hooks print one opening and one
  closing line per API call (\<open>src/hook/mod.rs\<close>, \<open>src/graph.rs\<close>); a guard keeps the library's own calls
  out (\<open>src/reentry.rs\<close>); the lines go to a descriptor or to one file per thread (\<open>src/logger.rs\<close>)
  behind a configurable left column (\<open>src/line_meta.rs\<close>). On start the library forks a child that
  traces the process with \<open>ptrace\<close> (\<open>src/hook/ptrace.rs\<close>): it follows every thread, prints every
  system call with its arguments (ioctls of GPU devices are decoded into JSON by \<open>src/decode/\<close>) and,
  on request, switches the kernel's function graph tracer on for the duration of chosen calls
  (\<open>src/hook/fgraph.rs\<close>). Library and child talk over two pipes: the depth of the call graph, and the
  beginning and end of the windows in which kernel functions are wanted. Everything is configured by
  environment variables (\<open>src/config.rs\<close>).

  \<^bold>\<open>The theories\<close>, in the order in which they build on each other:

  \<^item> \<open>Prelude\<close>, \<open>Rust_Std\<close>, \<open>Rust_Fmt\<close>: machine integers, UTF-8 strings (lists of bytes, \<open>chars\<close>,
    \<open>from_utf8_lossy\<close>, \<open>from_utf16_lossy\<close>), number printing and parsing, and the string functions the source calls. The
    named collections \<open>rust_simps\<close>, \<open>json_intros\<close> and \<open>step_simps\<close> are declared there.
  \<^item> \<open>Config\<close>: \<open>Config::from_lookup\<close> and its parsers. The environment is a function from names to
    optional values.
  \<^item> \<open>Json\<close>: \<open>JsonObject\<close> and \<open>json_quote\<close>, a JSON parser as specification, and the locale
    \<open>object_builder\<close>, interpreted on the program's builder, which all decoders rest on.
  \<^item> \<open>Layout\<close>, \<open>Ioctl_Meta\<close>: \<open>repr(C)\<close> layout, little-endian reads, the fields of an ioctl number,
    \<open>read_pod\<close> and \<open>read_bytes\<close>.
  \<^item> \<open>Uvm_Structs\<close>, \<open>Uvm\<close>: the decoder of \<open>/dev/nvidia-uvm\<close> (\<open>src/decode/ioctl_uvm.rs\<close>).
  \<^item> \<open>Nvidia\<close>, \<open>Rm_Structs\<close>: the constants and parameter structures of \<open>src/decode/nvidia.rs\<close> and
    \<open>src/decode/ioctl_rm.rs\<close>. \<open>Rm_Names\<close>: its name tables and the printing of arrays. \<open>Rm_Control\<close>:
    the decoders of the known control commands (\<open>decode_known_rm_control\<close>). \<open>Rm\<close>: the decoders of the
    outer commands and \<open>decode_nvidia_ioctl\<close>. \<open>Rm_Control_Status\<close>, \<open>Rm_Status\<close>: every decoder
    ends its object with the status of the specification \<open>rm_status\<close>. \<open>Rm_Facts\<close>: members, lists and
    names. The tables that \<open>build.rs\<close> generates are the parameter
    \<open>generated_tables\<close>; \<open>build_tables\<close> is what the build writes into them.
  \<^item> \<open>Ioctl\<close>: \<open>summarize_ioctl\<close>, which chooses between the two decoders.
  \<^item> \<open>Reentry\<close>, \<open>Line_Meta\<close>, \<open>Logger\<close>, \<open>Graph\<close>, \<open>Hook\<close>: the library side. \<open>Hook\<close> composes guard,
    configuration, graph, windows and output into \<open>TraceScope_enter\<close> and \<open>TraceScope_finish\<close>.
  \<^item> \<open>Interpose\<close>, \<open>Driver_Hooks\<close>, \<open>Cudart_Hooks\<close>: the functions the library exports in place of CUDA's
    and the linker's (\<open>src/hook/driver.rs\<close>, \<open>src/hook/cudart.rs\<close>, \<open>src/dlsym.rs\<close>). \<open>traced_call\<close> is
    the body the hooked functions share; \<open>dlsym\<close>, \<open>cuGetProcAddress\<close> and the search for the real
    functions are explicit in the library's statics (record \<open>lib\<close>), over a dynamic linker (record
    \<open>linker\<close>) whose answers and whose functions are parameters. \<open>Interpose_Facts\<close>: hooks forward to
    the function they find, are traced as \<open>Hook\<close> says, and are found by \<open>dlsym\<close>.
  \<^item> \<open>Build\<close>: \<open>build.rs\<close>, which makes C functions for the functions of the driver that are not hooked by
    hand. \<open>Build_Facts\<close>: no function is made twice, and well-formed prototypes are taken over exactly.
    \<open>Prototypes\<close>: the prototypes of \<open>build_specs_embed.rs\<close>, all of which are taken over.
    \<open>Generated_Hooks\<close>: what these C functions do, through the entry points of \<open>Interpose\<close>.
  \<^item> \<open>Ptrace_Flags\<close>, \<open>Ptrace_Wait\<close>, \<open>Ptrace_Mem\<close>, \<open>Ptrace_Fds\<close>, \<open>Ptrace_Format\<close>: the parts of the
    tracer that have no state of their own: flag names, wait status words, reads of remote memory and
    address ranges, the table of descriptors, one line per system call.
  \<^item> \<open>Fgraph_Proto\<close>, \<open>Tracefs\<close>, \<open>Ptrace_Fgraph\<close>: the messages of the two pipes and the windows they
    describe, the controller of tracefs, and the conversion of the kernel's graph into lines.
  \<^item> \<open>Ptrace_Loop\<close>, \<open>Ptrace_Boot\<close>: the tracer's state, one handler per kind of stop, the loop, and
    how the tracer is forked, initialised and ended.
  \<^item> \<open>Ptrace_Sched\<close>: what the loop guarantees about threads: who runs, who is held, what is printed.
  \<^item> \<open>Ptrace_Writer\<close>: the child's own output path down to the files.

  \<^bold>\<open>Conventions.\<close> A function that takes \<open>&mut self\<close> or \<open>&mut\<close> arguments returns their new values. A
  \<open>match\<close> over constants is the table of its arms, looked up with \<open>map_of\<close>. \<open>Result\<close> is a sum with the
  error on the left. Machine integers are words; \<open>usize\<close> is \<open>nat\<close>, or a 64-bit word where it is an
  address; signed integers are \<open>int\<close> with the casts of \<open>Prelude\<close> written out. Remote memory is a
  function from address and length to the bytes copied, or \<open>None\<close>; the answers of the kernel
  (\<open>waitpid\<close>, \<open>fork\<close>, \<open>pipe\<close>, \<open>read\<close>, opens and writes) are inputs of the steps that ask for them, and
  what the program asks of the kernel is a list of effects (\<open>Resume\<close>, \<open>TfWrote\<close>, \<open>SpClose\<close>, and so on)
  that the theorems speak about. The fields of a modelled structure carry a prefix.

  \<^bold>\<open>The lemmas.\<close> \<open>Ptrace_Sched\<close>: a system call is printed once; every stop is answered; captures are
  exclusive and held threads keep their order and are not let go before the capture ends; the kernel
  traces exactly the captured thread, and no thread otherwise unless it refused to be switched off. \<open>Ptrace_Boot\<close>: descriptors of a failed start are all closed, and
  a start that cannot do what was asked is reported, with the exceptions proved. \<open>Ptrace_Fds\<close>: the
  tracked tables are those of the kernel for every descriptor that has not been changed by a call the
  tracer does not follow. \<open>Ptrace_Writer\<close> and \<open>Logger\<close>: every line reaches the file of its thread, whole
  and in order, whatever partial writes and interruptions there are; standard output gets it exactly
  where the kernel refuses the file. \<open>Fgraph_Proto\<close>: messages survive the pipe, and the
  windows are those the sender's events describe. \<open>Tracefs\<close> and \<open>Ptrace_Fgraph\<close>: a capture is switched
  on after it is configured, its text is complete, and the kernel's graph is printed with the right
  nesting. \<open>Graph\<close> and \<open>Hook\<close>: the printed picture is that of the call tree, and calls made under the
  guard leave no trace. \<open>Interpose_Facts\<close>: a hooked function calls the first function
  it finds of its list, passes arguments and result on, and leaves the trace of \<open>Hook\<close>; the hooks
  whose list begins with another version of the function are listed. Looking a function up
  gives its hook, which then calls what that library has;
  \<open>Generated_Hooks\<close> shows that the generated functions do the same for the one function of their name, and \<open>Build_Facts\<close> that the generator
  makes exactly the functions it should.
  \<open>Uvm\<close> and \<open>Rm\<close>: every decoder ends its object with a truthful status; lists whose
  length the traced process controls have exactly the entries they say, within their arrays (\<open>Rm_Facts\<close>). \<open>Ptrace_Mem\<close>,
  \<open>Ptrace_Flags\<close>, \<open>Ptrace_Wait\<close>, \<open>Ioctl_Meta\<close>, \<open>Json\<close>, \<open>Config\<close>: round trips and bounds of the parsers,
  printers and readers.

  \<^bold>\<open>Bounds and fuel.\<close> The JSON parser of the specification takes fuel, and as many units as the text
  has bytes are enough (\<open>denotes_parses\<close>). Reads of a remote string stop at the program's own limit
  (\<open>CSTRING_MAX_LEN\<close>), and the recursion of the model is over that limit. The tracer's loop runs over the
  list of answers of \<open>waitpid\<close>; its end is the answer that no thread is left. Writes of the logger
  recurse on the rest of the buffer and on the interrupts the kernel may answer.

  \<^bold>\<open>Assumptions about code that is not in the repository\<close> are hypotheses of the theorems that need them:
  \<open>vm_contract\<close> (a remote read copies all the bytes it is asked for, or none when one of them is not
  mapped), \<open>write_contract\<close> and \<open>file_contract\<close> (a write takes a prefix, is interrupted, a bounded number of
  times, or is refused), \<open>kernel_fds\<close> (what a system call does to the descriptors of its process; one the
  tracer does not follow may do anything). \<open>willing\<close> and the other instances show that they can hold.
  That the kernel's trace file holds what was written to it is the history of effects in \<open>Tracefs\<close>.

  \<^bold>\<open>Findings.\<close> A descriptor that is hidden and whose number is reopened by the traced program stays
  hidden; a capture whose thread blocks on a held thread is not given up; when \<open>pipe\<close> or \<open>fork\<close> fails
  the process runs on without the tracing that was asked for. Looking a function of the runtime up makes
  the library forget where the driver is, and the stream variants of driver functions are replaced by
  the plain ones. A path whose piece of 256 bytes reaches into an unmapped page is cut, unless the kernel
  copies parts of a piece, which its manual excludes. The decoder of the heap control ioctl can emit two
  members of the same name, and the descriptor of a mapping ioctl is printed as an unsigned number, so
  that \<open>-1\<close> appears as the greatest 64-bit number.

  \<^bold>\<open>Not modelled.\<close> The prototypes of the runtime in \<open>build_specs_embed.rs\<close>, which the build does not use.
  \<open>src/lib.rs\<close> and the foreign declarations of \<open>src/ffi.rs\<close>: glue. The dynamic linker, the
  CUDA libraries, the kernel and the C compiler are not in the repository: their answers are
  parameters. The tests, and messages printed for debugging.
\<close>

end
